(* ===== verification/Prelude.thy ===== *)
theory Prelude
  imports
    Main
    "HOL-Library.List_Lexorder"
    "HOL-Library.Char_ord"
    "HOL-Library.Product_Lexorder"
    "HOL-Library.AList"
begin

text \<open>
  Shared vocabulary of the development: the model's basic types, Python's
  \<^verbatim>\<open>sorted(set(xs))\<close> and dictionary helpers, association-list tables with a
  primary key, and the \<^theory_text>\<open>named_theorems\<close> collections that the component
  theories extend.

  The orders on strings, pairs and characters are the lexicographic ones of the
  library theories imported here. They are the orders Python uses on \<^verbatim>\<open>str\<close> and
  on tuples, and PostgreSQL's under \<^verbatim>\<open>COLLATE "C"\<close>.
\<close>

named_theorems keeps_intro "rules that push an invariant through an effectful program"
named_theorems moves_intro "rules that bound the state changes of an effectful program"
named_theorems always_intro "rules for relations that hold on every outcome of a program"
named_theorems effect_simps "evaluation rules of effectful programs"
named_theorems table_simps "lookups in tables after a write"

section \<open>Basic types\<close>

text \<open>
  A point in time is a number of microseconds since the Unix epoch, in UTC: every
  timestamp the program keeps is an aware UTC \<^verbatim>\<open>datetime\<close>, whose resolution is one
  microsecond.
\<close>

type_synonym time = int

text \<open>A service key of a target: protocol and port.\<close>

type_synonym service_key = "string \<times> int"

section \<open>Sorted lists without duplicates\<close>

text \<open>Python's \<^verbatim>\<open>sorted(set(xs))\<close>.\<close>

definition sorted_set :: "'a::linorder list \<Rightarrow> 'a list" where
  "sorted_set xs = sort (remdups xs)"

lemma set_sorted_set [simp]: "set (sorted_set xs) = set xs"
  by (simp add: sorted_set_def)

lemma sorted_sorted_set [simp]: "sorted (sorted_set xs)"
  by (simp add: sorted_set_def)

lemma distinct_sorted_set [simp]: "distinct (sorted_set xs)"
  by (simp add: sorted_set_def)

lemma sorted_set_Nil [simp]: "sorted_set [] = []"
  by (simp add: sorted_set_def)

lemma sorted_set_empty_iff [simp]: "sorted_set xs = [] \<longleftrightarrow> xs = []"
  by (metis set_empty set_sorted_set)

lemma sorted_set_cong: "set xs = set ys \<Longrightarrow> sorted_set xs = sorted_set ys"
  by (rule sorted_distinct_set_unique) auto

lemma sorted_set_id: "sorted xs \<Longrightarrow> distinct xs \<Longrightarrow> sorted_set xs = xs"
  by (rule sorted_distinct_set_unique) auto

lemma sorted_set_eq_iff: "sorted_set xs = xs \<longleftrightarrow> sorted xs \<and> distinct xs"
  by (metis distinct_sorted_set sorted_set_id sorted_sorted_set)

section \<open>Tables with a primary key\<close>

text \<open>
  A database table is an association list from its primary key to the row. The list
  keeps the order in which rows were inserted; an update replaces a row in place.
\<close>

type_synonym ('k, 'r) table = "('k \<times> 'r) list"

definition tbl_get :: "('k, 'r) table \<Rightarrow> 'k \<Rightarrow> 'r option" where
  "tbl_get t k = map_of t k"

definition tbl_put :: "'k \<Rightarrow> 'r \<Rightarrow> ('k, 'r) table \<Rightarrow> ('k, 'r) table" where
  "tbl_put k r t = AList.update k r t"

definition tbl_rows :: "('k, 'r) table \<Rightarrow> 'r list" where
  "tbl_rows t = map snd t"

definition tbl_ok :: "('k, 'r) table \<Rightarrow> bool" where
  "tbl_ok t \<longleftrightarrow> distinct (map fst t)"

text \<open>
  The contract of a keyed store, as its clients use it: reading back what was written,
  nothing else changed, and every row reachable by its key.
\<close>

locale keyed_store =
  fixes get :: "'t \<Rightarrow> 'k \<Rightarrow> 'r option"
    and put :: "'k \<Rightarrow> 'r \<Rightarrow> 't \<Rightarrow> 't"
    and rows :: "'t \<Rightarrow> 'r list"
    and ok :: "'t \<Rightarrow> bool"
  assumes get_put: "get (put k r t) = (get t)(k \<mapsto> r)"
    and ok_put: "ok t \<Longrightarrow> ok (put k r t)"
    and rows_get: "ok t \<Longrightarrow> r \<in> set (rows t) \<longleftrightarrow> (\<exists>k. get t k = Some r)"
begin

lemma get_put_same: "get (put k r t) k = Some r"
  by (simp add: get_put)

lemma get_put_other: "k' \<noteq> k \<Longrightarrow> get (put k r t) k' = get t k'"
  by (simp add: get_put)

text \<open>A property of all rows survives a write of a row that has it.\<close>

lemma all_rows_put:
  assumes "\<And>k' r'. get t k' = Some r' \<Longrightarrow> P k' r'" and "P k r"
    and "get (put k r t) k' = Some r'"
  shows "P k' r'"
  using assms by (cases "k' = k") (auto simp: get_put)

lemma rows_putD:
  assumes "ok t" and "r' \<in> set (rows (put k r t))"
  shows "r' = r \<or> r' \<in> set (rows t)"
  using assms rows_get ok_put
  by (metis get_put_other get_put_same option.inject)

lemma rows_put_memI: "ok t \<Longrightarrow> r \<in> set (rows (put k r t))"
  using rows_get ok_put get_put_same by metis

end

interpretation tbl: keyed_store tbl_get tbl_put tbl_rows tbl_ok
proof unfold_locales
  fix t :: "('k, 'r) table" and k :: 'k and r :: 'r
  show "tbl_get (tbl_put k r t) = (tbl_get t)(k \<mapsto> r)"
    by (simp add: tbl_get_def tbl_put_def AList.update_conv' fun_eq_iff)
  show "tbl_ok (tbl_put k r t)" if "tbl_ok t"
    using that by (simp add: tbl_ok_def tbl_put_def AList.distinct_update)
  show "r \<in> set (tbl_rows t) \<longleftrightarrow> (\<exists>k. tbl_get t k = Some r)" if "tbl_ok t"
    using that by (auto simp: tbl_ok_def tbl_rows_def tbl_get_def image_iff map_of_eq_Some_iff
        intro: rev_bexI dest: map_of_SomeD)
qed

lemmas tbl_get_put [simp, table_simps] = tbl.get_put

lemma tbl_ok_Nil [simp]: "tbl_ok []"
  by (simp add: tbl_ok_def)

lemma tbl_get_Nil [simp]: "tbl_get [] k = None"
  by (simp add: tbl_get_def)

lemma tbl_rows_Nil [simp]: "tbl_rows [] = []"
  by (simp add: tbl_rows_def)

lemma tbl_put_keys:
  "set (map fst (tbl_put k r t)) = insert k (set (map fst t))"
  by (simp add: tbl_put_def AList.update_keys) (auto simp: image_iff)

lemma tbl_get_Some_mem: "tbl_get t k = Some r \<Longrightarrow> (k, r) \<in> set t"
  by (simp add: tbl_get_def map_of_SomeD)

lemma tbl_mem_get: "tbl_ok t \<Longrightarrow> (k, r) \<in> set t \<longleftrightarrow> tbl_get t k = Some r"
  by (simp add: tbl_ok_def tbl_get_def map_of_eq_Some_iff)

text \<open>Putting back the row that is there changes nothing.\<close>

lemma tbl_put_triv: "tbl_get t k = Some r \<Longrightarrow> tbl_put k r t = t"
  by (simp add: tbl_get_def tbl_put_def AList.update_triv)

section \<open>Options\<close>

text \<open>
  PostgreSQL's \<^verbatim>\<open>GREATEST(COALESCE(old, new), new)\<close>: the later of a nullable column
  and a new value.
\<close>

definition greatest_coalesce :: "time option \<Rightarrow> time \<Rightarrow> time" where
  "greatest_coalesce old new = max (case old of None \<Rightarrow> new | Some t \<Rightarrow> t) new"

lemma greatest_coalesce_ge [simp]: "new \<le> greatest_coalesce old new"
  by (simp add: greatest_coalesce_def)

end
