(* ===== verification/Effects.thy ===== *)
theory Effects
  imports Prelude
begin

text \<open>
  Effectful programs. A Python function that reads and writes external state and may
  raise is a function from the state before to its outcome (\<open>Inl\<close> of the exception,
  \<open>Inr\<close> of the returned value) together with the state after: a write that happened
  before a raise stays, unless the surrounding block rolls it back.

  The theory defines the sequencing, loop, exception and transaction combinators, and
  proves once the rules by which invariants and frame conditions pass through them.
\<close>

section \<open>Combinators\<close>

type_synonym ('s, 'e, 'a) eff = "'s \<Rightarrow> ('e + 'a) \<times> 's"

definition returnM :: "'a \<Rightarrow> ('s, 'e, 'a) eff" where
  "returnM x s = (Inr x, s)"

definition raiseM :: "'e \<Rightarrow> ('s, 'e, 'a) eff" where
  "raiseM e s = (Inl e, s)"

definition bindM :: "('s, 'e, 'a) eff \<Rightarrow> ('a \<Rightarrow> ('s, 'e, 'b) eff) \<Rightarrow> ('s, 'e, 'b) eff" where
  "bindM m f s = (case m s of (Inl e, s') \<Rightarrow> (Inl e, s') | (Inr x, s') \<Rightarrow> f x s')"

definition thenM :: "('s, 'e, 'a) eff \<Rightarrow> ('s, 'e, 'b) eff \<Rightarrow> ('s, 'e, 'b) eff" where
  "thenM m n = bindM m (\<lambda>_. n)"

definition readM :: "('s \<Rightarrow> 'a) \<Rightarrow> ('s, 'e, 'a) eff" where
  "readM f s = (Inr (f s), s)"

definition writeM :: "('s \<Rightarrow> 's) \<Rightarrow> ('s, 'e, unit) eff" where
  "writeM f s = (Inr (), f s)"

text \<open>\<^verbatim>\<open>if not b: raise e\<close>\<close>

definition guardM :: "bool \<Rightarrow> 'e \<Rightarrow> ('s, 'e, unit) eff" where
  "guardM b e = (if b then returnM () else raiseM e)"

text \<open>A pure computation that may raise.\<close>

definition liftM :: "'e + 'a \<Rightarrow> ('s, 'e, 'a) eff" where
  "liftM r s = (r, s)"

text \<open>\<^verbatim>\<open>try: m; except Exception as e: h e\<close>. The writes of \<open>m\<close> stay.\<close>

definition catchM :: "('s, 'e, 'a) eff \<Rightarrow> ('e \<Rightarrow> ('s, 'f, 'a) eff) \<Rightarrow> ('s, 'f, 'a) eff" where
  "catchM m h s = (case m s of (Inl e, s') \<Rightarrow> h e s' | (Inr x, s') \<Rightarrow> (Inr x, s'))"

text \<open>
  \<^verbatim>\<open>with connection.transaction(): m\<close>. An exception that leaves the block rolls its
  writes back.
\<close>

definition transaction :: "('s, 'e, 'a) eff \<Rightarrow> ('s, 'e, 'a) eff" where
  "transaction m s = (case m s of (Inl e, _) \<Rightarrow> (Inl e, s) | (Inr x, s') \<Rightarrow> (Inr x, s'))"

text \<open>\<^verbatim>\<open>for x in xs: f x\<close>, and the same loop collecting the values.\<close>

fun forM :: "'a list \<Rightarrow> ('a \<Rightarrow> ('s, 'e, unit) eff) \<Rightarrow> ('s, 'e, unit) eff" where
  "forM [] f = returnM ()"
| "forM (x # xs) f = thenM (f x) (forM xs f)"

fun mapM :: "('a \<Rightarrow> ('s, 'e, 'b) eff) \<Rightarrow> 'a list \<Rightarrow> ('s, 'e, 'b list) eff" where
  "mapM f [] = returnM []"
| "mapM f (x # xs) = bindM (f x) (\<lambda>y. bindM (mapM f xs) (\<lambda>ys. returnM (y # ys)))"

text \<open>A loop that threads an accumulator.\<close>

fun foldM :: "('b \<Rightarrow> 'a \<Rightarrow> ('s, 'e, 'b) eff) \<Rightarrow> 'b \<Rightarrow> 'a list \<Rightarrow> ('s, 'e, 'b) eff" where
  "foldM f b [] = returnM b"
| "foldM f b (x # xs) = bindM (f b x) (\<lambda>b'. foldM f b' xs)"

section \<open>Pure computations that may raise\<close>

definition bindR :: "'e + 'a \<Rightarrow> ('a \<Rightarrow> 'e + 'b) \<Rightarrow> 'e + 'b" where
  "bindR r f = (case r of Inl e \<Rightarrow> Inl e | Inr x \<Rightarrow> f x)"

definition ensure :: "bool \<Rightarrow> 'e \<Rightarrow> 'e + unit" where
  "ensure b e = (if b then Inr () else Inl e)"

fun mapR :: "('a \<Rightarrow> 'e + 'b) \<Rightarrow> 'a list \<Rightarrow> 'e + 'b list" where
  "mapR f [] = Inr []"
| "mapR f (x # xs) = bindR (f x) (\<lambda>y. bindR (mapR f xs) (\<lambda>ys. Inr (y # ys)))"

lemma bindR_simps [simp]: "bindR (Inl e) f = Inl e" "bindR (Inr x) f = f x"
  by (simp_all add: bindR_def)

lemma bindR_Inr: "bindR r f = Inr y \<longleftrightarrow> (\<exists>x. r = Inr x \<and> f x = Inr y)"
  by (cases r) auto

lemma ensure_simps [simp]: "ensure b e = Inr u \<longleftrightarrow> b" "ensure b e = Inl e' \<longleftrightarrow> \<not> b \<and> e' = e"
  "ensure True e = Inr ()" "ensure False e = Inl e"
  by (auto simp: ensure_def)

lemma mapR_Inr: "mapR f xs = Inr ys \<longleftrightarrow> list_all2 (\<lambda>x y. f x = Inr y) xs ys"
  by (induction xs arbitrary: ys) (auto simp: bindR_Inr list_all2_Cons1)

lemma mapR_map: "(\<And>x. x \<in> set xs \<Longrightarrow> f x = Inr (g x)) \<Longrightarrow> mapR f xs = Inr (map g xs)"
  by (induction xs) auto

section \<open>Evaluation\<close>

lemma returnM_eval [effect_simps]: "returnM x s = (Inr x, s)"
  by (simp add: returnM_def)

lemma raiseM_eval [effect_simps]: "raiseM e s = (Inl e, s)"
  by (simp add: raiseM_def)

lemma readM_eval [effect_simps]: "readM f s = (Inr (f s), s)"
  by (simp add: readM_def)

lemma writeM_eval [effect_simps]: "writeM f s = (Inr (), f s)"
  by (simp add: writeM_def)

lemma liftM_eval [effect_simps]: "liftM r s = (r, s)"
  by (simp add: liftM_def)

lemma guardM_eval [effect_simps]: "guardM b e s = ((if b then Inr () else Inl e), s)"
  by (simp add: guardM_def returnM_def raiseM_def)

lemma bindM_eval [effect_simps]:
  "m s = (Inr x, s') \<Longrightarrow> bindM m f s = f x s'"
  "m s = (Inl e, s') \<Longrightarrow> bindM m f s = (Inl e, s')"
  by (simp_all add: bindM_def)

lemma thenM_eval [effect_simps]:
  "m s = (Inr x, s') \<Longrightarrow> thenM m n s = n s'"
  "m s = (Inl e, s') \<Longrightarrow> thenM m n s = (Inl e, s')"
  by (simp_all add: thenM_def bindM_def)

lemma catchM_eval [effect_simps]:
  "m s = (Inr x, s') \<Longrightarrow> catchM m h s = (Inr x, s')"
  "m s = (Inl e, s') \<Longrightarrow> catchM m h s = h e s'"
  by (simp_all add: catchM_def)

lemma transaction_eval [effect_simps]:
  "m s = (Inr x, s') \<Longrightarrow> transaction m s = (Inr x, s')"
  "m s = (Inl e, s') \<Longrightarrow> transaction m s = (Inl e, s)"
  by (simp_all add: transaction_def)

lemma bindM_Inr:
  "bindM m f s = (Inr y, t) \<longleftrightarrow> (\<exists>x s'. m s = (Inr x, s') \<and> f x s' = (Inr y, t))"
  by (auto simp: bindM_def split: prod.splits sum.splits)

lemma thenM_Inr:
  "thenM m n s = (Inr y, t) \<longleftrightarrow> (\<exists>x s'. m s = (Inr x, s') \<and> n s' = (Inr y, t))"
  by (simp add: thenM_def bindM_Inr)

lemma guardM_Inr: "guardM b e s = (Inr x, t) \<longleftrightarrow> b \<and> t = s"
  by (auto simp: guardM_eval)

lemma liftM_Inr: "liftM r s = (Inr x, t) \<longleftrightarrow> r = Inr x \<and> t = s"
  by (auto simp: liftM_def)

lemma transaction_Inr: "transaction m s = (Inr x, t) \<longleftrightarrow> m s = (Inr x, t)"
  by (auto simp: transaction_def split: prod.splits sum.splits)

lemma returnM_Inr: "returnM x s = (Inr y, t) \<longleftrightarrow> y = x \<and> t = s"
  by (auto simp: returnM_def)

lemma raiseM_Inr: "raiseM e s = (Inr y, t) \<longleftrightarrow> False"
  by (auto simp: raiseM_def)

lemma readM_Inr: "readM f s = (Inr y, t) \<longleftrightarrow> y = f s \<and> t = s"
  by (auto simp: readM_def)

lemma writeM_Inr: "writeM f s = (Inr y, t) \<longleftrightarrow> t = f s"
  by (auto simp: writeM_def)

lemmas eff_Inr = bindM_Inr thenM_Inr guardM_Inr liftM_Inr transaction_Inr returnM_Inr raiseM_Inr
  readM_Inr writeM_Inr

text \<open>A transaction that raises leaves the state it started in.\<close>

lemma transaction_rollback: "transaction m s = (Inl e, t) \<Longrightarrow> t = s"
  by (auto simp: transaction_def split: prod.splits sum.splits)

section \<open>Invariants and frames\<close>

text \<open>
  \<open>post P m Q\<close>: from a state with \<open>P\<close>, whenever \<open>m\<close> returns, the value and the new
  state satisfy \<open>Q\<close>. \<open>keeps I m\<close>: every return of \<open>m\<close> keeps \<open>I\<close>.
\<close>

definition post :: "('s \<Rightarrow> bool) \<Rightarrow> ('s, 'e, 'a) eff \<Rightarrow> ('a \<Rightarrow> 's \<Rightarrow> bool) \<Rightarrow> bool" where
  "post P m Q \<longleftrightarrow> (\<forall>s x t. P s \<longrightarrow> m s = (Inr x, t) \<longrightarrow> Q x t)"

definition keeps :: "('s \<Rightarrow> bool) \<Rightarrow> ('s, 'e, 'a) eff \<Rightarrow> bool" where
  "keeps I m \<longleftrightarrow> post I m (\<lambda>_. I)"

lemma postD: "post P m Q \<Longrightarrow> P s \<Longrightarrow> m s = (Inr x, t) \<Longrightarrow> Q x t"
  by (auto simp: post_def)

lemma keepsD: "keeps I m \<Longrightarrow> I s \<Longrightarrow> m s = (Inr x, t) \<Longrightarrow> I t"
  by (auto simp: keeps_def post_def)

lemma keepsI: "(\<And>s x t. I s \<Longrightarrow> m s = (Inr x, t) \<Longrightarrow> I t) \<Longrightarrow> keeps I m"
  by (auto simp: keeps_def post_def)

lemma post_bind:
  "post P m R \<Longrightarrow> (\<And>x. post (R x) (f x) Q) \<Longrightarrow> post P (bindM m f) Q"
  by (fastforce simp: post_def bindM_Inr)

lemma post_weaken:
  "post P' m Q' \<Longrightarrow> (\<And>s. P s \<Longrightarrow> P' s) \<Longrightarrow> (\<And>x s. Q' x s \<Longrightarrow> Q x s) \<Longrightarrow> post P m Q"
  unfolding post_def by blast

lemma keeps_returnM [keeps_intro]: "keeps I (returnM x)"
  by (simp add: keeps_def post_def returnM_def)

lemma keeps_raiseM [keeps_intro]: "keeps I (raiseM e)"
  by (simp add: keeps_def post_def raiseM_def)

lemma keeps_readM [keeps_intro]: "keeps I (readM f)"
  by (simp add: keeps_def post_def readM_def)

lemma keeps_liftM [keeps_intro]: "keeps I (liftM r)"
  by (simp add: keeps_def post_def liftM_def)

lemma keeps_guardM [keeps_intro]: "keeps I (guardM b e)"
  by (simp add: keeps_def post_def guardM_eval)

lemma keeps_bindM [keeps_intro]:
  "keeps I m \<Longrightarrow> (\<And>x. keeps I (f x)) \<Longrightarrow> keeps I (bindM m f)"
  by (simp add: keeps_def) (rule post_bind)

lemma keeps_thenM [keeps_intro]: "keeps I m \<Longrightarrow> keeps I n \<Longrightarrow> keeps I (thenM m n)"
  by (simp add: thenM_def keeps_bindM)

lemma keeps_transaction [keeps_intro]: "keeps I m \<Longrightarrow> keeps I (transaction m)"
  by (auto simp: keeps_def post_def transaction_Inr)

lemma keeps_forM [keeps_intro]: "(\<And>x. keeps I (f x)) \<Longrightarrow> keeps I (forM xs f)"
  by (induction xs) (auto intro: keeps_intro)

lemma keeps_mapM [keeps_intro]: "(\<And>x. keeps I (f x)) \<Longrightarrow> keeps I (mapM f xs)"
  by (induction xs) (auto intro!: keeps_intro)

lemma keeps_foldM [keeps_intro]: "(\<And>b x. keeps I (f b x)) \<Longrightarrow> keeps I (foldM f b xs)"
  by (induction xs arbitrary: b) (auto intro!: keeps_intro)

lemma keeps_if [keeps_intro]: "keeps I m \<Longrightarrow> keeps I n \<Longrightarrow> keeps I (if b then m else n)"
  by simp

lemma keeps_case_option [keeps_intro]:
  "keeps I m \<Longrightarrow> (\<And>x. keeps I (f x)) \<Longrightarrow> keeps I (case z of None \<Rightarrow> m | Some x \<Rightarrow> f x)"
  by (cases z) auto

lemma keeps_case_prod [keeps_intro]:
  "(\<And>x y. keeps I (f x y)) \<Longrightarrow> keeps I (case z of (x, y) \<Rightarrow> f x y)"
  by (cases z) auto

lemma keeps_writeM: "(\<And>s. I s \<Longrightarrow> I (f s)) \<Longrightarrow> keeps I (writeM f)"
  by (auto simp: keeps_def post_def writeM_def)

text \<open>
  A transactional operation keeps an invariant on every outcome: a return by the rules
  above, an exception because of the rollback.
\<close>

lemma transaction_keeps_always:
  assumes "keeps I m" and "I s" and "transaction m s = (r, t)"
  shows "I t"
proof (cases r)
  case (Inl e)
  with assms show ?thesis by (auto dest: transaction_rollback)
next
  case (Inr x)
  with assms show ?thesis by (auto simp: transaction_Inr dest: keepsD)
qed

text \<open>A function of the state that a program does not change.\<close>

definition frame :: "('s \<Rightarrow> 'v) \<Rightarrow> ('s, 'e, 'a) eff \<Rightarrow> bool" where
  "frame p m \<longleftrightarrow> (\<forall>v. keeps (\<lambda>s. p s = v) m)"

lemma frameD: "frame p m \<Longrightarrow> m s = (Inr x, t) \<Longrightarrow> p t = p s"
  by (auto simp: frame_def keeps_def post_def)

lemma frameI: "(\<And>s x t. m s = (Inr x, t) \<Longrightarrow> p t = p s) \<Longrightarrow> frame p m"
  by (auto simp: frame_def keeps_def post_def)

lemma frame_writeM: "(\<And>s. p (f s) = p s) \<Longrightarrow> frame p (writeM f)"
  by (rule frameI) (auto simp: writeM_def)

section \<open>Bounded state changes\<close>

text \<open>
  \<open>moves R m\<close>: whenever \<open>m\<close> returns, the state before and the state after are related by
  \<open>R\<close>. For a preorder \<open>R\<close> the property passes through every combinator.
\<close>

definition moves :: "('s \<Rightarrow> 's \<Rightarrow> bool) \<Rightarrow> ('s, 'e, 'a) eff \<Rightarrow> bool" where
  "moves R m \<longleftrightarrow> (\<forall>s x t. m s = (Inr x, t) \<longrightarrow> R s t)"

lemma movesI: "(\<And>s x t. m s = (Inr x, t) \<Longrightarrow> R s t) \<Longrightarrow> moves R m"
  by (simp add: moves_def)

lemma movesD: "moves R m \<Longrightarrow> m s = (Inr x, t) \<Longrightarrow> R s t"
  by (simp add: moves_def)

lemma moves_raiseM [moves_intro]: "moves R (raiseM e)"
  by (simp add: moves_def raiseM_Inr)

lemma moves_transaction [moves_intro]: "moves R m \<Longrightarrow> moves R (transaction m)"
  by (auto simp: moves_def transaction_Inr)

lemma moves_if [moves_intro]: "(b \<Longrightarrow> moves R m) \<Longrightarrow> (\<not> b \<Longrightarrow> moves R n) \<Longrightarrow> moves R (if b then m else n)"
  by simp

lemma moves_case_option [moves_intro]:
  "(z = None \<Longrightarrow> moves R m) \<Longrightarrow> (\<And>x. z = Some x \<Longrightarrow> moves R (f x))
     \<Longrightarrow> moves R (case z of None \<Rightarrow> m | Some x \<Rightarrow> f x)"
  by (cases z) auto

lemma moves_case_prod [moves_intro]:
  "(\<And>x y. moves R (f x y)) \<Longrightarrow> moves R (case z of (x, y) \<Rightarrow> f x y)"
  by (cases z) auto

locale effect_preorder =
  fixes R :: "'s \<Rightarrow> 's \<Rightarrow> bool"
  assumes refl: "R s s"
    and trans: "R s t \<Longrightarrow> R t u \<Longrightarrow> R s u"
begin

lemma moves_returnM: "moves R (returnM x)"
  by (simp add: moves_def returnM_Inr refl)

lemma moves_readM: "moves R (readM f)"
  by (simp add: moves_def readM_Inr refl)

lemma moves_liftM: "moves R (liftM r)"
  by (simp add: moves_def liftM_Inr refl)

lemma moves_guardM: "moves R (guardM b e)"
  by (simp add: moves_def guardM_Inr refl)

lemma moves_bindM: "moves R m \<Longrightarrow> (\<And>x. moves R (f x)) \<Longrightarrow> moves R (bindM m f)"
  unfolding moves_def bindM_Inr using trans by blast

lemma moves_thenM: "moves R m \<Longrightarrow> moves R n \<Longrightarrow> moves R (thenM m n)"
  by (simp add: thenM_def moves_bindM)

lemma moves_forM: "(\<And>x. moves R (f x)) \<Longrightarrow> moves R (forM xs f)"
  by (induction xs) (auto intro: moves_returnM moves_thenM)

lemma moves_mapM: "(\<And>x. moves R (f x)) \<Longrightarrow> moves R (mapM f xs)"
  by (induction xs) (auto intro!: moves_returnM moves_bindM)

lemma moves_foldM: "(\<And>b x. moves R (f b x)) \<Longrightarrow> moves R (foldM f b xs)"
  by (induction xs arbitrary: b) (auto intro!: moves_returnM moves_bindM)

lemmas moves_rules = moves_returnM moves_readM moves_liftM moves_guardM moves_bindM moves_thenM
  moves_forM moves_mapM moves_foldM

end

section \<open>Outcomes of every kind\<close>

text \<open>
  \<open>always R m\<close>: however \<open>m\<close> ends, by a return or by an exception, the state before and the
  state after are related by \<open>R\<close>. This is the notion for programs whose writes are not
  rolled back.
\<close>

definition always :: "('s \<Rightarrow> 's \<Rightarrow> bool) \<Rightarrow> ('s, 'e, 'a) eff \<Rightarrow> bool" where
  "always R m \<longleftrightarrow> (\<forall>s r t. m s = (r, t) \<longrightarrow> R s t)"

lemma alwaysI: "(\<And>s r t. m s = (r, t) \<Longrightarrow> R s t) \<Longrightarrow> always R m"
  by (simp add: always_def)

lemma alwaysD: "always R m \<Longrightarrow> m s = (r, t) \<Longrightarrow> R s t"
  by (simp add: always_def)

lemma always_mono: "always R m \<Longrightarrow> (\<And>s t. R s t \<Longrightarrow> S s t) \<Longrightarrow> always S m"
  by (auto simp: always_def)

lemma always_if [always_intro]:
  "(b \<Longrightarrow> always R m) \<Longrightarrow> (\<not> b \<Longrightarrow> always R n) \<Longrightarrow> always R (if b then m else n)"
  by simp

lemma always_case_sum [always_intro]:
  "(\<And>x. z = Inl x \<Longrightarrow> always R (f x)) \<Longrightarrow> (\<And>x. z = Inr x \<Longrightarrow> always R (g x))
     \<Longrightarrow> always R (case z of Inl x \<Rightarrow> f x | Inr x \<Rightarrow> g x)"
  by (cases z) auto

lemma always_case_option [always_intro]:
  "(z = None \<Longrightarrow> always R m) \<Longrightarrow> (\<And>x. z = Some x \<Longrightarrow> always R (f x))
     \<Longrightarrow> always R (case z of None \<Rightarrow> m | Some x \<Rightarrow> f x)"
  by (cases z) auto

lemma always_case_prod [always_intro]:
  "(\<And>x y. z = (x, y) \<Longrightarrow> always R (f x y)) \<Longrightarrow> always R (case z of (x, y) \<Rightarrow> f x y)"
  by (cases z) auto

context effect_preorder
begin

lemma always_returnM: "always R (returnM x)"
  by (simp add: always_def returnM_def refl)

lemma always_raiseM: "always R (raiseM e)"
  by (simp add: always_def raiseM_def refl)

lemma always_readM: "always R (readM f)"
  by (simp add: always_def readM_def refl)

lemma always_liftM: "always R (liftM r)"
  by (simp add: always_def liftM_def refl)

lemma always_guardM: "always R (guardM b e)"
  by (simp add: always_def guardM_eval refl)

lemma always_bindM: "always R m \<Longrightarrow> (\<And>x. always R (f x)) \<Longrightarrow> always R (bindM m f)"
  unfolding always_def bindM_def
  by (auto split: prod.splits sum.splits) (meson trans)+

lemma always_thenM: "always R m \<Longrightarrow> always R n \<Longrightarrow> always R (thenM m n)"
  by (simp add: thenM_def always_bindM)

lemma always_catchM: "always R m \<Longrightarrow> (\<And>e. always R (h e)) \<Longrightarrow> always R (catchM m h)"
  unfolding always_def catchM_def
  by (auto split: prod.splits sum.splits) (meson trans)+

lemma always_forM: "(\<And>x. always R (f x)) \<Longrightarrow> always R (forM xs f)"
  by (induction xs) (auto intro!: always_returnM always_thenM)

lemma always_mapM: "(\<And>x. always R (f x)) \<Longrightarrow> always R (mapM f xs)"
  by (induction xs) (auto intro!: always_returnM always_bindM)

lemma always_foldM: "(\<And>b x. always R (f b x)) \<Longrightarrow> always R (foldM f b xs)"
  by (induction xs arbitrary: b) (auto intro!: always_returnM always_bindM)

lemmas always_rules = always_returnM always_raiseM always_readM always_liftM always_guardM
  always_bindM always_thenM always_catchM always_forM always_mapM always_foldM

end

text \<open>A loop, step by step: a predicate on the elements done, the accumulator and the state.\<close>

lemma foldM_invariant:
  assumes "foldM f b xs s = (Inr b', t)" and "J [] b s"
    and "\<And>done x rest b s b' t. xs = done @ x # rest \<Longrightarrow> J done b s \<Longrightarrow> f b x s = (Inr b', t)
           \<Longrightarrow> J (done @ [x]) b' t"
  shows "J xs b' t"
  using assms
proof (induction xs arbitrary: b s J)
  case Nil
  then show ?case by (simp add: returnM_Inr)
next
  case (Cons x xs)
  from Cons.prems(1) obtain b1 s1 where
    "f b x s = (Inr b1, s1)" and fold: "foldM f b1 xs s1 = (Inr b', t)"
    by (auto simp: bindM_Inr)
  with Cons.prems(2) Cons.prems(3) [of "[]" x xs] have "J [x] b1 s1" by simp
  then show ?case
    using Cons.IH [of b1 s1 "\<lambda>done. J (x # done)", OF fold] Cons.prems(3)
    by (metis append_Cons)
qed

lemma mapM_invariant:
  assumes "mapM f xs s = (Inr ys, t)" and "J [] s"
    and "\<And>done x rest s y t. xs = done @ x # rest \<Longrightarrow> J done s \<Longrightarrow> f x s = (Inr y, t)
           \<Longrightarrow> J (done @ [x]) t"
  shows "J xs t"
  using assms
proof (induction xs arbitrary: s ys J)
  case Nil
  then show ?case by (simp add: returnM_Inr)
next
  case (Cons x xs)
  from Cons.prems(1) obtain y s1 ys' where
    "f x s = (Inr y, s1)" and map: "mapM f xs s1 = (Inr ys', t)"
    by (auto simp: bindM_Inr returnM_Inr)
  with Cons.prems(2) Cons.prems(3) [of "[]" x xs] have "J [x] s1" by simp
  then show ?case
    using Cons.IH [of s1 ys' "\<lambda>done. J (x # done)", OF map] Cons.prems(3)
    by (metis append_Cons)
qed

end
