(* ===== verification/Sha256.thy ===== *)
theory Sha256
  imports Pytext "HOL-Library.Word"
begin

unbundle bit_operations_syntax

text \<open>
  \<^verbatim>\<open>hashlib.sha256(...).hexdigest()\<close>, computed as FIPS 180-4 defines it, and the
  UTF-8 encoding of text below code point 256. No theorem of the development relies on
  the hash being collision free: what is used of a digest is that it is a function of
  its input and that it renders as 64 lowercase hexadecimal digits.
\<close>

type_synonym u32 = "32 word"

section \<open>Constants\<close>

text \<open>
  The constants are derived as the standard describes them: the first 32 bits of the
  fractional parts of the cube roots of the first 64 primes, and of the square roots of
  the first eight. \<open>root_bits k b r n\<close> extends \<open>r\<close> bit by bit to the integer \<open>k\<close>-th root.
\<close>

fun root_bits :: "nat \<Rightarrow> nat \<Rightarrow> int \<Rightarrow> int \<Rightarrow> int" where
  "root_bits k 0 r n = r"
| "root_bits k (Suc b) r n = root_bits k b (if (r + 2 ^ b) ^ k \<le> n then r + 2 ^ b else r) n"

definition sha_primes :: "int list" where
  "sha_primes = filter (\<lambda>n. list_all (\<lambda>d. n mod d \<noteq> 0) [2..n - 1]) [2..311]"

definition root_fraction :: "nat \<Rightarrow> int \<Rightarrow> u32" where
  "root_fraction k p = of_int (root_bits k 40 0 (p * 2 ^ (32 * k)))"

definition sha_k :: "u32 list" where
  "sha_k = map (root_fraction 3) sha_primes"

definition sha_h0 :: "u32 list" where
  "sha_h0 = map (root_fraction 2) [2, 3, 5, 7, 11, 13, 17, 19]"

section \<open>Compression\<close>

definition rotr :: "nat \<Rightarrow> u32 \<Rightarrow> u32" where
  "rotr n x = drop_bit n x OR push_bit (32 - n) x"

definition small_sigma0 :: "u32 \<Rightarrow> u32" where
  "small_sigma0 x = rotr 7 x XOR rotr 18 x XOR drop_bit 3 x"

definition small_sigma1 :: "u32 \<Rightarrow> u32" where
  "small_sigma1 x = rotr 17 x XOR rotr 19 x XOR drop_bit 10 x"

definition big_sigma0 :: "u32 \<Rightarrow> u32" where
  "big_sigma0 x = rotr 2 x XOR rotr 13 x XOR rotr 22 x"

definition big_sigma1 :: "u32 \<Rightarrow> u32" where
  "big_sigma1 x = rotr 6 x XOR rotr 11 x XOR rotr 25 x"

definition sha_ch :: "u32 \<Rightarrow> u32 \<Rightarrow> u32 \<Rightarrow> u32" where
  "sha_ch x y z = (x AND y) XOR (NOT x AND z)"

definition sha_maj :: "u32 \<Rightarrow> u32 \<Rightarrow> u32 \<Rightarrow> u32" where
  "sha_maj x y z = (x AND y) XOR (x AND z) XOR (y AND z)"

text \<open>The message schedule: sixteen words extended one at a time.\<close>

fun sha_extend :: "nat \<Rightarrow> u32 list \<Rightarrow> u32 list" where
  "sha_extend 0 w = w"
| "sha_extend (Suc n) w =
     (let i = length w
      in sha_extend n (w @ [small_sigma1 (w ! (i - 2)) + w ! (i - 7)
                            + small_sigma0 (w ! (i - 15)) + w ! (i - 16)]))"

type_synonym sha_state = "u32 \<times> u32 \<times> u32 \<times> u32 \<times> u32 \<times> u32 \<times> u32 \<times> u32"

definition sha_round :: "sha_state \<Rightarrow> u32 \<times> u32 \<Rightarrow> sha_state" where
  "sha_round st kw =
     (case st of (a, b, c, d, e, f, g, h) \<Rightarrow>
      case kw of (k, w) \<Rightarrow>
        (let t1 = h + big_sigma1 e + sha_ch e f g + k + w;
             t2 = big_sigma0 a + sha_maj a b c
         in (t1 + t2, a, b, c, d + t1, e, f, g)))"

definition sha_compress :: "u32 list \<Rightarrow> u32 list \<Rightarrow> u32 list" where
  "sha_compress hs block =
     (case foldl sha_round
        (hs ! 0, hs ! 1, hs ! 2, hs ! 3, hs ! 4, hs ! 5, hs ! 6, hs ! 7)
        (zip sha_k (sha_extend 48 block))
      of (a, b, c, d, e, f, g, h) \<Rightarrow> map2 (+) hs [a, b, c, d, e, f, g, h])"

section \<open>Padding and blocks\<close>

definition sha_pad :: "nat list \<Rightarrow> nat list" where
  "sha_pad bs =
     (let n = length bs
      in bs @ [128] @ replicate ((119 - n mod 64) mod 64) 0
         @ map (\<lambda>i. (8 * n div 256 ^ (7 - i)) mod 256) [0..<8])"

fun be_words :: "nat list \<Rightarrow> u32 list" where
  "be_words (a # b # c # d # bs) =
     of_nat (16777216 * a + 65536 * b + 256 * c + d) # be_words bs"
| "be_words _ = []"

fun sha_blocks :: "nat \<Rightarrow> u32 list \<Rightarrow> u32 list \<Rightarrow> u32 list" where
  "sha_blocks 0 hs ws = hs"
| "sha_blocks (Suc n) hs ws = sha_blocks n (sha_compress hs (take 16 ws)) (drop 16 ws)"

definition sha256_words :: "nat list \<Rightarrow> u32 list" where
  "sha256_words bs =
     (let ws = be_words (sha_pad bs) in sha_blocks (length ws div 16) sha_h0 ws)"

definition hex_word :: "u32 \<Rightarrow> string" where
  "hex_word w = map (\<lambda>i. hex_char (unat w div 16 ^ (7 - i) mod 16)) [0..<8]"

text \<open>\<^verbatim>\<open>hashlib.sha256(data).hexdigest()\<close>\<close>

definition sha256_hexdigest :: "nat list \<Rightarrow> string" where
  "sha256_hexdigest bs = concat (map hex_word (sha256_words bs))"

section \<open>Text to bytes\<close>

text \<open>\<^verbatim>\<open>s.encode("utf-8")\<close> for code points below 256.\<close>

definition utf8_char :: "char \<Rightarrow> nat list" where
  "utf8_char c = (if code c < 128 then [code c] else [192 + code c div 64, 128 + code c mod 64])"

definition utf8 :: "string \<Rightarrow> nat list" where
  "utf8 s = concat (map utf8_char s)"

text \<open>\<^verbatim>\<open>hashlib.sha256(value.encode("utf-8")).hexdigest()\<close>\<close>

definition sha256 :: "string \<Rightarrow> string" where
  "sha256 s = sha256_hexdigest (utf8 s)"

section \<open>The shape of a digest\<close>

lemma length_sha_compress: "length hs = 8 \<Longrightarrow> length (sha_compress hs b) = 8"
  by (simp add: sha_compress_def split: prod.splits)

lemma length_sha_blocks: "length hs = 8 \<Longrightarrow> length (sha_blocks n hs ws) = 8"
  by (induction n hs ws rule: sha_blocks.induct) (auto simp: length_sha_compress)

lemma length_hex_word [simp]: "length (hex_word w) = 8"
  by (simp add: hex_word_def)

lemma hex_word_chars: "list_all is_lower_hex (hex_word w)"
  by (simp add: hex_word_def list_all_iff)

text \<open>Every digest is 64 lowercase hexadecimal digits.\<close>

lemma is_sha256_hex_hexdigest [simp]: "is_sha256_hex (sha256_hexdigest bs)"
proof -
  have len: "length (sha256_words bs) = 8"
    by (simp add: sha256_words_def Let_def length_sha_blocks sha_h0_def)
  have "length (concat (map hex_word ws)) = 8 * length ws" for ws
    by (induction ws) auto
  then have "length (sha256_hexdigest bs) = 64"
    by (simp add: sha256_hexdigest_def len)
  moreover have "list_all is_lower_hex (sha256_hexdigest bs)"
    using hex_word_chars by (auto simp: sha256_hexdigest_def list_all_iff)
  ultimately show ?thesis by (simp add: is_sha256_hex_def)
qed

lemma is_sha256_hex_sha256 [simp]: "is_sha256_hex (sha256 s)"
  by (simp add: sha256_def)

text \<open>
  \<^verbatim>\<open>hashlib.md5(body).hexdigest()\<close>, computed as RFC 1321 defines it. The program compares it with the
  entity tag of an object that S3 holds already; no theorem relies on it being collision free.
\<close>

definition md5_k :: "u32 list" where
  "md5_k =
     [0xD76AA478, 0xE8C7B756, 0x242070DB, 0xC1BDCEEE, 0xF57C0FAF, 0x4787C62A, 0xA8304613, 0xFD469501,
      0x698098D8, 0x8B44F7AF, 0xFFFF5BB1, 0x895CD7BE, 0x6B901122, 0xFD987193, 0xA679438E, 0x49B40821,
      0xF61E2562, 0xC040B340, 0x265E5A51, 0xE9B6C7AA, 0xD62F105D, 0x02441453, 0xD8A1E681, 0xE7D3FBC8,
      0x21E1CDE6, 0xC33707D6, 0xF4D50D87, 0x455A14ED, 0xA9E3E905, 0xFCEFA3F8, 0x676F02D9, 0x8D2A4C8A,
      0xFFFA3942, 0x8771F681, 0x6D9D6122, 0xFDE5380C, 0xA4BEEA44, 0x4BDECFA9, 0xF6BB4B60, 0xBEBFBC70,
      0x289B7EC6, 0xEAA127FA, 0xD4EF3085, 0x04881D05, 0xD9D4D039, 0xE6DB99E5, 0x1FA27CF8, 0xC4AC5665,
      0xF4292244, 0x432AFF97, 0xAB9423A7, 0xFC93A039, 0x655B59C3, 0x8F0CCC92, 0xFFEFF47D, 0x85845DD1,
      0x6FA87E4F, 0xFE2CE6E0, 0xA3014314, 0x4E0811A1, 0xF7537E82, 0xBD3AF235, 0x2AD7D2BB, 0xEB86D391]"

definition md5_shift :: "nat \<Rightarrow> nat" where
  "md5_shift i = [[7, 12, 17, 22], [5, 9, 14, 20], [4, 11, 16, 23], [6, 10, 15, 21]] ! (i div 16) ! (i mod 4)"

definition rotl :: "nat \<Rightarrow> u32 \<Rightarrow> u32" where
  "rotl n x = push_bit n x OR drop_bit (32 - n) x"

type_synonym md5_state = "u32 \<times> u32 \<times> u32 \<times> u32"

definition md5_round :: "u32 list \<Rightarrow> md5_state \<Rightarrow> nat \<Rightarrow> md5_state" where
  "md5_round block st i =
     (case st of (a, b, c, d) \<Rightarrow>
        let (f, g) =
          (if i < 16 then ((b AND c) OR (NOT b AND d), i)
           else if i < 32 then ((d AND b) OR (NOT d AND c), (5 * i + 1) mod 16)
           else if i < 48 then (b XOR c XOR d, (3 * i + 5) mod 16)
           else (c XOR (b OR NOT d), (7 * i) mod 16))
        in (d, b + rotl (md5_shift i) (f + a + md5_k ! i + block ! g), b, c))"

definition md5_compress :: "md5_state \<Rightarrow> u32 list \<Rightarrow> md5_state" where
  "md5_compress st block =
     (case (st, foldl (md5_round block) st [0..<64]) of
        ((a, b, c, d), (a', b', c', d')) \<Rightarrow> (a + a', b + b', c + c', d + d'))"

definition md5_pad :: "nat list \<Rightarrow> nat list" where
  "md5_pad bs =
     (let n = length bs
      in bs @ [128] @ replicate ((119 - n mod 64) mod 64) 0
         @ map (\<lambda>i. (8 * n div 256 ^ i) mod 256) [0..<8])"

fun le_words :: "nat list \<Rightarrow> u32 list" where
  "le_words (a # b # c # d # bs) = of_nat (a + 256 * b + 65536 * c + 16777216 * d) # le_words bs"
| "le_words _ = []"

fun md5_blocks :: "nat \<Rightarrow> md5_state \<Rightarrow> u32 list \<Rightarrow> md5_state" where
  "md5_blocks 0 st ws = st"
| "md5_blocks (Suc n) st ws = md5_blocks n (md5_compress st (take 16 ws)) (drop 16 ws)"

definition le_hex_word :: "u32 \<Rightarrow> string" where
  "le_hex_word w = concat (map (\<lambda>i.
     [hex_char (unat w div 256 ^ i mod 256 div 16), hex_char (unat w div 256 ^ i mod 16)]) [0..<4])"

definition md5_hexdigest :: "nat list \<Rightarrow> string" where
  "md5_hexdigest bs =
     (let ws = le_words (md5_pad bs) in
      case md5_blocks (length ws div 16) (0x67452301, 0xEFCDAB89, 0x98BADCFE, 0x10325476) ws of
        (a, b, c, d) \<Rightarrow> le_hex_word a @ le_hex_word b @ le_hex_word c @ le_hex_word d)"

end
