(* ===== verification/Json.thy ===== *)
theory Json
  imports Pytext
begin

text \<open>
  JSON values and the two standard-library serialisations the program hashes or stores:
  \<^verbatim>\<open>json.dumps(v, ensure_ascii=True, separators=(",", ":"), sort_keys=True)\<close> and
  \<^verbatim>\<open>datetime.isoformat()\<close> of an aware UTC timestamp with its \<^verbatim>\<open>Z\<close> suffix.
\<close>

section \<open>Values\<close>

text \<open>
  A value of the standard library's \<^verbatim>\<open>json\<close> module. A float is kept as its literal; the
  program computes with none, and the model takes a float to differ from every integer.
\<close>

datatype json =
    JNull
  | JBool bool
  | JInt int
  | JFloat string
  | JStr string
  | JArr "json list"
  | JObj "(string \<times> json) list"

text \<open>\<^verbatim>\<open>None\<close> becomes \<^verbatim>\<open>null\<close>.\<close>

definition jopt :: "('a \<Rightarrow> json) \<Rightarrow> 'a option \<Rightarrow> json" where
  "jopt f x = (case x of None \<Rightarrow> JNull | Some v \<Rightarrow> f v)"

definition obj_get :: "string \<Rightarrow> json \<Rightarrow> json option" where
  "obj_get k v = (case v of JObj kvs \<Rightarrow> map_of kvs k | _ \<Rightarrow> None)"

section \<open>Serialisation\<close>

definition hex4 :: "nat \<Rightarrow> string" where
  "hex4 n = map (\<lambda>i. hex_char (n div 16 ^ (3 - i) mod 16)) [0..<4]"

definition escape_char :: "char \<Rightarrow> string" where
  "escape_char c =
     (let n = code c; b = CHR 0x5C
      in if n = 34 then [b, CHR 0x22]
         else if n = 92 then [b, b]
         else if n = 10 then [b, CHR ''n'']
         else if n = 13 then [b, CHR ''r'']
         else if n = 9 then [b, CHR ''t'']
         else if n = 8 then [b, CHR ''b'']
         else if n = 12 then [b, CHR ''f'']
         else if 32 \<le> n \<and> n \<le> 126 then [c]
         else b # CHR ''u'' # hex4 n)"

definition quote_str :: "string \<Rightarrow> string" where
  "quote_str s = [CHR 0x22] @ concat (map escape_char s) @ [CHR 0x22]"

fun dumps :: "json \<Rightarrow> string" where
  "dumps JNull = ''null''"
| "dumps (JBool b) = (if b then ''true'' else ''false'')"
| "dumps (JInt i) = int_str i"
| "dumps (JFloat s) = s"
| "dumps (JStr s) = quote_str s"
| "dumps (JArr vs) = ''['' @ join '','' (map dumps vs) @ '']''"
| "dumps (JObj kvs) =
     ''{'' @ join '','' (map (\<lambda>(k, t). quote_str k @ '':'' @ t)
              (sort_key fst (map (\<lambda>(k, v). (k, dumps v)) kvs))) @ ''}''"

section \<open>Timestamps\<close>

text \<open>
  The civil date of a day number counted from 1970-01-01 in the proleptic Gregorian
  calendar: eras of 400 years of 146097 days, years that start in March.
\<close>

definition civil_from_days :: "int \<Rightarrow> int \<times> int \<times> int" where
  "civil_from_days days =
     (let z = days + 719468;
          era = z div 146097;
          doe = z mod 146097;
          yoe = (doe - doe div 1460 + doe div 36524 - doe div 146096) div 365;
          doy = doe - (365 * yoe + yoe div 4 - yoe div 100);
          mp = (5 * doy + 2) div 153;
          d = doy - (153 * mp + 2) div 5 + 1;
          m = (if mp < 10 then mp + 3 else mp - 9);
          y = yoe + era * 400 + (if m \<le> 2 then 1 else 0)
      in (y, m, d))"

definition micros_per_day :: int where
  "micros_per_day = 86400000000"

text \<open>
  \<^verbatim>\<open>value.astimezone(UTC).isoformat().replace("+00:00", "Z")\<close>: microseconds are
  written only when they are not zero.
\<close>

definition iso_utc :: "time \<Rightarrow> string" where
  "iso_utc t =
     (case civil_from_days (t div micros_per_day) of (y, m, d) \<Rightarrow>
      let us = t mod micros_per_day;
          secs = us div 1000000;
          frac = us mod 1000000
      in padded 4 (nat y) @ ''-'' @ padded 2 (nat m) @ ''-'' @ padded 2 (nat d) @ ''T''
         @ padded 2 (nat (secs div 3600)) @ '':'' @ padded 2 (nat (secs div 60 mod 60)) @ '':''
         @ padded 2 (nat (secs mod 60))
         @ (if frac = 0 then '''' else ''.'' @ padded 6 (nat frac)) @ ''Z'')"

text \<open>\<^verbatim>\<open>int(value.timestamp())\<close>: whole seconds since the epoch, truncated towards zero.\<close>

definition epoch_seconds :: "time \<Rightarrow> int" where
  "epoch_seconds t = (if 0 \<le> t then t div 1000000 else - ((- t) div 1000000))"

definition seconds :: "int \<Rightarrow> time" where
  "seconds n = n * 1000000"

definition minutes :: "int \<Rightarrow> time" where
  "minutes n = seconds (60 * n)"

definition hours :: "int \<Rightarrow> time" where
  "hours n = minutes (60 * n)"

definition days :: "int \<Rightarrow> time" where
  "days n = hours (24 * n)"

end
