(* ===== verification/Ipaddress.thy ===== *)
theory Ipaddress
  imports Pytext "HOL-Library.Word"
begin

unbundle bit_operations_syntax

text \<open>
  The part of Python's \<^verbatim>\<open>ipaddress\<close> module that the program calls: parsing and
  printing of IPv4 and IPv6 literals, membership of an IPv4 address in a network, and
  the classification of IPv4 addresses (\<^verbatim>\<open>is_private\<close>, \<^verbatim>\<open>is_global\<close> and the
  like) by the IANA tables of CPython 3.12.

  An IPv4 address is a 32-bit word, an IPv6 address a list of eight 16-bit groups.
\<close>

type_synonym ipv4 = "32 word"

section \<open>IPv4 literals\<close>

definition parse_octet :: "string \<Rightarrow> nat option" where
  "parse_octet s =
     (if s = [] \<or> \<not> list_all is_digit s \<or> 3 < length s \<or> (s \<noteq> ''0'' \<and> hd s = CHR ''0'')
         \<or> 255 < digits_val s
      then None else Some (digits_val s))"

definition ipv4_of_octets :: "nat \<Rightarrow> nat \<Rightarrow> nat \<Rightarrow> nat \<Rightarrow> ipv4" where
  "ipv4_of_octets a b c d = of_nat (16777216 * a + 65536 * b + 256 * c + d)"

definition octets :: "ipv4 \<Rightarrow> nat list" where
  "octets w = (let n = unat w in [n div 16777216, n div 65536 mod 256, n div 256 mod 256, n mod 256])"

definition ipv4_parse :: "string \<Rightarrow> ipv4 option" where
  "ipv4_parse s =
     (case map parse_octet (split_on (CHR ''.'') s) of
        [Some a, Some b, Some c, Some d] \<Rightarrow> Some (ipv4_of_octets a b c d)
      | _ \<Rightarrow> None)"

definition ipv4_str :: "ipv4 \<Rightarrow> string" where
  "ipv4_str w = join ''.'' (map nat_str (octets w))"

section \<open>IPv4 networks\<close>

type_synonym ipv4_network = "ipv4 \<times> nat"

definition netmask :: "nat \<Rightarrow> ipv4" where
  "netmask len = NOT (mask (32 - len))"

definition in_network :: "ipv4 \<Rightarrow> ipv4_network \<Rightarrow> bool" where
  "in_network a n = (case n of (base, len) \<Rightarrow> a AND netmask len = base)"

definition private_networks :: "ipv4_network list" where
  "private_networks =
    [(ipv4_of_octets 0 0 0 0, 8), (ipv4_of_octets 10 0 0 0, 8), (ipv4_of_octets 127 0 0 0, 8),
     (ipv4_of_octets 169 254 0 0, 16), (ipv4_of_octets 172 16 0 0, 12),
     (ipv4_of_octets 192 0 0 0, 24), (ipv4_of_octets 192 0 0 170, 31),
     (ipv4_of_octets 192 0 2 0, 24), (ipv4_of_octets 192 168 0 0, 16),
     (ipv4_of_octets 198 18 0 0, 15), (ipv4_of_octets 198 51 100 0, 24),
     (ipv4_of_octets 203 0 113 0, 24), (ipv4_of_octets 240 0 0 0, 4),
     (ipv4_of_octets 255 255 255 255, 32)]"

definition private_exceptions :: "ipv4_network list" where
  "private_exceptions = [(ipv4_of_octets 192 0 0 9, 32), (ipv4_of_octets 192 0 0 10, 32)]"

definition is_private :: "ipv4 \<Rightarrow> bool" where
  "is_private a \<longleftrightarrow> list_ex (in_network a) private_networks
     \<and> list_all (\<lambda>n. \<not> in_network a n) private_exceptions"

definition is_global :: "ipv4 \<Rightarrow> bool" where
  "is_global a \<longleftrightarrow> \<not> in_network a (ipv4_of_octets 100 64 0 0, 10) \<and> \<not> is_private a"

definition is_unspecified :: "ipv4 \<Rightarrow> bool" where
  "is_unspecified a \<longleftrightarrow> a = 0"

definition is_loopback :: "ipv4 \<Rightarrow> bool" where
  "is_loopback a \<longleftrightarrow> in_network a (ipv4_of_octets 127 0 0 0, 8)"

definition is_link_local :: "ipv4 \<Rightarrow> bool" where
  "is_link_local a \<longleftrightarrow> in_network a (ipv4_of_octets 169 254 0 0, 16)"

definition is_multicast :: "ipv4 \<Rightarrow> bool" where
  "is_multicast a \<longleftrightarrow> in_network a (ipv4_of_octets 224 0 0 0, 4)"

definition is_reserved :: "ipv4 \<Rightarrow> bool" where
  "is_reserved a \<longleftrightarrow> in_network a (ipv4_of_octets 240 0 0 0, 4)"

section \<open>IPv6 literals\<close>

definition hex_val :: "string \<Rightarrow> nat" where
  "hex_val s =
     foldl (\<lambda>n c. 16 * n + (if is_digit c then code c - 48
                            else if is_lower c then code c - 87 else code c - 55)) 0 s"

definition parse_hextet :: "string \<Rightarrow> nat option" where
  "parse_hextet s =
     (if s = [] \<or> \<not> list_all is_hex s \<or> 4 < length s then None else Some (hex_val s))"

fun hex_str :: "nat \<Rightarrow> string" where
  "hex_str n = (if n < 16 then [hex_char n] else hex_str (n div 16) @ [hex_char (n mod 16)])"

declare hex_str.simps [simp del]

fun all_some :: "'a option list \<Rightarrow> 'a list option" where
  "all_some [] = Some []"
| "all_some (None # xs) = None"
| "all_some (Some x # xs) = (case all_some xs of None \<Rightarrow> None | Some ys \<Rightarrow> Some (x # ys))"

text \<open>An IPv4-style last part becomes two hexadecimal parts.\<close>

definition expand_v4_suffix :: "string list \<Rightarrow> string list option" where
  "expand_v4_suffix parts =
     (if CHR ''.'' \<in> set (last parts)
      then (case ipv4_parse (last parts) of
              None \<Rightarrow> None
            | Some w \<Rightarrow> Some (butlast parts @ [hex_str (unat w div 65536), hex_str (unat w mod 65536)]))
      else Some parts)"

definition ipv6_groups :: "string list \<Rightarrow> nat list option" where
  "ipv6_groups parts =
     (let n = length parts in
      if 9 < n then None
      else case filter (\<lambda>i. parts ! i = []) [1..<n - 1] of
        [] \<Rightarrow> (if n \<noteq> 8 then None else all_some (map parse_hextet parts))
      | [i] \<Rightarrow>
          (let hi = (if hd parts = [] then i - 1 else i);
               lo = (if last parts = [] then n - i - 2 else n - i - 1)
           in if (hd parts = [] \<and> hi \<noteq> 0) \<or> (last parts = [] \<and> lo \<noteq> 0) \<or> 8 \<le> hi + lo then None
              else all_some (map parse_hextet (take hi parts)
                     @ replicate (8 - (hi + lo)) (Some 0)
                     @ map parse_hextet (drop (n - lo) parts)))
      | _ \<Rightarrow> None)"

definition ipv6_parse :: "string \<Rightarrow> nat list option" where
  "ipv6_parse s =
     (let parts = split_on (CHR '':'') s in
      if length parts < 3 then None
      else case expand_v4_suffix parts of None \<Rightarrow> None | Some ps \<Rightarrow> ipv6_groups ps)"

text \<open>
  The leftmost longest run of zero groups: start and length of the best run so far and
  of the current run, as the loop keeps them.
\<close>

definition zero_run_step :: "int \<times> int \<times> int \<times> int \<Rightarrow> int \<times> nat \<Rightarrow> int \<times> int \<times> int \<times> int" where
  "zero_run_step st ig =
     (case st of (best_start, best_len, start, len) \<Rightarrow>
      case ig of (i, g) \<Rightarrow>
        if g = 0 then
          (let len' = len + 1; start' = (if start = -1 then i else start)
           in if best_len < len' then (start', len', start', len')
              else (best_start, best_len, start', len'))
        else (best_start, best_len, -1, 0))"

definition compress_hextets :: "nat list \<Rightarrow> string list" where
  "compress_hextets gs =
     (case foldl zero_run_step (-1, 0, -1, 0) (zip (map int [0..<length gs]) gs) of
        (start, len, _, _) \<Rightarrow>
          if len \<le> 1 then map hex_str gs
          else (let s = nat start; e = nat (start + len)
                in (if s = 0 then [[]] else []) @ map hex_str (take s gs) @ [[]]
                   @ map hex_str (drop e gs) @ (if e = length gs then [[]] else [])))"

definition ipv6_str :: "nat list \<Rightarrow> string" where
  "ipv6_str gs = join '':'' (compress_hextets gs)"

text \<open>
  \<^verbatim>\<open>str(ipaddress.ip_address(s))\<close>: the canonical form of an IPv4 or IPv6 literal, with
  an optional IPv6 scope id; \<open>None\<close> is the \<^verbatim>\<open>ValueError\<close>.
\<close>

definition ip_address_str :: "string \<Rightarrow> string option" where
  "ip_address_str s =
     (case ipv4_parse s of
        Some w \<Rightarrow> Some (ipv4_str w)
      | None \<Rightarrow>
          (case split_on (CHR ''%'') s of
             [a] \<Rightarrow> map_option ipv6_str (ipv6_parse a)
           | [a, scope] \<Rightarrow>
               (if scope = [] then None
                else map_option (\<lambda>g. ipv6_str g @ ''%'' @ scope) (ipv6_parse a))
           | _ \<Rightarrow> None))"

section \<open>Round trip of IPv4 literals\<close>

lemma octets_ipv4_of_octets:
  assumes "a < 256" "b < 256" "c < 256" "d < 256"
  shows "octets (ipv4_of_octets a b c d) = [a, b, c, d]"
proof -
  have "16777216 * a + 65536 * b + 256 * c + d < 2 ^ LENGTH(32)"
    using assms by simp
  then have u: "unat (ipv4_of_octets a b c d) = 16777216 * a + 65536 * b + 256 * c + d"
    unfolding ipv4_of_octets_def by (rule of_nat_inverse [OF refl])
  define n where "n = 16777216 * a + 65536 * b + 256 * c + d"
  have n1: "n = d + 256 * (c + 256 * (b + 256 * a))"
    by (simp add: n_def)
  have d1: "n div 256 = c + 256 * (b + 256 * a)" "n mod 256 = d"
    using assms by (simp_all only: n1 div_mult_self2 mod_mult_self2) simp_all
  have "n div 65536 = n div 256 div 256"
    by (simp add: div_mult2_eq [symmetric])
  then have d2: "n div 65536 = b + 256 * a"
    using assms by (simp only: d1 div_mult_self2)
  have "n div 16777216 = n div 65536 div 256"
    by (simp add: div_mult2_eq [symmetric])
  then have d3: "n div 16777216 = a"
    using assms by (simp only: d2 div_mult_self2)
  have "n div 256 mod 256 = c" "n div 65536 mod 256 = b"
    using assms by (simp_all only: d1 d2 mod_mult_self2) simp_all
  with d1 d3 show ?thesis by (simp add: octets_def u n_def)
qed

lemma ipv4_of_octets_octets:
  "octets w = [a, b, c, d] \<Longrightarrow> ipv4_of_octets a b c d = w"
proof -
  assume "octets w = [a, b, c, d]"
  moreover have "16777216 * (n div 16777216) + 65536 * (n div 65536 mod 256)
      + 256 * (n div 256 mod 256) + n mod 256 = n" for n :: nat
  proof -
    have "n div 65536 = n div 256 div 256" and "n div 16777216 = n div 65536 div 256"
      by (simp_all add: div_mult2_eq [symmetric])
    then show ?thesis
      using mult_div_mod_eq [of 256 n] mult_div_mod_eq [of 256 "n div 256"]
        mult_div_mod_eq [of 256 "n div 65536"] by linarith
  qed
  ultimately have "16777216 * a + 65536 * b + 256 * c + d = unat w"
    by (auto simp: octets_def Let_def)
  then show ?thesis by (simp add: ipv4_of_octets_def)
qed

lemma octets_bounds:
  "octets w = [a, b, c, d] \<Longrightarrow> a < 256 \<and> b < 256 \<and> c < 256 \<and> d < 256"
proof -
  assume o: "octets w = [a, b, c, d]"
  have "unat w < 4294967296"
    using unsigned_less [of w] by simp
  then have "unat w div 16777216 < 256" by simp
  with o show ?thesis by (auto simp: octets_def Let_def)
qed

lemma octets_cases: obtains a b c d where "octets w = [a, b, c, d]"
  by (simp add: octets_def Let_def)

lemma nat_str_hd_zero: "n \<noteq> 0 \<Longrightarrow> hd (nat_str n) \<noteq> CHR ''0''"
proof (induction n rule: nat_str.induct)
  case (1 n)
  have "digit_char n \<noteq> CHR ''0''" if "n < 10"
    using that "1.prems" code_digit_char [of n] by (auto simp: code_def)
  moreover have "hd (nat_str (n div 10)) \<noteq> CHR ''0''" if "\<not> n < 10"
    using that "1.IH" by auto
  ultimately show ?case by (auto simp: nat_str.simps [of n] hd_append)
qed

lemma nat_str_0: "nat_str 0 = ''0''"
  by (simp add: nat_str.simps)

lemma parse_octet_nat_str: "n < 256 \<Longrightarrow> parse_octet (nat_str n) = Some n"
proof -
  assume n: "n < 256"
  then have "length (nat_str n) \<le> 3" by (intro length_nat_str) auto
  moreover have "list_all is_digit (nat_str n)"
    by (auto simp: list_all_iff dest: nat_str_digits)
  moreover have "nat_str n = ''0'' \<or> hd (nat_str n) \<noteq> CHR ''0''"
    by (cases "n = 0") (auto simp: nat_str_0 nat_str_hd_zero)
  ultimately show ?thesis using n by (auto simp: parse_octet_def)
qed

lemma dot_notin_nat_str: "CHR ''.'' \<notin> set (nat_str n)"
  by (rule nat_str_no_char) (simp add: is_digit_def code_def)

lemma ipv4_parse_str [simp]: "ipv4_parse (ipv4_str w) = Some w"
proof -
  obtain a b c d where o: "octets w = [a, b, c, d]" by (rule octets_cases)
  have "split_on (CHR ''.'') (ipv4_str w) = map nat_str [a, b, c, d]"
    unfolding ipv4_str_def o
    by (rule split_on_join) (auto simp: dot_notin_nat_str)
  then show ?thesis
    using octets_bounds [OF o] ipv4_of_octets_octets [OF o]
    by (simp add: ipv4_parse_def parse_octet_nat_str)
qed

text \<open>A string of digits without leading zero is the rendering of its value.\<close>

lemma digits_val_pos: "list_all is_digit s \<Longrightarrow> s \<noteq> [] \<Longrightarrow> hd s \<noteq> CHR ''0'' \<Longrightarrow> 0 < digits_val s"
proof (induction s rule: rev_induct)
  case Nil
  then show ?case by simp
next
  case (snoc c s)
  show ?case
  proof (cases "s = []")
    case True
    with snoc.prems have "code c \<noteq> code (CHR ''0'')" "48 \<le> code c"
      by (auto simp: is_digit_def)
    with True show ?thesis by (simp add: code_def digits_val_def)
  next
    case False
    with snoc show ?thesis by simp
  qed
qed

end
