(* ===== verification/Contract_Base.thy ===== *)
theory Contract_Base
  imports Sha256 Json Ipaddress
begin

text \<open>
  The common layer of the contract models (\<^verbatim>\<open>contracts/.../models.py\<close>, lines 1 to 480):
  validation errors, the constrained field types, canonical JSON and deterministic
  identifiers.

  A contract model is a record of already typed fields: parsing of untyped JSON into
  strings, integers, enumerations and aware timestamps is pydantic's. What the models
  add to it is here: string patterns and bounds, field validators, model validators, and
  the identifier that every deterministic model recomputes.

  A validator is an optional error: \<open>None\<close> accepts, \<open>Some e\<close> is the raised exception.
  Field constraints run before model validators, and the first failure is the outcome.
\<close>

section \<open>Validation\<close>

datatype contract_error =
    Field_error string   \<comment> \<open>a constrained field type rejects the field\<close>
  | Value_error string   \<comment> \<open>a validator raises \<^verbatim>\<open>ValueError\<close> with this message\<close>

type_synonym validation = "contract_error option"

definition require :: "bool \<Rightarrow> contract_error \<Rightarrow> validation" where
  "require b e = (if b then None else Some e)"

definition fieldc :: "bool \<Rightarrow> string \<Rightarrow> validation" where
  "fieldc b name = require b (Field_error name)"

fun checks :: "validation list \<Rightarrow> validation" where
  "checks [] = None"
| "checks (None # vs) = checks vs"
| "checks (Some e # vs) = Some e"

lemma checks_None [simp]: "checks vs = None \<longleftrightarrow> (\<forall>v \<in> set vs. v = None)"
  by (induction vs rule: checks.induct) auto

lemma require_None [simp]: "require b e = None \<longleftrightarrow> b"
  by (simp add: require_def)

lemma fieldc_None [simp]: "fieldc b n = None \<longleftrightarrow> b"
  by (simp add: fieldc_def)

text \<open>A validator of an optional field.\<close>

definition opt_ok :: "('a \<Rightarrow> bool) \<Rightarrow> 'a option \<Rightarrow> bool" where
  "opt_ok p x = (case x of None \<Rightarrow> True | Some v \<Rightarrow> p v)"

lemma opt_ok_simps [simp]: "opt_ok p None" "opt_ok p (Some v) = p v"
  by (simp_all add: opt_ok_def)

section \<open>Constrained field types\<close>

definition is_alnum :: "char \<Rightarrow> bool" where
  "is_alnum c \<longleftrightarrow> is_digit c \<or> is_lower c \<or> is_upper c"

definition len_between :: "nat \<Rightarrow> nat \<Rightarrow> string \<Rightarrow> bool" where
  "len_between lo hi s \<longleftrightarrow> lo \<le> length s \<and> length s \<le> hi"

text \<open>A prefix followed by \<open>lo\<close> to \<open>hi\<close> lowercase hexadecimal digits.\<close>

definition prefixed_hex :: "string \<Rightarrow> nat \<Rightarrow> nat \<Rightarrow> string \<Rightarrow> bool" where
  "prefixed_hex p lo hi s \<longleftrightarrow>
     startswith s p \<and> len_between lo hi (drop (length p) s)
     \<and> list_all is_lower_hex (drop (length p) s)"

definition is_account_id :: "string \<Rightarrow> bool" where
  "is_account_id s \<longleftrightarrow> length s = 12 \<and> list_all is_digit s"

text \<open>\<^verbatim>\<open>^[a-z]{2}(?:-[a-z0-9]+)+-[0-9]+$\<close>, read on the parts between the hyphens.\<close>

definition is_region :: "string \<Rightarrow> bool" where
  "is_region s \<longleftrightarrow> len_between 9 32 s \<and>
     (let parts = split_on (CHR ''-'') s in
      3 \<le> length parts
      \<and> length (hd parts) = 2 \<and> list_all is_lower (hd parts)
      \<and> list_all (\<lambda>p. p \<noteq> [] \<and> list_all (\<lambda>c. is_lower c \<or> is_digit c) p) (butlast (tl parts))
      \<and> last parts \<noteq> [] \<and> list_all is_digit (last parts))"

definition is_eni :: "string \<Rightarrow> bool" where
  "is_eni = prefixed_hex ''eni-'' 8 32"

definition is_instance_id :: "string \<Rightarrow> bool" where
  "is_instance_id = prefixed_hex ''i-'' 8 32"

definition is_security_group :: "string \<Rightarrow> bool" where
  "is_security_group = prefixed_hex ''sg-'' 8 32"

definition is_source_name :: "string \<Rightarrow> bool" where
  "is_source_name s \<longleftrightarrow> len_between 1 128 s
     \<and> list_all (\<lambda>c. is_alnum c \<or> c \<in> set ''_.:/-'') s"

definition is_bounded_text :: "string \<Rightarrow> bool" where
  "is_bounded_text = len_between 1 256"

definition is_long_bounded_text :: "string \<Rightarrow> bool" where
  "is_long_bounded_text = len_between 1 4096"

definition is_safe_identifier :: "string \<Rightarrow> bool" where
  "is_safe_identifier s \<longleftrightarrow> len_between 1 128 s \<and> is_alnum (hd s)
     \<and> list_all (\<lambda>c. is_alnum c \<or> c \<in> set ''._=-'') (tl s)"

definition is_rule_key :: "string \<Rightarrow> bool" where
  "is_rule_key s \<longleftrightarrow> len_between 1 128 s \<and> (is_lower (hd s) \<or> is_digit (hd s))
     \<and> list_all (\<lambda>c. is_lower c \<or> is_digit c \<or> c \<in> set ''._-'') (tl s)"

text \<open>White space of the regular-expression class \<^verbatim>\<open>\s\<close> on code points below 256.\<close>

definition is_re_space :: "char \<Rightarrow> bool" where
  "is_re_space c \<longleftrightarrow> code c \<in> {9, 10, 11, 12, 13, 32, 133, 160}"

text \<open>
  \<^verbatim>\<open>^(?:(?:[^@\s]+@)?sha256:[0-9a-f]{64}|git:[0-9a-f]{40,64})$\<close> with 44 to 256 characters.
\<close>

definition is_image_version :: "string \<Rightarrow> bool" where
  "is_image_version s \<longleftrightarrow> len_between 44 256 s \<and>
     (prefixed_hex ''git:'' 40 64 s \<or>
      (case split_on (CHR ''@'') s of
         [d] \<Rightarrow> prefixed_hex ''sha256:'' 64 64 d
       | [r, d] \<Rightarrow> r \<noteq> [] \<and> list_all (\<lambda>c. \<not> is_re_space c) r \<and> prefixed_hex ''sha256:'' 64 64 d
       | _ \<Rightarrow> False))"

definition is_tag_value :: "string \<Rightarrow> bool" where
  "is_tag_value = len_between 1 256"

definition is_port :: "int \<Rightarrow> bool" where
  "is_port p \<longleftrightarrow> 1 \<le> p \<and> p \<le> 65535"

definition is_generation :: "int \<Rightarrow> bool" where
  "is_generation g \<longleftrightarrow> 1 \<le> g"

definition is_priority :: "int \<Rightarrow> bool" where
  "is_priority p \<longleftrightarrow> 0 \<le> p \<and> p \<le> 1000"

definition is_exit_code :: "int \<Rightarrow> bool" where
  "is_exit_code c \<longleftrightarrow> 0 \<le> c \<and> c \<le> 255"

text \<open>\<^verbatim>\<open>_validate_ipv4\<close> and \<^verbatim>\<open>_validate_public_ipv4\<close> with the bounds of their field types.\<close>

definition documentation_networks :: "ipv4_network list" where
  "documentation_networks =
     [(ipv4_of_octets 192 0 2 0, 24), (ipv4_of_octets 198 51 100 0, 24),
      (ipv4_of_octets 203 0 113 0, 24)]"

definition validate_ipv4 :: "string \<Rightarrow> contract_error + ipv4" where
  "validate_ipv4 s =
     (if \<not> len_between 7 15 s then Inl (Field_error ''address'')
      else case ipv4_parse s of
        None \<Rightarrow> Inl (Value_error ''must be a valid IPv4 address'')
      | Some a \<Rightarrow> (if ipv4_str a \<noteq> s then Inl (Value_error ''must use canonical IPv4 notation'')
                   else Inr a))"

definition validate_public_ipv4 :: "string \<Rightarrow> contract_error + ipv4" where
  "validate_public_ipv4 s =
     (case validate_ipv4 s of
        Inl e \<Rightarrow> Inl e
      | Inr a \<Rightarrow>
          (if \<not> is_global a \<and> \<not> list_ex (in_network a) documentation_networks
           then Inl (Value_error ''must be a public IPv4 or RFC 5737 documentation address'')
           else Inr a))"

definition err_of :: "contract_error + 'a \<Rightarrow> validation" where
  "err_of r = (case r of Inl e \<Rightarrow> Some e | Inr _ \<Rightarrow> None)"

lemma err_of_simps [simp]: "err_of (Inl e) = Some e" "err_of (Inr x) = None"
  by (simp_all add: err_of_def)

section \<open>Canonical JSON and deterministic identifiers\<close>

text \<open>\<^verbatim>\<open>format_utc_rfc3339\<close>: a timestamp in JSON.\<close>

definition jtime :: "time \<Rightarrow> json" where
  "jtime t = JStr (iso_utc t)"

definition canonical_json :: "json \<Rightarrow> string" where
  "canonical_json v = dumps v"

text \<open>
  \<^verbatim>\<open>deterministic_sha256(namespace, payload)\<close>: the digest of the namespace, a zero
  byte and the canonical JSON of the payload.
\<close>

definition namespaced_sha256 :: "string \<Rightarrow> json \<Rightarrow> string" where
  "namespaced_sha256 namespace payload =
     sha256 (namespace @ [CHR 0x00] @ canonical_json payload)"

definition deterministic_sha256 :: "string \<Rightarrow> json \<Rightarrow> contract_error + string" where
  "deterministic_sha256 namespace payload =
     (if namespace = [] \<or> py_strip namespace \<noteq> namespace
      then Inl (Value_error ''namespace must be a non-empty, trimmed string'')
      else Inr (namespaced_sha256 namespace payload))"

lemma is_sha256_hex_namespaced [simp]: "is_sha256_hex (namespaced_sha256 n p)"
  by (simp add: namespaced_sha256_def)

definition zero_id :: string where
  "zero_id = replicate 64 (CHR ''0'')"

lemma is_sha256_hex_zero_id [simp]: "is_sha256_hex zero_id"
  by (simp add: is_sha256_hex_def zero_id_def is_lower_hex_def is_digit_def code_def list_all_iff)

text \<open>
  \<^verbatim>\<open>DeterministicModel._validate_deterministic_id\<close>. The flag is the validation context's
  \<^verbatim>\<open>skip_deterministic_id\<close>, which reaches nested models too.
\<close>

definition validate_deterministic_id :: "bool \<Rightarrow> string \<Rightarrow> string \<Rightarrow> string \<Rightarrow> validation" where
  "validate_deterministic_id skip id_field actual expected =
     (if skip then None
      else require (actual = expected)
             (Value_error (id_field @ '' must equal deterministic SHA-256 '' @ expected)))"

text \<open>
  \<^verbatim>\<open>DeterministicModel.create\<close>: validate with a provisional identifier of zeros and the
  identifier checks skipped, then fill in the expected identifier and validate in full.
\<close>

definition create :: "(string \<Rightarrow> 'm \<Rightarrow> 'm) \<Rightarrow> ('m \<Rightarrow> string) \<Rightarrow> (bool \<Rightarrow> 'm \<Rightarrow> validation)
    \<Rightarrow> 'm \<Rightarrow> contract_error + 'm" where
  "create set_id expected validate values =
     (let provisional = set_id zero_id values in
      case validate True provisional of
        Some e \<Rightarrow> Inl e
      | None \<Rightarrow>
          (let complete = set_id (expected provisional) provisional in
           case validate False complete of Some e \<Rightarrow> Inl e | None \<Rightarrow> Inr complete))"

lemma validate_deterministic_id_None [simp]:
  "validate_deterministic_id skip f a e = None \<longleftrightarrow> skip \<or> a = e"
  by (simp add: validate_deterministic_id_def)

text \<open>
  What a deterministic model promises: the identifier field is a plain field that the
  identity does not read, validation recomputes it unless told to skip, and of a skipped
  identifier only the shape matters.
\<close>

locale deterministic_model =
  fixes get_id :: "'m \<Rightarrow> string"
    and set_id :: "string \<Rightarrow> 'm \<Rightarrow> 'm"
    and expected :: "'m \<Rightarrow> string"
    and validate :: "bool \<Rightarrow> 'm \<Rightarrow> contract_error option"
  assumes set_set: "set_id i (set_id j m) = set_id i m"
    and get_set: "get_id (set_id i m) = i"
    and set_get: "set_id (get_id m) m = m"
    and expected_set: "expected (set_id i m) = expected m"
    and expected_hex: "is_sha256_hex (expected m)"
    and validate_id: "validate False m = None \<Longrightarrow> get_id m = expected m"
    and validate_skip: "validate False m = None \<Longrightarrow> validate True m = None"
    and skip_set: "validate True m = None \<Longrightarrow> is_sha256_hex i \<Longrightarrow> validate True (set_id i m) = None"
begin

text \<open>What creation returns validates in full and carries its own expected identifier.\<close>

lemma create_valid:
  assumes "create set_id expected validate m = Inr m'"
  shows "validate False m' = None" and "get_id m' = expected m'" and "m' = set_id (expected m) m"
proof -
  from assms show "m' = set_id (expected m) m"
    by (auto simp: create_def Let_def set_set expected_set split: option.splits)
  from assms show v: "validate False m' = None"
    by (auto simp: create_def Let_def split: option.splits)
  then show "get_id m' = expected m'" by (rule validate_id)
qed

text \<open>A model that validates is recreated unchanged from its own values.\<close>

lemma create_roundtrip:
  assumes v: "validate False m = None"
  shows "create set_id expected validate m = Inr m"
proof -
  have "validate True (set_id zero_id m) = None"
    using validate_skip [OF v] by (rule skip_set) simp
  moreover have "set_id (expected m) m = m"
    using validate_id [OF v] set_get [of m] by simp
  ultimately show ?thesis using v by (simp add: create_def Let_def set_set expected_set)
qed

end

text \<open>
  A model without nested deterministic models: the skipped check is its own only, so
  creation fails exactly when a field or a model validator rejects the values.
\<close>

locale leaf_model = deterministic_model +
  assumes leaf: "validate True m = None \<Longrightarrow> get_id m = expected m \<Longrightarrow> validate False m = None"
begin

lemma create_total:
  assumes "validate True (set_id zero_id m) = None"
  shows "create set_id expected validate m = Inr (set_id (expected m) m)"
proof -
  have "validate True (set_id (expected m) (set_id zero_id m)) = None"
    using assms by (rule skip_set) (rule expected_hex)
  then have "validate False (set_id (expected m) m) = None"
    using leaf [of "set_id (expected m) m"] by (simp add: set_set get_set expected_set)
  with assms show ?thesis by (simp add: create_def Let_def set_set expected_set)
qed

end

end
