(* ===== verification/Port_Ranges.thy ===== *)
theory Port_Ranges
  imports Contract_Base
begin

text \<open>
  TCP port ranges of the contracts (\<^verbatim>\<open>TcpPortRange\<close> and \<^verbatim>\<open>_validate_port_ranges\<close>) and
  the canonical coverage terms of \<^verbatim>\<open>ScanCoverage\<close>. The main facts: a list of ranges
  that validates is the only validated list that covers its set of ports, and canonical
  coverage terms are read back to exactly the ranges they print.
\<close>

section \<open>Ranges\<close>

record tcp_port_range =
  pr_start :: int
  pr_end :: int

definition validate_tcp_port_range :: "tcp_port_range \<Rightarrow> validation" where
  "validate_tcp_port_range r = checks
     [fieldc (is_port (pr_start r)) ''start'', fieldc (is_port (pr_end r)) ''end'',
      require (\<not> pr_start r > pr_end r) (Value_error ''port range start must not exceed end'')]"

definition full_tcp_port_range :: tcp_port_range where
  "full_tcp_port_range = \<lparr>pr_start = 1, pr_end = 65535\<rparr>"

text \<open>The loop of \<^verbatim>\<open>_validate_port_ranges\<close> with its \<^verbatim>\<open>previous\<close> range.\<close>

fun port_range_loop :: "tcp_port_range option \<Rightarrow> tcp_port_range list \<Rightarrow> validation" where
  "port_range_loop previous [] = None"
| "port_range_loop previous (current # rest) =
     (case previous of
        None \<Rightarrow> port_range_loop (Some current) rest
      | Some p \<Rightarrow>
          (if (pr_start current, pr_end current) \<le> (pr_start p, pr_end p)
           then Some (Value_error ''TCP port ranges must be sorted'')
           else if pr_start current \<le> pr_end p + 1
           then Some (Value_error ''TCP port ranges must not overlap or be adjacent'')
           else port_range_loop (Some current) rest))"

definition validate_port_ranges :: "bool \<Rightarrow> tcp_port_range list \<Rightarrow> validation" where
  "validate_port_ranges allow_empty ranges =
     (if \<not> allow_empty \<and> ranges = []
      then Some (Value_error ''at least one TCP port range is required'')
      else port_range_loop None ranges)"

text \<open>A field of ranges: every element validates first, then the list.\<close>

definition validate_range_field :: "bool \<Rightarrow> string \<Rightarrow> tcp_port_range list \<Rightarrow> validation" where
  "validate_range_field allow_empty name ranges = checks
     (map validate_tcp_port_range ranges
      @ [fieldc (length ranges \<le> 256 \<and> (allow_empty \<or> 1 \<le> length ranges)) name,
         validate_port_ranges allow_empty ranges])"

definition range_json :: "tcp_port_range \<Rightarrow> json" where
  "range_json r = JObj [(''start'', JInt (pr_start r)), (''end'', JInt (pr_end r))]"

section \<open>What the validator accepts\<close>

text \<open>The ports a list of ranges covers, and the canonical form.\<close>

definition range_ports :: "tcp_port_range list \<Rightarrow> int set" where
  "range_ports rs = {p. \<exists>r \<in> set rs. pr_start r \<le> p \<and> p \<le> pr_end r}"

fun gapped :: "tcp_port_range list \<Rightarrow> bool" where
  "gapped [] = True"
| "gapped [r] = (pr_start r \<le> pr_end r)"
| "gapped (r # s # rs) \<longleftrightarrow> pr_start r \<le> pr_end r \<and> pr_end r + 1 < pr_start s \<and> gapped (s # rs)"

lemma validate_tcp_port_range_None:
  "validate_tcp_port_range r = None \<longleftrightarrow> is_port (pr_start r) \<and> is_port (pr_end r) \<and> pr_start r \<le> pr_end r"
  by (auto simp: validate_tcp_port_range_def)

lemma port_range_loop_gapped:
  assumes "\<forall>r \<in> set (p # rs). pr_start r \<le> pr_end r"
  shows "port_range_loop (Some p) rs = None \<longleftrightarrow> gapped (p # rs)"
  using assms by (induction rs arbitrary: p) (auto simp: less_eq_prod_def)

lemma validate_port_ranges_gapped:
  assumes "\<forall>r \<in> set rs. pr_start r \<le> pr_end r"
  shows "validate_port_ranges e rs = None \<longleftrightarrow> (e \<or> rs \<noteq> []) \<and> gapped rs"
  using assms by (cases rs) (auto simp: validate_port_ranges_def port_range_loop_gapped)

lemma validate_range_field_gapped:
  "validate_range_field e n rs = None \<longleftrightarrow>
     (\<forall>r \<in> set rs. is_port (pr_start r) \<and> is_port (pr_end r) \<and> pr_start r \<le> pr_end r)
     \<and> length rs \<le> 256 \<and> (e \<or> rs \<noteq> []) \<and> gapped rs"
  by (auto simp: validate_range_field_def validate_tcp_port_range_None validate_port_ranges_gapped
      Suc_le_eq)

section \<open>Uniqueness of the canonical form\<close>

lemma gapped_Cons:
  "gapped (r # rs) \<Longrightarrow> pr_start r \<le> pr_end r \<and> gapped rs
     \<and> (\<forall>p \<in> range_ports rs. pr_end r + 1 < p)"
proof (induction rs arbitrary: r)
  case Nil
  then show ?case by (simp add: range_ports_def)
next
  case (Cons s rs)
  then have "gapped (s # rs)" by simp
  from Cons.IH [OF this] Cons.prems show ?case
    by (fastforce simp: range_ports_def)
qed

lemma range_ports_Cons: "range_ports (r # rs) = {pr_start r..pr_end r} \<union> range_ports rs"
  by (auto simp: range_ports_def)

lemma range_ports_empty: "gapped rs \<Longrightarrow> range_ports rs = {} \<Longrightarrow> rs = []"
  by (cases rs) (auto simp: range_ports_Cons dest: gapped_Cons)

lemma gapped_head:
  assumes g: "gapped (r # rs)"
  shows "pr_start r \<in> range_ports (r # rs)" "\<forall>p \<in> range_ports (r # rs). pr_start r \<le> p"
    "pr_end r + 1 \<notin> range_ports (r # rs)" "{pr_start r..pr_end r} \<subseteq> range_ports (r # rs)"
    "range_ports rs = {p \<in> range_ports (r # rs). pr_end r < p}"
  using gapped_Cons [OF g] by (fastforce simp: range_ports_Cons)+

lemma gapped_head_unique:
  assumes "gapped (r # rs)" "gapped (s # ss)" "range_ports (r # rs) = range_ports (s # ss)"
  shows "r = s" and "range_ports rs = range_ports ss"
proof -
  note hr = gapped_head [OF assms(1)] and hs = gapped_head [OF assms(2)]
  have le: "pr_start r \<le> pr_end r" "pr_start s \<le> pr_end s"
    using assms gapped_Cons by blast+
  have st: "pr_start r = pr_start s"
    using hr(1,2) hs(1,2) assms(3) by (intro order_antisym) auto
  have "\<not> pr_end r < pr_end s"
    using hr(3) hs(4) assms(3) st le by (auto simp: subset_eq)
  moreover have "\<not> pr_end s < pr_end r"
    using hs(3) hr(4) assms(3) st le by (auto simp: subset_eq)
  ultimately have "pr_end r = pr_end s" by simp
  with st show "r = s" by simp
  with hr(5) hs(5) assms(3) show "range_ports rs = range_ports ss" by simp
qed

lemma gapped_unique:
  "gapped rs \<Longrightarrow> gapped ss \<Longrightarrow> range_ports rs = range_ports ss \<Longrightarrow> rs = ss"
proof (induction rs arbitrary: ss)
  case Nil
  then show ?case using range_ports_empty [of ss] by (simp add: range_ports_def)
next
  case (Cons r rs)
  then obtain s ss' where ss: "ss = s # ss'"
    using range_ports_empty [of "r # rs"] by (cases ss) (auto simp: range_ports_def)
  have g: "gapped (s # ss')" and e: "range_ports (r # rs) = range_ports (s # ss')"
    using Cons.prems ss by simp_all
  have "rs = ss'"
    using gapped_Cons [OF Cons.prems(1)] gapped_Cons [OF g]
      gapped_head_unique(2) [OF Cons.prems(1) g e] Cons.IH by blast
  with gapped_head_unique(1) [OF Cons.prems(1) g e] ss show ?case by simp
qed

section \<open>Coverage terms\<close>

text \<open>
  \<^verbatim>\<open>_COVERAGE_TERM_PATTERN\<close>, \<^verbatim>\<open>^[0-9]{1,5}(?:-[0-9]{1,5})?$\<close>, with the two numbers that
  the code reads from the groups: the end defaults to the start.
\<close>

definition is_term_number :: "string \<Rightarrow> bool" where
  "is_term_number s \<longleftrightarrow> len_between 1 5 s \<and> list_all is_digit s"

definition match_term :: "string \<Rightarrow> (int \<times> int) option" where
  "match_term t =
     (case split_on (CHR ''-'') t of
        [a] \<Rightarrow> (if is_term_number a then Some (int (digits_val a), int (digits_val a)) else None)
      | [a, b] \<Rightarrow> (if is_term_number a \<and> is_term_number b
                   then Some (int (digits_val a), int (digits_val b)) else None)
      | _ \<Rightarrow> None)"

definition coverage_term :: "int \<times> int \<Rightarrow> string" where
  "coverage_term r = (case r of (s, e) \<Rightarrow> if s = e then int_str s else int_str s @ ''-'' @ int_str e)"

text \<open>The loop of \<^verbatim>\<open>ScanCoverage._validate_canonical_ports\<close>.\<close>

fun canonical_ports_loop :: "int \<Rightarrow> string list \<Rightarrow> validation" where
  "canonical_ports_loop previous_end [] = None"
| "canonical_ports_loop previous_end (t # ts) =
     (case match_term t of
        None \<Rightarrow> Some (Value_error ''coverage ports must be TCP ports or ranges'')
      | Some (s, e) \<Rightarrow>
          if \<not> (1 \<le> s \<and> s \<le> e \<and> e \<le> 65535)
          then Some (Value_error ''coverage ports must be between 1 and 65535'')
          else if t \<noteq> coverage_term (s, e)
               \<or> s \<le> previous_end + (if previous_end \<noteq> 0 then 1 else 0)
          then Some (Value_error ''coverage ports must be sorted and normalized'')
          else canonical_ports_loop e ts)"

definition validate_canonical_ports :: "string list \<Rightarrow> validation" where
  "validate_canonical_ports ts = canonical_ports_loop 0 ts"

text \<open>\<^verbatim>\<open>ScanCoverage.as_ranges\<close>; \<open>None\<close> is its \<^verbatim>\<open>AssertionError\<close>.\<close>

fun as_ranges :: "string list \<Rightarrow> (int \<times> int) list option" where
  "as_ranges [] = Some []"
| "as_ranges (t # ts) =
     (case match_term t of
        None \<Rightarrow> None
      | Some r \<Rightarrow> (case as_ranges ts of None \<Rightarrow> None | Some rs \<Rightarrow> Some (r # rs)))"

lemma is_term_number_int_str: "0 \<le> i \<Longrightarrow> i \<le> 65535 \<Longrightarrow> is_term_number (int_str i)"
proof -
  assume i: "0 \<le> i" "i \<le> 65535"
  then have "nat i < 10 ^ 5" by simp
  then have "length (nat_str (nat i)) \<le> 5" by (rule length_nat_str) simp
  moreover have "1 \<le> length (nat_str (nat i))"
    by (metis One_nat_def Suc_leI length_greater_0_conv nat_str_not_Nil)
  ultimately show ?thesis
    using i by (simp add: is_term_number_def len_between_def int_str_nonneg list_all_iff nat_str_digits)
qed

lemma split_int_str [simp]: "0 \<le> i \<Longrightarrow> split_on (CHR ''-'') (int_str i) = [int_str i]"
  by (rule split_on_no_sep) (simp add: int_str_nonneg nat_str_no_char)

lemma split_int_str_pair [simp]:
  "0 \<le> i \<Longrightarrow> 0 \<le> j \<Longrightarrow> split_on (CHR ''-'') (int_str i @ CHR ''-'' # int_str j) = [int_str i, int_str j]"
  by (subst split_on_append_sep) (simp_all add: int_str_nonneg nat_str_no_char split_on_no_sep)

lemma match_coverage_term [simp]:
  "0 \<le> s \<Longrightarrow> 0 \<le> e \<Longrightarrow> s \<le> 65535 \<Longrightarrow> e \<le> 65535 \<Longrightarrow> match_term (coverage_term (s, e)) = Some (s, e)"
  by (auto simp: match_term_def coverage_term_def is_term_number_int_str) (simp_all add: int_str_nonneg)

text \<open>Ranges of the loop: every range in bounds, each start beyond the previous end plus one.\<close>

fun ranges_after :: "int \<Rightarrow> (int \<times> int) list \<Rightarrow> bool" where
  "ranges_after e [] = True"
| "ranges_after e ((s, f) # rs) \<longleftrightarrow>
     1 \<le> s \<and> s \<le> f \<and> f \<le> 65535 \<and> e + (if e \<noteq> 0 then 1 else 0) < s \<and> ranges_after f rs"

lemma canonical_ports_loop_ranges:
  "canonical_ports_loop e ts = None \<longleftrightarrow>
     (\<exists>rs. as_ranges ts = Some rs \<and> ranges_after e rs \<and> ts = map coverage_term rs)"
proof (induction e ts rule: canonical_ports_loop.induct)
  case (2 e t ts)
  show ?case
  proof (cases "match_term t")
    case (Some r)
    obtain s f where r: "r = (s, f)" by (cases r)
    show ?thesis
    proof (cases "1 \<le> s \<and> s \<le> f \<and> f \<le> 65535 \<and> t = coverage_term (s, f)
        \<and> e + (if e \<noteq> 0 then 1 else 0) < s")
      case True
      with 2 [OF Some r [symmetric]] Some r show ?thesis by (auto split: option.splits if_splits)
    next
      case False
      with Some r show ?thesis by (auto split: option.splits if_splits)
    qed
  qed simp
qed simp

lemma as_ranges_coverage_terms:
  "ranges_after e rs \<Longrightarrow> as_ranges (map coverage_term rs) = Some rs"
  by (induction e rs rule: ranges_after.induct) auto

section \<open>Properties\<close>

text \<open>
  C29. Canonical port ranges: two lists of ranges that both pass field validation
  (\<^verbatim>\<open>_validate_port_ranges\<close>) and cover the same ports are the same list. So equality of
  validated range tuples, which the contract validators use to compare the scanned, the
  requested and the candidate coverage, is equality of the port sets.
\<close>

theorem validated_ranges_unique:
  assumes "validate_range_field e n rs = None" "validate_range_field e' n' ss = None"
    and "range_ports rs = range_ports ss"
  shows "rs = ss"
  using assms by (auto simp: validate_range_field_gapped intro: gapped_unique)

theorem validated_ranges_unique_witness:
  "(let r = [\<lparr>pr_start = 22, pr_end = 22\<rparr>, \<lparr>pr_start = 80, pr_end = 443\<rparr>] in
    validate_range_field False ''tcp_port_ranges'' r = None \<and> r = r)"
proof -
  let ?r = "[\<lparr>pr_start = 22, pr_end = 22\<rparr>, \<lparr>pr_start = 80, pr_end = 443\<rparr>]"
  have v: "validate_range_field False ''tcp_port_ranges'' ?r = None"
    by (simp add: validate_range_field_gapped is_port_def)
  from validated_ranges_unique [OF v v refl] v show ?thesis by simp
qed

text \<open>
  C30. Coverage terms and ranges: \<^verbatim>\<open>ScanCoverage\<close> accepts a list of terms exactly when
  \<^verbatim>\<open>as_ranges\<close> reads it to sorted, separated, in-bounds ranges whose canonical
  rendering is the list itself; and rendering any such ranges gives terms that are
  accepted and read back to them. The \<^verbatim>\<open>AssertionError\<close> of \<^verbatim>\<open>as_ranges\<close> is unreachable
  after validation.
\<close>

theorem coverage_terms_roundtrip:
  "(validate_canonical_ports ts = None \<longleftrightarrow>
     (\<exists>rs. as_ranges ts = Some rs \<and> ranges_after 0 rs \<and> map coverage_term rs = ts))
   \<and> (ranges_after 0 rs \<longrightarrow> validate_canonical_ports (map coverage_term rs) = None
     \<and> as_ranges (map coverage_term rs) = Some rs)"
  by (auto simp: validate_canonical_ports_def canonical_ports_loop_ranges as_ranges_coverage_terms)

theorem coverage_terms_roundtrip_witness:
  "validate_canonical_ports (map coverage_term [(22, 22), (80, 443)]) = None
     \<and> as_ranges (map coverage_term [(22, 22), (80, 443)]) = Some [(22, 22), (80, 443)]"
  using coverage_terms_roundtrip [of _ "[(22, 22), (80, 443)]"] by simp

text \<open>
  The merging of TCP port ranges. The inventory, the scanner and the parser each have this loop over sorted ranges: a range
  that overlaps or touches the last one extends it, any other range is appended.
\<close>

section \<open>The loop\<close>

fun merge_step :: "(int \<times> int) list \<Rightarrow> int \<times> int \<Rightarrow> (int \<times> int) list" where
  "merge_step [] r = [r]"
| "merge_step merged (start, stop) =
     (let (s, e) = last merged
      in if start \<le> e + 1 then butlast merged @ [(s, max stop e)] else merged @ [(start, stop)])"

definition merge_sorted :: "(int \<times> int) list \<Rightarrow> (int \<times> int) list" where
  "merge_sorted ranges = foldl merge_step [] ranges"

section \<open>Merged ranges\<close>

definition as_range :: "int \<times> int \<Rightarrow> tcp_port_range" where
  "as_range r = \<lparr>pr_start = fst r, pr_end = snd r\<rparr>"

lemma as_range_simps [simp]: "as_range (a, b) = \<lparr>pr_start = a, pr_end = b\<rparr>" "pr_start (as_range r) = fst r"
  "pr_end (as_range r) = snd r"
  by (simp_all add: as_range_def)

definition pair_ports :: "(int \<times> int) list \<Rightarrow> int set" where
  "pair_ports rs = (\<Union>(s, e) \<in> set rs. {s..e})"

lemma pair_ports_simps [simp]: "pair_ports [] = {}" "pair_ports (r # rs) = {fst r..snd r} \<union> pair_ports rs"
  "pair_ports (xs @ ys) = pair_ports xs \<union> pair_ports ys"
  by (auto simp: pair_ports_def)

lemma range_ports_pairs: "range_ports (map as_range rs) = pair_ports rs"
  by (force simp: range_ports_def pair_ports_def as_range_def)

lemma gapped_extend: "gapped (xs @ [\<lparr>pr_start = s, pr_end = e\<rparr>]) \<Longrightarrow> e \<le> e' \<Longrightarrow> gapped (xs @ [\<lparr>pr_start = s, pr_end = e'\<rparr>])"
  by (induction xs rule: gapped.induct) auto

lemma gapped_snoc: "gapped (xs @ [r]) \<Longrightarrow> pr_end r + 1 < pr_start r' \<Longrightarrow> pr_start r' \<le> pr_end r' \<Longrightarrow> gapped (xs @ [r, r'])"
  by (induction xs rule: gapped.induct) auto

lemma merge_step_last: "m \<noteq> [] \<Longrightarrow> merge_step m (a, b) =
    (if a \<le> snd (last m) + 1 then butlast m @ [(fst (last m), max b (snd (last m)))] else m @ [(a, b)])"
  by (cases m) (auto simp: Let_def case_prod_unfold)

lemma foldl_merge:
  assumes "sorted xs" "\<And>r. r \<in> set xs \<Longrightarrow> 1 \<le> fst r \<and> fst r \<le> snd r \<and> snd r \<le> 65535"
    and "gapped (map as_range (acc @ [(s, e)]))" "\<And>r. r \<in> set xs \<Longrightarrow> s \<le> fst r"
    and "\<And>r. r \<in> set (acc @ [(s, e)]) \<Longrightarrow> 1 \<le> fst r \<and> fst r \<le> snd r \<and> snd r \<le> 65535"
  shows "gapped (map as_range (foldl merge_step (acc @ [(s, e)]) xs))
    \<and> pair_ports (foldl merge_step (acc @ [(s, e)]) xs) = pair_ports (acc @ [(s, e)]) \<union> pair_ports xs
    \<and> (\<forall>r \<in> set (foldl merge_step (acc @ [(s, e)]) xs). 1 \<le> fst r \<and> fst r \<le> snd r \<and> snd r \<le> 65535)"
  using assms
proof (induction xs arbitrary: acc s e)
  case Nil
  then show ?case by auto
next
  case (Cons r xs)
  obtain a b where r: "r = (a, b)" by fastforce
  have ab: "1 \<le> a" "a \<le> b" "b \<le> 65535" "s \<le> a" using Cons.prems(2,4) [of r] r by auto
  have se: "1 \<le> s" "s \<le> e" "e \<le> 65535" using Cons.prems(5) [of "(s, e)"] by auto
  have later: "a \<le> fst x" if "x \<in> set xs" for x using Cons.prems(1) that r by (auto simp: less_eq_prod_def)
  have step: "merge_step (acc @ [(s, e)]) (a, b)
      = (if a \<le> e + 1 then acc @ [(s, max b e)] else (acc @ [(s, e)]) @ [(a, b)])"
    by (simp add: merge_step_last)
  show ?case
  proof (cases "a \<le> e + 1")
    case True
    have g: "gapped (map as_range (acc @ [(s, max b e)]))"
      using Cons.prems(3) gapped_extend [of "map as_range acc" s e "max b e"] by simp
    have ih: "gapped (map as_range (foldl merge_step (acc @ [(s, max b e)]) xs))
      \<and> pair_ports (foldl merge_step (acc @ [(s, max b e)]) xs) = pair_ports (acc @ [(s, max b e)]) \<union> pair_ports xs
      \<and> (\<forall>r \<in> set (foldl merge_step (acc @ [(s, max b e)]) xs). 1 \<le> fst r \<and> fst r \<le> snd r \<and> snd r \<le> 65535)"
    proof (rule Cons.IH [OF _ _ g])
      show "s \<le> fst x" if "x \<in> set xs" for x using later [OF that] ab by simp
      show "1 \<le> fst x \<and> fst x \<le> snd x \<and> snd x \<le> 65535" if "x \<in> set (acc @ [(s, max b e)])" for x
        using Cons.prems(5) [of x] that ab se by auto
    qed (use Cons.prems(1,2) in auto)
    have "{s..max b e} = {s..e} \<union> {a..b}" using True ab se by auto
    with ih True step r show ?thesis by auto
  next
    case False
    have g: "gapped (map as_range ((acc @ [(s, e)]) @ [(a, b)]))"
      using Cons.prems(3) False ab gapped_snoc [of "map as_range acc" "as_range (s, e)" "as_range (a, b)"] by simp
    have "gapped (map as_range (foldl merge_step ((acc @ [(s, e)]) @ [(a, b)]) xs))
      \<and> pair_ports (foldl merge_step ((acc @ [(s, e)]) @ [(a, b)]) xs) = pair_ports ((acc @ [(s, e)]) @ [(a, b)]) \<union> pair_ports xs
      \<and> (\<forall>r \<in> set (foldl merge_step ((acc @ [(s, e)]) @ [(a, b)]) xs). 1 \<le> fst r \<and> fst r \<le> snd r \<and> snd r \<le> 65535)"
    proof (rule Cons.IH [OF _ _ g])
      show "1 \<le> fst x \<and> fst x \<le> snd x \<and> snd x \<le> 65535" if "x \<in> set ((acc @ [(s, e)]) @ [(a, b)])" for x
        using Cons.prems(5) [of x] that ab by auto
    qed (use Cons.prems(1,2) later in auto)
    with False step r show ?thesis by auto
  qed
qed

text \<open>The merge of sorted ranges has the same ports, in sorted ranges with gaps.\<close>

lemma merge_sorted_exact:
  assumes "sorted rs" "\<And>r. r \<in> set rs \<Longrightarrow> 1 \<le> fst r \<and> fst r \<le> snd r \<and> snd r \<le> 65535"
  shows "gapped (map as_range (merge_sorted rs))" "pair_ports (merge_sorted rs) = pair_ports rs"
    "r \<in> set (merge_sorted rs) \<Longrightarrow> 1 \<le> fst r \<and> fst r \<le> snd r \<and> snd r \<le> 65535"
proof -
  have "gapped (map as_range (merge_sorted rs)) \<and> pair_ports (merge_sorted rs) = pair_ports rs
      \<and> (\<forall>r \<in> set (merge_sorted rs). 1 \<le> fst r \<and> fst r \<le> snd r \<and> snd r \<le> 65535)"
  proof (cases rs)
    case Nil
    then show ?thesis by (simp add: merge_sorted_def)
  next
    case (Cons r xs)
    obtain a b where r: "r = (a, b)" by fastforce
    have ok: "1 \<le> fst x \<and> fst x \<le> snd x \<and> snd x \<le> 65535" if "x \<in> set (r # xs)" for x using assms(2) that Cons by blast
    have "gapped (map as_range (foldl merge_step ([] @ [(a, b)]) xs))
      \<and> pair_ports (foldl merge_step ([] @ [(a, b)]) xs) = pair_ports ([] @ [(a, b)]) \<union> pair_ports xs
      \<and> (\<forall>r \<in> set (foldl merge_step ([] @ [(a, b)]) xs). 1 \<le> fst r \<and> fst r \<le> snd r \<and> snd r \<le> 65535)"
    proof (rule foldl_merge)
      show "gapped (map as_range ([] @ [(a, b)]))" using ok [of r] r by simp
    qed (use assms(1) ok ok [of r] r Cons in \<open>auto simp: less_eq_prod_def\<close>)
    then show ?thesis using Cons r by (simp add: merge_sorted_def)
  qed
  then show "gapped (map as_range (merge_sorted rs))" "pair_ports (merge_sorted rs) = pair_ports rs"
    "r \<in> set (merge_sorted rs) \<Longrightarrow> 1 \<le> fst r \<and> fst r \<le> snd r \<and> snd r \<le> 65535" by auto
qed

lemma card_pair_ports:
  "gapped (map as_range rs) \<Longrightarrow> (\<And>r. r \<in> set rs \<Longrightarrow> fst r \<le> snd r)
     \<Longrightarrow> int (card (pair_ports rs)) = sum_list (map (\<lambda>(start, stop). stop - start + 1) rs)
       \<and> finite (pair_ports rs)"
proof (induction rs)
  case (Cons r rs)
  have g: "gapped (map as_range rs)" using Cons.prems(1) by (cases rs) auto
  have ih: "int (card (pair_ports rs)) = sum_list (map (\<lambda>(start, stop). stop - start + 1) rs)" "finite (pair_ports rs)"
    using Cons.IH [OF g] Cons.prems(2) by auto
  have "{fst r..snd r} \<inter> range_ports (map as_range rs) = {}"
    using Cons.prems(1) gapped_Cons [of "as_range r" "map as_range rs"] by (force simp: range_ports_def)
  then have "{fst r..snd r} \<inter> pair_ports rs = {}" by (simp add: range_ports_pairs)
  then have "card (pair_ports (r # rs)) = card {fst r..snd r} + card (pair_ports rs)"
    using ih(2) by (simp add: card_Un_disjoint)
  with ih Cons.prems(2) [of r] show ?case by (simp add: case_prod_unfold)
qed simp

lemma pair_ports_cong: "set rs = set ss \<Longrightarrow> pair_ports rs = pair_ports ss"
  by (simp add: pair_ports_def)

end
