(* ===== verification/Contract_Target.thy ===== *)
theory Contract_Target
  imports Port_Ranges
begin

text \<open>
  The target contracts (\<^verbatim>\<open>contracts/.../models.py\<close>): stable targets, source observations,
  policy changes, scan directives, the AWS context and the two target events, each with
  its field constraints, its validators and its deterministic identifier.
\<close>

section \<open>Enumerations\<close>

datatype cloud_provider = AWS

datatype address_family = IPV4

datatype transport_protocol = TCP

datatype scan_reason = NEW_TARGET | TARGET_CHANGE | POLICY_CHANGE | COVERAGE | MANUAL

datatype scan_profile = FAST_FULL_TCP | TARGETED_TCP | DEEP

datatype scan_outcome = COMPLETE | PARTIAL | FAILED | CANCELLED | FRESHNESS_REJECTED

datatype target_event_type = TARGET_UPSERT | TARGET_REMOVED | POLICY_CHANGED | RESCAN_REQUESTED

primrec provider_value :: "cloud_provider \<Rightarrow> string" where
  "provider_value AWS = ''aws''"

primrec family_value :: "address_family \<Rightarrow> string" where
  "family_value IPV4 = ''ipv4''"

primrec transport_value :: "transport_protocol \<Rightarrow> string" where
  "transport_value TCP = ''tcp''"

primrec reason_value :: "scan_reason \<Rightarrow> string" where
  "reason_value NEW_TARGET = ''new_target''"
| "reason_value TARGET_CHANGE = ''target_change''"
| "reason_value POLICY_CHANGE = ''policy_change''"
| "reason_value COVERAGE = ''coverage''"
| "reason_value MANUAL = ''manual''"

primrec profile_value :: "scan_profile \<Rightarrow> string" where
  "profile_value FAST_FULL_TCP = ''fast-full-tcp''"
| "profile_value TARGETED_TCP = ''targeted-tcp''"
| "profile_value DEEP = ''deep''"

primrec outcome_value :: "scan_outcome \<Rightarrow> string" where
  "outcome_value COMPLETE = ''complete''"
| "outcome_value PARTIAL = ''partial''"
| "outcome_value FAILED = ''failed''"
| "outcome_value CANCELLED = ''cancelled''"
| "outcome_value FRESHNESS_REJECTED = ''freshness_rejected''"

primrec event_type_value :: "target_event_type \<Rightarrow> string" where
  "event_type_value TARGET_UPSERT = ''target.upsert''"
| "event_type_value TARGET_REMOVED = ''target.removed''"
| "event_type_value POLICY_CHANGED = ''policy.changed''"
| "event_type_value RESCAN_REQUESTED = ''rescan.requested''"

section \<open>Target\<close>

record target =
  target_id :: string
  provider :: cloud_provider
  scope_id :: string
  location :: string
  resource_id :: string
  private_address :: string
  public_address :: string
  address_family :: address_family
  transport :: transport_protocol
  generation :: int

definition target_identity_payload :: "target \<Rightarrow> json" where
  "target_identity_payload t = JObj
     [(''provider'', JStr (provider_value (provider t))), (''scope_id'', JStr (scope_id t)),
      (''location'', JStr (location t)), (''resource_id'', JStr (resource_id t)),
      (''private_address'', JStr (private_address t)),
      (''address_family'', JStr (family_value (address_family t)))]"

definition expected_target_id :: "target \<Rightarrow> string" where
  "expected_target_id t = namespaced_sha256 ''portscanner.target.v1'' (target_identity_payload t)"

definition validate_target :: "bool \<Rightarrow> target \<Rightarrow> validation" where
  "validate_target skip t = checks
     [fieldc (is_sha256_hex (target_id t)) ''target_id'',
      fieldc (is_account_id (scope_id t)) ''scope_id'',
      fieldc (is_region (location t)) ''location'',
      fieldc (is_eni (resource_id t)) ''resource_id'',
      err_of (validate_ipv4 (private_address t)),
      err_of (validate_public_ipv4 (public_address t)),
      fieldc (is_generation (generation t)) ''generation'',
      validate_deterministic_id skip ''target_id'' (target_id t) (expected_target_id t)]"

definition target_json :: "target \<Rightarrow> json" where
  "target_json t = JObj
     [(''target_id'', JStr (target_id t)), (''provider'', JStr (provider_value (provider t))),
      (''scope_id'', JStr (scope_id t)), (''location'', JStr (location t)),
      (''resource_id'', JStr (resource_id t)), (''private_address'', JStr (private_address t)),
      (''public_address'', JStr (public_address t)),
      (''address_family'', JStr (family_value (address_family t))),
      (''transport'', JStr (transport_value (transport t))), (''generation'', JInt (generation t))]"

definition create_target :: "target \<Rightarrow> contract_error + target" where
  "create_target = create (\<lambda>i. target_id_update (\<lambda>_. i)) expected_target_id validate_target"

interpretation target_model: leaf_model target_id "\<lambda>i. target_id_update (\<lambda>_. i)"
  expected_target_id validate_target
  by unfold_locales
    (auto simp: expected_target_id_def target_identity_payload_def validate_target_def)

section \<open>Source observation\<close>

record source_observation =
  observation_id :: string
  source_event_name :: string
  source_event_id :: string
  source_request_id :: string
  event_time :: time
  observed_at :: time
  collected_at :: time

definition source_identity_payload :: "source_observation \<Rightarrow> json" where
  "source_identity_payload s = JObj
     [(''source_event_name'', JStr (source_event_name s)),
      (''source_event_id'', JStr (source_event_id s)),
      (''source_request_id'', JStr (source_request_id s)),
      (''event_time'', jtime (event_time s)), (''observed_at'', jtime (observed_at s)),
      (''collected_at'', jtime (collected_at s))]"

definition expected_observation_id :: "source_observation \<Rightarrow> string" where
  "expected_observation_id s =
     namespaced_sha256 ''portscanner.source-observation.v1'' (source_identity_payload s)"

definition validate_source :: "bool \<Rightarrow> source_observation \<Rightarrow> validation" where
  "validate_source skip s = checks
     [fieldc (is_sha256_hex (observation_id s)) ''observation_id'',
      fieldc (is_source_name (source_event_name s)) ''source_event_name'',
      fieldc (is_bounded_text (source_event_id s)) ''source_event_id'',
      require (\<not> is_blank (source_event_id s)) (Value_error ''source identifiers must not be blank''),
      fieldc (is_bounded_text (source_request_id s)) ''source_request_id'',
      require (\<not> is_blank (source_request_id s)) (Value_error ''source identifiers must not be blank''),
      validate_deterministic_id skip ''observation_id'' (observation_id s) (expected_observation_id s),
      require (\<not> event_time s > observed_at s)
        (Value_error ''event_time must not be later than observed_at''),
      require (\<not> observed_at s > collected_at s)
        (Value_error ''observed_at must not be later than collected_at'')]"

definition source_json :: "source_observation \<Rightarrow> json" where
  "source_json s = JObj
     [(''observation_id'', JStr (observation_id s)),
      (''source_event_name'', JStr (source_event_name s)),
      (''source_event_id'', JStr (source_event_id s)),
      (''source_request_id'', JStr (source_request_id s)),
      (''event_time'', jtime (event_time s)), (''observed_at'', jtime (observed_at s)),
      (''collected_at'', jtime (collected_at s))]"

definition create_source :: "source_observation \<Rightarrow> contract_error + source_observation" where
  "create_source = create (\<lambda>i. observation_id_update (\<lambda>_. i)) expected_observation_id validate_source"

interpretation source_model: leaf_model observation_id "\<lambda>i. observation_id_update (\<lambda>_. i)"
  expected_observation_id validate_source
  by unfold_locales
    (auto simp: expected_observation_id_def source_identity_payload_def validate_source_def)

section \<open>Policy change\<close>

record policy_change =
  policy_change_id :: string
  pc_target_id :: string
  previous_fingerprint :: "string option"
  current_fingerprint :: string
  changed_at :: time
  pc_candidate_ranges :: "tcp_port_range list"

definition policy_identity_fields :: "policy_change \<Rightarrow> (string \<times> json) list" where
  "policy_identity_fields p =
     [(''target_id'', JStr (pc_target_id p)),
      (''previous_fingerprint'', jopt JStr (previous_fingerprint p)),
      (''current_fingerprint'', JStr (current_fingerprint p)),
      (''changed_at'', jtime (changed_at p)),
      (''candidate_tcp_port_ranges'', JArr (map range_json (pc_candidate_ranges p)))]"

definition expected_policy_change_id :: "policy_change \<Rightarrow> string" where
  "expected_policy_change_id p =
     namespaced_sha256 ''portscanner.policy-change.v1'' (JObj (policy_identity_fields p))"

definition validate_policy_change :: "bool \<Rightarrow> policy_change \<Rightarrow> validation" where
  "validate_policy_change skip p = checks
     [fieldc (is_sha256_hex (policy_change_id p)) ''policy_change_id'',
      fieldc (is_sha256_hex (pc_target_id p)) ''target_id'',
      fieldc (opt_ok is_sha256_hex (previous_fingerprint p)) ''previous_fingerprint'',
      fieldc (is_sha256_hex (current_fingerprint p)) ''current_fingerprint'',
      validate_range_field True ''candidate_tcp_port_ranges'' (pc_candidate_ranges p),
      validate_deterministic_id skip ''policy_change_id'' (policy_change_id p)
        (expected_policy_change_id p),
      require (previous_fingerprint p \<noteq> Some (current_fingerprint p))
        (Value_error ''policy fingerprints must differ'')]"

definition policy_change_json :: "policy_change \<Rightarrow> json" where
  "policy_change_json p =
     JObj ((''policy_change_id'', JStr (policy_change_id p)) # policy_identity_fields p)"

definition create_policy_change :: "policy_change \<Rightarrow> contract_error + policy_change" where
  "create_policy_change =
     create (\<lambda>i. policy_change_id_update (\<lambda>_. i)) expected_policy_change_id validate_policy_change"

interpretation policy_model: leaf_model policy_change_id "\<lambda>i. policy_change_id_update (\<lambda>_. i)"
  expected_policy_change_id validate_policy_change
  by unfold_locales
    (auto simp: expected_policy_change_id_def policy_identity_fields_def validate_policy_change_def)

section \<open>Scan directive\<close>

record scan_directive =
  directive_id :: string
  sd_target_id :: string
  sd_target_generation :: int
  sd_reason :: scan_reason
  sd_profile :: scan_profile
  priority :: int
  requested_at :: time
  deadline_at :: time
  not_after :: time
  tcp_port_ranges :: "tcp_port_range list"

definition directive_identity_fields :: "scan_directive \<Rightarrow> (string \<times> json) list" where
  "directive_identity_fields d =
     [(''target_id'', JStr (sd_target_id d)), (''target_generation'', JInt (sd_target_generation d)),
      (''reason'', JStr (reason_value (sd_reason d))),
      (''profile'', JStr (profile_value (sd_profile d))), (''priority'', JInt (priority d)),
      (''requested_at'', jtime (requested_at d)), (''deadline_at'', jtime (deadline_at d)),
      (''not_after'', jtime (not_after d)),
      (''tcp_port_ranges'', JArr (map range_json (tcp_port_ranges d)))]"

definition expected_directive_id :: "scan_directive \<Rightarrow> string" where
  "expected_directive_id d =
     namespaced_sha256 ''portscanner.scan-directive.v1'' (JObj (directive_identity_fields d))"

definition validate_directive :: "bool \<Rightarrow> scan_directive \<Rightarrow> validation" where
  "validate_directive skip d = checks
     [fieldc (is_sha256_hex (directive_id d)) ''directive_id'',
      fieldc (is_sha256_hex (sd_target_id d)) ''target_id'',
      fieldc (is_generation (sd_target_generation d)) ''target_generation'',
      fieldc (is_priority (priority d)) ''priority'',
      validate_range_field False ''tcp_port_ranges'' (tcp_port_ranges d),
      validate_deterministic_id skip ''directive_id'' (directive_id d) (expected_directive_id d),
      require (requested_at d \<le> deadline_at d \<and> deadline_at d \<le> not_after d)
        (Value_error ''requested_at, deadline_at, and not_after must be ordered''),
      require (\<not> (sd_profile d \<in> {FAST_FULL_TCP, DEEP} \<and> tcp_port_ranges d \<noteq> [full_tcp_port_range]))
        (Value_error (profile_value (sd_profile d) @ '' requires the complete TCP port range''))]"

definition directive_json :: "scan_directive \<Rightarrow> json" where
  "directive_json d = JObj ((''directive_id'', JStr (directive_id d)) # directive_identity_fields d)"

definition create_directive :: "scan_directive \<Rightarrow> contract_error + scan_directive" where
  "create_directive =
     create (\<lambda>i. directive_id_update (\<lambda>_. i)) expected_directive_id validate_directive"

interpretation directive_model: leaf_model directive_id "\<lambda>i. directive_id_update (\<lambda>_. i)"
  expected_directive_id validate_directive
  by unfold_locales
    (auto simp: expected_directive_id_def directive_identity_fields_def validate_directive_def)

end
