(* ===== verification/Contract_Finding.thy ===== *)
theory Contract_Finding
  imports Contract_Target
begin

text \<open>
  The finding contracts (\<^verbatim>\<open>contracts/.../models.py\<close>): the current state of a finding, one
  lifecycle transition, and the document that the parser publishes for it.
\<close>

section \<open>Enumerations\<close>

datatype finding_kind = FINDING_EVENT | CURRENT_FINDING

datatype finding_status = OPEN | RESOLVED_ST

datatype finding_severity = INFORMATIONAL | LOW | MEDIUM | HIGH | CRITICAL

datatype finding_event_type = OPENED | REOPENED | UPDATED | RESOLVED

datatype finding_reason =
    EXPOSURE_OPEN | EXPOSURE_REOPENED | RECONCILIATION_REPAIR | SERVICE_CHANGED | ADDRESS_CHANGED
  | RULE_CHANGED | OWNERSHIP_REMOVED | EXPOSURE_CLOSED | RULE_DISABLED | RULE_NO_LONGER_MATCHES

datatype finding_source_kind = SCAN_ATTEMPT | TARGET_EVENT | RECONCILIATION

primrec kind_value :: "finding_kind \<Rightarrow> string" where
  "kind_value FINDING_EVENT = ''finding_event''"
| "kind_value CURRENT_FINDING = ''current_finding''"

primrec status_value :: "finding_status \<Rightarrow> string" where
  "status_value OPEN = ''open''"
| "status_value RESOLVED_ST = ''resolved''"

primrec severity_value :: "finding_severity \<Rightarrow> string" where
  "severity_value INFORMATIONAL = ''informational''"
| "severity_value LOW = ''low''"
| "severity_value MEDIUM = ''medium''"
| "severity_value HIGH = ''high''"
| "severity_value CRITICAL = ''critical''"

primrec finding_event_type_value :: "finding_event_type \<Rightarrow> string" where
  "finding_event_type_value OPENED = ''opened''"
| "finding_event_type_value REOPENED = ''reopened''"
| "finding_event_type_value UPDATED = ''updated''"
| "finding_event_type_value RESOLVED = ''resolved''"

primrec finding_reason_value :: "finding_reason \<Rightarrow> string" where
  "finding_reason_value EXPOSURE_OPEN = ''exposure_open''"
| "finding_reason_value EXPOSURE_REOPENED = ''exposure_reopened''"
| "finding_reason_value RECONCILIATION_REPAIR = ''reconciliation_repair''"
| "finding_reason_value SERVICE_CHANGED = ''service_changed''"
| "finding_reason_value ADDRESS_CHANGED = ''address_changed''"
| "finding_reason_value RULE_CHANGED = ''rule_changed''"
| "finding_reason_value OWNERSHIP_REMOVED = ''ownership_removed''"
| "finding_reason_value EXPOSURE_CLOSED = ''exposure_closed''"
| "finding_reason_value RULE_DISABLED = ''rule_disabled''"
| "finding_reason_value RULE_NO_LONGER_MATCHES = ''rule_no_longer_matches''"

primrec source_kind_value :: "finding_source_kind \<Rightarrow> string" where
  "source_kind_value SCAN_ATTEMPT = ''scan_attempt''"
| "source_kind_value TARGET_EVENT = ''target_event''"
| "source_kind_value RECONCILIATION = ''reconciliation''"

text \<open>\<^verbatim>\<open>FindingResolutionReason\<close>: the reasons a resolved finding may carry.\<close>

definition is_resolution_reason :: "finding_reason \<Rightarrow> bool" where
  "is_resolution_reason r \<longleftrightarrow>
     r \<in> {OWNERSHIP_REMOVED, EXPOSURE_CLOSED, RULE_DISABLED, RULE_NO_LONGER_MATCHES}"

section \<open>Finding record\<close>

record finding_service =
  fs_name :: "string option"
  fs_product :: "string option"
  fs_version :: "string option"
  certificate_sha256 :: "string option"
  ssh_host_key_sha256 :: "string option"
  banner_sha256 :: "string option"
  identity_sha256 :: string

definition service_text_ok :: "string option \<Rightarrow> string \<Rightarrow> validation" where
  "service_text_ok v name = checks
     [fieldc (opt_ok is_bounded_text v) name,
      require (opt_ok (\<lambda>s. \<not> is_blank s) v) (Value_error ''service fields must not be blank'')]"

definition validate_finding_service :: "finding_service \<Rightarrow> validation" where
  "validate_finding_service s = checks
     [service_text_ok (fs_name s) ''name'', service_text_ok (fs_product s) ''product'',
      service_text_ok (fs_version s) ''version'',
      fieldc (opt_ok is_sha256_hex (certificate_sha256 s)) ''certificate_sha256'',
      fieldc (opt_ok is_sha256_hex (ssh_host_key_sha256 s)) ''ssh_host_key_sha256'',
      fieldc (opt_ok is_sha256_hex (banner_sha256 s)) ''banner_sha256'',
      fieldc (is_sha256_hex (identity_sha256 s)) ''identity_sha256'']"

record finding_record =
  fr_fingerprint :: string
  fr_target_id :: string
  fr_provider :: string
  fr_generation :: int
  fr_protocol :: string
  fr_port :: int
  fr_rule_key :: string
  fr_status :: finding_status
  fr_severity :: finding_severity
  fr_title :: string
  fr_description :: string
  fr_observed_address :: string
  fr_service :: finding_service
  fr_first_opened_at :: time
  fr_last_seen_at :: time
  fr_last_changed_at :: time
  fr_resolved_at :: "time option"
  fr_resolution_reason :: "finding_reason option"
  fr_version :: int

text \<open>The field constraints of \<^verbatim>\<open>FindingRecord\<close>.\<close>

definition validate_finding_fields :: "finding_record \<Rightarrow> validation" where
  "validate_finding_fields f = checks
     [fieldc (is_sha256_hex (fr_fingerprint f)) ''fingerprint'',
      fieldc (is_sha256_hex (fr_target_id f)) ''target_id'',
      fieldc (fr_provider f = provider_value AWS) ''provider'',
      fieldc (is_generation (fr_generation f)) ''generation'',
      fieldc (fr_protocol f = transport_value TCP) ''protocol'',
      fieldc (is_port (fr_port f)) ''port'',
      fieldc (is_rule_key (fr_rule_key f)) ''rule_key'',
      fieldc (is_bounded_text (fr_title f)) ''title'',
      require (\<not> is_blank (fr_title f)) (Value_error ''finding text fields must not be blank''),
      fieldc (is_long_bounded_text (fr_description f)) ''description'',
      require (\<not> is_blank (fr_description f)) (Value_error ''finding text fields must not be blank''),
      err_of (validate_public_ipv4 (fr_observed_address f)),
      validate_finding_service (fr_service f),
      fieldc (opt_ok is_resolution_reason (fr_resolution_reason f)) ''resolution_reason'',
      fieldc (1 \<le> fr_version f) ''version'']"

text \<open>\<^verbatim>\<open>FindingRecord._validate_state_and_timeline\<close>\<close>

definition validate_state_and_timeline :: "finding_record \<Rightarrow> validation" where
  "validate_state_and_timeline f = checks
     ([require (\<not> fr_first_opened_at f > fr_last_seen_at f)
         (Value_error ''first_opened_at must not be later than last_seen_at''),
       require (\<not> fr_first_opened_at f > fr_last_changed_at f)
         (Value_error ''first_opened_at must not be later than last_changed_at'')]
      @ (case fr_status f of
           OPEN \<Rightarrow>
             [require (fr_resolved_at f = None \<and> fr_resolution_reason f = None)
                (Value_error ''open findings cannot contain resolution fields'')]
         | RESOLVED_ST \<Rightarrow>
             [(case (fr_resolved_at f, fr_resolution_reason f) of
                 (Some at, Some _) \<Rightarrow> checks
                   [require (\<not> fr_last_seen_at f > at)
                      (Value_error ''last_seen_at must not be later than resolved_at''),
                    require (fr_last_changed_at f = at)
                      (Value_error ''resolved_at must equal last_changed_at'')]
               | _ \<Rightarrow> Some (Value_error ''resolved findings require resolution fields''))]))"

definition validate_finding_record :: "finding_record \<Rightarrow> validation" where
  "validate_finding_record f = checks [validate_finding_fields f, validate_state_and_timeline f]"

section \<open>Finding event\<close>

record finding_event_source =
  es_kind :: finding_source_kind
  es_key :: string

definition validate_event_source :: "finding_event_source \<Rightarrow> validation" where
  "validate_event_source s = checks
     [fieldc (is_bounded_text (es_key s)) ''key'',
      require (\<not> is_blank (es_key s)) (Value_error ''finding event source key must not be blank'')]"

record finding_event =
  fe_event_key :: string
  fe_event_type :: finding_event_type
  fe_previous_status :: "finding_status option"
  fe_new_status :: finding_status
  fe_reason :: finding_reason
  fe_occurred_at :: time
  fe_source :: finding_event_source

primrec expected_statuses :: "finding_event_type \<Rightarrow> finding_status option \<times> finding_status" where
  "expected_statuses OPENED = (None, OPEN)"
| "expected_statuses REOPENED = (Some RESOLVED_ST, OPEN)"
| "expected_statuses UPDATED = (Some OPEN, OPEN)"
| "expected_statuses RESOLVED = (Some OPEN, RESOLVED_ST)"

primrec allowed_reasons :: "finding_event_type \<Rightarrow> finding_reason list" where
  "allowed_reasons OPENED = [EXPOSURE_OPEN, EXPOSURE_REOPENED, RECONCILIATION_REPAIR]"
| "allowed_reasons REOPENED = [EXPOSURE_REOPENED, RECONCILIATION_REPAIR]"
| "allowed_reasons UPDATED = [SERVICE_CHANGED, ADDRESS_CHANGED, RULE_CHANGED]"
| "allowed_reasons RESOLVED =
     [OWNERSHIP_REMOVED, EXPOSURE_CLOSED, RULE_DISABLED, RULE_NO_LONGER_MATCHES]"

text \<open>\<^verbatim>\<open>FindingEvent._validate_transition\<close>\<close>

definition validate_transition :: "finding_event \<Rightarrow> validation" where
  "validate_transition e = checks
     [require ((fe_previous_status e, fe_new_status e) = expected_statuses (fe_event_type e))
        (Value_error ''finding event statuses must match event_type''),
      require (fe_reason e \<in> set (allowed_reasons (fe_event_type e)))
        (Value_error ''finding event reason must match event_type'')]"

definition validate_finding_event :: "finding_event \<Rightarrow> validation" where
  "validate_finding_event e = checks
     [fieldc (is_sha256_hex (fe_event_key e)) ''event_key'', validate_event_source (fe_source e),
      validate_transition e]"

section \<open>Finding document\<close>

record finding_doc =
  fd_schema_version :: string
  fd_kind :: finding_kind
  fd_finding :: finding_record
  fd_event :: "finding_event option"

text \<open>
  \<^verbatim>\<open>Finding._validate_document_kind\<close>. An absent event and an explicit null differ only
  for current findings, whose documents must omit the key; the record's \<open>None\<close> is the
  omitted key.
\<close>

definition validate_document_kind :: "finding_doc \<Rightarrow> validation" where
  "validate_document_kind d = checks
     [(case fd_kind d of
         FINDING_EVENT \<Rightarrow> require (fd_event d \<noteq> None) (Value_error ''finding_event documents require event'')
       | CURRENT_FINDING \<Rightarrow> require (fd_event d = None) (Value_error ''current_finding documents must omit event'')),
      (case fd_event d of
         None \<Rightarrow> None
       | Some e \<Rightarrow> checks
           [require (fe_new_status e = fr_status (fd_finding d))
              (Value_error ''finding event new_status must match finding status''),
            require (fe_occurred_at e = fr_last_changed_at (fd_finding d))
              (Value_error ''finding event occurred_at must match last_changed_at''),
            require (\<not> (fe_event_type e = RESOLVED
                        \<and> (fr_resolution_reason (fd_finding d) = None
                           \<or> Some (fe_reason e) \<noteq> fr_resolution_reason (fd_finding d))))
              (Value_error ''resolved event reason must match resolution_reason'')])]"

definition validate_finding_doc :: "finding_doc \<Rightarrow> validation" where
  "validate_finding_doc d = checks
     [fieldc (fd_schema_version d = ''1.0'') ''schema_version'',
      validate_finding_record (fd_finding d),
      (case fd_event d of None \<Rightarrow> None | Some e \<Rightarrow> validate_finding_event e),
      validate_document_kind d]"

lemma validate_state_and_timeline_None:
  "validate_state_and_timeline f = None \<longleftrightarrow>
     fr_first_opened_at f \<le> fr_last_seen_at f \<and> fr_first_opened_at f \<le> fr_last_changed_at f
     \<and> (case fr_status f of
          OPEN \<Rightarrow> fr_resolved_at f = None \<and> fr_resolution_reason f = None
        | RESOLVED_ST \<Rightarrow> fr_resolution_reason f \<noteq> None \<and> fr_resolved_at f = Some (fr_last_changed_at f)
                          \<and> fr_last_seen_at f \<le> fr_last_changed_at f)"
  by (auto simp: validate_state_and_timeline_def split: finding_status.splits option.splits)

section \<open>Serialisation\<close>

definition service_json :: "finding_service \<Rightarrow> json" where
  "service_json s = JObj
     [(''name'', jopt JStr (fs_name s)), (''product'', jopt JStr (fs_product s)),
      (''version'', jopt JStr (fs_version s)),
      (''certificate_sha256'', jopt JStr (certificate_sha256 s)),
      (''ssh_host_key_sha256'', jopt JStr (ssh_host_key_sha256 s)),
      (''banner_sha256'', jopt JStr (banner_sha256 s)),
      (''identity_sha256'', JStr (identity_sha256 s))]"

definition finding_record_json :: "finding_record \<Rightarrow> json" where
  "finding_record_json f = JObj
     [(''fingerprint'', JStr (fr_fingerprint f)), (''target_id'', JStr (fr_target_id f)),
      (''provider'', JStr (fr_provider f)), (''generation'', JInt (fr_generation f)),
      (''protocol'', JStr (fr_protocol f)), (''port'', JInt (fr_port f)),
      (''rule_key'', JStr (fr_rule_key f)), (''status'', JStr (status_value (fr_status f))),
      (''severity'', JStr (severity_value (fr_severity f))), (''title'', JStr (fr_title f)),
      (''description'', JStr (fr_description f)),
      (''observed_address'', JStr (fr_observed_address f)),
      (''service'', service_json (fr_service f)),
      (''first_opened_at'', jtime (fr_first_opened_at f)),
      (''last_seen_at'', jtime (fr_last_seen_at f)),
      (''last_changed_at'', jtime (fr_last_changed_at f)),
      (''resolved_at'', jopt jtime (fr_resolved_at f)),
      (''resolution_reason'', jopt (\<lambda>r. JStr (finding_reason_value r)) (fr_resolution_reason f)),
      (''version'', JInt (fr_version f))]"

definition finding_event_json :: "finding_event \<Rightarrow> json" where
  "finding_event_json e = JObj
     [(''event_key'', JStr (fe_event_key e)),
      (''event_type'', JStr (finding_event_type_value (fe_event_type e))),
      (''previous_status'', jopt (\<lambda>s. JStr (status_value s)) (fe_previous_status e)),
      (''new_status'', JStr (status_value (fe_new_status e))),
      (''reason'', JStr (finding_reason_value (fe_reason e))),
      (''occurred_at'', jtime (fe_occurred_at e)),
      (''source'', JObj [(''kind'', JStr (source_kind_value (es_kind (fe_source e)))),
                         (''key'', JStr (es_key (fe_source e)))])]"

text \<open>\<^verbatim>\<open>Finding.to_dict\<close>: the event key is left out of documents without an event.\<close>

definition finding_doc_json :: "finding_doc \<Rightarrow> json" where
  "finding_doc_json d = JObj
     ([(''schema_version'', JStr (fd_schema_version d)), (''kind'', JStr (kind_value (fd_kind d))),
       (''finding'', finding_record_json (fd_finding d))]
      @ (case fd_event d of None \<Rightarrow> [] | Some e \<Rightarrow> [(''event'', finding_event_json e)]))"

end
