(* ===== verification/Parser_Database.thy ===== *)
theory Parser_Database
  imports Effects Contract_Finding
begin

text \<open>
  The data plane of the parser: its in-memory shapes (\<^verbatim>\<open>parser/.../models.py\<close>), the tables
  of the \<^verbatim>\<open>act\<close> schema as they are read and written by \<^verbatim>\<open>parser/.../database.py\<close>, the
  exceptions of the repository, and its hash helpers.

  A table is an association list by primary key. A write that breaks the primary key, a
  unique constraint or a \<^verbatim>\<open>CHECK\<close> constraint named in the schema raises
  \<open>Database_error\<close>. Columns whose \<^verbatim>\<open>CHECK\<close> lists their values are datatypes. The seven
  service columns that several tables share are one \<^typ>\<open>finding_service\<close>. \<^verbatim>\<open>INET\<close>
  columns hold the canonical text of the address. The columns of an attempt that describe
  one stored object are one \<open>stored_object\<close>. Audit timestamps that the database fills in
  by itself (\<^verbatim>\<open>created_at\<close>, \<^verbatim>\<open>updated_at\<close>, \<^verbatim>\<open>ingested_at\<close>) and that nothing reads back
  are left out.
\<close>

section \<open>In-memory shapes\<close>

datatype parser_error =
    Data_invariant string
  | Unknown_target string
  | Attempt_conflict string
  | Rule_configuration string
  | Database_error string

text \<open>\<^verbatim>\<open>_PORT_SPEC\<close> and \<^verbatim>\<open>port_spec_bounds\<close>; \<open>None\<close> is the \<^verbatim>\<open>ValueError\<close>.\<close>

definition is_number :: "string \<Rightarrow> bool" where
  "is_number s \<longleftrightarrow> s \<noteq> [] \<and> list_all is_digit s"

definition port_spec_bounds :: "string \<Rightarrow> (int \<times> int) option" where
  "port_spec_bounds spec =
     (case (case split_on (CHR ''-'') spec of
              [a] \<Rightarrow> (if is_number a then Some (int (digits_val a), int (digits_val a)) else None)
            | [a, b] \<Rightarrow> (if is_number a \<and> is_number b
                         then Some (int (digits_val a), int (digits_val b)) else None)
            | _ \<Rightarrow> None)
      of None \<Rightarrow> None
       | Some (start, stop) \<Rightarrow>
           (if 1 \<le> start \<and> start \<le> stop \<and> stop \<le> 65535 then Some (start, stop) else None))"

record coverage_declaration =
  cv_protocol :: string
  cv_port_spec :: string
  cv_port_from :: "int option"
  cv_port_to :: "int option"
  cv_complete :: bool

text \<open>\<^verbatim>\<open>CoverageDeclaration.from_mapping\<close> on the protocol, the completeness flag and the specs.\<close>

fun coverage_specs :: "string \<Rightarrow> bool \<Rightarrow> string list \<Rightarrow> coverage_declaration list option" where
  "coverage_specs protocol complete [] = Some []"
| "coverage_specs protocol complete (spec # specs) =
     (case port_spec_bounds spec of
        None \<Rightarrow> None
      | Some (start, stop) \<Rightarrow>
          (case coverage_specs protocol complete specs of
             None \<Rightarrow> None
           | Some ds \<Rightarrow>
               Some (\<lparr>cv_protocol = protocol, cv_port_spec = spec, cv_port_from = Some start,
                      cv_port_to = Some stop, cv_complete = complete\<rparr> # ds)))"

definition coverage_from_mapping :: "string \<Rightarrow> bool \<Rightarrow> string list \<Rightarrow> coverage_declaration list option" where
  "coverage_from_mapping protocol complete ports =
     (case coverage_specs (py_lower protocol) complete ports of
        None \<Rightarrow> None
      | Some [] \<Rightarrow> None
      | Some ds \<Rightarrow> Some ds)"

definition cv_contains :: "coverage_declaration \<Rightarrow> string \<Rightarrow> int \<Rightarrow> bool" where
  "cv_contains c protocol port =
     (cv_complete c \<and> cv_protocol c = protocol \<and>
      (case (cv_port_from c, cv_port_to c) of
         (Some lo, Some hi) \<Rightarrow> lo \<le> port \<and> port \<le> hi
       | _ \<Rightarrow> False))"

record raw_reference =
  rr_bucket :: string
  rr_key :: string
  rr_sha256 :: string
  rr_version_id :: "string option"

record scan_envelope =
  en_attempt_id :: string
  en_result_id :: string
  en_run_id :: string
  en_directive_id :: string
  en_target_event_id :: string
  en_trace_id :: string
  en_provider :: string
  en_target_id :: string
  en_generation :: int
  en_address :: string
  en_profile :: string
  en_scanner_version :: string
  en_outcome :: string
  en_exit_code :: "int option"
  en_error_type :: "string option"
  en_error_retryable :: "bool option"
  en_scan_started_at :: time
  en_scan_completed_at :: time
  en_result_uploaded_at :: time
  en_coverage :: "coverage_declaration list"
  en_declared_open_tcp_ports :: "int list"
  en_raw_result :: "raw_reference option"
  en_enrichment_result :: "raw_reference option"

datatype port_state = Port_open | Port_closed | Port_filtered | Port_unknown

record observation =
  ob_protocol :: string
  ob_port :: int
  ob_address :: string
  ob_state :: port_state
  ob_service :: finding_service
  ob_observed_at :: time

datatype inventory_event_type = Upsert | Remove

record inventory_event =
  ev_event_id :: string
  ev_target_id :: string
  ev_generation :: int
  ev_event_type :: inventory_event_type
  ev_provider :: string
  ev_provider_scope_id :: string
  ev_provider_target_id :: string
  ev_location :: "string option"
  ev_addresses :: "string list"
  ev_context :: json
  ev_source_observed_at :: time
  ev_scan_reason :: "string option"
  ev_source_event_time :: "time option"
  ev_source_collected_at :: "time option"
  ev_dispatched_at :: "time option"
  ev_removed_at :: "time option"

section \<open>Rows\<close>

datatype target_status = Active | Removed

record target_row =
  tg_provider :: string
  tg_provider_scope_id :: string
  tg_provider_target_id :: string
  tg_location :: "string option"
  tg_current_generation :: int
  tg_status :: target_status
  tg_current_addresses :: "string list"
  tg_context :: json
  tg_source_observed_at :: time
  tg_last_attempt_at :: "time option"
  tg_last_confirmed_at :: "time option"
  tg_removed_at :: "time option"

record target_event_row =
  ter_target_id :: string
  ter_generation :: int
  ter_event_type :: inventory_event_type
  ter_provider :: string
  ter_provider_scope_id :: string
  ter_provider_target_id :: string
  ter_location :: "string option"
  ter_addresses :: "string list"
  ter_context :: json
  ter_source_event_time :: time
  ter_source_observed_at :: time
  ter_source_collected_at :: time
  ter_dispatched_at :: time
  ter_removed_at :: "time option"
  ter_accepted :: bool
  ter_stale :: bool

text \<open>An object of a bucket: its reference and the version that was read.\<close>

record stored_object =
  so_bucket :: string
  so_key :: string
  so_version :: "string option"
  so_sha256 :: string

record attempt_row =
  at_result_id :: string
  at_run_id :: string
  at_directive_id :: string
  at_target_id :: string
  at_target_event_id :: string
  at_trace_id :: string
  at_generation :: int
  at_provider :: string
  at_observed_address :: string
  at_profile :: string
  at_scanner_version :: string
  at_outcome :: string
  at_exit_code :: "int option"
  at_error_type :: "string option"
  at_error_retryable :: "bool option"
  at_source_event_time :: time
  at_source_observed_at :: time
  at_source_collected_at :: time
  at_dispatched_at :: time
  at_scan_started_at :: time
  at_scan_completed_at :: time
  at_result_uploaded_at :: time
  at_envelope :: stored_object
  at_raw_result :: "stored_object option"
  at_enrichment_result :: "stored_object option"
  at_xml_completion_validated :: bool
  at_stale_generation :: bool
  at_state_eligible :: bool

record observation_row =
  obr_generation :: int
  obr_address :: string
  obr_state :: port_state
  obr_service :: finding_service
  obr_observed_at :: time

datatype exposure_status = Exposed | Closed

datatype exposure_reason =
    Open_observation | Service_changed | Address_changed
  | Explicit_closed | Explicit_filtered | Coverage_absence | Ownership_removed
  | Address_binding_changed | Generation_gap_reactivation

record exposure_row =
  ex_state :: exposure_status
  ex_observed_address :: string
  ex_service :: finding_service
  ex_first_opened_at :: time
  ex_last_confirmed_at :: time
  ex_last_changed_at :: time
  ex_closed_at :: "time option"
  ex_closure_reason :: "exposure_reason option"
  ex_last_attempt_id :: string
  ex_state_version :: int
  ex_last_generation :: int

datatype exposure_event_type = Ex_opened | Ex_reopened | Ex_updated | Ex_closed

record exposure_event_row =
  xe_target_id :: string
  xe_generation :: int
  xe_protocol :: string
  xe_port :: int
  xe_source_attempt_id :: "string option"
  xe_event_type :: exposure_event_type
  xe_previous_state :: "exposure_status option"
  xe_new_state :: exposure_status
  xe_reason :: exposure_reason
  xe_previous_identity :: "string option"
  xe_identity :: string
  xe_occurred_at :: time

datatype rule_type = Exposure_rule | Port_rule

record rule_row =
  ru_name :: string
  ru_description :: string
  ru_enabled :: bool
  ru_severity :: finding_severity
  ru_rule_type :: rule_type
  ru_match_criteria :: json

record finding_row =
  fi_target_id :: string
  fi_protocol :: string
  fi_port :: int
  fi_rule_key :: string
  fi_status :: finding_status
  fi_severity :: finding_severity
  fi_title :: string
  fi_description :: string
  fi_observed_address :: string
  fi_service :: finding_service
  fi_first_opened_at :: time
  fi_last_seen_at :: time
  fi_last_changed_at :: time
  fi_resolved_at :: "time option"
  fi_resolution_reason :: "finding_reason option"
  fi_version :: int
  fi_last_event_key :: string

record finding_event_row =
  fv_fingerprint :: string
  fv_target_id :: string
  fv_target_generation :: int
  fv_protocol :: string
  fv_port :: int
  fv_rule_key :: string
  fv_event_type :: finding_event_type
  fv_previous_status :: "finding_status option"
  fv_new_status :: finding_status
  fv_severity :: finding_severity
  fv_reason :: finding_reason
  fv_finding_version :: int
  fv_source_kind :: finding_source_kind
  fv_source_key :: string
  fv_source_attempt_id :: "string option"
  fv_identity :: string
  fv_occurred_at :: time

record run_row =
  rn_invocation_key :: string
  rn_started_at :: time
  rn_completed_at :: "time option"
  rn_findings_examined :: "int option"
  rn_handoffs_queued :: "int option"

datatype handoff_kind = Event_handoff | Snapshot_handoff

record handoff_row =
  ho_fingerprint :: string
  ho_finding_event_key :: "string option"
  ho_run_key :: "string option"
  ho_source_attempt_id :: "string option"
  ho_kind :: handoff_kind
  ho_object_bucket :: string
  ho_object_key :: string
  ho_payload :: json
  ho_payload_sha256 :: string
  ho_created_at :: time
  ho_first_attempted_at :: "time option"
  ho_last_attempted_at :: "time option"
  ho_published_at :: "time option"
  ho_publish_attempts :: int
  ho_last_error_code :: "string option"

type_synonym exposure_key = "string \<times> string \<times> int"

record db =
  targets :: "(string, target_row) table"
  target_events :: "(string, target_event_row) table"
  scan_attempts :: "(string, attempt_row) table"
  attempt_coverage :: "(string \<times> string \<times> string, coverage_declaration) table"
  observations :: "(string \<times> string \<times> string \<times> int, observation_row) table"
  exposures :: "(exposure_key, exposure_row) table"
  exposure_events :: "(string, exposure_event_row) table"
  detection_rules :: "(string, rule_row) table"
  findings :: "(string, finding_row) table"
  finding_events :: "(string, finding_event_row) table"
  runs :: "(string, run_row) table"
  handoffs :: "(string, handoff_row) table"
  db_clock :: time

type_synonym 'a repo = "(db, parser_error, 'a) eff"

section \<open>Constraints of the schema\<close>

text \<open>\<^verbatim>\<open>btrim(x) <> ''\<close> and the \<^verbatim>\<open>protocol\<close> pattern of \<^verbatim>\<open>000001_core.up.sql\<close>.\<close>

definition btrim_nonempty :: "string \<Rightarrow> bool" where
  "btrim_nonempty s \<longleftrightarrow> list_ex (\<lambda>c. c \<noteq> CHR '' '') s"

definition protocol_valid :: "string \<Rightarrow> bool" where
  "protocol_valid s \<longleftrightarrow> len_between 1 16 s \<and> is_lower (hd s)
     \<and> list_all (\<lambda>c. is_lower c \<or> is_digit c \<or> c \<in> set ''_-'') (tl s)"

definition target_row_ok :: "string \<Rightarrow> target_row \<Rightarrow> bool" where
  "target_row_ok k r \<longleftrightarrow> btrim_nonempty k \<and> btrim_nonempty (tg_provider r)
     \<and> btrim_nonempty (tg_provider_scope_id r) \<and> btrim_nonempty (tg_provider_target_id r)
     \<and> 0 < tg_current_generation r
     \<and> (case tg_status r of Active \<Rightarrow> tg_removed_at r = None | Removed \<Rightarrow> tg_removed_at r \<noteq> None)"

definition target_event_row_ok :: "string \<Rightarrow> target_event_row \<Rightarrow> bool" where
  "target_event_row_ok k r \<longleftrightarrow> btrim_nonempty k \<and> 0 < ter_generation r
     \<and> btrim_nonempty (ter_provider r) \<and> btrim_nonempty (ter_provider_scope_id r)
     \<and> btrim_nonempty (ter_provider_target_id r)
     \<and> ter_source_event_time r \<le> ter_source_observed_at r
     \<and> ter_source_observed_at r \<le> ter_source_collected_at r
     \<and> ter_source_collected_at r \<le> ter_dispatched_at r
     \<and> \<not> (ter_accepted r \<and> ter_stale r)
     \<and> (case ter_event_type r of Upsert \<Rightarrow> ter_removed_at r = None | Remove \<Rightarrow> ter_removed_at r \<noteq> None)"

definition object_ok :: "stored_object \<Rightarrow> bool" where
  "object_ok r \<longleftrightarrow> btrim_nonempty (so_bucket r) \<and> btrim_nonempty (so_key r) \<and> is_sha256_hex (so_sha256 r)"

definition attempt_row_ok :: "string \<Rightarrow> attempt_row \<Rightarrow> bool" where
  "attempt_row_ok k r \<longleftrightarrow> btrim_nonempty k \<and> is_sha256_hex (at_result_id r)
     \<and> btrim_nonempty (at_run_id r) \<and> btrim_nonempty (at_directive_id r)
     \<and> btrim_nonempty (at_target_event_id r) \<and> btrim_nonempty (at_trace_id r)
     \<and> 0 < at_generation r \<and> btrim_nonempty (at_provider r)
     \<and> btrim_nonempty (at_profile r) \<and> btrim_nonempty (at_scanner_version r)
     \<and> at_outcome r \<in> {''complete'', ''partial'', ''failed'', ''cancelled'', ''freshness_rejected'', ''timeout''}
     \<and> at_scan_started_at r \<le> at_scan_completed_at r
     \<and> is_sha256_hex (so_sha256 (at_envelope r))
     \<and> opt_ok object_ok (at_raw_result r)
     \<and> opt_ok object_ok (at_enrichment_result r)
     \<and> (at_enrichment_result r \<noteq> None \<longrightarrow> at_raw_result r \<noteq> None)
     \<and> (at_error_type r = None \<longleftrightarrow> at_error_retryable r = None)
     \<and> (at_state_eligible r \<longrightarrow> \<not> at_stale_generation r \<and> at_outcome r = ''complete''
          \<and> at_xml_completion_validated r)"

definition coverage_row_ok :: "string \<times> string \<times> string \<Rightarrow> coverage_declaration \<Rightarrow> bool" where
  "coverage_row_ok k c \<longleftrightarrow> protocol_valid (cv_protocol c) \<and> btrim_nonempty (cv_port_spec c)
     \<and> (case (cv_port_from c, cv_port_to c) of
          (None, None) \<Rightarrow> True
        | (Some lo, Some hi) \<Rightarrow> is_port lo \<and> lo \<le> hi \<and> hi \<le> 65535
        | _ \<Rightarrow> False)"

definition service_sizes_ok :: "finding_service \<Rightarrow> bool" where
  "service_sizes_ok s \<longleftrightarrow> opt_ok (\<lambda>x. length x \<le> 255) (fs_name s)
     \<and> opt_ok (\<lambda>x. length x \<le> 255) (fs_product s) \<and> opt_ok (\<lambda>x. length x \<le> 255) (fs_version s)
     \<and> opt_ok is_sha256_hex (certificate_sha256 s) \<and> opt_ok is_sha256_hex (ssh_host_key_sha256 s)
     \<and> opt_ok is_sha256_hex (banner_sha256 s) \<and> is_sha256_hex (identity_sha256 s)"

definition observation_row_ok :: "string \<times> string \<times> string \<times> int \<Rightarrow> observation_row \<Rightarrow> bool" where
  "observation_row_ok k r = (case k of (_, _, protocol, port) \<Rightarrow>
     0 < obr_generation r \<and> protocol_valid protocol \<and> is_port port
     \<and> service_sizes_ok (obr_service r))"

definition is_closure_reason :: "exposure_reason \<Rightarrow> bool" where
  "is_closure_reason r \<longleftrightarrow> r \<notin> {Open_observation, Service_changed, Address_changed}"

definition exposure_row_ok :: "exposure_key \<Rightarrow> exposure_row \<Rightarrow> bool" where
  "exposure_row_ok k r = (case k of (_, protocol, port) \<Rightarrow>
     protocol_valid protocol \<and> is_port port \<and> is_sha256_hex (identity_sha256 (ex_service r))
     \<and> 0 < ex_state_version r \<and> 0 < ex_last_generation r
     \<and> (case ex_state r of
          Exposed \<Rightarrow> ex_closed_at r = None \<and> ex_closure_reason r = None
        | Closed \<Rightarrow> ex_closed_at r \<noteq> None
            \<and> (case ex_closure_reason r of None \<Rightarrow> False | Some c \<Rightarrow> is_closure_reason c)))"

definition exposure_event_row_ok :: "string \<Rightarrow> exposure_event_row \<Rightarrow> bool" where
  "exposure_event_row_ok k r \<longleftrightarrow> is_sha256_hex k \<and> 0 < xe_generation r
     \<and> protocol_valid (xe_protocol r) \<and> is_port (xe_port r)
     \<and> opt_ok is_sha256_hex (xe_previous_identity r) \<and> is_sha256_hex (xe_identity r)"

definition finding_row_ok :: "string \<Rightarrow> finding_row \<Rightarrow> bool" where
  "finding_row_ok k r \<longleftrightarrow> is_sha256_hex k \<and> protocol_valid (fi_protocol r) \<and> is_port (fi_port r)
     \<and> btrim_nonempty (fi_title r) \<and> btrim_nonempty (fi_description r)
     \<and> is_sha256_hex (identity_sha256 (fi_service r)) \<and> 0 < fi_version r
     \<and> is_sha256_hex (fi_last_event_key r)
     \<and> (case fi_status r of
          OPEN \<Rightarrow> fi_resolved_at r = None \<and> fi_resolution_reason r = None
        | RESOLVED_ST \<Rightarrow> fi_resolved_at r \<noteq> None
            \<and> (case fi_resolution_reason r of None \<Rightarrow> False | Some c \<Rightarrow> is_resolution_reason c))"

definition finding_event_row_ok :: "string \<Rightarrow> finding_event_row \<Rightarrow> bool" where
  "finding_event_row_ok k r \<longleftrightarrow> is_sha256_hex k \<and> 0 < fv_target_generation r
     \<and> protocol_valid (fv_protocol r) \<and> is_port (fv_port r) \<and> 0 < fv_finding_version r
     \<and> btrim_nonempty (fv_source_key r) \<and> is_sha256_hex (fv_identity r)"

definition run_row_ok :: "string \<Rightarrow> run_row \<Rightarrow> bool" where
  "run_row_ok k r \<longleftrightarrow> is_sha256_hex k \<and> btrim_nonempty (rn_invocation_key r)
     \<and> opt_ok (\<lambda>n. 0 \<le> n) (rn_findings_examined r) \<and> opt_ok (\<lambda>n. 0 \<le> n) (rn_handoffs_queued r)
     \<and> (case rn_completed_at r of
          None \<Rightarrow> True
        | Some at \<Rightarrow> rn_findings_examined r \<noteq> None \<and> rn_handoffs_queued r \<noteq> None \<and> rn_started_at r \<le> at)"

definition handoff_row_ok :: "string \<Rightarrow> handoff_row \<Rightarrow> bool" where
  "handoff_row_ok k r \<longleftrightarrow> is_sha256_hex k
     \<and> (case ho_kind r of
          Event_handoff \<Rightarrow> ho_finding_event_key r \<noteq> None \<and> ho_run_key r = None
        | Snapshot_handoff \<Rightarrow> ho_finding_event_key r = None \<and> ho_run_key r \<noteq> None)
     \<and> btrim_nonempty (ho_object_bucket r) \<and> btrim_nonempty (ho_object_key r)
     \<and> is_sha256_hex (ho_payload_sha256 r) \<and> 0 \<le> ho_publish_attempts r
     \<and> (case (ho_first_attempted_at r, ho_last_attempted_at r) of
          (None, None) \<Rightarrow> ho_publish_attempts r = 0
        | (Some f, Some l) \<Rightarrow> 0 < ho_publish_attempts r \<and> f \<le> l
        | _ \<Rightarrow> False)"

section \<open>Statements\<close>

text \<open>
  \<^verbatim>\<open>INSERT INTO\<close> a table of the schema, with the constraints of the table, and an
  \<^verbatim>\<open>UPDATE ... WHERE\<close> primary key that replaces the row. The arguments are the table's
  name, its selector and update in the database, and its constraints.
\<close>

definition insertM :: "string \<Rightarrow> (db \<Rightarrow> ('k, 'r) table) \<Rightarrow> ((('k, 'r) table \<Rightarrow> ('k, 'r) table) \<Rightarrow> db \<Rightarrow> db)
    \<Rightarrow> ('k \<Rightarrow> 'r \<Rightarrow> bool) \<Rightarrow> 'k \<Rightarrow> 'r \<Rightarrow> unit repo" where
  "insertM name sel upd ok k r =
     bindM (readM (\<lambda>s. tbl_get (sel s) k)) (\<lambda>old.
       if old = None \<and> ok k r then writeM (upd (tbl_put k r)) else raiseM (Database_error name))"

definition updateM :: "string \<Rightarrow> ((('k, 'r) table \<Rightarrow> ('k, 'r) table) \<Rightarrow> db \<Rightarrow> db)
    \<Rightarrow> ('k \<Rightarrow> 'r \<Rightarrow> bool) \<Rightarrow> 'k \<Rightarrow> 'r \<Rightarrow> unit repo" where
  "updateM name upd ok k r =
     (if ok k r then writeM (upd (tbl_put k r)) else raiseM (Database_error name))"

text \<open>\<^verbatim>\<open>clock_timestamp()\<close>: every reading of the database clock is later than the one before.\<close>

definition clock_timestamp :: "time repo" where
  "clock_timestamp s = (Inr (db_clock s), s\<lparr>db_clock := db_clock s + 1\<rparr>)"

lemma insertM_Inr:
  "insertM name sel upd ok k r s = (Inr u, s') \<longleftrightarrow>
     tbl_get (sel s) k = None \<and> ok k r \<and> s' = upd (tbl_put k r) s"
  by (auto simp: insertM_def eff_Inr split: if_splits)

lemma updateM_Inr: "updateM name upd ok k r s = (Inr u, s') \<longleftrightarrow> ok k r \<and> s' = upd (tbl_put k r) s"
  by (auto simp: updateM_def eff_Inr)

lemma clock_timestamp_Inr:
  "clock_timestamp s = (Inr t, s') \<longleftrightarrow> t = db_clock s \<and> s' = s\<lparr>db_clock := db_clock s + 1\<rparr>"
  by (auto simp: clock_timestamp_def)

lemmas repo_Inr = eff_Inr insertM_Inr updateM_Inr clock_timestamp_Inr

section \<open>Hashes\<close>

definition stable_hash :: "json list \<Rightarrow> string" where
  "stable_hash parts = sha256 (dumps (JArr parts))"

definition finding_fingerprint :: "string \<Rightarrow> string \<Rightarrow> string \<Rightarrow> int \<Rightarrow> string" where
  "finding_fingerprint rule tid protocol port =
     stable_hash [JStr ''act-finding-v1'', JStr rule, JStr tid, JStr protocol, JInt port]"

text \<open>\<^verbatim>\<open>hashlib.sha256(canonical_payload_bytes(payload)).hexdigest()\<close>\<close>

definition payload_hash :: "json \<Rightarrow> string" where
  "payload_hash payload = sha256 (dumps payload)"

lemma is_sha256_hex_stable_hash [simp]: "is_sha256_hex (stable_hash parts)"
  by (simp add: stable_hash_def)

lemma is_sha256_hex_fingerprint [simp]: "is_sha256_hex (finding_fingerprint r t p n)"
  by (simp add: finding_fingerprint_def)

lemma is_sha256_hex_payload_hash [simp]: "is_sha256_hex (payload_hash p)"
  by (simp add: payload_hash_def)

end
