(* ===== verification/Parser_Exposure.thy ===== *)
theory Parser_Exposure
  imports Parser_Database
begin

text \<open>
  Exposure state of a target: which scan attempt controls a port, when its evidence is
  newer than what is stored, and the transitions that an accepted scan makes
  (\<^verbatim>\<open>Repository._apply_exposure_evidence\<close> and its helpers in \<^verbatim>\<open>parser/.../database.py\<close>).
\<close>

section \<open>Control of a port\<close>

text \<open>\<^verbatim>\<open>Repository._covered\<close>\<close>

definition covered :: "coverage_declaration list \<Rightarrow> string \<Rightarrow> int \<Rightarrow> bool" where
  "covered coverage protocol port = list_ex (\<lambda>c. cv_contains c protocol port) coverage"

text \<open>
  The query of \<^verbatim>\<open>Repository._attempt_controls_port\<close>: eligible attempts of the target
  generation with a complete coverage row for the port, the latest completion first and
  the greatest attempt identifier among equals.
\<close>

definition port_candidates :: "db \<Rightarrow> string \<Rightarrow> int \<Rightarrow> string \<Rightarrow> int \<Rightarrow> (time \<times> string) list" where
  "port_candidates s tid gen protocol port =
     [(at_scan_completed_at a, aid).
        (aid, a) \<leftarrow> scan_attempts s,
        at_target_id a = tid \<and> at_generation a = gen \<and> at_state_eligible a,
        (k, c) \<leftarrow> attempt_coverage s,
        fst k = aid \<and> cv_contains c protocol port]"

definition attempt_controls_port :: "scan_envelope \<Rightarrow> string \<Rightarrow> int \<Rightarrow> bool repo" where
  "attempt_controls_port env protocol port =
     readM (\<lambda>s. case rev (sort (port_candidates s (en_target_id env) (en_generation env) protocol port)) of
                   [] \<Rightarrow> False
                 | winner # _ \<Rightarrow> snd winner = en_attempt_id env)"

text \<open>\<^verbatim>\<open>Repository._scan_evidence_is_newer\<close>\<close>

definition scan_evidence_is_newer :: "exposure_row \<Rightarrow> int \<Rightarrow> time \<Rightarrow> string \<Rightarrow> bool" where
  "scan_evidence_is_newer row gen occurred_at attempt_id =
     (if gen \<noteq> ex_last_generation row then gen > ex_last_generation row
      else (occurred_at, attempt_id) > (ex_last_confirmed_at row, ex_last_attempt_id row))"

section \<open>Opening\<close>

primrec exposure_event_value :: "exposure_event_type \<Rightarrow> string" where
  "exposure_event_value Ex_opened = ''opened''"
| "exposure_event_value Ex_reopened = ''reopened''"
| "exposure_event_value Ex_updated = ''updated''"
| "exposure_event_value Ex_closed = ''closed''"

primrec exposure_reason_value :: "exposure_reason \<Rightarrow> string" where
  "exposure_reason_value Open_observation = ''open_observation''"
| "exposure_reason_value Service_changed = ''service_changed''"
| "exposure_reason_value Address_changed = ''address_changed''"
| "exposure_reason_value Explicit_closed = ''explicit_closed''"
| "exposure_reason_value Explicit_filtered = ''explicit_filtered''"
| "exposure_reason_value Coverage_absence = ''coverage_absence''"
| "exposure_reason_value Ownership_removed = ''ownership_removed''"
| "exposure_reason_value Address_binding_changed = ''address_binding_changed''"
| "exposure_reason_value Generation_gap_reactivation = ''generation_gap_reactivation''"

definition put_exposure :: "exposure_key \<Rightarrow> exposure_row \<Rightarrow> unit repo" where
  "put_exposure = updateM ''exposure_state'' exposures_update exposure_row_ok"

definition insert_exposure_event :: "string \<Rightarrow> exposure_event_row \<Rightarrow> unit repo" where
  "insert_exposure_event =
     insertM ''exposure_events'' exposure_events exposure_events_update exposure_event_row_ok"

text \<open>The row that the three branches of \<^verbatim>\<open>Repository._open_exposure\<close> write.\<close>

definition new_exposure_row :: "scan_envelope \<Rightarrow> observation \<Rightarrow> time \<Rightarrow> exposure_row" where
  "new_exposure_row env ob at =
     \<lparr>ex_state = Exposed, ex_observed_address = ob_address ob, ex_service = ob_service ob,
      ex_first_opened_at = at, ex_last_confirmed_at = at, ex_last_changed_at = at,
      ex_closed_at = None, ex_closure_reason = None, ex_last_attempt_id = en_attempt_id env,
      ex_state_version = 1, ex_last_generation = en_generation env\<rparr>"

definition reopened_exposure_row :: "scan_envelope \<Rightarrow> observation \<Rightarrow> time \<Rightarrow> exposure_row \<Rightarrow> exposure_row" where
  "reopened_exposure_row env ob at row =
     row\<lparr>ex_state := Exposed, ex_observed_address := ob_address ob, ex_service := ob_service ob,
         ex_last_confirmed_at := at, ex_last_changed_at := at, ex_closed_at := None,
         ex_closure_reason := None, ex_last_attempt_id := en_attempt_id env,
         ex_last_generation := en_generation env, ex_state_version := ex_state_version row + 1\<rparr>"

definition confirmed_exposure_row ::
    "scan_envelope \<Rightarrow> observation \<Rightarrow> time \<Rightarrow> bool \<Rightarrow> exposure_row \<Rightarrow> exposure_row" where
  "confirmed_exposure_row env ob at changed row =
     row\<lparr>ex_observed_address := ob_address ob, ex_service := ob_service ob,
         ex_last_confirmed_at := max (ex_last_confirmed_at row) at,
         ex_last_changed_at := (if changed then at else ex_last_changed_at row),
         ex_last_attempt_id := en_attempt_id env, ex_last_generation := en_generation env,
         ex_state_version := ex_state_version row + (if changed then 1 else 0)\<rparr>"

definition open_event_key :: "scan_envelope \<Rightarrow> observation \<Rightarrow> exposure_event_type \<Rightarrow> string" where
  "open_event_key env ob ty = stable_hash
     [JStr ''act-exposure-event-v1'', JStr (en_attempt_id env), JStr (en_target_id env),
      JStr (ob_protocol ob), JInt (ob_port ob), JStr (exposure_event_value ty),
      JStr (identity_sha256 (ob_service ob)), JStr (ob_address ob)]"

definition open_event_row :: "scan_envelope \<Rightarrow> observation \<Rightarrow> exposure_event_type
    \<Rightarrow> exposure_status option \<Rightarrow> exposure_reason \<Rightarrow> string option \<Rightarrow> time \<Rightarrow> exposure_event_row" where
  "open_event_row env ob ty previous reason previous_hash at =
     \<lparr>xe_target_id = en_target_id env, xe_generation = en_generation env,
      xe_protocol = ob_protocol ob, xe_port = ob_port ob,
      xe_source_attempt_id = Some (en_attempt_id env), xe_event_type = ty,
      xe_previous_state = previous, xe_new_state = Exposed, xe_reason = reason,
      xe_previous_identity = previous_hash, xe_identity = identity_sha256 (ob_service ob),
      xe_occurred_at = at\<rparr>"

definition record_open :: "scan_envelope \<Rightarrow> observation \<Rightarrow> exposure_event_type
    \<Rightarrow> exposure_status option \<Rightarrow> exposure_reason \<Rightarrow> string option \<Rightarrow> time
    \<Rightarrow> (bool \<times> exposure_event_type option) repo" where
  "record_open env ob ty previous reason previous_hash at =
     thenM (insert_exposure_event (open_event_key env ob ty)
              (open_event_row env ob ty previous reason previous_hash at))
       (returnM (True, Some ty))"

text \<open>\<^verbatim>\<open>Repository._open_exposure\<close>\<close>

definition open_exposure :: "scan_envelope \<Rightarrow> observation \<Rightarrow> (bool \<times> exposure_event_type option) repo" where
  "open_exposure env ob =
     (let key = (en_target_id env, ob_protocol ob, ob_port ob) in
      bindM (readM (\<lambda>s. tbl_get (exposures s) key)) (\<lambda>found.
      case found of
        None \<Rightarrow>
          (let at = en_scan_completed_at env in
           thenM (insertM ''exposure_state'' exposures exposures_update exposure_row_ok key
                    (new_exposure_row env ob at))
             (record_open env ob Ex_opened None Open_observation None at))
      | Some row \<Rightarrow>
          if \<not> scan_evidence_is_newer row (en_generation env) (en_scan_completed_at env) (en_attempt_id env)
          then returnM (False, None)
          else
            (let at = max (en_scan_completed_at env) (max (ex_last_confirmed_at row) (ex_last_changed_at row));
                 previous_hash = identity_sha256 (ex_service row)
             in if ex_state row = Closed
                then thenM (put_exposure key (reopened_exposure_row env ob at row))
                       (record_open env ob Ex_reopened (Some Closed) Open_observation (Some previous_hash) at)
                else
                  (let identity_changed = previous_hash \<noteq> identity_sha256 (ob_service ob);
                       address_changed = ex_observed_address row \<noteq> ob_address ob;
                       changed = identity_changed \<or> address_changed;
                       reason = (if identity_changed then Service_changed else Address_changed)
                   in thenM (put_exposure key (confirmed_exposure_row env ob at changed row))
                        (if changed
                         then record_open env ob Ex_updated (Some Exposed) reason (Some previous_hash) at
                         else returnM (True, None))))))"

section \<open>Closing\<close>

definition closed_exposure_row ::
    "int \<Rightarrow> string option \<Rightarrow> time \<Rightarrow> exposure_reason \<Rightarrow> exposure_row \<Rightarrow> exposure_row" where
  "closed_exposure_row gen source at reason row =
     (let row' = row\<lparr>ex_state := Closed, ex_last_confirmed_at := at, ex_last_changed_at := at,
                     ex_closed_at := Some at, ex_closure_reason := Some reason,
                     ex_state_version := ex_state_version row + 1\<rparr>
      in case source of
           None \<Rightarrow> row'\<lparr>ex_last_generation := max (ex_last_generation row) gen\<rparr>
         | Some attempt \<Rightarrow> row'\<lparr>ex_last_attempt_id := attempt, ex_last_generation := gen\<rparr>)"

definition close_event_key ::
    "string \<Rightarrow> string \<Rightarrow> int \<Rightarrow> string option \<Rightarrow> string option \<Rightarrow> exposure_reason \<Rightarrow> string \<Rightarrow> string" where
  "close_event_key tid protocol port source source_key reason identity =
     (let event_source = (case source of
                            Some a \<Rightarrow> if a \<noteq> [] then Some a else source_key
                          | None \<Rightarrow> source_key)
      in stable_hash [JStr ''act-exposure-event-v1'', jopt JStr event_source, JStr tid, JStr protocol,
                      JInt port, JStr ''closed'', JStr (exposure_reason_value reason), JStr identity])"

text \<open>\<^verbatim>\<open>Repository._close_exposure\<close>\<close>

definition close_exposure :: "string \<Rightarrow> int \<Rightarrow> string \<Rightarrow> int \<Rightarrow> string option \<Rightarrow> time \<Rightarrow> exposure_reason
    \<Rightarrow> string option \<Rightarrow> (bool \<times> exposure_event_type option) repo" where
  "close_exposure tid gen protocol port source occurred_at reason source_key =
     (let key = (tid, protocol, port) in
      bindM (readM (\<lambda>s. tbl_get (exposures s) key)) (\<lambda>found.
      case found of
        None \<Rightarrow> returnM (False, None)
      | Some row \<Rightarrow>
          if (case source of None \<Rightarrow> False
              | Some attempt \<Rightarrow> \<not> scan_evidence_is_newer row gen occurred_at attempt)
          then returnM (False, None)
          else if ex_state row \<noteq> Exposed then
            (case source of
               None \<Rightarrow> returnM (False, None)
             | Some attempt \<Rightarrow>
                 thenM (put_exposure key
                          (row\<lparr>ex_last_confirmed_at := max (ex_last_confirmed_at row) occurred_at,
                               ex_last_attempt_id := attempt, ex_last_generation := gen\<rparr>))
                   (returnM (True, None)))
          else
            (let at = max occurred_at (max (ex_last_confirmed_at row) (ex_last_changed_at row));
                 identity = identity_sha256 (ex_service row)
             in thenM (put_exposure key (closed_exposure_row gen source at reason row))
                  (thenM (insert_exposure_event
                            (close_event_key tid protocol port source source_key reason identity)
                            \<lparr>xe_target_id = tid, xe_generation = gen, xe_protocol = protocol,
                             xe_port = port, xe_source_attempt_id = source,
                             xe_event_type = Ex_closed, xe_previous_state = Some Exposed,
                             xe_new_state = Closed, xe_reason = reason,
                             xe_previous_identity = Some identity, xe_identity = identity,
                             xe_occurred_at = at\<rparr>)
                    (returnM (True, Some Ex_closed))))))"

section \<open>Evidence of one scan\<close>

text \<open>The affected keys and the transitions that the two loops collect.\<close>

type_synonym evidence = "service_key list \<times> (service_key \<times> exposure_event_type) list"

definition note_change :: "service_key \<Rightarrow> evidence \<Rightarrow> bool \<times> exposure_event_type option \<Rightarrow> evidence" where
  "note_change key ev res =
     (case ev of (affected, transitions) \<Rightarrow> case res of (applied, transition) \<Rightarrow>
        ((if applied then key # affected else affected),
         (case transition of None \<Rightarrow> transitions | Some ty \<Rightarrow> (key, ty) # transitions)))"

definition ob_key :: "observation \<Rightarrow> service_key" where
  "ob_key ob = (ob_protocol ob, ob_port ob)"

definition observed_map :: "observation list \<Rightarrow> (service_key \<times> observation) list" where
  "observed_map obs = rev (map (\<lambda>ob. (ob_key ob, ob)) obs)"

definition observed_step :: "scan_envelope \<Rightarrow> observation list \<Rightarrow> evidence \<Rightarrow> service_key \<Rightarrow> evidence repo" where
  "observed_step env obs ev key =
     bindM (attempt_controls_port env (fst key) (snd key)) (\<lambda>controls.
     if \<not> controls then returnM ev
     else case map_of (observed_map obs) key of
       None \<Rightarrow> returnM ev
     | Some ob \<Rightarrow>
         bindM (if ob_state ob = Port_open then open_exposure env ob
                else if ob_state ob \<in> {Port_closed, Port_filtered} \<and> covered (en_coverage env) (fst key) (snd key)
                then close_exposure (en_target_id env) (en_generation env) (ob_protocol ob) (ob_port ob)
                       (Some (en_attempt_id env)) (en_scan_completed_at env)
                       (if ob_state ob = Port_closed then Explicit_closed else Explicit_filtered) None
                else returnM (False, None))
           (\<lambda>res. returnM (note_change key ev res)))"

definition absent_step :: "scan_envelope \<Rightarrow> observation list \<Rightarrow> evidence \<Rightarrow> service_key \<Rightarrow> evidence repo" where
  "absent_step env obs ev key =
     bindM (attempt_controls_port env (fst key) (snd key)) (\<lambda>controls.
     if key \<in> set (map ob_key obs) \<or> \<not> covered (en_coverage env) (fst key) (snd key) \<or> \<not> controls
     then returnM ev
     else bindM (close_exposure (en_target_id env) (en_generation env) (fst key) (snd key)
                   (Some (en_attempt_id env)) (en_scan_completed_at env) Coverage_absence None)
            (\<lambda>res. returnM (note_change key ev res)))"

definition exposure_keys :: "string \<Rightarrow> db \<Rightarrow> service_key list" where
  "exposure_keys tid s = [k. ((t, k), _) \<leftarrow> exposures s, t = tid]"

text \<open>\<^verbatim>\<open>Repository._apply_exposure_evidence\<close>\<close>

definition apply_exposure_evidence :: "scan_envelope \<Rightarrow> observation list \<Rightarrow> evidence repo" where
  "apply_exposure_evidence env obs =
     bindM (foldM (observed_step env obs) ([], []) (sorted_set (map ob_key obs))) (\<lambda>ev.
     bindM (readM (exposure_keys (en_target_id env))) (\<lambda>keys.
     foldM (absent_step env obs) ev keys))"

section \<open>How an exposure may change\<close>

text \<open>
  A well-formed row: the schema's constraints, the order of its timestamps, and a closure
  that happened at the last change.
\<close>

definition exposure_wf :: "exposure_key \<Rightarrow> exposure_row \<Rightarrow> bool" where
  "exposure_wf k r \<longleftrightarrow> exposure_row_ok k r \<and> ex_first_opened_at r \<le> ex_last_changed_at r
     \<and> ex_last_changed_at r \<le> ex_last_confirmed_at r
     \<and> (ex_state r = Closed \<longrightarrow> ex_closed_at r = Some (ex_last_changed_at r))"

text \<open>The evidence a row rests on: generation, confirmation time and attempt, in this order.\<close>

definition exposure_rank :: "exposure_row \<Rightarrow> int \<times> time \<times> string" where
  "exposure_rank r = (ex_last_generation r, ex_last_confirmed_at r, ex_last_attempt_id r)"

text \<open>
  A legal evolution of one row: it does not disappear, keeps its first opening, does not
  go back to older evidence or an older version, and stays well-formed.
\<close>

definition exposure_le :: "exposure_key \<Rightarrow> exposure_row option \<Rightarrow> exposure_row option \<Rightarrow> bool" where
  "exposure_le k old new =
     (case (old, new) of
        (None, None) \<Rightarrow> True
      | (None, Some r) \<Rightarrow> exposure_wf k r
      | (Some r, None) \<Rightarrow> False
      | (Some r, Some r') \<Rightarrow>
          (exposure_wf k r \<longrightarrow> exposure_wf k r') \<and> ex_first_opened_at r' = ex_first_opened_at r
          \<and> exposure_rank r \<le> exposure_rank r' \<and> ex_state_version r \<le> ex_state_version r')"

lemma exposure_le_refl [simp]: "exposure_le k r r"
  by (simp add: exposure_le_def split: option.splits)

lemma exposure_le_trans: "exposure_le k a b \<Longrightarrow> exposure_le k b c \<Longrightarrow> exposure_le k a c"
  by (auto simp: exposure_le_def split: option.splits)

text \<open>
  A change of the database confined to exposures and their events, in which every row
  evolves legally and only rows in \<open>P\<close> change.
\<close>

definition exposures_evolve :: "(exposure_key \<Rightarrow> bool) \<Rightarrow> db \<Rightarrow> db \<Rightarrow> bool" where
  "exposures_evolve P s s' \<longleftrightarrow>
     s' = s\<lparr>exposures := exposures s', exposure_events := exposure_events s'\<rparr>
     \<and> (tbl_ok (exposures s) \<longrightarrow> tbl_ok (exposures s'))
     \<and> (\<forall>k. exposure_le k (tbl_get (exposures s) k) (tbl_get (exposures s') k)
            \<and> (\<not> P k \<longrightarrow> tbl_get (exposures s') k = tbl_get (exposures s) k))"

lemma exposures_evolve_refl: "exposures_evolve P s s"
  by (simp add: exposures_evolve_def)

lemma exposures_evolve_trans:
  assumes "exposures_evolve P s t" "exposures_evolve P t u"
  shows "exposures_evolve P s u"
proof -
  from assms have "t = s\<lparr>exposures := exposures t, exposure_events := exposure_events t\<rparr>"
    "u = t\<lparr>exposures := exposures u, exposure_events := exposure_events u\<rparr>"
    by (simp_all add: exposures_evolve_def)
  then have "u = s\<lparr>exposures := exposures u, exposure_events := exposure_events u\<rparr>"
    by (metis (no_types, lifting) db.surjective db.update_convs(6,7))
  moreover have "tbl_ok (exposures s) \<longrightarrow> tbl_ok (exposures u)"
    using assms unfolding exposures_evolve_def by blast
  moreover have "exposure_le k (tbl_get (exposures s) k) (tbl_get (exposures u) k)" for k
    using assms exposure_le_trans unfolding exposures_evolve_def by blast
  moreover have "tbl_get (exposures u) k = tbl_get (exposures s) k" if "\<not> P k" for k
    using assms that unfolding exposures_evolve_def by metis
  ultimately show ?thesis
    unfolding exposures_evolve_def by blast
qed

interpretation evolve: effect_preorder "exposures_evolve P"
  by unfold_locales (fact exposures_evolve_refl, fact exposures_evolve_trans)

lemma exposures_evolve_put:
  assumes "exposure_le k (tbl_get (exposures s) k) (Some r)" and "P k"
  shows "exposures_evolve P s (exposures_update (tbl_put k r) s)"
    and "exposures_evolve P s (exposure_events_update f (exposures_update (tbl_put k r) s))"
  using assms by (auto simp: exposures_evolve_def tbl.ok_put)

lemma exposures_evolve_mono:
  "exposures_evolve P s t \<Longrightarrow> (\<And>k. P k \<Longrightarrow> Q k) \<Longrightarrow> exposures_evolve Q s t"
  unfolding exposures_evolve_def by blast

lemma newer_rank:
  assumes "scan_evidence_is_newer row gen at a" "max at (ex_last_confirmed_at row) \<le> at'"
  shows "exposure_rank row \<le> (gen, at', a)"
  using assms by (auto simp: scan_evidence_is_newer_def exposure_rank_def less_eq_prod_def
      less_prod_def split: if_splits)

lemma new_exposure_le:
  "exposure_row_ok k (new_exposure_row env ob at) \<Longrightarrow> exposure_le k None (Some (new_exposure_row env ob at))"
  by (simp add: exposure_le_def exposure_wf_def new_exposure_row_def)

lemma reopened_exposure_le:
  assumes "exposure_row_ok k (reopened_exposure_row env ob at row)"
    and "scan_evidence_is_newer row (en_generation env) (en_scan_completed_at env) (en_attempt_id env)"
    and "en_scan_completed_at env \<le> at" "ex_last_confirmed_at row \<le> at" "ex_last_changed_at row \<le> at"
  shows "exposure_le k (Some row) (Some (reopened_exposure_row env ob at row))"
proof -
  have "exposure_rank row \<le> exposure_rank (reopened_exposure_row env ob at row)"
    using newer_rank [OF assms(2), of at] assms
    by (simp add: exposure_rank_def reopened_exposure_row_def)
  with assms show ?thesis
    by (auto simp: exposure_le_def exposure_wf_def reopened_exposure_row_def)
qed

lemma confirmed_exposure_le:
  assumes "exposure_row_ok k (confirmed_exposure_row env ob at c row)" and "ex_state row \<noteq> Closed"
    and "scan_evidence_is_newer row (en_generation env) (en_scan_completed_at env) (en_attempt_id env)"
    and "en_scan_completed_at env \<le> at" "ex_last_confirmed_at row \<le> at" "ex_last_changed_at row \<le> at"
  shows "exposure_le k (Some row) (Some (confirmed_exposure_row env ob at c row))"
proof -
  have "exposure_rank row \<le> exposure_rank (confirmed_exposure_row env ob at c row)"
    using newer_rank [OF assms(3), of "max (ex_last_confirmed_at row) at"] assms
    by (simp add: exposure_rank_def confirmed_exposure_row_def)
  with assms show ?thesis
    by (auto simp: exposure_le_def exposure_wf_def confirmed_exposure_row_def)
qed

lemma closed_exposure_le:
  assumes "exposure_row_ok k (closed_exposure_row gen source at reason row)"
    and "\<And>a. source = Some a \<Longrightarrow> scan_evidence_is_newer row gen occurred a"
    and "occurred \<le> at" "ex_last_confirmed_at row \<le> at" "ex_last_changed_at row \<le> at"
  shows "exposure_le k (Some row) (Some (closed_exposure_row gen source at reason row))"
proof -
  have "exposure_rank row \<le> exposure_rank (closed_exposure_row gen source at reason row)"
  proof (cases source)
    case None
    with assms show ?thesis
      by (auto simp: exposure_rank_def closed_exposure_row_def less_eq_prod_def)
  next
    case (Some a)
    with newer_rank [OF assms(2) [OF Some], of at] assms show ?thesis
      by (simp add: exposure_rank_def closed_exposure_row_def)
  qed
  with assms show ?thesis
    by (auto simp: exposure_le_def exposure_wf_def closed_exposure_row_def Let_def split: option.splits)
qed

lemma reconfirmed_exposure_le:
  assumes "exposure_row_ok k (row\<lparr>ex_last_confirmed_at := max (ex_last_confirmed_at row) at,
             ex_last_attempt_id := a, ex_last_generation := gen\<rparr>)"
    and "scan_evidence_is_newer row gen at a"
  shows "exposure_le k (Some row) (Some (row\<lparr>ex_last_confirmed_at := max (ex_last_confirmed_at row) at,
             ex_last_attempt_id := a, ex_last_generation := gen\<rparr>))"
  using assms newer_rank [OF assms(2), of "max (ex_last_confirmed_at row) at"]
  by (auto simp: exposure_le_def exposure_wf_def exposure_rank_def)

lemmas exposure_writes = new_exposure_le reopened_exposure_le confirmed_exposure_le closed_exposure_le
  reconfirmed_exposure_le

text \<open>Opening and closing evolve the one row they are about.\<close>

lemma open_exposure_evolves [moves_intro]:
  assumes "P (en_target_id env, ob_protocol ob, ob_port ob)"
  shows "moves (exposures_evolve P) (open_exposure env ob)"
proof (rule movesI)
  fix s x t assume "open_exposure env ob s = (Inr x, t)"
  with assms show "exposures_evolve P s t"
    by (auto simp: open_exposure_def Let_def repo_Inr record_open_def put_exposure_def
        insert_exposure_event_def exposures_evolve_refl split: option.splits if_splits
        intro!: exposures_evolve_put exposure_writes)
qed

lemma close_exposure_evolves [moves_intro]:
  assumes "P (tid, protocol, port)"
  shows "moves (exposures_evolve P) (close_exposure tid gen protocol port source at reason sk)"
proof (rule movesI)
  fix s x t assume "close_exposure tid gen protocol port source at reason sk s = (Inr x, t)"
  with assms show "exposures_evolve P s t"
    by (auto simp: close_exposure_def Let_def repo_Inr put_exposure_def insert_exposure_event_def
        exposures_evolve_refl split: option.splits if_splits
        intro!: exposures_evolve_put exposure_writes)
qed

section \<open>The extent of one scan\<close>

text \<open>The attempt is the latest eligible one whose complete coverage has the port.\<close>

definition controls :: "scan_envelope \<Rightarrow> db \<Rightarrow> service_key \<Rightarrow> bool" where
  "controls env s key =
     (case rev (sort (port_candidates s (en_target_id env) (en_generation env) (fst key) (snd key))) of
        [] \<Rightarrow> False
      | winner # _ \<Rightarrow> snd winner = en_attempt_id env)"

lemma attempt_controls_port_Inr:
  "attempt_controls_port env (fst key) (snd key) s = (Inr b, t) \<longleftrightarrow> b = controls env s key \<and> t = s"
  by (simp add: attempt_controls_port_def controls_def readM_Inr)

definition controlled :: "scan_envelope \<Rightarrow> db \<Rightarrow> exposure_key \<Rightarrow> bool" where
  "controlled env s k \<longleftrightarrow> fst k = en_target_id env \<and> controls env s (snd k)"

text \<open>The tables that an evolution of exposures leaves alone.\<close>

lemma exposures_evolve_frame:
  assumes "exposures_evolve P s t"
  shows "targets t = targets s" "target_events t = target_events s"
    "scan_attempts t = scan_attempts s" "attempt_coverage t = attempt_coverage s"
    "observations t = observations s" "detection_rules t = detection_rules s"
    "findings t = findings s" "finding_events t = finding_events s" "runs t = runs s"
    "handoffs t = handoffs s" "db_clock t = db_clock s"
proof -
  obtain X V where "t = s\<lparr>exposures := X, exposure_events := V\<rparr>"
    using assms unfolding exposures_evolve_def by blast
  then show "targets t = targets s" "target_events t = target_events s"
    "scan_attempts t = scan_attempts s" "attempt_coverage t = attempt_coverage s"
    "observations t = observations s" "detection_rules t = detection_rules s"
    "findings t = findings s" "finding_events t = finding_events s" "runs t = runs s"
    "handoffs t = handoffs s" "db_clock t = db_clock s"
    by simp_all
qed

lemma port_candidates_evolve: "exposures_evolve P s t \<Longrightarrow> port_candidates t = port_candidates s"
  by (intro ext) (simp only: port_candidates_def exposures_evolve_frame)

lemma controlled_evolve: "exposures_evolve P s t \<Longrightarrow> controlled env t = controlled env s"
  by (intro ext) (simp only: controlled_def controls_def port_candidates_evolve)

definition evidence_evolve :: "scan_envelope \<Rightarrow> db \<Rightarrow> db \<Rightarrow> bool" where
  "evidence_evolve env s t = exposures_evolve (controlled env s) s t"

interpretation evidence: effect_preorder "evidence_evolve env"
proof
  show "evidence_evolve env s s" for s
    by (simp add: evidence_evolve_def exposures_evolve_refl)
  show "evidence_evolve env s u" if "evidence_evolve env s t" "evidence_evolve env t u" for s t u
    using that exposures_evolve_trans controlled_evolve unfolding evidence_evolve_def by metis
qed

lemma observed_map_key: "map_of (observed_map obs) key = Some ob \<Longrightarrow> ob_key ob = key"
  by (auto simp: observed_map_def dest!: map_of_SomeD)

lemma observed_step_evolves: "moves (evidence_evolve env) (observed_step env obs ev key)"
proof (rule movesI)
  fix s x t assume step: "observed_step env obs ev key s = (Inr x, t)"
  show "evidence_evolve env s t"
  proof (cases "controls env s key")
    case False
    with step show ?thesis
      by (auto simp: observed_step_def eff_Inr attempt_controls_port_Inr evidence.refl)
  next
    case True
    let ?P = "controlled env s"
    have P: "?P (en_target_id env, key)" using True by (simp add: controlled_def)
    from step True show ?thesis
      by (auto simp: observed_step_def eff_Inr attempt_controls_port_Inr evidence.refl
          evidence_evolve_def exposures_evolve_refl
          dest: movesD [OF open_exposure_evolves, of ?P] movesD [OF close_exposure_evolves, of ?P]
          split: option.splits if_splits)
        (use P in \<open>auto dest!: observed_map_key simp: ob_key_def
           dest: movesD [OF open_exposure_evolves, of ?P] movesD [OF close_exposure_evolves, of ?P]\<close>)
  qed
qed

lemma absent_step_evolves: "moves (evidence_evolve env) (absent_step env obs ev key)"
proof (rule movesI)
  fix s x t assume step: "absent_step env obs ev key s = (Inr x, t)"
  show "evidence_evolve env s t"
  proof (cases "controls env s key")
    case False
    with step show ?thesis
      by (auto simp: absent_step_def eff_Inr attempt_controls_port_Inr evidence.refl)
  next
    case True
    let ?P = "controlled env s"
    have P: "?P (en_target_id env, fst key, snd key)" using True by (simp add: controlled_def)
    from step True show ?thesis
      by (auto simp: absent_step_def eff_Inr attempt_controls_port_Inr evidence_evolve_def
          exposures_evolve_refl split: if_splits intro: movesD [OF close_exposure_evolves [of ?P, OF P]])
  qed
qed

lemma apply_exposure_evidence_evolves:
  "moves (evidence_evolve env) (apply_exposure_evidence env obs)"
  unfolding apply_exposure_evidence_def
  by (intro evidence.moves_rules observed_step_evolves absent_step_evolves)

text \<open>Control means: no eligible attempt that covers the port comes later.\<close>

lemma controls_latest:
  assumes "controls env s key"
  shows "\<exists>at. (at, en_attempt_id env) \<in> set (port_candidates s (en_target_id env) (en_generation env) (fst key) (snd key))
     \<and> (\<forall>c \<in> set (port_candidates s (en_target_id env) (en_generation env) (fst key) (snd key)).
          c \<le> (at, en_attempt_id env))"
proof -
  let ?C = "port_candidates s (en_target_id env) (en_generation env) (fst key) (snd key)"
  from assms obtain w ws where w: "rev (sort ?C) = w # ws" "snd w = en_attempt_id env"
    by (auto simp: controls_def split: list.splits)
  then have "sort ?C = rev ws @ [w]" by (metis rev.simps(2) rev_rev_ident)
  then have "\<forall>c \<in> set (sort ?C). c \<le> w" "w \<in> set (sort ?C)"
    using sorted_sort [of ?C] by (auto simp: sorted_append)
  with w(2) show ?thesis by (cases w) auto
qed

lemma port_candidates_covered:
  assumes "(at, aid) \<in> set (port_candidates s tid gen protocol port)"
  shows "\<exists>k c. (k, c) \<in> set (attempt_coverage s) \<and> fst k = aid \<and> cv_contains c protocol port"
  using assms by (auto simp: port_candidates_def split: if_splits)

end
