(* ===== verification/Parser_Finding.thy ===== *)
theory Parser_Finding
  imports Parser_Exposure
begin

text \<open>
  The finding lifecycle of the parser (\<^verbatim>\<open>Repository._reconcile_finding_keys\<close> and its
  helpers in \<^verbatim>\<open>parser/.../database.py\<close>): detection rules are matched against the open
  exposures of an active target, findings are opened, reopened, updated and resolved, and
  every transition is recorded as an event and queued as an immutable handoff.
\<close>

section \<open>Detection rules\<close>

definition json_strings :: "json list \<Rightarrow> string list option" where
  "json_strings vs = all_some (map (\<lambda>v. case v of JStr s \<Rightarrow> Some s | _ \<Rightarrow> None) vs)"

definition json_ports :: "json list \<Rightarrow> int list option" where
  "json_ports vs = all_some (map (\<lambda>v. case v of JInt i \<Rightarrow> (if is_port i then Some i else None) | _ \<Rightarrow> None) vs)"

text \<open>
  \<^verbatim>\<open>Repository._rule_matches\<close>. The criteria are JSON; \<^verbatim>\<open>True\<close> and \<^verbatim>\<open>False\<close> are not integers
  here, which is the \<^verbatim>\<open>isinstance(item, bool)\<close> exclusion of the code.
\<close>

definition rule_matches :: "string \<Rightarrow> rule_row \<Rightarrow> string \<Rightarrow> int \<Rightarrow> parser_error + bool" where
  "rule_matches key rule protocol port =
     (if \<not> ru_enabled rule then Inr False
      else case ru_match_criteria rule of
        JObj kvs \<Rightarrow>
          (let allowed = (if ru_rule_type rule = Exposure_rule then {''protocols''} else {''protocols'', ''ports''}) in
           if set (map fst kvs) \<noteq> allowed
           then Inl (Rule_configuration (''rule '' @ key @ '' has unsupported match fields''))
           else
             (case map_of kvs ''protocols'' of
                Some (JArr (p # ps)) \<Rightarrow>
                  (case json_strings (p # ps) of
                     None \<Rightarrow> Inl (Rule_configuration (''rule '' @ key @ '' protocols must be a nonempty string list''))
                   | Some protocols \<Rightarrow>
                       if protocol \<notin> set protocols then Inr False
                       else if ru_rule_type rule = Exposure_rule then Inr True
                       else
                         (case map_of kvs ''ports'' of
                            Some (JArr (q # qs)) \<Rightarrow>
                              (case json_ports (q # qs) of
                                 None \<Rightarrow> Inl (Rule_configuration (''rule '' @ key @ '' ports must be valid integers''))
                               | Some ports \<Rightarrow> Inr (port \<in> set ports))
                          | _ \<Rightarrow> Inl (Rule_configuration (''rule '' @ key @ '' ports must be valid integers''))))
              | _ \<Rightarrow> Inl (Rule_configuration (''rule '' @ key @ '' protocols must be a nonempty string list''))))
      | _ \<Rightarrow> Inl (Rule_configuration ''rule match_criteria must be an object''))"

text \<open>\<^verbatim>\<open>Repository._finding_resolution_reason\<close>\<close>

definition finding_resolution_reason ::
    "target_status \<Rightarrow> exposure_row option \<Rightarrow> rule_row option \<Rightarrow> finding_reason" where
  "finding_resolution_reason status exposure rule =
     (if status = Removed then OWNERSHIP_REMOVED
      else if (case exposure of None \<Rightarrow> True | Some e \<Rightarrow> ex_state e = Closed) then EXPOSURE_CLOSED
      else if (case rule of None \<Rightarrow> False | Some r \<Rightarrow> \<not> ru_enabled r) then RULE_DISABLED
      else RULE_NO_LONGER_MATCHES)"

section \<open>Events and handoffs\<close>

text \<open>
  The cause of a reconciliation: the source kind and key of its events, the scan attempt
  behind it, its time, the finding bucket and whether handoffs are queued.
\<close>

record cause =
  ca_kind :: finding_source_kind
  ca_key :: string
  ca_attempt :: "string option"
  ca_occurred_at :: time
  ca_bucket :: "string option"
  ca_queue :: bool

definition bucket_set :: "string option \<Rightarrow> bool" where
  "bucket_set b = (case b of None \<Rightarrow> False | Some x \<Rightarrow> x \<noteq> [])"

definition bucket_or_empty :: "string option \<Rightarrow> string" where
  "bucket_or_empty b = (case b of None \<Rightarrow> [] | Some x \<Rightarrow> x)"

text \<open>\<^verbatim>\<open>UPDATE act.findings SET ... WHERE fingerprint = ...\<close>: no row, no change.\<close>

definition update_finding :: "string \<Rightarrow> (finding_row \<Rightarrow> finding_row) \<Rightarrow> unit repo" where
  "update_finding fingerprint f =
     bindM (readM (\<lambda>s. tbl_get (findings s) fingerprint)) (\<lambda>found.
     case found of
       None \<Rightarrow> returnM ()
     | Some row \<Rightarrow> updateM ''findings'' findings_update finding_row_ok fingerprint (f row))"

text \<open>
  \<^verbatim>\<open>Repository._insert_finding_event\<close>. The event references its finding, so a missing
  finding is a foreign-key error.
\<close>

definition insert_finding_event :: "string \<Rightarrow> finding_event_row \<Rightarrow> unit repo" where
  "insert_finding_event key row =
     bindM (readM (\<lambda>s. tbl_get (findings s) (fv_fingerprint row))) (\<lambda>found.
     if found = None then raiseM (Database_error ''finding_events'')
     else insertM ''finding_events'' finding_events finding_events_update finding_event_row_ok key row)"

definition finding_event_key :: "string \<Rightarrow> cause \<Rightarrow> finding_event_type \<Rightarrow> int \<Rightarrow> string" where
  "finding_event_key fingerprint c ty version = stable_hash
     [JStr ''act-finding-event-v1'', JStr fingerprint, JStr (source_kind_value (ca_kind c)),
      JStr (ca_key c), JStr (finding_event_type_value ty), JInt version]"

text \<open>
  The document that \<^verbatim>\<open>Repository._finding_payload\<close> assembles from a finding row, its
  target row and an optional event row.
\<close>

definition record_of_rows :: "string \<Rightarrow> finding_row \<Rightarrow> target_row \<Rightarrow> finding_record" where
  "record_of_rows fingerprint f t =
     \<lparr>fr_fingerprint = fingerprint, fr_target_id = fi_target_id f, fr_provider = tg_provider t,
      fr_generation = tg_current_generation t, fr_protocol = fi_protocol f, fr_port = fi_port f,
      fr_rule_key = fi_rule_key f, fr_status = fi_status f, fr_severity = fi_severity f,
      fr_title = fi_title f, fr_description = fi_description f,
      fr_observed_address = fi_observed_address f, fr_service = fi_service f,
      fr_first_opened_at = fi_first_opened_at f, fr_last_seen_at = fi_last_seen_at f,
      fr_last_changed_at = fi_last_changed_at f, fr_resolved_at = fi_resolved_at f,
      fr_resolution_reason = fi_resolution_reason f, fr_version = fi_version f\<rparr>"

definition event_of_row :: "string \<Rightarrow> finding_event_row \<Rightarrow> finding_event" where
  "event_of_row key v =
     \<lparr>fe_event_key = key, fe_event_type = fv_event_type v, fe_previous_status = fv_previous_status v,
      fe_new_status = fv_new_status v, fe_reason = fv_reason v, fe_occurred_at = fv_occurred_at v,
      fe_source = \<lparr>es_kind = fv_source_kind v, es_key = fv_source_key v\<rparr>\<rparr>"

definition finding_document ::
    "finding_kind \<Rightarrow> string \<Rightarrow> finding_row \<Rightarrow> target_row \<Rightarrow> (string \<times> finding_event_row) option \<Rightarrow> finding_doc" where
  "finding_document kind fingerprint f t ev =
     \<lparr>fd_schema_version = ''1.0'', fd_kind = kind, fd_finding = record_of_rows fingerprint f t,
      fd_event = map_option (\<lambda>(k, v). event_of_row k v) ev\<rparr>"

text \<open>
  \<^verbatim>\<open>validate_finding\<close> of the contract package behind the parser's error translation: the
  size of the canonical document is bounded, then the document is validated. Its
  serialisation is the canonical payload.
\<close>

definition validate_finding_payload :: "finding_doc \<Rightarrow> parser_error + json" where
  "validate_finding_payload d =
     (if 65536 < length (utf8 (canonical_json (finding_doc_json d))) \<or> validate_finding_doc d \<noteq> None
      then Inl (Rule_configuration
             ''finding payload produced by editable detection policy failed the shared contract'')
      else Inr (finding_doc_json d))"

text \<open>\<^verbatim>\<open>Repository._finding_payload\<close>\<close>

definition finding_payload ::
    "string \<Rightarrow> finding_kind \<Rightarrow> (string \<times> finding_event_row) option \<Rightarrow> json repo" where
  "finding_payload fingerprint kind ev =
     bindM (readM (\<lambda>s. case tbl_get (findings s) fingerprint of
                          None \<Rightarrow> None
                        | Some f \<Rightarrow> (case tbl_get (targets s) (fi_target_id f) of
                                       None \<Rightarrow> None | Some t \<Rightarrow> Some (f, t))))
       (\<lambda>found. case found of
          None \<Rightarrow> raiseM (Data_invariant ''finding disappeared while queuing handoff'')
        | Some (f, t) \<Rightarrow> liftM (validate_finding_payload (finding_document kind fingerprint f t ev)))"

text \<open>
  \<^verbatim>\<open>INSERT INTO act.finding_handoffs ... ON CONFLICT (handoff_key) DO NOTHING\<close>, with the
  unique object key.
\<close>

definition insert_handoff :: "string \<Rightarrow> (time \<Rightarrow> handoff_row) \<Rightarrow> unit repo" where
  "insert_handoff key mk =
     bindM (readM (\<lambda>s. tbl_get (handoffs s) key)) (\<lambda>old.
     if old \<noteq> None then returnM ()
     else bindM clock_timestamp (\<lambda>now.
       bindM (readM (\<lambda>s. list_ex (\<lambda>r. ho_object_key r = ho_object_key (mk now)) (tbl_rows (handoffs s)))) (\<lambda>clash.
       if clash then raiseM (Database_error ''finding_handoffs'')
       else insertM ''finding_handoffs'' handoffs handoffs_update handoff_row_ok key (mk now))))"

definition new_handoff :: "handoff_kind \<Rightarrow> string \<Rightarrow> string option \<Rightarrow> string option \<Rightarrow> string option
    \<Rightarrow> string \<Rightarrow> string \<Rightarrow> json \<Rightarrow> time \<Rightarrow> handoff_row" where
  "new_handoff kind fingerprint event_key run attempt bucket object_key payload now =
     \<lparr>ho_fingerprint = fingerprint, ho_finding_event_key = event_key, ho_run_key = run,
      ho_source_attempt_id = attempt, ho_kind = kind, ho_object_bucket = bucket,
      ho_object_key = object_key, ho_payload = payload, ho_payload_sha256 = payload_hash payload,
      ho_created_at = now, ho_first_attempted_at = None, ho_last_attempted_at = None,
      ho_published_at = None, ho_publish_attempts = 0, ho_last_error_code = None\<rparr>"

text \<open>\<^verbatim>\<open>Repository._queue_finding_event\<close>\<close>

definition queue_finding_event :: "string \<Rightarrow> string \<Rightarrow> string option \<Rightarrow> string \<Rightarrow> string repo" where
  "queue_finding_event event_key fingerprint attempt bucket =
     (if bucket = [] then raiseM (Data_invariant ''finding bucket must not be empty'')
      else bindM (readM (\<lambda>s. tbl_get (finding_events s) event_key)) (\<lambda>event.
        bindM (finding_payload fingerprint FINDING_EVENT (map_option (Pair event_key) event)) (\<lambda>payload.
        let handoff_key = stable_hash [JStr ''act-handoff-v1'', JStr ''finding_event'', JStr event_key, JStr bucket];
            object_key = ''findings/events/'' @ fingerprint @ ''/'' @ event_key @ ''.json''
        in thenM (insert_handoff handoff_key
                    (new_handoff Event_handoff fingerprint (Some event_key) None attempt bucket object_key payload))
             (returnM handoff_key))))"

section \<open>Opening and updating a finding\<close>

text \<open>What \<^verbatim>\<open>Repository._ensure_finding\<close> decides about an exposure that matches a rule.\<close>

datatype finding_change =
    Seen                                                  \<comment> \<open>nothing changed: only \<^verbatim>\<open>last_seen_at\<close>\<close>
  | Transition finding_event_type "finding_status option" int finding_reason

definition finding_change_of ::
    "cause \<Rightarrow> exposure_event_type option \<Rightarrow> exposure_row \<Rightarrow> rule_row \<Rightarrow> finding_row option \<Rightarrow> finding_change" where
  "finding_change_of c transition e rule existing =
     (case existing of
        None \<Rightarrow>
          Transition OPENED None 1
            (if ca_kind c = RECONCILIATION then RECONCILIATION_REPAIR
             else if transition = Some Ex_reopened then EXPOSURE_REOPENED else EXPOSURE_OPEN)
      | Some f \<Rightarrow>
          if fi_status f = RESOLVED_ST then
            Transition REOPENED (Some RESOLVED_ST) (fi_version f + 1)
              (if ca_kind c = RECONCILIATION then RECONCILIATION_REPAIR else EXPOSURE_REOPENED)
          else
            (let identity_changed = identity_sha256 (fi_service f) \<noteq> identity_sha256 (ex_service e);
                 address_changed = fi_observed_address f \<noteq> ex_observed_address e;
                 rule_changed = fi_severity f \<noteq> ru_severity rule \<or> fi_title f \<noteq> ru_name rule
                                \<or> fi_description f \<noteq> ru_description rule
             in if \<not> (identity_changed \<or> address_changed \<or> rule_changed) then Seen
                else Transition UPDATED (Some OPEN) (fi_version f + 1)
                       (if identity_changed then SERVICE_CHANGED
                        else if address_changed then ADDRESS_CHANGED else RULE_CHANGED)))"

definition ensure_transition_at :: "cause \<Rightarrow> exposure_row \<Rightarrow> finding_row option \<Rightarrow> time" where
  "ensure_transition_at c e existing =
     foldl max (ca_occurred_at c)
       ([ex_first_opened_at e, ex_last_confirmed_at e, ex_last_changed_at e]
        @ (case existing of
             None \<Rightarrow> []
           | Some f \<Rightarrow> [fi_first_opened_at f, fi_last_seen_at f, fi_last_changed_at f]))"

definition opened_finding_row :: "exposure_key \<Rightarrow> exposure_row \<Rightarrow> string \<Rightarrow> rule_row \<Rightarrow> time
    \<Rightarrow> int \<Rightarrow> string \<Rightarrow> finding_row" where
  "opened_finding_row key e rule_key rule at version event_key =
     (case key of (tid, protocol, port) \<Rightarrow>
      \<lparr>fi_target_id = tid, fi_protocol = protocol, fi_port = port, fi_rule_key = rule_key,
       fi_status = OPEN, fi_severity = ru_severity rule, fi_title = ru_name rule,
       fi_description = ru_description rule, fi_observed_address = ex_observed_address e,
       fi_service = ex_service e, fi_first_opened_at = ex_first_opened_at e,
       fi_last_seen_at = ex_last_confirmed_at e, fi_last_changed_at = at, fi_resolved_at = None,
       fi_resolution_reason = None, fi_version = version, fi_last_event_key = event_key\<rparr>)"

definition changed_finding_row ::
    "exposure_row \<Rightarrow> rule_row \<Rightarrow> time \<Rightarrow> int \<Rightarrow> string \<Rightarrow> finding_row \<Rightarrow> finding_row" where
  "changed_finding_row e rule at version event_key f =
     f\<lparr>fi_status := OPEN, fi_severity := ru_severity rule, fi_title := ru_name rule,
       fi_description := ru_description rule, fi_observed_address := ex_observed_address e,
       fi_service := ex_service e,
       fi_last_seen_at := max (fi_last_seen_at f) (ex_last_confirmed_at e),
       fi_last_changed_at := at, fi_resolved_at := None, fi_resolution_reason := None,
       fi_version := version, fi_last_event_key := event_key\<rparr>"

text \<open>The event row and the optional handoff that end both kinds of transition.\<close>

definition publish_transition :: "cause \<Rightarrow> string \<Rightarrow> string \<Rightarrow> finding_event_row \<Rightarrow> string option repo" where
  "publish_transition c event_key fingerprint row =
     thenM (insert_finding_event event_key row)
       (if \<not> ca_queue c then returnM None
        else bindM (queue_finding_event event_key fingerprint (ca_attempt c) (bucket_or_empty (ca_bucket c)))
               (\<lambda>key. returnM (Some key)))"

text \<open>\<^verbatim>\<open>Repository._ensure_finding\<close>\<close>

definition ensure_finding :: "cause \<Rightarrow> exposure_event_type option \<Rightarrow> target_row \<Rightarrow> exposure_key
    \<Rightarrow> exposure_row \<Rightarrow> string \<Rightarrow> rule_row \<Rightarrow> finding_row option \<Rightarrow> string option repo" where
  "ensure_finding c transition t key e rule_key rule existing =
     (if ca_queue c \<and> \<not> bucket_set (ca_bucket c)
      then raiseM (Data_invariant ''finding bucket is required when handoff export is enabled'')
      else case key of (tid, protocol, port) \<Rightarrow>
        (let fingerprint = finding_fingerprint rule_key tid protocol port;
             at = ensure_transition_at c e existing
         in case finding_change_of c transition e rule existing of
              Seen \<Rightarrow>
                thenM (update_finding fingerprint
                         (\<lambda>f. f\<lparr>fi_last_seen_at := max (fi_last_seen_at f) (ex_last_confirmed_at e)\<rparr>))
                  (returnM None)
            | Transition ty previous version reason \<Rightarrow>
                (let event_key = finding_event_key fingerprint c ty version in
                 thenM (if existing = None
                        then insertM ''findings'' findings findings_update finding_row_ok fingerprint
                               (opened_finding_row key e rule_key rule at version event_key)
                        else update_finding fingerprint (changed_finding_row e rule at version event_key))
                   (publish_transition c event_key fingerprint
                      \<lparr>fv_fingerprint = fingerprint, fv_target_id = tid,
                       fv_target_generation = tg_current_generation t, fv_protocol = protocol,
                       fv_port = port, fv_rule_key = rule_key, fv_event_type = ty,
                       fv_previous_status = previous, fv_new_status = OPEN,
                       fv_severity = ru_severity rule, fv_reason = reason,
                       fv_finding_version = version, fv_source_kind = ca_kind c,
                       fv_source_key = ca_key c, fv_source_attempt_id = ca_attempt c,
                       fv_identity = identity_sha256 (ex_service e), fv_occurred_at = at\<rparr>))))"

section \<open>Resolving a finding\<close>

definition resolve_transition_at :: "cause \<Rightarrow> finding_row \<Rightarrow> time" where
  "resolve_transition_at c f =
     foldl max (ca_occurred_at c) [fi_first_opened_at f, fi_last_seen_at f, fi_last_changed_at f]"

text \<open>\<^verbatim>\<open>Repository._resolve_finding\<close>\<close>

definition resolve_finding :: "cause \<Rightarrow> string \<Rightarrow> finding_row \<Rightarrow> int \<Rightarrow> finding_reason \<Rightarrow> string option repo" where
  "resolve_finding c fingerprint f gen reason =
     (if ca_queue c \<and> \<not> bucket_set (ca_bucket c)
      then raiseM (Data_invariant ''finding bucket is required when handoff export is enabled'')
      else if fi_status f \<noteq> OPEN then returnM None
      else
        (let version = fi_version f + 1;
             at = resolve_transition_at c f;
             event_key = finding_event_key fingerprint c RESOLVED version
         in thenM (update_finding fingerprint
                     (\<lambda>r. r\<lparr>fi_status := RESOLVED_ST, fi_last_changed_at := at,
                            fi_resolved_at := Some at, fi_resolution_reason := Some reason,
                            fi_version := version, fi_last_event_key := event_key\<rparr>))
              (publish_transition c event_key fingerprint
                 \<lparr>fv_fingerprint = fingerprint, fv_target_id = fi_target_id f,
                  fv_target_generation = gen, fv_protocol = fi_protocol f, fv_port = fi_port f,
                  fv_rule_key = fi_rule_key f, fv_event_type = RESOLVED,
                  fv_previous_status = Some OPEN, fv_new_status = RESOLVED_ST,
                  fv_severity = fi_severity f, fv_reason = reason, fv_finding_version = version,
                  fv_source_kind = ca_kind c, fv_source_key = ca_key c,
                  fv_source_attempt_id = ca_attempt c,
                  fv_identity = identity_sha256 (fi_service f), fv_occurred_at = at\<rparr>)))"

section \<open>Reconciliation of a set of services\<close>

text \<open>\<^verbatim>\<open>SELECT * FROM act.findings WHERE target_id AND protocol AND port\<close>, by rule key.\<close>

definition findings_of :: "exposure_key \<Rightarrow> db \<Rightarrow> (string \<times> finding_row) list" where
  "findings_of key s =
     filter (\<lambda>(fp, f). (fi_target_id f, fi_protocol f, fi_port f) = key) (findings s)"

definition existing_for :: "(string \<times> finding_row) list \<Rightarrow> string \<Rightarrow> finding_row option" where
  "existing_for rows rule_key = map_of (rev (map (\<lambda>(fp, f). (fi_rule_key f, f)) rows)) rule_key"

definition append_key :: "string list \<Rightarrow> string option \<Rightarrow> string list" where
  "append_key queued handoff = (case handoff of None \<Rightarrow> queued | Some k \<Rightarrow> queued @ [k])"

text \<open>The body of the first inner loop: one detection rule against one open exposure.\<close>

definition match_step :: "cause \<Rightarrow> exposure_event_type option \<Rightarrow> target_row \<Rightarrow> exposure_key \<Rightarrow> exposure_row
    \<Rightarrow> (string \<times> finding_row) list \<Rightarrow> string list \<times> string list \<Rightarrow> string \<times> rule_row
    \<Rightarrow> (string list \<times> string list) repo" where
  "match_step c transition t key e rows acc rule =
     bindM (liftM (rule_matches (fst rule) (snd rule) (fst (snd key)) (snd (snd key)))) (\<lambda>m.
     if \<not> m then returnM acc
     else bindM (ensure_finding c transition t key e (fst rule) (snd rule) (existing_for rows (fst rule)))
            (\<lambda>handoff. returnM (fst rule # fst acc, append_key (snd acc) handoff)))"

text \<open>The body of the second inner loop: an open finding whose rule did not match.\<close>

definition resolve_step :: "cause \<Rightarrow> target_row \<Rightarrow> exposure_row option \<Rightarrow> (string \<times> rule_row) list
    \<Rightarrow> string list \<Rightarrow> string list \<Rightarrow> string \<times> finding_row \<Rightarrow> string list repo" where
  "resolve_step c t exposure rules matched queued row =
     (if fi_status (snd row) \<noteq> OPEN \<or> fi_rule_key (snd row) \<in> set matched then returnM queued
      else bindM (resolve_finding c (fst row) (snd row) (tg_current_generation t)
                    (finding_resolution_reason (tg_status t) exposure (map_of rules (fi_rule_key (snd row)))))
             (\<lambda>handoff. returnM (append_key queued handoff)))"

definition reconcile_key :: "cause \<Rightarrow> string \<Rightarrow> (service_key \<times> exposure_event_type) list
    \<Rightarrow> (string \<times> rule_row) list \<Rightarrow> string list \<Rightarrow> service_key \<Rightarrow> string list repo" where
  "reconcile_key c tid transitions rules queued key =
     bindM (readM (\<lambda>s. tbl_get (exposures s) (tid, key))) (\<lambda>exposure.
     bindM (readM (\<lambda>s. tbl_get (targets s) tid)) (\<lambda>target.
     case target of
       None \<Rightarrow> raiseM (Unknown_target ''finding target is not present'')
     | Some t \<Rightarrow>
         bindM (readM (findings_of (tid, key))) (\<lambda>rows.
         bindM (case exposure of
                  None \<Rightarrow> returnM ([], queued)
                | Some e \<Rightarrow>
                    if ex_state e = Exposed \<and> tg_status t = Active
                    then foldM (match_step c (map_of transitions key) t (tid, key) e rows) ([], queued) rules
                    else returnM ([], queued))
           (\<lambda>acc. foldM (resolve_step c t exposure rules (fst acc)) (snd acc) rows))))"

text \<open>\<^verbatim>\<open>Repository._reconcile_finding_keys\<close>\<close>

definition reconcile_finding_keys :: "cause \<Rightarrow> string \<Rightarrow> (service_key \<times> exposure_event_type) list
    \<Rightarrow> service_key list \<Rightarrow> string list repo" where
  "reconcile_finding_keys c tid transitions keys =
     bindM (readM (\<lambda>s. sort_key fst (detection_rules s))) (\<lambda>rules.
     foldM (reconcile_key c tid transitions rules) [] (sorted_set keys))"

section \<open>Writes to the outbox\<close>

text \<open>A change confined to finding events, handoffs and the clock.\<close>

definition outbox_only :: "db \<Rightarrow> db \<Rightarrow> bool" where
  "outbox_only s t \<longleftrightarrow>
     (\<exists>E H c. t = s\<lparr>finding_events := E, handoffs := H, db_clock := c\<rparr>)"

lemma outbox_only_frame:
  assumes "outbox_only s t"
  shows "targets t = targets s" "target_events t = target_events s"
    "scan_attempts t = scan_attempts s" "attempt_coverage t = attempt_coverage s"
    "observations t = observations s" "exposures t = exposures s"
    "exposure_events t = exposure_events s" "detection_rules t = detection_rules s"
    "findings t = findings s" "runs t = runs s"
  using assms by (auto simp: outbox_only_def)

lemma outbox_onlyI:
  "outbox_only s (handoffs_update f s)" "outbox_only s (finding_events_update g s)"
  "outbox_only s (db_clock_update h s)"
  unfolding outbox_only_def by (cases s; simp)+

interpretation outbox: effect_preorder outbox_only
proof
  show "outbox_only s s" for s
    by (cases s) (auto simp: outbox_only_def)
  show "outbox_only s u" if "outbox_only s t" "outbox_only t u" for s t u
    using that by (auto simp: outbox_only_def) blast
qed

lemma insert_handoff_outbox: "moves outbox_only (insert_handoff key mk)"
proof (rule movesI)
  fix s x t assume "insert_handoff key mk s = (Inr x, t)"
  then have "t = s \<or> (\<exists>r. t = handoffs_update (tbl_put key r) (s\<lparr>db_clock := db_clock s + 1\<rparr>))"
    by (auto simp: insert_handoff_def repo_Inr split: if_splits)
  then show "outbox_only s t"
    using outbox.refl outbox.trans outbox_onlyI by blast
qed

lemma insert_finding_event_outbox: "moves outbox_only (insert_finding_event key row)"
  by (rule movesI)
    (auto simp: insert_finding_event_def repo_Inr split: if_splits intro: outbox_onlyI)

lemma finding_payload_outbox: "moves outbox_only (finding_payload fp kind ev)"
  unfolding finding_payload_def by (intro outbox.moves_rules moves_intro)

lemma queue_finding_event_outbox: "moves outbox_only (queue_finding_event ek fp a b)"
  unfolding queue_finding_event_def Let_def
  by (intro moves_intro outbox.moves_rules finding_payload_outbox insert_handoff_outbox)

lemma publish_transition_outbox: "moves outbox_only (publish_transition c ek fp row)"
  unfolding publish_transition_def
  by (intro moves_intro outbox.moves_rules insert_finding_event_outbox queue_finding_event_outbox)

end
