(* ===== verification/Parser_Lifecycle.thy ===== *)
theory Parser_Lifecycle
  imports Parser_Finding
begin

text \<open>
  The finding lifecycle: well-formed finding rows, what one call of \<^verbatim>\<open>_ensure_finding\<close> or
  \<^verbatim>\<open>_resolve_finding\<close> writes, and what a reconciliation of a service leaves behind, namely
  that its open findings are exactly those its detection rules ask for.
\<close>

section \<open>Well-formed findings\<close>

definition service_of :: "finding_row \<Rightarrow> exposure_key" where
  "service_of f = (fi_target_id f, fi_protocol f, fi_port f)"

definition fingerprint_for :: "exposure_key \<Rightarrow> string \<Rightarrow> string" where
  "fingerprint_for k rule_key = finding_fingerprint rule_key (fst k) (fst (snd k)) (snd (snd k))"

text \<open>
  The row is stored under the fingerprint of its rule and service, satisfies the schema,
  and its status and timestamps are those the published contract asks for.
\<close>

definition finding_wf :: "string \<Rightarrow> finding_row \<Rightarrow> bool" where
  "finding_wf fp f \<longleftrightarrow> fp = fingerprint_for (service_of f) (fi_rule_key f) \<and> finding_row_ok fp f
     \<and> fi_first_opened_at f \<le> fi_last_seen_at f \<and> fi_first_opened_at f \<le> fi_last_changed_at f
     \<and> (fi_status f = RESOLVED_ST \<longrightarrow> fi_resolved_at f = Some (fi_last_changed_at f)
          \<and> fi_last_seen_at f \<le> fi_last_changed_at f)"

lemma finding_wf_timeline:
  "finding_wf fp f \<Longrightarrow> validate_state_and_timeline (record_of_rows fp f t) = None"
  by (auto simp: finding_wf_def finding_row_ok_def validate_state_and_timeline_None record_of_rows_def
      split: finding_status.splits option.splits)

definition findings_ok :: "db \<Rightarrow> bool" where
  "findings_ok s \<longleftrightarrow> tbl_ok (findings s)
     \<and> (\<forall>fp f. tbl_get (findings s) fp = Some f \<longrightarrow> finding_wf fp f)"

lemma findings_okD: "findings_ok s \<Longrightarrow> tbl_get (findings s) fp = Some f \<Longrightarrow> finding_wf fp f"
  by (simp add: findings_ok_def)

lemma findings_ok_put:
  "findings_ok s \<Longrightarrow> finding_wf fp f \<Longrightarrow> findings t = tbl_put fp f (findings s) \<Longrightarrow> findings_ok t"
  by (auto simp: findings_ok_def tbl.ok_put split: if_splits)

lemma findings_ok_cong: "findings t = findings s \<Longrightarrow> findings_ok t = findings_ok s"
  by (simp add: findings_ok_def)

section \<open>One call\<close>

text \<open>The change of the database that a call may make: one finding row, and the outbox.\<close>

definition puts_finding :: "string \<Rightarrow> finding_row \<Rightarrow> db \<Rightarrow> db \<Rightarrow> bool" where
  "puts_finding fp f s t \<longleftrightarrow> outbox_only (findings_update (tbl_put fp f) s) t"

lemma puts_finding_frame:
  assumes "puts_finding fp f s t"
  shows "findings t = tbl_put fp f (findings s)" "targets t = targets s" "exposures t = exposures s"
    "exposure_events t = exposure_events s" "detection_rules t = detection_rules s"
    "scan_attempts t = scan_attempts s" "attempt_coverage t = attempt_coverage s"
    "target_events t = target_events s" "observations t = observations s" "runs t = runs s"
  using outbox_only_frame [OF assms [unfolded puts_finding_def]] by simp_all

text \<open>The row that \<^verbatim>\<open>_ensure_finding\<close> leaves under the fingerprint.\<close>

definition ensured_row :: "cause \<Rightarrow> exposure_event_type option \<Rightarrow> exposure_key \<Rightarrow> exposure_row \<Rightarrow> string
    \<Rightarrow> rule_row \<Rightarrow> finding_row option \<Rightarrow> finding_row" where
  "ensured_row c tr k e rk rule existing =
     (let fp = fingerprint_for k rk; at = ensure_transition_at c e existing in
      case (finding_change_of c tr e rule existing, existing) of
        (Transition ty _ version _, None) \<Rightarrow>
          opened_finding_row k e rk rule at version (finding_event_key fp c ty version)
      | (Transition ty _ version _, Some f) \<Rightarrow>
          changed_finding_row e rule at version (finding_event_key fp c ty version) f
      | (Seen, Some f) \<Rightarrow> f\<lparr>fi_last_seen_at := max (fi_last_seen_at f) (ex_last_confirmed_at e)\<rparr>
      | (Seen, None) \<Rightarrow> undefined)"

lemma finding_change_not_Seen: "finding_change_of c tr e rule None \<noteq> Seen"
  by (simp add: finding_change_of_def)

lemma ensure_finding_puts:
  assumes run: "ensure_finding c tr t k e rk rule existing s = (Inr h, s')"
    and cons: "\<And>f. existing = Some f \<Longrightarrow> tbl_get (findings s) (fingerprint_for k rk) = Some f"
  shows "puts_finding (fingerprint_for k rk) (ensured_row c tr k e rk rule existing) s s'"
    and "existing = tbl_get (findings s) (fingerprint_for k rk)"
    and "finding_row_ok (fingerprint_for k rk) (ensured_row c tr k e rk rule existing)"
proof -
  obtain tid protocol port where k: "k = (tid, protocol, port)" by (cases k)
  note publish = movesD [OF publish_transition_outbox]
  have "puts_finding (fingerprint_for k rk) (ensured_row c tr k e rk rule existing) s s'
      \<and> existing = tbl_get (findings s) (fingerprint_for k rk)
      \<and> finding_row_ok (fingerprint_for k rk) (ensured_row c tr k e rk rule existing)"
    using run cons finding_change_not_Seen [of c tr e rule]
    by (cases existing)
      (auto simp: ensure_finding_def ensured_row_def Let_def repo_Inr update_finding_def k
        fingerprint_for_def puts_finding_def outbox.refl dest: publish
        split: if_splits finding_change.splits option.splits)
  then show "puts_finding (fingerprint_for k rk) (ensured_row c tr k e rk rule existing) s s'"
    and "existing = tbl_get (findings s) (fingerprint_for k rk)"
    and "finding_row_ok (fingerprint_for k rk) (ensured_row c tr k e rk rule existing)" by blast+
qed

lemma foldl_max_ge: "(a::time) \<le> foldl max a xs" "x \<in> set xs \<Longrightarrow> x \<le> foldl max a xs"
proof (induction xs arbitrary: a)
  case (Cons y ys)
  { case 1 show ?case using Cons.IH(1) [of "max a y"] by simp }
  { case 2 then show ?case using Cons.IH [of "max a y"] by auto }
qed simp_all

lemma ensure_transition_at_ge:
  "ex_first_opened_at e \<le> ensure_transition_at c e x" "ex_last_confirmed_at e \<le> ensure_transition_at c e x"
  "fi_first_opened_at f \<le> ensure_transition_at c e (Some f)"
  "fi_last_seen_at f \<le> ensure_transition_at c e (Some f)"
  "fi_last_changed_at f \<le> ensure_transition_at c e (Some f)"
  unfolding ensure_transition_at_def by (intro foldl_max_ge(2); simp)+

lemma resolve_transition_at_ge:
  "fi_first_opened_at f \<le> resolve_transition_at c f" "fi_last_seen_at f \<le> resolve_transition_at c f"
  "fi_last_changed_at f \<le> resolve_transition_at c f"
  unfolding resolve_transition_at_def by (intro foldl_max_ge(2); simp)+

lemma finding_wf_step:
  assumes "finding_wf fp f" "finding_row_ok fp f'"
    and "service_of f' = service_of f" "fi_rule_key f' = fi_rule_key f"
    and "fi_first_opened_at f' = fi_first_opened_at f" "fi_last_seen_at f \<le> fi_last_seen_at f'"
    and "fi_last_changed_at f \<le> fi_last_changed_at f'"
    and "fi_status f' = RESOLVED_ST \<Longrightarrow> fi_resolved_at f' = Some (fi_last_changed_at f')
           \<and> fi_last_seen_at f' \<le> fi_last_changed_at f'"
  shows "finding_wf fp f'"
  using assms by (simp add: finding_wf_def)

lemma service_of_updates [simp]:
  "service_of (f\<lparr>fi_last_seen_at := x\<rparr>) = service_of f"
  "service_of (changed_finding_row e rule at v ek f) = service_of f"
  "fi_rule_key (changed_finding_row e rule at v ek f) = fi_rule_key f"
  by (simp_all add: service_of_def changed_finding_row_def)

lemma ensured_row_wf:
  assumes e: "ex_first_opened_at e \<le> ex_last_confirmed_at e"
    and ok: "finding_row_ok (fingerprint_for k rk) (ensured_row c tr k e rk rule existing)"
    and old: "\<And>f. existing = Some f \<Longrightarrow> finding_wf (fingerprint_for k rk) f \<and> fi_rule_key f = rk \<and> service_of f = k"
  shows "finding_wf (fingerprint_for k rk) (ensured_row c tr k e rk rule existing)
     \<and> fi_status (ensured_row c tr k e rk rule existing) = OPEN
     \<and> service_of (ensured_row c tr k e rk rule existing) = k
     \<and> fi_rule_key (ensured_row c tr k e rk rule existing) = rk"
proof (cases existing)
  case None
  then obtain ty p v r where "finding_change_of c tr e rule existing = Transition ty p v r"
    using finding_change_not_Seen by (cases "finding_change_of c tr e rule existing") auto
  then have "ensured_row c tr k e rk rule existing = opened_finding_row k e rk rule
      (ensure_transition_at c e None) v (finding_event_key (fingerprint_for k rk) c ty v)"
    by (simp add: ensured_row_def Let_def None)
  with ok e ensure_transition_at_ge(1) [of e c None] show ?thesis
    by (cases k) (auto simp: finding_wf_def opened_finding_row_def service_of_def)
next
  case (Some f)
  note ge = ensure_transition_at_ge(1,2) [of e c "Some f"] ensure_transition_at_ge(3-5) [of f c e]
  show ?thesis
  proof (cases "finding_change_of c tr e rule existing")
    case Seen
    then have "fi_status f = OPEN"
      by (cases "fi_status f") (auto simp: finding_change_of_def Some Let_def)
    moreover from Seen have row: "ensured_row c tr k e rk rule existing =
        f\<lparr>fi_last_seen_at := max (fi_last_seen_at f) (ex_last_confirmed_at e)\<rparr>"
      by (simp add: ensured_row_def Let_def Some)
    ultimately show ?thesis
      using ok [unfolded row] old [OF Some] unfolding row
      by (auto intro!: finding_wf_step [of _ f])
  next
    case (Transition ty p v r)
    then have row: "ensured_row c tr k e rk rule existing = changed_finding_row e rule
        (ensure_transition_at c e (Some f)) v (finding_event_key (fingerprint_for k rk) c ty v) f"
      by (simp add: ensured_row_def Let_def Some)
    show ?thesis
      using ok [unfolded row] old [OF Some] ge unfolding row
      by (auto intro!: finding_wf_step [of _ f]) (simp_all add: changed_finding_row_def)
  qed
qed

section \<open>Resolving\<close>

definition resolved_row :: "cause \<Rightarrow> string \<Rightarrow> finding_reason \<Rightarrow> finding_row \<Rightarrow> finding_row" where
  "resolved_row c fp reason f =
     (let at = resolve_transition_at c f in
      f\<lparr>fi_status := RESOLVED_ST, fi_last_changed_at := at, fi_resolved_at := Some at,
        fi_resolution_reason := Some reason, fi_version := fi_version f + 1,
        fi_last_event_key := finding_event_key fp c RESOLVED (fi_version f + 1)\<rparr>)"

lemma resolve_finding_puts:
  assumes run: "resolve_finding c fp f gen reason s = (Inr h, s')"
    and cur: "tbl_get (findings s) fp = Some f" and "open": "fi_status f = OPEN"
  shows "puts_finding fp (resolved_row c fp reason f) s s' \<and> finding_row_ok fp (resolved_row c fp reason f)"
  using assms
  by (auto simp: resolve_finding_def Let_def repo_Inr update_finding_def resolved_row_def
      puts_finding_def dest: movesD [OF publish_transition_outbox] split: if_splits)

lemma resolved_row_wf:
  assumes "finding_wf fp f" "finding_row_ok fp (resolved_row c fp reason f)"
  shows "finding_wf fp (resolved_row c fp reason f)" "fi_status (resolved_row c fp reason f) = RESOLVED_ST"
    "service_of (resolved_row c fp reason f) = service_of f"
    "fi_rule_key (resolved_row c fp reason f) = fi_rule_key f"
  using assms resolve_transition_at_ge [of f c]
  by (auto simp: finding_wf_def resolved_row_def Let_def service_of_def)

section \<open>What a reconciliation may touch\<close>

definition findings_only :: "db \<Rightarrow> db \<Rightarrow> bool" where
  "findings_only s t \<longleftrightarrow>
     (\<exists>F E H c. t = s\<lparr>findings := F, finding_events := E, handoffs := H, db_clock := c\<rparr>)"

lemma findings_only_frame:
  assumes "findings_only s t"
  shows "targets t = targets s" "target_events t = target_events s"
    "scan_attempts t = scan_attempts s" "attempt_coverage t = attempt_coverage s"
    "observations t = observations s" "exposures t = exposures s"
    "exposure_events t = exposure_events s" "detection_rules t = detection_rules s"
    "runs t = runs s"
  using assms by (auto simp: findings_only_def)

interpretation fonly: effect_preorder findings_only
proof
  show "findings_only s s" for s
    by (cases s) (auto simp: findings_only_def)
  show "findings_only s u" if "findings_only s t" "findings_only t u" for s t u
    using that by (auto simp: findings_only_def) blast
qed

lemma outbox_findings_only: "outbox_only s t \<Longrightarrow> findings_only s t"
  by (cases s) (auto simp: outbox_only_def findings_only_def)

lemma findings_only_put: "findings_only s (findings_update f s)"
  by (cases s) (auto simp: findings_only_def)

lemma publish_transition_findings: "moves findings_only (publish_transition c ek fp row)"
  using movesD [OF publish_transition_outbox] by (blast intro: movesI outbox_findings_only)

lemma update_finding_findings: "moves findings_only (update_finding fp f)"
  by (rule movesI) (auto simp: update_finding_def repo_Inr fonly.refl findings_only_put split: option.splits)

lemma insert_finding_findings: "moves findings_only (insertM n findings findings_update ok k r)"
  by (rule movesI) (auto simp: repo_Inr findings_only_put)

lemma ensure_finding_findings: "moves findings_only (ensure_finding c tr t k e rk rule existing)"
  unfolding ensure_finding_def Let_def
  by (cases "finding_change_of c tr e rule existing")
    (auto intro!: moves_intro fonly.moves_rules publish_transition_findings update_finding_findings
      insert_finding_findings)

lemma resolve_finding_findings: "moves findings_only (resolve_finding c fp f gen reason)"
  unfolding resolve_finding_def Let_def
  by (intro moves_intro fonly.moves_rules publish_transition_findings update_finding_findings)

lemma match_step_findings: "moves findings_only (match_step c tr t k e rows acc rule)"
  unfolding match_step_def by (intro moves_intro fonly.moves_rules ensure_finding_findings)

lemma resolve_step_findings: "moves findings_only (resolve_step c t e rules m q row)"
  unfolding resolve_step_def by (intro moves_intro fonly.moves_rules resolve_finding_findings)

lemma reconcile_key_findings: "moves findings_only (reconcile_key c tid trs rules q key)"
  unfolding reconcile_key_def
  by (intro moves_intro fonly.moves_rules match_step_findings resolve_step_findings)

lemma reconcile_finding_keys_findings: "moves findings_only (reconcile_finding_keys c tid trs keys)"
  unfolding reconcile_finding_keys_def by (intro fonly.moves_rules reconcile_key_findings)

section \<open>The two loops over one service\<close>

definition others_same :: "exposure_key \<Rightarrow> db \<Rightarrow> db \<Rightarrow> bool" where
  "others_same k s t \<longleftrightarrow>
     (\<forall>fp f. service_of f \<noteq> k \<longrightarrow> (tbl_get (findings t) fp = Some f \<longleftrightarrow> tbl_get (findings s) fp = Some f))"

lemma others_same_refl [simp]: "others_same k s s"
  by (simp add: others_same_def)

lemma findings_of_iff:
  "tbl_ok (findings s) \<Longrightarrow> (fp, f) \<in> set (findings_of k s) \<longleftrightarrow> tbl_get (findings s) fp = Some f \<and> service_of f = k"
  by (auto simp: findings_of_def service_of_def tbl_mem_get)

lemma existing_for_Some:
  "existing_for rows rk = Some f \<Longrightarrow> \<exists>fp. (fp, f) \<in> set rows \<and> fi_rule_key f = rk"
  by (auto simp: existing_for_def dest!: map_of_SomeD)

text \<open>
  The state while rules are matched: the services of other keys are as before, the rows
  whose rule has not matched yet are as read, and every matched rule has an open finding.
\<close>

definition matching :: "exposure_key \<Rightarrow> db \<Rightarrow> (string \<times> finding_row) list
    \<Rightarrow> (finding_row \<Rightarrow> bool) \<Rightarrow> string set \<Rightarrow> db \<Rightarrow> bool" where
  "matching k s0 rows Q M s \<longleftrightarrow> findings_ok s \<and> others_same k s0 s
     \<and> (\<forall>fp f. fi_rule_key f \<notin> M \<longrightarrow> service_of f = k
           \<longrightarrow> (tbl_get (findings s) fp = Some f \<longleftrightarrow> (fp, f) \<in> set rows))
     \<and> (\<forall>rk \<in> M. \<exists>f. tbl_get (findings s) (fingerprint_for k rk) = Some f \<and> fi_status f = OPEN
           \<and> service_of f = k \<and> fi_rule_key f = rk \<and> Q f)"

lemma matching_start:
  "findings_ok s \<Longrightarrow> matching k s (findings_of k s) Q {} s"
  by (auto simp: matching_def findings_of_iff findings_ok_def)

lemma matching_ensure:
  assumes m: "matching k s0 rows Q M s" and rk: "rk \<notin> M"
    and rows: "\<And>fp f. (fp, f) \<in> set rows \<Longrightarrow> service_of f = k"
    and e: "ex_first_opened_at e \<le> ex_last_confirmed_at e"
    and run: "ensure_finding c tr t k e rk rule (existing_for rows rk) s = (Inr h, s')"
    and Q: "Q (ensured_row c tr k e rk rule (existing_for rows rk))"
  shows "matching k s0 rows Q (insert rk M) s'"
proof -
  let ?fp = "fingerprint_for k rk" and ?old = "existing_for rows rk"
  let ?new = "ensured_row c tr k e rk rule ?old"
  have cons: "tbl_get (findings s) ?fp = Some f \<and> fi_rule_key f = rk \<and> service_of f = k"
    if old: "?old = Some f" for f
  proof -
    obtain fp where f: "(fp, f) \<in> set rows" "fi_rule_key f = rk" "service_of f = k"
      using existing_for_Some [OF old] rows by blast
    with m rk have "tbl_get (findings s) fp = Some f" by (auto simp: matching_def)
    moreover with m f have "fp = ?fp" by (auto simp: matching_def finding_wf_def dest: findings_okD)
    ultimately show ?thesis using f by simp
  qed
  note puts = ensure_finding_puts [OF run] 
  have fs: "findings s' = tbl_put ?fp ?new (findings s)" and cur: "?old = tbl_get (findings s) ?fp"
    and ok: "finding_row_ok ?fp ?new"
    using puts cons puts_finding_frame(1) by blast+
  have wf: "finding_wf ?fp f" if "?old = Some f" for f
    using cons [OF that] m findings_okD unfolding matching_def by blast
  have "finding_wf ?fp ?new \<and> fi_status ?new = OPEN \<and> service_of ?new = k \<and> fi_rule_key ?new = rk"
    by (rule ensured_row_wf [OF e ok]) (simp add: cons wf)
  then have new: "finding_wf ?fp ?new" "fi_status ?new = OPEN" "service_of ?new = k" "fi_rule_key ?new = rk"
    by blast+
  have clash: "fi_rule_key f = rk \<and> service_of f = k" if "tbl_get (findings s) ?fp = Some f" for f
    using that cons unfolding cur [symmetric] by blast
  have get: "tbl_get (findings s') g = (if g = ?fp then Some ?new else tbl_get (findings s) g)" for g
    by (simp add: fs)
  have "others_same k s0 s'"
    unfolding others_same_def
  proof (intro allI impI)
    fix g f assume f: "service_of f \<noteq> k"
    with m have "tbl_get (findings s) g = Some f \<longleftrightarrow> tbl_get (findings s0) g = Some f"
      unfolding matching_def others_same_def by blast
    moreover have "Some ?new \<noteq> Some f" "g = ?fp \<Longrightarrow> tbl_get (findings s) g \<noteq> Some f"
      using f new(3) clash by blast+
    ultimately show "tbl_get (findings s') g = Some f \<longleftrightarrow> tbl_get (findings s0) g = Some f"
      unfolding get by presburger
  qed
  moreover have "tbl_get (findings s') g = Some f \<longleftrightarrow> (g, f) \<in> set rows"
    if "fi_rule_key f \<notin> insert rk M" "service_of f = k" for g f
  proof -
    from that m have "tbl_get (findings s) g = Some f \<longleftrightarrow> (g, f) \<in> set rows"
      unfolding matching_def by blast
    moreover have "Some ?new \<noteq> Some f" "g = ?fp \<Longrightarrow> tbl_get (findings s) g \<noteq> Some f"
      using that new(4) clash by blast+
    ultimately show ?thesis unfolding get by presburger
  qed
  moreover have "\<exists>f. tbl_get (findings s') (fingerprint_for k r) = Some f \<and> fi_status f = OPEN
      \<and> service_of f = k \<and> fi_rule_key f = r \<and> Q f" if "r \<in> insert rk M" for r
  proof (cases "r = rk")
    case False
    with that m obtain f where f: "tbl_get (findings s) (fingerprint_for k r) = Some f" "fi_status f = OPEN"
      "service_of f = k" "fi_rule_key f = r" "Q f" unfolding matching_def by blast
    with clash False have "fingerprint_for k r \<noteq> ?fp" by metis
    with f show ?thesis unfolding get by simp
  qed (simp add: get new Q)
  moreover have "findings_ok s'"
    using m new(1) fs findings_ok_put unfolding matching_def by blast
  ultimately show ?thesis unfolding matching_def by blast
qed

definition matched_rules :: "exposure_key \<Rightarrow> (string \<times> rule_row) list \<Rightarrow> string set" where
  "matched_rules k rules =
     {rk. \<exists>rule. (rk, rule) \<in> set rules \<and> rule_matches rk rule (fst (snd k)) (snd (snd k)) = Inr True}"

lemma matched_rules_fst: "matched_rules k rules \<subseteq> fst ` set rules"
  by (force simp: matched_rules_def)

lemma match_loop:
  assumes run: "foldM (match_step c tr t k e rows) ([], q) rules s = (Inr acc, s')"
    and start: "matching k s0 rows Q {} s" and dist: "distinct (map fst rules)"
    and rows: "\<And>fp f. (fp, f) \<in> set rows \<Longrightarrow> service_of f = k"
    and e: "ex_first_opened_at e \<le> ex_last_confirmed_at e"
    and Q: "\<And>rk rule. (rk, rule) \<in> set rules \<Longrightarrow> Q (ensured_row c tr k e rk rule (existing_for rows rk))"
  shows "set (fst acc) = matched_rules k rules \<and> matching k s0 rows Q (matched_rules k rules) s'"
proof (rule foldM_invariant [OF run])
  show "set (fst ([], q)) = matched_rules k [] \<and> matching k s0 rows Q (matched_rules k []) s"
    using start by (simp add: matched_rules_def)
next
  fix ds x rest b s1 b' s2
  assume xs: "rules = ds @ x # rest" and step: "match_step c tr t k e rows b x s1 = (Inr b', s2)"
    and J: "set (fst b) = matched_rules k ds \<and> matching k s0 rows Q (matched_rules k ds) s1"
  obtain rk rule where x: "x = (rk, rule)" by (cases x)
  let ?m = "rule_matches rk rule (fst (snd k)) (snd (snd k))"
  have new: "rk \<notin> matched_rules k ds"
    using dist matched_rules_fst [of k ds] unfolding xs x by auto
  have snoc: "matched_rules k (ds @ [x])
      = (if ?m = Inr True then insert rk (matched_rules k ds) else matched_rules k ds)"
    by (auto simp: matched_rules_def x)
  from step obtain m where m: "?m = Inr m"
    by (auto simp: match_step_def repo_Inr x)
  show "set (fst b') = matched_rules k (ds @ [x]) \<and> matching k s0 rows Q (matched_rules k (ds @ [x])) s2"
  proof (cases m)
    case False
    with step m have "b' = b" "s2 = s1" by (auto simp: match_step_def repo_Inr x)
    with J m False show ?thesis unfolding snoc by simp
  next
    case True
    with step m obtain h where
      ens: "ensure_finding c tr t k e rk rule (existing_for rows rk) s1 = (Inr h, s2)"
      and b': "fst b' = rk # fst b"
      by (auto simp: match_step_def repo_Inr x)
    have "matching k s0 rows Q (insert rk (matched_rules k ds)) s2"
      by (rule matching_ensure [OF _ new rows e ens]) (use J Q [of rk rule] in \<open>auto simp: xs x\<close>)
    with J m True b' show ?thesis unfolding snoc by simp
  qed
qed

text \<open>The state while unmatched open findings are resolved.\<close>

definition settling :: "exposure_key \<Rightarrow> db \<Rightarrow> (string \<times> finding_row) list
    \<Rightarrow> (finding_row \<Rightarrow> bool) \<Rightarrow> string set \<Rightarrow> string set \<Rightarrow> db \<Rightarrow> bool" where
  "settling k s0 rows Q M D s \<longleftrightarrow> findings_ok s \<and> others_same k s0 s
     \<and> (\<forall>fp f. fi_rule_key f \<notin> M \<longrightarrow> service_of f = k \<longrightarrow> fp \<notin> D
           \<longrightarrow> (tbl_get (findings s) fp = Some f \<longleftrightarrow> (fp, f) \<in> set rows))
     \<and> (\<forall>fp f. fp \<in> D \<longrightarrow> tbl_get (findings s) fp = Some f \<longrightarrow> fi_rule_key f \<notin> M \<longrightarrow> fi_status f \<noteq> OPEN)
     \<and> (\<forall>rk \<in> M. \<exists>f. tbl_get (findings s) (fingerprint_for k rk) = Some f \<and> fi_status f = OPEN
           \<and> service_of f = k \<and> fi_rule_key f = rk \<and> Q f)"

lemma settling_start: "matching k s0 rows Q M s \<Longrightarrow> settling k s0 rows Q M {} s"
  unfolding matching_def settling_def by simp

lemma settling_skip:
  assumes "settling k s0 rows Q M D s"
    and "\<And>g. tbl_get (findings s) fp = Some g \<Longrightarrow> fi_rule_key g \<in> M \<or> fi_status g \<noteq> OPEN"
  shows "settling k s0 rows Q M (insert fp D) s"
  using assms unfolding settling_def by blast

lemma settling_resolve:
  assumes st: "settling k s0 rows Q M D s" and row: "(fp, f) \<in> set rows" "service_of f = k"
    and f: "fp \<notin> D" "fi_rule_key f \<notin> M" "fi_status f = OPEN"
    and run: "resolve_finding c fp f gen reason s = (Inr h, s')"
  shows "settling k s0 rows Q M (insert fp D) s'"
proof -
  let ?new = "resolved_row c fp reason f"
  have cur: "tbl_get (findings s) fp = Some f"
    using st row f unfolding settling_def by blast
  have puts: "puts_finding fp ?new s s'" and ok: "finding_row_ok fp ?new"
    using resolve_finding_puts [OF run cur f(3)] by blast+
  have wf: "finding_wf fp f" using st cur findings_okD unfolding settling_def by blast
  note new = resolved_row_wf [OF wf ok] and fs = puts_finding_frame(1) [OF puts]
  have get: "tbl_get (findings s') g = (if g = fp then Some ?new else tbl_get (findings s) g)" for g
    by (simp add: fs)
  have "findings_ok s'" using st new(1) fs findings_ok_put unfolding settling_def by blast
  moreover have "others_same k s0 s'"
    using st cur new(3) row(2) unfolding settling_def others_same_def get by (metis option.inject)
  moreover have "tbl_get (findings s') g = Some h \<longleftrightarrow> (g, h) \<in> set rows"
    if "fi_rule_key h \<notin> M" "service_of h = k" "g \<notin> insert fp D" for g h
    using st that unfolding settling_def get by auto
  moreover have "fi_status h \<noteq> OPEN"
    if "g \<in> insert fp D" "tbl_get (findings s') g = Some h" "fi_rule_key h \<notin> M" for g h
    using st that new(2) unfolding settling_def get by (cases "g = fp") auto
  moreover have "\<exists>g. tbl_get (findings s') (fingerprint_for k rk) = Some g \<and> fi_status g = OPEN
      \<and> service_of g = k \<and> fi_rule_key g = rk \<and> Q g" if "rk \<in> M" for rk
  proof -
    obtain g where g: "tbl_get (findings s) (fingerprint_for k rk) = Some g" "fi_status g = OPEN"
      "service_of g = k" "fi_rule_key g = rk" "Q g"
      using st \<open>rk \<in> M\<close> unfolding settling_def by blast
    have "fingerprint_for k rk \<noteq> fp"
      using g cur f(2) \<open>rk \<in> M\<close> by (metis option.inject)
    with g show ?thesis unfolding get by simp
  qed
  ultimately show ?thesis unfolding settling_def by blast
qed

lemma resolve_loop:
  assumes run: "foldM (resolve_step c t e rules m) q rows s = (Inr q', s')"
    and start: "matching k s0 rows Q (set m) s" and dist: "distinct (map fst rows)"
    and rows: "\<And>fp f. (fp, f) \<in> set rows \<Longrightarrow> service_of f = k \<and> fp = fingerprint_for k (fi_rule_key f)"
  shows "settling k s0 rows Q (set m) (set (map fst rows)) s'"
proof (rule foldM_invariant [OF run, where J = "\<lambda>ds _. settling k s0 rows Q (set m) (set (map fst ds))"])
  show "settling k s0 rows Q (set m) (set (map fst [])) s"
    using settling_start [OF start] by simp
next
  fix ds x rest b s1 b' s2
  assume xs: "rows = ds @ x # rest" and J: "settling k s0 rows Q (set m) (set (map fst ds)) s1"
    and step: "resolve_step c t e rules m b x s1 = (Inr b', s2)"
  obtain fp f where x: "x = (fp, f)" by (cases x)
  have mem: "(fp, f) \<in> set rows" by (simp add: xs x)
  have new: "fp \<notin> set (map fst ds)" using dist unfolding xs x by auto
  show "settling k s0 rows Q (set m) (set (map fst (ds @ [x]))) s2"
  proof (cases "fi_status f \<noteq> OPEN \<or> fi_rule_key f \<in> set m")
    case True
    then have "s2 = s1" using step by (simp add: resolve_step_def x repo_Inr)
    moreover obtain g where g: "tbl_get (findings s1) fp = Some g"
      "fi_rule_key g \<in> set m \<or> fi_status g \<noteq> OPEN"
    proof (cases "fi_rule_key f \<in> set m")
      case False
      then have "tbl_get (findings s1) fp = Some f"
        using J mem new rows [OF mem] unfolding settling_def by blast
      with True show ?thesis using that by blast
    next
      case True
      with J obtain g where "tbl_get (findings s1) (fingerprint_for k (fi_rule_key f)) = Some g"
        "fi_rule_key g = fi_rule_key f" unfolding settling_def by meson
      with True rows [OF mem] show ?thesis using that [of g] by metis
    qed
    moreover have "settling k s0 rows Q (set m) (insert fp (set (map fst ds))) s1"
      by (rule settling_skip [OF J]) (use g in simp)
    ultimately show ?thesis by (simp add: x)
  next
    case False
    then obtain h where "resolve_finding c fp f (tg_current_generation t)
        (finding_resolution_reason (tg_status t) e (map_of rules (fi_rule_key f))) s1 = (Inr h, s2)"
      using step by (auto simp: resolve_step_def x repo_Inr)
    from settling_resolve [OF J mem _ new _ _ this] False rows [OF mem] show ?thesis
      by (simp add: x)
  qed
qed

section \<open>The specification of a reconciliation\<close>

text \<open>
  The rules that ask for a finding on a service: the target is active, the exposure is
  open, and the rule is enabled and matches.
\<close>

definition wanted_rules :: "db \<Rightarrow> exposure_key \<Rightarrow> string set" where
  "wanted_rules s k =
     (case (tbl_get (targets s) (fst k), tbl_get (exposures s) k) of
        (Some t, Some e) \<Rightarrow>
          if tg_status t = Active \<and> ex_state e = Exposed
          then {rk. \<exists>rule. tbl_get (detection_rules s) rk = Some rule
                    \<and> rule_matches rk rule (fst (snd k)) (snd (snd k)) = Inr True}
          else {}
      | _ \<Rightarrow> {})"

text \<open>An open finding shows what its exposure and its rule say now.\<close>

definition mirrors :: "db \<Rightarrow> exposure_key \<Rightarrow> finding_row \<Rightarrow> bool" where
  "mirrors s k f \<longleftrightarrow>
     (case (tbl_get (exposures s) k, tbl_get (detection_rules s) (fi_rule_key f)) of
        (Some e, Some rule) \<Rightarrow>
          fi_observed_address f = ex_observed_address e
          \<and> identity_sha256 (fi_service f) = identity_sha256 (ex_service e)
          \<and> fi_severity f = ru_severity rule \<and> fi_title f = ru_name rule
          \<and> fi_description f = ru_description rule
      | _ \<Rightarrow> False)"

lemma mirrors_cong:
  "exposures t = exposures s \<Longrightarrow> detection_rules t = detection_rules s \<Longrightarrow> mirrors t k f = mirrors s k f"
  by (simp only: mirrors_def)

lemma ensured_row_mirrors:
  assumes "tbl_get (exposures s) k = Some e" "tbl_get (detection_rules s) rk = Some rule"
    and "\<And>f. existing = Some f \<Longrightarrow> fi_rule_key f = rk"
  shows "mirrors s k (ensured_row c tr k e rk rule existing)"
  using assms finding_change_not_Seen [of c tr e rule]
  by (cases k; cases existing; cases "finding_change_of c tr e rule existing")
    (auto simp: mirrors_def ensured_row_def Let_def opened_finding_row_def changed_finding_row_def
      finding_change_of_def split: if_splits)

text \<open>
  The findings of a service are exactly right: one is open for every wanted rule and for
  no other, and it shows the address and service of the exposure and the text and severity
  of the rule.
\<close>

definition service_settled :: "db \<Rightarrow> exposure_key \<Rightarrow> bool" where
  "service_settled s k \<longleftrightarrow>
     (\<forall>rk \<in> wanted_rules s k. \<exists>f. tbl_get (findings s) (fingerprint_for k rk) = Some f
        \<and> fi_status f = OPEN \<and> service_of f = k \<and> fi_rule_key f = rk)
     \<and> (\<forall>fp f. tbl_get (findings s) fp = Some f \<longrightarrow> service_of f = k \<longrightarrow>
          (fi_status f = OPEN \<longleftrightarrow> fi_rule_key f \<in> wanted_rules s k)
          \<and> (fi_status f = OPEN \<longrightarrow> mirrors s k f))"

definition exposures_ok :: "db \<Rightarrow> bool" where
  "exposures_ok s \<longleftrightarrow> tbl_ok (exposures s)
     \<and> (\<forall>k e. tbl_get (exposures s) k = Some e \<longrightarrow> exposure_wf k e)"

lemma exposures_ok_timeline:
  "exposures_ok s \<Longrightarrow> tbl_get (exposures s) k = Some e \<Longrightarrow> ex_first_opened_at e \<le> ex_last_confirmed_at e"
  unfolding exposures_ok_def exposure_wf_def by (meson order_trans)

lemma settling_settled:
  assumes st: "settling k s0 rows (mirrors s0 k) M (set (map fst rows)) s'" and M: "M = wanted_rules s' k"
    and mi: "mirrors s' k = mirrors s0 k"
  shows "service_settled s' k"
proof -
  have "(fi_status f = OPEN \<longleftrightarrow> fi_rule_key f \<in> M) \<and> (fi_status f = OPEN \<longrightarrow> mirrors s' k f)"
    if f: "tbl_get (findings s') fp = Some f" "service_of f = k" for fp f
  proof (cases "fi_rule_key f \<in> M")
    case True
    moreover have "fp = fingerprint_for k (fi_rule_key f)"
      using st f findings_okD unfolding settling_def finding_wf_def by blast
    ultimately show ?thesis using st f unfolding settling_def mi by auto
  next
    case False
    have "fp \<in> set (map fst rows)"
    proof (rule ccontr)
      assume "fp \<notin> set (map fst rows)"
      moreover from this have "(fp, f) \<in> set rows"
        using st f False unfolding settling_def by blast
      ultimately show False by force
    qed
    with False f st show ?thesis unfolding settling_def by blast
  qed
  with st show ?thesis unfolding service_settled_def settling_def M by blast
qed

lemma sorted_rules_distinct: "tbl_ok rules \<Longrightarrow> distinct (map fst (sort_key fst rules))"
  by (simp add: distinct_map tbl_ok_def)

lemma wanted_rules_cong:
  "targets t = targets s \<Longrightarrow> exposures t = exposures s \<Longrightarrow> detection_rules t = detection_rules s
     \<Longrightarrow> wanted_rules t k = wanted_rules s k"
  by (simp only: wanted_rules_def)

lemma reconcile_key_spec:
  assumes run: "reconcile_key c tid trs (sort_key fst (detection_rules s)) q key s = (Inr q', s')"
    and ok: "findings_ok s" "exposures_ok s" "tbl_ok (detection_rules s)"
  shows "findings_ok s' \<and> others_same (tid, key) s s' \<and> service_settled s' (tid, key)"
proof -
  let ?k = "(tid, key)" and ?rules = "sort_key fst (detection_rules s)"
  let ?rows = "findings_of ?k s" and ?e = "tbl_get (exposures s) ?k"
  have frame: "findings_only s s'" using movesD [OF reconcile_key_findings run] .
  have rows: "service_of f = ?k \<and> fp = fingerprint_for ?k (fi_rule_key f)" if "(fp, f) \<in> set ?rows" for fp f
    using that ok(1) findings_okD findings_of_iff [of s] unfolding findings_ok_def finding_wf_def by metis
  have dist: "distinct (map fst ?rows)"
    using ok(1) by (simp add: findings_ok_def findings_of_def tbl_ok_def distinct_map_filter)
  obtain t where t: "tbl_get (targets s) tid = Some t"
    using run by (auto simp: reconcile_key_def repo_Inr split: option.splits)
  let ?M = "wanted_rules s ?k"
  obtain acc s1 where acc: "set (fst acc) = ?M" and m: "matching ?k s ?rows (mirrors s ?k) (set (fst acc)) s1"
    and res: "foldM (resolve_step c t ?e ?rules (fst acc)) (snd acc) ?rows s1 = (Inr q', s')"
  proof (cases "\<exists>e. ?e = Some e \<and> ex_state e = Exposed \<and> tg_status t = Active")
    case True
    then obtain e where e: "?e = Some e" "ex_state e = Exposed" "tg_status t = Active" by blast
    with run t obtain acc s1 where
      fold: "foldM (match_step c (map_of trs key) t ?k e ?rows) ([], q) ?rules s = (Inr acc, s1)"
      and res: "foldM (resolve_step c t ?e ?rules (fst acc)) (snd acc) ?rows s1 = (Inr q', s')"
      by (auto simp: reconcile_key_def repo_Inr)
    have "matched_rules ?k ?rules = ?M"
      using e t ok(3) by (simp add: matched_rules_def wanted_rules_def tbl_mem_get)
    moreover have "set (fst acc) = matched_rules ?k ?rules \<and> matching ?k s ?rows (mirrors s ?k) (matched_rules ?k ?rules) s1"
      by (rule match_loop [OF fold matching_start [OF ok(1)] sorted_rules_distinct [OF ok(3)]
            _ exposures_ok_timeline [OF ok(2) e(1)]])
        (use rows e ok(3) in \<open>auto intro!: ensured_row_mirrors simp: tbl_mem_get dest: existing_for_Some\<close>)
    ultimately show ?thesis using that [OF _ _ res] by simp
  next
    case False
    with run t have "foldM (resolve_step c t ?e ?rules []) q ?rows s = (Inr q', s')"
      by (auto simp: reconcile_key_def repo_Inr split: option.splits if_splits)
    moreover have "?M = {}" using False t by (auto simp: wanted_rules_def split: option.splits)
    ultimately show ?thesis
      using that [of "([], q)" s] matching_start [OF ok(1), of ?k] by simp
  qed
  have "settling ?k s ?rows (mirrors s ?k) (set (fst acc)) (set (map fst ?rows)) s'"
    by (rule resolve_loop [OF res m dist rows])
  moreover have "set (fst acc) = wanted_rules s' ?k"
    unfolding acc using findings_only_frame [OF frame] wanted_rules_cong by metis
  moreover have "mirrors s' ?k = mirrors s ?k"
    using findings_only_frame [OF frame] by (intro ext mirrors_cong)
  ultimately show ?thesis
    using settling_settled unfolding settling_def by blast
qed

text \<open>A settled service stays settled when another one is reconciled.\<close>

lemma service_settled_other:
  assumes "service_settled s k" "others_same k' s t" "k \<noteq> k'" "wanted_rules t k = wanted_rules s k"
    and "mirrors t k = mirrors s k"
  shows "service_settled t k"
  using assms unfolding service_settled_def others_same_def by metis

definition same_outside :: "exposure_key set \<Rightarrow> db \<Rightarrow> db \<Rightarrow> bool" where
  "same_outside K s t \<longleftrightarrow>
     (\<forall>fp f. service_of f \<notin> K \<longrightarrow> (tbl_get (findings t) fp = Some f \<longleftrightarrow> tbl_get (findings s) fp = Some f))"

text \<open>
  The specification of \<^verbatim>\<open>_reconcile_finding_keys\<close>: every given service is settled, and the
  findings of all other services are as before.
\<close>

lemma reconcile_finding_keys_spec:
  assumes run: "reconcile_finding_keys c tid trs keys s = (Inr q, s')"
    and ok: "findings_ok s" "exposures_ok s" "tbl_ok (detection_rules s)"
  shows "findings_ok s' \<and> same_outside (Pair tid ` set keys) s s'
     \<and> (\<forall>key \<in> set keys. service_settled s' (tid, key))"
proof -
  let ?rules = "sort_key fst (detection_rules s)"
  define J where "J = (\<lambda>ds (q :: string list) u. findings_only s u \<and> findings_ok u
     \<and> same_outside (Pair tid ` set ds) s u \<and> (\<forall>key \<in> set ds. service_settled u (tid, key)))"
  from run have fold: "foldM (reconcile_key c tid trs ?rules) [] (sorted_set keys) s = (Inr q, s')"
    by (simp add: reconcile_finding_keys_def repo_Inr)
  have "J (sorted_set keys) q s'"
  proof (rule foldM_invariant [OF fold])
    show "J [] [] s" using ok(1) by (simp add: J_def fonly.refl same_outside_def)
  next
    fix ds key rest b u b' v
    assume Jd: "J ds b u" and step: "reconcile_key c tid trs ?rules b key u = (Inr b', v)"
    have frame: "findings_only s u" using Jd by (simp add: J_def)
    note fu = findings_only_frame [OF frame]
    have okv: "findings_ok v \<and> others_same (tid, key) u v \<and> service_settled v (tid, key)"
      by (rule reconcile_key_spec) (use step Jd ok fu in \<open>simp_all add: J_def exposures_ok_def\<close>)
    have fv: "findings_only u v" using movesD [OF reconcile_key_findings step] .
    have "service_settled v (tid, k)" if "k \<in> set ds" for k
    proof (cases "k = key")
      case False
      have "wanted_rules v (tid, k) = wanted_rules u (tid, k)"
        using findings_only_frame [OF fv] wanted_rules_cong by metis
      moreover have "mirrors v (tid, k) = mirrors u (tid, k)"
        using findings_only_frame [OF fv] by (intro ext mirrors_cong)
      ultimately show ?thesis
        using service_settled_other [of u "(tid, k)" "(tid, key)" v] False that Jd okv unfolding J_def by auto
    qed (use okv in simp)
    moreover have "same_outside (Pair tid ` set (ds @ [key])) s v"
      using Jd okv unfolding J_def same_outside_def others_same_def by auto
    ultimately show "J (ds @ [key]) b' v"
      using okv fonly.trans [OF frame fv] by (auto simp: J_def)
  qed
  then show ?thesis by (simp add: J_def)
qed

end
