(* ===== verification/Parser_Repository.thy ===== *)
theory Parser_Repository
  imports Parser_Finding
begin

text \<open>
  The public operations of \<^verbatim>\<open>Repository\<close> (\<^verbatim>\<open>parser/.../database.py\<close>): applying an
  inventory event, ingesting a scan, the periodic reconciliation, and the outbox of
  handoffs. Each state transition is one database transaction.
\<close>

section \<open>Inventory events\<close>

text \<open>\<^verbatim>\<open>_target_addresses\<close>\<close>

definition target_addresses :: "inventory_event \<Rightarrow> parser_error + string list" where
  "target_addresses ev =
     (case all_some (map ip_address_str (ev_addresses ev)) of
        None \<Rightarrow> Inl (Data_invariant ''target event contains an invalid address binding'')
      | Some addresses \<Rightarrow>
          if ev_event_type ev = Remove \<and> addresses \<noteq> []
          then Inl (Data_invariant ''target removal cannot retain an address binding'')
          else if ev_event_type ev = Upsert \<and> addresses = []
          then Inl (Data_invariant ''active target event requires an address binding'')
          else Inr addresses)"

definition value_or :: "'a option \<Rightarrow> 'a \<Rightarrow> 'a" where
  "value_or x d = (case x of None \<Rightarrow> d | Some v \<Rightarrow> v)"

definition removal_time :: "inventory_event \<Rightarrow> time" where
  "removal_time ev = value_or (ev_removed_at ev) (ev_source_observed_at ev)"

definition event_status :: "inventory_event \<Rightarrow> target_status" where
  "event_status ev = (if ev_event_type ev = Remove then Removed else Active)"

definition event_removed_at :: "inventory_event \<Rightarrow> time option" where
  "event_removed_at ev = (if event_status ev = Removed then Some (removal_time ev) else None)"

definition new_target_row :: "inventory_event \<Rightarrow> string list \<Rightarrow> target_row" where
  "new_target_row ev addresses =
     \<lparr>tg_provider = ev_provider ev, tg_provider_scope_id = ev_provider_scope_id ev,
      tg_provider_target_id = ev_provider_target_id ev, tg_location = ev_location ev,
      tg_current_generation = ev_generation ev, tg_status = event_status ev,
      tg_current_addresses = addresses, tg_context = ev_context ev,
      tg_source_observed_at = ev_source_observed_at ev, tg_last_attempt_at = None,
      tg_last_confirmed_at = None, tg_removed_at = event_removed_at ev\<rparr>"

definition updated_target_row :: "inventory_event \<Rightarrow> string list \<Rightarrow> target_row \<Rightarrow> target_row" where
  "updated_target_row ev addresses t =
     t\<lparr>tg_location := ev_location ev, tg_current_generation := ev_generation ev,
       tg_status := event_status ev, tg_current_addresses := addresses, tg_context := ev_context ev,
       tg_source_observed_at := ev_source_observed_at ev, tg_removed_at := event_removed_at ev\<rparr>"

definition target_identity :: "target_row \<Rightarrow> string \<times> string \<times> string" where
  "target_identity t = (tg_provider t, tg_provider_scope_id t, tg_provider_target_id t)"

definition event_identity :: "inventory_event \<Rightarrow> string \<times> string \<times> string" where
  "event_identity ev = (ev_provider ev, ev_provider_scope_id ev, ev_provider_target_id ev)"

text \<open>\<^verbatim>\<open>INSERT INTO act.targets\<close>, whose provider identity is unique.\<close>

definition insert_target :: "string \<Rightarrow> target_row \<Rightarrow> unit repo" where
  "insert_target tid row =
     bindM (readM (\<lambda>s. list_ex (\<lambda>t. target_identity t = target_identity row) (tbl_rows (targets s)))) (\<lambda>clash.
     if clash then raiseM (Database_error ''targets'')
     else insertM ''targets'' targets targets_update target_row_ok tid row)"

text \<open>An event is accepted when it is of a newer generation, or of the same and not observed earlier.\<close>

definition event_accepted :: "inventory_event \<Rightarrow> target_row \<Rightarrow> bool" where
  "event_accepted ev t \<longleftrightarrow>
     ev_generation ev > tg_current_generation t
     \<or> (ev_generation ev = tg_current_generation t
        \<and> ev_source_observed_at ev \<ge> tg_source_observed_at t)"

definition target_event_row_of :: "inventory_event \<Rightarrow> string list \<Rightarrow> bool \<Rightarrow> bool \<Rightarrow> target_event_row" where
  "target_event_row_of ev addresses accepted stale =
     (let collected = value_or (ev_source_collected_at ev) (ev_source_observed_at ev) in
      \<lparr>ter_target_id = ev_target_id ev, ter_generation = ev_generation ev,
       ter_event_type = ev_event_type ev, ter_provider = ev_provider ev,
       ter_provider_scope_id = ev_provider_scope_id ev,
       ter_provider_target_id = ev_provider_target_id ev, ter_location = ev_location ev,
       ter_addresses = addresses, ter_context = ev_context ev,
       ter_source_event_time = value_or (ev_source_event_time ev) (ev_source_observed_at ev),
       ter_source_observed_at = ev_source_observed_at ev, ter_source_collected_at = collected,
       ter_dispatched_at = value_or (ev_dispatched_at ev) collected,
       ter_removed_at = (if ev_event_type ev = Remove then Some (removal_time ev) else None),
       ter_accepted = accepted, ter_stale = stale\<rparr>)"

subsection \<open>Closures\<close>

definition open_exposure_keys :: "string \<Rightarrow> (string \<Rightarrow> bool) \<Rightarrow> db \<Rightarrow> service_key list" where
  "open_exposure_keys tid p s =
     [k. ((t, k), e) \<leftarrow> exposures s, t = tid \<and> ex_state e = Exposed \<and> p (ex_observed_address e)]"

definition open_finding_keys :: "string \<Rightarrow> (string \<Rightarrow> bool) \<Rightarrow> db \<Rightarrow> service_key list" where
  "open_finding_keys tid p s =
     [(fi_protocol f, fi_port f). (fp, f) \<leftarrow> findings s,
        fi_target_id f = tid \<and> fi_status f = OPEN \<and> p (fi_observed_address f)]"

definition open_keys :: "string \<Rightarrow> (string \<Rightarrow> bool) \<Rightarrow> service_key list repo" where
  "open_keys tid p = readM (\<lambda>s. sorted_set (open_exposure_keys tid p s @ open_finding_keys tid p s))"

definition event_cause :: "inventory_event \<Rightarrow> time \<Rightarrow> string option \<Rightarrow> bool \<Rightarrow> cause" where
  "event_cause ev at bucket queue =
     \<lparr>ca_kind = TARGET_EVENT, ca_key = ev_event_id ev, ca_attempt = None, ca_occurred_at = at,
      ca_bucket = bucket, ca_queue = queue\<rparr>"

text \<open>The loop that closes the exposures of an event and collects the transitions.\<close>

definition close_for_event :: "inventory_event \<Rightarrow> time \<Rightarrow> exposure_reason
    \<Rightarrow> (service_key \<times> exposure_event_type) list \<Rightarrow> service_key
    \<Rightarrow> (service_key \<times> exposure_event_type) list repo" where
  "close_for_event ev at reason transitions key =
     bindM (close_exposure (ev_target_id ev) (ev_generation ev) (fst key) (snd key) None at reason
              (Some (ev_event_id ev)))
       (\<lambda>res. returnM (case snd res of None \<Rightarrow> transitions | Some ty \<Rightarrow> (key, ty) # transitions))"

text \<open>\<^verbatim>\<open>Repository._close_for_generation_gap_reactivation\<close>\<close>

definition close_for_generation_gap :: "inventory_event \<Rightarrow> string option \<Rightarrow> bool \<Rightarrow> unit repo" where
  "close_for_generation_gap ev bucket queue =
     bindM (open_keys (ev_target_id ev) (\<lambda>_. True)) (\<lambda>keys.
     if keys = [] then returnM ()
     else if queue \<and> \<not> bucket_set bucket
     then raiseM (Data_invariant ''finding bucket is required to publish generation-gap transitions'')
     else bindM (foldM (close_for_event ev (ev_source_observed_at ev) Generation_gap_reactivation) [] keys) (\<lambda>_.
       thenM (reconcile_finding_keys (event_cause ev (ev_source_observed_at ev) bucket queue)
                (ev_target_id ev) (map (\<lambda>k. (k, Ex_closed)) keys) keys)
         (returnM ())))"

text \<open>\<^verbatim>\<open>Repository._close_for_address_binding_change\<close>\<close>

definition close_for_address_change :: "inventory_event \<Rightarrow> string list \<Rightarrow> string option \<Rightarrow> bool \<Rightarrow> unit repo" where
  "close_for_address_change ev addresses bucket queue =
     bindM (open_keys (ev_target_id ev) (\<lambda>a. a \<notin> set addresses)) (\<lambda>keys.
     if keys = [] then returnM ()
     else if queue \<and> \<not> bucket_set bucket
     then raiseM (Data_invariant ''finding bucket is required to publish address-binding transitions'')
     else bindM (foldM (close_for_event ev (ev_source_observed_at ev) Address_binding_changed) [] keys) (\<lambda>transitions.
       thenM (reconcile_finding_keys (event_cause ev (ev_source_observed_at ev) bucket queue)
                (ev_target_id ev) transitions keys)
         (returnM ())))"

text \<open>\<^verbatim>\<open>Repository._close_for_ownership_removal\<close>\<close>

definition close_for_removal :: "inventory_event \<Rightarrow> string option \<Rightarrow> bool \<Rightarrow> unit repo" where
  "close_for_removal ev bucket queue =
     bindM (open_keys (ev_target_id ev) (\<lambda>_. True)) (\<lambda>keys.
     bindM (foldM (close_for_event ev (removal_time ev) Ownership_removed) [] keys) (\<lambda>_.
     if keys = [] then returnM ()
     else thenM (reconcile_finding_keys (event_cause ev (removal_time ev) bucket queue)
                   (ev_target_id ev) (map (\<lambda>k. (k, Ex_closed)) keys) keys)
            (returnM ())))"

subsection \<open>Applying an event\<close>

text \<open>What the first half of \<^verbatim>\<open>apply_target_event\<close> decides.\<close>

record event_decision =
  dec_accepted :: bool
  dec_stale :: bool
  dec_gap :: bool
  dec_address_changed :: bool

definition decide_event :: "inventory_event \<Rightarrow> string list \<Rightarrow> event_decision repo" where
  "decide_event ev addresses =
     bindM (readM (\<lambda>s. tbl_get (targets s) (ev_target_id ev))) (\<lambda>found.
     case found of
       None \<Rightarrow>
         thenM (insert_target (ev_target_id ev) (new_target_row ev addresses))
           (returnM \<lparr>dec_accepted = True, dec_stale = False, dec_gap = False, dec_address_changed = False\<rparr>)
     | Some t \<Rightarrow>
         if target_identity t \<noteq> event_identity ev
         then raiseM (Data_invariant ''target_id cannot be reassigned to another provider identity'')
         else if \<not> event_accepted ev t
         then returnM \<lparr>dec_accepted = False, dec_stale = True, dec_gap = False, dec_address_changed = False\<rparr>
         else
           thenM (updateM ''targets'' targets_update target_row_ok (ev_target_id ev)
                    (updated_target_row ev addresses t))
             (returnM
               \<lparr>dec_accepted = True, dec_stale = False,
                dec_gap = (ev_event_type ev = Upsert \<and> ev_scan_reason ev = Some ''new_target''
                           \<and> tg_status t = Active \<and> ev_generation ev > tg_current_generation t + 1),
                dec_address_changed = (ev_event_type ev = Upsert
                           \<and> set (tg_current_addresses t) \<noteq> set addresses)\<rparr>))"

definition open_finding_count :: "string \<Rightarrow> db \<Rightarrow> nat" where
  "open_finding_count tid s =
     length (filter (\<lambda>(fp, f). fi_target_id f = tid \<and> fi_status f = OPEN) (findings s))"

definition close_after_event :: "inventory_event \<Rightarrow> string list \<Rightarrow> string option \<Rightarrow> bool
    \<Rightarrow> event_decision \<Rightarrow> unit repo" where
  "close_after_event ev addresses bucket queue d =
     (if dec_accepted d \<and> ev_event_type ev = Remove then
        bindM (readM (open_finding_count (ev_target_id ev))) (\<lambda>n.
        if n \<noteq> 0 \<and> queue \<and> \<not> bucket_set bucket
        then raiseM (Data_invariant ''finding bucket is required to publish removal transitions'')
        else close_for_removal ev bucket queue)
      else if dec_accepted d \<and> dec_gap d then close_for_generation_gap ev bucket queue
      else if dec_accepted d \<and> dec_address_changed d then close_for_address_change ev addresses bucket queue
      else returnM ())"

text \<open>\<^verbatim>\<open>Repository.apply_target_event\<close>: \<open>False\<close> for an event that was seen before.\<close>

definition apply_target_event :: "inventory_event \<Rightarrow> string option \<Rightarrow> bool \<Rightarrow> bool repo" where
  "apply_target_event ev bucket queue =
     bindM (liftM (target_addresses ev)) (\<lambda>addresses.
     transaction
       (bindM (readM (\<lambda>s. tbl_get (target_events s) (ev_event_id ev))) (\<lambda>duplicate.
        if duplicate \<noteq> None then returnM False
        else bindM (decide_event ev addresses) (\<lambda>d.
          thenM (insertM ''target_events'' target_events target_events_update target_event_row_ok
                   (ev_event_id ev) (target_event_row_of ev addresses (dec_accepted d) (dec_stale d)))
            (thenM (close_after_event ev addresses bucket queue d) (returnM True))))))"

section \<open>Ingesting a scan\<close>

record ingest_result =
  ir_duplicate :: bool
  ir_stale_generation :: bool
  ir_state_eligible :: bool
  ir_handoff_keys :: "string list"

text \<open>\<^verbatim>\<open>Repository._pending_handoff_keys\<close>: unpublished handoffs by creation time and key.\<close>

definition handoff_order :: "string \<times> handoff_row \<Rightarrow> time \<times> string" where
  "handoff_order h = (ho_created_at (snd h), fst h)"

definition pending_rows :: "(string \<times> handoff_row \<Rightarrow> bool) \<Rightarrow> db \<Rightarrow> (string \<times> handoff_row) list" where
  "pending_rows p s =
     sort_key handoff_order (filter (\<lambda>h. ho_published_at (snd h) = None \<and> p h) (handoffs s))"

definition pending_handoff_keys :: "string option \<Rightarrow> string option \<Rightarrow> string list repo" where
  "pending_handoff_keys attempt run =
     readM (\<lambda>s. map fst (pending_rows
       (\<lambda>h. (attempt = None \<or> ho_source_attempt_id (snd h) = attempt)
            \<and> (run = None \<or> ho_run_key (snd h) = run)) s))"

text \<open>
  The objects a scan was read from: the envelope with its digest, and the versions of the
  raw result and of the enrichment result.
\<close>

record scan_objects =
  src_envelope :: stored_object
  src_raw_version :: "string option"
  src_enrichment_version :: "string option"

text \<open>The evidence that an attempt row is compared by when its identifier comes again.\<close>

definition same_evidence :: "scan_envelope \<Rightarrow> scan_objects \<Rightarrow> attempt_row \<Rightarrow> bool" where
  "same_evidence env src a \<longleftrightarrow>
     at_result_id a = en_result_id env \<and> so_sha256 (at_envelope a) = so_sha256 (src_envelope src)
     \<and> map_option so_sha256 (at_raw_result a) = map_option rr_sha256 (en_raw_result env)
     \<and> map_option so_sha256 (at_enrichment_result a) = map_option rr_sha256 (en_enrichment_result env)"

definition result_owner :: "string \<Rightarrow> db \<Rightarrow> string option" where
  "result_owner result_id s =
     map_option fst (find (\<lambda>(aid, a). at_result_id a = result_id) (scan_attempts s))"

text \<open>The preliminary checks of \<^verbatim>\<open>ingest_scan\<close>, up to the lookup of the attempt.\<close>

definition check_scan :: "scan_envelope \<Rightarrow> (target_row \<times> target_event_row) repo" where
  "check_scan env =
     bindM (readM (\<lambda>s. tbl_get (targets s) (en_target_id env))) (\<lambda>target.
     case target of
       None \<Rightarrow> raiseM (Unknown_target ''scan target is not present'')
     | Some t \<Rightarrow>
         if tg_provider t \<noteq> en_provider env
         then raiseM (Data_invariant ''scan provider does not match target provider'')
         else bindM (readM (\<lambda>s. tbl_get (target_events s) (en_target_event_id env))) (\<lambda>source.
           case source of
             None \<Rightarrow> raiseM (Unknown_target ''scan target event is not present'')
           | Some v \<Rightarrow>
               if ter_target_id v \<noteq> en_target_id env \<or> ter_generation v \<noteq> en_generation env
                  \<or> ter_provider v \<noteq> en_provider env
               then raiseM (Data_invariant ''scan does not match its target event'')
               else bindM (readM (result_owner (en_result_id env))) (\<lambda>owner.
                 if owner \<noteq> None \<and> owner \<noteq> Some (en_attempt_id env)
                 then raiseM (Attempt_conflict ''result_id was already used by another attempt'')
                 else returnM (t, v))))"

definition object_of :: "string option \<Rightarrow> raw_reference \<Rightarrow> stored_object" where
  "object_of version r =
     \<lparr>so_bucket = rr_bucket r, so_key = rr_key r, so_version = version, so_sha256 = rr_sha256 r\<rparr>"

definition attempt_row_of :: "scan_envelope \<Rightarrow> scan_objects \<Rightarrow> target_event_row \<Rightarrow> bool \<Rightarrow> bool \<Rightarrow> bool
    \<Rightarrow> attempt_row" where
  "attempt_row_of env src source validated stale eligible =
     \<lparr>at_result_id = en_result_id env, at_run_id = en_run_id env, at_directive_id = en_directive_id env,
      at_target_id = en_target_id env, at_target_event_id = en_target_event_id env,
      at_trace_id = en_trace_id env, at_generation = en_generation env,
      at_provider = en_provider env, at_observed_address = en_address env,
      at_profile = en_profile env, at_scanner_version = en_scanner_version env,
      at_outcome = en_outcome env, at_exit_code = en_exit_code env,
      at_error_type = en_error_type env, at_error_retryable = en_error_retryable env,
      at_source_event_time = ter_source_event_time source,
      at_source_observed_at = ter_source_observed_at source,
      at_source_collected_at = ter_source_collected_at source,
      at_dispatched_at = ter_dispatched_at source,
      at_scan_started_at = en_scan_started_at env, at_scan_completed_at = en_scan_completed_at env,
      at_result_uploaded_at = en_result_uploaded_at env, at_envelope = src_envelope src,
      at_raw_result = map_option (object_of (src_raw_version src)) (en_raw_result env),
      at_enrichment_result = map_option (object_of (src_enrichment_version src)) (en_enrichment_result env),
      at_xml_completion_validated = validated, at_stale_generation = stale,
      at_state_eligible = eligible\<rparr>"

definition insert_coverage :: "scan_envelope \<Rightarrow> coverage_declaration \<Rightarrow> unit repo" where
  "insert_coverage env c =
     insertM ''scan_attempt_coverage'' attempt_coverage attempt_coverage_update coverage_row_ok
       (en_attempt_id env, cv_protocol c, cv_port_spec c) c"

definition insert_observation :: "scan_envelope \<Rightarrow> observation \<Rightarrow> unit repo" where
  "insert_observation env ob =
     (if ob_address ob \<noteq> en_address env
      then raiseM (Data_invariant ''observation address does not match ScanResult target'')
      else insertM ''observations'' observations observations_update observation_row_ok
             (en_attempt_id env, en_target_id env, ob_protocol ob, ob_port ob)
             \<lparr>obr_generation = en_generation env, obr_address = ob_address ob, obr_state = ob_state ob,
              obr_service = ob_service ob, obr_observed_at = ob_observed_at ob\<rparr>)"

text \<open>\<^verbatim>\<open>UPDATE act.targets SET last_attempt_at, last_confirmed_at\<close> of a current attempt.\<close>

definition touch_target :: "scan_envelope \<Rightarrow> target_row \<Rightarrow> bool \<Rightarrow> unit repo" where
  "touch_target env t eligible =
     updateM ''targets'' targets_update target_row_ok (en_target_id env)
       (t\<lparr>tg_last_attempt_at := Some (greatest_coalesce (tg_last_attempt_at t) (en_scan_completed_at env)),
          tg_last_confirmed_at :=
            (if eligible then Some (greatest_coalesce (tg_last_confirmed_at t) (en_scan_completed_at env))
             else tg_last_confirmed_at t)\<rparr>)"

definition scan_cause :: "scan_envelope \<Rightarrow> string option \<Rightarrow> bool \<Rightarrow> cause" where
  "scan_cause env bucket queue =
     \<lparr>ca_kind = SCAN_ATTEMPT, ca_key = en_attempt_id env, ca_attempt = Some (en_attempt_id env),
      ca_occurred_at = en_scan_completed_at env, ca_bucket = bucket, ca_queue = queue\<rparr>"

definition is_current_attempt :: "scan_envelope \<Rightarrow> target_row \<Rightarrow> bool" where
  "is_current_attempt env t \<longleftrightarrow> en_generation env = tg_current_generation t \<and> tg_status t = Active
     \<and> en_address env \<in> set (tg_current_addresses t)"

definition is_state_eligible :: "scan_envelope \<Rightarrow> bool \<Rightarrow> target_row \<Rightarrow> bool" where
  "is_state_eligible env validated t \<longleftrightarrow>
     is_current_attempt env t \<and> en_outcome env = ''complete'' \<and> validated"

text \<open>The evidence tables of a new attempt, then the state that an eligible one changes.\<close>

definition store_attempt :: "scan_envelope \<Rightarrow> observation list \<Rightarrow> scan_objects \<Rightarrow> bool
    \<Rightarrow> target_row \<Rightarrow> target_event_row \<Rightarrow> unit repo" where
  "store_attempt env obs src validated t source =
     thenM (insertM ''scan_attempts'' scan_attempts scan_attempts_update attempt_row_ok (en_attempt_id env)
              (attempt_row_of env src source validated
                 (en_generation env \<noteq> tg_current_generation t) (is_state_eligible env validated t)))
       (thenM (forM (en_coverage env) (insert_coverage env))
         (thenM (forM obs (insert_observation env))
           (if is_current_attempt env t then touch_target env t (is_state_eligible env validated t)
            else returnM ())))"

definition apply_scan :: "scan_envelope \<Rightarrow> observation list \<Rightarrow> string option \<Rightarrow> bool \<Rightarrow> string list repo" where
  "apply_scan env obs bucket queue =
     bindM (apply_exposure_evidence env obs) (\<lambda>ev.
     reconcile_finding_keys (scan_cause env bucket queue) (en_target_id env) (snd ev) (fst ev))"

text \<open>\<^verbatim>\<open>Repository.ingest_scan\<close>\<close>

definition ingest_scan :: "scan_envelope \<Rightarrow> observation list \<Rightarrow> scan_objects \<Rightarrow> bool \<Rightarrow> string option \<Rightarrow> bool
    \<Rightarrow> ingest_result repo" where
  "ingest_scan env obs src validated bucket queue =
     transaction
       (bindM (check_scan env) (\<lambda>(t, source).
        bindM (readM (\<lambda>s. tbl_get (scan_attempts s) (en_attempt_id env))) (\<lambda>existing.
        case existing of
          Some a \<Rightarrow>
            if \<not> same_evidence env src a
            then raiseM (Attempt_conflict ''attempt_id was already used by different evidence'')
            else bindM (pending_handoff_keys (Some (en_attempt_id env)) None) (\<lambda>keys.
              returnM \<lparr>ir_duplicate = True, ir_stale_generation = at_stale_generation a,
                       ir_state_eligible = at_state_eligible a, ir_handoff_keys = keys\<rparr>)
        | None \<Rightarrow>
            thenM (store_attempt env obs src validated t source)
              (bindM (if is_state_eligible env validated t then apply_scan env obs bucket queue else returnM [])
                (\<lambda>keys. returnM
                   \<lparr>ir_duplicate = False,
                    ir_stale_generation = (en_generation env \<noteq> tg_current_generation t),
                    ir_state_eligible = is_state_eligible env validated t, ir_handoff_keys = keys\<rparr>)))))"

section \<open>Periodic reconciliation\<close>

record reconciliation_result =
  rc_duplicate :: bool
  rc_findings_examined :: int
  rc_handoff_keys :: "string list"

text \<open>\<^verbatim>\<open>Repository._queue_current_snapshot\<close>\<close>

definition queue_current_snapshot :: "string \<Rightarrow> string \<Rightarrow> string \<Rightarrow> string repo" where
  "queue_current_snapshot run bucket fingerprint =
     (if bucket = [] then raiseM (Data_invariant ''finding bucket must not be empty'')
      else bindM (finding_payload fingerprint CURRENT_FINDING None) (\<lambda>payload.
        let handoff_key = stable_hash [JStr ''act-handoff-v1'', JStr ''current_snapshot'', JStr run,
                                       JStr fingerprint, JStr bucket];
            object_key = ''findings/current/'' @ run @ ''/'' @ fingerprint @ ''.json''
        in thenM (insert_handoff handoff_key
                    (new_handoff Snapshot_handoff fingerprint None (Some run) None bucket object_key payload))
             (returnM handoff_key)))"

text \<open>The view \<^verbatim>\<open>act.current_findings ORDER BY fingerprint\<close>: open findings of active targets.\<close>

definition current_findings :: "db \<Rightarrow> string list" where
  "current_findings s =
     sort [fp. (fp, f) \<leftarrow> findings s, fi_status f = OPEN
             \<and> (case tbl_get (targets s) (fi_target_id f) of
                  None \<Rightarrow> False | Some t \<Rightarrow> tg_status t = Active)]"

definition service_keys :: "db \<Rightarrow> exposure_key list" where
  "service_keys s =
     sorted_set (map fst (exposures s)
                 @ map (\<lambda>(fp, f). (fi_target_id f, fi_protocol f, fi_port f)) (findings s))"

definition reconcile_target :: "cause \<Rightarrow> exposure_key list \<Rightarrow> string \<Rightarrow> string list repo" where
  "reconcile_target c keys tid =
     reconcile_finding_keys c tid [] (map snd (filter (\<lambda>k. fst k = tid) keys))"

text \<open>\<^verbatim>\<open>tuple(dict.fromkeys(xs))\<close>: the first occurrence of every element, in order.\<close>

definition first_occurrences :: "'a list \<Rightarrow> 'a list" where
  "first_occurrences xs = rev (remdups (rev xs))"

definition put_run :: "string \<Rightarrow> run_row \<Rightarrow> unit repo" where
  "put_run = updateM ''reconciliation_runs'' runs_update run_row_ok"

text \<open>Find or insert the run; \<open>Some\<close> for one that was completed before.\<close>

definition begin_run :: "string \<Rightarrow> string \<Rightarrow> run_row option repo" where
  "begin_run run_key invocation_key =
     bindM (readM (\<lambda>s. tbl_get (runs s) run_key)) (\<lambda>run.
     case run of
       Some r \<Rightarrow> returnM (if rn_completed_at r \<noteq> None then Some r else None)
     | None \<Rightarrow>
         bindM clock_timestamp (\<lambda>now.
         thenM (insertM ''reconciliation_runs'' runs runs_update run_row_ok run_key
                  \<lparr>rn_invocation_key = invocation_key, rn_started_at = now, rn_completed_at = None,
                   rn_findings_examined = None, rn_handoffs_queued = None\<rparr>)
           (returnM None)))"

definition complete_run :: "string \<Rightarrow> time \<Rightarrow> nat \<Rightarrow> nat \<Rightarrow> unit repo" where
  "complete_run run_key now examined queued =
     bindM (readM (\<lambda>s. tbl_get (runs s) run_key)) (\<lambda>run.
     case run of
       None \<Rightarrow> returnM ()
     | Some r \<Rightarrow> put_run run_key (r\<lparr>rn_completed_at := Some now, rn_findings_examined := Some (int examined),
                                     rn_handoffs_queued := Some (int queued)\<rparr>))"

text \<open>\<^verbatim>\<open>Repository.reconcile_all\<close>, at the application clock's \<open>now\<close>.\<close>

definition reconcile_all :: "string \<Rightarrow> string option \<Rightarrow> bool \<Rightarrow> time \<Rightarrow> reconciliation_result repo" where
  "reconcile_all invocation_key bucket queue now =
     (if queue \<and> \<not> bucket_set bucket
      then raiseM (Data_invariant ''finding bucket is required when handoff export is enabled'')
      else
        (let run_key = stable_hash [JStr ''act-reconciliation-v1'', JStr invocation_key];
             c = \<lparr>ca_kind = RECONCILIATION, ca_key = invocation_key, ca_attempt = None,
                  ca_occurred_at = now, ca_bucket = bucket, ca_queue = queue\<rparr>
         in transaction
           (bindM (begin_run run_key invocation_key) (\<lambda>done.
            case done of
              Some r \<Rightarrow>
                bindM (if queue then pending_handoff_keys None (Some run_key) else returnM []) (\<lambda>keys.
                returnM \<lparr>rc_duplicate = True, rc_findings_examined = value_or (rn_findings_examined r) 0,
                         rc_handoff_keys = keys\<rparr>)
            | None \<Rightarrow>
                bindM (readM service_keys) (\<lambda>keys.
                bindM (mapM (reconcile_target c keys) (sorted_set (map fst keys))) (\<lambda>queued.
                bindM (if queue
                       then bindM (readM current_findings) (\<lambda>fps.
                              mapM (queue_current_snapshot run_key (bucket_or_empty bucket)) fps)
                       else returnM []) (\<lambda>snapshots.
                let all = concat queued @ snapshots in
                thenM (complete_run run_key now (length keys) (length (remdups all)))
                  (returnM \<lparr>rc_duplicate = False, rc_findings_examined = int (length keys),
                            rc_handoff_keys = first_occurrences all\<rparr>))))))))"

section \<open>The outbox\<close>

text \<open>\<^verbatim>\<open>Repository.pending_target_event_handoff_keys\<close>\<close>

definition pending_target_event_handoff_keys :: "string \<Rightarrow> string list repo" where
  "pending_target_event_handoff_keys event_id =
     readM (\<lambda>s. map fst (pending_rows
       (\<lambda>h. case ho_finding_event_key (snd h) of
              None \<Rightarrow> False
            | Some ek \<Rightarrow> (case tbl_get (finding_events s) ek of
                            None \<Rightarrow> False
                          | Some v \<Rightarrow> fv_source_kind v = TARGET_EVENT \<and> fv_source_key v = event_id)) s))"

text \<open>\<^verbatim>\<open>Repository.pending_handoffs\<close>\<close>

definition pending_handoffs :: "string list option \<Rightarrow> nat \<Rightarrow> (string \<times> handoff_row) list repo" where
  "pending_handoffs keys limit =
     readM (\<lambda>s. take limit (pending_rows (\<lambda>h. case keys of None \<Rightarrow> True | Some ks \<Rightarrow> fst h \<in> set ks) s))"

text \<open>\<^verbatim>\<open>UPDATE act.finding_handoffs ... WHERE handoff_key = ...\<close> under a condition.\<close>

definition update_handoff :: "string \<Rightarrow> (handoff_row \<Rightarrow> bool) \<Rightarrow> (handoff_row \<Rightarrow> handoff_row) \<Rightarrow> unit repo" where
  "update_handoff key cond f =
     bindM (readM (\<lambda>s. tbl_get (handoffs s) key)) (\<lambda>found.
     case found of
       None \<Rightarrow> returnM ()
     | Some h \<Rightarrow> if cond h then updateM ''finding_handoffs'' handoffs_update handoff_row_ok key (f h)
                 else returnM ())"

definition record_handoff_attempt :: "string \<Rightarrow> unit repo" where
  "record_handoff_attempt key = transaction
     (bindM clock_timestamp (\<lambda>first. bindM clock_timestamp (\<lambda>now.
      update_handoff key (\<lambda>h. ho_published_at h = None)
        (\<lambda>h. h\<lparr>ho_publish_attempts := ho_publish_attempts h + 1,
               ho_first_attempted_at := Some (value_or (ho_first_attempted_at h) first),
               ho_last_attempted_at := Some now\<rparr>))))"

definition record_handoff_error :: "string \<Rightarrow> string \<Rightarrow> unit repo" where
  "record_handoff_error key error_code = transaction
     (update_handoff key (\<lambda>h. ho_published_at h = None)
        (\<lambda>h. h\<lparr>ho_last_error_code := Some (take 128 error_code)\<rparr>))"

definition mark_handoff_published :: "string \<Rightarrow> unit repo" where
  "mark_handoff_published key = transaction
     (bindM clock_timestamp (\<lambda>now.
      update_handoff key (\<lambda>_. True)
        (\<lambda>h. h\<lparr>ho_published_at := Some (value_or (ho_published_at h) now),
               ho_last_error_code := None\<rparr>)))"

end
