(* ===== verification/Parser_Closure.thy ===== *)
theory Parser_Closure
  imports Parser_Lifecycle Parser_Repository
begin

text \<open>
  Closures caused by inventory events: removing a target, binding it to other addresses,
  and reactivating it after a gap of generations. The lemmas describe the exposures and
  findings that are left open.
\<close>

section \<open>Closing exposures\<close>

lemma exposures_evolve_ok:
  assumes "exposures_evolve P s t" "exposures_ok s"
  shows "exposures_ok t"
proof -
  have "exposure_wf k e" if "tbl_get (exposures t) k = Some e" for k e
  proof -
    have "exposure_le k (tbl_get (exposures s) k) (Some e)"
      using assms(1) that unfolding exposures_evolve_def by metis
    then show ?thesis
      using assms(2) unfolding exposures_ok_def exposure_le_def
      by (auto split: option.splits) (metis prod.collapse)+
  qed
  then show ?thesis using assms unfolding exposures_ok_def exposures_evolve_def by blast
qed

text \<open>A closure that no scan asked for leaves the exposure closed, whatever it was.\<close>

lemma close_exposure_closed:
  assumes "close_exposure tid gen protocol port None at reason sk s = (Inr x, t)"
    and "tbl_get (exposures t) (tid, protocol, port) = Some e"
  shows "ex_state e = Closed"
  using assms
  by (cases "ex_state e")
    (auto simp: close_exposure_def Let_def repo_Inr put_exposure_def insert_exposure_event_def
      closed_exposure_row_def split: option.splits if_splits)

definition all_closed :: "exposure_key set \<Rightarrow> db \<Rightarrow> bool" where
  "all_closed K s \<longleftrightarrow> (\<forall>k e. k \<in> K \<longrightarrow> tbl_get (exposures s) k = Some e \<longrightarrow> ex_state e = Closed)"

lemma close_loop:
  assumes run: "foldM (close_for_event ev at reason) [] keys s = (Inr trs, t)"
  shows "exposures_evolve (\<lambda>k. k \<in> Pair (ev_target_id ev) ` set keys) s t
     \<and> all_closed (Pair (ev_target_id ev) ` set keys) t"
proof -
  let ?tid = "ev_target_id ev"
  let ?J = "\<lambda>ds u. exposures_evolve (\<lambda>k. k \<in> Pair ?tid ` set ds) s u \<and> all_closed (Pair ?tid ` set ds) u"
  have "?J keys t"
  proof (rule foldM_invariant [OF run, where J = "\<lambda>ds _. ?J ds"])
    show "?J [] s" by (simp add: exposures_evolve_refl all_closed_def)
  next
    fix ds key rest b u b' v
    assume J: "?J ds u" and step: "close_for_event ev at reason b key u = (Inr b', v)"
    from step obtain r where
      close: "close_exposure ?tid (ev_generation ev) (fst key) (snd key) None at reason (Some (ev_event_id ev)) u = (Inr r, v)"
      by (auto simp: close_for_event_def repo_Inr)
    have one: "exposures_evolve (\<lambda>k. k = (?tid, key)) u v"
      by (rule movesD [OF close_exposure_evolves close]) simp
    then have other: "tbl_get (exposures v) k = tbl_get (exposures u) k" if "k \<noteq> (?tid, key)" for k
      using that unfolding exposures_evolve_def by blast
    have "exposures_evolve (\<lambda>k. k \<in> Pair ?tid ` set (ds @ [key])) s v"
      by (rule exposures_evolve_trans) (use J one in \<open>auto elim!: exposures_evolve_mono\<close>)
    moreover have "ex_state e = Closed" if "k \<in> Pair ?tid ` set (ds @ [key])" "tbl_get (exposures v) k = Some e" for k e
    proof (cases "k = (?tid, key)")
      case True
      with that close_exposure_closed [OF close] show ?thesis by simp
    next
      case False
      then have "k \<in> Pair ?tid ` set ds" using that(1) by auto
      with J other [OF False] that(2) show ?thesis unfolding all_closed_def by (metis (no_types))
    qed
    ultimately show "?J (ds @ [key]) v" unfolding all_closed_def by blast
  qed
  then show ?thesis .
qed

section \<open>Closing and reconciling\<close>

text \<open>No finding of the services is open.\<close>

definition all_resolved :: "exposure_key set \<Rightarrow> db \<Rightarrow> bool" where
  "all_resolved K s \<longleftrightarrow>
     (\<forall>fp f. tbl_get (findings s) fp = Some f \<longrightarrow> service_of f \<in> K \<longrightarrow> fi_status f \<noteq> OPEN)"

lemma wanted_rules_closed: "all_closed K s \<Longrightarrow> k \<in> K \<Longrightarrow> wanted_rules s k = {}"
proof -
  assume "all_closed K s" "k \<in> K"
  then have "ex_state e \<noteq> Exposed" if "tbl_get (exposures s) k = Some e" for e
    using that unfolding all_closed_def by (metis exposure_status.distinct(1))
  then show ?thesis by (auto simp: wanted_rules_def split: option.splits)
qed

lemma close_and_reconcile:
  assumes close: "foldM (close_for_event ev at reason) [] keys s = (Inr trs, t)"
    and rec: "reconcile_finding_keys c (ev_target_id ev) trs' keys t = (Inr q, u)"
    and ok: "exposures_ok s" "findings_ok s" "tbl_ok (detection_rules s)"
  defines "K \<equiv> Pair (ev_target_id ev) ` set keys"
  shows "exposures_evolve (\<lambda>k. k \<in> K) s t" "findings_only t u"
    "exposures_ok u" "findings_ok u" "all_closed K u" "all_resolved K u" "same_outside K s u"
proof -
  have ev: "exposures_evolve (\<lambda>k. k \<in> K) s t" and closed: "all_closed K t"
    using close_loop [OF close] unfolding K_def by blast+
  show "exposures_evolve (\<lambda>k. k \<in> K) s t" by (rule ev)
  show fo: "findings_only t u" by (rule movesD [OF reconcile_finding_keys_findings rec])
  have ok': "exposures_ok t" "findings_ok t" "tbl_ok (detection_rules t)"
    using exposures_evolve_ok [OF ev ok(1)] exposures_evolve_frame [OF ev] ok findings_ok_cong by metis+
  have spec: "findings_ok u \<and> same_outside K t u \<and> (\<forall>key \<in> set keys. service_settled u (ev_target_id ev, key))"
    using reconcile_finding_keys_spec [OF rec ok'(2,1,3)] unfolding K_def by blast
  then show "findings_ok u" by blast
  show "exposures_ok u"
    using ok'(1) findings_only_frame [OF fo] unfolding exposures_ok_def by simp
  show cu: "all_closed K u"
    using closed findings_only_frame [OF fo] unfolding all_closed_def by simp
  show "all_resolved K u"
    using spec wanted_rules_closed [OF cu] unfolding all_resolved_def service_settled_def K_def by blast
  show "same_outside K s u"
    using spec exposures_evolve_frame(7) [OF ev] unfolding same_outside_def by metis
qed

section \<open>The three closures\<close>

definition repo_ok :: "db \<Rightarrow> bool" where
  "repo_ok s \<longleftrightarrow> exposures_ok s \<and> findings_ok s \<and> tbl_ok (detection_rules s)"

text \<open>Every open exposure and every open finding of the target is at an address with \<open>p\<close>.\<close>

definition open_only_at :: "string \<Rightarrow> (string \<Rightarrow> bool) \<Rightarrow> db \<Rightarrow> bool" where
  "open_only_at tid p s \<longleftrightarrow>
     (\<forall>k e. tbl_get (exposures s) k = Some e \<longrightarrow> fst k = tid \<longrightarrow> ex_state e = Exposed
        \<longrightarrow> p (ex_observed_address e))
     \<and> (\<forall>fp f. tbl_get (findings s) fp = Some f \<longrightarrow> fi_target_id f = tid \<longrightarrow> fi_status f = OPEN
        \<longrightarrow> p (fi_observed_address f))"

text \<open>Nothing of another target changes.\<close>

definition other_targets_same :: "string \<Rightarrow> db \<Rightarrow> db \<Rightarrow> bool" where
  "other_targets_same tid s t \<longleftrightarrow>
     (\<forall>k. fst k \<noteq> tid \<longrightarrow> tbl_get (exposures t) k = tbl_get (exposures s) k)
     \<and> (\<forall>fp f. fi_target_id f \<noteq> tid \<longrightarrow>
          (tbl_get (findings t) fp = Some f \<longleftrightarrow> tbl_get (findings s) fp = Some f))"

lemma other_targets_same_refl [simp]: "other_targets_same tid s s"
  by (simp add: other_targets_same_def)

lemma open_exposure_keysI:
  assumes "tbl_ok (exposures s)" "tbl_get (exposures s) (tid, key) = Some e" "ex_state e = Exposed"
    "p (ex_observed_address e)"
  shows "key \<in> set (open_exposure_keys tid p s)"
proof -
  have "((tid, key), e) \<in> set (exposures s)" by (rule tbl_get_Some_mem [OF assms(2)])
  with assms(3,4) show ?thesis unfolding open_exposure_keys_def
    by (cases key) (auto intro!: bexI)
qed

lemma open_finding_keysI:
  assumes "tbl_get (findings s) fp = Some f" "service_of f = (tid, key)" "fi_status f = OPEN"
    "p (fi_observed_address f)"
  shows "key \<in> set (open_finding_keys tid p s)"
proof -
  have "(fp, f) \<in> set (findings s)" by (rule tbl_get_Some_mem [OF assms(1)])
  moreover have "fi_target_id f = tid" "(fi_protocol f, fi_port f) = key"
    using assms(2) by (auto simp: service_of_def)
  ultimately show ?thesis using assms(3,4) unfolding open_finding_keys_def by (auto intro!: bexI)
qed

lemma open_keys_spec:
  assumes keys: "open_keys tid p s = (Inr keys, t)" and ok: "repo_ok s"
  shows "t = s"
    and "tbl_get (exposures s) (tid, key) = Some e \<Longrightarrow> ex_state e = Exposed \<Longrightarrow> key \<notin> set keys
           \<Longrightarrow> \<not> p (ex_observed_address e)"
    and "tbl_get (findings s) fp = Some f \<Longrightarrow> service_of f = (tid, key) \<Longrightarrow> fi_status f = OPEN
           \<Longrightarrow> key \<notin> set keys \<Longrightarrow> \<not> p (fi_observed_address f)"
proof -
  from keys have "t = s" and k: "keys = sorted_set (open_exposure_keys tid p s @ open_finding_keys tid p s)"
    by (simp_all add: open_keys_def repo_Inr)
  then show "t = s" by simp
  show "\<not> p (ex_observed_address e)"
    if "tbl_get (exposures s) (tid, key) = Some e" "ex_state e = Exposed" "key \<notin> set keys"
    using open_exposure_keysI [OF _ that(1,2), of p] ok that(3)
    unfolding k repo_ok_def exposures_ok_def by auto
  show "\<not> p (fi_observed_address f)"
    if "tbl_get (findings s) fp = Some f" "service_of f = (tid, key)" "fi_status f = OPEN" "key \<notin> set keys"
    using open_finding_keysI [OF that(1-3), of p] that(4) unfolding k by auto
qed

text \<open>Nothing at an address with \<open>p\<close> stays open once the open keys at such addresses are closed and reconciled.\<close>

lemma close_open_keys:
  assumes keys: "open_keys (ev_target_id ev) p s = (Inr keys, s)" and ok: "repo_ok s"
    and close: "foldM (close_for_event ev at reason) [] keys s = (Inr trs, t)"
    and rec: "reconcile_finding_keys c (ev_target_id ev) trs' keys t = (Inr q, u)"
  shows "repo_ok u" "open_only_at (ev_target_id ev) (\<lambda>a. \<not> p a) u" "other_targets_same (ev_target_id ev) s u"
proof -
  let ?tid = "ev_target_id ev" and ?K = "Pair (ev_target_id ev) ` set keys"
  have ok3: "exposures_ok s" "findings_ok s" "tbl_ok (detection_rules s)" using ok by (simp_all add: repo_ok_def)
  note cr = close_and_reconcile [OF close rec ok3]
  show "repo_ok u"
    using cr(3,4) ok3 exposures_evolve_frame [OF cr(1)] findings_only_frame [OF cr(2)]
    unfolding repo_ok_def by simp
  have exp: "tbl_get (exposures u) k = tbl_get (exposures s) k" if "k \<notin> ?K" for k
    using cr(1) that findings_only_frame [OF cr(2)] unfolding exposures_evolve_def by metis
  show "other_targets_same ?tid s u"
    unfolding other_targets_same_def
  proof (intro conjI allI impI)
    show "tbl_get (exposures u) k = tbl_get (exposures s) k" if "fst k \<noteq> ?tid" for k
      by (rule exp) (use that in auto)
    show "tbl_get (findings u) fp = Some f \<longleftrightarrow> tbl_get (findings s) fp = Some f" if "fi_target_id f \<noteq> ?tid" for fp f
      using cr(7) that unfolding same_outside_def service_of_def by auto
  qed
  show "open_only_at ?tid (\<lambda>a. \<not> p a) u"
    unfolding open_only_at_def
  proof (intro conjI allI impI)
    fix k e assume e: "tbl_get (exposures u) k = Some e" "fst k = ?tid" "ex_state e = Exposed"
    then have k: "k \<notin> ?K" using cr(5) unfolding all_closed_def by (metis exposure_status.distinct(1))
    moreover from e(2) have "k = (?tid, snd k)" by (simp add: prod_eq_iff)
    ultimately have "tbl_get (exposures s) (?tid, snd k) = Some e" "snd k \<notin> set keys"
      using exp [OF k] e(1) by (metis image_eqI)+
    with e show "\<not> p (ex_observed_address e)" using open_keys_spec(2) [OF keys ok] by blast
  next
    fix fp f assume f: "tbl_get (findings u) fp = Some f" "fi_target_id f = ?tid" "fi_status f = OPEN"
    then have k: "service_of f \<notin> ?K" using cr(6) unfolding all_resolved_def by metis
    then have "tbl_get (findings s) fp = Some f" using cr(7) f unfolding same_outside_def by blast
    moreover have "service_of f = (?tid, snd (service_of f))" "snd (service_of f) \<notin> set keys"
      using k f(2) by (auto simp: service_of_def)
    ultimately show "\<not> p (fi_observed_address f)" using open_keys_spec(3) [OF keys ok] f(3) by blast
  qed
qed

text \<open>No open key: nothing to do.\<close>

lemma no_open_keys:
  assumes "open_keys tid p s = (Inr [], s)" "repo_ok s"
  shows "open_only_at tid (\<lambda>a. \<not> p a) s"
  unfolding open_only_at_def
proof (intro conjI allI impI)
  show "\<not> p (ex_observed_address e)" if "tbl_get (exposures s) k = Some e" "fst k = tid" "ex_state e = Exposed" for k e
    using open_keys_spec(2) [OF assms, of "snd k"] that by (metis empty_iff empty_set prod.collapse)
  show "\<not> p (fi_observed_address f)" if "tbl_get (findings s) fp = Some f" "fi_target_id f = tid" "fi_status f = OPEN" for fp f
    using open_keys_spec(3) [OF assms, of fp f "snd (service_of f)"] that by (simp add: service_of_def)
qed

definition closes_open_keys :: "inventory_event \<Rightarrow> (string \<Rightarrow> bool) \<Rightarrow> db \<Rightarrow> db \<Rightarrow> bool" where
  "closes_open_keys ev p s u \<longleftrightarrow>
     (\<exists>keys. open_keys (ev_target_id ev) p s = (Inr keys, s) \<and>
        (keys = [] \<and> u = s
         \<or> (\<exists>at reason trs t c trs' q. foldM (close_for_event ev at reason) [] keys s = (Inr trs, t)
              \<and> reconcile_finding_keys c (ev_target_id ev) trs' keys t = (Inr q, u))))"

lemma closes_open_keys_spec:
  assumes c: "closes_open_keys ev p s u" and ok: "repo_ok s"
  shows "repo_ok u \<and> open_only_at (ev_target_id ev) (\<lambda>a. \<not> p a) u \<and> other_targets_same (ev_target_id ev) s u"
proof -
  from c obtain keys where keys: "open_keys (ev_target_id ev) p s = (Inr keys, s)"
    and r: "keys = [] \<and> u = s \<or> (\<exists>at reason trs t c trs' q.
        foldM (close_for_event ev at reason) [] keys s = (Inr trs, t)
        \<and> reconcile_finding_keys c (ev_target_id ev) trs' keys t = (Inr q, u))"
    unfolding closes_open_keys_def by (elim exE conjE) (rule that)
  from r show ?thesis
  proof (elim disjE exE conjE)
    assume "keys = []" "u = s"
    with keys ok no_open_keys show ?thesis by simp
  next
    fix at reason trs t c trs' q
    assume "foldM (close_for_event ev at reason) [] keys s = (Inr trs, t)"
      "reconcile_finding_keys c (ev_target_id ev) trs' keys t = (Inr q, u)"
    from close_open_keys [OF keys ok this] show ?thesis by blast
  qed
qed

lemma close_for_removal_closes:
  "close_for_removal ev b q s = (Inr x, u) \<Longrightarrow> closes_open_keys ev (\<lambda>_. True) s u"
  by (auto simp: close_for_removal_def closes_open_keys_def open_keys_def repo_Inr split: if_splits)

lemma close_for_generation_gap_closes:
  "close_for_generation_gap ev b q s = (Inr x, u) \<Longrightarrow> closes_open_keys ev (\<lambda>_. True) s u"
  by (auto simp: close_for_generation_gap_def closes_open_keys_def open_keys_def repo_Inr split: if_splits)

lemma close_for_address_change_closes:
  "close_for_address_change ev as b q s = (Inr x, u) \<Longrightarrow> closes_open_keys ev (\<lambda>a. a \<notin> set as) s u"
  by (auto simp: close_for_address_change_def closes_open_keys_def open_keys_def repo_Inr split: if_splits)

end
