(* ===== verification/Parser_Properties.thy ===== *)
theory Parser_Properties
  imports Parser_Closure
begin

text \<open>
  The correctness properties of the repository's public operations
  (\<^verbatim>\<open>apply_target_event\<close>, \<^verbatim>\<open>ingest_scan\<close>, \<^verbatim>\<open>reconcile_all\<close>): the state invariant they keep,
  what they may change, and what they leave behind.
\<close>

section \<open>Inventory events, taken apart\<close>

lemma decide_event_targets:
  assumes "decide_event ev as s = (Inr d, t)"
  shows "t = s\<lparr>targets := targets t\<rparr>"
    and "\<exists>r. tbl_get (targets t) (ev_target_id ev) = Some r \<and> target_identity r = event_identity ev
           \<and> (dec_accepted d \<longrightarrow> tg_status r = event_status ev \<and> tg_current_generation r = ev_generation ev
                \<and> tg_current_addresses r = as)"
    and "\<not> dec_accepted d \<Longrightarrow> t = s"
    and "k \<noteq> ev_target_id ev \<Longrightarrow> tbl_get (targets t) k = tbl_get (targets s) k"
    and "tbl_get (targets s) (ev_target_id ev) = Some r \<Longrightarrow> dec_accepted d = event_accepted ev r"
    and "tbl_get (targets s) (ev_target_id ev) = Some r \<Longrightarrow> dec_accepted d \<Longrightarrow> ev_event_type ev = Upsert
           \<Longrightarrow> \<not> dec_address_changed d \<Longrightarrow> set (tg_current_addresses r) = set as"
  using assms
  by (auto simp: decide_event_def repo_Inr insert_target_def new_target_row_def updated_target_row_def
      target_identity_def event_identity_def split: option.splits if_splits)

text \<open>The states that a newly applied event passes through.\<close>

lemma apply_target_event_elim:
  assumes "apply_target_event ev bucket queue s = (Inr True, s')"
  obtains as d s1 x where "target_addresses ev = Inr as"
    "tbl_get (target_events s) (ev_event_id ev) = None"
    "decide_event ev as s = (Inr d, s1)"
    "close_after_event ev as bucket queue d
       (target_events_update
          (tbl_put (ev_event_id ev) (target_event_row_of ev as (dec_accepted d) (dec_stale d))) s1)
     = (Inr x, s')"
  using assms by (auto simp: apply_target_event_def repo_Inr split: if_splits)

lemma apply_target_event_False:
  "apply_target_event ev bucket queue s = (Inr False, s') \<Longrightarrow>
     s' = s \<and> tbl_get (target_events s) (ev_event_id ev) \<noteq> None"
  by (auto simp: apply_target_event_def repo_Inr split: if_splits)

text \<open>The tables a closure leaves alone.\<close>

definition closure_only :: "db \<Rightarrow> db \<Rightarrow> bool" where
  "closure_only s t \<longleftrightarrow> targets t = targets s \<and> target_events t = target_events s
     \<and> scan_attempts t = scan_attempts s \<and> attempt_coverage t = attempt_coverage s
     \<and> observations t = observations s \<and> detection_rules t = detection_rules s \<and> runs t = runs s"

interpretation closure: effect_preorder closure_only
  by unfold_locales (auto simp: closure_only_def)

lemma exposures_closure: "exposures_evolve P s t \<Longrightarrow> closure_only s t"
  using exposures_evolve_frame [of P s t] by (simp add: closure_only_def)

lemma findings_closure: "findings_only s t \<Longrightarrow> closure_only s t"
  using findings_only_frame [of s t] by (simp add: closure_only_def)

lemma close_exposure_closure: "moves closure_only (close_exposure tid g p n src at reason sk)"
proof (rule movesI)
  fix s x t assume "close_exposure tid g p n src at reason sk s = (Inr x, t)"
  from movesD [OF close_exposure_evolves [of "\<lambda>_. True"] this] show "closure_only s t"
    by (simp add: exposures_closure)
qed

lemma close_for_event_closure: "moves closure_only (close_for_event ev at reason trs key)"
  unfolding close_for_event_def by (intro closure.moves_rules close_exposure_closure)

lemma reconcile_closure: "moves closure_only (reconcile_finding_keys c tid trs keys)"
  using movesD [OF reconcile_finding_keys_findings] by (blast intro: movesI findings_closure)

lemma close_after_event_closure: "moves closure_only (close_after_event ev as b q d)"
  unfolding close_after_event_def close_for_removal_def close_for_generation_gap_def
    close_for_address_change_def open_keys_def
  by (intro moves_intro closure.moves_rules close_for_event_closure reconcile_closure)

text \<open>What is left open after the closure that an accepted event asks for.\<close>

definition left_open :: "inventory_event \<Rightarrow> string list \<Rightarrow> event_decision \<Rightarrow> (string \<Rightarrow> bool) option" where
  "left_open ev as d =
     (if dec_accepted d \<and> (ev_event_type ev = Remove \<or> dec_gap d) then Some (\<lambda>_. False)
      else if dec_accepted d \<and> dec_address_changed d then Some (\<lambda>a. a \<in> set as)
      else None)"

lemma close_after_event_spec:
  assumes run: "close_after_event ev as b q d s = (Inr x, u)" and ok: "repo_ok s"
  shows "repo_ok u" "other_targets_same (ev_target_id ev) s u"
    "left_open ev as d = Some p \<Longrightarrow> open_only_at (ev_target_id ev) p u"
    "left_open ev as d = None \<Longrightarrow> u = s"
proof -
  have "(left_open ev as d = None \<and> u = s)
      \<or> (\<exists>p. left_open ev as d = Some (\<lambda>a. \<not> p a) \<and> closes_open_keys ev p s u)"
    using run
    by (auto simp: close_after_event_def left_open_def repo_Inr split: if_splits
        dest!: close_for_removal_closes close_for_generation_gap_closes close_for_address_change_closes
        intro: exI [of _ "\<lambda>_. True"] exI [of _ "\<lambda>a. a \<notin> set as"])
  then show "repo_ok u" "other_targets_same (ev_target_id ev) s u"
    "left_open ev as d = Some p \<Longrightarrow> open_only_at (ev_target_id ev) p u"
    "left_open ev as d = None \<Longrightarrow> u = s"
    using closes_open_keys_spec ok by auto
qed

lemma repo_ok_cong:
  "exposures t = exposures s \<Longrightarrow> findings t = findings s \<Longrightarrow> detection_rules t = detection_rules s
     \<Longrightarrow> repo_ok t = repo_ok s"
  by (simp add: repo_ok_def exposures_ok_def findings_ok_def)

section \<open>The serving invariant\<close>

text \<open>An address that is bound to an active target now.\<close>

definition bound :: "db \<Rightarrow> string \<Rightarrow> string \<Rightarrow> bool" where
  "bound s tid a =
     (case tbl_get (targets s) tid of
        None \<Rightarrow> False
      | Some t \<Rightarrow> tg_status t = Active \<and> a \<in> set (tg_current_addresses t))"

text \<open>Everything that is open is on an address bound to an active target.\<close>

definition serving_ok :: "db \<Rightarrow> bool" where
  "serving_ok s \<longleftrightarrow> (\<forall>tid. open_only_at tid (bound s tid) s)"

lemma open_only_at_mono:
  "open_only_at tid p s \<Longrightarrow> (\<And>a. p a \<Longrightarrow> q a) \<Longrightarrow> open_only_at tid q s"
  unfolding open_only_at_def by blast

lemma open_only_at_other:
  assumes "other_targets_same tid' s t" "tid \<noteq> tid'" "open_only_at tid p s"
  shows "open_only_at tid p t"
  unfolding open_only_at_def
proof (intro conjI allI impI)
  show "p (ex_observed_address e)"
    if "tbl_get (exposures t) k = Some e" "fst k = tid" "ex_state e = Exposed" for k e
    using assms that unfolding open_only_at_def other_targets_same_def by metis
  show "p (fi_observed_address f)"
    if "tbl_get (findings t) fp = Some f" "fi_target_id f = tid" "fi_status f = OPEN" for fp f
    using assms that unfolding open_only_at_def other_targets_same_def by metis
qed

lemma open_only_at_cong:
  "exposures t = exposures s \<Longrightarrow> findings t = findings s \<Longrightarrow> open_only_at tid p t = open_only_at tid p s"
  by (simp only: open_only_at_def)

text \<open>An inventory event keeps the invariant.\<close>

lemma apply_target_event_serving:
  assumes run: "apply_target_event ev bucket queue s = (Inr r, s')"
    and ok: "repo_ok s" "serving_ok s"
  shows "repo_ok s' \<and> serving_ok s'"
proof (cases r)
  case False
  with run have "apply_target_event ev bucket queue s = (Inr False, s')" by simp
  from apply_target_event_False [OF this] ok show ?thesis by simp
next
  case True
  let ?tid = "ev_target_id ev"
  from run True obtain as d s1 x where dec: "decide_event ev as s = (Inr d, s1)"
    and close: "close_after_event ev as bucket queue d
       (target_events_update (tbl_put (ev_event_id ev)
          (target_event_row_of ev as (dec_accepted d) (dec_stale d))) s1) = (Inr x, s')"
    by (auto elim: apply_target_event_elim)
  define s2 where "s2 = target_events_update (tbl_put (ev_event_id ev)
          (target_event_row_of ev as (dec_accepted d) (dec_stale d))) s1"
  note dt = decide_event_targets [OF dec]
  obtain T where s1: "s1 = s\<lparr>targets := T\<rparr>" using dt(1) by blast
  have s2: "exposures s2 = exposures s" "findings s2 = findings s" "targets s2 = targets s1"
    "detection_rules s2 = detection_rules s"
    by (simp_all add: s2_def s1)
  have ok2: "repo_ok s2" using ok(1) repo_ok_cong [of s2 s] s2 by blast
  note cs = close_after_event_spec [OF close [folded s2_def] ok2]
  have tg: "targets s' = targets s1"
    using movesD [OF close_after_event_closure close] s2(3) by (simp add: closure_only_def s2_def)
  have "open_only_at tid (bound s' tid) s'" for tid
  proof (cases "tid = ?tid")
    case False
    then have "bound s' tid = bound s tid" using dt(4) tg by (simp add: bound_def fun_eq_iff)
    moreover have "open_only_at tid (bound s tid) s2"
      using ok(2) s2 open_only_at_cong [of s2 s] unfolding serving_ok_def by blast
    ultimately show ?thesis using open_only_at_other [OF cs(2) False] by simp
  next
    case True
    show ?thesis
    proof (cases "left_open ev as d")
      case None
      have "bound s ?tid a \<Longrightarrow> bound s' ?tid a" for a
        using dt(2,3,6) None s1 tg
        by (cases "dec_accepted d"; cases "ev_event_type ev")
          (auto simp: bound_def left_open_def event_status_def split: option.splits if_splits)
      then show ?thesis
        using cs(4) [OF None] ok(2) s2 open_only_at_cong [of s2 s] True open_only_at_mono
        unfolding serving_ok_def by metis
    next
      case (Some p)
      then have "p a \<Longrightarrow> bound s' ?tid a" for a
        using dt(2) tg by (auto simp: left_open_def bound_def event_status_def split: if_splits)
      with cs(3) [OF Some] True show ?thesis using open_only_at_mono by metis
    qed
  qed
  with cs(1) show ?thesis by (simp add: serving_ok_def)
qed

section \<open>Reconciliation keeps the invariant\<close>

lemma reconcile_serving:
  assumes run: "reconcile_finding_keys c tid trs keys s = (Inr q, s')"
    and ok: "repo_ok s" "serving_ok s"
  shows "repo_ok s' \<and> serving_ok s'"
proof -
  let ?K = "Pair tid ` set keys"
  have ok3: "findings_ok s" "exposures_ok s" "tbl_ok (detection_rules s)" using ok(1) by (simp_all add: repo_ok_def)
  have fo: "findings_only s s'" by (rule movesD [OF reconcile_finding_keys_findings run])
  note fr = findings_only_frame [OF fo]
  have spec: "findings_ok s'" "same_outside ?K s s'" "\<forall>key \<in> set keys. service_settled s' (tid, key)"
    using reconcile_finding_keys_spec [OF run ok3] by blast+
  have bd: "bound s' = bound s" using fr(1) by (simp add: bound_def fun_eq_iff)
  have open_exp: "bound s (fst k) (ex_observed_address e)"
    if "tbl_get (exposures s) k = Some e" "ex_state e = Exposed" for k e
    using ok(2) that unfolding serving_ok_def open_only_at_def by metis
  have "bound s (fi_target_id f) (fi_observed_address f)"
    if f: "tbl_get (findings s') fp = Some f" "fi_status f = OPEN" for fp f
  proof (cases "service_of f \<in> ?K")
    case False
    then have "tbl_get (findings s) fp = Some f" using spec(2) f(1) unfolding same_outside_def by blast
    then show ?thesis using ok(2) f(2) unfolding serving_ok_def open_only_at_def by metis
  next
    case True
    then have "service_settled s' (service_of f)" using spec(3) by auto
    then have "fi_rule_key f \<in> wanted_rules s' (service_of f)" "mirrors s' (service_of f) f"
      using f unfolding service_settled_def by blast+
    then obtain e where "tbl_get (exposures s) (service_of f) = Some e" "ex_state e = Exposed"
      "fi_observed_address f = ex_observed_address e"
      using fr(6) by (auto simp: wanted_rules_def mirrors_def split: option.splits if_splits)
    with open_exp [of "service_of f" e] show ?thesis by (simp add: service_of_def)
  qed
  then have "serving_ok s'"
    using open_exp unfolding serving_ok_def open_only_at_def bd fr(6) by metis
  moreover have "repo_ok s'"
    using ok3 spec(1) fr unfolding repo_ok_def exposures_ok_def by simp
  ultimately show ?thesis by simp
qed

section \<open>Scans keep the invariant\<close>

text \<open>Scan evidence opens ports only at the addresses of its observations.\<close>

definition opens_at :: "string \<Rightarrow> string \<Rightarrow> db \<Rightarrow> db \<Rightarrow> bool" where
  "opens_at tid a s t \<longleftrightarrow>
     (\<forall>k e. tbl_get (exposures t) k = Some e \<longrightarrow> ex_state e = Exposed \<longrightarrow>
        tbl_get (exposures s) k = Some e \<or> fst k = tid \<and> ex_observed_address e = a)"

interpretation opens: effect_preorder "opens_at tid a"
  by unfold_locales (simp add: opens_at_def, unfold opens_at_def, metis)

lemma open_exposure_opens:
  "ob_address ob = a \<Longrightarrow> moves (opens_at (en_target_id env) a) (open_exposure env ob)"
  by (rule movesI)
    (auto simp: open_exposure_def Let_def repo_Inr record_open_def put_exposure_def
      insert_exposure_event_def opens_at_def new_exposure_row_def reopened_exposure_row_def
      confirmed_exposure_row_def split: option.splits if_splits)

lemma close_exposure_opens: "moves (opens_at tid' a) (close_exposure tid g p n src at reason sk)"
  by (rule movesI)
    (auto simp: close_exposure_def Let_def repo_Inr put_exposure_def insert_exposure_event_def
      opens_at_def closed_exposure_row_def split: option.splits if_splits)

lemma apply_exposure_evidence_opens:
  assumes "\<And>ob. ob \<in> set obs \<Longrightarrow> ob_address ob = a"
  shows "moves (opens_at (en_target_id env) a) (apply_exposure_evidence env obs)"
proof -
  have obs: "ob_address ob = a" if "map_of (observed_map obs) key = Some ob" for key ob
    using that assms by (auto simp: observed_map_def dest!: map_of_SomeD)
  have "moves (opens_at (en_target_id env) a) (observed_step env obs ev key)" for ev key
    unfolding observed_step_def attempt_controls_port_def
    by (intro moves_intro opens.moves_rules close_exposure_opens open_exposure_opens obs)
  moreover have "moves (opens_at (en_target_id env) a) (absent_step env obs ev key)" for ev key
    unfolding absent_step_def attempt_controls_port_def
    by (intro moves_intro opens.moves_rules close_exposure_opens)
  ultimately show ?thesis
    unfolding apply_exposure_evidence_def by (intro opens.moves_rules)
qed

text \<open>The tables of raw evidence: all that a scan without eligibility writes.\<close>

definition evidence_only :: "db \<Rightarrow> db \<Rightarrow> bool" where
  "evidence_only s t \<longleftrightarrow> target_events t = target_events s \<and> exposures t = exposures s
     \<and> exposure_events t = exposure_events s \<and> detection_rules t = detection_rules s
     \<and> findings t = findings s \<and> finding_events t = finding_events s \<and> runs t = runs s
     \<and> handoffs t = handoffs s \<and> bound t = bound s"

interpretation evid: effect_preorder evidence_only
  by unfold_locales (auto simp: evidence_only_def)

lemma bound_cong: "targets t = targets s \<Longrightarrow> bound t = bound s"
  by (simp add: bound_def fun_eq_iff)

lemma insert_coverage_evidence: "moves evidence_only (insert_coverage env c)"
  by (rule movesI) (auto simp: insert_coverage_def repo_Inr evidence_only_def intro!: bound_cong)

lemma insert_observation_evidence: "moves evidence_only (insert_observation env ob)"
  by (rule movesI)
    (auto simp: insert_observation_def repo_Inr evidence_only_def intro!: bound_cong split: if_splits)

lemma insert_coverage_targets: "moves (\<lambda>s t. targets t = targets s) (insert_coverage env c)"
  by (rule movesI) (auto simp: insert_coverage_def repo_Inr)

lemma insert_observation_targets: "moves (\<lambda>s t. targets t = targets s) (insert_observation env ob)"
  by (rule movesI) (auto simp: insert_observation_def repo_Inr split: if_splits)

interpretation tframe: effect_preorder "\<lambda>s t. targets t = targets s"
  by unfold_locales simp_all

lemma touch_target_evidence:
  assumes "touch_target env r e s = (Inr x, t)" "tbl_get (targets s) (en_target_id env) = Some r"
  shows "evidence_only s t"
  using assms by (auto simp: touch_target_def repo_Inr evidence_only_def bound_def fun_eq_iff)

lemma forM_observations:
  "forM obs (insert_observation env) s = (Inr x, t) \<Longrightarrow> ob \<in> set obs \<Longrightarrow> ob_address ob = en_address env"
proof (induction obs arbitrary: s)
  case (Cons o' obs)
  from Cons.prems(1) obtain s1 u where one: "insert_observation env o' s = (Inr u, s1)"
    and rest: "forM obs (insert_observation env) s1 = (Inr x, t)"
    by (auto simp: thenM_Inr)
  from one have "ob_address o' = en_address env"
    by (auto simp: insert_observation_def raiseM_Inr split: if_splits)
  with Cons.prems(2) Cons.IH [OF rest] show ?case by auto
qed simp

text \<open>The state before the last write of \<open>store_attempt\<close>, which touches the target.\<close>

lemma store_attempt_elim:
  assumes "store_attempt env obs sha v r se s = (Inr x, t)"
  obtains s1 s2 s3 u1 u2 where
    "s1 = scan_attempts_update (tbl_put (en_attempt_id env) (attempt_row_of env sha se v
            (en_generation env \<noteq> tg_current_generation r) (is_state_eligible env v r))) s"
    "forM (en_coverage env) (insert_coverage env) s1 = (Inr u1, s2)"
    "forM obs (insert_observation env) s2 = (Inr u2, s3)"
    "targets s3 = targets s" "evidence_only s s3"
    "(if is_current_attempt env r then touch_target env r (is_state_eligible env v r)
      else returnM ()) s3 = (Inr x, t)"
proof -
  from assms obtain s1 s2 s3 u1 u2 where
    s1: "s1 = scan_attempts_update (tbl_put (en_attempt_id env) (attempt_row_of env sha se v
            (en_generation env \<noteq> tg_current_generation r) (is_state_eligible env v r))) s"
    and cov: "forM (en_coverage env) (insert_coverage env) s1 = (Inr u1, s2)"
    and obs: "forM obs (insert_observation env) s2 = (Inr u2, s3)"
    and touch: "(if is_current_attempt env r then touch_target env r (is_state_eligible env v r)
                 else returnM ()) s3 = (Inr x, t)"
    by (auto simp: store_attempt_def repo_Inr)
  have "targets s3 = targets s"
    using movesD [OF tframe.moves_forM [OF insert_coverage_targets] cov]
      movesD [OF tframe.moves_forM [OF insert_observation_targets] obs] by (simp add: s1)
  moreover have "evidence_only s s3"
  proof -
    have "evidence_only s s1" by (simp add: s1 evidence_only_def bound_def fun_eq_iff)
    moreover have "evidence_only s1 s2" by (rule movesD [OF evid.moves_forM [OF insert_coverage_evidence] cov])
    moreover have "evidence_only s2 s3" by (rule movesD [OF evid.moves_forM [OF insert_observation_evidence] obs])
    ultimately show ?thesis using evid.trans by blast
  qed
  ultimately show ?thesis using that [OF s1 cov obs _ _ touch] by blast
qed

lemma store_attempt_evidence:
  assumes run: "store_attempt env obs sha v r se s = (Inr x, t)"
    and r: "tbl_get (targets s) (en_target_id env) = Some r"
  shows "evidence_only s t" "\<And>ob. ob \<in> set obs \<Longrightarrow> ob_address ob = en_address env"
proof -
  obtain s2 s3 u2 where obs: "forM obs (insert_observation env) s2 = (Inr u2, s3)"
    and s3: "targets s3 = targets s" "evidence_only s s3"
    and touch: "(if is_current_attempt env r then touch_target env r (is_state_eligible env v r)
                 else returnM ()) s3 = (Inr x, t)"
    by (rule store_attempt_elim [OF run])
  show "ob_address ob = en_address env" if "ob \<in> set obs" for ob
    using forM_observations [OF obs that] .
  have "evidence_only s3 t"
    using touch r s3(1) touch_target_evidence evid.refl by (auto simp: returnM_Inr split: if_splits)
  with s3(2) show "evidence_only s t" by (rule evid.trans)
qed

lemma check_scan_Inr:
  "check_scan env s = (Inr r, t) \<Longrightarrow> t = s \<and> tbl_get (targets s) (en_target_id env) = Some (fst r)"
  by (auto simp: check_scan_def repo_Inr split: option.splits if_splits)

text \<open>The two ways in which a scan is ingested.\<close>

lemma ingest_scan_cases:
  assumes "ingest_scan env obs sha v b q s = (Inr r, s')"
  shows "(\<exists>a. tbl_get (scan_attempts s) (en_attempt_id env) = Some a \<and> same_evidence env sha a
            \<and> s' = s \<and> ir_duplicate r)
     \<or> (\<exists>t se s1 x. tbl_get (targets s) (en_target_id env) = Some t
            \<and> tbl_get (scan_attempts s) (en_attempt_id env) = None
            \<and> store_attempt env obs sha v t se s = (Inr x, s1)
            \<and> \<not> ir_duplicate r \<and> ir_state_eligible r = is_state_eligible env v t
            \<and> (if is_state_eligible env v t then apply_scan env obs b q s1 = (Inr (ir_handoff_keys r), s')
               else s' = s1))"
  using assms
  by (auto simp: ingest_scan_def repo_Inr pending_handoff_keys_def split: option.splits if_splits
      dest!: check_scan_Inr)

lemma evidence_opens_serving:
  assumes "opens_at tid a s t" "\<And>k. bound t k = bound s k" "bound s tid a"
    and "\<And>tid. open_only_at tid (bound s tid) s" "findings t = findings s"
  shows "serving_ok t"
  unfolding serving_ok_def open_only_at_def
proof (intro allI conjI impI)
  show "bound t tid' (ex_observed_address e)"
    if "tbl_get (exposures t) k = Some e" "fst k = tid'" "ex_state e = Exposed" for tid' k e
    using assms that unfolding opens_at_def open_only_at_def by metis
  show "bound t tid' (fi_observed_address f)"
    if "tbl_get (findings t) fp = Some f" "fi_target_id f = tid'" "fi_status f = OPEN" for tid' fp f
    using assms that unfolding open_only_at_def by metis
qed

lemma evidence_only_inv:
  assumes "evidence_only s t" "repo_ok s" "serving_ok s"
  shows "repo_ok t \<and> serving_ok t"
  using assms repo_ok_cong [of t s] open_only_at_cong [of t s]
  unfolding evidence_only_def serving_ok_def by simp

lemma ingest_scan_serving:
  assumes run: "ingest_scan env obs sha v b q s = (Inr r, s')"
    and ok: "repo_ok s" "serving_ok s"
  shows "repo_ok s' \<and> serving_ok s'"
  using ingest_scan_cases [OF run]
proof (elim disjE exE conjE)
  assume "s' = s" with ok show ?thesis by simp
next
  fix t se s1 x
  assume t: "tbl_get (targets s) (en_target_id env) = Some t"
    and store: "store_attempt env obs sha v t se s = (Inr x, s1)"
    and final: "if is_state_eligible env v t then apply_scan env obs b q s1 = (Inr (ir_handoff_keys r), s') else s' = s1"
  note se = store_attempt_evidence [OF store t]
  have ok1: "repo_ok s1" "serving_ok s1" using evidence_only_inv [OF se(1) ok] by simp_all
  show ?thesis
  proof (cases "is_state_eligible env v t")
    case False
    with final ok1 show ?thesis by simp
  next
    case True
    with final obtain ev s2 where ev: "apply_exposure_evidence env obs s1 = (Inr ev, s2)"
      and rec: "reconcile_finding_keys (scan_cause env b q) (en_target_id env) (snd ev) (fst ev) s2
        = (Inr (ir_handoff_keys r), s')"
      by (auto simp: apply_scan_def repo_Inr)
    have evolve: "exposures_evolve (controlled env s1) s1 s2"
      using movesD [OF apply_exposure_evidence_evolves ev] by (simp add: evidence_evolve_def)
    note fr = exposures_evolve_frame [OF evolve]
    have "bound s (en_target_id env) (en_address env)"
      using True t by (simp add: bound_def is_state_eligible_def is_current_attempt_def)
    then have bd: "bound s1 (en_target_id env) (en_address env)" "\<And>k. bound s2 k = bound s1 k"
      using se(1) bound_cong [OF fr(1)] by (simp_all add: evidence_only_def)
    have "serving_ok s2"
      by (rule evidence_opens_serving [OF movesD [OF apply_exposure_evidence_opens ev] bd(2,1)])
        (use se(2) ok1(2) fr in \<open>auto simp: serving_ok_def\<close>)
    moreover have "repo_ok s2"
      using ok1(1) exposures_evolve_ok [OF evolve] fr findings_ok_cong unfolding repo_ok_def by metis
    ultimately show ?thesis using reconcile_serving [OF rec] by blast
  qed
qed

section \<open>The invariant of the repository\<close>

definition served :: "db \<Rightarrow> bool" where
  "served s \<longleftrightarrow> repo_ok s \<and> serving_ok s"

lemma served_cong:
  "exposures t = exposures s \<Longrightarrow> findings t = findings s \<Longrightarrow> detection_rules t = detection_rules s
     \<Longrightarrow> targets t = targets s \<Longrightarrow> served t = served s"
  using repo_ok_cong [of t s] open_only_at_cong [of t s] bound_cong [of t s]
  by (simp add: served_def serving_ok_def)

lemma keeps_same_served:
  assumes "\<And>s x t. m s = (Inr x, t) \<Longrightarrow> exposures t = exposures s \<and> findings t = findings s
      \<and> detection_rules t = detection_rules s \<and> targets t = targets s"
  shows "keeps served m"
proof (rule keepsI)
  fix s x t assume "served s" "m s = (Inr x, t)"
  with assms [of s x t] served_cong [of t s] show "served t" by simp
qed

lemma served_outbox: "moves outbox_only m \<Longrightarrow> keeps served m"
  by (rule keeps_same_served) (simp add: movesD outbox_only_frame [OF movesD [of outbox_only]])

lemma queue_current_snapshot_outbox: "moves outbox_only (queue_current_snapshot run b fp)"
  unfolding queue_current_snapshot_def Let_def
  by (intro moves_intro outbox.moves_rules finding_payload_outbox insert_handoff_outbox)

lemma begin_run_served: "keeps served (begin_run k i)"
  by (rule keeps_same_served) (auto simp: begin_run_def repo_Inr split: option.splits if_splits)

lemma complete_run_served: "keeps served (complete_run k now n m)"
  by (rule keeps_same_served) (auto simp: complete_run_def put_run_def repo_Inr split: option.splits)

lemma reconcile_target_served: "keeps served (reconcile_target c keys tid)"
  unfolding reconcile_target_def by (rule keepsI) (simp add: served_def reconcile_serving)

lemma reconcile_all_served: "keeps served (reconcile_all i b q now)"
  unfolding reconcile_all_def pending_handoff_keys_def Let_def
  by (intro keeps_intro begin_run_served complete_run_served reconcile_target_served
      served_outbox [OF queue_current_snapshot_outbox])

lemma update_handoff_outbox: "moves outbox_only (update_handoff k c f)"
  by (rule movesI)
    (auto simp: update_handoff_def repo_Inr outbox.refl outbox_onlyI split: option.splits if_splits)

lemma clock_outbox: "moves outbox_only clock_timestamp"
  by (rule movesI) (auto simp: clock_timestamp_def outbox_onlyI)

lemma handoff_ops_outbox:
  "moves outbox_only (record_handoff_attempt k)" "moves outbox_only (record_handoff_error k e)"
  "moves outbox_only (mark_handoff_published k)"
  unfolding record_handoff_attempt_def record_handoff_error_def mark_handoff_published_def
  by (intro moves_intro outbox.moves_rules clock_outbox update_handoff_outbox)+

section \<open>The outbox\<close>

text \<open>
  Every queued payload carries its own digest and is the serialisation of a document that
  the shared contract accepts.
\<close>

definition contract_payload :: "json \<Rightarrow> bool" where
  "contract_payload p \<longleftrightarrow> (\<exists>d. p = finding_doc_json d \<and> validate_finding_doc d = None
     \<and> length (utf8 (canonical_json p)) \<le> 65536)"

definition handoff_ok :: "handoff_row \<Rightarrow> bool" where
  "handoff_ok h \<longleftrightarrow> ho_payload_sha256 h = payload_hash (ho_payload h) \<and> contract_payload (ho_payload h)"

definition handoffs_ok :: "db \<Rightarrow> bool" where
  "handoffs_ok s \<longleftrightarrow> (\<forall>k h. tbl_get (handoffs s) k = Some h \<longrightarrow> handoff_ok h)"

lemma handoffs_ok_cong: "handoffs t = handoffs s \<Longrightarrow> handoffs_ok t = handoffs_ok s"
  by (simp only: handoffs_ok_def)

lemma keeps_same_handoffs: "(\<And>s x t. m s = (Inr x, t) \<Longrightarrow> handoffs t = handoffs s) \<Longrightarrow> keeps handoffs_ok m"
  using handoffs_ok_cong by (metis keepsI)

lemma insert_handoff_hashed:
  "(\<And>now. handoff_ok (mk now)) \<Longrightarrow> keeps handoffs_ok (insert_handoff k mk)"
  by (rule keepsI)
    (auto simp: insert_handoff_def repo_Inr handoffs_ok_def split: if_splits)

lemma new_handoff_ok: "contract_payload p \<Longrightarrow> handoff_ok (new_handoff kd fp ek run a b key p now)"
  by (simp add: new_handoff_def handoff_ok_def)

lemma finding_payload_valid:
  "finding_payload fp k ev s = (Inr p, t) \<Longrightarrow> contract_payload p \<and> t = s"
  by (auto simp: finding_payload_def validate_finding_payload_def repo_Inr contract_payload_def not_less
      split: option.splits if_splits)

text \<open>A program that works on a payload, run after the payload was made.\<close>

lemma keeps_with_payload:
  "(\<And>p. contract_payload p \<Longrightarrow> keeps handoffs_ok (f p)) \<Longrightarrow> keeps handoffs_ok (bindM (finding_payload fp k ev) f)"
  by (rule keepsI) (auto simp: bindM_Inr dest!: finding_payload_valid dest: keepsD)

lemma insert_finding_event_hashed: "keeps handoffs_ok (insert_finding_event k r)"
  by (rule keeps_same_handoffs) (auto simp: insert_finding_event_def repo_Inr split: if_splits)

lemma update_finding_hashed: "keeps handoffs_ok (update_finding fp f)"
  by (rule keeps_same_handoffs) (auto simp: update_finding_def repo_Inr split: option.splits)

lemma insert_finding_hashed: "keeps handoffs_ok (insertM n findings findings_update ok k r)"
  by (rule keeps_same_handoffs) (auto simp: repo_Inr)

lemma queue_finding_event_hashed: "keeps handoffs_ok (queue_finding_event ek fp a b)"
  unfolding queue_finding_event_def Let_def
  by (intro keeps_if keeps_raiseM keeps_bindM [OF keeps_readM] keeps_with_payload keeps_thenM
      keeps_returnM insert_handoff_hashed new_handoff_ok)

lemma publish_transition_hashed: "keeps handoffs_ok (publish_transition c ek fp row)"
  unfolding publish_transition_def
  by (intro keeps_intro insert_finding_event_hashed queue_finding_event_hashed)

lemma ensure_finding_hashed: "keeps handoffs_ok (ensure_finding c tr t k e rk rule existing)"
  unfolding ensure_finding_def Let_def
  by (cases "finding_change_of c tr e rule existing")
    (auto intro!: keeps_intro publish_transition_hashed update_finding_hashed insert_finding_hashed)

lemma resolve_finding_hashed: "keeps handoffs_ok (resolve_finding c fp f gen reason)"
  unfolding resolve_finding_def Let_def
  by (intro keeps_intro publish_transition_hashed update_finding_hashed)

lemma reconcile_finding_keys_hashed: "keeps handoffs_ok (reconcile_finding_keys c tid trs keys)"
  unfolding reconcile_finding_keys_def reconcile_key_def match_step_def resolve_step_def
  by (intro keeps_intro ensure_finding_hashed resolve_finding_hashed)

lemma evolve_hashed: "moves (exposures_evolve (\<lambda>_. True)) m \<Longrightarrow> keeps handoffs_ok m"
  by (rule keeps_same_handoffs)
    (rule exposures_evolve_frame(10) [where P = "\<lambda>_. True"], rule movesD)

lemma close_for_event_hashed: "keeps handoffs_ok (close_for_event ev at reason trs key)"
  unfolding close_for_event_def
  by (intro keeps_intro evolve_hashed close_exposure_evolves) simp

lemma apply_target_event_hashed: "keeps handoffs_ok (apply_target_event ev b q)"
proof -
  have "keeps handoffs_ok (decide_event ev as)" for as
    by (rule keeps_same_handoffs)
      (auto simp: decide_event_def insert_target_def repo_Inr split: option.splits if_splits)
  moreover have "keeps handoffs_ok (insertM n target_events target_events_update ok k r)" for n ok k r
    by (rule keeps_same_handoffs) (auto simp: repo_Inr)
  ultimately show ?thesis
    unfolding apply_target_event_def close_after_event_def close_for_removal_def
      close_for_generation_gap_def close_for_address_change_def open_keys_def
    by (intro keeps_intro close_for_event_hashed reconcile_finding_keys_hashed)
qed

lemma ingest_scan_hashed: "keeps handoffs_ok (ingest_scan env obs sha v b q)"
proof (rule keepsI)
  fix s r s' assume ok: "handoffs_ok s" and run: "ingest_scan env obs sha v b q s = (Inr r, s')"
  have scan: "keeps handoffs_ok (apply_scan env obs b q)"
  proof -
    have "keeps handoffs_ok (apply_exposure_evidence env obs)"
    proof (rule keeps_same_handoffs)
      fix s x t assume "apply_exposure_evidence env obs s = (Inr x, t)"
      from movesD [OF apply_exposure_evidence_evolves this] show "handoffs t = handoffs s"
        unfolding evidence_evolve_def by (rule exposures_evolve_frame(10))
    qed
    then show ?thesis
      unfolding apply_scan_def by (intro keeps_intro reconcile_finding_keys_hashed)
  qed
  from ingest_scan_cases [OF run] show "handoffs_ok s'"
  proof (elim disjE exE conjE)
    assume "s' = s" with ok show ?thesis by simp
  next
    fix t se s1 x
    assume "tbl_get (targets s) (en_target_id env) = Some t" "store_attempt env obs sha v t se s = (Inr x, s1)"
      and final: "if is_state_eligible env v t then apply_scan env obs b q s1 = (Inr (ir_handoff_keys r), s') else s' = s1"
    then have "handoffs_ok s1"
      using store_attempt_evidence(1) ok handoffs_ok_cong by (metis evidence_only_def)
    with final scan show ?thesis by (auto dest: keepsD split: if_splits)
  qed
qed

lemma queue_current_snapshot_hashed: "keeps handoffs_ok (queue_current_snapshot run b fp)"
  unfolding queue_current_snapshot_def Let_def
  by (intro keeps_if keeps_raiseM keeps_with_payload keeps_thenM keeps_returnM
      insert_handoff_hashed new_handoff_ok)

lemma reconcile_all_hashed: "keeps handoffs_ok (reconcile_all i b q now)"
proof -
  have "keeps handoffs_ok (begin_run k i)" for k
    by (rule keeps_same_handoffs) (auto simp: begin_run_def repo_Inr split: option.splits if_splits)
  moreover have "keeps handoffs_ok (complete_run k now n m)" for k n m
    by (rule keeps_same_handoffs) (auto simp: complete_run_def put_run_def repo_Inr split: option.splits)
  ultimately show ?thesis
    unfolding reconcile_all_def pending_handoff_keys_def Let_def reconcile_target_def
    by (intro keeps_intro reconcile_finding_keys_hashed queue_current_snapshot_hashed)
qed

lemma handoff_ops_hashed:
  "keeps handoffs_ok (record_handoff_attempt k)" "keeps handoffs_ok (record_handoff_error k e)"
  "keeps handoffs_ok (mark_handoff_published k)"
proof -
  have upd: "keeps handoffs_ok (update_handoff k c f)"
    if "\<And>h. ho_payload (f h) = ho_payload h" "\<And>h. ho_payload_sha256 (f h) = ho_payload_sha256 h" for c f
    by (rule keepsI)
      (use that in \<open>auto simp: update_handoff_def repo_Inr handoffs_ok_def handoff_ok_def split: option.splits if_splits\<close>)
  have clock: "keeps handoffs_ok clock_timestamp"
    by (rule keeps_same_handoffs) (auto simp: clock_timestamp_def)
  show "keeps handoffs_ok (record_handoff_attempt k)" "keeps handoffs_ok (record_handoff_error k e)"
    "keeps handoffs_ok (mark_handoff_published k)"
    unfolding record_handoff_attempt_def record_handoff_error_def mark_handoff_published_def
    by (intro keeps_intro clock upd; simp)+
qed

section \<open>Reachable states\<close>

text \<open>
  A fresh database holds detection rules and nothing else. A step is any call of a
  repository operation, whether it returns or raises, or an edit of the detection rules.
\<close>

definition fresh_db :: "(string, rule_row) table \<Rightarrow> time \<Rightarrow> db" where
  "fresh_db rules now =
     \<lparr>targets = [], target_events = [], scan_attempts = [], attempt_coverage = [], observations = [],
      exposures = [], exposure_events = [], detection_rules = rules, findings = [],
      finding_events = [], runs = [], handoffs = [], db_clock = now\<rparr>"

inductive repo_step :: "db \<Rightarrow> db \<Rightarrow> bool" where
  event: "apply_target_event ev b q s = (r, s') \<Longrightarrow> repo_step s s'"
| scan: "ingest_scan env obs sha v b q s = (r, s') \<Longrightarrow> repo_step s s'"
| reconcile: "reconcile_all i b q now s = (r, s') \<Longrightarrow> repo_step s s'"
| attempted: "record_handoff_attempt k s = (r, s') \<Longrightarrow> repo_step s s'"
| failed: "record_handoff_error k e s = (r, s') \<Longrightarrow> repo_step s s'"
| published: "mark_handoff_published k s = (r, s') \<Longrightarrow> repo_step s s'"
| rules: "tbl_ok rules \<Longrightarrow> repo_step s (s\<lparr>detection_rules := rules\<rparr>)"

inductive repo_reachable :: "db \<Rightarrow> bool" where
  fresh: "tbl_ok rules \<Longrightarrow> repo_reachable (fresh_db rules now)"
| step: "repo_reachable s \<Longrightarrow> repo_step s s' \<Longrightarrow> repo_reachable s'"

inductive_cases repo_stepE: "repo_step s s'"

text \<open>An operation that runs in a transaction keeps an invariant on every outcome.\<close>

definition rolls_back :: "('s, 'e, 'a) eff \<Rightarrow> bool" where
  "rolls_back m \<longleftrightarrow> (\<forall>s e t. m s = (Inl e, t) \<longrightarrow> t = s)"

lemma rolls_backD: "rolls_back m \<Longrightarrow> m s = (Inl e, t) \<Longrightarrow> t = s"
  unfolding rolls_back_def by blast

lemma rolls_back_transaction: "rolls_back (transaction m)"
  by (auto simp: rolls_back_def dest: transaction_rollback)

lemma rolls_back_ops:
  "rolls_back (apply_target_event ev b q)" "rolls_back (ingest_scan env obs sha v b q)"
  "rolls_back (reconcile_all i b q now)" "rolls_back (record_handoff_attempt k)"
  "rolls_back (record_handoff_error k e)" "rolls_back (mark_handoff_published k)"
proof -
  show "rolls_back (apply_target_event ev b q)"
    unfolding rolls_back_def apply_target_event_def
    by (auto simp: bindM_def liftM_def split: sum.splits prod.splits dest: transaction_rollback)
  show "rolls_back (reconcile_all i b q now)"
    unfolding rolls_back_def reconcile_all_def Let_def
    by (auto simp: raiseM_def dest: transaction_rollback split: if_splits)
qed (simp_all only: ingest_scan_def record_handoff_attempt_def record_handoff_error_def
    mark_handoff_published_def rolls_back_transaction)

lemma keeps_rolls_back:
  assumes "keeps I m" "rolls_back m" "I s" "m s = (r, t)"
  shows "I t"
  using assms by (cases r) (auto dest: keepsD rolls_backD)

lemma apply_target_event_served: "keeps served (apply_target_event ev b q)"
  by (rule keepsI) (simp add: served_def apply_target_event_serving)

lemma ingest_scan_served: "keeps served (ingest_scan env obs sha v b q)"
  by (rule keepsI) (simp add: served_def ingest_scan_serving)

lemmas served_ops = apply_target_event_served ingest_scan_served reconcile_all_served
  served_outbox [OF handoff_ops_outbox(1)] served_outbox [OF handoff_ops_outbox(2)]
  served_outbox [OF handoff_ops_outbox(3)]

lemmas hashed_ops = apply_target_event_hashed ingest_scan_hashed reconcile_all_hashed handoff_ops_hashed

lemma repo_step_served: "repo_step s s' \<Longrightarrow> served s \<Longrightarrow> served s'"
proof (induction rule: repo_step.induct)
  case (rules rules s)
  then show ?case
    by (simp add: served_def repo_ok_def exposures_ok_def findings_ok_def serving_ok_def
        open_only_at_def bound_def)
qed (blast intro: keeps_rolls_back served_ops rolls_back_ops)+

lemma repo_step_hashed: "repo_step s s' \<Longrightarrow> handoffs_ok s \<Longrightarrow> handoffs_ok s'"
proof (induction rule: repo_step.induct)
  case (rules rules s)
  then show ?case by (simp add: handoffs_ok_def)
qed (blast intro: keeps_rolls_back hashed_ops rolls_back_ops)+

lemma fresh_db_ok: "tbl_ok rules \<Longrightarrow> served (fresh_db rules now) \<and> handoffs_ok (fresh_db rules now)"
  by (simp add: served_def repo_ok_def exposures_ok_def findings_ok_def serving_ok_def
      open_only_at_def handoffs_ok_def fresh_db_def)

lemma repo_reachable_ok: "repo_reachable s \<Longrightarrow> served s \<and> handoffs_ok s"
  by (induction rule: repo_reachable.induct)
    (auto simp: fresh_db_ok dest: repo_step_served repo_step_hashed)

end
