(* ===== verification/Parser_Correctness.thy ===== *)
theory Parser_Correctness
  imports Parser_Properties
begin

text \<open>
  The lemmas behind the guarantees of the repository: a reconciliation settles every
  service, evidence is monotone along every step, a scan acts only within its coverage,
  and what an applied inventory event leaves open.
\<close>

section \<open>Reconciliation settles every service\<close>

lemma service_settled_same:
  assumes "service_settled s k" "wanted_rules t k = wanted_rules s k" "mirrors t k = mirrors s k"
    and "\<And>fp f. service_of f = k \<Longrightarrow> tbl_get (findings t) fp = Some f \<longleftrightarrow> tbl_get (findings s) fp = Some f"
  shows "service_settled t k"
  using assms unfolding service_settled_def by metis

lemma mapM_reconcile_settles:
  assumes run: "mapM (reconcile_target c keys) tids s = (Inr qs, t)"
    and ok: "repo_ok s" and tids: "set tids = fst ` set keys" and keys: "keys = service_keys s"
  shows "findings_only s t \<and> (\<forall>k. service_settled t k)"
proof -
  let ?K = "\<lambda>ds. {k \<in> set keys. fst k \<in> set ds}"
  let ?J = "\<lambda>ds u. findings_only s u \<and> repo_ok u \<and> same_outside (?K ds) s u
      \<and> (\<forall>k \<in> ?K ds. service_settled u k)"
  have "?J tids t"
  proof (rule mapM_invariant [OF run])
    show "?J [] s" using ok by (simp add: fonly.refl same_outside_def)
  next
    fix ds tid rest u y v
    assume J: "?J ds u" and step: "reconcile_target c keys tid u = (Inr y, v)"
    let ?ks = "map snd (filter (\<lambda>k. fst k = tid) keys)"
    have Pair: "Pair tid ` set ?ks = {k \<in> set keys. fst k = tid}" by force
    from step have rec: "reconcile_finding_keys c tid [] ?ks u = (Inr y, v)"
      by (simp add: reconcile_target_def)
    have uo: "findings_ok u" "exposures_ok u" "tbl_ok (detection_rules u)" using J by (simp_all add: repo_ok_def)
    have fo: "findings_only u v" by (rule movesD [OF reconcile_finding_keys_findings rec])
    note fr = findings_only_frame [OF fo]
    have spec: "findings_ok v" "same_outside {k \<in> set keys. fst k = tid} u v"
      "\<forall>key \<in> set ?ks. service_settled v (tid, key)"
      using reconcile_finding_keys_spec [OF rec uo] unfolding Pair by blast+
    have settled: "service_settled v k" if k: "k \<in> ?K (ds @ [tid])" for k
    proof (cases "fst k = tid")
      case True
      with k have "snd k \<in> set ?ks" "k = (tid, snd k)" by (auto simp: image_iff prod_eq_iff)
      with spec(3) show ?thesis by metis
    next
      case False
      with k have "k \<in> ?K ds" by auto
      with J have "service_settled u k" by blast
      moreover have "wanted_rules v k = wanted_rules u k" using fr wanted_rules_cong by metis
      moreover have "mirrors v k = mirrors u k" using fr by (intro ext mirrors_cong)
      moreover have "tbl_get (findings v) fp = Some f \<longleftrightarrow> tbl_get (findings u) fp = Some f"
        if "service_of f = k" for fp f
        using spec(2) False that unfolding same_outside_def by blast
      ultimately show ?thesis by (rule service_settled_same)
    qed
    have "same_outside (?K (ds @ [tid])) s v"
      using J spec(2) unfolding same_outside_def by auto
    moreover have "repo_ok v" using uo spec(1) fr unfolding repo_ok_def exposures_ok_def by simp
    ultimately show "?J (ds @ [tid]) v" using settled fonly.trans J fo by blast
  qed
  moreover have "service_settled t k" if k: "k \<notin> set keys" for k
  proof -
    have "tbl_get (exposures s) k = None"
      using k unfolding keys service_keys_def tbl_get_def by (auto simp: map_of_eq_None_iff)
    moreover have "service_of f \<noteq> k" if f: "tbl_get (findings t) fp = Some f" for fp f
    proof
      assume "service_of f = k"
      then have "tbl_get (findings s) fp = Some f"
        using \<open>?J tids t\<close> k f unfolding same_outside_def by blast
      then have "(fp, f) \<in> set (findings s)" by (rule tbl_get_Some_mem)
      with \<open>service_of f = k\<close> k show False
        unfolding keys service_keys_def service_of_def by force
    qed
    ultimately show ?thesis
      using \<open>?J tids t\<close> findings_only_frame(6)
      unfolding service_settled_def wanted_rules_def by (auto split: option.splits)
  qed
  ultimately show ?thesis unfolding tids by blast
qed

lemma reconcile_all_settles:
  assumes run: "reconcile_all i b q now s = (Inr r, s')" and new: "\<not> rc_duplicate r" and ok: "repo_ok s"
  shows "\<forall>k. service_settled s' k"
proof -
  let ?run = "stable_hash [JStr ''act-reconciliation-v1'', JStr i]"
  let ?c = "\<lparr>ca_kind = RECONCILIATION, ca_key = i, ca_attempt = None, ca_occurred_at = now,
             ca_bucket = b, ca_queue = q\<rparr>"
  from run new obtain s1 s2 s3 qs sn n m x where
    s1: "begin_run ?run i s = (Inr None, s1)"
    and map: "mapM (reconcile_target ?c (service_keys s1)) (sorted_set (map fst (service_keys s1))) s1 = (Inr qs, s2)"
    and snap: "(if q then bindM (readM current_findings)
                  (\<lambda>fps. mapM (queue_current_snapshot ?run (bucket_or_empty b)) fps) else returnM []) s2 = (Inr sn, s3)"
    and fin: "complete_run ?run now n m s3 = (Inr x, s')"
    by (auto simp: reconcile_all_def Let_def repo_Inr split: if_splits option.splits)
  have "exposures s1 = exposures s \<and> findings s1 = findings s \<and> detection_rules s1 = detection_rules s"
    using s1 by (auto simp: begin_run_def repo_Inr split: option.splits if_splits)
  then have "repo_ok s1" using ok repo_ok_cong [of s1 s] by simp
  then have settled: "\<forall>k. service_settled s2 k"
    using mapM_reconcile_settles [OF map] by simp
  have "moves outbox_only (if q then bindM (readM current_findings)
          (\<lambda>fps. mapM (queue_current_snapshot ?run (bucket_or_empty b)) fps) else returnM [])"
    by (intro moves_intro outbox.moves_rules queue_current_snapshot_outbox)
  note fr = outbox_only_frame [OF movesD [OF this snap]]
  have "targets s' = targets s3 \<and> exposures s' = exposures s3 \<and> findings s' = findings s3
      \<and> detection_rules s' = detection_rules s3"
    using fin by (auto simp: complete_run_def put_run_def repo_Inr split: option.splits)
  then have eqs: "targets s' = targets s2" "exposures s' = exposures s2" "findings s' = findings s2"
    "detection_rules s' = detection_rules s2" using fr by simp_all
  show ?thesis
    using settled by (simp only: service_settled_def wanted_rules_def mirrors_def eqs)
qed

section \<open>How targets and exposures evolve\<close>

text \<open>A target keeps its provider identity; generations never decrease, and within one generation the observation never goes back.\<close>

definition target_le :: "target_row option \<Rightarrow> target_row option \<Rightarrow> bool" where
  "target_le old new =
     (case old of
        None \<Rightarrow> True
      | Some t \<Rightarrow> (case new of
                     None \<Rightarrow> False
                   | Some t' \<Rightarrow> target_identity t' = target_identity t
                       \<and> (tg_current_generation t, tg_source_observed_at t)
                           \<le> (tg_current_generation t', tg_source_observed_at t')))"

definition evolves :: "db \<Rightarrow> db \<Rightarrow> bool" where
  "evolves s t \<longleftrightarrow> (\<forall>k. exposure_le k (tbl_get (exposures s) k) (tbl_get (exposures t) k))
     \<and> (\<forall>tid. target_le (tbl_get (targets s) tid) (tbl_get (targets t) tid))"

interpretation evo: effect_preorder evolves
proof
  show "evolves s s" for s by (simp add: evolves_def target_le_def split: option.splits)
  show "evolves s u" if "evolves s t" "evolves t u" for s t u
  proof -
    have "exposure_le k (tbl_get (exposures s) k) (tbl_get (exposures u) k)" for k
      using that exposure_le_trans unfolding evolves_def by blast
    moreover have "target_le a b \<Longrightarrow> target_le b c \<Longrightarrow> target_le a c" for a b c
      by (auto simp: target_le_def split: option.splits)
    ultimately show ?thesis using that unfolding evolves_def by blast
  qed
qed

lemma evolves_same: "exposures t = exposures s \<Longrightarrow> targets t = targets s \<Longrightarrow> evolves s t"
  using evo.refl [of s] by (simp add: evolves_def)

lemma evolves_exposures: "exposures_evolve P s t \<Longrightarrow> evolves s t"
  using evo.refl [of s] exposures_evolve_frame(1) [of P s t]
  unfolding evolves_def exposures_evolve_def by simp

lemma evolves_findings: "findings_only s t \<Longrightarrow> evolves s t"
  using findings_only_frame evolves_same by metis

lemma moves_evolves_same:
  "(\<And>s x t. m s = (Inr x, t) \<Longrightarrow> exposures t = exposures s \<and> targets t = targets s) \<Longrightarrow> moves evolves m"
  by (rule movesI) (rule evolves_same; simp)

lemma decide_event_evolves: "moves evolves (decide_event ev as)"
proof (rule movesI)
  fix s d t assume run: "decide_event ev as s = (Inr d, t)"
  have "exposures t = exposures s"
    using decide_event_targets(1) [OF run] by (metis db.select_convs(6) db.surjective db.update_convs(1))
  moreover have "target_le (tbl_get (targets s) tid) (tbl_get (targets t) tid)" for tid
    using run
    by (auto simp: decide_event_def repo_Inr insert_target_def updated_target_row_def target_le_def
        target_identity_def event_accepted_def less_eq_prod_def split: option.splits if_splits)
  ultimately show "evolves s t" by (simp add: evolves_def)
qed

lemma close_exposure_evo: "moves evolves (close_exposure tid g p n src at reason sk)"
  using movesD [OF close_exposure_evolves [of "\<lambda>_. True"]] by (blast intro: movesI evolves_exposures)

lemma reconcile_evo: "moves evolves (reconcile_finding_keys c tid trs keys)"
  using movesD [OF reconcile_finding_keys_findings] by (blast intro: movesI evolves_findings)

lemma apply_target_event_evolves: "moves evolves (apply_target_event ev b q)"
proof -
  have "moves evolves (insertM n target_events target_events_update ok k r)" for n ok k r
    by (rule moves_evolves_same) (auto simp: repo_Inr)
  then show ?thesis
    unfolding apply_target_event_def close_after_event_def close_for_removal_def
      close_for_generation_gap_def close_for_address_change_def open_keys_def close_for_event_def
    by (intro moves_intro evo.moves_rules decide_event_evolves close_exposure_evo reconcile_evo)
qed

lemma store_attempt_evolves:
  assumes run: "store_attempt env obs sha v r se s = (Inr x, t)"
    and r: "tbl_get (targets s) (en_target_id env) = Some r"
  shows "evolves s t"
proof -
  obtain s3 where s3: "targets s3 = targets s"
    and touch: "(if is_current_attempt env r then touch_target env r (is_state_eligible env v r)
                 else returnM ()) s3 = (Inr x, t)"
    by (rule store_attempt_elim [OF run])
  then have "targets t = targets s \<or> (\<exists>r'. targets t = tbl_put (en_target_id env) r' (targets s)
      \<and> target_identity r' = target_identity r \<and> tg_current_generation r' = tg_current_generation r
      \<and> tg_source_observed_at r' = tg_source_observed_at r)"
    by (auto simp: repo_Inr touch_target_def target_identity_def split: if_splits)
  then have "target_le (tbl_get (targets s) tid) (tbl_get (targets t) tid)" for tid
    using r by (cases "tid = en_target_id env") (auto simp: target_le_def split: option.splits)
  moreover have "exposures t = exposures s"
    using store_attempt_evidence(1) [OF run r] by (simp add: evidence_only_def)
  ultimately show ?thesis by (simp add: evolves_def)
qed

lemma ingest_scan_evolves: "moves evolves (ingest_scan env obs sha v b q)"
proof -
  have "moves evolves (check_scan env)"
    by (rule moves_evolves_same) (auto dest!: check_scan_Inr)
  moreover have "moves evolves (apply_exposure_evidence env obs)"
    using movesD [OF apply_exposure_evidence_evolves]
    by (blast intro: movesI evolves_exposures dest: evidence_evolve_def [THEN iffD1])
  ultimately have scan: "moves evolves (apply_scan env obs b q)"
    unfolding apply_scan_def by (intro evo.moves_rules reconcile_evo)
  show ?thesis
  proof (rule movesI)
    fix s r s' assume run: "ingest_scan env obs sha v b q s = (Inr r, s')"
    from ingest_scan_cases [OF run] show "evolves s s'"
    proof (elim disjE exE conjE)
      assume "s' = s" then show ?thesis by (simp add: evo.refl)
    next
      fix t se s1 x
      assume t: "tbl_get (targets s) (en_target_id env) = Some t"
        and store: "store_attempt env obs sha v t se s = (Inr x, s1)"
        and final: "if is_state_eligible env v t then apply_scan env obs b q s1 = (Inr (ir_handoff_keys r), s') else s' = s1"
      have "evolves s s1" by (rule store_attempt_evolves [OF store t])
      moreover have "evolves s1 s'" using final scan evo.refl by (auto dest: movesD split: if_splits)
      ultimately show ?thesis by (rule evo.trans)
    qed
  qed
qed

lemma outbox_evolves: "moves outbox_only m \<Longrightarrow> moves evolves m"
  by (rule moves_evolves_same) (simp add: outbox_only_frame [OF movesD [of outbox_only]])

lemma reconcile_all_evolves: "moves evolves (reconcile_all i b q now)"
proof -
  have "moves evolves (begin_run k i)" for k
    by (rule moves_evolves_same) (auto simp: begin_run_def repo_Inr split: option.splits if_splits)
  moreover have "moves evolves (complete_run k now n m)" for k n m
    by (rule moves_evolves_same) (auto simp: complete_run_def put_run_def repo_Inr split: option.splits)
  ultimately show ?thesis
    unfolding reconcile_all_def pending_handoff_keys_def Let_def reconcile_target_def
    by (intro moves_intro evo.moves_rules reconcile_evo outbox_evolves [OF queue_current_snapshot_outbox])
qed

lemma moves_rolls_back: "moves evolves m \<Longrightarrow> rolls_back m \<Longrightarrow> m s = (r, t) \<Longrightarrow> evolves s t"
  by (cases r) (auto dest: movesD rolls_backD simp: evo.refl)

lemmas evolves_ops = apply_target_event_evolves ingest_scan_evolves reconcile_all_evolves
  outbox_evolves [OF handoff_ops_outbox(1)] outbox_evolves [OF handoff_ops_outbox(2)]
  outbox_evolves [OF handoff_ops_outbox(3)]

lemma repo_step_evolves: "repo_step s s' \<Longrightarrow> evolves s s'"
proof (induction rule: repo_step.induct)
  case (rules rules s)
  show ?case by (rule evolves_same) simp_all
qed (blast intro: moves_rolls_back evolves_ops rolls_back_ops)+

section \<open>The extent of a scan\<close>

text \<open>Every coverage row belongs to a stored attempt.\<close>

definition coverage_ok :: "db \<Rightarrow> bool" where
  "coverage_ok s \<longleftrightarrow> (\<forall>k \<in> fst ` set (attempt_coverage s). fst k \<in> fst ` set (scan_attempts s))"

lemma tbl_get_None_iff: "tbl_get t k = None \<longleftrightarrow> k \<notin> fst ` set t"
  by (simp add: tbl_get_def map_of_eq_None_iff)

lemma tbl_put_new: "tbl_get t k = None \<Longrightarrow> tbl_put k r t = t @ [(k, r)]"
  unfolding tbl_get_def tbl_put_def by (induction t) (auto split: if_splits)

lemma coverage_loop:
  assumes "forM cs (insert_coverage env) s = (Inr u, t)"
  shows "scan_attempts t = scan_attempts s
     \<and> (\<exists>new. attempt_coverage t = attempt_coverage s @ new
          \<and> (\<forall>kc \<in> set new. fst (fst kc) = en_attempt_id env \<and> snd kc \<in> set cs))"
  using assms
proof (induction cs arbitrary: s)
  case Nil
  then show ?case by (simp add: returnM_Inr)
next
  case (Cons c cs)
  let ?k = "(en_attempt_id env, cv_protocol c, cv_port_spec c)"
  from Cons.prems obtain s1 where none: "tbl_get (attempt_coverage s) ?k = None"
    and s1: "s1 = attempt_coverage_update (tbl_put ?k c) s"
    and rest: "forM cs (insert_coverage env) s1 = (Inr u, t)"
    by (auto simp: thenM_Inr insert_coverage_def [of env c] insertM_Inr)
  from Cons.IH [OF rest] obtain new where "scan_attempts t = scan_attempts s1"
    "attempt_coverage t = attempt_coverage s1 @ new"
    "\<forall>kc \<in> set new. fst (fst kc) = en_attempt_id env \<and> snd kc \<in> set cs" by blast
  then have "scan_attempts t = scan_attempts s"
    "attempt_coverage t = attempt_coverage s @ (?k, c) # new"
    "\<forall>kc \<in> set ((?k, c) # new). fst (fst kc) = en_attempt_id env \<and> snd kc \<in> set (c # cs)"
    using tbl_put_new [OF none] by (auto simp: s1)
  then show ?case by blast
qed

interpretation attempts: effect_preorder
  "\<lambda>s t. scan_attempts t = scan_attempts s \<and> attempt_coverage t = attempt_coverage s"
  by unfold_locales simp_all

lemma store_attempt_tables:
  assumes run: "store_attempt env obs sha v r se s = (Inr x, t)"
    and none: "tbl_get (scan_attempts s) (en_attempt_id env) = None"
  shows "scan_attempts t = scan_attempts s @ [(en_attempt_id env, attempt_row_of env sha se v
            (en_generation env \<noteq> tg_current_generation r) (is_state_eligible env v r))]
     \<and> (\<exists>new. attempt_coverage t = attempt_coverage s @ new
          \<and> (\<forall>kc \<in> set new. fst (fst kc) = en_attempt_id env \<and> snd kc \<in> set (en_coverage env)))"
proof -
  obtain s1 s2 s3 u1 u2 where
    s1: "s1 = scan_attempts_update (tbl_put (en_attempt_id env) (attempt_row_of env sha se v
            (en_generation env \<noteq> tg_current_generation r) (is_state_eligible env v r))) s"
    and cov: "forM (en_coverage env) (insert_coverage env) s1 = (Inr u1, s2)"
    and obs: "forM obs (insert_observation env) s2 = (Inr u2, s3)"
    and touch: "(if is_current_attempt env r then touch_target env r (is_state_eligible env v r)
                 else returnM ()) s3 = (Inr x, t)"
    by (rule store_attempt_elim [OF run])
  have "moves (\<lambda>s t. scan_attempts t = scan_attempts s \<and> attempt_coverage t = attempt_coverage s)
      (insert_observation env ob)" for ob
    by (rule movesI) (auto simp: insert_observation_def repo_Inr split: if_splits)
  from movesD [OF attempts.moves_forM [OF this] obs] touch
  have "scan_attempts t = scan_attempts s2 \<and> attempt_coverage t = attempt_coverage s2"
    by (auto simp: touch_target_def repo_Inr split: if_splits)
  then show ?thesis
    using coverage_loop [OF cov] tbl_put_new [OF none] by (simp add: s1)
qed

lemma evolve_candidates:
  "scan_attempts s1 = scan_attempts s @ A \<Longrightarrow> attempt_coverage s1 = attempt_coverage s @ C
     \<Longrightarrow> set (port_candidates s tid g p n) \<subseteq> set (port_candidates s1 tid g p n)"
  by (auto simp: port_candidates_def) blast

lemma ingest_scan_extent:
  assumes run: "ingest_scan env obs sha v b q s = (Inr r, s')" and cov: "coverage_ok s"
    and change: "tbl_get (exposures s') k \<noteq> tbl_get (exposures s) k"
  shows "ir_state_eligible r" "\<not> ir_duplicate r" "fst k = en_target_id env"
    and "covered (en_coverage env) (fst (snd k)) (snd (snd k))"
    and "\<forall>c \<in> set (port_candidates s (en_target_id env) (en_generation env) (fst (snd k)) (snd (snd k))).
           c \<le> (en_scan_completed_at env, en_attempt_id env)"
proof -
  have "s' \<noteq> s" using change by auto
  with ingest_scan_cases [OF run] obtain t se s1 x where t: "tbl_get (targets s) (en_target_id env) = Some t"
    and none: "tbl_get (scan_attempts s) (en_attempt_id env) = None"
    and store: "store_attempt env obs sha v t se s = (Inr x, s1)"
    and dup: "\<not> ir_duplicate r" and el: "ir_state_eligible r = is_state_eligible env v t"
    and final: "if is_state_eligible env v t then apply_scan env obs b q s1 = (Inr (ir_handoff_keys r), s') else s' = s1"
    by blast
  have ev1: "exposures s1 = exposures s"
    using store_attempt_evidence(1) [OF store t] by (simp add: evidence_only_def)
  with final change have eligible: "is_state_eligible env v t"
    by (cases "is_state_eligible env v t") auto
  with el dup show "ir_state_eligible r" "\<not> ir_duplicate r" by simp_all
  from final eligible obtain ev s2 where ev: "apply_exposure_evidence env obs s1 = (Inr ev, s2)"
    and rec: "reconcile_finding_keys (scan_cause env b q) (en_target_id env) (snd ev) (fst ev) s2
        = (Inr (ir_handoff_keys r), s')"
    by (auto simp: apply_scan_def repo_Inr)
  have "exposures s' = exposures s2"
    using findings_only_frame(6) [OF movesD [OF reconcile_finding_keys_findings rec]] .
  moreover have "exposures_evolve (controlled env s1) s1 s2"
    using movesD [OF apply_exposure_evidence_evolves ev] by (simp add: evidence_evolve_def)
  ultimately have con: "controlled env s1 k"
    using change ev1 unfolding exposures_evolve_def by metis
  then show "fst k = en_target_id env" by (simp add: controlled_def)
  let ?C = "\<lambda>s. set (port_candidates s (en_target_id env) (en_generation env) (fst (snd k)) (snd (snd k)))"
  obtain at where at: "(at, en_attempt_id env) \<in> ?C s1" "\<forall>c \<in> ?C s1. c \<le> (at, en_attempt_id env)"
    using controls_latest con unfolding controlled_def by blast
  note tables = store_attempt_tables [OF store none]
  have fresh: "en_attempt_id env \<notin> fst ` set (scan_attempts s)"
    using none by (simp add: tbl_get_None_iff)
  have "at = en_scan_completed_at env"
    using at(1) tables fresh by (force simp: port_candidates_def attempt_row_of_def split: if_splits)
  with at(2) tables evolve_candidates [of s1 s] show
    "\<forall>c \<in> ?C s. c \<le> (en_scan_completed_at env, en_attempt_id env)" by blast
  obtain kk c where c: "(kk, c) \<in> set (attempt_coverage s1)" "fst kk = en_attempt_id env"
    "cv_contains c (fst (snd k)) (snd (snd k))"
    using port_candidates_covered [OF at(1)] by blast
  have "c \<in> set (en_coverage env)"
    using c(1,2) tables cov fresh unfolding coverage_ok_def by force
  with c(3) show "covered (en_coverage env) (fst (snd k)) (snd (snd k))"
    by (auto simp: covered_def list_ex_iff)
qed

text \<open>All operations but the ingestion of a scan leave attempts and coverage alone.\<close>

lemma moves_attempts_same:
  assumes "moves closure_only m \<or> moves findings_only m \<or> moves outbox_only m"
  shows "moves (\<lambda>s t. scan_attempts t = scan_attempts s \<and> attempt_coverage t = attempt_coverage s) m"
proof (rule movesI)
  fix s x t assume "m s = (Inr x, t)"
  with assms have "closure_only s t \<or> findings_only s t \<or> outbox_only s t"
    unfolding moves_def by blast
  then show "scan_attempts t = scan_attempts s \<and> attempt_coverage t = attempt_coverage s"
    by (elim disjE) (simp_all add: closure_only_def findings_only_frame outbox_only_frame)
qed

lemma apply_target_event_attempts:
  "moves (\<lambda>s t. scan_attempts t = scan_attempts s \<and> attempt_coverage t = attempt_coverage s) (apply_target_event ev b q)"
proof -
  let ?R = "\<lambda>s t. scan_attempts t = scan_attempts s \<and> attempt_coverage t = attempt_coverage s"
  have "moves ?R (decide_event ev as)" for as
    by (rule movesI)
      (auto simp: decide_event_def insert_target_def repo_Inr split: option.splits if_splits)
  moreover have "moves ?R (insertM n target_events target_events_update ok k r)" for n ok k r
    by (rule movesI) (auto simp: repo_Inr)
  moreover have "moves ?R (close_after_event ev as b q d)" for as d
    by (rule moves_attempts_same) (simp add: close_after_event_closure)
  ultimately show ?thesis
    unfolding apply_target_event_def by (intro moves_intro attempts.moves_rules)
qed

lemma reconcile_all_attempts:
  "moves (\<lambda>s t. scan_attempts t = scan_attempts s \<and> attempt_coverage t = attempt_coverage s) (reconcile_all i b q now)"
proof -
  let ?R = "\<lambda>s t. scan_attempts t = scan_attempts s \<and> attempt_coverage t = attempt_coverage s"
  have "moves ?R (begin_run k i)" for k
    by (rule movesI) (auto simp: begin_run_def repo_Inr split: option.splits if_splits)
  moreover have "moves ?R (complete_run k now n m)" for k n m
    by (rule movesI) (auto simp: complete_run_def put_run_def repo_Inr split: option.splits)
  moreover have "moves ?R (reconcile_target c keys tid)" for c keys tid
    unfolding reconcile_target_def
    by (rule moves_attempts_same) (simp add: reconcile_finding_keys_findings)
  moreover have "moves ?R (queue_current_snapshot k bk fp)" for k bk fp
    by (rule moves_attempts_same) (simp add: queue_current_snapshot_outbox)
  ultimately show ?thesis
    unfolding reconcile_all_def pending_handoff_keys_def Let_def
    by (intro moves_intro attempts.moves_rules)
qed

lemma moves_coverage:
  assumes "moves (\<lambda>s t. scan_attempts t = scan_attempts s \<and> attempt_coverage t = attempt_coverage s) m"
  shows "keeps coverage_ok m"
proof (rule keepsI)
  fix s x t assume "coverage_ok s" "m s = (Inr x, t)"
  with movesD [OF assms] show "coverage_ok t" by (simp add: coverage_ok_def)
qed

lemma ingest_scan_coverage: "keeps coverage_ok (ingest_scan env obs sha v b q)"
proof (rule keepsI)
  fix s r s' assume ok: "coverage_ok s" and run: "ingest_scan env obs sha v b q s = (Inr r, s')"
  from ingest_scan_cases [OF run] show "coverage_ok s'"
  proof (elim disjE exE conjE)
    assume "s' = s" with ok show ?thesis by simp
  next
    fix t se s1 x
    assume none: "tbl_get (scan_attempts s) (en_attempt_id env) = None"
      and store: "store_attempt env obs sha v t se s = (Inr x, s1)"
      and final: "if is_state_eligible env v t then apply_scan env obs b q s1 = (Inr (ir_handoff_keys r), s') else s' = s1"
    have "coverage_ok s1"
      using store_attempt_tables [OF store none] ok unfolding coverage_ok_def by force
    moreover have "scan_attempts s' = scan_attempts s1 \<and> attempt_coverage s' = attempt_coverage s1"
    proof (cases "is_state_eligible env v t")
      case True
      with final obtain ev s2 where ev: "apply_exposure_evidence env obs s1 = (Inr ev, s2)"
        and rec: "reconcile_finding_keys (scan_cause env b q) (en_target_id env) (snd ev) (fst ev) s2
            = (Inr (ir_handoff_keys r), s')"
        by (auto simp: apply_scan_def repo_Inr)
      from movesD [OF apply_exposure_evidence_evolves ev] movesD [OF reconcile_finding_keys_findings rec]
      show ?thesis
        using exposures_evolve_frame(3,4) findings_only_frame(3,4) unfolding evidence_evolve_def by metis
    qed (use final in simp)
    ultimately show ?thesis by (simp add: coverage_ok_def)
  qed
qed

lemmas coverage_ops = moves_coverage [OF apply_target_event_attempts] ingest_scan_coverage
  moves_coverage [OF reconcile_all_attempts]
  moves_coverage [OF moves_attempts_same, OF disjI2, OF disjI2, OF handoff_ops_outbox(1)]
  moves_coverage [OF moves_attempts_same, OF disjI2, OF disjI2, OF handoff_ops_outbox(2)]
  moves_coverage [OF moves_attempts_same, OF disjI2, OF disjI2, OF handoff_ops_outbox(3)]

lemma repo_step_coverage: "repo_step s s' \<Longrightarrow> coverage_ok s \<Longrightarrow> coverage_ok s'"
proof (induction rule: repo_step.induct)
  case (rules rules s)
  then show ?case by (simp add: coverage_ok_def)
qed (blast intro: keeps_rolls_back coverage_ops rolls_back_ops)+

lemma repo_reachable_coverage: "repo_reachable s \<Longrightarrow> coverage_ok s"
  by (induction rule: repo_reachable.induct)
    (simp_all add: fresh_db_def coverage_ok_def repo_step_coverage [unfolded coverage_ok_def])

section \<open>What an applied target event does\<close>

lemma applied_event_spec:
  assumes "repo_ok s" and run: "apply_target_event ev bucket queue s = (Inr True, s')"
  obtains as d s1 where "target_addresses ev = Inr as" "decide_event ev as s = (Inr d, s1)"
    "targets s' = targets s1"
    "tbl_get (target_events s') (ev_event_id ev)
       = Some (target_event_row_of ev as (dec_accepted d) (dec_stale d))"
    "other_targets_same (ev_target_id ev) s s'"
    "\<And>p. left_open ev as d = Some p \<Longrightarrow> open_only_at (ev_target_id ev) p s'"
    "left_open ev as d = None \<Longrightarrow> exposures s' = exposures s \<and> findings s' = findings s"
proof -
  obtain as d s1 x where addr: "target_addresses ev = Inr as" and dec: "decide_event ev as s = (Inr d, s1)"
    and close: "close_after_event ev as bucket queue d (target_events_update (tbl_put (ev_event_id ev)
          (target_event_row_of ev as (dec_accepted d) (dec_stale d))) s1) = (Inr x, s')"
    by (rule apply_target_event_elim [OF run])
  define s2 where "s2 = target_events_update (tbl_put (ev_event_id ev)
          (target_event_row_of ev as (dec_accepted d) (dec_stale d))) s1"
  obtain T where s1: "s1 = s\<lparr>targets := T\<rparr>" using decide_event_targets(1) [OF dec] by blast
  have same: "exposures s2 = exposures s" "findings s2 = findings s" "detection_rules s2 = detection_rules s"
    by (simp_all add: s2_def s1)
  have "repo_ok s2" using assms(1) repo_ok_cong [of s2 s] same by blast
  note cs = close_after_event_spec [OF close [folded s2_def] this]
  show thesis
  proof (rule that [OF addr dec])
    show "targets s' = targets s1" "tbl_get (target_events s') (ev_event_id ev)
       = Some (target_event_row_of ev as (dec_accepted d) (dec_stale d))"
      using movesD [OF close_after_event_closure close] by (simp_all add: closure_only_def)
    show "other_targets_same (ev_target_id ev) s s'"
      using cs(2) same unfolding other_targets_same_def by simp
    show "left_open ev as d = Some p \<Longrightarrow> open_only_at (ev_target_id ev) p s'" for p by (rule cs(3))
    show "exposures s' = exposures s \<and> findings s' = findings s" if "left_open ev as d = None"
      using cs(4) [OF that] same by simp
  qed
qed

end
