(* ===== verification/Parser_Replay.thy ===== *)
theory Parser_Replay
  imports Parser_Correctness
begin

text \<open>
  Redelivery. The queues in front of the parser deliver a message at least once, so every
  operation must recognise the second delivery of a message it has completed, change
  nothing, and report it as a duplicate.
\<close>

section \<open>Scans\<close>

lemma check_scan_iff:
  "check_scan env s = (Inr (t, se), u) \<longleftrightarrow> u = s \<and> tbl_get (targets s) (en_target_id env) = Some t
     \<and> tg_provider t = en_provider env \<and> tbl_get (target_events s) (en_target_event_id env) = Some se
     \<and> ter_target_id se = en_target_id env \<and> ter_generation se = en_generation env
     \<and> ter_provider se = en_provider env
     \<and> result_owner (en_result_id env) s \<in> {None, Some (en_attempt_id env)}"
  by (auto simp: check_scan_def repo_Inr split: option.splits if_splits)

lemma result_owner_mem: "result_owner rid s = Some aid \<Longrightarrow> aid \<in> fst ` set (scan_attempts s)"
  by (auto simp: result_owner_def find_Some_iff image_iff) (metis fst_conv nth_mem)

lemma find_append: "find P (xs @ ys) = (case find P xs of None \<Rightarrow> find P ys | Some x \<Rightarrow> Some x)"
  by (induction xs) simp_all

text \<open>What a first ingestion leaves behind for the second.\<close>

lemma ingest_scan_new:
  assumes run: "ingest_scan env obs sha v b q s = (Inr r, s')" and new: "\<not> ir_duplicate r"
  obtains t se where "check_scan env s = (Inr (t, se), s)"
    "scan_attempts s' = scan_attempts s @ [(en_attempt_id env, attempt_row_of env sha se v
       (en_generation env \<noteq> tg_current_generation t) (is_state_eligible env v t))]"
    "tbl_get (scan_attempts s) (en_attempt_id env) = None"
    "target_events s' = target_events s"
    "ir_state_eligible r = is_state_eligible env v t"
    "ir_stale_generation r = (en_generation env \<noteq> tg_current_generation t)"
proof -
  have none: "tbl_get (scan_attempts s) (en_attempt_id env) = None"
    using ingest_scan_cases [OF run] new by blast
  with run obtain t se s1 x where chk: "check_scan env s = (Inr (t, se), s)"
    and store: "store_attempt env obs sha v t se s = (Inr x, s1)"
    and final: "(if is_state_eligible env v t then apply_scan env obs b q else returnM []) s1
      = (Inr (ir_handoff_keys r), s')"
    and res: "ir_state_eligible r = is_state_eligible env v t"
      "ir_stale_generation r = (en_generation env \<noteq> tg_current_generation t)"
    by (auto simp: ingest_scan_def bindM_Inr thenM_Inr readM_Inr transaction_Inr returnM_Inr check_scan_iff)
  have t: "tbl_get (targets s) (en_target_id env) = Some t" using chk by (simp add: check_scan_iff)
  have "scan_attempts s' = scan_attempts s1 \<and> target_events s' = target_events s1"
  proof (cases "is_state_eligible env v t")
    case True
    with final obtain ev s2 where ev: "apply_exposure_evidence env obs s1 = (Inr ev, s2)"
      and rec: "reconcile_finding_keys (scan_cause env b q) (en_target_id env) (snd ev) (fst ev) s2
          = (Inr (ir_handoff_keys r), s')"
      by (auto simp: apply_scan_def repo_Inr)
    from movesD [OF apply_exposure_evidence_evolves ev] movesD [OF reconcile_finding_keys_findings rec]
    show ?thesis
      using exposures_evolve_frame(2,3) findings_only_frame(2,3) unfolding evidence_evolve_def by metis
  qed (use final in \<open>simp add: returnM_Inr\<close>)
  moreover have "target_events s1 = target_events s"
    using store_attempt_evidence(1) [OF store t] by (simp add: evidence_only_def)
  ultimately show ?thesis
    using that [OF chk] store_attempt_tables [OF store none] none res by simp
qed

lemma ingest_scan_known:
  assumes "check_scan env s = (Inr (t, se), s)" "tbl_get (scan_attempts s) (en_attempt_id env) = Some a"
    and "same_evidence env sha a"
  shows "\<exists>ks. ingest_scan env obs sha v b q s
    = (Inr \<lparr>ir_duplicate = True, ir_stale_generation = at_stale_generation a,
            ir_state_eligible = at_state_eligible a, ir_handoff_keys = ks\<rparr>, s)"
  using assms by (simp add: ingest_scan_def repo_Inr pending_handoff_keys_def)

lemma ingest_scan_duplicate:
  assumes run: "ingest_scan env obs sha v b q s = (Inr r, s')" and dup: "ir_duplicate r"
  obtains t se a where "check_scan env s = (Inr (t, se), s)" "s' = s"
    "tbl_get (scan_attempts s) (en_attempt_id env) = Some a" "same_evidence env sha a"
    "ir_stale_generation r = at_stale_generation a" "ir_state_eligible r = at_state_eligible a"
proof -
  obtain a where a: "tbl_get (scan_attempts s) (en_attempt_id env) = Some a" "same_evidence env sha a"
    using ingest_scan_cases [OF run] dup by blast
  obtain t se where chk: "check_scan env s = (Inr (t, se), s)"
    using run by (auto simp: ingest_scan_def bindM_Inr transaction_Inr check_scan_iff)
  from ingest_scan_known [OF chk a, of obs v b q] run that [OF chk _ a] show thesis by auto
qed

lemma ingest_scan_replay:
  assumes run: "ingest_scan env obs sha v b q s = (Inr r, s')"
  shows "\<exists>r'. ingest_scan env obs' sha v' b' q' s' = (Inr r', s') \<and> ir_duplicate r'
     \<and> ir_stale_generation r' = ir_stale_generation r \<and> ir_state_eligible r' = ir_state_eligible r"
proof (cases "ir_duplicate r")
  case True
  from ingest_scan_duplicate [OF run True] obtain t se a where
    "check_scan env s = (Inr (t, se), s)" "s' = s" "tbl_get (scan_attempts s) (en_attempt_id env) = Some a"
    "same_evidence env sha a" "ir_stale_generation r = at_stale_generation a"
    "ir_state_eligible r = at_state_eligible a" by metis
  then show ?thesis using ingest_scan_known [of env s t se a sha obs' v' b' q'] by force
next
  case False
  from ingest_scan_new [OF run False] obtain t se where chk: "check_scan env s = (Inr (t, se), s)"
    and att: "scan_attempts s' = scan_attempts s @ [(en_attempt_id env, attempt_row_of env sha se v
       (en_generation env \<noteq> tg_current_generation t) (is_state_eligible env v t))]"
    and none: "tbl_get (scan_attempts s) (en_attempt_id env) = None"
    and te: "target_events s' = target_events s"
    and res: "ir_state_eligible r = is_state_eligible env v t"
      "ir_stale_generation r = (en_generation env \<noteq> tg_current_generation t)"
    by metis
  let ?a = "attempt_row_of env sha se v (en_generation env \<noteq> tg_current_generation t) (is_state_eligible env v t)"
  have "tbl_get (scan_attempts s') (en_attempt_id env) = Some ?a"
    using none att by (simp add: tbl_get_def map_add_def)
  moreover have "same_evidence env sha ?a" 
    by (simp add: same_evidence_def attempt_row_of_def option.map_comp o_def object_of_def)
  moreover obtain t' where t': "tbl_get (targets s') (en_target_id env) = Some t'" "tg_provider t' = tg_provider t"
  proof -
    have "tbl_get (targets s) (en_target_id env) = Some t" using chk by (simp add: check_scan_iff)
    moreover have "target_le (tbl_get (targets s) (en_target_id env)) (tbl_get (targets s') (en_target_id env))"
      using movesD [OF ingest_scan_evolves run] unfolding evolves_def by blast
    ultimately show thesis
      using that by (auto simp: target_le_def target_identity_def split: option.splits)
  qed
  moreover have "result_owner (en_result_id env) s = None"
    using chk none result_owner_mem [of "en_result_id env" s "en_attempt_id env"]
    by (auto simp: check_scan_iff tbl_get_None_iff)
  then have "result_owner (en_result_id env) s' \<in> {None, Some (en_attempt_id env)}"
    using att by (auto simp: result_owner_def find_append split: option.splits if_splits)
  ultimately have "check_scan env s' = (Inr (t', se), s')" "tbl_get (scan_attempts s') (en_attempt_id env) = Some ?a"
    "same_evidence env sha ?a" "at_state_eligible ?a = is_state_eligible env v t"
    "at_stale_generation ?a = (en_generation env \<noteq> tg_current_generation t)"
    using chk te by (simp_all add: check_scan_iff attempt_row_of_def)
  then show ?thesis using res ingest_scan_known [of env s' t' se ?a sha obs' v' b' q'] by force
qed

section \<open>Inventory events\<close>

lemma apply_target_event_replay:
  assumes "apply_target_event ev b q s = (Inr r, s')"
  shows "apply_target_event ev b' q' s' = (Inr False, s')"
proof -
  have addr: "\<exists>as. target_addresses ev = Inr as" and known: "tbl_get (target_events s') (ev_event_id ev) \<noteq> None"
  proof -
    show "\<exists>as. target_addresses ev = Inr as"
      using assms by (auto simp: apply_target_event_def repo_Inr)
    show "tbl_get (target_events s') (ev_event_id ev) \<noteq> None"
    proof (cases r)
      case True
      with assms obtain as d s1 x where
        close: "close_after_event ev as b q d (target_events_update (tbl_put (ev_event_id ev)
          (target_event_row_of ev as (dec_accepted d) (dec_stale d))) s1) = (Inr x, s')"
        by (auto elim: apply_target_event_elim)
      show ?thesis using movesD [OF close_after_event_closure close] by (simp add: closure_only_def)
    next
      case False
      with assms show ?thesis by (auto simp: apply_target_event_def repo_Inr split: if_splits)
    qed
  qed
  then show ?thesis by (auto simp: apply_target_event_def repo_Inr)
qed

section \<open>Reconciliations\<close>

lemma moves_runs_same:
  assumes "moves findings_only m \<or> moves outbox_only m"
  shows "moves (\<lambda>s t. runs t = runs s) m"
proof (rule movesI)
  fix s x t assume "m s = (Inr x, t)"
  with assms have "findings_only s t \<or> outbox_only s t" unfolding moves_def by blast
  then show "runs t = runs s" by (elim disjE) (simp_all add: findings_only_frame outbox_only_frame)
qed

interpretation run_frame: effect_preorder "\<lambda>s t. runs t = runs s"
  by unfold_locales simp_all

lemma reconcile_all_replay:
  assumes run: "reconcile_all i b q now s = (Inr r, s')" and "q' \<longrightarrow> bucket_set b'"
  shows "\<exists>r'. reconcile_all i b' q' now' s' = (Inr r', s') \<and> rc_duplicate r'
     \<and> rc_findings_examined r' = rc_findings_examined r"
proof -
  let ?k = "stable_hash [JStr ''act-reconciliation-v1'', JStr i]"
  have frames: "moves (\<lambda>s t. runs t = runs s) (mapM (reconcile_target c keys) xs)"
    "moves (\<lambda>s t. runs t = runs s) (mapM (queue_current_snapshot k bk) fps)" for c keys xs k bk fps
    unfolding reconcile_target_def
    by (intro moves_intro run_frame.moves_rules moves_runs_same;
        simp add: reconcile_finding_keys_findings queue_current_snapshot_outbox)+
  have "\<exists>n. tbl_get (runs s') ?k = Some n \<and> rn_completed_at n \<noteq> None
      \<and> value_or (rn_findings_examined n) 0 = rc_findings_examined r"
  proof (cases "rc_duplicate r")
    case True
    with run show ?thesis
      by (auto simp: reconcile_all_def repo_Inr begin_run_def Let_def pending_handoff_keys_def
          split: option.splits if_splits)
  next
    case False
    with run obtain s1 keys queued s2 snaps s3 n m where
      begun: "begin_run ?k i s = (Inr None, s1)"
      and rec: "mapM (reconcile_target \<lparr>ca_kind = RECONCILIATION, ca_key = i, ca_attempt = None,
                  ca_occurred_at = now, ca_bucket = b, ca_queue = q\<rparr> keys) (sorted_set (map fst keys)) s1
                = (Inr queued, s2)"
      and snap: "(if q then bindM (readM current_findings)
                  (mapM (queue_current_snapshot ?k (bucket_or_empty b))) else returnM []) s2 = (Inr snaps, s3)"
      and fin: "complete_run ?k now n m s3 = (Inr (), s')" "rc_findings_examined r = int n"
      by (auto simp: reconcile_all_def Let_def bindM_Inr thenM_Inr readM_Inr transaction_Inr returnM_Inr raiseM_Inr
          split: option.splits if_splits)
    have "runs s3 = runs s2" using snap movesD [OF frames(2)]
      by (auto simp: bindM_Inr readM_Inr returnM_Inr split: if_splits)
    then have "tbl_get (runs s3) ?k \<noteq> None"
      using begun movesD [OF frames(1) rec]
      by (auto simp: begin_run_def repo_Inr split: option.splits if_splits)
    with fin show ?thesis by (auto simp: complete_run_def put_run_def repo_Inr value_or_def)
  qed
  then show ?thesis
    using assms(2)
    by (auto simp: reconcile_all_def repo_Inr begin_run_def Let_def pending_handoff_keys_def)
qed

text \<open>
  The log of finding transitions: every row that the lifecycle records is a transition of
  the state machine that the published contract describes
  (\<^verbatim>\<open>FindingEvent._validate_transition\<close>).
\<close>

definition event_row_valid :: "finding_event_row \<Rightarrow> bool" where
  "event_row_valid v \<longleftrightarrow> (\<forall>k. validate_transition (event_of_row k v) = None)"

definition events_ok :: "db \<Rightarrow> bool" where
  "events_ok s \<longleftrightarrow> (\<forall>k v. tbl_get (finding_events s) k = Some v \<longrightarrow> event_row_valid v)"

lemma event_row_valid_iff:
  "event_row_valid v \<longleftrightarrow> (fv_previous_status v, fv_new_status v) = expected_statuses (fv_event_type v)
     \<and> fv_reason v \<in> set (allowed_reasons (fv_event_type v))"
  by (simp add: event_row_valid_def validate_transition_def event_of_row_def checks_None require_None)

lemma keeps_same_events:
  "(\<And>s x t. m s = (Inr x, t) \<Longrightarrow> finding_events t = finding_events s) \<Longrightarrow> keeps events_ok m"
  by (rule keepsI) (simp add: events_ok_def)

lemma moves_same_events: "moves (\<lambda>s t. finding_events t = finding_events s) m \<Longrightarrow> keeps events_ok m"
  by (rule keeps_same_events) (rule movesD)

lemma publish_transition_events:
  "event_row_valid row \<Longrightarrow> keeps events_ok (publish_transition c ek fp row)"
proof (rule keepsI)
  fix s x t assume row: "event_row_valid row" and ok: "events_ok s"
    and run: "publish_transition c ek fp row s = (Inr x, t)"
  from run obtain s1 where ins: "insert_finding_event ek row s = (Inr (), s1)"
    and rest: "t = s1 \<or> (\<exists>k. queue_finding_event ek fp (ca_attempt c) (bucket_or_empty (ca_bucket c)) s1 = (Inr k, t))"
    by (auto simp: publish_transition_def repo_Inr split: if_splits)
  have "moves (\<lambda>s t. finding_events t = finding_events s)
      (queue_finding_event ek fp (ca_attempt c) (bucket_or_empty (ca_bucket c)))"
    by (rule movesI)
      (auto simp: queue_finding_event_def insert_handoff_def repo_Inr Let_def
        split: if_splits dest!: finding_payload_valid)
  with rest have "finding_events t = finding_events s1" by (auto dest: movesD)
  with ins row ok show "events_ok t"
    by (auto simp: insert_finding_event_def repo_Inr events_ok_def split: if_splits)
qed

lemma finding_change_valid:
  "finding_change_of c tr e rule existing = Transition ty previous version reason \<Longrightarrow>
     (previous, OPEN) = expected_statuses ty \<and> reason \<in> set (allowed_reasons ty)"
  by (auto simp: finding_change_of_def Let_def split: option.splits if_splits)

lemma finding_resolution_reason_valid:
  "finding_resolution_reason st e rule \<in> set (allowed_reasons RESOLVED)"
  by (simp add: finding_resolution_reason_def)

lemma ensure_finding_events: "keeps events_ok (ensure_finding c tr t k e rk rule existing)"
proof (cases "finding_change_of c tr e rule existing")
  case Seen
  then show ?thesis
    by (intro keeps_same_events) (auto simp: ensure_finding_def update_finding_def repo_Inr Let_def
        split: prod.splits option.splits if_splits)
next
  case (Transition ty previous version reason)
  have "keeps events_ok (update_finding fp f)" for fp f
    by (rule keeps_same_events) (auto simp: update_finding_def repo_Inr split: option.splits)
  moreover have "keeps events_ok (insertM n findings findings_update ok fp r)" for n ok fp r
    by (rule keeps_same_events) (auto simp: repo_Inr)
  ultimately show ?thesis
    using finding_change_valid [OF Transition]
    unfolding ensure_finding_def Let_def Transition
    by (auto intro!: keeps_intro publish_transition_events simp: event_row_valid_iff split: prod.splits)
qed

lemma resolve_finding_events:
  assumes "reason \<in> set (allowed_reasons RESOLVED)"
  shows "keeps events_ok (resolve_finding c fp f gen reason)"
proof -
  have "keeps events_ok (update_finding fp g)" for g
    by (rule keeps_same_events) (auto simp: update_finding_def repo_Inr split: option.splits)
  with assms show ?thesis
    unfolding resolve_finding_def Let_def
    by (intro keeps_intro publish_transition_events) (simp_all add: event_row_valid_iff)
qed

lemma reconcile_finding_keys_events: "keeps events_ok (reconcile_finding_keys c tid trs keys)"
  unfolding reconcile_finding_keys_def reconcile_key_def match_step_def resolve_step_def
  by (intro keeps_intro ensure_finding_events resolve_finding_events finding_resolution_reason_valid)

lemma evolve_events: "moves (exposures_evolve (\<lambda>_. True)) m \<Longrightarrow> keeps events_ok m"
  by (rule keeps_same_events)
    (rule exposures_evolve_frame(8) [where P = "\<lambda>_. True"], rule movesD)

lemma close_for_event_events: "keeps events_ok (close_for_event ev at reason trs key)"
  unfolding close_for_event_def
  by (intro keeps_intro evolve_events close_exposure_evolves) simp

lemma apply_target_event_events: "keeps events_ok (apply_target_event ev b q)"
proof -
  have "keeps events_ok (decide_event ev as)" for as
    by (rule keeps_same_events)
      (auto simp: decide_event_def insert_target_def repo_Inr split: option.splits if_splits)
  moreover have "keeps events_ok (insertM n target_events target_events_update ok k r)" for n ok k r
    by (rule keeps_same_events) (auto simp: repo_Inr)
  ultimately show ?thesis
    unfolding apply_target_event_def close_after_event_def close_for_removal_def
      close_for_generation_gap_def close_for_address_change_def open_keys_def
    by (intro keeps_intro close_for_event_events reconcile_finding_keys_events)
qed

lemma ingest_scan_events: "keeps events_ok (ingest_scan env obs sha v b q)"
proof (rule keepsI)
  fix s r s' assume ok: "events_ok s" and run: "ingest_scan env obs sha v b q s = (Inr r, s')"
  have evid: "keeps events_ok (apply_exposure_evidence env obs)"
  proof (rule keeps_same_events)
    fix s x t assume "apply_exposure_evidence env obs s = (Inr x, t)"
    from movesD [OF apply_exposure_evidence_evolves this] show "finding_events t = finding_events s"
      unfolding evidence_evolve_def by (rule exposures_evolve_frame(8))
  qed
  have scan: "keeps events_ok (apply_scan env obs b q)"
    unfolding apply_scan_def by (intro keeps_intro evid reconcile_finding_keys_events)
  from ingest_scan_cases [OF run] show "events_ok s'"
  proof (elim disjE exE conjE)
    assume "s' = s" with ok show ?thesis by simp
  next
    fix t se s1 x
    assume t: "tbl_get (targets s) (en_target_id env) = Some t" and st: "store_attempt env obs sha v t se s = (Inr x, s1)"
      and final: "if is_state_eligible env v t then apply_scan env obs b q s1 = (Inr (ir_handoff_keys r), s') else s' = s1"
    have "events_ok s1"
      using store_attempt_evidence(1) [OF st t] ok by (simp add: evidence_only_def events_ok_def)
    with final scan show ?thesis by (auto dest: keepsD split: if_splits)
  qed
qed

lemma reconcile_all_events: "keeps events_ok (reconcile_all i b q now)"
proof -
  have "keeps events_ok (begin_run k i)" for k
    by (rule keeps_same_events) (auto simp: begin_run_def repo_Inr split: option.splits if_splits)
  moreover have "keeps events_ok (complete_run k now n m)" for k n m
    by (rule keeps_same_events) (auto simp: complete_run_def put_run_def repo_Inr split: option.splits)
  moreover have "keeps events_ok (queue_current_snapshot k bk fp)" for k bk fp
    by (rule keeps_same_events)
      (auto simp: queue_current_snapshot_def insert_handoff_def repo_Inr Let_def
        split: if_splits dest!: finding_payload_valid)
  ultimately show ?thesis
    unfolding reconcile_all_def pending_handoff_keys_def Let_def reconcile_target_def
    by (intro keeps_intro reconcile_finding_keys_events)
qed

lemma handoff_ops_events:
  "keeps events_ok (record_handoff_attempt k)" "keeps events_ok (record_handoff_error k e)"
  "keeps events_ok (mark_handoff_published k)"
  by (rule keeps_same_events; auto simp: record_handoff_attempt_def record_handoff_error_def
      mark_handoff_published_def update_handoff_def repo_Inr split: option.splits if_splits)+

lemmas events_ops = apply_target_event_events ingest_scan_events reconcile_all_events handoff_ops_events

lemma repo_reachable_events: "repo_reachable s \<Longrightarrow> events_ok s"
proof (induction rule: repo_reachable.induct)
  case (fresh rules now)
  show ?case by (simp add: events_ok_def fresh_db_def)
next
  case (step s s')
  from step.hyps(2) step.IH show ?case
  proof (induction rule: repo_step.induct)
    case (rules rules s)
    then show ?case by (simp add: events_ok_def)
  qed (blast intro: keeps_rolls_back events_ops rolls_back_ops)+
qed

end
