(* ===== verification/Parser_Demo.thy ===== *)
theory Parser_Demo
  imports Parser_Properties
begin

text \<open>
  A concrete history of the repository, at which the theorems about reachable states are
  applied: one detection rule, one target, a scan that finds an open port, the removal of
  an unscanned target and a reconciliation. Digests stay symbolic.
\<close>

definition demo_rule :: rule_row where
  "demo_rule =
     \<lparr>ru_name = ''Exposed service'', ru_description = ''A service is reachable.'', ru_enabled = True,
      ru_severity = HIGH, ru_rule_type = Exposure_rule,
      ru_match_criteria = JObj [(''protocols'', JArr [JStr ''tcp''])]\<rparr>"

definition demo_rules :: "(string, rule_row) table" where
  "demo_rules = [(''any-tcp'', demo_rule)]"

definition demo_tid :: string where
  "demo_tid = stable_hash [JStr ''target'']"

definition demo_event :: inventory_event where
  "demo_event =
     \<lparr>ev_event_id = ''event-1'', ev_target_id = demo_tid, ev_generation = 1, ev_event_type = Upsert,
      ev_provider = ''aws'', ev_provider_scope_id = ''123456789012'', ev_provider_target_id = ''eni-1'',
      ev_location = Some ''us-west-2'', ev_addresses = [''192.0.2.7''], ev_context = JObj [],
      ev_source_observed_at = 100, ev_scan_reason = Some ''new_target'', ev_source_event_time = None,
      ev_source_collected_at = None, ev_dispatched_at = None, ev_removed_at = None\<rparr>"

definition demo_removal :: inventory_event where
  "demo_removal = demo_event
     \<lparr>ev_event_id := ''event-2'', ev_generation := 2, ev_event_type := Remove, ev_addresses := [],
      ev_source_observed_at := 500, ev_scan_reason := None, ev_removed_at := Some 500\<rparr>"

definition demo_service :: finding_service where
  "demo_service =
     \<lparr>fs_name = Some ''ssh'', fs_product = None, fs_version = None, certificate_sha256 = None,
      ssh_host_key_sha256 = None, banner_sha256 = None, identity_sha256 = stable_hash [JStr ''ssh'']\<rparr>"

definition demo_scan :: scan_envelope where
  "demo_scan =
     \<lparr>en_attempt_id = ''attempt-1'', en_result_id = stable_hash [JStr ''result''],
      en_run_id = ''run-1'', en_directive_id = ''directive-1'', en_target_event_id = ''event-1'',
      en_trace_id = ''trace-1'', en_provider = ''aws'', en_target_id = demo_tid,
      en_generation = 1, en_address = ''192.0.2.7'', en_profile = ''tcp'', en_scanner_version = ''v1'',
      en_outcome = ''complete'', en_exit_code = Some 0, en_error_type = None, en_error_retryable = None,
      en_scan_started_at = 200, en_scan_completed_at = 300, en_result_uploaded_at = 310,
      en_coverage = [\<lparr>cv_protocol = ''tcp'', cv_port_spec = ''1-1024'', cv_port_from = Some 1,
                      cv_port_to = Some 1024, cv_complete = True\<rparr>],
      en_declared_open_tcp_ports = [22], en_raw_result = None, en_enrichment_result = None\<rparr>"

definition demo_observation :: observation where
  "demo_observation =
     \<lparr>ob_protocol = ''tcp'', ob_port = 22, ob_address = ''192.0.2.7'', ob_state = Port_open,
      ob_service = demo_service, ob_observed_at = 300\<rparr>"

definition demo_objects :: scan_objects where
  "demo_objects =
     \<lparr>src_envelope = \<lparr>so_bucket = ''results'', so_key = ''scan/1.json'', so_version = None,
                      so_sha256 = stable_hash [JStr ''envelope'']\<rparr>,
      src_raw_version = None, src_enrichment_version = None\<rparr>"

definition demo_fresh :: db where
  "demo_fresh = fresh_db demo_rules 0"

lemmas run_defs = bindM_def thenM_def readM_def writeM_def returnM_def raiseM_def liftM_def
  transaction_def insertM_def updateM_def tbl_put_def Let_def

lemmas demo_defs = demo_rule_def demo_rules_def demo_event_def demo_removal_def demo_service_def
  demo_scan_def demo_observation_def demo_objects_def

section \<open>The target is known\<close>

definition demo_target_row :: target_row where
  "demo_target_row = new_target_row demo_event [''192.0.2.7'']"

definition demo_source :: target_event_row where
  "demo_source = target_event_row_of demo_event [''192.0.2.7''] True False"

definition demo_target :: db where
  "demo_target = demo_fresh
     \<lparr>targets := [(demo_tid, demo_target_row)],
      target_events := [(''event-1'', target_event_row_of demo_event [''192.0.2.7''] True False)]\<rparr>"

lemma sha256_hex_nonblank: "is_sha256_hex s \<Longrightarrow> list_ex (\<lambda>c. c \<noteq> CHR '' '') s"
proof -
  have "\<not> is_lower_hex (CHR '' '')" by code_simp
  then show "is_sha256_hex s \<Longrightarrow> list_ex (\<lambda>c. c \<noteq> CHR '' '') s"
    by (cases s) (auto simp: is_sha256_hex_def)
qed

lemma demo_tid_text [simp]: "is_sha256_hex demo_tid" "list_ex (\<lambda>c. c \<noteq> CHR '' '') demo_tid"
  using sha256_hex_nonblank [of demo_tid] by (simp_all add: demo_tid_def)

lemma demo_event_ids [simp]:
  "ev_event_id demo_event = ''event-1''" "ev_target_id demo_event = demo_tid"
  "ev_event_type demo_event = Upsert"
  by (simp_all add: demo_event_def)

lemma demo_octets:
  "parse_octet ''192'' = Some 192" "parse_octet ''0'' = Some 0"
  "parse_octet ''2'' = Some 2" "parse_octet ''7'' = Some 7"
  "nat_str 192 = ''192''" "nat_str 2 = ''2''" "nat_str 7 = ''7''" "nat_str 0 = ''0''"
  by code_simp+

lemma demo_address: "ip_address_str ''192.0.2.7'' = Some ''192.0.2.7''"
  by (simp add: ip_address_str_def ipv4_parse_def ipv4_str_def octets_def ipv4_of_octets_def demo_octets)

lemma demo_addresses: "target_addresses demo_event = Inr [''192.0.2.7'']"
  by (simp add: target_addresses_def demo_event_def demo_address)

lemma demo_target_rows_ok:
  "target_row_ok demo_tid demo_target_row"
  "target_event_row_ok ''event-1'' (target_event_row_of demo_event [''192.0.2.7''] True False)"
  by (simp_all add: target_row_ok_def target_event_row_ok_def demo_target_row_def new_target_row_def
      target_event_row_of_def btrim_nonempty_def demo_event_def event_status_def event_removed_at_def value_or_def Let_def)

lemma demo_event_applied:
  "apply_target_event demo_event None False demo_fresh = (Inr True, demo_target)"
  using demo_target_rows_ok
  by (simp add: apply_target_event_def run_defs decide_event_def insert_target_def
      demo_addresses demo_fresh_def fresh_db_def demo_target_def demo_target_row_def close_after_event_def)

lemma demo_target_reachable: "repo_reachable demo_target"
proof -
  have "repo_reachable demo_fresh"
    unfolding demo_fresh_def by (rule repo_reachable.fresh) (simp add: demo_rules_def tbl_ok_def)
  then show ?thesis by (rule repo_reachable.step) (rule repo_step.event [OF demo_event_applied])
qed

section \<open>An open port is found\<close>

definition demo_exposure :: exposure_row where
  "demo_exposure = new_exposure_row demo_scan demo_observation 300"

definition demo_fingerprint :: string where
  "demo_fingerprint = finding_fingerprint ''any-tcp'' demo_tid ''tcp'' 22"

definition demo_finding_key :: string where
  "demo_finding_key = finding_event_key demo_fingerprint (scan_cause demo_scan None False) OPENED 1"

definition demo_finding :: finding_row where
  "demo_finding = opened_finding_row (demo_tid, ''tcp'', 22) demo_exposure ''any-tcp'' demo_rule 300 1
     demo_finding_key"

definition demo_finding_event :: finding_event_row where
  "demo_finding_event =
     \<lparr>fv_fingerprint = demo_fingerprint, fv_target_id = demo_tid, fv_target_generation = 1,
      fv_protocol = ''tcp'', fv_port = 22, fv_rule_key = ''any-tcp'', fv_event_type = OPENED,
      fv_previous_status = None, fv_new_status = OPEN, fv_severity = HIGH, fv_reason = EXPOSURE_OPEN,
      fv_finding_version = 1, fv_source_kind = SCAN_ATTEMPT, fv_source_key = ''attempt-1'',
      fv_source_attempt_id = Some ''attempt-1'', fv_identity = identity_sha256 demo_service,
      fv_occurred_at = 300\<rparr>"

definition demo_attempted :: db where
  "demo_attempted = demo_target
     \<lparr>targets := [(demo_tid, demo_target_row\<lparr>tg_last_attempt_at := Some 300, tg_last_confirmed_at := Some 300\<rparr>)],
      scan_attempts := [(''attempt-1'', attempt_row_of demo_scan demo_objects demo_source True False True)],
      attempt_coverage := [((''attempt-1'', ''tcp'', ''1-1024''), hd (en_coverage demo_scan))],
      observations := [((''attempt-1'', demo_tid, ''tcp'', 22),
             \<lparr>obr_generation = 1, obr_address = ''192.0.2.7'', obr_state = Port_open,
              obr_service = demo_service, obr_observed_at = 300\<rparr>)]\<rparr>"

definition demo_opened :: db where
  "demo_opened = demo_attempted
     \<lparr>exposures := [((demo_tid, ''tcp'', 22), demo_exposure)],
      exposure_events := [(open_event_key demo_scan demo_observation Ex_opened,
             open_event_row demo_scan demo_observation Ex_opened None Open_observation None 300)]\<rparr>"

definition demo_exposed :: db where
  "demo_exposed = demo_opened
     \<lparr>findings := [(demo_fingerprint, demo_finding)],
      finding_events := [(demo_finding_key, demo_finding_event)]\<rparr>"

lemma demo_attempt_rows_ok:
  "attempt_row_ok ''attempt-1'' (attempt_row_of demo_scan demo_objects demo_source True False True)"
  "coverage_row_ok k (hd (en_coverage demo_scan))"
  "target_row_ok demo_tid (demo_target_row\<lparr>tg_last_attempt_at := x, tg_last_confirmed_at := y\<rparr>)"
  "service_sizes_ok demo_service" "protocol_valid ''tcp''"
proof -
  show "protocol_valid ''tcp''" by code_simp
  then show "coverage_row_ok k (hd (en_coverage demo_scan))" for k
    by (simp add: coverage_row_ok_def demo_scan_def btrim_nonempty_def is_port_def)
  show "target_row_ok demo_tid (demo_target_row\<lparr>tg_last_attempt_at := x, tg_last_confirmed_at := y\<rparr>)" for x y
    using demo_target_rows_ok(1) by (simp add: target_row_ok_def split: target_status.splits)
qed (simp_all add: attempt_row_ok_def demo_defs attempt_row_of_def btrim_nonempty_def
    service_sizes_ok_def opt_ok_def)

lemma demo_attempt_stored:
  "store_attempt demo_scan [demo_observation] demo_objects True demo_target_row demo_source demo_target
     = (Inr (), demo_attempted)"
  using demo_attempt_rows_ok
  by (simp add: store_attempt_def run_defs insert_coverage_def insert_observation_def touch_target_def
       demo_defs demo_target_def demo_fresh_def fresh_db_def demo_attempted_def demo_target_row_def
       is_state_eligible_def is_current_attempt_def new_target_row_def event_status_def greatest_coalesce_def
       observation_row_ok_def is_port_def)

lemma demo_evidence_applied:
  "apply_exposure_evidence demo_scan [demo_observation] demo_attempted
     = (Inr ([(''tcp'', 22)], [((''tcp'', 22), Ex_opened)]), demo_opened)"
  using demo_attempt_rows_ok(5)
  by (simp add: apply_exposure_evidence_def run_defs ob_key_def sorted_set_def observed_step_def
      attempt_controls_port_def port_candidates_def open_exposure_def demo_attempted_def demo_target_def
      demo_fresh_def fresh_db_def exposure_row_ok_def is_port_def record_open_def insert_exposure_event_def
      observed_map_def attempt_row_of_def demo_defs new_exposure_row_def exposure_event_row_ok_def opt_ok_def
      open_event_row_def open_event_key_def exposure_keys_def absent_step_def note_change_def
      cv_contains_def demo_opened_def demo_exposure_def)

text \<open>What the reconciliation reads of the state after the evidence.\<close>

lemma demo_opened_fields [simp]:
  "exposures demo_opened = [((demo_tid, ''tcp'', 22), demo_exposure)]"
  "targets demo_opened = targets demo_attempted"
  "findings demo_opened = []" "finding_events demo_opened = []" "detection_rules demo_opened = demo_rules"
  by (simp_all add: demo_opened_def demo_attempted_def demo_target_def demo_fresh_def fresh_db_def)

lemma demo_attempted_targets:
  "targets demo_attempted
     = [(demo_tid, demo_target_row\<lparr>tg_last_attempt_at := Some 300, tg_last_confirmed_at := Some 300\<rparr>)]"
  by (simp add: demo_attempted_def)

lemma demo_rule_matches: "rule_matches ''any-tcp'' demo_rule ''tcp'' 22 = Inr True"
  by (simp add: rule_matches_def demo_rule_def json_strings_def)

lemma demo_finding_rows_ok:
  "finding_row_ok demo_fingerprint demo_finding" "finding_event_row_ok demo_finding_key demo_finding_event"
  using demo_attempt_rows_ok(5)
  by (simp_all add: finding_row_ok_def finding_event_row_ok_def demo_fingerprint_def demo_finding_def
      demo_finding_event_def demo_finding_key_def finding_event_key_def opened_finding_row_def is_port_def
      btrim_nonempty_def demo_exposure_def new_exposure_row_def demo_defs)

lemma demo_cause_fields [simp]:
  "ca_kind (scan_cause demo_scan b q) = SCAN_ATTEMPT" "ca_key (scan_cause demo_scan b q) = ''attempt-1''"
  "ca_attempt (scan_cause demo_scan b q) = Some ''attempt-1''" "ca_queue (scan_cause demo_scan b q) = q"
  "ca_bucket (scan_cause demo_scan b q) = b"
  "ensure_transition_at (scan_cause demo_scan b q) demo_exposure None = 300"
  "ex_service demo_exposure = demo_service" "ex_state demo_exposure = Exposed" "ru_severity demo_rule = HIGH"
  "tg_status demo_target_row = Active" "tg_current_generation demo_target_row = 1"
  by (simp_all add: scan_cause_def ensure_transition_at_def demo_exposure_def demo_target_row_def new_target_row_def
      event_status_def new_exposure_row_def demo_defs)

lemma demo_finding_ensured:
  "ensure_finding (scan_cause demo_scan None False) (Some Ex_opened)
     (demo_target_row\<lparr>tg_last_attempt_at := Some 300, tg_last_confirmed_at := Some 300\<rparr>)
     (demo_tid, ''tcp'', 22) demo_exposure ''any-tcp'' demo_rule None demo_opened = (Inr None, demo_exposed)"
  using demo_finding_rows_ok
  by (simp add: ensure_finding_def run_defs finding_change_of_def publish_transition_def tbl_get_def
      insert_finding_event_def demo_exposed_def flip: demo_fingerprint_def demo_finding_key_def demo_finding_def)
    (simp add: tbl_put_def demo_finding_event_def demo_opened_def demo_attempted_def demo_target_def demo_fresh_def fresh_db_def)

lemma demo_findings_reconciled:
  "reconcile_finding_keys (scan_cause demo_scan None False) demo_tid [((''tcp'', 22), Ex_opened)] [(''tcp'', 22)]
     demo_opened = (Inr [], demo_exposed)"
  by (simp add: reconcile_finding_keys_def run_defs sorted_set_def reconcile_key_def demo_attempted_targets demo_rules_def
     match_step_def findings_of_def existing_for_def demo_rule_matches demo_finding_ensured append_key_def tbl_get_def)

definition demo_ingested :: ingest_result where
  "demo_ingested = \<lparr>ir_duplicate = False, ir_stale_generation = False, ir_state_eligible = True, ir_handoff_keys = []\<rparr>"

lemma demo_scan_checked: "check_scan demo_scan demo_target = (Inr (demo_target_row, demo_source), demo_target)"
  by (simp add: check_scan_def run_defs demo_target_def demo_fresh_def fresh_db_def result_owner_def tbl_get_def
      demo_target_row_def new_target_row_def target_event_row_of_def demo_source_def demo_defs)

lemma demo_scan_ingested:
  "ingest_scan demo_scan [demo_observation] demo_objects True None False demo_target = (Inr demo_ingested, demo_exposed)"
proof -
  have eligible: "is_state_eligible demo_scan True demo_target_row"
    by (simp add: is_state_eligible_def is_current_attempt_def demo_target_row_def new_target_row_def
        event_status_def demo_defs)
  have "apply_scan demo_scan [demo_observation] None False demo_attempted = (Inr [], demo_exposed)"
    using demo_evidence_applied demo_findings_reconciled
    by (simp add: apply_scan_def run_defs) (simp add: demo_scan_def)
  moreover have "scan_attempts demo_target = []" "en_generation demo_scan = tg_current_generation demo_target_row"
    by (simp_all add: demo_target_def demo_fresh_def fresh_db_def demo_scan_def)
  ultimately show ?thesis
    using demo_scan_checked demo_attempt_stored eligible
    by (simp add: ingest_scan_def run_defs demo_ingested_def)
qed

lemma demo_exposed_reachable: "repo_reachable demo_exposed"
  by (rule repo_reachable.step [OF demo_target_reachable]) (rule repo_step.scan [OF demo_scan_ingested])

text \<open>The same scan when its result file was not validated is evidence only.\<close>

lemma demo_unvalidated_scan:
  "\<exists>s'. ingest_scan demo_scan [demo_observation] demo_objects False None False demo_target
     = (Inr (demo_ingested\<lparr>ir_state_eligible := False\<rparr>), s')"
proof -
  have "attempt_row_ok ''attempt-1'' (attempt_row_of demo_scan demo_objects demo_source False False False)"
    by (simp add: attempt_row_ok_def demo_defs attempt_row_of_def btrim_nonempty_def opt_ok_def)
  then have "\<exists>s'. store_attempt demo_scan [demo_observation] demo_objects False demo_target_row demo_source demo_target
      = (Inr (), s')"
    using demo_attempt_rows_ok
    by (simp add: store_attempt_def run_defs insert_coverage_def insert_observation_def touch_target_def
        demo_defs demo_target_def demo_fresh_def fresh_db_def demo_target_row_def
        is_state_eligible_def is_current_attempt_def new_target_row_def event_status_def greatest_coalesce_def
        observation_row_ok_def is_port_def)
  moreover have "scan_attempts demo_target = []" "en_generation demo_scan = tg_current_generation demo_target_row"
    by (simp_all add: demo_target_def demo_fresh_def fresh_db_def demo_scan_def)
  ultimately show ?thesis
    using demo_scan_checked
    by (auto simp: ingest_scan_def run_defs demo_ingested_def is_state_eligible_def)
qed

section \<open>The target is removed\<close>

definition demo_removed :: db where
  "demo_removed = demo_target
     \<lparr>targets := [(demo_tid, updated_target_row demo_removal [] demo_target_row)],
      target_events := target_events demo_target
        @ [(''event-2'', target_event_row_of demo_removal [] True False)]\<rparr>"

lemma demo_removal_applied:
  "apply_target_event demo_removal None False demo_target = (Inr True, demo_removed)"
proof -
  have "target_row_ok demo_tid (updated_target_row demo_removal [] demo_target_row)"
    "target_event_row_ok ''event-2'' (target_event_row_of demo_removal [] True False)"
    by (simp_all add: target_row_ok_def target_event_row_ok_def updated_target_row_def demo_target_row_def
        new_target_row_def target_event_row_of_def btrim_nonempty_def event_status_def event_removed_at_def
        removal_time_def value_or_def Let_def demo_defs)
  moreover have "target_addresses demo_removal = Inr []" "event_accepted demo_removal demo_target_row"
    "target_identity demo_target_row = event_identity demo_removal" "ev_event_id demo_removal = ''event-2''"
    "ev_target_id demo_removal = demo_tid" "ev_event_type demo_removal = Remove"
    by (simp_all add: target_addresses_def event_accepted_def target_identity_def event_identity_def
        demo_target_row_def new_target_row_def demo_defs)
  ultimately show ?thesis
    by (simp add: apply_target_event_def run_defs decide_event_def close_after_event_def close_for_removal_def
        open_finding_count_def open_keys_def open_exposure_keys_def open_finding_keys_def
        demo_target_def demo_removed_def demo_fresh_def fresh_db_def tbl_get_def)
qed

section \<open>A late event and a new binding\<close>

definition demo_late :: inventory_event where
  "demo_late = demo_event\<lparr>ev_event_id := ''event-0'', ev_source_observed_at := 50\<rparr>"

definition demo_rebind :: inventory_event where
  "demo_rebind = demo_event\<lparr>ev_event_id := ''event-3'', ev_generation := 3, ev_source_observed_at := 700\<rparr>"

lemma demo_target_lookup: "tbl_get (targets demo_target) demo_tid = Some demo_target_row"
  by (simp add: demo_target_def tbl_get_def)

lemma demo_late_applied:
  "\<exists>s'. apply_target_event demo_late None False demo_target = (Inr True, s')" "\<not> event_accepted demo_late demo_target_row"
proof -
  show late: "\<not> event_accepted demo_late demo_target_row"
    by (simp add: event_accepted_def demo_late_def demo_target_row_def new_target_row_def demo_event_def)
  have "target_event_row_ok ''event-0'' (target_event_row_of demo_late [''192.0.2.7''] False True)"
    by (simp add: target_event_row_ok_def target_event_row_of_def btrim_nonempty_def value_or_def demo_late_def
        demo_event_def Let_def)
  moreover have "target_addresses demo_late = Inr [''192.0.2.7'']"
    "target_identity demo_target_row = event_identity demo_late" "ev_event_id demo_late = ''event-0''"
    "ev_target_id demo_late = demo_tid"
    by (simp_all add: target_addresses_def target_identity_def event_identity_def demo_late_def
        demo_target_row_def new_target_row_def demo_event_def demo_address)
  ultimately show "\<exists>s'. apply_target_event demo_late None False demo_target = (Inr True, s')"
    using late demo_target_lookup
    by (simp add: apply_target_event_def run_defs decide_event_def close_after_event_def)
      (simp add: demo_target_def tbl_get_def)
qed

lemma demo_rebind_applied:
  "\<exists>s'. apply_target_event demo_rebind None False demo_target = (Inr True, s')" "event_accepted demo_rebind demo_target_row"
  "target_addresses demo_rebind = Inr [''192.0.2.7'']"
proof -
  show acc: "event_accepted demo_rebind demo_target_row"
    by (simp add: event_accepted_def demo_rebind_def demo_target_row_def new_target_row_def demo_event_def)
  show addr: "target_addresses demo_rebind = Inr [''192.0.2.7'']"
    by (simp add: target_addresses_def demo_rebind_def demo_event_def demo_address)
  have "target_row_ok demo_tid (updated_target_row demo_rebind [''192.0.2.7''] demo_target_row)"
    "target_event_row_ok ''event-3'' (target_event_row_of demo_rebind [''192.0.2.7''] True False)"
    by (simp_all add: target_row_ok_def target_event_row_ok_def updated_target_row_def demo_target_row_def
        new_target_row_def target_event_row_of_def btrim_nonempty_def event_status_def event_removed_at_def
        value_or_def demo_rebind_def demo_event_def Let_def)
  moreover have "target_identity demo_target_row = event_identity demo_rebind" "ev_event_id demo_rebind = ''event-3''"
    "ev_target_id demo_rebind = demo_tid" "ev_event_type demo_rebind = Upsert"
    by (simp_all add: target_identity_def event_identity_def demo_rebind_def demo_target_row_def
        new_target_row_def demo_event_def)
  ultimately show "\<exists>s'. apply_target_event demo_rebind None False demo_target = (Inr True, s')"
    using acc addr demo_target_lookup
    by (simp add: apply_target_event_def run_defs decide_event_def close_after_event_def
        close_for_generation_gap_def close_for_address_change_def open_keys_def open_exposure_keys_def
        open_finding_keys_def)
      (simp add: demo_target_def demo_fresh_def fresh_db_def tbl_get_def)
qed

section \<open>A reconciliation\<close>

definition demo_run_key :: string where
  "demo_run_key = stable_hash [JStr ''act-reconciliation-v1'', JStr ''run-1'']"

definition demo_run :: run_row where
  "demo_run = \<lparr>rn_invocation_key = ''run-1'', rn_started_at = 0, rn_completed_at = Some 600,
     rn_findings_examined = Some 1, rn_handoffs_queued = Some 0\<rparr>"

definition demo_reconciled :: db where
  "demo_reconciled = demo_exposed\<lparr>runs := [(demo_run_key, demo_run)], db_clock := 1\<rparr>"

definition demo_reconciliation :: reconciliation_result where
  "demo_reconciliation = \<lparr>rc_duplicate = False, rc_findings_examined = 1, rc_handoff_keys = []\<rparr>"

definition demo_begun :: db where
  "demo_begun = demo_exposed
     \<lparr>runs := [(demo_run_key, demo_run\<lparr>rn_completed_at := None, rn_findings_examined := None,
                rn_handoffs_queued := None\<rparr>)], db_clock := 1\<rparr>"

lemma demo_exposed_fields [simp]:
  "exposures demo_exposed = [((demo_tid, ''tcp'', 22), demo_exposure)]"
  "findings demo_exposed = [(demo_fingerprint, demo_finding)]"
  "targets demo_exposed = targets demo_attempted" "detection_rules demo_exposed = demo_rules"
  "runs demo_exposed = []" "db_clock demo_exposed = 0"
  by (simp_all add: demo_exposed_def demo_opened_def demo_attempted_def demo_target_def demo_fresh_def fresh_db_def)

lemma demo_run_begun: "begin_run demo_run_key ''run-1'' demo_exposed = (Inr None, demo_begun)"
  by (simp add: begin_run_def run_defs clock_timestamp_def run_row_ok_def demo_run_key_def btrim_nonempty_def
      opt_ok_def demo_begun_def demo_run_def)

lemma demo_service_seen:
  assumes "\<not> ca_queue c"
  shows "reconcile_finding_keys c demo_tid [] [(''tcp'', 22)] demo_begun = (Inr [], demo_begun)"
proof -
  have fin: "fi_status demo_finding = OPEN" "fi_target_id demo_finding = demo_tid"
    "fi_protocol demo_finding = ''tcp''" "fi_port demo_finding = 22" "fi_rule_key demo_finding = ''any-tcp''"
    "finding_change_of c None demo_exposure demo_rule (Some demo_finding) = Seen"
    "demo_finding\<lparr>fi_last_seen_at := max (fi_last_seen_at demo_finding) (ex_last_confirmed_at demo_exposure)\<rparr>
       = demo_finding"
    by (simp_all add: demo_finding_def opened_finding_row_def finding_change_of_def)
  have "ensure_finding c None t (demo_tid, ''tcp'', 22) demo_exposure ''any-tcp'' demo_rule
      (Some demo_finding) demo_begun = (Inr None, demo_begun)" for t
    using assms fin demo_finding_rows_ok(1)
    by (simp add: ensure_finding_def run_defs update_finding_def demo_begun_def tbl_get_def
        flip: demo_fingerprint_def)
  then show ?thesis
    by (simp add: reconcile_finding_keys_def run_defs sorted_set_def reconcile_key_def demo_begun_def
        demo_attempted_targets demo_rules_def match_step_def findings_of_def existing_for_def fin
        demo_rule_matches append_key_def tbl_get_def resolve_step_def)
qed

lemma demo_run_completed:
  "reconcile_all ''run-1'' None False 600 demo_exposed = (Inr demo_reconciliation, demo_reconciled)"
proof -
  have keys: "service_keys demo_begun = [(demo_tid, ''tcp'', 22)]"
    by (simp add: service_keys_def demo_begun_def sorted_set_def demo_finding_def opened_finding_row_def)
  have "complete_run demo_run_key 600 1 0 demo_begun = (Inr (), demo_reconciled)"
    by (simp add: complete_run_def put_run_def run_defs demo_begun_def demo_run_def run_row_ok_def demo_run_key_def
        btrim_nonempty_def opt_ok_def demo_reconciled_def tbl_get_def)
  with keys show ?thesis
    by (simp add: reconcile_all_def run_defs demo_run_begun sorted_set_def reconcile_target_def demo_service_seen
        first_occurrences_def demo_reconciliation_def flip: demo_run_key_def)
qed

section \<open>A queued handoff\<close>

text \<open>The same scan with publication: the transition is queued as a valid document.\<close>

text \<open>A bound on the length of a serialisation, at most six characters for one of a string.\<close>

fun dump_bound :: "json \<Rightarrow> nat" where
  "dump_bound JNull = 4"
| "dump_bound (JBool b) = 5"
| "dump_bound (JInt i) = length (int_str i)"
| "dump_bound (JFloat s) = length s"
| "dump_bound (JStr s) = 6 * length s + 2"
| "dump_bound (JArr vs) = 2 + sum_list (map (\<lambda>v. dump_bound v + 1) vs)"
| "dump_bound (JObj kvs) = 2 + sum_list (map (\<lambda>(k, v). dump_bound v + 6 * length k + 4) kvs)"

lemma escape_char_length: "length (escape_char c) \<le> 6"
  by (simp add: escape_char_def hex4_def Let_def)

lemma quote_str_length: "length (quote_str s) \<le> 6 * length s + 2"
proof -
  have "length (concat (map escape_char s)) \<le> 6 * length s"
    by (induction s) (auto intro: order_trans [OF add_mono [OF escape_char_length]])
  then show ?thesis by (simp add: quote_str_def)
qed

lemma join_length: "length (join sep xs) \<le> sum_list (map (\<lambda>x. length x + length sep) xs)"
  by (induction sep xs rule: join.induct) auto

lemma sum_list_insort: "sum_list (map g (insort_key k x xs)) = g x + (sum_list (map g xs) :: nat)"
  by (induction xs) simp_all

lemma sum_list_sort: "sum_list (map g (sort_key k xs)) = (sum_list (map g xs) :: nat)"
  by (induction xs) (simp_all add: sum_list_insort)

lemma dumps_bound: "length (dumps j) \<le> dump_bound j"
proof (induction j rule: dumps.induct)
  case (5 s)
  show ?case using quote_str_length [of s] by simp
next
  case (6 vs)
  have "length (join '','' (map dumps vs)) \<le> sum_list (map (\<lambda>v. dump_bound v + 1) vs)"
    using join_length [of "'',''" "map dumps vs"] sum_list_mono [of vs "\<lambda>v. length (dumps v) + 1" "\<lambda>v. dump_bound v + 1"] 6
    by (simp add: o_def)
  then show ?case by simp
next
  case (7 kvs)
  let ?f = "\<lambda>(k, t). quote_str k @ '':'' @ t" and ?l = "map (\<lambda>(k, v). (k, dumps v)) kvs"
  have "length (join '','' (map ?f (sort_key fst ?l))) \<le> sum_list (map (\<lambda>x. length (?f x) + 1) (sort_key fst ?l))"
    using join_length [of "'',''" "map ?f (sort_key fst ?l)"] by (simp add: o_def)
  also have "\<dots> = sum_list (map (\<lambda>(k, v). length (quote_str k) + length (dumps v) + 2) kvs)"
    unfolding sum_list_sort by (simp add: o_def case_prod_unfold)
  also have "\<dots> \<le> sum_list (map (\<lambda>(k, v). dump_bound v + 6 * length k + 4) kvs)"
  proof (rule sum_list_mono)
    fix kv assume kv: "kv \<in> set kvs"
    obtain k v where [simp]: "kv = (k, v)" by (cases kv)
    have "length (dumps v) \<le> dump_bound v" using 7 kv by fastforce
    then show "(case kv of (k, v) \<Rightarrow> length (quote_str k) + length (dumps v) + 2)
        \<le> (case kv of (k, v) \<Rightarrow> dump_bound v + 6 * length k + 4)"
      using quote_str_length [of k] by simp
  qed
  finally show ?case by simp
qed simp_all

lemma utf8_length: "length (utf8 s) \<le> 2 * length s"
  by (induction s) (auto simp: utf8_def utf8_char_def)

lemma sha256_hex_length [simp]: "is_sha256_hex s \<Longrightarrow> length s = 64"
  by (simp add: is_sha256_hex_def)

definition demo_doc :: finding_doc where
  "demo_doc = finding_document FINDING_EVENT demo_fingerprint demo_finding
     (demo_target_row\<lparr>tg_last_attempt_at := Some 300, tg_last_confirmed_at := Some 300\<rparr>)
     (Some (demo_finding_key, demo_finding_event))"

lemma demo_hex [simp]: "is_sha256_hex demo_fingerprint" "is_sha256_hex demo_finding_key"
  by (simp_all add: demo_fingerprint_def demo_finding_key_def finding_event_key_def)

lemma demo_numbers: "nat_str (Suc 0) = ''1''" "nat_str 22 = ''22''" by code_simp+

lemma demo_iso: "iso_utc 300 = ''1970-01-01T00:00:00.000300Z''" by code_simp

lemma demo_doc_json_bound: "dump_bound (finding_doc_json demo_doc) \<le> 32768"
  by (simp add: demo_doc_def finding_document_def finding_doc_json_def finding_record_json_def finding_event_json_def
    record_of_rows_def event_of_row_def service_json_def jopt_def jtime_def demo_iso demo_finding_def opened_finding_row_def
    demo_exposure_def new_exposure_row_def demo_defs demo_finding_event_def int_str_def demo_target_row_def new_target_row_def
    demo_numbers)

lemma demo_texts:
  "is_rule_key ''any-tcp''" "is_bounded_text ''Exposed service''" "\<not> is_blank ''Exposed service''"
  "is_long_bounded_text ''A service is reachable.''" "\<not> is_blank ''A service is reachable.''"
  "is_bounded_text ''ssh''" "\<not> is_blank ''ssh''" "is_bounded_text ''attempt-1''" "\<not> is_blank ''attempt-1''"
  "is_generation 1"
  by code_simp+

lemma demo_public: "err_of (validate_public_ipv4 ''192.0.2.7'') = None"
  by (simp add: validate_public_ipv4_def validate_ipv4_def len_between_def ipv4_parse_def ipv4_str_def octets_def
      ipv4_of_octets_def demo_octets documentation_networks_def in_network_def netmask_def mask_eq_exp_minus_1)

lemma demo_doc_valid: "validate_finding_doc demo_doc = None"
  by (simp add: validate_finding_doc_def demo_doc_def finding_document_def record_of_rows_def event_of_row_def
    validate_finding_record_def validate_finding_fields_def validate_state_and_timeline_None validate_finding_event_def
    validate_event_source_def validate_transition_def validate_document_kind_def validate_finding_service_def service_text_ok_def
    demo_finding_def opened_finding_row_def demo_exposure_def new_exposure_row_def demo_defs demo_finding_event_def
    demo_target_row_def new_target_row_def demo_texts demo_public opt_ok_def is_port_def is_resolution_reason_def)


definition demo_payload :: json where
  "demo_payload = finding_doc_json demo_doc"

lemma demo_payload_valid: "validate_finding_payload demo_doc = Inr demo_payload"
proof -
  have "length (utf8 (canonical_json (finding_doc_json demo_doc))) \<le> 2 * length (dumps (finding_doc_json demo_doc))"
    using utf8_length by (simp add: canonical_json_def)
  also have "\<dots> \<le> 2 * 32768" using dumps_bound [of "finding_doc_json demo_doc"] demo_doc_json_bound by linarith
  finally show ?thesis by (simp add: validate_finding_payload_def demo_doc_valid demo_payload_def)
qed

definition demo_handoff_key :: string where
  "demo_handoff_key = stable_hash [JStr ''act-handoff-v1'', JStr ''finding_event'', JStr demo_finding_key, JStr ''findings'']"

definition demo_handoff :: handoff_row where
  "demo_handoff = new_handoff Event_handoff demo_fingerprint (Some demo_finding_key) None (Some ''attempt-1'') ''findings''
     (''findings/events/'' @ demo_fingerprint @ ''/'' @ demo_finding_key @ ''.json'') demo_payload 0"

definition demo_queued :: db where
  "demo_queued = demo_exposed\<lparr>handoffs := [(demo_handoff_key, demo_handoff)], db_clock := 1\<rparr>"

lemma demo_exposed_outbox [simp]:
  "handoffs demo_exposed = []" "finding_events demo_exposed = [(demo_finding_key, demo_finding_event)]"
  by (simp_all add: demo_exposed_def demo_opened_def demo_attempted_def demo_target_def demo_fresh_def fresh_db_def)

lemma demo_event_queued:
  "queue_finding_event demo_finding_key demo_fingerprint (Some ''attempt-1'') ''findings'' demo_exposed
     = (Inr demo_handoff_key, demo_queued)"
proof -
  have "finding_payload demo_fingerprint FINDING_EVENT (Some (demo_finding_key, demo_finding_event)) demo_exposed
     = (Inr demo_payload, demo_exposed)"
    using demo_payload_valid
    by (simp add: finding_payload_def run_defs tbl_get_def demo_attempted_targets demo_doc_def)
      (simp add: demo_finding_def opened_finding_row_def)
  moreover have "handoff_row_ok demo_handoff_key demo_handoff"
    by (simp add: handoff_row_ok_def demo_handoff_def new_handoff_def btrim_nonempty_def demo_handoff_key_def)
  ultimately show ?thesis
    by (simp add: queue_finding_event_def run_defs tbl_get_def insert_handoff_def clock_timestamp_def demo_queued_def
        demo_handoff_key_def demo_handoff_def)
qed

lemma demo_finding_queued:
  "ensure_finding (scan_cause demo_scan (Some ''findings'') True) (Some Ex_opened)
     (demo_target_row\<lparr>tg_last_attempt_at := Some 300, tg_last_confirmed_at := Some 300\<rparr>)
     (demo_tid, ''tcp'', 22) demo_exposure ''any-tcp'' demo_rule None demo_opened
     = (Inr (Some demo_handoff_key), demo_queued)"
proof -
  let ?c = "scan_cause demo_scan (Some ''findings'') True"
  have key: "finding_event_key demo_fingerprint ?c OPENED 1 = demo_finding_key"
    by (simp add: demo_finding_key_def finding_event_key_def)
  have row: "opened_finding_row (demo_tid, ''tcp'', 22) demo_exposure ''any-tcp'' demo_rule 300 1 demo_finding_key
      = demo_finding" by (simp add: demo_finding_def)
  have ev: "insert_finding_event demo_finding_key demo_finding_event
      (findings_update (tbl_put demo_fingerprint demo_finding) demo_opened) = (Inr (), demo_exposed)"
    using demo_finding_rows_ok
    by (simp add: insert_finding_event_def repo_Inr)
      (simp add: demo_finding_event_def demo_exposed_def tbl_put_def demo_opened_def demo_attempted_def
        demo_target_def demo_fresh_def fresh_db_def)
  show ?thesis
    using demo_finding_rows_ok demo_event_queued ev
    by (simp add: ensure_finding_def run_defs finding_change_of_def publish_transition_def key row
        bucket_set_def bucket_or_empty_def flip: demo_fingerprint_def)
      (simp add: demo_finding_event_def bindM_def returnM_def)
qed

lemma demo_queue_ingested:
  "ingest_scan demo_scan [demo_observation] demo_objects True (Some ''findings'') True demo_target
     = (Inr (demo_ingested\<lparr>ir_handoff_keys := [demo_handoff_key]\<rparr>), demo_queued)"
proof -
  have eligible: "is_state_eligible demo_scan True demo_target_row"
    by (simp add: is_state_eligible_def is_current_attempt_def demo_target_row_def new_target_row_def
        event_status_def demo_defs)
  have rec: "reconcile_finding_keys (scan_cause demo_scan (Some ''findings'') True) demo_tid
      [((''tcp'', 22), Ex_opened)] [(''tcp'', 22)] demo_opened = (Inr [demo_handoff_key], demo_queued)"
    by (simp add: reconcile_finding_keys_def run_defs sorted_set_def reconcile_key_def demo_attempted_targets
        demo_rules_def match_step_def findings_of_def existing_for_def demo_rule_matches demo_finding_queued
        append_key_def tbl_get_def)
  have "apply_scan demo_scan [demo_observation] (Some ''findings'') True demo_attempted
      = (Inr [demo_handoff_key], demo_queued)"
    using demo_evidence_applied rec by (simp add: apply_scan_def run_defs) (simp add: demo_scan_def)
  moreover have "scan_attempts demo_target = []" "en_generation demo_scan = tg_current_generation demo_target_row"
    by (simp_all add: demo_target_def demo_fresh_def fresh_db_def demo_scan_def)
  ultimately show ?thesis
    using demo_scan_checked demo_attempt_stored eligible
    by (simp add: ingest_scan_def run_defs demo_ingested_def)
qed

lemma demo_queued_reachable: "repo_reachable demo_queued"
  by (rule repo_reachable.step [OF demo_target_reachable]) (rule repo_step.scan [OF demo_queue_ingested])

lemma demo_queued_handoff: "tbl_get (handoffs demo_queued) demo_handoff_key = Some demo_handoff"
  by (simp add: demo_queued_def tbl_get_def)

end
