(* ===== verification/Parser_Guarantees.thy ===== *)
theory Parser_Guarantees
  imports Parser_Replay Parser_Demo
begin

text \<open>
  The guarantees of the parser's repository that the rest of the system relies on, each
  with a witness on the history of \<^verbatim>\<open>Parser_Demo\<close>.
\<close>

section \<open>Properties\<close>

text \<open>
  C1. Nothing stale is served: in every reachable state, an open exposure and an open
  finding belong to a target that is active, and were observed at an address that is bound
  to this target now. Removals, address changes and generation gaps
  (\<^verbatim>\<open>apply_target_event\<close>) close or resolve everything else in the same transaction.
\<close>

theorem open_state_is_bound:
  assumes "repo_reachable s"
  shows "(tbl_get (exposures s) (tid, key) = Some e \<and> ex_state e = Exposed \<longrightarrow>
        (\<exists>t. tbl_get (targets s) tid = Some t \<and> tg_status t = Active
           \<and> ex_observed_address e \<in> set (tg_current_addresses t)))
    \<and> (tbl_get (findings s) fp = Some f \<and> fi_status f = OPEN \<longrightarrow>
        (\<exists>t. tbl_get (targets s) (fi_target_id f) = Some t \<and> tg_status t = Active
           \<and> fi_observed_address f \<in> set (tg_current_addresses t)))"
proof -
  have "serving_ok s" using repo_reachable_ok [OF assms] by (simp add: served_def)
  then have "tbl_get (exposures s) (tid, key) = Some e \<Longrightarrow> ex_state e = Exposed
      \<Longrightarrow> bound s (fst (tid, key)) (ex_observed_address e)"
    "tbl_get (findings s) fp = Some f \<Longrightarrow> fi_status f = OPEN \<Longrightarrow> bound s (fi_target_id f) (fi_observed_address f)"
    unfolding serving_ok_def open_only_at_def by blast+
  then show ?thesis by (auto simp: bound_def split: option.splits)
qed

theorem open_state_is_bound_witness:
  "\<exists>t. tbl_get (targets demo_exposed) demo_tid = Some t \<and> tg_status t = Active
     \<and> ''192.0.2.7'' \<in> set (tg_current_addresses t)"
  using open_state_is_bound [OF demo_exposed_reachable, of "demo_tid" "(''tcp'', 22)" demo_exposure]
  by (simp add: tbl_get_def demo_exposure_def new_exposure_row_def demo_observation_def)

text \<open>
  C11. A completed reconciliation leaves exactly the right findings: for every target and
  service, a finding is open for a detection rule if and only if the target is active, the
  exposure is open and the rule is enabled and matches, and every open finding shows the
  address and service of its exposure and the text and severity of its rule.
\<close>

theorem reconciliation_settles:
  assumes "repo_reachable s"
    and "reconcile_all invocation_key bucket queue now s = (Inr r, s')" "\<not> rc_duplicate r"
  shows "service_settled s' (tid, protocol, port)"
  using reconcile_all_settles [OF assms(2,3)] repo_reachable_ok [OF assms(1)]
  by (simp add: served_def)

theorem reconciliation_settles_witness: "service_settled demo_reconciled (demo_tid, ''tcp'', 22)"
  using reconciliation_settles [OF demo_exposed_reachable demo_run_completed]
  by (simp add: demo_reconciliation_def)

text \<open>
  C4. A scan changes an exposure only within its mandate: the ingestion is no duplicate
  and state-eligible, the exposure is on the scanned target, the port is covered by the
  scan's own complete coverage, and no eligible attempt of this generation that covers the
  port completed later (ties broken by the attempt identifier). In particular partial,
  failed, unvalidated and stale scans never change an exposure.
\<close>

theorem scan_within_mandate:
  assumes "repo_reachable s"
    and "ingest_scan env obs objects validated bucket queue s = (Inr r, s')"
    and "tbl_get (exposures s') (tid, protocol, port) \<noteq> tbl_get (exposures s) (tid, protocol, port)"
  shows "ir_state_eligible r \<and> \<not> ir_duplicate r \<and> tid = en_target_id env
     \<and> covered (en_coverage env) protocol port
     \<and> (\<forall>c \<in> set (port_candidates s tid (en_generation env) protocol port).
          c \<le> (en_scan_completed_at env, en_attempt_id env))"
  using ingest_scan_extent [OF assms(2) repo_reachable_coverage [OF assms(1)] assms(3)] by simp

theorem scan_within_mandate_witness: "covered (en_coverage demo_scan) ''tcp'' 22"
proof -
  have "exposures demo_target = []" by (simp add: demo_target_def demo_fresh_def fresh_db_def)
  then have "tbl_get (exposures demo_exposed) (demo_tid, ''tcp'', 22)
      \<noteq> tbl_get (exposures demo_target) (demo_tid, ''tcp'', 22)"
    by (simp add: tbl_get_def)
  from scan_within_mandate [OF demo_target_reachable demo_scan_ingested this]
  show ?thesis by blast
qed

text \<open>
  C12. Removing a target closes everything it had: after an accepted removal the target is
  removed, none of its exposures is open and none of its findings is open, and the
  exposures and findings of all other targets are what they were.
\<close>

theorem removal_closes_target:
  assumes "repo_reachable s" "ev_event_type ev = Remove"
    and run: "apply_target_event ev bucket queue s = (Inr True, s')"
    and "tbl_get (target_events s') (ev_event_id ev) = Some v" "ter_accepted v"
  shows "(\<exists>t. tbl_get (targets s') (ev_target_id ev) = Some t \<and> tg_status t = Removed)
     \<and> open_only_at (ev_target_id ev) (\<lambda>_. False) s'
     \<and> other_targets_same (ev_target_id ev) s s'"
proof -
  have "repo_ok s" using repo_reachable_ok [OF assms(1)] by (simp add: served_def)
  from applied_event_spec [OF this run] obtain as d s1 where
    dec: "decide_event ev as s = (Inr d, s1)" and frame: "targets s' = targets s1"
    and row: "tbl_get (target_events s') (ev_event_id ev)
      = Some (target_event_row_of ev as (dec_accepted d) (dec_stale d))"
    and other: "other_targets_same (ev_target_id ev) s s'"
    and closed: "left_open ev as d = Some (\<lambda>_. False) \<Longrightarrow> open_only_at (ev_target_id ev) (\<lambda>_. False) s'"
    by metis
  have acc: "dec_accepted d" using assms(4,5) row by (auto simp: target_event_row_of_def Let_def)
  have "open_only_at (ev_target_id ev) (\<lambda>_. False) s'"
    by (rule closed) (simp add: left_open_def acc assms(2))
  moreover have "\<exists>t. tbl_get (targets s') (ev_target_id ev) = Some t \<and> tg_status t = Removed"
    using decide_event_targets(2) [OF dec] acc frame assms(2) by (auto simp: event_status_def)
  ultimately show ?thesis using other by blast
qed

theorem removal_closes_target_witness: "open_only_at demo_tid (\<lambda>_. False) demo_removed"
proof -
  have "tbl_get (target_events demo_removed) (ev_event_id demo_removal)
      = Some (target_event_row_of demo_removal [] True False)"
    by (simp add: demo_removed_def demo_target_def tbl_get_def demo_removal_def)
  from removal_closes_target [OF demo_target_reachable _ demo_removal_applied this]
  show ?thesis by (simp add: target_event_row_of_def Let_def demo_removal_def)
qed

text \<open>
  Along every step of the system, whether the operation
  returns or raises, an exposure row never disappears, keeps its first opening time, never decreases in the lexicographic order of
  generation, confirmation time and attempt, never decreases
  its version and stays well-formed; and a target keeps its provider identity and never decreases in the lexicographic order of
  generation and observation. A newer generation may carry an older time.
\<close>

theorem evidence_is_monotone:
  assumes "repo_step s s'"
  shows "exposure_le k (tbl_get (exposures s) k) (tbl_get (exposures s') k)
     \<and> target_le (tbl_get (targets s) tid) (tbl_get (targets s') tid)"
  using repo_step_evolves [OF assms] unfolding evolves_def by blast

theorem evidence_is_monotone_witness:
  "target_le (tbl_get (targets demo_target) demo_tid) (tbl_get (targets demo_exposed) demo_tid)"
  using evidence_is_monotone [OF repo_step.scan [OF demo_scan_ingested]] by blast

text \<open>
  C21. A redelivered scan is recognised: once an envelope was ingested, ingesting it again
  in the resulting state changes nothing, reports a duplicate, and reports the staleness
  and eligibility that were recorded the first time, whatever observations, validation
  result or publication settings the second delivery brings.
\<close>

theorem scan_redelivery_is_duplicate:
  assumes "ingest_scan env obs objects validated bucket queue s = (Inr r, s')"
  shows "\<exists>r'. ingest_scan env obs' objects validated' bucket' queue' s' = (Inr r', s') \<and> ir_duplicate r'
     \<and> ir_stale_generation r' = ir_stale_generation r \<and> ir_state_eligible r' = ir_state_eligible r"
  using assms by (rule ingest_scan_replay)

theorem scan_redelivery_is_duplicate_witness:
  "\<exists>r'. ingest_scan demo_scan [] demo_objects False None False demo_exposed = (Inr r', demo_exposed) \<and> ir_duplicate r'
     \<and> ir_state_eligible r'"
  using scan_redelivery_is_duplicate [OF demo_scan_ingested, of "[]" False None False]
  by (auto simp: demo_ingested_def)

text \<open>
  C22. A redelivered inventory event is recognised: once an event was applied, accepted or
  not, applying it again changes nothing and returns false.
\<close>

theorem event_redelivery_is_duplicate:
  assumes "apply_target_event ev bucket queue s = (Inr r, s')"
  shows "apply_target_event ev bucket' queue' s' = (Inr False, s')"
  using assms by (rule apply_target_event_replay)

theorem event_redelivery_is_duplicate_witness:
  "apply_target_event demo_event None True demo_target = (Inr False, demo_target)"
  using event_redelivery_is_duplicate [OF demo_event_applied] .

text \<open>
  A repeated reconciliation is recognised: with the same invocation key it changes
  nothing, is reported as a duplicate and returns the recorded number of examined findings.
\<close>

theorem reconciliation_redelivery_is_duplicate:
  assumes "reconcile_all invocation_key bucket queue now s = (Inr r, s')" "queue' \<longrightarrow> bucket_set bucket'"
  shows "\<exists>r'. reconcile_all invocation_key bucket' queue' now' s' = (Inr r', s') \<and> rc_duplicate r'
     \<and> rc_findings_examined r' = rc_findings_examined r"
  using assms by (rule reconcile_all_replay)

theorem reconciliation_redelivery_is_duplicate_witness:
  "\<exists>r'. reconcile_all ''run-1'' (Some ''bucket'') True 900 demo_reconciled = (Inr r', demo_reconciled)
     \<and> rc_duplicate r' \<and> rc_findings_examined r' = 1"
  using reconciliation_redelivery_is_duplicate [OF demo_run_completed, of True "Some ''bucket''" 900]
  by (simp add: bucket_set_def demo_reconciliation_def)

text \<open>
  C23. A scan that is not state-eligible is evidence only: exposures, findings, their event
  logs, handoffs, runs, target events and the address bindings are what they were.
\<close>

theorem ineligible_scan_is_evidence_only:
  assumes "ingest_scan env obs objects validated bucket queue s = (Inr r, s')" "\<not> ir_state_eligible r"
  shows "evidence_only s s'"
  using ingest_scan_cases [OF assms(1)] assms(2)
  by (elim disjE exE conjE) (auto simp: evid.refl dest: store_attempt_evidence(1))

theorem ineligible_scan_is_evidence_only_witness:
  "\<exists>s'. ingest_scan demo_scan [demo_observation] demo_objects False None False demo_target
       = (Inr (demo_ingested\<lparr>ir_state_eligible := False\<rparr>), s') \<and> evidence_only demo_target s'"
  using demo_unvalidated_scan ineligible_scan_is_evidence_only
  by (metis ingest_result.select_convs(3) ingest_result.update_convs(3) ingest_result.surjective)

text \<open>
  C24. A stale inventory event changes no target, exposure or finding: when the target is
  known and the event is of an older generation, or of the same and observed earlier, only
  the event itself is recorded, as stale and not accepted.
\<close>

theorem stale_event_is_recorded_only:
  assumes "repo_reachable s" "apply_target_event ev bucket queue s = (Inr True, s')"
    and "tbl_get (targets s) (ev_target_id ev) = Some t" "\<not> event_accepted ev t"
  shows "targets s' = targets s \<and> exposures s' = exposures s \<and> findings s' = findings s
     \<and> (\<exists>v. tbl_get (target_events s') (ev_event_id ev) = Some v \<and> \<not> ter_accepted v)"
proof -
  have "repo_ok s" using repo_reachable_ok [OF assms(1)] by (simp add: served_def)
  from applied_event_spec [OF this assms(2)] obtain as d s1 where
    dec: "decide_event ev as s = (Inr d, s1)" and tg: "targets s' = targets s1"
    and row: "tbl_get (target_events s') (ev_event_id ev)
      = Some (target_event_row_of ev as (dec_accepted d) (dec_stale d))"
    and same: "left_open ev as d = None \<Longrightarrow> exposures s' = exposures s \<and> findings s' = findings s"
    by metis
  have "\<not> dec_accepted d" using decide_event_targets(5) [OF dec assms(3)] assms(4) by simp
  moreover from this have "targets s' = targets s" using decide_event_targets(3) [OF dec] tg by simp
  ultimately show ?thesis using row same by (simp add: left_open_def target_event_row_of_def Let_def)
qed

theorem stale_event_is_recorded_only_witness:
  "\<exists>s'. apply_target_event demo_late None False demo_target = (Inr True, s') \<and> targets s' = targets demo_target"
proof -
  obtain s' where run: "apply_target_event demo_late None False demo_target = (Inr True, s')"
    using demo_late_applied(1) by blast
  have "tbl_get (targets demo_target) (ev_target_id demo_late) = Some demo_target_row"
    using demo_target_lookup by (simp add: demo_late_def)
  from stale_event_is_recorded_only [OF demo_target_reachable run this demo_late_applied(2)] run
  show ?thesis by blast
qed

text \<open>
  C25. A change of the address binding closes what was seen elsewhere: after an accepted
  event for a known target, an open exposure or open finding of the target was observed at
  an address of the new binding; and when the target reappears as new across a generation
  gap while it is still active, nothing of it is left open.
\<close>

theorem rebinding_closes_old_addresses:
  assumes "repo_reachable s" "apply_target_event ev bucket queue s = (Inr True, s')"
    and "target_addresses ev = Inr addresses"
    and "tbl_get (targets s) (ev_target_id ev) = Some t" "event_accepted ev t" "ev_event_type ev = Upsert"
  shows "open_only_at (ev_target_id ev) (\<lambda>a. a \<in> set addresses) s'
     \<and> (ev_scan_reason ev = Some ''new_target'' \<and> tg_status t = Active
          \<and> tg_current_generation t + 1 < ev_generation ev \<longrightarrow> open_only_at (ev_target_id ev) (\<lambda>_. False) s')"
proof -
  have ok: "repo_ok s" using repo_reachable_ok [OF assms(1)] by (simp add: served_def)
  obtain as d s1 where addr: "target_addresses ev = Inr as" and dec': "decide_event ev as s = (Inr d, s1)"
    and tg: "targets s' = targets s1"
    and closed': "\<And>p. left_open ev as d = Some p \<Longrightarrow> open_only_at (ev_target_id ev) p s'"
    by (rule applied_event_spec [OF ok assms(2)]) blast
  have "as = addresses" using addr assms(3) by simp
  note dec = dec' [unfolded this] and closed = closed' [unfolded this]
  have acc: "dec_accepted d" using decide_event_targets(5) [OF dec assms(4)] assms(5) by simp
  have "served s'"
    using repo_reachable_ok [OF repo_reachable.step [OF assms(1) repo_step.event [OF assms(2)]]] by simp
  then have "open_only_at (ev_target_id ev) (bound s' (ev_target_id ev)) s'"
    by (simp add: served_def serving_ok_def)
  moreover have "bound s' (ev_target_id ev) a \<Longrightarrow> a \<in> set addresses" for a
    using decide_event_targets(2) [OF dec] acc tg by (auto simp: bound_def split: option.splits)
  ultimately have "open_only_at (ev_target_id ev) (\<lambda>a. a \<in> set addresses) s'"
    by (rule open_only_at_mono)
  moreover have "open_only_at (ev_target_id ev) (\<lambda>_. False) s'"
    if "ev_scan_reason ev = Some ''new_target''" "tg_status t = Active" "tg_current_generation t + 1 < ev_generation ev"
  proof (rule closed)
    have "dec_gap d"
      using dec assms(4,5,6) that by (auto simp: decide_event_def repo_Inr split: if_splits)
    then show "left_open ev addresses d = Some (\<lambda>_. False)" by (simp add: left_open_def acc)
  qed
  ultimately show ?thesis by blast
qed

theorem rebinding_closes_old_addresses_witness:
  "\<exists>s'. apply_target_event demo_rebind None False demo_target = (Inr True, s')
     \<and> open_only_at demo_tid (\<lambda>_. False) s'"
proof -
  obtain s' where run: "apply_target_event demo_rebind None False demo_target = (Inr True, s')"
    using demo_rebind_applied(1) by blast
  have ids: "ev_target_id demo_rebind = demo_tid" "ev_event_type demo_rebind = Upsert"
    "ev_scan_reason demo_rebind = Some ''new_target''" "ev_generation demo_rebind = 3"
    by (simp_all add: demo_rebind_def demo_event_def)
  with demo_target_lookup have "tbl_get (targets demo_target) (ev_target_id demo_rebind) = Some demo_target_row"
    by simp
  from rebinding_closes_old_addresses [OF demo_target_reachable run demo_rebind_applied(3) this
      demo_rebind_applied(2) ids(2)] run ids
  show ?thesis by auto
qed

text \<open>
  C26. Every queued handoff carries the SHA-256 of its own canonical payload, and the
  payload is the serialisation of a document that the shared finding contract accepts,
  within the size bound of the contract.
\<close>

theorem handoffs_carry_their_digest:
  assumes "repo_reachable s" "tbl_get (handoffs s) k = Some h"
  shows "ho_payload_sha256 h = payload_hash (ho_payload h) \<and> contract_payload (ho_payload h)"
  using repo_reachable_ok [OF assms(1)] assms(2) by (simp add: handoffs_ok_def handoff_ok_def)

theorem handoffs_carry_their_digest_witness:
  "ho_payload_sha256 demo_handoff = payload_hash demo_payload \<and> contract_payload demo_payload"
  using handoffs_carry_their_digest [OF demo_queued_reachable demo_queued_handoff]
  by (simp add: demo_handoff_def new_handoff_def)

text \<open>
  C27. Every stored finding is stored under the fingerprint of its rule and service and
  has the status, resolution fields and timeline that the published contract asks for.
\<close>

theorem stored_findings_meet_the_contract:
  assumes "repo_reachable s" "tbl_get (findings s) fp = Some f"
  shows "fp = finding_fingerprint (fi_rule_key f) (fi_target_id f) (fi_protocol f) (fi_port f)
     \<and> validate_state_and_timeline (record_of_rows fp f t) = None"
proof -
  have "finding_wf fp f"
    using repo_reachable_ok [OF assms(1)] assms(2) by (auto simp: served_def repo_ok_def dest: findings_okD)
  then show ?thesis
    using finding_wf_timeline [of fp f] by (auto simp: finding_wf_def fingerprint_for_def service_of_def)
qed

theorem stored_findings_meet_the_contract_witness:
  "validate_state_and_timeline (record_of_rows demo_fingerprint demo_finding demo_target_row) = None"
  using stored_findings_meet_the_contract [OF demo_exposed_reachable, of demo_fingerprint demo_finding]
  by (simp add: tbl_get_def)

text \<open>
  C28. Every recorded finding event is a transition of the contract's state machine: its
  statuses are those of its event type and its reason is allowed for it.
\<close>

theorem recorded_transitions_are_valid:
  assumes "repo_reachable s" "tbl_get (finding_events s) k = Some v"
  shows "validate_transition (event_of_row k v) = None"
  using repo_reachable_events [OF assms(1)] assms(2) by (simp add: events_ok_def event_row_valid_def)

theorem recorded_transitions_are_valid_witness:
  "validate_transition (event_of_row demo_finding_key demo_finding_event) = None"
  using recorded_transitions_are_valid [OF demo_exposed_reachable, of demo_finding_key]
  by (simp add: demo_exposed_def tbl_get_def)

end
