(* ===== verification/Contract_Event.thy ===== *)
theory Contract_Event
  imports Contract_Target
begin

text \<open>
  The AWS context and the two target events of the contracts: \<^verbatim>\<open>TargetEvent\<close> (work for the
  scanner) and \<^verbatim>\<open>TargetRemoval\<close> (tombstone), with the consistency checks between the
  target, its source observation, its AWS context, the policy change and the directive.
\<close>

section \<open>AWS context\<close>

record aws_tags =
  tag_application :: "string option"
  tag_environment :: "string option"
  tag_name :: "string option"
  tag_service :: "string option"

definition tag_ok :: "string option \<Rightarrow> validation" where
  "tag_ok v = checks
     [fieldc (opt_ok is_tag_value v) ''tag'',
      require (opt_ok (\<lambda>s. \<not> is_blank s) v) (Value_error ''tag values must not be blank'')]"

definition validate_tags :: "aws_tags \<Rightarrow> validation" where
  "validate_tags t = checks
     [tag_ok (tag_application t), tag_ok (tag_environment t), tag_ok (tag_name t),
      tag_ok (tag_service t)]"

definition tags_json :: "aws_tags \<Rightarrow> json" where
  "tags_json t = JObj
     [(''application'', jopt JStr (tag_application t)),
      (''environment'', jopt JStr (tag_environment t)),
      (''name'', jopt JStr (tag_name t)), (''service'', jopt JStr (tag_service t))]"

record aws_context =
  account_id :: string
  region :: string
  network_interface_id :: string
  private_ip :: string
  public_ip :: string
  instance_id :: "string option"
  security_group_ids :: "string list"
  policy_fingerprint :: string
  candidate_tcp_port_ranges :: "tcp_port_range list"
  ac_source_event_name :: string
  ac_source_event_id :: string
  ac_source_request_id :: string
  tags :: aws_tags

definition validate_context :: "aws_context \<Rightarrow> validation" where
  "validate_context c = checks
     [fieldc (is_account_id (account_id c)) ''account_id'',
      fieldc (is_region (region c)) ''region'',
      fieldc (is_eni (network_interface_id c)) ''network_interface_id'',
      err_of (validate_ipv4 (private_ip c)),
      err_of (validate_public_ipv4 (public_ip c)),
      fieldc (opt_ok is_instance_id (instance_id c)) ''instance_id'',
      fieldc (list_all is_security_group (security_group_ids c)
              \<and> length (security_group_ids c) \<le> 64) ''security_group_ids'',
      require (security_group_ids c = sorted_set (security_group_ids c))
        (Value_error ''security_group_ids must be sorted and unique''),
      fieldc (is_sha256_hex (policy_fingerprint c)) ''policy_fingerprint'',
      validate_range_field True ''candidate_tcp_port_ranges'' (candidate_tcp_port_ranges c),
      fieldc (is_source_name (ac_source_event_name c)) ''source_event_name'',
      fieldc (is_bounded_text (ac_source_event_id c)) ''source_event_id'',
      require (\<not> is_blank (ac_source_event_id c)) (Value_error ''source identifiers must not be blank''),
      fieldc (is_bounded_text (ac_source_request_id c)) ''source_request_id'',
      require (\<not> is_blank (ac_source_request_id c)) (Value_error ''source identifiers must not be blank''),
      validate_tags (tags c)]"

text \<open>The fields of a context in JSON, without and with its tags.\<close>

definition context_fields :: "aws_context \<Rightarrow> (string \<times> json) list" where
  "context_fields c =
     [(''account_id'', JStr (account_id c)), (''region'', JStr (region c)),
      (''network_interface_id'', JStr (network_interface_id c)),
      (''private_ip'', JStr (private_ip c)), (''public_ip'', JStr (public_ip c)),
      (''instance_id'', jopt JStr (instance_id c)),
      (''security_group_ids'', JArr (map JStr (security_group_ids c))),
      (''policy_fingerprint'', JStr (policy_fingerprint c)),
      (''candidate_tcp_port_ranges'', JArr (map range_json (candidate_tcp_port_ranges c))),
      (''source_event_name'', JStr (ac_source_event_name c)),
      (''source_event_id'', JStr (ac_source_event_id c)),
      (''source_request_id'', JStr (ac_source_request_id c))]"

definition context_json :: "aws_context \<Rightarrow> json" where
  "context_json c = JObj (context_fields c @ [(''tags'', tags_json (tags c))])"

text \<open>\<^verbatim>\<open>_validate_aws_event_context\<close>\<close>

definition validate_aws_event_context :: "target \<Rightarrow> source_observation \<Rightarrow> aws_context \<Rightarrow> validation" where
  "validate_aws_event_context t s c = checks
     [require (provider t = AWS) (Value_error ''the current runtime supports AWS targets only''),
      require (scope_id t = account_id c \<and> location t = region c
               \<and> resource_id t = network_interface_id c \<and> private_address t = private_ip c
               \<and> public_address t = public_ip c)
        (Value_error ''target identity and addresses must match aws_context''),
      require (source_event_name s = ac_source_event_name c
               \<and> source_event_id s = ac_source_event_id c
               \<and> source_request_id s = ac_source_request_id c)
        (Value_error ''source observation must match aws_context source identifiers'')]"

section \<open>Target event\<close>

record target_event =
  te_schema_version :: string
  te_event_id :: string
  te_event_type :: target_event_type
  te_target :: target
  te_source :: source_observation
  te_policy_change :: "policy_change option"
  te_scan :: scan_directive
  te_aws_context :: aws_context

definition event_identity_payload :: "target_event \<Rightarrow> json" where
  "event_identity_payload e = JObj
     [(''schema_version'', JStr (te_schema_version e)),
      (''event_type'', JStr (event_type_value (te_event_type e))),
      (''target'', target_json (te_target e)), (''source'', source_json (te_source e)),
      (''policy_change'', jopt policy_change_json (te_policy_change e)),
      (''scan'', directive_json (te_scan e)),
      (''aws_context'', JObj (context_fields (te_aws_context e)))]"

definition expected_event_id :: "target_event \<Rightarrow> string" where
  "expected_event_id e =
     namespaced_sha256 ''portscanner.target-event.v1'' (event_identity_payload e)"

primrec expected_event_type :: "scan_reason \<Rightarrow> target_event_type" where
  "expected_event_type NEW_TARGET = TARGET_UPSERT"
| "expected_event_type TARGET_CHANGE = TARGET_UPSERT"
| "expected_event_type POLICY_CHANGE = POLICY_CHANGED"
| "expected_event_type COVERAGE = RESCAN_REQUESTED"
| "expected_event_type MANUAL = RESCAN_REQUESTED"

text \<open>\<^verbatim>\<open>TargetEvent._validate_consistency\<close>\<close>

definition validate_event_consistency :: "target_event \<Rightarrow> validation" where
  "validate_event_consistency e =
     (let t = te_target e; c = te_aws_context e; d = te_scan e in checks
     [validate_aws_event_context t (te_source e) c,
      require (\<not> (sd_target_id d \<noteq> target_id t \<or> sd_target_generation d \<noteq> generation t))
        (Value_error ''scan directive must reference this target generation''),
      require (te_event_type e = expected_event_type (sd_reason d))
        (Value_error ''event_type must match the scan reason''),
      require (\<not> (sd_reason d = TARGET_CHANGE \<and> sd_profile d \<noteq> FAST_FULL_TCP))
        (Value_error ''target_change scans require the fast-full-tcp profile''),
      require (\<not> (sd_reason d = TARGET_CHANGE \<and> candidate_tcp_port_ranges c \<noteq> [full_tcp_port_range]))
        (Value_error ''target_change scans require full TCP coverage''),
      (if sd_reason d = POLICY_CHANGE
       then (case te_policy_change e of
               None \<Rightarrow> Some (Value_error ''policy_change is required for policy_change scans'')
             | Some p \<Rightarrow>
                 require (\<not> (pc_target_id p \<noteq> target_id t
                             \<or> current_fingerprint p \<noteq> policy_fingerprint c
                             \<or> pc_candidate_ranges p \<noteq> candidate_tcp_port_ranges c))
                   (Value_error ''policy_change must match target and aws_context''))
       else require (te_policy_change e = None)
              (Value_error ''policy_change is only valid for policy_change scans'')),
      require (\<not> (sd_profile d = TARGETED_TCP \<and> tcp_port_ranges d \<noteq> candidate_tcp_port_ranges c))
        (Value_error ''targeted-tcp ranges must match AWS policy candidates'')])"

definition validate_event :: "bool \<Rightarrow> target_event \<Rightarrow> validation" where
  "validate_event skip e = checks
     [fieldc (te_schema_version e = ''1.0'') ''schema_version'',
      fieldc (is_sha256_hex (te_event_id e)) ''event_id'',
      fieldc (te_event_type e \<in> {TARGET_UPSERT, POLICY_CHANGED, RESCAN_REQUESTED}) ''event_type'',
      validate_target skip (te_target e),
      validate_source skip (te_source e),
      (case te_policy_change e of None \<Rightarrow> None | Some p \<Rightarrow> validate_policy_change skip p),
      validate_directive skip (te_scan e),
      validate_context (te_aws_context e),
      validate_deterministic_id skip ''event_id'' (te_event_id e) (expected_event_id e),
      validate_event_consistency e]"

definition event_json :: "target_event \<Rightarrow> json" where
  "event_json e = JObj
     [(''schema_version'', JStr (te_schema_version e)), (''event_id'', JStr (te_event_id e)),
      (''event_type'', JStr (event_type_value (te_event_type e))),
      (''target'', target_json (te_target e)), (''source'', source_json (te_source e)),
      (''policy_change'', jopt policy_change_json (te_policy_change e)),
      (''scan'', directive_json (te_scan e)),
      (''aws_context'', context_json (te_aws_context e))]"

definition create_event :: "target_event \<Rightarrow> contract_error + target_event" where
  "create_event = create (\<lambda>i. te_event_id_update (\<lambda>_. i)) expected_event_id validate_event"

lemma validate_skip_option:
  "(case p of None \<Rightarrow> None | Some p \<Rightarrow> validate_policy_change False p) = None
     \<Longrightarrow> (case p of None \<Rightarrow> None | Some p \<Rightarrow> validate_policy_change True p) = None"
  by (auto split: option.splits intro: policy_model.validate_skip)

lemma event_consistency_set_id [simp]:
  "validate_event_consistency (e\<lparr>te_event_id := i\<rparr>) = validate_event_consistency e"
  by (simp add: validate_event_consistency_def cong del: if_weak_cong option.case_cong_weak)

interpretation event_model: deterministic_model te_event_id "\<lambda>i. te_event_id_update (\<lambda>_. i)"
  expected_event_id validate_event
  by unfold_locales
    (simp_all add: expected_event_id_def event_identity_payload_def validate_event_def
      target_model.validate_skip source_model.validate_skip
      directive_model.validate_skip validate_skip_option)

section \<open>Target removal\<close>

record target_removal =
  tr_schema_version :: string
  tr_event_id :: string
  tr_event_type :: target_event_type
  tr_target :: target
  tr_source :: source_observation
  tr_aws_context :: aws_context
  removed_at :: time

definition removal_identity_fields :: "target_removal \<Rightarrow> (string \<times> json) list" where
  "removal_identity_fields r =
     [(''schema_version'', JStr (tr_schema_version r)),
      (''event_type'', JStr (event_type_value (tr_event_type r))),
      (''target'', target_json (tr_target r)), (''source'', source_json (tr_source r)),
      (''aws_context'', context_json (tr_aws_context r)), (''removed_at'', jtime (removed_at r))]"

definition expected_removal_id :: "target_removal \<Rightarrow> string" where
  "expected_removal_id r =
     namespaced_sha256 ''portscanner.target-removal.v1'' (JObj (removal_identity_fields r))"

definition validate_removal :: "bool \<Rightarrow> target_removal \<Rightarrow> validation" where
  "validate_removal skip r = checks
     [fieldc (tr_schema_version r = ''1.0'') ''schema_version'',
      fieldc (is_sha256_hex (tr_event_id r)) ''event_id'',
      fieldc (tr_event_type r = TARGET_REMOVED) ''event_type'',
      validate_target skip (tr_target r),
      validate_source skip (tr_source r),
      validate_context (tr_aws_context r),
      validate_deterministic_id skip ''event_id'' (tr_event_id r) (expected_removal_id r),
      validate_aws_event_context (tr_target r) (tr_source r) (tr_aws_context r),
      require (\<not> removed_at r < collected_at (tr_source r))
        (Value_error ''removed_at must not be earlier than source.collected_at'')]"

definition removal_json :: "target_removal \<Rightarrow> json" where
  "removal_json r = JObj ((''event_id'', JStr (tr_event_id r)) # removal_identity_fields r)"

definition create_removal :: "target_removal \<Rightarrow> contract_error + target_removal" where
  "create_removal = create (\<lambda>i. tr_event_id_update (\<lambda>_. i)) expected_removal_id validate_removal"

interpretation removal_model: deterministic_model tr_event_id "\<lambda>i. tr_event_id_update (\<lambda>_. i)"
  expected_removal_id validate_removal
  by unfold_locales
    (simp_all add: expected_removal_id_def removal_identity_fields_def validate_removal_def
      target_model.validate_skip source_model.validate_skip)

text \<open>
  \<^verbatim>\<open>TargetEvent | TargetRemoval\<close>, discriminated by the event type, and the size check that
  \<^verbatim>\<open>parse_target_event\<close> makes on a document before it is parsed.
\<close>

datatype target_payload = Work target_event | Removal target_removal

definition validate_payload :: "target_payload \<Rightarrow> validation" where
  "validate_payload p = (case p of Work e \<Rightarrow> validate_event False e | Removal r \<Rightarrow> validate_removal False r)"

definition payload_target :: "target_payload \<Rightarrow> target" where
  "payload_target p = (case p of Work e \<Rightarrow> te_target e | Removal r \<Rightarrow> tr_target r)"

definition payload_source :: "target_payload \<Rightarrow> source_observation" where
  "payload_source p = (case p of Work e \<Rightarrow> te_source e | Removal r \<Rightarrow> tr_source r)"

definition payload_event_id :: "target_payload \<Rightarrow> string" where
  "payload_event_id p = (case p of Work e \<Rightarrow> te_event_id e | Removal r \<Rightarrow> tr_event_id r)"

definition payload_event_type :: "target_payload \<Rightarrow> target_event_type" where
  "payload_event_type p = (case p of Work e \<Rightarrow> te_event_type e | Removal r \<Rightarrow> tr_event_type r)"

definition payload_json :: "target_payload \<Rightarrow> json" where
  "payload_json p = (case p of Work e \<Rightarrow> event_json e | Removal r \<Rightarrow> removal_json r)"

end
