(* ===== verification/Json_Parser.thy ===== *)
theory Json_Parser
  imports Json Effects Ipaddress
begin

text \<open>
  \<^verbatim>\<open>json.loads\<close> of the standard library on text: a recursive-descent parser with the hook
  that turns the members of an object into a value. The parser is total; the fuel that its
  recursion counts down is twice the length of the text, which is always enough.

  A string escape above code point 255 is outside the modelled text and has an outcome of
  its own.
\<close>

section \<open>Tokens\<close>

datatype json_error =
    Decode_error        \<comment> \<open>\<^verbatim>\<open>json.JSONDecodeError\<close>\<close>
  | Integer_too_long    \<comment> \<open>the \<^verbatim>\<open>ValueError\<close> of \<^verbatim>\<open>int\<close> beyond 4300 digits\<close>
  | Duplicate_keys      \<comment> \<open>raised by the hook\<close>
  | Unmodelled_text
  | Out_of_fuel

definition is_json_space :: "char \<Rightarrow> bool" where
  "is_json_space c \<longleftrightarrow> code c \<in> {9, 10, 13, 32}"

definition skip_ws :: "string \<Rightarrow> string" where
  "skip_ws s = dropWhile is_json_space s"

definition quote_char :: char where
  "quote_char = CHR 0x22"

definition backslash :: char where
  "backslash = CHR 0x5C"

text \<open>The character that a one-letter escape stands for.\<close>

definition simple_escape :: "char \<Rightarrow> char option" where
  "simple_escape c =
     map_of [(quote_char, quote_char), (backslash, backslash), (CHR ''/'', CHR ''/''),
             (CHR ''b'', CHR 0x08), (CHR ''f'', CHR 0x0C), (CHR ''n'', CHR 0x0A),
             (CHR ''r'', CHR 0x0D), (CHR ''t'', CHR 0x09)] c"

text \<open>The rest of a string after its opening quote.\<close>

fun parse_string :: "string \<Rightarrow> json_error + string \<times> string" where
  "parse_string [] = Inl Decode_error"
| "parse_string (c # cs) =
     (if c = quote_char then Inr ([], cs)
      else if c = backslash then
        (case cs of
           [] \<Rightarrow> Inl Decode_error
         | e # rest \<Rightarrow>
             if e = CHR ''u'' then
               (case rest of
                  a # b # d # f # rest' \<Rightarrow>
                    if \<not> list_all is_hex [a, b, d, f] then Inl Decode_error
                    else if 255 < hex_val [a, b, d, f] then Inl Unmodelled_text
                    else bindR (parse_string rest') (\<lambda>(t, r). Inr (char_of (hex_val [a, b, d, f]) # t, r))
                | _ \<Rightarrow> Inl Decode_error)
             else (case simple_escape e of
                     None \<Rightarrow> Inl Decode_error
                   | Some x \<Rightarrow> bindR (parse_string rest) (\<lambda>(t, r). Inr (x # t, r))))
      else if code c < 32 then Inl Decode_error
      else bindR (parse_string cs) (\<lambda>(t, r). Inr (c # t, r)))"

text \<open>
  A number: \<^verbatim>\<open>(-?(?:0|[1-9]\d*))(\.\d+)?([eE][-+]?\d+)?\<close>, and the three constants that Python
  adds.
\<close>

definition number_int :: "string \<Rightarrow> (string \<times> string) option" where
  "number_int s =
     (let (sign, d) = (case s of c # cs \<Rightarrow> if c = CHR ''-'' then ([c], cs) else ([], s) | [] \<Rightarrow> ([], []))
      in case d of
           [] \<Rightarrow> None
         | c # cs \<Rightarrow>
             if c = CHR ''0'' then Some (sign @ [c], cs)
             else if is_digit c then Some (sign @ takeWhile is_digit d, dropWhile is_digit d)
             else None)"

definition number_frac :: "string \<Rightarrow> string \<times> string" where
  "number_frac s =
     (case s of
        c # d # cs \<Rightarrow> if c = CHR ''.'' \<and> is_digit d
                      then (c # takeWhile is_digit (d # cs), dropWhile is_digit (d # cs)) else ([], s)
      | _ \<Rightarrow> ([], s))"

definition number_exp :: "string \<Rightarrow> string \<times> string" where
  "number_exp s =
     (case s of
        c # cs \<Rightarrow>
          if c = CHR ''e'' \<or> c = CHR ''E'' then
            (let (sign, d) = (case cs of
                   x # xs \<Rightarrow> if x = CHR ''-'' \<or> x = CHR ''+'' then ([x], xs) else ([], cs)
                 | [] \<Rightarrow> ([], []))
             in if takeWhile is_digit d \<noteq> []
                then (c # sign @ takeWhile is_digit d, dropWhile is_digit d) else ([], s))
          else ([], s)
      | [] \<Rightarrow> ([], s))"

definition int_of_literal :: "string \<Rightarrow> int" where
  "int_of_literal s =
     (case s of
        c # cs \<Rightarrow> if c = CHR ''-'' then - int (digits_val cs) else int (digits_val s)
      | [] \<Rightarrow> 0)"

definition parse_constant :: "string \<Rightarrow> json_error + json \<times> string" where
  "parse_constant s =
     (if startswith s ''null'' then Inr (JNull, drop 4 s)
      else if startswith s ''true'' then Inr (JBool True, drop 4 s)
      else if startswith s ''false'' then Inr (JBool False, drop 5 s)
      else if startswith s ''NaN'' then Inr (JFloat ''nan'', drop 3 s)
      else if startswith s ''Infinity'' then Inr (JFloat ''inf'', drop 8 s)
      else if startswith s ''-Infinity'' then Inr (JFloat ''-inf'', drop 9 s)
      else Inl Decode_error)"

definition parse_number :: "string \<Rightarrow> json_error + json \<times> string" where
  "parse_number s =
     (case number_int s of
        None \<Rightarrow> parse_constant s
      | Some (digits, rest) \<Rightarrow>
          (let (frac, rest') = number_frac rest; (ex, rest'') = number_exp rest' in
           if frac = [] \<and> ex = []
           then (if 4300 < length (filter is_digit digits) then Inl Integer_too_long
                 else Inr (JInt (int_of_literal digits), rest''))
           else Inr (JFloat (digits @ frac @ ex), rest'')))"

section \<open>Values\<close>

type_synonym json_hook = "(string \<times> json) list \<Rightarrow> json_error + json"

text \<open>
  \<^verbatim>\<open>scan_once\<close>, the members of an object after its opening brace and a first quote, and the
  elements of an array.
\<close>

fun parse_value :: "nat \<Rightarrow> json_hook \<Rightarrow> string \<Rightarrow> json_error + json \<times> string"
  and parse_members :: "nat \<Rightarrow> json_hook \<Rightarrow> (string \<times> json) list \<Rightarrow> string \<Rightarrow> json_error + json \<times> string"
  and parse_items :: "nat \<Rightarrow> json_hook \<Rightarrow> json list \<Rightarrow> string \<Rightarrow> json_error + json \<times> string" where
  "parse_value 0 hook s = Inl Out_of_fuel"
| "parse_value (Suc n) hook s =
     (case s of
        [] \<Rightarrow> Inl Decode_error
      | c # cs \<Rightarrow>
          if c = quote_char then bindR (parse_string cs) (\<lambda>(t, r). Inr (JStr t, r))
          else if c = CHR 0x7B then
            (case skip_ws cs of
               [] \<Rightarrow> Inl Decode_error
             | d # ds \<Rightarrow>
                 if d = CHR 0x7D then bindR (hook []) (\<lambda>v. Inr (v, ds))
                 else if d = quote_char then parse_members n hook [] ds
                 else Inl Decode_error)
          else if c = CHR 0x5B then
            (case skip_ws cs of
               [] \<Rightarrow> Inl Decode_error
             | d # ds \<Rightarrow> if d = CHR 0x5D then Inr (JArr [], ds) else parse_items n hook [] (d # ds))
          else parse_number s)"
| "parse_members 0 hook acc s = Inl Out_of_fuel"
| "parse_members (Suc n) hook acc s =
     bindR (parse_string s) (\<lambda>(k, r1).
     case skip_ws r1 of
       [] \<Rightarrow> Inl Decode_error
     | c # cs \<Rightarrow>
         if c \<noteq> CHR '':'' then Inl Decode_error
         else bindR (parse_value n hook (skip_ws cs)) (\<lambda>(v, r2).
           case skip_ws r2 of
             [] \<Rightarrow> Inl Decode_error
           | d # ds \<Rightarrow>
               if d = CHR 0x7D then bindR (hook (acc @ [(k, v)])) (\<lambda>x. Inr (x, ds))
               else if d = CHR '','' then
                 (case skip_ws ds of
                    [] \<Rightarrow> Inl Decode_error
                  | e # es \<Rightarrow> if e = quote_char then parse_members n hook (acc @ [(k, v)]) es
                              else Inl Decode_error)
               else Inl Decode_error))"
| "parse_items 0 hook acc s = Inl Out_of_fuel"
| "parse_items (Suc n) hook acc s =
     bindR (parse_value n hook s) (\<lambda>(v, r).
     case skip_ws r of
       [] \<Rightarrow> Inl Decode_error
     | d # ds \<Rightarrow>
         if d = CHR 0x5D then Inr (JArr (acc @ [v]), ds)
         else if d = CHR '','' then parse_items n hook (acc @ [v]) (skip_ws ds)
         else Inl Decode_error)"

text \<open>\<^verbatim>\<open>json.loads\<close>: one value, white space around it, nothing else.\<close>

definition loads :: "json_hook \<Rightarrow> string \<Rightarrow> json_error + json" where
  "loads hook s =
     bindR (parse_value (Suc (2 * length s)) hook (skip_ws s)) (\<lambda>(v, r).
     if skip_ws r = [] then Inr v else Inl Decode_error)"

text \<open>
  The default hook builds a \<^verbatim>\<open>dict\<close>: the last value of a key, at the place of the first. The
  other one refuses repeated keys.
\<close>

definition dict_hook :: json_hook where
  "dict_hook pairs = Inr (JObj (foldl (\<lambda>d (k, v). AList.update k v d) [] pairs))"

definition unique_hook :: json_hook where
  "unique_hook pairs = (if distinct (map fst pairs) then Inr (JObj pairs) else Inl Duplicate_keys)"

section \<open>Termination\<close>

lemma skip_ws_length: "length (skip_ws s) \<le> length s"
  by (simp add: skip_ws_def length_dropWhile_le)

lemma parse_string_shorter: "parse_string s = Inr (t, r) \<Longrightarrow> length r < length s"
proof (induction s arbitrary: t r rule: parse_string.induct)
  case (2 c cs)
  show ?case
  proof (cases "c = quote_char \<or> c \<noteq> backslash")
    case True
    with 2 show ?thesis by (force simp: bindR_Inr split: if_splits)
  next
    case False
    then obtain e rest where cs: "cs = e # rest" using 2(4) by (cases cs) auto
    show ?thesis
    proof (cases "e = CHR ''u''")
      case True
      with False cs 2(4) obtain a b d f rest' where "rest = a # b # d # f # rest'"
        by (auto split: list.splits)
      with True False cs 2(4) show ?thesis
        using 2(1) [of e rest] by (fastforce simp: bindR_Inr split: if_splits)
    next
      case ne: False
      with False cs 2(4) show ?thesis
        using 2(2) [of e rest] by (fastforce simp: bindR_Inr split: option.splits if_splits)
    qed
  qed
qed simp

lemma number_int_shorter: "number_int s = Some (d, r) \<Longrightarrow> length r < length s"
proof -
  have "length (dropWhile is_digit cs) < Suc (length cs)" for cs
    by (meson le_imp_less_Suc length_dropWhile_le)
  then show "number_int s = Some (d, r) \<Longrightarrow> length r < length s"
    by (auto simp: number_int_def Let_def less_SucI split: list.splits if_splits prod.splits)
qed

lemma number_frac_le: "number_frac s = (d, r) \<Longrightarrow> length r \<le> length s"
  by (auto simp: number_frac_def le_SucI length_dropWhile_le split: list.splits if_splits)

lemma number_exp_le: "number_exp s = (d, r) \<Longrightarrow> length r \<le> length s"
  by (auto simp: number_exp_def le_SucI length_dropWhile_le Let_def split: list.splits if_splits)

lemma startswith_drop: "startswith s p \<Longrightarrow> p \<noteq> [] \<Longrightarrow> length (drop (length p) s) < length s"
  by (cases s) (auto simp: startswith_def)

lemma parse_constant_shorter: "parse_constant s = Inr (v, r) \<Longrightarrow> length r < length s"
  using startswith_drop [of s] unfolding parse_constant_def
  by (auto split: if_splits) force+

lemma parse_number_shorter: "parse_number s = Inr (v, r) \<Longrightarrow> length r < length s"
  by (auto simp: parse_number_def Let_def split: option.splits prod.splits if_splits
      dest!: number_int_shorter number_frac_le number_exp_le dest: parse_constant_shorter)

lemma skip_ws_Cons_length: "skip_ws s = c # cs \<Longrightarrow> length cs < length s"
  using skip_ws_length [of s] by simp

text \<open>The successful runs of the member loop, step by step.\<close>

lemma parse_members_Inr:
  assumes "parse_members (Suc n) hook acc s = Inr (x, r)"
  obtains k r1 cs v r2 d ds where "parse_string s = Inr (k, r1)" "skip_ws r1 = CHR '':'' # cs"
    "parse_value n hook (skip_ws cs) = Inr (v, r2)" "skip_ws r2 = d # ds"
    "(d = CHR 0x7D \<and> hook (acc @ [(k, v)]) = Inr x \<and> r = ds)
      \<or> (d = CHR '','' \<and> (\<exists>es. skip_ws ds = quote_char # es
          \<and> parse_members n hook (acc @ [(k, v)]) es = Inr (x, r)))"
proof -
  from assms obtain k r1 where k: "parse_string s = Inr (k, r1)" by (auto simp: bindR_Inr)
  from assms k obtain cs where cs: "skip_ws r1 = CHR '':'' # cs"
    by (auto split: list.splits if_splits)
  from assms k cs obtain v r2 where v: "parse_value n hook (skip_ws cs) = Inr (v, r2)"
    by (auto simp: bindR_Inr)
  from assms k cs v obtain d ds where d: "skip_ws r2 = d # ds"
    by (auto split: list.splits)
  show ?thesis
    using assms k cs v d by (intro that [OF k cs v d]) (auto simp: bindR_Inr split: list.splits if_splits)
qed

lemma parse_items_Inr:
  assumes "parse_items (Suc n) hook acc s = Inr (x, r)"
  obtains v r1 d ds where "parse_value n hook s = Inr (v, r1)" "skip_ws r1 = d # ds"
    "r = ds \<or> parse_items n hook (acc @ [v]) (skip_ws ds) = Inr (x, r)"
proof -
  from assms obtain v r1 where v: "parse_value n hook s = Inr (v, r1)" by (auto simp: bindR_Inr)
  from assms v obtain d ds where d: "skip_ws r1 = d # ds" by (auto split: list.splits)
  show ?thesis using assms v d by (intro that [OF v d]) (auto split: if_splits)
qed

lemma parse_shorter:
  "parse_value n hook s = Inr (v, r) \<Longrightarrow> length r < length s"
  "parse_members n hook acc s = Inr (v, r) \<Longrightarrow> length r < length s"
  "parse_items n hook iacc s = Inr (v, r) \<Longrightarrow> length r < length s"
proof (induction n arbitrary: s v r acc iacc)
  case (Suc n)
  { case 1
    then show ?case using Suc.IH(2) Suc.IH(3)
      by (fastforce simp: bindR_Inr split: list.splits if_splits
          dest: parse_string_shorter parse_number_shorter skip_ws_Cons_length)
  next
    case 2
    then obtain k r1 cs v' r2 d ds where *: "parse_string s = Inr (k, r1)" "skip_ws r1 = CHR '':'' # cs"
      "parse_value n hook (skip_ws cs) = Inr (v', r2)" "skip_ws r2 = d # ds"
      "(d = CHR 0x7D \<and> hook (acc @ [(k, v')]) = Inr v \<and> r = ds)
        \<or> (d = CHR '','' \<and> (\<exists>es. skip_ws ds = quote_char # es
            \<and> parse_members n hook (acc @ [(k, v')]) es = Inr (v, r)))"
      by (rule parse_members_Inr)
    from *(1,2,4) Suc.IH(1) [OF *(3)] have "length ds < length s"
      using skip_ws_length [of cs] by (auto dest!: parse_string_shorter skip_ws_Cons_length)
    moreover from *(5) have "length r \<le> length ds"
      by (auto dest!: Suc.IH(2) skip_ws_Cons_length)
    ultimately show ?case by simp
  next
    case 3
    then obtain v' r1 d ds where *: "parse_value n hook s = Inr (v', r1)" "skip_ws r1 = d # ds"
      "r = ds \<or> parse_items n hook (iacc @ [v']) (skip_ws ds) = Inr (v, r)"
      by (rule parse_items_Inr)
    from *(2) Suc.IH(1) [OF *(1)] have "length ds < length s" by (auto dest!: skip_ws_Cons_length)
    moreover from *(3) have "length r \<le> length ds"
      using skip_ws_length [of ds] by (auto dest!: Suc.IH(3))
    ultimately show ?case by simp
  }
qed simp_all

lemma pure_has_fuel [simp]:
  "parse_string s \<noteq> Inl Out_of_fuel" "parse_number s \<noteq> Inl Out_of_fuel"
proof -
  show "parse_string s \<noteq> Inl Out_of_fuel"
  proof (induction s rule: parse_string.induct)
    case (2 c cs)
    have b: "bindR p (\<lambda>(t, r). Inr (x # t, r)) \<noteq> Inl Out_of_fuel" if "p \<noteq> Inl Out_of_fuel"
      for p :: "json_error + string \<times> string" and x
      using that by (cases p) auto
    show ?case
    proof (cases "c = backslash \<and> c \<noteq> quote_char")
      case False
      with 2(3) b show ?thesis by auto
    next
      case True
      show ?thesis
      proof (cases cs)
        case (Cons e rest)
        show ?thesis
          unfolding Cons
          by (subst parse_string.simps)
            (use True Cons 2(1) [of e rest] 2(2) [of e rest] b in
              \<open>auto simp del: parse_string.simps split: list.split option.split\<close>)
      qed (use True in simp)
    qed
  qed simp
  show "parse_number s \<noteq> Inl Out_of_fuel"
    by (simp add: parse_number_def parse_constant_def Let_def split: option.split prod.split)
qed

lemma bindR_Inl: "bindR r f = Inl e \<longleftrightarrow> r = Inl e \<or> (\<exists>x. r = Inr x \<and> f x = Inl e)"
  by (cases r) auto

text \<open>Enough fuel: twice the length of the text left.\<close>

lemma parse_fuel:
  assumes hook: "\<And>ps. hook ps \<noteq> Inl Out_of_fuel"
  shows "2 * length s < n \<Longrightarrow> parse_value n hook s \<noteq> Inl Out_of_fuel"
    and "2 * length s < n \<Longrightarrow> parse_members n hook acc s \<noteq> Inl Out_of_fuel"
    and "2 * length s + 1 < n \<Longrightarrow> parse_items n hook iacc s \<noteq> Inl Out_of_fuel"
proof (induction n arbitrary: s acc iacc)
  case (Suc n)
  { case 1
    have obj: "parse_members n hook [] ds \<noteq> Inl Out_of_fuel" if "skip_ws cs = d # ds" "s = c # cs" for c cs d ds
      using skip_ws_Cons_length [OF that(1)] that(2) 1 by (intro Suc.IH(2)) simp
    have arr: "parse_items n hook [] (d # ds) \<noteq> Inl Out_of_fuel" if "skip_ws cs = d # ds" "s = c # cs" for c cs d ds
      using skip_ws_Cons_length [OF that(1)] that(2) 1 by (intro Suc.IH(3)) simp
    show ?case
      using hook obj arr by (auto simp: bindR_Inl split: list.split)
  next
    case 2
    show ?case
    proof
      assume oof: "parse_members (Suc n) hook acc s = Inl Out_of_fuel"
      then obtain k r1 where k: "parse_string s = Inr (k, r1)" by (auto simp: bindR_Inl)
      with oof obtain cs where cs: "skip_ws r1 = CHR '':'' # cs" by (auto split: list.splits if_splits)
      have len: "length cs + 1 < length s"
        using parse_string_shorter [OF k] skip_ws_Cons_length [OF cs] by simp
      with 2 skip_ws_length [of cs] have "parse_value n hook (skip_ws cs) \<noteq> Inl Out_of_fuel"
        by (intro Suc.IH(1)) simp
      with oof k cs obtain v r2 where v: "parse_value n hook (skip_ws cs) = Inr (v, r2)"
        by (auto simp: bindR_Inl)
      with oof k cs hook obtain d ds es where "skip_ws r2 = d # ds" "skip_ws ds = quote_char # es"
        and last: "parse_members n hook (acc @ [(k, v)]) es = Inl Out_of_fuel"
        by (auto simp: bindR_Inl split: list.splits if_splits)
      with parse_shorter(1) [OF v] skip_ws_length [of cs] len have "length es < length s"
        by (auto dest!: skip_ws_Cons_length)
      with 2 last Suc.IH(2) show False by simp
    qed
  next
    case 3
    show ?case
    proof
      assume oof: "parse_items (Suc n) hook iacc s = Inl Out_of_fuel"
      from 3 have "parse_value n hook s \<noteq> Inl Out_of_fuel" by (intro Suc.IH(1)) simp
      with oof obtain v r where v: "parse_value n hook s = Inr (v, r)" by (auto simp: bindR_Inl)
      with oof obtain d ds where "skip_ws r = d # ds"
        and last: "parse_items n hook (iacc @ [v]) (skip_ws ds) = Inl Out_of_fuel"
        by (auto split: list.splits if_splits)
      with parse_shorter(1) [OF v] skip_ws_length [of ds] have "length (skip_ws ds) + 1 < length s"
        by (auto dest!: skip_ws_Cons_length)
      with 3 last Suc.IH(3) show False by simp
    qed
  }
qed simp_all

lemma loads_total: "(\<And>ps. hook ps \<noteq> Inl Out_of_fuel) \<Longrightarrow> loads hook s \<noteq> Inl Out_of_fuel"
  using parse_fuel(1) [of hook "skip_ws s" "Suc (2 * length s)"] skip_ws_length [of s]
  by (auto simp: loads_def bindR_Inl split: if_splits)

end
