(* ===== verification/Pyvalue.thy ===== *)
theory Pyvalue
  imports Json Json_Parser
begin

text \<open>
  Python's operations on values that come out of \<^verbatim>\<open>json.loads\<close> or an AWS or Kubernetes response: access
  to dictionaries, truth, equality, and conversions to and from text.
\<close>

section \<open>Text\<close>

text \<open>
  \<^verbatim>\<open>int(text)\<close>: surrounding white space, a sign, decimal digits with single underscores
  between them.
\<close>

definition py_digits :: "string \<Rightarrow> nat option" where
  "py_digits s =
     (if list_all (\<lambda>p. p \<noteq> [] \<and> list_all is_digit p) (split_on (CHR ''_'') s)
      then Some (digits_val (concat (split_on (CHR ''_'') s))) else None)"

definition py_int :: "string \<Rightarrow> int option" where
  "py_int text =
     (case py_strip text of
        [] \<Rightarrow> None
      | c # cs \<Rightarrow>
          if c = CHR ''-'' then map_option (\<lambda>n. - int n) (py_digits cs)
          else if c = CHR ''+'' then map_option int (py_digits cs)
          else map_option int (py_digits (c # cs)))"

definition rstrip_char :: "char \<Rightarrow> string \<Rightarrow> string" where
  "rstrip_char c s = rev (dropWhile ((=) c) (rev s))"

text \<open>
  \<^verbatim>\<open>str.upper\<close> on code points below 256; the two letters whose upper case lies beyond
  (\<^verbatim>\<open>U+00B5\<close> and \<^verbatim>\<open>U+00FF\<close>) stay as they are.
\<close>

definition upper_char :: "char \<Rightarrow> string" where
  "upper_char c =
     (if is_lower c \<or> (224 \<le> code c \<and> code c \<le> 254 \<and> code c \<noteq> 247) then [char_of (code c - 32)]
      else if code c = 223 then ''SS'' else [c])"

definition py_upper :: "string \<Rightarrow> string" where
  "py_upper s = concat (map upper_char s)"

section \<open>Values\<close>

definition as_obj :: "json \<Rightarrow> (string \<times> json) list option" where
  "as_obj v = (case v of JObj kvs \<Rightarrow> Some kvs | _ \<Rightarrow> None)"

definition is_obj :: "json \<Rightarrow> bool" where
  "is_obj v = (case v of JObj _ \<Rightarrow> True | _ \<Rightarrow> False)"

fun truthy :: "json \<Rightarrow> bool" where
  "truthy JNull = False"
| "truthy (JBool b) = b"
| "truthy (JInt i) = (i \<noteq> 0)"
| "truthy (JFloat s) \<longleftrightarrow> s \<in> {''nan'', ''inf'', ''-inf''}
     \<or> list_ex (\<lambda>c. is_digit c \<and> c \<noteq> CHR ''0'') (takeWhile (\<lambda>c. c \<notin> set ''eE'') s)"
| "truthy (JStr s) = (s \<noteq> [])"
| "truthy (JArr vs) = (vs \<noteq> [])"
| "truthy (JObj kvs) = (kvs \<noteq> [])"

text \<open>\<^verbatim>\<open>d.get(name)\<close>: an absent field is \<^verbatim>\<open>None\<close>.\<close>

definition vfield :: "json \<Rightarrow> string \<Rightarrow> json" where
  "vfield v name = (case obj_get name v of None \<Rightarrow> JNull | Some x \<Rightarrow> x)"

text \<open>Reading a document along a path of keys.\<close>

fun json_at :: "string list \<Rightarrow> json \<Rightarrow> json option" where
  "json_at [] v = Some v"
| "json_at (k # ks) v = (case obj_get k v of None \<Rightarrow> None | Some x \<Rightarrow> json_at ks x)"

lemma obj_get_JObj [simp]: "obj_get k (JObj kvs) = map_of kvs k"
  by (simp add: obj_get_def)

text \<open>\<^verbatim>\<open>_get(value, *names, default=d)\<close> of the normalizer: the first name that is a key.\<close>

fun get_any :: "string list \<Rightarrow> json \<Rightarrow> json \<Rightarrow> json" where
  "get_any [] d v = d"
| "get_any (n # ns) d v = (case obj_get n v of Some x \<Rightarrow> x | None \<Rightarrow> get_any ns d v)"

text \<open>\<^verbatim>\<open>a or b\<close>\<close>

definition py_or :: "json \<Rightarrow> json \<Rightarrow> json" where
  "py_or a b = (if truthy a then a else b)"

section \<open>Values as text\<close>

text \<open>
  \<^verbatim>\<open>repr\<close> and \<^verbatim>\<open>str\<close>. A text is quoted with apostrophes unless it has one and no quotation mark; a
  code point below 256 is escaped when it is a quote in use, a backslash or not printable. A float
  is its literal.
\<close>

definition repr_char :: "char \<Rightarrow> char \<Rightarrow> string" where
  "repr_char q c =
     (let n = code c; b = CHR 0x5C
      in if c = q \<or> c = b then [b, c]
         else if n = 10 then [b, CHR ''n'']
         else if n = 13 then [b, CHR ''r'']
         else if n = 9 then [b, CHR ''t'']
         else if n < 32 \<or> (127 \<le> n \<and> n \<le> 160) \<or> n = 173
         then [b, CHR ''x'', hex_char (n div 16), hex_char (n mod 16)]
         else [c])"

definition repr_str :: "string \<Rightarrow> string" where
  "repr_str s =
     (let q = (if CHR 0x27 \<in> set s \<and> CHR 0x22 \<notin> set s then CHR 0x22 else CHR 0x27)
      in [q] @ concat (map (repr_char q) s) @ [q])"

fun py_repr :: "json \<Rightarrow> string" where
  "py_repr JNull = ''None''"
| "py_repr (JBool b) = (if b then ''True'' else ''False'')"
| "py_repr (JInt i) = int_str i"
| "py_repr (JFloat s) = s"
| "py_repr (JStr s) = repr_str s"
| "py_repr (JArr vs) = ''['' @ join '', '' (map py_repr vs) @ '']''"
| "py_repr (JObj kvs) = ''{'' @ join '', '' (map (\<lambda>(k, v). repr_str k @ '': '' @ py_repr v) kvs) @ ''}''"

definition py_str :: "json \<Rightarrow> string" where
  "py_str v = (case v of JStr s \<Rightarrow> s | _ \<Rightarrow> py_repr v)"

lemma py_str_JStr [simp]: "py_str (JStr s) = s"
  by (simp add: py_str_def)

section \<open>Equality\<close>

text \<open>Python's \<^verbatim>\<open>value == n\<close> for an integer \<open>n\<close>: a boolean equals its number.\<close>

definition py_eq_int :: "json \<Rightarrow> int \<Rightarrow> bool" where
  "py_eq_int v n = (case v of JInt i \<Rightarrow> i = n | JBool b \<Rightarrow> (if b then 1 else 0) = n | _ \<Rightarrow> False)"

text \<open>Equality of parsed documents: a boolean equals its number, objects compare as mappings.\<close>

lemma size_zip_fst [termination_simp]: "(x, y) \<in> set (zip xs ys) \<Longrightarrow> size x < Suc (size_list size xs)"
  by (auto dest!: set_zip_leftD simp: less_Suc_eq_le intro: size_list_estimation')

fun py_eq :: "json \<Rightarrow> json \<Rightarrow> bool" where
  "py_eq (JArr xs) v =
     (case v of JArr ys \<Rightarrow> length xs = length ys \<and> list_all (\<lambda>(x, y). py_eq x y) (zip xs ys) | _ \<Rightarrow> False)"
| "py_eq (JObj a) v =
     (case v of
        JObj b \<Rightarrow> length a = length b
          \<and> list_all (\<lambda>(k, x). case map_of b k of None \<Rightarrow> False | Some y \<Rightarrow> py_eq x y) a
      | _ \<Rightarrow> False)"
| "py_eq (JBool b) v = py_eq_int v (if b then 1 else 0)"
| "py_eq (JInt i) v = py_eq_int v i"
| "py_eq JNull v = (v = JNull)"
| "py_eq (JStr s) v = (v = JStr s)"
| "py_eq (JFloat s) v = (v = JFloat s)"

text \<open>\<^verbatim>\<open>d.setdefault(k, v)\<close>\<close>

definition set_default :: "string \<times> json \<Rightarrow> (string \<times> json) list \<Rightarrow> (string \<times> json) list" where
  "set_default kv kvs = (if map_of kvs (fst kv) = None then kvs @ [kv] else kvs)"

text \<open>
  \<^verbatim>\<open>int(value)\<close> on the values of a JSON document. A float is read through its literal: the integer part of the decimal number that it
  writes.
\<close>

definition float_int :: "string \<Rightarrow> int option" where
  "float_int s =
     (case number_int s of
        None \<Rightarrow> None
      | Some (digits, rest) \<Rightarrow>
          (let (frac, rest') = number_frac rest;
               (ex, _) = number_exp rest';
               e = (case py_int (drop 1 ex) of None \<Rightarrow> 0 | Some x \<Rightarrow> x) - int (length (drop 1 frac));
               negative = (hd digits = CHR ''-'');
               m = int (digits_val ((if negative then tl digits else digits) @ drop 1 frac));
               n = (if 0 \<le> e then m * 10 ^ nat e else m div 10 ^ nat (- e))
           in Some (if negative then - n else n)))"

end
