(* ===== verification/Generator_World.thy ===== *)
theory Generator_World
  imports Effects Contract_Event Pyvalue
begin

text \<open>
  The world of the generator Lambda: the DynamoDB table of event claims, the trace of the
  worker's interactions, and an environment that decides everything the code does not.

  The environment is a record of functions of the number of the external interaction:
  whether a request to a service fails or the worker is killed at it, and then before or
  after the request took effect; what the clock, the random owner identifiers, S3, the ownership service and the Kubernetes API
  answer; and what other workers do to the claim table between two interactions of this
  one. Theorems quantify over the environment, so they hold under every interleaving and
  every pattern of failures and lost responses. Of the claim table alone the effect of a
  request is modelled, because the protocol between workers rests on its conditional
  writes.
\<close>

section \<open>Errors\<close>

datatype gen_error =
    Service_error "string option"           \<comment> \<open>an exception of a client, with its error code\<close>
  | Http_error "int option"                 \<comment> \<open>an exception of the Kubernetes client\<close>
  | Claim_store_error string
  | Claim_collision string
  | Claim_lost string
  | Cancellation_error string
  | Scanner_conflict string
  | Runtime_error string
  | Value_fault string                      \<comment> \<open>\<^verbatim>\<open>ValueError\<close>\<close>
  | Record_rejection string string          \<comment> \<open>code and message\<close>
  | Retryable_record string "string option" \<comment> \<open>code and verdict\<close>
  | Killed                                  \<comment> \<open>the process ended: no handler runs\<close>

abbreviation conditional_failed :: gen_error where
  "conditional_failed \<equiv> Service_error (Some ''ConditionalCheckFailedException'')"

section \<open>State\<close>

text \<open>
  An item of the claim table. An attribute that the code reads back without trusting it
  may be absent or of another type, which is \<open>None\<close> here.
\<close>

record claim_item =
  ci_event_hash :: "string option"
  ci_trace_hash :: string
  ci_target_hash :: string
  ci_generation :: int
  ci_event_type :: string
  ci_provider :: string
  ci_reason :: string
  ci_state :: "string option"
  ci_owner :: "string option"
  ci_lease :: "int option"
  ci_attempts :: "int option"
  ci_created_at :: string
  ci_updated_at :: string
  ci_expires_at :: int
  ci_verdict :: "string option"
  ci_cancelled :: "int option"
  ci_scanner :: "string option"
  ci_error :: "string option"

type_synonym claim_table = "(string, claim_item) table"

text \<open>A raw ownership verdict: its fields, and its reason as text.\<close>

record raw_verdict =
  rv_fields :: json
  rv_reason :: "string option"

text \<open>
  A request for an S3 object, and its response. The length is what \<^verbatim>\<open>int\<close> makes of
  \<^verbatim>\<open>ContentLength\<close>; the body is the whole stream, of which the caller reads a prefix.
\<close>

record s3_request =
  rq_bucket :: string
  rq_key :: string
  rq_if_match :: "string option"
  rq_version :: "string option"

datatype s3_length = No_length | Length int | Bad_length

datatype s3_body = No_body | Body_bytes "nat list" | Body_text | Body_fails

record s3_response =
  rs_length :: s3_length
  rs_etag :: "string option"
  rs_version :: "string option"
  rs_body :: s3_body

datatype interaction =
    Claim_request string                    \<comment> \<open>a request for the item under a key\<close>
  | Object_request s3_request
  | Ownership_request "raw_verdict option"  \<comment> \<open>and its answer, \<open>None\<close> when it raised\<close>
  | Clock_reading time
  | Create_request json
  | Get_request string
  | List_request string "string option"     \<comment> \<open>target hash and continuation token\<close>
  | Delete_request string

record gen_world =
  w_claims :: claim_table
  w_trace :: "interaction list"

datatype fault = No_fault | Fail_before | Fail_after | Killed_before | Killed_after

record environment =
  env_fault :: "nat \<Rightarrow> fault"
  env_others :: "nat \<Rightarrow> claim_table \<Rightarrow> claim_table"
  env_clock :: "nat \<Rightarrow> time"
  env_owner :: "nat \<Rightarrow> string"
  env_object :: "nat \<Rightarrow> s3_request \<Rightarrow> gen_error + s3_response"
  env_verdict :: "nat \<Rightarrow> raw_verdict option"
  env_create :: "nat \<Rightarrow> json \<Rightarrow> gen_error + unit"
  env_get :: "nat \<Rightarrow> string \<Rightarrow> gen_error + json"
  env_list :: "nat \<Rightarrow> string \<Rightarrow> string option \<Rightarrow> gen_error + json"
  env_delete :: "nat \<Rightarrow> string \<Rightarrow> gen_error + unit"
  env_pages :: nat

type_synonym 'a gen = "(gen_world, gen_error, 'a) eff"

section \<open>Interactions\<close>

definition tick :: "gen_world \<Rightarrow> nat" where
  "tick w = length (w_trace w)"

text \<open>What the others did since the last interaction, and this interaction in the trace.\<close>

definition interact :: "environment \<Rightarrow> interaction \<Rightarrow> gen_world \<Rightarrow> gen_world" where
  "interact E i w =
     \<lparr>w_claims = env_others E (tick w) (w_claims w), w_trace = w_trace w @ [i]\<rparr>"

text \<open>
  A request to the claim table: it may fail or the worker may be killed, and then its effect
  may have happened or not.
\<close>

definition claim_call :: "environment \<Rightarrow> string \<Rightarrow> (claim_table \<Rightarrow> (gen_error + 'a) \<times> claim_table) \<Rightarrow> 'a gen" where
  "claim_call E key op w =
     (let w' = interact E (Claim_request key) w; (r, t) = op (w_claims w') in
      case env_fault E (tick w) of
        No_fault \<Rightarrow> (r, w'\<lparr>w_claims := t\<rparr>)
      | Fail_before \<Rightarrow> (Inl (Service_error None), w')
      | Fail_after \<Rightarrow> (Inl (Service_error None), w'\<lparr>w_claims := t\<rparr>)
      | Killed_before \<Rightarrow> (Inl Killed, w')
      | Killed_after \<Rightarrow> (Inl Killed, w'\<lparr>w_claims := t\<rparr>))"

text \<open>A call that the environment answers, unless the worker is killed at it.\<close>

definition answered :: "environment \<Rightarrow> interaction \<Rightarrow> gen_error + 'a \<Rightarrow> 'a gen" where
  "answered E i r w =
     (if env_fault E (tick w) \<in> {Killed_before, Killed_after} then Inl Killed else r, interact E i w)"

text \<open>
  \<^verbatim>\<open>try: m; except Exception\<close>, with the outcome as a value. A kill is no exception.
\<close>

definition tryX :: "'a gen \<Rightarrow> (gen_error + 'a) gen" where
  "tryX m w = (case m w of (r, w') \<Rightarrow> (if r = Inl Killed then Inl Killed else Inr r, w'))"

definition read_clock :: "environment \<Rightarrow> time gen" where
  "read_clock E w = (let t = env_clock E (tick w) in answered E (Clock_reading t) (Inr t) w)"

text \<open>\<^verbatim>\<open>ownership_service.validate_event(event)\<close>\<close>

definition ask_ownership :: "environment \<Rightarrow> raw_verdict gen" where
  "ask_ownership E w =
     (let v = env_verdict E (tick w)
      in answered E (Ownership_request v)
           (case v of None \<Rightarrow> Inl (Service_error None) | Some x \<Rightarrow> Inr x) w)"

definition api_object :: "environment \<Rightarrow> s3_request \<Rightarrow> s3_response gen" where
  "api_object E q w = answered E (Object_request q) (env_object E (tick w) q) w"

definition api_create :: "environment \<Rightarrow> json \<Rightarrow> unit gen" where
  "api_create E body w = answered E (Create_request body) (env_create E (tick w) body) w"

definition api_get :: "environment \<Rightarrow> string \<Rightarrow> json gen" where
  "api_get E name w = answered E (Get_request name) (env_get E (tick w) name) w"

definition api_list :: "environment \<Rightarrow> string \<Rightarrow> string option \<Rightarrow> json gen" where
  "api_list E h token w = answered E (List_request h token) (env_list E (tick w) h token) w"

definition api_delete :: "environment \<Rightarrow> string \<Rightarrow> unit gen" where
  "api_delete E name w = answered E (Delete_request name) (env_delete E (tick w) name) w"

lemmas api_defs = read_clock_def ask_ownership_def api_object_def api_create_def api_get_def
  api_list_def api_delete_def answered_def

lemma tryX_eval:
  "tryX m w = ((if fst (m w) = Inl Killed then Inl Killed else Inr (fst (m w))), snd (m w))"
  by (simp add: tryX_def split: prod.splits)

lemma always_tryX [always_intro]: "always R m \<Longrightarrow> always R (tryX m)"
  by (auto simp: always_def tryX_eval) (metis prod.collapse)+

lemma tick_interact [simp]: "tick (interact E i w) = Suc (tick w)"
  by (simp add: tick_def interact_def)

lemma trace_interact [simp]: "w_trace (interact E i w) = w_trace w @ [i]"
  by (simp add: interact_def)

lemma claims_interact [simp]: "w_claims (interact E i w) = env_others E (tick w) (w_claims w)"
  by (simp add: interact_def)

lemma claim_call_eval:
  "claim_call E key op w =
     (case env_fault E (tick w) of
        No_fault \<Rightarrow> (fst (op (w_claims (interact E (Claim_request key) w))),
                     (interact E (Claim_request key) w)
                       \<lparr>w_claims := snd (op (w_claims (interact E (Claim_request key) w)))\<rparr>)
      | Fail_before \<Rightarrow> (Inl (Service_error None), interact E (Claim_request key) w)
      | Fail_after \<Rightarrow> (Inl (Service_error None),
                     (interact E (Claim_request key) w)
                       \<lparr>w_claims := snd (op (w_claims (interact E (Claim_request key) w)))\<rparr>)
      | Killed_before \<Rightarrow> (Inl Killed, interact E (Claim_request key) w)
      | Killed_after \<Rightarrow> (Inl Killed,
                     (interact E (Claim_request key) w)
                       \<lparr>w_claims := snd (op (w_claims (interact E (Claim_request key) w)))\<rparr>))"
  by (simp add: claim_call_def Let_def split: fault.splits prod.splits)

section \<open>What a program may do\<close>

text \<open>
  \<open>within P m\<close>: on every outcome, returned or raised, the trace only grows and every new
  interaction satisfies \<open>P\<close>.
\<close>

definition grows :: "(interaction \<Rightarrow> bool) \<Rightarrow> gen_world \<Rightarrow> gen_world \<Rightarrow> bool" where
  "grows P w w' \<longleftrightarrow> (\<exists>xs. w_trace w' = w_trace w @ xs \<and> list_all P xs)"

definition within :: "(interaction \<Rightarrow> bool) \<Rightarrow> (gen_world, 'e, 'a) eff \<Rightarrow> bool" where
  "within P m \<longleftrightarrow> always (grows P) m"

interpretation growth: effect_preorder "grows P"
proof unfold_locales
  show "grows P s s" for s by (simp add: grows_def)
  show "grows P s u" if "grows P s t" "grows P t u" for s t u
    using that by (fastforce simp: grows_def)
qed

named_theorems within_intro "rules that bound the interactions of a program"

lemmas within_rules [within_intro] =
  growth.always_rules [folded within_def] always_tryX [of "grows P" for P, folded within_def]
  always_if [of _ "grows P" for P, folded within_def]
  always_case_sum [of _ "grows P" for P, folded within_def]
  always_case_option [of _ "grows P" for P, folded within_def]
  always_case_prod [of _ "grows P" for P, folded within_def]

lemmas within_returnM = growth.always_returnM [folded within_def]
lemmas within_tryX = always_tryX [of "grows P" for P, folded within_def]
lemmas within_bindM = growth.always_bindM [folded within_def]

lemma withinD: "within P m \<Longrightarrow> m w = (r, w') \<Longrightarrow> \<exists>xs. w_trace w' = w_trace w @ xs \<and> list_all P xs"
  unfolding within_def by (drule (1) alwaysD) (simp add: grows_def)

lemma withinI:
  "(\<And>w r w'. m w = (r, w') \<Longrightarrow> \<exists>xs. w_trace w' = w_trace w @ xs \<and> list_all P xs) \<Longrightarrow> within P m"
  unfolding within_def by (rule alwaysI) (simp add: grows_def)

lemma within_bind_returns:
  assumes "within P m" and "\<And>w x w'. m w = (Inr x, w') \<Longrightarrow> Q x" and "\<And>x. Q x \<Longrightarrow> within P (f x)"
  shows "within P (bindM m f)"
proof (rule withinI)
  fix w r w' assume run: "bindM m f w = (r, w')"
  obtain q w1 where m: "m w = (q, w1)" by force
  from withinD [OF assms(1) m] obtain xs where xs: "w_trace w1 = w_trace w @ xs" "list_all P xs" by blast
  show "\<exists>xs. w_trace w' = w_trace w @ xs \<and> list_all P xs"
  proof (cases q)
    case (Inl e)
    with run m xs show ?thesis by (auto simp: bindM_def)
  next
    case (Inr x)
    with run m have "f x w1 = (r, w')" by (simp add: bindM_def)
    with withinD [OF assms(3)] assms(2) m Inr xs show ?thesis by fastforce
  qed
qed

lemma within_bind_lift: "(\<And>x. r = Inr x \<Longrightarrow> within P (f x)) \<Longrightarrow> within P (bindM (liftM r) f)"
  by (rule within_bind_returns [where Q = "\<lambda>x. r = Inr x"]) (auto intro: within_intro simp: liftM_def)

lemma within_mono: "within P m \<Longrightarrow> (\<And>i. P i \<Longrightarrow> Q i) \<Longrightarrow> within Q m"
  unfolding within_def by (erule always_mono) (auto simp: grows_def list_all_iff)

lemma within_claim_call: "P (Claim_request key) \<Longrightarrow> within P (claim_call E key op)"
  by (rule withinI) (auto simp: claim_call_eval split: fault.splits)

lemma within_read_clock: "(\<And>t. P (Clock_reading t)) \<Longrightarrow> within P (read_clock E)"
  by (rule withinI) (auto simp: api_defs Let_def)

lemma within_ask_ownership: "(\<And>v. P (Ownership_request v)) \<Longrightarrow> within P (ask_ownership E)"
  by (rule withinI) (auto simp: api_defs Let_def)

lemma within_api_object: "P (Object_request q) \<Longrightarrow> within P (api_object E q)"
  by (rule withinI) (auto simp: api_defs)

lemma within_api_create: "P (Create_request b) \<Longrightarrow> within P (api_create E b)"
  by (rule withinI) (auto simp: api_defs)

lemma within_api_get: "P (Get_request n) \<Longrightarrow> within P (api_get E n)"
  by (rule withinI) (auto simp: api_defs)

lemma within_api_list: "P (List_request h t) \<Longrightarrow> within P (api_list E h t)"
  by (rule withinI) (auto simp: api_defs)

lemma within_api_delete: "P (Delete_request n) \<Longrightarrow> within P (api_delete E n)"
  by (rule withinI) (auto simp: api_defs)

lemmas within_api = within_claim_call within_read_clock within_ask_ownership within_api_object
  within_api_create within_api_get within_api_list within_api_delete

end
