(* ===== verification/Generator_Claims.thy ===== *)
theory Generator_Claims
  imports Generator_World
begin

text \<open>
  Event claims (\<^verbatim>\<open>generator/.../idempotency.py\<close>): a worker leases an event before it acts
  on it and finalises the claim with a terminal state afterwards. Every transition is one
  conditional write of DynamoDB, so a worker that lost its lease cannot finalise.
\<close>

section \<open>Data\<close>

datatype claim_state =
  CLAIMED | RETRYABLE | DISPATCHED | STALE_ST | CANCELLED_ST | REMOVED_ST | EXPIRED_ST

primrec claim_state_value :: "claim_state \<Rightarrow> string" where
  "claim_state_value CLAIMED = ''CLAIMED''"
| "claim_state_value RETRYABLE = ''RETRYABLE''"
| "claim_state_value DISPATCHED = ''DISPATCHED''"
| "claim_state_value STALE_ST = ''STALE''"
| "claim_state_value CANCELLED_ST = ''CANCELLED''"
| "claim_state_value REMOVED_ST = ''REMOVED''"
| "claim_state_value EXPIRED_ST = ''EXPIRED''"

definition claim_states :: "claim_state list" where
  "claim_states = [CLAIMED, RETRYABLE, DISPATCHED, STALE_ST, CANCELLED_ST, REMOVED_ST, EXPIRED_ST]"

definition terminal_states :: "claim_state set" where
  "terminal_states = {DISPATCHED, STALE_ST, CANCELLED_ST, REMOVED_ST, EXPIRED_ST}"

datatype claim_disposition = ACQUIRED | DUPLICATE | BUSY

record event_claim =
  ec_key :: string
  ec_event_hash :: string
  ec_owner :: string
  ec_attempt :: int

record claim_result =
  cr_disposition :: claim_disposition
  cr_claim :: "event_claim option"
  cr_state :: "claim_state option"

record claim_store =
  cs_lease_seconds :: int
  cs_audit_ttl_days :: int

record claim_query =
  cq_event_id :: string
  cq_trace_id :: string
  cq_target_id :: string
  cq_generation :: int
  cq_event_type :: string
  cq_provider :: string
  cq_reason :: string

definition claim_key :: "string \<Rightarrow> string" where
  "claim_key event_id = ''event#'' @ sha256 event_id"

lemma claim_state_value_inject [simp]: "claim_state_value a = claim_state_value b \<longleftrightarrow> a = b"
  by (cases a; cases b; simp)

text \<open>\<^verbatim>\<open>DynamoClaimStore._state\<close>\<close>

definition state_of_item :: "claim_item \<Rightarrow> gen_error + claim_state" where
  "state_of_item it =
     (case ci_state it of
        None \<Rightarrow> Inl (Claim_store_error ''claim item has an unknown state'')
      | Some raw \<Rightarrow>
          (case find (\<lambda>st. claim_state_value st = raw) claim_states of
             None \<Rightarrow> Inl (Claim_store_error ''claim item has an unknown state'')
           | Some st \<Rightarrow> Inr st))"

lemma state_of_item_value [simp]: "ci_state it = Some (claim_state_value st) \<Longrightarrow> state_of_item it = Inr st"
  by (cases st) (simp_all add: state_of_item_def claim_states_def)

declare claim_state_value.simps [simp del]

lemma state_of_item_Inr: "state_of_item it = Inr st \<longleftrightarrow> ci_state it = Some (claim_state_value st)"
proof
  assume "state_of_item it = Inr st"
  then obtain raw where "ci_state it = Some raw" "find (\<lambda>st. claim_state_value st = raw) claim_states = Some st"
    by (auto simp: state_of_item_def split: option.splits)
  then show "ci_state it = Some (claim_state_value st)" by (auto simp: find_Some_iff)
qed simp

section \<open>Conditional writes\<close>

text \<open>
  \<^verbatim>\<open>put_item\<close> with \<^verbatim>\<open>attribute_not_exists\<close>, and \<^verbatim>\<open>update_item\<close> with a condition on the item;
  a condition on an absent item is false.
\<close>

definition put_if_absent :: "string \<Rightarrow> claim_item \<Rightarrow> claim_table \<Rightarrow> (gen_error + unit) \<times> claim_table" where
  "put_if_absent key it t =
     (case tbl_get t key of
        None \<Rightarrow> (Inr (), tbl_put key it t)
      | Some _ \<Rightarrow> (Inl conditional_failed, t))"

definition update_if :: "string \<Rightarrow> (claim_item \<Rightarrow> bool) \<Rightarrow> (claim_item \<Rightarrow> claim_item) \<Rightarrow> claim_table
    \<Rightarrow> (gen_error + unit) \<times> claim_table" where
  "update_if key cond f t =
     (case tbl_get t key of
        None \<Rightarrow> (Inl conditional_failed, t)
      | Some it \<Rightarrow> if cond it then (Inr (), tbl_put key (f it) t) else (Inl conditional_failed, t))"

definition get_item :: "string \<Rightarrow> claim_table \<Rightarrow> (gen_error + claim_item option) \<times> claim_table" where
  "get_item key t = (Inr (tbl_get t key), t)"

text \<open>\<^verbatim>\<open>DynamoClaimStore._get\<close>\<close>

definition get_claim :: "environment \<Rightarrow> string \<Rightarrow> claim_item gen" where
  "get_claim E key =
     bindM (claim_call E key (get_item key)) (\<lambda>found.
     case found of
       None \<Rightarrow> raiseM (Claim_store_error ''claim item disappeared during a conditional race'')
     | Some it \<Rightarrow> returnM it)"

section \<open>Acquiring\<close>

definition new_claim :: "claim_store \<Rightarrow> claim_query \<Rightarrow> time \<Rightarrow> string \<Rightarrow> claim_item" where
  "new_claim cs q now owner =
     \<lparr>ci_event_hash = Some (sha256 (cq_event_id q)), ci_trace_hash = sha256 (cq_trace_id q),
      ci_target_hash = sha256 (cq_target_id q), ci_generation = cq_generation q,
      ci_event_type = cq_event_type q, ci_provider = cq_provider q, ci_reason = cq_reason q,
      ci_state = Some (claim_state_value CLAIMED), ci_owner = Some owner,
      ci_lease = Some (epoch_seconds now + cs_lease_seconds cs), ci_attempts = Some 1,
      ci_created_at = iso_utc now, ci_updated_at = iso_utc now,
      ci_expires_at = epoch_seconds (now + days (cs_audit_ttl_days cs)), ci_verdict = None,
      ci_cancelled = None, ci_scanner = None, ci_error = None\<rparr>"

text \<open>The condition and the assignments of the second write.\<close>

definition can_reacquire :: "string \<Rightarrow> time \<Rightarrow> claim_item \<Rightarrow> bool" where
  "can_reacquire event_hash now it \<longleftrightarrow>
     ci_event_hash it = Some event_hash
     \<and> (ci_state it = Some (claim_state_value RETRYABLE)
        \<or> (ci_state it = Some (claim_state_value CLAIMED)
           \<and> (case ci_lease it of None \<Rightarrow> False | Some l \<Rightarrow> l \<le> epoch_seconds now)))"

definition reacquired :: "claim_store \<Rightarrow> time \<Rightarrow> string \<Rightarrow> claim_item \<Rightarrow> claim_item" where
  "reacquired cs now owner it =
     it\<lparr>ci_state := Some (claim_state_value CLAIMED), ci_owner := Some owner,
        ci_lease := Some (epoch_seconds now + cs_lease_seconds cs), ci_updated_at := iso_utc now,
        ci_expires_at := epoch_seconds (now + days (cs_audit_ttl_days cs)),
        ci_attempts := Some ((case ci_attempts it of None \<Rightarrow> 0 | Some n \<Rightarrow> n) + 1)\<rparr>"

definition acquired_result :: "string \<Rightarrow> string \<Rightarrow> string \<Rightarrow> int \<Rightarrow> claim_result" where
  "acquired_result key event_hash owner attempt =
     \<lparr>cr_disposition = ACQUIRED,
      cr_claim = Some \<lparr>ec_key = key, ec_event_hash = event_hash, ec_owner = owner, ec_attempt = attempt\<rparr>,
      cr_state = Some CLAIMED\<rparr>"

definition plain_result :: "claim_disposition \<Rightarrow> claim_state \<Rightarrow> claim_result" where
  "plain_result d st = \<lparr>cr_disposition = d, cr_claim = None, cr_state = Some st\<rparr>"

definition lease_expired :: "time \<Rightarrow> claim_item \<Rightarrow> bool" where
  "lease_expired now it = (case ci_lease it of None \<Rightarrow> False | Some l \<Rightarrow> l \<le> epoch_seconds now)"

text \<open>\<^verbatim>\<open>DynamoClaimStore._classify_after_race\<close>\<close>

definition classify_after_race :: "environment \<Rightarrow> string \<Rightarrow> string \<Rightarrow> time \<Rightarrow> claim_result gen" where
  "classify_after_race E key event_hash now =
     bindM (get_claim E key) (\<lambda>it.
     if ci_event_hash it \<noteq> Some event_hash
     then raiseM (Claim_collision ''claim key does not match the event hash'')
     else bindM (liftM (state_of_item it)) (\<lambda>st.
       if st \<in> terminal_states then returnM (plain_result DUPLICATE st)
       else if st = CLAIMED \<and> (case ci_lease it of None \<Rightarrow> False | Some l \<Rightarrow> epoch_seconds now < l)
       then returnM (plain_result BUSY st)
       else raiseM (Claim_store_error ''claim changed during reacquisition'')))"

text \<open>The write of \<^verbatim>\<open>acquire\<close> that takes an existing item over.\<close>

definition take_over :: "environment \<Rightarrow> claim_store \<Rightarrow> string \<Rightarrow> string \<Rightarrow> time \<Rightarrow> string \<Rightarrow> claim_item
    \<Rightarrow> claim_result gen" where
  "take_over E cs key event_hash now owner existing =
     bindM (tryX (claim_call E key (update_if key (can_reacquire event_hash now) (reacquired cs now owner)))) (\<lambda>r.
     case r of
       Inl e \<Rightarrow> if e \<noteq> conditional_failed then raiseM e else classify_after_race E key event_hash now
     | Inr _ \<Rightarrow> returnM (acquired_result key event_hash owner
                  (case ci_attempts existing of None \<Rightarrow> 2 | Some n \<Rightarrow> n + 1)))"

text \<open>The second half of \<^verbatim>\<open>acquire\<close>, once the item is known to exist.\<close>

definition reacquire :: "environment \<Rightarrow> claim_store \<Rightarrow> string \<Rightarrow> string \<Rightarrow> time \<Rightarrow> string \<Rightarrow> claim_result gen" where
  "reacquire E cs key event_hash now owner =
     bindM (get_claim E key) (\<lambda>existing.
     if ci_event_hash existing \<noteq> Some event_hash
     then raiseM (Claim_collision ''claim key does not match the event hash'')
     else bindM (liftM (state_of_item existing)) (\<lambda>st.
       if st \<in> terminal_states then returnM (plain_result DUPLICATE st)
       else if st = CLAIMED \<and> \<not> lease_expired now existing then returnM (plain_result BUSY st)
       else if st \<noteq> RETRYABLE \<and> \<not> lease_expired now existing
       then raiseM (Claim_store_error ''claim item is in an unsupported state'')
       else take_over E cs key event_hash now owner existing))"

text \<open>\<^verbatim>\<open>DynamoClaimStore.acquire\<close>, with the owner that \<^verbatim>\<open>uuid4\<close> returns.\<close>

definition acquire :: "environment \<Rightarrow> claim_store \<Rightarrow> claim_query \<Rightarrow> time \<Rightarrow> claim_result gen" where
  "acquire E cs q now =
     (let event_hash = sha256 (cq_event_id q); key = claim_key (cq_event_id q) in
      bindM (readM (\<lambda>w. env_owner E (tick w))) (\<lambda>owner.
      bindM (tryX (claim_call E key (put_if_absent key (new_claim cs q now owner)))) (\<lambda>r.
      case r of
        Inr _ \<Rightarrow> returnM (acquired_result key event_hash owner 1)
      | Inl e \<Rightarrow> if e \<noteq> conditional_failed then raiseM e
                 else reacquire E cs key event_hash now owner)))"

section \<open>Finalising\<close>

definition held_by :: "event_claim \<Rightarrow> claim_item \<Rightarrow> bool" where
  "held_by c it \<longleftrightarrow> ci_event_hash it = Some (ec_event_hash c)
     \<and> ci_state it = Some (claim_state_value CLAIMED) \<and> ci_owner it = Some (ec_owner c)"

definition completed :: "claim_state \<Rightarrow> time \<Rightarrow> string \<Rightarrow> string option \<Rightarrow> int \<Rightarrow> claim_item \<Rightarrow> claim_item" where
  "completed st now verdict scanner cancelled it =
     (let it' = it\<lparr>ci_state := Some (claim_state_value st), ci_updated_at := iso_utc now,
                   ci_verdict := Some verdict, ci_cancelled := Some cancelled,
                   ci_owner := None, ci_lease := None\<rparr>
      in case scanner of None \<Rightarrow> it' | Some name \<Rightarrow> it'\<lparr>ci_scanner := Some name\<rparr>)"

text \<open>\<^verbatim>\<open>DynamoClaimStore.complete\<close>\<close>

definition complete :: "environment \<Rightarrow> event_claim \<Rightarrow> claim_state \<Rightarrow> time \<Rightarrow> string \<Rightarrow> string option \<Rightarrow> int
    \<Rightarrow> bool gen" where
  "complete E c st now verdict scanner cancelled =
     (if st \<notin> terminal_states then raiseM (Value_fault ''complete requires a terminal claim state'')
      else bindM (tryX (claim_call E (ec_key c)
                         (update_if (ec_key c) (held_by c) (completed st now verdict scanner cancelled)))) (\<lambda>r.
        case r of
          Inr _ \<Rightarrow> returnM True
        | Inl e \<Rightarrow>
            if e \<noteq> conditional_failed then raiseM e
            else bindM (get_claim E (ec_key c)) (\<lambda>it.
              if ci_event_hash it = Some (ec_event_hash c) \<and> ci_state it = Some (claim_state_value st)
              then returnM False
              else raiseM (Claim_lost ''claim could not be finalized by its owner''))))"

definition made_retryable :: "time \<Rightarrow> string \<Rightarrow> claim_item \<Rightarrow> claim_item" where
  "made_retryable now error_code it =
     it\<lparr>ci_state := Some (claim_state_value RETRYABLE), ci_updated_at := iso_utc now,
        ci_error := Some error_code, ci_owner := None, ci_lease := None\<rparr>"

text \<open>\<^verbatim>\<open>DynamoClaimStore.mark_retryable\<close>\<close>

definition mark_retryable :: "environment \<Rightarrow> event_claim \<Rightarrow> time \<Rightarrow> string \<Rightarrow> bool gen" where
  "mark_retryable E c now error_code =
     bindM (tryX (claim_call E (ec_key c)
                         (update_if (ec_key c) (held_by c) (made_retryable now error_code)))) (\<lambda>r.
     case r of
       Inr _ \<Rightarrow> returnM True
     | Inl e \<Rightarrow> if e = conditional_failed then returnM False else raiseM e)"

section \<open>Interactions\<close>

fun is_claim_request :: "interaction \<Rightarrow> bool" where
  "is_claim_request (Claim_request k) = True"
| "is_claim_request _ = False"

lemma within_get_claim: "within is_claim_request (get_claim E k)"
  unfolding get_claim_def by (intro within_intro within_api) simp

lemma within_classify: "within is_claim_request (classify_after_race E k h now)"
  unfolding classify_after_race_def by (intro within_intro within_get_claim)

lemma within_reacquire: "within is_claim_request (reacquire E cs k h now o')"
  unfolding reacquire_def take_over_def
  by (intro within_intro within_get_claim within_classify within_api) simp_all

lemma within_acquire: "within is_claim_request (acquire E cs q now)"
  unfolding acquire_def Let_def
  by (intro within_intro within_reacquire within_api) simp_all

lemma within_complete: "within is_claim_request (complete E c st now v sc n)"
  unfolding complete_def by (intro within_intro within_get_claim within_api) simp_all

lemma within_mark_retryable: "within is_claim_request (mark_retryable E c now ec)"
  unfolding mark_retryable_def by (intro within_intro within_api) simp_all

end
