(* ===== verification/Generator_Config.thy ===== *)
theory Generator_Config
  imports Generator_World
begin

text \<open>
  The configuration of the generator (\<^verbatim>\<open>generator/.../config.py\<close>): reading it from the
  environment variables of the Lambda, validating it, and the two scope decisions that it
  makes for every event. An error is the message of the \<^verbatim>\<open>ConfigurationError\<close>.
\<close>

section \<open>Networks\<close>

text \<open>
  \<^verbatim>\<open>str(network)\<close>, and \<^verbatim>\<open>IPv4Network(value, strict=True)\<close> on a text with a prefix length. The
  library reads masks and plain addresses too, but no such text is what it prints for the
  network, and the caller refuses every text that is not.
\<close>

definition network_ok :: "ipv4_network \<Rightarrow> bool" where
  "network_ok n \<longleftrightarrow> snd n \<le> 32 \<and> fst n AND netmask (snd n) = fst n"

definition network_str :: "ipv4_network \<Rightarrow> string" where
  "network_str n = ipv4_str (fst n) @ ''/'' @ nat_str (snd n)"

definition network_parse :: "string \<Rightarrow> ipv4_network option" where
  "network_parse s =
     (case split_on (CHR ''/'') s of
        [a, l] \<Rightarrow>
          (case ipv4_parse a of
             None \<Rightarrow> None
           | Some base \<Rightarrow>
               if l \<noteq> [] \<and> list_all is_digit l \<and> network_ok (base, digits_val l)
               then Some (base, digits_val l) else None)
      | _ \<Rightarrow> None)"

section \<open>Variables\<close>

type_synonym env_vars = "string \<Rightarrow> string option"

definition aliased :: "env_vars \<Rightarrow> string list \<Rightarrow> bool \<Rightarrow> string + string option" where
  "aliased env names required =
     (let configured = [py_strip v. Some v \<leftarrow> map env names, py_strip v \<noteq> []]
      in case remdups configured of
           [] \<Rightarrow> if required then Inl (hd names @ '' environment variable is required'') else Inr None
         | [v] \<Rightarrow> Inr (Some v)
         | _ \<Rightarrow> Inl (''conflicting values configured for '' @ join ''/'' names))"

definition positive_int :: "env_vars \<Rightarrow> string \<Rightarrow> int \<Rightarrow> string + int" where
  "positive_int env name dflt =
     (case env name of
        None \<Rightarrow> Inr dflt
      | Some raw \<Rightarrow>
          (case py_int raw of
             None \<Rightarrow> Inl (name @ '' must be an integer'')
           | Some v \<Rightarrow> if v \<le> 0 then Inl (name @ '' must be greater than zero'') else Inr v))"

definition env_get_default :: "env_vars \<Rightarrow> string \<Rightarrow> string \<Rightarrow> string" where
  "env_get_default env name dflt = (case env name of None \<Rightarrow> dflt | Some v \<Rightarrow> v)"

definition comma_values :: "env_vars \<Rightarrow> string \<Rightarrow> string list" where
  "comma_values env name =
     filter (\<lambda>v. v \<noteq> []) (map py_strip (split_on (CHR '','') (env_get_default env name '''')))"

definition canonical_network :: "string \<Rightarrow> string \<Rightarrow> string + ipv4_network" where
  "canonical_network name value =
     (case network_parse value of
        None \<Rightarrow> Inl (name @ '' must contain canonical IPv4 networks'')
      | Some n \<Rightarrow> if network_str n \<noteq> value then Inl (name @ '' must contain canonical IPv4 networks'')
                  else Inr n)"

text \<open>\<^verbatim>\<open>_cidrs\<close> and \<^verbatim>\<open>_accounts\<close>\<close>

definition cidrs :: "env_vars \<Rightarrow> string \<Rightarrow> string + ipv4_network list" where
  "cidrs env name =
     bindR (mapR (canonical_network name) (comma_values env name)) (\<lambda>ns.
     Inr (sort_key (\<lambda>n. (unat (fst n), snd n)) (remdups ns)))"

definition accounts :: "env_vars \<Rightarrow> string + string list" where
  "accounts env =
     (let values = comma_values env ''AUTHORIZED_ACCOUNT_IDS'' in
      if list_ex (\<lambda>v. \<not> is_account_id v) values
      then Inl ''AUTHORIZED_ACCOUNT_IDS must contain 12-digit account IDs''
      else Inr (sorted_set values))"

section \<open>Configuration\<close>

record generator_config =
  event_bucket :: string
  event_prefix :: string
  table_name :: string
  cluster_name :: string
  namespace :: string
  aws_region :: string
  api_group :: string
  api_version :: string
  plural :: string
  inventory_table_name :: "string option"
  partition_key :: string
  claim_lease_seconds :: int
  audit_ttl_days :: int
  max_event_bytes :: int
  allowed_target_cidrs :: "ipv4_network list"
  denied_target_cidrs :: "ipv4_network list"
  authorized_account_ids :: "string list"

definition SCANNER_API_GROUP :: string where "SCANNER_API_GROUP = ''scanning.portscanner.io''"
definition SCANNER_API_VERSION :: string where "SCANNER_API_VERSION = ''v1alpha1''"
definition SCANNER_PLURAL :: string where "SCANNER_PLURAL = ''scanners''"

text \<open>The regular expressions of the module, as predicates on the whole text.\<close>

definition is_lower_alnum :: "char \<Rightarrow> bool" where
  "is_lower_alnum c \<longleftrightarrow> is_lower c \<or> is_digit c"

definition is_bucket :: "string \<Rightarrow> bool" where
  "is_bucket s \<longleftrightarrow> len_between 3 63 s \<and> is_lower_alnum (hd s) \<and> is_lower_alnum (last s)
     \<and> list_all (\<lambda>c. is_lower_alnum c \<or> c \<in> set ''.-'') s"

definition is_dotted_quad :: "string \<Rightarrow> bool" where
  "is_dotted_quad s \<longleftrightarrow> (let parts = split_on (CHR ''.'') s in
     length parts = 4 \<and> list_all (\<lambda>p. p \<noteq> [] \<and> list_all is_digit p) parts)"

definition is_dns_label :: "string \<Rightarrow> bool" where
  "is_dns_label s \<longleftrightarrow> s \<noteq> [] \<and> is_lower_alnum (hd s) \<and> is_lower_alnum (last s)
     \<and> list_all (\<lambda>c. is_lower_alnum c \<or> c = CHR ''-'') s"

definition is_api_group :: "string \<Rightarrow> bool" where
  "is_api_group s \<longleftrightarrow> (let parts = split_on (CHR ''.'') s in
     2 \<le> length parts \<and> list_all is_dns_label parts)"

definition is_table_name :: "string \<Rightarrow> bool" where
  "is_table_name s \<longleftrightarrow> len_between 3 255 s \<and> list_all (\<lambda>c. is_alnum c \<or> c \<in> set ''_.-'') s"

definition is_cluster_name :: "string \<Rightarrow> bool" where
  "is_cluster_name s \<longleftrightarrow> len_between 1 100 s \<and> is_alnum (hd s)
     \<and> list_all (\<lambda>c. is_alnum c \<or> c \<in> set ''_-'') (tl s)"

definition is_attribute_name :: "string \<Rightarrow> bool" where
  "is_attribute_name s \<longleftrightarrow> len_between 1 255 s \<and> (is_lower (hd s) \<or> is_upper (hd s))
     \<and> list_all (\<lambda>c. is_alnum c \<or> c \<in> set ''_.-'') (tl s)"

definition is_region_name :: "string \<Rightarrow> bool" where
  "is_region_name s \<longleftrightarrow>
     (let parts = split_on (CHR ''-'') s in
      3 \<le> length parts
      \<and> length (hd parts) = 2 \<and> list_all is_lower (hd parts)
      \<and> list_all (\<lambda>p. p \<noteq> [] \<and> list_all is_lower_alnum p) (butlast (tl parts))
      \<and> last parts \<noteq> [] \<and> list_all is_digit (last parts))"

text \<open>\<^verbatim>\<open>GeneratorConfig.__post_init__\<close>: the configuration with its normalised bucket and prefix.\<close>

definition post_init :: "generator_config \<Rightarrow> string + generator_config" where
  "post_init c =
     (let bucket = py_strip (event_bucket c); prefix = py_strip (event_prefix c) in
      bindR (ensure (\<not> (\<not> is_bucket bucket \<or> contains bucket ''..'' \<or> contains bucket ''.-''
                        \<or> contains bucket ''-.'' \<or> is_dotted_quad bucket))
               ''TARGET_EVENT_BUCKET is not a valid S3 bucket'') (\<lambda>_.
      bindR (ensure (\<not> (prefix = [] \<or> length (utf8 prefix) > 1023 \<or> startswith prefix ''/''
                        \<or> ''..'' \<in> set (split_on (CHR ''/'') prefix) \<or> list_ex (\<lambda>ch. code ch < 32) prefix))
               ''TARGET_EVENT_PREFIX must be a non-empty relative S3 prefix'') (\<lambda>_.
      bindR (ensure (is_table_name (table_name c)) ''IDEMPOTENCY_TABLE is not a valid table name'') (\<lambda>_.
      bindR (ensure (opt_ok is_table_name (inventory_table_name c))
               ''INVENTORY_TABLE is not a valid table name'') (\<lambda>_.
      bindR (ensure (is_cluster_name (cluster_name c)) ''EKS_CLUSTER_NAME is not a valid cluster name'') (\<lambda>_.
      bindR (ensure (\<not> (length (namespace c) > 63 \<or> \<not> is_dns_label (namespace c)))
               ''K8S_NAMESPACE is not a valid namespace'') (\<lambda>_.
      bindR (ensure (\<not> (length (api_group c) > 253 \<or> \<not> is_api_group (api_group c)))
               ''K8S_API_GROUP is not a valid API group'') (\<lambda>_.
      bindR (ensure (api_group c = SCANNER_API_GROUP) (''K8S_API_GROUP must be '' @ SCANNER_API_GROUP)) (\<lambda>_.
      bindR (ensure (api_version c = SCANNER_API_VERSION)
               (''K8S_API_VERSION must be '' @ SCANNER_API_VERSION)) (\<lambda>_.
      bindR (ensure (plural c = SCANNER_PLURAL) (''K8S_CRD_PLURAL must be '' @ SCANNER_PLURAL)) (\<lambda>_.
      bindR (ensure (is_attribute_name (partition_key c))
               ''DYNAMODB_PARTITION_KEY is not a valid attribute name'') (\<lambda>_.
      bindR (ensure (is_region_name (aws_region c)) ''AWS_REGION is not a valid AWS region'') (\<lambda>_.
      bindR (ensure (\<not> claim_lease_seconds c \<le> 0) ''CLAIM_LEASE_SECONDS must be greater than zero'') (\<lambda>_.
      bindR (ensure (\<not> audit_ttl_days c \<le> 0) ''AUDIT_TTL_DAYS must be greater than zero'') (\<lambda>_.
      bindR (ensure (1 \<le> max_event_bytes c \<and> max_event_bytes c \<le> 65536)
               ''MAX_EVENT_BYTES must be between 1 and 65536'') (\<lambda>_.
      bindR (ensure (list_all network_ok (allowed_target_cidrs c))
               ''ALLOWED_TARGET_CIDRS must contain canonical IPv4 networks'') (\<lambda>_.
      bindR (ensure (list_all network_ok (denied_target_cidrs c))
               ''DENIED_TARGET_CIDRS must contain canonical IPv4 networks'') (\<lambda>_.
      bindR (ensure (list_all is_account_id (authorized_account_ids c))
               ''AUTHORIZED_ACCOUNT_IDS must contain 12-digit account IDs'') (\<lambda>_.
      Inr (c\<lparr>event_bucket := bucket, event_prefix := rstrip_char (CHR ''/'') prefix @ ''/''\<rparr>))))))))))))))))))))"

definition or_empty :: "string option \<Rightarrow> string" where
  "or_empty v = (case v of None \<Rightarrow> [] | Some s \<Rightarrow> s)"

text \<open>\<^verbatim>\<open>GeneratorConfig.from_environment\<close>\<close>

definition from_environment :: "env_vars \<Rightarrow> string + generator_config" where
  "from_environment env =
     bindR (aliased env [''TARGET_EVENT_BUCKET''] True) (\<lambda>bucket.
     bindR (aliased env [''TARGET_EVENT_PREFIX''] True) (\<lambda>prefix.
     bindR (aliased env [''IDEMPOTENCY_TABLE''] True) (\<lambda>tab.
     bindR (aliased env [''EKS_CLUSTER_NAME''] True) (\<lambda>cluster.
     bindR (aliased env [''K8S_NAMESPACE''] True) (\<lambda>ns.
     bindR (aliased env [''AWS_REGION'', ''AWS_DEFAULT_REGION''] True) (\<lambda>reg.
     bindR (aliased env [''K8S_API_GROUP''] False) (\<lambda>grp.
     bindR (aliased env [''INVENTORY_TABLE''] False) (\<lambda>inv.
     bindR (positive_int env ''CLAIM_LEASE_SECONDS'' 120) (\<lambda>lease.
     bindR (positive_int env ''AUDIT_TTL_DAYS'' 30) (\<lambda>ttl.
     bindR (positive_int env ''MAX_EVENT_BYTES'' 65536) (\<lambda>bytes.
     bindR (cidrs env ''ALLOWED_TARGET_CIDRS'') (\<lambda>allowed.
     bindR (cidrs env ''DENIED_TARGET_CIDRS'') (\<lambda>denied.
     bindR (accounts env) (\<lambda>accs.
     post_init
       \<lparr>event_bucket = or_empty bucket, event_prefix = or_empty prefix, table_name = or_empty tab,
        cluster_name = or_empty cluster, namespace = or_empty ns, aws_region = or_empty reg,
        api_group = (case grp of None \<Rightarrow> SCANNER_API_GROUP | Some g \<Rightarrow> g),
        api_version = py_strip (env_get_default env ''K8S_API_VERSION'' SCANNER_API_VERSION),
        plural = py_strip (env_get_default env ''K8S_CRD_PLURAL'' SCANNER_PLURAL),
        inventory_table_name = inv,
        partition_key = py_strip (env_get_default env ''DYNAMODB_PARTITION_KEY'' ''dispatch_id''),
        claim_lease_seconds = lease, audit_ttl_days = ttl, max_event_bytes = bytes,
        allowed_target_cidrs = allowed, denied_target_cidrs = denied,
        authorized_account_ids = accs\<rparr>))))))))))))))"

section \<open>Scope\<close>

definition target_allowed :: "generator_config \<Rightarrow> string \<Rightarrow> bool" where
  "target_allowed c address =
     (case ipv4_parse address of
        None \<Rightarrow> False
      | Some parsed \<Rightarrow>
          if list_ex (in_network parsed) (denied_target_cidrs c) then False
          else allowed_target_cidrs c = [] \<or> list_ex (in_network parsed) (allowed_target_cidrs c))"

definition account_allowed :: "generator_config \<Rightarrow> string \<Rightarrow> bool" where
  "account_allowed c account \<longleftrightarrow> account \<in> set (authorized_account_ids c)"

section \<open>What a configuration satisfies\<close>

text \<open>The part of the checks that the generator's own reasoning rests on; names of clusters, regions and tables are only patterns.\<close>

definition config_ok :: "generator_config \<Rightarrow> bool" where
  "config_ok c \<longleftrightarrow>
     is_bucket (event_bucket c)
     \<and> (\<exists>p. p \<noteq> [] \<and> event_prefix c = p @ ''/'' \<and> hd p \<noteq> CHR ''/'' \<and> last p \<noteq> CHR ''/'')
     \<and> is_table_name (table_name c) \<and> is_dns_label (namespace c) \<and> length (namespace c) \<le> 63
     \<and> api_group c = SCANNER_API_GROUP \<and> api_version c = SCANNER_API_VERSION \<and> plural c = SCANNER_PLURAL
     \<and> 0 < claim_lease_seconds c \<and> 0 < audit_ttl_days c
     \<and> 1 \<le> max_event_bytes c \<and> max_event_bytes c \<le> 65536
     \<and> list_all network_ok (allowed_target_cidrs c) \<and> list_all network_ok (denied_target_cidrs c)
     \<and> list_all is_account_id (authorized_account_ids c)"

lemma startswith_slash: "startswith s ''/'' \<longleftrightarrow> s \<noteq> [] \<and> hd s = CHR ''/''"
  by (cases s) (auto simp: startswith_def)

lemma rstrip_char_Nil: "rstrip_char c s = [] \<longleftrightarrow> list_all ((=) c) s"
  by (auto simp: rstrip_char_def dropWhile_eq_Nil_conv list_all_iff)

lemma rstrip_char_last: "rstrip_char c s \<noteq> [] \<Longrightarrow> last (rstrip_char c s) \<noteq> c"
  using hd_dropWhile [of "(=) c" "rev s"] by (auto simp: rstrip_char_def last_rev simp del: dropWhile_eq_Nil_conv)

lemma rstrip_char_prefix: "\<exists>n. s = rstrip_char c s @ replicate n c"
proof -
  have "takeWhile ((=) c) (rev s) = replicate (length (takeWhile ((=) c) (rev s))) c"
    by (metis (full_types) replicate_length_same set_takeWhileD)
  then have "rev s = replicate (length (takeWhile ((=) c) (rev s))) c @ dropWhile ((=) c) (rev s)"
    by (metis takeWhile_dropWhile_id)
  then have "s = rstrip_char c s @ replicate (length (takeWhile ((=) c) (rev s))) c"
    unfolding rstrip_char_def by (metis rev_append rev_replicate rev_rev_ident)
  then show ?thesis by blast
qed

lemma post_init_ok: "post_init c = Inr c' \<Longrightarrow> config_ok c'"
proof -
  assume init: "post_init c = Inr c'"
  let ?p = "py_strip (event_prefix c)"
  let ?r = "rstrip_char (CHR ''/'') ?p"
  from init have c': "c' = c\<lparr>event_bucket := py_strip (event_bucket c), event_prefix := ?r @ ''/''\<rparr>"
    and p: "?p \<noteq> []" "hd ?p \<noteq> CHR ''/''"
    and rest: "is_bucket (py_strip (event_bucket c))" "is_table_name (table_name c)"
      "is_dns_label (namespace c)" "length (namespace c) \<le> 63"
      "api_group c = SCANNER_API_GROUP" "api_version c = SCANNER_API_VERSION" "plural c = SCANNER_PLURAL"
      "0 < claim_lease_seconds c" "0 < audit_ttl_days c" "1 \<le> max_event_bytes c" "max_event_bytes c \<le> 65536"
      "list_all network_ok (allowed_target_cidrs c)" "list_all network_ok (denied_target_cidrs c)"
      "list_all is_account_id (authorized_account_ids c)"
    by (auto simp: post_init_def Let_def bindR_Inr startswith_slash)
  obtain n where n: "?p = ?r @ replicate n (CHR ''/'')" using rstrip_char_prefix by blast
  have r: "?r \<noteq> []"
    using p by (cases ?p) (auto simp: rstrip_char_Nil)
  then have "hd ?r \<noteq> CHR ''/''" using p(2) n by (metis hd_append2)
  with r rstrip_char_last [OF r] rest c' show ?thesis by (auto simp: config_ok_def)
qed

lemma from_environment_ok: "from_environment env = Inr c \<Longrightarrow> config_ok c"
  by (auto simp: from_environment_def bindR_Inr intro: post_init_ok)

lemma network_parse_str: "network_ok n \<Longrightarrow> network_parse (network_str n) = Some n"
proof -
  assume ok: "network_ok n"
  obtain a b c d where "octets (fst n) = [a, b, c, d]" by (rule octets_cases)
  then have "CHR ''/'' \<notin> set (ipv4_str (fst n))"
    using nat_str_no_char [of "CHR ''/''"] by (simp add: ipv4_str_def is_digit_def code_def)
  moreover have "CHR ''/'' \<notin> set (nat_str (snd n))"
    by (rule nat_str_no_char) (simp add: is_digit_def code_def)
  ultimately have "split_on (CHR ''/'') (network_str n) = [ipv4_str (fst n), nat_str (snd n)]"
    by (simp add: network_str_def split_on_append_sep split_on_no_sep)
  with ok show ?thesis by (simp add: network_parse_def list_all_iff nat_str_digits)
qed

lemma network_parse_ok: "network_parse s = Some n \<Longrightarrow> network_ok n"
  by (auto simp: network_parse_def split: list.splits option.splits if_splits)

text \<open>The networks of a variable: canonical, without duplicates, in the order of the addresses.\<close>

lemma cidrs_ok:
  assumes "cidrs env name = Inr ns"
  shows "list_all network_ok ns" "distinct ns" "sorted (map (\<lambda>n. (unat (fst n), snd n)) ns)"
    "set (map network_str ns) = set (comma_values env name)"
proof -
  from assms obtain ms where ms: "list_all2 (\<lambda>v n. canonical_network name v = Inr n) (comma_values env name) ms"
    and ns: "ns = sort_key (\<lambda>n. (unat (fst n), snd n)) (remdups ms)"
    by (auto simp: cidrs_def bindR_Inr mapR_Inr)
  have canonical: "network_parse v = Some n \<and> network_str n = v" if "canonical_network name v = Inr n" for v n
    using that by (auto simp: canonical_network_def split: option.splits if_splits)
  from ms have "list_all network_ok ms \<and> map network_str ms = comma_values env name"
    by (induction rule: list_all2_induct) (auto dest: canonical network_parse_ok)
  then have ms: "list_all network_ok ms" "set (comma_values env name) = network_str ` set ms"
    by (auto simp flip: set_map)
  show "list_all network_ok ns" "distinct ns" "sorted (map (\<lambda>n. (unat (fst n), snd n)) ns)"
    using ms(1) by (auto simp: ns list_all_iff)
  show "set (map network_str ns) = set (comma_values env name)" by (simp add: ns ms(2))
qed

end
