(* ===== verification/Generator_Ownership.thy ===== *)
theory Generator_Ownership
  imports Generator_World
begin

text \<open>
  Ownership revalidation (\<^verbatim>\<open>generator/.../revalidation.py\<close>): the verdict of the inventory is
  normalised into a decision. Whatever shape the verdict has, only a positive and
  consistent statement of current ownership permits a dispatch.

  A verdict is seen through its fields, as a mapping or as attributes; an enumeration
  member is its string value.
\<close>

datatype ownership_decision = DISPATCH | STALE | CANCEL | RETRY

primrec decision_value :: "ownership_decision \<Rightarrow> string" where
  "decision_value DISPATCH = ''dispatch''"
| "decision_value STALE = ''stale''"
| "decision_value CANCEL = ''cancel''"
| "decision_value RETRY = ''retry''"

record ownership_check =
  oc_verdict :: string
  oc_requested_generation :: int
  oc_current_generation :: "int option"
  oc_decision :: ownership_decision
  oc_reason :: "string option"

definition state_name :: "json \<Rightarrow> string" where
  "state_name v = (case v of JStr s \<Rightarrow> py_upper (py_strip s) | _ \<Rightarrow> ''UNKNOWN'')"

definition verdict_current :: "json \<Rightarrow> json" where
  "verdict_current v =
     (let current = vfield v ''current_generation'' in
      if current = JNull
      then (case vfield (vfield v ''current'') ''generation'' of JInt g \<Rightarrow> JInt g | _ \<Rightarrow> JNull)
      else current)"

text \<open>The two consistency checks, on the state and the current generation.\<close>

definition check_reported :: "json \<Rightarrow> int \<Rightarrow> string \<times> json \<Rightarrow> string \<times> json" where
  "check_reported reported requested sc =
     (if reported \<noteq> JNull \<and> \<not> py_eq_int reported requested then (''UNKNOWN'', JNull) else sc)"

definition check_current :: "string \<times> json \<Rightarrow> string \<times> int option" where
  "check_current sc =
     (case snd sc of
        JNull \<Rightarrow> (fst sc, None)
      | JInt g \<Rightarrow> if g < 1 then (''UNKNOWN'', None) else (fst sc, Some g)
      | _ \<Rightarrow> (''UNKNOWN'', None))"

definition decide :: "string \<Rightarrow> int option \<Rightarrow> int \<Rightarrow> string \<times> ownership_decision" where
  "decide state current requested =
     (if state = ''ACTIVE''
      then (state, (case current of
                      None \<Rightarrow> DISPATCH
                    | Some g \<Rightarrow> if g = requested then DISPATCH
                                else if g > requested then STALE else RETRY))
      else if state = ''STALE'' then (state, STALE)
      else if state \<in> {''MOVED'', ''INACTIVE''} then (state, CANCEL)
      else (''UNKNOWN'', RETRY))"

text \<open>\<^verbatim>\<open>classify_verdict\<close>\<close>

definition classify_verdict :: "raw_verdict \<Rightarrow> int \<Rightarrow> ownership_check" where
  "classify_verdict verdict requested =
     (let v = rv_fields verdict;
          state_value = (if vfield v ''verdict'' = JNull then vfield v ''state'' else vfield v ''verdict'');
          (state, current) = check_current (check_reported (vfield v ''requested_generation'') requested
                               (state_name state_value, verdict_current v));
          (state', decision) = decide state current requested
      in \<lparr>oc_verdict = state', oc_requested_generation = requested, oc_current_generation = current,
          oc_decision = decision, oc_reason = rv_reason verdict\<rparr>)"

text \<open>\<^verbatim>\<open>revalidate_event\<close>, on the generation of the event's target.\<close>

definition revalidate_event :: "environment \<Rightarrow> int \<Rightarrow> ownership_check gen" where
  "revalidate_event E requested =
     bindM (ask_ownership E) (\<lambda>raw. returnM (classify_verdict raw requested))"

section \<open>The gate\<close>

text \<open>
  A verdict that owns the requested generation: it says so, it answers this request, and
  the generation it knows, if it names one, is the requested one.
\<close>

definition verdict_state :: "json \<Rightarrow> string" where
  "verdict_state v =
     state_name (if vfield v ''verdict'' = JNull then vfield v ''state'' else vfield v ''verdict'')"

definition owns :: "json \<Rightarrow> int \<Rightarrow> bool" where
  "owns v requested \<longleftrightarrow>
     verdict_state v = ''ACTIVE''
     \<and> (vfield v ''requested_generation'' = JNull \<or> py_eq_int (vfield v ''requested_generation'') requested)
     \<and> (verdict_current v = JNull \<or> verdict_current v = JInt requested \<and> 1 \<le> requested)"

lemma decide_dispatch:
  "snd (decide st cur req) = DISPATCH \<longleftrightarrow> st = ''ACTIVE'' \<and> (cur = None \<or> cur = Some req)"
  by (auto simp: decide_def split: option.splits)

lemma classify_fields [simp]:
  "oc_requested_generation (classify_verdict rv req) = req"
  "oc_reason (classify_verdict rv req) = rv_reason rv"
  by (simp_all add: classify_verdict_def Let_def split: prod.splits)

lemma dispatch_iff_owns: "oc_decision (classify_verdict rv req) = DISPATCH \<longleftrightarrow> owns (rv_fields rv) req"
proof -
  let ?v = "rv_fields rv"
  let ?sc = "check_current (check_reported (vfield ?v ''requested_generation'') req
               (verdict_state ?v, verdict_current ?v))"
  have "oc_decision (classify_verdict rv req) = snd (decide (fst ?sc) (snd ?sc) req)"
    by (simp add: classify_verdict_def verdict_state_def Let_def split: prod.splits)
  then show ?thesis
    by (auto simp: decide_dispatch owns_def check_current_def check_reported_def split: json.splits if_splits)
qed

lemma classify_current_positive:
  "oc_current_generation (classify_verdict rv req) = Some g \<Longrightarrow> 1 \<le> g"
  by (auto simp: classify_verdict_def check_current_def Let_def split: prod.splits json.splits if_splits)

text \<open>A superseded verdict that names a generation names a later one, or says so itself.\<close>

lemma decide_stale:
  "snd (decide st cur req) = STALE \<longleftrightarrow> st = ''STALE'' \<or> (st = ''ACTIVE'' \<and> (\<exists>g. cur = Some g \<and> req < g))"
  by (auto simp: decide_def split: option.splits)

lemma within_revalidate: "(\<And>v. P (Ownership_request v)) \<Longrightarrow> within P (revalidate_event E g)"
  unfolding revalidate_event_def by (intro within_intro within_ask_ownership)

end
