(* ===== verification/Generator_Resource.thy ===== *)
theory Generator_Resource
  imports Generator_World
begin

text \<open>
  The Scanner custom resource of a work event (\<^verbatim>\<open>generator/.../scanner_resource.py\<close>): its
  deterministic name, the opaque label values, the split of the directive's ranges into
  single ports and ranges, and the complete document.

  The event has passed the contract, so its fields have their types; the checks that the
  builder repeats on their values are kept.
\<close>

section \<open>Identifiers\<close>

definition TARGET_HASH_LABEL :: string where
  "TARGET_HASH_LABEL = ''scanning.portscanner.io/target-hash''"

definition EVENT_HASH_LABEL :: string where
  "EVENT_HASH_LABEL = ''scanning.portscanner.io/event-hash''"

definition MANAGED_BY_LABEL :: string where
  "MANAGED_BY_LABEL = ''app.kubernetes.io/managed-by''"

definition READABLE_STATUS_ANNOTATION :: string where
  "READABLE_STATUS_ANNOTATION = ''scanning.portscanner.io/readable-status''"

definition REASON_STATUS :: "(string \<times> string) list" where
  "REASON_STATUS =
     [(''new_target'', ''New door''), (''target_change'', ''Changed door''),
      (''policy_change'', ''Changed door''), (''coverage'', ''Known door''),
      (''manual'', ''Manual verification'')]"

definition identifier_hash :: "nat \<Rightarrow> string \<Rightarrow> gen_error + string" where
  "identifier_hash len value =
     (if value = [] then Inl (Value_fault ''identifier must be a non-empty string'')
      else Inr (take len (sha256 value)))"

definition scanner_name :: "string \<Rightarrow> gen_error + string" where
  "scanner_name event_id = bindR (identifier_hash 52 event_id) (\<lambda>h. Inr (''scan-'' @ h))"

definition target_hash :: "string \<Rightarrow> gen_error + string" where
  "target_hash tid = identifier_hash 52 tid"

definition required_text :: "string \<Rightarrow> string \<Rightarrow> gen_error + string" where
  "required_text value field =
     (if value = [] then Inl (Value_fault (field @ '' must be a non-empty string'')) else Inr value)"

text \<open>
  \<^verbatim>\<open>trace_id_for_event\<close>: neither contract has a \<^verbatim>\<open>trace_id\<close> field and both forbid extra ones,
  so the trace is the event.
\<close>

definition trace_id_for_event :: "target_payload \<Rightarrow> gen_error + string" where
  "trace_id_for_event p = required_text (payload_event_id p) ''event_id''"

section \<open>Ports\<close>

definition port_range :: "tcp_port_range \<Rightarrow> gen_error + int \<times> int" where
  "port_range r =
     (if \<not> (1 \<le> pr_start r \<and> pr_start r \<le> pr_end r \<and> pr_end r \<le> 65535)
      then Inl (Value_fault ''scan TCP port range is invalid'')
      else Inr (pr_start r, pr_end r))"

text \<open>The loop of \<^verbatim>\<open>_port_selection\<close> with its two accumulators.\<close>

fun port_selection_loop :: "int list \<Rightarrow> (int \<times> int) list \<Rightarrow> tcp_port_range list
    \<Rightarrow> gen_error + int list \<times> (int \<times> int) list" where
  "port_selection_loop ports ranges [] = Inr (ports, ranges)"
| "port_selection_loop ports ranges (r # rs) =
     bindR (port_range r) (\<lambda>(s, e).
       if s = e then port_selection_loop (ports @ [s]) ranges rs
       else port_selection_loop ports (ranges @ [(s, e)]) rs)"

definition port_selection :: "tcp_port_range list \<Rightarrow> gen_error + int list \<times> (int \<times> int) list" where
  "port_selection contract_ranges =
     bindR (port_selection_loop [] [] contract_ranges) (\<lambda>(ports, ranges).
       if ports = [] \<and> ranges = [] then Inl (Value_fault ''scan directive has no explicit TCP ports'')
       else Inr (sorted_set ports, ranges))"

definition selected_ports :: "int list \<times> (int \<times> int) list \<Rightarrow> int set" where
  "selected_ports sel = set (fst sel) \<union> {p. \<exists>(s, e) \<in> set (snd sel). s \<le> p \<and> p \<le> e}"

lemma port_selection_loop_ok:
  assumes "\<forall>r \<in> set rs. is_port (pr_start r) \<and> is_port (pr_end r) \<and> pr_start r \<le> pr_end r"
  shows "port_selection_loop ps qs rs =
    Inr (ps @ map pr_start (filter (\<lambda>r. pr_start r = pr_end r) rs),
         qs @ map (\<lambda>r. (pr_start r, pr_end r)) (filter (\<lambda>r. pr_start r \<noteq> pr_end r) rs))"
  using assms by (induction rs arbitrary: ps qs) (auto simp: port_range_def is_port_def)

lemma port_selection_ok:
  assumes "\<forall>r \<in> set rs. is_port (pr_start r) \<and> is_port (pr_end r) \<and> pr_start r \<le> pr_end r"
    and "rs \<noteq> []"
  shows "port_selection rs =
    Inr (sorted_set (map pr_start (filter (\<lambda>r. pr_start r = pr_end r) rs)),
         map (\<lambda>r. (pr_start r, pr_end r)) (filter (\<lambda>r. pr_start r \<noteq> pr_end r) rs))"
proof -
  have "filter (\<lambda>r. pr_start r = pr_end r) rs \<noteq> [] \<or> filter (\<lambda>r. pr_start r \<noteq> pr_end r) rs \<noteq> []"
    using assms(2) by (cases rs) auto
  then show ?thesis using port_selection_loop_ok [OF assms(1)] by (auto simp: port_selection_def)
qed

section \<open>The resource\<close>

definition json_range :: "int \<times> int \<Rightarrow> json" where
  "json_range r = JObj [(''start'', JInt (fst r)), (''end'', JInt (snd r))]"

text \<open>\<^verbatim>\<open>build_scanner_resource\<close>\<close>

definition build_scanner_resource :: "target_event \<Rightarrow> string \<Rightarrow> string \<Rightarrow> string \<Rightarrow> gen_error + json" where
  "build_scanner_resource ev namespace api_group api_version =
     (let t = te_target ev; d = te_scan ev; s = te_source ev in
      bindR (required_text (target_id t) ''target.target_id'') (\<lambda>tid.
      bindR (required_text (public_address t) ''target.public_address'') (\<lambda>address.
      bindR (required_text (provider_value (provider t)) ''target.provider'') (\<lambda>prov.
      bindR (required_text (scope_id t) ''target.scope_id'') (\<lambda>scope.
      bindR (required_text (location t) ''target.location'') (\<lambda>loc.
      bindR (required_text (resource_id t) ''target.resource_id'') (\<lambda>resource.
      bindR (required_text (private_address t) ''target.private_address'') (\<lambda>private.
      bindR (ensure (\<not> generation t < 1) (Value_fault ''target.generation must be a positive integer'')) (\<lambda>_.
      bindR (required_text (te_event_id ev) ''event_id'') (\<lambda>eid.
      bindR (trace_id_for_event (Work ev)) (\<lambda>trace.
      bindR (required_text (directive_id d) ''scan.directive_id'') (\<lambda>did.
      bindR (required_text (reason_value (sd_reason d)) ''scan.reason'') (\<lambda>reason.
      bindR (required_text (profile_value (sd_profile d)) ''scan.profile'') (\<lambda>profile.
      bindR (case map_of REASON_STATUS reason of
               None \<Rightarrow> Inl (Value_fault ''scan.reason has no readable status mapping'')
             | Some status \<Rightarrow> Inr status) (\<lambda>status.
      bindR (port_selection (tcp_port_ranges d)) (\<lambda>(ports, ranges).
      bindR (scanner_name eid) (\<lambda>name.
      bindR (target_hash tid) (\<lambda>thash.
      bindR (identifier_hash 52 eid) (\<lambda>ehash.
      Inr (JObj
        [(''apiVersion'', JStr (api_group @ ''/'' @ api_version)),
         (''kind'', JStr ''Scanner''),
         (''metadata'', JObj
           [(''name'', JStr name),
            (''namespace'', JStr namespace),
            (''labels'', JObj
              [(MANAGED_BY_LABEL, JStr ''portscanner-generator''),
               (TARGET_HASH_LABEL, JStr thash),
               (EVENT_HASH_LABEL, JStr ehash)]),
            (''annotations'', JObj [(READABLE_STATUS_ANNOTATION, JStr status)])]),
         (''spec'', JObj
           [(''target'', JObj
              [(''address'', JStr address), (''targetId'', JStr tid), (''provider'', JStr prov),
               (''scopeId'', JStr scope), (''location'', JStr loc), (''resourceId'', JStr resource),
               (''privateAddress'', JStr private), (''generation'', JInt (generation t))]),
            (''eventId'', JStr eid), (''directiveId'', JStr did), (''traceId'', JStr trace),
            (''reason'', JStr reason), (''profile'', JStr profile),
            (''ports'', JArr (map JInt ports)), (''ranges'', JArr (map json_range ranges)),
            (''priority'', JInt (priority d)), (''deadline'', JStr (iso_utc (deadline_at d))),
            (''notAfter'', JStr (iso_utc (not_after d))),
            (''sourceTimestamps'', JObj
              [(''eventAt'', JStr (iso_utc (event_time s))),
               (''observedAt'', JStr (iso_utc (observed_at s)))])])]))))))))))))))))))))"

section \<open>What is built\<close>

lemma reason_status_total: "\<exists>s. map_of REASON_STATUS (reason_value r) = Some s"
  by (cases r) (simp_all add: REASON_STATUS_def)

lemma hex_not_Nil: "is_sha256_hex s \<Longrightarrow> s \<noteq> []"
  by (auto simp: is_sha256_hex_def)

text \<open>The ports that a Scanner document asks for: its single ports and its ranges.\<close>

definition json_ints :: "json option \<Rightarrow> int set" where
  "json_ints v = {i. \<exists>vs. v = Some (JArr vs) \<and> JInt i \<in> set vs}"

definition json_ranges :: "json option \<Rightarrow> int set" where
  "json_ranges v = {i. \<exists>vs s e. v = Some (JArr vs) \<and> json_range (s, e) \<in> set vs \<and> s \<le> i \<and> i \<le> e}"

definition document_ports :: "json \<Rightarrow> int set" where
  "document_ports doc =
     json_ints (json_at [''spec'', ''ports''] doc) \<union> json_ranges (json_at [''spec'', ''ranges''] doc)"

lemma json_range_inject [simp]: "json_range a = json_range b \<longleftrightarrow> a = b"
  by (cases a; cases b) (simp add: json_range_def)

lemma json_ints_map [simp]: "json_ints (Some (JArr (map JInt xs))) = set xs"
  by (auto simp: json_ints_def)

lemma json_ranges_map [simp]:
  "json_ranges (Some (JArr (map json_range rs))) = {p. \<exists>(s, e) \<in> set rs. s \<le> p \<and> p \<le> e}"
  by (fastforce simp: json_ranges_def)

lemma valid_target_texts:
  assumes "validate_target skip t = None"
  shows "target_id t \<noteq> []" "public_address t \<noteq> []" "scope_id t \<noteq> []" "location t \<noteq> []"
    "resource_id t \<noteq> []" "private_address t \<noteq> []" "1 \<le> generation t"
proof -
  have nil: "validate_ipv4 [] = Inl (Field_error ''address'')"
    by (simp add: validate_ipv4_def len_between_def)
  from assms show "target_id t \<noteq> []" "scope_id t \<noteq> []" "location t \<noteq> []" "resource_id t \<noteq> []"
    "1 \<le> generation t"
    by (auto simp: validate_target_def is_sha256_hex_def is_account_id_def is_region_def is_eni_def
        prefixed_hex_def is_generation_def startswith_def len_between_def)
  from assms nil show "public_address t \<noteq> []" "private_address t \<noteq> []"
    by (auto simp: validate_target_def validate_public_ipv4_def)
qed

text \<open>The document of a validated event, field by field.\<close>

definition scanner_document :: "target_event \<Rightarrow> string \<Rightarrow> string \<Rightarrow> string \<Rightarrow> string \<Rightarrow> int list
    \<Rightarrow> (int \<times> int) list \<Rightarrow> json" where
  "scanner_document ev ns grp ver status ports ranges =
     (let t = te_target ev; d = te_scan ev; s = te_source ev in
      JObj
        [(''apiVersion'', JStr (grp @ ''/'' @ ver)),
         (''kind'', JStr ''Scanner''),
         (''metadata'', JObj
           [(''name'', JStr (''scan-'' @ take 52 (sha256 (te_event_id ev)))),
            (''namespace'', JStr ns),
            (''labels'', JObj
              [(MANAGED_BY_LABEL, JStr ''portscanner-generator''),
               (TARGET_HASH_LABEL, JStr (take 52 (sha256 (target_id t)))),
               (EVENT_HASH_LABEL, JStr (take 52 (sha256 (te_event_id ev))))]),
            (''annotations'', JObj [(READABLE_STATUS_ANNOTATION, JStr status)])]),
         (''spec'', JObj
           [(''target'', JObj
              [(''address'', JStr (public_address t)), (''targetId'', JStr (target_id t)),
               (''provider'', JStr (provider_value (provider t))),
               (''scopeId'', JStr (scope_id t)), (''location'', JStr (location t)),
               (''resourceId'', JStr (resource_id t)),
               (''privateAddress'', JStr (private_address t)), (''generation'', JInt (generation t))]),
            (''eventId'', JStr (te_event_id ev)), (''directiveId'', JStr (directive_id d)),
            (''traceId'', JStr (te_event_id ev)), (''reason'', JStr (reason_value (sd_reason d))),
            (''profile'', JStr (profile_value (sd_profile d))),
            (''ports'', JArr (map JInt ports)), (''ranges'', JArr (map json_range ranges)),
            (''priority'', JInt (priority d)), (''deadline'', JStr (iso_utc (deadline_at d))),
            (''notAfter'', JStr (iso_utc (not_after d))),
            (''sourceTimestamps'', JObj
              [(''eventAt'', JStr (iso_utc (event_time s))),
               (''observedAt'', JStr (iso_utc (observed_at s)))])])])"

lemma required_text_Inr [simp]: "required_text v f = Inr x \<longleftrightarrow> v \<noteq> [] \<and> x = v"
  by (auto simp: required_text_def)

lemma identifier_hash_Inr [simp]: "identifier_hash n v = Inr x \<longleftrightarrow> v \<noteq> [] \<and> x = take n (sha256 v)"
  by (auto simp: identifier_hash_def)

lemma enum_values_not_Nil [simp]:
  "provider_value p \<noteq> []" "reason_value r \<noteq> []" "profile_value f \<noteq> []" "event_type_value y \<noteq> []"
     apply (cases p; simp)
    apply (cases r; simp)
   apply (cases f; simp)
  apply (cases y; simp)
  done

lemma build_scanner_resource_Inr:
  "build_scanner_resource ev ns grp ver = Inr doc \<longleftrightarrow>
     target_id (te_target ev) \<noteq> [] \<and> public_address (te_target ev) \<noteq> [] \<and> scope_id (te_target ev) \<noteq> []
     \<and> location (te_target ev) \<noteq> [] \<and> resource_id (te_target ev) \<noteq> [] \<and> private_address (te_target ev) \<noteq> []
     \<and> 1 \<le> generation (te_target ev) \<and> te_event_id ev \<noteq> [] \<and> directive_id (te_scan ev) \<noteq> []
     \<and> (\<exists>status ports ranges. map_of REASON_STATUS (reason_value (sd_reason (te_scan ev))) = Some status
        \<and> port_selection (tcp_port_ranges (te_scan ev)) = Inr (ports, ranges)
        \<and> doc = scanner_document ev ns grp ver status ports ranges)"
proof -
  have event: "payload_event_id (Work ev) = te_event_id ev" by (simp add: payload_event_id_def)
  show ?thesis
    unfolding build_scanner_resource_def scanner_document_def Let_def bindR_Inr trace_id_for_event_def
      scanner_name_def target_hash_def event
    by (auto simp: bindR_Inr not_less split: option.splits)
qed

text \<open>The single ports and the longer ranges of a directive.\<close>

definition single_ports :: "tcp_port_range list \<Rightarrow> int list" where
  "single_ports rs = sorted_set (map pr_start (filter (\<lambda>r. pr_start r = pr_end r) rs))"

definition long_ranges :: "tcp_port_range list \<Rightarrow> (int \<times> int) list" where
  "long_ranges rs = map (\<lambda>r. (pr_start r, pr_end r)) (filter (\<lambda>r. pr_start r \<noteq> pr_end r) rs)"

lemma validated_ranges:
  assumes "validate_event skip ev = None"
  shows "\<forall>r \<in> set (tcp_port_ranges (te_scan ev)). is_port (pr_start r) \<and> is_port (pr_end r) \<and> pr_start r \<le> pr_end r"
    "tcp_port_ranges (te_scan ev) \<noteq> []"
  using assms by (auto simp: validate_event_def validate_directive_def validate_range_field_gapped)

lemma validated_ports:
  assumes "validate_event skip ev = None"
  shows "selected_ports (single_ports (tcp_port_ranges (te_scan ev)), long_ranges (tcp_port_ranges (te_scan ev)))
    = range_ports (tcp_port_ranges (te_scan ev))"
  using validated_ranges(1) [OF assms] by (fastforce simp: selected_ports_def range_ports_def single_ports_def long_ranges_def)

lemma validated_resource:
  assumes "validate_event skip ev = None"
  shows "\<exists>status. map_of REASON_STATUS (reason_value (sd_reason (te_scan ev))) = Some status
    \<and> build_scanner_resource ev ns grp ver = Inr (scanner_document ev ns grp ver status
        (single_ports (tcp_port_ranges (te_scan ev))) (long_ranges (tcp_port_ranges (te_scan ev))))"
proof -
  from assms have t: "validate_target skip (te_target ev) = None"
    and d: "validate_directive skip (te_scan ev) = None" and e: "is_sha256_hex (te_event_id ev)"
    by (simp_all add: validate_event_def)
  from d have did: "directive_id (te_scan ev) \<noteq> []" by (auto simp: validate_directive_def dest: hex_not_Nil)
  obtain status where status: "map_of REASON_STATUS (reason_value (sd_reason (te_scan ev))) = Some status"
    using reason_status_total by blast
  have "build_scanner_resource ev ns grp ver = Inr (scanner_document ev ns grp ver status
      (single_ports (tcp_port_ranges (te_scan ev))) (long_ranges (tcp_port_ranges (te_scan ev))))"
    unfolding build_scanner_resource_Inr single_ports_def long_ranges_def
    using valid_target_texts [OF t] e did status port_selection_ok [OF validated_ranges [OF assms]] by (auto dest: hex_not_Nil)
  with status show ?thesis by blast
qed

lemma build_scanner_resource_valid:
  assumes "validate_event skip ev = None"
  shows "\<exists>status ports ranges. port_selection (tcp_port_ranges (te_scan ev)) = Inr (ports, ranges)
    \<and> build_scanner_resource ev ns grp ver = Inr (scanner_document ev ns grp ver status ports ranges)
    \<and> selected_ports (ports, ranges) = range_ports (tcp_port_ranges (te_scan ev))"
  using validated_resource [OF assms] validated_ports [OF assms] port_selection_ok [OF validated_ranges [OF assms]]
  unfolding single_ports_def long_ranges_def by blast

lemma document_ports_eq: "document_ports (scanner_document ev ns grp ver st ps rs) = selected_ports (ps, rs)"
  by (simp add: document_ports_def scanner_document_def selected_ports_def Let_def)

end
