(* ===== verification/Json_Roundtrip.thy ===== *)
theory Json_Roundtrip
  imports Json_Parser Sha256 "HOL-Library.Multiset"
begin

text \<open>
  The round trip of the JSON model: what \<^verbatim>\<open>json.dumps\<close> prints with sorted keys,
  \<^verbatim>\<open>json.loads\<close> reads back to the same document with its members in the order of their
  keys. So the canonical text of a payload determines the payload.
\<close>

section \<open>Documents\<close>

text \<open>
  Documents that the printer renders losslessly: no repeated keys, no floats, and integers
  within the digit limit that both directions of Python share.
\<close>

fun json_wf :: "json \<Rightarrow> bool" where
  "json_wf (JArr vs) = list_all json_wf vs"
| "json_wf (JObj kvs) \<longleftrightarrow> distinct (map fst kvs) \<and> list_all (\<lambda>(k, v). json_wf v) kvs"
| "json_wf _ = True"

fun printable :: "json \<Rightarrow> bool" where
  "printable (JInt i) \<longleftrightarrow> length (filter is_digit (int_str i)) \<le> 4300"
| "printable (JFloat s) = False"
| "printable (JArr vs) = list_all printable vs"
| "printable (JObj kvs) = list_all (\<lambda>(k, v). printable v) kvs"
| "printable _ = True"

text \<open>The document with the members of every object in the order of their keys.\<close>

fun canon :: "json \<Rightarrow> json" where
  "canon (JArr vs) = JArr (map canon vs)"
| "canon (JObj kvs) = JObj (sort_key fst (map (\<lambda>(k, v). (k, canon v)) kvs))"
| "canon v = v"

lemma code_bound: "code c < 256"
  by (simp add: code_def)

lemma char_of_code [simp]: "char_of (code c) = c"
  by (simp add: code_def)

lemma code_of_char [simp]: "n < 256 \<Longrightarrow> code (char_of n) = n"
  by (simp add: code_def)

lemma code_hex_char: "d < 16 \<Longrightarrow> code (hex_char d) = (if d < 10 then 48 + d else 87 + d)"
  by (auto simp: hex_char_def)

lemma hex4_eq: "n < 256 \<Longrightarrow> hex4 n = [CHR ''0'', CHR ''0'', hex_char (n div 16), hex_char (n mod 16)]"
  using digit_char_0 [unfolded digit_char_def] by (simp add: hex4_def upt_rec hex_char_def)

lemma hex_val_hex4: "n < 256 \<Longrightarrow> hex_val [CHR ''0'', CHR ''0'', hex_char (n div 16), hex_char (n mod 16)] = n"
proof -
  assume "n < 256"
  then have d: "n div 16 < 16" "n mod 16 < 16" by auto
  have v: "(if is_digit (hex_char d) then code (hex_char d) - 48
      else if is_lower (hex_char d) then code (hex_char d) - 87 else code (hex_char d) - 55) = d" if "d < 16" for d
    using that by (auto simp: is_digit_def is_lower_def code_hex_char)
  have "16 * (n div 16) + n mod 16 = n" by simp
  with v [OF d(1)] v [OF d(2)] show ?thesis by (simp add: hex_val_def is_digit_def code_def)
qed

lemma is_hex_hex_char: "d < 16 \<Longrightarrow> is_hex (hex_char d)"
  by (simp add: is_hex_def)

lemma quote_backslash: "code quote_char = 34" "code backslash = 92" "code (CHR 0x0A) = 10"
  "code (CHR 0x0D) = 13" "code (CHR 0x09) = 9" "code (CHR 0x08) = 8" "code (CHR 0x0C) = 12"
  by (simp_all add: quote_char_def backslash_def code_def)

lemma char_eq_code: "c = d \<longleftrightarrow> code c = code d"
  by simp

lemma escapes:
  "escape_char quote_char = [backslash, quote_char]" "escape_char backslash = [backslash, backslash]"
  "escape_char (CHR 0x0A) = [backslash, CHR ''n'']" "escape_char (CHR 0x0D) = [backslash, CHR ''r'']"
  "escape_char (CHR 0x09) = [backslash, CHR ''t'']" "escape_char (CHR 0x08) = [backslash, CHR ''b'']"
  "escape_char (CHR 0x0C) = [backslash, CHR ''f'']"
  "simple_escape quote_char = Some quote_char" "simple_escape backslash = Some backslash"
  "simple_escape (CHR ''n'') = Some (CHR 0x0A)" "simple_escape (CHR ''r'') = Some (CHR 0x0D)"
  "simple_escape (CHR ''t'') = Some (CHR 0x09)" "simple_escape (CHR ''b'') = Some (CHR 0x08)"
  "simple_escape (CHR ''f'') = Some (CHR 0x0C)"
  "quote_char \<noteq> CHR ''u''" "backslash \<noteq> CHR ''u''"
  by (simp_all add: escape_char_def simple_escape_def quote_char_def backslash_def Let_def code_def)

lemma parse_string_escape:
  "parse_string (escape_char c @ s) = bindR (parse_string s) (\<lambda>(t, r). Inr (c # t, r))"
proof -
  have bs: "(CHR 0x5C) = backslash" by (simp add: backslash_def)
  have nq: "backslash \<noteq> quote_char" by (simp add: backslash_def quote_char_def)
  have short: "parse_string (backslash # e # s) = bindR (parse_string s) (\<lambda>(t, r). Inr (x # t, r))"
    if "simple_escape e = Some x" "e \<noteq> CHR ''u''" for e x
    using that nq by simp
  have u: "parse_string (backslash # CHR ''u'' # hex4 n @ s) = bindR (parse_string s) (\<lambda>(t, r). Inr (char_of n # t, r))"
    if "n < 256" for n
    using that nq by (simp add: hex4_eq is_hex_hex_char hex_val_hex4) (simp add: is_hex_def is_lower_hex_def is_digit_def code_def)
  consider "code c \<in> {34, 92, 10, 13, 9, 8, 12}" | "32 \<le> code c" "code c \<le> 126" "code c \<notin> {34, 92, 10, 13, 9, 8, 12}"
    | "\<not> (32 \<le> code c \<and> code c \<le> 126)" "code c \<notin> {34, 92, 10, 13, 9, 8, 12}" by blast
  then show ?thesis
  proof cases
    case 1
    then have "c \<in> {quote_char, backslash, CHR 0x0A, CHR 0x0D, CHR 0x09, CHR 0x08, CHR 0x0C}"
      by (simp only: insert_iff empty_iff char_eq_code [of c] quote_backslash)
    then show ?thesis using escapes short by (elim insertE emptyE) simp_all
  next
    case 2
    then have "escape_char c = [c]" by (simp add: escape_char_def Let_def)
    moreover from 2 have "c \<noteq> quote_char" "c \<noteq> backslash" by (simp_all only: char_eq_code [of c] quote_backslash insert_iff de_Morgan_disj simp_thms)
    ultimately show ?thesis using 2 by simp
  next
    case 3
    then have "escape_char c = backslash # CHR ''u'' # hex4 (code c)"
      by (simp add: escape_char_def Let_def bs)
    with u [OF code_bound [of c]] show ?thesis by simp
  qed
qed

lemma parse_string_quoted: "parse_string (concat (map escape_char k) @ quote_char # r) = Inr (k, r)"
  by (induction k) (simp_all add: parse_string_escape del: parse_string.simps(2), simp)

section \<open>Numbers\<close>

text \<open>What follows a value inside a printed document.\<close>

definition ends :: "string \<Rightarrow> bool" where
  "ends r \<longleftrightarrow> (case r of [] \<Rightarrow> True | c # cs \<Rightarrow> c = CHR '','' \<or> c = CHR 0x5D \<or> c = CHR 0x7D)"

lemma ends_cases:
  "ends r \<Longrightarrow> r = [] \<or> (\<exists>c cs. r = c # cs \<and> \<not> is_digit c \<and> c \<noteq> CHR ''.'' \<and> c \<noteq> CHR ''e'' \<and> c \<noteq> CHR ''E'')"
  by (cases r) (auto simp: ends_def is_digit_def code_def)

lemma digits_ends: "list_all is_digit d \<Longrightarrow> ends r \<Longrightarrow> takeWhile is_digit (d @ r) = d \<and> dropWhile is_digit (d @ r) = r"
  using ends_cases [of r] by (induction d) auto

lemma no_fraction: "ends r \<Longrightarrow> number_frac r = ([], r) \<and> number_exp r = ([], r)"
  using ends_cases [of r] by (auto simp: number_frac_def number_exp_def split: list.split)

lemma nat_str_all_digits: "list_all is_digit (nat_str n)"
  by (simp add: list_all_iff nat_str_digits)

lemma nat_str_Cons: obtains c cs where "nat_str n = c # cs" "is_digit c" "c = CHR ''0'' \<longrightarrow> n = 0"
proof -
  obtain c cs where s: "nat_str n = c # cs" using nat_str_not_Nil [of n] by (cases "nat_str n") auto
  moreover have "is_digit c" using nat_str_digits [of c n] s by simp
  moreover have "c = CHR ''0'' \<longrightarrow> n = 0" using nat_str_hd_zero [of n] s by auto
  ultimately show ?thesis by (rule that)
qed

lemma number_int_digits:
  assumes "ends r"
  shows "number_int (nat_str n @ r) = Some (nat_str n, r)"
    and "number_int (CHR ''-'' # nat_str n @ r) = Some (CHR ''-'' # nat_str n, r)"
proof -
  obtain c cs where s: "nat_str n = c # cs" "is_digit c" "c = CHR ''0'' \<longrightarrow> n = 0" by (rule nat_str_Cons)
  have m: "c \<noteq> CHR ''-''" using s(2) by auto
  have tw: "takeWhile is_digit (c # cs @ r) = c # cs" "dropWhile is_digit (c # cs @ r) = r"
    using digits_ends [OF nat_str_all_digits [of n] assms] s(1) by auto
  have zero: "cs = []" if "c = CHR ''0''" using that s nat_str_0 by auto
  show "number_int (nat_str n @ r) = Some (nat_str n, r)"
    using s m tw zero by (auto simp: number_int_def)
  show "number_int (CHR ''-'' # nat_str n @ r) = Some (CHR ''-'' # nat_str n, r)"
    using s m tw zero by (auto simp: number_int_def)
qed

lemma int_of_literal_str: "int_of_literal (int_str i) = i"
proof (cases "i < 0")
  case True
  then show ?thesis by (simp add: int_str_def int_of_literal_def)
next
  case False
  obtain c cs where s: "nat_str (nat i) = c # cs" "is_digit c" by (rule nat_str_Cons)
  then have "c \<noteq> CHR ''-''" by auto
  with False s(1) have "int_of_literal (int_str i) = int (digits_val (nat_str (nat i)))"
    by (simp add: int_str_def int_of_literal_def)
  with False show ?thesis by simp
qed

lemma parse_number_str:
  assumes "ends r" "printable (JInt i)"
  shows "parse_number (int_str i @ r) = Inr (JInt i, r)"
proof -
  have "number_int (int_str i @ r) = Some (int_str i, r)"
    using number_int_digits [OF assms(1)] by (auto simp: int_str_def)
  with no_fraction [OF assms(1)] assms(2) int_of_literal_str [of i] show ?thesis
    by (simp add: parse_number_def Let_def)
qed

lemma constants:
  "parse_number (''null'' @ r) = Inr (JNull, r)" "parse_number (''true'' @ r) = Inr (JBool True, r)"
  "parse_number (''false'' @ r) = Inr (JBool False, r)"
  by (simp_all add: parse_number_def number_int_def parse_constant_def startswith_def is_digit_def code_def)

section \<open>Values\<close>

definition plain_start :: "string \<Rightarrow> bool" where
  "plain_start s \<longleftrightarrow> (case s of [] \<Rightarrow> False
     | c # cs \<Rightarrow> c \<noteq> quote_char \<and> c \<noteq> CHR 0x7B \<and> c \<noteq> CHR 0x5B)"

lemma int_str_start: "plain_start (int_str i @ r)"
proof -
  obtain c cs where "nat_str (nat i) = c # cs" "is_digit c" by (rule nat_str_Cons)
  then show ?thesis
    by (auto simp: plain_start_def int_str_def quote_char_def is_digit_def code_def)
qed

lemma parse_value_plain: "plain_start s \<Longrightarrow> parse_value (Suc n) hook s = parse_number s"
  by (auto simp: plain_start_def split: list.splits)

lemma not_space [simp]:
  "\<not> is_json_space quote_char" "\<not> is_json_space (CHR 0x7B)" "\<not> is_json_space (CHR 0x7D)"
  "\<not> is_json_space (CHR 0x5B)" "\<not> is_json_space (CHR 0x5D)" "\<not> is_json_space (CHR '','')"
  "\<not> is_json_space (CHR '':'')"
  by (simp_all add: is_json_space_def quote_char_def code_def)

lemma skip_ws_Nil [simp]: "skip_ws [] = []"
  by (simp add: skip_ws_def)

lemma skip_ws_Cons [simp]: "\<not> is_json_space c \<Longrightarrow> skip_ws (c # cs) = c # cs"
  by (simp add: skip_ws_def)

lemma digit_not_space: "is_digit c \<Longrightarrow> \<not> is_json_space c"
  by (auto simp: is_digit_def is_json_space_def)

lemma dumps_start:
  assumes "printable v"
  obtains c cs where "dumps v = c # cs" "\<not> is_json_space c" "c \<noteq> CHR 0x5D"
proof (cases v)
  case (JInt i)
  obtain c cs where s: "nat_str (nat i) = c # cs" "is_digit c" by (rule nat_str_Cons)
  obtain c' cs' where s': "nat_str (nat (- i)) = c' # cs'" "is_digit c'" by (rule nat_str_Cons)
  have "c \<noteq> CHR 0x5D" using s(2) by (auto simp: is_digit_def code_def)
  with s s' digit_not_space JInt that show ?thesis
    by (cases "i < 0") (auto simp: int_str_def is_json_space_def code_def)
next
  case (JBool b)
  with that show ?thesis by (cases b) (auto simp: is_json_space_def code_def)
qed (use assms that in \<open>auto simp: quote_str_def is_json_space_def code_def split: if_splits\<close>)

text \<open>The elements of an array, and the members of an object after the first quote.\<close>

definition reads :: "json \<Rightarrow> bool" where
  "reads v \<longleftrightarrow> (\<forall>n r. ends r \<longrightarrow> 2 * length (dumps v @ r) < n
     \<longrightarrow> parse_value n unique_hook (dumps v @ r) = Inr (canon v, r))"

lemma readsD: "reads v \<Longrightarrow> ends r \<Longrightarrow> 2 * length (dumps v @ r) < n
    \<Longrightarrow> parse_value n unique_hook (dumps v @ r) = Inr (canon v, r)"
  by (simp add: reads_def)

lemma ends_simps [simp]: "ends (CHR '','' # r)" "ends (CHR 0x5D # r)" "ends (CHR 0x7D # r)"
  by (simp_all add: ends_def)

lemma parse_items_dumps:
  assumes "vs \<noteq> []" "\<And>v. v \<in> set vs \<Longrightarrow> reads v \<and> printable v"
    and "2 * length (join '','' (map dumps vs) @ CHR 0x5D # r) + 1 < n"
  shows "parse_items n unique_hook acc (join '','' (map dumps vs) @ CHR 0x5D # r)
    = Inr (JArr (acc @ map canon vs), r)"
  using assms
proof (induction vs arbitrary: acc n)
  case (Cons v vs)
  then obtain m where n: "n = Suc m" by (cases n) auto
  show ?case
  proof (cases vs)
    case Nil
    with Cons.prems n have "parse_value m unique_hook (dumps v @ CHR 0x5D # r) = Inr (canon v, CHR 0x5D # r)"
      by (intro readsD) auto
    with Nil n show ?thesis by simp
  next
    case (Cons u us)
    let ?rest = "join '','' (map dumps vs) @ CHR 0x5D # r"
    have layout: "join '','' (map dumps (v # vs)) @ CHR 0x5D # r = dumps v @ CHR '','' # ?rest" by (simp add: Cons)
    with Cons.prems n have v: "parse_value m unique_hook (dumps v @ CHR '','' # ?rest) = Inr (canon v, CHR '','' # ?rest)"
      by (intro readsD) auto
    have "printable u" using Cons.prems(2) Cons by simp
    then obtain c cs where "dumps u = c # cs" "\<not> is_json_space c" by (rule dumps_start)
    then have ws: "skip_ws ?rest = ?rest" by (cases us) (simp_all add: Cons)
    have "parse_items m unique_hook (acc @ [canon v]) ?rest = Inr (JArr ((acc @ [canon v]) @ map canon vs), r)"
      using Cons.prems n Cons layout by (intro Cons.IH) auto
    with v ws n layout show ?thesis by simp
  qed
qed simp

definition members :: "(string \<times> json) list \<Rightarrow> string" where
  "members kvs = join '','' (map (\<lambda>(k, v). quote_str k @ '':'' @ dumps v) kvs)"

lemma members_Cons: "members (kv # kvs) = quote_char # tl (members (kv # kvs))"
  by (cases kv; cases kvs) (simp_all add: members_def quote_str_def quote_char_def)

lemma members_step:
  assumes "2 * length (tl (members ((k, v) # kvs)) @ CHR 0x7D # r) < Suc m" "reads v" "printable v"
  shows "parse_members (Suc m) unique_hook acc (tl (members ((k, v) # kvs)) @ CHR 0x7D # r)
    = (if kvs = [] then bindR (unique_hook (acc @ [(k, canon v)])) (\<lambda>x. Inr (x, r))
       else parse_members m unique_hook (acc @ [(k, canon v)]) (tl (members kvs) @ CHR 0x7D # r))"
proof -
  define tail where "tail = (if kvs = [] then CHR 0x7D # r else CHR '','' # members kvs @ CHR 0x7D # r)"
  have layout: "tl (members ((k, v) # kvs)) @ CHR 0x7D # r
      = concat (map escape_char k) @ quote_char # CHR '':'' # dumps v @ tail"
    by (cases kvs) (auto simp: members_def quote_str_def quote_char_def tail_def)
  obtain c cs where "dumps v = c # cs" "\<not> is_json_space c" using assms(3) by (rule dumps_start)
  then have ws: "skip_ws (dumps v @ u) = dumps v @ u" for u by simp
  have "parse_value m unique_hook (dumps v @ tail) = Inr (canon v, tail)"
    using assms(1,2) unfolding layout by (intro readsD) (auto simp: tail_def)
  moreover have "\<exists>es. members kvs = quote_char # es" if "kvs \<noteq> []"
    using that members_Cons [of "hd kvs" "tl kvs"] by auto
  ultimately show ?thesis
    unfolding layout by (auto simp: parse_string_quoted ws tail_def simp del: parse_string.simps)
qed

lemma parse_members_dumps:
  assumes "kvs \<noteq> []" "\<And>k v. (k, v) \<in> set kvs \<Longrightarrow> reads v \<and> printable v"
    and "2 * length (tl (members kvs) @ CHR 0x7D # r) < n"
  shows "parse_members n unique_hook acc (tl (members kvs) @ CHR 0x7D # r)
    = bindR (unique_hook (acc @ map (\<lambda>(k, v). (k, canon v)) kvs)) (\<lambda>x. Inr (x, r))"
  using assms
proof (induction kvs arbitrary: acc n)
  case (Cons kv kvs)
  obtain k v where kv: "kv = (k, v)" by (cases kv)
  from Cons.prems obtain m where n: "n = Suc m" by (cases n) auto
  note step = members_step [of k v kvs r m acc]
  show ?case
  proof (cases "kvs = []")
    case True
    with step Cons.prems n kv show ?thesis by (simp del: parse_members.simps)
  next
    case False
    have "length (tl (members kvs)) + 1 < length (tl (members ((k, v) # kvs)))"
      using False by (cases kvs) (auto simp: members_def quote_str_def)
    with Cons.prems n kv have "2 * length (tl (members kvs) @ CHR 0x7D # r) < m" by simp
    moreover have "reads v" "printable v" "\<And>k v. (k, v) \<in> set kvs \<Longrightarrow> reads v \<and> printable v"
      using Cons.prems(2) kv by auto
    ultimately show ?thesis
      using Cons.IH [OF False, of m "acc @ [(k, canon v)]"] Cons.prems step n kv False
      by (simp del: parse_members.simps)
  qed
qed simp

lemma insort_key_map: "insort_key fst (g x) (map g xs) = map g (insort_key fst x xs)"
  if "\<And>x. fst (g x) = fst x"
  using that by (induction xs) auto

lemma sort_key_map: "sort_key fst (map g xs) = map g (sort_key fst xs)" if "\<And>x. fst (g x) = fst x"
  using that by (induction xs) (simp_all add: insort_key_map)

lemma dumps_JObj: "dumps (JObj kvs) = CHR 0x7B # members (sort_key fst kvs) @ [CHR 0x7D]"
  by (simp add: members_def sort_key_map case_prod_unfold o_def)

lemma canon_JObj: "canon (JObj kvs) = JObj (map (\<lambda>(k, v). (k, canon v)) (sort_key fst kvs))"
  by (simp add: sort_key_map case_prod_unfold)

lemma distinct_sort_key: "distinct (map fst (sort_key fst kvs)) = distinct (map fst kvs)"
  by (simp add: distinct_map)

lemma reads_plain:
  "(\<And>r. ends r \<Longrightarrow> plain_start (dumps v @ r) \<and> parse_number (dumps v @ r) = Inr (v, r)) \<Longrightarrow> canon v = v \<Longrightarrow> reads v"
  unfolding reads_def by (metis gr0_implies_Suc less_nat_zero_code not_gr_zero parse_value_plain)

lemma reads_printable: "json_wf v \<Longrightarrow> printable v \<Longrightarrow> reads v"
proof (induction v rule: canon.induct [case_names array object null boolean integer decimal string])
  case (array vs)
  then have vs: "\<And>v. v \<in> set vs \<Longrightarrow> reads v \<and> printable v" by (auto simp: list_all_iff)
  show ?case
    unfolding reads_def
  proof (intro allI impI)
    fix n r assume n: "2 * length (dumps (JArr vs) @ r) < n"
    then obtain m where m: "n = Suc m" by (cases n) auto
    show "parse_value n unique_hook (dumps (JArr vs) @ r) = Inr (canon (JArr vs), r)"
    proof (cases "vs = []")
      case True
      then show ?thesis by (simp add: m quote_char_def)
    next
      case False
      then obtain u us where u: "vs = u # us" by (cases vs) auto
      obtain c cs where c: "dumps u = c # cs" "\<not> is_json_space c" "c \<noteq> CHR 0x5D"
        using vs [of u] u dumps_start by auto
      let ?t = "join '','' (map dumps vs) @ CHR 0x5D # r"
      obtain ds where ds: "?t = c # ds" using u c by (cases us) auto
      have "parse_items m unique_hook [] ?t = Inr (JArr (map canon vs), r)"
        using parse_items_dumps [OF False vs, where r = r and n = m and acc = "[]"] n m by simp
      with c ds m show ?thesis by (simp add: quote_char_def)
    qed
  qed
next
  case (object kvs)
  let ?kvs = "sort_key fst kvs"
  from object have kvs: "\<And>k v. (k, v) \<in> set ?kvs \<Longrightarrow> reads v \<and> printable v" and d: "distinct (map fst kvs)"
    by (fastforce simp: list_all_iff)+
  show ?case
    unfolding reads_def
  proof (intro allI impI)
    fix n r assume n: "2 * length (dumps (JObj kvs) @ r) < n"
    then obtain m where m: "n = Suc m" by (cases n) auto
    show "parse_value n unique_hook (dumps (JObj kvs) @ r) = Inr (canon (JObj kvs), r)"
    proof (cases "?kvs = []")
      case True
      then have "kvs = []" by (metis length_0_conv length_sort)
      then show ?thesis by (simp add: m unique_hook_def quote_char_def)
    next
      case False
      then have q: "members ?kvs = quote_char # tl (members ?kvs)" by (metis list.exhaust members_Cons)
      have "2 * length (tl (members ?kvs) @ CHR 0x7D # r) < m"
        using n m q unfolding dumps_JObj by (cases "members ?kvs") auto
      with parse_members_dumps [OF False kvs, where r = r and n = m and acc = "[]"]
      have "parse_members m unique_hook [] (tl (members ?kvs) @ CHR 0x7D # r)
          = Inr (JObj (map (\<lambda>(k, v). (k, canon v)) ?kvs), r)"
        using d distinct_sort_key [of kvs] by (simp add: unique_hook_def o_def case_prod_unfold)
      moreover have "skip_ws (members ?kvs @ u) = quote_char # tl (members ?kvs) @ u" for u
        by (subst q) simp
      moreover have "quote_char \<noteq> CHR 0x7D" "CHR 0x7B \<noteq> quote_char" by (simp_all add: quote_char_def)
      ultimately show ?thesis unfolding dumps_JObj canon_JObj m by simp
    qed
  qed
next
  case null
  show ?case by (rule reads_plain) (simp_all add: plain_start_def quote_char_def constants [simplified])
next
  case (boolean b)
  show ?case by (cases b; rule reads_plain) (simp_all add: plain_start_def quote_char_def constants [simplified])
next
  case (integer i)
  then show ?case by (intro reads_plain) (simp_all add: int_str_start parse_number_str)
next
  case (decimal s)
  then show ?case by simp
next
  case (string s)
  have q: "CHR 0x22 = quote_char" by (simp add: quote_char_def)
  show ?case
    unfolding reads_def
  proof (intro allI impI)
    fix n r assume "2 * length (dumps (JStr s) @ r) < n"
    then obtain m where "n = Suc m" by (cases n) auto
    then show "parse_value n unique_hook (dumps (JStr s) @ r) = Inr (canon (JStr s), r)"
      using parse_string_quoted [of s r] by (simp add: quote_str_def q del: parse_string.simps)
  qed
qed

text \<open>\<^verbatim>\<open>loads(dumps(v))\<close>\<close>

lemma dumps_ws: "printable v \<Longrightarrow> skip_ws (dumps v) = dumps v"
  by (rule dumps_start) auto

lemma loads_dumps: "json_wf v \<Longrightarrow> printable v \<Longrightarrow> loads unique_hook (dumps v) = Inr (canon v)"
  using readsD [OF reads_printable, of v "[]" "Suc (2 * length (dumps v))"]
  by (simp add: loads_def dumps_ws ends_def del: parse_value.simps)

lemma dumps_canonical:
  assumes "json_wf u" "printable u" "json_wf v" "printable v" "dumps u = dumps v"
  shows "canon u = canon v"
  using loads_dumps [OF assms(1,2)] loads_dumps [OF assms(3,4)] assms(5) by simp

section \<open>The default hook\<close>

text \<open>
  Whatever one hook accepts, a more liberal hook reads to the same document; so the default hook,
  too, reads back what was printed.
\<close>

lemma parse_hook_mono:
  assumes h: "\<And>ps v. h1 ps = Inr v \<Longrightarrow> h2 ps = Inr v"
  shows "parse_value n h1 s = Inr x \<Longrightarrow> parse_value n h2 s = Inr x"
    and "parse_members n h1 acc s = Inr x \<Longrightarrow> parse_members n h2 acc s = Inr x"
    and "parse_items n h1 acc' s = Inr x \<Longrightarrow> parse_items n h2 acc' s = Inr x"
proof (induction n arbitrary: s acc acc' x)
  case (Suc n)
  note IH = Suc.IH(1) Suc.IH(2) Suc.IH(3)
  {
    case 1
    then show ?case using IH h
      by (cases x) (auto simp: bindR_Inr split: list.splits if_splits; simp add: quote_char_def)
  next
    case 2
    obtain y r where x: "x = (y, r)" by (cases x)
    from 2 [unfolded x] show ?case
      by (rule parse_members_Inr) (auto simp: x IH h)
  next
    case 3
    obtain y r where x: "x = (y, r)" by (cases x)
    from 3 [unfolded x] obtain v r1 where v: "parse_value n h1 s = Inr (v, r1)" by (auto simp: bindR_Inr)
    from 3 v IH(1) [OF v] show ?case by (cases x) (auto simp: IH split: list.splits if_splits)
  }
qed simp_all

lemma update_new: "k \<notin> fst ` set d \<Longrightarrow> AList.update k v d = d @ [(k, v)]"
  by (induction d) auto

lemma foldl_update_distinct:
  "distinct (map fst (d @ ps)) \<Longrightarrow> foldl (\<lambda>d (k, v). AList.update k v d) d ps = d @ ps"
proof (induction ps arbitrary: d)
  case (Cons p ps)
  obtain k v where p: "p = (k, v)" by (cases p)
  have "AList.update k v d = d @ [(k, v)]"
    using Cons.prems by (intro update_new) (auto simp: p)
  then show ?case using Cons.IH [of "d @ [p]"] Cons.prems by (simp add: p)
qed simp


lemma loads_dict:
  assumes "json_wf v" "printable v"
  shows "loads dict_hook (dumps v) = Inr (canon v)"
proof -
  have h: "unique_hook ps = Inr u \<Longrightarrow> dict_hook ps = Inr u" for ps u
    using foldl_update_distinct [of "[]" ps] by (auto simp: unique_hook_def dict_hook_def split: if_splits)
  obtain r where r: "parse_value (Suc (2 * length (dumps v))) unique_hook (skip_ws (dumps v)) = Inr (canon v, r)"
    "skip_ws r = []"
    using loads_dumps [OF assms] by (auto simp: loads_def bindR_Inr simp del: parse_value.simps split: if_splits)
  from r parse_hook_mono(1) [OF h r(1)] show ?thesis by (simp add: loads_def del: parse_value.simps)
qed

lemma map_of_sort_key:
  assumes "distinct (map fst kvs)"
  shows "map_of (sort_key fst kvs) k = map_of kvs k"
proof -
  have d: "distinct (map fst (sort_key fst kvs))" using assms by (simp add: distinct_sort_key)
  show ?thesis using map_of_inject_set [OF d assms] by simp
qed

lemma obj_get_canon: "json_wf v \<Longrightarrow> obj_get k (canon v) = map_option canon (obj_get k v)"
proof (cases v)
  case (JObj kvs)
  moreover assume "json_wf v"
  ultimately have "distinct (map fst (map (\<lambda>(k, v). (k, canon v)) kvs))" by (simp add: o_def case_prod_unfold)
  from map_of_sort_key [OF this] show ?thesis by (simp add: JObj map_of_map obj_get_def)
qed (simp_all add: obj_get_def)

text \<open>
  A bound on the length of the text of a document, computed from the document without printing it:
  an escaped character takes at most six characters, and every member two quotation marks, a colon and a comma.
\<close>

fun weight :: "json \<Rightarrow> nat" where
  "weight JNull = 4"
| "weight (JBool b) = 5"
| "weight (JInt i) = length (int_str i)"
| "weight (JFloat s) = length s"
| "weight (JStr s) = 6 * length s + 2"
| "weight (JArr vs) = 2 + sum_list (map (\<lambda>v. weight v + 1) vs)"
| "weight (JObj kvs) = 2 + sum_list (map (\<lambda>(k, v). 6 * length k + 4 + weight v) kvs)"

lemma length_escape_char: "length (escape_char c) \<le> 6"
  by (simp add: escape_char_def Let_def hex4_def)

lemma length_quote_str: "length (quote_str s) \<le> 6 * length s + 2"
proof -
  have "length (concat (map escape_char s)) \<le> 6 * length s"
  proof (induction s)
    case (Cons c s)
    then show ?case using length_escape_char [of c] by simp
  qed simp
  then show ?thesis by (simp add: quote_str_def)
qed

lemma length_join: "length (join '','' ws) \<le> sum_list (map (\<lambda>w. length w + 1) ws)"
  by (induction "'','' :: string" ws rule: join.induct) auto

lemma sum_list_mono_on: "(\<And>x. x \<in> set xs \<Longrightarrow> f x \<le> g x) \<Longrightarrow> sum_list (map f xs) \<le> (sum_list (map g xs) :: nat)"
  by (induction xs) (auto intro: add_mono)

lemma sum_list_sort_key: "sum_list (map g (sort_key f xs)) = (sum_list (map g xs) :: nat)"
proof -
  have "sum_mset (mset (map g (sort_key f xs))) = sum_mset (mset (map g xs))" by simp
  then show ?thesis unfolding sum_mset_sum_list .
qed

theorem length_dumps: "length (dumps v) \<le> weight v"
proof (induction v rule: dumps.induct)
  case (6 vs)
  have "length (join '','' (map dumps vs)) \<le> sum_list (map (\<lambda>w. length w + 1) (map dumps vs))" by (rule length_join)
  also have "\<dots> \<le> sum_list (map (\<lambda>v. weight v + 1) vs)" unfolding map_map o_def using 6 by (intro sum_list_mono_on) auto
  finally show ?case by simp
next
  case (7 kvs)
  let ?ps = "map (\<lambda>(k, v). (k, dumps v)) kvs" and ?f = "\<lambda>(k, t). quote_str k @ '':'' @ t"
  have "length (join '','' (map ?f (sort_key fst ?ps))) \<le> sum_list (map (\<lambda>w. length w + 1) (map ?f (sort_key fst ?ps)))"
    by (rule length_join)
  also have "\<dots> = sum_list (map (\<lambda>w. length (?f w) + 1) ?ps)"
    using sum_list_sort_key [of "\<lambda>w. length (?f w) + 1" fst ?ps] by (simp add: o_def)
  also have "\<dots> \<le> sum_list (map (\<lambda>(k, v). 6 * length k + 4 + weight v) kvs)"
    unfolding map_map o_def
  proof (intro sum_list_mono_on)
    fix x assume x: "x \<in> set kvs"
    obtain k v where "x = (k, v)" by fastforce
    with 7 [OF x] length_quote_str [of k]
    show "length (case case x of (k, v) \<Rightarrow> (k, dumps v) of (k, t) \<Rightarrow> quote_str k @ '':'' @ t) + 1
        \<le> (case x of (k, v) \<Rightarrow> 6 * length k + 4 + weight v)" by simp
  qed
  finally show ?case by simp
next
  case (5 s)
  then show ?case using length_quote_str [of s] by simp
qed simp_all

lemma length_utf8: "length (utf8 s) \<le> 2 * length s"
proof (induction s)
  case (Cons c s)
  have "length (utf8_char c) \<le> 2" by (simp add: utf8_char_def)
  with Cons show ?case by (simp add: utf8_def)
qed (simp add: utf8_def)

end
