(* ===== verification/Generator_Cluster.thy ===== *)
theory Generator_Cluster
  imports Generator_Ownership Generator_Resource Json_Roundtrip
begin

text \<open>
  The Kubernetes boundary and the cancellation of superseded Scanners
  (\<^verbatim>\<open>generator/.../kubernetes.py\<close> and \<^verbatim>\<open>generator/.../cancellation.py\<close>). The answers of the
  Kubernetes API are the environment's; a failure to build the client is a failure of the
  first request made with it.
\<close>

section \<open>Requests\<close>

datatype create_result = CREATED | ALREADY_EXISTS

definition http_status :: "gen_error \<Rightarrow> int option" where
  "http_status e = (case e of Http_error s \<Rightarrow> s | _ \<Rightarrow> None)"

definition name_of_body :: "json \<Rightarrow> gen_error + string" where
  "name_of_body body =
     (case vfield (vfield body ''metadata'') ''name'' of
        JStr n \<Rightarrow> if n = [] then Inl (Value_fault ''Scanner body has no metadata.name'') else Inr n
      | _ \<Rightarrow> Inl (Value_fault ''Scanner body has no metadata.name''))"

definition SCANNER_SPEC_DEFAULTS :: "(string \<times> json) list" where
  "SCANNER_SPEC_DEFAULTS = [(''retryLimit'', JInt 0), (''ttlSecondsAfterFinished'', JInt 3600)]"

definition with_defaults :: "(string \<times> json) list \<Rightarrow> (string \<times> json) list" where
  "with_defaults spec = fold set_default SCANNER_SPEC_DEFAULTS spec"

definition is_cancelled_outcome :: "json \<Rightarrow> bool" where
  "is_cancelled_outcome status =
     (case vfield status ''outcome'' of JStr s \<Rightarrow> py_lower s = ''cancelled'' | _ \<Rightarrow> False)"

text \<open>\<^verbatim>\<open>_existing_matches\<close>\<close>

definition existing_matches :: "json \<Rightarrow> json \<Rightarrow> bool" where
  "existing_matches expected existing =
     (let em = vfield expected ''metadata''; xm = vfield existing ''metadata'' in
      is_obj em \<and> is_obj xm
      \<and> py_eq (vfield xm ''name'') (vfield em ''name'')
      \<and> vfield xm ''deletionTimestamp'' = JNull
      \<and> (case (as_obj (vfield em ''labels''), as_obj (vfield xm ''labels'')) of
           (Some els, Some xls) \<Rightarrow> list_all (\<lambda>(k, v). py_eq (vfield (JObj xls) k) v) els
         | _ \<Rightarrow> False)
      \<and> (case (as_obj (vfield expected ''spec''), as_obj (vfield existing ''spec'')) of
           (Some es, Some xs) \<Rightarrow> py_eq (JObj (with_defaults xs)) (JObj (with_defaults es))
         | _ \<Rightarrow> False)
      \<and> \<not> is_cancelled_outcome (vfield existing ''status''))"

text \<open>\<^verbatim>\<open>KubernetesScannerClient.get\<close>, \<^verbatim>\<open>create\<close>, \<^verbatim>\<open>delete\<close>\<close>

definition get_scanner :: "environment \<Rightarrow> string \<Rightarrow> json option gen" where
  "get_scanner E name =
     (if name = [] then raiseM (Value_fault ''Scanner name must be a non-empty string'')
      else bindM (tryX (api_get E name)) (\<lambda>r.
        case r of
          Inl e \<Rightarrow> if http_status e = Some 404 then returnM None else raiseM e
        | Inr response \<Rightarrow> if is_obj response then returnM (Some response)
                          else raiseM (Runtime_error ''Kubernetes get response is not an object'')))"

definition create_scanner :: "environment \<Rightarrow> json \<Rightarrow> create_result gen" where
  "create_scanner E body =
     bindM (tryX (api_create E body)) (\<lambda>r.
     case r of
       Inr _ \<Rightarrow> returnM CREATED
     | Inl e \<Rightarrow>
         if http_status e \<noteq> Some 409 then raiseM e
         else bindM (liftM (name_of_body body)) (\<lambda>name.
              bindM (get_scanner E name) (\<lambda>existing.
              case existing of
                None \<Rightarrow> raiseM (Scanner_conflict ''existing Scanner does not match the deterministic request'')
              | Some x \<Rightarrow>
                  if existing_matches body x then returnM ALREADY_EXISTS
                  else raiseM (Scanner_conflict ''existing Scanner does not match the deterministic request''))))"

definition delete_scanner :: "environment \<Rightarrow> string \<Rightarrow> bool gen" where
  "delete_scanner E name =
     (if name = [] then raiseM (Value_fault ''Scanner name must be a non-empty string'')
      else bindM (tryX (api_delete E name)) (\<lambda>r.
        case r of
          Inl e \<Rightarrow> if http_status e = Some 404 then returnM False else raiseM e
        | Inr _ \<Rightarrow> returnM True))"

section \<open>Listing\<close>

definition is_label_hash :: "string \<Rightarrow> bool" where
  "is_label_hash s \<longleftrightarrow> length s = 52 \<and> list_all is_lower_hex s"

text \<open>The items of one page and its continuation token.\<close>

definition page_items :: "json \<Rightarrow> gen_error + json list" where
  "page_items response =
     (if \<not> is_obj response then Inl (Runtime_error ''Kubernetes list response is not an object'')
      else case obj_get ''items'' response of
        None \<Rightarrow> Inr []
      | Some (JArr items) \<Rightarrow>
          if list_all is_obj items then Inr items
          else Inl (Runtime_error ''Kubernetes list response has invalid items'')
      | Some _ \<Rightarrow> Inl (Runtime_error ''Kubernetes list response has invalid items''))"

definition page_token :: "string set \<Rightarrow> json \<Rightarrow> gen_error + string option" where
  "page_token seen response =
     (let metadata = (case obj_get ''metadata'' response of None \<Rightarrow> JObj [] | Some m \<Rightarrow> m) in
      if \<not> is_obj metadata then Inl (Runtime_error ''Kubernetes list response has invalid metadata'')
      else let token = vfield metadata ''continue'' in
        if \<not> truthy token then Inr None
        else case token of
          JStr t \<Rightarrow> if t \<in> seen then Inl (Runtime_error ''Kubernetes list continuation is invalid'')
                    else Inr (Some t)
        | _ \<Rightarrow> Inl (Runtime_error ''Kubernetes list continuation is invalid''))"

text \<open>
  The loop of \<^verbatim>\<open>list_for_target_hash\<close>. The API may hand out new tokens for ever; the
  platform then ends the worker, here after the number of pages the environment allows.
\<close>

fun list_loop :: "nat \<Rightarrow> environment \<Rightarrow> string \<Rightarrow> json list \<Rightarrow> string option \<Rightarrow> string set \<Rightarrow> json list gen" where
  "list_loop 0 E h results continuation seen = raiseM Killed"
| "list_loop (Suc n) E h results continuation seen =
     bindM (api_list E h continuation) (\<lambda>response.
     bindM (liftM (page_items response)) (\<lambda>items.
     bindM (liftM (page_token seen response)) (\<lambda>token.
     case token of
       None \<Rightarrow> returnM (results @ items)
     | Some t \<Rightarrow> list_loop n E h (results @ items) (Some t) (insert t seen))))"

definition list_for_target_hash :: "environment \<Rightarrow> string \<Rightarrow> json list gen" where
  "list_for_target_hash E h =
     (if \<not> is_label_hash h then raiseM (Value_fault ''target hash is not a valid label value'')
      else list_loop (env_pages E) E h [] None {})"

section \<open>Cancellation\<close>

record cancellation_result =
  cx_matched :: int
  cx_deleted :: int

definition cancel_event_scanner :: "environment \<Rightarrow> string \<Rightarrow> bool gen" where
  "cancel_event_scanner E event_id = bindM (liftM (scanner_name event_id)) (delete_scanner E)"

definition resource_generation :: "json \<Rightarrow> gen_error + int" where
  "resource_generation resource =
     (let spec = vfield resource ''spec''; tgt = vfield spec ''target'' in
      if \<not> is_obj spec then Inl (Cancellation_error ''Scanner resource has no authoritative spec'')
      else if \<not> is_obj tgt then Inl (Cancellation_error ''Scanner resource has no authoritative target'')
      else case vfield tgt ''generation'' of
        JInt g \<Rightarrow> if g < 1 then Inl (Cancellation_error ''Scanner resource has an invalid generation'') else Inr g
      | _ \<Rightarrow> Inl (Cancellation_error ''Scanner resource has an invalid generation''))"

text \<open>One resource of the loop: \<open>None\<close> when it is another target's, else its name if it is a candidate.\<close>

definition candidate :: "string \<Rightarrow> (int \<Rightarrow> bool) \<Rightarrow> string list \<Rightarrow> json \<Rightarrow> gen_error + string option option" where
  "candidate h matches exclude resource =
     (let metadata = vfield resource ''metadata''; labels = vfield metadata ''labels'' in
      if \<not> is_obj resource then Inl (Cancellation_error ''Kubernetes returned a non-object Scanner'')
      else if \<not> is_obj metadata then Inl (Cancellation_error ''Scanner resource has no metadata'')
      else if \<not> is_obj labels then Inl (Cancellation_error ''Scanner resource has no labels'')
      else if vfield labels TARGET_HASH_LABEL \<noteq> JStr h then Inr None
      else bindR (resource_generation resource) (\<lambda>g.
        if \<not> matches g then Inr (Some None)
        else case vfield metadata ''name'' of
          JStr name \<Rightarrow>
            if name = [] then Inl (Cancellation_error ''cancellable Scanner resource has no name'')
            else if name \<in> set exclude then Inr (Some None) else Inr (Some (Some name))
        | _ \<Rightarrow> Inl (Cancellation_error ''cancellable Scanner resource has no name'')))"

definition count_deleted :: "environment \<Rightarrow> string list \<Rightarrow> int gen" where
  "count_deleted E names =
     foldM (\<lambda>n name. bindM (delete_scanner E name) (\<lambda>d. returnM (if d then n + 1 else n))) 0 names"

text \<open>\<^verbatim>\<open>_cancel_matching_scanners\<close>\<close>

definition cancel_matching_scanners :: "environment \<Rightarrow> string \<Rightarrow> (int \<Rightarrow> bool) \<Rightarrow> string list
    \<Rightarrow> cancellation_result gen" where
  "cancel_matching_scanners E tid matches exclude =
     bindM (liftM (target_hash tid)) (\<lambda>h.
     bindM (list_for_target_hash E h) (\<lambda>resources.
     bindM (liftM (mapR (candidate h matches exclude) resources)) (\<lambda>found.
     bindM (count_deleted E (sorted_set [name. Some (Some name) \<leftarrow> found])) (\<lambda>deleted.
     returnM \<lparr>cx_matched = int (length (filter (\<lambda>f. f \<noteq> None) found)), cx_deleted = deleted\<rparr>))))"

definition cancel_older_scanners :: "environment \<Rightarrow> string \<Rightarrow> int \<Rightarrow> string list \<Rightarrow> cancellation_result gen" where
  "cancel_older_scanners E tid accepted exclude =
     (if accepted < 1 then raiseM (Value_fault ''accepted_generation must be a positive integer'')
      else cancel_matching_scanners E tid (\<lambda>g. g < accepted) exclude)"

definition cancel_scanners_through_generation :: "environment \<Rightarrow> string \<Rightarrow> int \<Rightarrow> string list
    \<Rightarrow> cancellation_result gen" where
  "cancel_scanners_through_generation E tid unsafe exclude =
     (if unsafe < 1 then raiseM (Value_fault ''unsafe_generation must be a positive integer'')
      else cancel_matching_scanners E tid (\<lambda>g. g \<le> unsafe) exclude)"

section \<open>What cancellation may delete\<close>

text \<open>A resource that the API listed for a target hash.\<close>

definition listed :: "environment \<Rightarrow> string \<Rightarrow> json \<Rightarrow> bool" where
  "listed E h r \<longleftrightarrow> (\<exists>n c response items. env_list E n h c = Inr response
     \<and> page_items response = Inr items \<and> r \<in> set items)"

lemma candidate_Some:
  "candidate h matches exclude r = Inr (Some (Some name)) \<longleftrightarrow>
     vfield (vfield (vfield r ''metadata'') ''labels'') TARGET_HASH_LABEL = JStr h
     \<and> (\<exists>g. resource_generation r = Inr g \<and> matches g)
     \<and> vfield (vfield r ''metadata'') ''name'' = JStr name \<and> name \<noteq> [] \<and> name \<notin> set exclude
     \<and> is_obj r \<and> is_obj (vfield r ''metadata'') \<and> is_obj (vfield (vfield r ''metadata'') ''labels'')"
  by (auto simp: candidate_def Let_def bindR_Inr split: json.splits if_splits)

lemma api_list_Inr: "api_list E h c w = (Inr r, w') \<Longrightarrow> env_list E (tick w) h c = Inr r"
  by (auto simp: api_list_def answered_def split: if_splits)

lemma list_loop_listed:
  "list_loop n E h res c seen w = (Inr rs, w') \<Longrightarrow> r \<in> set rs \<Longrightarrow> r \<in> set res \<or> listed E h r"
proof (induction n arbitrary: res c seen w)
  case (Suc n)
  from Suc.prems(1) obtain response w1 items token where
    l: "env_list E (tick w) h c = Inr response" "page_items response = Inr items"
    and rest: "(case token of None \<Rightarrow> returnM (res @ items)
        | Some t \<Rightarrow> list_loop n E h (res @ items) (Some t) (insert t seen)) w1 = (Inr rs, w')"
    by (auto simp: bindM_Inr liftM_Inr dest: api_list_Inr)
  from l have "listed E h x" if "x \<in> set items" for x using that by (auto simp: listed_def)
  with Suc rest show ?case by (cases token) (fastforce simp: returnM_Inr)+
qed (simp add: raiseM_Inr)

lemma list_for_target_hash_listed:
  "list_for_target_hash E h w = (Inr rs, w') \<Longrightarrow> r \<in> set rs \<Longrightarrow> listed E h r"
  unfolding list_for_target_hash_def by (auto split: if_splits simp: raiseM_Inr dest: list_loop_listed)

text \<open>The interactions of a cancellation: listings of its target, deletions of its candidates.\<close>

definition deletable :: "environment \<Rightarrow> string \<Rightarrow> (int \<Rightarrow> bool) \<Rightarrow> string list \<Rightarrow> string \<Rightarrow> bool" where
  "deletable E h matches exclude name \<longleftrightarrow>
     (\<exists>r. listed E h r \<and> candidate h matches exclude r = Inr (Some (Some name)))"

lemma within_list_loop: "(\<And>c. P (List_request h c)) \<Longrightarrow> within P (list_loop n E h res c seen)"
  by (induction n arbitrary: res c seen) (simp_all, (intro within_intro within_api | simp)+)

lemma within_list: "(\<And>c. P (List_request h c)) \<Longrightarrow> within P (list_for_target_hash E h)"
  unfolding list_for_target_hash_def by (intro within_intro within_list_loop)

lemma within_delete_scanner: "P (Delete_request name) \<Longrightarrow> within P (delete_scanner E name)"
  unfolding delete_scanner_def by (intro within_intro within_api)

lemma within_foldM_set: "(\<And>b x. x \<in> set xs \<Longrightarrow> within P (f b x)) \<Longrightarrow> within P (foldM f b xs)"
  by (induction xs arbitrary: b) (auto intro!: within_returnM within_bindM)

lemma within_count_deleted: "(\<And>n. n \<in> set names \<Longrightarrow> P (Delete_request n)) \<Longrightarrow> within P (count_deleted E names)"
  unfolding count_deleted_def by (intro within_foldM_set within_intro within_delete_scanner)

lemma within_cancel_matching:
  assumes "\<And>h c. target_hash tid = Inr h \<Longrightarrow> P (List_request h c)"
    and "\<And>h name. target_hash tid = Inr h \<Longrightarrow> deletable E h matches exclude name \<Longrightarrow> P (Delete_request name)"
  shows "within P (cancel_matching_scanners E tid matches exclude)"
  unfolding cancel_matching_scanners_def
proof (rule within_bind_lift)
  fix h assume h: "target_hash tid = Inr h"
  show "within P (bindM (list_for_target_hash E h) (\<lambda>resources.
     bindM (liftM (mapR (candidate h matches exclude) resources)) (\<lambda>found.
     bindM (count_deleted E (sorted_set [name. Some (Some name) \<leftarrow> found])) (\<lambda>deleted.
     returnM \<lparr>cx_matched = int (length (filter (\<lambda>f. f \<noteq> None) found)), cx_deleted = deleted\<rparr>))))"
  proof (rule within_bind_returns [where Q = "\<lambda>rs. \<forall>r \<in> set rs. listed E h r"])
    show "within P (list_for_target_hash E h)" using assms(1) h by (intro within_list)
    show "\<forall>r \<in> set rs. listed E h r" if "list_for_target_hash E h w = (Inr rs, w')" for w rs w'
      using that list_for_target_hash_listed by blast
  next
    fix rs assume rs: "\<forall>r \<in> set rs. listed E h r"
    show "within P (bindM (liftM (mapR (candidate h matches exclude) rs)) (\<lambda>found.
       bindM (count_deleted E (sorted_set [name. Some (Some name) \<leftarrow> found])) (\<lambda>deleted.
       returnM \<lparr>cx_matched = int (length (filter (\<lambda>f. f \<noteq> None) found)), cx_deleted = deleted\<rparr>)))"
    proof (intro within_bind_lift within_intro within_count_deleted)
      fix found name
      assume "mapR (candidate h matches exclude) rs = Inr found"
        and "name \<in> set (sorted_set [name. Some (Some name) \<leftarrow> found])"
      then obtain r where "r \<in> set rs" "candidate h matches exclude r = Inr (Some (Some name))"
        by (fastforce simp: mapR_Inr list_all2_conv_all_nth in_set_conv_nth split: option.splits)
      with rs h assms(2) show "P (Delete_request name)" unfolding deletable_def by blast
    qed
  qed
qed

section \<open>Listing ends\<close>

lemma page_token_new: "page_token seen r = Inr (Some t) \<Longrightarrow> t \<notin> seen"
  by (auto simp: page_token_def Let_def split: option.splits json.splits if_splits)

text \<open>An environment that does not kill the worker, and hands out continuation tokens of one set.\<close>

definition patient :: "environment \<Rightarrow> bool" where
  "patient E \<longleftrightarrow> (\<forall>n. env_fault E n \<notin> {Killed_before, Killed_after})
     \<and> (\<forall>n h c. env_list E n h c \<noteq> Inl Killed)"

definition tokens_in :: "environment \<Rightarrow> string set \<Rightarrow> bool" where
  "tokens_in E T \<longleftrightarrow>
     (\<forall>n h c r seen t. env_list E n h c = Inr r \<longrightarrow> page_token seen r = Inr (Some t) \<longrightarrow> t \<in> T)"

lemma pure_not_Killed:
  "page_items r \<noteq> Inl Killed" "page_token seen r \<noteq> Inl Killed"
  by (auto simp: page_items_def page_token_def Let_def split: option.splits json.splits if_splits)

lemma list_loop_not_Killed:
  assumes E: "patient E" "tokens_in E T" "finite T"
  shows "seen \<subseteq> T \<Longrightarrow> card (T - seen) < n \<Longrightarrow> fst (list_loop n E h res c seen w) \<noteq> Inl Killed"
proof (induction n arbitrary: res c seen w)
  case (Suc n)
  have api: "api_list E h c w = (env_list E (tick w) h c, interact E (List_request h c) w)"
    using E(1) by (simp add: api_list_def answered_def patient_def)
  show ?case
  proof (cases "env_list E (tick w) h c")
    case (Inl e)
    with E(1) show ?thesis by (auto simp: bindM_def api patient_def)
  next
    case (Inr r)
    show ?thesis
    proof (cases "page_items r")
      case (Inl e)
      with Inr pure_not_Killed(1) [of r] pure_not_Killed(2) [of seen r] show ?thesis by (auto simp: bindM_def api liftM_def)
    next
      case items: (Inr items)
      show ?thesis
      proof (cases "page_token seen r")
        case (Inl e)
        with Inr items pure_not_Killed(1) [of r] pure_not_Killed(2) [of seen r] show ?thesis by (auto simp: bindM_def api liftM_def)
      next
        case token: (Inr token)
        show ?thesis
        proof (cases token)
          case None
          with Inr items token show ?thesis by (simp add: bindM_def api liftM_def returnM_def)
        next
          case (Some t)
          with token have t: "t \<notin> seen" using page_token_new by blast
          from E(2) Inr token Some have "t \<in> T" unfolding tokens_in_def by blast
          with t E(3) have "card (T - insert t seen) < card (T - seen)"
            by (intro psubset_card_mono) auto
          with Suc.prems \<open>t \<in> T\<close> have "card (T - insert t seen) < n" "insert t seen \<subseteq> T" by auto
          with Suc.IH Inr items token Some show ?thesis by (simp add: bindM_def api liftM_def)
        qed
      qed
    qed
  qed
qed simp

section \<open>A document is its own duplicate\<close>

lemma py_eq_int_refl [simp]: "py_eq_int (JInt i) j \<longleftrightarrow> i = j" "py_eq_int (JBool b) i \<longleftrightarrow> (if b then 1 else 0) = i"
  by (simp_all add: py_eq_int_def)

lemma py_eq_refl: "json_wf v \<Longrightarrow> py_eq v v"
proof (induction v rule: json_wf.induct)
  case (1 vs)
  then show ?case by (auto simp: list_all_iff zip_same_conv_map)
next
  case (2 kvs)
  then have d: "distinct (map fst kvs)" by simp
  have "case map_of kvs k of None \<Rightarrow> False | Some y \<Rightarrow> py_eq v y" if "(k, v) \<in> set kvs" for k v
    using that 2 d map_of_is_SomeI [OF d that] by (auto simp: list_all_iff)
  then show ?case by (auto simp: list_all_iff)
qed simp_all

end
