(* ===== verification/Generator_Handler.thy ===== *)
theory Generator_Handler
  imports Generator_Claims Generator_Config Generator_Cluster
begin

text \<open>
  The processing of one target event by the generator (\<^verbatim>\<open>generator/.../handler.py\<close>): scope
  check, claim, ownership check, cancellation of superseded Scanners, second ownership
  check, deadline check, creation, and the finalisation of the claim on every path. Log
  records are left out.
\<close>

section \<open>Data\<close>

record record_outcome =
  ro_outcome :: string
  ro_event_hash :: string
  ro_trace_hash :: string
  ro_verdict :: "string option"
  ro_cancelled :: int

text \<open>
  The services: configuration, claim store, and the contract adapter that parses a
  document into a target event, which belongs to the validation library.
\<close>

record generator_services =
  gs_config :: generator_config
  gs_store :: claim_store
  gs_parser :: "json \<Rightarrow> contract_error + target_payload"

section \<open>Reading the event\<close>

definition event_hashes :: "target_payload \<Rightarrow> gen_error + string \<times> string \<times> string" where
  "event_hashes p =
     bindR (identifier_hash 16 (payload_event_id p)) (\<lambda>event_hash.
     bindR (bindR (trace_id_for_event p) (identifier_hash 16)) (\<lambda>trace_hash.
     bindR (identifier_hash 16 (target_id (payload_target p))) (\<lambda>thash.
     Inr (event_hash, trace_hash, thash))))"

definition is_removal :: "target_payload \<Rightarrow> bool" where
  "is_removal p \<longleftrightarrow> event_type_value (payload_event_type p) = ''target.removed''"

definition event_reason :: "target_payload \<Rightarrow> string" where
  "event_reason p =
     (if is_removal p then ''removed''
      else case p of Work e \<Rightarrow> reason_value (sd_reason (te_scan e)) | Removal _ \<Rightarrow> ''removed'')"

definition target_scope :: "target_payload \<Rightarrow> string \<times> string" where
  "target_scope p = (scope_id (payload_target p), public_address (payload_target p))"

definition claim_query_of :: "target_payload \<Rightarrow> gen_error + claim_query" where
  "claim_query_of p =
     bindR (trace_id_for_event p) (\<lambda>trace.
     Inr \<lparr>cq_event_id = payload_event_id p, cq_trace_id = trace,
          cq_target_id = target_id (payload_target p), cq_generation = generation (payload_target p),
          cq_event_type = event_type_value (payload_event_type p),
          cq_provider = provider_value (provider (payload_target p)), cq_reason = event_reason p\<rparr>)"

section \<open>Finalising\<close>

text \<open>\<^verbatim>\<open>_retry_claim\<close>, and the raise that follows it on every failing path.\<close>

definition retry_claim :: "environment \<Rightarrow> event_claim \<Rightarrow> string \<Rightarrow> unit gen" where
  "retry_claim E claim error_code =
     bindM (tryX (bindM (read_clock E) (\<lambda>now. mark_retryable E claim now error_code))) (\<lambda>_. returnM ())"

definition retry_and_raise :: "environment \<Rightarrow> event_claim \<Rightarrow> string \<Rightarrow> string option \<Rightarrow> 'a gen" where
  "retry_and_raise E claim error_code verdict =
     bindM (retry_claim E claim error_code) (\<lambda>_. raiseM (Retryable_record error_code verdict))"

definition complete_claim :: "environment \<Rightarrow> event_claim \<Rightarrow> claim_state \<Rightarrow> ownership_check \<Rightarrow> string option
    \<Rightarrow> int \<Rightarrow> unit gen" where
  "complete_claim E claim st check scanner cancelled =
     bindM (read_clock E) (\<lambda>now.
     bindM (complete E claim st now (oc_verdict check) scanner cancelled) (\<lambda>_. returnM ()))"

section \<open>Cancelling\<close>

definition cancel :: "environment \<Rightarrow> target_payload \<Rightarrow> int option \<Rightarrow> string list \<Rightarrow> cancellation_result gen" where
  "cancel E p accepted exclude =
     cancel_older_scanners E (target_id (payload_target p))
       (case accepted of
          None \<Rightarrow> generation (payload_target p)
        | Some g \<Rightarrow> if g = 0 then generation (payload_target p) else g) exclude"

definition accepted_generation :: "target_payload \<Rightarrow> ownership_check \<Rightarrow> int" where
  "accepted_generation p check =
     (let g = generation (payload_target p) in
      case oc_current_generation check of
        Some c \<Rightarrow> if oc_decision check = STALE \<and> c > g then c else g
      | None \<Rightarrow> g)"

definition cancel_terminal :: "environment \<Rightarrow> target_payload \<Rightarrow> ownership_check \<Rightarrow> cancellation_result gen" where
  "cancel_terminal E p check =
     bindM (liftM (scanner_name (payload_event_id p))) (\<lambda>exact_name.
     bindM (cancel_event_scanner E (payload_event_id p)) (\<lambda>exact_deleted.
     bindM (if oc_decision check = CANCEL
               \<or> (oc_decision check = STALE \<and> oc_reason check = Some ''policy-or-lifecycle'')
            then cancel_scanners_through_generation E (target_id (payload_target p))
                   (generation (payload_target p)) [exact_name]
            else cancel E p (Some (accepted_generation p check)) [exact_name]) (\<lambda>result.
     returnM \<lparr>cx_matched = cx_matched result,
              cx_deleted = cx_deleted result + (if exact_deleted then 1 else 0)\<rparr>)))"

text \<open>
  The end of a path that does not dispatch: cancel, finalise the claim with a terminal
  state, and on any exception mark the claim retryable and raise. \<open>before\<close> counts what an
  earlier cancellation of this event deleted.
\<close>

definition finish_terminal :: "environment \<Rightarrow> target_payload \<Rightarrow> event_claim \<Rightarrow> ownership_check \<Rightarrow> claim_state
    \<Rightarrow> int \<Rightarrow> string \<Rightarrow> string \<Rightarrow> string \<times> string \<Rightarrow> record_outcome gen" where
  "finish_terminal E p claim check st before error_code outcome hashes =
     bindM (tryX (bindM (cancel_terminal E p check) (\<lambda>cx.
                  bindM (complete_claim E claim st check None (before + cx_deleted cx)) (\<lambda>_.
                  returnM (before + cx_deleted cx))))) (\<lambda>r.
     case r of
       Inl _ \<Rightarrow> retry_and_raise E claim error_code (Some (oc_verdict check))
     | Inr deleted \<Rightarrow>
         returnM \<lparr>ro_outcome = outcome, ro_event_hash = fst hashes, ro_trace_hash = snd hashes,
                  ro_verdict = Some (oc_verdict check), ro_cancelled = deleted\<rparr>)"

section \<open>Dispatching\<close>

definition finish_expired :: "environment \<Rightarrow> target_event \<Rightarrow> event_claim \<Rightarrow> ownership_check \<Rightarrow> int
    \<Rightarrow> string \<times> string \<Rightarrow> record_outcome gen" where
  "finish_expired E ev claim check before hashes =
     bindM (tryX (bindM (cancel_event_scanner E (te_event_id ev)) (\<lambda>exact_deleted.
                  let deleted = before + (if exact_deleted then 1 else 0) in
                  bindM (complete_claim E claim EXPIRED_ST check None deleted) (\<lambda>_.
                  returnM deleted)))) (\<lambda>r.
     case r of
       Inl _ \<Rightarrow> retry_and_raise E claim ''audit_finalize_failed'' (Some (oc_verdict check))
     | Inr deleted \<Rightarrow>
         returnM \<lparr>ro_outcome = ''expired'', ro_event_hash = fst hashes, ro_trace_hash = snd hashes,
                  ro_verdict = Some (oc_verdict check), ro_cancelled = deleted\<rparr>)"

definition create_and_complete :: "environment \<Rightarrow> target_event \<Rightarrow> event_claim \<Rightarrow> ownership_check \<Rightarrow> json \<Rightarrow> int
    \<Rightarrow> string \<times> string \<Rightarrow> record_outcome gen" where
  "create_and_complete E ev claim check resource deleted hashes =
     bindM (tryX (bindM (create_scanner E resource) (\<lambda>created.
                  bindM (liftM (scanner_name (te_event_id ev))) (\<lambda>name.
                  bindM (complete_claim E claim DISPATCHED check (Some name) deleted) (\<lambda>_.
                  returnM created))))) (\<lambda>r.
     case r of
       Inl _ \<Rightarrow> retry_and_raise E claim ''dispatch_failed'' (Some (oc_verdict check))
     | Inr created \<Rightarrow>
         returnM \<lparr>ro_outcome = (if created = CREATED then ''dispatched'' else ''already_dispatched''),
                  ro_event_hash = fst hashes, ro_trace_hash = snd hashes,
                  ro_verdict = Some (oc_verdict check), ro_cancelled = deleted\<rparr>)"

text \<open>After the second ownership check said \<^verbatim>\<open>dispatch\<close>: the deadlines, then the creation.\<close>

definition dispatch_checked :: "environment \<Rightarrow> target_event \<Rightarrow> event_claim \<Rightarrow> ownership_check \<Rightarrow> json \<Rightarrow> int
    \<Rightarrow> string \<times> string \<Rightarrow> record_outcome gen" where
  "dispatch_checked E ev claim check resource deleted hashes =
     bindM (read_clock E) (\<lambda>create_time.
     if create_time \<ge> deadline_at (te_scan ev) \<or> create_time \<ge> not_after (te_scan ev)
     then finish_expired E ev claim check deleted hashes
     else create_and_complete E ev claim check resource deleted hashes)"

definition recheck_and_dispatch :: "environment \<Rightarrow> target_event \<Rightarrow> event_claim \<Rightarrow> json \<Rightarrow> int
    \<Rightarrow> string \<times> string \<Rightarrow> record_outcome gen" where
  "recheck_and_dispatch E ev claim resource deleted hashes =
     bindM (tryX (revalidate_event E (generation (te_target ev)))) (\<lambda>r.
     case r of
       Inl _ \<Rightarrow> retry_and_raise E claim ''ownership_recheck_failed'' None
     | Inr check \<Rightarrow>
         (case oc_decision check of
            RETRY \<Rightarrow> retry_and_raise E claim ''ownership_unknown'' (Some (oc_verdict check))
          | STALE \<Rightarrow> finish_terminal E (Work ev) claim check STALE_ST deleted
                       ''audit_finalize_failed'' ''stale'' hashes
          | CANCEL \<Rightarrow> finish_terminal E (Work ev) claim check CANCELLED_ST deleted
                       ''audit_finalize_failed'' ''cancelled'' hashes
          | DISPATCH \<Rightarrow> dispatch_checked E ev claim check resource deleted hashes))"

definition dispatch_work :: "environment \<Rightarrow> generator_config \<Rightarrow> target_event \<Rightarrow> event_claim \<Rightarrow> ownership_check
    \<Rightarrow> string \<times> string \<Rightarrow> record_outcome gen" where
  "dispatch_work E cfg ev claim check hashes =
     bindM (tryX (bindM (cancel E (Work ev) None []) (\<lambda>cx.
                  bindM (liftM (build_scanner_resource ev (namespace cfg) (api_group cfg) (api_version cfg)))
                    (\<lambda>resource. returnM (cx_deleted cx, resource))))) (\<lambda>r.
     case r of
       Inl _ \<Rightarrow> retry_and_raise E claim ''dispatch_failed'' (Some (oc_verdict check))
     | Inr (deleted, resource) \<Rightarrow> recheck_and_dispatch E ev claim resource deleted hashes)"

section \<open>One record\<close>

definition process_claimed :: "environment \<Rightarrow> generator_config \<Rightarrow> target_payload \<Rightarrow> event_claim
    \<Rightarrow> string \<times> string \<Rightarrow> record_outcome gen" where
  "process_claimed E cfg p claim hashes =
     bindM (tryX (revalidate_event E (generation (payload_target p)))) (\<lambda>r.
     case r of
       Inl _ \<Rightarrow> retry_and_raise E claim ''ownership_check_failed'' None
     | Inr check \<Rightarrow>
         if oc_decision check = RETRY
         then retry_and_raise E claim ''ownership_unknown'' (Some (oc_verdict check))
         else if is_removal p
         then finish_terminal E p claim check REMOVED_ST 0 ''removal_failed'' ''removed'' hashes
         else (case oc_decision check of
             STALE \<Rightarrow> finish_terminal E p claim check STALE_ST 0 ''audit_finalize_failed'' ''stale'' hashes
           | CANCEL \<Rightarrow> finish_terminal E p claim check CANCELLED_ST 0 ''cancellation_failed'' ''cancelled'' hashes
           | _ \<Rightarrow> (case p of
                     Work ev \<Rightarrow> dispatch_work E cfg ev claim check hashes
                   | Removal _ \<Rightarrow> raiseM (Value_fault ''scan''))))"

definition process_event :: "environment \<Rightarrow> generator_services \<Rightarrow> target_payload \<Rightarrow> record_outcome gen" where
  "process_event E svc p =
     bindM (liftM (event_hashes p)) (\<lambda>(event_hash, trace_hash, thash).
     bindM (read_clock E) (\<lambda>current.
     let (account, address) = target_scope p in
     if \<not> account_allowed (gs_config svc) account \<or> \<not> target_allowed (gs_config svc) address
     then returnM \<lparr>ro_outcome = ''scope_denied'', ro_event_hash = event_hash, ro_trace_hash = trace_hash,
                   ro_verdict = Some ''scope-denied'', ro_cancelled = 0\<rparr>
     else bindM (tryX (bindM (liftM (claim_query_of p)) (\<lambda>q. acquire E (gs_store svc) q current))) (\<lambda>r.
       case r of
         Inl _ \<Rightarrow> raiseM (Retryable_record ''claim_acquire_failed'' None)
       | Inr res \<Rightarrow>
           if cr_disposition res = DUPLICATE
           then returnM \<lparr>ro_outcome = ''duplicate'', ro_event_hash = event_hash, ro_trace_hash = trace_hash,
                         ro_verdict = None, ro_cancelled = 0\<rparr>
           else if cr_disposition res = BUSY then raiseM (Retryable_record ''claim_busy'' None)
           else case cr_claim res of
             None \<Rightarrow> raiseM (Retryable_record ''claim_missing'' None)
           | Some claim \<Rightarrow> process_claimed E (gs_config svc) p claim (event_hash, trace_hash))))"

end
