(* ===== verification/Generator_Lease.thy ===== *)
theory Generator_Lease
  imports Generator_Handler
begin

text \<open>
  The claim table as a shared state machine. Every change that any worker makes is one
  conditional write; the theory states these as a step relation, shows that the whole
  handler makes only such steps whatever fails and whenever it is killed, and refines them
  to an abstract lease per event: free, leased, waiting for a retry, finished.
\<close>

section \<open>Steps\<close>

inductive claim_step :: "claim_store \<Rightarrow> string \<Rightarrow> time \<Rightarrow> claim_table \<Rightarrow> claim_table \<Rightarrow> bool" for cs owner now t where
  claim_new: "tbl_get t (claim_key (cq_event_id q)) = None
    \<Longrightarrow> claim_step cs owner now t (tbl_put (claim_key (cq_event_id q)) (new_claim cs q now owner) t)"
| claim_again: "tbl_get t key = Some it \<Longrightarrow> can_reacquire h now it
    \<Longrightarrow> claim_step cs owner now t (tbl_put key (reacquired cs now owner it) t)"
| claim_finish: "tbl_get t key = Some it \<Longrightarrow> held_by c it \<Longrightarrow> ec_owner c = owner \<Longrightarrow> st \<in> terminal_states
    \<Longrightarrow> claim_step cs owner now t (tbl_put key (completed st now v sc n it) t)"
| claim_retry: "tbl_get t key = Some it \<Longrightarrow> held_by c it \<Longrightarrow> ec_owner c = owner
    \<Longrightarrow> claim_step cs owner now t (tbl_put key (made_retryable now ec it) t)"

inductive_cases claim_stepE: "claim_step cs owner now t t'"

definition some_step :: "claim_store \<Rightarrow> claim_table \<Rightarrow> claim_table \<Rightarrow> bool" where
  "some_step cs t t' \<longleftrightarrow> (\<exists>owner now. claim_step cs owner now t t')"

abbreviation claim_run :: "claim_store \<Rightarrow> claim_table \<Rightarrow> claim_table \<Rightarrow> bool" where
  "claim_run cs \<equiv> (some_step cs)\<^sup>*\<^sup>*"

text \<open>The others make steps of the protocol; this worker does too.\<close>

definition rely :: "claim_store \<Rightarrow> environment \<Rightarrow> bool" where
  "rely cs E \<longleftrightarrow> (\<forall>n t. claim_run cs t (env_others E n t))"

definition advances :: "claim_store \<Rightarrow> gen_world \<Rightarrow> gen_world \<Rightarrow> bool" where
  "advances cs w w' \<longleftrightarrow> claim_run cs (w_claims w) (w_claims w')"

interpretation protocol: effect_preorder "advances cs"
  by unfold_locales (auto simp: advances_def)

lemma rely_interact: "rely cs E \<Longrightarrow> advances cs w (interact E i w)"
  by (simp add: rely_def advances_def)

lemma advances_answered: "rely cs E \<Longrightarrow> always (advances cs) (\<lambda>w. answered E (i w) (r w) w)"
  by (rule alwaysI) (auto simp: answered_def dest: rely_interact)

lemma advances_api:
  assumes "rely cs E"
  shows "always (advances cs) (read_clock E)" "always (advances cs) (ask_ownership E)"
    "always (advances cs) (api_object E q)" "always (advances cs) (api_create E b)"
    "always (advances cs) (api_get E n)" "always (advances cs) (api_list E h c)"
    "always (advances cs) (api_delete E n)"
  using rely_interact [OF assms] by (auto simp: always_def api_defs Let_def)

lemma advances_claim_call:
  assumes "rely cs E" and "\<And>t. claim_run cs t (snd (op t))"
  shows "always (advances cs) (claim_call E key op)"
proof (rule alwaysI)
  fix w r w' assume "claim_call E key op w = (r, w')"
  then have "w_claims w' = env_others E (tick w) (w_claims w)
      \<or> w_claims w' = snd (op (env_others E (tick w) (w_claims w)))"
    by (auto simp: claim_call_eval split: fault.splits)
  then show "advances cs w w'"
    using assms unfolding rely_def advances_def by (metis rtranclp_trans)
qed

lemma get_item_run: "claim_run cs t (snd (get_item key t))"
  by (simp add: get_item_def)

lemma step_run: "claim_step cs owner now t t' \<Longrightarrow> claim_run cs t t'"
  by (rule r_into_rtranclp) (auto simp: some_step_def)

lemma put_run: "claim_run cs t (snd (put_if_absent (claim_key (cq_event_id q)) (new_claim cs q now owner) t))"
  by (auto simp: put_if_absent_def split: option.splits intro!: step_run claim_new)

lemma reacquire_run: "claim_run cs t (snd (update_if key (can_reacquire h now) (reacquired cs now owner) t))"
  by (auto simp: update_if_def split: option.splits intro!: step_run claim_again)

lemma complete_run:
  "st \<in> terminal_states \<Longrightarrow> claim_run cs t (snd (update_if key (held_by c) (completed st now v sc n) t))"
  by (auto simp: update_if_def split: option.splits intro!: step_run claim_finish)

lemma retry_run: "claim_run cs t (snd (update_if key (held_by c) (made_retryable now ec) t))"
  by (auto simp: update_if_def split: option.splits intro!: step_run claim_retry)

lemmas claim_runs = get_item_run put_run reacquire_run complete_run retry_run

section \<open>The handler follows the protocol\<close>

lemmas advances_rules = protocol.always_rules always_intro

lemma advances_get_claim: "rely cs E \<Longrightarrow> always (advances cs) (get_claim E key)"
  unfolding get_claim_def by (intro advances_rules advances_claim_call claim_runs)

lemma advances_classify: "rely cs E \<Longrightarrow> always (advances cs) (classify_after_race E key h now)"
  unfolding classify_after_race_def by (intro advances_rules advances_get_claim)

lemma advances_reacquire: "rely cs E \<Longrightarrow> always (advances cs) (reacquire E cs key h now owner)"
  unfolding reacquire_def take_over_def
  by (intro advances_rules advances_get_claim advances_classify advances_claim_call claim_runs)

lemma advances_acquire: "rely cs E \<Longrightarrow> always (advances cs) (acquire E cs q now)"
  unfolding acquire_def Let_def
  by (intro advances_rules advances_reacquire advances_claim_call claim_runs)

lemma advances_complete: "rely cs E \<Longrightarrow> always (advances cs) (complete E c st now v sc n)"
  unfolding complete_def
  by (intro advances_rules advances_get_claim advances_claim_call claim_runs) simp_all

lemma advances_mark_retryable: "rely cs E \<Longrightarrow> always (advances cs) (mark_retryable E c now ec)"
  unfolding mark_retryable_def by (intro advances_rules advances_claim_call claim_runs)

lemma advances_list_loop: "rely cs E \<Longrightarrow> always (advances cs) (list_loop n E h res c seen)"
  by (induction n arbitrary: res c seen) (simp_all, (intro advances_rules advances_api | simp)+)

lemma advances_delete_scanner: "rely cs E \<Longrightarrow> always (advances cs) (delete_scanner E name)"
  unfolding delete_scanner_def by (intro advances_rules advances_api)

lemma advances_cancel_matching: "rely cs E \<Longrightarrow> always (advances cs) (cancel_matching_scanners E tid f ex)"
  unfolding cancel_matching_scanners_def list_for_target_hash_def count_deleted_def
  by (intro advances_rules advances_list_loop advances_delete_scanner)

lemma advances_cancel_terminal: "rely cs E \<Longrightarrow> always (advances cs) (cancel_terminal E p check)"
  unfolding cancel_terminal_def cancel_event_scanner_def cancel_def cancel_older_scanners_def
    cancel_scanners_through_generation_def
  by (intro advances_rules advances_cancel_matching advances_delete_scanner)

lemma advances_complete_claim: "rely cs E \<Longrightarrow> always (advances cs) (complete_claim E c st check sc n)"
  unfolding complete_claim_def by (intro advances_rules advances_api advances_complete)

lemma advances_retry_and_raise: "rely cs E \<Longrightarrow> always (advances cs) (retry_and_raise E c ec v)"
  unfolding retry_and_raise_def retry_claim_def
  by (intro advances_rules advances_api advances_mark_retryable)

lemma advances_finish_terminal:
  "rely cs E \<Longrightarrow> always (advances cs) (finish_terminal E p c check st n ec out hs)"
  unfolding finish_terminal_def
  by (intro advances_rules advances_cancel_terminal advances_complete_claim advances_retry_and_raise)

lemma advances_create_scanner: "rely cs E \<Longrightarrow> always (advances cs) (create_scanner E b)"
  unfolding create_scanner_def get_scanner_def by (intro advances_rules advances_api)

lemma advances_dispatch_checked:
  "rely cs E \<Longrightarrow> always (advances cs) (dispatch_checked E ev c check b n hs)"
  unfolding dispatch_checked_def finish_expired_def create_and_complete_def cancel_event_scanner_def Let_def
  by (intro advances_rules advances_api advances_complete_claim advances_retry_and_raise
      advances_create_scanner advances_delete_scanner)

lemma advances_recheck: "rely cs E \<Longrightarrow> always (advances cs) (recheck_and_dispatch E ev c b n hs)"
  unfolding recheck_and_dispatch_def revalidate_event_def
  by (intro advances_rules advances_api advances_retry_and_raise)
    (auto split: ownership_decision.splits
      intro: advances_retry_and_raise advances_finish_terminal advances_dispatch_checked)

lemma advances_dispatch_work: "rely cs E \<Longrightarrow> always (advances cs) (dispatch_work E cfg ev c check hs)"
  unfolding dispatch_work_def cancel_def cancel_older_scanners_def
  by (intro advances_rules advances_cancel_matching advances_retry_and_raise advances_recheck)

lemma advances_process_claimed: "rely cs E \<Longrightarrow> always (advances cs) (process_claimed E cfg p c hs)"
  unfolding process_claimed_def revalidate_event_def
  by (intro advances_rules advances_api advances_retry_and_raise advances_finish_terminal)
    (auto split: ownership_decision.splits target_payload.splits
      intro: advances_finish_terminal advances_dispatch_work protocol.always_raiseM)

lemma advances_process_event: "rely (gs_store svc) E \<Longrightarrow> always (advances (gs_store svc)) (process_event E svc p)"
  unfolding process_event_def Let_def
  by (intro advances_rules advances_api advances_acquire advances_process_claimed)

text \<open>
  What the claim protocol promises: a finished claim never changes, a lease excludes every
  other owner until it expires, and each event's item refines an abstract lease. The
  abstract machine is the interface that the handler relies on.
\<close>

section \<open>The abstract lease\<close>

datatype lease_view = Free | Leased string int | Waiting | Finished claim_state | Corrupt

inductive lease_step :: "int \<Rightarrow> string \<Rightarrow> time \<Rightarrow> lease_view \<Rightarrow> lease_view \<Rightarrow> bool" for duration owner now where
  take_free: "lease_step duration owner now Free (Leased owner (epoch_seconds now + duration))"
| take_waiting: "lease_step duration owner now Waiting (Leased owner (epoch_seconds now + duration))"
| take_expired: "l \<le> epoch_seconds now
    \<Longrightarrow> lease_step duration owner now (Leased other l) (Leased owner (epoch_seconds now + duration))"
| release: "lease_step duration owner now (Leased owner l) Waiting"
| finish: "st \<in> terminal_states \<Longrightarrow> lease_step duration owner now (Leased owner l) (Finished st)"

inductive_simps lease_step_Finished: "lease_step d owner now (Finished st) v"
inductive_simps lease_step_Leased: "lease_step d owner now (Leased o' l) v"

definition view_item :: "claim_item \<Rightarrow> lease_view" where
  "view_item it =
     (case state_of_item it of
        Inl _ \<Rightarrow> Corrupt
      | Inr st \<Rightarrow>
          if st = CLAIMED
          then (case (ci_owner it, ci_lease it) of (Some owner, Some l) \<Rightarrow> Leased owner l | _ \<Rightarrow> Corrupt)
          else if st = RETRYABLE then Waiting else Finished st)"

definition view :: "claim_table \<Rightarrow> string \<Rightarrow> lease_view" where
  "view t key = (case tbl_get t key of None \<Rightarrow> Free | Some it \<Rightarrow> view_item it)"

section \<open>Refinement\<close>

text \<open>The items that the protocol writes: claimed ones have an owner and a lease.\<close>

definition item_ok :: "claim_item \<Rightarrow> bool" where
  "item_ok it \<longleftrightarrow> view_item it \<noteq> Corrupt"

definition claims_ok :: "claim_table \<Rightarrow> bool" where
  "claims_ok t \<longleftrightarrow> (\<forall>key it. tbl_get t key = Some it \<longrightarrow> item_ok it)"

lemma terminal_not_active: "st \<in> terminal_states \<Longrightarrow> st \<noteq> CLAIMED \<and> st \<noteq> RETRYABLE"
  by (auto simp: terminal_states_def)

lemma view_new: "view_item (new_claim cs q now owner) = Leased owner (epoch_seconds now + cs_lease_seconds cs)"
proof -
  have "state_of_item (new_claim cs q now owner) = Inr CLAIMED"
    by (rule state_of_item_value) (simp add: new_claim_def)
  moreover have "ci_owner (new_claim cs q now owner) = Some owner"
    "ci_lease (new_claim cs q now owner) = Some (epoch_seconds now + cs_lease_seconds cs)"
    by (simp_all add: new_claim_def)
  ultimately show ?thesis by (simp add: view_item_def)
qed

lemma view_reacquired:
  "view_item (reacquired cs now owner it) = Leased owner (epoch_seconds now + cs_lease_seconds cs)"
proof -
  have "state_of_item (reacquired cs now owner it) = Inr CLAIMED"
    by (rule state_of_item_value) (simp add: reacquired_def)
  moreover have "ci_owner (reacquired cs now owner it) = Some owner"
    "ci_lease (reacquired cs now owner it) = Some (epoch_seconds now + cs_lease_seconds cs)"
    by (simp_all add: reacquired_def)
  ultimately show ?thesis by (simp add: view_item_def)
qed

lemma view_completed:
  assumes "st \<in> terminal_states"
  shows "view_item (completed st now v sc n it) = Finished st"
proof -
  have "state_of_item (completed st now v sc n it) = Inr st"
    by (rule state_of_item_value) (simp add: completed_def Let_def split: option.splits)
  then show ?thesis using terminal_not_active [OF assms] by (simp add: view_item_def)
qed

lemma view_retryable: "view_item (made_retryable now ec it) = Waiting"
proof -
  have "state_of_item (made_retryable now ec it) = Inr RETRYABLE"
    by (rule state_of_item_value) (simp add: made_retryable_def)
  then show ?thesis by (simp add: view_item_def)
qed

lemmas view_writes = view_new view_reacquired view_completed view_retryable

lemma state_is: "ci_state it = Some (claim_state_value st) \<Longrightarrow> state_of_item it = Inr st"
  by simp

lemma view_held:
  assumes "held_by c it" "item_ok it"
  obtains l where "view_item it = Leased (ec_owner c) l"
proof -
  from assms(1) have "state_of_item it = Inr CLAIMED" "ci_owner it = Some (ec_owner c)"
    by (auto simp: held_by_def intro: state_is)
  with assms(2) that show ?thesis by (auto simp: item_ok_def view_item_def split: option.splits)
qed

lemma view_can_reacquire:
  assumes "can_reacquire h now it" "item_ok it"
  shows "view_item it = Waiting \<or> (\<exists>other l. view_item it = Leased other l \<and> l \<le> epoch_seconds now)"
proof -
  from assms(1) consider "state_of_item it = Inr RETRYABLE"
    | l where "state_of_item it = Inr CLAIMED" "ci_lease it = Some l" "l \<le> epoch_seconds now"
    by (auto simp: can_reacquire_def state_is split: option.splits)
  then show ?thesis
    using assms(2) by cases (auto simp: item_ok_def view_item_def split: option.splits)
qed

text \<open>A step of the table is a step of one item's lease, and leaves the other items.\<close>

lemma claim_step_refines:
  assumes "claim_step cs owner now t t'" and "claims_ok t"
  shows "\<exists>key. lease_step (cs_lease_seconds cs) owner now (view t key) (view t' key)
    \<and> (\<forall>k. k \<noteq> key \<longrightarrow> tbl_get t' k = tbl_get t k)"
  using assms(1)
proof (cases rule: claim_step.cases)
  case (claim_new q)
  then show ?thesis
    by (intro exI [of _ "claim_key (cq_event_id q)"]) (simp add: view_def view_writes lease_step.take_free)
next
  case (claim_again key it h)
  with assms(2) have "item_ok it" by (auto simp: claims_ok_def)
  from view_can_reacquire [OF claim_again(3) this] claim_again show ?thesis
    by (intro exI [of _ key]) (auto simp: view_def view_writes intro: lease_step.intros)
next
  case (claim_finish key it c st v sc n)
  with assms(2) have "item_ok it" by (auto simp: claims_ok_def)
  with claim_finish obtain l where "view_item it = Leased owner l" by (metis view_held)
  with claim_finish show ?thesis
    by (intro exI [of _ key]) (auto simp: view_def view_writes intro: lease_step.intros)
next
  case (claim_retry key it c ec)
  with assms(2) have "item_ok it" by (auto simp: claims_ok_def)
  with claim_retry obtain l where "view_item it = Leased owner l" by (metis view_held)
  with claim_retry show ?thesis
    by (intro exI [of _ key]) (auto simp: view_def view_writes intro: lease_step.intros)
qed

lemma claim_step_ok: "claim_step cs owner now t t' \<Longrightarrow> claims_ok t \<Longrightarrow> claims_ok t'"
  by (erule claim_step.cases) (auto simp: claims_ok_def item_ok_def view_writes split: if_splits)

lemma claim_run_ok: "claim_run cs t t' \<Longrightarrow> claims_ok t \<Longrightarrow> claims_ok t'"
  by (induction rule: rtranclp_induct) (auto simp: some_step_def intro: claim_step_ok)

definition lease_run :: "int \<Rightarrow> lease_view \<Rightarrow> lease_view \<Rightarrow> bool" where
  "lease_run d = (\<lambda>v v'. \<exists>owner now. lease_step d owner now v v')\<^sup>*\<^sup>*"

lemma claim_run_refines:
  "claim_run cs t t' \<Longrightarrow> claims_ok t \<Longrightarrow> lease_run (cs_lease_seconds cs) (view t key) (view t' key)"
proof (induction rule: rtranclp_induct)
  case base
  then show ?case by (simp add: lease_run_def)
next
  case (step u v)
  from step.hyps(2) obtain owner now where s: "claim_step cs owner now u v" by (auto simp: some_step_def)
  have "claims_ok u" using step.hyps(1) step.prems by (rule claim_run_ok)
  from claim_step_refines [OF s this] obtain k where
    k: "lease_step (cs_lease_seconds cs) owner now (view u k) (view v k)" "\<forall>k'. k' \<noteq> k \<longrightarrow> tbl_get v k' = tbl_get u k'"
    by blast
  then have "lease_run (cs_lease_seconds cs) (view u key) (view v key)"
    by (cases "key = k") (auto simp: lease_run_def view_def)
  with step.IH step.prems show ?case unfolding lease_run_def by (meson rtranclp_trans)
qed

section \<open>Finished claims\<close>

definition finished :: "claim_item \<Rightarrow> bool" where
  "finished it \<longleftrightarrow> (\<exists>st \<in> terminal_states. ci_state it = Some (claim_state_value st))"

lemma finished_state: "finished it \<longleftrightarrow> (\<exists>st \<in> terminal_states. state_of_item it = Inr st)"
  by (auto simp: finished_def state_of_item_Inr)

lemma finished_not_writable: "finished it \<Longrightarrow> \<not> can_reacquire h now it" "finished it \<Longrightarrow> \<not> held_by c it"
  by (auto simp: finished_def can_reacquire_def held_by_def dest: terminal_not_active)

lemma claim_step_finished:
  "claim_step cs owner now t t' \<Longrightarrow> tbl_get t key = Some it \<Longrightarrow> finished it \<Longrightarrow> tbl_get t' key = Some it"
  by (erule claim_step.cases) (auto simp: finished_not_writable split: if_splits)

lemma claim_run_finished:
  "claim_run cs t t' \<Longrightarrow> tbl_get t key = Some it \<Longrightarrow> finished it \<Longrightarrow> tbl_get t' key = Some it"
  by (induction rule: rtranclp_induct) (auto simp: some_step_def intro: claim_step_finished)

section \<open>Exclusion\<close>

definition leased_to :: "string \<Rightarrow> int \<Rightarrow> claim_item \<Rightarrow> bool" where
  "leased_to owner l it \<longleftrightarrow> ci_state it = Some (claim_state_value CLAIMED)
     \<and> ci_owner it = Some owner \<and> ci_lease it = Some l"

lemma claim_step_leased:
  assumes "claim_step cs other now t t'" "tbl_get t key = Some it" "leased_to owner l it"
    "other \<noteq> owner" "epoch_seconds now < l"
  shows "tbl_get t' key = Some it"
  using assms by (cases rule: claim_step.cases)
    (auto simp: leased_to_def held_by_def can_reacquire_def split: if_splits)

text \<open>Steps of other owners while the lease runs.\<close>

definition other_step :: "claim_store \<Rightarrow> string \<Rightarrow> int \<Rightarrow> claim_table \<Rightarrow> claim_table \<Rightarrow> bool" where
  "other_step cs owner l t t' \<longleftrightarrow>
     (\<exists>other now. other \<noteq> owner \<and> epoch_seconds now < l \<and> claim_step cs other now t t')"

lemma other_steps_leased:
  "(other_step cs owner l)\<^sup>*\<^sup>* t t' \<Longrightarrow> tbl_get t key = Some it \<Longrightarrow> leased_to owner l it \<Longrightarrow> tbl_get t' key = Some it"
  by (induction rule: rtranclp_induct) (auto simp: other_step_def intro: claim_step_leased)

section \<open>Claiming an event\<close>

text \<open>A request that returned did its work on the table that the others had left.\<close>

lemma claim_call_Inr:
  "claim_call E key op w = (Inr x, w') \<Longrightarrow>
     op (env_others E (tick w) (w_claims w)) = (Inr x, w_claims w')"
  by (auto simp: claim_call_eval prod_eq_iff split: fault.splits)

lemma claim_call_Inl:
  "claim_call E key op w = (Inl e, w') \<Longrightarrow>
     e \<in> {Service_error None, Killed} \<or> op (env_others E (tick w) (w_claims w)) = (Inl e, w_claims w')"
  by (auto simp: claim_call_eval prod_eq_iff split: fault.splits)

lemma tryX_Inr: "tryX m w = (Inr r, w') \<longleftrightarrow> m w = (r, w') \<and> r \<noteq> Inl Killed"
  by (auto simp: tryX_def split: prod.splits if_splits)

lemma get_claim_Inr:
  "get_claim E key w = (Inr it, w') \<Longrightarrow> tbl_get (env_others E (tick w) (w_claims w)) key = Some it
     \<and> w_claims w' = env_others E (tick w) (w_claims w)"
proof -
  assume "get_claim E key w = (Inr it, w')"
  then obtain found w1 where call: "claim_call E key (get_item key) w = (Inr found, w1)"
    and rest: "(case found of
        None \<Rightarrow> raiseM (Claim_store_error ''claim item disappeared during a conditional race'')
      | Some it \<Rightarrow> returnM it) w1 = (Inr it, w')"
    unfolding get_claim_def bindM_Inr by blast
  from claim_call_Inr [OF call] rest show ?thesis
    by (cases found) (auto simp: get_item_def raiseM_def returnM_def)
qed

lemma rely_finished:
  "rely cs E \<Longrightarrow> tbl_get (w_claims w) key = Some it \<Longrightarrow> finished it
     \<Longrightarrow> tbl_get (env_others E n (w_claims w)) key = Some it"
  unfolding rely_def by (meson claim_run_finished)

lemma reacquire_finished:
  assumes "rely cs E" "tbl_get (w_claims w) key = Some it" "finished it"
    and "reacquire E cs key h now owner w = (Inr res, w')"
  shows "cr_disposition res = DUPLICATE"
proof -
  from assms(4) obtain x w1 where x: "get_claim E key w = (Inr x, w1)"
    and rest: "(if ci_event_hash x \<noteq> Some h then raiseM (Claim_collision ''claim key does not match the event hash'')
      else bindM (liftM (state_of_item x)) (\<lambda>st.
        if st \<in> terminal_states then returnM (plain_result DUPLICATE st)
        else if st = CLAIMED \<and> \<not> lease_expired now x then returnM (plain_result BUSY st)
        else if st \<noteq> RETRYABLE \<and> \<not> lease_expired now x
        then raiseM (Claim_store_error ''claim item is in an unsupported state'')
        else take_over E cs key h now owner x)) w1 = (Inr res, w')"
    by (auto simp: reacquire_def bindM_Inr)
  from get_claim_Inr [OF x] rely_finished [OF assms(1,2,3)] have "x = it" by simp
  with assms(3) obtain st where "st \<in> terminal_states" "state_of_item x = Inr st"
    by (auto simp: finished_state)
  with rest show ?thesis by (auto simp: raiseM_Inr bindM_Inr liftM_Inr returnM_Inr plain_result_def split: if_splits)
qed

lemma acquire_finished:
  assumes "rely cs E" "tbl_get (w_claims w) (claim_key (cq_event_id q)) = Some it" "finished it"
    and "acquire E cs q now w = (Inr res, w')"
  shows "cr_disposition res = DUPLICATE"
proof -
  let ?key = "claim_key (cq_event_id q)"
  let ?put = "put_if_absent ?key (new_claim cs q now (env_owner E (tick w)))"
  have item: "tbl_get (env_others E (tick w) (w_claims w)) ?key = Some it"
    using rely_finished [OF assms(1,2,3)] .
  from assms(4) obtain r w1 where r: "claim_call E ?key ?put w = (r, w1)"
    and rest: "(case r of
        Inr _ \<Rightarrow> returnM (acquired_result ?key (sha256 (cq_event_id q)) (env_owner E (tick w)) 1)
      | Inl e \<Rightarrow> if e \<noteq> conditional_failed then raiseM e
                 else reacquire E cs ?key (sha256 (cq_event_id q)) now (env_owner E (tick w))) w1 = (Inr res, w')"
    by (auto simp: acquire_def Let_def bindM_Inr readM_Inr tryX_Inr)
  show ?thesis
  proof (cases r)
    case (Inr u)
    with r claim_call_Inr [of E ?key ?put w] item show ?thesis by (auto simp: put_if_absent_def)
  next
    case (Inl e)
    with rest have "reacquire E cs ?key (sha256 (cq_event_id q)) now (env_owner E (tick w)) w1 = (Inr res, w')"
      by (auto simp: raiseM_Inr split: if_splits)
    moreover have "tbl_get (w_claims w1) ?key = Some it"
      using alwaysD [OF advances_claim_call [OF assms(1) put_run] r] assms(2,3)
      unfolding advances_def by (rule claim_run_finished)
    ultimately show ?thesis using assms(1,3) reacquire_finished by blast
  qed
qed

text \<open>A claim that was acquired is leased to its owner in the table.\<close>

definition holds_lease :: "claim_store \<Rightarrow> time \<Rightarrow> event_claim \<Rightarrow> claim_table \<Rightarrow> bool" where
  "holds_lease cs now c t \<longleftrightarrow> (\<exists>it. tbl_get t (ec_key c) = Some it \<and> held_by c it
     \<and> leased_to (ec_owner c) (epoch_seconds now + cs_lease_seconds cs) it)"

lemma classify_not_acquired:
  "classify_after_race E key h now w = (Inr res, w') \<Longrightarrow> cr_disposition res \<noteq> ACQUIRED"
  by (auto simp: classify_after_race_def bindM_Inr liftM_Inr raiseM_Inr returnM_Inr plain_result_def
      split: if_splits)

lemma new_claim_leased:
  "held_by \<lparr>ec_key = key, ec_event_hash = sha256 (cq_event_id q), ec_owner = owner, ec_attempt = n\<rparr>
     (new_claim cs q now owner)"
  "leased_to owner (epoch_seconds now + cs_lease_seconds cs) (new_claim cs q now owner)"
  by (simp_all add: held_by_def leased_to_def new_claim_def)

lemma reacquired_leased:
  "ci_event_hash it = Some h \<Longrightarrow> held_by \<lparr>ec_key = key, ec_event_hash = h, ec_owner = owner, ec_attempt = n\<rparr>
     (reacquired cs now owner it)"
  "leased_to owner (epoch_seconds now + cs_lease_seconds cs) (reacquired cs now owner it)"
  by (simp_all add: held_by_def leased_to_def reacquired_def)

lemma take_over_leases:
  assumes "take_over E cs key h now owner x w = (Inr res, w')" "cr_disposition res = ACQUIRED"
  shows "\<exists>c. cr_claim res = Some c \<and> ec_key c = key \<and> holds_lease cs now c (w_claims w')"
proof -
  from assms(1) obtain r w2 where
    call: "claim_call E key (update_if key (can_reacquire h now) (reacquired cs now owner)) w = (r, w2)"
    and rest: "(case r of
            Inl e \<Rightarrow> if e \<noteq> conditional_failed then raiseM e else classify_after_race E key h now
          | Inr _ \<Rightarrow> returnM (acquired_result key h owner
                       (case ci_attempts x of None \<Rightarrow> 2 | Some n \<Rightarrow> n + 1))) w2 = (Inr res, w')"
    unfolding take_over_def bindM_Inr tryX_Inr by blast
  show ?thesis
  proof (cases r)
    case (Inl e)
    with rest assms(2) show ?thesis
      by (auto simp: raiseM_Inr split: if_splits dest: classify_not_acquired)
  next
    case (Inr u)
    from call [unfolded Inr, THEN claim_call_Inr] have
      "update_if key (can_reacquire h now) (reacquired cs now owner) (env_others E (tick w) (w_claims w))
        = (Inr u, w_claims w2)" .
    then obtain it where it: "can_reacquire h now it" and
      "w_claims w2 = tbl_put key (reacquired cs now owner it) (env_others E (tick w) (w_claims w))"
      by (auto simp: update_if_def split: option.splits if_splits)
    then have "tbl_get (w_claims w2) key = Some (reacquired cs now owner it)" by simp
    moreover from it have "ci_event_hash it = Some h" by (simp add: can_reacquire_def)
    moreover from rest Inr have "w' = w2"
      "res = acquired_result key h owner (case ci_attempts x of None \<Rightarrow> 2 | Some n \<Rightarrow> n + 1)"
      by (auto simp: returnM_Inr)
    ultimately show ?thesis by (simp add: acquired_result_def holds_lease_def reacquired_leased)
  qed
qed

lemma reacquire_leases:
  assumes "reacquire E cs key h now owner w = (Inr res, w')" "cr_disposition res = ACQUIRED"
  shows "\<exists>c. cr_claim res = Some c \<and> ec_key c = key \<and> holds_lease cs now c (w_claims w')"
proof -
  from assms obtain x w1 where "take_over E cs key h now owner x w1 = (Inr res, w')"
    by (auto simp: reacquire_def bindM_Inr liftM_Inr raiseM_Inr returnM_Inr plain_result_def split: if_splits)
  then show ?thesis using assms(2) by (rule take_over_leases)
qed

lemma acquire_leases:
  assumes "acquire E cs q now w = (Inr res, w')" "cr_disposition res = ACQUIRED"
  shows "\<exists>c. cr_claim res = Some c \<and> ec_key c = claim_key (cq_event_id q) \<and> holds_lease cs now c (w_claims w')"
proof -
  let ?key = "claim_key (cq_event_id q)" and ?h = "sha256 (cq_event_id q)" and ?o = "env_owner E (tick w)"
  let ?put = "put_if_absent ?key (new_claim cs q now ?o)"
  from assms(1) obtain r w1 where r: "claim_call E ?key ?put w = (r, w1)"
    and rest: "(case r of
        Inr _ \<Rightarrow> returnM (acquired_result ?key ?h ?o 1)
      | Inl e \<Rightarrow> if e \<noteq> conditional_failed then raiseM e
                 else reacquire E cs ?key ?h now ?o) w1 = (Inr res, w')"
    by (auto simp: acquire_def Let_def bindM_Inr readM_Inr tryX_Inr)
  show ?thesis
  proof (cases r)
    case (Inl e)
    with rest assms(2) show ?thesis by (auto simp: raiseM_Inr split: if_splits dest: reacquire_leases)
  next
    case (Inr u)
    with r claim_call_Inr [of E ?key ?put w] have
      "w_claims w1 = tbl_put ?key (new_claim cs q now ?o) (env_others E (tick w) (w_claims w))"
      by (auto simp: put_if_absent_def split: option.splits)
    then have "tbl_get (w_claims w1) ?key = Some (new_claim cs q now ?o)" by simp
    with rest Inr show ?thesis
      by (auto simp: returnM_Inr acquired_result_def holds_lease_def new_claim_leased)
  qed
qed

text \<open>The owner of a live lease finalises its claim.\<close>

lemma complete_held:
  assumes "tbl_get (env_others E (tick w) (w_claims w)) (ec_key c) = Some it" "held_by c it"
    and "env_fault E (tick w) = No_fault" "st \<in> terminal_states"
  shows "\<exists>w'. complete E c st now v sc n w = (Inr True, w')
    \<and> tbl_get (w_claims w') (ec_key c) = Some (completed st now v sc n it)"
  using assms by (simp add: complete_def bindM_def tryX_def claim_call_eval update_if_def returnM_def)

end
