(* ===== verification/Generator_Gate.thy ===== *)
theory Generator_Gate
  imports Generator_Lease
begin

text \<open>
  The dispatch gate: what stands in the trace around a request that creates a Scanner.
\<close>

section \<open>Programs that create nothing\<close>

fun not_create :: "interaction \<Rightarrow> bool" where
  "not_create (Create_request b) = False"
| "not_create _ = True"

lemma claim_not_create: "is_claim_request i \<Longrightarrow> not_create i"
  by (cases i) auto

lemmas quiet_claims =
  within_acquire [THEN within_mono [OF _ claim_not_create]]
  within_complete [THEN within_mono [OF _ claim_not_create]]
  within_mark_retryable [THEN within_mono [OF _ claim_not_create]]

lemma quiet_cancel_matching: "within not_create (cancel_matching_scanners E tid f ex)"
  by (rule within_cancel_matching) simp_all

lemma quiet_cancel: "within not_create (cancel E p a ex)"
  unfolding cancel_def cancel_older_scanners_def by (intro within_intro quiet_cancel_matching)

lemma quiet_cancel_event: "within not_create (cancel_event_scanner E eid)"
  unfolding cancel_event_scanner_def by (intro within_intro within_delete_scanner) simp

lemma quiet_cancel_terminal: "within not_create (cancel_terminal E p check)"
  unfolding cancel_terminal_def cancel_scanners_through_generation_def
  by (intro within_intro quiet_cancel quiet_cancel_event quiet_cancel_matching)

lemma quiet_complete_claim: "within not_create (complete_claim E c st check sc n)"
  unfolding complete_claim_def by (intro within_intro within_api quiet_claims) simp

lemma quiet_retry: "within not_create (retry_and_raise E c ec v)"
  unfolding retry_and_raise_def retry_claim_def by (intro within_intro within_api quiet_claims) simp

lemma quiet_finish_terminal: "within not_create (finish_terminal E p c check st n ec out hs)"
  unfolding finish_terminal_def
  by (intro within_intro quiet_cancel_terminal quiet_complete_claim quiet_retry)

lemma quiet_finish_expired: "within not_create (finish_expired E ev c check n hs)"
  unfolding finish_expired_def Let_def
  by (intro within_intro quiet_cancel_event quiet_complete_claim quiet_retry)

lemma quiet_revalidate: "within not_create (revalidate_event E g)"
  by (rule within_revalidate) simp

section \<open>Programs that start with one creation\<close>

definition opens :: "interaction \<Rightarrow> 'a gen \<Rightarrow> bool" where
  "opens i m \<longleftrightarrow> (\<forall>w r w'. m w = (r, w') \<longrightarrow> (\<exists>xs. w_trace w' = w_trace w @ i # xs \<and> list_all not_create xs))"

lemma opens_tryX: "opens i m \<Longrightarrow> opens i (tryX m)"
  by (auto simp: opens_def tryX_eval) (metis prod.collapse)+

lemma opens_bind:
  assumes "opens i m" "\<And>x. within not_create (f x)"
  shows "opens i (bindM m f)"
  unfolding opens_def
proof (intro allI impI)
  fix w r w' assume run: "bindM m f w = (r, w')"
  obtain q w1 where m: "m w = (q, w1)" by force
  from assms(1) m obtain xs where xs: "w_trace w1 = w_trace w @ i # xs" "list_all not_create xs"
    unfolding opens_def by blast
  show "\<exists>xs. w_trace w' = w_trace w @ i # xs \<and> list_all not_create xs"
  proof (cases q)
    case (Inl e)
    with run m xs show ?thesis by (auto simp: bindM_def)
  next
    case (Inr x)
    with run m have "f x w1 = (r, w')" by (simp add: bindM_def)
    from withinD [OF assms(2) this] xs show ?thesis by fastforce
  qed
qed

lemma opens_create_scanner: "opens (Create_request b) (create_scanner E b)"
  unfolding create_scanner_def get_scanner_def
  by (intro opens_bind opens_tryX within_intro within_api) (auto simp: opens_def api_defs)

lemma opens_create_and_complete: "opens (Create_request b) (create_and_complete E ev c check b n hs)"
  unfolding create_and_complete_def
  by (intro opens_bind opens_tryX opens_create_scanner within_intro quiet_complete_claim quiet_retry)

section \<open>The gate\<close>

definition gated :: "(json \<Rightarrow> time \<Rightarrow> raw_verdict \<Rightarrow> bool) \<Rightarrow> interaction list \<Rightarrow> bool" where
  "gated G xs \<longleftrightarrow> (\<forall>body. Create_request body \<in> set xs \<longrightarrow>
     (\<exists>pre v t post. xs = pre @ [Ownership_request (Some v), Clock_reading t, Create_request body] @ post
        \<and> list_all not_create pre \<and> list_all not_create post \<and> G body t v))"

definition gated_run :: "(json \<Rightarrow> time \<Rightarrow> raw_verdict \<Rightarrow> bool) \<Rightarrow> 'a gen \<Rightarrow> bool" where
  "gated_run G m \<longleftrightarrow> (\<forall>w r w'. m w = (r, w') \<longrightarrow> (\<exists>xs. w_trace w' = w_trace w @ xs \<and> gated G xs))"

lemma not_create_mem: "list_all not_create xs \<Longrightarrow> Create_request b \<notin> set xs"
  by (auto simp: list_all_iff)

lemma gated_quiet: "list_all not_create xs \<Longrightarrow> gated G xs"
  by (auto simp: gated_def dest: not_create_mem)

lemma gated_creation:
  assumes "list_all not_create xs" "G b t v"
  shows "gated G ([Ownership_request (Some v), Clock_reading t, Create_request b] @ xs)"
  unfolding gated_def
proof (intro allI impI)
  fix body assume "Create_request body \<in> set ([Ownership_request (Some v), Clock_reading t, Create_request b] @ xs)"
  with assms(1) have "body = b" by (auto dest: not_create_mem)
  with assms show "\<exists>pre v' t' post. [Ownership_request (Some v), Clock_reading t, Create_request b] @ xs
      = pre @ [Ownership_request (Some v'), Clock_reading t', Create_request body] @ post
      \<and> list_all not_create pre \<and> list_all not_create post \<and> G body t' v'"
    by (intro exI [of _ "[]"] exI [of _ v] exI [of _ t] exI [of _ xs]) simp
qed

lemma gated_prefix:
  assumes "list_all not_create ys" "gated G xs"
  shows "gated G (ys @ xs)"
  unfolding gated_def
proof (intro allI impI)
  fix b assume "Create_request b \<in> set (ys @ xs)"
  with assms(1) have "Create_request b \<in> set xs" by (auto dest: not_create_mem)
  with assms(2) obtain pre v t post where
    "xs = pre @ [Ownership_request (Some v), Clock_reading t, Create_request b] @ post"
    "list_all not_create pre" "list_all not_create post" "G b t v"
    unfolding gated_def by blast
  with assms(1) show "\<exists>pre v t post. ys @ xs = pre @ [Ownership_request (Some v), Clock_reading t, Create_request b] @ post
        \<and> list_all not_create pre \<and> list_all not_create post \<and> G b t v"
    by (intro exI [of _ "ys @ pre"] exI [of _ v] exI [of _ t] exI [of _ post]) simp
qed

lemma gated_run_quiet: "within not_create m \<Longrightarrow> gated_run G m"
  unfolding gated_run_def using withinD gated_quiet by metis

lemma gated_run_bind:
  assumes "within not_create m" "\<And>w x w'. m w = (Inr x, w') \<Longrightarrow> gated_run G (f x)"
  shows "gated_run G (bindM m f)"
  unfolding gated_run_def
proof (intro allI impI)
  fix w r w' assume run: "bindM m f w = (r, w')"
  obtain q w1 where m: "m w = (q, w1)" by force
  from withinD [OF assms(1) m] obtain ys where ys: "w_trace w1 = w_trace w @ ys" "list_all not_create ys" by blast
  show "\<exists>xs. w_trace w' = w_trace w @ xs \<and> gated G xs"
  proof (cases q)
    case (Inl e)
    with run m ys show ?thesis by (auto simp: bindM_def intro: gated_quiet)
  next
    case (Inr x)
    with run m have "f x w1 = (r, w')" by (simp add: bindM_def)
    with assms(2) m Inr obtain xs where "w_trace w' = w_trace w1 @ xs" "gated G xs"
      unfolding gated_run_def by blast
    with ys gated_prefix show ?thesis by fastforce
  qed
qed

lemma gated_run_if: "(b \<Longrightarrow> gated_run G m) \<Longrightarrow> (\<not> b \<Longrightarrow> gated_run G n) \<Longrightarrow> gated_run G (if b then m else n)"
  by simp

lemma gated_run_case_sum:
  "(\<And>x. z = Inl x \<Longrightarrow> gated_run G (f x)) \<Longrightarrow> (\<And>x. z = Inr x \<Longrightarrow> gated_run G (g x))
     \<Longrightarrow> gated_run G (case z of Inl x \<Rightarrow> f x | Inr x \<Rightarrow> g x)"
  by (cases z) auto

lemma gated_run_case_option:
  "(z = None \<Longrightarrow> gated_run G m) \<Longrightarrow> (\<And>x. z = Some x \<Longrightarrow> gated_run G (f x))
     \<Longrightarrow> gated_run G (case z of None \<Rightarrow> m | Some x \<Rightarrow> f x)"
  by (cases z) auto

lemma gated_run_case_prod: "(\<And>x y. z = (x, y) \<Longrightarrow> gated_run G (f x y)) \<Longrightarrow> gated_run G (case z of (x, y) \<Rightarrow> f x y)"
  by (cases z) auto

lemma gated_run_returnM: "gated_run G (returnM x)"
  by (rule gated_run_quiet) (rule within_intro)

lemma gated_run_raiseM: "gated_run G (raiseM e)"
  by (rule gated_run_quiet) (rule within_intro)

lemmas gated_rules = gated_run_bind gated_run_if gated_run_case_sum gated_run_case_option gated_run_case_prod
  gated_run_returnM gated_run_raiseM

text \<open>
  The condition at the gate: the verdict owns the event's generation, the clock is before
  both deadlines, the target is in scope, and the body is the event's resource.
\<close>

definition may_create :: "generator_config \<Rightarrow> target_event \<Rightarrow> json \<Rightarrow> time \<Rightarrow> raw_verdict \<Rightarrow> bool" where
  "may_create cfg ev body t v \<longleftrightarrow>
     owns (rv_fields v) (generation (te_target ev))
     \<and> t < deadline_at (te_scan ev) \<and> t < not_after (te_scan ev)
     \<and> account_allowed cfg (scope_id (te_target ev)) \<and> target_allowed cfg (public_address (te_target ev))
     \<and> build_scanner_resource ev (namespace cfg) (api_group cfg) (api_version cfg) = Inr body"

lemma gated_recheck:
  assumes "\<And>v t. owns (rv_fields v) (generation (te_target ev)) \<Longrightarrow> t < deadline_at (te_scan ev)
      \<Longrightarrow> t < not_after (te_scan ev) \<Longrightarrow> G resource t v"
  shows "gated_run G (recheck_and_dispatch E ev c resource n hs)"
  unfolding gated_run_def
proof (intro allI impI)
  fix w r w' assume run: "recheck_and_dispatch E ev c resource n hs w = (r, w')"
  obtain q w1 where m: "tryX (revalidate_event E (generation (te_target ev))) w = (q, w1)" by force
  show "\<exists>xs. w_trace w' = w_trace w @ xs \<and> gated G xs"
  proof (cases "\<exists>check. q = Inr (Inr check) \<and> oc_decision check = DISPATCH")
    case True
    then obtain check where q: "q = Inr (Inr check)" and d: "oc_decision check = DISPATCH" by blast
    from m q obtain v where v: "check = classify_verdict v (generation (te_target ev))"
      and t1: "w_trace w1 = w_trace w @ [Ownership_request (Some v)]"
      by (auto simp: tryX_Inr revalidate_event_def bindM_Inr returnM_Inr ask_ownership_def answered_def Let_def
          split: option.splits if_splits)
    from run m q d have rest: "dispatch_checked E ev c check resource n hs w1 = (r, w')"
      by (simp add: recheck_and_dispatch_def bindM_def)
    obtain tq w2 where clock: "read_clock E w1 = (tq, w2)" by force
    then have t2: "w_trace w2 = w_trace w1 @ [Clock_reading (env_clock E (tick w1))]"
      by (auto simp: read_clock_def answered_def Let_def)
    let ?t = "env_clock E (tick w1)"
    show ?thesis
    proof (cases "tq = Inr ?t \<and> ?t < deadline_at (te_scan ev) \<and> ?t < not_after (te_scan ev)")
      case True
      with rest clock have "create_and_complete E ev c check resource n hs w2 = (r, w')"
        by (simp add: dispatch_checked_def bindM_def)
      with opens_create_and_complete [of resource E ev c check n hs] obtain xs where
        xs: "w_trace w' = w_trace w2 @ Create_request resource # xs" "list_all not_create xs"
        unfolding opens_def by blast
      let ?xs = "[Ownership_request (Some v), Clock_reading ?t, Create_request resource] @ xs"
      have "owns (rv_fields v) (generation (te_target ev))" using d v dispatch_iff_owns by simp
      with assms True have "G resource ?t v" by blast
      with xs(2) have "gated G ?xs" by (rule gated_creation)
      moreover have "w_trace w' = w_trace w @ ?xs" using t1 t2 xs(1) by simp
      ultimately show ?thesis by blast
    next
      case False
      have "tq = Inr ?t \<or> tq = Inl Killed"
        using clock by (auto simp: read_clock_def answered_def Let_def)
      with False rest clock have "w' = w2 \<or> finish_expired E ev c check n hs w2 = (r, w')"
        by (auto simp: dispatch_checked_def bindM_def)
      then obtain xs where "w_trace w' = w_trace w2 @ xs" "list_all not_create xs"
        using withinD [OF quiet_finish_expired] by fastforce
      with t1 t2 gated_quiet [of "[Ownership_request (Some v), Clock_reading ?t] @ xs"] show ?thesis by simp
    qed
  next
    case False
    define f where "f = (\<lambda>r :: gen_error + ownership_check. case r of
       Inl _ \<Rightarrow> retry_and_raise E c ''ownership_recheck_failed'' None
     | Inr check \<Rightarrow>
         (case oc_decision check of
            RETRY \<Rightarrow> retry_and_raise E c ''ownership_unknown'' (Some (oc_verdict check))
          | STALE \<Rightarrow> finish_terminal E (Work ev) c check STALE_ST n ''audit_finalize_failed'' ''stale'' hs
          | CANCEL \<Rightarrow> finish_terminal E (Work ev) c check CANCELLED_ST n ''audit_finalize_failed'' ''cancelled'' hs
          | DISPATCH \<Rightarrow> dispatch_checked E ev c check resource n hs))"
    have whole: "bindM (tryX (revalidate_event E (generation (te_target ev)))) f w = (r, w')"
      using run by (simp add: recheck_and_dispatch_def f_def)
    obtain ys where ys: "w_trace w1 = w_trace w @ ys" "list_all not_create ys"
      using withinD [OF within_tryX [OF quiet_revalidate] m] by blast
    have quiet: "within not_create (f x)" if "q = Inr x" for x
      using False that by (auto simp: f_def split: sum.splits ownership_decision.splits
          intro: quiet_retry quiet_finish_terminal)
    have "\<exists>zs. w_trace w' = w_trace w1 @ zs \<and> list_all not_create zs"
    proof (cases q)
      case (Inl e)
      with whole m show ?thesis by (auto simp: bindM_def)
    next
      case (Inr x)
      with whole m have "f x w1 = (r, w')" by (simp add: bindM_def)
      then show ?thesis by (rule withinD [OF quiet [OF Inr]])
    qed
    then obtain zs where "w_trace w' = w_trace w1 @ zs" "list_all not_create zs" by blast
    with ys gated_quiet [of "ys @ zs"] show ?thesis by simp
  qed
qed

lemma gated_dispatch_work:
  assumes "account_allowed cfg (scope_id (te_target ev))" "target_allowed cfg (public_address (te_target ev))"
  shows "gated_run (may_create cfg ev) (dispatch_work E cfg ev c check hs)"
  unfolding dispatch_work_def
proof (rule gated_run_bind)
  show "within not_create (tryX (bindM (cancel E (Work ev) None []) (\<lambda>cx.
      bindM (liftM (build_scanner_resource ev (namespace cfg) (api_group cfg) (api_version cfg)))
        (\<lambda>resource. returnM (cx_deleted cx, resource)))))"
    by (intro within_intro quiet_cancel)
  fix w r w'
  assume "tryX (bindM (cancel E (Work ev) None []) (\<lambda>cx.
      bindM (liftM (build_scanner_resource ev (namespace cfg) (api_group cfg) (api_version cfg)))
        (\<lambda>resource. returnM (cx_deleted cx, resource)))) w = (Inr r, w')"
  then have built: "\<forall>n res. r = Inr (n, res)
      \<longrightarrow> build_scanner_resource ev (namespace cfg) (api_group cfg) (api_version cfg) = Inr res"
    by (auto simp: tryX_Inr bindM_Inr liftM_Inr returnM_Inr)
  show "gated_run (may_create cfg ev) (case r of
       Inl _ \<Rightarrow> retry_and_raise E c ''dispatch_failed'' (Some (oc_verdict check))
     | Inr (deleted, resource) \<Rightarrow> recheck_and_dispatch E ev c resource deleted hs)"
  proof (cases r)
    case (Inl e)
    then show ?thesis by (simp add: gated_run_quiet quiet_retry)
  next
    case (Inr nr)
    obtain n res where nr: "nr = (n, res)" by (cases nr)
    have "gated_run (may_create cfg ev) (recheck_and_dispatch E ev c res n hs)"
      using built Inr nr assms by (intro gated_recheck) (simp add: may_create_def)
    with Inr nr show ?thesis by simp
  qed
qed

text \<open>Only the dispatch of a work event can create; everything else is quiet.\<close>

lemma gated_process_claimed:
  assumes "account_allowed cfg (scope_id (payload_target p))"
    and "target_allowed cfg (public_address (payload_target p))"
  shows "gated_run (\<lambda>b t v. \<exists>ev. p = Work ev \<and> may_create cfg ev b t v) (process_claimed E cfg p c hs)"
  unfolding process_claimed_def
proof (rule gated_run_bind)
  show "within not_create (tryX (revalidate_event E (generation (payload_target p))))"
    by (intro within_tryX quiet_revalidate)
  fix w r w'
  define G where "G = (\<lambda>b t v. \<exists>ev. p = Work ev \<and> may_create cfg ev b t v)"
  have quiet: "gated_run G (retry_and_raise E c ec v)" "gated_run G (finish_terminal E p' c check st n ec out hs)"
    for ec v p' check st n out
    by (intro gated_run_quiet quiet_retry quiet_finish_terminal)+
  have work: "gated_run G (dispatch_work E cfg ev c check hs)" if "p = Work ev" for ev check
    using gated_dispatch_work [of cfg ev E c check hs] assms that by (simp add: payload_target_def G_def)
  show "gated_run (\<lambda>b t v. \<exists>ev. p = Work ev \<and> may_create cfg ev b t v) (case r of
       Inl _ \<Rightarrow> retry_and_raise E c ''ownership_check_failed'' None
     | Inr check \<Rightarrow>
         if oc_decision check = RETRY
         then retry_and_raise E c ''ownership_unknown'' (Some (oc_verdict check))
         else if is_removal p
         then finish_terminal E p c check REMOVED_ST 0 ''removal_failed'' ''removed'' hs
         else (case oc_decision check of
             STALE \<Rightarrow> finish_terminal E p c check STALE_ST 0 ''audit_finalize_failed'' ''stale'' hs
           | CANCEL \<Rightarrow> finish_terminal E p c check CANCELLED_ST 0 ''cancellation_failed'' ''cancelled'' hs
           | _ \<Rightarrow> (case p of
                     Work ev \<Rightarrow> dispatch_work E cfg ev c check hs
                   | Removal _ \<Rightarrow> raiseM (Value_fault ''scan''))))"
    unfolding G_def [symmetric]
    by (intro gated_rules quiet)
      (auto split: ownership_decision.splits target_payload.split intro: quiet work gated_run_raiseM)
qed

lemma gated_process_event:
  "gated_run (\<lambda>b t v. \<exists>ev. p = Work ev \<and> may_create (gs_config svc) ev b t v) (process_event E svc p)"
  unfolding process_event_def target_scope_def Let_def prod.case
  by (intro gated_rules gated_process_claimed within_intro within_read_clock quiet_claims) auto

text \<open>
  What the handler may delete from the cluster, and what it does with an event whose claim
  is finished.
\<close>

section \<open>Deletions\<close>

text \<open>A check that withdraws the event's own generation.\<close>

definition withdrawn :: "ownership_check \<Rightarrow> bool" where
  "withdrawn check \<longleftrightarrow> oc_decision check = CANCEL
     \<or> oc_decision check = STALE \<and> oc_reason check = Some ''policy-or-lifecycle''"

text \<open>
  A Scanner that the handler may delete: the event's own, or one that the API listed for the
  target, labelled with the target's hash, whose generation is superseded by the event or by
  a verdict of the inventory.
\<close>

definition superseded :: "environment \<Rightarrow> int \<Rightarrow> int \<Rightarrow> bool" where
  "superseded E requested g \<longleftrightarrow> g < requested \<or>
     (\<exists>n v. env_verdict E n = Some v \<and>
        (let check = classify_verdict v requested in
           withdrawn check \<and> g \<le> requested
           \<or> oc_decision check = STALE \<and> (\<exists>c. oc_current_generation check = Some c \<and> g < c)))"

definition may_delete :: "environment \<Rightarrow> target_payload \<Rightarrow> string \<Rightarrow> bool" where
  "may_delete E p name \<longleftrightarrow> scanner_name (payload_event_id p) = Inr name \<or>
     (\<exists>h r g. target_hash (target_id (payload_target p)) = Inr h \<and> listed E h r
        \<and> vfield (vfield (vfield r ''metadata'') ''labels'') TARGET_HASH_LABEL = JStr h
        \<and> vfield (vfield r ''metadata'') ''name'' = JStr name
        \<and> resource_generation r = Inr g \<and> superseded E (generation (payload_target p)) g)"

definition deletes_ok :: "environment \<Rightarrow> target_payload \<Rightarrow> interaction \<Rightarrow> bool" where
  "deletes_ok E p i = (case i of Delete_request name \<Rightarrow> may_delete E p name | _ \<Rightarrow> True)"

lemma deletes_ok_simps [simp]:
  "deletes_ok E p (Claim_request k)" "deletes_ok E p (Object_request q)" "deletes_ok E p (Ownership_request v)"
  "deletes_ok E p (Clock_reading t)" "deletes_ok E p (Create_request b)" "deletes_ok E p (Get_request n)"
  "deletes_ok E p (List_request h c)" "deletes_ok E p (Delete_request name) = may_delete E p name"
  by (simp_all add: deletes_ok_def)

lemma claim_deletes_ok: "is_claim_request i \<Longrightarrow> deletes_ok E p i"
  by (cases i) auto

lemmas deletes_claims =
  within_acquire [THEN within_mono [OF _ claim_deletes_ok]]
  within_complete [THEN within_mono [OF _ claim_deletes_ok]]
  within_mark_retryable [THEN within_mono [OF _ claim_deletes_ok]]

lemma deletes_cancel_matching:
  assumes "\<And>g. matches g \<Longrightarrow> superseded E (generation (payload_target p)) g"
  shows "within (deletes_ok E p) (cancel_matching_scanners E (target_id (payload_target p)) matches ex)"
proof (rule within_cancel_matching)
  fix h name
  assume "target_hash (target_id (payload_target p)) = Inr h" "deletable E h matches ex name"
  with assms show "deletes_ok E p (Delete_request name)"
    unfolding deletable_def candidate_Some deletes_ok_simps may_delete_def by blast
qed simp

lemma deletes_cancel_event: "within (deletes_ok E p) (cancel_event_scanner E (payload_event_id p))"
  unfolding cancel_event_scanner_def
  by (intro within_bind_lift within_delete_scanner) (simp add: may_delete_def)

text \<open>A check that came from a verdict of this environment.\<close>

definition genuine :: "environment \<Rightarrow> int \<Rightarrow> ownership_check \<Rightarrow> bool" where
  "genuine E g check \<longleftrightarrow> (\<exists>n v. env_verdict E n = Some v \<and> check = classify_verdict v g)"

lemma revalidate_genuine: "revalidate_event E g w = (Inr check, w') \<Longrightarrow> genuine E g check"
  by (auto simp: revalidate_event_def bindM_Inr returnM_Inr genuine_def ask_ownership_def answered_def Let_def
      split: option.splits if_splits)

lemma deletes_cancel:
  "(case a of None \<Rightarrow> True | Some g \<Rightarrow> \<forall>g'. g' < g \<longrightarrow> superseded E (generation (payload_target p)) g')
     \<Longrightarrow> within (deletes_ok E p) (cancel E p a ex)"
  unfolding cancel_def cancel_older_scanners_def
  by (intro within_intro deletes_cancel_matching) (auto simp: superseded_def split: option.splits if_splits)

lemma accepted_superseded:
  "genuine E (generation (payload_target p)) check \<Longrightarrow> g < accepted_generation p check
     \<Longrightarrow> superseded E (generation (payload_target p)) g"
  unfolding genuine_def accepted_generation_def superseded_def Let_def
  by (fastforce split: option.splits if_splits)

lemma deletes_cancel_terminal:
  assumes "genuine E (generation (payload_target p)) check"
  shows "within (deletes_ok E p) (cancel_terminal E p check)"
proof -
  have "superseded E (generation (payload_target p)) g" if "withdrawn check" "g \<le> generation (payload_target p)" for g
    using assms that unfolding genuine_def superseded_def Let_def by blast
  then show ?thesis
    unfolding cancel_terminal_def cancel_scanners_through_generation_def withdrawn_def [symmetric]
    using accepted_superseded [OF assms]
    by (intro within_intro deletes_cancel deletes_cancel_event deletes_cancel_matching) auto
qed

lemma deletes_complete_claim: "within (deletes_ok E p) (complete_claim E c st check sc n)"
  unfolding complete_claim_def by (intro within_intro within_api deletes_claims) simp

lemma deletes_retry: "within (deletes_ok E p) (retry_and_raise E c ec v)"
  unfolding retry_and_raise_def retry_claim_def by (intro within_intro within_api deletes_claims) simp

lemma deletes_finish_terminal:
  "genuine E (generation (payload_target p)) check
     \<Longrightarrow> within (deletes_ok E p) (finish_terminal E p c check st n ec out hs)"
  unfolding finish_terminal_def
  by (intro within_intro deletes_cancel_terminal deletes_complete_claim deletes_retry)

lemma deletes_dispatch_checked: "within (deletes_ok E (Work ev)) (dispatch_checked E ev c check b n hs)"
proof -
  have "within (deletes_ok E (Work ev)) (cancel_event_scanner E (te_event_id ev))"
    using deletes_cancel_event [of E "Work ev"] by (simp add: payload_event_id_def)
  then show ?thesis
    unfolding dispatch_checked_def finish_expired_def create_and_complete_def create_scanner_def get_scanner_def
      Let_def
    by (intro within_intro within_api deletes_complete_claim deletes_retry) simp_all
qed

lemma deletes_revalidated:
  assumes "\<And>e. within (deletes_ok E p) (f (Inl e))"
    and "\<And>check. genuine E g check \<Longrightarrow> within (deletes_ok E p) (f (Inr check))"
  shows "within (deletes_ok E p) (bindM (tryX (revalidate_event E g)) f)"
proof (rule within_bind_returns [where Q = "\<lambda>r. \<forall>check. r = Inr check \<longrightarrow> genuine E g check"])
  show "within (deletes_ok E p) (tryX (revalidate_event E g))"
    by (intro within_tryX within_revalidate) simp
  show "\<forall>check. r = Inr check \<longrightarrow> genuine E g check" if "tryX (revalidate_event E g) w = (Inr r, w')" for w r w'
    using that by (auto simp: tryX_Inr dest: revalidate_genuine)
  show "within (deletes_ok E p) (f r)" if "\<forall>check. r = Inr check \<longrightarrow> genuine E g check" for r
    using that assms by (cases r) auto
qed

lemma deletes_recheck: "within (deletes_ok E (Work ev)) (recheck_and_dispatch E ev c b n hs)"
  unfolding recheck_and_dispatch_def
  by (rule deletes_revalidated)
    (auto split: ownership_decision.splits simp: payload_target_def
      intro: deletes_retry deletes_finish_terminal deletes_dispatch_checked)

lemma deletes_dispatch_work: "within (deletes_ok E (Work ev)) (dispatch_work E cfg ev c check hs)"
  unfolding dispatch_work_def
  by (intro within_intro deletes_cancel deletes_retry deletes_recheck) simp

lemma deletes_process_claimed: "within (deletes_ok E p) (process_claimed E cfg p c hs)"
  unfolding process_claimed_def
  by (rule deletes_revalidated)
    (auto split: ownership_decision.splits target_payload.split
      intro: deletes_retry deletes_finish_terminal deletes_dispatch_work within_intro)

lemma deletes_process_event: "within (deletes_ok E p) (process_event E svc p)"
  unfolding process_event_def Let_def
  by (intro within_intro within_api deletes_claims deletes_process_claimed) simp

section \<open>Finished events\<close>

fun is_clock_reading :: "interaction \<Rightarrow> bool" where
  "is_clock_reading (Clock_reading t) = True"
| "is_clock_reading _ = False"

definition only_looks :: "interaction \<Rightarrow> bool" where
  "only_looks i \<longleftrightarrow> is_claim_request i \<or> is_clock_reading i"

lemma finished_acquire_step:
  assumes "rely (gs_store svc) E" "tbl_get (w_claims w) (claim_key (payload_event_id p)) = Some it" "finished it"
    and run: "bindM (tryX (bindM (liftM (claim_query_of p)) (\<lambda>q. acquire E (gs_store svc) q now))) f w = (r, w')"
    and f: "\<And>e. f (Inl e) = raiseM (Retryable_record ''claim_acquire_failed'' None)"
      "\<And>res. cr_disposition res = DUPLICATE \<Longrightarrow> f (Inr res) = returnM out"
  shows "(\<exists>xs. w_trace w' = w_trace w @ xs \<and> list_all only_looks xs) \<and> (r = Inr out \<or> (\<exists>e. r = Inl e))"
proof -
  let ?m = "bindM (liftM (claim_query_of p)) (\<lambda>q. acquire E (gs_store svc) q now)"
  obtain q w1 where m: "tryX ?m w = (q, w1)" by force
  have "within is_claim_request (tryX ?m)" by (intro within_intro within_acquire)
  from withinD [OF this m] obtain xs where xs: "w_trace w1 = w_trace w @ xs" "list_all only_looks xs"
    by (auto simp: list_all_iff only_looks_def)
  show ?thesis
  proof (cases q)
    case (Inl e)
    with run m xs show ?thesis by (auto simp: bindM_def)
  next
    case (Inr o')
    with run m have rest: "f o' w1 = (r, w')" by (simp add: bindM_def)
    show ?thesis
    proof (cases o')
      case (Inl e)
      with rest f(1) xs show ?thesis by (auto simp: raiseM_def)
    next
      case (Inr res)
      with \<open>q = Inr o'\<close> m obtain cq where "claim_query_of p = Inr cq"
        and a: "acquire E (gs_store svc) cq now w = (Inr res, w1)"
        by (auto simp: tryX_Inr bindM_Inr liftM_Inr)
      then have "cq_event_id cq = payload_event_id p" by (auto simp: claim_query_of_def bindR_Inr)
      with acquire_finished [OF assms(1) _ assms(3) a] assms(2) have "cr_disposition res = DUPLICATE" by simp
      with rest Inr f(2) xs show ?thesis by (auto simp: returnM_def)
    qed
  qed
qed

lemma process_event_finished:
  assumes "rely (gs_store svc) E" "tbl_get (w_claims w) (claim_key (payload_event_id p)) = Some it" "finished it"
    and run: "process_event E svc p w = (r, w')"
  shows "(\<exists>xs. w_trace w' = w_trace w @ xs \<and> list_all only_looks xs)
    \<and> (case r of Inl _ \<Rightarrow> True | Inr out \<Rightarrow> ro_outcome out \<in> {''duplicate'', ''scope_denied''})"
proof (cases "event_hashes p")
  case (Inl e)
  with run show ?thesis by (auto simp: process_event_def bindM_def liftM_def)
next
  case (Inr hs)
  obtain h1 h2 h3 where hs: "event_hashes p = Inr (h1, h2, h3)" using Inr by (cases hs) auto
  obtain q w1 where clock: "read_clock E w = (q, w1)" by force
  then have w1: "w_trace w1 = w_trace w @ [Clock_reading (env_clock E (tick w))]"
    and q: "q = Inr (env_clock E (tick w)) \<or> q = Inl Killed"
    by (auto simp: read_clock_def answered_def Let_def)
  have item: "tbl_get (w_claims w1) (claim_key (payload_event_id p)) = Some it"
    using alwaysD [OF advances_api(1) [OF assms(1)] clock] assms(2,3)
    unfolding advances_def by (rule claim_run_finished)
  from q show ?thesis
  proof
    assume "q = Inl Killed"
    with run hs clock w1 show ?thesis
      by (auto simp: process_event_def bindM_def liftM_def only_looks_def)
  next
    assume now: "q = Inr (env_clock E (tick w))"
    show ?thesis
    proof (cases "\<not> account_allowed (gs_config svc) (scope_id (payload_target p))
        \<or> \<not> target_allowed (gs_config svc) (public_address (payload_target p))")
      case True
      with run hs clock w1 now show ?thesis
        by (auto simp: process_event_def target_scope_def bindM_def liftM_def returnM_def only_looks_def)
    next
      case False
      define f where "f = (\<lambda>r :: gen_error + claim_result. case r of
         Inl _ \<Rightarrow> raiseM (Retryable_record ''claim_acquire_failed'' None)
       | Inr res \<Rightarrow>
           if cr_disposition res = DUPLICATE
           then returnM \<lparr>ro_outcome = ''duplicate'', ro_event_hash = h1, ro_trace_hash = h2,
                         ro_verdict = None, ro_cancelled = 0\<rparr>
           else if cr_disposition res = BUSY then raiseM (Retryable_record ''claim_busy'' None)
           else case cr_claim res of
             None \<Rightarrow> raiseM (Retryable_record ''claim_missing'' None)
           | Some claim \<Rightarrow> process_claimed E (gs_config svc) p claim (h1, h2))"
      from False run hs clock now have
        rest: "bindM (tryX (bindM (liftM (claim_query_of p)) (\<lambda>q. acquire E (gs_store svc) q (env_clock E (tick w))))) f w1 = (r, w')"
        by (simp add: process_event_def target_scope_def liftM_def f_def bindM_eval(1))
      from finished_acquire_step [OF assms(1) item assms(3) rest,
          of "\<lparr>ro_outcome = ''duplicate'', ro_event_hash = h1, ro_trace_hash = h2, ro_verdict = None, ro_cancelled = 0\<rparr>"]
      show ?thesis using w1 by (auto simp: f_def only_looks_def)
    qed
  qed
qed

end
