(* ===== verification/Unicode_Text.thy ===== *)
theory Unicode_Text
  imports Sha256 Effects
begin

text \<open>
  \<^verbatim>\<open>bytes.decode("utf-8")\<close> with strict errors, and \<^verbatim>\<open>urllib.parse.unquote_plus\<close>. The text of
  the model ends at code point 255: a well-formed sequence beyond it has its own outcome.
\<close>

datatype text_error = Bad_utf8 | Beyond_text

definition is_continuation :: "nat \<Rightarrow> bool" where
  "is_continuation b \<longleftrightarrow> 128 \<le> b \<and> b \<le> 191"

text \<open>The second byte of a sequence of three or four, by its first byte.\<close>

definition second_ok :: "nat \<Rightarrow> nat \<Rightarrow> bool" where
  "second_ok a b \<longleftrightarrow>
     (if a = 224 then 160 \<le> b \<and> b \<le> 191
      else if a = 237 then 128 \<le> b \<and> b \<le> 159
      else if a = 240 then 144 \<le> b \<and> b \<le> 191
      else if a = 244 then 128 \<le> b \<and> b \<le> 143
      else is_continuation b)"

definition cons_text :: "char \<Rightarrow> text_error + string \<Rightarrow> text_error + string" where
  "cons_text c r = (case r of Inl e \<Rightarrow> Inl e | Inr s \<Rightarrow> Inr (c # s))"

text \<open>A well-formed sequence beyond the modelled text; an ill-formed one after it still counts.\<close>

definition beyond :: "text_error + string \<Rightarrow> text_error + string" where
  "beyond r = (case r of Inl e \<Rightarrow> Inl e | Inr s \<Rightarrow> Inl Beyond_text)"

fun utf8_decode :: "nat list \<Rightarrow> text_error + string" where
  "utf8_decode [] = Inr []"
| "utf8_decode (a # bs) =
     (if a < 128 then cons_text (char_of a) (utf8_decode bs)
      else if 194 \<le> a \<and> a \<le> 223 then
        (case bs of
           b # rest \<Rightarrow>
             if \<not> is_continuation b then Inl Bad_utf8
             else if a \<le> 195 then cons_text (char_of (64 * (a - 192) + (b - 128))) (utf8_decode rest)
             else beyond (utf8_decode rest)
         | [] \<Rightarrow> Inl Bad_utf8)
      else if 224 \<le> a \<and> a \<le> 239 then
        (case bs of
           b # c # rest \<Rightarrow>
             if second_ok a b \<and> is_continuation c then beyond (utf8_decode rest) else Inl Bad_utf8
         | _ \<Rightarrow> Inl Bad_utf8)
      else if 240 \<le> a \<and> a \<le> 244 then
        (case bs of
           b # c # d # rest \<Rightarrow>
             if second_ok a b \<and> is_continuation c \<and> is_continuation d
             then beyond (utf8_decode rest) else Inl Bad_utf8
         | _ \<Rightarrow> Inl Bad_utf8)
      else Inl Bad_utf8)"

lemma utf8_decode_char: "utf8_decode (utf8_char c @ bs) = cons_text c (utf8_decode bs)"
proof (cases "code c < 128")
  case True
  then show ?thesis by (simp add: utf8_char_def) (simp add: code_def)
next
  case False
  let ?n = "code c"
  have n: "?n < 256" by (simp add: code_def)
  have a: "192 + ?n div 64 \<in> {194, 195}" using False n by auto
  have "64 * (192 + ?n div 64 - 192) + (128 + ?n mod 64 - 128) = ?n" by simp
  moreover have "?n mod 64 < 64" by simp
  ultimately show ?thesis
    using False a by (auto simp: utf8_char_def is_continuation_def) (simp_all add: code_def)
qed

lemma utf8_decode_utf8 [simp]: "utf8_decode (utf8 s) = Inr s"
  by (induction s) (simp_all add: utf8_def utf8_decode_char cons_text_def)

section \<open>Percent encoding\<close>

fun hex_digit_val :: "char \<Rightarrow> nat" where
  "hex_digit_val c = (if is_digit c then code c - 48 else if is_lower c then code c - 87 else code c - 55)"

text \<open>\<^verbatim>\<open>re.search("%(?![0-9A-Fa-f]{2})", s)\<close>\<close>

fun bad_percent :: "string \<Rightarrow> bool" where
  "bad_percent [] = False"
| "bad_percent (c # cs) =
     ((c = CHR ''%'' \<and> \<not> (case cs of a # b # _ \<Rightarrow> is_hex a \<and> is_hex b | _ \<Rightarrow> False)) \<or> bad_percent cs)"

text \<open>\<^verbatim>\<open>unquote_to_bytes\<close> on ASCII text; an incomplete escape stays as it is.\<close>

fun unquote_to_bytes :: "string \<Rightarrow> nat list" where
  "unquote_to_bytes [] = []"
| "unquote_to_bytes (c # cs) =
     (if c = CHR ''%'' then
        (case cs of
           a # b # rest \<Rightarrow>
             if is_hex a \<and> is_hex b then (16 * hex_digit_val a + hex_digit_val b) # unquote_to_bytes rest
             else code c # unquote_to_bytes cs
         | _ \<Rightarrow> code c # unquote_to_bytes cs)
      else code c # unquote_to_bytes cs)"

definition is_ascii :: "char \<Rightarrow> bool" where
  "is_ascii c \<longleftrightarrow> code c < 128"

text \<open>\<^verbatim>\<open>unquote\<close>: the ASCII runs are decoded, the rest is kept.\<close>

function unquote :: "string \<Rightarrow> text_error + string" where
  "unquote s =
     (if s = [] then Inr []
      else bindR (utf8_decode (unquote_to_bytes (takeWhile is_ascii s))) (\<lambda>t.
        let rest = dropWhile is_ascii s in
        bindR (case rest of [] \<Rightarrow> Inr [] | c # cs \<Rightarrow> map_sum id (\<lambda>u. c # u) (unquote cs)) (\<lambda>u. Inr (t @ u))))"
  by pat_completeness auto
termination
proof (relation "measure length", simp)
  fix s t rest c cs assume "s \<noteq> ([] :: string)" "rest = dropWhile is_ascii s" "rest = c # cs"
  then have "length (c # cs) \<le> length s" by (metis length_dropWhile_le)
  then show "(cs, s) \<in> measure length" by simp
qed

declare unquote.simps [simp del]

definition unquote_plus :: "string \<Rightarrow> text_error + string" where
  "unquote_plus s = unquote (map (\<lambda>c. if c = CHR ''+'' then CHR '' '' else c) s)"

text \<open>\<^verbatim>\<open>quote_plus(s, safe="")\<close>: the bytes of the text, escaped unless they are unreserved; a space is a plus.\<close>

definition is_unreserved :: "char \<Rightarrow> bool" where
  "is_unreserved c \<longleftrightarrow> is_digit c \<or> is_lower c \<or> is_upper c \<or> c \<in> set ''_.-~''"

definition upper_hex :: "nat \<Rightarrow> char" where
  "upper_hex d = (if d < 10 then char_of (48 + d) else char_of (55 + d))"

definition quote_byte :: "nat \<Rightarrow> string" where
  "quote_byte b =
     (if b < 128 \<and> is_unreserved (char_of b) then [char_of b]
      else if b = 32 then ''+'' else [CHR ''%'', upper_hex (b div 16), upper_hex (b mod 16)])"

definition quote_plus :: "string \<Rightarrow> string" where
  "quote_plus s = concat (map quote_byte (utf8 s))"

definition hex_digit_ok :: "nat \<Rightarrow> bool" where
  "hex_digit_ok d \<longleftrightarrow> is_hex (upper_hex d) \<and> hex_digit_val (upper_hex d) = d \<and> is_ascii (upper_hex d)
    \<and> upper_hex d \<noteq> CHR ''%'' \<and> upper_hex d \<noteq> CHR ''+''"

lemma upper_hex_ok: "d < 16 \<Longrightarrow> hex_digit_ok d"
proof -
  have "list_all hex_digit_ok [0..<16]" by code_simp
  then have all: "\<forall>d \<in> set [0..<16]. hex_digit_ok d" unfolding list_all_iff .
  assume "d < 16"
  then have "d \<in> set [0..<16]" unfolding set_upt by simp
  with all show ?thesis by (rule bspec)
qed

lemmas upper_hex = upper_hex_ok [unfolded hex_digit_ok_def]

lemma utf8_bytes: "b \<in> set (utf8 s) \<Longrightarrow> b < 256"
proof -
  have "b < 256" if "b \<in> set (utf8_char c)" for c
  proof -
    have "code c < 256" by (simp add: code_def)
    then show ?thesis using that by (auto simp: utf8_char_def split: if_splits)
  qed
  then show "b \<in> set (utf8 s) \<Longrightarrow> b < 256" by (auto simp: utf8_def)
qed

text \<open>The two directions of percent encoding.\<close>

definition plus_to_space :: "string \<Rightarrow> string" where
  "plus_to_space s = map (\<lambda>c. if c = CHR ''+'' then CHR '' '' else c) s"

lemma quote_byte_ascii: "b < 256 \<Longrightarrow> c \<in> set (quote_byte b) \<Longrightarrow> is_ascii c"
  using upper_hex [of "b div 16"] upper_hex [of "b mod 16"]
  by (auto simp: quote_byte_def is_ascii_def code_def split: if_splits)

lemma code_char: "b < 128 \<Longrightarrow> code (char_of b) = b"
  by (simp add: code_def)

lemma unreserved_plain: "is_unreserved c \<Longrightarrow> c \<noteq> CHR ''%'' \<and> c \<noteq> CHR ''+''"
  by (auto simp: is_unreserved_def is_digit_def is_lower_def is_upper_def code_def)

lemma unquote_quote_byte:
  assumes "b < 256"
  shows "unquote_to_bytes (plus_to_space (quote_byte b) @ rest) = b # unquote_to_bytes rest"
proof -
  have "16 * (b div 16) + b mod 16 = b" by simp
  then show ?thesis
    using upper_hex [of "b div 16"] upper_hex [of "b mod 16"] assms unreserved_plain [of "char_of b"] code_char
    by (auto simp: quote_byte_def plus_to_space_def) (simp add: code_def)
qed

lemma unquote_quote:
  assumes "\<And>b. b \<in> set bs \<Longrightarrow> b < 256"
  shows "unquote_to_bytes (plus_to_space (concat (map quote_byte bs))) = bs"
  using assms unquote_quote_byte by (induction bs) (auto simp: plus_to_space_def)

lemma ascii_unquote: "list_all is_ascii s \<Longrightarrow> unquote s = utf8_decode (unquote_to_bytes s)"
proof -
  assume a: "list_all is_ascii s"
  have t: "takeWhile is_ascii s = s" and d: "dropWhile is_ascii s = []"
    using a by (simp_all add: list_all_iff)
  show ?thesis
    by (subst unquote.simps, unfold t d Let_def) (simp add: bindR_def split: sum.splits)
qed

theorem unquote_plus_quote_plus: "unquote_plus (quote_plus s) = Inr s"
proof -
  have "list_all is_ascii (plus_to_space (quote_plus s))"
    using quote_byte_ascii utf8_bytes
    by (fastforce simp: list_all_iff quote_plus_def plus_to_space_def is_ascii_def code_def)
  then have "unquote (plus_to_space (quote_plus s)) = utf8_decode (utf8 s)"
    using unquote_quote [of "utf8 s"] utf8_bytes by (simp add: ascii_unquote quote_plus_def)
  then show ?thesis by (simp add: unquote_plus_def plus_to_space_def)
qed

lemma quote_plus_percent: "\<not> bad_percent (quote_plus s)"
proof -
  have step: "bad_percent (quote_byte b @ t) = bad_percent t" if "b < 256" for b t
  proof -
    show ?thesis
      using unreserved_plain [of "char_of b"] upper_hex [of "b div 16"] upper_hex [of "b mod 16"] that by (auto simp: quote_byte_def)
  qed
  have "\<not> bad_percent (concat (map quote_byte bs))" if "\<And>b. b \<in> set bs \<Longrightarrow> b < 256" for bs
    using that by (induction bs) (auto simp: step)
  then show ?thesis using utf8_bytes by (simp add: quote_plus_def)
qed

end
