(* ===== verification/Generator_Reader.thy ===== *)
theory Generator_Reader
  imports Generator_Handler Unicode_Text
begin

text \<open>
  From an SQS record to a target event (\<^verbatim>\<open>generator/.../event_reader.py\<close>): the strict decoding
  of the notification, the immutable read of the S3 object, and its parsing; then the whole
  record and the Lambda batch (\<^verbatim>\<open>generator/.../handler.py\<close>).
\<close>

section \<open>Rejections\<close>

abbreviation invalid_envelope :: "string \<Rightarrow> gen_error" where
  "invalid_envelope m \<equiv> Record_rejection ''invalid_sqs_envelope'' m"

abbreviation unexpected_object :: "string \<Rightarrow> gen_error" where
  "unexpected_object m \<equiv> Record_rejection ''unexpected_s3_object'' m"

abbreviation mutable_object :: "string \<Rightarrow> gen_error" where
  "mutable_object m \<equiv> Record_rejection ''mutable_s3_object'' m"

abbreviation malformed_event :: "string \<Rightarrow> gen_error" where
  "malformed_event m \<equiv> Record_rejection ''malformed_target_event'' m"

record s3_reference =
  ref_bucket :: string
  ref_key :: string
  ref_etag :: "string option"
  ref_version :: "string option"

section \<open>The notification\<close>

text \<open>\<^verbatim>\<open>_json_mapping\<close>\<close>

definition json_mapping :: "string \<Rightarrow> gen_error + json" where
  "json_mapping raw =
     (case loads dict_hook raw of
        Inl Decode_error \<Rightarrow> Inl (invalid_envelope ''message body is not valid JSON'')
      | Inl _ \<Rightarrow> Inl (Value_fault ''json'')
      | Inr v \<Rightarrow> if is_obj v then Inr v
                 else Inl (invalid_envelope ''message body must be a JSON object''))"

definition notification_payload :: "json \<Rightarrow> gen_error + json" where
  "notification_payload record =
     (if vfield record ''eventSource'' \<noteq> JStr ''aws:sqs'' then Inl (invalid_envelope ''record is not from SQS'')
      else case vfield record ''body'' of
        JStr body \<Rightarrow>
          if body = [] then Inl (invalid_envelope ''SQS record body is missing'')
          else bindR (json_mapping body) (\<lambda>payload.
            case obj_get ''Message'' payload of
              None \<Rightarrow> Inr payload
            | Some (JStr message) \<Rightarrow> json_mapping message
            | Some _ \<Rightarrow> Inl (invalid_envelope ''SNS Message must be a JSON string''))
      | _ \<Rightarrow> Inl (invalid_envelope ''SQS record body is missing''))"

definition sole_notification :: "json \<Rightarrow> gen_error + json" where
  "sole_notification payload =
     (case vfield payload ''Records'' of
        JArr [n] \<Rightarrow>
          if \<not> is_obj n then Inl (invalid_envelope ''S3 notification must be an object'')
          else if vfield n ''eventSource'' \<noteq> JStr ''aws:s3''
          then Inl (invalid_envelope ''nested record is not from S3'')
          else (case vfield n ''eventName'' of
              JStr name \<Rightarrow> if startswith name ''ObjectCreated:'' then Inr n
                           else Inl (invalid_envelope ''only S3 object creation events are accepted'')
            | _ \<Rightarrow> Inl (invalid_envelope ''only S3 object creation events are accepted''))
      | _ \<Rightarrow> Inl (invalid_envelope ''each SQS message must contain exactly one S3 notification''))"

text \<open>\<^verbatim>\<open>s3["bucket"]["name"]\<close> and \<^verbatim>\<open>s3["object"]\<close> with its key.\<close>

definition named_object :: "json \<Rightarrow> gen_error + string \<times> json \<times> string" where
  "named_object n =
     (case (json_at [''s3'', ''bucket'', ''name''] n, json_at [''s3'', ''object''] n,
            json_at [''s3'', ''object'', ''key''] n) of
        (Some b, Some obj, Some k) \<Rightarrow>
          (case (b, k) of
             (JStr bucket, JStr key) \<Rightarrow> Inr (bucket, obj, key)
           | _ \<Rightarrow> Inl (invalid_envelope ''S3 bucket and key must be strings''))
      | _ \<Rightarrow> Inl (invalid_envelope ''S3 notification is incomplete''))"

definition decoded_key :: "string \<Rightarrow> gen_error + string" where
  "decoded_key encoded =
     (if bad_percent encoded then Inl (invalid_envelope ''S3 key has invalid percent encoding'')
      else case unquote_plus encoded of
        Inl Bad_utf8 \<Rightarrow> Inl (invalid_envelope ''S3 key is not valid UTF-8'')
      | Inl Beyond_text \<Rightarrow> Inl (Value_fault ''text'')
      | Inr key \<Rightarrow> Inr key)"

definition has_newline :: "string \<Rightarrow> bool" where
  "has_newline s \<longleftrightarrow> CHR 0x0D \<in> set s \<or> CHR 0x0A \<in> set s"

text \<open>\<^verbatim>\<open>None\<close> or a string, else the given rejection; then stripped, non-empty, on one line.\<close>

definition optional_text :: "json \<Rightarrow> string \<Rightarrow> gen_error + string option" where
  "optional_text v message =
     (case v of JNull \<Rightarrow> Inr None | JStr s \<Rightarrow> Inr (Some s) | _ \<Rightarrow> Inl (invalid_envelope message))"

definition stripped :: "string option \<Rightarrow> string \<Rightarrow> gen_error + string option" where
  "stripped v message =
     (case v of
        None \<Rightarrow> Inr None
      | Some s \<Rightarrow> if py_strip s = [] \<or> has_newline (py_strip s) then Inl (invalid_envelope message)
                  else Inr (Some (py_strip s)))"

text \<open>\<^verbatim>\<open>decode_sqs_s3_record\<close>\<close>

definition decode_sqs_s3_record :: "generator_config \<Rightarrow> json \<Rightarrow> gen_error + s3_reference" where
  "decode_sqs_s3_record cfg record =
     bindR (notification_payload record) (\<lambda>payload.
     bindR (sole_notification payload) (\<lambda>n.
     bindR (named_object n) (\<lambda>(bucket, obj, encoded).
     bindR (decoded_key encoded) (\<lambda>key.
     bindR (ensure (\<not> (bucket \<noteq> event_bucket cfg \<or> \<not> startswith key (event_prefix cfg)))
              (unexpected_object ''S3 object is outside the configured source'')) (\<lambda>_.
     bindR (ensure (key \<noteq> event_prefix cfg)
              (unexpected_object ''S3 object key names only the configured prefix'')) (\<lambda>_.
     bindR (optional_text (if truthy (vfield obj ''eTag'') then vfield obj ''eTag'' else vfield obj ''etag'')
              ''S3 object ETag must be a string'') (\<lambda>etag0.
     bindR (optional_text (vfield obj ''versionId'') ''S3 object version ID must be a string'') (\<lambda>version0.
     let version1 = (case version0 of Some v \<Rightarrow> if py_lower v = ''null'' then None else Some v | None \<Rightarrow> None) in
     bindR (stripped etag0 ''S3 object ETag is invalid'') (\<lambda>etag.
     bindR (stripped version1 ''S3 object version ID is invalid'') (\<lambda>version.
     bindR (ensure (\<not> (etag = None \<and> version = None))
              (mutable_object ''S3 notification must identify an ETag or object version'')) (\<lambda>_.
     Inr \<lparr>ref_bucket = bucket, ref_key = key, ref_etag = etag, ref_version = version\<rparr>)))))))))))"

section \<open>The object\<close>

definition without_etag_quotes :: "string \<Rightarrow> string" where
  "without_etag_quotes s = strip_char (CHR 0x22) (py_strip s)"

text \<open>\<^verbatim>\<open>_load_json_document\<close>\<close>

definition load_json_document :: "nat list \<Rightarrow> gen_error + json" where
  "load_json_document content =
     (case utf8_decode content of
        Inl Bad_utf8 \<Rightarrow> Inl (malformed_event ''TargetEvent object is not UTF-8'')
      | Inl Beyond_text \<Rightarrow> Inl (Value_fault ''text'')
      | Inr s \<Rightarrow>
          (case loads unique_hook s of
             Inl Decode_error \<Rightarrow> Inl (malformed_event ''TargetEvent object is not valid JSON'')
           | Inl Duplicate_keys \<Rightarrow> Inl (malformed_event ''TargetEvent contains duplicate JSON keys'')
           | Inl _ \<Rightarrow> Inl (Value_fault ''json'')
           | Inr v \<Rightarrow> if is_obj v then Inr v
                      else Inl (malformed_event ''TargetEvent must be one JSON object'')))"

text \<open>\<^verbatim>\<open>parse_shared_contract\<close>, over the contract adapter.\<close>

definition parse_shared_contract :: "(json \<Rightarrow> contract_error + target_payload) \<Rightarrow> json \<Rightarrow> gen_error + target_payload" where
  "parse_shared_contract adapter document =
     (case adapter document of
        Inl _ \<Rightarrow> Inl (malformed_event ''TargetEvent failed shared contract validation'')
      | Inr p \<Rightarrow> Inr p)"

definition truthy_text :: "string option \<Rightarrow> bool" where
  "truthy_text v = (case v of None \<Rightarrow> False | Some s \<Rightarrow> s \<noteq> [])"

definition check_response :: "generator_config \<Rightarrow> s3_reference \<Rightarrow> s3_response \<Rightarrow> gen_error + unit" where
  "check_response cfg ref rs =
     bindR (case rs_length rs of
              No_length \<Rightarrow> Inr ()
            | Bad_length \<Rightarrow> Inl (Runtime_error ''S3 returned an invalid ContentLength'')
            | Length n \<Rightarrow> ensure (\<not> n > max_event_bytes cfg) (malformed_event ''TargetEvent object is too large'')) (\<lambda>_.
     bindR (case (ref_etag ref, rs_etag rs) of
              (Some e, Some f) \<Rightarrow>
                ensure (\<not> (e \<noteq> [] \<and> f \<noteq> [] \<and> without_etag_quotes f \<noteq> without_etag_quotes e))
                  (mutable_object ''S3 object ETag changed before it was read'')
            | _ \<Rightarrow> Inr ()) (\<lambda>_.
     (case (ref_version ref, rs_version rs) of
        (Some v, Some x) \<Rightarrow>
          ensure (\<not> (v \<noteq> [] \<and> x \<noteq> [] \<and> x \<noteq> v))
            (mutable_object ''S3 object version changed before it was read'')
      | _ \<Rightarrow> Inr ())))"

text \<open>\<^verbatim>\<open>body.read(max_event_bytes + 1)\<close> and the checks on what it returned.\<close>

definition read_body :: "generator_config \<Rightarrow> s3_body \<Rightarrow> gen_error + nat list" where
  "read_body cfg body =
     (case body of
        No_body \<Rightarrow> Inl (Runtime_error ''S3 response body is missing'')
      | Body_fails \<Rightarrow> Inl (Service_error None)
      | Body_text \<Rightarrow> Inl (Runtime_error ''S3 response body did not return bytes'')
      | Body_bytes bs \<Rightarrow>
          (let content = take (nat (max_event_bytes cfg + 1)) bs in
           if int (length content) > max_event_bytes cfg
           then Inl (malformed_event ''TargetEvent object is too large'') else Inr content))"

definition fetch_target_event :: "environment \<Rightarrow> generator_services \<Rightarrow> s3_reference \<Rightarrow> target_payload gen" where
  "fetch_target_event E svc ref =
     bindM (tryX (api_object E
              \<lparr>rq_bucket = ref_bucket ref, rq_key = ref_key ref,
               rq_if_match = (if truthy_text (ref_etag ref) then ref_etag ref else None),
               rq_version = (if truthy_text (ref_version ref) then ref_version ref else None)\<rparr>)) (\<lambda>r.
     case r of
       Inl e \<Rightarrow>
         if e \<in> {Service_error (Some ''PreconditionFailed''), Service_error (Some ''412'')}
         then raiseM (mutable_object ''S3 object changed before its immutable read'') else raiseM e
     | Inr rs \<Rightarrow>
         bindM (liftM (check_response (gs_config svc) ref rs)) (\<lambda>_.
         bindM (liftM (read_body (gs_config svc) (rs_body rs))) (\<lambda>content.
         bindM (liftM (load_json_document content)) (\<lambda>document.
         liftM (parse_shared_contract (gs_parser svc) document)))))"

definition read_target_event :: "environment \<Rightarrow> generator_services \<Rightarrow> json \<Rightarrow> (s3_reference \<times> target_payload) gen" where
  "read_target_event E svc record =
     bindM (liftM (decode_sqs_s3_record (gs_config svc) record)) (\<lambda>ref.
     bindM (fetch_target_event E svc ref) (\<lambda>p. returnM (ref, p)))"

section \<open>The batch\<close>

definition process_sqs_record :: "environment \<Rightarrow> generator_services \<Rightarrow> json \<Rightarrow> record_outcome gen" where
  "process_sqs_record E svc record =
     bindM (read_target_event E svc record) (\<lambda>(_, p). process_event E svc p)"

definition message_id :: "json \<Rightarrow> gen_error + string" where
  "message_id record =
     (if \<not> is_obj record then Inl (Value_fault ''SQS Records entries must be objects'')
      else case vfield record ''messageId'' of
        JStr m \<Rightarrow> if m = [] then Inl (Value_fault ''SQS record has no messageId'') else Inr m
      | _ \<Rightarrow> Inl (Value_fault ''SQS record has no messageId''))"

text \<open>
  The loop of \<^verbatim>\<open>lambda_handler\<close>: every exception of a record, of whatever kind, adds its
  message to \<^verbatim>\<open>batchItemFailures\<close>.
\<close>

definition batch_step :: "environment \<Rightarrow> generator_services \<Rightarrow> string list \<Rightarrow> json \<Rightarrow> string list gen" where
  "batch_step E svc failures record =
     bindM (liftM (message_id record)) (\<lambda>m.
     bindM (tryX (process_sqs_record E svc record)) (\<lambda>r.
     returnM (case r of Inl _ \<Rightarrow> failures @ [m] | Inr _ \<Rightarrow> failures)))"

definition lambda_handler :: "environment \<Rightarrow> generator_services \<Rightarrow> json \<Rightarrow> string list gen" where
  "lambda_handler E svc event =
     (case vfield event ''Records'' of
        JArr records \<Rightarrow> foldM (batch_step E svc) [] records
      | _ \<Rightarrow> raiseM (Value_fault ''Lambda event must contain an SQS Records list''))"

end
