(* ===== verification/Generator_Demo.thy ===== *)
theory Generator_Demo
  imports Generator_Gate Generator_Reader
begin

text \<open>
  A concrete event, configuration and environment, at which the theorems about the generator
  are applied: a validated work event that is claimed, checked, dispatched and completed.
  Digests stay symbolic.
\<close>

section \<open>The event\<close>

definition gd_ranges :: "tcp_port_range list" where
  "gd_ranges = [\<lparr>pr_start = 22, pr_end = 22\<rparr>, \<lparr>pr_start = 80, pr_end = 443\<rparr>]"

definition gd_raw_target :: target where
  "gd_raw_target =
     \<lparr>target_id = zero_id, provider = AWS, scope_id = ''123456789012'', location = ''us-west-2'',
      resource_id = ''eni-0123456789abcdef0'', private_address = ''10.0.0.7'', public_address = ''192.0.2.7'',
      address_family = IPV4, transport = TCP, generation = 3\<rparr>"

definition gd_target :: target where
  "gd_target = gd_raw_target\<lparr>target_id := expected_target_id gd_raw_target\<rparr>"

definition gd_raw_source :: source_observation where
  "gd_raw_source =
     \<lparr>observation_id = zero_id, source_event_name = ''RunInstances'', source_event_id = ''e-1'',
      source_request_id = ''r-1'', event_time = 100, observed_at = 200, collected_at = 300\<rparr>"

definition gd_source :: source_observation where
  "gd_source = gd_raw_source\<lparr>observation_id := expected_observation_id gd_raw_source\<rparr>"

definition gd_raw_directive :: scan_directive where
  "gd_raw_directive =
     \<lparr>directive_id = zero_id, sd_target_id = target_id gd_target, sd_target_generation = 3,
      sd_reason = NEW_TARGET, sd_profile = TARGETED_TCP, priority = 10, requested_at = 400,
      deadline_at = 2000000000, not_after = 3000000000, tcp_port_ranges = gd_ranges\<rparr>"

definition gd_directive :: scan_directive where
  "gd_directive = gd_raw_directive\<lparr>directive_id := expected_directive_id gd_raw_directive\<rparr>"

definition gd_context :: aws_context where
  "gd_context =
     \<lparr>account_id = ''123456789012'', region = ''us-west-2'', network_interface_id = ''eni-0123456789abcdef0'',
      private_ip = ''10.0.0.7'', public_ip = ''192.0.2.7'', instance_id = None, security_group_ids = [],
      policy_fingerprint = zero_id, candidate_tcp_port_ranges = gd_ranges,
      ac_source_event_name = ''RunInstances'', ac_source_event_id = ''e-1'', ac_source_request_id = ''r-1'',
      tags = \<lparr>tag_application = None, tag_environment = None, tag_name = None, tag_service = None\<rparr>\<rparr>"

definition gd_raw_event :: target_event where
  "gd_raw_event =
     \<lparr>te_schema_version = ''1.0'', te_event_id = zero_id, te_event_type = TARGET_UPSERT, te_target = gd_target,
      te_source = gd_source, te_policy_change = None, te_scan = gd_directive, te_aws_context = gd_context\<rparr>"

definition gd_event :: target_event where
  "gd_event = gd_raw_event\<lparr>te_event_id := expected_event_id gd_raw_event\<rparr>"

lemma gd_texts:
  "is_account_id ''123456789012''" "is_region ''us-west-2''" "is_eni ''eni-0123456789abcdef0''"
  "is_source_name ''RunInstances''" "is_bounded_text ''e-1''" "is_bounded_text ''r-1''"
  "\<not> is_blank ''e-1''" "\<not> is_blank ''r-1''"
  by code_simp+

lemma gd_octets:
  "parse_octet ''192'' = Some 192" "parse_octet ''0'' = Some 0" "parse_octet ''10'' = Some 10"
  "parse_octet ''2'' = Some 2" "parse_octet ''7'' = Some 7"
  "nat_str 192 = ''192''" "nat_str 2 = ''2''" "nat_str 7 = ''7''" "nat_str 0 = ''0''" "nat_str 10 = ''10''"
  by code_simp+

lemma gd_addresses:
  "ipv4_parse ''192.0.2.7'' = Some 3221225991" "ipv4_parse ''10.0.0.7'' = Some 167772167"
  by (simp_all add: ipv4_parse_def ipv4_of_octets_def gd_octets)

lemma gd_public:
  "err_of (validate_ipv4 ''10.0.0.7'') = None" "err_of (validate_public_ipv4 ''192.0.2.7'') = None"
  by (simp_all add: validate_ipv4_def validate_public_ipv4_def len_between_def gd_addresses ipv4_str_def
      octets_def gd_octets documentation_networks_def in_network_def netmask_def mask_eq_exp_minus_1
      ipv4_of_octets_def)

lemma gd_ranges_ok: "validate_range_field e n gd_ranges = None"
  by (simp add: validate_range_field_gapped gd_ranges_def is_port_def)

lemma gd_target_ok: "validate_target False gd_target = None"
  by (simp add: validate_target_def gd_target_def gd_raw_target_def gd_texts gd_public is_generation_def expected_target_id_def
      target_identity_payload_def)

lemma gd_source_ok: "validate_source False gd_source = None"
  by (simp add: validate_source_def gd_source_def gd_raw_source_def gd_texts expected_observation_id_def
      source_identity_payload_def)

lemma gd_directive_ok: "validate_directive False gd_directive = None"
  by (simp add: validate_directive_def gd_directive_def gd_raw_directive_def gd_ranges_ok is_generation_def
      is_priority_def expected_directive_id_def directive_identity_fields_def gd_target_def expected_target_id_def)

lemma gd_context_ok: "validate_context gd_context = None"
  by (simp add: validate_context_def gd_context_def gd_texts gd_public gd_ranges_ok validate_tags_def tag_ok_def)

lemma gd_consistent: "validate_event_consistency gd_raw_event = None"
  by (simp add: validate_event_consistency_def validate_aws_event_context_def gd_raw_event_def gd_context_def
      gd_target_def gd_raw_target_def gd_source_def gd_raw_source_def gd_directive_def gd_raw_directive_def Let_def)

lemma gd_raw_ok: "validate_event True gd_raw_event = None"
  unfolding validate_event_def
  using gd_target_ok gd_source_ok gd_directive_ok gd_context_ok gd_consistent
  by (simp add: gd_raw_event_def target_model.validate_skip source_model.validate_skip directive_model.validate_skip)

lemma gd_event_ok: "validate_event False gd_event = None"
proof -
  have "validate_event_consistency gd_event = None" using gd_consistent by (simp add: gd_event_def)
  then show ?thesis
    using gd_target_ok gd_source_ok gd_directive_ok gd_context_ok
    by (simp add: validate_event_def gd_event_def event_model.expected_set)
      (simp add: gd_raw_event_def expected_event_id_def)
qed

section \<open>Configuration and environment\<close>

definition gd_config :: generator_config where
  "gd_config =
     \<lparr>event_bucket = ''events'', event_prefix = ''targets/'', table_name = ''claims'', cluster_name = ''scan'',
      namespace = ''scanners'', aws_region = ''us-west-2'', api_group = SCANNER_API_GROUP,
      api_version = SCANNER_API_VERSION, plural = SCANNER_PLURAL, inventory_table_name = None,
      partition_key = ''dispatch_id'', claim_lease_seconds = 120, audit_ttl_days = 30, max_event_bytes = 65536,
      allowed_target_cidrs = [], denied_target_cidrs = [], authorized_account_ids = [''123456789012'']\<rparr>"

definition gd_services :: generator_services where
  "gd_services =
     \<lparr>gs_config = gd_config, gs_store = \<lparr>cs_lease_seconds = 120, cs_audit_ttl_days = 30\<rparr>,
      gs_parser = (\<lambda>document. Inr (Work gd_event))\<rparr>"

definition gd_verdict :: raw_verdict where
  "gd_verdict = \<lparr>rv_fields = JObj [(''verdict'', JStr ''ACTIVE''), (''current_generation'', JInt 3)], rv_reason = None\<rparr>"

text \<open>Nothing fails and nobody interferes; the cluster is empty; the time stands still.\<close>

definition gd_env :: environment where
  "gd_env =
     \<lparr>env_fault = (\<lambda>n. No_fault), env_others = (\<lambda>n t. t), env_clock = (\<lambda>n. 1000000), env_owner = (\<lambda>n. ''worker''),
      env_object = (\<lambda>n q. Inr \<lparr>rs_length = Length 2, rs_etag = Some ''a1'', rs_version = None,
                                rs_body = Body_bytes [123, 125]\<rparr>),
      env_verdict = (\<lambda>n. Some gd_verdict), env_create = (\<lambda>n b. Inr ()),
      env_get = (\<lambda>n name. Inl (Http_error (Some 404))),
      env_list = (\<lambda>n h c. Inr (JObj [(''items'', JArr [])])),
      env_delete = (\<lambda>n name. Inl (Http_error (Some 404))), env_pages = 1\<rparr>"

definition gd_start :: gen_world where
  "gd_start = \<lparr>w_claims = [], w_trace = []\<rparr>"

lemmas gd_run_defs = bindM_def returnM_def raiseM_def liftM_def readM_def tryX_def Let_def claim_call_eval
  answered_def interact_def tick_def api_list_def api_create_def api_get_def api_delete_def api_object_def
  read_clock_def ask_ownership_def

lemma gd_env_fields [simp]:
  "env_fault gd_env n = No_fault" "env_others gd_env n t = t" "env_clock gd_env n = 1000000"
  "env_owner gd_env n = ''worker''" "env_verdict gd_env n = Some gd_verdict" "env_create gd_env n b = Inr ()"
  "env_list gd_env n h c = Inr (JObj [(''items'', JArr [])])" "env_pages gd_env = Suc 0"
  "env_delete gd_env n name = Inl (Http_error (Some 404))" "env_get gd_env n name = Inl (Http_error (Some 404))"
  by (simp_all add: gd_env_def)

lemma gd_rely: "rely cs gd_env"
  by (simp add: rely_def)

lemma gd_event_fields [simp]:
  "te_target gd_event = gd_target" "te_scan gd_event = gd_directive" "te_event_type gd_event = TARGET_UPSERT"
  "te_event_id gd_event = expected_event_id gd_raw_event" "generation gd_target = 3"
  "scope_id gd_target = ''123456789012''" "public_address gd_target = ''192.0.2.7''" "provider gd_target = AWS"
  "deadline_at gd_directive = 2000000000" "not_after gd_directive = 3000000000" "sd_reason gd_directive = NEW_TARGET"
  by (simp_all add: gd_event_def gd_raw_event_def gd_target_def gd_raw_target_def gd_directive_def gd_raw_directive_def)

lemma gd_ids: "expected_event_id gd_raw_event \<noteq> []" "target_id gd_target \<noteq> []"
  using hex_not_Nil [of "expected_event_id gd_raw_event"] valid_target_texts(1) [OF gd_target_ok]
  by (simp_all add: expected_event_id_def)

lemma gd_decision: "oc_decision (classify_verdict gd_verdict 3) = DISPATCH"
proof -
  have "py_upper (py_strip ''ACTIVE'') = ''ACTIVE''" by code_simp
  then show ?thesis
    by (simp add: dispatch_iff_owns owns_def gd_verdict_def vfield_def verdict_state_def verdict_current_def
        state_name_def Let_def)
qed

lemma gd_label: "is_label_hash (take 52 (sha256 s))"
  using is_sha256_hex_sha256 [of s] by (auto simp: is_label_hash_def is_sha256_hex_def list_all_iff dest: in_set_takeD)

lemma gd_cancelled: "cancel gd_env (Work gd_event) None [] w =
    (Inr \<lparr>cx_matched = 0, cx_deleted = 0\<rparr>,
     w\<lparr>w_trace := w_trace w @ [List_request (take 52 (sha256 (target_id gd_target))) None]\<rparr>)"
  by (simp add: cancel_def cancel_older_scanners_def cancel_matching_scanners_def target_hash_def identifier_hash_def
      payload_target_def gd_ids list_for_target_hash_def gd_label gd_run_defs page_items_def page_token_def
      is_obj_def vfield_def count_deleted_def)

section \<open>The run\<close>

definition gd_document :: json where
  "gd_document = scanner_document gd_event ''scanners'' SCANNER_API_GROUP SCANNER_API_VERSION ''New door'' [22] [(80, 443)]"

lemma gd_built: "build_scanner_resource gd_event ''scanners'' SCANNER_API_GROUP SCANNER_API_VERSION = Inr gd_document"
proof -
  have "port_selection gd_ranges = Inr ([22], [(80, 443)])"
    by (simp add: port_selection_def gd_ranges_def port_range_def sorted_set_def)
  moreover have "directive_id gd_directive \<noteq> []"
    using hex_not_Nil [of "expected_directive_id gd_raw_directive"]
    by (simp add: gd_directive_def expected_directive_id_def)
  moreover have "tcp_port_ranges gd_directive = gd_ranges"
    by (simp add: gd_directive_def gd_raw_directive_def)
  ultimately show ?thesis
    unfolding build_scanner_resource_Inr
    using valid_target_texts [OF gd_target_ok] gd_ids by (simp add: gd_document_def REASON_STATUS_def)
qed

definition gd_hash :: string where
  "gd_hash = sha256 (expected_event_id gd_raw_event)"

definition gd_key :: string where
  "gd_key = claim_key (expected_event_id gd_raw_event)"

definition gd_claim :: event_claim where
  "gd_claim = \<lparr>ec_key = gd_key, ec_event_hash = gd_hash, ec_owner = ''worker'', ec_attempt = 1\<rparr>"

definition gd_query :: claim_query where
  "gd_query =
     \<lparr>cq_event_id = expected_event_id gd_raw_event, cq_trace_id = expected_event_id gd_raw_event,
      cq_target_id = target_id gd_target, cq_generation = 3, cq_event_type = ''target.upsert'',
      cq_provider = ''aws'', cq_reason = ''new_target''\<rparr>"

definition gd_item :: claim_item where
  "gd_item = new_claim (gs_store gd_services) gd_query 1000000 ''worker''"

lemma gd_payload [simp]:
  "payload_target (Work gd_event) = gd_target" "payload_event_id (Work gd_event) = expected_event_id gd_raw_event"
  "payload_event_type (Work gd_event) = TARGET_UPSERT" "\<not> is_removal (Work gd_event)"
  by (simp_all add: payload_target_def payload_event_id_def payload_event_type_def is_removal_def)

lemma gd_queried: "claim_query_of (Work gd_event) = Inr gd_query"
  by (simp add: claim_query_of_def trace_id_for_event_def required_text_def gd_ids gd_query_def event_reason_def)

lemma gd_acquired:
  "acquire gd_env (gs_store gd_services) gd_query 1000000 \<lparr>w_claims = [], w_trace = xs\<rparr> =
     (Inr (acquired_result gd_key gd_hash ''worker'' 1),
      \<lparr>w_claims = [(gd_key, gd_item)], w_trace = xs @ [Claim_request gd_key]\<rparr>)"
  by (simp add: acquire_def gd_run_defs put_if_absent_def gd_query_def gd_key_def gd_hash_def tbl_put_def gd_item_def)

lemma gd_held: "held_by gd_claim gd_item"
  by (simp add: held_by_def gd_claim_def gd_item_def new_claim_def gd_query_def gd_hash_def)

definition gd_name :: string where
  "gd_name = ''scan-'' @ take 52 gd_hash"

definition gd_done :: claim_item where
  "gd_done = completed DISPATCHED 1000000 ''ACTIVE'' (Some gd_name) 0 gd_item"

definition gd_trace :: "interaction list" where
  "gd_trace =
     [Clock_reading 1000000, Claim_request gd_key, Ownership_request (Some gd_verdict),
      List_request (take 52 (sha256 (target_id gd_target))) None,
      Ownership_request (Some gd_verdict), Clock_reading 1000000, Create_request gd_document,
      Clock_reading 1000000, Claim_request gd_key]"

definition gd_outcome :: record_outcome where
  "gd_outcome =
     \<lparr>ro_outcome = ''dispatched'', ro_event_hash = take 16 gd_hash, ro_trace_hash = take 16 gd_hash,
      ro_verdict = Some ''ACTIVE'', ro_cancelled = 0\<rparr>"

lemma gd_scope: "account_allowed gd_config ''123456789012''" "target_allowed gd_config ''192.0.2.7''"
  by (simp_all add: account_allowed_def target_allowed_def gd_config_def gd_addresses)

lemma gd_verdict_name: "oc_verdict (classify_verdict gd_verdict 3) = ''ACTIVE''"
proof -
  have "py_upper (py_strip ''ACTIVE'') = ''ACTIVE''" by code_simp
  then show ?thesis
    by (simp add: classify_verdict_def gd_verdict_def vfield_def verdict_current_def state_name_def check_current_def
        check_reported_def decide_def Let_def)
qed

lemma gd_completed:
  "complete gd_env gd_claim DISPATCHED 1000000 ''ACTIVE'' (Some gd_name) 0
     \<lparr>w_claims = [(gd_key, gd_item)], w_trace = xs\<rparr> =
     (Inr True, \<lparr>w_claims = [(gd_key, gd_done)], w_trace = xs @ [Claim_request gd_key]\<rparr>)"
  using gd_held
  by (simp add: complete_def gd_run_defs update_if_def tbl_get_def tbl_put_def gd_done_def gd_claim_def terminal_states_def)

lemma gd_claimed_run:
  "process_claimed gd_env gd_config (Work gd_event) gd_claim (h1, h2) \<lparr>w_claims = [(gd_key, gd_item)], w_trace = xs\<rparr> =
     (Inr \<lparr>ro_outcome = ''dispatched'', ro_event_hash = h1, ro_trace_hash = h2, ro_verdict = Some ''ACTIVE'', ro_cancelled = 0\<rparr>,
      \<lparr>w_claims = [(gd_key, gd_done)], w_trace = xs @ drop 2 gd_trace\<rparr>)"
proof -
  define check where "check = classify_verdict gd_verdict 3"
  have cfg: "namespace gd_config = ''scanners''" "api_group gd_config = SCANNER_API_GROUP"
    "api_version gd_config = SCANNER_API_VERSION" by (simp_all add: gd_config_def)
  have name: "scanner_name (expected_event_id gd_raw_event) = Inr gd_name"
    using gd_ids by (simp add: scanner_name_def identifier_hash_def gd_hash_def gd_name_def)
  note verdict = gd_verdict_name [folded check_def] and decision = gd_decision [folded check_def]
  have created: "create_and_complete gd_env gd_event gd_claim check gd_document 0 (h1, h2)
      \<lparr>w_claims = [(gd_key, gd_item)], w_trace = ys\<rparr> =
     (Inr \<lparr>ro_outcome = ''dispatched'', ro_event_hash = h1, ro_trace_hash = h2, ro_verdict = Some ''ACTIVE'', ro_cancelled = 0\<rparr>,
      \<lparr>w_claims = [(gd_key, gd_done)],
       w_trace = ys @ [Create_request gd_document, Clock_reading 1000000, Claim_request gd_key]\<rparr>)" for ys
    by (simp add: create_and_complete_def create_scanner_def complete_claim_def gd_run_defs name verdict gd_completed)
  have asked: "revalidate_event gd_env 3 \<lparr>w_claims = t, w_trace = ys\<rparr> =
      (Inr check, \<lparr>w_claims = t, w_trace = ys @ [Ownership_request (Some gd_verdict)]\<rparr>)" for t ys
    by (simp add: revalidate_event_def gd_run_defs check_def)
  have "dispatch_work gd_env gd_config gd_event gd_claim check (h1, h2) \<lparr>w_claims = [(gd_key, gd_item)], w_trace = ys\<rparr> =
     (Inr \<lparr>ro_outcome = ''dispatched'', ro_event_hash = h1, ro_trace_hash = h2, ro_verdict = Some ''ACTIVE'', ro_cancelled = 0\<rparr>,
      \<lparr>w_claims = [(gd_key, gd_done)], w_trace = ys @ drop 3 gd_trace\<rparr>)" for ys
    by (simp add: dispatch_work_def recheck_and_dispatch_def dispatch_checked_def gd_cancelled asked gd_built cfg
        decision created gd_run_defs gd_trace_def)
  then show ?thesis
    by (simp add: process_claimed_def asked decision bindM_def tryX_def gd_trace_def)
qed

lemma gd_run_from:
  "process_event gd_env gd_services (Work gd_event) \<lparr>w_claims = [], w_trace = xs\<rparr> =
     (Inr gd_outcome, \<lparr>w_claims = [(gd_key, gd_done)], w_trace = xs @ gd_trace\<rparr>)"
proof -
  have hashes: "event_hashes (Work gd_event) = Inr (take 16 gd_hash, take 16 gd_hash, take 16 (sha256 (target_id gd_target)))"
    using gd_ids by (simp add: event_hashes_def identifier_hash_def trace_id_for_event_def required_text_def gd_hash_def)
  have svc: "gs_config gd_services = gd_config" by (simp add: gd_services_def)
  have claim: "cr_claim (acquired_result gd_key gd_hash ''worker'' 1) = Some gd_claim"
    "cr_disposition (acquired_result gd_key gd_hash ''worker'' 1) = ACQUIRED"
    by (simp_all add: acquired_result_def gd_claim_def)
  show ?thesis
    unfolding process_event_def
    by (simp add: bindM_def liftM_def hashes read_clock_def answered_def interact_def tick_def gd_start_def Let_def
        target_scope_def svc gd_scope gd_queried gd_acquired tryX_def claim gd_claimed_run gd_outcome_def gd_trace_def)
qed

lemma gd_run:
  "process_event gd_env gd_services (Work gd_event) gd_start =
     (Inr gd_outcome, \<lparr>w_claims = [(gd_key, gd_done)], w_trace = gd_trace\<rparr>)"
  using gd_run_from [of "[]"] by (simp add: gd_start_def)

section \<open>The record\<close>

definition gd_body :: string where
  "gd_body =
     join [CHR 0x22] [''{'', ''Records'', '':[{'', ''eventSource'', '':'', ''aws:s3'', '','',
      ''eventName'', '':'', ''ObjectCreated:Put'', '','', ''s3'', '':{'', ''bucket'', '':{'', ''name'',
      '':'', ''events'', ''},'', ''object'', '':{'', ''key'', '':'', ''targets/e1.json'', '','', ''eTag'',
      '':'', ''a1'', ''}}}]}'']"

definition gd_record :: json where
  "gd_record = JObj [(''messageId'', JStr ''m-1''), (''eventSource'', JStr ''aws:sqs''), (''body'', JStr gd_body)]"

definition gd_reference :: s3_reference where
  "gd_reference = \<lparr>ref_bucket = ''events'', ref_key = ''targets/e1.json'', ref_etag = Some ''a1'', ref_version = None\<rparr>"

definition gd_notification :: json where
  "gd_notification = JObj [(''Records'', JArr [JObj
     [(''eventSource'', JStr ''aws:s3''), (''eventName'', JStr ''ObjectCreated:Put''),
      (''s3'', JObj [(''bucket'', JObj [(''name'', JStr ''events'')]),
                    (''object'', JObj [(''key'', JStr ''targets/e1.json''), (''eTag'', JStr ''a1'')])])]])]"

lemma gd_loads: "loads dict_hook gd_body = Inr gd_notification"
  by code_simp

lemma gd_key_decoded: "decoded_key ''targets/e1.json'' = Inr ''targets/e1.json''"
  by code_simp

lemma gd_document_loaded: "load_json_document [123, 125] = Inr (JObj [])"
  by code_simp

lemma gd_decoded: "decode_sqs_s3_record gd_config gd_record = Inr gd_reference"
proof -
  have "gd_body \<noteq> []" by (simp add: gd_body_def)
  then have "notification_payload gd_record = Inr gd_notification"
    by (simp add: notification_payload_def gd_record_def vfield_def json_mapping_def gd_loads)
      (simp add: gd_notification_def is_obj_def)
  moreover have texts: "startswith ''ObjectCreated:Put'' ''ObjectCreated:''" "startswith ''targets/e1.json'' ''targets/''"
    "py_strip ''a1'' = ''a1''" by code_simp+
  ultimately show ?thesis
    by (simp add: decode_sqs_s3_record_def gd_notification_def sole_notification_def vfield_def is_obj_def
        named_object_def gd_key_decoded gd_config_def optional_text_def stripped_def has_newline_def gd_reference_def)
qed

definition gd_request :: s3_request where
  "gd_request = \<lparr>rq_bucket = ''events'', rq_key = ''targets/e1.json'', rq_if_match = Some ''a1'', rq_version = None\<rparr>"

lemma gd_fetched:
  "fetch_target_event gd_env gd_services gd_reference \<lparr>w_claims = t, w_trace = xs\<rparr> =
     (Inr (Work gd_event), \<lparr>w_claims = t, w_trace = xs @ [Object_request gd_request]\<rparr>)"
  by (simp add: fetch_target_event_def gd_reference_def gd_run_defs truthy_text_def gd_env_def check_response_def
      gd_services_def gd_config_def read_body_def gd_document_loaded parse_shared_contract_def gd_request_def)

lemma gd_read:
  "read_target_event gd_env gd_services gd_record \<lparr>w_claims = t, w_trace = xs\<rparr> =
     (Inr (gd_reference, Work gd_event), \<lparr>w_claims = t, w_trace = xs @ [Object_request gd_request]\<rparr>)"
proof -
  have "gs_config gd_services = gd_config" by (simp add: gd_services_def)
  then show ?thesis by (simp add: read_target_event_def bindM_def liftM_def gd_decoded gd_fetched returnM_def)
qed

lemma gd_record_run:
  "process_sqs_record gd_env gd_services gd_record gd_start =
     (Inr gd_outcome, \<lparr>w_claims = [(gd_key, gd_done)], w_trace = Object_request gd_request # gd_trace\<rparr>)"
proof -
  have "process_event gd_env gd_services (Work gd_event) \<lparr>w_claims = [], w_trace = [Object_request gd_request]\<rparr> =
     (Inr gd_outcome, \<lparr>w_claims = [(gd_key, gd_done)], w_trace = Object_request gd_request # gd_trace\<rparr>)"
    using gd_run_from [of "[Object_request gd_request]"] by simp
  then show ?thesis by (simp add: process_sqs_record_def bindM_def gd_read gd_start_def)
qed

section \<open>A cancellation\<close>

text \<open>The same event, when the inventory says that the target is gone.\<close>

definition gd_gone :: raw_verdict where
  "gd_gone = \<lparr>rv_fields = JObj [(''verdict'', JStr ''INACTIVE'')], rv_reason = None\<rparr>"

definition gd_gone_env :: environment where
  "gd_gone_env = gd_env\<lparr>env_verdict := \<lambda>n. Some gd_gone\<rparr>"

lemma gd_gone_fields [simp]:
  "env_fault gd_gone_env n = No_fault" "env_others gd_gone_env n t = t" "env_clock gd_gone_env n = 1000000"
  "env_owner gd_gone_env n = ''worker''" "env_verdict gd_gone_env n = Some gd_gone"
  "env_list gd_gone_env n h c = Inr (JObj [(''items'', JArr [])])" "env_pages gd_gone_env = Suc 0"
  "env_delete gd_gone_env n name = Inl (Http_error (Some 404))"
  by (simp_all add: gd_gone_env_def)

lemma gd_gone_check: "oc_decision (classify_verdict gd_gone 3) = CANCEL" "oc_verdict (classify_verdict gd_gone 3) = ''INACTIVE''"
proof -
  have "py_upper (py_strip ''INACTIVE'') = ''INACTIVE''" by code_simp
  then show "oc_decision (classify_verdict gd_gone 3) = CANCEL" "oc_verdict (classify_verdict gd_gone 3) = ''INACTIVE''"
    by (simp_all add: classify_verdict_def gd_gone_def vfield_def obj_get_def verdict_current_def state_name_def check_current_def
        check_reported_def decide_def Let_def)
qed

definition gd_gone_trace :: "interaction list" where
  "gd_gone_trace =
     [Clock_reading 1000000, Claim_request gd_key, Ownership_request (Some gd_gone), Delete_request gd_name,
      List_request (take 52 (sha256 (target_id gd_target))) None, Clock_reading 1000000, Claim_request gd_key]"

lemma gd_scanner_name: "scanner_name (expected_event_id gd_raw_event) = Inr gd_name"
  using gd_ids by (simp add: scanner_name_def identifier_hash_def gd_hash_def gd_name_def)

lemma gd_gone_cancelled:
  "cancel_terminal gd_gone_env (Work gd_event) (classify_verdict gd_gone 3) \<lparr>w_claims = t, w_trace = xs\<rparr> =
     (Inr \<lparr>cx_matched = 0, cx_deleted = 0\<rparr>,
      \<lparr>w_claims = t, w_trace = xs @ [Delete_request gd_name,
         List_request (take 52 (sha256 (target_id gd_target))) None]\<rparr>)"
proof -
  have "gd_name \<noteq> []" by (simp add: gd_name_def)
  then show ?thesis
    by (simp add: cancel_terminal_def gd_gone_check cancel_event_scanner_def delete_scanner_def gd_scanner_name
        cancel_scanners_through_generation_def cancel_matching_scanners_def target_hash_def identifier_hash_def
        gd_ids list_for_target_hash_def gd_label gd_run_defs page_items_def page_token_def
        is_obj_def vfield_def count_deleted_def http_status_def)
qed

lemma gd_gone_run:
  "\<exists>r t. process_event gd_gone_env gd_services (Work gd_event) gd_start = (r, \<lparr>w_claims = t, w_trace = gd_gone_trace\<rparr>)"
proof -
  have hashes: "event_hashes (Work gd_event) = Inr (take 16 gd_hash, take 16 gd_hash, take 16 (sha256 (target_id gd_target)))"
    using gd_ids by (simp add: event_hashes_def identifier_hash_def trace_id_for_event_def required_text_def gd_hash_def)
  have svc: "gs_config gd_services = gd_config" by (simp add: gd_services_def)
  have claim: "cr_claim (acquired_result gd_key gd_hash ''worker'' 1) = Some gd_claim"
    "cr_disposition (acquired_result gd_key gd_hash ''worker'' 1) = ACQUIRED"
    by (simp_all add: acquired_result_def gd_claim_def)
  have acquired: "acquire gd_gone_env (gs_store gd_services) gd_query 1000000 \<lparr>w_claims = [], w_trace = xs\<rparr> =
     (Inr (acquired_result gd_key gd_hash ''worker'' 1),
      \<lparr>w_claims = [(gd_key, gd_item)], w_trace = xs @ [Claim_request gd_key]\<rparr>)" for xs
    by (simp add: acquire_def gd_run_defs put_if_absent_def gd_query_def gd_key_def gd_hash_def tbl_put_def gd_item_def)
  have completed: "complete gd_gone_env gd_claim CANCELLED_ST 1000000 ''INACTIVE'' None 0
     \<lparr>w_claims = [(gd_key, gd_item)], w_trace = xs\<rparr> =
     (Inr True, \<lparr>w_claims = [(gd_key, completed CANCELLED_ST 1000000 ''INACTIVE'' None 0 gd_item)],
                w_trace = xs @ [Claim_request gd_key]\<rparr>)" for xs
    using gd_held
    by (simp add: complete_def gd_run_defs update_if_def tbl_get_def tbl_put_def gd_claim_def terminal_states_def)
  have finish: "finish_terminal gd_gone_env (Work gd_event) gd_claim (classify_verdict gd_gone 3) CANCELLED_ST 0
      ec out hs \<lparr>w_claims = [(gd_key, gd_item)], w_trace = xs\<rparr> =
      (Inr \<lparr>ro_outcome = out, ro_event_hash = fst hs, ro_trace_hash = snd hs, ro_verdict = Some ''INACTIVE'', ro_cancelled = 0\<rparr>,
       \<lparr>w_claims = [(gd_key, completed CANCELLED_ST 1000000 ''INACTIVE'' None 0 gd_item)],
        w_trace = xs @ drop 3 gd_gone_trace\<rparr>)" for ec out hs xs
    by (simp add: finish_terminal_def complete_claim_def gd_gone_cancelled gd_run_defs gd_gone_check completed
        gd_gone_trace_def)
  have asked: "revalidate_event gd_gone_env 3 \<lparr>w_claims = t, w_trace = ys\<rparr> =
      (Inr (classify_verdict gd_gone 3), \<lparr>w_claims = t, w_trace = ys @ [Ownership_request (Some gd_gone)]\<rparr>)" for t ys
    by (simp add: revalidate_event_def gd_run_defs)
  show ?thesis
    unfolding process_event_def
    by (simp add: bindM_def liftM_def hashes read_clock_def answered_def interact_def tick_def gd_start_def Let_def
        target_scope_def svc gd_scope gd_queried acquired tryX_def claim process_claimed_def asked gd_gone_check
        finish gd_gone_trace_def)
qed

end
