(* ===== verification/Generator_Guarantees.thy ===== *)
theory Generator_Guarantees
  imports Generator_Demo
begin

text \<open>
  The properties of the generator, each with its application at the concrete run. The
  theorems quantify over the environment: over every answer of S3, DynamoDB, Kubernetes and
  the inventory, over every interleaving with other workers, and over every point at which a
  request fails or the worker is killed.
\<close>

section \<open>Reading\<close>

lemma read_body_Inr:
  "read_body cfg body = Inr content \<Longrightarrow> body = Body_bytes content \<and> int (length content) \<le> max_event_bytes cfg"
  by (auto simp: read_body_def Let_def split: s3_body.splits if_splits)

lemma fetch_Inr:
  assumes "fetch_target_event E svc ref w = (Inr p, w')"
  shows "\<exists>q rs content document. w_trace w' = w_trace w @ [Object_request q]
    \<and> q = \<lparr>rq_bucket = ref_bucket ref, rq_key = ref_key ref,
           rq_if_match = (if truthy_text (ref_etag ref) then ref_etag ref else None),
           rq_version = (if truthy_text (ref_version ref) then ref_version ref else None)\<rparr>
    \<and> env_object E (tick w) q = Inr rs \<and> rs_body rs = Body_bytes content
    \<and> int (length content) \<le> max_event_bytes (gs_config svc)
    \<and> load_json_document content = Inr document \<and> gs_parser svc document = Inr p"
proof -
  let ?q = "\<lparr>rq_bucket = ref_bucket ref, rq_key = ref_key ref,
           rq_if_match = (if truthy_text (ref_etag ref) then ref_etag ref else None),
           rq_version = (if truthy_text (ref_version ref) then ref_version ref else None)\<rparr>"
  obtain r w1 where r: "tryX (api_object E ?q) w = (Inr r, w1)"
    and rest: "(case r of
       Inl e \<Rightarrow>
         if e \<in> {Service_error (Some ''PreconditionFailed''), Service_error (Some ''412'')}
         then raiseM (mutable_object ''S3 object changed before its immutable read'') else raiseM e
     | Inr rs \<Rightarrow>
         bindM (liftM (check_response (gs_config svc) ref rs)) (\<lambda>_.
         bindM (liftM (read_body (gs_config svc) (rs_body rs))) (\<lambda>content.
         bindM (liftM (load_json_document content)) (\<lambda>document.
         liftM (parse_shared_contract (gs_parser svc) document))))) w1 = (Inr p, w')"
    using assms unfolding fetch_target_event_def bindM_Inr by blast
  from rest obtain rs where rs: "r = Inr rs" by (cases r) (auto simp: raiseM_Inr split: if_splits)
  with rest obtain content document where
    c: "read_body (gs_config svc) (rs_body rs) = Inr content" "load_json_document content = Inr document"
      "parse_shared_contract (gs_parser svc) document = Inr p" "w' = w1"
    by (auto simp: bindM_Inr liftM_Inr)
  moreover have "w_trace w1 = w_trace w @ [Object_request ?q]" "env_object E (tick w) ?q = Inr rs"
    using r rs by (auto simp: tryX_Inr api_object_def answered_def split: if_splits)
  moreover have "gs_parser svc document = Inr p"
    using c(3) by (auto simp: parse_shared_contract_def split: sum.splits)
  ultimately show ?thesis using read_body_Inr [OF c(1)] by blast
qed

lemma read_target_event_Inr:
  assumes "read_target_event E svc record w = (Inr (ref, p), w')"
  shows "decode_sqs_s3_record (gs_config svc) record = Inr ref" "fetch_target_event E svc ref w = (Inr p, w')"
  using assms by (auto simp: read_target_event_def bindM_Inr liftM_Inr returnM_Inr)

lemma stripped_Some: "stripped v m = Inr (Some s) \<Longrightarrow> s \<noteq> []"
  by (auto simp: stripped_def split: option.splits if_splits)

lemma decode_texts:
  assumes "decode_sqs_s3_record cfg record = Inr ref"
  shows "ref_etag ref \<noteq> Some []" "ref_version ref \<noteq> Some []"
  using assms unfolding decode_sqs_s3_record_def Let_def by (auto simp: bindR_Inr dest: stripped_Some)

lemma decode_Inr:
  assumes "decode_sqs_s3_record cfg record = Inr ref"
  shows "ref_bucket ref = event_bucket cfg" "\<exists>s. s \<noteq> [] \<and> ref_key ref = event_prefix cfg @ s"
    "truthy_text (ref_etag ref) \<or> truthy_text (ref_version ref)"
proof -
  from assms obtain key etag version v0 v1 m0 m1 where
    ref: "ref = \<lparr>ref_bucket = event_bucket cfg, ref_key = key, ref_etag = etag, ref_version = version\<rparr>"
    and key: "startswith key (event_prefix cfg)" "key \<noteq> event_prefix cfg"
    and v: "stripped v0 m0 = Inr etag" "stripped v1 m1 = Inr version" "\<not> (etag = None \<and> version = None)"
    unfolding decode_sqs_s3_record_def Let_def
    by (auto simp: bindR_Inr)
  from ref show "ref_bucket ref = event_bucket cfg" by simp
  have "key = event_prefix cfg @ drop (length (event_prefix cfg)) key"
    using key(1) by (metis append_take_drop_id startswith_def)
  with key(2) ref show "\<exists>s. s \<noteq> [] \<and> ref_key ref = event_prefix cfg @ s"
    by (metis append_Nil2 s3_reference.select_convs(2))
  show "truthy_text (ref_etag ref) \<or> truthy_text (ref_version ref)"
    using v ref by (auto simp: truthy_text_def dest: stripped_Some split: option.splits)
qed

text \<open>What a notification says about its object: the texts of its tag and version, without surrounding space; the version \<^verbatim>\<open>null\<close> is none.\<close>

definition stripped_text_of :: "json \<Rightarrow> string option" where
  "stripped_text_of v = (case v of JStr s \<Rightarrow> Some (py_strip s) | _ \<Rightarrow> None)"

definition notified :: "json \<Rightarrow> string \<Rightarrow> string \<Rightarrow> string option \<Rightarrow> string option \<Rightarrow> bool" where
  "notified record bucket key etag version \<longleftrightarrow>
     (\<exists>payload n obj encoded. notification_payload record = Inr payload \<and> sole_notification payload = Inr n
        \<and> named_object n = Inr (bucket, obj, encoded) \<and> decoded_key encoded = Inr key
        \<and> etag = stripped_text_of (if truthy (vfield obj ''eTag'') then vfield obj ''eTag'' else vfield obj ''etag'')
        \<and> version = (case vfield obj ''versionId'' of JStr v \<Rightarrow> if py_lower v = ''null'' then None else Some (py_strip v) | _ \<Rightarrow> None))"

lemma optional_text_of: "optional_text v m = Inr x \<Longrightarrow> stripped x m' = Inr y \<Longrightarrow> y = stripped_text_of v"
  by (auto simp: optional_text_def stripped_def stripped_text_of_def split: json.splits if_splits)

lemma decode_notified:
  assumes "decode_sqs_s3_record cfg record = Inr ref"
  shows "notified record (ref_bucket ref) (ref_key ref) (ref_etag ref) (ref_version ref)"
proof -
  let ?tag = "\<lambda>obj. if truthy (vfield obj ''eTag'') then vfield obj ''eTag'' else vfield obj ''etag''"
  let ?known = "\<lambda>v. case v of Some v \<Rightarrow> if py_lower v = ''null'' then None else Some v | None \<Rightarrow> None"
  obtain payload n obj encoded etag0 version0 m m' m1 m2 where
    n: "notification_payload record = Inr payload" "sole_notification payload = Inr n"
      "named_object n = Inr (ref_bucket ref, obj, encoded)" "decoded_key encoded = Inr (ref_key ref)"
    and tag: "optional_text (?tag obj) m = Inr etag0" "stripped etag0 m1 = Inr (ref_etag ref)"
    and version: "optional_text (vfield obj ''versionId'') m' = Inr version0" "stripped (?known version0) m2 = Inr (ref_version ref)"
    using assms unfolding decode_sqs_s3_record_def Let_def by (fastforce simp: bindR_Inr)
  have "ref_version ref = (case vfield obj ''versionId'' of JStr v \<Rightarrow> if py_lower v = ''null'' then None else Some (py_strip v) | _ \<Rightarrow> None)"
    using version by (auto simp: optional_text_def stripped_def split: json.splits if_splits)
  with n optional_text_of [OF tag] show ?thesis unfolding notified_def by blast
qed

text \<open>
  C33. Immutable, bounded reads. When \<^verbatim>\<open>read_target_event\<close> returns an event, it made exactly one
  request, for the object that the notification names, in the configured bucket under a key that properly extends the configured
  prefix, with the notification's entity tag as \<^verbatim>\<open>IfMatch\<close> and its version, of which at least one is present;
  and the event was parsed from the complete object,
  whose size is within \<^verbatim>\<open>max_event_bytes\<close>: a longer object is never truncated into an event.
\<close>

theorem read_pins_object:
  assumes "read_target_event E svc record w = (Inr (ref, p), w')"
  shows "\<exists>q rs content document. w_trace w' = w_trace w @ [Object_request q]
    \<and> rq_bucket q = event_bucket (gs_config svc)
    \<and> (\<exists>s. s \<noteq> [] \<and> rq_key q = event_prefix (gs_config svc) @ s)
    \<and> (rq_if_match q \<noteq> None \<or> rq_version q \<noteq> None)
    \<and> notified record (rq_bucket q) (rq_key q) (rq_if_match q) (rq_version q)
    \<and> q = \<lparr>rq_bucket = ref_bucket ref, rq_key = ref_key ref, rq_if_match = ref_etag ref, rq_version = ref_version ref\<rparr>
    \<and> env_object E (tick w) q = Inr rs \<and> rs_body rs = Body_bytes content
    \<and> int (length content) \<le> max_event_bytes (gs_config svc)
    \<and> load_json_document content = Inr document \<and> gs_parser svc document = Inr p"
proof -
  note ref = read_target_event_Inr(1) [OF assms]
  from decode_texts [OF ref] have "(if truthy_text (ref_etag ref) then ref_etag ref else None) = ref_etag ref"
    "(if truthy_text (ref_version ref) then ref_version ref else None) = ref_version ref"
    by (auto simp: truthy_text_def split: option.splits)
  with fetch_Inr [OF read_target_event_Inr(2) [OF assms]] decode_Inr [OF ref] decode_notified [OF ref] show ?thesis
    by (fastforce simp: truthy_text_def split: option.splits)
qed

theorem read_pins_object_witness:
  "\<exists>w'. read_target_event gd_env gd_services gd_record gd_start = (Inr (gd_reference, Work gd_event), w')
    \<and> (\<exists>q. w_trace w' = w_trace gd_start @ [Object_request q] \<and> rq_bucket q = event_bucket (gs_config gd_services)
         \<and> notified gd_record (rq_bucket q) (rq_key q) (rq_if_match q) (rq_version q))"
  using read_pins_object [OF gd_read [of "[]" "[]", folded gd_start_def]] gd_read [of "[]" "[]", folded gd_start_def]
  by blast

section \<open>Dispatching\<close>

lemma quiet_read: "within not_create (read_target_event E svc record)"
  unfolding read_target_event_def fetch_target_event_def
  by (intro within_intro within_api) simp_all

text \<open>
  C2. The dispatch gate. Suppose that the contract adapter returns only validated events. If
  processing a record sends a request that creates a Scanner, then it sends exactly one; the
  two interactions immediately before it are an ownership check, whose verdict owns exactly
  the event's generation, and a clock reading before both deadlines of the directive; the
  account and the address of the target are in scope; and the body is the resource of a
  validated event, which asks for exactly the ports of its directive.
\<close>

theorem dispatch_gate:
  assumes adapter: "\<And>document p. gs_parser svc document = Inr p \<Longrightarrow> validate_payload p = None"
    and run: "process_sqs_record E svc record w = (r, w')"
    and xs: "w_trace w' = w_trace w @ xs" "Create_request body \<in> set xs"
  shows "\<exists>ev pre v t post. validate_event False ev = None
    \<and> xs = pre @ [Ownership_request (Some v), Clock_reading t, Create_request body] @ post
    \<and> list_all not_create pre \<and> list_all not_create post
    \<and> may_create (gs_config svc) ev body t v
    \<and> document_ports body = range_ports (tcp_port_ranges (te_scan ev))"
proof -
  define G where "G b t v = (\<exists>ev. validate_event False ev = None \<and> may_create (gs_config svc) ev b t v)" for b t v
  have "gated_run G (process_sqs_record E svc record)"
    unfolding process_sqs_record_def
  proof (intro gated_run_bind gated_run_case_prod quiet_read)
    fix w0 x w1 ref p assume "read_target_event E svc record w0 = (Inr x, w1)" "x = (ref, p)"
    then have "validate_payload p = None"
      using adapter fetch_Inr [OF read_target_event_Inr(2)] by blast
    then have "gated G ys" if "gated (\<lambda>b t v. \<exists>ev. p = Work ev \<and> may_create (gs_config svc) ev b t v) ys" for ys
      using that unfolding gated_def G_def validate_payload_def by (fastforce split: target_payload.splits)
    with gated_process_event [of p svc E] show "gated_run G (process_event E svc p)"
      unfolding gated_run_def by blast
  qed
  with run xs have "gated G xs" unfolding gated_run_def by fastforce
  with xs(2) obtain pre v t post ev where
    *: "xs = pre @ [Ownership_request (Some v), Clock_reading t, Create_request body] @ post"
    "list_all not_create pre" "list_all not_create post" "validate_event False ev = None"
    "may_create (gs_config svc) ev body t v"
    unfolding gated_def G_def by blast
  from *(5) have built: "build_scanner_resource ev (namespace (gs_config svc)) (api_group (gs_config svc))
      (api_version (gs_config svc)) = Inr body" by (simp add: may_create_def)
  obtain st ps rs where
    doc: "build_scanner_resource ev (namespace (gs_config svc)) (api_group (gs_config svc)) (api_version (gs_config svc))
      = Inr (scanner_document ev (namespace (gs_config svc)) (api_group (gs_config svc)) (api_version (gs_config svc)) st ps rs)"
    and sel: "selected_ports (ps, rs) = range_ports (tcp_port_ranges (te_scan ev))"
    using build_scanner_resource_valid [OF *(4)] by blast
  from doc built sum.inject(2) have
    "body = scanner_document ev (namespace (gs_config svc)) (api_group (gs_config svc)) (api_version (gs_config svc)) st ps rs"
    by metis
  then have "document_ports body = range_ports (tcp_port_ranges (te_scan ev))"
    using document_ports_eq sel by metis
  with * show ?thesis by blast
qed

theorem dispatch_gate_witness:
  "\<exists>ev. validate_event False ev = None \<and> document_ports gd_document = range_ports (tcp_port_ranges (te_scan ev))"
proof -
  have adapter: "gs_parser gd_services document = Inr p \<Longrightarrow> validate_payload p = None" for document p
    using gd_event_ok by (auto simp: gd_services_def validate_payload_def)
  have trace: "w_trace \<lparr>w_claims = [(gd_key, gd_done)], w_trace = Object_request gd_request # gd_trace\<rparr>
      = w_trace gd_start @ (Object_request gd_request # gd_trace)" by (simp add: gd_start_def)
  have "Create_request gd_document \<in> set (Object_request gd_request # gd_trace)" by (simp add: gd_trace_def)
  from dispatch_gate [OF _ gd_record_run trace this] adapter show ?thesis by blast
qed

text \<open>
  C16. What may be deleted. Every Scanner that the processing of an event asks the cluster to
  delete is the event's own, or one that the API listed for the event's target and that
  carries the target's hash as its label, at a lower generation than the event's. A scanner at the event's own generation
  is deleted only when a verdict of the inventory withdraws it (the target is inactive or moved, or its policy or lifecycle changed),
  and one at a higher generation only when a stale verdict names a generation above it as the current one.
\<close>

theorem deletes_only_superseded:
  assumes "process_event E svc p w = (r, w')" "w_trace w' = w_trace w @ xs" "Delete_request name \<in> set xs"
  shows "may_delete E p name"
  using withinD [OF deletes_process_event assms(1)] assms(2,3) by (auto simp: list_all_iff)

theorem deletes_only_superseded_witness:
  "may_delete gd_gone_env (Work gd_event) gd_name"
proof -
  obtain r t where "process_event gd_gone_env gd_services (Work gd_event) gd_start
      = (r, \<lparr>w_claims = t, w_trace = gd_gone_trace\<rparr>)"
    using gd_gone_run by blast
  then show ?thesis
    by (rule deletes_only_superseded [where xs = gd_gone_trace]) (simp_all add: gd_start_def gd_gone_trace_def)
qed

section \<open>Claims\<close>

lemma advances_lambda_handler:
  "rely (gs_store svc) E \<Longrightarrow> always (advances (gs_store svc)) (lambda_handler E svc event)"
  unfolding lambda_handler_def batch_step_def process_sqs_record_def read_target_event_def fetch_target_event_def
  by (cases "vfield event ''Records''")
    (auto intro!: advances_rules advances_api advances_process_event)

text \<open>
  C9. Refinement of the claim table. While the other workers follow the protocol, a whole
  Lambda batch changes the claim of every event only by steps of the abstract lease machine:
  taking a free, waiting or expired lease, releasing one's own, finishing one's own. This
  holds on every outcome, whatever fails and wherever the worker is killed, and every item
  stays well-formed.
\<close>

theorem claims_refine_lease:
  assumes "rely (gs_store svc) E" "claims_ok (w_claims w)" "lambda_handler E svc event w = (r, w')"
  shows "claims_ok (w_claims w')
    \<and> (\<forall>key. lease_run (cs_lease_seconds (gs_store svc)) (view (w_claims w) key) (view (w_claims w') key))"
  using alwaysD [OF advances_lambda_handler [OF assms(1)] assms(3)] assms(2)
  by (auto simp: advances_def intro: claim_run_ok claim_run_refines)

definition gd_batch :: json where
  "gd_batch = JObj [(''Records'', JArr [gd_record])]"

lemma gd_batch_run:
  "lambda_handler gd_env gd_services gd_batch gd_start =
     (Inr [], \<lparr>w_claims = [(gd_key, gd_done)], w_trace = Object_request gd_request # gd_trace\<rparr>)"
proof -
  have "message_id gd_record = Inr ''m-1''" by (simp add: message_id_def gd_record_def is_obj_def vfield_def)
  then show ?thesis
    by (simp add: lambda_handler_def gd_batch_def vfield_def batch_step_def bindM_def liftM_def tryX_def
        gd_record_run returnM_def)
qed

theorem claims_refine_lease_witness:
  "lease_run 120 Free (view [(gd_key, gd_done)] gd_key)"
proof -
  have "rely (gs_store gd_services) gd_env" "claims_ok (w_claims gd_start)"
    by (simp_all add: gd_rely claims_ok_def gd_start_def)
  from claims_refine_lease [OF this gd_batch_run]
  have "lease_run (cs_lease_seconds (gs_store gd_services)) (view (w_claims gd_start) gd_key) (view [(gd_key, gd_done)] gd_key)"
    by simp
  then show ?thesis by (simp add: gd_services_def gd_start_def view_def)
qed

text \<open>
  C31. A finished event is inert. Once an event's claim is in a terminal state, processing the
  event again only looks at the clock and at the claim: no ownership check, nothing listed,
  created or deleted; the claim stays as it is, and the outcome is a duplicate (or a refusal
  because the target left the scope).
\<close>

theorem finished_event_is_inert:
  assumes "rely (gs_store svc) E" "tbl_get (w_claims w) (claim_key (payload_event_id p)) = Some it" "finished it"
    and "process_event E svc p w = (r, w')"
  shows "(\<exists>xs. w_trace w' = w_trace w @ xs \<and> list_all only_looks xs)
    \<and> tbl_get (w_claims w') (claim_key (payload_event_id p)) = Some it
    \<and> (case r of Inl _ \<Rightarrow> True | Inr out \<Rightarrow> ro_outcome out \<in> {''duplicate'', ''scope_denied''})"
proof -
  have "claim_run (gs_store svc) (w_claims w) (w_claims w')"
    using alwaysD [OF advances_process_event [OF assms(1)] assms(4)] by (simp add: advances_def)
  from claim_run_finished [OF this assms(2,3)] process_event_finished [OF assms] show ?thesis by simp
qed

lemma gd_done_finished: "finished gd_done"
  by (auto simp: finished_def gd_done_def completed_def terminal_states_def Let_def)

theorem finished_event_is_inert_witness:
  "tbl_get (w_claims (snd (process_event gd_env gd_services (Work gd_event)
      \<lparr>w_claims = [(gd_key, gd_done)], w_trace = []\<rparr>))) gd_key = Some gd_done"
proof -
  let ?w = "\<lparr>w_claims = [(gd_key, gd_done)], w_trace = []\<rparr>"
  obtain r w' where run: "process_event gd_env gd_services (Work gd_event) ?w = (r, w')" by force
  have "tbl_get (w_claims ?w) (claim_key (payload_event_id (Work gd_event))) = Some gd_done"
    by (simp add: tbl_get_def gd_key_def)
  from finished_event_is_inert [OF gd_rely this gd_done_finished run] run show ?thesis by (simp add: gd_key_def)
qed

text \<open>
  C32. A live lease is exclusive. When \<^verbatim>\<open>acquire\<close> has returned a claim at time \<open>now\<close>, and since then
  only steps of other owners, made before the lease runs out, have touched the table, then
  \<^verbatim>\<open>complete\<close> by the owner, unless its request fails, finalises the claim.
\<close>

theorem live_lease_completes:
  assumes "acquire E cs q now w = (Inr res, w1)" "cr_disposition res = ACQUIRED" "cr_claim res = Some c"
    and "(other_step cs (ec_owner c) (epoch_seconds now + cs_lease_seconds cs))\<^sup>*\<^sup>*
           (w_claims w1) (env_others E (tick w2) (w_claims w2))"
    and "env_fault E (tick w2) = No_fault" "st \<in> terminal_states"
  shows "\<exists>w3. complete E c st now' v sc n w2 = (Inr True, w3) \<and> view (w_claims w3) (ec_key c) = Finished st"
proof -
  from acquire_leases [OF assms(1,2)] assms(3) obtain it where
    it: "tbl_get (w_claims w1) (ec_key c) = Some it" "held_by c it"
      "leased_to (ec_owner c) (epoch_seconds now + cs_lease_seconds cs) it"
    by (auto simp: holds_lease_def)
  from other_steps_leased [OF assms(4) it(1,3)] complete_held [OF _ it(2) assms(5,6)]
  show ?thesis using assms(6) by (fastforce simp: view_def view_completed)
qed

theorem live_lease_completes_witness:
  "\<exists>w3. complete gd_env gd_claim DISPATCHED 1000000 ''ACTIVE'' None 0
       \<lparr>w_claims = [(gd_key, gd_item)], w_trace = [Claim_request gd_key]\<rparr> = (Inr True, w3)
     \<and> view (w_claims w3) gd_key = Finished DISPATCHED"
proof -
  let ?w = "\<lparr>w_claims = [(gd_key, gd_item)], w_trace = [] @ [Claim_request gd_key]\<rparr>"
  have "\<exists>w3. complete gd_env gd_claim DISPATCHED 1000000 ''ACTIVE'' None 0 ?w = (Inr True, w3)
      \<and> view (w_claims w3) (ec_key gd_claim) = Finished DISPATCHED"
    by (rule live_lease_completes [OF gd_acquired [of "[]"]])
      (simp_all add: acquired_result_def gd_claim_def terminal_states_def)
  then show ?thesis by (simp add: gd_claim_def)
qed

section \<open>Components\<close>

text \<open>
  The ownership gate is closed by default. \<^verbatim>\<open>classify_verdict\<close> decides to dispatch exactly when
  the verdict states \<^verbatim>\<open>ACTIVE\<close>, does not answer another generation's request, and names no current
  generation or exactly the requested one; every other value, of whatever shape, leads to one of
  the three other decisions, and a generation that it reports is positive.
\<close>

theorem ownership_gate:
  "(oc_decision (classify_verdict rv requested) = DISPATCH \<longleftrightarrow> owns (rv_fields rv) requested)
   \<and> (case oc_current_generation (classify_verdict rv requested) of None \<Rightarrow> True | Some g \<Rightarrow> 1 \<le> g)"
  using dispatch_iff_owns classify_current_positive by (auto split: option.splits)

text \<open>
  C34. Listing ends when the API hands out finitely many continuation tokens: if every page's token is in a finite set, the
  API answers for one page more than that set has tokens, and no request dies, then the
  loop of \<^verbatim>\<open>list_for_target_hash\<close> ends by itself, because it refuses a token that it has seen. (With fresh tokens for ever, it would
  not end.)
\<close>

theorem listing_terminates:
  assumes "patient E" "tokens_in E T" "finite T" "card T < env_pages E"
  shows "fst (list_for_target_hash E h w) \<noteq> Inl Killed"
  using list_loop_not_Killed [OF assms(1-3), of "{}" "env_pages E"] assms(4)
  by (simp add: list_for_target_hash_def raiseM_def)

theorem listing_terminates_witness: "fst (list_for_target_hash gd_env (take 52 gd_hash) gd_start) \<noteq> Inl Killed"
proof (rule listing_terminates)
  show "patient gd_env" by (simp add: patient_def)
  show "tokens_in gd_env {}" by (simp add: tokens_in_def page_token_def vfield_def is_obj_def)
qed simp_all

text \<open>
  C35. The resource of a validated event. \<^verbatim>\<open>build_scanner_resource\<close> never refuses a validated event, and builds the document that the
  event describes, field by field: the status of the directive's reason, its single ports, sorted, and its longer ranges. They
  are together exactly the ports of the directive; the target's
  address and generation and both deadlines are the event's; and the name and the label of the target are those by which a later event finds
  the resource to cancel it.
\<close>

theorem resource_matches_directive:
  assumes "validate_event skip ev = None"
  shows "\<exists>doc status name hash. build_scanner_resource ev ns grp ver = Inr doc
    \<and> doc = scanner_document ev ns grp ver status
        (sorted_set (map pr_start (filter (\<lambda>r. pr_start r = pr_end r) (tcp_port_ranges (te_scan ev)))))
        (map (\<lambda>r. (pr_start r, pr_end r)) (filter (\<lambda>r. pr_start r \<noteq> pr_end r) (tcp_port_ranges (te_scan ev))))
    \<and> map_of REASON_STATUS (reason_value (sd_reason (te_scan ev))) = Some status
    \<and> document_ports doc = range_ports (tcp_port_ranges (te_scan ev))
    \<and> scanner_name (te_event_id ev) = Inr name \<and> json_at [''metadata'', ''name''] doc = Some (JStr name)
    \<and> target_hash (target_id (te_target ev)) = Inr hash \<and> json_at [''metadata'', ''labels'', TARGET_HASH_LABEL] doc = Some (JStr hash)
    \<and> json_at [''spec'', ''target'', ''address''] doc = Some (JStr (public_address (te_target ev)))
    \<and> json_at [''spec'', ''target'', ''generation''] doc = Some (JInt (generation (te_target ev)))
    \<and> json_at [''spec'', ''deadline''] doc = Some (JStr (iso_utc (deadline_at (te_scan ev))))
    \<and> json_at [''spec'', ''notAfter''] doc = Some (JStr (iso_utc (not_after (te_scan ev))))"
proof -
  let ?rs = "tcp_port_ranges (te_scan ev)"
  from validated_resource [OF assms] obtain st where st: "map_of REASON_STATUS (reason_value (sd_reason (te_scan ev))) = Some st"
    and doc: "build_scanner_resource ev ns grp ver = Inr (scanner_document ev ns grp ver st (single_ports ?rs) (long_ranges ?rs))" by blast
  let ?doc = "scanner_document ev ns grp ver st (single_ports ?rs) (long_ranges ?rs)"
  have "te_event_id ev \<noteq> []" "target_id (te_target ev) \<noteq> []" using doc by (simp_all add: build_scanner_resource_Inr)
  then have names: "scanner_name (te_event_id ev) = Inr (''scan-'' @ take 52 (sha256 (te_event_id ev)))"
    "target_hash (target_id (te_target ev)) = Inr (take 52 (sha256 (target_id (te_target ev))))"
    by (simp_all add: scanner_name_def target_hash_def bindR_Inr)
  have ports: "document_ports ?doc = range_ports ?rs" using document_ports_eq validated_ports [OF assms] by metis
  have fields: "json_at [''metadata'', ''name''] ?doc = Some (JStr (''scan-'' @ take 52 (sha256 (te_event_id ev))))"
    "json_at [''metadata'', ''labels'', TARGET_HASH_LABEL] ?doc = Some (JStr (take 52 (sha256 (target_id (te_target ev)))))"
    "json_at [''spec'', ''target'', ''address''] ?doc = Some (JStr (public_address (te_target ev)))"
    "json_at [''spec'', ''target'', ''generation''] ?doc = Some (JInt (generation (te_target ev)))"
    "json_at [''spec'', ''deadline''] ?doc = Some (JStr (iso_utc (deadline_at (te_scan ev))))"
    "json_at [''spec'', ''notAfter''] ?doc = Some (JStr (iso_utc (not_after (te_scan ev))))"
    by (simp_all add: scanner_document_def Let_def TARGET_HASH_LABEL_def MANAGED_BY_LABEL_def)
  show ?thesis
    unfolding single_ports_def [symmetric] long_ranges_def [symmetric]
    by (intro exI [of _ ?doc] exI [of _ st] exI conjI) (rule doc refl st ports names fields)+
qed

theorem resource_matches_directive_witness:
  "\<exists>doc. build_scanner_resource gd_event ''scanners'' SCANNER_API_GROUP SCANNER_API_VERSION = Inr doc
     \<and> document_ports doc = range_ports gd_ranges \<and> json_at [''metadata'', ''name''] doc = Some (JStr gd_name)"
proof -
  have "scanner_name (te_event_id gd_event) = Inr gd_name"
    using gd_ids by (simp add: gd_event_def scanner_name_def identifier_hash_def gd_hash_def gd_name_def)
  with resource_matches_directive [OF gd_event_ok, of "''scanners''" SCANNER_API_GROUP SCANNER_API_VERSION] show ?thesis
    by (auto simp: gd_directive_def gd_raw_directive_def)
qed

fun batch_run :: "environment \<Rightarrow> generator_services \<Rightarrow> json list \<Rightarrow> gen_world \<Rightarrow> (json \<times> bool) list \<times> gen_world" where
  "batch_run E svc [] w = ([], w)"
| "batch_run E svc (record # records) w =
     (case process_sqs_record E svc record w of (r, w1) \<Rightarrow>
      case batch_run E svc records w1 of (fs, w2) \<Rightarrow> ((record, isl r) # fs, w2))"

lemma batch_step_Inr:
  "batch_step E svc fs rd w = (Inr gs, w1) \<Longrightarrow> \<exists>m r. message_id rd = Inr m
     \<and> process_sqs_record E svc rd w = (r, w1) \<and> gs = (case r of Inl _ \<Rightarrow> fs @ [m] | Inr _ \<Rightarrow> fs)"
  by (auto simp: batch_step_def bindM_Inr liftM_Inr returnM_Inr tryX_Inr)

lemma batch_fold:
  "foldM (batch_step E svc) fs records w = (Inr gs, w') \<Longrightarrow>
     snd (batch_run E svc records w) = w'
     \<and> map Inr gs = map Inr fs @ map (message_id \<circ> fst) (filter snd (fst (batch_run E svc records w)))"
proof (induction records arbitrary: fs w)
  case (Cons rd rds)
  then obtain m r w1 where m: "message_id rd = Inr m" and r: "process_sqs_record E svc rd w = (r, w1)"
    and rest: "foldM (batch_step E svc) (case r of Inl _ \<Rightarrow> fs @ [m] | Inr _ \<Rightarrow> fs) rds w1 = (Inr gs, w')"
    by (auto simp: bindM_Inr dest!: batch_step_Inr)
  from Cons.IH [OF rest] r m show ?case by (auto split: prod.splits sum.splits)
qed (simp add: returnM_Inr)

text \<open>
  C36. Partial batch responses. When \<^verbatim>\<open>lambda_handler\<close> returns, the records were processed one
  after the other, and \<^verbatim>\<open>batchItemFailures\<close> lists, in their order, exactly the messages whose
  processing raised: no failure is acknowledged and no success is redelivered.
\<close>

theorem batch_failures_exact:
  assumes "lambda_handler E svc event w = (Inr failures, w')"
  shows "\<exists>records. vfield event ''Records'' = JArr records \<and> snd (batch_run E svc records w) = w'
    \<and> map Inr failures = map (message_id \<circ> fst) (filter snd (fst (batch_run E svc records w)))"
proof -
  from assms obtain records where "vfield event ''Records'' = JArr records"
    and "foldM (batch_step E svc) [] records w = (Inr failures, w')"
    by (auto simp: lambda_handler_def raiseM_Inr split: json.splits)
  with batch_fold [of E svc "[]" records w failures w'] show ?thesis by simp
qed

theorem batch_failures_exact_witness:
  "filter snd (fst (batch_run gd_env gd_services [gd_record] gd_start)) = []"
  using batch_failures_exact [OF gd_batch_run] by (auto simp: gd_batch_def vfield_def)

text \<open>
  Whatever the environment variables are, a configuration that
  \<^verbatim>\<open>from_environment\<close> returns has a relative event prefix that ends in exactly one
  slash, the one supported API, positive lease and retention, a positive size limit of at most
  65536 bytes, canonical networks and 12-digit accounts.
\<close>

theorem configuration_well_formed:
  assumes "from_environment env = Inr c"
  shows "config_ok c"
  using assms by (rule from_environment_ok)

definition gd_vars :: env_vars where
  "gd_vars = map_of
     [(''TARGET_EVENT_BUCKET'', ''events''), (''TARGET_EVENT_PREFIX'', '' targets ''), (''IDEMPOTENCY_TABLE'', ''claims''),
      (''EKS_CLUSTER_NAME'', ''scan''), (''K8S_NAMESPACE'', ''scanners''), (''AWS_REGION'', ''us-west-2''),
      (''AUTHORIZED_ACCOUNT_IDS'', ''123456789012''), (''DENIED_TARGET_CIDRS'', '' 10.0.0.0/8,'')]"

lemma gd_variables:
  "aliased gd_vars [''TARGET_EVENT_BUCKET''] True = Inr (Some ''events'')"
  "aliased gd_vars [''TARGET_EVENT_PREFIX''] True = Inr (Some ''targets'')"
  "aliased gd_vars [''IDEMPOTENCY_TABLE''] True = Inr (Some ''claims'')"
  "aliased gd_vars [''EKS_CLUSTER_NAME''] True = Inr (Some ''scan'')"
  "aliased gd_vars [''K8S_NAMESPACE''] True = Inr (Some ''scanners'')"
  "aliased gd_vars [''AWS_REGION'', ''AWS_DEFAULT_REGION''] True = Inr (Some ''us-west-2'')"
  "aliased gd_vars [''K8S_API_GROUP''] False = Inr None" "aliased gd_vars [''INVENTORY_TABLE''] False = Inr None"
  "positive_int gd_vars ''CLAIM_LEASE_SECONDS'' 120 = Inr 120" "positive_int gd_vars ''AUDIT_TTL_DAYS'' 30 = Inr 30"
  "positive_int gd_vars ''MAX_EVENT_BYTES'' 65536 = Inr 65536"
  "accounts gd_vars = Inr [''123456789012'']"
  "comma_values gd_vars ''DENIED_TARGET_CIDRS'' = [''10.0.0.0/8'']" "comma_values gd_vars ''ALLOWED_TARGET_CIDRS'' = []"
  "py_strip (env_get_default gd_vars ''K8S_API_VERSION'' SCANNER_API_VERSION) = SCANNER_API_VERSION"
  "py_strip (env_get_default gd_vars ''K8S_CRD_PLURAL'' SCANNER_PLURAL) = SCANNER_PLURAL"
  "py_strip (env_get_default gd_vars ''DYNAMODB_PARTITION_KEY'' ''dispatch_id'') = ''dispatch_id''"
  by code_simp+

lemma gd_network: "network_parse ''10.0.0.0/8'' = Some (0x0A000000, 8)" "network_str (0x0A000000, 8) = ''10.0.0.0/8''"
  "network_ok (0x0A000000, 8)"
proof -
  have "split_on (CHR ''/'') ''10.0.0.0/8'' = [''10.0.0.0'', ''8'']" "list_all is_digit ''8''" "digits_val ''8'' = 8"
    "split_on (CHR ''.'') ''10.0.0.0'' = [''10'', ''0'', ''0'', ''0'']" "nat_str 8 = ''8''" by code_simp+
  then show "network_parse ''10.0.0.0/8'' = Some (0x0A000000, 8)" "network_str (0x0A000000, 8) = ''10.0.0.0/8''"
    "network_ok (0x0A000000, 8)"
    by (simp_all add: network_parse_def ipv4_parse_def network_ok_def gd_octets ipv4_of_octets_def netmask_def
        mask_eq_exp_minus_1 network_str_def ipv4_str_def octets_def)
qed

definition gd_configured :: generator_config where
  "gd_configured = gd_config\<lparr>denied_target_cidrs := [(0x0A000000, 8)]\<rparr>"

lemma gd_configuration: "from_environment gd_vars = Inr gd_configured"
proof -
  have denied: "cidrs gd_vars ''DENIED_TARGET_CIDRS'' = Inr [(0x0A000000, 8)]"
    and allowed: "cidrs gd_vars ''ALLOWED_TARGET_CIDRS'' = Inr []"
    by (simp_all add: cidrs_def gd_variables canonical_network_def gd_network)
  have checks: "is_bucket ''events''" "\<not> contains ''events'' ''..''" "\<not> contains ''events'' ''.-''"
    "\<not> contains ''events'' ''-.''" "\<not> is_dotted_quad ''events''" "length (utf8 ''targets'') = 7"
    "\<not> startswith ''targets'' ''/''" "split_on (CHR ''/'') ''targets'' = [''targets'']"
    "\<not> list_ex (\<lambda>ch. code ch < 32) ''targets''" "rstrip_char (CHR ''/'') ''targets'' = ''targets''"
    "is_table_name ''claims''" "is_cluster_name ''scan''" "is_dns_label ''scanners''" "is_api_group SCANNER_API_GROUP"
    "length SCANNER_API_GROUP = 23" "is_attribute_name ''dispatch_id''" "is_region_name ''us-west-2''"
    "is_account_id ''123456789012''" "py_strip ''events'' = ''events''" "py_strip ''targets'' = ''targets''"
    by code_simp+
  show ?thesis
    by (simp add: from_environment_def gd_variables denied allowed or_empty_def post_init_def Let_def checks
        gd_network gd_configured_def gd_config_def del: contains.simps list_ex_Cons_iff)
qed

theorem configuration_well_formed_witness: "config_ok gd_configured"
  using configuration_well_formed [OF gd_configuration] .

lemma cidrs_member:
  assumes "cidrs env name = Inr ns"
  shows "n \<in> set ns \<longleftrightarrow> (\<exists>v \<in> set (comma_values env name). network_parse v = Some n)"
    and "\<forall>v \<in> set (comma_values env name). \<exists>n. network_parse v = Some n"
proof -
  note ok = cidrs_ok [OF assms]
  have texts: "set (comma_values env name) = network_str ` set ns" using ok(4) by simp
  have parse: "network_parse (network_str m) = Some m" if "m \<in> set ns" for m
    using ok(1) that by (auto simp: list_all_iff intro: network_parse_str)
  show "n \<in> set ns \<longleftrightarrow> (\<exists>v \<in> set (comma_values env name). network_parse v = Some n)"
    using parse unfolding texts by auto
  show "\<forall>v \<in> set (comma_values env name). \<exists>n. network_parse v = Some n"
    using parse unfolding texts by auto
qed

lemma from_environment_cidrs:
  assumes "from_environment env = Inr c"
  shows "cidrs env ''ALLOWED_TARGET_CIDRS'' = Inr (allowed_target_cidrs c)"
    and "cidrs env ''DENIED_TARGET_CIDRS'' = Inr (denied_target_cidrs c)"
  using assms by (auto simp: from_environment_def bindR_Inr post_init_def Let_def)

text \<open>
  Scope decisions. For a configuration read from the environment, an address is in scope
  exactly when it is an IPv4 literal, every network named in \<^verbatim>\<open>DENIED_TARGET_CIDRS\<close> excludes it, and
  \<^verbatim>\<open>ALLOWED_TARGET_CIDRS\<close> names no network at all or one that includes it: a denial always wins.
\<close>

theorem scope_decision:
  assumes "from_environment env = Inr c"
  shows "target_allowed c address \<longleftrightarrow>
    (\<exists>a. ipv4_parse address = Some a
      \<and> (\<forall>v \<in> set (comma_values env ''DENIED_TARGET_CIDRS''). \<exists>n. network_parse v = Some n \<and> \<not> in_network a n)
      \<and> (comma_values env ''ALLOWED_TARGET_CIDRS'' = []
         \<or> (\<exists>v \<in> set (comma_values env ''ALLOWED_TARGET_CIDRS''). \<exists>n. network_parse v = Some n \<and> in_network a n)))"
proof -
  note allowed = cidrs_member [OF from_environment_cidrs(1) [OF assms]]
    and denied = cidrs_member [OF from_environment_cidrs(2) [OF assms]]
  have "allowed_target_cidrs c = [] \<longleftrightarrow> comma_values env ''ALLOWED_TARGET_CIDRS'' = []"
    using cidrs_ok(4) [OF from_environment_cidrs(1) [OF assms]] by (metis map_is_Nil_conv set_empty)
  moreover have "list_ex (in_network a) (denied_target_cidrs c) \<longleftrightarrow>
      \<not> (\<forall>v \<in> set (comma_values env ''DENIED_TARGET_CIDRS''). \<exists>n. network_parse v = Some n \<and> \<not> in_network a n)" for a
    using denied by (fastforce simp: list_ex_iff)
  moreover have "list_ex (in_network a) (allowed_target_cidrs c) \<longleftrightarrow>
      (\<exists>v \<in> set (comma_values env ''ALLOWED_TARGET_CIDRS''). \<exists>n. network_parse v = Some n \<and> in_network a n)" for a
    using allowed by (fastforce simp: list_ex_iff)
  ultimately show ?thesis by (auto simp: target_allowed_def split: option.splits)
qed

theorem scope_decision_witness: "\<not> target_allowed gd_configured ''10.0.0.7''"
proof -
  have "in_network 0x0A000007 (0x0A000000, 8)"
    by (simp add: in_network_def netmask_def mask_eq_exp_minus_1)
  then show ?thesis
    using scope_decision [OF gd_configuration, of "''10.0.0.7''"] by (simp add: gd_variables gd_addresses gd_network)
qed

end
