(* ===== verification/Timestamps.thy ===== *)
theory Timestamps
  imports Json
begin

text \<open>
  Reading timestamps back: \<^verbatim>\<open>datetime.fromisoformat(value.replace("Z", "+00:00"))\<close> followed by
  \<^verbatim>\<open>astimezone(UTC)\<close>, on the extended format with seconds and an offset, which is the format of every
  timestamp that the program writes. A text that is no such timestamp, is naive, or denotes no
  moment of the years 1 to 9999 raises; the other notations that the library reads are outside the
  model. The calendar conversion inverts \<^const>\<open>civil_from_days\<close>, and reading inverts
  \<^const>\<open>iso_utc\<close> on every representable moment.
\<close>

section \<open>The calendar\<close>

definition days_from_civil :: "int \<Rightarrow> int \<Rightarrow> int \<Rightarrow> int" where
  "days_from_civil y m d =
     (let y' = (if m \<le> 2 then y - 1 else y);
          era = y' div 400;
          yoe = y' mod 400;
          mp = (if 2 < m then m - 3 else m + 9);
          doy = (153 * mp + 2) div 5 + d - 1
      in era * 146097 + (365 * yoe + yoe div 4 - yoe div 100 + doy) - 719468)"

lemma div_bounds: "0 < k \<Longrightarrow> k * (n div k) \<le> n \<and> n < k * (n div k) + (k :: int)"
  by (metis add.commute add_le_cancel_left div_mult_mod_eq le_add_same_cancel1 less_add_same_cancel1 mult.commute
      pos_mod_bound pos_mod_sign add_strict_left_mono mult_div_mod_eq)

lemma year_of_era:
  fixes doe :: int
  assumes "0 \<le> doe" "doe < 146097"
    and yoe: "yoe = (doe - doe div 1460 + doe div 36524 - doe div 146096) div 365"
  shows "0 \<le> yoe" "yoe < 400"
    and "0 \<le> doe - (365 * yoe + yoe div 4 - yoe div 100)"
    and "doe - (365 * yoe + yoe div 4 - yoe div 100) \<le> 366"
proof -
  have "0 \<le> yoe \<and> yoe < 400 \<and> 0 \<le> doe - (365 * yoe + yoe div 4 - yoe div 100)
      \<and> doe - (365 * yoe + yoe div 4 - yoe div 100) \<le> 366"
  proof (cases "doe = 146096")
    case True
    then show ?thesis using yoe by simp
  next
    case False
    define a b where "a = doe div 1460" and "b = doe div 36524"
    have a: "1460 * a \<le> doe" "doe < 1460 * a + 1460" using div_bounds [of 1460 doe] by (simp_all add: a_def)
    have b: "36524 * b \<le> doe" "doe < 36524 * b + 36524" using div_bounds [of 36524 doe] by (simp_all add: b_def)
    have c: "doe div 146096 = 0" using assms(1,2) False by (intro div_pos_pos_trivial) auto
    have "yoe = (doe - a + b) div 365" unfolding yoe c a_def b_def by simp
    then have y: "365 * yoe \<le> doe - a + b" "doe - a + b < 365 * yoe + 365"
      using div_bounds [of 365 "doe - a + b"] by simp_all
    define p q where "p = yoe div 4" and "q = yoe div 100"
    have p: "4 * p \<le> yoe" "yoe < 4 * p + 4" using div_bounds [of 4 yoe] by (simp_all add: p_def)
    have q: "100 * q \<le> yoe" "yoe < 100 * q + 100" using div_bounds [of 100 yoe] by (simp_all add: q_def)
    have range: "0 \<le> b" "b \<le> 3" "0 \<le> a" using a b assms(1,2) False by linarith+
    have lower: "100 * b \<le> yoe" using a b y range by linarith
    have upper: "yoe < 100 * b + 100" using a b y range by linarith
    then have "q = b" using lower q by linarith
    have "a \<le> p + 1" "p \<le> a" using a p y range lower upper by linarith+
    then have "0 \<le> doe - (365 * yoe + p - q)" "doe - (365 * yoe + p - q) \<le> 366"
      using y \<open>q = b\<close> by linarith+
    then show ?thesis using lower upper range by (simp add: p_def q_def)
  qed
  then show "0 \<le> yoe" "yoe < 400" "0 \<le> doe - (365 * yoe + yoe div 4 - yoe div 100)"
    "doe - (365 * yoe + yoe div 4 - yoe div 100) \<le> 366" by blast+
qed

lemma month_of_day:
  fixes doy :: int
  assumes "0 \<le> doy" "doy \<le> 366" and mp: "mp = (5 * doy + 2) div 153"
  shows "0 \<le> mp" "mp \<le> 11" "1 \<le> doy - (153 * mp + 2) div 5 + 1" "doy - (153 * mp + 2) div 5 + 1 \<le> 32"
proof -
  have m: "153 * mp \<le> 5 * doy + 2" "5 * doy + 2 < 153 * mp + 153"
    using div_bounds [of 153 "5 * doy + 2"] mp by simp_all
  define k where "k = (153 * mp + 2) div 5"
  have k: "5 * k \<le> 153 * mp + 2" "153 * mp + 2 < 5 * k + 5" using div_bounds [of 5 "153 * mp + 2"] by (simp_all add: k_def)
  show "0 \<le> mp" "mp \<le> 11" using m assms(1,2) by linarith+
  show "1 \<le> doy - (153 * mp + 2) div 5 + 1" "doy - (153 * mp + 2) div 5 + 1 \<le> 32"
    unfolding k_def [symmetric] using m k by linarith+
qed

lemma days_from_civil_inverse:
  assumes "civil_from_days n = (y, m, d)"
  shows "days_from_civil y m d = n" "1 \<le> m" "m \<le> 12" "1 \<le> d" "d \<le> 32"
proof -
  define z era doe where "z = n + 719468" and "era = z div 146097" and "doe = z mod 146097"
  define yoe where "yoe = (doe - doe div 1460 + doe div 36524 - doe div 146096) div 365"
  define doy where "doy = doe - (365 * yoe + yoe div 4 - yoe div 100)"
  define mp where "mp = (5 * doy + 2) div 153"
  have doe: "0 \<le> doe" "doe < 146097" by (simp_all add: doe_def)
  note yb = year_of_era [OF doe yoe_def, folded doy_def]
  note mb = month_of_day [OF yb(3,4) mp_def]
  have res: "d = doy - (153 * mp + 2) div 5 + 1" "m = (if mp < 10 then mp + 3 else mp - 9)"
    "y = yoe + era * 400 + (if m \<le> 2 then 1 else 0)"
    using assms unfolding civil_from_days_def Let_def z_def [symmetric] era_def [symmetric] doe_def [symmetric]
      yoe_def [symmetric] doy_def [symmetric] mp_def [symmetric] by blast+
  show "1 \<le> m" "m \<le> 12" using res(2) mb(1,2) by auto
  show "1 \<le> d" "d \<le> 32" using res(1) mb(3,4) by simp_all
  have mp': "(if 2 < m then m - 3 else m + 9) = mp" using res(2) mb(1,2) by auto
  have y': "(if m \<le> 2 then y - 1 else y) = yoe + era * 400" using res(3) by auto
  have "(yoe + era * 400) div 400 = era" "(yoe + era * 400) mod 400 = yoe" using yb(1,2) by simp_all
  moreover have "365 * yoe + yoe div 4 - yoe div 100 + doy = doe" by (simp add: doy_def)
  moreover have "era * 146097 + doe = z" by (simp add: era_def doe_def)
  ultimately show "days_from_civil y m d = n"
    unfolding days_from_civil_def Let_def mp' y' by (simp add: res(1) z_def)
qed

section \<open>Reading\<close>

text \<open>A moment that a Python \<^verbatim>\<open>datetime\<close> in UTC can hold.\<close>

definition representable :: "time \<Rightarrow> bool" where
  "representable t = (case civil_from_days (t div micros_per_day) of (y, _, _) \<Rightarrow> 1 \<le> y \<and> y \<le> 9999)"

definition read_digits :: "string \<Rightarrow> int option" where
  "read_digits s = (if s \<noteq> [] \<and> list_all is_digit s then Some (int (digits_val s)) else None)"

text \<open>\<^verbatim>\<open>YYYY-MM-DD\<close>: a date is valid when it is the civil date of its day number.\<close>

definition read_date :: "string \<Rightarrow> int option" where
  "read_date s =
     (if length s = 10 \<and> s ! 4 = CHR ''-'' \<and> s ! 7 = CHR ''-''
      then case (read_digits (take 4 s), read_digits (take 2 (drop 5 s)), read_digits (drop 8 s)) of
          (Some y, Some m, Some d) \<Rightarrow>
            if civil_from_days (days_from_civil y m d) = (y, m, d) then Some (days_from_civil y m d) else None
        | _ \<Rightarrow> None
      else None)"

text \<open>\<^verbatim>\<open>HH:MM:SS\<close>, in seconds.\<close>

definition read_clock_time :: "string \<Rightarrow> int option" where
  "read_clock_time s =
     (if length s = 8 \<and> s ! 2 = CHR '':'' \<and> s ! 5 = CHR '':''
      then case (read_digits (take 2 s), read_digits (take 2 (drop 3 s)), read_digits (drop 6 s)) of
          (Some h, Some m, Some sec) \<Rightarrow>
            if h < 24 \<and> m < 60 \<and> sec < 60 then Some (3600 * h + 60 * m + sec) else None
        | _ \<Rightarrow> None
      else None)"

text \<open>A fraction in microseconds, truncated to six digits, and what follows it.\<close>

definition read_fraction :: "string \<Rightarrow> (int \<times> string) option" where
  "read_fraction s =
     (case s of
        c # cs \<Rightarrow>
          if c \<in> {CHR ''.'', CHR '',''}
          then (let ds = takeWhile is_digit cs in
                if ds = [] then None
                else Some (int (digits_val (take 6 (ds @ ''000000''))), dropWhile is_digit cs))
          else Some (0, s)
      | [] \<Rightarrow> Some (0, []))"

text \<open>An offset \<^verbatim>\<open>Z\<close> or \<^verbatim>\<open>+HH:MM\<close> or \<^verbatim>\<open>-HH:MM\<close>, in seconds.\<close>

definition read_offset :: "string \<Rightarrow> int option" where
  "read_offset s =
     (if s = ''Z'' then Some 0
      else if length s = 6 \<and> hd s \<in> {CHR ''+'', CHR ''-''} \<and> s ! 3 = CHR '':''
      then case (read_digits (take 2 (drop 1 s)), read_digits (drop 4 s)) of
          (Some h, Some m) \<Rightarrow>
            if h < 24 \<and> m < 60 then Some ((if hd s = CHR ''-'' then -1 else 1) * (3600 * h + 60 * m)) else None
        | _ \<Rightarrow> None
      else None)"

definition iso_parse :: "string \<Rightarrow> time option" where
  "iso_parse s =
     (case (read_date (take 10 s), read_clock_time (take 8 (drop 11 s)), read_fraction (drop 19 s)) of
        (Some n, Some sec, Some (us, rest)) \<Rightarrow>
          (case read_offset rest of
             Some off \<Rightarrow>
               (let t = n * micros_per_day + (sec - off) * 1000000 + us in
                if representable t then Some t else None)
           | None \<Rightarrow> None)
      | _ \<Rightarrow> None)"

lemma iso_parse_representable: "iso_parse s = Some t \<Longrightarrow> representable t"
  by (auto simp: iso_parse_def Let_def split: option.splits if_splits)

section \<open>Reading what was written\<close>

lemma nat_str_all: "list_all is_digit (nat_str n)"
  by (auto simp: list_all_iff dest: nat_str_digits)

lemma is_digit_zero [simp]: "is_digit (CHR ''0'')"
  by (simp add: is_digit_def code_def)

lemma digits_val_zeros: "digits_val (replicate k (CHR ''0'') @ s) = digits_val s"
  by (induction k) (simp_all add: digits_val_def code_def)

lemma padded_text:
  assumes "n < 10 ^ w" "0 < w"
  shows "length (padded w n) = w" "list_all is_digit (padded w n)" "digits_val (padded w n) = n" "padded w n \<noteq> []"
    and "read_digits (padded w n) = Some (int n)"
proof -
  show len: "length (padded w n) = w" using length_nat_str [OF assms] by (simp add: padded_def)
  show ds: "list_all is_digit (padded w n)" by (auto simp: padded_def list_all_iff dest: nat_str_digits)
  show v: "digits_val (padded w n) = n" by (simp add: padded_def digits_val_zeros)
  show ne: "padded w n \<noteq> []" by (simp add: padded_def)
  show "read_digits (padded w n) = Some (int n)" using ds v ne by (simp add: read_digits_def)
qed

lemma read_date_padded:
  assumes "0 \<le> y" "y < 10000" and c: "civil_from_days n = (y, m, d)"
  shows "read_date (padded 4 (nat y) @ ''-'' @ padded 2 (nat m) @ ''-'' @ padded 2 (nat d)) = Some n"
    and "length (padded 4 (nat y) @ ''-'' @ padded 2 (nat m) @ ''-'' @ padded 2 (nat d)) = 10"
proof -
  note cd = days_from_civil_inverse [OF c]
  have b: "nat y < 10 ^ 4" "nat m < 10 ^ 2" "nat d < 10 ^ 2" using assms(1,2) cd by auto
  note lens = padded_text(1) [OF b(1)] padded_text(1) [OF b(2)] padded_text(1) [OF b(3)]
  note vals = padded_text(5) [OF b(1)] padded_text(5) [OF b(2)] padded_text(5) [OF b(3)]
  show "length (padded 4 (nat y) @ ''-'' @ padded 2 (nat m) @ ''-'' @ padded 2 (nat d)) = 10"
    using lens by simp
  show "read_date (padded 4 (nat y) @ ''-'' @ padded 2 (nat m) @ ''-'' @ padded 2 (nat d)) = Some n"
    using lens vals cd c assms(1,2) by (simp add: read_date_def nth_append)
qed

lemma read_clock_padded:
  assumes "0 \<le> sec" "sec < 86400"
  shows "read_clock_time (padded 2 (nat (sec div 3600)) @ '':'' @ padded 2 (nat (sec div 60 mod 60)) @ '':''
            @ padded 2 (nat (sec mod 60))) = Some sec"
    and "length (padded 2 (nat (sec div 3600)) @ '':'' @ padded 2 (nat (sec div 60 mod 60)) @ '':''
            @ padded 2 (nat (sec mod 60))) = 8"
proof -
  define h m s where "h = sec div 3600" and "m = sec div 60 mod 60" and "s = sec mod 60"
  have r: "0 \<le> h" "h < 24" "0 \<le> m" "m < 60" "0 \<le> s" "s < 60"
    using assms by (simp_all add: h_def m_def s_def div_less_iff_less_mult pos_imp_zdiv_nonneg_iff)
  have h60: "sec div 60 div 60 = h" by (simp add: h_def zdiv_zmult2_eq [symmetric])
  have "sec = 60 * (sec div 60) + s" by (simp add: s_def)
  moreover have "sec div 60 = 60 * h + m" unfolding h60 [symmetric] m_def by simp
  ultimately have sec: "3600 * h + 60 * m + s = sec" by linarith
  have b: "nat h < 10 ^ 2" "nat m < 10 ^ 2" "nat s < 10 ^ 2" using r by auto
  note lens = padded_text(1) [OF b(1)] padded_text(1) [OF b(2)] padded_text(1) [OF b(3)]
  note vals = padded_text(5) [OF b(1)] padded_text(5) [OF b(2)] padded_text(5) [OF b(3)]
  have "length (padded 2 (nat h) @ '':'' @ padded 2 (nat m) @ '':'' @ padded 2 (nat s)) = 8"
    using lens by simp
  moreover have "read_clock_time (padded 2 (nat h) @ '':'' @ padded 2 (nat m) @ '':'' @ padded 2 (nat s)) = Some sec"
    using lens vals r sec by (simp add: read_clock_time_def nth_append)
  ultimately show "read_clock_time (padded 2 (nat (sec div 3600)) @ '':'' @ padded 2 (nat (sec div 60 mod 60)) @ '':''
            @ padded 2 (nat (sec mod 60))) = Some sec"
    and "length (padded 2 (nat (sec div 3600)) @ '':'' @ padded 2 (nat (sec div 60 mod 60)) @ '':''
            @ padded 2 (nat (sec mod 60))) = 8"
    by (simp_all add: h_def m_def s_def)
qed

lemma takeWhile_digits:
  "list_all is_digit ds \<Longrightarrow> takeWhile is_digit (ds @ ''Z'') = ds"
  "list_all is_digit ds \<Longrightarrow> dropWhile is_digit (ds @ ''Z'') = ''Z''"
proof -
  have z: "\<not> is_digit (CHR ''Z'')" by (simp add: is_digit_def code_def)
  show "list_all is_digit ds \<Longrightarrow> takeWhile is_digit (ds @ ''Z'') = ds"
    by (induction ds) (simp_all add: z)
  show "list_all is_digit ds \<Longrightarrow> dropWhile is_digit (ds @ ''Z'') = ''Z''"
    by (induction ds) (simp_all add: z)
qed

definition written_fraction :: "int \<Rightarrow> string" where
  "written_fraction us = (if us = 0 then [] else ''.'' @ padded 6 (nat us)) @ ''Z''"

lemma read_fraction_written:
  assumes "0 \<le> us" "us < 1000000"
  shows "read_fraction (written_fraction us) = Some (us, ''Z'')"
proof (cases "us = 0")
  case False
  have b: "nat us < 10 ^ 6" using assms by simp
  note p = padded_text [OF b]
  have "take 6 (padded 6 (nat us) @ ''000000'') = padded 6 (nat us)" using p(1) by simp
  then show ?thesis using False p assms takeWhile_digits [of "padded 6 (nat us)"]
    by (simp add: read_fraction_def written_fraction_def)
qed (simp add: read_fraction_def written_fraction_def)

lemma iso_parse_utc:
  assumes "representable t"
  shows "iso_parse (iso_utc t) = Some t"
proof -
  obtain y m d where c: "civil_from_days (t div micros_per_day) = (y, m, d)" by (metis prod_cases3)
  have y: "1 \<le> y" "y \<le> 9999" using assms c by (simp_all add: representable_def)
  define us where "us = t mod micros_per_day"
  define sec fr where "sec = us div 1000000" and "fr = us mod 1000000"
  have us: "0 \<le> us" "us < micros_per_day" by (simp_all add: us_def micros_per_day_def)
  have sec: "0 \<le> sec" "sec < 86400"
    using us by (simp_all add: sec_def micros_per_day_def div_less_iff_less_mult pos_imp_zdiv_nonneg_iff)
  have fr: "0 \<le> fr" "fr < 1000000" by (simp_all add: fr_def)
  define D where "D = padded 4 (nat y) @ ''-'' @ padded 2 (nat m) @ ''-'' @ padded 2 (nat d)"
  define C where "C = padded 2 (nat (sec div 3600)) @ '':'' @ padded 2 (nat (sec div 60 mod 60)) @ '':'' @ padded 2 (nat (sec mod 60))"
  have D: "read_date D = Some (t div micros_per_day)" "length D = 10"
    using read_date_padded [OF _ _ c] y by (simp_all add: D_def)
  have C: "read_clock_time C = Some sec" "length C = 8" using read_clock_padded [OF sec] by (simp_all add: C_def)
  have F: "read_fraction (written_fraction fr) = Some (fr, ''Z'')" using read_fraction_written [OF fr] .
  have s: "iso_utc t = D @ ''T'' @ C @ written_fraction fr"
    by (simp add: iso_utc_def c D_def C_def written_fraction_def us_def [symmetric] Let_def
        sec_def [symmetric] fr_def [symmetric])
  have "t div micros_per_day * micros_per_day + sec * 1000000 + fr = t"
    using div_mult_mod_eq [of t micros_per_day] div_mult_mod_eq [of us 1000000] by (simp add: sec_def fr_def us_def)
  then show ?thesis
    using D C F assms by (simp add: iso_parse_def s read_offset_def Let_def)
qed

lemma iso_utc_inject: "representable s \<Longrightarrow> representable t \<Longrightarrow> iso_utc s = iso_utc t \<longleftrightarrow> s = t"
  by (metis iso_parse_utc option.inject)

end
