(* ===== verification/Inventory_Target.thy ===== *)
theory Inventory_Target
  imports Json_Roundtrip Timestamps Pyvalue Contract_Event "HOL-Library.Multiset"
begin

text \<open>
  The normalized target of the inventory (\<^verbatim>\<open>inventory/.../aws/normalize.py\<close> and the candidate ports of
  \<^verbatim>\<open>inventory/.../base.py\<close>): one public address of a network interface, with its lifecycle, its
  security groups and the versions of what was observed. Its identity, its state signature, the
  ways in which a new observation keeps what an earlier one knew, and its form in the state table.
\<close>

section \<open>Errors\<close>

datatype inv_error =
    Inv_value string                                   \<comment> \<open>\<^verbatim>\<open>ValueError\<close>\<close>
  | Inv_key string                                     \<comment> \<open>\<^verbatim>\<open>KeyError\<close>\<close>
  | Inv_type string                                    \<comment> \<open>\<^verbatim>\<open>TypeError\<close> or \<^verbatim>\<open>AttributeError\<close>\<close>
  | Inv_contract contract_error                        \<comment> \<open>a contract model refuses its values\<close>
  | Inv_aws string "string option list option"         \<comment> \<open>a client error: code and cancellation reasons\<close>
  | Inv_race string                                    \<comment> \<open>an error of the handlers\<close>
  | Inv_killed                                         \<comment> \<open>the worker ends: no \<^verbatim>\<open>Exception\<close>\<close>

section \<open>Candidate ports\<close>

record candidate_ports =
  cp_ranges :: "(int \<times> int) list"
  cp_full_tcp :: bool

fun candidate_loop :: "int \<Rightarrow> (int \<times> int) list \<Rightarrow> inv_error + unit" where
  "candidate_loop previous_end [] = Inr ()"
| "candidate_loop previous_end ((start, stop) # rest) =
     (if \<not> (1 \<le> start \<and> start \<le> stop \<and> stop \<le> 65535)
      then Inl (Inv_value ''TCP range must be within 1..65535'')
      else if start \<le> previous_end
      then Inl (Inv_value ''TCP ranges must be sorted and non-overlapping'')
      else candidate_loop stop rest)"

definition candidate_ports :: "(int \<times> int) list \<Rightarrow> bool \<Rightarrow> inv_error + candidate_ports" where
  "candidate_ports ranges full_tcp =
     (if full_tcp \<and> ranges \<notin> {[], [(1, 65535)]}
      then Inl (Inv_value ''full TCP cannot be combined with partial ranges'')
      else bindR (candidate_loop 0 ranges) (\<lambda>_. Inr \<lparr>cp_ranges = ranges, cp_full_tcp = full_tcp\<rparr>))"

definition full_candidate :: candidate_ports where
  "full_candidate = \<lparr>cp_ranges = [(1, 65535)], cp_full_tcp = True\<rparr>"

section \<open>Addresses\<close>

definition is_hex_id :: "string \<Rightarrow> string \<Rightarrow> bool" where
  "is_hex_id p s \<longleftrightarrow> startswith s p \<and> drop (length p) s \<noteq> [] \<and> list_all is_hex (drop (length p) s)"

definition validate_private_ip :: "string \<Rightarrow> inv_error + string" where
  "validate_private_ip s =
     (case ipv4_parse s of None \<Rightarrow> Inl (Inv_value ''address'') | Some a \<Rightarrow> Inr (ipv4_str a))"

definition validate_public_association :: "string \<Rightarrow> inv_error + string" where
  "validate_public_association s =
     (case ipv4_parse s of
        None \<Rightarrow> Inl (Inv_value ''address'')
      | Some a \<Rightarrow>
          if \<not> is_global a \<and> \<not> list_ex (in_network a) documentation_networks
          then Inl (Inv_value ''association is not a public IPv4 address'')
          else Inr (ipv4_str a))"

section \<open>The target\<close>

record normalized_target =
  nt_account_id :: string
  nt_region :: string
  nt_network_interface_id :: string
  nt_private_ip :: string
  nt_public_ip :: string
  nt_instance_id :: "string option"
  nt_lifecycle :: string
  nt_security_group_ids :: "string list"
  nt_policy_fingerprint :: string
  nt_attachment_id :: "string option"
  nt_allocation_id :: "string option"
  nt_association_id :: "string option"
  nt_tags :: "(string \<times> string) list"
  nt_candidate_ports :: candidate_ports
  nt_managed_canary :: bool
  nt_source_event_name :: "string option"
  nt_source_event_id :: "string option"
  nt_source_request_id :: "string option"
  nt_source_event_time :: "time option"
  nt_observed_at :: "time option"
  nt_eni_observed_at :: "time option"
  nt_security_group_observed_at :: "(string \<times> time) list"

text \<open>
  \<^verbatim>\<open>NormalizedTarget(...)\<close>: the checks of \<^verbatim>\<open>__post_init__\<close>. Every timestamp is aware and in UTC
  already.
\<close>

definition normalized :: "normalized_target \<Rightarrow> inv_error + normalized_target" where
  "normalized t =
     bindR (ensure (is_account_id (nt_account_id t)) (Inv_value ''invalid account identifier'')) (\<lambda>_.
     bindR (ensure (is_hex_id ''eni-'' (nt_network_interface_id t))
              (Inv_value ''invalid network-interface identifier'')) (\<lambda>_.
     bindR (validate_private_ip (nt_private_ip t)) (\<lambda>_.
     bindR (validate_public_association (nt_public_ip t)) (\<lambda>_.
     bindR (ensure (sorted_set (nt_security_group_ids t) = nt_security_group_ids t)
              (Inv_value ''security_group_ids must be sorted and unique'')) (\<lambda>_.
     bindR (ensure (sort (nt_tags t) = nt_tags t) (Inv_value ''tags must be sorted'')) (\<lambda>_.
     bindR (ensure (is_sha256_hex (nt_policy_fingerprint t)) (Inv_value ''invalid policy fingerprint'')) (\<lambda>_.
     bindR (ensure (nt_security_group_observed_at t = sort (nt_security_group_observed_at t))
              (Inv_value ''security-group observation times must be sorted'')) (\<lambda>_.
     bindR (ensure (list_all (\<lambda>(g, _). g \<in> set (nt_security_group_ids t)) (nt_security_group_observed_at t))
              (Inv_value ''security-group observation does not belong to the target'')) (\<lambda>_.
     Inr t)))))))))"

definition stable_target_id :: "string \<Rightarrow> string \<Rightarrow> string \<Rightarrow> string \<Rightarrow> string" where
  "stable_target_id account reg eni address =
     ''aws:'' @ account @ '':'' @ reg @ '':eni:'' @ eni @ '':private-ip:'' @ address"

definition nt_target_id :: "normalized_target \<Rightarrow> string" where
  "nt_target_id t =
     stable_target_id (nt_account_id t) (nt_region t) (nt_network_interface_id t) (nt_private_ip t)"

definition state_signature :: "normalized_target \<Rightarrow> string" where
  "state_signature t = sha256 (dumps (JArr
     [JStr (nt_public_ip t), JStr (nt_lifecycle t), JArr (map JStr (nt_security_group_ids t)),
      JStr (nt_policy_fingerprint t)]))"

section \<open>Observations\<close>

text \<open>\<^verbatim>\<open>dataclasses.replace\<close> runs the checks again on the changed fields.\<close>

definition with_observation :: "time \<Rightarrow> normalized_target \<Rightarrow> inv_error + normalized_target" where
  "with_observation at t = normalized (t\<lparr>nt_observed_at := Some at\<rparr>)"

definition with_signal :: "string \<Rightarrow> string \<Rightarrow> string option \<Rightarrow> time option \<Rightarrow> candidate_ports \<Rightarrow> time option
    \<Rightarrow> normalized_target \<Rightarrow> inv_error + normalized_target" where
  "with_signal name eid request etime candidate at t =
     bindR (normalized (t\<lparr>nt_source_event_name := Some name, nt_source_event_id := Some eid,
              nt_source_request_id := request, nt_source_event_time := etime,
              nt_candidate_ports := candidate,
              nt_observed_at := (case at of Some x \<Rightarrow> Some x | None \<Rightarrow> nt_observed_at t)\<rparr>)) (\<lambda>t'.
     case at of Some x \<Rightarrow> with_observation x t' | None \<Rightarrow> Inr t')"

definition eni_state :: "normalized_target
    \<Rightarrow> string \<times> string option \<times> string \<times> string list \<times> string option \<times> string option \<times> string option" where
  "eni_state t = (nt_public_ip t, nt_instance_id t, nt_lifecycle t, nt_security_group_ids t,
     nt_attachment_id t, nt_allocation_id t, nt_association_id t)"

definition preserving_component_versions :: "normalized_target \<Rightarrow> normalized_target \<Rightarrow> inv_error + normalized_target" where
  "preserving_component_versions previous t = normalized
     (t\<lparr>nt_eni_observed_at := (if eni_state t = eni_state previous then nt_eni_observed_at previous else None),
        nt_security_group_observed_at :=
          (if nt_security_group_ids t = nt_security_group_ids previous
              \<and> nt_policy_fingerprint t = nt_policy_fingerprint previous
           then nt_security_group_observed_at previous else [])\<rparr>)"

definition set_member :: "string \<Rightarrow> json \<Rightarrow> (string \<times> json) list \<Rightarrow> (string \<times> json) list" where
  "set_member k v kvs = AList.update k v kvs"

text \<open>
  \<^verbatim>\<open>preserving_known_lifecycle\<close>. A lifecycle that is no JSON text changes nothing; one that is not an
  object has no \<^verbatim>\<open>get\<close> and raises.
\<close>

definition preserving_known_lifecycle :: "normalized_target \<Rightarrow> normalized_target \<Rightarrow> inv_error + normalized_target" where
  "preserving_known_lifecycle previous t =
     (case (loads dict_hook (nt_lifecycle t), loads dict_hook (nt_lifecycle previous)) of
        (Inr current, Inr known) \<Rightarrow>
          if \<not> is_obj current then Inl (Inv_type ''get'')
          else if vfield current ''instance'' \<noteq> JStr ''unknown'' then Inr t
          else if \<not> is_obj known then Inl (Inv_type ''get'')
          else if vfield known ''instance'' = JStr ''unknown'' then Inr t
          else (case obj_get ''instance'' known of
              None \<Rightarrow> Inl (Inv_key ''instance'')
            | Some i \<Rightarrow>
                (case current of
                   JObj kvs \<Rightarrow> normalized (t\<lparr>nt_lifecycle := dumps (JObj (set_member ''instance'' i kvs))\<rparr>)
                 | _ \<Rightarrow> Inr t))
      | _ \<Rightarrow> Inr t)"

section \<open>Lifecycles\<close>

text \<open>The members of a lifecycle are texts or \<^verbatim>\<open>None\<close>: \<^verbatim>\<open>_lifecycle\<close> writes no others.\<close>

definition lifecycle_object :: "string \<Rightarrow> json option" where
  "lifecycle_object s = (case loads dict_hook s of Inr v \<Rightarrow> if is_obj v then Some v else None | Inl _ \<Rightarrow> None)"

definition lifecycle_is_active :: "string \<Rightarrow> bool" where
  "lifecycle_is_active s =
     (case lifecycle_object s of
        None \<Rightarrow> False
      | Some v \<Rightarrow>
          vfield v ''eni'' = JStr ''in-use''
          \<and> vfield v ''attachment'' \<notin> {JStr ''detached'', JStr ''detaching''}
          \<and> vfield v ''instance'' \<notin> {JStr ''shutting-down'', JStr ''stopped'', JStr ''stopping'', JStr ''terminated''})"

definition lifecycle_matches :: "string \<Rightarrow> string \<Rightarrow> bool" where
  "lifecycle_matches expected current =
     (case (lifecycle_object expected, lifecycle_object current) of
        (Some e, Some c) \<Rightarrow>
          py_eq (vfield e ''eni'') (vfield c ''eni'')
          \<and> py_eq (vfield e ''attachment'') (vfield c ''attachment'')
          \<and> py_eq (vfield e ''instance_id'') (vfield c ''instance_id'')
          \<and> (vfield e ''instance'' = JStr ''unknown'' \<or> py_eq (vfield e ''instance'') (vfield c ''instance''))
      | _ \<Rightarrow> False)"

section \<open>The form in the state table\<close>

definition py_dict :: "(string \<times> 'a) list \<Rightarrow> (string \<times> 'a) list" where
  "py_dict pairs = foldl (\<lambda>d (k, v). AList.update k v d) [] pairs"

definition to_state_dict :: "normalized_target \<Rightarrow> json" where
  "to_state_dict t = JObj
     [(''account_id'', JStr (nt_account_id t)), (''region'', JStr (nt_region t)),
      (''network_interface_id'', JStr (nt_network_interface_id t)),
      (''private_ip'', JStr (nt_private_ip t)), (''public_ip'', JStr (nt_public_ip t)),
      (''instance_id'', jopt JStr (nt_instance_id t)), (''lifecycle'', JStr (nt_lifecycle t)),
      (''security_group_ids'', JArr (map JStr (nt_security_group_ids t))),
      (''policy_fingerprint'', JStr (nt_policy_fingerprint t)),
      (''attachment_id'', jopt JStr (nt_attachment_id t)),
      (''allocation_id'', jopt JStr (nt_allocation_id t)),
      (''association_id'', jopt JStr (nt_association_id t)),
      (''tags'', JObj (py_dict (map (\<lambda>(k, v). (k, JStr v)) (nt_tags t)))),
      (''managed_canary'', JBool (nt_managed_canary t)),
      (''observed_at'', jopt jtime (nt_observed_at t)),
      (''eni_observed_at'', jopt jtime (nt_eni_observed_at t)),
      (''security_group_observed_at'',
         JObj (py_dict (map (\<lambda>(g, at). (g, jtime at)) (nt_security_group_observed_at t))))]"

definition required :: "string \<Rightarrow> json \<Rightarrow> inv_error + string" where
  "required k v = (case obj_get k v of None \<Rightarrow> Inl (Inv_key k) | Some x \<Rightarrow> Inr (py_str x))"

text \<open>\<^verbatim>\<open>str(value[k]) if value.get(k) else None\<close>\<close>

definition optional :: "string \<Rightarrow> json \<Rightarrow> string option" where
  "optional k v = (if truthy (vfield v k) then Some (py_str (vfield v k)) else None)"

definition read_time :: "string \<Rightarrow> inv_error + time" where
  "read_time s = (case iso_parse s of None \<Rightarrow> Inl (Inv_value ''timestamp'') | Some t \<Rightarrow> Inr t)"

definition optional_time :: "string \<Rightarrow> json \<Rightarrow> inv_error + time option" where
  "optional_time k v =
     (case vfield v k of
        JStr s \<Rightarrow> if s = [] then Inr None else bindR (read_time s) (\<lambda>t. Inr (Some t))
      | _ \<Rightarrow> Inr None)"

text \<open>Iterating over a value: the elements of a list, the keys of an object, the characters of a text.\<close>

definition iterate :: "json \<Rightarrow> inv_error + json list" where
  "iterate v =
     (case v of
        JArr vs \<Rightarrow> Inr vs
      | JObj kvs \<Rightarrow> Inr (map (\<lambda>(k, _). JStr k) kvs)
      | JStr s \<Rightarrow> Inr (map (\<lambda>c. JStr [c]) s)
      | _ \<Rightarrow> Inl (Inv_type ''not iterable''))"

definition state_tags :: "json \<Rightarrow> inv_error + (string \<times> string) list" where
  "state_tags v =
     (if truthy (vfield v ''tags'')
      then (case vfield v ''tags'' of
              JObj kvs \<Rightarrow> Inr (sort (map (\<lambda>(k, x). (k, py_str x)) kvs))
            | _ \<Rightarrow> Inl (Inv_type ''items''))
      else Inr [])"

definition group_observations :: "json \<Rightarrow> inv_error + (string \<times> time) list" where
  "group_observations v =
     (if truthy (vfield v ''security_group_observed_at'')
      then (case vfield v ''security_group_observed_at'' of
              JObj kvs \<Rightarrow>
                bindR (mapR (\<lambda>(g, x). bindR (read_time (py_str x)) (\<lambda>t. Inr (g, t))) kvs) (\<lambda>os. Inr (sort os))
            | _ \<Rightarrow> Inl (Inv_value ''invalid security-group observation versions''))
      else Inr [])"

definition from_state_dict :: "json \<Rightarrow> inv_error + normalized_target" where
  "from_state_dict v =
     bindR (ensure (is_obj v) (Inv_type ''get'')) (\<lambda>_.
     bindR (optional_time ''observed_at'' v) (\<lambda>observed.
     bindR (optional_time ''eni_observed_at'' v) (\<lambda>eni_observed.
     bindR (group_observations v) (\<lambda>observations.
     bindR (required ''account_id'' v) (\<lambda>account.
     bindR (required ''region'' v) (\<lambda>reg.
     bindR (required ''network_interface_id'' v) (\<lambda>eni.
     bindR (required ''private_ip'' v) (\<lambda>private.
     bindR (required ''public_ip'' v) (\<lambda>public.
     bindR (required ''lifecycle'' v) (\<lambda>lifecycle.
     bindR (case obj_get ''security_group_ids'' v of
              None \<Rightarrow> Inl (Inv_key ''security_group_ids'') | Some x \<Rightarrow> iterate x) (\<lambda>groups.
     bindR (required ''policy_fingerprint'' v) (\<lambda>fingerprint.
     bindR (state_tags v) (\<lambda>tgs.
     normalized
       \<lparr>nt_account_id = account, nt_region = reg, nt_network_interface_id = eni, nt_private_ip = private,
        nt_public_ip = public, nt_instance_id = optional ''instance_id'' v, nt_lifecycle = lifecycle,
        nt_security_group_ids = map py_str groups, nt_policy_fingerprint = fingerprint,
        nt_attachment_id = optional ''attachment_id'' v, nt_allocation_id = optional ''allocation_id'' v,
        nt_association_id = optional ''association_id'' v, nt_tags = tgs,
        nt_candidate_ports = full_candidate, nt_managed_canary = truthy (vfield v ''managed_canary''),
        nt_source_event_name = None, nt_source_event_id = None, nt_source_request_id = None,
        nt_source_event_time = None, nt_observed_at = observed, nt_eni_observed_at = eni_observed,
        nt_security_group_observed_at = observations\<rparr>)))))))))))))"

section \<open>Reading back a stored target\<close>

text \<open>
  What the state table keeps of a target, and the targets it keeps without loss: identifiers that
  are not empty, one value per tag and one observation per group, and representable times.
\<close>

definition durable :: "normalized_target \<Rightarrow> normalized_target" where
  "durable t = t\<lparr>nt_candidate_ports := full_candidate, nt_source_event_name := None, nt_source_event_id := None,
     nt_source_request_id := None, nt_source_event_time := None\<rparr>"

definition storable :: "normalized_target \<Rightarrow> bool" where
  "storable t \<longleftrightarrow> normalized t = Inr t
     \<and> nt_instance_id t \<noteq> Some [] \<and> nt_attachment_id t \<noteq> Some [] \<and> nt_allocation_id t \<noteq> Some []
     \<and> nt_association_id t \<noteq> Some []
     \<and> distinct (map fst (nt_tags t)) \<and> distinct (map fst (nt_security_group_observed_at t))
     \<and> opt_ok representable (nt_observed_at t) \<and> opt_ok representable (nt_eni_observed_at t)
     \<and> list_all (\<lambda>(_, at). representable at) (nt_security_group_observed_at t)"

lemma py_dict_distinct: "distinct (map fst ps) \<Longrightarrow> py_dict ps = ps"
  using foldl_update_distinct [of "[]" ps] by (simp add: py_dict_def)

lemma py_dict_keys: "distinct (map fst (py_dict ps))" "set (py_dict ps) \<subseteq> set ps"
proof -
  have d: "distinct (map fst (foldl (\<lambda>d (k, v). AList.update k v d) d ps))" if "distinct (map fst d)" for d :: "(string \<times> 'a) list"
    using that by (induction ps arbitrary: d) (auto simp: AList.distinct_update)
  have u: "set (AList.update k v d) \<subseteq> insert (k, v) (set d)" for k and v :: 'a and d
    by (induction d) auto
  have s: "set (foldl (\<lambda>d (k, v). AList.update k v d) d ps) \<subseteq> set d \<union> set ps" for d :: "(string \<times> 'a) list"
  proof (induction ps arbitrary: d)
    case (Cons p ps)
    then show ?case using u [of "fst p" "snd p" d] by (fastforce simp: case_prod_unfold)
  qed simp
  show "distinct (map fst (py_dict ps))" "set (py_dict ps) \<subseteq> set ps"
    using d [of "[]"] s [of "[]"] by (simp_all add: py_dict_def)
qed

lemma map_of_py_dict: "map_of (py_dict ps) k = map_of (rev ps) k"
proof -
  have "map_of (foldl (\<lambda>d (k, v). AList.update k v d) d ps) k = (map_of d ++ map_of (rev ps)) k" for d :: "(string \<times> 'a) list"
    by (induction ps arbitrary: d) (auto simp: AList.update_conv' map_add_def split: option.splits)
  from this [of "[]"] show ?thesis by (simp add: py_dict_def)
qed

lemma jopt_text: "x \<noteq> Some [] \<Longrightarrow> (if truthy (jopt JStr x) then Some (py_str (jopt JStr x)) else None) = x"
  by (cases x) (auto simp: jopt_def)

lemma iso_utc_not_Nil [simp]: "iso_utc t \<noteq> []"
  by (simp add: iso_utc_def Let_def split: prod.splits)

lemma jopt_time:
  "opt_ok representable x \<Longrightarrow>
     (case jopt jtime x of JStr s \<Rightarrow> if s = [] then Inr None else bindR (read_time s) (\<lambda>t. Inr (Some t)) | _ \<Rightarrow> Inr None)
       = Inr x"
  by (cases x) (auto simp: jopt_def jtime_def read_time_def iso_parse_utc)

lemma vfield_canon: "json_wf v \<Longrightarrow> vfield (canon v) k = canon (vfield v k)"
  by (simp add: vfield_def obj_get_canon split: option.splits)

lemma canon_simple [simp]: "canon (jopt JStr x) = jopt JStr x" "canon (jopt jtime y) = jopt jtime y"
  "canon (JArr (map JStr xs)) = JArr (map JStr xs)"
  by (cases x) (cases y; simp_all add: jopt_def jtime_def)+

lemma json_wf_simple [simp]: "json_wf (jopt JStr x)" "json_wf (jopt jtime y)" "json_wf (JArr (map JStr xs))"
  "printable (jopt JStr x)" "printable (jopt jtime y)" "printable (JArr (map JStr xs))"
  by (cases x; cases y; simp_all add: jopt_def jtime_def list_all_iff)+

lemma state_dict_json:
  assumes "storable t"
  shows "json_wf (to_state_dict t)" "printable (to_state_dict t)"
  using assms
  by (auto simp: to_state_dict_def storable_def py_dict_distinct o_def case_prod_unfold list_all_iff jtime_def)

lemma sort_of_sorted_key:
  fixes ps :: "(string \<times> 'a :: linorder) list"
  assumes "sort ps = ps" and inv: "\<And>k x. (k, x) \<in> set ps \<Longrightarrow> g (f x) = x"
  shows "sort (map (\<lambda>(k, x). (k, g x)) (sort_key fst (map (\<lambda>(k, x). (k, f x)) ps))) = ps"
proof (rule properties_for_sort)
  have "mset (map (\<lambda>(k, x). (k, g x)) (sort_key fst (map (\<lambda>(k, x). (k, f x)) ps)))
      = image_mset (\<lambda>(k, x). (k, g (f x))) (mset ps)"
    by (simp add: case_prod_unfold multiset.map_comp o_def)
  also have "\<dots> = mset ps" using inv by (intro multiset.map_ident_strong) auto
  finally show "mset ps = mset (map (\<lambda>(k, x). (k, g x)) (sort_key fst (map (\<lambda>(k, x). (k, f x)) ps)))" by simp
  show "sorted ps" using assms(1) sorted_sort by metis
qed

lemma stored_tags:
  assumes "sort ts = ts" "distinct (map fst ts)"
  shows "(if truthy (canon (JObj (py_dict (map (\<lambda>(k, v). (k, JStr v)) ts))))
     then (case canon (JObj (py_dict (map (\<lambda>(k, v). (k, JStr v)) ts))) of
             JObj kvs \<Rightarrow> Inr (sort (map (\<lambda>(k, x). (k, py_str x)) kvs)) | _ \<Rightarrow> Inl (Inv_type ''items''))
     else Inr []) = Inr ts"
proof -
  have "canon (JObj (py_dict (map (\<lambda>(k, v). (k, JStr v)) ts))) = JObj (sort_key fst (map (\<lambda>(k, v). (k, JStr v)) ts))"
    using assms(2) by (simp add: py_dict_distinct o_def case_prod_unfold)
  then show ?thesis using sort_of_sorted_key [OF assms(1), of py_str JStr] by auto
qed

definition time_of :: "json \<Rightarrow> time" where
  "time_of x = the (iso_parse (py_str x))"

lemma stored_observations:
  assumes "sort os = os" "distinct (map fst os)" "list_all (\<lambda>(_, at). representable at) os"
  shows "(if truthy (canon (JObj (py_dict (map (\<lambda>(g, at). (g, jtime at)) os))))
     then (case canon (JObj (py_dict (map (\<lambda>(g, at). (g, jtime at)) os))) of
             JObj kvs \<Rightarrow>
               bindR (mapR (\<lambda>(g, x). bindR (read_time (py_str x)) (\<lambda>t. Inr (g, t))) kvs) (\<lambda>os. Inr (sort os))
           | _ \<Rightarrow> Inl (Inv_value ''invalid security-group observation versions''))
     else Inr []) = Inr os"
proof -
  let ?kvs = "sort_key fst (map (\<lambda>(g, at). (g, jtime at)) os)"
  have c: "canon (JObj (py_dict (map (\<lambda>(g, at). (g, jtime at)) os))) = JObj ?kvs"
    using assms(2) by (simp add: py_dict_distinct o_def case_prod_unfold jtime_def)
  have t: "iso_parse (py_str (jtime at)) = Some at" if "(g, at) \<in> set os" for g at
    using that assms(3) by (auto simp: jtime_def list_all_iff iso_parse_utc)
  have "mapR (\<lambda>(g, x). bindR (read_time (py_str x)) (\<lambda>t. Inr (g, t))) ?kvs
      = (Inr (map (\<lambda>(g, x). (g, time_of x)) ?kvs) :: inv_error + _)"
    by (rule mapR_map) (auto simp: read_time_def time_of_def dest: t)
  moreover have "sort (map (\<lambda>(g, x). (g, time_of x)) ?kvs) = os"
    by (rule sort_of_sorted_key [OF assms(1)]) (simp add: time_of_def t)
  ultimately show ?thesis using c by auto
qed

lemma from_to_state_dict:
  assumes "storable t"
  shows "from_state_dict (canon (to_state_dict t)) = Inr (durable t)"
proof -
  note wf = state_dict_json [OF assms]
  let ?v = "canon (to_state_dict t)"
  have obj: "is_obj ?v" by (simp add: to_state_dict_def is_obj_def)
  have ok: "normalized t = Inr t" and s: "storable t" using assms by (simp_all add: storable_def)
  have sorted_parts: "sort (nt_tags t) = nt_tags t" "sort (nt_security_group_observed_at t) = nt_security_group_observed_at t"
    using ok by (auto simp: normalized_def bindR_Inr)
  note got = vfield_canon [OF wf(1)] obj_get_canon [OF wf(1)]
  have parts: "vfield ?v ''tags'' = canon (JObj (py_dict (map (\<lambda>(k, v). (k, JStr v)) (nt_tags t))))"
    "vfield ?v ''security_group_observed_at''
       = canon (JObj (py_dict (map (\<lambda>(g, at). (g, jtime at)) (nt_security_group_observed_at t))))"
    "vfield ?v ''observed_at'' = jopt jtime (nt_observed_at t)"
    "vfield ?v ''eni_observed_at'' = jopt jtime (nt_eni_observed_at t)"
    "vfield ?v ''instance_id'' = jopt JStr (nt_instance_id t)" "vfield ?v ''attachment_id'' = jopt JStr (nt_attachment_id t)"
    "vfield ?v ''allocation_id'' = jopt JStr (nt_allocation_id t)"
    "vfield ?v ''association_id'' = jopt JStr (nt_association_id t)"
    "vfield ?v ''managed_canary'' = JBool (nt_managed_canary t)"
    by (simp_all only: got) (simp_all add: to_state_dict_def vfield_def)
  have tags: "state_tags ?v = Inr (nt_tags t)"
    unfolding state_tags_def parts using s by (intro stored_tags sorted_parts) (simp add: storable_def)
  have observations: "group_observations ?v = Inr (nt_security_group_observed_at t)"
    unfolding group_observations_def parts
    using s by (intro stored_observations sorted_parts) (simp_all add: storable_def)
  have times: "optional_time ''observed_at'' ?v = Inr (nt_observed_at t)"
    "optional_time ''eni_observed_at'' ?v = Inr (nt_eni_observed_at t)"
    unfolding optional_time_def parts using s by (intro jopt_time; simp add: storable_def)+
  have ids: "optional ''instance_id'' ?v = nt_instance_id t" "optional ''attachment_id'' ?v = nt_attachment_id t"
    "optional ''allocation_id'' ?v = nt_allocation_id t" "optional ''association_id'' ?v = nt_association_id t"
    unfolding optional_def parts using s by (intro jopt_text; simp add: storable_def)+
  have texts: "required ''account_id'' ?v = Inr (nt_account_id t)" "required ''region'' ?v = Inr (nt_region t)"
    "required ''network_interface_id'' ?v = Inr (nt_network_interface_id t)"
    "required ''private_ip'' ?v = Inr (nt_private_ip t)" "required ''public_ip'' ?v = Inr (nt_public_ip t)"
    "required ''lifecycle'' ?v = Inr (nt_lifecycle t)"
    "required ''policy_fingerprint'' ?v = Inr (nt_policy_fingerprint t)"
    "obj_get ''security_group_ids'' ?v = Some (JArr (map JStr (nt_security_group_ids t)))"
    unfolding required_def got by (simp_all add: to_state_dict_def)
  have "normalized (durable t) = Inr (durable t)"
    using ok by (simp add: normalized_def durable_def bindR_Inr)
  moreover have "from_state_dict ?v = normalized (durable t)"
    unfolding from_state_dict_def texts tags observations times ids parts
    using obj by (cases t) (simp add: iterate_def o_def durable_def)
  ultimately show ?thesis by simp
qed

lemma state_dict_roundtrip:
  assumes "storable t"
  shows "bindR (case loads dict_hook (dumps (to_state_dict t)) of Inl _ \<Rightarrow> Inl (Inv_value ''json'') | Inr v \<Rightarrow> Inr v)
    from_state_dict = Inr (durable t)"
  using loads_dict [OF state_dict_json [OF assms]] from_to_state_dict [OF assms] by simp

end
