(* ===== verification/Inventory_Events.thy ===== *)
theory Inventory_Events
  imports Inventory_Target
begin

text \<open>
  Contracts built from normalized targets (\<^verbatim>\<open>inventory/.../events.py\<close>, and the snapshot scope of
  \<^verbatim>\<open>inventory/.../base.py\<close>): where an observation comes from, the event that announces a new or
  changed target or asks for a coverage scan, and the tombstone of a removed target.
\<close>

section \<open>Sources\<close>

record snapshot_scope =
  ss_source :: string
  ss_account_id :: "string option"
  ss_region :: "string option"
  ss_name :: "string option"

text \<open>\<^verbatim>\<open>^[a-z]{2}(?:-gov)?-[a-z]+-[0-9]+$\<close>, read on the parts between the hyphens.\<close>

definition is_aws_region :: "string \<Rightarrow> bool" where
  "is_aws_region s =
     (case split_on (CHR ''-'') s of
        [a, b, c] \<Rightarrow> length a = 2 \<and> list_all is_lower a \<and> b \<noteq> [] \<and> list_all is_lower b
                     \<and> c \<noteq> [] \<and> list_all is_digit c
      | [a, g, b, c] \<Rightarrow> length a = 2 \<and> list_all is_lower a \<and> g = ''gov'' \<and> b \<noteq> [] \<and> list_all is_lower b
                     \<and> c \<noteq> [] \<and> list_all is_digit c
      | _ \<Rightarrow> False)"

definition snapshot_scope :: "snapshot_scope \<Rightarrow> inv_error + snapshot_scope" where
  "snapshot_scope s =
     bindR (ensure (ss_source s \<in> {''aws-config'', ''ec2''}) (Inv_value ''unsupported snapshot source'')) (\<lambda>_.
     bindR (ensure (opt_ok is_account_id (ss_account_id s)) (Inv_value ''account_id must contain 12 digits'')) (\<lambda>_.
     bindR (ensure (opt_ok is_aws_region (ss_region s)) (Inv_value ''invalid AWS region'')) (\<lambda>_.
     bindR (ensure (\<not> (ss_source s = ''ec2'' \<and> (ss_account_id s = None \<or> ss_region s = None)))
              (Inv_value ''direct EC2 scope requires account_id and region'')) (\<lambda>_.
     bindR (ensure (\<not> (ss_source s = ''aws-config'' \<and> ss_name s \<in> {None, Some []}))
              (Inv_value ''AWS Config scope requires an aggregator name'')) (\<lambda>_.
     Inr s)))))"

definition or_star :: "string option \<Rightarrow> string" where
  "or_star v = (case v of None \<Rightarrow> ''*'' | Some s \<Rightarrow> if s = [] then ''*'' else s)"

definition scope_key :: "snapshot_scope \<Rightarrow> string" where
  "scope_key s =
     join '':'' [ss_source s, or_star (ss_name s), or_star (ss_account_id s), or_star (ss_region s)]"

definition scope_includes :: "snapshot_scope \<Rightarrow> string \<Rightarrow> string \<Rightarrow> bool" where
  "scope_includes s account reg \<longleftrightarrow>
     ss_account_id s \<in> {None, Some account} \<and> ss_region s \<in> {None, Some reg}"

record event_source =
  es_name :: string
  es_event_id :: string
  es_request_id :: string
  es_event_time :: time
  es_observed_at :: time

definition contract :: "contract_error + 'a \<Rightarrow> inv_error + 'a" where
  "contract r = (case r of Inl e \<Rightarrow> Inl (Inv_contract e) | Inr x \<Rightarrow> Inr x)"

lemma contract_Inr [simp]: "contract r = Inr x \<longleftrightarrow> r = Inr x"
  by (auto simp: contract_def split: sum.splits)

definition snapshot_source :: "snapshot_scope \<Rightarrow> time \<Rightarrow> time option \<Rightarrow> inv_error + event_source" where
  "snapshot_source scope collected observed =
     (let observation = (case observed of None \<Rightarrow> collected | Some t \<Rightarrow> t);
          identity = JObj [(''scope'', JStr (scope_key scope)), (''observed_at'', jtime observation),
                           (''collected_at'', jtime collected)]
      in bindR (ensure (\<not> observation > collected)
                  (Inv_value ''snapshot observation cannot be later than collection'')) (\<lambda>_.
         bindR (contract (deterministic_sha256 ''portscanner.inventory.snapshot.v1'' identity)) (\<lambda>eid.
         bindR (contract (deterministic_sha256 ''portscanner.inventory.snapshot-request.v1'' identity)) (\<lambda>rid.
         Inr \<lparr>es_name = ss_source scope, es_event_id = eid, es_request_id = rid,
              es_event_time = observation, es_observed_at = observation\<rparr>))))"

definition nonempty :: "string option \<Rightarrow> bool" where
  "nonempty v \<longleftrightarrow> v \<noteq> None \<and> v \<noteq> Some []"

definition signal_source :: "normalized_target \<Rightarrow> time \<Rightarrow> inv_error + event_source" where
  "signal_source t collected =
     (let observed = (case nt_observed_at t of None \<Rightarrow> collected | Some x \<Rightarrow> x);
          at = (case nt_source_event_time t of None \<Rightarrow> observed | Some x \<Rightarrow> x)
      in bindR (ensure (\<not> observed > collected)
                  (Inv_value ''signal observation cannot be later than collection'')) (\<lambda>_.
         case (nt_source_event_name t, nt_source_event_id t) of
           (Some name, Some eid) \<Rightarrow>
             if name = [] \<or> eid = [] then Inl (Inv_value ''signal target has no source identifiers'')
             else bindR (if nonempty (nt_source_request_id t) then Inr (the (nt_source_request_id t))
                         else contract (deterministic_sha256 ''portscanner.inventory.signal-request.v1''
                                (JObj [(''event_id'', JStr eid)]))) (\<lambda>rid.
               Inr \<lparr>es_name = name, es_event_id = eid, es_request_id = rid,
                    es_event_time = (if at > observed then observed else at), es_observed_at = observed\<rparr>)
         | _ \<Rightarrow> Inl (Inv_value ''signal target has no source identifiers'')))"

section \<open>Parts of an event\<close>

definition contract_ranges :: "candidate_ports \<Rightarrow> tcp_port_range list" where
  "contract_ranges c =
     (if cp_full_tcp c then [full_tcp_port_range]
      else map (\<lambda>(s, e). \<lparr>pr_start = s, pr_end = e\<rparr>) (cp_ranges c))"

definition contract_target :: "normalized_target \<Rightarrow> int \<Rightarrow> contract_error + target" where
  "contract_target v g = create_target
     \<lparr>target_id = [], provider = AWS, scope_id = nt_account_id v, location = nt_region v,
      resource_id = nt_network_interface_id v, private_address = nt_private_ip v,
      public_address = nt_public_ip v, address_family = IPV4, transport = TCP, generation = g\<rparr>"

definition contract_source :: "event_source \<Rightarrow> time \<Rightarrow> contract_error + source_observation" where
  "contract_source s collected = create_source
     \<lparr>observation_id = [], source_event_name = es_name s, source_event_id = es_event_id s,
      source_request_id = es_request_id s, event_time = es_event_time s,
      observed_at = es_observed_at s, collected_at = collected\<rparr>"

text \<open>\<^verbatim>\<open>allowed_tags\<close>: the last value of an allowed key, among the values that are not blank.\<close>

definition tag_of :: "string \<Rightarrow> (string \<times> string) list \<Rightarrow> string option" where
  "tag_of k ts = map_of (rev (filter (\<lambda>(_, v). \<not> is_blank v) ts)) k"

definition contract_context :: "normalized_target \<Rightarrow> event_source \<Rightarrow> candidate_ports \<Rightarrow> aws_context" where
  "contract_context v s candidate =
     \<lparr>account_id = nt_account_id v, region = nt_region v, network_interface_id = nt_network_interface_id v,
      private_ip = nt_private_ip v, public_ip = nt_public_ip v, instance_id = nt_instance_id v,
      security_group_ids = nt_security_group_ids v, policy_fingerprint = nt_policy_fingerprint v,
      candidate_tcp_port_ranges = contract_ranges candidate, ac_source_event_name = es_name s,
      ac_source_event_id = es_event_id s, ac_source_request_id = es_request_id s,
      tags = \<lparr>tag_application = tag_of ''application'' (nt_tags v), tag_environment = tag_of ''environment'' (nt_tags v),
              tag_name = tag_of ''name'' (nt_tags v), tag_service = tag_of ''service'' (nt_tags v)\<rparr>\<rparr>"

text \<open>\<^verbatim>\<open>AwsContext(...)\<close> is validated when it is built.\<close>

definition checked_context :: "aws_context \<Rightarrow> contract_error + aws_context" where
  "checked_context c = (case validate_context c of Some e \<Rightarrow> Inl e | None \<Rightarrow> Inr c)"

section \<open>Events\<close>

definition policy_changed :: "normalized_target option \<Rightarrow> normalized_target \<Rightarrow> bool" where
  "policy_changed previous current =
     (case previous of
        None \<Rightarrow> False
      | Some p \<Rightarrow> nt_security_group_ids p \<noteq> nt_security_group_ids current
                  \<or> nt_policy_fingerprint p \<noteq> nt_policy_fingerprint current)"

definition state_changed :: "normalized_target option \<Rightarrow> normalized_target \<Rightarrow> bool" where
  "state_changed previous current =
     (case previous of None \<Rightarrow> False | Some p \<Rightarrow> state_signature p \<noteq> state_signature current)"

definition event_reason_of :: "normalized_target option \<Rightarrow> normalized_target \<Rightarrow> scan_reason option \<Rightarrow> scan_reason" where
  "event_reason_of previous current reason =
     (case reason of
        Some r \<Rightarrow> r
      | None \<Rightarrow> if previous = None then NEW_TARGET
                else if policy_changed previous current then POLICY_CHANGE else TARGET_CHANGE)"

definition check_reason :: "normalized_target option \<Rightarrow> normalized_target \<Rightarrow> scan_reason \<Rightarrow> inv_error + unit" where
  "check_reason previous current reason =
     bindR (ensure (\<not> (reason = NEW_TARGET \<and> previous \<noteq> None))
              (Inv_value ''new targets must not have active previous target state'')) (\<lambda>_.
     bindR (ensure (\<not> (reason = TARGET_CHANGE \<and> previous = None))
              (Inv_value ''target changes require previous target state'')) (\<lambda>_.
     bindR (ensure (\<not> (reason = TARGET_CHANGE \<and> policy_changed previous current))
              (Inv_value ''target changes cannot include security-group policy changes'')) (\<lambda>_.
     bindR (ensure (\<not> (reason = TARGET_CHANGE \<and> \<not> state_changed previous current))
              (Inv_value ''target changes require changed target state'')) (\<lambda>_.
     ensure (\<not> (reason = POLICY_CHANGE \<and> \<not> policy_changed previous current))
       (Inv_value ''policy changes require changed security-group policy state'')))))"

record scan_plan =
  sp_candidate :: candidate_ports
  sp_ranges :: "tcp_port_range list"
  sp_profile :: scan_profile
  sp_priority :: int
  sp_deadline :: time
  sp_not_after :: time
  sp_event_type :: target_event_type

definition scan_plan :: "normalized_target \<Rightarrow> scan_reason \<Rightarrow> time \<Rightarrow> scan_plan" where
  "scan_plan current reason collected =
     (let managed_targeted = reason = NEW_TARGET \<and> nt_managed_canary current
             \<and> \<not> cp_full_tcp (nt_candidate_ports current);
          candidate = (if managed_targeted then nt_candidate_ports current else full_candidate)
      in case reason of
        POLICY_CHANGE \<Rightarrow>
          \<lparr>sp_candidate = nt_candidate_ports current, sp_ranges = contract_ranges (nt_candidate_ports current),
           sp_profile = (if cp_full_tcp (nt_candidate_ports current) then FAST_FULL_TCP else TARGETED_TCP),
           sp_priority = 200, sp_deadline = collected + minutes 5, sp_not_after = collected + minutes 30,
           sp_event_type = POLICY_CHANGED\<rparr>
      | TARGET_CHANGE \<Rightarrow>
          \<lparr>sp_candidate = full_candidate, sp_ranges = [full_tcp_port_range], sp_profile = FAST_FULL_TCP,
           sp_priority = 200, sp_deadline = collected + minutes 5, sp_not_after = collected + minutes 30,
           sp_event_type = TARGET_UPSERT\<rparr>
      | COVERAGE \<Rightarrow>
          \<lparr>sp_candidate = full_candidate, sp_ranges = [full_tcp_port_range], sp_profile = DEEP,
           sp_priority = 10, sp_deadline = collected + hours 2, sp_not_after = collected + hours 6,
           sp_event_type = RESCAN_REQUESTED\<rparr>
      | _ \<Rightarrow>
          \<lparr>sp_candidate = candidate, sp_ranges = contract_ranges candidate,
           sp_profile = (if managed_targeted then TARGETED_TCP else FAST_FULL_TCP),
           sp_priority = (if reason = MANUAL then 500 else 100),
           sp_deadline = collected + (if reason = MANUAL then minutes 10 else minutes 5),
           sp_not_after = collected + minutes 30,
           sp_event_type = (if reason = MANUAL then RESCAN_REQUESTED else TARGET_UPSERT)\<rparr>)"

definition change_of_policy :: "normalized_target option \<Rightarrow> normalized_target \<Rightarrow> string \<Rightarrow> scan_reason \<Rightarrow> time
    \<Rightarrow> tcp_port_range list \<Rightarrow> inv_error + policy_change option" where
  "change_of_policy previous current tid reason collected ranges =
     (if reason \<noteq> POLICY_CHANGE then Inr None
      else case previous of
        None \<Rightarrow> Inl (Inv_value ''policy changes require previous target state'')
      | Some p \<Rightarrow>
          bindR (contract (create_policy_change
            \<lparr>policy_change_id = [], pc_target_id = tid,
             previous_fingerprint = (if nt_policy_fingerprint p \<noteq> nt_policy_fingerprint current
                                     then Some (nt_policy_fingerprint p) else None),
             current_fingerprint = nt_policy_fingerprint current, changed_at = collected,
             pc_candidate_ranges = ranges\<rparr>)) (\<lambda>c. Inr (Some c)))"

definition build_target_event :: "normalized_target \<Rightarrow> int \<Rightarrow> event_source \<Rightarrow> time \<Rightarrow> normalized_target option
    \<Rightarrow> scan_reason option \<Rightarrow> inv_error + target_event" where
  "build_target_event current g source collected previous given =
     bindR (contract (contract_target current g)) (\<lambda>tgt.
     let reason = event_reason_of previous current given; plan = scan_plan current reason collected in
     bindR (check_reason previous current reason) (\<lambda>_.
     bindR (contract (contract_source source collected)) (\<lambda>observation.
     bindR (contract (create_directive
              \<lparr>directive_id = [], sd_target_id = target_id tgt, sd_target_generation = g, sd_reason = reason,
               sd_profile = sp_profile plan, priority = sp_priority plan, requested_at = collected,
               deadline_at = sp_deadline plan, not_after = sp_not_after plan,
               tcp_port_ranges = sp_ranges plan\<rparr>)) (\<lambda>directive.
     bindR (change_of_policy previous current (target_id tgt) reason collected (sp_ranges plan)) (\<lambda>change.
     bindR (contract (checked_context (contract_context current source (sp_candidate plan)))) (\<lambda>context.
     contract (create_event
       \<lparr>te_schema_version = ''1.0'', te_event_id = [], te_event_type = sp_event_type plan, te_target = tgt,
        te_source = observation, te_policy_change = change, te_scan = directive,
        te_aws_context = context\<rparr>)))))))"

definition build_removal_event :: "normalized_target \<Rightarrow> int \<Rightarrow> event_source \<Rightarrow> time \<Rightarrow> inv_error + target_removal" where
  "build_removal_event current g source collected =
     bindR (contract (contract_target current g)) (\<lambda>tgt.
     bindR (contract (contract_source source collected)) (\<lambda>observation.
     bindR (contract (checked_context (contract_context current source full_candidate))) (\<lambda>context.
     contract (create_removal
       \<lparr>tr_schema_version = ''1.0'', tr_event_id = [], tr_event_type = TARGET_REMOVED, tr_target = tgt,
        tr_source = observation, tr_aws_context = context, removed_at = collected\<rparr>))))"

text \<open>\<^verbatim>\<open>event_json\<close>\<close>

definition payload_text :: "target_payload \<Rightarrow> string" where
  "payload_text p = canonical_json (payload_json p)"

section \<open>What an event says\<close>

text \<open>The target that a payload is about, by the identity that the state table uses.\<close>

definition payload_context :: "target_payload \<Rightarrow> aws_context" where
  "payload_context p = (case p of Work e \<Rightarrow> te_aws_context e | Removal r \<Rightarrow> tr_aws_context r)"

definition payload_stable_id :: "target_payload \<Rightarrow> string" where
  "payload_stable_id p =
     (let c = payload_context p in
      stable_target_id (account_id c) (region c) (network_interface_id c) (private_ip c))"

definition is_coverage :: "target_payload \<Rightarrow> bool" where
  "is_coverage p = (case p of Work e \<Rightarrow> sd_reason (te_scan e) = COVERAGE | Removal _ \<Rightarrow> False)"

lemma create_target_Inr:
  "create_target m = Inr m' \<Longrightarrow> m' = m\<lparr>target_id := expected_target_id m\<rparr> \<and> validate_target False m' = None"
  unfolding create_target_def using target_model.create_valid by blast

lemma create_directive_Inr:
  "create_directive m = Inr m' \<Longrightarrow> m' = m\<lparr>directive_id := expected_directive_id m\<rparr> \<and> validate_directive False m' = None"
  unfolding create_directive_def using directive_model.create_valid by blast

lemma create_event_Inr:
  "create_event m = Inr m' \<Longrightarrow> m' = m\<lparr>te_event_id := expected_event_id m\<rparr> \<and> validate_event False m' = None"
  unfolding create_event_def using event_model.create_valid by blast

lemma create_removal_Inr:
  "create_removal m = Inr m' \<Longrightarrow> m' = m\<lparr>tr_event_id := expected_removal_id m\<rparr> \<and> validate_removal False m' = None"
  unfolding create_removal_def using removal_model.create_valid by blast

lemma build_target_event_Inr:
  assumes "build_target_event current g source collected previous given = Inr e"
  shows "validate_event False e = None" "generation (te_target e) = g" "payload_stable_id (Work e) = nt_target_id current"
    and "sd_reason (te_scan e) = event_reason_of previous current given"
    and "public_address (te_target e) = nt_public_ip current" "requested_at (te_scan e) = collected"
    and "tcp_port_ranges (te_scan e) = sp_ranges (scan_plan current (event_reason_of previous current given) collected)"
    and "security_group_ids (te_aws_context e) = nt_security_group_ids current"
    and "policy_fingerprint (te_aws_context e) = nt_policy_fingerprint current"
    and "sd_target_id (te_scan e) = target_id (te_target e)"
  using assms
  by (auto simp: build_target_event_def bindR_Inr Let_def contract_target_def checked_context_def contract_context_def
      payload_stable_id_def payload_context_def nt_target_id_def split: option.splits
      dest!: create_event_Inr create_directive_Inr create_target_Inr)

lemma build_removal_event_Inr:
  assumes "build_removal_event current g source collected = Inr r"
  shows "validate_removal False r = None" "generation (tr_target r) = g" "payload_stable_id (Removal r) = nt_target_id current"
  using assms
  by (auto simp: build_removal_event_def bindR_Inr contract_target_def checked_context_def contract_context_def
      payload_stable_id_def payload_context_def nt_target_id_def split: option.splits
      dest!: create_removal_Inr create_target_Inr)

end
