(* ===== verification/Inventory_Store.thy ===== *)
theory Inventory_Store
  imports Inventory_Events
begin

text \<open>
  The state table of the inventory (\<^verbatim>\<open>inventory/.../state.py\<close>): target states with generation fencing,
  the transactional outbox and the signal deduplication, all in one DynamoDB table.

  The table is shared. Every request is one atomic step of the service; between two requests of a
  worker the other workers, the stream consumer and the expiry of items act, and a request may
  fail, or end its worker, before or after it took effect. Both are the environment's choice. An item
  that is put under a new key also enters the stream of insertions, from which the outbox is
  dispatched.
\<close>

section \<open>The service\<close>

datatype attribute = S string | N int

type_synonym item = "(string \<times> attribute) list"

type_synonym item_key = "string \<times> string"

record store =
  st_items :: "(item_key, item) table"
  st_stream :: "item list"

datatype call_fault = Works | Fails_before inv_error | Fails_after inv_error | Dies_before | Dies_after

record inv_env =
  ie_fault :: "nat \<Rightarrow> call_fault"
  ie_others :: "nat \<Rightarrow> store \<Rightarrow> store"
  ie_scan :: "nat \<Rightarrow> string option \<Rightarrow> store \<Rightarrow> item list \<times> string option"
  ie_pages :: nat

record inv_world =
  iw_store :: store
  iw_calls :: nat

type_synonym 'a inv = "(inv_world, inv_error, 'a) eff"

definition db_call :: "inv_env \<Rightarrow> (store \<Rightarrow> (inv_error + 'a) \<times> store) \<Rightarrow> 'a inv" where
  "db_call E req w =
     (let s = ie_others E (iw_calls w) (iw_store w);
          w' = (\<lambda>t. \<lparr>iw_store = t, iw_calls = Suc (iw_calls w)\<rparr>);
          (r, s') = req s
      in case ie_fault E (iw_calls w) of
           Works \<Rightarrow> (r, w' s')
         | Fails_before e \<Rightarrow> (Inl e, w' s)
         | Fails_after e \<Rightarrow> (Inl e, w' s')
         | Dies_before \<Rightarrow> (Inl Inv_killed, w' s)
         | Dies_after \<Rightarrow> (Inl Inv_killed, w' s'))"

text \<open>\<^verbatim>\<open>except Exception\<close>, with the outcome as a value. The end of the worker is no exception.\<close>

definition attempt :: "('s, inv_error, 'a) eff \<Rightarrow> ('s, inv_error, inv_error + 'a) eff" where
  "attempt m w = (case m w of (r, w') \<Rightarrow> (if r = Inl Inv_killed then Inl Inv_killed else Inr r, w'))"

text \<open>Requests.\<close>

type_synonym condition = "item option \<Rightarrow> bool"

datatype transact_item = Put_item item_key item condition | Check_item item_key condition

definition put_row :: "item_key \<Rightarrow> item \<Rightarrow> store \<Rightarrow> store" where
  "put_row k it s = s\<lparr>st_items := tbl_put k it (st_items s),
     st_stream := (if tbl_get (st_items s) k = None then st_stream s @ [it] else st_stream s)\<rparr>"

fun condition_holds :: "store \<Rightarrow> transact_item \<Rightarrow> bool" where
  "condition_holds s (Put_item k it c) = c (tbl_get (st_items s) k)"
| "condition_holds s (Check_item k c) = c (tbl_get (st_items s) k)"

fun apply_item :: "store \<Rightarrow> transact_item \<Rightarrow> store" where
  "apply_item s (Put_item k it c) = put_row k it s"
| "apply_item s (Check_item k c) = s"

definition transact_write_items :: "transact_item list \<Rightarrow> store \<Rightarrow> (inv_error + unit) \<times> store" where
  "transact_write_items items s =
     (if list_all (condition_holds s) items then (Inr (), foldl apply_item s items)
      else (Inl (Inv_aws ''TransactionCanceledException''
              (Some (map (\<lambda>i. if condition_holds s i then None else Some ''ConditionalCheckFailed'') items))), s))"

definition put_item :: "item_key \<Rightarrow> item \<Rightarrow> condition \<Rightarrow> store \<Rightarrow> (inv_error + unit) \<times> store" where
  "put_item k it c s =
     (if c (tbl_get (st_items s) k) then (Inr (), put_row k it s)
      else (Inl (Inv_aws ''ConditionalCheckFailedException'' None), s))"

definition delete_item :: "item_key \<Rightarrow> store \<Rightarrow> (inv_error + unit) \<times> store" where
  "delete_item k s = (Inr (), s\<lparr>st_items := AList.delete k (st_items s)\<rparr>)"

definition read_item :: "item_key \<Rightarrow> store \<Rightarrow> (inv_error + item option) \<times> store" where
  "read_item k s = (Inr (tbl_get (st_items s) k), s)"

definition not_exists :: condition where
  "not_exists v \<longleftrightarrow> v = None"

text \<open>\<^verbatim>\<open>_conditional_failure\<close>\<close>

definition conditional_failure :: "inv_error \<Rightarrow> bool" where
  "conditional_failure e =
     (case e of
        Inv_aws c reasons \<Rightarrow>
          c = ''ConditionalCheckFailedException''
          \<or> (c = ''TransactionCanceledException''
             \<and> (case reasons of
                  None \<Rightarrow> False
                | Some rs \<Rightarrow>
                    (let codes = map (\<lambda>r. case r of None \<Rightarrow> ''None'' | Some x \<Rightarrow> if x = [] then ''None'' else x) rs
                     in ''ConditionalCheckFailed'' \<in> set codes
                        \<and> list_all (\<lambda>x. x \<in> {''None'', ''ConditionalCheckFailed''}) codes)))
      | _ \<Rightarrow> False)"

section \<open>Target states\<close>

datatype reconcile_action = ADDED | CHANGED | NOOP | REMOVED | RACE | REVALIDATE

record target_state =
  ts_target_id :: string
  ts_generation :: int
  ts_status :: string
  ts_target :: normalized_target
  ts_signature :: string
  ts_contract_target_id :: "string option"
  ts_observed_at :: "time option"

record reconcile_result =
  rr_action :: reconcile_action
  rr_state :: "target_state option"
  rr_event :: "target_payload option"

definition result :: "reconcile_action \<Rightarrow> target_state option \<Rightarrow> target_payload option \<Rightarrow> reconcile_result" where
  "result a s e = \<lparr>rr_action = a, rr_state = s, rr_event = e\<rparr>"

record state_store =
  sto_outbox_ttl_seconds :: int
  sto_max_retries :: nat

definition state_store :: "string \<Rightarrow> int \<Rightarrow> nat \<Rightarrow> inv_error + state_store" where
  "state_store table ttl retries =
     bindR (ensure (table \<noteq> []) (Inv_value ''table_name is required'')) (\<lambda>_.
     bindR (ensure (86400 \<le> ttl \<and> ttl \<le> 31536000)
              (Inv_value ''outbox_ttl_seconds must be between one day and one year'')) (\<lambda>_.
     Inr \<lparr>sto_outbox_ttl_seconds = ttl, sto_max_retries = retries\<rparr>))"

definition target_key :: "string \<Rightarrow> item_key" where
  "target_key tid = (''TARGET#'' @ tid, ''STATE'')"

definition outbox_key :: "string \<Rightarrow> item_key" where
  "outbox_key eid = (''OUTBOX#'' @ eid, ''EVENT'')"

definition attribute_text :: "item \<Rightarrow> string \<Rightarrow> string option" where
  "attribute_text it name =
     (case map_of it name of None \<Rightarrow> None | Some (S s) \<Rightarrow> Some s | Some (N i) \<Rightarrow> Some (int_str i))"

section \<open>Observation versions\<close>

type_synonym versions = "time option \<times> (string \<times> time) list"

definition component_versions :: "normalized_target \<Rightarrow> versions" where
  "component_versions t = (nt_eni_observed_at t, py_dict (nt_security_group_observed_at t))"

datatype observation_order = ADVANCES | NOT_NEWER | MIXED

text \<open>
  The loop over the groups of the incoming observation, with the flags \<^verbatim>\<open>advanced\<close>,
  \<^verbatim>\<open>regressed\<close> and \<^verbatim>\<open>unknown\<close>.
\<close>

fun group_loop :: "(string \<times> time) list \<Rightarrow> (string \<times> time) list \<Rightarrow> string list \<Rightarrow> bool \<times> bool \<times> bool
    \<Rightarrow> inv_error + bool \<times> bool \<times> bool" where
  "group_loop incoming previous [] flags = Inr flags"
| "group_loop incoming previous (g # gs) (advanced, regressed, unknown) =
     (case map_of incoming g of
        None \<Rightarrow> Inl (Inv_value ''Config observation has an incomplete security-group version vector'')
      | Some v \<Rightarrow>
          (case map_of previous g of
             None \<Rightarrow> group_loop incoming previous gs (advanced, regressed, True)
           | Some p \<Rightarrow> group_loop incoming previous gs (advanced \<or> v > p, regressed \<or> v < p, unknown)))"

definition config_observation_order :: "normalized_target \<Rightarrow> normalized_target \<Rightarrow> inv_error + observation_order" where
  "config_observation_order incoming previous =
     (case component_versions incoming of (incoming_eni, incoming_groups) \<Rightarrow>
      case component_versions previous of (previous_eni, previous_groups) \<Rightarrow>
      case incoming_eni of
        None \<Rightarrow> Inl (Inv_value ''Config observation has no ENI capture version'')
      | Some now \<Rightarrow>
          (let groups_changed = nt_security_group_ids incoming \<noteq> nt_security_group_ids previous;
               flags = (case previous_eni of None \<Rightarrow> (False, False, True) | Some p \<Rightarrow> (now > p, now < p, False))
           in if groups_changed \<and> previous_eni = Some now then Inr MIXED
              else bindR (group_loop incoming_groups previous_groups (nt_security_group_ids incoming) flags)
                (\<lambda>(advanced, regressed, unknown).
                 Inr (if unknown \<or> (advanced \<and> regressed) then MIXED
                      else if advanced \<or> (groups_changed \<and> \<not> regressed) then ADVANCES
                      else NOT_NEWER))))"

definition observation_version :: "normalized_target \<Rightarrow> string" where
  "observation_version t =
     (case component_versions t of (eni, groups) \<Rightarrow>
      namespaced_sha256 ''portscanner.inventory.observation-version.v1''
        (JObj [(''eni'', jopt jtime eni), (''security_groups'', JObj (map (\<lambda>(g, at). (g, jtime at)) (sort groups)))]))"

section \<open>Items\<close>

definition state_item :: "target_state \<Rightarrow> time \<Rightarrow> inv_error + item" where
  "state_item st updated =
     (case (case ts_observed_at st of None \<Rightarrow> nt_observed_at (ts_target st) | Some t \<Rightarrow> Some t) of
        None \<Rightarrow> Inl (Inv_value ''target state has no provider observation time'')
      | Some observed \<Rightarrow> Inr
          [(''pk'', S (fst (target_key (ts_target_id st)))), (''sk'', S (snd (target_key (ts_target_id st)))),
           (''entity'', S ''target''), (''status'', S (ts_status st)), (''generation'', N (ts_generation st)),
           (''signature'', S (ts_signature st)), (''target_json'', S (dumps (to_state_dict (ts_target st)))),
           (''account_id'', S (nt_account_id (ts_target st))), (''region'', S (nt_region (ts_target st))),
           (''network_interface_id'', S (nt_network_interface_id (ts_target st))),
           (''private_ip'', S (nt_private_ip (ts_target st))), (''public_ip'', S (nt_public_ip (ts_target st))),
           (''contract_target_id'', S (case ts_contract_target_id st of None \<Rightarrow> [] | Some c \<Rightarrow> c)),
           (''observed_at'', S (iso_utc observed)),
           (''observation_version'', S (observation_version (ts_target st))),
           (''updated_at'', S (iso_utc updated))])"

definition outbox_item :: "state_store \<Rightarrow> target_payload \<Rightarrow> normalized_target \<Rightarrow> time \<Rightarrow> item" where
  "outbox_item ss p t now =
     [(''pk'', S (fst (outbox_key (payload_event_id p)))), (''sk'', S (snd (outbox_key (payload_event_id p)))),
      (''entity'', S ''outbox''), (''event_id'', S (payload_event_id p)), (''event_json'', S (payload_text p)),
      (''account_id'', S (nt_account_id t)), (''region'', S (nt_region t)),
      (''delivery_ttl_seconds'', N (sto_outbox_ttl_seconds ss)), (''created_at'', S (iso_utc now))]"

definition truthy_attr :: "string option \<Rightarrow> bool" where
  "truthy_attr v \<longleftrightarrow> v \<noteq> None \<and> v \<noteq> Some []"

definition decode_state :: "item \<Rightarrow> inv_error + target_state" where
  "decode_state it =
     (case (attribute_text it ''target_json'', attribute_text it ''generation'', attribute_text it ''status'',
            attribute_text it ''pk'') of
        (Some json, Some gen, Some status, Some pk) \<Rightarrow>
          if json = [] \<or> gen = [] \<or> status = [] \<or> pk = [] \<or> \<not> startswith pk ''TARGET#''
          then Inl (Inv_value ''invalid target state item'')
          else bindR (case loads dict_hook json of Inl _ \<Rightarrow> Inl (Inv_value ''json'') | Inr v \<Rightarrow> from_state_dict v) (\<lambda>t.
            case attribute_text it ''observed_at'' of
              None \<Rightarrow> Inl (Inv_value ''target state item has no observation time'')
            | Some raw \<Rightarrow>
                (case attribute_text it ''signature'' of
                   None \<Rightarrow> Inl (Inv_value ''target state item has no signature'')
                 | Some sig \<Rightarrow>
                     bindR (read_time raw) (\<lambda>observed.
                     (case py_int gen of
                        None \<Rightarrow> Inl (Inv_value ''int'')
                      | Some g \<Rightarrow> Inr
                          \<lparr>ts_target_id = drop (length ''TARGET#'') pk, ts_generation = g, ts_status = status,
                           ts_target = t, ts_signature = sig,
                           ts_contract_target_id =
                             (if truthy_attr (attribute_text it ''contract_target_id'')
                              then attribute_text it ''contract_target_id'' else None),
                           ts_observed_at = Some observed\<rparr>))))
      | _ \<Rightarrow> Inl (Inv_value ''invalid target state item''))"

section \<open>Reading\<close>

definition get_state :: "inv_env \<Rightarrow> string \<Rightarrow> target_state option inv" where
  "get_state E tid =
     bindM (db_call E (read_item (target_key tid))) (\<lambda>v.
     case v of None \<Rightarrow> returnM None | Some it \<Rightarrow> liftM (bindR (decode_state it) (\<lambda>st. Inr (Some st))))"

text \<open>One page of \<^verbatim>\<open>list_current\<close>, and the loop over the pages; a scan of more than \<^const>\<open>ie_pages\<close> pages outlives the worker.\<close>

fun current_states :: "snapshot_scope option \<Rightarrow> item list \<Rightarrow> inv_error + target_state list" where
  "current_states scope [] = Inr []"
| "current_states scope (it # rest) =
     (if attribute_text it ''entity'' \<noteq> Some ''target'' then current_states scope rest
      else bindR (decode_state it) (\<lambda>st.
        bindR (current_states scope rest) (\<lambda>sts.
        Inr (if ts_status st = ''active''
                \<and> (case scope of None \<Rightarrow> True
                   | Some sc \<Rightarrow> scope_includes sc (nt_account_id (ts_target st)) (nt_region (ts_target st)))
             then st # sts else sts))))"

fun scan_loop :: "nat \<Rightarrow> inv_env \<Rightarrow> snapshot_scope option \<Rightarrow> string option \<Rightarrow> target_state list \<Rightarrow> target_state list inv" where
  "scan_loop 0 E scope key acc = raiseM Inv_killed"
| "scan_loop (Suc n) E scope key acc = (\<lambda>w.
     bindM (db_call E (\<lambda>s. (Inr (ie_scan E (iw_calls w) key s), s))) (\<lambda>(items, last).
     bindM (liftM (current_states scope items)) (\<lambda>sts.
     if last = None \<or> last = Some [] then returnM (sort_key ts_target_id (acc @ sts))
     else scan_loop n E scope last (acc @ sts))) w)"

definition list_current :: "inv_env \<Rightarrow> snapshot_scope option \<Rightarrow> target_state list inv" where
  "list_current E scope = scan_loop (ie_pages E) E scope None []"

section \<open>Writing\<close>

definition same_version :: "target_state \<Rightarrow> time \<Rightarrow> condition" where
  "same_version previous observed v =
     (case v of
        None \<Rightarrow> False
      | Some it \<Rightarrow>
          map_of it ''generation'' = Some (N (ts_generation previous))
          \<and> map_of it ''status'' = Some (S (ts_status previous))
          \<and> map_of it ''observed_at'' = Some (S (iso_utc observed))
          \<and> map_of it ''observation_version'' = Some (S (observation_version (ts_target previous))))"

definition write_condition :: "target_state option \<Rightarrow> inv_error + condition" where
  "write_condition previous =
     (case previous of
        None \<Rightarrow> Inr not_exists
      | Some p \<Rightarrow>
          (case ts_observed_at p of
             None \<Rightarrow> Inl (Inv_value ''previous target state has no observation time'')
           | Some observed \<Rightarrow> Inr (same_version p observed)))"

definition write_state_and_outbox :: "inv_env \<Rightarrow> state_store \<Rightarrow> target_state \<Rightarrow> target_payload \<Rightarrow> time
    \<Rightarrow> target_state option \<Rightarrow> unit inv" where
  "write_state_and_outbox E ss st p now previous =
     bindM (liftM (write_condition previous)) (\<lambda>c.
     bindM (liftM (state_item st now)) (\<lambda>it.
     db_call E (transact_write_items
       [Put_item (target_key (ts_target_id st)) it c,
        Put_item (outbox_key (payload_event_id p)) (outbox_item ss p (ts_target st) now) not_exists])))"

definition write_state_only :: "inv_env \<Rightarrow> target_state \<Rightarrow> time \<Rightarrow> target_state \<Rightarrow> unit inv" where
  "write_state_only E st now previous =
     bindM (liftM (write_condition (Some previous))) (\<lambda>c.
     bindM (liftM (state_item st now)) (\<lambda>it.
     db_call E (transact_write_items [Put_item (target_key (ts_target_id st)) it c])))"

section \<open>Reconciliation\<close>

text \<open>What an attempt of \<^verbatim>\<open>reconcile\<close> decides before it writes: to return, or to continue with a target.\<close>

datatype decision = Settled reconcile_result | Continue normalized_target time

definition compare_observation :: "normalized_target \<Rightarrow> time \<Rightarrow> bool \<Rightarrow> target_state option \<Rightarrow> inv_error + decision" where
  "compare_observation t observed from_config previous =
     (case previous of
        None \<Rightarrow> Inr (Continue t observed)
      | Some p \<Rightarrow>
          (case ts_observed_at p of
             None \<Rightarrow> Inr (Continue t observed)
           | Some known \<Rightarrow>
               if from_config
               then bindR (config_observation_order t (ts_target p)) (\<lambda>order.
                 Inr (case order of
                        MIXED \<Rightarrow> Settled (result REVALIDATE previous None)
                      | NOT_NEWER \<Rightarrow> Settled (result NOOP previous None)
                      | ADVANCES \<Rightarrow> Continue t (max observed known)))
               else if observed \<le> known then Inr (Settled (result NOOP previous None))
               else bindR (preserving_component_versions (ts_target p) t) (\<lambda>t'.
                 Inr (Continue t' (max observed known)))))"

definition is_active_state :: "target_state option \<Rightarrow> bool" where
  "is_active_state s = (case s of None \<Rightarrow> False | Some p \<Rightarrow> ts_status p = ''active'')"

definition active_target :: "target_state option \<Rightarrow> normalized_target option" where
  "active_target s = (case s of None \<Rightarrow> None | Some p \<Rightarrow> if ts_status p = ''active'' then Some (ts_target p) else None)"

definition unchanged :: "target_state option \<Rightarrow> normalized_target \<Rightarrow> bool" where
  "unchanged s t = (case s of None \<Rightarrow> False | Some p \<Rightarrow> ts_status p = ''active'' \<and> ts_signature p = state_signature t)"

text \<open>
  The two writes of an attempt. The value \<^verbatim>\<open>None\<close> is a lost race, after which the loop
  tries again.
\<close>

definition refresh :: "inv_env \<Rightarrow> target_state \<Rightarrow> normalized_target \<Rightarrow> time \<Rightarrow> time \<Rightarrow> reconcile_result option inv" where
  "refresh E p t observed now =
     (let st = \<lparr>ts_target_id = ts_target_id p, ts_generation = ts_generation p, ts_status = ts_status p,
                ts_target = t, ts_signature = state_signature t,
                ts_contract_target_id = ts_contract_target_id p, ts_observed_at = Some observed\<rparr>
      in bindM (attempt (write_state_only E st now p)) (\<lambda>r.
         case r of
           Inl e \<Rightarrow> if conditional_failure e then returnM None else raiseM e
         | Inr _ \<Rightarrow> returnM (Some (result NOOP (Some st) None))))"

definition announce :: "inv_env \<Rightarrow> state_store \<Rightarrow> target_state option \<Rightarrow> normalized_target \<Rightarrow> time \<Rightarrow> event_source \<Rightarrow> time
    \<Rightarrow> reconcile_result option inv" where
  "announce E ss previous t observed source now =
     (let g = (case previous of None \<Rightarrow> 1 | Some p \<Rightarrow> ts_generation p + 1)
      in bindM (liftM (build_target_event t g source now (active_target previous) None)) (\<lambda>e.
         let st = \<lparr>ts_target_id = nt_target_id t, ts_generation = g, ts_status = ''active'', ts_target = t,
                   ts_signature = state_signature t, ts_contract_target_id = Some (target_id (te_target e)),
                   ts_observed_at = Some observed\<rparr>
         in bindM (attempt (write_state_and_outbox E ss st (Work e) now previous)) (\<lambda>r.
            case r of
              Inl x \<Rightarrow> if conditional_failure x then returnM None else raiseM x
            | Inr _ \<Rightarrow> returnM (Some (result (if is_active_state previous then CHANGED else ADDED) (Some st)
                         (Some (Work e)))))))"

definition continue_with :: "inv_env \<Rightarrow> state_store \<Rightarrow> target_state option \<Rightarrow> normalized_target \<Rightarrow> time \<Rightarrow> event_source \<Rightarrow> time
    \<Rightarrow> reconcile_result option inv" where
  "continue_with E ss previous t observed source now =
     bindM (liftM (case active_target previous of
                     None \<Rightarrow> Inr t | Some known \<Rightarrow> preserving_known_lifecycle known t)) (\<lambda>t'.
     case previous of
       None \<Rightarrow> announce E ss previous t' observed source now
     | Some p \<Rightarrow> if unchanged previous t' then refresh E p t' observed now
                 else announce E ss previous t' observed source now)"

definition reconcile_once :: "inv_env \<Rightarrow> state_store \<Rightarrow> normalized_target \<Rightarrow> time \<Rightarrow> bool \<Rightarrow> event_source \<Rightarrow> time
    \<Rightarrow> reconcile_result option inv" where
  "reconcile_once E ss incoming observed from_config source now =
     bindM (get_state E (nt_target_id incoming)) (\<lambda>previous.
     bindM (liftM (compare_observation incoming observed from_config previous)) (\<lambda>d.
     case d of
       Settled r \<Rightarrow> returnM (Some r)
     | Continue t state_observed \<Rightarrow> continue_with E ss previous t state_observed source now))"

fun reconcile_loop :: "nat \<Rightarrow> inv_env \<Rightarrow> state_store \<Rightarrow> normalized_target \<Rightarrow> time \<Rightarrow> bool \<Rightarrow> event_source \<Rightarrow> time
    \<Rightarrow> reconcile_result inv" where
  "reconcile_loop 0 E ss incoming observed from_config source now =
     bindM (get_state E (nt_target_id incoming)) (\<lambda>st. returnM (result RACE st None))"
| "reconcile_loop (Suc n) E ss incoming observed from_config source now =
     bindM (reconcile_once E ss incoming observed from_config source now) (\<lambda>r.
     case r of
       Some res \<Rightarrow> returnM res
     | None \<Rightarrow> reconcile_loop n E ss incoming observed from_config source now)"

definition reconcile :: "inv_env \<Rightarrow> state_store \<Rightarrow> normalized_target \<Rightarrow> event_source \<Rightarrow> time \<Rightarrow> reconcile_result inv" where
  "reconcile E ss t source now =
     (let observed = (case nt_observed_at t of None \<Rightarrow> es_observed_at source | Some x \<Rightarrow> x)
      in bindM (liftM (with_observation observed t)) (\<lambda>incoming.
         reconcile_loop (sto_max_retries ss) E ss incoming observed (nt_eni_observed_at t \<noteq> None) source now))"

section \<open>Other operations\<close>

definition confirmed_versions :: "normalized_target \<Rightarrow> normalized_target \<Rightarrow> inv_error + (string \<times> time) list" where
  "confirmed_versions expected observation = mapR (\<lambda>g.
     case (map_of (py_dict (nt_security_group_observed_at expected)) g,
           map_of (py_dict (nt_security_group_observed_at observation)) g) of
       (_, None) \<Rightarrow> Inl (Inv_key g)
     | (None, Some o') \<Rightarrow> Inr (g, o')
     | (Some p, Some o') \<Rightarrow> Inr (g, max p o')) (nt_security_group_ids expected)"

definition confirm_config_versions :: "inv_env \<Rightarrow> target_state \<Rightarrow> normalized_target \<Rightarrow> time \<Rightarrow> reconcile_result inv" where
  "confirm_config_versions E expected observation now =
     (case nt_eni_observed_at observation of
        None \<Rightarrow> returnM (result NOOP (Some expected) None)
      | Some eni \<Rightarrow>
          if nt_target_id observation \<noteq> ts_target_id expected \<or> state_signature observation \<noteq> ts_signature expected
          then returnM (result NOOP (Some expected) None)
          else
            bindM (liftM (config_observation_order observation (ts_target expected))) (\<lambda>_.
            bindM (liftM (confirmed_versions (ts_target expected) observation)) (\<lambda>versions.
            bindM (liftM (normalized ((ts_target expected)\<lparr>
                nt_eni_observed_at := Some (case nt_eni_observed_at (ts_target expected) of None \<Rightarrow> eni | Some p \<Rightarrow> max p eni),
                nt_security_group_observed_at := versions\<rparr>))) (\<lambda>t.
            let st = expected\<lparr>ts_target := t\<rparr> in
            bindM (attempt (write_state_only E st now expected)) (\<lambda>r.
            case r of
              Inl e \<Rightarrow>
                if conditional_failure e
                then bindM (get_state E (ts_target_id expected)) (\<lambda>s. returnM (result RACE s None))
                else raiseM e
            | Inr _ \<Rightarrow> returnM (result NOOP (Some st) None))))))"

definition remove :: "inv_env \<Rightarrow> state_store \<Rightarrow> target_state \<Rightarrow> event_source \<Rightarrow> time \<Rightarrow> reconcile_result inv" where
  "remove E ss expected source now =
     bindM (get_state E (ts_target_id expected)) (\<lambda>current.
     case current of
       None \<Rightarrow> returnM (result RACE None None)
     | Some c \<Rightarrow>
         if ts_status c \<noteq> ''active'' \<or> ts_generation c \<noteq> ts_generation expected
         then returnM (result RACE current None)
         else if (case ts_observed_at c of None \<Rightarrow> False | Some known \<Rightarrow> es_observed_at source \<le> known)
         then returnM (result NOOP current None)
         else
           (let g = ts_generation c + 1
            in bindM (liftM (build_removal_event (ts_target c) g source now)) (\<lambda>e.
               let st = c\<lparr>ts_generation := g, ts_status := ''removed'', ts_observed_at := Some (es_observed_at source)\<rparr>
               in bindM (attempt (write_state_and_outbox E ss st (Removal e) now (Some c))) (\<lambda>r.
                  case r of
                    Inl x \<Rightarrow>
                      if conditional_failure x
                      then bindM (get_state E (ts_target_id expected)) (\<lambda>s. returnM (result RACE s None))
                      else raiseM x
                  | Inr _ \<Rightarrow> returnM (result REMOVED (Some st) (Some (Removal e)))))))"

definition generation_active :: "int \<Rightarrow> condition" where
  "generation_active g v =
     (case v of
        None \<Rightarrow> False
      | Some it \<Rightarrow> map_of it ''generation'' = Some (N g) \<and> map_of it ''status'' = Some (S ''active''))"

definition enqueue_coverage :: "inv_env \<Rightarrow> state_store \<Rightarrow> target_state \<Rightarrow> event_source \<Rightarrow> time \<Rightarrow> reconcile_result inv" where
  "enqueue_coverage E ss st source now =
     bindM (get_state E (ts_target_id st)) (\<lambda>current.
     case current of
       None \<Rightarrow> returnM (result RACE None None)
     | Some c \<Rightarrow>
         if ts_status c \<noteq> ''active'' \<or> ts_generation c \<noteq> ts_generation st
         then returnM (result RACE current None)
         else bindM (liftM (build_target_event (ts_target c) (ts_generation c) source now None (Some COVERAGE))) (\<lambda>e.
           bindM (attempt (db_call E (transact_write_items
               [Check_item (target_key (ts_target_id c)) (generation_active (ts_generation c)),
                Put_item (outbox_key (te_event_id e)) (outbox_item ss (Work e) (ts_target c) now) not_exists]))) (\<lambda>r.
           case r of
             Inl x \<Rightarrow>
               if conditional_failure x
               then bindM (get_state E (ts_target_id st)) (\<lambda>latest.
                 returnM (case latest of
                     Some l \<Rightarrow> if ts_status l = ''active'' \<and> ts_generation l = ts_generation st
                               then result NOOP latest None else result RACE latest None
                   | None \<Rightarrow> result RACE None None))
               else raiseM x
           | Inr _ \<Rightarrow> returnM (result CHANGED current (Some (Work e))))))"

definition signal_key :: "string \<Rightarrow> item_key" where
  "signal_key sid =
     (''SIGNAL#'' @ namespaced_sha256 ''portscanner.inventory.signal-dedupe.v1'' (JObj [(''signal_id'', JStr sid)]),
      ''DEDUPE'')"

definition claimable :: "int \<Rightarrow> condition" where
  "claimable now v =
     (case v of None \<Rightarrow> True | Some it \<Rightarrow> (case map_of it ''expires_at'' of Some (N e) \<Rightarrow> e < now | _ \<Rightarrow> False))"

definition claim_signal :: "inv_env \<Rightarrow> string \<Rightarrow> time \<Rightarrow> int \<Rightarrow> bool inv" where
  "claim_signal E sid now ttl =
     bindM (attempt (db_call E (put_item (signal_key sid)
         [(''pk'', S (fst (signal_key sid))), (''sk'', S (snd (signal_key sid))), (''entity'', S ''signal-dedupe''),
          (''expires_at'', N (epoch_seconds now + ttl))]
         (claimable (epoch_seconds now))))) (\<lambda>r.
     case r of
       Inl e \<Rightarrow> if conditional_failure e then returnM False else raiseM e
     | Inr _ \<Rightarrow> returnM True)"

definition release_signal :: "inv_env \<Rightarrow> string \<Rightarrow> unit inv" where
  "release_signal E sid = db_call E (delete_item (signal_key sid))"

text \<open>
  What the handlers of the inventory share (\<^verbatim>\<open>inventory/.../base.py\<close>): the codes of AWS errors, and the batch
  loop that reports failed records by their identifier.
\<close>

section \<open>Error codes\<close>

definition error_code :: "inv_error \<Rightarrow> string" where
  "error_code e =
     (case e of
        Inv_aws c _ \<Rightarrow> if c = [] then ''ClientError'' else c
      | Inv_value _ \<Rightarrow> ''ValueError''
      | Inv_key _ \<Rightarrow> ''KeyError''
      | Inv_type _ \<Rightarrow> ''TypeError''
      | Inv_contract _ \<Rightarrow> ''ValidationError''
      | Inv_race _ \<Rightarrow> ''RuntimeError''
      | Inv_killed \<Rightarrow> ''SystemExit'')"

definition is_not_found :: "inv_error \<Rightarrow> bool" where
  "is_not_found e \<longleftrightarrow> error_code e \<in>
     {''InvalidAddress.NotFound'', ''InvalidAllocationID.NotFound'', ''InvalidAssociationID.NotFound'',
      ''InvalidGroup.NotFound'', ''InvalidInstanceID.NotFound'', ''InvalidNetworkInterfaceID.NotFound''}"

definition is_unknown_aws_error :: "inv_error \<Rightarrow> bool" where
  "is_unknown_aws_error e \<longleftrightarrow>
     (let c = error_code e in
      c \<in> {''AccessDenied'', ''AccessDeniedException'', ''AuthFailure'', ''ClientError'', ''DependencyTimeout'',
           ''EC2ThrottledException'', ''InternalError'', ''InternalFailure'', ''RequestLimitExceeded'',
           ''ServiceUnavailable'', ''ThrottledException'', ''Throttling'', ''ThrottlingException'', ''UnauthorizedOperation''}
      \<or> contains (py_lower c) ''throttl'' \<or> contains (py_lower c) ''timeout'' \<or> contains (py_lower c) ''temporar'')"

section \<open>Batches\<close>

text \<open>The identifier by which Lambda retries a record; empty when the record has none.\<close>

definition record_identifier :: "json \<Rightarrow> string" where
  "record_identifier record =
     (let source = py_str (py_or (vfield record ''eventSource'') (py_or (vfield record ''EventSource'') (JStr [])))
      in if source = ''aws:sqs'' \<or> (source = [] \<and> obj_get ''messageId'' record \<noteq> None)
         then py_str (py_or (vfield record ''messageId'') (JStr []))
         else if source = ''aws:dynamodb'' \<or> (source = [] \<and> obj_get ''dynamodb'' record \<noteq> None)
         then (let d = vfield record ''dynamodb'' in
               if is_obj d then py_str (py_or (vfield d ''SequenceNumber'') (JStr [])) else [])
         else [])"

definition batch_record :: "(json \<Rightarrow> ('s, inv_error, unit) eff) \<Rightarrow> string list \<Rightarrow> json \<Rightarrow> ('s, inv_error, string list) eff" where
  "batch_record process failures record =
     (if \<not> is_obj record then raiseM (Inv_type ''record'')
      else bindM (attempt (process record)) (\<lambda>r.
        case r of
          Inr _ \<Rightarrow> returnM failures
        | Inl e \<Rightarrow> if record_identifier record = [] then raiseM e else returnM (failures @ [record_identifier record])))"

definition partial_batch :: "(json \<Rightarrow> ('s, inv_error, unit) eff) \<Rightarrow> json list \<Rightarrow> ('s, inv_error, string list) eff" where
  "partial_batch process records = foldM (batch_record process) [] records"

end
