(* ===== verification/Inventory_Config.thy ===== *)
theory Inventory_Config
  imports Inventory_Target Generator_Config
begin

text \<open>
  The configuration of the inventory's entry points (\<^verbatim>\<open>inventory/.../config.py\<close>): the managed canary, the
  settings with their checks, how they are read from the environment variables, and the scope
  decisions they make.
\<close>

section \<open>Variables\<close>

definition csv :: "string option \<Rightarrow> string list" where
  "csv v = sorted_set (filter (\<lambda>p. p \<noteq> []) (map py_strip (split_on (CHR '','') (case v of None \<Rightarrow> [] | Some s \<Rightarrow> s))))"

definition setting_int :: "env_vars \<Rightarrow> string \<Rightarrow> int \<Rightarrow> inv_error + int" where
  "setting_int env name dflt =
     bindR (case env name of
              None \<Rightarrow> Inr dflt
            | Some raw \<Rightarrow>
                (case py_int raw of None \<Rightarrow> Inl (Inv_value (name @ '' must be an integer'')) | Some v \<Rightarrow> Inr v)) (\<lambda>v.
     if v \<le> 0 then Inl (Inv_value (name @ '' must be positive'')) else Inr v)"

definition setting_bool :: "env_vars \<Rightarrow> string \<Rightarrow> inv_error + bool" where
  "setting_bool env name =
     (case env name of
        None \<Rightarrow> Inr False
      | Some raw \<Rightarrow>
          if py_lower raw \<notin> {''true'', ''false''} then Inl (Inv_value (name @ '' must be true or false''))
          else Inr (py_lower raw = ''true''))"

definition setting_cidrs :: "env_vars \<Rightarrow> string \<Rightarrow> inv_error + ipv4_network list" where
  "setting_cidrs env name = (case cidrs env name of Inl m \<Rightarrow> Inl (Inv_value m) | Inr ns \<Rightarrow> Inr ns)"

definition is_tag_key :: "string \<Rightarrow> bool" where
  "is_tag_key s \<longleftrightarrow> len_between 1 128 s \<and> list_all (\<lambda>c. is_alnum c \<or> c \<in> set ''_.:/=+-@'') s"

section \<open>The managed canary\<close>

record managed_canary =
  mc_account_id :: string
  mc_region :: string
  mc_network_interface_id :: string
  mc_private_ip :: string
  mc_public_ip :: string
  mc_tag_key :: string
  mc_tag_value :: string
  mc_tcp_port :: int

definition canary_post_init :: "managed_canary \<Rightarrow> inv_error + managed_canary" where
  "canary_post_init c =
     bindR (ensure (is_account_id (mc_account_id c)) (Inv_value ''managed canary account must contain 12 digits'')) (\<lambda>_.
     bindR (ensure (is_region_name (mc_region c)) (Inv_value ''managed canary region is invalid'')) (\<lambda>_.
     bindR (ensure (is_hex_id ''eni-'' (mc_network_interface_id c)) (Inv_value ''managed canary ENI is invalid'')) (\<lambda>_.
     case (ipv4_parse (mc_private_ip c), ipv4_parse (mc_public_ip c)) of
       (Some private, Some public) \<Rightarrow>
         bindR (ensure (\<not> (ipv4_str private \<noteq> mc_private_ip c \<or> ipv4_str public \<noteq> mc_public_ip c \<or> \<not> is_global public))
                  (Inv_value ''managed canary addresses must be canonical public/private IPv4'')) (\<lambda>_.
         bindR (ensure (\<not> (\<not> is_tag_key (mc_tag_key c) \<or> py_strip (mc_tag_value c) = []))
                  (Inv_value ''managed canary tag is invalid'')) (\<lambda>_.
         bindR (ensure (1 \<le> mc_tcp_port c \<and> mc_tcp_port c \<le> 65535)
                  (Inv_value ''managed canary TCP port must be within 1..65535'')) (\<lambda>_.
         Inr c)))
     | _ \<Rightarrow> Inl (Inv_value ''managed canary addresses must be canonical IPv4''))))"

definition canary_matches :: "managed_canary \<Rightarrow> normalized_target \<Rightarrow> bool" where
  "canary_matches c t \<longleftrightarrow>
     nt_account_id t = mc_account_id c \<and> nt_region t = mc_region c
     \<and> nt_network_interface_id t = mc_network_interface_id c \<and> nt_private_ip t = mc_private_ip c
     \<and> nt_public_ip t = mc_public_ip c \<and> map_of (py_dict (nt_tags t)) (mc_tag_key c) = Some (mc_tag_value c)"

definition canary_names :: "string list" where
  "canary_names =
     [''MANAGED_CANARY_ACCOUNT_ID'', ''MANAGED_CANARY_REGION'', ''MANAGED_CANARY_ENI_ID'', ''MANAGED_CANARY_PRIVATE_IP'',
      ''MANAGED_CANARY_PUBLIC_IP'', ''MANAGED_CANARY_TAG_KEY'', ''MANAGED_CANARY_TAG_VALUE'', ''MANAGED_CANARY_TCP_PORT'']"

definition managed_canary_of :: "env_vars \<Rightarrow> inv_error + managed_canary option" where
  "managed_canary_of env =
     (let v = (\<lambda>name. py_strip (env_get_default env name ''''));
          configured = filter (\<lambda>name. v name \<noteq> []) canary_names
      in if configured = [] then Inr None
         else if configured \<noteq> canary_names
         then Inl (Inv_value ''managed canary runtime configuration must be complete'')
         else case py_int (v ''MANAGED_CANARY_TCP_PORT'') of
             None \<Rightarrow> Inl (Inv_value ''MANAGED_CANARY_TCP_PORT must be an integer'')
           | Some port \<Rightarrow>
               bindR (canary_post_init
                 \<lparr>mc_account_id = v ''MANAGED_CANARY_ACCOUNT_ID'', mc_region = v ''MANAGED_CANARY_REGION'',
                  mc_network_interface_id = v ''MANAGED_CANARY_ENI_ID'', mc_private_ip = v ''MANAGED_CANARY_PRIVATE_IP'',
                  mc_public_ip = v ''MANAGED_CANARY_PUBLIC_IP'', mc_tag_key = v ''MANAGED_CANARY_TAG_KEY'',
                  mc_tag_value = v ''MANAGED_CANARY_TAG_VALUE'', mc_tcp_port = port\<rparr>) (\<lambda>c. Inr (Some c)))"

section \<open>Settings\<close>

record settings =
  se_state_table :: string
  se_event_bucket :: string
  se_event_prefix :: string
  se_priority_queue_url :: string
  se_coverage_queue_url :: string
  se_target_event_queue_url :: string
  se_snapshot_backend :: string
  se_config_aggregator_name :: "string option"
  se_account_id :: "string option"
  se_authorized_account_ids :: "string list"
  se_regions :: "string list"
  se_canary_mode :: bool
  se_managed_canary :: "managed_canary option"
  se_discovery_role_arn_template :: "string option"
  se_external_id :: "string option"
  se_allowed_tag_keys :: "string list"
  se_allowed_target_cidrs :: "ipv4_network list"
  se_denied_target_cidrs :: "ipv4_network list"
  se_allowed_eni_interface_types :: "string list"
  se_required_target_tag_key :: "string option"
  se_required_target_tag_value :: "string option"
  se_snapshot_max_pages :: int
  se_signal_dedupe_seconds :: int
  se_outbox_ttl_seconds :: int
  se_outbox_replay_batch_size :: int
  se_rescan_bucket_seconds :: int
  se_max_signal_port_ranges :: int
  se_max_signal_ports :: int

definition given :: "string option \<Rightarrow> bool" where
  "given v \<longleftrightarrow> v \<noteq> None \<and> v \<noteq> Some []"

definition settings_post_init :: "settings \<Rightarrow> inv_error + settings" where
  "settings_post_init s =
     bindR (ensure (se_snapshot_backend s \<in> {''config'', ''ec2''})
              (Inv_value ''snapshot_backend must be config or ec2'')) (\<lambda>_.
     bindR (ensure (\<not> (given (se_account_id s) \<and> \<not> opt_ok is_account_id (se_account_id s)))
              (Inv_value ''account_id must contain 12 digits'')) (\<lambda>_.
     bindR (ensure (list_all is_account_id (se_authorized_account_ids s))
              (Inv_value ''authorized_account_ids must contain 12-digit account IDs'')) (\<lambda>_.
     bindR (ensure (list_all is_region_name (se_regions s)) (Inv_value ''regions must contain valid AWS regions'')) (\<lambda>_.
     bindR (if given (se_discovery_role_arn_template s)
            then bindR (ensure (contains (the (se_discovery_role_arn_template s)) ''{account_id}'')
                          (Inv_value ''role ARN template must include {account_id}'')) (\<lambda>_.
                 ensure (startswith (the (se_discovery_role_arn_template s)) ''arn:aws'')
                   (Inv_value ''invalid role ARN template''))
            else Inr ()) (\<lambda>_.
     bindR (ensure (list_all is_tag_key (se_allowed_tag_keys s)) (Inv_value ''invalid tag allowlist entry'')) (\<lambda>_.
     bindR (ensure (set (se_allowed_tag_keys s) \<subseteq> {''application'', ''environment'', ''name'', ''service''})
              (Inv_value ''tag allowlist contains a field outside the shared AWS context'')) (\<lambda>_.
     bindR (ensure (list_all (\<lambda>v. v \<noteq> [] \<and> list_all (\<lambda>c. is_lower_alnum c \<or> c = CHR ''-'') v) (se_allowed_eni_interface_types s))
              (Inv_value ''allowed ENI interface types are invalid'')) (\<lambda>_.
     bindR (ensure ((se_required_target_tag_key s = None) = (se_required_target_tag_value s = None))
              (Inv_value ''required target tag key and value must be configured together'')) (\<lambda>_.
     bindR (ensure (\<not> (se_required_target_tag_key s \<noteq> None
                       \<and> (\<not> opt_ok is_tag_key (se_required_target_tag_key s)
                          \<or> py_strip (the (se_required_target_tag_value s)) = [])))
              (Inv_value ''required target tag is invalid'')) (\<lambda>_.
     bindR (ensure (1 \<le> se_snapshot_max_pages s \<and> se_snapshot_max_pages s \<le> 10000)
              (Inv_value ''snapshot_max_pages must be between 1 and 10000'')) (\<lambda>_.
     bindR (ensure (86400 \<le> se_outbox_ttl_seconds s \<and> se_outbox_ttl_seconds s \<le> 31536000)
              (Inv_value ''outbox_ttl_seconds must be between one day and one year'')) (\<lambda>_.
     bindR (ensure (1 \<le> se_outbox_replay_batch_size s \<and> se_outbox_replay_batch_size s \<le> 1000)
              (Inv_value ''outbox_replay_batch_size must be between 1 and 1000'')) (\<lambda>_.
     let prefix = strip_char (CHR ''/'') (se_event_prefix s) in
     bindR (ensure (\<not> (prefix = [] \<or> ''..'' \<in> set (split_on (CHR ''/'') prefix))) (Inv_value ''invalid event prefix'')) (\<lambda>_.
     Inr (s\<lparr>se_event_prefix := prefix\<rparr>)))))))))))))))"

definition account_authorized :: "settings \<Rightarrow> string \<Rightarrow> bool" where
  "account_authorized s account \<longleftrightarrow> account \<in> set (se_authorized_account_ids s)"

definition settings_allow :: "settings \<Rightarrow> string \<Rightarrow> bool" where
  "settings_allow s address =
     (case ipv4_parse address of
        None \<Rightarrow> False
      | Some parsed \<Rightarrow>
          if list_ex (in_network parsed) (se_denied_target_cidrs s) then False
          else se_allowed_target_cidrs s = [] \<or> list_ex (in_network parsed) (se_allowed_target_cidrs s))"

definition validate_state :: "settings \<Rightarrow> inv_error + unit" where
  "validate_state s = ensure (se_state_table s \<noteq> []) (Inv_value ''state_table is required'')"

definition validate_snapshot :: "settings \<Rightarrow> inv_error + unit" where
  "validate_snapshot s =
     bindR (validate_state s) (\<lambda>_.
     bindR (ensure (\<not> (se_snapshot_backend s = ''config'' \<and> \<not> given (se_config_aggregator_name s)))
              (Inv_value ''config_aggregator_name is required for Config snapshots'')) (\<lambda>_.
     bindR (ensure (\<not> (se_snapshot_backend s = ''ec2'' \<and> (\<not> given (se_account_id s) \<or> se_regions s = [])))
              (Inv_value ''account_id and regions are required for direct EC2 snapshots'')) (\<lambda>_.
     bindR (ensure (se_authorized_account_ids s \<noteq> []) (Inv_value ''authorized_account_ids is required for snapshots'')) (\<lambda>_.
     case se_managed_canary s of
       None \<Rightarrow> Inr ()
     | Some c \<Rightarrow>
         if \<not> se_canary_mode s then Inr ()
         else bindR (ensure (mc_account_id c \<in> set (se_authorized_account_ids s))
                       (Inv_value ''managed canary account is outside authorized account scope'')) (\<lambda>_.
              bindR (ensure (mc_region c \<in> set (se_regions s))
                       (Inv_value ''managed canary region is outside snapshot Region scope'')) (\<lambda>_.
              ensure (settings_allow s (mc_public_ip c))
                (Inv_value ''managed canary address is outside configured CIDR scope'')))))))"

definition validate_signals :: "settings \<Rightarrow> inv_error + unit" where
  "validate_signals s =
     bindR (validate_state s) (\<lambda>_.
     ensure (se_authorized_account_ids s \<noteq> []) (Inv_value ''authorized_account_ids is required for signals''))"

definition validate_outbox :: "settings \<Rightarrow> inv_error + unit" where
  "validate_outbox s =
     bindR (validate_state s) (\<lambda>_.
     bindR (ensure (se_event_bucket s \<noteq> []) (Inv_value ''event_bucket is required'')) (\<lambda>_.
     let missing = map fst (filter (\<lambda>(_, v). py_strip v = [])
       [(''PRIORITY_QUEUE_URL'', se_priority_queue_url s), (''COVERAGE_QUEUE_URL'', se_coverage_queue_url s),
        (''TARGET_EVENT_QUEUE_URL'', se_target_event_queue_url s)])
     in ensure (missing = []) (Inv_value (join '', '' missing @ '' required for outbox''))))"

definition settings_from_env :: "env_vars \<Rightarrow> inv_error + settings" where
  "settings_from_env env =
     bindR (setting_bool env ''CANARY_MODE'') (\<lambda>canary_mode.
     bindR (managed_canary_of env) (\<lambda>canary.
     bindR (setting_cidrs env ''ALLOWED_TARGET_CIDRS'') (\<lambda>allowed.
     bindR (setting_cidrs env ''DENIED_TARGET_CIDRS'') (\<lambda>denied.
     bindR (setting_int env ''SNAPSHOT_MAX_PAGES'' 1000) (\<lambda>pages.
     bindR (setting_int env ''SIGNAL_DEDUPE_SECONDS'' 86400) (\<lambda>dedupe.
     bindR (setting_int env ''OUTBOX_TTL_SECONDS'' 604800) (\<lambda>ttl.
     bindR (setting_int env ''OUTBOX_REPLAY_BATCH_SIZE'' 100) (\<lambda>replay.
     bindR (setting_int env ''RESCAN_BUCKET_SECONDS'' 21600) (\<lambda>rescan.
     bindR (setting_int env ''MAX_SIGNAL_PORT_RANGES'' 32) (\<lambda>ranges.
     bindR (setting_int env ''MAX_SIGNAL_PORTS'' 8192) (\<lambda>ports.
     let text = (\<lambda>name dflt. env_get_default env name dflt); nonempty = (\<lambda>name. if given (env name) then env name else None) in
     settings_post_init
       \<lparr>se_state_table = text ''INVENTORY_TABLE'' [], se_event_bucket = text ''TARGET_EVENT_BUCKET'' [],
        se_event_prefix = text ''TARGET_EVENT_PREFIX'' ''target-events/aws'',
        se_priority_queue_url = text ''PRIORITY_QUEUE_URL'' [], se_coverage_queue_url = text ''COVERAGE_QUEUE_URL'' [],
        se_target_event_queue_url = text ''TARGET_EVENT_QUEUE_URL'' [],
        se_snapshot_backend = py_lower (text ''SNAPSHOT_BACKEND'' ''config''),
        se_config_aggregator_name = env ''CONFIG_AGGREGATOR_NAME'', se_account_id = env ''AWS_ACCOUNT_ID'',
        se_authorized_account_ids = csv (env ''AUTHORIZED_ACCOUNT_IDS''), se_regions = csv (env ''AWS_REGIONS''),
        se_canary_mode = canary_mode, se_managed_canary = canary,
        se_discovery_role_arn_template = env ''DISCOVERY_ROLE_ARN_TEMPLATE'', se_external_id = env ''DISCOVERY_EXTERNAL_ID'',
        se_allowed_tag_keys = csv (env ''ALLOWED_TAG_KEYS''), se_allowed_target_cidrs = allowed,
        se_denied_target_cidrs = denied, se_allowed_eni_interface_types = csv (env ''ALLOWED_ENI_INTERFACE_TYPES''),
        se_required_target_tag_key = nonempty ''REQUIRED_TARGET_TAG_KEY'',
        se_required_target_tag_value = nonempty ''REQUIRED_TARGET_TAG_VALUE'',
        se_snapshot_max_pages = pages, se_signal_dedupe_seconds = dedupe, se_outbox_ttl_seconds = ttl,
        se_outbox_replay_batch_size = replay, se_rescan_bucket_seconds = rescan,
        se_max_signal_port_ranges = ranges, se_max_signal_ports = ports\<rparr>)))))))))))"

section \<open>What settings satisfy\<close>

definition settings_ok :: "settings \<Rightarrow> bool" where
  "settings_ok s \<longleftrightarrow>
     se_event_prefix s \<noteq> [] \<and> hd (se_event_prefix s) \<noteq> CHR ''/'' \<and> last (se_event_prefix s) \<noteq> CHR ''/''
     \<and> list_all is_account_id (se_authorized_account_ids s) \<and> list_all is_region_name (se_regions s)
     \<and> 1 \<le> se_snapshot_max_pages s \<and> se_snapshot_max_pages s \<le> 10000
     \<and> 86400 \<le> se_outbox_ttl_seconds s \<and> se_outbox_ttl_seconds s \<le> 31536000
     \<and> 1 \<le> se_outbox_replay_batch_size s \<and> se_outbox_replay_batch_size s \<le> 1000
     \<and> set (se_allowed_tag_keys s) \<subseteq> {''application'', ''environment'', ''name'', ''service''}"

lemma strip_char_ends: "strip_char c s \<noteq> [] \<Longrightarrow> hd (strip_char c s) \<noteq> c \<and> last (strip_char c s) \<noteq> c"
proof -
  assume ne: "strip_char c s \<noteq> []"
  let ?t = "dropWhile ((=) c) (rev (dropWhile ((=) c) s))"
  have r: "strip_char c s = rev ?t" by (simp add: strip_char_def)
  with ne have t: "?t \<noteq> []" by simp
  then have "hd ?t \<noteq> c" using hd_dropWhile [of "(=) c" "rev (dropWhile ((=) c) s)"] by auto
  moreover have "last ?t \<noteq> c"
  proof -
    have d: "dropWhile ((=) c) s \<noteq> []" using t by (metis dropWhile.simps(1) rev.simps(1))
    obtain n where "rev (dropWhile ((=) c) s) = replicate n c @ ?t"
      by (metis (full_types) replicate_length_same set_takeWhileD takeWhile_dropWhile_id)
    then have "last ?t = last (rev (dropWhile ((=) c) s))" using t by (metis last_appendR)
    also have "\<dots> = hd (dropWhile ((=) c) s)" using d by (simp add: last_rev)
    finally show ?thesis using d hd_dropWhile [of "(=) c" s] by auto
  qed
  ultimately show ?thesis using t by (simp add: r hd_rev last_rev)
qed

lemma settings_post_init_ok: "settings_post_init s = Inr s' \<Longrightarrow> settings_ok s'"
  using strip_char_ends [of "CHR ''/''" "se_event_prefix s"]
  by (auto simp: settings_post_init_def bindR_Inr Let_def settings_ok_def)

lemma settings_from_env_ok: "settings_from_env env = Inr s \<Longrightarrow> settings_ok s"
  by (auto simp: settings_from_env_def bindR_Inr Let_def intro: settings_post_init_ok)

text \<open>
  The inventory and the generator, configured from the same variables, agree on the scope: they
  authorize the same accounts and allow the same addresses.
\<close>

lemma settings_post_init_scope: "settings_post_init s = Inr s' \<Longrightarrow>
    se_allowed_target_cidrs s' = se_allowed_target_cidrs s \<and> se_denied_target_cidrs s' = se_denied_target_cidrs s
    \<and> se_authorized_account_ids s' = se_authorized_account_ids s"
  by (auto simp: settings_post_init_def bindR_Inr Let_def)

lemma post_init_scope: "post_init c = Inr c' \<Longrightarrow>
    allowed_target_cidrs c' = allowed_target_cidrs c \<and> denied_target_cidrs c' = denied_target_cidrs c
    \<and> authorized_account_ids c' = authorized_account_ids c"
  by (auto simp: post_init_def bindR_Inr Let_def)

lemma setting_cidrs_Inr [simp]: "setting_cidrs env name = Inr ns \<longleftrightarrow> cidrs env name = Inr ns"
  by (auto simp: setting_cidrs_def split: sum.splits)

lemma csv_accounts: "accounts env = Inr as \<Longrightarrow> csv (env ''AUTHORIZED_ACCOUNT_IDS'') = as"
  by (auto simp: accounts_def csv_def comma_values_def env_get_default_def Let_def split: if_splits option.splits)

lemma scopes_agree:
  assumes "settings_from_env env = Inr s" "from_environment env = Inr c"
  shows "settings_allow s address = target_allowed c address" "account_authorized s account = account_allowed c account"
proof -
  from assms(1) obtain allowed denied where s: "cidrs env ''ALLOWED_TARGET_CIDRS'' = Inr allowed"
    "cidrs env ''DENIED_TARGET_CIDRS'' = Inr denied" "se_allowed_target_cidrs s = allowed" "se_denied_target_cidrs s = denied"
    "se_authorized_account_ids s = csv (env ''AUTHORIZED_ACCOUNT_IDS'')"
    by (auto simp: settings_from_env_def bindR_Inr Let_def dest!: settings_post_init_scope)
  from assms(2) have c: "cidrs env ''ALLOWED_TARGET_CIDRS'' = Inr (allowed_target_cidrs c)"
    "cidrs env ''DENIED_TARGET_CIDRS'' = Inr (denied_target_cidrs c)" "accounts env = Inr (authorized_account_ids c)"
    by (auto simp: from_environment_def bindR_Inr dest!: post_init_scope)
  show "settings_allow s address = target_allowed c address" "account_authorized s account = account_allowed c account"
    using s c csv_accounts [OF c(3)]
    by (auto simp: settings_allow_def target_allowed_def account_authorized_def account_allowed_def split: option.splits)
qed

end
