(* ===== verification/Inventory_Outbox.thy ===== *)
theory Inventory_Outbox
  imports Inventory_Store Inventory_Config Sha256 Unicode_Text
begin

text \<open>
  The dispatcher of the outbox (\<^verbatim>\<open>inventory/.../handlers/outbox.py\<close>): an outbox item that enters the stream of the
  state table is stored as an immutable object, announced to two queues, and marked as delivered.

  S3 and SQS answer as the environment decides; the requests to them, and to the table, are
  recorded in the order in which they are made, with the response unless they failed. The contract adapter, which turns a JSON
  document into a payload, is a parameter.
\<close>

section \<open>Services\<close>

datatype outbox_call =
    Put_object string string "nat list" string        \<comment> \<open>bucket, key, body, digest in the metadata\<close>
  | Head_object string string
  | Send_message string string                        \<comment> \<open>queue, message body\<close>
  | Mark_delivered string string                      \<comment> \<open>the key of the item\<close>

record outbox_env =
  ox_put :: "nat \<Rightarrow> inv_error + json"
  ox_head :: "nat \<Rightarrow> inv_error + json"
  ox_send :: "nat \<Rightarrow> inv_error + json"
  ox_query :: "nat \<Rightarrow> inv_error + json"
  ox_clock :: "nat \<Rightarrow> time"
  ox_table :: inv_env
  ox_adapter :: "nat list \<Rightarrow> contract_error + target_payload"

record outbox_world =
  ow_table :: inv_world
  ow_trace :: "(outbox_call \<times> json option) list"

type_synonym 'a outbox = "(outbox_world, inv_error, 'a) eff"

definition response_of :: "inv_error + json \<Rightarrow> json option" where
  "response_of r = (case r of Inl _ \<Rightarrow> None | Inr v \<Rightarrow> Some v)"

definition service :: "(nat \<Rightarrow> inv_error + json) \<Rightarrow> outbox_call \<Rightarrow> json outbox" where
  "service answer c w =
     (let r = answer (length (ow_trace w)) in (r, w\<lparr>ow_trace := ow_trace w @ [(c, response_of r)]\<rparr>))"

definition on_table :: "outbox_call \<Rightarrow> unit inv \<Rightarrow> unit outbox" where
  "on_table c m w =
     (case m (ow_table w) of
        (r, t) \<Rightarrow> (r, w\<lparr>ow_table := t, ow_trace := ow_trace w @ [(c, response_of (map_sum id (\<lambda>_. JNull) r))]\<rparr>))"

section \<open>Images\<close>

definition image_text :: "json \<Rightarrow> string \<Rightarrow> string option" where
  "image_text img name =
     (let v = vfield img name in if is_obj v then map_option py_str (obj_get ''S'' v) else None)"

definition image_number :: "json \<Rightarrow> string \<Rightarrow> int option" where
  "image_number img name =
     (let v = vfield img name in
      if is_obj v then (case obj_get ''N'' v of None \<Rightarrow> None | Some n \<Rightarrow> py_int (py_str n)) else None)"

definition delivery_retention_seconds :: "json \<Rightarrow> inv_error + int" where
  "delivery_retention_seconds img =
     (case image_number img ''delivery_ttl_seconds'' of
        None \<Rightarrow> Inl (Inv_value ''outbox delivery retention is invalid'')
      | Some n \<Rightarrow> if 86400 \<le> n \<and> n \<le> 31536000 then Inr n else Inl (Inv_value ''outbox delivery retention is invalid''))"

section \<open>Delivery\<close>

definition update_item :: "item_key \<Rightarrow> item \<Rightarrow> condition \<Rightarrow> store \<Rightarrow> (inv_error + unit) \<times> store" where
  "update_item k changes c s =
     (let v = tbl_get (st_items s) k;
          old = (case v of None \<Rightarrow> [(''pk'', S (fst k)), (''sk'', S (snd k))] | Some it \<Rightarrow> it)
      in if c v then (Inr (), put_row k (foldl (\<lambda>d (a, x). AList.update a x d) old changes) s)
         else (Inl (Inv_aws ''ConditionalCheckFailedException'' None), s))"

definition pending :: "string \<Rightarrow> condition" where
  "pending eid v =
     (case v of
        None \<Rightarrow> False
      | Some it \<Rightarrow> map_of it ''entity'' = Some (S ''outbox'') \<and> map_of it ''event_id'' = Some (S eid))"

definition mark_delivered :: "inv_env \<Rightarrow> json \<Rightarrow> time \<Rightarrow> unit inv" where
  "mark_delivered E img at =
     bindM (liftM (delivery_retention_seconds img)) (\<lambda>retention.
     case (image_text img ''pk'', image_text img ''sk'', image_text img ''event_id'') of
       (Some pk, Some sk, Some eid) \<Rightarrow>
         if pk = [] \<or> sk = [] \<or> eid = [] then raiseM (Inv_value ''outbox delivery state is invalid'')
         else bindM (attempt (db_call E (update_item (pk, sk)
                [(''entity'', S ''outbox-delivered''), (''delivered_at'', S (iso_utc at)),
                 (''expires_at'', N (epoch_seconds at + retention))] (pending eid)))) (\<lambda>r.
           case r of
             Inr _ \<Rightarrow> returnM ()
           | Inl e \<Rightarrow>
               if error_code e \<noteq> ''ConditionalCheckFailedException'' then raiseM e
               else bindM (db_call E (read_item (pk, sk))) (\<lambda>v.
                 case v of
                   None \<Rightarrow> raiseM e
                 | Some it \<Rightarrow>
                     if map_of it ''entity'' \<noteq> Some (S ''outbox-delivered'') \<or> map_of it ''event_id'' \<noteq> Some (S eid)
                     then raiseM e else returnM ()))
     | _ \<Rightarrow> raiseM (Inv_value ''outbox delivery state is invalid''))"

section \<open>Objects\<close>

definition one_line :: "string \<Rightarrow> bool" where
  "one_line s \<longleftrightarrow> s \<noteq> [] \<and> CHR 0x0D \<notin> set s \<and> CHR 0x0A \<notin> set s"

definition etag_of :: "json \<Rightarrow> inv_error + string option" where
  "etag_of response =
     (case vfield response ''ETag'' of
        JNull \<Rightarrow> Inr None
      | JStr v \<Rightarrow>
          (let e = strip_char (CHR 0x22) (py_strip v) in
           if one_line e then Inr (Some e) else Inl (Inv_value ''S3 returned an invalid ETag''))
      | _ \<Rightarrow> Inl (Inv_value ''S3 returned a non-string ETag''))"

definition version_id_of :: "json \<Rightarrow> inv_error + string option" where
  "version_id_of response =
     (case vfield response ''VersionId'' of
        JNull \<Rightarrow> Inr None
      | JStr v \<Rightarrow>
          (let e = py_strip v in
           if \<not> one_line e then Inl (Inv_value ''S3 returned an invalid VersionId'')
           else Inr (if py_lower e = ''null'' then None else Some e))
      | _ \<Rightarrow> Inl (Inv_value ''S3 returned a non-string VersionId''))"

text \<open>The digest that the metadata of the object carries, whatever the case of its name.\<close>

definition metadata_hash :: "json \<Rightarrow> json" where
  "metadata_hash response =
     (case vfield response ''Metadata'' of
        JObj kvs \<Rightarrow>
          (case map_of (rev (map (\<lambda>(k, v). (py_lower k, v)) kvs)) ''payload-sha256'' of None \<Rightarrow> JNull | Some v \<Rightarrow> v)
      | _ \<Rightarrow> JNull)"

definition verify_existing_object :: "json \<Rightarrow> nat list \<Rightarrow> string \<Rightarrow> inv_error + unit" where
  "verify_existing_object response body digest =
     (if metadata_hash response \<noteq> JNull
      then (case metadata_hash response of
              JStr h \<Rightarrow> ensure (is_sha256_hex h \<and> h = digest)
                          (Inv_value ''existing immutable object payload hash does not match'')
            | _ \<Rightarrow> Inl (Inv_value ''existing immutable object payload hash does not match''))
      else bindR (etag_of response) (\<lambda>etag.
        case etag of
          None \<Rightarrow> Inl (Inv_value ''existing immutable object cannot be verified'')
        | Some e \<Rightarrow>
            if \<not> list_all is_ascii e then Inl (Inv_type ''comparing strings with non-ASCII characters'')
            else ensure (e = md5_hexdigest body) (Inv_value ''existing immutable object cannot be verified'')))"

definition notification_json :: "string \<Rightarrow> string \<Rightarrow> nat \<Rightarrow> string option \<Rightarrow> string option \<Rightarrow> json" where
  "notification_json bucket key body_size etag version =
     JObj [(''Records'', JArr [JObj
       [(''eventVersion'', JStr ''2.1''), (''eventSource'', JStr ''aws:s3''), (''eventName'', JStr ''ObjectCreated:Put''),
        (''s3'', JObj
           [(''s3SchemaVersion'', JStr ''1.0''), (''configurationId'', JStr ''portscanner-inventory-outbox''),
            (''bucket'', JObj [(''name'', JStr bucket)]),
            (''object'', JObj ([(''key'', JStr (quote_plus key)), (''size'', JInt (int body_size))]
               @ (case etag of None \<Rightarrow> [] | Some e \<Rightarrow> [(''eTag'', JStr e)])
               @ (case version of None \<Rightarrow> [] | Some v \<Rightarrow> [(''versionId'', JStr v)])))])]])]"

definition notification_body :: "string \<Rightarrow> string \<Rightarrow> nat \<Rightarrow> string option \<Rightarrow> string option \<Rightarrow> inv_error + string" where
  "notification_body bucket key body_size etag version =
     (if etag = None \<and> version = None then Inl (Inv_value ''S3 object has no immutable identity'')
      else Inr (dumps (notification_json bucket key body_size etag version)))"

section \<open>One record\<close>

definition parse_target_event :: "(nat list \<Rightarrow> contract_error + target_payload) \<Rightarrow> string \<Rightarrow> inv_error + target_payload" where
  "parse_target_event adapter raw =
     (if length (utf8 raw) > 65536 then Inl (Inv_value ''contract JSON exceeds 65536 bytes'')
      else contract (adapter (utf8 raw)))"

definition text_or_empty :: "string option \<Rightarrow> string" where
  "text_or_empty v = (case v of None \<Rightarrow> [] | Some s \<Rightarrow> s)"

text \<open>The payload of an outbox image, after the checks on its identity.\<close>

definition outbox_payload :: "(nat list \<Rightarrow> contract_error + target_payload) \<Rightarrow> json \<Rightarrow> inv_error + target_payload" where
  "outbox_payload adapter img =
     (let eid = text_or_empty (image_text img ''event_id''); account = text_or_empty (image_text img ''account_id'');
          reg = text_or_empty (image_text img ''region'')
      in case image_text img ''event_json'' of
           None \<Rightarrow> Inl (Inv_value ''outbox identity is invalid'')
         | Some raw \<Rightarrow>
             bindR (ensure (is_sha256_hex eid \<and> is_account_id account \<and> is_region_name reg)
                      (Inv_value ''outbox identity is invalid'')) (\<lambda>_.
             bindR (parse_target_event adapter raw) (\<lambda>p.
             bindR (ensure (payload_event_id p = eid) (Inv_value ''outbox event identity mismatch'')) (\<lambda>_.
             bindR (ensure (\<not> (account_id (payload_context p) \<noteq> account \<or> region (payload_context p) \<noteq> reg))
                      (Inv_value ''outbox scope mismatch'')) (\<lambda>_.
             Inr p)))))"

definition object_key :: "string \<Rightarrow> target_payload \<Rightarrow> string" where
  "object_key prefix p =
     strip_char (CHR ''/'') prefix @ ''/'' @ account_id (payload_context p) @ ''/'' @ region (payload_context p)
     @ ''/'' @ payload_event_id p @ ''.json''"

definition as_response :: "json \<Rightarrow> json" where
  "as_response v = (if is_obj v then v else JObj [])"

definition checked_head :: "outbox_env \<Rightarrow> string \<Rightarrow> string \<Rightarrow> nat list \<Rightarrow> string \<Rightarrow> json outbox" where
  "checked_head E bucket key body digest =
     bindM (service (ox_head E) (Head_object bucket key)) (\<lambda>response.
     bindM (liftM (ensure (is_obj response) (Inv_value ''S3 HEAD response is invalid''))) (\<lambda>_.
     bindM (liftM (verify_existing_object response body digest)) (\<lambda>_.
     returnM response)))"

text \<open>The object is stored, or the object that is there already is the same; the response identifies it.\<close>

definition put_or_verify :: "outbox_env \<Rightarrow> string \<Rightarrow> string \<Rightarrow> nat list \<Rightarrow> string \<Rightarrow> json outbox" where
  "put_or_verify E bucket key body digest =
     bindM (attempt (service (ox_put E) (Put_object bucket key body digest))) (\<lambda>r.
     case r of
       Inr response \<Rightarrow> returnM (as_response response)
     | Inl e \<Rightarrow>
         if error_code e \<notin> {''ConditionalRequestConflict'', ''PreconditionFailed''} then raiseM e
         else checked_head E bucket key body digest)"

definition object_identity :: "json \<Rightarrow> inv_error + string option \<times> string option" where
  "object_identity response =
     bindR (etag_of response) (\<lambda>etag. bindR (version_id_of response) (\<lambda>version. Inr (etag, version)))"

definition store_object :: "outbox_env \<Rightarrow> string \<Rightarrow> string \<Rightarrow> nat list \<Rightarrow> string \<Rightarrow> (string option \<times> string option) outbox" where
  "store_object E bucket key body digest =
     bindM (put_or_verify E bucket key body digest) (\<lambda>response.
     bindM (liftM (object_identity response)) (\<lambda>identity.
     if identity = (None, None)
     then bindM (checked_head E bucket key body digest) (\<lambda>response. liftM (object_identity response))
     else returnM identity))"

definition routed_queue :: "settings \<Rightarrow> target_payload \<Rightarrow> string" where
  "routed_queue s p =
     (case p of
        Removal _ \<Rightarrow> se_priority_queue_url s
      | Work e \<Rightarrow> if sd_reason (te_scan e) \<noteq> COVERAGE then se_priority_queue_url s else se_coverage_queue_url s)"

definition deliver :: "outbox_env \<Rightarrow> settings \<Rightarrow> json \<Rightarrow> target_payload \<Rightarrow> unit outbox" where
  "deliver E s img p =
     (let body = utf8 (payload_text p); digest = sha256_hexdigest body; key = object_key (se_event_prefix s) p in
      bindM (store_object E (se_event_bucket s) key body digest) (\<lambda>(etag, version).
      bindM (liftM (notification_body (se_event_bucket s) key (length body) etag version)) (\<lambda>message.
      bindM (service (ox_send E) (Send_message (se_target_event_queue_url s) message)) (\<lambda>_.
      bindM (service (ox_send E) (Send_message (routed_queue s p) message)) (\<lambda>_.
      (\<lambda>w. on_table (Mark_delivered (text_or_empty (image_text img ''pk'')) (text_or_empty (image_text img ''sk'')))
         (mark_delivered (ox_table E) img (ox_clock E (length (ow_trace w)))) w))))))"

text \<open>
  \<^verbatim>\<open>dispatch_record\<close> as the handler calls it, with the table configured and without a given time of
  delivery.
\<close>

definition dispatch_record :: "outbox_env \<Rightarrow> settings \<Rightarrow> json \<Rightarrow> bool outbox" where
  "dispatch_record E s record =
     (if vfield record ''eventName'' \<noteq> JStr ''INSERT'' then returnM False
      else let dynamodb = vfield record ''dynamodb'' in
        if \<not> is_obj dynamodb then raiseM (Inv_value ''stream record has no DynamoDB image'')
        else let img = vfield dynamodb ''NewImage'' in
          if \<not> is_obj img \<or> image_text img ''entity'' \<noteq> Some ''outbox'' then returnM False
          else
            bindM (liftM (ensure (\<not> (text_or_empty (image_text img ''pk'') = [] \<or> text_or_empty (image_text img ''sk'') = []))
                     (Inv_value ''outbox delivery state is invalid''))) (\<lambda>_.
            bindM (liftM (delivery_retention_seconds img)) (\<lambda>_.
            bindM (liftM (outbox_payload (ox_adapter E) img)) (\<lambda>p.
            bindM (deliver E s img p) (\<lambda>_. returnM True)))))"

section \<open>The handler\<close>

definition replay_item :: "outbox_env \<Rightarrow> settings \<Rightarrow> int \<times> int \<Rightarrow> json \<Rightarrow> (int \<times> int) outbox" where
  "replay_item E s = (\<lambda>(processed, failures) item.
     if \<not> is_obj item then returnM (processed, failures + 1)
     else bindM (attempt (dispatch_record E s
            (JObj [(''eventName'', JStr ''INSERT''), (''dynamodb'', JObj [(''NewImage'', item)])]))) (\<lambda>r.
       returnM (case r of
                  Inl _ \<Rightarrow> (processed, failures + 1)
                | Inr done \<Rightarrow> if done then (processed + 1, failures) else (processed, failures))))"

definition replay :: "outbox_env \<Rightarrow> settings \<Rightarrow> int outbox" where
  "replay E s =
     (\<lambda>w. bindM (liftM (ox_query E (length (ow_trace w)))) (\<lambda>response.
      case (if is_obj response then vfield response ''Items'' else JNull) of
        JArr items \<Rightarrow>
          bindM (foldM (replay_item E s) (0, 0) items) (\<lambda>(processed, failures).
          if failures \<noteq> 0 then raiseM (Inv_race (''outbox replay failed for '' @ int_str failures @ '' item(s)''))
          else returnM processed)
      | _ \<Rightarrow> raiseM (Inv_value ''outbox replay query returned no Items list'')) w)"

datatype outbox_response = Replayed int | Batch_failures "string list"

definition outbox_handler :: "outbox_env \<Rightarrow> settings \<Rightarrow> json \<Rightarrow> outbox_response outbox" where
  "outbox_handler E s event =
     (if vfield event ''mode'' = JStr ''replay-outbox''
      then bindM (replay E s) (\<lambda>n. returnM (Replayed n))
      else case vfield event ''Records'' of
        JArr records \<Rightarrow>
          bindM (partial_batch (\<lambda>record. bindM (dispatch_record E s record) (\<lambda>_. returnM ())) records)
            (\<lambda>failures. returnM (Batch_failures failures))
      | _ \<Rightarrow> raiseM (Inv_value ''outbox handler requires stream records''))"

end
