(* ===== verification/Inventory_Protocol.thy ===== *)
theory Inventory_Protocol
  imports Inventory_Store
begin

text \<open>
  The protocol of the state table: the steps by which workers, the dispatcher and expiry change it,
  and the invariants of every store that they reach. A worker that relies on the others following
  the protocol follows it too, whichever requests fail and wherever it ends.
\<close>

section \<open>Steps\<close>

definition row :: "store \<Rightarrow> string \<Rightarrow> item option" where
  "row s tid = tbl_get (st_items s) (target_key tid)"

text \<open>A well-formed state item of a target, with its generation, status, signature and observation time.\<close>

definition state_row :: "string \<Rightarrow> item \<Rightarrow> int \<Rightarrow> string \<Rightarrow> string \<Rightarrow> time \<Rightarrow> bool" where
  "state_row tid it g status sig obs \<longleftrightarrow>
     map_of it ''pk'' = Some (S (fst (target_key tid))) \<and> map_of it ''entity'' = Some (S ''target'')
     \<and> map_of it ''generation'' = Some (N g) \<and> map_of it ''status'' = Some (S status)
     \<and> map_of it ''signature'' = Some (S sig) \<and> map_of it ''observed_at'' = Some (S (iso_utc obs))
     \<and> representable obs \<and> 1 \<le> g \<and> status \<in> {''active'', ''removed''}
     \<and> (\<exists>t. map_of it ''target_json'' = Some (S (dumps (to_state_dict t))) \<and> nt_target_id t = tid)"

text \<open>The image of a payload in the outbox.\<close>

definition is_image :: "item \<Rightarrow> target_payload \<Rightarrow> bool" where
  "is_image it p \<longleftrightarrow> (\<exists>ss t now. it = outbox_item ss p t now)"

definition outbox_images :: "item list \<Rightarrow> item list" where
  "outbox_images = filter (\<lambda>it. map_of it ''entity'' = Some (S ''outbox''))"

definition is_tombstone :: "target_payload \<Rightarrow> bool" where
  "is_tombstone p = (case p of Work _ \<Rightarrow> False | Removal _ \<Rightarrow> True)"

definition announces :: "string \<Rightarrow> int \<Rightarrow> string \<Rightarrow> target_payload \<Rightarrow> bool" where
  "announces tid g status p \<longleftrightarrow>
     validate_payload p = None \<and> payload_stable_id p = tid \<and> generation (payload_target p) = g
     \<and> \<not> is_coverage p \<and> is_tombstone p = (status = ''removed'')"

definition enqueue :: "target_payload \<Rightarrow> item \<Rightarrow> store \<Rightarrow> store" where
  "enqueue p img s = put_row (outbox_key (payload_event_id p)) img s"

definition unqueued :: "target_payload \<Rightarrow> store \<Rightarrow> bool" where
  "unqueued p s \<longleftrightarrow> tbl_get (st_items s) (outbox_key (payload_event_id p)) = None"

inductive store_step :: "store \<Rightarrow> store \<Rightarrow> bool" where
  appear: "row s tid = None \<Longrightarrow> state_row tid it 1 ''active'' sig obs \<Longrightarrow> announces tid 1 ''active'' p
    \<Longrightarrow> is_image img p \<Longrightarrow> unqueued p s
    \<Longrightarrow> store_step s (enqueue p img (put_row (target_key tid) it s))"
| advance: "row s tid = Some it0 \<Longrightarrow> state_row tid it0 g status0 sig0 obs0 \<Longrightarrow> state_row tid it (g + 1) status sig obs
    \<Longrightarrow> obs0 \<le> obs \<Longrightarrow> (status = ''removed'' \<longrightarrow> status0 = ''active'') \<Longrightarrow> announces tid (g + 1) status p
    \<Longrightarrow> is_image img p \<Longrightarrow> unqueued p s
    \<Longrightarrow> store_step s (enqueue p img (put_row (target_key tid) it s))"
| refresh: "row s tid = Some it0 \<Longrightarrow> state_row tid it0 g status sig obs0 \<Longrightarrow> state_row tid it g status sig obs
    \<Longrightarrow> obs0 \<le> obs \<Longrightarrow> store_step s (put_row (target_key tid) it s)"
| coverage: "row s tid = Some it0 \<Longrightarrow> state_row tid it0 g ''active'' sig0 obs0 \<Longrightarrow> validate_payload p = None
    \<Longrightarrow> payload_stable_id p = tid \<Longrightarrow> generation (payload_target p) = g \<Longrightarrow> is_coverage p
    \<Longrightarrow> is_image img p \<Longrightarrow> unqueued p s \<Longrightarrow> store_step s (enqueue p img s)"
| other: "(\<And>tid. row s' tid = row s tid) \<Longrightarrow> outbox_images (st_stream s') = outbox_images (st_stream s)
    \<Longrightarrow> store_step s s'"

abbreviation store_run :: "store \<Rightarrow> store \<Rightarrow> bool" where
  "store_run \<equiv> store_step\<^sup>*\<^sup>*"

section \<open>Rows\<close>

lemma target_key_inject [simp]: "target_key a = target_key b \<longleftrightarrow> a = b"
  by (simp add: target_key_def)

lemma keys_differ [simp]: "target_key a \<noteq> outbox_key b" "outbox_key b \<noteq> target_key a"
  "target_key a \<noteq> signal_key c" "signal_key c \<noteq> target_key a"
  by (simp_all add: target_key_def outbox_key_def signal_key_def)

lemma row_put_row [simp]: "row (put_row k it s) tid = (if k = target_key tid then Some it else row s tid)"
  by (auto simp: row_def put_row_def tbl.get_put)

lemma row_enqueue [simp]: "row (enqueue p img s) tid = row s tid"
  by (simp add: enqueue_def)

lemma state_row_unique:
  "state_row tid it g st sig obs \<Longrightarrow> state_row tid it g' st' sig' obs' \<Longrightarrow> g' = g \<and> st' = st \<and> sig' = sig \<and> obs' = obs"
  by (auto simp: state_row_def iso_utc_inject)

definition rows_ok :: "store \<Rightarrow> bool" where
  "rows_ok s \<longleftrightarrow> (\<forall>tid it. row s tid = Some it \<longrightarrow> (\<exists>g st sig obs. state_row tid it g st sig obs))"

lemma rows_ok_cong: "(\<And>tid. row s' tid = row s tid) \<Longrightarrow> rows_ok s' = rows_ok s"
  by (simp add: rows_ok_def)

lemma rows_ok_put: "rows_ok s \<Longrightarrow> state_row tid it g st sig obs \<Longrightarrow> rows_ok (put_row (target_key tid) it s)"
  unfolding rows_ok_def by (metis row_put_row option.inject target_key_inject)

lemma store_step_rows_ok: "store_step s s' \<Longrightarrow> rows_ok s \<Longrightarrow> rows_ok s'"
  by (induction rule: store_step.induct) (metis rows_ok_cong rows_ok_put row_enqueue)+

section \<open>Fencing\<close>

text \<open>
  A row only moves forward: its generation and its observation time never decrease, and within a
  generation its status and its signature never change.
\<close>

definition fenced :: "store \<Rightarrow> store \<Rightarrow> bool" where
  "fenced s s' \<longleftrightarrow> (\<forall>tid it g st sig obs. row s tid = Some it \<longrightarrow> state_row tid it g st sig obs \<longrightarrow>
     (\<exists>it' g' st' sig' obs'. row s' tid = Some it' \<and> state_row tid it' g' st' sig' obs'
        \<and> g \<le> g' \<and> obs \<le> obs' \<and> (g = g' \<longrightarrow> st' = st \<and> sig' = sig)))"

lemma fenced_refl: "fenced s s"
  unfolding fenced_def by blast

lemma fencedE:
  assumes "fenced s s'" "row s tid = Some it" "state_row tid it g st sig obs"
  obtains it' g' st' sig' obs' where "row s' tid = Some it'" "state_row tid it' g' st' sig' obs'"
    "g \<le> g'" "obs \<le> obs'" "g = g' \<longrightarrow> st' = st \<and> sig' = sig"
  using assms unfolding fenced_def by metis

lemma fenced_trans:
  assumes "fenced s t" "fenced t u"
  shows "fenced s u"
  unfolding fenced_def
proof (intro allI impI)
  fix tid it g st sig obs
  assume "row s tid = Some it" "state_row tid it g st sig obs"
  with assms(1) obtain it1 g1 st1 sig1 obs1 where 1: "row t tid = Some it1" "state_row tid it1 g1 st1 sig1 obs1"
    "g \<le> g1" "obs \<le> obs1" "g = g1 \<longrightarrow> st1 = st \<and> sig1 = sig" by (rule fencedE)
  from assms(2) 1(1,2) obtain it2 g2 st2 sig2 obs2 where 2: "row u tid = Some it2" "state_row tid it2 g2 st2 sig2 obs2"
    "g1 \<le> g2" "obs1 \<le> obs2" "g1 = g2 \<longrightarrow> st2 = st1 \<and> sig2 = sig1" by (rule fencedE)
  have "g \<le> g2" "obs \<le> obs2" "g = g2 \<longrightarrow> st2 = st \<and> sig2 = sig" using 1(3-5) 2(3-5) by auto
  with 2(1,2) show "\<exists>it' g' st' sig' obs'. row u tid = Some it' \<and> state_row tid it' g' st' sig' obs'
      \<and> g \<le> g' \<and> obs \<le> obs' \<and> (g = g' \<longrightarrow> st' = st \<and> sig' = sig)" by blast
qed

lemma fenced_put:
  assumes "row s tid = Some it0" "state_row tid it0 g0 st0 sig0 obs0" "state_row tid it g st sig obs"
    and "g0 \<le> g" "obs0 \<le> obs" "g0 = g \<longrightarrow> st = st0 \<and> sig = sig0"
    and "\<And>t. row s' t = (if t = tid then Some it else row s t)"
  shows "fenced s s'"
  unfolding fenced_def
proof (intro allI impI)
  fix t it' g' st' sig' obs'
  assume r: "row s t = Some it'" and sr: "state_row t it' g' st' sig' obs'"
  show "\<exists>it' g'' st'' sig'' obs''. row s' t = Some it' \<and> state_row t it' g'' st'' sig'' obs''
      \<and> g' \<le> g'' \<and> obs' \<le> obs'' \<and> (g' = g'' \<longrightarrow> st'' = st' \<and> sig'' = sig')"
  proof (cases "t = tid")
    case True
    with r assms(1) have "it' = it0" by simp
    with True sr assms(2) have "g' = g0" "st' = st0" "sig' = sig0" "obs' = obs0"
      using state_row_unique by blast+
    with assms True show ?thesis by auto
  next
    case False
    with r sr assms(7) show ?thesis by auto
  qed
qed

lemma store_step_fenced: "store_step s s' \<Longrightarrow> fenced s s'"
proof (induction rule: store_step.induct)
  case (appear s tid it sig obs p img)
  then show ?case by (auto simp: fenced_def)
next
  case (advance s tid it0 g status0 sig0 obs0 it status sig obs p img)
  then show ?case by (intro fenced_put [OF advance(1,2,3)]) auto
next
  case (refresh s tid it0 g status sig obs0 it obs)
  then show ?case by (intro fenced_put [OF refresh(1,2,3)]) auto
next
  case (coverage s tid it0 g sig0 obs0 p img)
  then show ?case by (auto simp: fenced_def)
next
  case (other s' s)
  then show ?case by (auto simp: fenced_def)
qed

lemma store_run_fenced: "store_run s s' \<Longrightarrow> fenced s s'"
  by (induction rule: rtranclp_induct) (auto intro: fenced_refl fenced_trans store_step_fenced)

lemma store_run_rows_ok: "store_run s s' \<Longrightarrow> rows_ok s \<Longrightarrow> rows_ok s'"
  by (induction rule: rtranclp_induct) (auto intro: store_step_rows_ok)

section \<open>Announcements\<close>

text \<open>
  The events of a target in the order of the stream, coverage requests apart: their generations
  are the generations of the target, one after the other, and the last one is a tombstone exactly
  when the target is removed.
\<close>

definition state_generation :: "store \<Rightarrow> string \<Rightarrow> int" where
  "state_generation s tid =
     (case row s tid of None \<Rightarrow> 0
      | Some it \<Rightarrow> (case map_of it ''generation'' of Some (N g) \<Rightarrow> g | _ \<Rightarrow> 0))"

definition state_status :: "store \<Rightarrow> string \<Rightarrow> string option" where
  "state_status s tid = (case row s tid of None \<Rightarrow> None | Some it \<Rightarrow> attribute_text it ''status'')"

definition events_of :: "string \<Rightarrow> target_payload list \<Rightarrow> target_payload list" where
  "events_of tid ps = filter (\<lambda>p. payload_stable_id p = tid \<and> \<not> is_coverage p) ps"

definition announced :: "store \<Rightarrow> target_payload list \<Rightarrow> bool" where
  "announced s ps \<longleftrightarrow>
     list_all2 is_image (outbox_images (st_stream s)) ps \<and> list_all (\<lambda>p. validate_payload p = None) ps
     \<and> (\<forall>tid. map (\<lambda>p. generation (payload_target p)) (events_of tid ps) = [1..state_generation s tid])
     \<and> (\<forall>tid. events_of tid ps \<noteq> [] \<longrightarrow>
          is_tombstone (last (events_of tid ps)) = (state_status s tid = Some ''removed''))"

lemma image_entity: "is_image it p \<Longrightarrow> map_of it ''entity'' = Some (S ''outbox'')"
  by (auto simp: is_image_def outbox_item_def)

lemma stream_put_state: "state_row tid it g st sig obs \<Longrightarrow>
    outbox_images (st_stream (put_row k it s)) = outbox_images (st_stream s)"
  by (simp add: put_row_def outbox_images_def state_row_def)

lemma stream_enqueue: "unqueued p s \<Longrightarrow> is_image img p \<Longrightarrow>
    outbox_images (st_stream (enqueue p img s)) = outbox_images (st_stream s) @ [img]"
  by (simp add: enqueue_def unqueued_def put_row_def outbox_images_def image_entity)

lemma unqueued_put [simp]: "unqueued p (put_row (target_key tid) it s) = unqueued p s"
  by (simp add: unqueued_def put_row_def tbl.get_put)

lemma events_of_snoc: "events_of tid (ps @ [p]) =
    events_of tid ps @ (if payload_stable_id p = tid \<and> \<not> is_coverage p then [p] else [])"
  by (simp add: events_of_def)

lemma state_view:
  "row s tid = Some it \<Longrightarrow> state_row tid it g st sig obs \<Longrightarrow> state_generation s tid = g"
  "row s tid = Some it \<Longrightarrow> state_row tid it g st sig obs \<Longrightarrow> state_status s tid = Some st"
  by (simp_all add: state_generation_def state_status_def state_row_def attribute_text_def)

lemma state_view_cong: "row s' tid = row s tid \<Longrightarrow> state_generation s' tid = state_generation s tid"
  "row s' tid = row s tid \<Longrightarrow> state_status s' tid = state_status s tid"
  by (simp_all add: state_generation_def state_status_def)

text \<open>A step that announces the next generation of a target.\<close>

lemma announced_next:
  assumes "announced s ps" "state_generation s tid = g" "0 \<le> g" "state_row tid it (g + 1) st sig obs"
    and "announces tid (g + 1) st p" "is_image img p" "unqueued p s"
  shows "announced (enqueue p img (put_row (target_key tid) it s)) (ps @ [p])"
proof -
  let ?s = "enqueue p img (put_row (target_key tid) it s)"
  have view: "state_generation ?s t = (if t = tid then g + 1 else state_generation s t)"
    "state_status ?s t = (if t = tid then Some st else state_status s t)" for t
    using state_view [of ?s tid it, OF _ assms(4)] state_view_cong [of ?s t s] by auto
  have images: "outbox_images (st_stream ?s) = outbox_images (st_stream s) @ [img]"
    using assms by (simp add: stream_enqueue stream_put_state [OF assms(4)])
  show ?thesis
    using assms unfolding announced_def images
    by (auto simp: view events_of_snoc announces_def upto_rec2 intro!: list_all2_appendI)
qed

lemma store_step_announced:
  assumes "store_step s s'" "announced s ps"
  shows "\<exists>qs. announced s' (ps @ qs)"
  using assms
proof (induction rule: store_step.induct)
  case (appear s tid it sig obs p img)
  have "state_generation s tid = 0" using appear by (simp add: state_generation_def)
  with appear announced_next [of s ps tid 0 it "''active''" sig obs p img] show ?case by auto
next
  case (advance s tid it0 g status0 sig0 obs0 it status sig obs p img)
  have "state_generation s tid = g" "0 \<le> g"
    using advance state_view(1) [OF advance(1,2)] by (auto simp: state_row_def)
  with advance announced_next [of s ps tid g it status sig obs p img] show ?case by auto
next
  case (refresh s tid it0 g status sig obs0 it obs)
  let ?s = "put_row (target_key tid) it s"
  have view: "state_generation ?s t = state_generation s t" "state_status ?s t = state_status s t" for t
    using state_view [OF refresh(1,2)] state_view [of ?s tid it, OF _ refresh(3)] state_view_cong [of ?s t s]
    by (cases "t = tid"; simp)+
  have "announced ?s ps"
    using refresh(5) unfolding announced_def stream_put_state [OF refresh(3)] view by simp
  then show ?case by (intro exI [of _ "[]"]) simp
next
  case (coverage s tid it0 g sig0 obs0 p img)
  have "announced (enqueue p img s) (ps @ [p])"
    using coverage unfolding announced_def stream_enqueue [OF coverage(8,7)]
    by (auto simp: events_of_snoc state_generation_def state_status_def intro!: list_all2_appendI)
  then show ?case by blast
next
  case (other s' s)
  have "announced s' ps"
    using other unfolding announced_def state_generation_def state_status_def by simp
  then show ?case by (intro exI [of _ "[]"]) simp
qed

lemma store_run_announced: "store_run s s' \<Longrightarrow> announced s ps \<Longrightarrow> \<exists>qs. announced s' (ps @ qs)"
proof (induction arbitrary: ps rule: rtranclp_induct)
  case base
  then show ?case by (intro exI [of _ "[]"]) simp
next
  case (step t u)
  then obtain qs where "announced t (ps @ qs)" by blast
  with step.hyps(2) obtain rs where "announced u ((ps @ qs) @ rs)" by (blast dest: store_step_announced)
  then show ?case by auto
qed

end
