(* ===== verification/Inventory_Worker.thy ===== *)
theory Inventory_Worker
  imports Inventory_Protocol
begin

text \<open>
  Every operation of the state store follows the protocol, relying on the others to do so between
  its requests: on every outcome, however its requests fail and wherever it ends, it changed the
  store only along steps of the protocol.
\<close>

section \<open>Requests\<close>

definition inv_rely :: "inv_env \<Rightarrow> bool" where
  "inv_rely E \<longleftrightarrow> (\<forall>n s. store_run s (ie_others E n s))"

lemma db_call_cases:
  assumes "inv_rely E" "db_call E req w = (r, w')"
  obtains s where "store_run (iw_store w) s" "iw_store w' = s \<or> iw_store w' = snd (req s)"
    "\<And>x. r = Inr x \<Longrightarrow> req s = (Inr x, iw_store w')"
proof -
  have "store_run (iw_store w) (ie_others E (iw_calls w) (iw_store w))" using assms(1) by (simp add: inv_rely_def)
  then show ?thesis
    using assms(2) by (intro that [of "ie_others E (iw_calls w) (iw_store w)"])
      (auto simp: db_call_def Let_def split: prod.splits call_fault.splits)
qed

text \<open>
  \<open>runs P m\<close>: from a store with \<open>P\<close>, however \<open>m\<close> ends, it followed the protocol.
\<close>

definition runs :: "(store \<Rightarrow> bool) \<Rightarrow> 'a inv \<Rightarrow> bool" where
  "runs P m \<longleftrightarrow> (\<forall>w r w'. P (iw_store w) \<longrightarrow> m w = (r, w') \<longrightarrow> store_run (iw_store w) (iw_store w'))"

definition lasting :: "(store \<Rightarrow> bool) \<Rightarrow> bool" where
  "lasting P \<longleftrightarrow> (\<forall>s s'. P s \<longrightarrow> store_run s s' \<longrightarrow> P s')"

lemma lastingD: "lasting P \<Longrightarrow> P s \<Longrightarrow> store_run s s' \<Longrightarrow> P s'"
  by (auto simp: lasting_def)

lemma runsD: "runs P m \<Longrightarrow> P (iw_store w) \<Longrightarrow> m w = (r, w') \<Longrightarrow> store_run (iw_store w) (iw_store w')"
  by (auto simp: runs_def)

lemma runs_pure [intro]: "runs P (returnM x)" "runs P (raiseM e)" "runs P (liftM v)"
  by (simp_all add: runs_def returnM_def raiseM_def liftM_def)

lemma runs_bind_post:
  assumes "runs P m" "\<And>x w w'. P (iw_store w) \<Longrightarrow> m w = (Inr x, w') \<Longrightarrow> store_run (iw_store w) (iw_store w') \<Longrightarrow> Q x (iw_store w')"
    and "\<And>x. runs (Q x) (f x)"
  shows "runs P (bindM m f)"
  unfolding runs_def
proof (intro allI impI)
  fix w r w'
  assume p: "P (iw_store w)" and m: "bindM m f w = (r, w')"
  obtain r1 w1 where 1: "m w = (r1, w1)" by (cases "m w")
  from runsD [OF assms(1) p 1] have run: "store_run (iw_store w) (iw_store w1)" .
  show "store_run (iw_store w) (iw_store w')"
  proof (cases r1)
    case (Inl e)
    with m 1 run show ?thesis by (auto simp: bindM_def)
  next
    case (Inr x)
    from m 1 Inr have f: "f x w1 = (r, w')" by (simp add: bindM_def)
    from runsD [OF assms(3) assms(2) [OF p] f] 1 Inr run show ?thesis by auto
  qed
qed

lemma runs_bind: "lasting P \<Longrightarrow> runs P m \<Longrightarrow> (\<And>x. runs P (f x)) \<Longrightarrow> runs P (bindM m f)"
  by (rule runs_bind_post [where Q = "\<lambda>_. P"]) (auto dest: lastingD)

lemma runs_bind_lift: "(\<And>x. v = Inr x \<Longrightarrow> runs P (f x)) \<Longrightarrow> runs P (bindM (liftM v) f)"
  by (cases v) (auto simp: runs_def bindM_def liftM_def)

lemma runs_attempt: "runs P m \<Longrightarrow> runs P (attempt m)"
  by (auto simp: runs_def attempt_def split: prod.splits)

lemma runs_if: "(b \<Longrightarrow> runs P m) \<Longrightarrow> (\<not> b \<Longrightarrow> runs P n) \<Longrightarrow> runs P (if b then m else n)"
  by simp

lemma runs_case_option: "(z = None \<Longrightarrow> runs P m) \<Longrightarrow> (\<And>x. z = Some x \<Longrightarrow> runs P (f x))
    \<Longrightarrow> runs P (case z of None \<Rightarrow> m | Some x \<Rightarrow> f x)"
  by (cases z) auto

lemma runs_case_sum: "(\<And>x. z = Inl x \<Longrightarrow> runs P (f x)) \<Longrightarrow> (\<And>x. z = Inr x \<Longrightarrow> runs P (g x))
    \<Longrightarrow> runs P (case z of Inl x \<Rightarrow> f x | Inr x \<Rightarrow> g x)"
  by (cases z) auto

lemma runs_call:
  assumes "inv_rely E" "lasting P" "\<And>s. P s \<Longrightarrow> store_run s (snd (req s))"
  shows "runs P (db_call E req)"
  unfolding runs_def
proof (intro allI impI)
  fix w r w'
  assume p: "P (iw_store w)" and d: "db_call E req w = (r, w')"
  from assms(1) d obtain s where s: "store_run (iw_store w) s" "iw_store w' = s \<or> iw_store w' = snd (req s)"
    by (rule db_call_cases)
  from lastingD [OF assms(2) p s(1)] have "store_run s (snd (req s))" by (rule assms(3))
  with s show "store_run (iw_store w) (iw_store w')" by (metis rtranclp_trans)
qed

section \<open>Decoding\<close>

lemma state_dict_wf: "json_wf (to_state_dict t)" "printable (to_state_dict t)"
proof -
  have "json_wf (JObj (py_dict (map (\<lambda>(k, v). (k, JStr v)) (nt_tags t))))"
    "json_wf (JObj (py_dict (map (\<lambda>(g, at). (g, jtime at)) (nt_security_group_observed_at t))))"
    "printable (JObj (py_dict (map (\<lambda>(k, v). (k, JStr v)) (nt_tags t))))"
    "printable (JObj (py_dict (map (\<lambda>(g, at). (g, jtime at)) (nt_security_group_observed_at t))))"
    using py_dict_keys [of "map (\<lambda>(k, v). (k, JStr v)) (nt_tags t)"]
      py_dict_keys [of "map (\<lambda>(g, at). (g, jtime at)) (nt_security_group_observed_at t)"]
    by (fastforce simp: list_all_iff jtime_def)+
  then show "json_wf (to_state_dict t)" "printable (to_state_dict t)"
    by (simp_all add: to_state_dict_def list_all_iff)
qed

lemma from_state_dict_id:
  assumes "from_state_dict (canon (to_state_dict t)) = Inr t'"
  shows "nt_target_id t' = nt_target_id t"
proof -
  let ?v = "canon (to_state_dict t)"
  have "required ''account_id'' ?v = Inr (nt_account_id t)" "required ''region'' ?v = Inr (nt_region t)"
    "required ''network_interface_id'' ?v = Inr (nt_network_interface_id t)"
    "required ''private_ip'' ?v = Inr (nt_private_ip t)"
    unfolding required_def obj_get_canon [OF state_dict_wf(1)] by (simp_all add: to_state_dict_def)
  with assms show ?thesis by (auto simp: from_state_dict_def bindR_Inr normalized_def nt_target_id_def)
qed

lemma py_strip_digits: "list_all is_digit s \<Longrightarrow> py_strip s = s"
proof -
  have sp: "is_digit c \<Longrightarrow> \<not> is_space c" for c by (auto simp: is_digit_def is_space_def)
  have d: "dropWhile is_space u = u" if "list_all is_digit u" for u
    using that sp by (cases u) auto
  assume "list_all is_digit s"
  then show ?thesis using d [of s] d [of "rev s"] by (simp add: py_strip_def list_all_rev)
qed

lemma py_int_str: "0 \<le> g \<Longrightarrow> py_int (int_str g) = Some g"
proof -
  assume g: "0 \<le> g"
  let ?s = "nat_str (nat g)"
  have ds: "list_all is_digit ?s" by (rule nat_str_all)
  obtain c cs where s: "?s = c # cs" by (cases ?s) auto
  have c: "is_digit c" using ds s by simp
  have "CHR ''_'' \<notin> set ?s" by (rule nat_str_no_char) (simp add: is_digit_def code_def)
  then have "split_on (CHR ''_'') ?s = [?s]" by (rule split_on_no_sep)
  then have "py_digits ?s = Some (nat g)" using ds by (simp add: py_digits_def)
  moreover have "c \<noteq> CHR ''-''" "c \<noteq> CHR ''+''" using c by (auto simp: is_digit_def code_def)
  ultimately show ?thesis using g py_strip_digits [OF ds] s by (simp add: py_int_def int_str_nonneg)
qed

lemma decode_state_row:
  assumes r: "state_row tid it g st sig obs" and d: "decode_state it = Inr x"
  shows "ts_target_id x = tid" "ts_generation x = g" "ts_status x = st" "ts_signature x = sig"
    "ts_observed_at x = Some obs" "nt_target_id (ts_target x) = tid"
proof -
  obtain t where t: "map_of it ''target_json'' = Some (S (dumps (to_state_dict t)))" "nt_target_id t = tid"
    using r by (auto simp: state_row_def)
  have attrs: "attribute_text it ''target_json'' = Some (dumps (to_state_dict t))"
    "attribute_text it ''generation'' = Some (int_str g)" "attribute_text it ''status'' = Some st"
    "attribute_text it ''pk'' = Some (''TARGET#'' @ tid)" "attribute_text it ''observed_at'' = Some (iso_utc obs)"
    "attribute_text it ''signature'' = Some sig"
    using r t(1) by (simp_all add: attribute_text_def state_row_def target_key_def)
  have g: "py_int (int_str g) = Some g" using r by (intro py_int_str) (simp add: state_row_def)
  have o: "read_time (iso_utc obs) = Inr obs" using r by (simp add: read_time_def state_row_def iso_parse_utc)
  have l: "loads dict_hook (dumps (to_state_dict t)) = Inr (canon (to_state_dict t))"
    using state_dict_wf by (rule loads_dict)
  from d obtain t' where t': "from_state_dict (canon (to_state_dict t)) = Inr t'"
    and x: "x = \<lparr>ts_target_id = tid, ts_generation = g, ts_status = st, ts_target = t', ts_signature = sig,
      ts_contract_target_id = (if truthy_attr (attribute_text it ''contract_target_id'')
        then attribute_text it ''contract_target_id'' else None), ts_observed_at = Some obs\<rparr>"
    by (auto simp: decode_state_def attrs l o g bindR_Inr split: if_splits)
  show "ts_target_id x = tid" "ts_generation x = g" "ts_status x = st" "ts_signature x = sig"
    "ts_observed_at x = Some obs" "nt_target_id (ts_target x) = tid"
    using from_state_dict_id [OF t'] t(2) by (simp_all add: x)
qed

lemma state_item_row:
  assumes "state_item st now = Inr it" "ts_observed_at st = Some obs" "representable obs" "1 \<le> ts_generation st"
    and "ts_status st \<in> {''active'', ''removed''}" "nt_target_id (ts_target st) = ts_target_id st"
  shows "state_row (ts_target_id st) it (ts_generation st) (ts_status st) (ts_signature st) obs"
  using assms by (auto simp: state_item_def state_row_def)

section \<open>What a worker has seen\<close>

lemma rows_okE:
  assumes "rows_ok s" "row s tid = Some it"
  obtains g st sig obs where "state_row tid it g st sig obs"
  using assms unfolding rows_ok_def by blast

text \<open>A state that was read from the store at some earlier moment, or the absence of one.\<close>

definition seen :: "string \<Rightarrow> target_state option \<Rightarrow> store \<Rightarrow> bool" where
  "seen tid v s \<longleftrightarrow> rows_ok s \<and>
     (case v of None \<Rightarrow> True
      | Some p \<Rightarrow> \<exists>s0 it. store_run s0 s \<and> rows_ok s0 \<and> row s0 tid = Some it \<and> decode_state it = Inr p)"

lemma lasting_rows_ok: "lasting rows_ok"
  by (auto simp: lasting_def store_run_rows_ok)

lemma lasting_seen: "lasting (seen tid v)"
  unfolding lasting_def seen_def
  by (auto split: option.splits intro: store_run_rows_ok) (meson rtranclp_trans)

lemma seen_rows_ok: "seen tid v s \<Longrightarrow> rows_ok s"
  by (simp add: seen_def)

lemma runs_weaken: "runs P m \<Longrightarrow> (\<And>s. Q s \<Longrightarrow> P s) \<Longrightarrow> runs Q m"
  by (auto simp: runs_def)

lemma get_state_item:
  assumes "inv_rely E" "get_state E tid w = (r, w')"
  shows "store_run (iw_store w) (iw_store w')"
    and "r = Inr (Some p) \<Longrightarrow> \<exists>it. row (iw_store w') tid = Some it \<and> decode_state it = Inr p"
proof -
  obtain r1 w1 where 1: "db_call E (read_item (target_key tid)) w = (r1, w1)" by fastforce
  from assms(1) 1 obtain s where s: "store_run (iw_store w) s"
      "iw_store w1 = s \<or> iw_store w1 = snd (read_item (target_key tid) s)"
      "\<And>x. r1 = Inr x \<Longrightarrow> read_item (target_key tid) s = (Inr x, iw_store w1)"
    by (rule db_call_cases) blast
  have w1: "iw_store w1 = s" using s(2) by (auto simp: read_item_def)
  have w': "w' = w1" using assms(2) 1
    by (auto simp: get_state_def bindM_def liftM_def returnM_def split: sum.splits option.splits)
  show "store_run (iw_store w) (iw_store w')" using s(1) w1 w' by simp
  show "\<exists>it. row (iw_store w') tid = Some it \<and> decode_state it = Inr p" if "r = Inr (Some p)"
    using assms(2) 1 that s(3) w1 w'
    by (auto simp: get_state_def bindM_def liftM_def returnM_def read_item_def row_def bindR_Inr split: sum.splits option.splits)
qed

lemma runs_get: "inv_rely E \<Longrightarrow> runs P (get_state E tid)"
  by (auto simp: runs_def dest: get_state_item)

lemma get_seen:
  assumes "inv_rely E" "rows_ok (iw_store w)" "get_state E tid w = (Inr v, w')"
  shows "seen tid v (iw_store w')"
  using get_state_item [OF assms(1,3)] assms(2) store_run_rows_ok
  by (auto simp: seen_def split: option.splits)

lemma runs_get_bind: "inv_rely E \<Longrightarrow> (\<And>v. runs (seen tid v) (f v)) \<Longrightarrow> runs rows_ok (bindM (get_state E tid) f)"
  by (rule runs_bind_post [where Q = "seen tid"]) (auto intro: runs_get get_seen)

lemma runs_final_get: "inv_rely E \<Longrightarrow> runs P (bindM (get_state E tid) (\<lambda>x. returnM (f x)))"
  by (rule runs_bind_post [where Q = "\<lambda>_ _. True"]) (auto intro: runs_get)

lemma seen_facts:
  assumes "seen tid (Some p) s"
  shows "ts_target_id p = tid" "nt_target_id (ts_target p) = tid" "1 \<le> ts_generation p"
    "ts_status p \<in> {''active'', ''removed''}" "\<exists>obs. ts_observed_at p = Some obs \<and> representable obs"
proof -
  from assms obtain s0 it where r: "rows_ok s0" "row s0 tid = Some it" "decode_state it = Inr p"
    by (auto simp: seen_def)
  from r(1,2) obtain g st sig obs where sr: "state_row tid it g st sig obs" by (rule rows_okE)
  from decode_state_row [OF sr r(3)] sr show "ts_target_id p = tid" "nt_target_id (ts_target p) = tid"
    "1 \<le> ts_generation p" "ts_status p \<in> {''active'', ''removed''}"
    "\<exists>obs. ts_observed_at p = Some obs \<and> representable obs"
    by (auto simp: state_row_def)
qed

text \<open>A condition on the version of a state that was seen finds the state as it was.\<close>

lemma seen_condition:
  assumes "seen tid (Some p) s" "write_condition (Some p) = Inr c" "c (row s tid)"
  obtains it obs where "row s tid = Some it" "ts_observed_at p = Some obs"
    "state_row tid it (ts_generation p) (ts_status p) (ts_signature p) obs"
proof -
  from assms(1) obtain s0 it0 where r: "store_run s0 s" "rows_ok s0" "row s0 tid = Some it0" "decode_state it0 = Inr p"
    by (auto simp: seen_def)
  from r(2,3) obtain g st sig obs where sr: "state_row tid it0 g st sig obs" by (rule rows_okE)
  note d = decode_state_row [OF sr r(4)]
  from store_run_fenced [OF r(1)] r(3) sr obtain it' g' st' sig' obs'
    where f: "row s tid = Some it'" "state_row tid it' g' st' sig' obs'" "g = g' \<longrightarrow> st' = st \<and> sig' = sig"
    by (rule fencedE) blast
  have "same_version p obs (Some it')" using assms(2,3) d f(1) by (simp add: write_condition_def)
  then have "g' = g" "obs' = obs"
    using f(2) sr d by (auto simp: same_version_def state_row_def iso_utc_inject)
  with f d that show ?thesis by simp
qed

section \<open>Writes\<close>

lemma runs_transact:
  assumes "inv_rely E" "\<And>s. P s \<Longrightarrow> list_all (condition_holds s) items \<Longrightarrow> store_run s (foldl apply_item s items)"
    and "lasting P"
  shows "runs P (db_call E (transact_write_items items))"
  using assms by (intro runs_call) (auto simp: transact_write_items_def)

lemma runs_write_only:
  assumes E: "inv_rely E" and st: "ts_target_id st = tid" "nt_target_id (ts_target st) = tid"
    "ts_generation st = ts_generation p" "ts_status st = ts_status p" "ts_signature st = ts_signature p"
    and obs: "ts_observed_at st = Some obs" "representable obs" "\<And>known. ts_observed_at p = Some known \<Longrightarrow> known \<le> obs"
  shows "runs (seen tid (Some p)) (write_state_only E st now p)"
  unfolding write_state_only_def
proof (intro runs_bind_lift runs_transact E lasting_seen)
  fix c it s
  assume c: "write_condition (Some p) = Inr c" and it: "state_item st now = Inr it"
    and s: "seen tid (Some p) s" and ok: "list_all (condition_holds s) [Put_item (target_key (ts_target_id st)) it c]"
  from ok have "c (row s tid)" by (simp add: st row_def)
  with s c obtain it0 known where r: "row s tid = Some it0" "ts_observed_at p = Some known"
    "state_row tid it0 (ts_generation p) (ts_status p) (ts_signature p) known" by (rule seen_condition)
  have "state_row tid it (ts_generation p) (ts_status p) (ts_signature p) obs"
    using state_item_row [OF it obs(1,2)] seen_facts [OF s] st by simp
  from store_step.refresh [OF r(1,3) this obs(3) [OF r(2)]]
  show "store_run s (foldl apply_item s [Put_item (target_key (ts_target_id st)) it c])" by (simp add: st)
qed

lemma runs_write_outbox:
  assumes E: "inv_rely E" and st: "ts_target_id st = tid" "nt_target_id (ts_target st) = tid"
    "ts_generation st = (case v of None \<Rightarrow> 1 | Some p \<Rightarrow> ts_generation p + 1)" "ts_status st \<in> {''active'', ''removed''}"
    and removed: "ts_status st = ''removed'' \<Longrightarrow> \<exists>p. v = Some p \<and> ts_status p = ''active''"
    and obs: "ts_observed_at st = Some obs" "representable obs"
      "\<And>p known. v = Some p \<Longrightarrow> ts_observed_at p = Some known \<Longrightarrow> known \<le> obs"
    and ev: "announces tid (ts_generation st) (ts_status st) e"
  shows "runs (seen tid v) (write_state_and_outbox E ss st e now v)"
  unfolding write_state_and_outbox_def
proof (intro runs_bind_lift runs_transact E lasting_seen)
  fix c it s
  let ?img = "outbox_item ss e (ts_target st) now"
  let ?items = "[Put_item (target_key (ts_target_id st)) it c, Put_item (outbox_key (payload_event_id e)) ?img not_exists]"
  assume c: "write_condition v = Inr c" and it: "state_item st now = Inr it"
    and s: "seen tid v s" and ok: "list_all (condition_holds s) ?items"
  from ok have cond: "c (row s tid)" and u: "unqueued e s" by (simp_all add: st row_def unqueued_def not_exists_def)
  have img: "is_image ?img e" by (auto simp: is_image_def)
  have result: "foldl apply_item s ?items = enqueue e ?img (put_row (target_key tid) it s)" by (simp add: st enqueue_def)
  show "store_run s (foldl apply_item s ?items)"
  proof (cases v)
    case None
    then have "row s tid = None" "ts_status st = ''active''" "ts_generation st = 1"
      using c cond removed st by (auto simp: write_condition_def not_exists_def)
    moreover from this have "state_row tid it 1 ''active'' (ts_signature st) obs"
      using state_item_row [OF it obs(1,2)] st by simp
    ultimately show ?thesis
      unfolding result using ev img u by (intro r_into_rtranclp store_step.appear) auto
  next
    case (Some p)
    from s Some c cond obtain it0 known where r: "row s tid = Some it0" "ts_observed_at p = Some known"
      "state_row tid it0 (ts_generation p) (ts_status p) (ts_signature p) known"
      by (metis seen_condition)
    have g: "ts_generation st = ts_generation p + 1" "1 \<le> ts_generation p" using st(3) Some seen_facts(3) s by auto
    then have "state_row tid it (ts_generation p + 1) (ts_status st) (ts_signature st) obs"
      using state_item_row [OF it obs(1,2)] st by auto
    from store_step.advance [OF r(1,3) this obs(3) [OF Some r(2)], of e ?img] show ?thesis
      unfolding result using removed Some ev img u g by auto
  qed
qed

section \<open>Operations\<close>

lemma normalized_Inr: "normalized t = Inr t' \<Longrightarrow> t' = t"
  by (auto simp: normalized_def bindR_Inr)

lemma kept_identity:
  "with_observation at t = Inr t' \<Longrightarrow> nt_target_id t' = nt_target_id t"
  "preserving_component_versions p t = Inr t' \<Longrightarrow> nt_target_id t' = nt_target_id t"
  "preserving_known_lifecycle p t = Inr t' \<Longrightarrow> nt_target_id t' = nt_target_id t"
  by (auto simp: with_observation_def preserving_component_versions_def preserving_known_lifecycle_def nt_target_id_def
      dest!: normalized_Inr split: sum.splits if_splits option.splits json.splits)

lemma compare_observation_Continue:
  assumes "compare_observation t obs cfg v = Inr (Continue t' obs')" "representable obs" "seen tid v s"
  shows "nt_target_id t' = nt_target_id t" "representable obs'"
    and "\<And>p known. v = Some p \<Longrightarrow> ts_observed_at p = Some known \<Longrightarrow> known \<le> obs'"
proof -
  have known: "representable k" if "v = Some p" "ts_observed_at p = Some k" for p k
    using seen_facts(5) [of tid p s] assms(3) that by auto
  have order: "(case order of MIXED \<Rightarrow> Settled a | NOT_NEWER \<Rightarrow> Settled b | ADVANCES \<Rightarrow> Continue u k) = Continue t' obs'
      \<longleftrightarrow> order = ADVANCES \<and> u = t' \<and> k = obs'" for order a b u k
    by (cases order) auto
  show "nt_target_id t' = nt_target_id t" "representable obs'"
    "\<And>p known. v = Some p \<Longrightarrow> ts_observed_at p = Some known \<Longrightarrow> known \<le> obs'"
    using assms(1,2) known
    by (auto simp: compare_observation_def bindR_Inr max_def kept_identity(2) order split: option.splits if_splits)
qed

lemma event_reason_not_coverage: "event_reason_of v t None \<noteq> COVERAGE"
  by (simp add: event_reason_of_def)

lemma runs_refresh:
  assumes "inv_rely E" "nt_target_id t = tid" "ts_signature p = state_signature t" "representable obs"
    and "\<And>known. ts_observed_at p = Some known \<Longrightarrow> known \<le> obs" "ts_target_id p = tid"
  shows "runs (seen tid (Some p)) (refresh E p t obs now)"
  unfolding refresh_def Let_def
  by (intro runs_bind lasting_seen runs_attempt runs_write_only runs_case_sum runs_if) (auto simp: assms)

lemma runs_announce:
  assumes "inv_rely E" "nt_target_id t = tid" "representable obs"
    and "\<And>p known. v = Some p \<Longrightarrow> ts_observed_at p = Some known \<Longrightarrow> known \<le> obs"
  shows "runs (seen tid v) (announce E ss v t obs source now)"
  unfolding announce_def Let_def
proof (intro runs_bind_lift runs_bind lasting_seen runs_attempt runs_case_sum runs_if)
  fix e :: target_event
  let ?g = "case v of None \<Rightarrow> 1 | Some p \<Rightarrow> ts_generation p + 1"
  let ?st = "\<lparr>ts_target_id = nt_target_id t, ts_generation = ?g, ts_status = ''active'', ts_target = t,
    ts_signature = state_signature t, ts_contract_target_id = Some (target_id (te_target e)), ts_observed_at = Some obs\<rparr>"
  assume b: "build_target_event t ?g source now (active_target v) None = Inr e"
  have "announces tid ?g ''active'' (Work e)"
    using build_target_event_Inr [OF b] assms(2) event_reason_not_coverage
    by (simp add: announces_def validate_payload_def payload_target_def is_coverage_def is_tombstone_def)
  then show "runs (seen tid v) (write_state_and_outbox E ss ?st (Work e) now v)"
    using assms by (intro runs_write_outbox) auto
qed auto

lemma runs_seen_decide:
  assumes "\<And>s. seen tid v s \<Longrightarrow> runs (seen tid v) m"
  shows "runs (seen tid v) m"
  using assms unfolding runs_def by blast

lemma runs_continue_with:
  assumes E: "inv_rely E" and s: "seen tid v s" and id: "nt_target_id t = tid" and rep: "representable obs"
    and newer: "\<And>p known. v = Some p \<Longrightarrow> ts_observed_at p = Some known \<Longrightarrow> known \<le> obs"
  shows "runs (seen tid v) (continue_with E ss v t obs source now)"
  unfolding continue_with_def
proof (intro runs_bind_lift runs_case_option runs_if)
  fix t'
  assume "(case active_target v of None \<Rightarrow> Inr t | Some known \<Rightarrow> preserving_known_lifecycle known t) = Inr t'"
  then have id': "nt_target_id t' = tid" using id kept_identity(3) by (auto split: option.splits)
  show a: "runs (seen tid v) (announce E ss v t' obs source now)" by (rule runs_announce [OF E id' rep newer])
  then show "runs (seen tid v) (announce E ss v t' obs source now)" .
  fix p assume v: "v = Some p" and "unchanged v t'"
  then have "ts_signature p = state_signature t'" "ts_target_id p = tid"
    using seen_facts(1) [of tid p s] s by (auto simp: unchanged_def)
  then show "runs (seen tid v) (refresh E p t' obs now)"
    unfolding v using newer v by (intro runs_refresh [OF E id' _ rep]) auto
qed

lemma runs_reconcile_once:
  assumes E: "inv_rely E" and "representable obs" "nt_target_id incoming = tid"
  shows "runs rows_ok (reconcile_once E ss incoming obs cfg source now)"
  unfolding reconcile_once_def assms(3)
proof (rule runs_get_bind [OF E], rule runs_seen_decide, rule runs_bind_lift)
  fix v s d
  assume s: "seen tid v s" and d: "compare_observation incoming obs cfg v = Inr d"
  show "runs (seen tid v) (case d of Settled r \<Rightarrow> returnM (Some r)
     | Continue t state_observed \<Rightarrow> continue_with E ss v t state_observed source now)"
  proof (cases d)
    case (Continue t obs')
    note c = compare_observation_Continue [OF d [unfolded Continue] assms(2) s]
    then show ?thesis using runs_continue_with [OF E s _ c(2)] assms(3) Continue by simp
  qed auto
qed

lemma runs_reconcile:
  assumes "inv_rely E" "representable (case nt_observed_at t of None \<Rightarrow> es_observed_at source | Some x \<Rightarrow> x)"
  shows "runs rows_ok (reconcile E ss t source now)"
proof -
  have loop: "runs rows_ok (reconcile_loop n E ss incoming obs cfg source now)" if "representable obs" for n incoming obs cfg
  proof (induction n)
    case 0
    then show ?case using runs_final_get [OF assms(1)] by simp
  next
    case (Suc n)
    show ?case
      by (simp, intro runs_bind lasting_rows_ok runs_reconcile_once [OF assms(1) that refl] runs_case_option Suc.IH) auto
  qed
  show ?thesis unfolding reconcile_def Let_def using loop [OF assms(2)] by (intro runs_bind_lift) auto
qed

lemma runs_confirm:
  assumes E: "inv_rely E"
  shows "runs (seen (ts_target_id expected) (Some expected)) (confirm_config_versions E expected observation now)"
    (is "runs ?seen _")
proof (rule runs_seen_decide)
  fix s
  assume s: "?seen s"
  note f = seen_facts [OF s]
  from f(5) obtain obs where obs: "ts_observed_at expected = Some obs" "representable obs" by blast
  show "runs ?seen (confirm_config_versions E expected observation now)"
    unfolding confirm_config_versions_def Let_def
  proof (intro runs_case_option runs_if runs_bind_lift runs_bind lasting_seen runs_attempt runs_case_sum runs_final_get E)
    fix eni versions t
    assume "normalized (ts_target expected\<lparr>nt_eni_observed_at := Some (case nt_eni_observed_at (ts_target expected) of
        None \<Rightarrow> eni | Some p \<Rightarrow> max p eni), nt_security_group_observed_at := versions\<rparr>) = Inr t"
    then have "nt_target_id t = ts_target_id expected" using f(2) by (auto simp: nt_target_id_def dest!: normalized_Inr)
    then show "runs ?seen (write_state_only E (expected\<lparr>ts_target := t\<rparr>) now expected)"
      using obs by (intro runs_write_only [OF E]) auto
  qed (auto intro: runs_get E)
qed

lemma runs_remove:
  assumes E: "inv_rely E" and rep: "representable (es_observed_at source)"
  shows "runs rows_ok (remove E ss expected source now)"
  unfolding remove_def
proof (rule runs_get_bind [OF E], rule runs_seen_decide, intro runs_case_option runs_if runs_pure)
  fix v s and c :: target_state
  let ?tid = "ts_target_id expected"
  assume s: "seen ?tid v s" and v: "v = Some c" and act: "\<not> (ts_status c \<noteq> ''active'' \<or> ts_generation c \<noteq> ts_generation expected)"
    and newer: "\<not> (case ts_observed_at c of None \<Rightarrow> False | Some known \<Rightarrow> es_observed_at source \<le> known)"
  note f = seen_facts [OF s [unfolded v]]
  let ?st = "c\<lparr>ts_generation := ts_generation c + 1, ts_status := ''removed'', ts_observed_at := Some (es_observed_at source)\<rparr>"
  show "runs (seen ?tid v) (let g = ts_generation c + 1
      in bindM (liftM (build_removal_event (ts_target c) g source now)) (\<lambda>e.
         let st = c\<lparr>ts_generation := g, ts_status := ''removed'', ts_observed_at := Some (es_observed_at source)\<rparr>
         in bindM (attempt (write_state_and_outbox E ss st (Removal e) now (Some c))) (\<lambda>r.
            case r of
              Inl x \<Rightarrow> if conditional_failure x then bindM (get_state E ?tid) (\<lambda>s. returnM (result RACE s None)) else raiseM x
            | Inr _ \<Rightarrow> returnM (result REMOVED (Some st) (Some (Removal e))))))"
    unfolding Let_def
  proof (intro runs_bind_lift runs_bind lasting_seen runs_attempt runs_case_sum runs_if runs_final_get E)
    fix e :: target_removal
    assume b: "build_removal_event (ts_target c) (ts_generation c + 1) source now = Inr e"
    have "announces ?tid (ts_generation c + 1) ''removed'' (Removal e)"
      using build_removal_event_Inr [OF b] f(2)
      by (simp add: announces_def validate_payload_def payload_target_def is_coverage_def is_tombstone_def)
    then show "runs (seen ?tid v) (write_state_and_outbox E ss ?st (Removal e) now (Some c))"
      using v f act newer rep by (simp only: v, intro runs_write_outbox [OF E]) (auto split: option.splits)
  qed (auto intro: runs_get E)
qed

lemma runs_enqueue_coverage:
  assumes E: "inv_rely E"
  shows "runs rows_ok (enqueue_coverage E ss st source now)"
  unfolding enqueue_coverage_def
proof (rule runs_get_bind [OF E], rule runs_seen_decide, intro runs_case_option runs_if runs_pure runs_bind_lift
    runs_bind lasting_seen runs_attempt runs_case_sum runs_final_get E runs_transact)
  fix v s0 s and c :: target_state and e :: target_event
  let ?tid = "ts_target_id st"
  let ?img = "outbox_item ss (Work e) (ts_target c) now"
  let ?items = "[Check_item (target_key (ts_target_id c)) (generation_active (ts_generation c)),
                 Put_item (outbox_key (te_event_id e)) ?img not_exists]"
  assume s0: "seen ?tid v s0" and v: "v = Some c" and s: "seen ?tid v s"
    and b: "build_target_event (ts_target c) (ts_generation c) source now None (Some COVERAGE) = Inr e"
    and ok: "list_all (condition_holds s) ?items"
  note f = seen_facts [OF s [unfolded v]] and ev = build_target_event_Inr [OF b]
  from ok f(1) obtain it where it: "row s ?tid = Some it" "generation_active (ts_generation c) (Some it)"
    and u: "unqueued (Work e) s"
    by (auto simp: row_def generation_active_def unqueued_def not_exists_def payload_event_id_def split: option.splits)
  from seen_rows_ok [OF s] it(1) obtain g status sig obs where r: "state_row ?tid it g status sig obs" by (rule rows_okE)
  then have "state_row ?tid it (ts_generation c) ''active'' sig obs"
    using it(2) by (auto simp: generation_active_def state_row_def)
  from store_step.coverage [OF it(1) this, of "Work e" ?img] ev f(2) u
  show "store_run s (foldl apply_item s ?items)"
    by (auto simp: validate_payload_def payload_target_def is_coverage_def event_reason_of_def is_image_def
        enqueue_def payload_event_id_def)
qed (auto intro: runs_get E)

lemma other_row: "snd k \<noteq> ''STATE'' \<Longrightarrow> row (put_row k it s) tid = row s tid"
  by (auto simp: target_key_def)

lemma runs_claim_signal: "inv_rely E \<Longrightarrow> runs rows_ok (claim_signal E sid now ttl)"
  unfolding claim_signal_def
  by (intro runs_bind lasting_rows_ok runs_attempt runs_call runs_case_sum runs_if)
    (auto simp: put_item_def signal_key_def other_row put_row_def outbox_images_def intro!: store_step.other
      r_into_rtranclp, auto simp: row_def target_key_def tbl.get_put)

lemma runs_release_signal: "inv_rely E \<Longrightarrow> runs rows_ok (release_signal E sid)"
  unfolding release_signal_def
  by (intro runs_call lasting_rows_ok)
    (auto simp: delete_item_def signal_key_def row_def tbl_get_def target_key_def AList.delete_conv'
      intro!: r_into_rtranclp store_step.other)

lemma runs_list_current: "inv_rely E \<Longrightarrow> runs rows_ok (list_current E scope)"
proof -
  assume E: "inv_rely E"
  have "runs rows_ok (scan_loop n E scope key acc)" for n key acc
  proof (induction n arbitrary: key acc)
    case (Suc n)
    have "runs rows_ok (bindM (db_call E (\<lambda>s. (Inr (ie_scan E k key s), s))) (\<lambda>(items, last).
       bindM (liftM (current_states scope items)) (\<lambda>sts.
       if last = None \<or> last = Some [] then returnM (sort_key ts_target_id (acc @ sts))
       else scan_loop n E scope last (acc @ sts))))" for k
      unfolding case_prod_unfold
      by (intro runs_bind runs_bind_lift runs_if lasting_rows_ok runs_call E Suc.IH) auto
    then show ?case unfolding scan_loop.simps runs_def by blast
  qed auto
  then show ?thesis by (simp add: list_current_def)
qed

end
