(* ===== verification/Inventory_Delivery.thy ===== *)
theory Inventory_Delivery
  imports Inventory_Outbox Inventory_Worker Generator_Reader
begin

text \<open>
  What the dispatcher of the outbox does, in which order, and what its message is to the generator: a reference
  to the stored object that the generator decodes and reads back as the announced payload.
\<close>

section \<open>The order of a delivery\<close>

abbreviation is_object_call :: "outbox_call \<times> json option \<Rightarrow> bool" where
  "is_object_call x \<equiv> (case fst x of Put_object _ _ _ _ \<Rightarrow> True | Head_object _ _ \<Rightarrow> True | _ \<Rightarrow> False)"

text \<open>The bucket holds the body: the object was stored, or the one that is there was verified.\<close>

definition object_held :: "string \<Rightarrow> string \<Rightarrow> nat list \<Rightarrow> (outbox_call \<times> json option) list \<Rightarrow> bool" where
  "object_held bucket key body calls \<longleftrightarrow>
     (\<exists>response. (Put_object bucket key body (sha256_hexdigest body), Some response) \<in> set calls)
     \<or> (\<exists>response. (Head_object bucket key, Some response) \<in> set calls
          \<and> verify_existing_object response body (sha256_hexdigest body) = Inr ())"

text \<open>The identity that one of the responses about the object gives to it.\<close>

definition names_object :: "string \<Rightarrow> string \<Rightarrow> outbox_call \<Rightarrow> bool" where
  "names_object bucket key c = (case c of Put_object b k _ _ \<Rightarrow> b = bucket \<and> k = key | Head_object b k \<Rightarrow> b = bucket \<and> k = key | _ \<Rightarrow> False)"

definition identity_given :: "string \<Rightarrow> string \<Rightarrow> string option \<times> string option \<Rightarrow> (outbox_call \<times> json option) list \<Rightarrow> bool" where
  "identity_given bucket key i calls \<longleftrightarrow>
     (\<exists>c v. (c, Some v) \<in> set calls \<and> names_object bucket key c \<and> object_identity (as_response v) = Inr i)"

lemma object_held_mono: "object_held bucket key body a \<Longrightarrow> set a \<subseteq> set b \<Longrightarrow> object_held bucket key body b"
  unfolding object_held_def by blast

lemma identity_given_mono: "identity_given bucket key i a \<Longrightarrow> set a \<subseteq> set b \<Longrightarrow> identity_given bucket key i b"
  unfolding identity_given_def by blast

text \<open>\<open>object_calls P m\<close>: \<open>m\<close> makes only calls about the object, and when it returns a value they satisfy \<open>P\<close>.\<close>

definition object_calls :: "('a \<Rightarrow> (outbox_call \<times> json option) list \<Rightarrow> bool) \<Rightarrow> 'a outbox \<Rightarrow> bool" where
  "object_calls P m \<longleftrightarrow> (\<forall>w r w'. m w = (r, w') \<longrightarrow>
     (\<exists>calls. ow_trace w' = ow_trace w @ calls \<and> list_all is_object_call calls \<and> (\<forall>x. r = Inr x \<longrightarrow> P x calls)))"

lemma object_callsE:
  assumes "object_calls P m" "m w = (r, w')"
  obtains calls where "ow_trace w' = ow_trace w @ calls" "list_all is_object_call calls" "\<forall>x. r = Inr x \<longrightarrow> P x calls"
  using assms unfolding object_calls_def by metis

lemma object_calls_weaken:
  assumes "object_calls P m" "\<And>x calls. P x calls \<Longrightarrow> Q x calls"
  shows "object_calls Q m"
  unfolding object_calls_def
proof (intro allI impI)
  fix w r w'
  assume m: "m w = (r, w')"
  obtain calls where "ow_trace w' = ow_trace w @ calls" "list_all is_object_call calls" "\<forall>x. r = Inr x \<longrightarrow> P x calls"
    by (rule object_callsE [OF assms(1) m])
  with assms(2) show "\<exists>calls. ow_trace w' = ow_trace w @ calls \<and> list_all is_object_call calls \<and> (\<forall>x. r = Inr x \<longrightarrow> Q x calls)"
    by (intro exI [of _ calls]) simp
qed

lemma object_calls_lift: "object_calls (\<lambda>x calls. v = Inr x) (liftM v)"
  "object_calls (\<lambda>x calls. x = y) (returnM y)"
  by (simp_all add: object_calls_def returnM_def liftM_def)

lemma object_calls_bind:
  assumes "object_calls Q m" "\<And>x. object_calls (R x) (f x)" "\<And>x y a b. Q x a \<Longrightarrow> R x y b \<Longrightarrow> P y (a @ b)"
  shows "object_calls P (bindM m f)"
  unfolding object_calls_def
proof (intro allI impI)
  fix w r w'
  assume m: "bindM m f w = (r, w')"
  obtain r1 w1 where 1: "m w = (r1, w1)" by (cases "m w")
  obtain a where a: "ow_trace w1 = ow_trace w @ a" "list_all is_object_call a" "\<forall>x. r1 = Inr x \<longrightarrow> Q x a"
    by (rule object_callsE [OF assms(1) 1])
  show "\<exists>calls. ow_trace w' = ow_trace w @ calls \<and> list_all is_object_call calls \<and> (\<forall>x. r = Inr x \<longrightarrow> P x calls)"
  proof (cases r1)
    case (Inl e)
    with m 1 a show ?thesis by (auto simp: bindM_def)
  next
    case (Inr x)
    with m 1 have f: "f x w1 = (r, w')" by (simp add: bindM_def)
    obtain b where "ow_trace w' = ow_trace w1 @ b" "list_all is_object_call b" "\<forall>y. r = Inr y \<longrightarrow> R x y b"
      by (rule object_callsE [OF assms(2) f])
    with a Inr assms(3) show ?thesis by (intro exI [of _ "a @ b"]) auto
  qed
qed

definition verified :: "string \<Rightarrow> string \<Rightarrow> nat list \<Rightarrow> json \<Rightarrow> (outbox_call \<times> json option) list \<Rightarrow> bool" where
  "verified bucket key body response calls \<longleftrightarrow> (Head_object bucket key, Some response) \<in> set calls \<and> is_obj response
     \<and> verify_existing_object response body (sha256_hexdigest body) = Inr ()"

lemma verified_held: "verified bucket key body response calls \<Longrightarrow> object_held bucket key body calls"
  by (auto simp: verified_def object_held_def)

lemma checked_head_calls: "object_calls (verified bucket key body) (checked_head E bucket key body (sha256_hexdigest body))"
  unfolding object_calls_def
proof (intro allI impI)
  fix w r w'
  assume "checked_head E bucket key body (sha256_hexdigest body) w = (r, w')"
  then show "\<exists>calls. ow_trace w' = ow_trace w @ calls \<and> list_all is_object_call calls
      \<and> (\<forall>x. r = Inr x \<longrightarrow> verified bucket key body x calls)"
    by (intro exI [of _ "[(Head_object bucket key, response_of (ox_head E (length (ow_trace w))))]"])
      (auto simp: checked_head_def bindM_def service_def liftM_def returnM_def Let_def verified_def response_of_def
        split: sum.splits)
qed

definition obtained :: "string \<Rightarrow> string \<Rightarrow> nat list \<Rightarrow> json \<Rightarrow> (outbox_call \<times> json option) list \<Rightarrow> bool" where
  "obtained bucket key body response calls \<longleftrightarrow> object_held bucket key body calls
     \<and> (\<exists>c v. (c, Some v) \<in> set calls \<and> names_object bucket key c \<and> response = as_response v)"

lemma verified_obtained: "verified bucket key body response calls \<Longrightarrow> obtained bucket key body response calls"
  using verified_held by (fastforce simp: obtained_def verified_def as_response_def names_object_def)

lemma put_or_verify_calls: "object_calls (obtained bucket key body) (put_or_verify E bucket key body (sha256_hexdigest body))"
  unfolding object_calls_def
proof (intro allI impI)
  fix w w' :: outbox_world and r
  let ?d = "sha256_hexdigest body" and ?a = "ox_put E (length (ow_trace w))"
  let ?put = "(Put_object bucket key body ?d, response_of ?a)"
  let ?w = "w\<lparr>ow_trace := ow_trace w @ [?put]\<rparr>"
  assume m: "put_or_verify E bucket key body ?d w = (r, w')"
  consider (put) response where "?a = Inr response" "r = Inr (as_response response)" "w' = ?w"
    | (failed) "isl r" "w' = ?w" | (head) "checked_head E bucket key body ?d ?w = (r, w')"
  proof (cases ?a)
    case (Inr response)
    with m put show ?thesis by (auto simp: put_or_verify_def bindM_def attempt_def service_def Let_def returnM_def)
  next
    case (Inl e)
    then have "isl ?a" by simp
    with Inl m failed head show ?thesis
      by (cases "e = Inv_killed"; cases "error_code e \<in> {''ConditionalRequestConflict'', ''PreconditionFailed''}")
        (auto simp: put_or_verify_def bindM_def attempt_def service_def Let_def raiseM_def, metis sum.disc(1))
  qed
  then show "\<exists>calls. ow_trace w' = ow_trace w @ calls \<and> list_all is_object_call calls
      \<and> (\<forall>x. r = Inr x \<longrightarrow> obtained bucket key body x calls)"
  proof cases
    case put
    then show ?thesis by (intro exI [of _ "[?put]"]) (auto simp: obtained_def object_held_def response_of_def names_object_def)
  next
    case failed
    then show ?thesis by (intro exI [of _ "[?put]"]) auto
  next
    case head
    obtain calls where c: "ow_trace w' = ow_trace ?w @ calls" "list_all is_object_call calls"
      "\<forall>x. r = Inr x \<longrightarrow> verified bucket key body x calls"
      by (rule object_callsE [OF checked_head_calls head])
    have "obtained bucket key body x (?put # calls)" if "r = Inr x" for x
      using verified_obtained [OF c(3) [rule_format, OF that]] object_held_mono [of bucket key body calls "?put # calls"]
      by (auto simp: obtained_def)
    with c show ?thesis by (intro exI [of _ "?put # calls"]) auto
  qed
qed

definition stored :: "string \<Rightarrow> string \<Rightarrow> nat list \<Rightarrow> string option \<times> string option \<Rightarrow> (outbox_call \<times> json option) list \<Rightarrow> bool" where
  "stored bucket key body i calls \<longleftrightarrow> object_held bucket key body calls \<and> identity_given bucket key i calls"

lemma stored_obtained: "obtained bucket key body response calls \<Longrightarrow> object_identity response = Inr i
    \<Longrightarrow> stored bucket key body i calls"
  by (auto simp: stored_def obtained_def identity_given_def)

lemma stored_append: "stored bucket key body i a \<or> stored bucket key body i b \<Longrightarrow> stored bucket key body i (a @ b)"
  using object_held_mono [of bucket key body a "a @ b"] object_held_mono [of bucket key body b "a @ b"]
    identity_given_mono [of bucket key i a "a @ b"] identity_given_mono [of bucket key i b "a @ b"]
  by (auto simp: stored_def)

lemma store_object_calls: "object_calls (stored bucket key body) (store_object E bucket key body (sha256_hexdigest body))"
proof -
  let ?head = "checked_head E bucket key body (sha256_hexdigest body)" and ?stored = "stored bucket key body"
  have head: "object_calls ?stored (bindM ?head (\<lambda>response. liftM (object_identity response)))"
    by (rule object_calls_bind [OF checked_head_calls object_calls_lift(1)])
      (auto intro: stored_append stored_obtained verified_obtained)
  have pick: "object_calls (\<lambda>i calls. i = identity \<or> ?stored i calls) (if identity = (None, None)
      then bindM ?head (\<lambda>response. liftM (object_identity response)) else returnM identity)" for identity
    using object_calls_weaken [OF head] object_calls_weaken [OF object_calls_lift(2) [of identity]] by auto
  have "object_calls (\<lambda>i calls. object_identity response = Inr i \<or> ?stored i calls)
      (bindM (liftM (object_identity response)) (\<lambda>identity. if identity = (None, None)
      then bindM ?head (\<lambda>response. liftM (object_identity response)) else returnM identity))" for response
    by (rule object_calls_bind [OF object_calls_lift(1) pick]) (auto intro: stored_append)
  then show ?thesis
    unfolding store_object_def
    by (rule object_calls_bind [OF put_or_verify_calls]) (auto intro: stored_append stored_obtained)
qed

section \<open>Deliveries\<close>

text \<open>What follows the object: the two messages and the mark, each only after the one before succeeded.\<close>

definition delivery_steps :: "settings \<Rightarrow> json \<Rightarrow> target_payload \<Rightarrow> string \<Rightarrow> outbox_call list" where
  "delivery_steps s img p message =
     [Send_message (se_target_event_queue_url s) message, Send_message (routed_queue s p) message,
      Mark_delivered (text_or_empty (image_text img ''pk'')) (text_or_empty (image_text img ''sk''))]"

definition in_order :: "outbox_call list \<Rightarrow> (outbox_call \<times> json option) list \<Rightarrow> bool" where
  "in_order steps calls \<longleftrightarrow>
     map fst calls = take (length calls) steps \<and> list_all (\<lambda>c. snd c \<noteq> None) (butlast calls)"

definition delivered :: "settings \<Rightarrow> json \<Rightarrow> target_payload \<Rightarrow> (outbox_call \<times> json option) list \<Rightarrow> bool \<Rightarrow> bool" where
  "delivered s img p calls whole \<longleftrightarrow>
     (let body = utf8 (payload_text p); key = object_key (se_event_prefix s) p in
      \<exists>objects sends. calls = objects @ sends \<and> list_all is_object_call objects
        \<and> (sends = [] \<and> \<not> whole
           \<or> object_held (se_event_bucket s) key body objects
             \<and> (\<exists>etag version message. identity_given (se_event_bucket s) key (etag, version) objects
                  \<and> notification_body (se_event_bucket s) key (length body) etag version = Inr message
                  \<and> in_order (delivery_steps s img p message) sends
                  \<and> whole = (length sends = 3 \<and> snd (last sends) \<noteq> None))))"

lemma deliveredI:
  "list_all is_object_call objects \<Longrightarrow> delivered s img p objects False"
  "list_all is_object_call objects \<Longrightarrow> object_held (se_event_bucket s) (object_key (se_event_prefix s) p) (utf8 (payload_text p)) objects
    \<Longrightarrow> identity_given (se_event_bucket s) (object_key (se_event_prefix s) p) (etag, version) objects
    \<Longrightarrow> notification_body (se_event_bucket s) (object_key (se_event_prefix s) p) (length (utf8 (payload_text p))) etag version = Inr message
    \<Longrightarrow> in_order (delivery_steps s img p message) sends
    \<Longrightarrow> delivered s img p (objects @ sends) (length sends = 3 \<and> snd (last sends) \<noteq> None)"
  unfolding delivered_def Let_def by (rule exI [of _ objects], rule exI [of _ "[]"], simp) blast

lemma deliver_calls:
  assumes "deliver E s img p w = (r, w')"
  shows "\<exists>calls. ow_trace w' = ow_trace w @ calls \<and> delivered s img p calls (\<not> isl r)"
proof -
  let ?body = "utf8 (payload_text p)" and ?key = "object_key (se_event_prefix s) p"
  let ?store = "store_object E (se_event_bucket s) ?key ?body (sha256_hexdigest ?body)"
  obtain r1 w1 where 1: "?store w = (r1, w1)" by (cases "?store w")
  obtain objects where o: "ow_trace w1 = ow_trace w @ objects" "list_all is_object_call objects"
    "\<forall>i. r1 = Inr i \<longrightarrow> stored (se_event_bucket s) ?key ?body i objects"
    by (rule object_callsE [OF store_object_calls 1])
  have stop: ?thesis if "isl r" "w' = w1"
    using that o deliveredI(1) by auto
  show ?thesis
  proof (cases r1)
    case (Inl e)
    with assms 1 show ?thesis by (intro stop) (auto simp: deliver_def bindM_def Let_def)
  next
    case (Inr i)
    obtain etag version where i: "i = (etag, version)" by fastforce
    show ?thesis
    proof (cases "notification_body (se_event_bucket s) ?key (length ?body) etag version")
      case (Inl e)
      with assms 1 Inr i show ?thesis by (intro stop) (auto simp: deliver_def bindM_def liftM_def Let_def)
    next
      case message: (Inr message)
      let ?steps = "delivery_steps s img p message"
      have "\<exists>sends. ow_trace w' = ow_trace w1 @ sends \<and> in_order ?steps sends
          \<and> (\<not> isl r) = (length sends = 3 \<and> snd (last sends) \<noteq> None)"
        using assms 1 Inr i message
        by (cases r; simp add: deliver_def bindM_def liftM_def Let_def service_def on_table_def in_order_def delivery_steps_def
            split: sum.splits prod.splits)
          (auto simp: response_of_def split: sum.splits)
      then obtain sends where sends: "ow_trace w' = ow_trace w1 @ sends" "in_order ?steps sends"
        "(\<not> isl r) = (length sends = 3 \<and> snd (last sends) \<noteq> None)" by blast
      from o(3) Inr i have "object_held (se_event_bucket s) ?key ?body objects" "identity_given (se_event_bucket s) ?key (etag, version) objects"
        by (simp_all add: stored_def)
      from deliveredI(2) [OF o(2) this message sends(2)] show ?thesis
        using o(1) sends(1) unfolding sends(3) by auto
    qed
  qed
qed

text \<open>A record either makes no call, or is the image of a payload whose delivery is attempted.\<close>

definition stream_image :: "json \<Rightarrow> json" where
  "stream_image record = vfield (vfield record ''dynamodb'') ''NewImage''"

lemma dispatch_calls:
  assumes "dispatch_record E s record w = (r, w')"
  obtains (idle) "w' = w" "r \<noteq> Inr True"
  | (delivery) p calls where "outbox_payload (ox_adapter E) (stream_image record) = Inr p"
      "ow_trace w' = ow_trace w @ calls" "delivered s (stream_image record) p calls (r = Inr True)"
      "r = Inr True \<or> isl r"
proof -
  let ?img = "stream_image record"
  consider (early) "w' = w" "r \<noteq> Inr True"
    | (late) p where "outbox_payload (ox_adapter E) ?img = Inr p"
        "bindM (deliver E s ?img p) (\<lambda>_. returnM True) w = (r, w')"
    using assms
    by (auto simp: dispatch_record_def stream_image_def Let_def bindM_def liftM_def returnM_def raiseM_def split: if_splits sum.splits)
  then show ?thesis
  proof cases
    case early
    then show ?thesis by (rule idle)
  next
    case late
    obtain r1 where r1: "deliver E s ?img p w = (r1, w')" "r = Inr True \<longleftrightarrow> \<not> isl r1" "r = Inr True \<or> isl r"
      using late(2) by (cases "deliver E s ?img p w"; cases "fst (deliver E s ?img p w)") (auto simp: bindM_def returnM_def)
    from deliver_calls [OF r1(1)] obtain calls where "ow_trace w' = ow_trace w @ calls"
      "delivered s ?img p calls (\<not> isl r1)" by blast
    with late(1) r1 show ?thesis by (intro delivery) simp_all
  qed
qed

section \<open>The mark in the table\<close>

text \<open>Marking an item follows the protocol of the table: it touches no state and announces nothing.\<close>

lemma row_entity: "rows_ok s \<Longrightarrow> row s tid = Some it \<Longrightarrow> map_of it ''entity'' = Some (S ''target'')"
  by (metis rows_okE state_row_def)

lemma update_pending:
  assumes "rows_ok s"
  shows "store_run s (snd (update_item k changes (pending eid) s))"
proof (cases "pending eid (tbl_get (st_items s) k)")
  case True
  then obtain it where it: "tbl_get (st_items s) k = Some it" "map_of it ''entity'' = Some (S ''outbox'')"
    by (auto simp: pending_def split: option.splits)
  have "k \<noteq> target_key tid" for tid
    using row_entity [OF assms, of tid it] it by (auto simp: row_def)
  with True it have "store_step s (snd (update_item k changes (pending eid) s))"
    by (intro store_step.other) (auto simp: update_item_def Let_def put_row_def row_def tbl.get_put)
  then show ?thesis by simp
qed (simp add: update_item_def Let_def)

lemma runs_mark_delivered: "inv_rely E \<Longrightarrow> runs rows_ok (mark_delivered E img at)"
  unfolding mark_delivered_def
  by (auto split: option.splits intro!: runs_bind_lift runs_bind runs_if runs_attempt runs_case_sum runs_case_option
      lasting_rows_ok runs_call update_pending simp: read_item_def)

section \<open>The message\<close>

definition sqs_record :: "string \<Rightarrow> string \<Rightarrow> json" where
  "sqs_record mid message =
     JObj [(''messageId'', JStr mid), (''eventSource'', JStr ''aws:sqs''), (''body'', JStr message)]"

text \<open>S3 identifies an object by text without spaces.\<close>

definition plain_identity :: "string option \<Rightarrow> bool" where
  "plain_identity v = (case v of None \<Rightarrow> True | Some s \<Rightarrow> s \<noteq> [] \<and> list_all (\<lambda>c. \<not> is_space c) s \<and> py_lower s \<noteq> ''null'')"

lemma plain_strip: "list_all (\<lambda>c. \<not> is_space c) s \<Longrightarrow> py_strip s = s"
proof -
  have d: "dropWhile is_space u = u" if "list_all (\<lambda>c. \<not> is_space c) u" for u using that by (cases u) auto
  assume "list_all (\<lambda>c. \<not> is_space c) s"
  then show ?thesis using d [of s] d [of "rev s"] by (simp add: py_strip_def list_all_rev)
qed

lemma plain_line: "list_all (\<lambda>c. \<not> is_space c) s \<Longrightarrow> \<not> has_newline s"
  by (auto simp: has_newline_def list_all_iff is_space_def code_def)

lemma stripped_None [simp]: "stripped None message = Inr None"
  by (simp add: stripped_def)

lemma stripped_plain: "plain_identity v \<Longrightarrow> stripped v message = Inr v"
  using plain_strip plain_line by (auto simp: plain_identity_def stripped_def split: option.splits)

lemma notification_wf:
  assumes "n < 10 ^ 38"
  shows "json_wf (notification_json bucket key n etag version)" "printable (notification_json bucket key n etag version)"
proof -
  have "length (nat_str n) \<le> 38" using assms by (intro length_nat_str) auto
  then have "length (filter is_digit (nat_str n)) \<le> 4300" by (intro order.trans [OF length_filter_le]) simp
  then have "length (filter is_digit (int_str (int n))) \<le> 4300" by (simp add: int_str_nonneg)
  then show "json_wf (notification_json bucket key n etag version)" "printable (notification_json bucket key n etag version)"
    by (auto simp: notification_json_def split: option.splits)
qed

lemma notification_payload_read:
  assumes "n < 10 ^ 38"
  shows "notification_payload (sqs_record mid (dumps (notification_json bucket key n etag version)))
     = Inr (canon (notification_json bucket key n etag version))"
proof -
  let ?v = "notification_json bucket key n etag version"
  note wf = notification_wf [OF assms]
  have "loads dict_hook (dumps ?v) = Inr (canon ?v)" by (rule loads_dict [OF wf])
  moreover have "is_obj (canon ?v)" by (simp add: notification_json_def is_obj_def)
  moreover have "obj_get ''Message'' (canon ?v) = None"
    unfolding obj_get_canon [OF wf(1)] by (simp add: notification_json_def)
  moreover have "dumps ?v \<noteq> []" by (simp add: notification_json_def)
  ultimately show ?thesis by (simp add: notification_payload_def sqs_record_def json_mapping_def vfield_def)
qed

text \<open>The reference that the generator decodes from the message.\<close>

lemma notification_decodes:
  assumes "n < 10 ^ 38" "notification_body bucket key n etag version = Inr message"
    and "bucket = event_bucket cfg" "startswith key (event_prefix cfg)" "key \<noteq> event_prefix cfg"
    and "plain_identity etag" "plain_identity version"
  shows "decode_sqs_s3_record cfg (sqs_record mid message)
    = Inr \<lparr>ref_bucket = bucket, ref_key = key, ref_etag = etag, ref_version = version\<rparr>"
proof -
  define obj where "obj = JObj ([(''key'', JStr (quote_plus key)), (''size'', JInt (int n))]
      @ (case etag of None \<Rightarrow> [] | Some e \<Rightarrow> [(''eTag'', JStr e)])
      @ (case version of None \<Rightarrow> [] | Some v \<Rightarrow> [(''versionId'', JStr v)]))"
  define s3 where "s3 = JObj [(''s3SchemaVersion'', JStr ''1.0''), (''configurationId'', JStr ''portscanner-inventory-outbox''),
            (''bucket'', JObj [(''name'', JStr bucket)]), (''object'', obj)]"
  define entry where "entry = JObj [(''eventVersion'', JStr ''2.1''), (''eventSource'', JStr ''aws:s3''),
        (''eventName'', JStr ''ObjectCreated:Put''), (''s3'', s3)]"
  let ?v = "notification_json bucket key n etag version"
  have v: "?v = JObj [(''Records'', JArr [entry])]" by (simp add: notification_json_def entry_def s3_def obj_def)
  have wf: "json_wf ?v" by (rule notification_wf [OF assms(1)])
  have wfs: "json_wf entry" "json_wf s3" "json_wf obj" using wf unfolding v by (simp_all add: entry_def s3_def)
  have m: "message = dumps ?v" and some: "\<not> (etag = None \<and> version = None)"
    using assms(2) by (auto simp: notification_body_def split: if_splits)
  have payload: "notification_payload (sqs_record mid message) = Inr (canon ?v)"
    unfolding m by (rule notification_payload_read [OF assms(1)])
  have records: "vfield (canon ?v) ''Records'' = JArr [canon entry]"
    unfolding vfield_def obj_get_canon [OF wf] by (simp add: v)
  have "is_obj (canon entry)" by (simp add: is_obj_def entry_def)
  moreover have "vfield (canon entry) ''eventSource'' = JStr ''aws:s3''" "vfield (canon entry) ''eventName'' = JStr ''ObjectCreated:Put''"
    unfolding vfield_def obj_get_canon [OF wfs(1)] by (simp_all add: entry_def)
  moreover have "startswith ''ObjectCreated:Put'' ''ObjectCreated:''" by (simp add: startswith_def)
  ultimately have sole: "sole_notification (canon ?v) = Inr (canon entry)"
    unfolding sole_notification_def records by (simp del: canon.simps)
  have at_s3: "obj_get ''s3'' (canon entry) = Some (canon s3)" unfolding obj_get_canon [OF wfs(1)] by (simp add: entry_def)
  have parts: "obj_get ''bucket'' (canon s3) = Some (JObj [(''name'', JStr bucket)])"
    "obj_get ''object'' (canon s3) = Some (canon obj)"
    unfolding obj_get_canon [OF wfs(2)] by (simp_all add: s3_def)
  have at_key: "obj_get ''key'' (canon obj) = Some (JStr (quote_plus key))" unfolding obj_get_canon [OF wfs(3)] by (simp add: obj_def)
  have named: "named_object (canon entry) = Inr (bucket, canon obj, quote_plus key)"
    by (simp add: named_object_def at_s3 parts at_key del: canon.simps)
  have "decoded_key (quote_plus key) = Inr key"
    by (simp add: decoded_key_def quote_plus_percent unquote_plus_quote_plus)
  moreover have "vfield (canon obj) ''eTag'' = jopt JStr etag" "vfield (canon obj) ''versionId'' = jopt JStr version"
    "vfield (canon obj) ''etag'' = JNull"
    unfolding vfield_def obj_get_canon [OF wfs(3)] by (auto simp: obj_def jopt_def split: option.splits)
  moreover have "truthy (jopt JStr etag) \<longleftrightarrow> etag \<noteq> None"
    using assms(6) by (cases etag) (auto simp: jopt_def plain_identity_def)
  moreover have "optional_text (jopt JStr v) x = Inr v" "optional_text JNull x = Inr None" for v x
    by (cases v) (auto simp: optional_text_def jopt_def)
  moreover have "(case version of Some v \<Rightarrow> if py_lower v = ''null'' then None else Some v | None \<Rightarrow> None) = version"
    using assms(7) by (cases version) (auto simp: plain_identity_def)
  ultimately show ?thesis
    using some stripped_plain [OF assms(6)] stripped_plain [OF assms(7)] assms(4,5)
    by (simp add: assms(3) [symmetric] decode_sqs_s3_record_def payload sole named Let_def del: canon.simps) auto
qed

text \<open>The document that the generator loads from the object.\<close>

lemma object_document:
  assumes "json_wf (payload_json p)" "printable (payload_json p)" "is_obj (payload_json p)"
  shows "load_json_document (utf8 (payload_text p)) = Inr (canon (payload_json p))"
proof -
  have "is_obj (canon (payload_json p))" using assms(3) by (cases "payload_json p") (auto simp: is_obj_def as_obj_def)
  then show ?thesis
    using loads_dumps [OF assms(1,2)] by (simp add: load_json_document_def payload_text_def canonical_json_def)
qed

text \<open>
  The document of a valid payload is well-formed JSON whose numbers Python reads back; a generation has
  at most the 38 digits of a number in the table.
\<close>

lemma printable_small: "0 \<le> i \<Longrightarrow> i < 10 ^ 38 \<Longrightarrow> printable (JInt i)"
proof -
  assume i: "0 \<le> i" "i < 10 ^ 38"
  then have "length (nat_str (nat i)) \<le> 38" by (intro length_nat_str) (simp_all add: nat_less_iff)
  then have "length (filter is_digit (nat_str (nat i))) \<le> 4300" by (intro order.trans [OF length_filter_le]) simp
  with i show ?thesis by (simp add: int_str_nonneg)
qed

lemma range_document: "validate_range_field e n rs = None \<Longrightarrow> r \<in> set rs \<Longrightarrow> json_wf (range_json r) \<and> printable (range_json r)"
  using printable_small [of "pr_start r"] printable_small [of "pr_end r"]
  by (auto simp: validate_range_field_gapped range_json_def is_port_def)

lemma jopt_document: "(\<And>x. v = Some x \<Longrightarrow> json_wf (f x) \<and> printable (f x)) \<Longrightarrow> json_wf (jopt f v) \<and> printable (jopt f v)"
  by (auto simp: jopt_def split: option.splits)

lemma target_document: "validate_target False t = None \<Longrightarrow> generation t < 10 ^ 38 \<Longrightarrow> json_wf (target_json t) \<and> printable (target_json t)"
  using printable_small [of "generation t"] by (simp add: target_json_def validate_target_def is_generation_def)

lemma source_document: "json_wf (source_json s) \<and> printable (source_json s)"
  by (simp add: source_json_def jtime_def)

lemma change_document: "validate_policy_change False c = None \<Longrightarrow> json_wf (policy_change_json c) \<and> printable (policy_change_json c)"
  using range_document [of True "''candidate_tcp_port_ranges''" "pc_candidate_ranges c"]
  by (auto simp: policy_change_json_def policy_identity_fields_def validate_policy_change_def jtime_def list_all_iff intro: jopt_document)

lemma directive_document: "validate_directive False d = None \<Longrightarrow> sd_target_generation d < 10 ^ 38
    \<Longrightarrow> json_wf (directive_json d) \<and> printable (directive_json d)"
  using range_document [of False "''tcp_port_ranges''" "tcp_port_ranges d"] printable_small [of "priority d"]
    printable_small [of "sd_target_generation d"]
  by (auto simp: directive_json_def directive_identity_fields_def validate_directive_def jtime_def list_all_iff
      is_generation_def is_priority_def simp del: printable.simps(1))

lemma context_document: "validate_context c = None \<Longrightarrow> json_wf (context_json c) \<and> printable (context_json c)"
  using range_document [of True "''candidate_tcp_port_ranges''" "candidate_tcp_port_ranges c"]
  by (auto simp: context_json_def context_fields_def tags_json_def validate_context_def list_all_iff intro: jopt_document)

lemma payload_document:
  assumes "validate_payload p = None" "generation (payload_target p) < 10 ^ 38"
  shows "json_wf (payload_json p)" "printable (payload_json p)" "is_obj (payload_json p)"
proof -
  have "json_wf (payload_json p) \<and> printable (payload_json p) \<and> is_obj (payload_json p)"
  proof (cases p)
    case (Work e)
    with assms have v: "validate_event False e = None" "generation (te_target e) < 10 ^ 38"
      by (simp_all add: validate_payload_def payload_target_def)
    then have parts: "validate_target False (te_target e) = None" "validate_directive False (te_scan e) = None"
      "validate_context (te_aws_context e) = None" "sd_target_generation (te_scan e) = generation (te_target e)"
      "\<And>c. te_policy_change e = Some c \<Longrightarrow> validate_policy_change False c = None"
      by (auto simp: validate_event_def validate_event_consistency_def Let_def)
    with v(2) show ?thesis
      using target_document source_document directive_document context_document jopt_document [of "te_policy_change e" policy_change_json]
        change_document
      by (simp add: Work payload_json_def event_json_def is_obj_def)
  next
    case (Removal r)
    with assms have "validate_target False (tr_target r) = None" "generation (tr_target r) < 10 ^ 38"
      "validate_context (tr_aws_context r) = None"
      by (simp_all add: validate_payload_def payload_target_def validate_removal_def)
    then show ?thesis
      using target_document source_document context_document
      by (simp add: Removal payload_json_def removal_json_def removal_identity_fields_def is_obj_def jtime_def)
  qed
  then show "json_wf (payload_json p)" "printable (payload_json p)" "is_obj (payload_json p)" by auto
qed

end
