(* ===== verification/Inventory_Building.thy ===== *)
theory Inventory_Building
  imports Inventory_Events
begin

text \<open>
  When the construction of an event succeeds: if the contract accepts what the inventory knows of
  a target and of the observation, every change of the target can be announced.
\<close>

definition raw_target :: "normalized_target \<Rightarrow> int \<Rightarrow> target" where
  "raw_target v g =
     \<lparr>target_id = zero_id, provider = AWS, scope_id = nt_account_id v, location = nt_region v,
      resource_id = nt_network_interface_id v, private_address = nt_private_ip v,
      public_address = nt_public_ip v, address_family = IPV4, transport = TCP, generation = g\<rparr>"

definition raw_source :: "event_source \<Rightarrow> time \<Rightarrow> source_observation" where
  "raw_source s collected =
     \<lparr>observation_id = zero_id, source_event_name = es_name s, source_event_id = es_event_id s,
      source_request_id = es_request_id s, event_time = es_event_time s,
      observed_at = es_observed_at s, collected_at = collected\<rparr>"

definition describable :: "normalized_target \<Rightarrow> int \<Rightarrow> event_source \<Rightarrow> time \<Rightarrow> bool" where
  "describable v g s collected \<longleftrightarrow>
     validate_target True (raw_target v g) = None \<and> validate_source True (raw_source s collected) = None
     \<and> validate_context (contract_context v s full_candidate) = None
     \<and> validate_range_field False ''tcp_port_ranges'' (contract_ranges (nt_candidate_ports v)) = None"

definition identified :: "target \<Rightarrow> target" where
  "identified t = t\<lparr>target_id := expected_target_id t\<rparr>"

lemma contract_target_total:
  assumes "describable v g s collected"
  shows "contract_target v g = Inr (identified (raw_target v g))" "validate_target False (identified (raw_target v g)) = None"
proof -
  let ?m = "\<lparr>target_id = [], provider = AWS, scope_id = nt_account_id v, location = nt_region v,
      resource_id = nt_network_interface_id v, private_address = nt_private_ip v,
      public_address = nt_public_ip v, address_family = IPV4, transport = TCP, generation = g\<rparr>"
  have "create_target ?m = Inr (?m\<lparr>target_id := expected_target_id ?m\<rparr>)"
    unfolding create_target_def using assms by (intro target_model.create_total) (simp add: describable_def raw_target_def)
  moreover have "?m\<lparr>target_id := expected_target_id ?m\<rparr> = identified (raw_target v g)"
    by (simp add: identified_def raw_target_def expected_target_id_def target_identity_payload_def)
  ultimately show c: "contract_target v g = Inr (identified (raw_target v g))" by (simp add: contract_target_def)
  then show "validate_target False (identified (raw_target v g)) = None"
    unfolding contract_target_def using create_target_Inr by blast
qed

lemma contract_source_total:
  assumes "describable v g s collected"
  obtains m where "contract_source s collected = Inr m" "validate_source False m = None"
    "m = (raw_source s collected)\<lparr>observation_id := expected_observation_id (raw_source s collected)\<rparr>"
proof -
  let ?m = "\<lparr>observation_id = [], source_event_name = es_name s, source_event_id = es_event_id s,
      source_request_id = es_request_id s, event_time = es_event_time s,
      observed_at = es_observed_at s, collected_at = collected\<rparr>"
  have "create_source ?m = Inr (?m\<lparr>observation_id := expected_observation_id ?m\<rparr>)"
    unfolding create_source_def using assms by (intro source_model.create_total) (simp add: describable_def raw_source_def)
  moreover have "?m\<lparr>observation_id := expected_observation_id ?m\<rparr> =
      (raw_source s collected)\<lparr>observation_id := expected_observation_id (raw_source s collected)\<rparr>"
    by (simp add: raw_source_def expected_observation_id_def source_identity_payload_def)
  ultimately have c: "contract_source s collected =
      Inr ((raw_source s collected)\<lparr>observation_id := expected_observation_id (raw_source s collected)\<rparr>)"
    by (simp add: contract_source_def)
  moreover have "validate_source False m = None" if "create_source ?m = Inr m" for m
    using that unfolding create_source_def by (rule source_model.create_valid)
  ultimately show ?thesis using that by (simp add: contract_source_def)
qed

lemma identified_hex [simp]: "is_sha256_hex (target_id (identified t))"
  by (simp add: identified_def target_model.expected_hex)

lemma describable_fingerprint: "describable v g s collected \<Longrightarrow> is_sha256_hex (nt_policy_fingerprint v)"
  by (simp add: describable_def validate_context_def contract_context_def)

lemma describable_generation: "describable v g s collected \<Longrightarrow> is_generation g"
  by (simp add: describable_def validate_target_def raw_target_def)

lemma plan_ranges:
  assumes "describable v g s collected"
  shows "validate_range_field False ''tcp_port_ranges'' (sp_ranges (scan_plan v r collected)) = None"
    "contract_ranges (sp_candidate (scan_plan v r collected)) = sp_ranges (scan_plan v r collected)"
proof -
  have "validate_range_field False ''tcp_port_ranges'' [full_tcp_port_range] = None"
    by (simp add: validate_range_field_gapped full_tcp_port_range_def is_port_def)
  then show "validate_range_field False ''tcp_port_ranges'' (sp_ranges (scan_plan v r collected)) = None"
    using assms by (cases r) (auto simp: scan_plan_def Let_def describable_def contract_ranges_def full_candidate_def)
  show "contract_ranges (sp_candidate (scan_plan v r collected)) = sp_ranges (scan_plan v r collected)"
    by (cases r) (simp_all add: scan_plan_def Let_def contract_ranges_def full_candidate_def)
qed

lemma context_ranges: "validate_context (contract_context v s full_candidate) = None
    \<Longrightarrow> validate_range_field False n (contract_ranges c) = None \<Longrightarrow> validate_context (contract_context v s c) = None"
  by (simp add: validate_context_def contract_context_def validate_range_field_gapped)

definition plan_directive :: "normalized_target \<Rightarrow> int \<Rightarrow> scan_reason \<Rightarrow> time \<Rightarrow> scan_directive" where
  "plan_directive v g r collected =
     (let plan = scan_plan v r collected in
      \<lparr>directive_id = zero_id, sd_target_id = target_id (identified (raw_target v g)), sd_target_generation = g, sd_reason = r,
       sd_profile = sp_profile plan, priority = sp_priority plan, requested_at = collected,
       deadline_at = sp_deadline plan, not_after = sp_not_after plan, tcp_port_ranges = sp_ranges plan\<rparr>)"

lemma plan_profile: "sp_profile (scan_plan v r collected) \<in> {FAST_FULL_TCP, DEEP}
    \<Longrightarrow> sp_ranges (scan_plan v r collected) = [full_tcp_port_range]"
  by (cases r) (auto simp: scan_plan_def Let_def contract_ranges_def full_candidate_def split: if_splits)

lemma plan_window: "collected \<le> sp_deadline (scan_plan v r collected)"
    "sp_deadline (scan_plan v r collected) \<le> sp_not_after (scan_plan v r collected)" "is_priority (sp_priority (scan_plan v r collected))"
  by (simp_all add: scan_plan_def Let_def minutes_def hours_def seconds_def is_priority_def split: scan_reason.split)

lemma plan_directive_ok:
  assumes "describable v g s collected"
  shows "validate_directive True (plan_directive v g r collected) = None"
  using describable_generation [OF assms] plan_ranges(1) [OF assms] plan_window plan_profile
  by (auto simp: validate_directive_def plan_directive_def Let_def)

lemma create_directive_total:
  assumes "describable v g s collected"
  obtains d where "create_directive ((plan_directive v g r collected)\<lparr>directive_id := []\<rparr>) = Inr d"
    "validate_directive False d = None"
    "d = (plan_directive v g r collected)\<lparr>directive_id := expected_directive_id (plan_directive v g r collected)\<rparr>"
proof -
  let ?m = "(plan_directive v g r collected)\<lparr>directive_id := []\<rparr>"
  have c: "create_directive ?m = Inr (?m\<lparr>directive_id := expected_directive_id ?m\<rparr>)"
    unfolding create_directive_def using plan_directive_ok [OF assms, of r]
    by (intro directive_model.create_total) (simp add: plan_directive_def Let_def)
  then have "validate_directive False (?m\<lparr>directive_id := expected_directive_id ?m\<rparr>) = None"
    using create_directive_Inr by blast
  moreover have "?m\<lparr>directive_id := expected_directive_id ?m\<rparr> =
      (plan_directive v g r collected)\<lparr>directive_id := expected_directive_id (plan_directive v g r collected)\<rparr>"
    using directive_model.expected_set [of "[]" "plan_directive v g r collected"] by simp
  ultimately show ?thesis using that c by auto
qed

text \<open>The policy change of a plan, and the event that carries all the parts.\<close>

lemma change_of_policy_total:
  assumes "describable v g s collected" "check_reason previous v r = Inr ()"
    "\<And>p. previous = Some p \<Longrightarrow> is_sha256_hex (nt_policy_fingerprint p)"
  obtains c where "change_of_policy previous v (target_id (identified (raw_target v g))) r collected
      (sp_ranges (scan_plan v r collected)) = Inr c"
    "r \<noteq> POLICY_CHANGE \<Longrightarrow> c = None"
    "r = POLICY_CHANGE \<Longrightarrow> \<exists>x. c = Some x \<and> validate_policy_change False x = None
       \<and> pc_target_id x = target_id (identified (raw_target v g)) \<and> current_fingerprint x = nt_policy_fingerprint v
       \<and> pc_candidate_ranges x = sp_ranges (scan_plan v r collected)"
proof (cases "r = POLICY_CHANGE")
  case False
  then show ?thesis using that [of None] by (simp add: change_of_policy_def)
next
  case True
  from assms(2) True obtain p where p: "previous = Some p"
    by (cases previous) (auto simp: check_reason_def policy_changed_def ensure_def)
  let ?m = "\<lparr>policy_change_id = [], pc_target_id = target_id (identified (raw_target v g)),
    previous_fingerprint = (if nt_policy_fingerprint p \<noteq> nt_policy_fingerprint v then Some (nt_policy_fingerprint p) else None),
    current_fingerprint = nt_policy_fingerprint v, changed_at = collected,
    pc_candidate_ranges = sp_ranges (scan_plan v r collected)\<rparr>"
  have "validate_range_field True ''candidate_tcp_port_ranges'' (sp_ranges (scan_plan v r collected)) = None"
    using plan_ranges(1) [OF assms(1), of r] by (simp add: validate_range_field_gapped)
  then have c: "create_policy_change ?m = Inr (?m\<lparr>policy_change_id := expected_policy_change_id ?m\<rparr>)"
    unfolding create_policy_change_def using assms(3) [OF p] describable_fingerprint [OF assms(1)]
    by (intro policy_model.create_total) (simp add: validate_policy_change_def)
  then have "validate_policy_change False (?m\<lparr>policy_change_id := expected_policy_change_id ?m\<rparr>) = None"
    unfolding create_policy_change_def by (rule policy_model.create_valid)
  then show ?thesis
    using that [of "Some (?m\<lparr>policy_change_id := expected_policy_change_id ?m\<rparr>)"] True p c
    by (simp add: change_of_policy_def contract_def)
qed

lemma event_of_parts:
  assumes "te_schema_version e = ''1.0''" "te_event_type e = expected_event_type (sd_reason (te_scan e))"
    and "validate_target False (te_target e) = None" "validate_source False (te_source e) = None"
    and "validate_directive False (te_scan e) = None" "validate_context (te_aws_context e) = None"
    and "\<And>p. te_policy_change e = Some p \<Longrightarrow> validate_policy_change False p = None"
    and "validate_event_consistency e = None"
  shows "create_event e = Inr (e\<lparr>te_event_id := expected_event_id e\<rparr>)"
proof -
  have type: "te_event_type e \<in> {TARGET_UPSERT, POLICY_CHANGED, RESCAN_REQUESTED}"
    using assms(2) by (cases "sd_reason (te_scan e)") simp_all
  have pc: "(case te_policy_change e of None \<Rightarrow> None | Some p \<Rightarrow> validate_policy_change skip p) = None" for skip
    using assms(7) by (cases skip) (auto simp: policy_model.validate_skip split: option.splits)
  have parts: "validate_target skip (te_target e) = None" "validate_source skip (te_source e) = None"
    "validate_directive skip (te_scan e) = None" for skip
    using assms by (cases skip; simp add: target_model.validate_skip source_model.validate_skip directive_model.validate_skip)+
  have event: "validate_event skip (e\<lparr>te_event_id := i\<rparr>) = None" if "is_sha256_hex i" "skip \<or> i = expected_event_id e" for skip i
    unfolding validate_event_def event_consistency_set_id
    using that type pc [of skip] parts [of skip] assms(1,6,8) event_model.expected_set [of i e] by auto
  show ?thesis
    unfolding create_event_def create_def Let_def
    using event [of zero_id True] event [of "expected_event_id e" False]
      event_model.expected_set [of zero_id e] event_model.expected_hex [of e]
    by simp
qed

lemma build_target_event_total:
  assumes d: "describable v g s collected" and ok: "check_reason previous v r = Inr ()"
    and r: "event_reason_of previous v given = r"
    and fp: "\<And>p. previous = Some p \<Longrightarrow> is_sha256_hex (nt_policy_fingerprint p)"
  shows "\<exists>e. build_target_event v g s collected previous given = Inr e"
proof -
  let ?plan = "scan_plan v r collected" and ?t = "identified (raw_target v g)"
  let ?d = "plan_directive v g r collected"
  obtain m where m: "contract_source s collected = Inr m" "validate_source False m = None"
    "m = (raw_source s collected)\<lparr>observation_id := expected_observation_id (raw_source s collected)\<rparr>"
    by (rule contract_source_total [OF d])
  obtain dir where dir: "create_directive (?d\<lparr>directive_id := []\<rparr>) = Inr dir" "validate_directive False dir = None"
    "dir = ?d\<lparr>directive_id := expected_directive_id ?d\<rparr>"
    by (rule create_directive_total [OF d])
  obtain c where c: "change_of_policy previous v (target_id ?t) r collected (sp_ranges ?plan) = Inr c"
    "r \<noteq> POLICY_CHANGE \<Longrightarrow> c = None"
    "r = POLICY_CHANGE \<Longrightarrow> \<exists>x. c = Some x \<and> validate_policy_change False x = None \<and> pc_target_id x = target_id ?t
       \<and> current_fingerprint x = nt_policy_fingerprint v \<and> pc_candidate_ranges x = sp_ranges ?plan"
    using change_of_policy_total [OF d ok fp] by metis
  let ?c = "contract_context v s (sp_candidate ?plan)"
  have ctx: "validate_context ?c = None" "candidate_tcp_port_ranges ?c = sp_ranges ?plan"
    using context_ranges [of v s "''tcp_port_ranges''" "sp_candidate ?plan"] plan_ranges [OF d, of r] d
    by (simp_all add: describable_def contract_context_def)
  let ?e = "\<lparr>te_schema_version = ''1.0'', te_event_id = [], te_event_type = sp_event_type ?plan, te_target = ?t,
        te_source = m, te_policy_change = c, te_scan = dir, te_aws_context = ?c\<rparr>"
  have type: "sp_event_type ?plan = expected_event_type r" by (cases r) (simp_all add: scan_plan_def Let_def)
  have change: "r = TARGET_CHANGE \<Longrightarrow> sp_profile ?plan = FAST_FULL_TCP \<and> sp_ranges ?plan = [full_tcp_port_range]"
    by (simp add: scan_plan_def)
  have "validate_event_consistency ?e = None"
    unfolding validate_event_consistency_def validate_aws_event_context_def Let_def
    using c(2,3) type change ctx(2)
    by (auto simp: m(3) dir(3) plan_directive_def Let_def contract_context_def raw_target_def raw_source_def identified_def
        split: option.splits)
  then have "create_event ?e = Inr (?e\<lparr>te_event_id := expected_event_id ?e\<rparr>)"
    using contract_target_total(2) [OF d] m(2) dir(2) ctx(1) type c(2,3)
    by (intro event_of_parts) (auto simp: dir(3) plan_directive_def Let_def)
  then show ?thesis
    using contract_target_total(1) [OF d] m(1) dir(1) c(1) ctx(1) ok
    by (simp add: build_target_event_def r Let_def contract_def checked_context_def plan_directive_def)
qed

end
