(* ===== verification/Inventory_History.thy ===== *)
theory Inventory_History
  imports Inventory_Delivery Inventory_Building
begin

text \<open>
  Histories of the state table: the operations of the state store as workers call them, in any
  order, each under an environment of its own that only has to follow the protocol.
\<close>

datatype inv_operation =
    Op_reconcile normalized_target event_source time
  | Op_confirm target_state normalized_target time
  | Op_remove target_state event_source time
  | Op_coverage target_state event_source time
  | Op_claim string time int
  | Op_release string
  | Op_list "snapshot_scope option"
  | Op_deliver json time

definition forget :: "'a inv \<Rightarrow> unit inv" where
  "forget m = bindM m (\<lambda>_. returnM ())"

fun perform :: "inv_env \<Rightarrow> state_store \<Rightarrow> inv_operation \<Rightarrow> unit inv" where
  "perform E ss (Op_reconcile t source now) = forget (reconcile E ss t source now)"
| "perform E ss (Op_confirm expected observation now) = forget (confirm_config_versions E expected observation now)"
| "perform E ss (Op_remove expected source now) = forget (remove E ss expected source now)"
| "perform E ss (Op_coverage st source now) = forget (enqueue_coverage E ss st source now)"
| "perform E ss (Op_claim sid now ttl) = forget (claim_signal E sid now ttl)"
| "perform E ss (Op_release sid) = release_signal E sid"
| "perform E ss (Op_list scope) = forget (list_current E scope)"
| "perform E ss (Op_deliver img at) = mark_delivered E img at"

text \<open>
  What a caller provides: timestamps of \<^verbatim>\<open>datetime\<close>, and, where an operation takes a state that it
  does not read again, a state that was read before.
\<close>

fun provided :: "inv_operation \<Rightarrow> store \<Rightarrow> bool" where
  "provided (Op_reconcile t source now) s \<longleftrightarrow>
     representable (case nt_observed_at t of None \<Rightarrow> es_observed_at source | Some x \<Rightarrow> x)"
| "provided (Op_confirm expected observation now) s \<longleftrightarrow> seen (ts_target_id expected) (Some expected) s"
| "provided (Op_remove expected source now) s \<longleftrightarrow> representable (es_observed_at source)"
| "provided _ s \<longleftrightarrow> True"

lemma runs_forget: "runs P m \<Longrightarrow> runs P (forget m)"
  by (auto simp: runs_def forget_def bindM_def returnM_def split: prod.splits sum.splits)

lemma perform_follows_protocol:
  assumes "inv_rely E" "rows_ok (iw_store w)" "provided op (iw_store w)" "perform E ss op w = (r, w')"
  shows "store_run (iw_store w) (iw_store w')"
proof -
  have "runs (\<lambda>s. rows_ok s \<and> provided op s) (perform E ss op)"
  proof (cases op)
    case (Op_reconcile t source now)
    show ?thesis
    proof (cases "representable (case nt_observed_at t of None \<Rightarrow> es_observed_at source | Some x \<Rightarrow> x)")
      case True
      then show ?thesis using runs_weaken [OF runs_reconcile [OF assms(1)]] by (simp add: Op_reconcile runs_forget)
    qed (auto simp: Op_reconcile runs_def)
  next
    case (Op_confirm expected observation now)
    have "runs (\<lambda>s. rows_ok s \<and> seen (ts_target_id expected) (Some expected) s)
        (confirm_config_versions E expected observation now)"
      by (rule runs_weaken [OF runs_confirm [OF assms(1)]]) simp
    with Op_confirm show ?thesis by (simp add: runs_forget)
  next
    case (Op_remove expected source now)
    show ?thesis
    proof (cases "representable (es_observed_at source)")
      case True
      then show ?thesis using runs_weaken [OF runs_remove [OF assms(1)]] by (simp add: Op_remove runs_forget)
    qed (auto simp: Op_remove runs_def)
  next
    case (Op_coverage st source now)
    then show ?thesis using runs_enqueue_coverage [OF assms(1)] by (simp add: runs_forget)
  next
    case (Op_claim sid now ttl)
    then show ?thesis using runs_claim_signal [OF assms(1)] by (simp add: runs_forget)
  next
    case (Op_release sid)
    then show ?thesis using runs_release_signal [OF assms(1)] by simp
  next
    case (Op_list scope)
    then show ?thesis using runs_list_current [OF assms(1)] by (simp add: runs_forget)
  next
    case (Op_deliver img at)
    then show ?thesis using runs_mark_delivered [OF assms(1)] by simp
  qed
  with assms show ?thesis unfolding runs_def by blast
qed

definition empty_store :: store where
  "empty_store = \<lparr>st_items = [], st_stream = []\<rparr>"

inductive inv_reachable :: "store \<Rightarrow> bool" where
  start: "inv_reachable empty_store"
| operation: "inv_reachable (iw_store w) \<Longrightarrow> inv_rely E \<Longrightarrow> provided op (iw_store w)
    \<Longrightarrow> perform E ss op w = (r, w') \<Longrightarrow> inv_reachable (iw_store w')"

lemma empty_ok: "rows_ok empty_store" "announced empty_store []"
  by (simp_all add: rows_ok_def row_def empty_store_def tbl_get_def announced_def outbox_images_def events_of_def
      state_generation_def)

lemma inv_reachable_run: "inv_reachable s \<Longrightarrow> store_run empty_store s \<and> rows_ok s"
proof (induction rule: inv_reachable.induct)
  case start
  then show ?case using empty_ok by simp
next
  case (operation w E op ss r w')
  then have "store_run (iw_store w) (iw_store w')" using perform_follows_protocol by blast
  with operation show ?case by (meson rtranclp_trans store_run_rows_ok)
qed

text \<open>What the table keeps of a state is what is read back.\<close>

lemma decode_state_item:
  assumes "state_item st now = Inr it" "storable (ts_target st)" "ts_observed_at st = Some obs" "representable obs"
    and "0 \<le> ts_generation st" "ts_status st \<noteq> []" "ts_contract_target_id st \<noteq> Some []"
  shows "decode_state it = Inr (st\<lparr>ts_target := durable (ts_target st)\<rparr>)"
proof -
  have attrs: "attribute_text it ''target_json'' = Some (dumps (to_state_dict (ts_target st)))"
    "attribute_text it ''generation'' = Some (int_str (ts_generation st))" "attribute_text it ''status'' = Some (ts_status st)"
    "attribute_text it ''pk'' = Some (''TARGET#'' @ ts_target_id st)" "attribute_text it ''observed_at'' = Some (iso_utc obs)"
    "attribute_text it ''signature'' = Some (ts_signature st)"
    "attribute_text it ''contract_target_id'' = Some (case ts_contract_target_id st of None \<Rightarrow> [] | Some c \<Rightarrow> c)"
    using assms(1,3) by (auto simp: state_item_def attribute_text_def target_key_def)
  have nonempty: "dumps (to_state_dict (ts_target st)) \<noteq> []" "int_str (ts_generation st) \<noteq> []"
    using assms(5) by (auto simp: to_state_dict_def int_str_nonneg)
  have "startswith (''TARGET#'' @ ts_target_id st) ''TARGET#''" by (simp add: startswith_def)
  moreover have "(if truthy_attr (Some (case ts_contract_target_id st of None \<Rightarrow> [] | Some c \<Rightarrow> c))
      then Some (case ts_contract_target_id st of None \<Rightarrow> [] | Some c \<Rightarrow> c) else None) = ts_contract_target_id st"
    using assms(7) by (cases "ts_contract_target_id st") (auto simp: truthy_attr_def)
  ultimately show ?thesis
    using loads_dict [OF state_dict_json [OF assms(2)]] from_to_state_dict [OF assms(2)] assms(3-6) nonempty
    by (cases st) (auto simp: decode_state_def attrs read_time_def iso_parse_utc py_int_str)
qed

end
