(* ===== verification/Inventory_Guarantees.thy ===== *)
theory Inventory_Guarantees
  imports Inventory_History Generator_Demo
begin

text \<open>
  A concrete target, observation and environment, at which the theorems about the inventory are
  applied: a new public address, announced as the first generation of its target. Digests stay
  symbolic.
\<close>

definition iv_target :: normalized_target where
  "iv_target =
     \<lparr>nt_account_id = ''123456789012'', nt_region = ''us-west-2'', nt_network_interface_id = ''eni-0123456789abcdef0'',
      nt_private_ip = ''10.0.0.7'', nt_public_ip = ''192.0.2.7'', nt_instance_id = None, nt_lifecycle = ''{}'',
      nt_security_group_ids = [], nt_policy_fingerprint = zero_id, nt_attachment_id = None, nt_allocation_id = None,
      nt_association_id = None, nt_tags = [], nt_candidate_ports = full_candidate, nt_managed_canary = False,
      nt_source_event_name = None, nt_source_event_id = None, nt_source_request_id = None, nt_source_event_time = None,
      nt_observed_at = None, nt_eni_observed_at = None, nt_security_group_observed_at = []\<rparr>"

definition iv_source :: event_source where
  "iv_source = \<lparr>es_name = ''RunInstances'', es_event_id = ''e-1'', es_request_id = ''r-1'', es_event_time = 100, es_observed_at = 200\<rparr>"

definition iv_store :: state_store where
  "iv_store = \<lparr>sto_outbox_ttl_seconds = 86400, sto_max_retries = 3\<rparr>"

definition iv_env :: inv_env where
  "iv_env = \<lparr>ie_fault = (\<lambda>n. Works), ie_others = (\<lambda>n s. s), ie_scan = (\<lambda>n k s. (map snd (st_items s), None)), ie_pages = 1\<rparr>"

definition iv_start :: inv_world where
  "iv_start = \<lparr>iw_store = empty_store, iw_calls = 0\<rparr>"

definition iv_observed :: normalized_target where
  "iv_observed = iv_target\<lparr>nt_observed_at := Some 200\<rparr>"

lemma iv_rely: "inv_rely iv_env"
  by (simp add: inv_rely_def iv_env_def)

lemma iv_text: "is_hex_id ''eni-'' ''eni-0123456789abcdef0''"
  by code_simp

lemma iv_public: "validate_private_ip ''10.0.0.7'' = Inr ''10.0.0.7''"
    "validate_public_association ''192.0.2.7'' = Inr ''192.0.2.7''"
  by (simp_all add: validate_private_ip_def validate_public_association_def gd_addresses ipv4_str_def octets_def gd_octets
      documentation_networks_def in_network_def netmask_def mask_eq_exp_minus_1 ipv4_of_octets_def)

lemma iv_normalized: "normalized (iv_target\<lparr>nt_observed_at := at\<rparr>) = Inr (iv_target\<lparr>nt_observed_at := at\<rparr>)"
  by (simp add: normalized_def iv_target_def iv_text iv_public gd_texts sorted_set_def)

lemma iv_representable: "representable 200" "representable 1000"
  by code_simp+

lemma iv_storable: "storable iv_observed"
  using iv_normalized [of "Some 200"] iv_representable by (simp add: storable_def iv_observed_def) (simp add: iv_target_def)

lemma iv_describable: "describable (iv_target\<lparr>nt_observed_at := at\<rparr>) 1 iv_source 1000"
proof -
  have "validate_target True (raw_target (iv_target\<lparr>nt_observed_at := at\<rparr>) 1) = None"
    by (simp add: validate_target_def raw_target_def iv_target_def gd_texts gd_public is_generation_def)
  moreover have "validate_source True (raw_source iv_source 1000) = None"
    by (simp add: validate_source_def raw_source_def iv_source_def gd_texts)
  moreover have "validate_context (contract_context (iv_target\<lparr>nt_observed_at := at\<rparr>) iv_source full_candidate) = None"
    by (simp add: validate_context_def contract_context_def iv_target_def iv_source_def gd_texts gd_public validate_tags_def
        tag_ok_def tag_of_def contract_ranges_def full_candidate_def validate_range_field_gapped full_tcp_port_range_def is_port_def)
  ultimately show ?thesis
    by (simp add: describable_def iv_target_def contract_ranges_def full_candidate_def validate_range_field_gapped
        full_tcp_port_range_def is_port_def)
qed

lemma iv_event: "\<exists>e. build_target_event (iv_target\<lparr>nt_observed_at := at\<rparr>) 1 iv_source 1000 None None = Inr e"
  by (rule build_target_event_total [OF iv_describable]) (auto simp: check_reason_def event_reason_of_def policy_changed_def state_changed_def)

definition iv_end :: inv_world where
  "iv_end = snd (reconcile iv_env iv_store iv_target iv_source 1000 iv_start)"

lemma iv_announced: "state_generation (iw_store iv_end) (nt_target_id iv_target) = 1"
proof -
  obtain e where e: "build_target_event iv_observed 1 iv_source 1000 None None = Inr e"
    using iv_event [of "Some 200"] by (auto simp: iv_observed_def)
  have n: "with_observation 200 iv_target = Inr iv_observed"
    using iv_normalized [of "Some 200"] by (simp add: with_observation_def iv_observed_def)
  have facts: "nt_observed_at iv_target = None" "es_observed_at iv_source = 200" "nt_target_id iv_observed = nt_target_id iv_target"
    by (simp_all add: iv_target_def iv_source_def iv_observed_def nt_target_id_def)
  show ?thesis
    by (simp add: iv_end_def reconcile_def facts n e iv_store_def numeral_3_eq_3 reconcile_once_def get_state_def
        bindM_def liftM_def returnM_def db_call_def iv_env_def iv_start_def empty_store_def read_item_def tbl_get_def
        compare_observation_def continue_with_def active_target_def announce_def attempt_def write_state_and_outbox_def
        write_condition_def state_item_def transact_write_items_def not_exists_def Let_def put_row_def state_generation_def
        row_def tbl.get_put)
qed

text \<open>
  What the inventory guarantees: its table announces every generation of a target exactly once and
  in order, a stale worker never overwrites a newer state, a state reads back as it was written,
  and every change that the contract can describe is announced.
\<close>

section \<open>The stream of announcements\<close>

text \<open>
  C3. In every state of the inventory table that workers reach by reconciling, confirming, removing,
  requesting coverage and claiming signals, in any order, with failing and half-executed requests, killed
  workers and concurrent workers, the outbox images in the stream of insertions are images
  of payloads that the shared contract accepts. Coverage requests apart, the generations announced for a target
  are exactly 1, 2, ..., up to its current generation, in this order, and the last announcement is
  a tombstone exactly when the target is removed.
\<close>

theorem stream_announces_generations:
  assumes "inv_reachable s"
  shows "\<exists>ps. announced s ps"
  using inv_reachable_run [OF assms] store_run_announced [OF _ empty_ok(2)] by blast

theorem stream_announces_generations_witness:
  "(\<exists>ps. announced (iw_store iv_end) ps) \<and> state_generation (iw_store iv_end) (nt_target_id iv_target) = 1"
proof -
  obtain r where r: "perform iv_env iv_store (Op_reconcile iv_target iv_source 1000) iv_start = (r, iv_end)"
    by (cases "reconcile iv_env iv_store iv_target iv_source 1000 iv_start")
      (cases "fst (reconcile iv_env iv_store iv_target iv_source 1000 iv_start)";
       auto simp: iv_end_def forget_def bindM_def returnM_def)
  have "inv_reachable (iw_store iv_end)"
  proof (rule inv_reachable.operation [OF _ iv_rely _ r])
    show "inv_reachable (iw_store iv_start)" using inv_reachable.start by (simp add: iv_start_def)
    show "provided (Op_reconcile iv_target iv_source 1000) (iw_store iv_start)"
      using iv_representable by (simp add: iv_target_def iv_source_def)
  qed
  then show ?thesis using stream_announces_generations iv_announced by blast
qed

section \<open>Fencing\<close>

text \<open>
  C14. The generation fence. However an operation on the table ends, while other workers act and
  requests fail, it never moves a target back: every target that had a row keeps one, its
  generation and its observation time do not decrease, and as long as the generation is the same
  the status and the signature of the state are the same.
\<close>

theorem operations_are_fenced:
  assumes "inv_reachable (iw_store w)" "inv_rely E" "provided op (iw_store w)" "perform E ss op w = (r, w')"
  shows "fenced (iw_store w) (iw_store w')"
  using inv_reachable_run [OF assms(1)] perform_follows_protocol [OF assms(2) _ assms(3,4)] store_run_fenced by blast

theorem operations_are_fenced_witness:
  "fenced (iw_store iv_start) (iw_store (snd (perform iv_env iv_store (Op_reconcile iv_target iv_source 1000) iv_start)))
   \<and> fenced (iw_store iv_start) (iw_store (snd (perform iv_env iv_store (Op_release ''s'') iv_start)))"
proof -
  have s: "inv_reachable (iw_store iv_start)" using inv_reachable.start by (simp add: iv_start_def)
  have "provided (Op_reconcile iv_target iv_source 1000) (iw_store iv_start)" "provided (Op_release ''s'') (iw_store iv_start)"
    using iv_representable by (simp_all add: iv_target_def iv_source_def)
  then show ?thesis using operations_are_fenced [OF s iv_rely, of _ iv_store] by (metis prod.collapse)
qed

section \<open>Rows\<close>

text \<open>
  C37. The row of a state reads back as the state: \<^verbatim>\<open>_decode_state\<close> of \<^verbatim>\<open>_state_item\<close> is the state itself, through the
  JSON text of the target and the timestamps, except for what the table does not keep: the candidate ports and the
  source of the last signal, which come back as their defaults.
\<close>

theorem state_rows_read_back:
  assumes "state_item st now = Inr it" "storable (ts_target st)" "ts_observed_at st = Some obs" "representable obs"
    and "0 \<le> ts_generation st" "ts_status st \<noteq> []" "ts_contract_target_id st \<noteq> Some []"
  shows "decode_state it = Inr (st\<lparr>ts_target := durable (ts_target st)\<rparr>)"
  by (rule decode_state_item [OF assms])

theorem state_rows_read_back_witness:
  "(let st = \<lparr>ts_target_id = nt_target_id iv_observed, ts_generation = 1, ts_status = ''active'', ts_target = iv_observed,
              ts_signature = state_signature iv_observed, ts_contract_target_id = Some zero_id, ts_observed_at = Some 200\<rparr>
    in case state_item st 1000 of
         Inl _ \<Rightarrow> False
       | Inr it \<Rightarrow> decode_state it = Inr (st\<lparr>ts_target := durable iv_observed\<rparr>))"
proof -
  let ?st = "\<lparr>ts_target_id = nt_target_id iv_observed, ts_generation = 1, ts_status = ''active'', ts_target = iv_observed,
              ts_signature = state_signature iv_observed, ts_contract_target_id = Some zero_id, ts_observed_at = Some 200\<rparr>"
  obtain it where it: "state_item ?st 1000 = Inr it" by (simp add: state_item_def)
  have "zero_id \<noteq> []" by (simp add: zero_id_def)
  then have "decode_state it = Inr (?st\<lparr>ts_target := durable (ts_target ?st)\<rparr>)"
    by (intro state_rows_read_back [OF it, where obs = 200]) (simp_all add: iv_storable iv_representable(1))
  then show ?thesis using it by (simp add: Let_def)
qed

section \<open>Events of changes\<close>

text \<open>
  If the contract accepts the fields of a target and of the
  observation, then for a new target, and for an active target whose policy or whose state differs from the
  previous one, an event can be built: it validates in full, is about this target and
  generation, and asks for a scan of its public address: of the candidate ports when the policy
  changed or the target is a managed canary with partial ports, and of the complete TCP range otherwise.
\<close>

theorem changes_are_announced:
  assumes "describable v g s collected"
    and "\<And>p. previous = Some p \<Longrightarrow> is_sha256_hex (nt_policy_fingerprint p)
           \<and> (policy_changed previous v \<or> state_signature p \<noteq> state_signature v)"
  shows "\<exists>e. build_target_event v g s collected previous None = Inr e \<and> validate_event False e = None
    \<and> payload_stable_id (Work e) = nt_target_id v \<and> generation (te_target e) = g
    \<and> public_address (te_target e) = nt_public_ip v \<and> sd_target_id (te_scan e) = target_id (te_target e)
    \<and> tcp_port_ranges (te_scan e) =
        (if policy_changed previous v
            \<or> (previous = None \<and> nt_managed_canary v \<and> \<not> cp_full_tcp (nt_candidate_ports v))
         then contract_ranges (nt_candidate_ports v) else [full_tcp_port_range])"
proof -
  let ?r = "event_reason_of previous v None"
  have "check_reason previous v ?r = Inr ()"
    using assms(2) by (cases previous) (auto simp: check_reason_def event_reason_of_def policy_changed_def state_changed_def)
  with assms obtain e where e: "build_target_event v g s collected previous None = Inr e"
    using build_target_event_total [OF assms(1) _ refl] by blast
  have "sp_ranges (scan_plan v ?r collected) =
      (if policy_changed previous v \<or> (previous = None \<and> nt_managed_canary v \<and> \<not> cp_full_tcp (nt_candidate_ports v))
       then contract_ranges (nt_candidate_ports v) else [full_tcp_port_range])"
    by (cases previous)
      (simp_all add: scan_plan_def event_reason_of_def policy_changed_def Let_def contract_ranges_def full_candidate_def)
  with e build_target_event_Inr [OF e] show ?thesis by auto
qed

theorem changes_are_announced_witness:
  "\<exists>e. build_target_event iv_observed 1 iv_source 1000 None None = Inr e
     \<and> tcp_port_ranges (te_scan e) = [full_tcp_port_range] \<and> public_address (te_target e) = ''192.0.2.7''"
proof -
  have "describable iv_observed 1 iv_source 1000" using iv_describable by (simp add: iv_observed_def)
  from changes_are_announced [OF this, of None] show ?thesis
    by (auto simp: policy_changed_def iv_observed_def iv_target_def)
qed

end
