(* ===== verification/Delivery_Guarantees.thy ===== *)
theory Delivery_Guarantees
  imports Inventory_Guarantees Json_Roundtrip
begin

text \<open>
  A concrete delivery: the outbox image of an event is dispatched, S3 stores the object, both queues
  accept the message and the item is marked. Digests stay symbolic.
\<close>

definition ob_payload :: target_payload where
  "ob_payload = Work gd_event"

definition ob_settings :: settings where
  "ob_settings =
     \<lparr>se_state_table = ''state'', se_event_bucket = ''events'', se_event_prefix = ''targets'', se_priority_queue_url = ''priority'',
      se_coverage_queue_url = ''coverage'', se_target_event_queue_url = ''targets'', se_snapshot_backend = ''ec2'',
      se_config_aggregator_name = None, se_account_id = None, se_authorized_account_ids = [], se_regions = [],
      se_canary_mode = False, se_managed_canary = None, se_discovery_role_arn_template = None, se_external_id = None,
      se_allowed_tag_keys = [], se_allowed_target_cidrs = [], se_denied_target_cidrs = [], se_allowed_eni_interface_types = [],
      se_required_target_tag_key = None, se_required_target_tag_value = None, se_snapshot_max_pages = 1,
      se_signal_dedupe_seconds = 1, se_outbox_ttl_seconds = 86400, se_outbox_replay_batch_size = 1,
      se_rescan_bucket_seconds = 1, se_max_signal_port_ranges = 1, se_max_signal_ports = 1\<rparr>"

definition ob_text :: "string \<Rightarrow> string \<Rightarrow> string \<times> json" where
  "ob_text name v = (name, JObj [(''S'', JStr v)])"

definition ob_image :: json where
  "ob_image = JObj [ob_text ''pk'' ''OUTBOX'', ob_text ''sk'' ''EVENT'', ob_text ''entity'' ''outbox'',
     ob_text ''event_id'' (te_event_id gd_event), ob_text ''account_id'' ''123456789012'', ob_text ''region'' ''us-west-2'',
     ob_text ''event_json'' [], (''delivery_ttl_seconds'', JObj [(''N'', JStr (int_str 86400))])]"

definition ob_record :: json where
  "ob_record = JObj [(''eventName'', JStr ''INSERT''), (''dynamodb'', JObj [(''NewImage'', ob_image)])]"

definition ob_row :: item where
  "ob_row = [(''entity'', S ''outbox''), (''event_id'', S (te_event_id gd_event))]"

definition ob_env :: outbox_env where
  "ob_env =
     \<lparr>ox_put = (\<lambda>n. Inr (JObj [(''ETag'', JStr ''a1'')])), ox_head = (\<lambda>n. Inr (JObj [])), ox_send = (\<lambda>n. Inr (JObj [])),
      ox_query = (\<lambda>n. Inr (JObj [])), ox_clock = (\<lambda>n. 1000), ox_table = iv_env, ox_adapter = (\<lambda>bs. Inr ob_payload)\<rparr>"

definition ob_start :: outbox_world where
  "ob_start = \<lparr>ow_table = \<lparr>iw_store = \<lparr>st_items = [((''OUTBOX'', ''EVENT''), ob_row)], st_stream = []\<rparr>, iw_calls = 0\<rparr>, ow_trace = []\<rparr>"

lemma ob_texts: "is_region_name ''us-west-2''" "strip_char (CHR 0x22) (py_strip ''a1'') = ''a1''"
  "list_all (\<lambda>c. \<not> is_space c) ''a1''" "py_lower ''a1'' \<noteq> ''null''" "is_account_id ''123456789012''"
  by code_simp+

lemma ob_image_text:
  "image_text ob_image ''pk'' = Some ''OUTBOX''" "image_text ob_image ''sk'' = Some ''EVENT''"
  "image_text ob_image ''entity'' = Some ''outbox''" "image_text ob_image ''event_id'' = Some (te_event_id gd_event)"
  "image_text ob_image ''account_id'' = Some ''123456789012''" "image_text ob_image ''region'' = Some ''us-west-2''"
  "image_text ob_image ''event_json'' = Some []"
  by (simp_all add: image_text_def ob_image_def ob_text_def vfield_def is_obj_def Let_def)

lemma ob_retention: "delivery_retention_seconds ob_image = Inr 86400"
  by (simp add: delivery_retention_seconds_def image_number_def ob_image_def ob_text_def vfield_def is_obj_def Let_def py_int_str)

lemma ob_id: "is_sha256_hex (te_event_id gd_event)" "is_sha256_hex (expected_event_id gd_raw_event)"
    "expected_event_id gd_raw_event \<noteq> []"
proof -
  show h: "is_sha256_hex (expected_event_id gd_raw_event)" by (rule event_model.expected_hex)
  then show "expected_event_id gd_raw_event \<noteq> []" by (auto simp: is_sha256_hex_def)
  show "is_sha256_hex (te_event_id gd_event)" using h by (simp add: gd_event_def)
qed

lemma ob_context: "account_id (te_aws_context gd_event) = ''123456789012''" "region (te_aws_context gd_event) = ''us-west-2''"
  by (simp_all add: gd_event_def gd_raw_event_def gd_context_def)

lemma ob_outbox_payload: "outbox_payload (ox_adapter ob_env) ob_image = Inr ob_payload"
  by (simp add: outbox_payload_def Let_def ob_image_text text_or_empty_def ob_id ob_texts parse_target_event_def ob_env_def
      ob_payload_def payload_event_id_def payload_context_def contract_def utf8_def ob_context)

lemma ob_put_identity: "object_identity (JObj [(''ETag'', JStr ''a1'')]) = Inr (Some ''a1'', None)"
  by (simp add: object_identity_def etag_of_def version_id_of_def vfield_def Let_def ob_texts one_line_def)

lemma ob_mark: "\<exists>t. mark_delivered iv_env ob_image 1000 (ow_table ob_start) = (Inr (), t)"
  by (simp add: mark_delivered_def ob_id ob_retention ob_image_text bindM_def liftM_def attempt_def db_call_def iv_env_def ob_start_def
      update_item_def pending_def ob_row_def tbl_get_def Let_def returnM_def)

lemma ob_dispatch: "\<exists>w. dispatch_record ob_env ob_settings ob_record ob_start = (Inr True, w)
    \<and> list_all (\<lambda>(c, v). v \<in> {Some (JObj [(''ETag'', JStr ''a1'')]), Some (JObj []), Some JNull}) (ow_trace w)"
proof -
  obtain t where t: "mark_delivered iv_env ob_image 1000 (ow_table ob_start) = (Inr (), t)" using ob_mark by blast
  have img: "vfield ob_record ''eventName'' = JStr ''INSERT''" "is_obj (vfield ob_record ''dynamodb'')"
    "vfield (vfield ob_record ''dynamodb'') ''NewImage'' = ob_image" "is_obj ob_image"
    by (simp_all add: ob_record_def vfield_def is_obj_def ob_image_def)
  have env: "ox_put ob_env n = Inr (JObj [(''ETag'', JStr ''a1'')])" "ox_send ob_env n = Inr (JObj [])" "ox_table ob_env = iv_env"
    "ox_clock ob_env n = 1000" for n by (simp_all add: ob_env_def)
  have start: "ow_trace ob_start = []" by (simp add: ob_start_def)
  have as: "as_response (JObj [(''ETag'', JStr ''a1'')]) = JObj [(''ETag'', JStr ''a1'')]" by (simp add: as_response_def is_obj_def)
  show ?thesis
    by (simp add: dispatch_record_def img Let_def ob_image_text text_or_empty_def ob_retention ob_outbox_payload deliver_def
        store_object_def put_or_verify_def bindM_def liftM_def returnM_def attempt_def service_def env start as ob_put_identity
        notification_body_def on_table_def t response_of_def)
qed

text \<open>The size of the document.\<close>

lemma hex_length: "is_sha256_hex x \<Longrightarrow> length x = 64"
  by (simp add: is_sha256_hex_def)

lemma length_padded: "n < 10 ^ w \<Longrightarrow> 0 < w \<Longrightarrow> length (padded w n) = w"
  using length_nat_str [of n w] by (simp add: padded_def)

lemma ob_day: "civil_from_days 0 = (1970, 1, 1)"
  by code_simp

lemma ob_times: "length (iso_utc 100) = 27" "length (iso_utc 200) = 27" "length (iso_utc 300) = 27" "length (iso_utc 400) = 27"
  "length (iso_utc 2000000000) = 20" "length (iso_utc 3000000000) = 20"
  by (simp_all add: iso_utc_def micros_per_day_def ob_day Let_def length_padded)

lemma ob_numbers: "length (int_str 3) = 1" "length (int_str 10) = 2" "length (int_str 22) = 2" "length (int_str 80) = 2"
  "length (int_str 443) = 3"
  by code_simp+

lemma ob_digests: "length (target_id gd_target) = 64" "length (observation_id gd_source) = 64" "length (directive_id gd_directive) = 64"
  "length (te_event_id gd_event) = 64" "length zero_id = 64"
proof -
  show "length (target_id gd_target) = 64" by (rule hex_length) (simp add: gd_target_def target_model.expected_hex)
  show "length (observation_id gd_source) = 64" by (rule hex_length) (simp add: gd_source_def source_model.expected_hex)
  show "length (directive_id gd_directive) = 64" by (rule hex_length) (simp add: gd_directive_def directive_model.expected_hex)
  show "length (te_event_id gd_event) = 64" by (rule hex_length [OF ob_id(1)])
  show "length zero_id = 64" by (simp add: zero_id_def)
qed

lemma ob_target_fields: "scope_id gd_target = ''123456789012''" "location gd_target = ''us-west-2''"
  "resource_id gd_target = ''eni-0123456789abcdef0''" "private_address gd_target = ''10.0.0.7''" "public_address gd_target = ''192.0.2.7''"
  "generation gd_target = 3" "provider gd_target = AWS" "address_family gd_target = IPV4" "transport gd_target = TCP"
  by (simp_all add: gd_target_def gd_raw_target_def)

lemma ob_weights: "weight (target_json gd_target) \<le> 3000" "weight (source_json gd_source) \<le> 3000"
  "weight (directive_json gd_directive) \<le> 3000" "weight (context_json gd_context) \<le> 4000"
proof -
  show "weight (target_json gd_target) \<le> 3000"
    by (simp add: target_json_def ob_digests ob_target_fields ob_numbers)
  show "weight (source_json gd_source) \<le> 3000"
    by (simp add: source_json_def ob_digests jtime_def) (simp add: gd_source_def gd_raw_source_def ob_times)
  show "weight (directive_json gd_directive) \<le> 3000"
    by (simp add: directive_json_def directive_identity_fields_def ob_digests jtime_def)
      (simp add: gd_directive_def gd_raw_directive_def ob_times ob_numbers ob_digests gd_ranges_def range_json_def)
  show "weight (context_json gd_context) \<le> 4000"
    by (simp add: context_json_def context_fields_def tags_json_def gd_context_def jopt_def gd_ranges_def range_json_def
        ob_numbers ob_digests)
qed

lemma ob_size: "length (utf8 (payload_text ob_payload)) \<le> 65536"
proof -
  have e: "te_schema_version gd_event = ''1.0''" "te_event_type gd_event = TARGET_UPSERT" "te_target gd_event = gd_target"
    "te_source gd_event = gd_source" "te_policy_change gd_event = None" "te_scan gd_event = gd_directive"
    "te_aws_context gd_event = gd_context"
    by (simp_all add: gd_event_def gd_raw_event_def)
  have "weight (event_json gd_event) \<le> 20000"
    using ob_weights ob_digests(4) by (simp add: event_json_def e jopt_def)
  then have "length (dumps (event_json gd_event)) \<le> 20000" using length_dumps order.trans by blast
  then have "length (payload_text ob_payload) \<le> 20000" by (simp add: payload_text_def ob_payload_def payload_json_def canonical_json_def)
  then show ?thesis using length_utf8 [of "payload_text ob_payload"] by simp
qed

lemma ob_valid: "validate_payload ob_payload = None" "generation (payload_target ob_payload) < 10 ^ 38"
  using gd_event_ok by (simp_all add: ob_payload_def validate_payload_def payload_target_def gd_event_def gd_raw_event_def ob_target_fields)

lemma ob_settings_ok: "settings_ok ob_settings"
  by (simp add: settings_ok_def ob_settings_def)

text \<open>
  What the outbox guarantees: an item is marked as delivered only after both queues accepted the
  message about an object that is stored, and the generator reads from this message the payload that was announced.
\<close>

section \<open>The order of a delivery\<close>

text \<open>
  C13. The order of a delivery. Whatever S3, SQS and the table answer, and wherever the worker ends, dispatching a
  stream record makes no request at all, or it makes these requests for the payload of the image, in this order: requests about the object;
  then, only if the object with the canonical bytes of the event was stored or the one that exists was verified against
  its digest, the message to the queue of target events; then, only if that one was accepted,
  the same message to the queue for the reason of the scan; then, only if that one was
  accepted, the mark in the table. The dispatch succeeds exactly when all of them did.
\<close>

theorem delivery_in_order:
  assumes "dispatch_record E s record w = (r, w')"
  shows "(w' = w \<and> r \<noteq> Inr True)
    \<or> (\<exists>p calls. outbox_payload (ox_adapter E) (stream_image record) = Inr p \<and> ow_trace w' = ow_trace w @ calls
         \<and> delivered s (stream_image record) p calls (r = Inr True) \<and> (r = Inr True \<or> isl r))"
  by (rule dispatch_calls [OF assms]) blast+

theorem delivery_in_order_witness:
  "\<exists>w calls. dispatch_record ob_env ob_settings ob_record ob_start = (Inr True, w) \<and> ow_trace w = calls
     \<and> delivered ob_settings ob_image ob_payload calls True"
proof -
  obtain w where w: "dispatch_record ob_env ob_settings ob_record ob_start = (Inr True, w)" using ob_dispatch by blast
  have img: "stream_image ob_record = ob_image" by (simp add: stream_image_def ob_record_def vfield_def)
  from delivery_in_order [OF w] show ?thesis
    unfolding img ob_outbox_payload using w by (auto simp: ob_start_def)
qed

section \<open>From the inventory to the generator\<close>

definition plain_response :: "json \<Rightarrow> bool" where
  "plain_response v \<longleftrightarrow>
     (case object_identity (as_response v) of Inl _ \<Rightarrow> True | Inr (etag, version) \<Rightarrow> plain_identity etag \<and> plain_identity version)"

text \<open>S3 answers the next read of the generator with the object.\<close>

definition serves_object :: "environment \<Rightarrow> gen_world \<Rightarrow> s3_reference \<Rightarrow> nat list \<Rightarrow> bool" where
  "serves_object G gw ref body \<longleftrightarrow>
     env_fault G (tick gw) = No_fault
     \<and> env_object G (tick gw)
         \<lparr>rq_bucket = ref_bucket ref, rq_key = ref_key ref, rq_if_match = ref_etag ref, rq_version = ref_version ref\<rparr>
       = Inr \<lparr>rs_length = Length (int (length body)), rs_etag = ref_etag ref, rs_version = ref_version ref, rs_body = Body_bytes body\<rparr>"

lemma strip_char_id: "s \<noteq> [] \<Longrightarrow> hd s \<noteq> c \<Longrightarrow> last s \<noteq> c \<Longrightarrow> strip_char c s = s"
proof -
  have d: "dropWhile ((=) c) u = u" if "u \<noteq> []" "hd u \<noteq> c" for u using that by (cases u) auto
  assume "s \<noteq> []" "hd s \<noteq> c" "last s \<noteq> c"
  then show ?thesis using d [of s] d [of "rev s"] by (simp add: strip_char_def hd_rev)
qed

lemma object_key_prefix:
  assumes "settings_ok s"
  shows "startswith (object_key (se_event_prefix s) p) (se_event_prefix s @ ''/'')"
    "object_key (se_event_prefix s) p \<noteq> se_event_prefix s @ ''/''"
  using assms strip_char_id [of "se_event_prefix s" "CHR ''/''"]
  by (auto simp: settings_ok_def object_key_def startswith_def)

lemma read_served:
  assumes ref: "decode_sqs_s3_record (gs_config svc) record = Inr ref"
    and plain: "plain_identity (ref_etag ref)" "plain_identity (ref_version ref)"
    and served: "serves_object G gw ref body" and small: "int (length body) \<le> max_event_bytes (gs_config svc)"
    and document: "load_json_document body = Inr document" "gs_parser svc document = Inr p"
  shows "fst (read_target_event G svc record gw) = Inr (ref, p)"
proof -
  have truthy: "(if truthy_text v then v else None) = v" if "plain_identity v" for v
    using that by (auto simp: truthy_text_def plain_identity_def split: option.splits)
  have check: "check_response (gs_config svc) ref \<lparr>rs_length = Length (int (length body)), rs_etag = ref_etag ref,
      rs_version = ref_version ref, rs_body = Body_bytes body\<rparr> = Inr ()"
    using small by (auto simp: check_response_def split: option.splits)
  have read: "read_body (gs_config svc) (Body_bytes body) = Inr body"
    using small by (simp add: read_body_def Let_def)
  show ?thesis
    using served document
    by (simp add: read_target_event_def ref fetch_target_event_def truthy plain serves_object_def api_object_def answered_def
        tryX_def bindM_def liftM_def returnM_def check read parse_shared_contract_def)
qed

text \<open>
  C8. From the inventory to the generator. The message of every successful dispatch went to both queues, and a generator that is configured
  for the same bucket and prefix decodes it to a reference to the object of the announced event, with the entity tag and version that
  S3 returned for this very object when it was stored or verified; when S3 serves the object under these pins, the generator reads
  exactly the payload that was announced, provided that the adapter accepts the payload's own document. The contract adapter
  returns only valid payloads, S3 identifies objects by text without spaces, and the announced event has a generation that fits a number of the
  table and a document shorter than \<^verbatim>\<open>10^38\<close> bytes.
\<close>

theorem announcements_reach_the_generator:
  assumes dispatch: "dispatch_record E s record w = (Inr True, w')"
    and settings: "settings_ok s" "event_bucket (gs_config svc) = se_event_bucket s"
      "event_prefix (gs_config svc) = se_event_prefix s @ ''/''"
    and adapter: "\<forall>bs p. ox_adapter E bs = Inr p \<longrightarrow> validate_payload p = None"
    and event: "\<forall>p. outbox_payload (ox_adapter E) (stream_image record) = Inr p
      \<longrightarrow> generation (payload_target p) < 10 ^ 38 \<and> length (utf8 (payload_text p)) < 10 ^ 38"
    and responses: "\<forall>c v. (c, Some v) \<in> set (ow_trace w') \<longrightarrow> plain_response v"
  shows "\<exists>p ref message. outbox_payload (ox_adapter E) (stream_image record) = Inr p
    \<and> (\<exists>v. (Send_message (se_target_event_queue_url s) message, Some v) \<in> set (ow_trace w'))
    \<and> (\<exists>v. (Send_message (routed_queue s p) message, Some v) \<in> set (ow_trace w'))
    \<and> ref_bucket ref = se_event_bucket s \<and> ref_key ref = object_key (se_event_prefix s) p
    \<and> (\<exists>calls. ow_trace w' = ow_trace w @ calls \<and> object_held (ref_bucket ref) (ref_key ref) (utf8 (payload_text p)) calls
         \<and> identity_given (ref_bucket ref) (ref_key ref) (ref_etag ref, ref_version ref) calls)
    \<and> decode_sqs_s3_record (gs_config svc) (sqs_record mid message) = Inr ref
    \<and> (\<forall>G gw. serves_object G gw ref (utf8 (payload_text p)) \<longrightarrow> gs_parser svc (canon (payload_json p)) = Inr p
         \<longrightarrow> int (length (utf8 (payload_text p))) \<le> max_event_bytes (gs_config svc)
         \<longrightarrow> fst (read_target_event G svc (sqs_record mid message) gw) = Inr (ref, p))"
proof -
  let ?img = "stream_image record"
  from dispatch_calls [OF dispatch] obtain p calls where p: "outbox_payload (ox_adapter E) ?img = Inr p"
    and calls: "ow_trace w' = ow_trace w @ calls" "delivered s ?img p calls True" by auto
  let ?body = "utf8 (payload_text p)" and ?key = "object_key (se_event_prefix s) p"
  from calls(2) obtain objects sends etag version message where c: "calls = objects @ sends"
    "object_held (se_event_bucket s) ?key ?body objects" "identity_given (se_event_bucket s) ?key (etag, version) objects"
    "notification_body (se_event_bucket s) ?key (length ?body) etag version = Inr message"
    "in_order (delivery_steps s ?img p message) sends" "length sends = 3" "snd (last sends) \<noteq> None"
    by (auto simp: delivered_def Let_def)
  from p obtain raw where "ox_adapter E (utf8 raw) = Inr p"
    by (auto simp: outbox_payload_def parse_target_event_def bindR_Inr Let_def split: option.splits if_splits)
  with adapter event p have v: "validate_payload p = None" "generation (payload_target p) < 10 ^ 38" "length ?body < 10 ^ 38" by blast+
  obtain x y z where sends: "sends = [x, y, z]" using c(6) by (auto simp: numeral_3_eq_3 length_Suc_conv)
  have sent: "\<exists>v. (Send_message (se_target_event_queue_url s) message, Some v) \<in> set (ow_trace w')"
    "\<exists>v. (Send_message (routed_queue s p) message, Some v) \<in> set (ow_trace w')"
    using c(1,5) calls(1) by (auto simp: sends in_order_def delivery_steps_def prod_eq_iff)
  have held: "object_held (se_event_bucket s) ?key ?body calls" "identity_given (se_event_bucket s) ?key (etag, version) calls"
    using object_held_mono [OF c(2)] identity_given_mono [OF c(3)] c(1) by simp_all
  from c(3) obtain d u where "(d, Some u) \<in> set objects" "object_identity (as_response u) = Inr (etag, version)"
    by (auto simp: identity_given_def)
  with responses [rule_format, of d u] calls(1) c(1) have plain: "plain_identity etag" "plain_identity version"
    by (auto simp: plain_response_def)
  let ?ref = "\<lparr>ref_bucket = se_event_bucket s, ref_key = ?key, ref_etag = etag, ref_version = version\<rparr>"
  have ref: "decode_sqs_s3_record (gs_config svc) (sqs_record mid message) = Inr ?ref"
    using object_key_prefix [OF settings(1), of p] settings(2,3) plain
    by (intro notification_decodes [OF v(3) c(4)]) simp_all
  have "fst (read_target_event G svc (sqs_record mid message) gw) = Inr (?ref, p)"
    if "serves_object G gw ?ref ?body" "gs_parser svc (canon (payload_json p)) = Inr p"
      "int (length ?body) \<le> max_event_bytes (gs_config svc)" for G gw
    using that plain by (intro read_served [OF ref _ _ that(1,3) object_document [OF payload_document [OF v(1,2)]]]) simp_all
  with p sent ref held calls(1) show ?thesis by (intro exI [of _ p] exI [of _ ?ref] exI [of _ message]) auto
qed

theorem announcements_reach_the_generator_witness:
  "\<exists>w ref message. dispatch_record ob_env ob_settings ob_record ob_start = (Inr True, w)
     \<and> decode_sqs_s3_record gd_config (sqs_record ''m-1'' message) = Inr ref
     \<and> ref_key ref = object_key ''targets'' ob_payload
     \<and> identity_given (ref_bucket ref) (ref_key ref) (ref_etag ref, ref_version ref) (ow_trace w)
     \<and> (\<forall>G gw. serves_object G gw ref (utf8 (payload_text ob_payload)) \<longrightarrow>
          fst (read_target_event G gd_services (sqs_record ''m-1'' message) gw) = Inr (ref, ob_payload))"
proof -
  obtain w where w: "dispatch_record ob_env ob_settings ob_record ob_start = (Inr True, w)"
    and tr: "list_all (\<lambda>(c, v). v \<in> {Some (JObj [(''ETag'', JStr ''a1'')]), Some (JObj []), Some JNull}) (ow_trace w)"
    using ob_dispatch by blast
  have img: "stream_image ob_record = ob_image" by (simp add: stream_image_def ob_record_def vfield_def)
  have cfg: "gs_config gd_services = gd_config" "gs_parser gd_services d = Inr ob_payload" for d
    by (simp_all add: gd_services_def ob_payload_def)
  have conf: "event_bucket (gs_config gd_services) = se_event_bucket ob_settings"
    "event_prefix (gs_config gd_services) = se_event_prefix ob_settings @ ''/''" "max_event_bytes gd_config = 65536"
    by (simp_all add: cfg gd_config_def ob_settings_def)
  have empty: "object_identity (JObj []) = Inr (None, None)"
    by (simp add: object_identity_def etag_of_def version_id_of_def vfield_def)
  have plain: "plain_identity (Some ''a1'')" "plain_identity None" using ob_texts by (simp_all add: plain_identity_def)
  have responses: "\<forall>c v. (c, Some v) \<in> set (ow_trace w) \<longrightarrow> plain_response v"
  proof (intro allI impI)
    fix c v assume "(c, Some v) \<in> set (ow_trace w)"
    with tr have "v \<in> {JObj [(''ETag'', JStr ''a1'')], JObj [], JNull}" by (auto simp: list_all_iff)
    then show "plain_response v"
      using plain by (auto simp: plain_response_def as_response_def is_obj_def ob_put_identity empty)
  qed
  have adapter: "\<forall>bs p. ox_adapter ob_env bs = Inr p \<longrightarrow> validate_payload p = None"
    using ob_valid by (simp add: ob_env_def)
  have event: "\<forall>p. outbox_payload (ox_adapter ob_env) (stream_image ob_record) = Inr p
      \<longrightarrow> generation (payload_target p) < 10 ^ 38 \<and> length (utf8 (payload_text p)) < 10 ^ 38"
    using ob_valid ob_size by (simp add: img ob_outbox_payload)
  from announcements_reach_the_generator [where mid = "''m-1''" and svc = gd_services, OF w ob_settings_ok conf(1,2) adapter event responses]
  obtain ref message where "ref_key ref = object_key (se_event_prefix ob_settings) ob_payload"
    "identity_given (ref_bucket ref) (ref_key ref) (ref_etag ref, ref_version ref) (ow_trace w)"
    "decode_sqs_s3_record gd_config (sqs_record ''m-1'' message) = Inr ref"
    "\<forall>G gw. serves_object G gw ref (utf8 (payload_text ob_payload)) \<longrightarrow>
       fst (read_target_event G gd_services (sqs_record ''m-1'' message) gw) = Inr (ref, ob_payload)"
    unfolding img ob_outbox_payload cfg(1) conf(3) using ob_size by (auto simp: cfg ob_start_def)
  moreover have "se_event_prefix ob_settings = ''targets''" by (simp add: ob_settings_def)
  ultimately show ?thesis using w by metis
qed

end
