(* ===== verification/Inventory_Normalize.thy ===== *)
theory Inventory_Normalize
  imports Inventory_Target Pyvalue
begin

text \<open>
  Normalization of EC2 network interfaces and security-group ingress
  (\<^verbatim>\<open>inventory/.../aws/normalize.py\<close>): the canonical ingress rules and their fingerprint, and the
  targets of a network interface.

  The raw documents come from the EC2 interface or, as JSON, from AWS Config. A list of rules is a
  list of objects; a document is read field by field under either spelling of its names.
\<close>

section \<open>Networks\<close>

text \<open>
  \<^verbatim>\<open>str(ipaddress.ip_network(value, strict=False))\<close>: an address of either family, a prefix length, and
  for IPv4 also a net mask or a host mask. Host bits are cleared.
\<close>

definition prefix_length :: "nat \<Rightarrow> string \<Rightarrow> nat option" where
  "prefix_length limit s =
     (if s \<noteq> [] \<and> list_all is_digit s \<and> digits_val s \<le> limit then Some (digits_val s) else None)"

definition mask_prefix :: "ipv4 \<Rightarrow> nat option" where
  "mask_prefix m = find (\<lambda>p. netmask p = m) [0..<33]"

definition ipv4_prefix :: "string \<Rightarrow> nat option" where
  "ipv4_prefix s =
     (case prefix_length 32 s of
        Some p \<Rightarrow> Some p
      | None \<Rightarrow>
          (case ipv4_parse s of
             None \<Rightarrow> None
           | Some m \<Rightarrow> (case mask_prefix m of Some p \<Rightarrow> Some p | None \<Rightarrow> mask_prefix (NOT m))))"

definition network_parts :: "string \<Rightarrow> (string \<times> string option) option" where
  "network_parts s =
     (case split_on (CHR ''/'') s of
        [a] \<Rightarrow> Some (a, None) | [a, m] \<Rightarrow> Some (a, Some m) | _ \<Rightarrow> None)"

definition ipv4_network_str :: "string \<Rightarrow> string option" where
  "ipv4_network_str s =
     (case network_parts s of
        None \<Rightarrow> None
      | Some (a, m) \<Rightarrow>
          (case (ipv4_parse a, case m of None \<Rightarrow> Some 32 | Some x \<Rightarrow> ipv4_prefix x) of
             (Some w, Some p) \<Rightarrow> Some (ipv4_str (w AND netmask p) @ ''/'' @ nat_str p)
           | _ \<Rightarrow> None))"

definition clear_host_bits :: "nat \<Rightarrow> nat list \<Rightarrow> nat list" where
  "clear_host_bits p gs =
     map (\<lambda>(i, g). g - g mod 2 ^ (16 - min 16 (p - 16 * i))) (zip [0..<length gs] gs)"

definition split_scope_id :: "string \<Rightarrow> (string \<times> string option) option" where
  "split_scope_id s =
     (case split_on (CHR ''%'') s of
        [a] \<Rightarrow> Some (a, None)
      | [a, scope] \<Rightarrow> if scope = [] then None else Some (a, Some scope)
      | _ \<Rightarrow> None)"

definition ipv6_network_str :: "string \<Rightarrow> string option" where
  "ipv6_network_str s =
     (case network_parts s of
        None \<Rightarrow> None
      | Some (a, m) \<Rightarrow>
          (case split_scope_id a of
             None \<Rightarrow> None
           | Some (literal, scope) \<Rightarrow>
               (case (ipv6_parse literal, case m of None \<Rightarrow> Some 128 | Some x \<Rightarrow> prefix_length 128 x) of
                  (Some gs, Some p) \<Rightarrow>
                    Some ((if clear_host_bits p gs = gs
                           then ipv6_str gs @ (case scope of None \<Rightarrow> [] | Some z \<Rightarrow> ''%'' @ z)
                           else ipv6_str (clear_host_bits p gs)) @ ''/'' @ nat_str p)
                | _ \<Rightarrow> None)))"

definition canonical_ip_network :: "string \<Rightarrow> string" where
  "canonical_ip_network value =
     (case ipv4_network_str value of
        Some n \<Rightarrow> n
      | None \<Rightarrow> (case ipv6_network_str value of Some n \<Rightarrow> n | None \<Rightarrow> py_lower (py_strip value)))"

section \<open>Documents\<close>

definition as_mapping :: "json \<Rightarrow> inv_error + json" where
  "as_mapping v =
     (case v of
        JObj kvs \<Rightarrow> Inr v
      | JStr s \<Rightarrow>
          (case loads dict_hook s of
             Inl _ \<Rightarrow> Inl (Inv_value ''json'')
           | Inr p \<Rightarrow> Inr (if is_obj p then p else JObj []))
      | _ \<Rightarrow> Inr (JObj []))"

text \<open>\<^verbatim>\<open>int(value)\<close>\<close>

definition json_int :: "json \<Rightarrow> inv_error + int" where
  "json_int v =
     (case v of
        JInt i \<Rightarrow> Inr i
      | JBool b \<Rightarrow> Inr (if b then 1 else 0)
      | JStr s \<Rightarrow> (case py_int s of None \<Rightarrow> Inl (Inv_value ''int'') | Some i \<Rightarrow> Inr i)
      | JFloat s \<Rightarrow> (case float_int s of None \<Rightarrow> Inl (Inv_value ''int'') | Some i \<Rightarrow> Inr i)
      | _ \<Rightarrow> Inl (Inv_type ''int''))"

text \<open>\<^verbatim>\<open>_get(v, *names, default=()) or ()\<close>, and the list behind \<^verbatim>\<open>items\<close> of a value that is an object.\<close>

definition listed_field :: "string list \<Rightarrow> json \<Rightarrow> json" where
  "listed_field names v = py_or (get_any names (JArr []) v) (JArr [])"

definition unwrapped :: "json \<Rightarrow> json" where
  "unwrapped v = (if is_obj v then listed_field [''items'', ''Items''] v else v)"

section \<open>Ingress rules\<close>

record ingress_rule =
  ir_protocol :: string
  ir_from_port :: "int option"
  ir_to_port :: "int option"
  ir_sources :: "(string \<times> string) list"

definition rule_json :: "ingress_rule \<Rightarrow> json" where
  "rule_json r = JObj
     [(''protocol'', JStr (ir_protocol r)), (''from_port'', jopt JInt (ir_from_port r)),
      (''to_port'', jopt JInt (ir_to_port r)),
      (''sources'', JArr (map (\<lambda>(kind, value). JObj [(''kind'', JStr kind), (''value'', JStr value)]) (ir_sources r)))]"

definition source_text :: "string list \<Rightarrow> json \<Rightarrow> string" where
  "source_text names v = py_str (get_any names (JStr []) v)"

definition canonical_source :: "string \<Rightarrow> json \<Rightarrow> string \<times> string" where
  "canonical_source kind v =
     (let raw =
        (case v of
           JStr s \<Rightarrow> s
         | _ \<Rightarrow>
             if kind = ''ipv4'' then source_text [''CidrIp'', ''cidrIp''] v
             else if kind = ''ipv6'' then source_text [''CidrIpv6'', ''cidrIpv6''] v
             else if kind = ''prefix'' then source_text [''PrefixListId'', ''prefixListId''] v
             else join ''|''
               [source_text [''GroupId'', ''groupId''] v, source_text [''UserId'', ''userId''] v,
                source_text [''VpcId'', ''vpcId''] v,
                source_text [''VpcPeeringConnectionId'', ''vpcPeeringConnectionId''] v])
      in (kind, if kind \<in> {''ipv4'', ''ipv6''} then canonical_ip_network raw else raw))"

definition source_fields :: "(string \<times> string list) list" where
  "source_fields =
     [(''ipv4'', [''IpRanges'', ''ipRanges'']), (''ipv6'', [''Ipv6Ranges'', ''ipv6Ranges'']),
      (''prefix'', [''PrefixListIds'', ''prefixListIds'']),
      (''security-group'', [''UserIdGroupPairs'', ''userIdGroupPairs''])]"

definition is_source :: "json \<Rightarrow> bool" where
  "is_source v = (case v of JStr _ \<Rightarrow> True | _ \<Rightarrow> is_obj v)"

definition rule_sources_of :: "json \<Rightarrow> string \<times> string list \<Rightarrow> inv_error + (string \<times> string) list" where
  "rule_sources_of permission field =
     (case unwrapped (listed_field (snd field) permission) of
        JStr s \<Rightarrow> Inr (filter (\<lambda>src. snd src \<noteq> []) [canonical_source (fst field) (JStr s)])
      | v \<Rightarrow> bindR (iterate v) (\<lambda>raws.
               Inr (filter (\<lambda>src. snd src \<noteq> []) (map (canonical_source (fst field)) (filter is_source raws)))))"

definition canonical_protocol :: "json \<Rightarrow> string" where
  "canonical_protocol permission =
     (let p = py_lower (py_str (get_any [''IpProtocol'', ''ipProtocol''] (JStr ''-1'') permission))
      in if p = ''6'' then ''tcp'' else if p = ''17'' then ''udp'' else p)"

definition port_field :: "string list \<Rightarrow> json \<Rightarrow> inv_error + int option" where
  "port_field names permission =
     (let v = get_any names JNull permission
      in if v = JNull then Inr None else bindR (json_int v) (\<lambda>i. Inr (Some i)))"

definition canonical_rule :: "json \<Rightarrow> inv_error + ingress_rule" where
  "canonical_rule permission =
     bindR (mapR (rule_sources_of permission) source_fields) (\<lambda>sources.
     bindR (port_field [''FromPort'', ''fromPort''] permission) (\<lambda>from_port.
     bindR (port_field [''ToPort'', ''toPort''] permission) (\<lambda>to_port.
     Inr \<lparr>ir_protocol = canonical_protocol permission, ir_from_port = from_port, ir_to_port = to_port,
          ir_sources = sorted_set (concat sources)\<rparr>)))"

text \<open>A dictionary from the encoded rule to the rule, read in the order of its keys.\<close>

definition by_encoding :: "ingress_rule list \<Rightarrow> ingress_rule list" where
  "by_encoding rules = map snd (sort_key fst (py_dict (map (\<lambda>r. (dumps (rule_json r), r)) rules)))"

definition canonicalize_ingress_rules :: "json list \<Rightarrow> inv_error + ingress_rule list" where
  "canonicalize_ingress_rules permissions =
     bindR (mapR canonical_rule permissions) (\<lambda>rules. Inr (by_encoding rules))"

type_synonym group_rules = "(string \<times> json list) list"

definition attached_rules :: "group_rules \<Rightarrow> string \<Rightarrow> inv_error + ingress_rule list" where
  "attached_rules groups group_id =
     (case map_of groups group_id of
        None \<Rightarrow> Inl (Inv_key (''missing attached security group: '' @ group_id))
      | Some permissions \<Rightarrow> canonicalize_ingress_rules permissions)"

definition effective_rules :: "group_rules \<Rightarrow> string list \<Rightarrow> inv_error + ingress_rule list" where
  "effective_rules groups attached =
     bindR (mapR (attached_rules groups) (sorted_set attached)) (\<lambda>rules. Inr (by_encoding (concat rules)))"

definition policy_payload :: "ingress_rule list \<Rightarrow> string" where
  "policy_payload rules = dumps (JArr (map rule_json rules))"

definition policy_fingerprint_of :: "group_rules \<Rightarrow> string list \<Rightarrow> inv_error + string" where
  "policy_fingerprint_of groups attached =
     bindR (effective_rules groups attached) (\<lambda>rules. Inr (sha256 (policy_payload rules)))"

definition configuration_of :: "json \<Rightarrow> inv_error + json" where
  "configuration_of v = as_mapping (get_any [''configuration'', ''Configuration''] v v)"

definition extract_security_group :: "json \<Rightarrow> inv_error + (string \<times> json list)" where
  "extract_security_group v =
     bindR (configuration_of v) (\<lambda>configuration.
     let group_id = py_str (get_any [''groupId'', ''GroupId'']
                      (get_any [''resourceId'', ''ResourceId''] (JStr []) v) configuration)
     in if \<not> is_hex_id ''sg-'' group_id then Inl (Inv_value ''invalid security group identifier'')
        else case unwrapped (listed_field [''ipPermissions'', ''IpPermissions''] configuration) of
            JArr permissions \<Rightarrow> Inr (group_id, filter is_obj permissions)
          | _ \<Rightarrow> Inl (Inv_value ''invalid security group ingress''))"

section \<open>Interfaces\<close>

text \<open>The gate and the selection of tags that the resolver, the snapshots and the ownership check share.\<close>

record interface_gate =
  ig_allowed_tag_keys :: "string list"
  ig_allowed_interface_types :: "string list"
  ig_required_tag_key :: "string option"
  ig_required_tag_value :: "string option"

definition tag_value_ok :: "string \<Rightarrow> bool" where
  "tag_value_ok s \<longleftrightarrow> py_strip s \<noteq> [] \<and> length s \<le> 256 \<and> \<not> list_ex (\<lambda>c. code c < 32) s"

definition is_sequence :: "json \<Rightarrow> bool" where
  "is_sequence v = (case v of JArr _ \<Rightarrow> True | JStr _ \<Rightarrow> True | _ \<Rightarrow> False)"

definition tag_pairs :: "json \<Rightarrow> inv_error + (json \<times> json) list" where
  "tag_pairs v =
     (let raw = listed_field [''TagSet'', ''tagSet'', ''Tags'', ''tags''] v;
          raw' = (if is_obj raw \<and> is_sequence (get_any [''items'', ''Items''] JNull raw)
                  then listed_field [''items'', ''Items''] raw else raw)
      in case raw' of
           JObj kvs \<Rightarrow> Inr (map (\<lambda>(k, x). (JStr k, x)) kvs)
         | _ \<Rightarrow> bindR (iterate raw') (\<lambda>items.
             Inr (map (\<lambda>item. (get_any [''Key'', ''key''] JNull item, get_any [''Value'', ''value''] JNull item))
                    (filter is_obj items))))"

definition sanitized_tag :: "json \<times> json \<Rightarrow> (string \<times> string) option" where
  "sanitized_tag kv =
     (case kv of (JStr k, JStr v) \<Rightarrow> if tag_value_ok v then Some (k, v) else None | _ \<Rightarrow> None)"

definition tag_values :: "json \<Rightarrow> inv_error + (string \<times> string) list" where
  "tag_values v = bindR (tag_pairs v) (\<lambda>pairs. Inr (py_dict (List.map_filter sanitized_tag pairs)))"

definition allowed_tags :: "string list \<Rightarrow> json \<Rightarrow> inv_error + (string \<times> string) list" where
  "allowed_tags allowlist v =
     bindR (tag_values v) (\<lambda>tags. Inr (sort (filter (\<lambda>(k, _). k \<in> set allowlist) tags)))"

text \<open>\<^verbatim>\<open>configuration is not value\<close>: the document has its configuration as a member.\<close>

definition has_configuration :: "json \<Rightarrow> bool" where
  "has_configuration v \<longleftrightarrow> obj_get ''configuration'' v \<noteq> None \<or> obj_get ''Configuration'' v \<noteq> None"

definition network_interface_supported :: "interface_gate \<Rightarrow> json \<Rightarrow> inv_error + bool" where
  "network_interface_supported g v =
     bindR (configuration_of v) (\<lambda>configuration.
     let interface_type = py_lower (py_str (get_any [''InterfaceType'', ''interfaceType''] (JStr []) configuration))
     in if ig_allowed_interface_types g \<noteq> [] \<and> interface_type \<notin> set (ig_allowed_interface_types g) then Inr False
        else case (ig_required_tag_key g, ig_required_tag_value g) of
            (None, None) \<Rightarrow> Inr True
          | (Some k, Some x) \<Rightarrow>
              bindR (tag_values configuration) (\<lambda>tags.
              bindR (if has_configuration v then tag_values v else Inr []) (\<lambda>more.
              Inr (map_of (py_dict (tags @ more)) k = Some x)))
          | _ \<Rightarrow> Inl (Inv_value ''required target tag key and value must be configured together''))"

definition group_ids :: "json \<Rightarrow> inv_error + string list" where
  "group_ids v =
     bindR (iterate (unwrapped (listed_field [''Groups'', ''groups'', ''groupSet''] v))) (\<lambda>raws.
     let ids = map (\<lambda>g. py_str (get_any [''GroupId'', ''groupId''] (JStr []) g)) (filter is_obj raws)
     in if list_ex (\<lambda>i. \<not> is_hex_id ''sg-'' i) ids then Inl (Inv_value ''invalid attached security group identifier'')
        else Inr (sorted_set ids))"

text \<open>The private and the public address of an association, its allocation and its association identifier.\<close>

type_synonym association = "string \<times> string \<times> string option \<times> string option"

definition text_if_truthy :: "json \<Rightarrow> string option" where
  "text_if_truthy v = (if truthy v then Some (py_str v) else None)"

definition public_association :: "json \<Rightarrow> json \<Rightarrow> association option" where
  "public_association private_raw assoc =
     (let public_raw = get_any [''PublicIp'', ''publicIp''] JNull assoc
      in if \<not> truthy public_raw \<or> \<not> truthy private_raw then None
         else case (validate_private_ip (py_str private_raw), validate_public_association (py_str public_raw)) of
             (Inr private, Inr public) \<Rightarrow>
               Some (private, public, text_if_truthy (get_any [''AllocationId'', ''allocationId''] JNull assoc),
                     text_if_truthy (get_any [''AssociationId'', ''associationId''] JNull assoc))
           | _ \<Rightarrow> None)"

definition association_of :: "json \<Rightarrow> inv_error + association option" where
  "association_of item =
     bindR (as_mapping (get_any [''Association'', ''association''] (JObj []) item)) (\<lambda>assoc.
     Inr (public_association (get_any [''PrivateIpAddress'', ''privateIpAddress''] JNull item) assoc))"

text \<open>
  The associations, sorted by their two addresses. Associations that agree in both addresses and not in
  their identifiers keep the order of the document here; Python leaves it open.
\<close>

definition associations :: "json \<Rightarrow> inv_error + association list" where
  "associations v =
     bindR (iterate (unwrapped (listed_field [''PrivateIpAddresses'', ''privateIpAddresses''] v))) (\<lambda>items.
     bindR (mapR association_of (filter is_obj items)) (\<lambda>found.
     bindR (association_of v) (\<lambda>top.
     Inr (sort_key (\<lambda>(private, public, _). (private, public))
            (remdups (List.map_filter (\<lambda>x. x) (found @ [top])))))))"

definition lifecycle_text :: "string option \<Rightarrow> json \<Rightarrow> inv_error + string" where
  "lifecycle_text instance_state v =
     bindR (as_mapping (get_any [''Attachment'', ''attachment''] (JObj []) v)) (\<lambda>attachment.
     let instance_id = py_str (get_any [''InstanceId'', ''instanceId''] (JStr []) attachment);
         state = (case instance_state of None \<Rightarrow> ''unknown'' | Some s \<Rightarrow> if s = [] then ''unknown'' else s)
     in Inr (dumps (JObj
          [(''eni'', JStr (py_lower (py_str (get_any [''Status'', ''status''] (JStr ''unknown'') v)))),
           (''attachment'', JStr (py_lower (py_str (get_any [''Status'', ''status''] (JStr ''none'') attachment)))),
           (''instance_id'', if instance_id = [] then JNull else JStr instance_id),
           (''instance'', JStr (py_lower state))])))"

text \<open>The times of an observation: of the whole, of the interface, and of every attached group.\<close>

type_synonym observed = "time option \<times> time option \<times> (string \<times> time) list"

definition interface_id :: "json \<Rightarrow> json \<Rightarrow> string" where
  "interface_id v configuration =
     py_str (get_any [''NetworkInterfaceId'', ''networkInterfaceId'']
       (get_any [''resourceId'', ''ResourceId''] (JStr []) v) configuration)"

definition interface_tags :: "interface_gate \<Rightarrow> json \<Rightarrow> json \<Rightarrow> inv_error + (string \<times> string) list" where
  "interface_tags g v configuration =
     bindR (allowed_tags (ig_allowed_tag_keys g) configuration) (\<lambda>tags.
     if has_configuration v
     then bindR (allowed_tags (ig_allowed_tag_keys g) v) (\<lambda>more. Inr (sort (py_dict (tags @ more))))
     else Inr tags)"

definition normalize_network_interface :: "interface_gate \<Rightarrow> string \<Rightarrow> string \<Rightarrow> group_rules \<Rightarrow> string option \<Rightarrow> observed
    \<Rightarrow> json \<Rightarrow> inv_error + normalized_target list" where
  "normalize_network_interface g account reg groups instance_state obs v =
     bindR (configuration_of v) (\<lambda>configuration.
     bindR (network_interface_supported g v) (\<lambda>supported.
     if \<not> supported then Inr []
     else if \<not> is_hex_id ''eni-'' (interface_id v configuration)
     then Inl (Inv_value ''invalid network-interface identifier'')
     else bindR (associations configuration) (\<lambda>assocs.
     if assocs = [] then Inr []
     else bindR (group_ids configuration) (\<lambda>gids.
     bindR (policy_fingerprint_of groups gids) (\<lambda>fingerprint.
     bindR (as_mapping (get_any [''Attachment'', ''attachment''] (JObj []) configuration)) (\<lambda>attachment.
     bindR (lifecycle_text instance_state configuration) (\<lambda>lifecycle.
     bindR (interface_tags g v configuration) (\<lambda>tags.
     mapR (\<lambda>(private, public, allocation, assoc). normalized
       \<lparr>nt_account_id = account, nt_region = reg, nt_network_interface_id = interface_id v configuration,
        nt_private_ip = private, nt_public_ip = public,
        nt_instance_id = text_if_truthy (get_any [''InstanceId'', ''instanceId''] JNull attachment),
        nt_lifecycle = lifecycle, nt_security_group_ids = gids, nt_policy_fingerprint = fingerprint,
        nt_attachment_id = text_if_truthy (get_any [''AttachmentId'', ''attachmentId''] JNull attachment),
        nt_allocation_id = allocation, nt_association_id = assoc, nt_tags = tags,
        nt_candidate_ports = full_candidate, nt_managed_canary = False, nt_source_event_name = None,
        nt_source_event_id = None, nt_source_request_id = None, nt_source_event_time = None,
        nt_observed_at = fst obs, nt_eni_observed_at = fst (snd obs),
        nt_security_group_observed_at = snd (snd obs)\<rparr>) assocs))))))))"

end
