(* ===== verification/Inventory_Aws.thy ===== *)
theory Inventory_Aws
  imports Inventory_Normalize Inventory_Store Inventory_History
begin

text \<open>
  The world of the handlers that read EC2: the state table, and the answers of the AWS interfaces,
  which the environment chooses. What a client returns is a document; that it raises is an
  error. The log keeps every request with its answer, and every operation on the table.
\<close>

section \<open>Requests\<close>

datatype aws_call =
    New_client string string string                    \<comment> \<open>service, account and region\<close>
  | Describe_network_interfaces json
  | Describe_security_groups json
  | Describe_instances json
  | Describe_addresses json
  | Select_aggregate_resource_config json

datatype logged = Called aws_call | On_table inv_operation

record aws_env =
  ae_table :: inv_env
  ae_answer :: "nat \<Rightarrow> aws_call \<Rightarrow> inv_error + json"
  ae_clock :: "nat \<Rightarrow> time"

record aws_world =
  aw_table :: inv_world
  aw_log :: "(logged \<times> (inv_error + json)) list"

type_synonym 'a aws = "(aws_world, inv_error, 'a) eff"

definition ask :: "aws_env \<Rightarrow> aws_call \<Rightarrow> json aws" where
  "ask E call w =
     (let r = ae_answer E (length (aw_log w)) call in (r, w\<lparr>aw_log := aw_log w @ [(Called call, r)]\<rparr>))"

definition at_table :: "'a inv \<Rightarrow> 'a aws" where
  "at_table m w = (case m (aw_table w) of (r, t) \<Rightarrow> (r, w\<lparr>aw_table := t\<rparr>))"

definition utc_now :: "aws_env \<Rightarrow> time aws" where
  "utc_now E = readM (\<lambda>w. ae_clock E (length (aw_log w)))"

text \<open>An operation on the table, as the log shows it.\<close>

definition table_op :: "inv_operation \<Rightarrow> 'a inv \<Rightarrow> 'a aws" where
  "table_op op m w =
     (case m (aw_table w) of
        (r, t) \<Rightarrow> (r, w\<lparr>aw_table := t,
                     aw_log := aw_log w @ [(On_table op, case r of Inl e \<Rightarrow> Inl e | Inr _ \<Rightarrow> Inr JNull)]\<rparr>))"

definition ec2_client :: "aws_env \<Rightarrow> string \<Rightarrow> string \<Rightarrow> unit aws" where
  "ec2_client E account reg = bindM (ask E (New_client ''ec2'' account reg)) (\<lambda>_. returnM ())"

text \<open>\<^verbatim>\<open>for item in document.get(key, ())\<close>, and the objects among the items.\<close>

definition members_of :: "string \<Rightarrow> json \<Rightarrow> inv_error + json list" where
  "members_of key v =
     (if \<not> is_obj v then Inl (Inv_type ''get'')
      else case obj_get key v of None \<Rightarrow> Inr [] | Some x \<Rightarrow> iterate x)"

definition objects_of :: "string \<Rightarrow> json \<Rightarrow> inv_error + json list" where
  "objects_of key v = bindR (members_of key v) (\<lambda>xs. Inr (filter is_obj xs))"

definition id_list :: "string \<Rightarrow> string list \<Rightarrow> json" where
  "id_list key ids = JObj [(key, JArr (map JStr ids))]"

lemma bindM_sum_Inr:
  "bindM m (\<lambda>r. case r of Inl e \<Rightarrow> f e | Inr x \<Rightarrow> g x) w = (Inr y, w') \<longleftrightarrow>
     (\<exists>e w1. m w = (Inr (Inl e), w1) \<and> f e w1 = (Inr y, w')) \<or> (\<exists>x w1. m w = (Inr (Inr x), w1) \<and> g x w1 = (Inr y, w'))"
  by (auto simp: bindM_def split: prod.splits sum.splits)

lemma attempt_Inr: "attempt m w = (Inr r, w') \<longleftrightarrow> m w = (r, w') \<and> r \<noteq> Inl Inv_killed"
  by (auto simp: attempt_def split: prod.splits)

section \<open>The table during reads\<close>

text \<open>\<open>stays P m\<close>: however \<open>m\<close> ends, the table moved by the protocol.\<close>

definition stays :: "(store \<Rightarrow> bool) \<Rightarrow> 'a aws \<Rightarrow> bool" where
  "stays P m \<longleftrightarrow> (\<forall>w r w'. P (iw_store (aw_table w)) \<longrightarrow> m w = (r, w')
     \<longrightarrow> store_run (iw_store (aw_table w)) (iw_store (aw_table w')))"

abbreviation table_of :: "aws_world \<Rightarrow> store" where
  "table_of w \<equiv> iw_store (aw_table w)"

text \<open>Reads of EC2 leave the table alone and extend the log.\<close>

definition is_called :: "logged \<times> (inv_error + json) \<Rightarrow> bool" where
  "is_called entry = (case fst entry of Called _ \<Rightarrow> True | On_table _ \<Rightarrow> False)"

definition only_reads :: "aws_world \<Rightarrow> aws_world \<Rightarrow> bool" where
  "only_reads w w' \<longleftrightarrow> aw_table w' = aw_table w \<and> (\<exists>l. aw_log w' = aw_log w @ l \<and> list_all is_called l)"

interpretation reads: effect_preorder only_reads
  by unfold_locales (auto simp: only_reads_def)

lemma always_attempt: "always R m \<Longrightarrow> always R (attempt m)"
  by (auto simp: always_def attempt_def split: prod.splits)

lemma reads_ask: "always only_reads (ask E call)"
  by (auto simp: always_def ask_def Let_def only_reads_def is_called_def)

lemma reads_client: "always only_reads (ec2_client E a r)"
  unfolding ec2_client_def by (intro reads.always_rules reads_ask)

lemmas reads_intros = reads.always_rules always_attempt reads_ask reads_client always_intro

lemma staysD: "stays P m \<Longrightarrow> P (table_of w) \<Longrightarrow> m w = (r, w') \<Longrightarrow> store_run (table_of w) (table_of w')"
  by (auto simp: stays_def)

lemma stays_reads: "always only_reads m \<Longrightarrow> stays P m"
  unfolding always_def stays_def only_reads_def by (metis rtranclp.rtrancl_refl)

lemma stays_pure: "stays P (returnM x)" "stays P (raiseM e)" "stays P (liftM v)"
  by (intro stays_reads reads.always_rules)+

lemma stays_at_table: "runs P m \<Longrightarrow> stays P (at_table m)"
  by (auto simp: stays_def runs_def at_table_def split: prod.splits)

lemma stays_table_op: "runs P m \<Longrightarrow> stays P (table_op op m)"
  by (auto simp: stays_def runs_def table_op_def split: prod.splits)

lemma stays_bind_post:
  assumes "stays P m" "\<And>w x w'. P (table_of w) \<Longrightarrow> m w = (Inr x, w') \<Longrightarrow> Q x (table_of w')" "\<And>x. stays (Q x) (f x)"
  shows "stays P (bindM m f)"
  unfolding stays_def
proof (intro allI impI)
  fix w r w'
  assume P: "P (table_of w)" and run: "bindM m f w = (r, w')"
  obtain r1 w1 where 1: "m w = (r1, w1)" by fastforce
  have s1: "store_run (table_of w) (table_of w1)" using staysD [OF assms(1) P 1] .
  show "store_run (table_of w) (table_of w')"
  proof (cases r1)
    case (Inl e)
    with 1 run s1 show ?thesis by (auto simp: bindM_def)
  next
    case (Inr x)
    then have "f x w1 = (r, w')" "Q x (table_of w1)" using 1 run P assms(2) by (auto simp: bindM_def)
    with staysD [OF assms(3)] have "store_run (table_of w1) (table_of w')" by blast
    with s1 show ?thesis by (rule rtranclp_trans)
  qed
qed

lemma stays_bind: "lasting P \<Longrightarrow> stays P m \<Longrightarrow> (\<And>x. stays P (f x)) \<Longrightarrow> stays P (bindM m f)"
  by (rule stays_bind_post [where Q = "\<lambda>_. P"]) (auto dest: staysD lastingD)

lemma stays_attempt: "stays P m \<Longrightarrow> stays P (attempt m)"
  by (auto simp: stays_def attempt_def split: prod.splits)

lemma stays_if: "(b \<Longrightarrow> stays P m) \<Longrightarrow> (\<not> b \<Longrightarrow> stays P n) \<Longrightarrow> stays P (if b then m else n)"
  by simp

lemma stays_foldM: "lasting P \<Longrightarrow> (\<And>b x. stays P (f b x)) \<Longrightarrow> stays P (foldM f b xs)"
  by (induction xs arbitrary: b) (auto intro: stays_pure stays_bind)

end
