(* ===== verification/Inventory_Ownership.thy ===== *)
theory Inventory_Ownership
  imports Inventory_Aws
begin

text \<open>
  The ownership check (\<^verbatim>\<open>inventory/.../aws/ownership.py\<close>): whether a generation of a target is still
  the current one and the live resources are still the ones that it describes, read fresh from EC2
  between two reads of the state.
\<close>

section \<open>Verdicts\<close>

datatype ownership_verdict = OV_active | OV_stale | OV_moved | OV_inactive | OV_unknown

primrec verdict_value :: "ownership_verdict \<Rightarrow> string" where
  "verdict_value OV_active = ''active''"
| "verdict_value OV_stale = ''stale''"
| "verdict_value OV_moved = ''moved''"
| "verdict_value OV_inactive = ''inactive''"
| "verdict_value OV_unknown = ''unknown''"

record verdict =
  ov_verdict :: ownership_verdict
  ov_current :: "normalized_target option"
  ov_reason :: "string option"
  ov_current_generation :: "int option"

definition refused :: "ownership_verdict \<Rightarrow> string \<Rightarrow> verdict" where
  "refused v reason =
     \<lparr>ov_verdict = v, ov_current = None, ov_reason = Some reason, ov_current_generation = None\<rparr>"

section \<open>The live resources\<close>

definition current_state_matches :: "target_state option \<Rightarrow> int \<Rightarrow> bool" where
  "current_state_matches state gen =
     (case state of None \<Rightarrow> False | Some st \<Rightarrow> ts_status st = ''active'' \<and> ts_generation st = gen)"

definition associated_public_ip :: "json \<Rightarrow> string option" where
  "associated_public_ip v =
     (let a = vfield v ''Association''
      in if is_obj a \<and> truthy (vfield a ''PublicIp'') then Some (py_str (vfield a ''PublicIp'')) else None)"

definition live_association :: "json \<Rightarrow> string \<Rightarrow> inv_error + bool \<times> string option" where
  "live_association eni private =
     bindR (objects_of ''PrivateIpAddresses'' eni) (\<lambda>values.
     Inr (case filter (\<lambda>v. vfield v ''PrivateIpAddress'' = JStr private) values of
            v # _ \<Rightarrow> (True, associated_public_ip v)
          | [] \<Rightarrow> if vfield eni ''PrivateIpAddress'' = JStr private then (True, associated_public_ip eni)
                  else (False, None)))"

definition live_group_ids :: "json \<Rightarrow> inv_error + string list" where
  "live_group_ids eni =
     bindR (objects_of ''Groups'' eni) (\<lambda>gs.
     Inr (sorted_set (map (\<lambda>g. py_str (vfield g ''GroupId'')) (filter (\<lambda>g. truthy (vfield g ''GroupId'')) gs))))"

definition live_groups :: "aws_env \<Rightarrow> json \<Rightarrow> group_rules aws" where
  "live_groups E eni =
     bindM (liftM (live_group_ids eni)) (\<lambda>ids.
     if ids = [] then returnM []
     else bindM (ask E (Describe_security_groups (id_list ''GroupIds'' ids))) (\<lambda>response.
       bindM (liftM (objects_of ''SecurityGroups'' response)) (\<lambda>vs.
       bindM (liftM (mapR extract_security_group vs)) (\<lambda>gs.
       if set (map fst gs) \<noteq> set ids then raiseM (Inv_value ''security group view is incomplete'')
       else returnM (py_dict gs)))))"

text \<open>\<^verbatim>\<open>_event_matches_live_target\<close>; the addresses and identifiers of the contract are texts.\<close>

definition event_matches_live_target :: "target_payload \<Rightarrow> normalized_target \<Rightarrow> bool" where
  "event_matches_live_target event current \<longleftrightarrow>
     (let t = payload_target event; c = payload_context event in
      provider_value (provider t) = ''aws'' \<and> scope_id t = nt_account_id current \<and> location t = nt_region current
      \<and> resource_id t = nt_network_interface_id current \<and> private_address t = nt_private_ip current
      \<and> public_address t = nt_public_ip current
      \<and> account_id c = nt_account_id current \<and> region c = nt_region current
      \<and> network_interface_id c = nt_network_interface_id current \<and> private_ip c = nt_private_ip current
      \<and> public_ip c = nt_public_ip current \<and> instance_id c = nt_instance_id current
      \<and> security_group_ids c = nt_security_group_ids current
      \<and> policy_fingerprint c = nt_policy_fingerprint current)"

section \<open>The check\<close>

text \<open>A verdict reached on the way ends the check.\<close>

definition unless_decided :: "(verdict + 'a) aws \<Rightarrow> ('a \<Rightarrow> verdict aws) \<Rightarrow> verdict aws" where
  "unless_decided m f = bindM m (\<lambda>r. case r of Inl v \<Rightarrow> returnM v | Inr x \<Rightarrow> f x)"

definition describe_failure :: "string \<Rightarrow> inv_error \<Rightarrow> verdict" where
  "describe_failure missing e =
     (if is_not_found e then refused OV_inactive missing else refused OV_unknown (error_code e))"

definition check_interface :: "normalized_target \<Rightarrow> json \<Rightarrow> inv_error + (verdict + json)" where
  "check_interface expected response =
     bindR (objects_of ''NetworkInterfaces'' response) (\<lambda>vs.
     case vs of
       [eni] \<Rightarrow>
         bindR (live_association eni (nt_private_ip expected)) (\<lambda>(present, live).
         Inr (if \<not> present then Inl (refused OV_moved ''private-ip-moved'')
              else case live of
                  None \<Rightarrow> Inl (refused OV_inactive ''association-removed'')
                | Some public \<Rightarrow>
                    if public \<noteq> nt_public_ip expected then Inl (refused OV_moved ''public-ip-moved'')
                    else if py_lower (py_str (case obj_get ''Status'' eni of None \<Rightarrow> JStr [] | Some s \<Rightarrow> s)) \<noteq> ''in-use''
                    then Inl (refused OV_inactive ''eni-inactive'')
                    else Inr eni))
     | _ \<Rightarrow> Inr (Inl (refused OV_unknown ''ambiguous-eni'')))"

definition read_interface :: "aws_env \<Rightarrow> normalized_target \<Rightarrow> (verdict + json) aws" where
  "read_interface E expected =
     bindM (attempt (bindM (ec2_client E (nt_account_id expected) (nt_region expected)) (\<lambda>_.
       ask E (Describe_network_interfaces (id_list ''NetworkInterfaceIds'' [nt_network_interface_id expected]))))) (\<lambda>r.
     case r of
       Inl e \<Rightarrow> returnM (Inl (describe_failure ''eni-not-found'' e))
     | Inr response \<Rightarrow> liftM (check_interface expected response))"

definition instances_named :: "string \<Rightarrow> json \<Rightarrow> inv_error + json list" where
  "instances_named i response =
     bindR (objects_of ''Reservations'' response) (\<lambda>rs.
     bindR (mapR (objects_of ''Instances'') rs) (\<lambda>iss.
     Inr (filter (\<lambda>x. vfield x ''InstanceId'' = JStr i) (concat iss))))"

definition check_instance :: "string \<Rightarrow> json \<Rightarrow> inv_error + (verdict + string option)" where
  "check_instance i response =
     bindR (instances_named i response) (\<lambda>xs.
     Inr (case xs of
            [x] \<Rightarrow> if is_obj (vfield x ''State'')
                   then Inr (Some (py_lower (py_str (py_or (vfield (vfield x ''State'') ''Name'') (JStr ''unknown'')))))
                   else Inl (refused OV_unknown ''ambiguous-instance'')
          | _ \<Rightarrow> Inl (refused OV_unknown ''ambiguous-instance'')))"

definition read_instance :: "aws_env \<Rightarrow> normalized_target \<Rightarrow> (verdict + string option) aws" where
  "read_instance E expected =
     (case nt_instance_id expected of
        None \<Rightarrow> returnM (Inr None)
      | Some i \<Rightarrow>
          if i = [] then returnM (Inr None)
          else bindM (attempt (ask E (Describe_instances (id_list ''InstanceIds'' [i])))) (\<lambda>r.
            case r of
              Inl e \<Rightarrow> returnM (Inl (describe_failure ''instance-not-found'' e))
            | Inr response \<Rightarrow> liftM (check_instance i response)))"

definition read_targets :: "aws_env \<Rightarrow> interface_gate \<Rightarrow> normalized_target \<Rightarrow> json \<Rightarrow> string option
    \<Rightarrow> (verdict + normalized_target list) aws" where
  "read_targets E g expected eni instance_state =
     bindM (attempt (bindM (live_groups E eni) (\<lambda>groups.
       liftM (normalize_network_interface g (nt_account_id expected) (nt_region expected) groups instance_state
                (None, None, []) eni)))) (\<lambda>r.
     case r of Inl e \<Rightarrow> returnM (Inl (refused OV_unknown (error_code e))) | Inr ts \<Rightarrow> returnM (Inr ts))"

definition same_policy :: "normalized_target \<Rightarrow> normalized_target \<Rightarrow> bool" where
  "same_policy expected current \<longleftrightarrow>
     lifecycle_matches (nt_lifecycle expected) (nt_lifecycle current)
     \<and> nt_security_group_ids current = nt_security_group_ids expected
     \<and> nt_policy_fingerprint current = nt_policy_fingerprint expected"

definition stale :: "normalized_target option \<Rightarrow> string \<Rightarrow> int option \<Rightarrow> verdict" where
  "stale current reason gen =
     \<lparr>ov_verdict = OV_stale, ov_current = current, ov_reason = Some reason, ov_current_generation = gen\<rparr>"

definition conclude :: "aws_env \<Rightarrow> string \<Rightarrow> int \<Rightarrow> target_state \<Rightarrow> normalized_target list \<Rightarrow> verdict aws" where
  "conclude E tid gen initial targets =
     (case find (\<lambda>t. nt_target_id t = tid) targets of
        None \<Rightarrow> returnM (refused OV_unknown ''normalization-race'')
      | Some current \<Rightarrow>
          if \<not> lifecycle_is_active (nt_lifecycle current)
          then returnM \<lparr>ov_verdict = OV_inactive, ov_current = Some current, ov_reason = Some ''lifecycle'',
                        ov_current_generation = None\<rparr>
          else if \<not> same_policy (ts_target initial) current
          then returnM (stale (Some current) ''policy-or-lifecycle'' (Some (ts_generation initial)))
          else bindM (at_table (get_state (ae_table E) tid)) (\<lambda>final.
            if \<not> current_state_matches final gen
            then returnM (stale (Some current) ''generation-race'' (map_option ts_generation final))
            else returnM \<lparr>ov_verdict = OV_active, ov_current = Some current, ov_reason = None,
                          ov_current_generation = Some gen\<rparr>))"

definition validate_live :: "aws_env \<Rightarrow> interface_gate \<Rightarrow> string \<Rightarrow> int \<Rightarrow> target_state \<Rightarrow> verdict aws" where
  "validate_live E g tid gen initial =
     unless_decided (read_interface E (ts_target initial)) (\<lambda>eni.
     unless_decided (read_instance E (ts_target initial)) (\<lambda>instance_state.
     unless_decided (read_targets E g (ts_target initial) eni instance_state) (\<lambda>targets.
     conclude E tid gen initial targets)))"

definition validate_ownership :: "aws_env \<Rightarrow> interface_gate \<Rightarrow> string \<Rightarrow> int \<Rightarrow> verdict aws" where
  "validate_ownership E g tid gen =
     bindM (at_table (get_state (ae_table E) tid)) (\<lambda>initial.
     case initial of
       None \<Rightarrow> returnM (stale None ''generation'' None)
     | Some st \<Rightarrow>
         if \<not> current_state_matches initial gen then returnM (stale None ''generation'' (Some (ts_generation st)))
         else validate_live E g tid gen st)"

definition validate_ownership_event :: "aws_env \<Rightarrow> interface_gate \<Rightarrow> target_payload \<Rightarrow> verdict aws" where
  "validate_ownership_event E g event =
     bindM (validate_ownership E g (payload_stable_id event) (generation (payload_target event))) (\<lambda>r.
     if ov_verdict r \<noteq> OV_active then returnM r
     else case ov_current r of
         None \<Rightarrow> returnM (refused OV_unknown ''missing-live-target'')
       | Some current \<Rightarrow>
           if \<not> event_matches_live_target event current then returnM (stale (Some current) ''event-context'' None)
           else returnM r)"

section \<open>What a positive verdict says\<close>

lemma reads_parts:
  "always only_reads (read_interface E t)" "always only_reads (read_instance E t)"
  "always only_reads (live_groups E eni)" "always only_reads (read_targets E g t eni st)"
proof -
  show g: "always only_reads (live_groups E eni)" for eni
    unfolding live_groups_def by (intro reads_intros)
  show "always only_reads (read_interface E t)" "always only_reads (read_instance E t)"
    unfolding read_interface_def read_instance_def by (intro reads_intros)+
  show "always only_reads (read_targets E g t eni st)"
    unfolding read_targets_def by (intro reads_intros g)
qed

definition answered :: "aws_call \<Rightarrow> json \<Rightarrow> aws_world \<Rightarrow> aws_world \<Rightarrow> bool" where
  "answered call response w w' \<longleftrightarrow> (\<exists>l. aw_log w' = aw_log w @ l \<and> (Called call, Inr response) \<in> set l)"

text \<open>
  The live resources between two states of the world: the interface, the groups and the target that
  they give.
\<close>

definition live_view :: "interface_gate \<Rightarrow> normalized_target \<Rightarrow> normalized_target list \<Rightarrow> aws_world \<Rightarrow> aws_world \<Rightarrow> bool" where
  "live_view g expected targets w w' \<longleftrightarrow>
     (\<exists>response eni instance_state ids groups.
        answered (Describe_network_interfaces (id_list ''NetworkInterfaceIds'' [nt_network_interface_id expected])) response w w'
        \<and> check_interface expected response = Inr (Inr eni)
        \<and> (case nt_instance_id expected of
             None \<Rightarrow> instance_state = None
           | Some i \<Rightarrow> i = [] \<and> instance_state = None
               \<or> (\<exists>r. answered (Describe_instances (id_list ''InstanceIds'' [i])) r w w'
                    \<and> check_instance i r = Inr (Inr instance_state)))
        \<and> live_group_ids eni = Inr ids
        \<and> (if ids = [] then groups = []
           else \<exists>r vs gs. answered (Describe_security_groups (id_list ''GroupIds'' ids)) r w w'
                  \<and> objects_of ''SecurityGroups'' r = Inr vs \<and> mapR extract_security_group vs = Inr gs
                  \<and> set (map fst gs) = set ids \<and> groups = py_dict gs)
        \<and> normalize_network_interface g (nt_account_id expected) (nt_region expected) groups instance_state
             (None, None, []) eni = Inr targets)"

lemma ask_Inr: "ask E call w = (Inr r, w') \<Longrightarrow> answered call r w w'"
  by (auto simp: ask_def Let_def answered_def)

lemma answered_extend:
  assumes "answered call r w1 w2" "only_reads w w1" "only_reads w2 w3"
  shows "answered call r w w3"
  using assms by (auto simp: answered_def only_reads_def)

lemma only_reads_refl [simp]: "only_reads w w"
  by (rule reads.refl)

lemma read_interface_Inr:
  assumes "read_interface E t w = (Inr (Inr eni), w')"
  shows "\<exists>response. check_interface t response = Inr (Inr eni)
    \<and> answered (Describe_network_interfaces (id_list ''NetworkInterfaceIds'' [nt_network_interface_id t])) response w w'"
proof -
  from assms obtain response w1 where r: "check_interface t response = Inr (Inr eni)" "w1 = w'"
    and 1: "attempt (bindM (ec2_client E (nt_account_id t) (nt_region t)) (\<lambda>_.
       ask E (Describe_network_interfaces (id_list ''NetworkInterfaceIds'' [nt_network_interface_id t])))) w = (Inr (Inr response), w1)"
    unfolding read_interface_def by (auto simp: bindM_sum_Inr returnM_Inr liftM_Inr)
  from 1 r obtain w0 where "ec2_client E (nt_account_id t) (nt_region t) w = (Inr (), w0)"
    "ask E (Describe_network_interfaces (id_list ''NetworkInterfaceIds'' [nt_network_interface_id t])) w0 = (Inr response, w')"
    by (auto simp: attempt_Inr bindM_Inr)
  then have "only_reads w w0" "answered (Describe_network_interfaces (id_list ''NetworkInterfaceIds'' [nt_network_interface_id t])) response w0 w'"
    using alwaysD [OF reads_client] ask_Inr by blast+
  with r show ?thesis using answered_extend only_reads_refl by blast
qed

lemma read_instance_Inr:
  assumes "read_instance E t w = (Inr (Inr st), w')"
  shows "case nt_instance_id t of None \<Rightarrow> st = None
    | Some i \<Rightarrow> i = [] \<and> st = None \<or> (\<exists>r. answered (Describe_instances (id_list ''InstanceIds'' [i])) r w w'
                    \<and> check_instance i r = Inr (Inr st))"
  using assms unfolding read_instance_def
  by (auto simp: bindM_sum_Inr attempt_Inr returnM_Inr liftM_Inr split: option.splits if_splits dest: ask_Inr)

lemma live_groups_Inr:
  assumes "live_groups E eni w = (Inr groups, w')"
  shows "\<exists>ids. live_group_ids eni = Inr ids \<and>
    (if ids = [] then groups = []
     else \<exists>r vs gs. answered (Describe_security_groups (id_list ''GroupIds'' ids)) r w w'
            \<and> objects_of ''SecurityGroups'' r = Inr vs \<and> mapR extract_security_group vs = Inr gs
            \<and> set (map fst gs) = set ids \<and> groups = py_dict gs)"
proof -
  from assms obtain ids where ids: "live_group_ids eni = Inr ids"
    "(if ids = [] then returnM []
      else bindM (ask E (Describe_security_groups (id_list ''GroupIds'' ids))) (\<lambda>response.
       bindM (liftM (objects_of ''SecurityGroups'' response)) (\<lambda>vs.
       bindM (liftM (mapR extract_security_group vs)) (\<lambda>gs.
       if set (map fst gs) \<noteq> set ids then raiseM (Inv_value ''security group view is incomplete'')
       else returnM (py_dict gs))))) w = (Inr groups, w')"
    unfolding live_groups_def by (auto simp: bindM_Inr liftM_Inr)
  show ?thesis
  proof (cases "ids = []")
    case True
    with ids show ?thesis by (auto simp: returnM_Inr)
  next
    case False
    with ids(2) obtain response w1 vs gs where "ask E (Describe_security_groups (id_list ''GroupIds'' ids)) w = (Inr response, w1)"
      "objects_of ''SecurityGroups'' response = Inr vs" "mapR extract_security_group vs = Inr gs"
      "(if set (map fst gs) \<noteq> set ids then raiseM (Inv_value ''security group view is incomplete'')
        else returnM (py_dict gs)) w1 = (Inr groups, w')"
      by (auto simp: bindM_Inr liftM_Inr)
    then have "answered (Describe_security_groups (id_list ''GroupIds'' ids)) response w w'"
      "objects_of ''SecurityGroups'' response = Inr vs" "mapR extract_security_group vs = Inr gs"
      "set (map fst gs) = set ids" "groups = py_dict gs"
      using ask_Inr by (auto simp: eff_Inr split: if_splits)
    with ids(1) False show ?thesis by auto
  qed
qed

lemma read_targets_Inr:
  assumes "read_targets E g t eni st w = (Inr (Inr ts), w')"
  obtains groups where "live_groups E eni w = (Inr groups, w')"
    "normalize_network_interface g (nt_account_id t) (nt_region t) groups st (None, None, []) eni = Inr ts"
  using assms unfolding read_targets_def bindM_sum_Inr attempt_Inr
  by (auto simp: eff_Inr)

lemma unless_decided_Inr:
  assumes "unless_decided m f w = (Inr v, w')"
  obtains (decided) "m w = (Inr (Inl v), w')" | (goes_on) x w1 where "m w = (Inr (Inr x), w1)" "f x w1 = (Inr v, w')"
  using assms unfolding unless_decided_def by (auto simp: bindM_sum_Inr returnM_Inr)

lemma decided_not_active:
  "read_interface E t w = (Inr (Inl v), w') \<Longrightarrow> ov_verdict v \<noteq> OV_active"
  "read_instance E t w = (Inr (Inl v), w') \<Longrightarrow> ov_verdict v \<noteq> OV_active"
  "read_targets E g t eni st w = (Inr (Inl v), w') \<Longrightarrow> ov_verdict v \<noteq> OV_active"
  by (auto simp: read_interface_def read_instance_def read_targets_def bindM_sum_Inr returnM_Inr liftM_Inr
      describe_failure_def refused_def check_interface_def check_instance_def bindR_Inr
      split: if_splits option.split_asm list.split_asm)

lemma validate_live_active:
  assumes "validate_live E g tid gen initial w = (Inr v, w')" "ov_verdict v = OV_active"
  obtains targets w1 where "live_view g (ts_target initial) targets w w1" "aw_table w1 = aw_table w"
    "conclude E tid gen initial targets w1 = (Inr v, w')"
proof -
  let ?t = "ts_target initial"
  from assms obtain eni w1 st w2 ts w3 where 1: "read_interface E ?t w = (Inr (Inr eni), w1)"
    and 2: "read_instance E ?t w1 = (Inr (Inr st), w2)" and 3: "read_targets E g ?t eni st w2 = (Inr (Inr ts), w3)"
    "conclude E tid gen initial ts w3 = (Inr v, w')"
    unfolding validate_live_def by (auto elim!: unless_decided_Inr dest: decided_not_active)
  from 3(1) obtain groups where gs: "live_groups E eni w2 = (Inr groups, w3)"
    "normalize_network_interface g (nt_account_id ?t) (nt_region ?t) groups st (None, None, []) eni = Inr ts"
    by (rule read_targets_Inr)
  have r: "only_reads w w1" "only_reads w1 w2" "only_reads w2 w3"
    using alwaysD [OF reads_parts(1) 1] alwaysD [OF reads_parts(2) 2] alwaysD [OF reads_parts(4) 3(1)] by simp_all
  then have r2: "only_reads w w2" "only_reads w1 w3" using reads.trans by blast+
  have up: "answered call x w w1 \<Longrightarrow> answered call x w w3" "answered call x w1 w2 \<Longrightarrow> answered call x w w3"
    "answered call x w2 w3 \<Longrightarrow> answered call x w w3" for call x
    using answered_extend r r2 only_reads_refl by blast+
  obtain response where a: "check_interface ?t response = Inr (Inr eni)"
    "answered (Describe_network_interfaces (id_list ''NetworkInterfaceIds'' [nt_network_interface_id ?t])) response w w3"
    using read_interface_Inr [OF 1] up(1) by blast
  have b: "case nt_instance_id ?t of None \<Rightarrow> st = None
    | Some i \<Rightarrow> i = [] \<and> st = None \<or> (\<exists>r. answered (Describe_instances (id_list ''InstanceIds'' [i])) r w w3
                    \<and> check_instance i r = Inr (Inr st))"
    using read_instance_Inr [OF 2] up(2) by (auto split: option.splits)
  obtain ids where c: "live_group_ids eni = Inr ids" "if ids = [] then groups = []
     else \<exists>r vs gs. answered (Describe_security_groups (id_list ''GroupIds'' ids)) r w w3
            \<and> objects_of ''SecurityGroups'' r = Inr vs \<and> mapR extract_security_group vs = Inr gs
            \<and> set (map fst gs) = set ids \<and> groups = py_dict gs"
    using live_groups_Inr [OF gs(1)] up(3) by (fastforce split: if_splits)
  have "live_view g ?t ts w w3"
    unfolding live_view_def using a b c gs(2) by blast
  moreover have "aw_table w3 = aw_table w" using r by (simp add: only_reads_def)
  ultimately show ?thesis using that 3(2) by blast
qed

text \<open>A state of a target as the table has it.\<close>

definition holds_state :: "store \<Rightarrow> string \<Rightarrow> target_state \<Rightarrow> bool" where
  "holds_state s tid st \<longleftrightarrow> (\<exists>it. row s tid = Some it \<and> decode_state it = Inr st)"

lemma at_table_Inr: "at_table m w = (Inr x, w') \<longleftrightarrow> (\<exists>t. m (aw_table w) = (Inr x, t) \<and> w' = w\<lparr>aw_table := t\<rparr>)"
  by (auto simp: at_table_def split: prod.splits)

lemma get_holds:
  assumes "inv_rely (ae_table E)" "at_table (get_state (ae_table E) tid) w = (Inr (Some st), w')"
  shows "holds_state (table_of w') tid st" "store_run (table_of w) (table_of w')"
  using assms get_state_item [of "ae_table E" tid "aw_table w"] by (auto simp: at_table_Inr holds_state_def)

lemma conclude_active:
  assumes "inv_rely (ae_table E)" "conclude E tid gen initial targets w = (Inr v, w')" "ov_verdict v = OV_active"
  obtains t final where "find (\<lambda>t. nt_target_id t = tid) targets = Some t" "ov_current v = Some t"
    "ov_current_generation v = Some gen" "lifecycle_is_active (nt_lifecycle t)" "same_policy (ts_target initial) t"
    "holds_state (table_of w') tid final" "ts_status final = ''active''" "ts_generation final = gen"
    "store_run (table_of w) (table_of w')"
proof -
  from assms(2,3) obtain t where t: "find (\<lambda>t. nt_target_id t = tid) targets = Some t"
    "lifecycle_is_active (nt_lifecycle t)" "same_policy (ts_target initial) t"
    and rest: "bindM (at_table (get_state (ae_table E) tid)) (\<lambda>final.
            if \<not> current_state_matches final gen
            then returnM (stale (Some t) ''generation-race'' (map_option ts_generation final))
            else returnM \<lparr>ov_verdict = OV_active, ov_current = Some t, ov_reason = None,
                          ov_current_generation = Some gen\<rparr>) w = (Inr v, w')"
    unfolding conclude_def by (auto simp: returnM_Inr refused_def stale_def split: option.splits if_splits)
  from rest assms(3) obtain final where f: "at_table (get_state (ae_table E) tid) w = (Inr (Some final), w')"
    "ts_status final = ''active''" "ts_generation final = gen" "ov_current v = Some t" "ov_current_generation v = Some gen"
    by (auto simp: bindM_Inr returnM_Inr stale_def current_state_matches_def split: if_splits option.splits)
  show ?thesis using that [OF t(1) f(4,5) t(2,3) _ f(2,3)] get_holds [OF assms(1) f(1)] by blast
qed

text \<open>
  A positive verdict: the table held the generation as the active one before and after the live
  resources were read, and they are the ones that its state describes.
\<close>

lemma validate_active:
  assumes "inv_rely (ae_table E)" "validate_ownership E g tid gen w = (Inr v, w')" "ov_verdict v = OV_active"
  obtains initial final targets t w0 w1 where "holds_state (table_of w0) tid initial" "ts_status initial = ''active''"
    "ts_generation initial = gen" "holds_state (table_of w') tid final" "ts_status final = ''active''"
    "ts_generation final = gen" "store_run (table_of w) (table_of w0)" "store_run (table_of w0) (table_of w')"
    "table_of w1 = table_of w0"
    "live_view g (ts_target initial) targets w0 w1" "find (\<lambda>t. nt_target_id t = tid) targets = Some t"
    "ov_current v = Some t" "ov_current_generation v = Some gen" "lifecycle_is_active (nt_lifecycle t)"
    "same_policy (ts_target initial) t"
proof -
  from assms(2,3) obtain initial w0 where 1: "at_table (get_state (ae_table E) tid) w = (Inr (Some initial), w0)"
    "ts_status initial = ''active''" "ts_generation initial = gen" "validate_live E g tid gen initial w0 = (Inr v, w')"
    unfolding validate_ownership_def
    by (auto simp: bindM_Inr returnM_Inr stale_def current_state_matches_def split: option.splits if_splits)
  from 1(4) assms(3) obtain targets w1 where 2: "live_view g (ts_target initial) targets w0 w1" "aw_table w1 = aw_table w0"
    "conclude E tid gen initial targets w1 = (Inr v, w')" by (rule validate_live_active)
  from assms(1) 2(3) assms(3) obtain t final where 3: "find (\<lambda>t. nt_target_id t = tid) targets = Some t" "ov_current v = Some t"
    "ov_current_generation v = Some gen" "lifecycle_is_active (nt_lifecycle t)" "same_policy (ts_target initial) t"
    "holds_state (table_of w') tid final" "ts_status final = ''active''" "ts_generation final = gen"
    "store_run (table_of w1) (table_of w')" by (rule conclude_active)
  show ?thesis
    using that [OF _ 1(2,3) 3(6-8) _ _ _ 2(1) 3(1-5)] get_holds [OF assms(1) 1(1)] 2(2) 3(9) by simp
qed

lemma stays_validate: "inv_rely (ae_table E) \<Longrightarrow> stays rows_ok (validate_ownership E g tid gen)"
proof -
  assume E: "inv_rely (ae_table E)"
  have get: "stays P (at_table (get_state (ae_table E) tid))" for P by (rule stays_at_table [OF runs_get [OF E]])
  have c: "stays rows_ok (conclude E tid gen st ts)" for st ts
    unfolding conclude_def
    by (auto split: option.splits intro!: stays_bind lasting_rows_ok get stays_pure)
  show ?thesis
    unfolding validate_ownership_def validate_live_def unless_decided_def
    by (auto split: option.splits sum.splits intro!: stays_bind lasting_rows_ok get c stays_pure
        stays_reads [OF reads_parts(1)] stays_reads [OF reads_parts(2)] stays_reads [OF reads_parts(4)])
qed

text \<open>Between two moments at which the table holds a generation as active, it holds it.\<close>

lemma held_between:
  assumes "rows_ok s0" "holds_state s0 tid a" "holds_state s2 tid b" "ts_status a = ''active''"
    and "ts_generation a = gen" "ts_generation b = gen" "store_run s0 s1" "store_run s1 s2"
  shows "state_generation s1 tid = gen \<and> state_status s1 tid = Some ''active''"
proof -
  note hs = assms(2,3) [unfolded holds_state_def]
  from hs(1) obtain it0 where a: "row s0 tid = Some it0" "decode_state it0 = Inr a" by blast
  from rows_okE [OF assms(1) a(1)] obtain g st sig obs where r0: "state_row tid it0 g st sig obs" .
  have a': "g = gen" "st = ''active''" using decode_state_row [OF r0 a(2)] assms(4,5) by simp_all
  from store_run_fenced [OF assms(7)] a(1) r0 obtain it1 g1 st1 sig1 obs1 where r1: "row s1 tid = Some it1"
    "state_row tid it1 g1 st1 sig1 obs1" "g \<le> g1" "obs \<le> obs1" "g = g1 \<longrightarrow> st1 = st \<and> sig1 = sig" by (rule fencedE)
  from store_run_fenced [OF assms(8)] r1(1,2) obtain it2 g2 st2 sig2 obs2 where r2: "row s2 tid = Some it2"
    "state_row tid it2 g2 st2 sig2 obs2" "g1 \<le> g2" "obs1 \<le> obs2" "g1 = g2 \<longrightarrow> st2 = st1 \<and> sig2 = sig1" by (rule fencedE)
  from hs(2) r2(1) have "decode_state it2 = Inr b" by simp
  with decode_state_row [OF r2(2)] assms(6) have "g2 = gen" by simp
  with r1(3,5) r2(3) a' have "g1 = gen" "st1 = ''active''" by auto
  with r1(1,2) show ?thesis by (auto simp: state_row_def state_generation_def state_status_def attribute_text_def)
qed

end
