(* ===== verification/Inventory_Policy.thy ===== *)
theory Inventory_Policy
  imports Inventory_Normalize
begin

text \<open>
  What the policy fingerprint fingerprints: the set of canonical ingress rules of the attached groups,
  whatever the order, the repetition and the descriptions of the rules that EC2 returns.
\<close>

section \<open>Encodings\<close>

text \<open>Python prints integers of up to 4300 digits.\<close>

definition rule_ok :: "ingress_rule \<Rightarrow> bool" where
  "rule_ok r \<longleftrightarrow> printable (jopt JInt (ir_from_port r)) \<and> printable (jopt JInt (ir_to_port r))"

lemma json_wf_rule: "json_wf (rule_json r)"
  by (cases "ir_from_port r"; cases "ir_to_port r") (auto simp: rule_json_def jopt_def list_all_iff)

lemma printable_rule: "rule_ok r \<Longrightarrow> printable (rule_json r)"
  by (auto simp: rule_json_def rule_ok_def list_all_iff)

lemma jopt_int_inject: "canon (jopt JInt x) = canon (jopt JInt y) \<longleftrightarrow> x = y"
  by (cases x; cases y) (auto simp: jopt_def)

lemma sources_inject: "map (\<lambda>(k, v). JObj [(''kind'', JStr k), (''value'', JStr v)]) xs
    = map (\<lambda>(k, v). JObj [(''kind'', JStr k), (''value'', JStr v)]) ys \<longleftrightarrow> xs = ys"
  by (rule inj_map_eq_map) (auto simp: inj_def)

lemma canon_sources: "canon (JArr (map (\<lambda>(k, v). JObj [(''kind'', JStr k), (''value'', JStr v)]) xs))
    = JArr (map (\<lambda>(k, v). JObj [(''kind'', JStr k), (''value'', JStr v)]) xs)"
proof -
  have "canon (JObj [(''kind'', JStr k), (''value'', JStr v)]) = JObj [(''kind'', JStr k), (''value'', JStr v)]" for k v
    by (simp add: less_char_def)
  then show ?thesis by (auto simp: case_prod_unfold simp del: canon.simps(2))
qed

lemma rule_members:
  "obj_get ''protocol'' (rule_json r) = Some (JStr (ir_protocol r))"
  "obj_get ''from_port'' (rule_json r) = Some (jopt JInt (ir_from_port r))"
  "obj_get ''to_port'' (rule_json r) = Some (jopt JInt (ir_to_port r))"
  "obj_get ''sources'' (rule_json r)
     = Some (JArr (map (\<lambda>(kind, value). JObj [(''kind'', JStr kind), (''value'', JStr value)]) (ir_sources r)))"
  by (simp_all add: rule_json_def)

lemma canon_rule_inject: "canon (rule_json r) = canon (rule_json r') \<longleftrightarrow> r = r'"
proof
  assume eq: "canon (rule_json r) = canon (rule_json r')"
  have "map_option canon (obj_get k (rule_json r)) = map_option canon (obj_get k (rule_json r'))" for k
    using obj_get_canon [OF json_wf_rule] eq by metis
  from this [of "''protocol''"] this [of "''from_port''"] this [of "''to_port''"] this [of "''sources''"]
  have "ir_protocol r = ir_protocol r'" "ir_from_port r = ir_from_port r'" "ir_to_port r = ir_to_port r'"
    "ir_sources r = ir_sources r'"
    unfolding rule_members option.map option.inject canon_sources jopt_int_inject by (simp_all add: sources_inject)
  then show "r = r'" by (cases r; cases r') simp
qed simp

lemma encoding_inject:
  assumes "rule_ok r" "rule_ok r'"
  shows "dumps (rule_json r) = dumps (rule_json r') \<longleftrightarrow> r = r'"
  using dumps_canonical [OF json_wf_rule printable_rule json_wf_rule printable_rule] assms canon_rule_inject by blast

section \<open>Rules by their encoding\<close>

lemma py_dict_encoded:
  assumes "\<And>r. r \<in> set rs \<Longrightarrow> rule_ok r"
  shows "set (py_dict (map (\<lambda>r. (dumps (rule_json r), r)) rs)) = (\<lambda>r. (dumps (rule_json r), r)) ` set rs"
proof -
  let ?e = "\<lambda>r. (dumps (rule_json r), r)"
  have "?e r \<in> set (py_dict (map ?e rs))" if "r \<in> set rs" for r
  proof -
    have "map_of (rev (map ?e rs)) (dumps (rule_json r)) \<noteq> None"
      using that by (auto simp: map_of_eq_None_iff image_image)
    then obtain r' where r': "map_of (py_dict (map ?e rs)) (dumps (rule_json r)) = Some r'"
      by (auto simp: map_of_py_dict)
    then have m: "(dumps (rule_json r), r') \<in> set (py_dict (map ?e rs))" by (rule map_of_SomeD)
    with py_dict_keys(2) have "(dumps (rule_json r), r') \<in> ?e ` set rs" by fastforce
    with assms that have "r' = r" using encoding_inject by auto
    with m show ?thesis by simp
  qed
  with py_dict_keys(2) [of "map ?e rs"] show ?thesis by auto
qed

lemma set_by_encoding:
  assumes "\<And>r. r \<in> set rs \<Longrightarrow> rule_ok r"
  shows "set (by_encoding rs) = set rs"
proof -
  have "set (by_encoding rs) = snd ` set (py_dict (map (\<lambda>r. (dumps (rule_json r), r)) rs))"
    by (simp add: by_encoding_def)
  also have "\<dots> = set rs" by (subst py_dict_encoded) (auto simp: assms image_image)
  finally show ?thesis .
qed

lemma by_encoding_cong:
  assumes "\<And>r. r \<in> set rs \<Longrightarrow> rule_ok r" "set rs = set rs'"
  shows "by_encoding rs = by_encoding rs'"
proof -
  let ?d = "\<lambda>rs. sort_key fst (py_dict (map (\<lambda>r. (dumps (rule_json r), r)) rs))"
  have "set (?d rs) = set (?d rs')" using py_dict_encoded [of rs] py_dict_encoded [of rs'] assms by auto
  moreover have "distinct (map fst (?d x))" "sorted (map fst (?d x))" for x
    using py_dict_keys(1) by (simp_all add: distinct_sort_key)
  ultimately have "?d rs = ?d rs'" by (intro map_sorted_distinct_set_unique [where f = fst]) (auto simp: distinct_map)
  then show ?thesis by (simp add: by_encoding_def)
qed

section \<open>The fingerprint\<close>

text \<open>The rules that the attached groups grant.\<close>

definition granted :: "group_rules \<Rightarrow> string list \<Rightarrow> ingress_rule set" where
  "granted groups attached =
     {r. \<exists>g permissions p. g \<in> set attached \<and> map_of groups g = Some permissions \<and> p \<in> set permissions
        \<and> canonical_rule p = Inr r}"

lemma canonicalize_set:
  assumes "canonicalize_ingress_rules ps = Inr rs" "\<And>p r. p \<in> set ps \<Longrightarrow> canonical_rule p = Inr r \<Longrightarrow> rule_ok r"
  shows "set rs = {r. \<exists>p \<in> set ps. canonical_rule p = Inr r}"
proof -
  from assms(1) obtain xs where xs: "list_all2 (\<lambda>p r. canonical_rule p = Inr r) ps xs" "rs = by_encoding xs"
    by (auto simp: canonicalize_ingress_rules_def bindR_Inr mapR_Inr)
  have s: "set xs = {r. \<exists>p \<in> set ps. canonical_rule p = Inr r}"
    using xs(1) by (induction rule: list_all2_induct) auto
  with assms(2) have "\<And>r. r \<in> set xs \<Longrightarrow> rule_ok r" by auto
  then show ?thesis using set_by_encoding [of xs] s xs(2) by metis
qed

lemma effective_shape:
  assumes "effective_rules groups attached = Inr rs" "\<forall>r \<in> granted groups attached. rule_ok r"
  shows "\<exists>xs. rs = by_encoding xs \<and> set xs = granted groups attached"
proof -
  from assms(1) obtain xss where xss: "list_all2 (\<lambda>g xs. attached_rules groups g = Inr xs) (sorted_set attached) xss"
      "rs = by_encoding (concat xss)"
    by (auto simp: effective_rules_def bindR_Inr mapR_Inr)
  have one: "set xs = {r. \<exists>permissions p. map_of groups g = Some permissions \<and> p \<in> set permissions \<and> canonical_rule p = Inr r}"
    if g: "g \<in> set attached" "attached_rules groups g = Inr xs" for g xs
  proof -
    from g(2) obtain ps where ps: "map_of groups g = Some ps" "canonicalize_ingress_rules ps = Inr xs"
      by (auto simp: attached_rules_def split: option.splits)
    have "\<And>p r. p \<in> set ps \<Longrightarrow> canonical_rule p = Inr r \<Longrightarrow> rule_ok r"
      using assms(2) g(1) ps(1) by (auto simp: granted_def)
    then show ?thesis using canonicalize_set [OF ps(2)] ps(1) by auto
  qed
  have "set (concat xss) = granted groups attached"
  proof -
    have "set (concat xss) = (\<Union>g \<in> set (sorted_set attached). {r. \<exists>xs. attached_rules groups g = Inr xs \<and> r \<in> set xs})"
      using xss(1) by (induction rule: list_all2_induct) auto
    also have "\<dots> = granted groups attached"
    proof -
      have "list_all2 (\<lambda>g xs. attached_rules groups g = Inr xs) gs yss \<Longrightarrow> g \<in> set gs
          \<Longrightarrow> \<exists>xs. attached_rules groups g = Inr xs" for gs yss g
        by (induction rule: list_all2_induct) auto
      with xss(1) have ex: "\<exists>xs. attached_rules groups g = Inr xs" if "g \<in> set attached" for g
        using that by fastforce
      show ?thesis using one ex by (fastforce simp: granted_def)
    qed
    finally show ?thesis .
  qed
  with xss(2) show ?thesis by blast
qed

lemma policy_payload_inject:
  assumes "\<And>r. r \<in> set rs \<Longrightarrow> rule_ok r" "\<And>r. r \<in> set rs' \<Longrightarrow> rule_ok r"
  shows "policy_payload rs = policy_payload rs' \<longleftrightarrow> rs = rs'"
proof
  assume eq: "policy_payload rs = policy_payload rs'"
  have w: "json_wf (JArr (map rule_json xs))" for xs by (simp add: list_all_iff json_wf_rule)
  have p: "printable (JArr (map rule_json xs))" if "\<And>r. r \<in> set xs \<Longrightarrow> rule_ok r" for xs
    using that printable_rule by (simp add: list_all_iff)
  have "canon (JArr (map rule_json rs)) = canon (JArr (map rule_json rs'))"
    using dumps_canonical [OF w p w p] assms eq by (simp add: policy_payload_def del: canon.simps)
  then have "map (canon \<circ> rule_json) rs = map (canon \<circ> rule_json) rs'" by simp
  moreover have "inj (canon \<circ> rule_json)" by (auto simp: inj_def canon_rule_inject)
  ultimately show "rs = rs'" by (simp add: inj_map_eq_map)
qed simp

lemma effective_set:
  assumes "effective_rules groups attached = Inr rs" "\<forall>r \<in> granted groups attached. rule_ok r"
  shows "set rs = granted groups attached"
  using effective_shape [OF assms] set_by_encoding assms(2) by metis

lemma effective_cong:
  assumes "effective_rules groups attached = Inr rs" "effective_rules groups' attached' = Inr rs'"
    and "\<forall>r \<in> granted groups attached. rule_ok r" "granted groups attached = granted groups' attached'"
  shows "rs = rs'"
  using effective_shape [OF assms(1,3)] effective_shape [OF assms(2)] assms(3,4) by (metis by_encoding_cong)

text \<open>Two policies have the same payload exactly when their groups grant the same rules.\<close>

lemma policy_payload_granted:
  assumes "effective_rules groups attached = Inr rs" "effective_rules groups' attached' = Inr rs'"
    and "\<forall>r \<in> granted groups attached \<union> granted groups' attached'. rule_ok r"
  shows "policy_payload rs = policy_payload rs' \<longleftrightarrow> granted groups attached = granted groups' attached'"
proof -
  have sets: "set rs = granted groups attached" "set rs' = granted groups' attached'"
    using effective_set assms by blast+
  then have "policy_payload rs = policy_payload rs' \<longleftrightarrow> rs = rs'"
    using assms(3) by (intro policy_payload_inject) auto
  with sets effective_cong [OF assms(1,2)] assms(3) show ?thesis by auto
qed

end
