(* ===== verification/Ownership_Guarantees.thy ===== *)
theory Ownership_Guarantees
  imports Inventory_Ownership Inventory_Guarantees Inventory_Policy
begin

text \<open>
  A concrete ownership check: the table holds the first generation of a target, and EC2 answers with its
  interface, in use, with its public address and without security groups. Digests stay symbolic.
\<close>

definition od_lifecycle :: json where
  "od_lifecycle = JObj [(''eni'', JStr ''in-use''), (''attachment'', JStr ''none''), (''instance_id'', JNull),
     (''instance'', JStr ''unknown'')]"

definition od_target :: normalized_target where
  "od_target = iv_target\<lparr>nt_lifecycle := dumps od_lifecycle, nt_policy_fingerprint := sha256 (policy_payload [])\<rparr>"

definition od_stored :: normalized_target where
  "od_stored = od_target\<lparr>nt_observed_at := Some 200\<rparr>"

definition od_state :: target_state where
  "od_state = \<lparr>ts_target_id = nt_target_id iv_target, ts_generation = 1, ts_status = ''active'', ts_target = od_stored,
     ts_signature = state_signature od_stored, ts_contract_target_id = None, ts_observed_at = Some 200\<rparr>"

definition od_row :: item where
  "od_row = (case state_item od_state 1000 of Inl _ \<Rightarrow> [] | Inr it \<Rightarrow> it)"

definition od_store :: store where
  "od_store = \<lparr>st_items = [(target_key (nt_target_id iv_target), od_row)], st_stream = []\<rparr>"

definition od_interface :: json where
  "od_interface = JObj [(''NetworkInterfaceId'', JStr ''eni-0123456789abcdef0''), (''Status'', JStr ''in-use''),
     (''PrivateIpAddress'', JStr ''10.0.0.7''), (''Association'', JObj [(''PublicIp'', JStr ''192.0.2.7'')])]"

definition od_env :: aws_env where
  "od_env = \<lparr>ae_table = iv_env,
     ae_answer = (\<lambda>n call. Inr (JObj [(''NetworkInterfaces'', JArr [od_interface])])), ae_clock = (\<lambda>n. 1000)\<rparr>"

definition od_gate :: interface_gate where
  "od_gate = \<lparr>ig_allowed_tag_keys = [], ig_allowed_interface_types = [], ig_required_tag_key = None, ig_required_tag_value = None\<rparr>"

definition od_world :: aws_world where
  "od_world = \<lparr>aw_table = \<lparr>iw_store = od_store, iw_calls = 0\<rparr>, aw_log = []\<rparr>"

lemma od_json: "json_wf od_lifecycle" "printable od_lifecycle"
  by (simp_all add: od_lifecycle_def)

lemma od_lifecycle_read: "lifecycle_object (dumps od_lifecycle) = Some (canon od_lifecycle)"
  using loads_dict [OF od_json] by (simp add: lifecycle_object_def is_obj_def od_lifecycle_def)

lemma od_lifecycle_fields:
  "vfield (canon od_lifecycle) ''eni'' = JStr ''in-use''" "vfield (canon od_lifecycle) ''attachment'' = JStr ''none''"
  "vfield (canon od_lifecycle) ''instance_id'' = JNull" "vfield (canon od_lifecycle) ''instance'' = JStr ''unknown''"
  by (simp_all add: vfield_canon [OF od_json(1)]) (simp_all add: od_lifecycle_def vfield_def)

lemma od_lifecycles: "lifecycle_is_active (dumps od_lifecycle)" "lifecycle_matches (dumps od_lifecycle) (dumps od_lifecycle)"
  by (simp_all add: lifecycle_is_active_def lifecycle_matches_def od_lifecycle_read od_lifecycle_fields)

lemma od_normalized: "normalized (od_target\<lparr>nt_observed_at := at\<rparr>) = Inr (od_target\<lparr>nt_observed_at := at\<rparr>)"
  by (simp add: normalized_def od_target_def iv_target_def iv_text iv_public gd_texts sorted_set_def)

lemma od_storable: "storable od_stored"
  using od_normalized [of "Some 200"] iv_representable(1)
  by (simp add: storable_def od_stored_def) (simp add: od_target_def iv_target_def)

lemma od_decodes: "decode_state od_row = Inr (od_state\<lparr>ts_target := durable od_stored\<rparr>)"
proof -
  obtain it where it: "state_item od_state 1000 = Inr it" by (simp add: state_item_def od_state_def)
  have "decode_state it = Inr (od_state\<lparr>ts_target := durable (ts_target od_state)\<rparr>)"
    by (rule decode_state_item [OF it, where obs = 200]) (simp_all add: od_state_def od_storable iv_representable(1))
  with it show ?thesis by (simp add: od_row_def od_state_def)
qed

lemma od_durable: "durable od_stored = od_stored"
  by (simp add: durable_def od_stored_def od_target_def iv_target_def)

lemma od_get: "get_state iv_env (nt_target_id iv_target) \<lparr>iw_store = od_store, iw_calls = n\<rparr>
    = (Inr (Some od_state), \<lparr>iw_store = od_store, iw_calls = Suc n\<rparr>)"
  by (simp add: get_state_def bindM_def db_call_def iv_env_def od_store_def read_item_def tbl_get_def od_decodes od_durable
      liftM_def Let_def) (simp add: od_state_def)

lemma od_texts: "py_lower ''in-use'' = ''in-use''" "py_lower ''none'' = ''none''" "py_lower ''unknown'' = ''unknown''"
  by code_simp+

lemma od_normalizes:
  "normalize_network_interface od_gate ''123456789012'' ''us-west-2'' [] None (None, None, []) od_interface = Inr [od_target]"
proof -
  have c: "configuration_of od_interface = Inr od_interface"
    by (simp add: configuration_of_def as_mapping_def od_interface_def)
  have s: "network_interface_supported od_gate od_interface = Inr True"
    by (simp add: network_interface_supported_def c od_gate_def Let_def)
  have a: "associations od_interface = Inr [(''10.0.0.7'', ''192.0.2.7'', None, None)]"
    by (simp add: associations_def od_interface_def unwrapped_def listed_field_def py_or_def is_obj_def iterate_def association_of_def
        as_mapping_def public_association_def iv_public Let_def text_if_truthy_def List.map_filter_def)
  have g: "group_ids od_interface = Inr []" "interface_tags od_gate od_interface od_interface = Inr []"
    by (simp_all add: group_ids_def interface_tags_def allowed_tags_def tag_values_def tag_pairs_def od_interface_def unwrapped_def
        listed_field_def py_or_def is_obj_def iterate_def has_configuration_def List.map_filter_def py_dict_def Let_def)
  have p: "policy_fingerprint_of [] [] = Inr (sha256 (policy_payload []))"
    by (simp add: policy_fingerprint_of_def effective_rules_def by_encoding_def py_dict_def)
  have l: "lifecycle_text None od_interface = Inr (dumps od_lifecycle)"
    by (simp add: lifecycle_text_def od_interface_def as_mapping_def od_lifecycle_def od_texts Let_def del: dumps.simps)
  have i: "interface_id od_interface od_interface = ''eni-0123456789abcdef0''"
    by (simp add: interface_id_def od_interface_def)
  have t: "as_mapping (get_any [''Attachment'', ''attachment''] (JObj []) od_interface) = Inr (JObj [])"
    by (simp add: od_interface_def as_mapping_def)
  have n: "normalized od_target = Inr od_target" using od_normalized [of None] by (simp add: od_target_def iv_target_def)
  show ?thesis
    unfolding normalize_network_interface_def c s a g p l i t bindR_simps
    using n by (simp add: g p l i iv_text text_if_truthy_def) (simp add: od_target_def iv_target_def)
qed

definition od_verdict :: verdict where
  "od_verdict = \<lparr>ov_verdict = OV_active, ov_current = Some od_target, ov_reason = None, ov_current_generation = Some 1\<rparr>"

lemma od_active: "\<exists>w'. validate_ownership od_env od_gate (nt_target_id iv_target) 1 od_world = (Inr od_verdict, w')"
proof -
  have t: "nt_account_id od_stored = ''123456789012''" "nt_region od_stored = ''us-west-2''"
    "nt_network_interface_id od_stored = ''eni-0123456789abcdef0''" "nt_private_ip od_stored = ''10.0.0.7''"
    "nt_public_ip od_stored = ''192.0.2.7''" "nt_instance_id od_stored = None"
    by (simp_all add: od_stored_def od_target_def iv_target_def)
  have c: "check_interface od_stored (JObj [(''NetworkInterfaces'', JArr [od_interface])]) = Inr (Inr od_interface)"
    by (simp add: check_interface_def objects_of_def members_of_def is_obj_def iterate_def od_interface_def live_association_def
        associated_public_ip_def vfield_def t od_texts Let_def)
  have g: "live_group_ids od_interface = Inr []"
    by (simp add: live_group_ids_def objects_of_def members_of_def is_obj_def od_interface_def)
  have s: "same_policy od_stored od_target" "lifecycle_is_active (nt_lifecycle od_target)" "nt_target_id od_target = nt_target_id iv_target"
    using od_lifecycles by (simp_all add: same_policy_def od_stored_def od_target_def iv_target_def nt_target_id_def)
  have f: "ts_target od_state = od_stored" "ts_status od_state = ''active''" "ts_generation od_state = 1"
    by (simp_all add: od_state_def)
  show ?thesis
    by (simp add: validate_ownership_def validate_live_def unless_decided_def read_interface_def read_instance_def read_targets_def
        live_groups_def bindM_def at_table_def od_world_def od_env_def od_get f current_state_matches_def attempt_def
        ec2_client_def ask_def Let_def returnM_def liftM_def t c g od_normalizes conclude_def s od_verdict_def)
qed

lemma od_rows: "rows_ok (table_of od_world)"
proof -
  obtain it where it: "state_item od_state 1000 = Inr it" by (simp add: state_item_def od_state_def)
  have "state_row (ts_target_id od_state) it (ts_generation od_state) (ts_status od_state) (ts_signature od_state) 200"
    by (rule state_item_row [OF it])
      (simp_all add: od_state_def iv_representable(1) od_stored_def od_target_def iv_target_def nt_target_id_def)
  with it show ?thesis
    by (auto simp: rows_ok_def od_world_def row_def od_store_def tbl_get_def od_row_def od_state_def split: if_splits)
qed

text \<open>
  What the ownership check guarantees to the generator, and what the policy fingerprint stands for.
\<close>

section \<open>Dispatch\<close>

text \<open>The verdict as the generator sees it: through its attributes. A live target has no generation.\<close>

definition raw_of :: "verdict \<Rightarrow> raw_verdict" where
  "raw_of v =
     \<lparr>rv_fields = JObj [(''verdict'', JStr (verdict_value (ov_verdict v))), (''current'', jopt to_state_dict (ov_current v)),
        (''reason'', jopt JStr (ov_reason v)), (''current_generation'', jopt JInt (ov_current_generation v))],
      rv_reason = ov_reason v\<rparr>"

lemma upper_values: "state_name (JStr (verdict_value x)) = ''ACTIVE'' \<longleftrightarrow> x = OV_active"
  by (cases x) (simp_all, code_simp+)

lemma raw_active: "owns (rv_fields (raw_of v)) gen \<Longrightarrow> ov_verdict v = OV_active"
  by (simp add: owns_def verdict_state_def raw_of_def vfield_def upper_values)

text \<open>
  C10. The generator creates work only for live ownership. If it decides to dispatch an event on the verdict of the
  inventory's ownership check, then EC2 answered, during the check, with an interface that has the private and
  the public address of the recorded state, in use, whose normalized target is the one that the event names: its
  account, region, interface, addresses, instance, security groups and policy fingerprint are those of the event, its
  lifecycle is active, and lifecycle, groups and fingerprint are those of the recorded state. From before these
  reads until after them, in every state that the shared table went through, the generation of the event was
  the current one and active.
\<close>

theorem dispatch_needs_live_ownership:
  assumes "inv_rely (ae_table E)" "rows_ok (table_of w)" "validate_ownership_event E g p w = (Inr v, w')"
    and "oc_decision (classify_verdict (raw_of v) (generation (payload_target p))) = DISPATCH"
  shows "\<exists>initial targets t w0 w1.
    holds_state (table_of w0) (payload_stable_id p) initial \<and> live_view g (ts_target initial) targets w0 w1
    \<and> t \<in> set targets \<and> event_matches_live_target p t \<and> lifecycle_is_active (nt_lifecycle t)
    \<and> same_policy (ts_target initial) t \<and> store_run (table_of w) (table_of w0) \<and> table_of w1 = table_of w0
    \<and> store_run (table_of w0) (table_of w')
    \<and> (\<forall>s. store_run (table_of w0) s \<longrightarrow> store_run s (table_of w') \<longrightarrow>
         state_generation s (payload_stable_id p) = generation (payload_target p)
         \<and> state_status s (payload_stable_id p) = Some ''active'')"
proof -
  let ?id = "payload_stable_id p" and ?gen = "generation (payload_target p)"
  have "owns (rv_fields (raw_of v)) ?gen" using assms(4) dispatch_iff_owns by blast
  then have active: "ov_verdict v = OV_active" by (rule raw_active)
  with assms(3) obtain t where val: "validate_ownership E g ?id ?gen w = (Inr v, w')" "ov_current v = Some t"
    "event_matches_live_target p t"
    by (auto simp: validate_ownership_event_def bindM_Inr returnM_Inr refused_def stale_def split: if_splits option.splits)
  from assms(1) val(1) active obtain initial final targets t' w0 w1 where
    r: "holds_state (table_of w0) ?id initial" "ts_status initial = ''active''"
    "ts_generation initial = ?gen" "holds_state (table_of w') ?id final" "ts_status final = ''active''"
    "ts_generation final = ?gen" "store_run (table_of w) (table_of w0)" "store_run (table_of w0) (table_of w')"
    "table_of w1 = table_of w0"
    "live_view g (ts_target initial) targets w0 w1" "find (\<lambda>t. nt_target_id t = ?id) targets = Some t'"
    "ov_current v = Some t'" "ov_current_generation v = Some ?gen" "lifecycle_is_active (nt_lifecycle t')"
    "same_policy (ts_target initial) t'" by (rule validate_active)
  have "t' = t" using r(12) val(2) by simp
  moreover have "t' \<in> set targets" using r(11) by (auto simp: find_Some_iff)
  moreover have "rows_ok (table_of w0)" using store_run_rows_ok [OF r(7) assms(2)] .
  ultimately show ?thesis
    using r val(3) held_between [OF _ r(1,4,2,3,6)] by blast
qed

definition og_event :: target_payload where
  "og_event = Work (gd_event
     \<lparr>te_target := (te_target gd_event)
        \<lparr>provider := AWS, scope_id := ''123456789012'', location := ''us-west-2'', resource_id := ''eni-0123456789abcdef0'',
         private_address := ''10.0.0.7'', public_address := ''192.0.2.7'', generation := 1\<rparr>,
      te_aws_context := contract_context od_target iv_source full_candidate\<rparr>)"

theorem dispatch_needs_live_ownership_witness:
  "\<exists>v w' initial targets t w0 w1. validate_ownership_event od_env od_gate og_event od_world = (Inr v, w')
    \<and> oc_decision (classify_verdict (raw_of v) 1) = DISPATCH
    \<and> holds_state (table_of w0) (nt_target_id iv_target) initial
    \<and> live_view od_gate (ts_target initial) targets w0 w1 \<and> t \<in> set targets \<and> nt_public_ip t = ''192.0.2.7''"
proof -
  have id: "payload_stable_id og_event = nt_target_id iv_target" "generation (payload_target og_event) = 1"
    by (simp_all add: og_event_def payload_stable_id_def payload_context_def payload_target_def contract_context_def od_target_def
        iv_target_def nt_target_id_def)
  have m: "event_matches_live_target og_event od_target"
    by (simp add: og_event_def event_matches_live_target_def payload_context_def payload_target_def contract_context_def
        od_target_def iv_target_def)
  obtain w' where w': "validate_ownership od_env od_gate (nt_target_id iv_target) 1 od_world = (Inr od_verdict, w')"
    using od_active by blast
  have v: "validate_ownership_event od_env od_gate og_event od_world = (Inr od_verdict, w')"
    by (simp add: validate_ownership_event_def id bindM_def w' m) (simp add: od_verdict_def m returnM_def)
  have d: "oc_decision (classify_verdict (raw_of od_verdict) 1) = DISPATCH"
    by (simp add: dispatch_iff_owns owns_def verdict_state_def verdict_current_def raw_of_def od_verdict_def vfield_def jopt_def
        upper_values [of OV_active, simplified])
  have "inv_rely (ae_table od_env)" "oc_decision (classify_verdict (raw_of od_verdict) (generation (payload_target og_event))) = DISPATCH"
    using iv_rely d id(2) by (simp_all add: od_env_def)
  from dispatch_needs_live_ownership [OF this(1) od_rows v this(2)]
  have "\<exists>initial targets t w0 w1. holds_state (table_of w0) (nt_target_id iv_target) initial
      \<and> live_view od_gate (ts_target initial) targets w0 w1 \<and> t \<in> set targets
      \<and> event_matches_live_target og_event t" unfolding id(1) by blast
  moreover have "event_matches_live_target og_event t \<Longrightarrow> nt_public_ip t = ''192.0.2.7''" for t
    by (simp add: event_matches_live_target_def og_event_def payload_target_def Let_def)
  ultimately show ?thesis using v d by blast
qed

section \<open>Policies\<close>

text \<open>
  C38. The policy fingerprint stands for the ingress that the attached security groups grant together. It is the
  SHA-256 digest of a payload that lists exactly the canonical rules granted by the attached groups, and two policies
  have the same payload, and so the same fingerprint, exactly when their attached groups grant the same set of
  canonical rules: the order and the repetition of groups, rules and sources make no difference, nor
  does which group grants a rule.
\<close>

theorem fingerprint_of_granted_rules:
  assumes "effective_rules groups attached = Inr rs" "effective_rules groups' attached' = Inr rs'"
    and "\<forall>r \<in> granted groups attached \<union> granted groups' attached'. rule_ok r"
  shows "policy_fingerprint_of groups attached = Inr (sha256 (policy_payload rs)) \<and> set rs = granted groups attached
    \<and> (policy_payload rs = policy_payload rs' \<longleftrightarrow> granted groups attached = granted groups' attached')"
  using assms effective_set [OF assms(1)] policy_payload_granted [OF assms] by (simp add: policy_fingerprint_of_def)

definition fg_https :: json where
  "fg_https = JObj [(''IpProtocol'', JStr ''tcp''), (''FromPort'', JInt 443), (''ToPort'', JInt 443),
     (''PrefixListIds'', JArr [JObj [(''PrefixListId'', JStr ''pl-1''), (''Description'', JStr ''edge'')]])]"

definition fg_https_again :: json where
  "fg_https_again = JObj [(''ipProtocol'', JStr ''6''), (''toPort'', JStr ''443''), (''fromPort'', JStr ''443''),
     (''prefixListIds'', JObj [(''items'', JArr [JStr ''pl-1'', JStr ''pl-1''])])]"

definition fg_rule :: ingress_rule where
  "fg_rule = \<lparr>ir_protocol = ''tcp'', ir_from_port = Some 443, ir_to_port = Some 443, ir_sources = [(''prefix'', ''pl-1'')]\<rparr>"

lemma fg_rules: "canonical_rule fg_https = Inr fg_rule" "canonical_rule fg_https_again = Inr fg_rule"
  by code_simp+

lemma fg_effective:
  "effective_rules [(''sg-a'', [fg_https])] [''sg-a''] = Inr [fg_rule]"
  "effective_rules [(''sg-c'', [fg_https_again, fg_https]), (''sg-b'', [fg_https])] [''sg-b'', ''sg-c''] = Inr [fg_rule]"
  by (simp_all add: effective_rules_def attached_rules_def canonicalize_ingress_rules_def fg_rules by_encoding_def py_dict_def
      sorted_set_def less_char_def)

lemma fg_granted:
  "granted [(''sg-a'', [fg_https])] [''sg-a''] = {fg_rule}"
  "granted [(''sg-c'', [fg_https_again, fg_https]), (''sg-b'', [fg_https])] [''sg-b'', ''sg-c''] = {fg_rule}"
  by (auto simp: granted_def fg_rules)

theorem fingerprint_of_granted_rules_witness:
  "policy_fingerprint_of [(''sg-a'', [fg_https])] [''sg-a''] = Inr (sha256 (policy_payload [fg_rule]))
   \<and> policy_fingerprint_of [(''sg-c'', [fg_https_again, fg_https]), (''sg-b'', [fg_https])] [''sg-b'', ''sg-c'']
       = Inr (sha256 (policy_payload [fg_rule]))"
proof -
  have ok: "rule_ok fg_rule" by code_simp
  then show ?thesis
    using fingerprint_of_granted_rules [OF fg_effective(1) fg_effective(2)]
      fingerprint_of_granted_rules [OF fg_effective(2) fg_effective(1)] by (simp add: fg_granted)
qed

end
