(* ===== verification/Inventory_Signals.thy ===== *)
theory Inventory_Signals
  imports Inventory_Events Port_Ranges
begin

text \<open>
  Control-plane signals (\<^verbatim>\<open>inventory/.../aws/signals.py\<close>, and the hint of \<^verbatim>\<open>inventory/.../base.py\<close>): an EventBridge
  event becomes a hint that names the resources it may have changed, by identifiers that were
  matched against their patterns, and the TCP ports that an ingress change may have opened.
\<close>

section \<open>Hints\<close>

record signal_hint =
  sh_account_id :: string
  sh_region :: string
  sh_event_name :: string
  sh_event_id :: string
  sh_request_id :: "string option"
  sh_event_time :: "time option"
  sh_network_interface_ids :: "string list"
  sh_network_interface_attachment_ids :: "string list"
  sh_instance_ids :: "string list"
  sh_security_group_ids :: "string list"
  sh_allocation_ids :: "string list"
  sh_association_ids :: "string list"
  sh_public_ips :: "string list"
  sh_candidate_ports :: candidate_ports

definition signal_hint_checked :: "signal_hint \<Rightarrow> inv_error + signal_hint" where
  "signal_hint_checked h =
     bindR (ensure (is_account_id (sh_account_id h)) (Inv_value ''invalid signal account'')) (\<lambda>_.
     bindR (ensure (is_aws_region (sh_region h)) (Inv_value ''invalid signal region'')) (\<lambda>_.
     bindR (ensure (sh_event_name h \<noteq> [] \<and> sh_event_id h \<noteq> [])
              (Inv_value ''signal event_name and event_id are required'')) (\<lambda>_.
     bindR (ensure (list_ex (\<lambda>ids. ids \<noteq> [])
                [sh_network_interface_ids h, sh_network_interface_attachment_ids h, sh_instance_ids h,
                 sh_security_group_ids h, sh_allocation_ids h, sh_association_ids h, sh_public_ips h])
              (Inv_value ''signal contains no safe resource identifier'')) (\<lambda>_.
     Inr h))))"

section \<open>Events\<close>

definition eip_events :: "string list" where
  "eip_events = [''AssociateAddress'', ''DisassociateAddress'', ''ReleaseAddress'']"

definition eni_events :: "string list" where
  "eni_events =
     [''AssignPrivateIpAddresses'', ''AttachNetworkInterface'', ''CreateNetworkInterface'', ''DeleteNetworkInterface'',
      ''DetachNetworkInterface'', ''ModifyNetworkInterfaceAttribute'', ''UnassignPrivateIpAddresses'']"

definition instance_events :: "string list" where
  "instance_events = [''RebootInstances'', ''RunInstances'', ''StartInstances'', ''StopInstances'', ''TerminateInstances'']"

definition sg_ingress_events :: "string list" where
  "sg_ingress_events = [''AuthorizeSecurityGroupIngress'', ''ModifySecurityGroupRules'', ''RevokeSecurityGroupIngress'']"

definition allowed_cloudtrail_events :: "string list" where
  "allowed_cloudtrail_events =
     eip_events @ eni_events @ instance_events @ sg_ingress_events @ [''ModifyInstanceAttribute'']"

definition event_time :: "json \<Rightarrow> time option" where
  "event_time v = (case v of JStr s \<Rightarrow> if s = [] then None else iso_parse s | _ \<Rightarrow> None)"

definition mapping_or_empty :: "json \<Rightarrow> json" where
  "mapping_or_empty v = (if is_obj v then v else JObj [])"

definition signal_items :: "json \<Rightarrow> json list" where
  "signal_items v =
     (case v of
        JObj _ \<Rightarrow>
          (case py_or (vfield v ''items'') (py_or (vfield v ''Items'') (JArr [])) of JArr xs \<Rightarrow> xs | _ \<Rightarrow> [])
      | JArr xs \<Rightarrow> xs
      | _ \<Rightarrow> [])"

definition collect_ids :: "string \<Rightarrow> json list \<Rightarrow> string list" where
  "collect_ids prefix values = sorted_set (filter (is_hex_id prefix) (map py_str values))"

text \<open>The values under a name, and those in the items of a set: the first name that an item has.\<close>

definition item_value :: "string list \<Rightarrow> json \<Rightarrow> json list" where
  "item_value names item =
     (case item of
        JObj _ \<Rightarrow> (case filter (\<lambda>v. v \<noteq> JNull) (map (vfield item) names) of v # _ \<Rightarrow> [v] | [] \<Rightarrow> [])
      | JStr _ \<Rightarrow> [item]
      | _ \<Rightarrow> [])"

definition field_values :: "json list \<Rightarrow> string list \<Rightarrow> (string \<times> string list) list \<Rightarrow> json list" where
  "field_values containers singular sets =
     concat (map (\<lambda>c.
       filter (\<lambda>v. v \<noteq> JNull) (map (vfield c) singular)
       @ concat (map (\<lambda>(set_name, names). concat (map (item_value names) (signal_items (vfield c set_name)))) sets))
       containers)"

section \<open>Ports\<close>

definition permission_items :: "json \<Rightarrow> json list option" where
  "permission_items request =
     (let raw = py_or (vfield request ''ipPermissions'') (vfield request ''IpPermissions'');
          raw' = (if is_obj raw then py_or (vfield raw ''items'') (vfield raw ''Items'') else raw)
      in case raw' of JArr xs \<Rightarrow> if list_all is_obj xs then Some xs else None | _ \<Rightarrow> None)"

definition merge_ranges :: "(int \<times> int) list \<Rightarrow> (int \<times> int) list" where
  "merge_ranges ranges = merge_sorted (sorted_set ranges)"

definition py_index :: "json \<Rightarrow> int option" where
  "py_index v = (case v of JInt i \<Rightarrow> Some i | JBool b \<Rightarrow> Some (if b then 1 else 0) | _ \<Rightarrow> None)"

text \<open>The TCP ranges of the permissions, or \<open>None\<close> where they are ambiguous.\<close>

definition permission_range :: "json \<Rightarrow> (int \<times> int) list option" where
  "permission_range p =
     (let protocol = py_lower (py_str (get_any [''ipProtocol'', ''IpProtocol''] (JStr ''-1'') p)) in
      if protocol \<in> {''-1'', ''all''} then None
      else if protocol \<notin> {''6'', ''tcp''} then Some []
      else case (py_index (get_any [''fromPort'', ''FromPort''] JNull p), py_index (get_any [''toPort'', ''ToPort''] JNull p)) of
          (Some start, Some stop) \<Rightarrow> if 1 \<le> start \<and> start \<le> stop \<and> stop \<le> 65535 then Some [(start, stop)] else None
        | _ \<Rightarrow> None)"

definition permission_ranges :: "json list \<Rightarrow> (int \<times> int) list option" where
  "permission_ranges ps = map_option concat (all_some (map permission_range ps))"

definition candidate_tcp_ports :: "int \<Rightarrow> int \<Rightarrow> json \<Rightarrow> inv_error + candidate_ports" where
  "candidate_tcp_ports max_ranges max_ports request =
     (case permission_items request of
        None \<Rightarrow> Inr full_candidate
      | Some ps \<Rightarrow>
          if ps = [] then Inr full_candidate
          else case permission_ranges ps of
              None \<Rightarrow> Inr full_candidate
            | Some ranges \<Rightarrow>
                if ranges = [] then Inr full_candidate
                else let merged = merge_ranges ranges in
                  if int (length merged) > max_ranges
                     \<or> sum_list (map (\<lambda>(start, stop). stop - start + 1) merged) > max_ports
                  then Inr full_candidate
                  else candidate_ports merged False)"

section \<open>Signals\<close>

definition signal_public_ips :: "json list \<Rightarrow> string list" where
  "signal_public_ips values =
     sorted_set (map ipv4_str (filter (\<lambda>a. \<not> (is_loopback a \<or> is_link_local a \<or> is_multicast a \<or> is_unspecified a))
       (List.map_filter (\<lambda>v. ipv4_parse (py_str v)) values)))"

definition text_of :: "json \<Rightarrow> string" where
  "text_of v = (if truthy v then py_str v else [])"

definition instance_signal :: "json \<Rightarrow> json \<Rightarrow> inv_error + signal_hint" where
  "instance_signal event detail =
     (let ids = collect_ids ''i-'' [vfield detail ''instance-id''] in
      if ids = [] then Inl (Inv_value ''instance state signal has no valid instance identifier'')
      else signal_hint_checked
        \<lparr>sh_account_id = text_of (vfield event ''account''), sh_region = text_of (vfield event ''region''),
         sh_event_name = ''InstanceStateChange'', sh_event_id = text_of (vfield event ''id''), sh_request_id = None,
         sh_event_time = event_time (vfield event ''time''), sh_network_interface_ids = [],
         sh_network_interface_attachment_ids = [], sh_instance_ids = ids, sh_security_group_ids = [],
         sh_allocation_ids = [], sh_association_ids = [], sh_public_ips = [], sh_candidate_ports = full_candidate\<rparr>)"

definition cloudtrail_signal :: "int \<Rightarrow> int \<Rightarrow> json \<Rightarrow> json \<Rightarrow> string \<Rightarrow> json \<Rightarrow> inv_error + signal_hint" where
  "cloudtrail_signal max_ranges max_ports event detail name request =
     (let response = mapping_or_empty (vfield detail ''responseElements'');
          containers = [request, response, mapping_or_empty (vfield response ''networkInterface'')];
          request_id = vfield detail ''requestID''
      in bindR (if name \<in> set sg_ingress_events then candidate_tcp_ports max_ranges max_ports request
                else Inr full_candidate) (\<lambda>ports.
         signal_hint_checked
           \<lparr>sh_account_id = text_of (vfield event ''account''), sh_region = text_of (vfield event ''region''),
            sh_event_name = name, sh_event_id = text_of (py_or (vfield detail ''eventID'') (vfield event ''id'')),
            sh_request_id = (if truthy request_id then Some (py_str request_id) else None),
            sh_event_time = event_time (vfield event ''time''),
            sh_network_interface_ids = collect_ids ''eni-''
              (field_values containers [''networkInterfaceId''] [(''networkInterfaceSet'', [''networkInterfaceId''])]),
            sh_network_interface_attachment_ids = collect_ids ''eni-attach-'' (field_values containers [''attachmentId''] []),
            sh_instance_ids = collect_ids ''i-''
              (field_values containers [''instanceId''] [(''instancesSet'', [''instanceId'']), (''instances'', [''instanceId''])]),
            sh_security_group_ids = collect_ids ''sg-''
              (field_values containers [''groupId''] [(''groupSet'', [''groupId'']), (''groups'', [''groupId''])]),
            sh_allocation_ids = collect_ids ''eipalloc-'' (field_values containers [''allocationId''] []),
            sh_association_ids = collect_ids ''eipassoc-'' (field_values containers [''associationId''] []),
            sh_public_ips = signal_public_ips (field_values containers [''publicIp''] []), sh_candidate_ports = ports\<rparr>))"

definition parse_signal :: "int \<Rightarrow> int \<Rightarrow> json \<Rightarrow> inv_error + signal_hint option" where
  "parse_signal max_ranges max_ports event =
     (let detail = mapping_or_empty (vfield event ''detail''); kind = vfield event ''detail-type'' in
      if vfield event ''source'' \<noteq> JStr ''aws.ec2'' then Inr None
      else if kind = JStr ''EC2 Instance State-change Notification''
      then bindR (instance_signal event detail) (\<lambda>h. Inr (Some h))
      else if kind \<noteq> JStr ''AWS API Call via CloudTrail'' then Inr None
      else if vfield detail ''eventSource'' \<noteq> JStr ''ec2.amazonaws.com'' then Inr None
      else let name = text_of (vfield detail ''eventName'');
               request = mapping_or_empty (vfield detail ''requestParameters'')
           in if name \<notin> set allowed_cloudtrail_events then Inr None
              else if name \<in> {''ModifyInstanceAttribute'', ''ModifyNetworkInterfaceAttribute''}
                   \<and> \<not> (truthy (vfield request ''groupSet'') \<or> truthy (vfield request ''groups'')
                        \<or> truthy (vfield request ''groupId''))
              then Inr None
              else bindR (cloudtrail_signal max_ranges max_ports event detail name request) (\<lambda>h. Inr (Some h)))"

section \<open>Merged ranges\<close>

lemma merge_ranges_exact:
  assumes "\<And>r. r \<in> set rs \<Longrightarrow> 1 \<le> fst r \<and> fst r \<le> snd r \<and> snd r \<le> 65535"
  shows "gapped (map as_range (merge_ranges rs))" "pair_ports (merge_ranges rs) = pair_ports rs"
    "r \<in> set (merge_ranges rs) \<Longrightarrow> 1 \<le> fst r \<and> fst r \<le> snd r \<and> snd r \<le> 65535"
proof -
  have ok: "\<And>r. r \<in> set (sorted_set rs) \<Longrightarrow> 1 \<le> fst r \<and> fst r \<le> snd r \<and> snd r \<le> 65535" using assms by simp
  note exact = merge_sorted_exact [OF sorted_sorted_set ok]
  show "gapped (map as_range (merge_ranges rs))" unfolding merge_ranges_def by (rule exact(1))
  show "pair_ports (merge_ranges rs) = pair_ports rs"
    unfolding merge_ranges_def by (rule trans [OF exact(2) pair_ports_cong]) simp_all
  show "r \<in> set (merge_ranges rs) \<Longrightarrow> 1 \<le> fst r \<and> fst r \<le> snd r \<and> snd r \<le> 65535"
    unfolding merge_ranges_def by (rule exact(3))
qed

lemma gapped_candidate_loop:
  "gapped (map as_range rs) \<Longrightarrow> (\<And>r. r \<in> set rs \<Longrightarrow> 1 \<le> fst r \<and> fst r \<le> snd r \<and> snd r \<le> 65535)
     \<Longrightarrow> (rs = [] \<or> p < fst (hd rs)) \<Longrightarrow> candidate_loop p rs = Inr ()"
proof (induction rs arbitrary: p)
  case (Cons r rs)
  obtain a b where r: "r = (a, b)" by fastforce
  have "candidate_loop b rs = Inr ()"
  proof (rule Cons.IH)
    show "gapped (map as_range rs)" using Cons.prems(1) by (cases rs) auto
    show "rs = [] \<or> b < fst (hd rs)" using Cons.prems(1) r by (cases rs) auto
  qed (use Cons.prems(2) in auto)
  with Cons.prems(2) [of r] Cons.prems(3) r show ?case by auto
qed simp

end
