(* ===== verification/Inventory_Resolve.thy ===== *)
theory Inventory_Resolve
  imports Inventory_Signals Inventory_Aws
begin

text \<open>
  Resolution of a hint (\<^verbatim>\<open>inventory/.../aws/resolve.py\<close>): the affected interfaces are read again from EC2, with
  their security groups and instances, and become normalized targets. Whatever fails on the way
  makes the resolution unknown.
\<close>

section \<open>The resolver\<close>

record ec2_resolver =
  er_gate :: interface_gate
  er_page_size :: int
  er_max_pages :: nat

definition ec2_resolver :: "ec2_resolver \<Rightarrow> inv_error + ec2_resolver" where
  "ec2_resolver r =
     (if \<not> (1 \<le> er_max_pages r \<and> er_max_pages r \<le> 10000)
      then Inl (Inv_value ''EC2 resolver max_pages must be within 1..10000'') else Inr r)"

datatype resolution_status = RS_complete | RS_unknown

record resolution =
  re_targets :: "normalized_target list"
  re_status :: resolution_status
  re_missing :: "string list"
  re_failure_code :: "string option"

fun chunks :: "nat \<Rightarrow> 'a list \<Rightarrow> 'a list list" where
  "chunks n [] = []"
| "chunks n (x # xs) = take (Suc n) (x # xs) # chunks n (drop n xs)"

text \<open>The pages of a size: the list is cut into parts of 100.\<close>

definition chunks_100 :: "string list \<Rightarrow> string list list" where
  "chunks_100 xs = chunks 99 xs"

section \<open>Pages\<close>

definition page_request :: "(string \<times> json) list \<Rightarrow> string option \<Rightarrow> json" where
  "page_request args token =
     JObj (args @ (case token of None \<Rightarrow> [] | Some t \<Rightarrow> if t = [] then [] else [(''NextToken'', JStr t)]))"

text \<open>\<open>n\<close> is the number of pages that may still be read.\<close>

fun paginate_enis :: "nat \<Rightarrow> aws_env \<Rightarrow> (string \<times> json) list \<Rightarrow> string option \<Rightarrow> string list \<Rightarrow> json list \<Rightarrow> json list aws" where
  "paginate_enis 0 E args token used acc = raiseM (Inv_value ''EC2 pagination page limit exceeded'')"
| "paginate_enis (Suc n) E args token used acc =
     bindM (ask E (Describe_network_interfaces (page_request args token))) (\<lambda>response.
     bindM (liftM (objects_of ''NetworkInterfaces'' response)) (\<lambda>vs.
     let next_token = vfield response ''NextToken'' in
     if \<not> truthy next_token then returnM (acc @ vs)
     else if py_str next_token \<in> set used then raiseM (Inv_value ''EC2 pagination token repeated'')
     else if n = 0 then raiseM (Inv_value ''EC2 pagination page limit exceeded'')
     else paginate_enis n E args (Some (py_str next_token)) (py_str next_token # used) (acc @ vs)))"

definition enis_by_filter :: "aws_env \<Rightarrow> ec2_resolver \<Rightarrow> string \<Rightarrow> string list \<Rightarrow> json list aws" where
  "enis_by_filter E r name values =
     paginate_enis (er_max_pages r) E
       [(''Filters'', JArr [JObj [(''Name'', JStr name), (''Values'', JArr (map JStr values))]]),
        (''MaxResults'', JInt (er_page_size r))] None [] []"

section \<open>Reads\<close>

text \<open>
  One identifier of a part that has an unknown one: what is not found is missing. Only the request is
  tried; a malformed response raises.
\<close>

definition read_single :: "aws_env \<Rightarrow> json list \<times> string list \<Rightarrow> string \<Rightarrow> (json list \<times> string list) aws" where
  "read_single E acc i =
     bindM (attempt (ask E (Describe_network_interfaces (id_list ''NetworkInterfaceIds'' [i])))) (\<lambda>r.
     case r of
       Inl e \<Rightarrow> if is_not_found e then returnM (fst acc, i # snd acc) else raiseM e
     | Inr response \<Rightarrow>
         bindM (liftM (objects_of ''NetworkInterfaces'' response)) (\<lambda>vs. returnM (fst acc @ vs, snd acc)))"

definition read_chunk :: "aws_env \<Rightarrow> json list \<times> string list \<Rightarrow> string list \<Rightarrow> (json list \<times> string list) aws" where
  "read_chunk E acc ids =
     bindM (attempt (ask E (Describe_network_interfaces (id_list ''NetworkInterfaceIds'' ids)))) (\<lambda>r.
     case r of
       Inl e \<Rightarrow> if is_not_found e then foldM (read_single E) acc ids else raiseM e
     | Inr response \<Rightarrow>
         bindM (liftM (objects_of ''NetworkInterfaces'' response)) (\<lambda>vs. returnM (fst acc @ vs, snd acc)))"

definition named_ids :: "json list \<Rightarrow> string list" where
  "named_ids vs =
     map (\<lambda>v. py_str (vfield v ''NetworkInterfaceId'')) (filter (\<lambda>v. truthy (vfield v ''NetworkInterfaceId'')) vs)"

definition read_eni_ids :: "aws_env \<Rightarrow> string list \<Rightarrow> (json list \<times> string list) aws" where
  "read_eni_ids E ids =
     bindM (foldM (read_chunk E) ([], []) (chunks_100 (sorted_set ids))) (\<lambda>(values, missing).
     returnM (values, sorted_set (missing @ filter (\<lambda>i. i \<notin> set (named_ids values)) ids)))"

definition address_requests :: "signal_hint \<Rightarrow> json list" where
  "address_requests h =
     (if sh_allocation_ids h = [] then [] else [id_list ''AllocationIds'' (sh_allocation_ids h)])
     @ (if sh_association_ids h = [] then []
        else [JObj [(''Filters'', JArr [JObj [(''Name'', JStr ''association-id''),
                                             (''Values'', JArr (map JStr (sh_association_ids h)))]])]])
     @ (if sh_public_ips h = [] then [] else [id_list ''PublicIps'' (sh_public_ips h)])"

definition read_addresses :: "aws_env \<Rightarrow> json list \<Rightarrow> json \<Rightarrow> json list aws" where
  "read_addresses E acc request =
     bindM (attempt (ask E (Describe_addresses request))) (\<lambda>r.
     case r of
       Inl e \<Rightarrow> if is_not_found e then returnM acc else raiseM e
     | Inr response \<Rightarrow> bindM (liftM (objects_of ''Addresses'' response)) (\<lambda>vs. returnM (acc @ vs)))"

definition address_eni_ids :: "aws_env \<Rightarrow> signal_hint \<Rightarrow> string list aws" where
  "address_eni_ids E h =
     bindM (foldM (read_addresses E) [] (address_requests h)) (\<lambda>vs. returnM (sorted_set (named_ids vs)))"

definition read_groups :: "aws_env \<Rightarrow> group_rules \<Rightarrow> string list \<Rightarrow> group_rules aws" where
  "read_groups E acc ids =
     bindM (ask E (Describe_security_groups (id_list ''GroupIds'' ids))) (\<lambda>response.
     bindM (liftM (objects_of ''SecurityGroups'' response)) (\<lambda>vs.
     bindM (liftM (mapR extract_security_group vs)) (\<lambda>gs. returnM (acc @ gs))))"

definition security_groups :: "aws_env \<Rightarrow> string list \<Rightarrow> group_rules aws" where
  "security_groups E ids =
     bindM (foldM (read_groups E) [] (chunks_100 (sorted_set ids))) (\<lambda>gs.
     if list_ex (\<lambda>i. i \<notin> fst ` set gs) ids then raiseM (Inv_value ''attached security group was not returned'')
     else returnM (py_dict gs))"

definition instance_entry :: "json \<Rightarrow> (string \<times> string) list" where
  "instance_entry i =
     (if truthy (vfield i ''InstanceId'') \<and> is_obj (vfield i ''State'') \<and> truthy (vfield (vfield i ''State'') ''Name'')
      then [(py_str (vfield i ''InstanceId''), py_lower (py_str (vfield (vfield i ''State'') ''Name'')))] else [])"

definition read_instances :: "aws_env \<Rightarrow> (string \<times> string) list \<Rightarrow> string list \<Rightarrow> (string \<times> string) list aws" where
  "read_instances E acc ids =
     bindM (attempt (ask E (Describe_instances (id_list ''InstanceIds'' ids)))) (\<lambda>r.
     case r of
       Inl e \<Rightarrow> if is_not_found e then returnM acc else raiseM e
     | Inr response \<Rightarrow>
         bindM (liftM (bindR (objects_of ''Reservations'' response) (mapR (objects_of ''Instances'')))) (\<lambda>iss.
         returnM (acc @ concat (map instance_entry (concat iss)))))"

definition instance_states :: "aws_env \<Rightarrow> string list \<Rightarrow> (string \<times> string) list aws" where
  "instance_states E ids =
     bindM (foldM (read_instances E) [] (chunks_100 (sorted_set ids))) (\<lambda>ss. returnM (py_dict ss))"

section \<open>Resolution\<close>

text \<open>The interfaces by their identifier, in the order of their first appearance.\<close>

definition by_id :: "json list \<Rightarrow> (string \<times> json) list" where
  "by_id vs = py_dict (map (\<lambda>v. (py_str (vfield v ''NetworkInterfaceId''), v))
                         (filter (\<lambda>v. truthy (vfield v ''NetworkInterfaceId'')) vs))"

definition attached_instance :: "json \<Rightarrow> string option" where
  "attached_instance eni =
     (let a = vfield eni ''Attachment''
      in if is_obj a \<and> truthy (vfield a ''InstanceId'') then Some (py_str (vfield a ''InstanceId'')) else None)"

definition eni_group_ids :: "json \<Rightarrow> inv_error + string list" where
  "eni_group_ids eni =
     bindR (objects_of ''Groups'' eni) (\<lambda>gs.
     Inr (map (\<lambda>g. py_str (vfield g ''GroupId'')) (filter (\<lambda>g. truthy (vfield g ''GroupId'')) gs)))"

definition signaled_targets :: "ec2_resolver \<Rightarrow> signal_hint \<Rightarrow> group_rules \<Rightarrow> (string \<times> string) list \<Rightarrow> json
    \<Rightarrow> inv_error + normalized_target list" where
  "signaled_targets r h groups states eni =
     bindR (normalize_network_interface (er_gate r) (sh_account_id h) (sh_region h) groups
              (map_of states (case attached_instance eni of None \<Rightarrow> [] | Some i \<Rightarrow> i)) (None, None, []) eni)
       (mapR (with_signal (sh_event_name h) (sh_event_id h) (sh_request_id h) (sh_event_time h) (sh_candidate_ports h) None))"

definition sorted_targets :: "normalized_target list \<Rightarrow> normalized_target list" where
  "sorted_targets ts = map snd (sort_key fst (py_dict (map (\<lambda>t. (nt_target_id t, t)) ts)))"

definition enis_if_named :: "aws_env \<Rightarrow> ec2_resolver \<Rightarrow> string \<Rightarrow> string list \<Rightarrow> json list aws" where
  "enis_if_named E r name ids = (if ids = [] then returnM [] else enis_by_filter E r name ids)"

definition read_resolution :: "aws_env \<Rightarrow> ec2_resolver \<Rightarrow> signal_hint \<Rightarrow> resolution aws" where
  "read_resolution E r h =
     bindM (ec2_client E (sh_account_id h) (sh_region h)) (\<lambda>_.
     bindM (address_eni_ids E h) (\<lambda>addressed.
     bindM (read_eni_ids E (sorted_set (sh_network_interface_ids h @ addressed))) (\<lambda>(direct, missing).
     bindM (enis_if_named E r ''attachment.instance-id'' (sh_instance_ids h)) (\<lambda>by_instance.
     bindM (enis_if_named E r ''attachment.attachment-id'' (sh_network_interface_attachment_ids h)) (\<lambda>by_attachment.
     bindM (enis_if_named E r ''group-id'' (sh_security_group_ids h)) (\<lambda>by_group.
     let enis = map snd (by_id (direct @ by_instance @ by_attachment @ by_group)) in
     bindM (liftM (mapR eni_group_ids enis)) (\<lambda>attached.
     bindM (if concat attached = [] then returnM [] else security_groups E (sorted_set (concat attached))) (\<lambda>groups.
     bindM (instance_states E (sorted_set (List.map_filter attached_instance enis))) (\<lambda>states.
     bindM (liftM (mapR (signaled_targets r h groups states) enis)) (\<lambda>tss.
     returnM \<lparr>re_targets = sorted_targets (concat tss), re_status = RS_complete, re_missing = missing,
              re_failure_code = None\<rparr>))))))))))"

definition resolve :: "aws_env \<Rightarrow> ec2_resolver \<Rightarrow> signal_hint \<Rightarrow> resolution aws" where
  "resolve E r h =
     bindM (attempt (read_resolution E r h)) (\<lambda>v.
     case v of
       Inl e \<Rightarrow> returnM \<lparr>re_targets = [], re_status = RS_unknown, re_missing = [], re_failure_code = Some (error_code e)\<rparr>
     | Inr x \<Rightarrow> returnM x)"

end
