(* ===== verification/Inventory_Snapshot.thy ===== *)
theory Inventory_Snapshot
  imports Inventory_Resolve
begin

text \<open>
  Snapshots of a scope: from EC2 itself (\<^verbatim>\<open>inventory/.../aws/ec2_snapshot.py\<close>) and from an AWS Config aggregator
  (\<^verbatim>\<open>inventory/.../aws/config_snapshot.py\<close>). A batch is complete only when every page was read and no record was
  malformed; only then may absence mean anything.
\<close>

section \<open>Batches\<close>

datatype scope_completion = Scope_complete | Scope_partial | Scope_failed

primrec completion_value :: "scope_completion \<Rightarrow> string" where
  "completion_value Scope_complete = ''complete''"
| "completion_value Scope_partial = ''partial''"
| "completion_value Scope_failed = ''failed''"

record snapshot_batch =
  sb_scope :: snapshot_scope
  sb_targets :: "normalized_target list"
  sb_completion :: scope_completion
  sb_pages :: nat
  sb_malformed :: nat
  sb_failure_code :: "string option"

definition batch_checked :: "snapshot_batch \<Rightarrow> inv_error + snapshot_batch" where
  "batch_checked b =
     (if sb_completion b = Scope_complete
      then (if sb_failure_code b \<noteq> None \<or> sb_malformed b \<noteq> 0
            then Inl (Inv_value ''complete snapshots cannot contain failures'') else Inr b)
      else (if (sb_failure_code b = None \<or> sb_failure_code b = Some []) \<and> sb_malformed b = 0
            then Inl (Inv_value ''incomplete snapshots require a bounded failure reason'') else Inr b))"

text \<open>The completion of a batch, from its failure, its malformed records and what it found.\<close>

definition finished_batch :: "snapshot_scope \<Rightarrow> normalized_target list \<Rightarrow> nat \<Rightarrow> nat \<Rightarrow> string option \<Rightarrow> inv_error + snapshot_batch" where
  "finished_batch scope targets pages malformed failure =
     (let (completion, code) =
        (if nonempty failure then (if targets \<noteq> [] then Scope_partial else Scope_failed, failure)
         else if malformed \<noteq> 0 then (Scope_partial, Some ''malformed-record'')
         else (Scope_complete, failure))
      in batch_checked \<lparr>sb_scope = scope, sb_targets = targets, sb_completion = completion, sb_pages = pages,
           sb_malformed = malformed, sb_failure_code = code\<rparr>)"

definition first_failure :: "string option \<Rightarrow> string option \<Rightarrow> string option" where
  "first_failure a b = (if nonempty a then a else b)"

text \<open>\<^verbatim>\<open>except (KeyError, TypeError, ValueError)\<close>\<close>

definition malformed_error :: "inv_error \<Rightarrow> bool" where
  "malformed_error e = (case e of Inv_value _ \<Rightarrow> True | Inv_key _ \<Rightarrow> True | Inv_type _ \<Rightarrow> True | _ \<Rightarrow> False)"

text \<open>A loop over records that counts the ones that raise such an error.\<close>

definition count_malformed :: "('a \<Rightarrow> inv_error + 'b) \<Rightarrow> ('b \<Rightarrow> 'c \<Rightarrow> 'c) \<Rightarrow> 'c \<times> nat \<Rightarrow> 'a \<Rightarrow> inv_error + 'c \<times> nat" where
  "count_malformed f put acc x =
     (case f x of
        Inr y \<Rightarrow> Inr (put y (fst acc), snd acc)
      | Inl e \<Rightarrow> if malformed_error e then Inr (fst acc, Suc (snd acc)) else Inl e)"

fun foldR :: "('b \<Rightarrow> 'a \<Rightarrow> 'e + 'b) \<Rightarrow> 'b \<Rightarrow> 'a list \<Rightarrow> 'e + 'b" where
  "foldR f b [] = Inr b"
| "foldR f b (x # xs) = bindR (f b x) (\<lambda>b'. foldR f b' xs)"

section \<open>Pages\<close>

text \<open>
  The records of all pages, what was malformed among them, the number of pages and the failure. \<open>n\<close> is the number
  of pages that may still be read; \<open>read\<close> is how a response is read.
\<close>

record fetched =
  fe_records :: "json list"
  fe_pages :: nat
  fe_malformed :: nat
  fe_failure :: "string option"

fun fetch_pages :: "nat \<Rightarrow> aws_env \<Rightarrow> (json \<Rightarrow> aws_call) \<Rightarrow> (json \<Rightarrow> inv_error + json list \<times> nat) \<Rightarrow> (string \<times> json) list
    \<Rightarrow> string option \<Rightarrow> string list \<Rightarrow> fetched \<Rightarrow> fetched aws" where
  "fetch_pages 0 E call read args token used acc = returnM (acc\<lparr>fe_failure := Some ''pagination-page-limit''\<rparr>)"
| "fetch_pages (Suc n) E call read args token used acc =
     bindM (attempt (ask E (call (page_request args token)))) (\<lambda>r.
     case r of
       Inl e \<Rightarrow> returnM (acc\<lparr>fe_failure := Some (error_code e)\<rparr>)
     | Inr response \<Rightarrow>
         bindM (liftM (read response)) (\<lambda>(vs, bad).
         let acc' = acc\<lparr>fe_records := fe_records acc @ vs, fe_pages := Suc (fe_pages acc),
                        fe_malformed := fe_malformed acc + bad\<rparr>;
             next_token = vfield response ''NextToken''
         in if \<not> truthy next_token then returnM acc'
            else if py_str next_token \<in> set used then returnM (acc'\<lparr>fe_failure := Some ''pagination-token-repeated''\<rparr>)
            else if n = 0 then returnM (acc'\<lparr>fe_failure := Some ''pagination-page-limit''\<rparr>)
            else fetch_pages n E call read args (Some (py_str next_token)) (py_str next_token # used) acc'))"

definition nothing_fetched :: fetched where
  "nothing_fetched = \<lparr>fe_records = [], fe_pages = 0, fe_malformed = 0, fe_failure = None\<rparr>"

section \<open>EC2\<close>

record ec2_backend =
  eb_scope :: snapshot_scope
  eb_gate :: interface_gate
  eb_page_size :: int
  eb_max_pages :: nat

definition ec2_backend :: "interface_gate \<Rightarrow> string \<Rightarrow> string \<Rightarrow> int \<Rightarrow> nat \<Rightarrow> inv_error + ec2_backend" where
  "ec2_backend g account reg page_size max_pages =
     bindR (snapshot_scope \<lparr>ss_source = ''ec2'', ss_account_id = Some account, ss_region = Some reg, ss_name = None\<rparr>) (\<lambda>scope.
     bindR (ensure (5 \<le> page_size \<and> page_size \<le> 1000) (Inv_value ''EC2 page size must be within 5..1000'')) (\<lambda>_.
     bindR (ensure (1 \<le> max_pages \<and> max_pages \<le> 10000) (Inv_value ''EC2 max_pages must be within 1..10000'')) (\<lambda>_.
     Inr \<lparr>eb_scope = scope, eb_gate = g, eb_page_size = page_size, eb_max_pages = max_pages\<rparr>)))"

definition read_objects :: "string \<Rightarrow> json \<Rightarrow> inv_error + json list \<times> nat" where
  "read_objects key response = bindR (objects_of key response) (\<lambda>vs. Inr (vs, 0))"

definition ec2_fetch :: "aws_env \<Rightarrow> ec2_backend \<Rightarrow> (json \<Rightarrow> aws_call) \<Rightarrow> string \<Rightarrow> fetched aws" where
  "ec2_fetch E b call key =
     fetch_pages (eb_max_pages b) E call (read_objects key) [(''MaxResults'', JInt (eb_page_size b))] None [] nothing_fetched"

definition ec2_groups :: "json list \<Rightarrow> inv_error + group_rules \<times> nat" where
  "ec2_groups vs =
     foldR (count_malformed extract_security_group (\<lambda>(g, ps) d. AList.update g ps d)) ([], 0) vs"

definition ec2_instance_entry :: "(string \<times> string) list \<times> nat \<Rightarrow> json \<Rightarrow> (string \<times> string) list \<times> nat" where
  "ec2_instance_entry acc i =
     (if \<not> is_obj i then (fst acc, Suc (snd acc))
      else case instance_entry i of
          [] \<Rightarrow> (fst acc, Suc (snd acc))
        | (k, v) # _ \<Rightarrow> (AList.update k v (fst acc), snd acc))"

definition ec2_instances :: "json list \<Rightarrow> inv_error + (string \<times> string) list \<times> nat" where
  "ec2_instances reservations =
     bindR (mapR (members_of ''Instances'') reservations) (\<lambda>iss. Inr (foldl ec2_instance_entry ([], 0) (concat iss)))"

definition put_targets :: "normalized_target list \<Rightarrow> (string \<times> normalized_target) list \<Rightarrow> (string \<times> normalized_target) list" where
  "put_targets ts d = foldl (\<lambda>d t. AList.update (nt_target_id t) t d) d ts"

definition in_key_order :: "(string \<times> 'a) list \<Rightarrow> 'a list" where
  "in_key_order d = map snd (sort_key fst d)"

definition or_blank :: "string option \<Rightarrow> string" where
  "or_blank v = (case v of None \<Rightarrow> [] | Some s \<Rightarrow> s)"

definition ec2_collect :: "aws_env \<Rightarrow> ec2_backend \<Rightarrow> snapshot_batch aws" where
  "ec2_collect E b =
     bindM (ec2_fetch E b Describe_security_groups ''SecurityGroups'') (\<lambda>group_fetch.
     bindM (ec2_fetch E b Describe_network_interfaces ''NetworkInterfaces'') (\<lambda>eni_fetch.
     bindM (ec2_fetch E b Describe_instances ''Reservations'') (\<lambda>instance_fetch.
     liftM (
       bindR (ec2_groups (fe_records group_fetch)) (\<lambda>(groups, bad_groups).
       bindR (ec2_instances (fe_records instance_fetch)) (\<lambda>(states, bad_instances).
       bindR (foldR (count_malformed (\<lambda>v.
                normalize_network_interface (eb_gate b) (or_blank (ss_account_id (eb_scope b))) (or_blank (ss_region (eb_scope b)))
                  groups (map_of states (or_blank (attached_instance v))) (None, None, []) v) put_targets) ([], 0)
                (fe_records eni_fetch)) (\<lambda>(targets, bad_enis).
       finished_batch (eb_scope b) (in_key_order targets)
         (fe_pages group_fetch + fe_pages eni_fetch + fe_pages instance_fetch) (bad_groups + bad_instances + bad_enis)
         (first_failure (fe_failure group_fetch) (first_failure (fe_failure eni_fetch) (fe_failure instance_fetch))))))))))"

section \<open>AWS Config\<close>

record config_backend =
  cb_aggregator_name :: string
  cb_scope :: snapshot_scope
  cb_gate :: interface_gate
  cb_page_size :: int
  cb_max_pages :: nat

definition config_backend :: "config_backend \<Rightarrow> inv_error + config_backend" where
  "config_backend b =
     bindR (ensure (ss_source (cb_scope b) = ''aws-config'') (Inv_value ''Config backend requires an aws-config scope'')) (\<lambda>_.
     bindR (ensure (1 \<le> cb_page_size b \<and> cb_page_size b \<le> 100) (Inv_value ''Config page_size must be within 1..100'')) (\<lambda>_.
     bindR (ensure (1 \<le> cb_max_pages b \<and> cb_max_pages b \<le> 10000) (Inv_value ''Config max_pages must be within 1..10000'')) (\<lambda>_.
     Inr b)))"

definition config_query :: "string \<Rightarrow> string" where
  "config_query kind = join [CHR 0x0A]
     [''SELECT'', ''  accountId,'', ''  awsRegion,'', ''  resourceId,'', ''  resourceType,'', ''  configurationItemCaptureTime,'',
      ''  tags,'', ''  configuration'', ''WHERE'', ''  resourceType = '' @ [CHR 0x27] @ kind @ [CHR 0x27]]"

definition scope_filter :: "string \<Rightarrow> snapshot_scope \<Rightarrow> string" where
  "scope_filter query scope =
     (let only = (\<lambda>name v. if nonempty v then [name @ '' = '' @ [CHR 0x27] @ the v @ [CHR 0x27]] else []);
          filters = only ''accountId'' (ss_account_id scope) @ only ''awsRegion'' (ss_region scope);
          sep = [CHR 0x0A] @ ''  AND ''
      in if filters = [] then query else query @ sep @ join sep filters)"

definition capture_time :: "json \<Rightarrow> inv_error + time" where
  "capture_time record =
     (case vfield record ''configurationItemCaptureTime'' of
        JStr s \<Rightarrow> (case iso_parse s of None \<Rightarrow> Inl (Inv_value ''Config capture time'') | Some t \<Rightarrow> Inr t)
      | _ \<Rightarrow> Inl (Inv_value ''Config record has no capture time''))"

definition config_result :: "json \<Rightarrow> json option" where
  "config_result raw =
     (case raw of
        JStr s \<Rightarrow> (case loads dict_hook s of Inr v \<Rightarrow> if is_obj v then Some v else None | Inl _ \<Rightarrow> None)
      | _ \<Rightarrow> if is_obj raw then Some raw else None)"

definition read_results :: "json \<Rightarrow> inv_error + json list \<times> nat" where
  "read_results response =
     bindR (members_of ''Results'' response) (\<lambda>raws.
     Inr (List.map_filter config_result raws, length (filter (\<lambda>r. config_result r = None) raws)))"

definition fetch_records :: "aws_env \<Rightarrow> config_backend \<Rightarrow> string \<Rightarrow> fetched aws" where
  "fetch_records E b expression =
     fetch_pages (cb_max_pages b) E Select_aggregate_resource_config read_results
       [(''Expression'', JStr (scope_filter expression (cb_scope b))),
        (''ConfigurationAggregatorName'', JStr (cb_aggregator_name b)), (''Limit'', JInt (cb_page_size b))]
       None [] nothing_fetched"

type_synonym group_key = "string \<times> string \<times> string"

type_synonym group_observations = "(group_key \<times> json list \<times> time) list"

definition field_of :: "string \<Rightarrow> json \<Rightarrow> inv_error + string" where
  "field_of k v = (case obj_get k v of None \<Rightarrow> Inl (Inv_key k) | Some x \<Rightarrow> Inr (py_str x))"

definition config_group :: "config_backend \<Rightarrow> json \<Rightarrow> inv_error + group_key \<times> json list \<times> time" where
  "config_group b record =
     bindR (field_of ''accountId'' record) (\<lambda>account.
     bindR (field_of ''awsRegion'' record) (\<lambda>reg.
     bindR (extract_security_group record) (\<lambda>(g, permissions).
     bindR (ensure (scope_includes (cb_scope b) account reg) (Inv_value ''record outside requested scope'')) (\<lambda>_.
     bindR (capture_time record) (\<lambda>at.
     Inr ((account, reg, g), permissions, at))))))"

definition config_configuration :: "json \<Rightarrow> inv_error + json" where
  "config_configuration record =
     bindR (case vfield record ''configuration'' of
              JStr s \<Rightarrow> (case loads dict_hook s of Inl _ \<Rightarrow> Inl (Inv_value ''json'') | Inr v \<Rightarrow> Inr v)
            | v \<Rightarrow> Inr v) (\<lambda>c.
     if is_obj c then Inr c else Inl (Inv_value ''invalid ENI configuration''))"

definition config_group_ids :: "json \<Rightarrow> inv_error + string list" where
  "config_group_ids configuration =
     (let raw = py_or (vfield configuration ''groups'') (py_or (vfield configuration ''Groups'')
                  (py_or (vfield configuration ''groupSet'') (JArr [])));
          raw' = (if is_obj raw then py_or (vfield raw ''items'') (JArr []) else raw)
      in bindR (iterate raw') (\<lambda>gs.
         Inr (sorted_set (map (\<lambda>g. py_str (py_or (vfield g ''groupId'') (py_or (vfield g ''GroupId'') (JStr []))))
                            (filter is_obj gs)))))"

definition config_targets :: "config_backend \<Rightarrow> group_observations \<Rightarrow> json \<Rightarrow> inv_error + normalized_target list" where
  "config_targets b observations record =
     bindR (field_of ''accountId'' record) (\<lambda>account.
     bindR (field_of ''awsRegion'' record) (\<lambda>reg.
     bindR (ensure (scope_includes (cb_scope b) account reg) (Inv_value ''record outside requested scope'')) (\<lambda>_.
     bindR (config_configuration record) (\<lambda>configuration.
     bindR (config_group_ids configuration) (\<lambda>ids.
     let attached = List.map_filter (\<lambda>g. map_option (Pair g) (map_of observations (account, reg, g))) ids;
         captures = sort (map (\<lambda>(g, _, at). (g, at)) attached)
     in bindR (capture_time record) (\<lambda>eni_at.
        normalize_network_interface (cb_gate b) account reg (map (\<lambda>(g, ps, _). (g, ps)) attached) None
          (Some (Max (set (eni_at # map snd captures))), Some eni_at, captures) record))))))"

definition put_newer :: "(string \<times> normalized_target) list \<Rightarrow> normalized_target \<Rightarrow> (string \<times> normalized_target) list" where
  "put_newer d t =
     (case map_of d (nt_target_id t) of
        None \<Rightarrow> AList.update (nt_target_id t) t d
      | Some old \<Rightarrow>
          (case (nt_observed_at t, nt_observed_at old) of
             (Some a, Some b) \<Rightarrow> if a > b then AList.update (nt_target_id t) t d else d
           | _ \<Rightarrow> d))"

definition config_collect :: "aws_env \<Rightarrow> config_backend \<Rightarrow> snapshot_batch aws" where
  "config_collect E b =
     bindM (fetch_records E b (config_query ''AWS::EC2::SecurityGroup'')) (\<lambda>group_fetch.
     bindM (fetch_records E b (config_query ''AWS::EC2::NetworkInterface'')) (\<lambda>eni_fetch.
     liftM (
       bindR (foldR (count_malformed (config_group b) (\<lambda>(k, o') d. AList.update k o' d)) ([], 0) (fe_records group_fetch))
         (\<lambda>(observations, bad_groups).
       bindR (foldR (count_malformed (config_targets b observations) (\<lambda>ts d. foldl put_newer d ts)) ([], 0)
                (fe_records eni_fetch)) (\<lambda>(targets, bad_enis).
       finished_batch (cb_scope b) (in_key_order targets) (fe_pages group_fetch + fe_pages eni_fetch)
         (fe_malformed group_fetch + fe_malformed eni_fetch + bad_groups + bad_enis)
         (first_failure (fe_failure group_fetch) (fe_failure eni_fetch)))))))"

end
