(* ===== verification/Inventory_Signal_Handler.thy ===== *)
theory Inventory_Signal_Handler
  imports Inventory_Resolve Inventory_Ownership Inventory_Config
begin

text \<open>
  The handler of control-plane signals (\<^verbatim>\<open>inventory/.../handlers/signals.py\<close>), and the search for the known targets
  of a hint (\<^verbatim>\<open>inventory/.../state.py\<close>). What EC2 shows is reconciled; a known target that it does not show is
  removed only when a fresh ownership check says so.
\<close>

section \<open>Known targets of a hint\<close>

definition optional_in :: "string option \<Rightarrow> string list \<Rightarrow> bool" where
  "optional_in v ids = (case v of None \<Rightarrow> False | Some x \<Rightarrow> x \<in> set ids)"

definition hint_matches :: "signal_hint \<Rightarrow> normalized_target \<Rightarrow> bool" where
  "hint_matches h t \<longleftrightarrow>
     nt_account_id t = sh_account_id h \<and> nt_region t = sh_region h
     \<and> (nt_network_interface_id t \<in> set (sh_network_interface_ids h)
        \<or> optional_in (nt_attachment_id t) (sh_network_interface_attachment_ids h)
        \<or> optional_in (nt_instance_id t) (sh_instance_ids h)
        \<or> list_ex (\<lambda>g. g \<in> set (sh_security_group_ids h)) (nt_security_group_ids t)
        \<or> nt_public_ip t \<in> set (sh_public_ips h)
        \<or> optional_in (nt_allocation_id t) (sh_allocation_ids h)
        \<or> optional_in (nt_association_id t) (sh_association_ids h))"

definition find_signal_candidates :: "inv_env \<Rightarrow> signal_hint \<Rightarrow> target_state list inv" where
  "find_signal_candidates E h =
     bindM (list_current E None) (\<lambda>sts.
     returnM (sort_key ts_target_id (map snd (py_dict (map (\<lambda>st. (ts_target_id st, st))
                (filter (\<lambda>st. hint_matches h (ts_target st)) sts))))))"

section \<open>Operations on the table\<close>

definition reconcile_op :: "aws_env \<Rightarrow> state_store \<Rightarrow> normalized_target \<Rightarrow> event_source \<Rightarrow> time \<Rightarrow> reconcile_result aws" where
  "reconcile_op E ss t source now = table_op (Op_reconcile t source now) (reconcile (ae_table E) ss t source now)"

definition remove_op :: "aws_env \<Rightarrow> state_store \<Rightarrow> target_state \<Rightarrow> event_source \<Rightarrow> time \<Rightarrow> reconcile_result aws" where
  "remove_op E ss st source now = table_op (Op_remove st source now) (remove (ae_table E) ss st source now)"

definition confirm_op :: "aws_env \<Rightarrow> target_state \<Rightarrow> normalized_target \<Rightarrow> time \<Rightarrow> reconcile_result aws" where
  "confirm_op E st t now = table_op (Op_confirm st t now) (confirm_config_versions (ae_table E) st t now)"

definition claim_op :: "aws_env \<Rightarrow> string \<Rightarrow> time \<Rightarrow> int \<Rightarrow> bool aws" where
  "claim_op E sid now ttl = table_op (Op_claim sid now ttl) (claim_signal (ae_table E) sid now ttl)"

definition release_op :: "aws_env \<Rightarrow> string \<Rightarrow> unit aws" where
  "release_op E sid = table_op (Op_release sid) (release_signal (ae_table E) sid)"

section \<open>The handler\<close>

record signal_config =
  sc_store :: state_store
  sc_resolver :: ec2_resolver
  sc_gate :: interface_gate
  sc_dedupe_seconds :: int
  sc_max_port_ranges :: int
  sc_max_ports :: int
  sc_authorized_account_ids :: "string list"
  sc_target_allowed :: "(string \<Rightarrow> bool) option"

definition out_of_scope :: "(string \<Rightarrow> bool) option \<Rightarrow> string \<Rightarrow> bool" where
  "out_of_scope allowed address = (case allowed of None \<Rightarrow> False | Some f \<Rightarrow> \<not> f address)"

datatype signal_result = Signal_ignored | Signal_duplicate | Signal_processed int nat

definition hint_source :: "signal_hint \<Rightarrow> time \<Rightarrow> inv_error + event_source" where
  "hint_source h now =
     bindR (if nonempty (sh_request_id h) then Inr (the (sh_request_id h))
            else contract (deterministic_sha256 ''portscanner.inventory.signal-request.v1''
                   (JObj [(''event_id'', JStr (sh_event_id h))]))) (\<lambda>rid.
     let at = (case sh_event_time h of None \<Rightarrow> now | Some t \<Rightarrow> t) in
     Inr \<lparr>es_name = sh_event_name h, es_event_id = sh_event_id h, es_request_id = rid,
          es_event_time = (if at > now then now else at), es_observed_at = now\<rparr>)"

definition signal_target :: "aws_env \<Rightarrow> signal_config \<Rightarrow> time \<Rightarrow> int \<times> string list \<Rightarrow> normalized_target \<Rightarrow> (int \<times> string list) aws" where
  "signal_target E c now acc raw =
     bindM (liftM (with_observation now raw)) (\<lambda>t.
     bindM (liftM (signal_source t now)) (\<lambda>source.
     bindM (reconcile_op E (sc_store c) t source now) (\<lambda>r.
     if rr_action r = RACE then raiseM (Inv_race ''target generation race'')
     else returnM (fst acc + (if rr_action r \<in> {ADDED, CHANGED} then 1 else 0), nt_target_id t # snd acc))))"

definition signal_candidate :: "aws_env \<Rightarrow> signal_config \<Rightarrow> signal_hint \<Rightarrow> time \<Rightarrow> event_source \<Rightarrow> string list
    \<Rightarrow> int \<Rightarrow> target_state \<Rightarrow> int aws" where
  "signal_candidate E c h now source resolved changed st =
     (if out_of_scope (sc_target_allowed c) (nt_public_ip (ts_target st)) then returnM changed
      else if ts_target_id st \<in> set resolved then returnM changed
      else bindM (validate_ownership E (sc_gate c) (ts_target_id st) (ts_generation st)) (\<lambda>v.
        if ov_verdict v \<in> {OV_inactive, OV_moved}
        then bindM (remove_op E (sc_store c) st source now) (\<lambda>r.
          returnM (changed + (if rr_action r = REMOVED then 1 else 0)))
        else case (ov_verdict v, ov_current v) of
            (OV_stale, Some current) \<Rightarrow>
              bindM (liftM (with_signal (sh_event_name h) (sh_event_id h) (sh_request_id h) (sh_event_time h)
                              (sh_candidate_ports h) (Some now) current)) (\<lambda>t.
              bindM (liftM (signal_source t now)) (\<lambda>src.
              bindM (reconcile_op E (sc_store c) t src now) (\<lambda>r.
              if rr_action r = RACE then raiseM (Inv_race ''target generation race'')
              else returnM (changed + (if rr_action r = CHANGED then 1 else 0)))))
          | _ \<Rightarrow> returnM changed))"

definition apply_signal :: "aws_env \<Rightarrow> signal_config \<Rightarrow> signal_hint \<Rightarrow> time \<Rightarrow> normalized_target list \<Rightarrow> signal_result aws" where
  "apply_signal E c h now targets =
     bindM (at_table (find_signal_candidates (ae_table E) h)) (\<lambda>candidates.
     bindM (foldM (signal_target E c now) (0, []) targets) (\<lambda>(changed, resolved).
     bindM (liftM (hint_source h now)) (\<lambda>source.
     bindM (foldM (signal_candidate E c h now source resolved) changed candidates) (\<lambda>n.
     returnM (Signal_processed n (length targets))))))"

text \<open>A claimed signal that fails is released, so that a redelivery processes it.\<close>

definition claimed_signal :: "aws_env \<Rightarrow> signal_config \<Rightarrow> signal_hint \<Rightarrow> time \<Rightarrow> normalized_target list \<Rightarrow> signal_result aws" where
  "claimed_signal E c h now targets =
     bindM (attempt (apply_signal E c h now targets)) (\<lambda>r.
     case r of
       Inl e \<Rightarrow> bindM (release_op E (sh_event_id h)) (\<lambda>_. raiseM e)
     | Inr x \<Rightarrow> returnM x)"

definition process_hint :: "aws_env \<Rightarrow> signal_config \<Rightarrow> signal_hint \<Rightarrow> time \<Rightarrow> signal_result aws" where
  "process_hint E c h now =
     bindM (resolve E (sc_resolver c) h) (\<lambda>rsn.
     if re_status rsn = RS_unknown then raiseM (Inv_race ''EC2 signal resolution is unknown'')
     else if list_ex (\<lambda>t. out_of_scope (sc_target_allowed c) (nt_public_ip t)) (re_targets rsn)
     then raiseM (Inv_value ''resolved signal target is outside the configured CIDR scope'')
     else bindM (claim_op E (sh_event_id h) now (sc_dedupe_seconds c)) (\<lambda>claimed.
       if \<not> claimed then returnM Signal_duplicate
       else claimed_signal E c h now (re_targets rsn)))"

definition process_signal :: "aws_env \<Rightarrow> signal_config \<Rightarrow> time \<Rightarrow> json \<Rightarrow> signal_result aws" where
  "process_signal E c now event =
     bindM (liftM (parse_signal (sc_max_port_ranges c) (sc_max_ports c) event)) (\<lambda>hint.
     case hint of
       None \<Rightarrow> returnM Signal_ignored
     | Some h \<Rightarrow>
         if sc_authorized_account_ids c \<noteq> [] \<and> sh_account_id h \<notin> set (sc_authorized_account_ids c)
         then raiseM (Inv_value ''signal account is outside the configured authorized account scope'')
         else if list_ex (out_of_scope (sc_target_allowed c)) (sh_public_ips h)
         then raiseM (Inv_value ''signal address is outside the configured CIDR scope'')
         else process_hint E c h now)"

section \<open>The entry point\<close>

definition gate_of :: "settings \<Rightarrow> interface_gate" where
  "gate_of s = \<lparr>ig_allowed_tag_keys = se_allowed_tag_keys s, ig_allowed_interface_types = se_allowed_eni_interface_types s,
     ig_required_tag_key = se_required_target_tag_key s, ig_required_tag_value = se_required_target_tag_value s\<rparr>"

definition signal_runtime :: "settings \<Rightarrow> state_store \<Rightarrow> inv_error + signal_config" where
  "signal_runtime s ss =
     bindR (validate_signals s) (\<lambda>_.
     bindR (ec2_resolver \<lparr>er_gate = gate_of s, er_page_size = 500, er_max_pages = nat (se_snapshot_max_pages s)\<rparr>) (\<lambda>r.
     Inr \<lparr>sc_store = ss, sc_resolver = r, sc_gate = gate_of s, sc_dedupe_seconds = se_signal_dedupe_seconds s,
          sc_max_port_ranges = se_max_signal_port_ranges s, sc_max_ports = se_max_signal_ports s,
          sc_authorized_account_ids = se_authorized_account_ids s, sc_target_allowed = Some (settings_allow s)\<rparr>))"

definition decoded :: "string \<Rightarrow> inv_error + json" where
  "decoded s = (case loads dict_hook s of Inl _ \<Rightarrow> Inl (Inv_value ''json'') | Inr v \<Rightarrow> Inr v)"

definition signal_body :: "json \<Rightarrow> inv_error + json" where
  "signal_body record =
     bindR (decoded (py_str (py_or (vfield record ''body'') (JStr ''{}'')))) (\<lambda>parsed.
     bindR (if is_obj parsed
            then (case vfield parsed ''Message'' of JStr m \<Rightarrow> decoded m | _ \<Rightarrow> Inr parsed) else Inr parsed) (\<lambda>body.
     if is_obj body then Inr body else Inl (Inv_value ''signal body must be an object'')))"

datatype signal_response = Signal_batch "string list" | Signal_single signal_result

definition signal_process :: "aws_env \<Rightarrow> signal_config \<Rightarrow> json \<Rightarrow> signal_result aws" where
  "signal_process E c event = bindM (utc_now E) (\<lambda>now. process_signal E c now event)"

definition signal_handler :: "aws_env \<Rightarrow> signal_config \<Rightarrow> json \<Rightarrow> signal_response aws" where
  "signal_handler E c event =
     (case vfield event ''Records'' of
        JArr records \<Rightarrow>
          bindM (partial_batch (\<lambda>record. bindM (liftM (signal_body record)) (\<lambda>body.
                   bindM (signal_process E c body) (\<lambda>_. returnM ()))) records) (\<lambda>fs. returnM (Signal_batch fs))
      | _ \<Rightarrow> bindM (signal_process E c event) (\<lambda>r. returnM (Signal_single r)))"

end
