(* ===== verification/Inventory_Snapshot_Handler.thy ===== *)
theory Inventory_Snapshot_Handler
  imports Inventory_Snapshot Inventory_Signal_Handler
begin

text \<open>
  The handlers of snapshots and of scheduled coverage (\<^verbatim>\<open>inventory/.../handlers/snapshot.py\<close> and
  \<^verbatim>\<open>inventory/.../handlers/rescan.py\<close>). Observed targets are reconciled; a target that a complete snapshot does not
  show is removed only after a fresh ownership check of it.
\<close>

section \<open>Reconciliation of a batch\<close>

record snapshot_request =
  sq_now :: time
  sq_target :: "string option"
  sq_require_exact :: bool
  sq_target_allowed :: "(string \<Rightarrow> bool) option"
  sq_managed_canary :: "managed_canary option"

record snapshot_summary =
  su_completion :: string
  su_targets :: nat
  su_pages :: nat
  su_revalidated :: nat
  su_actions :: "reconcile_action list"

text \<open>The counters have no entry for \<^verbatim>\<open>REVALIDATE\<close>.\<close>

definition count_action :: "reconcile_action list \<Rightarrow> reconcile_action \<Rightarrow> reconcile_action list aws" where
  "count_action acts a = (if a = REVALIDATE then raiseM (Inv_key ''revalidate'') else returnM (acts @ [a]))"

definition selects :: "snapshot_request \<Rightarrow> normalized_target \<Rightarrow> bool" where
  "selects q t \<longleftrightarrow>
     (case sq_target q of None \<Rightarrow> True | Some address \<Rightarrow> nt_public_ip t = address)
     \<and> (case sq_managed_canary q of None \<Rightarrow> True | Some c \<Rightarrow> canary_matches c t)
     \<and> \<not> out_of_scope (sq_target_allowed q) (nt_public_ip t)"

definition as_canary :: "managed_canary \<Rightarrow> normalized_target \<Rightarrow> inv_error + normalized_target" where
  "as_canary c t =
     bindR (candidate_ports [(mc_tcp_port c, mc_tcp_port c)] False) (\<lambda>ports.
     normalized (t\<lparr>nt_candidate_ports := ports, nt_managed_canary := True\<rparr>))"

definition selected_targets :: "snapshot_request \<Rightarrow> snapshot_batch \<Rightarrow> inv_error + normalized_target list" where
  "selected_targets q b =
     (let selected = filter (selects q) (sb_targets b) in
      if sq_require_exact q \<and> length selected \<noteq> 1
      then Inl (Inv_value ''canary snapshot must resolve the configured target to exactly one target'')
      else case sq_managed_canary q of None \<Rightarrow> Inr selected | Some c \<Rightarrow> mapR (as_canary c) selected)"

text \<open>The live target of a stale verdict, when it is the policy or the lifecycle that changed.\<close>

definition live_change :: "verdict \<Rightarrow> normalized_target option" where
  "live_change v =
     (if ov_verdict v = OV_stale \<and> ov_reason v = Some ''policy-or-lifecycle'' then ov_current v else None)"

definition reconcile_live :: "aws_env \<Rightarrow> state_store \<Rightarrow> snapshot_scope \<Rightarrow> time \<Rightarrow> normalized_target \<Rightarrow> reconcile_result aws" where
  "reconcile_live E ss scope now current =
     bindM (liftM (with_observation now current)) (\<lambda>live.
     bindM (liftM (snapshot_source scope now (Some now))) (\<lambda>source.
     reconcile_op E ss live source now))"

definition revalidate_observed :: "aws_env \<Rightarrow> state_store \<Rightarrow> interface_gate \<Rightarrow> snapshot_scope \<Rightarrow> time \<Rightarrow> event_source
    \<Rightarrow> normalized_target \<Rightarrow> target_state \<Rightarrow> reconcile_action aws" where
  "revalidate_observed E ss g scope now source t st =
     bindM (validate_ownership E g (ts_target_id st) (ts_generation st)) (\<lambda>v.
     if ov_verdict v \<in> {OV_inactive, OV_moved}
     then bindM (remove_op E ss st source now) (\<lambda>r. returnM (rr_action r))
     else case live_change v of
         Some current \<Rightarrow>
           bindM (reconcile_live E ss scope now current) (\<lambda>r.
           bindM (case rr_state r of
                    Some s \<Rightarrow> if ts_signature s = state_signature t
                              then bindM (confirm_op E s t now) (\<lambda>_. returnM ()) else returnM ()
                  | None \<Rightarrow> returnM ()) (\<lambda>_.
           returnM (rr_action r)))
       | None \<Rightarrow>
           if ov_verdict v = OV_active then bindM (confirm_op E st t now) (\<lambda>r. returnM (rr_action r))
           else returnM NOOP)"

type_synonym snapshot_progress = "string list \<times> nat \<times> reconcile_action list"

definition observe_target :: "aws_env \<Rightarrow> state_store \<Rightarrow> interface_gate \<Rightarrow> snapshot_scope \<Rightarrow> time \<Rightarrow> event_source
    \<Rightarrow> snapshot_progress \<Rightarrow> normalized_target \<Rightarrow> snapshot_progress aws" where
  "observe_target E ss g scope now source acc raw =
     (case acc of (observed, revalidated, acts) \<Rightarrow>
      bindM (liftM (if nt_observed_at raw \<noteq> None then Inr raw else with_observation now raw)) (\<lambda>t.
      bindM (liftM (snapshot_source scope now (nt_observed_at t))) (\<lambda>target_source.
      bindM (reconcile_op E ss t target_source now) (\<lambda>r.
      case (rr_action r, rr_state r) of
        (REVALIDATE, Some st) \<Rightarrow>
          bindM (revalidate_observed E ss g scope now source t st) (\<lambda>a.
          bindM (count_action acts a) (\<lambda>acts'. returnM (nt_target_id t # observed, Suc revalidated, acts')))
      | _ \<Rightarrow>
          bindM (count_action acts (rr_action r)) (\<lambda>acts'. returnM (nt_target_id t # observed, revalidated, acts'))))))"

definition absent_target :: "aws_env \<Rightarrow> state_store \<Rightarrow> interface_gate \<Rightarrow> snapshot_scope \<Rightarrow> time \<Rightarrow> event_source
    \<Rightarrow> (string \<Rightarrow> bool) option \<Rightarrow> string list \<Rightarrow> nat \<times> reconcile_action list \<Rightarrow> target_state
    \<Rightarrow> (nat \<times> reconcile_action list) aws" where
  "absent_target E ss g scope now source allowed observed acc st =
     (if out_of_scope allowed (nt_public_ip (ts_target st)) \<or> ts_target_id st \<in> set observed then returnM acc
      else bindM (validate_ownership E g (ts_target_id st) (ts_generation st)) (\<lambda>v.
        if ov_verdict v \<in> {OV_inactive, OV_moved}
        then bindM (remove_op E ss st source now) (\<lambda>r.
          bindM (count_action (snd acc) (rr_action r)) (\<lambda>acts. returnM (Suc (fst acc), acts)))
        else case live_change v of
            Some current \<Rightarrow>
              bindM (reconcile_live E ss scope now current) (\<lambda>r.
              bindM (count_action (snd acc) (rr_action r)) (\<lambda>acts. returnM (Suc (fst acc), acts)))
          | None \<Rightarrow> returnM (Suc (fst acc), snd acc)))"

definition reconcile_snapshot :: "aws_env \<Rightarrow> state_store \<Rightarrow> interface_gate \<Rightarrow> snapshot_batch aws \<Rightarrow> snapshot_request
    \<Rightarrow> snapshot_summary aws" where
  "reconcile_snapshot E ss g collect q =
     bindM collect (\<lambda>b.
     if sq_require_exact q \<and> sb_completion b \<noteq> Scope_complete
     then raiseM (Inv_value ''canary snapshot requires a complete inventory response'')
     else bindM (liftM (snapshot_source (sb_scope b) (sq_now q) None)) (\<lambda>source.
       bindM (liftM (selected_targets q b)) (\<lambda>selected.
       bindM (foldM (observe_target E ss g (sb_scope b) (sq_now q) source) ([], 0, []) selected) (\<lambda>(observed, revalidated, acts).
       bindM (if sb_completion b = Scope_complete \<and> sq_target q = None
              then bindM (at_table (list_current (ae_table E) (Some (sb_scope b)))) (\<lambda>known.
                foldM (absent_target E ss g (sb_scope b) (sq_now q) source (sq_target_allowed q) observed) (revalidated, acts) known)
              else returnM (revalidated, acts)) (\<lambda>(revalidated', acts').
       returnM \<lparr>su_completion = completion_value (sb_completion b), su_targets = length selected, su_pages = sb_pages b,
                su_revalidated = revalidated', su_actions = acts'\<rparr>)))))"

section \<open>Requests\<close>

definition requested_target :: "json \<Rightarrow> inv_error + string option" where
  "requested_target request =
     (case vfield request ''target_public_ipv4'' of
        JNull \<Rightarrow> Inr None
      | JStr s \<Rightarrow>
          (case ipv4_parse s of
             Some a \<Rightarrow> if ipv4_str a \<noteq> s \<or> \<not> is_global a
                       then Inl (Inv_value ''target_public_ipv4 must be a canonical public IPv4 address'') else Inr (Some s)
           | None \<Rightarrow> Inl (Inv_value ''target_public_ipv4 must be a canonical public IPv4 address''))
      | _ \<Rightarrow> Inl (Inv_value ''target_public_ipv4 must be a canonical public IPv4 address''))"

definition requested_account :: "settings \<Rightarrow> json \<Rightarrow> inv_error + string" where
  "requested_account s request =
     (case (case obj_get ''account_id'' request of None \<Rightarrow> jopt JStr (se_account_id s) | Some v \<Rightarrow> v) of
        JStr a \<Rightarrow> if a \<notin> set (se_authorized_account_ids s)
                  then Inl (Inv_value ''account_id is outside the configured authorized account scope'') else Inr a
      | _ \<Rightarrow> Inl (Inv_value ''account_id is outside the configured authorized account scope''))"

definition requested_region :: "settings \<Rightarrow> json \<Rightarrow> inv_error + string option" where
  "requested_region s request =
     (case vfield request ''region'' of
        JNull \<Rightarrow> Inr None
      | JStr r \<Rightarrow> if r \<notin> set (se_regions s)
                  then Inl (Inv_value ''region is outside the configured snapshot Region scope'') else Inr (Some r)
      | _ \<Rightarrow> Inl (Inv_value ''region is outside the configured snapshot Region scope''))"

definition snapshot_subject :: "settings \<Rightarrow> json
    \<Rightarrow> inv_error + managed_canary option \<times> string option \<times> string \<times> string option" where
  "snapshot_subject s request =
     (if vfield request ''operation'' = JStr ''managed-canary''
      then (case se_managed_canary s of
              Some c \<Rightarrow>
                if \<not> se_canary_mode s then Inl (Inv_value ''managed-canary operation is not enabled'')
                else if list_ex (\<lambda>k. obj_get k request \<noteq> None) [''account_id'', ''region'', ''target_public_ipv4'']
                then Inl (Inv_value ''managed-canary operation does not accept target overrides'')
                else Inr (Some c, Some (mc_public_ip c), mc_account_id c, Some (mc_region c))
            | None \<Rightarrow> Inl (Inv_value ''managed-canary operation is not enabled''))
      else if vfield request ''operation'' \<noteq> JNull then Inl (Inv_value ''unsupported snapshot operation'')
      else if se_canary_mode s \<and> se_managed_canary s \<noteq> None
      then Inl (Inv_value ''managed canary snapshot requires operation=managed-canary'')
      else bindR (requested_target request) (\<lambda>address.
           bindR (requested_account s request) (\<lambda>account.
           bindR (requested_region s request) (\<lambda>reg.
           if se_canary_mode s \<and> (address = None \<or> obj_get ''account_id'' request = None \<or> reg = None)
           then Inl (Inv_value ''canary snapshot requires account_id, region, and target_public_ipv4'')
           else Inr (None, address, account, reg)))))"

definition snapshot_checked :: "settings \<Rightarrow> json
    \<Rightarrow> inv_error + managed_canary option \<times> string option \<times> string \<times> string option" where
  "snapshot_checked s request =
     bindR (snapshot_subject s request) (\<lambda>(canary, address, account, reg).
     if \<not> account_authorized s account
     then Inl (Inv_value ''account_id is outside the configured authorized account scope'')
     else if (case address of None \<Rightarrow> False | Some a \<Rightarrow> \<not> settings_allow s a)
     then Inl (Inv_value ''target_public_ipv4 is outside the configured CIDR scope'')
     else Inr (canary, address, account, reg))"

definition ec2_snapshot :: "aws_env \<Rightarrow> state_store \<Rightarrow> settings \<Rightarrow> string \<Rightarrow> snapshot_request \<Rightarrow> snapshot_summary list \<Rightarrow> string
    \<Rightarrow> snapshot_summary list aws" where
  "ec2_snapshot E ss s account q acc reg =
     bindM (ec2_client E account reg) (\<lambda>_.
     bindM (liftM (ec2_backend (gate_of s) account reg 500 (nat (se_snapshot_max_pages s)))) (\<lambda>b.
     bindM (reconcile_snapshot E ss (gate_of s) (ec2_collect E b) q) (\<lambda>su.
     returnM (acc @ [su]))))"

text \<open>\<open>home\<close> is the Region of the Config client.\<close>

definition snapshot_process :: "aws_env \<Rightarrow> state_store \<Rightarrow> settings \<Rightarrow> string \<Rightarrow> json \<Rightarrow> snapshot_summary list aws" where
  "snapshot_process E ss s home request =
     bindM (utc_now E) (\<lambda>now.
     bindM (liftM (snapshot_checked s request)) (\<lambda>(canary, address, account, reg).
     let q = \<lparr>sq_now = now, sq_target = address, sq_require_exact = se_canary_mode s,
              sq_target_allowed = Some (settings_allow s), sq_managed_canary = canary\<rparr>
     in if se_snapshot_backend s = ''config''
        then bindM (ask E (New_client ''config'' [] home)) (\<lambda>_.
          bindM (liftM (snapshot_scope \<lparr>ss_source = ''aws-config'', ss_account_id = Some account, ss_region = reg,
                          ss_name = se_config_aggregator_name s\<rparr>)) (\<lambda>scope.
          bindM (liftM (config_backend \<lparr>cb_aggregator_name = or_blank (se_config_aggregator_name s), cb_scope = scope,
                          cb_gate = gate_of s, cb_page_size = 100, cb_max_pages = nat (se_snapshot_max_pages s)\<rparr>)) (\<lambda>b.
          bindM (reconcile_snapshot E ss (gate_of s) (config_collect E b) q) (\<lambda>su. returnM [su]))))
        else foldM (ec2_snapshot E ss s account q) []
               (case reg of Some r \<Rightarrow> if r = [] then se_regions s else [r] | None \<Rightarrow> se_regions s)))"

definition message_body :: "string \<Rightarrow> json \<Rightarrow> inv_error + json" where
  "message_body what record =
     bindR (decoded (py_str (py_or (vfield record ''body'') (JStr ''{}'')))) (\<lambda>body.
     if is_obj body then Inr body else Inl (Inv_value what))"

datatype snapshot_response = Snapshot_batch "string list" | Snapshot_summaries "snapshot_summary list"

definition snapshot_handler :: "aws_env \<Rightarrow> state_store \<Rightarrow> settings \<Rightarrow> string \<Rightarrow> json \<Rightarrow> snapshot_response aws" where
  "snapshot_handler E ss s home event =
     (case vfield event ''Records'' of
        JArr records \<Rightarrow>
          bindM (partial_batch (\<lambda>record. bindM (liftM (message_body ''snapshot message body must be an object'' record)) (\<lambda>body.
                   bindM (snapshot_process E ss s home body) (\<lambda>_. returnM ()))) records) (\<lambda>fs. returnM (Snapshot_batch fs))
      | _ \<Rightarrow> bindM (snapshot_process E ss s home event) (\<lambda>r. returnM (Snapshot_summaries r)))"

section \<open>Scheduled coverage\<close>

definition schedule_bucket :: "time \<Rightarrow> int \<Rightarrow> int \<times> time" where
  "schedule_bucket now bucket_seconds =
     (let bucket = epoch_seconds now div bucket_seconds in (bucket, seconds (bucket * bucket_seconds)))"

definition scheduled_time :: "json \<Rightarrow> inv_error + time" where
  "scheduled_time v =
     (case v of
        JStr s \<Rightarrow> (case iso_parse s of None \<Rightarrow> Inl (Inv_value ''scheduled event time'') | Some t \<Rightarrow> Inr t)
      | _ \<Rightarrow> Inl (Inv_value ''scheduled event time is invalid''))"

definition coverage_source :: "time \<Rightarrow> int \<Rightarrow> json \<Rightarrow> inv_error + event_source \<times> time" where
  "coverage_source now bucket_seconds event =
     (if vfield event ''id'' \<noteq> JNull \<or> vfield event ''time'' \<noteq> JNull
      then (case vfield event ''id'' of
              JStr eid \<Rightarrow>
                if py_strip eid = [] then Inl (Inv_value ''scheduled EventBridge event has no id'')
                else bindR (scheduled_time (vfield event ''time'')) (\<lambda>at.
                  bindR (contract (deterministic_sha256 ''portscanner.inventory.coverage-request.v1''
                           (JObj [(''event_id'', JStr eid), (''event_time'', jtime at)]))) (\<lambda>rid.
                  Inr (\<lparr>es_name = ''scheduled-coverage'', es_event_id = eid, es_request_id = rid, es_event_time = at,
                        es_observed_at = at\<rparr>, at)))
            | _ \<Rightarrow> Inl (Inv_value ''scheduled EventBridge event has no id''))
      else (let (bucket, at) = schedule_bucket now bucket_seconds;
                identity = JObj [(''bucket'', JInt bucket), (''bucket_seconds'', JInt bucket_seconds)]
            in bindR (contract (deterministic_sha256 ''portscanner.inventory.coverage-bucket.v1'' identity)) (\<lambda>eid.
               bindR (contract (deterministic_sha256 ''portscanner.inventory.coverage-request.v1'' identity)) (\<lambda>rid.
               Inr (\<lparr>es_name = ''scheduled-coverage'', es_event_id = eid, es_request_id = rid, es_event_time = at,
                     es_observed_at = at\<rparr>, at)))))"

definition cover_target :: "aws_env \<Rightarrow> state_store \<Rightarrow> event_source \<Rightarrow> time \<Rightarrow> nat \<times> nat \<Rightarrow> target_state \<Rightarrow> (nat \<times> nat) aws" where
  "cover_target E ss source at acc st =
     bindM (table_op (Op_coverage st source at) (enqueue_coverage (ae_table E) ss st source at)) (\<lambda>r.
     returnM (if rr_event r \<noteq> None then (Suc (fst acc), snd acc)
              else if rr_action r = RACE then (fst acc, Suc (snd acc)) else acc))"

text \<open>The numbers of targets, of events and of races.\<close>

definition emit_coverage :: "aws_env \<Rightarrow> state_store \<Rightarrow> time \<Rightarrow> int \<Rightarrow> json \<Rightarrow> (nat \<times> nat \<times> nat) aws" where
  "emit_coverage E ss now bucket_seconds event =
     bindM (liftM (coverage_source now bucket_seconds event)) (\<lambda>(source, at).
     bindM (at_table (list_current (ae_table E) None)) (\<lambda>targets.
     bindM (foldM (cover_target E ss source at) (0, 0) targets) (\<lambda>(emitted, races).
     returnM (length targets, emitted, races))))"

definition rescan_process :: "aws_env \<Rightarrow> state_store \<Rightarrow> settings \<Rightarrow> json \<Rightarrow> (nat \<times> nat \<times> nat) aws" where
  "rescan_process E ss s event =
     bindM (utc_now E) (\<lambda>now. emit_coverage E ss now (se_rescan_bucket_seconds s) event)"

datatype rescan_response = Rescan_batch "string list" | Rescan_counts "nat \<times> nat \<times> nat"

definition rescan_handler :: "aws_env \<Rightarrow> state_store \<Rightarrow> settings \<Rightarrow> json \<Rightarrow> rescan_response aws" where
  "rescan_handler E ss s event =
     (case vfield event ''Records'' of
        JArr records \<Rightarrow>
          bindM (partial_batch (\<lambda>record. bindM (liftM (message_body ''rescan body must be an object'' record)) (\<lambda>body.
                   bindM (rescan_process E ss s body) (\<lambda>_. returnM ()))) records) (\<lambda>fs. returnM (Rescan_batch fs))
      | _ \<Rightarrow> bindM (rescan_process E ss s event) (\<lambda>r. returnM (Rescan_counts r)))"

end
