(* ===== verification/Inventory_Removal.thy ===== *)
theory Inventory_Removal
  imports Inventory_Snapshot_Handler
begin

text \<open>
  Removals of the handlers: every removal that a handler asks of the table comes right after an ownership
  check of the same state, with a verdict that it is gone.
\<close>

section \<open>Careful runs\<close>

definition found_gone :: "aws_env \<Rightarrow> interface_gate \<Rightarrow> (logged \<times> (inv_error + json)) list \<Rightarrow> target_state \<Rightarrow> bool" where
  "found_gone E g log st \<longleftrightarrow>
     (\<exists>v w1 w2. validate_ownership E g (ts_target_id st) (ts_generation st) w1 = (Inr v, w2) \<and> aw_log w2 = log
        \<and> ov_verdict v \<in> {OV_inactive, OV_moved})"

definition careful :: "aws_env \<Rightarrow> interface_gate \<Rightarrow> aws_world \<Rightarrow> aws_world \<Rightarrow> bool" where
  "careful E g w w' \<longleftrightarrow>
     (\<exists>l. aw_log w' = aw_log w @ l
        \<and> (\<forall>i st source now a. i < length l \<longrightarrow> l ! i = (On_table (Op_remove st source now), a)
             \<longrightarrow> found_gone E g (aw_log w @ take i l) st))"

lemma careful_trans: "careful E g w w1 \<Longrightarrow> careful E g w1 w2 \<Longrightarrow> careful E g w w2"
proof -
  assume "careful E g w w1" "careful E g w1 w2"
  then obtain l1 l2 where l: "aw_log w1 = aw_log w @ l1" "aw_log w2 = (aw_log w @ l1) @ l2"
    and 1: "\<forall>i st source now a. i < length l1 \<longrightarrow> l1 ! i = (On_table (Op_remove st source now), a)
             \<longrightarrow> found_gone E g (aw_log w @ take i l1) st"
    and 2: "\<forall>i st source now a. i < length l2 \<longrightarrow> l2 ! i = (On_table (Op_remove st source now), a)
             \<longrightarrow> found_gone E g ((aw_log w @ l1) @ take i l2) st"
    unfolding careful_def by fastforce
  have "found_gone E g (aw_log w @ take i (l1 @ l2)) st"
    if "i < length (l1 @ l2)" "(l1 @ l2) ! i = (On_table (Op_remove st source now), a)" for i st source now a
  proof (cases "i < length l1")
    case True
    with 1 that show ?thesis by (auto simp: nth_append)
  next
    case False
    with 2 [rule_format, of "i - length l1" st source now a] that show ?thesis by (auto simp: nth_append)
  qed
  with l show ?thesis unfolding careful_def by (intro exI [of _ "l1 @ l2"]) auto
qed

interpretation careful: effect_preorder "careful E g"
proof unfold_locales
  show "careful E g w w" for w by (simp add: careful_def)
  show "careful E g w w'" if "careful E g w w1" "careful E g w1 w'" for w w1 w' using that by (rule careful_trans)
qed

lemma careful_same_log: "(\<And>w r w'. m w = (r, w') \<Longrightarrow> aw_log w' = aw_log w) \<Longrightarrow> always (careful E g) m"
  by (simp add: always_def careful_def)

lemma careful_reads: "always only_reads m \<Longrightarrow> always (careful E g) m"
proof (rule always_mono)
  fix w w' assume "only_reads w w'"
  then obtain l where l: "aw_log w' = aw_log w @ l" "list_all is_called l" by (auto simp: only_reads_def)
  then have "l ! i \<noteq> (On_table op, a)" if "i < length l" for i op a
    using that by (auto simp: list_all_length is_called_def)
  with l(1) show "careful E g w w'" unfolding careful_def by blast
qed

lemma careful_at_table: "always (careful E g) (at_table m)"
  by (rule careful_same_log) (auto simp: at_table_def split: prod.splits)

lemma careful_clock: "always (careful E g) (utc_now E')"
  unfolding utc_now_def by (rule careful.always_readM)

lemma careful_table_op: "(\<And>st source now. op \<noteq> Op_remove st source now) \<Longrightarrow> always (careful E g) (table_op op m)"
  by (auto simp: always_def careful_def table_op_def split: prod.splits)

lemma careful_ops:
  "always (careful E g) (reconcile_op E' ss t source now)" "always (careful E g) (confirm_op E' st t now)"
  "always (careful E g) (claim_op E' sid now ttl)" "always (careful E g) (release_op E' sid)"
  unfolding reconcile_op_def confirm_op_def claim_op_def release_op_def by (rule careful_table_op; simp)+

lemma careful_validate: "always (careful E g) (validate_ownership E' g' tid gen)"
  unfolding validate_ownership_def validate_live_def unless_decided_def conclude_def
  by (intro careful.always_rules careful_at_table always_intro careful_reads [OF reads_parts(1)]
      careful_reads [OF reads_parts(2)] careful_reads [OF reads_parts(4)])

text \<open>A removal after a check that found the target gone.\<close>

lemma careful_removal:
  assumes "\<And>r. always (careful E g) (k r)" "\<And>v. always (careful E g) (f v)"
  shows "always (careful E g) (bindM (validate_ownership E g (ts_target_id st) (ts_generation st)) (\<lambda>v.
     if ov_verdict v \<in> {OV_inactive, OV_moved} then bindM (remove_op E ss st source now) k else f v))"
proof (rule alwaysI)
  fix w r w'
  assume run: "bindM (validate_ownership E g (ts_target_id st) (ts_generation st)) (\<lambda>v.
     if ov_verdict v \<in> {OV_inactive, OV_moved} then bindM (remove_op E ss st source now) k else f v) w = (r, w')"
  obtain r1 w1 where 1: "validate_ownership E g (ts_target_id st) (ts_generation st) w = (r1, w1)" by fastforce
  have c1: "careful E g w w1" using alwaysD [OF careful_validate 1] .
  show "careful E g w w'"
  proof (cases r1)
    case (Inl e)
    with run 1 c1 show ?thesis by (auto simp: bindM_def)
  next
    case (Inr v)
    show ?thesis
    proof (cases "ov_verdict v \<in> {OV_inactive, OV_moved}")
      case False
      with run 1 Inr have "f v w1 = (r, w')" by (auto simp: bindM_def)
      then show ?thesis using c1 alwaysD [OF assms(2)] careful_trans by blast
    next
      case True
      obtain r2 w2 where 2: "remove_op E ss st source now w1 = (r2, w2)" by fastforce
      have "found_gone E g (aw_log w1) st" unfolding found_gone_def using 1 Inr True by blast
      with 2 have c2: "careful E g w1 w2"
        by (auto simp: careful_def remove_op_def table_op_def split: prod.splits)
      have "careful E g w2 w'"
      proof (cases r2)
        case (Inl e)
        with run 1 Inr True 2 show ?thesis by (auto simp: bindM_def intro: careful.refl)
      next
        case i: (Inr x)
        with run 1 Inr True 2 have "k x w2 = (r, w')" by (auto simp: bindM_def)
        with alwaysD [OF assms(1)] show ?thesis by blast
      qed
      with c1 c2 show ?thesis using careful_trans by blast
    qed
  qed
qed

section \<open>The reads of the handlers\<close>

lemma reads_paginate: "always only_reads (paginate_enis n E args token used acc)"
proof (induction n arbitrary: token used acc)
  case 0
  show ?case by (simp add: reads.always_raiseM)
next
  case (Suc n)
  show ?case unfolding paginate_enis.simps Let_def by (intro reads_intros Suc)
qed

lemma reads_fetch: "always only_reads (fetch_pages n E call read args token used acc)"
proof (induction n arbitrary: token used acc)
  case 0
  show ?case by (simp add: reads.always_returnM)
next
  case (Suc n)
  show ?case unfolding fetch_pages.simps Let_def by (intro reads_intros Suc)
qed

lemma reads_resolution: "always only_reads (resolve E r h)"
proof -
  have p: "always only_reads (enis_if_named E r name ids)" for name ids
    unfolding enis_if_named_def enis_by_filter_def by (intro reads_intros reads_paginate)
  show ?thesis
    unfolding resolve_def read_resolution_def address_eni_ids_def read_addresses_def read_eni_ids_def read_chunk_def
      read_single_def security_groups_def read_groups_def instance_states_def read_instances_def Let_def
    by (intro reads_intros p)
qed

lemma reads_collect: "always only_reads (ec2_collect E b)" "always only_reads (config_collect E b')"
  unfolding ec2_collect_def config_collect_def ec2_fetch_def fetch_records_def
  by (intro reads_intros reads_fetch)+

lemma always_partial_batch:
  assumes "\<And>x. always (careful E g) (f x)"
  shows "always (careful E g) (partial_batch f records)"
  unfolding partial_batch_def batch_record_def by (intro careful.always_rules always_attempt always_intro assms)

section \<open>The handlers\<close>

lemmas careful_intros = careful.always_rules careful_ops careful_at_table careful_clock careful_validate always_attempt always_intro

lemma careful_signal: "always (careful E (sc_gate c)) (signal_process E c event)"
proof -
  have cand: "always (careful E (sc_gate c)) (signal_candidate E c h now source resolved n st)" for h now source resolved n st
    unfolding signal_candidate_def
    by (intro always_if careful.always_returnM careful_removal) (auto split: ownership_verdict.splits intro!: careful_intros)
  have apply_ok: "always (careful E (sc_gate c)) (apply_signal E c h now ts)" for h now ts
    unfolding apply_signal_def signal_target_def by (intro careful_intros cand)
  show ?thesis
    unfolding signal_process_def process_signal_def process_hint_def claimed_signal_def
    by (intro careful_intros apply_ok careful_reads [OF reads_resolution])
qed

lemma careful_signal_handler: "always (careful E (sc_gate c)) (signal_handler E c event)"
  unfolding signal_handler_def
  by (auto split: json.splits intro!: careful.always_rules always_partial_batch careful_signal)

lemma careful_reconcile_snapshot:
  assumes "always only_reads collect"
  shows "always (careful E g) (reconcile_snapshot E ss g collect q)"
proof -
  have n: "always (careful E g) (count_action acts a)" for acts a
    unfolding count_action_def by (intro careful_intros)
  have l: "always (careful E g) (reconcile_live E ss scope now t)" for scope now t
    unfolding reconcile_live_def by (intro careful_intros)
  have r: "always (careful E g) (revalidate_observed E ss g scope now source t st)" for scope now source t st
    unfolding revalidate_observed_def by (intro careful_removal careful_intros l)
  have o: "always (careful E g) (observe_target E ss g scope now source acc t)" for scope now source acc t
    unfolding observe_target_def by (auto split: prod.splits reconcile_action.splits option.splits intro!: careful_intros r n)
  have a: "always (careful E g) (absent_target E ss g scope now source allowed observed acc st)" for scope now source allowed observed acc st
    unfolding absent_target_def by (intro always_if careful.always_returnM careful_removal careful_intros l n)
  show ?thesis
    unfolding reconcile_snapshot_def
    by (intro careful_intros careful_reads [OF assms] o a)
qed

lemma careful_snapshot: "always (careful E (gate_of s)) (snapshot_process E ss s home request)"
proof -
  have e: "always (careful E (gate_of s)) (ec2_snapshot E ss s account q acc reg)" for account q acc reg
    unfolding ec2_snapshot_def
    by (intro careful_intros careful_reads [OF reads_client] careful_reconcile_snapshot reads_collect)
  show ?thesis
    unfolding snapshot_process_def Let_def
    by (intro careful_intros careful_reads [OF reads_ask] careful_reconcile_snapshot reads_collect e)
qed

lemma careful_snapshot_handler: "always (careful E (gate_of s)) (snapshot_handler E ss s home event)"
  unfolding snapshot_handler_def
  by (auto split: json.splits intro!: careful.always_rules always_partial_batch careful_snapshot)

end
