(* ===== verification/Handler_Guarantees.thy ===== *)
theory Handler_Guarantees
  imports Inventory_Removal Ownership_Guarantees
begin

text \<open>
  A concrete snapshot: the table holds one target, EC2 lists no interface, group or instance in the
  Region, and has no interface of that identifier. Digests stay symbolic.
\<close>

definition hd_answer :: "nat \<Rightarrow> aws_call \<Rightarrow> inv_error + json" where
  "hd_answer n call =
     (case call of
        Describe_network_interfaces v \<Rightarrow>
          if obj_get ''NetworkInterfaceIds'' v = None then Inr (JObj []) else Inl (Inv_aws ''InvalidNetworkInterfaceID.NotFound'' None)
      | _ \<Rightarrow> Inr (JObj []))"

definition hd_env :: aws_env where
  "hd_env = \<lparr>ae_table = iv_env, ae_answer = hd_answer, ae_clock = (\<lambda>n. 1000)\<rparr>"

definition hd_settings :: settings where
  "hd_settings =
     \<lparr>se_state_table = ''targets'', se_event_bucket = ''events'', se_event_prefix = '''', se_priority_queue_url = ''q1'',
      se_coverage_queue_url = ''q2'', se_target_event_queue_url = ''q3'', se_snapshot_backend = ''ec2'',
      se_config_aggregator_name = None, se_account_id = Some ''123456789012'', se_authorized_account_ids = [''123456789012''],
      se_regions = [''us-west-2''], se_canary_mode = False, se_managed_canary = None, se_discovery_role_arn_template = None,
      se_external_id = None, se_allowed_tag_keys = [], se_allowed_target_cidrs = [], se_denied_target_cidrs = [],
      se_allowed_eni_interface_types = [], se_required_target_tag_key = None, se_required_target_tag_value = None,
      se_snapshot_max_pages = 10, se_signal_dedupe_seconds = 60, se_outbox_ttl_seconds = 60, se_outbox_replay_batch_size = 10,
      se_rescan_bucket_seconds = 60, se_max_signal_port_ranges = 10, se_max_signal_ports = 100\<rparr>"

definition hd_scope :: snapshot_scope where
  "hd_scope = \<lparr>ss_source = ''ec2'', ss_account_id = Some ''123456789012'', ss_region = Some ''us-west-2'', ss_name = None\<rparr>"

definition hd_store :: state_store where
  "hd_store = \<lparr>sto_outbox_ttl_seconds = 60, sto_max_retries = 3\<rparr>"

definition hd_backend :: ec2_backend where
  "hd_backend = \<lparr>eb_scope = hd_scope, eb_gate = gate_of hd_settings, eb_page_size = 500, eb_max_pages = 10\<rparr>"

definition hd_request :: snapshot_request where
  "hd_request = \<lparr>sq_now = 1000, sq_target = None, sq_require_exact = False,
     sq_target_allowed = Some (settings_allow hd_settings), sq_managed_canary = None\<rparr>"

lemma hd_backend: "ec2_backend (gate_of hd_settings) ''123456789012'' ''us-west-2'' 500 10 = Inr hd_backend"
  by code_simp

lemma hd_checked: "snapshot_checked hd_settings (JObj []) = Inr (None, None, ''123456789012'', None)"
  by (simp add: snapshot_checked_def snapshot_subject_def requested_target_def requested_account_def requested_region_def
      vfield_def hd_settings_def account_authorized_def jopt_def)

lemma hd_allowed: "settings_allow hd_settings ''192.0.2.7''"
  by (simp add: settings_allow_def hd_settings_def gd_addresses)

lemma hd_collect: "\<exists>w'. ec2_collect hd_env hd_backend w
    = (Inr \<lparr>sb_scope = hd_scope, sb_targets = [], sb_completion = Scope_complete, sb_pages = 3, sb_malformed = 0, sb_failure_code = None\<rparr>, w')
    \<and> aw_table w' = aw_table w"
proof -
  have f: "\<exists>w'. ec2_fetch hd_env hd_backend call key w = (Inr (nothing_fetched\<lparr>fe_pages := 1\<rparr>), w') \<and> aw_table w' = aw_table w"
    if "\<And>n. hd_answer n (call (JObj [(''MaxResults'', JInt 500)])) = Inr (JObj [])" for call key w
  proof -
    have "ask hd_env (call (JObj [(''MaxResults'', JInt 500)])) w
        = (Inr (JObj []), w\<lparr>aw_log := aw_log w @ [(Called (call (JObj [(''MaxResults'', JInt 500)])), Inr (JObj []))]\<rparr>)"
      using that by (simp add: ask_def hd_env_def Let_def)
    then show ?thesis
      by (simp add: ec2_fetch_def hd_backend_def eval_nat_numeral page_request_def bindM_def attempt_def liftM_def read_objects_def
          objects_of_def members_of_def is_obj_def nothing_fetched_def vfield_def returnM_def Let_def)
  qed
  obtain w1 where 1: "ec2_fetch hd_env hd_backend Describe_security_groups ''SecurityGroups'' w = (Inr (nothing_fetched\<lparr>fe_pages := 1\<rparr>), w1)"
    "aw_table w1 = aw_table w" using f [of Describe_security_groups] by (fastforce simp: hd_answer_def)
  obtain w2 where 2: "ec2_fetch hd_env hd_backend Describe_network_interfaces ''NetworkInterfaces'' w1 = (Inr (nothing_fetched\<lparr>fe_pages := 1\<rparr>), w2)"
    "aw_table w2 = aw_table w1" using f [of Describe_network_interfaces] by (fastforce simp: hd_answer_def)
  obtain w3 where 3: "ec2_fetch hd_env hd_backend Describe_instances ''Reservations'' w2 = (Inr (nothing_fetched\<lparr>fe_pages := 1\<rparr>), w3)"
    "aw_table w3 = aw_table w2" using f [of Describe_instances] by (fastforce simp: hd_answer_def)
  show ?thesis
    using 1 2 3 by (simp add: ec2_collect_def bindM_def nothing_fetched_def ec2_groups_def ec2_instances_def liftM_def
        first_failure_def nonempty_def finished_batch_def batch_checked_def in_key_order_def hd_backend_def)
qed

lemma hd_source: "\<exists>source. snapshot_source hd_scope 1000 None = Inr source"
proof -
  have "py_strip ''portscanner.inventory.snapshot.v1'' = ''portscanner.inventory.snapshot.v1''"
    "py_strip ''portscanner.inventory.snapshot-request.v1'' = ''portscanner.inventory.snapshot-request.v1''"
    by code_simp+
  then show ?thesis by (simp add: snapshot_source_def deterministic_sha256_def contract_def Let_def split: sum.splits)
qed

lemma hd_known: "list_current iv_env (Some hd_scope) \<lparr>iw_store = od_store, iw_calls = n\<rparr>
    = (Inr [od_state], \<lparr>iw_store = od_store, iw_calls = Suc n\<rparr>)"
proof -
  have e: "attribute_text od_row ''entity'' = Some ''target''"
    by (simp add: od_row_def state_item_def od_state_def attribute_text_def)
  have s: "scope_includes hd_scope ''123456789012'' ''us-west-2''" by code_simp
  show ?thesis
    by (simp add: list_current_def iv_env_def db_call_def bindM_def liftM_def od_store_def e od_decodes od_durable returnM_def Let_def)
      (simp add: od_state_def od_stored_def od_target_def iv_target_def s)
qed

text \<open>The check of the one target that the table holds, and the snapshot that removes it.\<close>

lemma hd_gone: "\<exists>v w'. validate_ownership hd_env g (ts_target_id od_state) (ts_generation od_state) w = (Inr v, w')
    \<and> ov_verdict v = OV_inactive"
  if t: "table_of w = od_store"
proof -
  obtain n where n: "aw_table w = \<lparr>iw_store = od_store, iw_calls = n\<rparr>" using t by (cases "aw_table w") auto
  have id: "ts_target_id od_state = nt_target_id iv_target" "ts_generation od_state = 1" "ts_status od_state = ''active''"
    by (simp_all add: od_state_def)
  have nf: "is_not_found (Inv_aws ''InvalidNetworkInterfaceID.NotFound'' None)" by code_simp
  show ?thesis
    by (simp add: validate_ownership_def validate_live_def unless_decided_def read_interface_def id bindM_def at_table_def n
        hd_env_def od_get current_state_matches_def attempt_def ec2_client_def ask_def hd_answer_def Let_def returnM_def id_list_def
        describe_failure_def nf refused_def)
qed

lemma hd_absent: "\<exists>r w' st source now a l. absent_target hd_env hd_store (gate_of hd_settings) hd_scope 1000 src
    (Some (settings_allow hd_settings)) [] acc od_state w = (r, w')
    \<and> aw_log w' = l @ [(On_table (Op_remove st source now), a)] \<and> length (aw_log w) \<le> length l"
  if t: "table_of w = od_store"
proof -
  obtain v w1 where v: "validate_ownership hd_env (gate_of hd_settings) (ts_target_id od_state) (ts_generation od_state) w = (Inr v, w1)"
    "ov_verdict v = OV_inactive" using hd_gone [OF t] by blast
  obtain k where k: "aw_log w1 = aw_log w @ k" using alwaysD [OF careful_validate [of hd_env "gate_of hd_settings"] v(1)] unfolding careful_def by blast
  obtain r2 w2 where 2: "remove_op hd_env hd_store od_state src 1000 w1 = (r2, w2)" by fastforce
  then obtain a where a: "aw_log w2 = aw_log w1 @ [(On_table (Op_remove od_state src 1000), a)]"
    by (auto simp: remove_op_def table_op_def split: prod.splits)
  have p: "nt_public_ip (ts_target od_state) = ''192.0.2.7''"
    by (simp add: od_state_def od_stored_def od_target_def iv_target_def)
  have "\<exists>r. absent_target hd_env hd_store (gate_of hd_settings) hd_scope 1000 src
    (Some (settings_allow hd_settings)) [] acc od_state w = (r, w2)"
    using v 2 by (auto simp: absent_target_def out_of_scope_def p hd_allowed bindM_def count_action_def returnM_def raiseM_def split: sum.splits)
  with a k show ?thesis by (metis le_add1 length_append)
qed

lemma hd_removes: "\<exists>r w' st source now a l. snapshot_handler hd_env hd_store hd_settings ''us-west-2'' (JObj []) od_world = (r, w')
    \<and> aw_log w' = l @ [(On_table (Op_remove st source now), a)]"
proof -
  obtain src where src: "snapshot_source hd_scope 1000 None = Inr src" using hd_source by blast
  obtain w0 where w0: "ec2_client hd_env ''123456789012'' ''us-west-2'' od_world = (Inr (), w0)" "aw_table w0 = aw_table od_world"
    by (simp add: ec2_client_def ask_def hd_env_def hd_answer_def bindM_def returnM_def Let_def)
  obtain w1 where w1: "ec2_collect hd_env hd_backend w0
    = (Inr \<lparr>sb_scope = hd_scope, sb_targets = [], sb_completion = Scope_complete, sb_pages = 3, sb_malformed = 0, sb_failure_code = None\<rparr>, w1)"
    "aw_table w1 = aw_table w0" using hd_collect by blast
  define w2 where "w2 = w1\<lparr>aw_table := \<lparr>iw_store = od_store, iw_calls = 1\<rparr>\<rparr>"
  have known: "at_table (list_current iv_env (Some hd_scope)) w1 = (Inr [od_state], w2)"
    using w0(2) w1(2) hd_known [of 0] by (simp add: at_table_def od_world_def w2_def)
  obtain r3 w3 st source now a l where 3: "absent_target hd_env hd_store (gate_of hd_settings) hd_scope 1000 src
    (Some (settings_allow hd_settings)) [] (0, []) od_state w2 = (r3, w3)"
    "aw_log w3 = l @ [(On_table (Op_remove st source now), a)]" using hd_absent [of w2 src "(0, [])"] by (auto simp: w2_def)
  have r: "\<exists>r. reconcile_snapshot hd_env hd_store (gate_of hd_settings) (ec2_collect hd_env hd_backend) hd_request w0 = (r, w3)"
    using w1(1) src known 3(1)
    by (cases r3) (simp_all add: reconcile_snapshot_def hd_request_def bindM_def liftM_def selected_targets_def returnM_def hd_env_def
        case_prod_unfold)
  have e: "se_snapshot_max_pages hd_settings = 10" "se_regions hd_settings = [''us-west-2'']" "se_snapshot_backend hd_settings = ''ec2''"
    "se_canary_mode hd_settings = False"
    by (simp_all add: hd_settings_def)
  have "\<exists>r. snapshot_process hd_env hd_store hd_settings ''us-west-2'' (JObj []) od_world = (r, w3)"
    using w0(1) r
    by (auto simp: snapshot_process_def utc_now_def readM_def bindM_def hd_checked e ec2_snapshot_def hd_backend liftM_def returnM_def
        hd_request_def Let_def split: sum.splits prod.splits) (simp_all add: hd_env_def)
  then have "\<exists>r. snapshot_handler hd_env hd_store hd_settings ''us-west-2'' (JObj []) od_world = (r, w3)"
    by (auto simp: snapshot_handler_def vfield_def bindM_def returnM_def split: sum.splits prod.splits)
  with 3(2) show ?thesis by blast
qed

text \<open>
  What the handlers of signals and snapshots guarantee: absence alone removes nothing, and the ports of a signal are
  those of its permissions.
\<close>

section \<open>Removals\<close>

text \<open>
  C15. Neither the handler of control-plane signals nor the handler of snapshots removes a target because it was
  absent from an answer. Whatever the message, whatever EC2, AWS Config and the table answer, and however
  the run ends: right before each removal that the run asks of the state table, the run
  validated the ownership of that same target at that same generation, and the verdict was inactive or moved. The log
  of the run up to the removal ends with that validation.
\<close>

theorem removals_follow_a_live_check:
  assumes "(\<exists>c event r. sc_gate c = g \<and> signal_handler E c event w = (r, w'))
      \<or> (\<exists>ss s home event r. gate_of s = g \<and> snapshot_handler E ss s home event w = (r, w'))"
    and "aw_log w' = aw_log w @ l" "i < length l" "l ! i = (On_table (Op_remove st source now), a)"
  shows "\<exists>v w1 w2. validate_ownership E g (ts_target_id st) (ts_generation st) w1 = (Inr v, w2)
    \<and> aw_log w2 = aw_log w @ take i l \<and> (ov_verdict v = OV_inactive \<or> ov_verdict v = OV_moved)"
proof -
  have "careful E g w w'"
    using assms(1) alwaysD [OF careful_signal_handler] alwaysD [OF careful_snapshot_handler] by blast
  then have "found_gone E g (aw_log w @ take i l) st" using assms(2-) by (auto simp: careful_def)
  then show ?thesis by (auto simp: found_gone_def)
qed

theorem removals_follow_a_live_check_witness:
  "\<exists>r w' st source now a l v w1 w2. snapshot_handler hd_env hd_store hd_settings ''us-west-2'' (JObj []) od_world = (r, w')
     \<and> aw_log w' = l @ [(On_table (Op_remove st source now), a)]
     \<and> validate_ownership hd_env (gate_of hd_settings) (ts_target_id st) (ts_generation st) w1 = (Inr v, w2)
     \<and> aw_log w2 = l \<and> (ov_verdict v = OV_inactive \<or> ov_verdict v = OV_moved)"
proof -
  obtain r w' st source now a l where
    run: "snapshot_handler hd_env hd_store hd_settings ''us-west-2'' (JObj []) od_world = (r, w')"
    and log: "aw_log w' = l @ [(On_table (Op_remove st source now), a)]" using hd_removes by blast
  have "\<exists>v w1 w2. validate_ownership hd_env (gate_of hd_settings) (ts_target_id st) (ts_generation st) w1 = (Inr v, w2)
      \<and> aw_log w2 = aw_log od_world @ take (length l) (l @ [(On_table (Op_remove st source now), a)])
      \<and> (ov_verdict v = OV_inactive \<or> ov_verdict v = OV_moved)"
    by (rule removals_follow_a_live_check [where w' = w'])
      (use run log in \<open>auto simp: od_world_def\<close>)
  then have "\<exists>v w1 w2. validate_ownership hd_env (gate_of hd_settings) (ts_target_id st) (ts_generation st) w1 = (Inr v, w2)
      \<and> aw_log w2 = l \<and> (ov_verdict v = OV_inactive \<or> ov_verdict v = OV_moved)" by (simp add: od_world_def)
  with run log show ?thesis by blast
qed

section \<open>Ports of a signal\<close>

lemma permission_range_Some:
  "permission_range p = Some rs \<Longrightarrow> rs = [] \<or> (\<exists>s e. rs = [(s, e)] \<and> 1 \<le> s \<and> s \<le> e \<and> e \<le> 65535)"
  by (auto simp: permission_range_def Let_def split: if_splits option.splits)

lemma all_some_Some: "all_some xs = Some ys \<longleftrightarrow> xs = map Some ys"
proof (induction xs arbitrary: ys)
  case (Cons x xs)
  show ?case
  proof (cases x)
    case (Some a)
    then show ?thesis using Cons by (cases ys; cases "all_some xs") auto
  qed auto
qed auto

lemma permission_ranges_mem:
  assumes "permission_ranges ps = Some rs"
  shows "r \<in> set rs \<longleftrightarrow> (\<exists>p. p \<in> set ps \<and> permission_range p = Some [r])"
proof -
  obtain rss where rss: "map permission_range ps = map Some rss" "rs = concat rss"
    using assms by (auto simp: permission_ranges_def all_some_Some)
  have "set rss = {x. \<exists>p \<in> set ps. permission_range p = Some x}"
    using arg_cong [where f = set, OF rss(1)] by (force simp: image_iff)
  then show ?thesis using rss(2) permission_range_Some by fastforce
qed

lemma permission_ranges_read: "permission_ranges ps = Some rs \<Longrightarrow> None \<notin> permission_range ` set ps"
proof -
  assume "permission_ranges ps = Some rs"
  then obtain rss where "map permission_range ps = map Some rss" by (auto simp: permission_ranges_def all_some_Some)
  from arg_cong [where f = set, OF this] show ?thesis by auto
qed

text \<open>
  C39. The candidate ports of an ingress change never raise, and they are never fewer than the change may have
  opened: either they are the full TCP range, or every permission of the request was read, a port is among the candidates exactly when a TCP
  permission of the request covers it, and they keep to the configured number of ranges and of ports, sorted and with
  gaps, as the event contract wants its ranges.
\<close>

theorem signal_ports_exact:
  "\<exists>cp. candidate_tcp_ports max_ranges max_ports request = Inr cp
     \<and> (cp = full_candidate
        \<or> (\<exists>ps. permission_items request = Some ps \<and> ps \<noteq> [] \<and> None \<notin> permission_range ` set ps
             \<and> (\<forall>q. q \<in> pair_ports (cp_ranges cp) \<longleftrightarrow> (\<exists>p s e. p \<in> set ps \<and> permission_range p = Some [(s, e)] \<and> s \<le> q \<and> q \<le> e))
             \<and> pair_ports (cp_ranges cp) \<subseteq> {1..65535}
             \<and> gapped (contract_ranges cp) \<and> cp_ranges cp \<noteq> []
             \<and> int (length (cp_ranges cp)) \<le> max_ranges \<and> int (card (pair_ports (cp_ranges cp))) \<le> max_ports))"
proof (cases "permission_items request")
  case None
  then show ?thesis by (simp add: candidate_tcp_ports_def)
next
  case (Some ps)
  show ?thesis
  proof (cases "permission_ranges ps")
    case None
    then show ?thesis using Some by (simp add: candidate_tcp_ports_def)
  next
    case rs: (Some rs)
    let ?m = "merge_ranges rs"
    have b: "r \<in> set rs \<Longrightarrow> 1 \<le> fst r \<and> fst r \<le> snd r \<and> snd r \<le> 65535" for r
      using permission_ranges_mem [OF rs] permission_range_Some by fastforce
    note exact = merge_ranges_exact [of rs, OF b, simplified]
    show ?thesis
    proof (cases "ps = [] \<or> rs = [] \<or> int (length ?m) > max_ranges
        \<or> sum_list (map (\<lambda>(start, stop). stop - start + 1) ?m) > max_ports")
      case True
      then show ?thesis using Some rs by (auto simp: candidate_tcp_ports_def Let_def)
    next
      case False
      have ne: "?m \<noteq> []" using exact(2) b False by (cases rs) (force simp: pair_ports_def)+
      have loop: "candidate_loop 0 ?m = Inr ()"
        by (rule gapped_candidate_loop [OF exact(1)]) (use exact(3) [OF hd_in_set [OF ne]] exact(3) in auto)
      then have "candidate_tcp_ports max_ranges max_ports request = Inr \<lparr>cp_ranges = ?m, cp_full_tcp = False\<rparr>"
        using Some rs False by (simp add: candidate_tcp_ports_def candidate_ports_def Let_def)
      moreover have "q \<in> pair_ports ?m \<longleftrightarrow> (\<exists>p s e. p \<in> set ps \<and> permission_range p = Some [(s, e)] \<and> s \<le> q \<and> q \<le> e)" for q
        using permission_ranges_mem [OF rs] unfolding exact(2) by (fastforce simp: pair_ports_def)
      moreover have "pair_ports ?m \<subseteq> {1..65535}" using exact(3) by (fastforce simp: pair_ports_def)
      moreover have "None \<notin> permission_range ` set ps"
        by (rule permission_ranges_read [OF rs])
      moreover have "gapped (contract_ranges \<lparr>cp_ranges = ?m, cp_full_tcp = False\<rparr>)"
        using exact(1) by (simp add: contract_ranges_def as_range_def [abs_def] case_prod_unfold)
      moreover have "int (card (pair_ports ?m)) \<le> max_ports" using card_pair_ports [OF exact(1)] exact(3) False by fastforce
      ultimately show ?thesis using Some False ne by auto
    qed
  qed
qed

end
