(* ===== verification/Parser_Handoff.thy ===== *)
theory Parser_Handoff
  imports Parser_Repository Pyvalue
begin

text \<open>
  The world of the parser's handlers, and the publication of the finding outbox
  (\<^verbatim>\<open>parser/.../handoff.py\<close>). The environment chooses the answers of S3, whether the database answers,
  and what other workers do to the database between two operations of this one. The log keeps every
  request with its answer, and every operation on the outbox that took effect.
\<close>

section \<open>The world\<close>

datatype outside_error =
    Client_error string "int option"      \<comment> \<open>\<^verbatim>\<open>ClientError\<close> with its code and its HTTP status\<close>
  | Botocore_error string
  | Os_error string
  | Psycopg_error string
  | Other_exception string

datatype run_error =
    Permanent string
  | Retryable string
  | Publish_error string
  | Repository_error parser_error
  | Outside outside_error
  | Run_killed

record s3_put =
  pu_bucket :: string
  pu_key :: string
  pu_body :: string
  pu_sha256 :: string

record s3_get =
  gt_bucket :: string
  gt_key :: string
  gt_if_match :: "string option"
  gt_version :: "string option"

text \<open>A body delivers its bytes, and then ends or fails.\<close>

datatype object_body = Body "nat list" "outside_error option"

record object_response =
  or_body :: "object_body option"
  or_version :: json
  or_etag :: json
  or_length :: json

datatype db_fault =
    Db_works
  | Db_refuses          \<comment> \<open>no effect, \<^verbatim>\<open>psycopg.Error\<close>\<close>
  | Db_forgets          \<comment> \<open>the effect, and then \<^verbatim>\<open>psycopg.Error\<close>\<close>

datatype happening =
    Stored s3_put "outside_error + unit"
  | Looked_up string string "outside_error + json"
  | Fetched s3_get
  | Listed "(string \<times> handoff_row) list"
  | Attempted string
  | Noted_error string string
  | Published string
  | Ran_other
  | Db_failed

record parser_env =
  pn_put :: "nat \<Rightarrow> s3_put \<Rightarrow> outside_error + unit"
  pn_head :: "nat \<Rightarrow> string \<Rightarrow> string \<Rightarrow> outside_error + json"
  pn_get :: "nat \<Rightarrow> s3_get \<Rightarrow> outside_error + object_response"
  pn_fault :: "nat \<Rightarrow> db_fault"
  pn_others :: "nat \<Rightarrow> db \<Rightarrow> db"
  pn_rounds :: nat

record parser_world =
  pw_db :: db
  pw_log :: "happening list"

type_synonym 'a run = "(parser_world, run_error, 'a) eff"

definition noted :: "(nat \<Rightarrow> outside_error + 'a) \<Rightarrow> (outside_error + 'a \<Rightarrow> happening) \<Rightarrow> 'a run" where
  "noted answer entry w =
     (let r = answer (length (pw_log w))
      in (case r of Inl e \<Rightarrow> Inl (Outside e) | Inr x \<Rightarrow> Inr x, w\<lparr>pw_log := pw_log w @ [entry r]\<rparr>))"

definition put_object :: "parser_env \<Rightarrow> s3_put \<Rightarrow> unit run" where
  "put_object E q = noted (\<lambda>n. pn_put E n q) (Stored q)"

definition head_object :: "parser_env \<Rightarrow> string \<Rightarrow> string \<Rightarrow> json run" where
  "head_object E bucket key = noted (\<lambda>n. pn_head E n bucket key) (Looked_up bucket key)"

definition get_object :: "parser_env \<Rightarrow> s3_get \<Rightarrow> object_response run" where
  "get_object E q = noted (\<lambda>n. pn_get E n q) (\<lambda>_. Fetched q)"

text \<open>An operation of the repository, each in its own transaction.\<close>

definition db_op :: "parser_env \<Rightarrow> ('a \<Rightarrow> happening) \<Rightarrow> 'a repo \<Rightarrow> 'a run" where
  "db_op E entry m w =
     (let s = pn_others E (length (pw_log w)) (pw_db w);
          fault = pn_fault E (length (pw_log w));
          (r, s') = (if fault = Db_refuses then (Inl (Database_error ''refused''), s) else m s)
      in (case r of
            Inl e \<Rightarrow> Inl (if fault = Db_works then Repository_error e else Outside (Psycopg_error ''OperationalError''))
          | Inr x \<Rightarrow> if fault = Db_works then Inr x else Inl (Outside (Psycopg_error ''OperationalError'')),
          w\<lparr>pw_db := s', pw_log := pw_log w @ [case r of Inl _ \<Rightarrow> Db_failed | Inr x \<Rightarrow> entry x]\<rparr>))"

text \<open>\<^verbatim>\<open>except Exception\<close>: everything but the end of the worker.\<close>

definition tried :: "'a run \<Rightarrow> (run_error + 'a) run" where
  "tried m w = (case m w of (r, w') \<Rightarrow> (if r = Inl Run_killed then Inl Run_killed else Inr r, w'))"

section \<open>Publication\<close>

fun class_name :: "run_error \<Rightarrow> string" where
  "class_name (Outside (Client_error _ _)) = ''ClientError''"
| "class_name (Outside (Botocore_error n)) = n"
| "class_name (Outside (Os_error n)) = n"
| "class_name (Outside (Psycopg_error n)) = n"
| "class_name (Outside (Other_exception n)) = n"
| "class_name _ = ''Exception''"

definition handoff_put :: "handoff_row \<Rightarrow> s3_put" where
  "handoff_put h = \<lparr>pu_bucket = ho_object_bucket h, pu_key = ho_object_key h, pu_body = dumps (ho_payload h),
     pu_sha256 = py_strip (ho_payload_sha256 h)\<rparr>"

definition metadata_matches :: "string \<Rightarrow> json \<Rightarrow> bool" where
  "metadata_matches expected response \<longleftrightarrow>
     vfield (py_or (vfield response ''Metadata'') (JObj [])) ''payload-sha256'' = JStr expected"

definition existing_object_matches :: "parser_env \<Rightarrow> handoff_row \<Rightarrow> bool run" where
  "existing_object_matches E h =
     bindM (head_object E (ho_object_bucket h) (ho_object_key h)) (\<lambda>response.
     returnM (metadata_matches (py_strip (ho_payload_sha256 h)) response))"

definition note_failure :: "parser_env \<Rightarrow> string \<Rightarrow> string \<Rightarrow> string \<Rightarrow> 'a run" where
  "note_failure E key ecode message =
     bindM (db_op E (\<lambda>_. Noted_error key ecode) (record_handoff_error key ecode)) (\<lambda>_. raiseM (Publish_error message))"

text \<open>What follows a failed upload; only an object that exists already may still be the right one.\<close>

definition after_failed_put :: "parser_env \<Rightarrow> string \<Rightarrow> handoff_row \<Rightarrow> run_error \<Rightarrow> unit run" where
  "after_failed_put E key h e =
     (case e of
        Outside (Client_error ecode status) \<Rightarrow>
          if status = Some 412
          then bindM (tried (existing_object_matches E h)) (\<lambda>r.
            case r of
              Inl e' \<Rightarrow> note_failure E key (class_name e') ''existing finding object verification failed''
            | Inr matches \<Rightarrow>
                if matches then returnM ()
                else note_failure E key ''immutable_object_collision''
                       ''immutable finding object already exists with another checksum'')
          else note_failure E key ecode ''finding object publication failed''
      | _ \<Rightarrow> note_failure E key (class_name e) ''finding object publication failed'')"

definition publish_handoff :: "parser_env \<Rightarrow> nat \<Rightarrow> string \<times> handoff_row \<Rightarrow> nat run" where
  "publish_handoff E published kh =
     (let key = py_strip (fst kh); h = snd kh in
      if payload_hash (ho_payload h) \<noteq> py_strip (ho_payload_sha256 h)
      then note_failure E key ''payload_checksum_mismatch'' ''stored handoff checksum does not match payload''
      else bindM (db_op E (\<lambda>_. Attempted key) (record_handoff_attempt key)) (\<lambda>_.
        bindM (tried (put_object E (handoff_put h))) (\<lambda>r.
        bindM (case r of Inl e \<Rightarrow> after_failed_put E key h e | Inr _ \<Rightarrow> returnM ()) (\<lambda>_.
        bindM (db_op E (\<lambda>_. Published key) (mark_handoff_published key)) (\<lambda>_.
        returnM (Suc published))))))"

definition publish_pending :: "parser_env \<Rightarrow> string list option \<Rightarrow> nat \<Rightarrow> nat run" where
  "publish_pending E keys limit =
     bindM (db_op E Listed (pending_handoffs keys limit)) (\<lambda>rows. foldM (publish_handoff E) 0 rows)"

text \<open>\<^verbatim>\<open>publish_all\<close>; a worker does not live for more than \<^const>\<open>pn_rounds\<close> pages.\<close>

fun publish_rounds :: "nat \<Rightarrow> parser_env \<Rightarrow> string list option \<Rightarrow> nat \<Rightarrow> nat \<Rightarrow> nat run" where
  "publish_rounds 0 E keys page_size published = raiseM Run_killed"
| "publish_rounds (Suc n) E keys page_size published =
     bindM (publish_pending E keys page_size) (\<lambda>count.
     if count < page_size then returnM (published + count)
     else publish_rounds n E keys page_size (published + count))"

definition publish_all :: "parser_env \<Rightarrow> string list option \<Rightarrow> int \<Rightarrow> nat run" where
  "publish_all E keys page_size =
     (if \<not> (1 \<le> page_size \<and> page_size \<le> 1000)
      then raiseM (Outside (Other_exception ''ValueError''))
      else publish_rounds (pn_rounds E) E keys (nat page_size) 0)"

text \<open>
  What publication guarantees: a handoff is marked as published only once its payload is in S3.
\<close>

section \<open>Runs that upload first\<close>

text \<open>The end of a log after which the handoff \<open>h\<close> is known to be in S3.\<close>

definition in_bucket :: "happening list \<Rightarrow> handoff_row \<Rightarrow> bool" where
  "in_bucket log h \<longleftrightarrow>
     (\<exists>l. log = l @ [Stored (handoff_put h) (Inr ())])
     \<or> (\<exists>l ecode response. log = l @ [Stored (handoff_put h) (Inl (Client_error ecode (Some 412))),
            Looked_up (ho_object_bucket h) (ho_object_key h) (Inr response)]
          \<and> metadata_matches (pu_sha256 (handoff_put h)) response)"

definition may_publish :: "happening list \<Rightarrow> string \<Rightarrow> bool" where
  "may_publish log key \<longleftrightarrow>
     (\<exists>rows k h. Listed rows \<in> set log \<and> (k, h) \<in> set rows \<and> key = py_strip k
        \<and> sha256 (pu_body (handoff_put h)) = pu_sha256 (handoff_put h) \<and> in_bucket log h)"

text \<open>Every entry that marks a handoff comes when it may be published.\<close>

definition uploads_first :: "happening list \<Rightarrow> bool" where
  "uploads_first log \<longleftrightarrow> (\<forall>i key. i < length log \<longrightarrow> log ! i = Published key \<longrightarrow> may_publish (take i log) key)"

lemma uploads_first_Nil [simp]: "uploads_first []"
  by (simp add: uploads_first_def)

lemma uploads_first_snoc: "uploads_first (log @ [e]) \<longleftrightarrow> uploads_first log \<and> (\<forall>key. e = Published key \<longrightarrow> may_publish log key)"
  unfolding uploads_first_def by (auto simp: nth_append less_Suc_eq)

lemma uploads_first_others: "(\<And>key. e \<noteq> Published key) \<Longrightarrow> uploads_first (log @ [e]) \<longleftrightarrow> uploads_first log"
  by (simp add: uploads_first_snoc)

text \<open>\<open>orderly\<close>: a log that uploads first stays so, and only grows.\<close>

definition orderly :: "parser_world \<Rightarrow> parser_world \<Rightarrow> bool" where
  "orderly w w' \<longleftrightarrow> (\<exists>l. pw_log w' = pw_log w @ l) \<and> (uploads_first (pw_log w) \<longrightarrow> uploads_first (pw_log w'))"

interpretation orderly: effect_preorder orderly
  by unfold_locales (auto simp: orderly_def)

lemma orderly_noted: "(\<And>r key. entry r \<noteq> Published key) \<Longrightarrow> always orderly (noted answer entry)"
  by (auto simp: always_def noted_def orderly_def uploads_first_others Let_def)

lemma orderly_db_op: "(\<And>x key. entry x \<noteq> Published key) \<Longrightarrow> always orderly (db_op E entry m)"
  by (auto simp: always_def db_op_def orderly_def uploads_first_snoc Let_def split: prod.splits sum.splits)

lemma always_tried: "always R m \<Longrightarrow> always R (tried m)"
  by (auto simp: always_def tried_def split: prod.splits)

lemma orderly_parts:
  "always orderly (put_object E q)" "always orderly (head_object E b k)" "always orderly (get_object E g)"
  "always orderly (note_failure E key ecode message)" "always orderly (existing_object_matches E h)"
proof -
  show h: "always orderly (head_object E b k)" for b k unfolding head_object_def by (rule orderly_noted) simp
  show "always orderly (put_object E q)" "always orderly (get_object E g)"
    unfolding put_object_def get_object_def by (rule orderly_noted; simp)+
  show "always orderly (note_failure E key ecode message)"
    unfolding note_failure_def by (intro orderly.always_rules orderly_db_op) simp
  show "always orderly (existing_object_matches E h)"
    unfolding existing_object_matches_def by (intro orderly.always_rules h)
qed

text \<open>When the upload of a handoff, or what follows a failed one, ends well, the handoff is in S3.\<close>

lemma put_stores:
  assumes "tried (put_object E (handoff_put h)) w = (Inr r, w1)"
    and "(case r of Inl e \<Rightarrow> after_failed_put E key h e | Inr _ \<Rightarrow> returnM ()) w1 = (Inr (), w2)"
  shows "in_bucket (pw_log w2) h"
proof (cases r)
  case (Inr u)
  then have "pw_log w2 = pw_log w @ [Stored (handoff_put h) (Inr ())]"
    using assms by (auto simp: tried_def put_object_def noted_def returnM_def Let_def split: sum.splits if_splits)
  then show ?thesis by (auto simp: in_bucket_def)
next
  case (Inl e)
  have raises: "note_failure E key c m w \<noteq> (Inr x, w')" for c m w and x :: unit and w'
    by (auto simp: note_failure_def bindM_def raiseM_def split: prod.splits sum.splits)
  have after: "after_failed_put E key h e w1 = (Inr (), w2)" using assms(2) Inl by simp
  then obtain ecode where e: "e = Outside (Client_error ecode (Some 412))"
    using raises by (auto simp: after_failed_put_def split: run_error.splits outside_error.splits if_splits)
  then have log1: "pw_log w1 = pw_log w @ [Stored (handoff_put h) (Inl (Client_error ecode (Some 412)))]"
    using assms(1) Inl by (auto simp: tried_def put_object_def noted_def Let_def split: sum.splits if_splits)
  from after e obtain response where
    "pw_log w2 = pw_log w1 @ [Looked_up (ho_object_bucket h) (ho_object_key h) (Inr response)]"
    "metadata_matches (py_strip (ho_payload_sha256 h)) response"
    using raises by (auto simp: after_failed_put_def bindM_def tried_def existing_object_matches_def head_object_def noted_def
        returnM_def Let_def split: prod.splits sum.splits if_splits)
  with log1 show ?thesis by (auto simp: in_bucket_def handoff_put_def)
qed

lemma orderly_after: "always orderly (after_failed_put E key h e)"
  unfolding after_failed_put_def
  by (auto split: run_error.splits outside_error.splits intro!: orderly.always_rules orderly_parts always_tried always_intro)

lemma publish_one_orderly:
  assumes "Listed rows \<in> set (pw_log w)" "kh \<in> set rows" "publish_handoff E n kh w = (r, w')"
  shows "orderly w w'"
proof (cases "payload_hash (ho_payload (snd kh)) = py_strip (ho_payload_sha256 (snd kh))")
  case False
  then show ?thesis using assms(3) alwaysD [OF orderly_parts(4)] by (auto simp: publish_handoff_def Let_def)
next
  case True
  let ?key = "py_strip (fst kh)" and ?h = "snd kh"
  obtain r1 w1 where 1: "db_op E (\<lambda>_. Attempted ?key) (record_handoff_attempt ?key) w = (r1, w1)" by fastforce
  obtain r2 w2 where 2: "tried (put_object E (handoff_put ?h)) w1 = (r2, w2)" by fastforce
  have o1: "orderly w w1" using alwaysD [OF orderly_db_op 1] by simp
  have o2: "orderly w1 w2" using alwaysD [OF always_tried [OF orderly_parts(1)] 2] .
  show ?thesis
  proof (cases "\<exists>u s. r1 = Inr u \<and> r2 = Inr s")
    case False
    then show ?thesis using assms(3) True 1 2 o1 o2 orderly.trans
      by (auto simp: publish_handoff_def bindM_def Let_def split: sum.splits)
  next
    case t: True
    then obtain u s where s: "r1 = Inr u" "r2 = Inr s" by blast
    let ?m = "case s of Inl e \<Rightarrow> after_failed_put E ?key ?h e | Inr _ \<Rightarrow> returnM ()"
    obtain r3 w3 where 3: "?m w2 = (r3, w3)" by fastforce
    have m: "always orderly ?m" by (auto split: sum.splits intro: orderly_after orderly.always_returnM)
    have o3: "orderly w w3" using alwaysD [where m = ?m, OF m 3] o1 o2 orderly.trans by blast
    show ?thesis
    proof (cases r3)
      case (Inl e)
      then show ?thesis using assms(3) True 1 2 3 s o3 by (auto simp: publish_handoff_def bindM_def Let_def)
    next
      case (Inr x)
      have "in_bucket (pw_log w3) ?h" using put_stores [of E ?h w1 s w2 ?key w3] 2 3 s Inr by simp
      moreover have "Listed rows \<in> set (pw_log w3)" using o3 assms(1) by (auto simp: orderly_def)
      ultimately have may: "may_publish (pw_log w3) ?key"
        unfolding may_publish_def using assms(2) True
        by (intro exI [of _ rows] exI [of _ "fst kh"] exI [of _ ?h]) (simp add: handoff_put_def payload_hash_def)
      obtain r4 w4 where 4: "db_op E (\<lambda>_. Published ?key) (mark_handoff_published ?key) w3 = (r4, w4)" by fastforce
      have "orderly w3 w4" using 4 may by (auto simp: db_op_def orderly_def uploads_first_snoc Let_def split: prod.splits sum.splits)
      moreover have "w' = w4" using assms(3) True 1 2 3 4 s Inr by (auto simp: publish_handoff_def bindM_def returnM_def Let_def split: sum.splits)
      ultimately show ?thesis using o3 orderly.trans by blast
    qed
  qed
qed

lemma publish_rows_orderly:
  "Listed rows \<in> set (pw_log w) \<Longrightarrow> set khs \<subseteq> set rows \<Longrightarrow> foldM (publish_handoff E) n khs w = (r, w') \<Longrightarrow> orderly w w'"
proof (induction khs arbitrary: n w)
  case Nil
  then show ?case by (auto simp: returnM_def orderly.refl)
next
  case (Cons kh khs)
  obtain r1 w1 where 1: "publish_handoff E n kh w = (r1, w1)" by fastforce
  have o1: "orderly w w1" using publish_one_orderly [OF Cons.prems(1) _ 1] Cons.prems(2) by simp
  show ?case
  proof (cases r1)
    case (Inl e)
    then show ?thesis using Cons.prems(3) 1 o1 by (auto simp: bindM_def)
  next
    case (Inr m)
    have "Listed rows \<in> set (pw_log w1)" using o1 Cons.prems(1) by (auto simp: orderly_def)
    then have "orderly w1 w'" using Cons.IH [of w1 m] Cons.prems(2,3) 1 Inr by (auto simp: bindM_def)
    then show ?thesis using o1 orderly.trans by blast
  qed
qed

lemma orderly_pending: "always orderly (publish_pending E keys limit)"
proof (rule alwaysI)
  fix w r w' assume run: "publish_pending E keys limit w = (r, w')"
  obtain r1 w1 where 1: "db_op E Listed (pending_handoffs keys limit) w = (r1, w1)" by fastforce
  have o1: "orderly w w1" using alwaysD [OF orderly_db_op 1] by simp
  show "orderly w w'"
  proof (cases r1)
    case (Inl e)
    then show ?thesis using run 1 o1 by (auto simp: publish_pending_def bindM_def)
  next
    case (Inr rows)
    then have "Listed rows \<in> set (pw_log w1)"
      using 1 by (auto simp: db_op_def Let_def split: prod.splits sum.splits if_splits)
    then have "orderly w1 w'" using publish_rows_orderly [of rows w1 rows] run 1 Inr by (auto simp: publish_pending_def bindM_def)
    then show ?thesis using o1 orderly.trans by blast
  qed
qed

lemma orderly_rounds: "always orderly (publish_rounds n E keys page_size published)"
proof (induction n arbitrary: published)
  case 0
  show ?case by (simp add: orderly.always_raiseM)
next
  case (Suc n)
  show ?case unfolding publish_rounds.simps by (intro orderly.always_rules orderly_pending always_intro Suc)
qed

lemma orderly_publish_all: "always orderly (publish_all E keys page_size)"
  unfolding publish_all_def by (intro orderly.always_rules orderly_rounds always_intro)

end
