(* ===== verification/Parser_Report.thy ===== *)
theory Parser_Report
  imports Parser_Database Port_Ranges Pyvalue
begin

text \<open>
  Nmap reports (\<^verbatim>\<open>parser/.../xml_parser.py\<close>): from the element tree of a report to one observation per service, and the checks by
  which a report proves that it covers every declared port. The XML reader is a library and a
  parameter: it gives the tree of elements or raises.
\<close>

section \<open>Elements\<close>

datatype xml = Element (xml_tag: string) (xml_attrib: "(string \<times> string) list") (xml_text: string) (xml_children: "xml list")

datatype report_error =
    Report_unreadable string       \<comment> \<open>raised by the XML reader\<close>
  | Report_unproven string         \<comment> \<open>\<^verbatim>\<open>NmapXmlValidationError\<close>\<close>
  | Report_value string            \<comment> \<open>any other \<^verbatim>\<open>ValueError\<close>\<close>

type_synonym xml_reader = "nat list \<Rightarrow> report_error + xml"

definition local_name :: "string \<Rightarrow> string" where
  "local_name tag = last (split_on (CHR ''}'') tag)"

definition xml_get :: "string \<Rightarrow> xml \<Rightarrow> string option" where
  "xml_get name e = map_of (xml_attrib e) name"

definition xml_attr :: "string \<Rightarrow> xml \<Rightarrow> string" where
  "xml_attr name e = (case xml_get name e of None \<Rightarrow> [] | Some v \<Rightarrow> v)"

definition children :: "string \<Rightarrow> xml \<Rightarrow> xml list" where
  "children name e = filter (\<lambda>c. local_name (xml_tag c) = name) (xml_children e)"

definition one_child :: "string \<Rightarrow> xml \<Rightarrow> report_error + xml" where
  "one_child name e =
     (case children name e of
        [c] \<Rightarrow> Inr c
      | _ \<Rightarrow> Inl (Report_unproven (''Nmap XML must contain exactly one '' @ name @ '' element'')))"

section \<open>Proof of completion\<close>

type_synonym coverage_map = "(string \<times> (int \<times> int) list) list"

definition declared_range :: "coverage_declaration \<Rightarrow> (int \<times> int) option" where
  "declared_range d =
     (case (cv_port_from d, cv_port_to d) of
        (Some lo, Some hi) \<Rightarrow> if cv_complete d then Some (lo, hi) else None
      | _ \<Rightarrow> None)"

definition group_declaration :: "coverage_map \<Rightarrow> coverage_declaration \<Rightarrow> report_error + coverage_map" where
  "group_declaration grouped d =
     (case declared_range d of
        None \<Rightarrow> Inl (Report_unproven ''complete Nmap XML requires exact numeric complete coverage'')
      | Some r \<Rightarrow> Inr (AList.map_default (cv_protocol d) [r] (\<lambda>rs. rs @ [r]) grouped))"

fun group_coverage :: "coverage_map \<Rightarrow> coverage_declaration list \<Rightarrow> report_error + coverage_map" where
  "group_coverage grouped [] = Inr grouped"
| "group_coverage grouped (d # ds) = bindR (group_declaration grouped d) (\<lambda>g. group_coverage g ds)"

definition range_size :: "int \<times> int \<Rightarrow> int" where
  "range_size r = (case r of (start, stop) \<Rightarrow> stop - start + 1)"

definition coverage_ranges :: "coverage_declaration list \<Rightarrow> report_error + coverage_map \<times> int" where
  "coverage_ranges ds =
     (if ds = [] then Inl (Report_unproven ''complete Nmap XML requires declared coverage'')
      else bindR (group_coverage [] ds) (\<lambda>grouped.
        let merged = map (\<lambda>(protocol, rs). (protocol, merge_sorted (sort rs))) grouped
        in Inr (merged, sum_list (map range_size (concat (map snd merged))))))"

definition in_coverage :: "coverage_map \<Rightarrow> string \<Rightarrow> int \<Rightarrow> bool" where
  "in_coverage cov protocol port =
     (case map_of cov protocol of None \<Rightarrow> False | Some rs \<Rightarrow> list_ex (\<lambda>(start, stop). start \<le> port \<and> port \<le> stop) rs)"

text \<open>The addresses of a host that are IP addresses, in canonical form. \<^verbatim>\<open>str(None)\<close> is no address.\<close>

definition host_addresses :: "xml \<Rightarrow> string list" where
  "host_addresses host =
     List.map_filter (\<lambda>a. case xml_get ''addr'' a of None \<Rightarrow> None | Some s \<Rightarrow> ip_address_str s) (children ''address'' host)"

definition authorized_target_host :: "xml \<Rightarrow> string \<Rightarrow> report_error + xml" where
  "authorized_target_host root address =
     (case children ''host'' root of
        [host] \<Rightarrow>
          if py_lower (xml_attr ''timedout'' host) \<in> {''1'', ''true'', ''yes''}
          then Inl (Report_unproven ''Nmap reported a host timeout'')
          else if host_addresses host \<noteq> [address]
          then Inl (Report_unproven ''Nmap XML target does not match the authorized target'')
          else Inr host
      | _ \<Rightarrow> Inl (Report_unproven ''Nmap XML must describe exactly one target host''))"

definition node_protocol :: "xml \<Rightarrow> string" where
  "node_protocol node = py_lower (xml_attr ''protocol'' node)"

definition explicit_port :: "coverage_map \<Rightarrow> service_key list \<Rightarrow> xml \<Rightarrow> report_error + service_key list" where
  "explicit_port cov explicit node =
     (case py_int (xml_attr ''portid'' node) of
        None \<Rightarrow> Inl (Report_unproven ''Nmap XML contains an invalid explicit port'')
      | Some port \<Rightarrow>
          if \<not> in_coverage cov (node_protocol node) port
          then Inl (Report_unproven ''Nmap XML contains an explicit port outside declared coverage'')
          else if (node_protocol node, port) \<in> set explicit
          then Inl (Report_unproven ''Nmap XML contains a duplicate explicit port'')
          else bindR (one_child ''state'' node) (\<lambda>state.
            if xml_attr ''state'' state = [] then Inl (Report_unproven ''Nmap XML contains an explicit port without state'')
            else Inr ((node_protocol node, port) # explicit)))"

fun explicit_ports :: "coverage_map \<Rightarrow> service_key list \<Rightarrow> xml list \<Rightarrow> report_error + service_key list" where
  "explicit_ports cov explicit [] = Inr explicit"
| "explicit_ports cov explicit (node # nodes) = bindR (explicit_port cov explicit node) (\<lambda>e. explicit_ports cov e nodes)"

definition extraports_count :: "xml \<Rightarrow> report_error + int" where
  "extraports_count e =
     (case py_int (xml_attr ''count'' e) of
        None \<Rightarrow> Inl (Report_unproven ''Nmap extraports count is invalid'')
      | Some count \<Rightarrow>
          if xml_attr ''state'' e = [] \<or> count < 1 \<or> xml_attr ''state'' e = ''open''
          then Inl (Report_unproven ''Nmap extraports accounting is invalid'') else Inr count)"

definition successful_run :: "xml \<Rightarrow> report_error + unit" where
  "successful_run root =
     bindR (one_child ''runstats'' root) (\<lambda>runstats.
     bindR (one_child ''finished'' runstats) (\<lambda>finished.
     bindR (ensure (xml_get ''exit'' finished = Some ''success'' \<and> xml_attr ''errormsg'' finished = [])
              (Report_unproven ''Nmap did not report a successful finished run'')) (\<lambda>_.
     bindR (one_child ''hosts'' runstats) (\<lambda>totals.
     case py_int (xml_attr ''total'' totals) of
       None \<Rightarrow> Inl (Report_unproven ''Nmap host totals are invalid'')
     | Some n \<Rightarrow> ensure (n = 1) (Report_unproven ''Nmap did not account for exactly one target host'')))))"

definition validate_complete_xml :: "xml \<Rightarrow> string \<Rightarrow> coverage_declaration list \<Rightarrow> report_error + xml" where
  "validate_complete_xml root address coverage =
     bindR (successful_run root) (\<lambda>_.
     bindR (authorized_target_host root address) (\<lambda>host.
     bindR (one_child ''ports'' host) (\<lambda>ports.
     bindR (coverage_ranges coverage) (\<lambda>(numeric, declared_count).
     bindR (explicit_ports numeric [] (children ''port'' ports)) (\<lambda>explicit.
     bindR (mapR extraports_count (children ''extraports'' ports)) (\<lambda>counts.
     bindR (ensure (\<not> (sum_list counts \<noteq> 0 \<and> length numeric \<noteq> 1))
              (Report_unproven ''Nmap extraports cannot prove coverage across multiple protocols'')) (\<lambda>_.
     bindR (ensure (int (length explicit) + sum_list counts = declared_count)
              (Report_unproven ''Nmap explicit and extraports accounting does not match declared coverage'')) (\<lambda>_.
     Inr host))))))))"

section \<open>Observations\<close>

text \<open>\<^verbatim>\<open>_SPACE.sub(" ", value)\<close>: every run of white space becomes one space.\<close>

fun squeeze :: "string \<Rightarrow> string" where
  "squeeze [] = []"
| "squeeze [c] = (if is_space c then '' '' else [c])"
| "squeeze (c # d # s) =
     (if is_space c \<and> is_space d then squeeze (d # s)
      else (if is_space c then CHR '' '' else c) # squeeze (d # s))"

definition squeezed :: "string \<Rightarrow> string" where
  "squeezed s = py_strip (squeeze s)"

definition minimized :: "string option \<Rightarrow> string option" where
  "minimized v =
     (case v of None \<Rightarrow> None | Some s \<Rightarrow> (case take 255 (squeezed s) of [] \<Rightarrow> None | t \<Rightarrow> Some t))"

text \<open>The elements below an element, in document order.\<close>

fun descendants :: "xml \<Rightarrow> xml list" where
  "descendants (Element t as x cs) = concat (map (\<lambda>c. c # descendants c) cs)"

definition nested_json :: "xml \<Rightarrow> json" where
  "nested_json e =
     JObj [(''tag'', JStr (xml_tag e)), (''attributes'', JArr (map (\<lambda>(k, v). JArr [JStr k, JStr v]) (sort (xml_attrib e)))),
           (''text'', JStr (squeezed (xml_text e)))]"

definition script_identity :: "xml \<Rightarrow> string" where
  "script_identity script =
     dumps (JObj [(''output'', JStr (squeezed (xml_attr ''output'' script))),
                  (''nested'', JArr (map nested_json (descendants script)))])"

definition script_digest :: "string \<Rightarrow> xml list \<Rightarrow> string option" where
  "script_digest name scripts =
     (case filter (\<lambda>s. xml_attr ''id'' s = name) scripts of
        [] \<Rightarrow> None
      | ss \<Rightarrow> Some (sha256 (script_identity (last ss))))"

definition service_identity_sha256 :: "string option \<Rightarrow> string option \<Rightarrow> string option \<Rightarrow> string option \<Rightarrow> string option \<Rightarrow> string option \<Rightarrow> string" where
  "service_identity_sha256 name product version certificate host_key banner =
     sha256 (dumps (JObj [(''banner_sha256'', jopt JStr banner), (''certificate_sha256'', jopt JStr certificate),
       (''service_name'', jopt JStr name), (''service_product'', jopt JStr product), (''service_version'', jopt JStr version),
       (''ssh_host_key_sha256'', jopt JStr host_key)]))"

definition normalize_state :: "string option \<Rightarrow> port_state" where
  "normalize_state v =
     (if v = Some ''open'' then Port_open else if v = Some ''closed'' then Port_closed
      else if v = Some ''filtered'' then Port_filtered else Port_unknown)"

definition first_attr :: "string \<Rightarrow> xml list \<Rightarrow> string option" where
  "first_attr name nodes = (case nodes of [] \<Rightarrow> None | n # _ \<Rightarrow> xml_get name n)"

definition port_service :: "xml \<Rightarrow> finding_service" where
  "port_service node =
     (let service = children ''service'' node; scripts = children ''script'' node;
          name = minimized (first_attr ''name'' service); product = minimized (first_attr ''product'' service);
          version = minimized (first_attr ''version'' service); certificate = script_digest ''ssl-cert'' scripts;
          host_key = script_digest ''ssh-hostkey'' scripts; banner = script_digest ''banner'' scripts
      in \<lparr>fs_name = name, fs_product = product, fs_version = version, certificate_sha256 = certificate,
          ssh_host_key_sha256 = host_key, banner_sha256 = banner,
          identity_sha256 = service_identity_sha256 name product version certificate host_key banner\<rparr>)"

definition port_observation :: "string \<Rightarrow> time \<Rightarrow> xml \<Rightarrow> report_error + observation" where
  "port_observation address at node =
     (case py_int (xml_attr ''portid'' node) of
        None \<Rightarrow> Inl (Report_value ''Nmap portid must be an integer'')
      | Some port \<Rightarrow>
          if node_protocol node = [] \<or> \<not> (1 \<le> port \<and> port \<le> 65535)
          then Inl (Report_value ''Nmap protocol or port is invalid'')
          else Inr \<lparr>ob_protocol = node_protocol node, ob_port = port, ob_address = address,
                    ob_state = normalize_state (first_attr ''state'' (children ''state'' node)),
                    ob_service = port_service node, ob_observed_at = at\<rparr>)"

definition service_key_of :: "observation \<Rightarrow> service_key" where
  "service_key_of ob = (ob_protocol ob, ob_port ob)"

type_synonym observations = "(service_key \<times> observation) list"

definition add_observation :: "observations \<Rightarrow> observation \<Rightarrow> report_error + observations" where
  "add_observation known ob =
     (if map_of known (service_key_of ob) \<noteq> None \<and> map_of known (service_key_of ob) \<noteq> Some ob
      then Inl (Report_value ''scan contains conflicting observations for one service'')
      else Inr (AList.update (service_key_of ob) ob known))"

fun observe_ports :: "string \<Rightarrow> time \<Rightarrow> observations \<Rightarrow> xml list \<Rightarrow> report_error + observations" where
  "observe_ports address at known [] = Inr known"
| "observe_ports address at known (node # nodes) =
     bindR (port_observation address at node) (\<lambda>ob.
     bindR (add_observation known ob) (\<lambda>k. observe_ports address at k nodes))"

text \<open>The ports of the hosts that have the target's address.\<close>

definition target_nodes :: "string \<Rightarrow> xml list \<Rightarrow> xml list" where
  "target_nodes address hosts =
     concat (map (\<lambda>host. concat (map (children ''port'') (children ''ports'' host)))
       (filter (\<lambda>host. address \<in> set (host_addresses host)) hosts))"

definition sorted_observations :: "observations \<Rightarrow> observation list" where
  "sorted_observations known = map snd (sort_key fst known)"

definition parse_nmap_xml :: "xml_reader \<Rightarrow> nat list \<Rightarrow> string \<Rightarrow> time \<Rightarrow> coverage_declaration list option \<Rightarrow> bool
    \<Rightarrow> report_error + observation list" where
  "parse_nmap_xml fromstring xml target_address at coverage require_complete =
     (case ip_address_str target_address of
        None \<Rightarrow> Inl (Report_value ''target_address must be an IP address'')
      | Some address \<Rightarrow>
          if xml = [] then Inl (Report_unproven ''Nmap XML is empty'')
          else bindR (fromstring xml) (\<lambda>root.
            if local_name (xml_tag root) \<noteq> ''nmaprun'' then Inl (Report_value ''scan result root must be nmaprun'')
            else bindR (if require_complete
                        then (case coverage of
                                None \<Rightarrow> Inl (Report_unproven ''complete Nmap XML requires declared coverage'')
                              | Some ds \<Rightarrow> bindR (validate_complete_xml root address ds) (\<lambda>host. Inr [host]))
                        else Inr (children ''host'' root)) (\<lambda>hosts.
              bindR (observe_ports address at [] (target_nodes address hosts)) (\<lambda>known.
              Inr (sorted_observations known)))))"

section \<open>Enrichment\<close>

definition enrich :: "observations \<times> service_key list \<Rightarrow> observation \<Rightarrow> report_error + observations \<times> service_key list" where
  "enrich acc item =
     (case map_of (fst acc) (service_key_of item) of
        Some baseline \<Rightarrow>
          if ob_state baseline \<noteq> Port_open \<or> ob_state item \<noteq> Port_open \<or> ob_address baseline \<noteq> ob_address item
          then Inl (Report_value ''enrichment XML conflicts with discovery evidence'')
          else Inr (AList.update (service_key_of item) item (fst acc), service_key_of item # snd acc)
      | None \<Rightarrow> Inl (Report_value ''enrichment XML conflicts with discovery evidence''))"

fun enrich_all :: "observations \<times> service_key list \<Rightarrow> observation list \<Rightarrow> report_error + observations \<times> service_key list" where
  "enrich_all acc [] = Inr acc"
| "enrich_all acc (item # items) = bindR (enrich acc item) (\<lambda>a. enrich_all a items)"

definition merge_enrichment_observations :: "observation list \<Rightarrow> observation list \<Rightarrow> bool \<Rightarrow> report_error + observation list" where
  "merge_enrichment_observations discovery enrichment require_complete =
     (let merged = foldl (\<lambda>d ob. AList.update (service_key_of ob) ob d) [] discovery;
          expected_open = map fst (filter (\<lambda>(k, ob). ob_state ob = Port_open) merged)
      in bindR (enrich_all (merged, []) enrichment) (\<lambda>(result, enriched).
         if require_complete \<and> set enriched \<noteq> set expected_open
         then Inl (Report_value ''enrichment XML does not cover every discovered open port'')
         else Inr (sorted_observations result)))"

end
