(* ===== verification/Parser_Ingest.thy ===== *)
theory Parser_Ingest
  imports Parser_Handoff Parser_Report Unicode_Text Timestamps Pyvalue
begin

text \<open>
  The ingestion of scan results (\<^verbatim>\<open>parser/.../handler.py\<close>, and \<^verbatim>\<open>ScanEnvelope.from_mapping\<close> of
  \<^verbatim>\<open>parser/.../models.py\<close>): from the batch of notifications to the repository. The contract's validation
  of an envelope and the XML reader are parameters.
\<close>

section \<open>Documents\<close>

text \<open>
  \<^verbatim>\<open>json.loads\<close> reads bytes as UTF-8 unless their first bytes are those of another encoding or a byte order mark; such documents are
  outside of the model, like text beyond code point 255.
\<close>

definition plain_utf8 :: "nat list \<Rightarrow> bool" where
  "plain_utf8 bs \<longleftrightarrow> 0 \<notin> set (take 4 bs) \<and> take 3 bs \<noteq> [239, 187, 191] \<and> take 2 bs \<noteq> [255, 254] \<and> take 2 bs \<noteq> [254, 255]"

definition load_json :: "nat list \<Rightarrow> run_error + json" where
  "load_json bs =
     (if \<not> plain_utf8 bs then Inl (Outside (Other_exception ''encoding''))
      else case utf8_decode bs of
        Inl Bad_utf8 \<Rightarrow> Inl (Permanent ''object is not valid UTF-8 JSON'')
      | Inl Beyond_text \<Rightarrow> Inl (Outside (Other_exception ''text''))
      | Inr s \<Rightarrow>
          (case loads unique_hook s of
             Inl Decode_error \<Rightarrow> Inl (Permanent ''object is not valid UTF-8 JSON'')
           | Inl Duplicate_keys \<Rightarrow> Inl (Permanent ''JSON contains a duplicate object key'')
           | Inl _ \<Rightarrow> Inl (Outside (Other_exception ''json''))
           | Inr v \<Rightarrow> if is_obj v then Inr v else Inl (Permanent ''JSON root must be an object'')))"

text \<open>
  The loop of \<^verbatim>\<open>_read_limited\<close>: \<open>rest\<close> is what the body still delivers before it ends or fails. The digest of the
  chunks is the digest of what they make together.
\<close>

definition read_part :: "int \<Rightarrow> nat list \<Rightarrow> nat list" where
  "read_part n rest = (if n < 0 then rest else take (nat n) rest)"

function read_limited :: "int \<Rightarrow> nat list \<Rightarrow> nat list \<Rightarrow> outside_error option \<Rightarrow> run_error + nat list" where
  "read_limited limit got rest failure =
     (let n = min 1048576 (limit - int (length got) + 1); chunk = read_part n rest in
      if chunk = []
      then (case failure of
              Some e \<Rightarrow> if n \<noteq> 0 then Inl (Outside e) else Inr got
            | None \<Rightarrow> Inr got)
      else if int (length (got @ chunk)) > limit then Inl (Permanent ''S3 object exceeds configured size limit'')
      else read_limited limit (got @ chunk) (drop (length chunk) rest) failure)"
  by pat_completeness auto
termination by (relation "measure (\<lambda>(limit, got, rest, failure). length rest)") (auto simp: read_part_def split: if_splits)

declare read_limited.simps [simp del]

definition retryable_outside :: "outside_error \<Rightarrow> bool" where
  "retryable_outside e = (case e of Client_error _ _ \<Rightarrow> True | Botocore_error _ \<Rightarrow> True | Os_error _ \<Rightarrow> True | _ \<Rightarrow> False)"

text \<open>The bytes, their digest and the version.\<close>

definition object_content :: "int \<Rightarrow> object_response \<Rightarrow> run_error + nat list" where
  "object_content limit response =
     (case or_body response of
        None \<Rightarrow> Inl (Outside (Other_exception ''KeyError''))
      | Some (Body bs failure) \<Rightarrow> read_limited limit [] bs failure)"

definition json_text :: "json \<Rightarrow> string option" where
  "json_text v = (case v of JStr s \<Rightarrow> Some s | _ \<Rightarrow> None)"

definition fetch_object :: "parser_env \<Rightarrow> string \<Rightarrow> string \<Rightarrow> string option \<Rightarrow> int \<Rightarrow> (nat list \<times> string \<times> string option) run" where
  "fetch_object E bucket key version limit =
     bindM (tried (bindM (get_object E \<lparr>gt_bucket = bucket, gt_key = key, gt_if_match = None,
                                        gt_version = (if version = Some [] then None else version)\<rparr>) (\<lambda>response.
              bindM (liftM (object_content limit response)) (\<lambda>content.
              returnM (content, sha256_hexdigest content, json_text (or_version response)))))) (\<lambda>r.
     case r of
       Inr x \<Rightarrow> returnM x
     | Inl (Outside e) \<Rightarrow> if retryable_outside e then raiseM (Retryable ''S3 object fetch failed'') else raiseM (Outside e)
     | Inl e \<Rightarrow> raiseM e)"

section \<open>Notifications\<close>

definition s3_notification_records :: "string \<Rightarrow> run_error + json list" where
  "s3_notification_records body =
     bindR (load_json (utf8 body)) (\<lambda>notification.
     case vfield notification ''Records'' of
       JArr records \<Rightarrow> if records = [] then Inl (Permanent ''SQS body is not an S3 notification'') else Inr records
     | _ \<Rightarrow> Inl (Permanent ''SQS body is not an S3 notification''))"

text \<open>\<^verbatim>\<open>unquote_plus\<close> replaces bytes that are not UTF-8 by a character that the text of the model does not have.\<close>

definition unquoted :: "string \<Rightarrow> run_error + string" where
  "unquoted s = (case unquote_plus s of Inl _ \<Rightarrow> Inl (Outside (Other_exception ''text'')) | Inr k \<Rightarrow> Inr k)"

definition item_of :: "string list \<Rightarrow> json \<Rightarrow> run_error + json" where
  "item_of path v = (case json_at path v of None \<Rightarrow> Inl (Permanent ''S3 notification is malformed'') | Some x \<Rightarrow> Inr x)"

definition scan_s3_record :: "json \<Rightarrow> string \<Rightarrow> run_error + string \<times> string option" where
  "scan_s3_record record expected_bucket =
     bindR (item_of [''eventSource''] record) (\<lambda>source.
     bindR (ensure (source = JStr ''aws:s3'') (Permanent ''notification source is not S3'')) (\<lambda>_.
     bindR (item_of [''eventName''] record) (\<lambda>name.
     bindR (ensure (startswith (py_str name) ''ObjectCreated:'') (Permanent ''notification is not an object creation'')) (\<lambda>_.
     bindR (item_of [''s3'', ''bucket'', ''name''] record) (\<lambda>bucket.
     bindR (item_of [''s3'', ''object''] record) (\<lambda>obj.
     bindR (item_of [''key''] obj) (\<lambda>encoded_key.
     case encoded_key of
       JStr encoded \<Rightarrow>
         bindR (case vfield obj ''versionId'' of
                  JNull \<Rightarrow> Inr None
                | JStr v \<Rightarrow> Inr (Some v)
                | _ \<Rightarrow> Inl (Permanent ''S3 notification version is malformed'')) (\<lambda>version.
         bindR (unquoted encoded) (\<lambda>key.
         bindR (ensure (bucket = JStr expected_bucket) (Permanent ''S3 notification bucket is not configured'')) (\<lambda>_.
         bindR (ensure (key \<noteq> []) (Permanent ''S3 notification key is empty'')) (\<lambda>_.
         Inr (key, version)))))
     | _ \<Rightarrow> Inl (Permanent ''S3 notification key is malformed''))))))))"

section \<open>Envelopes\<close>

datatype mapping_error = Missing_key string | Wrong_type | Wrong_value string | No_attribute

definition subscript :: "string \<Rightarrow> json \<Rightarrow> mapping_error + json" where
  "subscript k v =
     (if is_obj v then (case obj_get k v of None \<Rightarrow> Inl (Missing_key k) | Some x \<Rightarrow> Inr x) else Inl Wrong_type)"

definition text_at :: "string \<Rightarrow> json \<Rightarrow> mapping_error + string" where
  "text_at k v = bindR (subscript k v) (\<lambda>x. Inr (py_str x))"

definition int_value :: "json \<Rightarrow> mapping_error + int" where
  "int_value v =
     (case v of
        JInt i \<Rightarrow> Inr i
      | JBool b \<Rightarrow> Inr (if b then 1 else 0)
      | JStr s \<Rightarrow> (case py_int s of None \<Rightarrow> Inl (Wrong_value ''int'') | Some i \<Rightarrow> Inr i)
      | JFloat s \<Rightarrow> (case float_int s of None \<Rightarrow> Inl (Wrong_value ''int'') | Some i \<Rightarrow> Inr i)
      | _ \<Rightarrow> Inl Wrong_type)"

definition parse_timestamp :: "json \<Rightarrow> string \<Rightarrow> mapping_error + time" where
  "parse_timestamp v field =
     (case v of
        JStr s \<Rightarrow> (case iso_parse s of None \<Rightarrow> Inl (Wrong_value field) | Some t \<Rightarrow> Inr t)
      | _ \<Rightarrow> Inl (Wrong_value field))"

definition time_at :: "string \<Rightarrow> json \<Rightarrow> mapping_error + time" where
  "time_at k v = bindR (subscript k v) (\<lambda>x. parse_timestamp x k)"

definition parse_address :: "json \<Rightarrow> mapping_error + string" where
  "parse_address v = (case ip_address_str (py_str v) of None \<Rightarrow> Inl (Wrong_value ''address'') | Some a \<Rightarrow> Inr a)"

text \<open>The contract makes \<^verbatim>\<open>version_id\<close> and \<^verbatim>\<open>exit_code\<close> a text and a number, if they are not \<^verbatim>\<open>None\<close>.\<close>

definition raw_reference_of :: "json \<Rightarrow> mapping_error + raw_reference" where
  "raw_reference_of v =
     (if \<not> is_obj v then Inl No_attribute
      else case vfield v ''sha256'' of
          JStr digest \<Rightarrow>
            if length digest \<noteq> 64 \<or> \<not> list_all is_hex digest then Inl (Wrong_value ''sha256'')
            else bindR (text_at ''bucket'' v) (\<lambda>bucket.
                 bindR (text_at ''key'' v) (\<lambda>key.
                 Inr \<lparr>rr_bucket = bucket, rr_key = key, rr_sha256 = py_lower digest,
                      rr_version_id = json_text (vfield v ''version_id'')\<rparr>))
        | _ \<Rightarrow> Inl (Wrong_value ''sha256''))"

definition raw_references :: "json \<Rightarrow> mapping_error + raw_reference option \<times> raw_reference option" where
  "raw_references raw =
     (if raw = JNull then Inr (None, None)
      else bindR (raw_reference_of raw) (\<lambda>r.
        if vfield raw ''enrichment'' = JNull then Inr (Some r, None)
        else bindR (raw_reference_of (vfield raw ''enrichment'')) (\<lambda>e. Inr (Some r, Some e))))"

definition list_at :: "string \<Rightarrow> json \<Rightarrow> mapping_error + json list" where
  "list_at k v = bindR (subscript k v) (\<lambda>x. case x of JArr vs \<Rightarrow> Inr vs | _ \<Rightarrow> Inl Wrong_type)"

definition declared_coverage :: "json \<Rightarrow> mapping_error + coverage_declaration list" where
  "declared_coverage raw =
     (if \<not> is_obj raw then Inl (Wrong_value ''coverage must be one declaration'')
      else bindR (text_at ''protocol'' raw) (\<lambda>protocol.
           bindR (subscript ''complete'' raw) (\<lambda>complete.
           bindR (list_at ''ports'' raw) (\<lambda>ports.
           case coverage_from_mapping protocol (truthy complete) (map py_str ports) of
             None \<Rightarrow> Inl (Wrong_value ''coverage'')
           | Some ds \<Rightarrow> Inr ds))))"

definition error_fields :: "json \<Rightarrow> mapping_error + (string \<times> bool) option" where
  "error_fields e =
     (if e = JNull then Inr None
      else bindR (text_at ''type'' e) (\<lambda>t. bindR (subscript ''retryable'' e) (\<lambda>r. Inr (Some (t, truthy r)))))"

definition json_number :: "json \<Rightarrow> int option" where
  "json_number v = (case v of JInt i \<Rightarrow> Some i | _ \<Rightarrow> None)"

definition envelope_from_mapping :: "json \<Rightarrow> mapping_error + scan_envelope" where
  "envelope_from_mapping payload =
     bindR (subscript ''target'' payload) (\<lambda>target.
     bindR (subscript ''timestamps'' payload) (\<lambda>timestamps.
     let shared = vfield payload ''scan_result''; shared_target = vfield shared ''target'' in
     bindR (ensure (is_obj shared) (Wrong_value ''shared scan_result is required'')) (\<lambda>_.
     bindR (ensure (is_obj shared_target) (Wrong_value ''shared scan_result.target is required'')) (\<lambda>_.
     bindR (raw_references (vfield payload ''raw_result'')) (\<lambda>(raw, enrichment).
     bindR (subscript ''coverage'' payload) (\<lambda>raw_coverage.
     bindR (declared_coverage raw_coverage) (\<lambda>coverage.
     bindR (text_at ''attempt_id'' payload) (\<lambda>aid.
     bindR (text_at ''result_id'' shared) (\<lambda>rid.
     bindR (text_at ''run_id'' payload) (\<lambda>run.
     bindR (text_at ''directive_id'' payload) (\<lambda>did.
     bindR (text_at ''event_id'' payload) (\<lambda>eid.
     bindR (text_at ''trace_id'' payload) (\<lambda>trace.
     bindR (text_at ''provider'' shared_target) (\<lambda>prov.
     bindR (text_at ''target_id'' target) (\<lambda>tid.
     bindR (bindR (subscript ''generation'' target) int_value) (\<lambda>gen.
     bindR (bindR (subscript ''address'' target) parse_address) (\<lambda>address.
     bindR (text_at ''profile'' payload) (\<lambda>profile.
     bindR (text_at ''image_version'' payload) (\<lambda>image_version.
     bindR (text_at ''outcome'' payload) (\<lambda>outcome.
     bindR (error_fields (vfield payload ''error'')) (\<lambda>err.
     bindR (time_at ''scan_started_at'' timestamps) (\<lambda>started.
     bindR (time_at ''scan_completed_at'' timestamps) (\<lambda>completed.
     bindR (time_at ''result_uploaded_at'' timestamps) (\<lambda>uploaded.
     bindR (bindR (list_at ''open_tcp_ports'' shared) (mapR int_value)) (\<lambda>open_ports.
     Inr \<lparr>en_attempt_id = aid, en_result_id = rid, en_run_id = run, en_directive_id = did, en_target_event_id = eid,
          en_trace_id = trace, en_provider = prov, en_target_id = tid, en_generation = gen, en_address = address,
          en_profile = profile, en_scanner_version = image_version, en_outcome = outcome,
          en_exit_code = json_number (vfield payload ''exit_code''), en_error_type = map_option fst err,
          en_error_retryable = map_option snd err, en_scan_started_at = started, en_scan_completed_at = completed,
          en_result_uploaded_at = uploaded, en_coverage = coverage, en_declared_open_tcp_ports = open_ports,
          en_raw_result = raw, en_enrichment_result = enrichment\<rparr>)))))))))))))))))))))))))"

end
