(* ===== verification/Parser_Intake.thy ===== *)
theory Parser_Intake
  imports Parser_Ingest Parser_Handoff Contract_Event
begin

text \<open>
  The intake of target events (\<^verbatim>\<open>parser/.../target_handler.py\<close>): from a notification, by an immutable read of its
  object, to an event of the repository. The contract adapter that turns a document into a payload
  is a parameter.
\<close>

section \<open>Notifications\<close>

record intake_settings =
  ts_target_event_bucket :: string
  ts_target_event_prefix :: string
  ts_finding_bucket :: "string option"
  ts_finding_export_enabled :: bool
  ts_max_event_bytes :: int

record object_reference =
  ob_ref_bucket :: string
  ob_ref_key :: string
  ob_ref_etag :: "string option"
  ob_ref_version :: "string option"

definition clean_optional_identifier :: "json \<Rightarrow> string \<Rightarrow> run_error + string option" where
  "clean_optional_identifier v field =
     (case v of
        JNull \<Rightarrow> Inr None
      | JStr s \<Rightarrow>
          (let cleaned = py_strip s in
           if cleaned = [] \<or> CHR 0x0D \<in> set cleaned \<or> CHR 0x0A \<in> set cleaned
           then Inl (Permanent (field @ '' is invalid'')) else Inr (Some cleaned))
      | _ \<Rightarrow> Inl (Permanent (field @ '' must be text'')))"

definition sole_record :: "json \<Rightarrow> run_error + json" where
  "sole_record notification =
     (case vfield notification ''Records'' of
        JArr [nested] \<Rightarrow>
          if \<not> is_obj nested then Inl (Permanent ''S3 notification must be an object'')
          else if vfield nested ''eventSource'' \<noteq> JStr ''aws:s3'' then Inl (Permanent ''notification source is not S3'')
          else (case vfield nested ''eventName'' of
              JStr name \<Rightarrow> if startswith name ''ObjectCreated:'' then Inr nested
                           else Inl (Permanent ''notification is not an object creation'')
            | _ \<Rightarrow> Inl (Permanent ''notification is not an object creation''))
      | _ \<Rightarrow> Inl (Permanent ''SQS body must contain exactly one S3 notification''))"

definition strict_key :: "json \<Rightarrow> run_error + string" where
  "strict_key v =
     (case v of
        JStr encoded \<Rightarrow>
          if bad_percent encoded then Inl (Permanent ''S3 notification key is malformed'')
          else (case unquote_plus encoded of
              Inl Bad_utf8 \<Rightarrow> Inl (Permanent ''S3 notification key is not valid UTF-8'')
            | Inl Beyond_text \<Rightarrow> Inl (Outside (Other_exception ''text''))
            | Inr key \<Rightarrow> Inr key)
      | _ \<Rightarrow> Inl (Permanent ''S3 notification key is malformed''))"

definition decode_target_record :: "intake_settings \<Rightarrow> json \<Rightarrow> run_error + object_reference" where
  "decode_target_record s record =
     bindR (ensure (vfield record ''eventSource'' = JStr ''aws:sqs'') (Permanent ''record is not from SQS'')) (\<lambda>_.
     bindR (case vfield record ''body'' of
              JStr body \<Rightarrow> if body = [] then Inl (Permanent ''SQS body must be text'') else Inr body
            | _ \<Rightarrow> Inl (Permanent ''SQS body must be text'')) (\<lambda>body.
     bindR (load_json (utf8 body)) (\<lambda>notification.
     bindR (sole_record notification) (\<lambda>nested.
     bindR (item_of [''s3'', ''bucket'', ''name''] nested) (\<lambda>bucket.
     bindR (item_of [''s3'', ''object''] nested) (\<lambda>obj.
     bindR (item_of [''key''] obj) (\<lambda>encoded_key.
     bindR (ensure (json_text bucket \<noteq> None) (Permanent ''S3 notification bucket or object is malformed'')) (\<lambda>_.
     bindR (strict_key encoded_key) (\<lambda>key.
     bindR (ensure (bucket = JStr (ts_target_event_bucket s)) (Permanent ''S3 notification bucket is not configured'')) (\<lambda>_.
     bindR (ensure (startswith key (ts_target_event_prefix s) \<and> key \<noteq> ts_target_event_prefix s)
              (Permanent ''S3 notification key is outside the configured prefix'')) (\<lambda>_.
     bindR (clean_optional_identifier (py_or (vfield obj ''eTag'') (vfield obj ''etag'')) ''S3 object ETag'') (\<lambda>etag.
     bindR (clean_optional_identifier (vfield obj ''versionId'') ''S3 object version'') (\<lambda>version0.
     let version = (case version0 of Some v \<Rightarrow> if py_lower v = ''null'' then None else Some v | None \<Rightarrow> None) in
     bindR (ensure (etag \<noteq> None \<or> version \<noteq> None) (Permanent ''S3 notification has no immutable object identity'')) (\<lambda>_.
     Inr \<lparr>ob_ref_bucket = ts_target_event_bucket s, ob_ref_key = key, ob_ref_etag = etag, ob_ref_version = version\<rparr>))))))))))))))"

section \<open>The object\<close>

definition etag_value :: "string \<Rightarrow> string" where
  "etag_value s = strip_char (CHR 0x22) (py_strip s)"

definition precondition_failed :: "outside_error \<Rightarrow> bool" where
  "precondition_failed e =
     (case e of Client_error c status \<Rightarrow> c \<in> {''PreconditionFailed'', ''412''} \<or> status = Some 412 | _ \<Rightarrow> False)"

definition check_length :: "int \<Rightarrow> json \<Rightarrow> run_error + unit" where
  "check_length limit v =
     (if v = JNull then Inr ()
      else case int_value v of
          Inl _ \<Rightarrow> Inl (Retryable ''S3 returned an invalid content length'')
        | Inr n \<Rightarrow>
            if n < 0 then Inl (Retryable ''S3 returned an invalid content length'')
            else ensure (\<not> n > limit) (Permanent ''TargetEvent object exceeds configured size limit''))"

definition check_identity :: "object_reference \<Rightarrow> object_response \<Rightarrow> run_error + unit" where
  "check_identity ref response =
     bindR (case ob_ref_etag ref of
              None \<Rightarrow> Inr ()
            | Some e \<Rightarrow> ensure (case or_etag response of JStr f \<Rightarrow> etag_value f = etag_value e | _ \<Rightarrow> False)
                          (Permanent ''S3 object ETag does not match its notification'')) (\<lambda>_.
     case ob_ref_version ref of
       None \<Rightarrow> Inr ()
     | Some v \<Rightarrow> ensure (or_version response = JStr v) (Permanent ''S3 object version does not match its notification''))"

text \<open>The chunked read of \<^verbatim>\<open>target_handler.py\<close> reports an operating system error as retryable.\<close>

definition event_content :: "int \<Rightarrow> object_response \<Rightarrow> run_error + nat list" where
  "event_content limit response =
     (case or_body response of
        None \<Rightarrow> Inl (Retryable ''S3 object response has no readable body'')
      | Some (Body bs failure) \<Rightarrow>
          (case read_limited limit [] bs failure of
             Inl (Outside (Os_error _)) \<Rightarrow> Inl (Retryable ''S3 object read failed'')
           | r \<Rightarrow> r))"

definition fetch_target_object :: "parser_env \<Rightarrow> intake_settings \<Rightarrow> object_reference \<Rightarrow> nat list run" where
  "fetch_target_object E s ref =
     bindM (tried (get_object E \<lparr>gt_bucket = ob_ref_bucket ref, gt_key = ob_ref_key ref, gt_if_match = ob_ref_etag ref,
                                 gt_version = ob_ref_version ref\<rparr>)) (\<lambda>r.
     case r of
       Inl (Outside e) \<Rightarrow>
         if precondition_failed e then raiseM (Permanent ''S3 object changed before its immutable read'')
         else if retryable_outside e then raiseM (Retryable ''S3 object fetch failed'')
         else raiseM (Outside e)
     | Inl e \<Rightarrow> raiseM e
     | Inr response \<Rightarrow>
         bindM (liftM (check_length (ts_max_event_bytes s) (or_length response))) (\<lambda>_.
         bindM (liftM (check_identity ref response)) (\<lambda>_.
         liftM (event_content (ts_max_event_bytes s) response))))"

section \<open>Events\<close>

definition some_text :: "string \<Rightarrow> string \<Rightarrow> run_error + string" where
  "some_text field s = (if s = [] then Inl (Permanent (field @ '' must be non-empty text'')) else Inr s)"

text \<open>A tag of the allow-list that the event has.\<close>

definition context_tag :: "string \<times> string option \<Rightarrow> run_error + (string \<times> json) list" where
  "context_tag kv =
     (case snd kv of
        None \<Rightarrow> Inr []
      | Some s \<Rightarrow> bindR (some_text (''aws_context.tags.'' @ fst kv) s) (\<lambda>t. Inr [(fst kv, JStr t)]))"

definition allowlisted_aws_context :: "aws_context \<Rightarrow> run_error + json" where
  "allowlisted_aws_context c =
     bindR (mapR context_tag [(''application'', tag_application (tags c)), (''environment'', tag_environment (tags c)),
              (''name'', tag_name (tags c)), (''service'', tag_service (tags c))]) (\<lambda>ts.
     bindR (mapR (some_text ''aws_context.security_group_ids'') (security_group_ids c)) (\<lambda>groups.
     bindR (some_text ''aws_context.account_id'' (account_id c)) (\<lambda>account.
     bindR (some_text ''aws_context.region'' (region c)) (\<lambda>reg.
     bindR (some_text ''aws_context.network_interface_id'' (network_interface_id c)) (\<lambda>eni.
     bindR (some_text ''aws_context.private_ip'' (private_ip c)) (\<lambda>priv.
     bindR (some_text ''aws_context.public_ip'' (public_ip c)) (\<lambda>pub.
     bindR (case instance_id c of None \<Rightarrow> Inr None | Some i \<Rightarrow> bindR (some_text ''aws_context.instance_id'' i) (\<lambda>x. Inr (Some x))) (\<lambda>inst.
     bindR (some_text ''aws_context.policy_fingerprint'' (policy_fingerprint c)) (\<lambda>fingerprint.
     bindR (some_text ''aws_context.source_event_name'' (ac_source_event_name c)) (\<lambda>name.
     bindR (some_text ''aws_context.source_event_id'' (ac_source_event_id c)) (\<lambda>eid.
     bindR (some_text ''aws_context.source_request_id'' (ac_source_request_id c)) (\<lambda>rid.
     Inr (JObj [(''account_id'', JStr account), (''region'', JStr reg), (''network_interface_id'', JStr eni), (''private_ip'', JStr priv),
       (''public_ip'', JStr pub), (''instance_id'', jopt JStr inst), (''security_group_ids'', JArr (map JStr groups)),
       (''policy_fingerprint'', JStr fingerprint),
       (''candidate_tcp_port_ranges'', JArr (map (\<lambda>r. JObj [(''start'', JInt (pr_start r)), (''end'', JInt (pr_end r))])
          (candidate_tcp_port_ranges c))),
       (''source_event_name'', JStr name), (''source_event_id'', JStr eid), (''source_request_id'', JStr rid),
       (''tags'', JObj (concat ts))])))))))))))))"

definition intake_context :: "target_payload \<Rightarrow> aws_context" where
  "intake_context p = (case p of Work e \<Rightarrow> te_aws_context e | Removal r \<Rightarrow> tr_aws_context r)"

text \<open>The consistency of the context with the target and the source.\<close>

definition context_agrees :: "target_payload \<Rightarrow> bool" where
  "context_agrees p \<longleftrightarrow>
     (let t = payload_target p; src = payload_source p; c = intake_context p in
      scope_id t = account_id c \<and> location t = region c \<and> resource_id t = network_interface_id c
      \<and> private_address t = private_ip c \<and> public_address t = public_ip c
      \<and> source_event_name src = ac_source_event_name c \<and> source_event_id src = ac_source_event_id c
      \<and> source_request_id src = ac_source_request_id c)"

text \<open>\<^verbatim>\<open>event_type\<close> tells a removal from work, not the class of the payload; the contract has them agree.\<close>

definition dispatch_time :: "target_payload \<Rightarrow> run_error + time option \<times> time \<times> string option" where
  "dispatch_time p =
     (case p of
        Removal r \<Rightarrow>
          if tr_event_type r = TARGET_REMOVED then Inr (Some (removed_at r), removed_at r, None)
          else Inl (Permanent ''validated TargetEvent is missing scan'')
      | Work e \<Rightarrow>
          if te_event_type e = TARGET_REMOVED then Inl (Permanent ''validated TargetEvent is missing removed_at'')
          else Inr (None, requested_at (te_scan e), Some (reason_value (sd_reason (te_scan e)))))"

definition local_target_event :: "target_payload \<Rightarrow> run_error + inventory_event" where
  "local_target_event p =
     (let t = payload_target p; src = payload_source p in
      bindR (allowlisted_aws_context (intake_context p)) (\<lambda>context.
      bindR (some_text ''target.scope_id'' (scope_id t)) (\<lambda>scope.
      bindR (some_text ''target.location'' (location t)) (\<lambda>loc.
      bindR (some_text ''target.resource_id'' (resource_id t)) (\<lambda>resource.
      bindR (some_text ''target.private_address'' (private_address t)) (\<lambda>priv.
      bindR (some_text ''target.public_address'' (public_address t)) (\<lambda>pub.
      bindR (ensure (\<not> generation t < 1) (Permanent ''target.generation must be a positive integer'')) (\<lambda>_.
      bindR (some_text ''source.source_event_name'' (source_event_name src)) (\<lambda>_.
      bindR (some_text ''source.source_event_id'' (source_event_id src)) (\<lambda>_.
      bindR (some_text ''source.source_request_id'' (source_request_id src)) (\<lambda>_.
      bindR (ensure (context_agrees p) (Permanent ''validated TargetEvent AWS fields are inconsistent'')) (\<lambda>_.
      bindR (dispatch_time p) (\<lambda>(removed, dispatched, reason).
      bindR (ensure (event_time src \<le> observed_at src \<and> observed_at src \<le> collected_at src \<and> collected_at src \<le> dispatched)
               (Permanent ''TargetEvent timestamps are not ordered'')) (\<lambda>_.
      bindR (some_text ''event_id'' (payload_event_id p)) (\<lambda>eid.
      bindR (some_text ''target.target_id'' (target_id t)) (\<lambda>tid.
      Inr \<lparr>ev_event_id = eid, ev_target_id = tid, ev_generation = generation t,
           ev_event_type = (if removed = None then Upsert else Remove), ev_provider = provider_value (provider t),
           ev_provider_scope_id = scope, ev_provider_target_id = loc @ ''/'' @ resource @ ''/'' @ priv,
           ev_location = Some loc, ev_addresses = (if removed = None then [pub] else []), ev_context = context,
           ev_source_observed_at = observed_at src, ev_scan_reason = reason, ev_source_event_time = Some (event_time src),
           ev_source_collected_at = Some (collected_at src), ev_dispatched_at = Some dispatched, ev_removed_at = removed\<rparr>))))))))))))))))"

section \<open>Processing\<close>

definition read_payload :: "(json \<Rightarrow> target_payload option) \<Rightarrow> nat list \<Rightarrow> run_error + inventory_event" where
  "read_payload adapter bytes =
     bindR (load_json bytes) (\<lambda>document.
     case adapter document of
       None \<Rightarrow> Inl (Permanent ''TargetEvent contract validation failed'')
     | Some p \<Rightarrow> local_target_event p)"

definition intake_failure :: "run_error \<Rightarrow> run_error" where
  "intake_failure e =
     (case e of
        Repository_error (Rule_configuration _) \<Rightarrow> Retryable ''editable detection rule configuration is invalid''
      | Repository_error (Database_error _) \<Rightarrow> Retryable ''target event data-plane operation failed''
      | Repository_error _ \<Rightarrow> Permanent ''target event violates a data-plane invariant''
      | Publish_error _ \<Rightarrow> Retryable ''target event data-plane operation failed''
      | Outside (Other_exception n) \<Rightarrow> Outside (Other_exception n)
      | Outside _ \<Rightarrow> Retryable ''target event data-plane operation failed''
      | _ \<Rightarrow> e)"

definition publish_target_event_handoffs :: "parser_env \<Rightarrow> string \<Rightarrow> unit run" where
  "publish_target_event_handoffs E event_id =
     bindM (db_op E (\<lambda>_. Ran_other) (pending_target_event_handoff_keys event_id)) (\<lambda>keys.
     if keys = [] then returnM () else bindM (publish_all E (Some keys) 1000) (\<lambda>_. returnM ()))"

definition apply_and_publish :: "parser_env \<Rightarrow> intake_settings \<Rightarrow> inventory_event \<Rightarrow> unit run" where
  "apply_and_publish E s ev =
     bindM (db_op E (\<lambda>_. Ran_other) (returnM ())) (\<lambda>_.
     bindM (db_op E (\<lambda>_. Ran_other) (apply_target_event ev (ts_finding_bucket s) (ts_finding_export_enabled s))) (\<lambda>_.
     if ts_finding_export_enabled s then publish_target_event_handoffs E (ev_event_id ev) else returnM ()))"

definition process_target_event :: "parser_env \<Rightarrow> (json \<Rightarrow> target_payload option) \<Rightarrow> intake_settings \<Rightarrow> object_reference \<Rightarrow> unit run" where
  "process_target_event E adapter s ref =
     bindM (fetch_target_object E s ref) (\<lambda>bytes.
     bindM (liftM (read_payload adapter bytes)) (\<lambda>ev.
     bindM (tried (apply_and_publish E s ev)) (\<lambda>r.
     case r of Inl e \<Rightarrow> raiseM (intake_failure e) | Inr _ \<Rightarrow> returnM ())))"

definition intake_record :: "parser_env \<Rightarrow> (json \<Rightarrow> target_payload option) \<Rightarrow> intake_settings \<Rightarrow> json \<Rightarrow> unit run" where
  "intake_record E adapter s record =
     bindM (guardM (is_obj record) (Permanent ''SQS record must be an object'')) (\<lambda>_.
     bindM (liftM (decode_target_record s record)) (\<lambda>ref. process_target_event E adapter s ref))"

definition intake_message_id :: "json \<Rightarrow> string" where
  "intake_message_id record =
     (if is_obj record then (case obj_get ''messageId'' record of None \<Rightarrow> ''missing-message-id'' | Some m \<Rightarrow> py_str m)
      else ''missing-message-id'')"

definition intake_message :: "parser_env \<Rightarrow> (json \<Rightarrow> target_payload option) \<Rightarrow> intake_settings \<Rightarrow> string list \<Rightarrow> json \<Rightarrow> string list run" where
  "intake_message E adapter s failures record =
     bindM (tried (intake_record E adapter s record)) (\<lambda>r.
     returnM (case r of Inl _ \<Rightarrow> failures @ [intake_message_id record] | Inr _ \<Rightarrow> failures))"

definition intake_lambda :: "parser_env \<Rightarrow> (json \<Rightarrow> target_payload option) \<Rightarrow> intake_settings \<Rightarrow> json \<Rightarrow> string list run" where
  "intake_lambda E adapter s event =
     (case vfield event ''Records'' of
        JArr records \<Rightarrow> foldM (intake_message E adapter s) [] records
      | _ \<Rightarrow> raiseM (Permanent ''Lambda event has no SQS records''))"

end
