(* ===== verification/Intake_Guarantees.thy ===== *)
theory Intake_Guarantees
  imports Parser_Intake Inventory_Guarantees
begin

text \<open>
  The intake of target events and what the inventory builds: no event that the inventory announces is a message
  that the parser refuses.
\<close>

section \<open>Texts of the contract\<close>

lemma contract_texts [simp]:
  "\<not> is_account_id []" "\<not> is_region []" "\<not> is_eni []" "\<not> is_source_name []" "\<not> is_sha256_hex []" "\<not> is_instance_id []"
  "\<not> is_security_group []" "\<not> is_tag_value []" "err_of (validate_ipv4 []) \<noteq> None" "err_of (validate_public_ipv4 []) \<noteq> None"
  "is_blank []"
  by code_simp+

lemma some_text_ok: "s \<noteq> [] \<Longrightarrow> some_text field s = Inr s"
  by (simp add: some_text_def)

lemma mapR_Inr_all: "(\<And>x. x \<in> set xs \<Longrightarrow> f x = Inr (g x)) \<Longrightarrow> mapR f xs = Inr (map g xs)"
  by (induction xs) auto

lemma tag_present: "tag_ok v = None \<Longrightarrow> v \<noteq> Some []"
  by (auto simp: tag_ok_def fieldc_def require_def opt_ok_def split: if_splits)

text \<open>The context of a payload as the parser keeps it: its own fields, with the tags that it has.\<close>

definition kept_tags :: "aws_tags \<Rightarrow> (string \<times> json) list" where
  "kept_tags ts = concat (map (\<lambda>(k, v). case v of None \<Rightarrow> [] | Some s \<Rightarrow> [(k, JStr s)])
     [(''application'', tag_application ts), (''environment'', tag_environment ts), (''name'', tag_name ts), (''service'', tag_service ts)])"

definition kept_context :: "aws_context \<Rightarrow> json" where
  "kept_context c = JObj
     [(''account_id'', JStr (account_id c)), (''region'', JStr (region c)), (''network_interface_id'', JStr (network_interface_id c)),
      (''private_ip'', JStr (private_ip c)), (''public_ip'', JStr (public_ip c)), (''instance_id'', jopt JStr (instance_id c)),
      (''security_group_ids'', JArr (map JStr (security_group_ids c))), (''policy_fingerprint'', JStr (policy_fingerprint c)),
      (''candidate_tcp_port_ranges'', JArr (map range_json (candidate_tcp_port_ranges c))),
      (''source_event_name'', JStr (ac_source_event_name c)), (''source_event_id'', JStr (ac_source_event_id c)),
      (''source_request_id'', JStr (ac_source_request_id c)), (''tags'', JObj (kept_tags (tags c)))]"

lemma context_accepted:
  assumes "validate_context c = None"
  shows "allowlisted_aws_context c = Inr (kept_context c)"
proof -
  have t: "account_id c \<noteq> []" "region c \<noteq> []" "network_interface_id c \<noteq> []" "private_ip c \<noteq> []" "public_ip c \<noteq> []"
    "policy_fingerprint c \<noteq> []" "ac_source_event_name c \<noteq> []" "ac_source_event_id c \<noteq> []" "ac_source_request_id c \<noteq> []"
    "instance_id c \<noteq> Some []" "list_all is_security_group (security_group_ids c)" "validate_tags (tags c) = None"
    using assms by (auto simp: validate_context_def fieldc_def require_def opt_ok_def split: if_splits)
  have g: "mapR (some_text f) (security_group_ids c) = Inr (map (\<lambda>x. x) (security_group_ids c))" for f
    using t(11) by (intro mapR_Inr_all some_text_ok) (auto simp: list_all_iff)
  have "context_tag (k, v) = Inr (case v of None \<Rightarrow> [] | Some s \<Rightarrow> [(k, JStr s)])" if "tag_ok v = None" for k v
    using tag_present [OF that] by (cases v) (auto simp: context_tag_def some_text_def)
  then have "mapR context_tag [(''application'', tag_application (tags c)), (''environment'', tag_environment (tags c)),
      (''name'', tag_name (tags c)), (''service'', tag_service (tags c))]
    = Inr (map (\<lambda>(k, v). case v of None \<Rightarrow> [] | Some s \<Rightarrow> [(k, JStr s)])
        [(''application'', tag_application (tags c)), (''environment'', tag_environment (tags c)), (''name'', tag_name (tags c)),
         (''service'', tag_service (tags c))])"
    using t(12) by (simp add: validate_tags_def)
  then show ?thesis
    using t(1-10) by (cases "instance_id c")
      (simp_all add: allowlisted_aws_context_def g some_text_ok kept_context_def kept_tags_def range_json_def jopt_def)
qed

lemma payload_parts:
  assumes "validate_payload p = None"
  shows "validate_target False (payload_target p) = None" "validate_source False (payload_source p) = None"
    "validate_context (intake_context p) = None" "context_agrees p" "payload_event_id p \<noteq> []"
  using assms
  by (auto simp: validate_payload_def validate_event_def validate_removal_def validate_event_consistency_def validate_aws_event_context_def
      payload_target_def payload_source_def intake_context_def context_agrees_def payload_event_id_def fieldc_def require_def Let_def
      split: target_payload.splits if_splits)

text \<open>A valid payload whose dispatch is not before its collection becomes an event that repeats it.\<close>

lemma valid_payload_accepted:
  assumes "validate_payload p = None" "dispatch_time p = Inr (removed, dispatched, reason)" "collected_at (payload_source p) \<le> dispatched"
  shows "local_target_event p = Inr
    \<lparr>ev_event_id = payload_event_id p, ev_target_id = target_id (payload_target p), ev_generation = generation (payload_target p),
     ev_event_type = (if removed = None then Upsert else Remove), ev_provider = ''aws'', ev_provider_scope_id = scope_id (payload_target p),
     ev_provider_target_id = location (payload_target p) @ ''/'' @ resource_id (payload_target p) @ ''/'' @ private_address (payload_target p),
     ev_location = Some (location (payload_target p)),
     ev_addresses = (if removed = None then [public_address (payload_target p)] else []), ev_context = kept_context (intake_context p),
     ev_source_observed_at = observed_at (payload_source p), ev_scan_reason = reason,
     ev_source_event_time = Some (event_time (payload_source p)), ev_source_collected_at = Some (collected_at (payload_source p)),
     ev_dispatched_at = Some dispatched, ev_removed_at = removed\<rparr>"
proof -
  note parts = payload_parts [OF assms(1)]
  note c = context_accepted [OF parts(3)]
  let ?t = "payload_target p" and ?s = "payload_source p"
  have t: "scope_id ?t \<noteq> []" "location ?t \<noteq> []" "resource_id ?t \<noteq> []" "private_address ?t \<noteq> []" "public_address ?t \<noteq> []"
    "target_id ?t \<noteq> []" "\<not> generation ?t < 1"
    using parts(1) by (auto simp: validate_target_def fieldc_def require_def is_generation_def split: if_splits)
  have s: "source_event_name ?s \<noteq> []" "source_event_id ?s \<noteq> []" "source_request_id ?s \<noteq> []"
    "event_time ?s \<le> observed_at ?s" "observed_at ?s \<le> collected_at ?s"
    using parts(2) by (auto simp: validate_source_def fieldc_def require_def split: if_splits)
  have p: "provider_value (provider ?t) = ''aws''" by (cases "provider ?t") simp
  show ?thesis
    using t s p assms(2,3) parts(4,5) by (simp add: local_target_event_def c some_text_ok ensure_def Let_def)
qed

section \<open>The events of the inventory\<close>

lemma create_source_Inr:
  "create_source m = Inr m' \<Longrightarrow> m' = m\<lparr>observation_id := expected_observation_id m\<rparr> \<and> validate_source False m' = None"
  unfolding create_source_def using source_model.create_valid by blast

text \<open>What the inventory puts into the target, the source and the context of a payload.\<close>

definition describes :: "normalized_target \<Rightarrow> int \<Rightarrow> event_source \<Rightarrow> time \<Rightarrow> candidate_ports \<Rightarrow> target_payload \<Rightarrow> bool" where
  "describes current g source collected offered p \<longleftrightarrow>
     generation (payload_target p) = g \<and> scope_id (payload_target p) = nt_account_id current \<and> location (payload_target p) = nt_region current
     \<and> resource_id (payload_target p) = nt_network_interface_id current \<and> private_address (payload_target p) = nt_private_ip current
     \<and> public_address (payload_target p) = nt_public_ip current \<and> event_time (payload_source p) = es_event_time source
     \<and> observed_at (payload_source p) = es_observed_at source \<and> collected_at (payload_source p) = collected
     \<and> intake_context p = contract_context current source offered"

lemma target_event_describes:
  assumes "build_target_event current g source collected previous why = Inr e"
  shows "describes current g source collected (sp_candidate (scan_plan current (event_reason_of previous current why) collected)) (Work e)"
  using assms
  by (auto simp: build_target_event_def bindR_Inr Let_def contract_target_def contract_source_def checked_context_def describes_def
      payload_target_def payload_source_def intake_context_def split: option.splits dest!: create_event_Inr create_source_Inr create_target_Inr)

lemma removal_event_describes:
  assumes "build_removal_event current g source collected = Inr r"
  shows "describes current g source collected full_candidate (Removal r)"
  using assms
  by (auto simp: build_removal_event_def bindR_Inr contract_target_def contract_source_def checked_context_def describes_def
      payload_target_def payload_source_def intake_context_def split: option.splits dest!: create_removal_Inr create_source_Inr create_target_Inr)

text \<open>
  C20. The parser refuses no event of the inventory. Every target event and every removal that the inventory builds, for
  whatever target, generation, source, collection time and reason, is one that the parser's intake accepts, and the
  event that it hands to the repository is exactly this: the payload's identifiers; the generation, account, region, interface and
  addresses of the target that the inventory observed; the context that the inventory gave, field by field, with its tags; the
  reason of the scan; and the event and observation times of the source. The collection time is the time of collection and of dispatch,
  and for a removal also the time of removal. Work binds the target to its public address, and a removal binds it to none.
\<close>

theorem inventory_events_are_accepted:
  assumes "(\<exists>e. p = Work e \<and> build_target_event current g source collected previous why = Inr e)
    \<or> (\<exists>r. p = Removal r \<and> build_removal_event current g source collected = Inr r)"
  shows "local_target_event p = Inr
    \<lparr>ev_event_id = payload_event_id p, ev_target_id = target_id (payload_target p), ev_generation = g,
     ev_event_type = (case p of Work _ \<Rightarrow> Upsert | Removal _ \<Rightarrow> Remove), ev_provider = ''aws'', ev_provider_scope_id = nt_account_id current,
     ev_provider_target_id = nt_region current @ ''/'' @ nt_network_interface_id current @ ''/'' @ nt_private_ip current,
     ev_location = Some (nt_region current), ev_addresses = (case p of Work _ \<Rightarrow> [nt_public_ip current] | Removal _ \<Rightarrow> []),
     ev_context = kept_context (contract_context current source
       (case p of Work _ \<Rightarrow> sp_candidate (scan_plan current (event_reason_of previous current why) collected) | Removal _ \<Rightarrow> full_candidate)),
     ev_source_observed_at = es_observed_at source,
     ev_scan_reason = (case p of Work _ \<Rightarrow> Some (reason_value (event_reason_of previous current why)) | Removal _ \<Rightarrow> None),
     ev_source_event_time = Some (es_event_time source), ev_source_collected_at = Some collected, ev_dispatched_at = Some collected,
     ev_removed_at = (case p of Work _ \<Rightarrow> None | Removal _ \<Rightarrow> Some collected)\<rparr>"
  using assms
proof (elim disjE exE conjE)
  fix e assume p: "p = Work e" and e: "build_target_event current g source collected previous why = Inr e"
  note built = build_target_event_Inr [OF e] and parts = target_event_describes [OF e, folded p]
  have "te_event_type e \<noteq> TARGET_REMOVED" using built(1) by (auto simp: validate_event_def fieldc_def require_def split: if_splits)
  then have "dispatch_time p = Inr (None, collected, Some (reason_value (event_reason_of previous current why)))"
    using built(4,6) p by (simp add: dispatch_time_def)
  with valid_payload_accepted [OF _ this] built(1) parts p show ?thesis by (simp add: describes_def validate_payload_def)
next
  fix r assume p: "p = Removal r" and r: "build_removal_event current g source collected = Inr r"
  note built = build_removal_event_Inr [OF r] and parts = removal_event_describes [OF r, folded p]
  have "removed_at r = collected" "tr_event_type r = TARGET_REMOVED"
    using r by (auto simp: build_removal_event_def bindR_Inr dest!: create_removal_Inr)
  then have "dispatch_time p = Inr (Some collected, collected, None)" using p by (simp add: dispatch_time_def)
  with valid_payload_accepted [OF _ this] built(1) parts p show ?thesis by (simp add: describes_def validate_payload_def)
qed

theorem inventory_events_are_accepted_witness:
  "\<exists>e ev. build_target_event (iv_target\<lparr>nt_observed_at := None\<rparr>) 1 iv_source 1000 None None = Inr e
     \<and> local_target_event (Work e) = Inr ev \<and> ev_event_id ev = te_event_id e \<and> ev_generation ev = 1
     \<and> ev_addresses ev = [''192.0.2.7''] \<and> ev_source_collected_at ev = Some 1000 \<and> ev_removed_at ev = None"
proof -
  obtain e where e: "build_target_event (iv_target\<lparr>nt_observed_at := None\<rparr>) 1 iv_source 1000 None None = Inr e"
    using iv_event by blast
  then show ?thesis
    using inventory_events_are_accepted [of "Work e" "iv_target\<lparr>nt_observed_at := None\<rparr>" 1 iv_source 1000 None None]
    by (simp add: payload_event_id_def iv_target_def)
qed

end
