(* ===== verification/Parser_Scan_Handler.thy ===== *)
theory Parser_Scan_Handler
  imports Parser_Ingest Parser_Handoff
begin

text \<open>
  The handler of scan results (\<^verbatim>\<open>parser/.../handler.py\<close>): the evidence of a scan is read from S3, checked against
  the envelope and given to the repository; then the findings are published.
\<close>

section \<open>Evidence\<close>

record parser_settings =
  ps_scan_result_bucket :: string
  ps_raw_result_bucket :: string
  ps_finding_bucket :: "string option"
  ps_finding_export_enabled :: bool
  ps_max_envelope_bytes :: int
  ps_max_xml_bytes :: int

text \<open>The contract's validation of an envelope, and the XML reader.\<close>

record scan_services =
  sv_validate :: "json \<Rightarrow> json option"
  sv_reader :: xml_reader

definition fetch_xml_observations :: "parser_env \<Rightarrow> scan_services \<Rightarrow> parser_settings \<Rightarrow> raw_reference \<Rightarrow> scan_envelope
    \<Rightarrow> coverage_declaration list option \<Rightarrow> bool \<Rightarrow> bool \<Rightarrow> (observation list \<times> string option \<times> bool) run" where
  "fetch_xml_observations E svc s ref env coverage require_complete tolerate =
     (if rr_bucket ref \<noteq> ps_raw_result_bucket s then raiseM (Permanent ''result bucket is not configured'')
      else bindM (fetch_object E (rr_bucket ref) (rr_key ref) (rr_version_id ref) (ps_max_xml_bytes s)) (\<lambda>(xml, digest, version).
        if digest \<noteq> rr_sha256 ref then raiseM (Retryable ''XML checksum verification failed'')
        else case parse_nmap_xml (sv_reader svc) xml (en_address env) (en_scan_completed_at env) coverage require_complete of
            Inr obs \<Rightarrow> returnM (obs, version, True)
          | Inl _ \<Rightarrow> if tolerate then returnM ([], version, False) else raiseM (Permanent ''XML normalization failed'')))"

definition open_port_coverage :: "int \<Rightarrow> coverage_declaration" where
  "open_port_coverage port = \<lparr>cv_protocol = ''tcp'', cv_port_spec = int_str port, cv_port_from = Some port, cv_port_to = Some port,
     cv_complete = True\<rparr>"

text \<open>The raw report: observations, version and whether it was read.\<close>

definition raw_observations :: "parser_env \<Rightarrow> scan_services \<Rightarrow> parser_settings \<Rightarrow> scan_envelope
    \<Rightarrow> (observation list \<times> string option \<times> bool) run" where
  "raw_observations E svc s env =
     (let complete = (en_outcome env = ''complete'') in
      case en_raw_result env of
        None \<Rightarrow> if complete then raiseM (Permanent ''complete scan has no raw XML reference'') else returnM ([], None, True)
      | Some ref \<Rightarrow>
          fetch_xml_observations E svc s ref env (if complete then Some (en_coverage env) else None) complete (\<not> complete))"

definition enriched_observations :: "parser_env \<Rightarrow> scan_services \<Rightarrow> parser_settings \<Rightarrow> scan_envelope \<Rightarrow> raw_reference
    \<Rightarrow> observation list \<Rightarrow> bool \<Rightarrow> (observation list \<times> string option) run" where
  "enriched_observations E svc s env ref discovery raw_valid =
     (let complete = (en_outcome env = ''complete'') in
      bindM (fetch_xml_observations E svc s ref env
               (if complete then Some (map open_port_coverage (en_declared_open_tcp_ports env)) else None) complete (\<not> complete))
        (\<lambda>(enrichment, version, valid).
        if \<not> raw_valid \<or> \<not> valid then returnM ([], version)
        else case merge_enrichment_observations discovery enrichment complete of
            Inr merged \<Rightarrow> returnM (merged, version)
          | Inl _ \<Rightarrow> if complete then raiseM (Permanent ''enrichment XML conflicts with discovery XML'') else returnM ([], version)))"

definition open_tcp_ports_of :: "observation list \<Rightarrow> int list" where
  "open_tcp_ports_of obs = sort (map ob_port (filter (\<lambda>ob. ob_protocol ob = ''tcp'' \<and> ob_state ob = Port_open) obs))"

text \<open>Observations, the two versions, and whether the reports prove completion.\<close>

definition load_observations :: "parser_env \<Rightarrow> scan_services \<Rightarrow> parser_settings \<Rightarrow> scan_envelope
    \<Rightarrow> (observation list \<times> string option \<times> string option \<times> bool) run" where
  "load_observations E svc s env =
     (let complete = (en_outcome env = ''complete'') in
      bindM (raw_observations E svc s env) (\<lambda>(discovery, raw_version, raw_valid).
      case en_enrichment_result env of
        Some ref \<Rightarrow>
          if \<not> complete \<and> \<not> raw_valid then returnM ([], raw_version, rr_version_id ref, False)
          else bindM (enriched_observations E svc s env ref discovery raw_valid) (\<lambda>(obs, version).
            if complete \<and> open_tcp_ports_of obs \<noteq> en_declared_open_tcp_ports env
            then raiseM (Permanent ''raw XML open ports conflict with authoritative ScanResult'')
            else returnM (obs, raw_version, version, complete))
      | None \<Rightarrow>
          if complete \<and> en_declared_open_tcp_ports env \<noteq> []
          then raiseM (Permanent ''complete open-port scan has no enrichment XML reference'')
          else if complete \<and> open_tcp_ports_of discovery \<noteq> en_declared_open_tcp_ports env
          then raiseM (Permanent ''raw XML open ports conflict with authoritative ScanResult'')
          else returnM (discovery, raw_version, None, complete)))"

section \<open>Processing\<close>

definition read_envelope :: "scan_services \<Rightarrow> nat list \<Rightarrow> run_error + scan_envelope" where
  "read_envelope svc bytes =
     bindR (load_json bytes) (\<lambda>document.
     case sv_validate svc document of
       None \<Rightarrow> Inl (Permanent ''ScanResult contract validation failed'')
     | Some validated \<Rightarrow>
         (case envelope_from_mapping validated of
            Inr env \<Rightarrow> Inr env
          | Inl No_attribute \<Rightarrow> Inl (Outside (Other_exception ''AttributeError''))
          | Inl _ \<Rightarrow> Inl (Permanent ''validated ScanResult is not usable'')))"

text \<open>The exceptions of the repository and of the publication, as the handler classifies them.\<close>

definition scan_failure :: "run_error \<Rightarrow> run_error" where
  "scan_failure e =
     (case e of
        Repository_error (Attempt_conflict _) \<Rightarrow> Permanent ''attempt identity conflict''
      | Repository_error (Unknown_target _) \<Rightarrow> Retryable ''target has not arrived yet''
      | Repository_error (Rule_configuration _) \<Rightarrow> Retryable ''editable detection rule configuration is invalid''
      | Repository_error (Data_invariant _) \<Rightarrow> Permanent ''data-plane invariant rejected evidence''
      | Repository_error (Database_error _) \<Rightarrow> Retryable ''data-plane operation failed''
      | Publish_error _ \<Rightarrow> Retryable ''data-plane operation failed''
      | Outside (Other_exception n) \<Rightarrow> Outside (Other_exception n)
      | Outside _ \<Rightarrow> Retryable ''data-plane operation failed''
      | _ \<Rightarrow> e)"

definition or_else :: "string option \<Rightarrow> string option \<Rightarrow> string option" where
  "or_else a b = (if a = None \<or> a = Some [] then b else a)"

definition ingest_and_publish :: "parser_env \<Rightarrow> parser_settings \<Rightarrow> scan_envelope \<Rightarrow> observation list \<Rightarrow> scan_objects \<Rightarrow> bool \<Rightarrow> unit run" where
  "ingest_and_publish E s env obs src validated =
     bindM (db_op E (\<lambda>_. Ran_other) (returnM ())) (\<lambda>_.
     bindM (db_op E (\<lambda>_. Ran_other)
              (ingest_scan env obs src validated (ps_finding_bucket s) (ps_finding_export_enabled s))) (\<lambda>result.
     if ps_finding_export_enabled s
     then bindM (publish_all E (Some (ir_handoff_keys result)) 1000) (\<lambda>_. returnM ())
     else returnM ()))"

definition process_scan_result :: "parser_env \<Rightarrow> scan_services \<Rightarrow> parser_settings \<Rightarrow> string \<Rightarrow> string option \<Rightarrow> unit run" where
  "process_scan_result E svc s key version =
     bindM (fetch_object E (ps_scan_result_bucket s) key version (ps_max_envelope_bytes s)) (\<lambda>(bytes, digest, fetched).
     bindM (liftM (read_envelope svc bytes)) (\<lambda>env.
     bindM (load_observations E svc s env) (\<lambda>(obs, raw_version, enrichment_version, validated).
     bindM (tried (ingest_and_publish E s env obs
              \<lparr>src_envelope = \<lparr>so_bucket = ps_scan_result_bucket s, so_key = key, so_version = or_else fetched version,
                               so_sha256 = digest\<rparr>,
               src_raw_version = raw_version, src_enrichment_version = enrichment_version\<rparr> validated)) (\<lambda>r.
     case r of Inl e \<Rightarrow> raiseM (scan_failure e) | Inr _ \<Rightarrow> returnM ()))))"

section \<open>The batch\<close>

definition parser_message_id :: "json \<Rightarrow> string" where
  "parser_message_id record =
     (if is_obj record then (case obj_get ''messageId'' record of None \<Rightarrow> ''missing-message-id'' | Some m \<Rightarrow> py_str m)
      else ''missing-message-id'')"

definition message_text :: "json \<Rightarrow> run_error + string" where
  "message_text record =
     (if \<not> is_obj record then Inl (Permanent ''SQS record must be an object'')
      else case obj_get ''body'' record of
          None \<Rightarrow> Inl (Outside (Other_exception ''KeyError''))
        | Some (JStr body) \<Rightarrow> Inr body
        | Some _ \<Rightarrow> Inl (Permanent ''SQS body must be text''))"

text \<open>One object of a message: whether it failed. Only a rejected notification and the exceptions of the processing are caught.\<close>

definition scan_object :: "parser_env \<Rightarrow> scan_services \<Rightarrow> parser_settings \<Rightarrow> bool \<Rightarrow> json \<Rightarrow> bool run" where
  "scan_object E svc s failed object_record =
     (case scan_s3_record object_record (ps_scan_result_bucket s) of
        Inl (Permanent _) \<Rightarrow> returnM True
      | Inl e \<Rightarrow> raiseM e
      | Inr (key, version) \<Rightarrow>
          bindM (tried (process_scan_result E svc s key version)) (\<lambda>r.
          returnM (case r of Inl _ \<Rightarrow> True | Inr _ \<Rightarrow> failed)))"

definition scan_message :: "parser_env \<Rightarrow> scan_services \<Rightarrow> parser_settings \<Rightarrow> string list \<Rightarrow> json \<Rightarrow> string list run" where
  "scan_message E svc s failures record =
     (case bindR (message_text record) s3_notification_records of
        Inl _ \<Rightarrow> returnM (failures @ [parser_message_id record])
      | Inr objects \<Rightarrow>
          bindM (foldM (scan_object E svc s) False objects) (\<lambda>failed.
          returnM (if failed then failures @ [parser_message_id record] else failures)))"

definition scan_lambda :: "parser_env \<Rightarrow> scan_services \<Rightarrow> parser_settings \<Rightarrow> json \<Rightarrow> string list run" where
  "scan_lambda E svc s event =
     (case vfield event ''Records'' of
        JArr records \<Rightarrow> foldM (scan_message E svc s) [] records
      | _ \<Rightarrow> raiseM (Permanent ''Lambda event has no SQS records''))"

end
