(* ===== verification/Processor.thy ===== *)
theory Processor
  imports Parser_Handoff
begin

text \<open>
  The scheduled processor (\<^verbatim>\<open>processor/.../handler.py\<close>): periodic reconciliation with the publication of every
  pending handoff, and the status query for the managed canary. The database connection is the one of the parser.
\<close>

section \<open>Configuration\<close>

type_synonym environ = "string \<Rightarrow> string option"

abbreviation configuration_error :: run_error where
  "configuration_error \<equiv> Outside (Other_exception ''ConfigurationError'')"

abbreviation value_error :: run_error where
  "value_error \<equiv> Outside (Other_exception ''ValueError'')"

record canary_scope =
  cs_account_id :: string
  cs_region :: string
  cs_network_interface_id :: string
  cs_private_ip :: string
  cs_public_ip :: string
  cs_tag_key :: string
  cs_tag_value :: string
  cs_port :: int

definition enabled :: "environ \<Rightarrow> string \<Rightarrow> bool \<Rightarrow> run_error + bool" where
  "enabled os name fallback =
     (case os name of
        None \<Rightarrow> Inr fallback
      | Some raw \<Rightarrow> if py_lower raw \<notin> {''true'', ''false''} then Inl configuration_error else Inr (py_lower raw = ''true''))"

definition canary_variables :: "string list" where
  "canary_variables =
     [''MANAGED_CANARY_ACCOUNT_ID'', ''MANAGED_CANARY_REGION'', ''MANAGED_CANARY_ENI_ID'', ''MANAGED_CANARY_PRIVATE_IP'',
      ''MANAGED_CANARY_PUBLIC_IP'', ''MANAGED_CANARY_TAG_KEY'', ''MANAGED_CANARY_TAG_VALUE'', ''MANAGED_CANARY_TCP_PORT'']"

definition canary_value :: "environ \<Rightarrow> string \<Rightarrow> string" where
  "canary_value os name = (case os name of None \<Rightarrow> [] | Some s \<Rightarrow> py_strip s)"

definition canary_scope_of :: "environ \<Rightarrow> run_error + canary_scope" where
  "canary_scope_of os =
     (if list_ex (\<lambda>n. canary_value os n = []) canary_variables then Inl configuration_error
      else case py_int (canary_value os ''MANAGED_CANARY_TCP_PORT'') of
          None \<Rightarrow> Inl configuration_error
        | Some port \<Rightarrow>
            if \<not> (1 \<le> port \<and> port \<le> 65535) then Inl configuration_error
            else Inr \<lparr>cs_account_id = canary_value os ''MANAGED_CANARY_ACCOUNT_ID'', cs_region = canary_value os ''MANAGED_CANARY_REGION'',
                      cs_network_interface_id = canary_value os ''MANAGED_CANARY_ENI_ID'',
                      cs_private_ip = canary_value os ''MANAGED_CANARY_PRIVATE_IP'',
                      cs_public_ip = canary_value os ''MANAGED_CANARY_PUBLIC_IP'', cs_tag_key = canary_value os ''MANAGED_CANARY_TAG_KEY'',
                      cs_tag_value = canary_value os ''MANAGED_CANARY_TAG_VALUE'', cs_port = port\<rparr>)"

section \<open>The canary\<close>

text \<open>The \<^verbatim>\<open>->>\<close> operator on scalars; the text of an object or an array is left out, as it is never an identifier.\<close>

definition jsonb_text :: "string list \<Rightarrow> json \<Rightarrow> string option" where
  "jsonb_text path v =
     (case json_at path v of
        Some (JStr s) \<Rightarrow> Some s
      | Some (JInt i) \<Rightarrow> Some (int_str i)
      | Some (JBool b) \<Rightarrow> Some (if b then ''true'' else ''false'')
      | Some (JFloat s) \<Rightarrow> Some s
      | _ \<Rightarrow> None)"

definition is_exact_target :: "canary_scope \<Rightarrow> target_row \<Rightarrow> bool" where
  "is_exact_target c t \<longleftrightarrow>
     tg_provider t = ''aws'' \<and> tg_status t = Active \<and> tg_provider_scope_id t = cs_account_id c \<and> tg_location t = Some (cs_region c)
     \<and> jsonb_text [''network_interface_id''] (tg_context t) = Some (cs_network_interface_id c)
     \<and> jsonb_text [''private_ip''] (tg_context t) = Some (cs_private_ip c)
     \<and> jsonb_text [''public_ip''] (tg_context t) = Some (cs_public_ip c)
     \<and> jsonb_text [''tags'', cs_tag_key c] (tg_context t) = Some (cs_tag_value c)"

definition exact_targets :: "canary_scope \<Rightarrow> db \<Rightarrow> string list" where
  "exact_targets c s = map fst (filter (\<lambda>(_, t). is_exact_target c t) (targets s))"

definition covers_only :: "int \<Rightarrow> coverage_declaration \<Rightarrow> bool" where
  "covers_only port d \<longleftrightarrow> cv_protocol d = ''tcp'' \<and> cv_complete d \<and> cv_port_from d = Some port \<and> cv_port_to d = Some port"

definition attempt_declarations :: "db \<Rightarrow> string \<Rightarrow> coverage_declaration list" where
  "attempt_declarations s aid = map snd (filter (\<lambda>((a, _, _), _). a = aid) (attempt_coverage s))"

definition complete_canary_attempt :: "canary_scope \<Rightarrow> db \<Rightarrow> string \<times> attempt_row \<Rightarrow> bool" where
  "complete_canary_attempt c s a \<longleftrightarrow>
     at_outcome (snd a) = ''complete'' \<and> at_state_eligible (snd a) \<and> at_profile (snd a) = ''targeted-tcp''
     \<and> list_ex (covers_only (cs_port c)) (attempt_declarations s (fst a))
     \<and> list_all (covers_only (cs_port c)) (attempt_declarations s (fst a))"

record canary_status =
  cst_target_count :: nat
  cst_event_count :: nat
  cst_attempt_count :: nat
  cst_complete_coverage_count :: nat
  cst_open_exposure_count :: nat
  cst_low_finding_count :: nat
  cst_unexpected_high_finding_count :: nat

definition count_rows :: "('a \<Rightarrow> bool) \<Rightarrow> 'a list \<Rightarrow> nat" where
  "count_rows p rows = length (filter p rows)"

definition canary_counts :: "canary_scope \<Rightarrow> db \<Rightarrow> canary_status" where
  "canary_counts c s =
     (let ids = exact_targets c s in
      \<lparr>cst_target_count = length ids,
       cst_event_count = count_rows (\<lambda>(_, e). ter_target_id e \<in> set ids \<and> ter_accepted e) (target_events s),
       cst_attempt_count = count_rows (\<lambda>(_, a). at_target_id a \<in> set ids) (scan_attempts s),
       cst_complete_coverage_count =
         count_rows (\<lambda>a. at_target_id (snd a) \<in> set ids \<and> complete_canary_attempt c s a) (scan_attempts s),
       cst_open_exposure_count =
         count_rows (\<lambda>((t, protocol, port), x). t \<in> set ids \<and> protocol = ''tcp'' \<and> port = cs_port c \<and> ex_state x = Exposed) (exposures s),
       cst_low_finding_count =
         count_rows (\<lambda>(_, f). fi_target_id f \<in> set ids \<and> fi_protocol f = ''tcp'' \<and> fi_port f = cs_port c
                              \<and> fi_status f = OPEN \<and> fi_severity f = LOW) (findings s),
       cst_unexpected_high_finding_count =
         count_rows (\<lambda>(_, f). fi_target_id f \<in> set ids \<and> fi_status f = OPEN \<and> fi_severity f \<in> {HIGH, CRITICAL}) (findings s)\<rparr>)"

definition canary_ready :: "canary_status \<Rightarrow> bool" where
  "canary_ready st \<longleftrightarrow>
     cst_target_count st = 1 \<and> cst_event_count st = 1 \<and> cst_attempt_count st = 1 \<and> cst_complete_coverage_count st = 1
     \<and> cst_open_exposure_count st = 1 \<and> cst_low_finding_count st = 1 \<and> cst_unexpected_high_finding_count st = 0"

text \<open>
  A connection gives its rows as tuples or as mappings. Its row factory is the driver's choice here:
  the query goes through a bare connection, and only \<^verbatim>\<open>Repository\<close> sets \<^verbatim>\<open>dict_row\<close>.
  The query demands a mapping.
\<close>

datatype row_factory = Tuple_rows | Dict_rows

definition managed_canary_status :: "parser_env \<Rightarrow> row_factory \<Rightarrow> canary_scope \<Rightarrow> (bool \<times> canary_status) run" where
  "managed_canary_status E rows c =
     bindM (db_op E (\<lambda>_. Ran_other) (returnM ())) (\<lambda>_.
     bindM (db_op E (\<lambda>_. Ran_other) (readM (canary_counts c))) (\<lambda>st.
     if rows \<noteq> Dict_rows then raiseM (Outside (Other_exception ''RuntimeError''))
     else returnM (canary_ready st, st)))"

section \<open>Reconciliation\<close>

record reconciliation_summary =
  rs_run_id :: string
  rs_duplicate :: bool
  rs_findings_examined :: int
  rs_objects_published :: nat

definition handoff_page_size :: "environ \<Rightarrow> run_error + int" where
  "handoff_page_size os =
     bindR (case os ''HANDOFF_PAGE_SIZE'' of
              None \<Rightarrow> Inr 1000
            | Some raw \<Rightarrow> (case py_int raw of None \<Rightarrow> Inl value_error | Some n \<Rightarrow> Inr n)) (\<lambda>n.
     if \<not> (1 \<le> n \<and> n \<le> 1000) then Inl configuration_error else Inr n)"

text \<open>\<open>now\<close> is the clock of the worker, which \<^verbatim>\<open>reconcile_all\<close> reads.\<close>

definition scheduled_reconciliation :: "parser_env \<Rightarrow> environ \<Rightarrow> time \<Rightarrow> json \<Rightarrow> reconciliation_summary run" where
  "scheduled_reconciliation E os now event =
     (case vfield event ''id'' of
        JStr key \<Rightarrow>
          if key = [] then raiseM value_error
          else bindM (liftM (enabled os ''FINDING_EXPORT_ENABLED'' True)) (\<lambda>export.
            if export \<and> (os ''FINDING_BUCKET'' = None \<or> os ''FINDING_BUCKET'' = Some []) then raiseM configuration_error
            else bindM (db_op E (\<lambda>_. Ran_other) (returnM ())) (\<lambda>_.
              bindM (db_op E (\<lambda>_. Ran_other) (reconcile_all key (os ''FINDING_BUCKET'') export now)) (\<lambda>result.
              bindM (if export
                     then bindM (liftM (handoff_page_size os)) (\<lambda>page_size. publish_all E None page_size)
                     else returnM 0) (\<lambda>published.
              returnM \<lparr>rs_run_id = key, rs_duplicate = rc_duplicate result, rs_findings_examined = rc_findings_examined result,
                       rs_objects_published = published\<rparr>))))
      | _ \<Rightarrow> raiseM value_error)"

datatype processor_response = Canary_status "bool \<times> canary_status" | Reconciled reconciliation_summary

definition processor_lambda :: "parser_env \<Rightarrow> row_factory \<Rightarrow> environ \<Rightarrow> time \<Rightarrow> json \<Rightarrow> processor_response run" where
  "processor_lambda E rows os now event =
     (if vfield event ''operation'' = JStr ''managed-canary-status''
      then bindM (liftM (canary_scope_of os)) (\<lambda>c.
           bindM (managed_canary_status E rows c) (\<lambda>r. returnM (Canary_status r)))
      else bindM (scheduled_reconciliation E os now event) (\<lambda>r. returnM (Reconciled r)))"

section \<open>The canary status never arrives\<close>

text \<open>
  By its documentation the driver gives tuples when no row factory is set, so that the status query of the canary
  fails whatever the database holds.
\<close>

lemma canary_status_always_fails:
  assumes "vfield event ''operation'' = JStr ''managed-canary-status''"
  shows "processor_lambda E Tuple_rows os now event w \<noteq> (Inr r, w')"
  using assms by (auto simp: processor_lambda_def managed_canary_status_def bindM_Inr raiseM_Inr)

end
