(* ===== verification/Report_Guarantees.thy ===== *)
theory Report_Guarantees
  imports Parser_Report
begin

text \<open>
  What a complete report proves: every declared port is either observed or counted among ports that are not open.
\<close>

section \<open>Declared coverage\<close>

definition declared_ports :: "coverage_declaration list \<Rightarrow> int set" where
  "declared_ports ds = {port. \<exists>d \<in> set ds. \<exists>lo hi. cv_port_from d = Some lo \<and> cv_port_to d = Some hi \<and> lo \<le> port \<and> port \<le> hi}"

definition bounded_declaration :: "string \<Rightarrow> coverage_declaration \<Rightarrow> bool" where
  "bounded_declaration protocol d \<longleftrightarrow> cv_protocol d = protocol
     \<and> (\<exists>lo hi. cv_port_from d = Some lo \<and> cv_port_to d = Some hi \<and> 1 \<le> lo \<and> lo \<le> hi \<and> hi \<le> 65535)"

lemma coverage_specs_bounded:
  "coverage_specs protocol complete specs = Some ds \<Longrightarrow> d \<in> set ds \<Longrightarrow> bounded_declaration protocol d"
proof (induction specs arbitrary: ds)
  case (Cons spec specs)
  from Cons.prems(1) obtain start stop ds' where
    b: "port_spec_bounds spec = Some (start, stop)" and ds': "coverage_specs protocol complete specs = Some ds'"
    and ds: "ds = \<lparr>cv_protocol = protocol, cv_port_spec = spec, cv_port_from = Some start, cv_port_to = Some stop, cv_complete = complete\<rparr> # ds'"
    by (auto split: option.splits prod.splits)
  have "1 \<le> start \<and> start \<le> stop \<and> stop \<le> 65535"
    using b unfolding port_spec_bounds_def by (auto split: option.splits if_splits)
  with Cons.IH [OF ds'] Cons.prems(2) ds show ?case by (auto simp: bounded_declaration_def)
qed simp

lemma coverage_bounded:
  "coverage_from_mapping protocol complete specs = Some ds \<Longrightarrow> ds \<noteq> [] \<and> (\<forall>d \<in> set ds. bounded_declaration (py_lower protocol) d)"
  using coverage_specs_bounded by (auto simp: coverage_from_mapping_def split: option.splits list.splits)

text \<open>With one protocol there is one group, and its merged ranges are the declared ports.\<close>

lemma group_coverage_one:
  "\<forall>d \<in> set ds. cv_protocol d = protocol \<Longrightarrow> group_coverage [(protocol, rs)] ds = Inr g
     \<Longrightarrow> \<exists>rs'. g = [(protocol, rs @ rs')] \<and> map declared_range ds = map Some rs'"
proof (induction ds arbitrary: rs)
  case (Cons d ds)
  from Cons.prems obtain r where r: "declared_range d = Some r" "group_coverage [(protocol, rs @ [r])] ds = Inr g"
    by (auto simp: group_declaration_def bindR_Inr split: option.splits)
  from Cons.IH [OF _ r(2)] Cons.prems(1) obtain rs' where "g = [(protocol, (rs @ [r]) @ rs')]" "map declared_range ds = map Some rs'"
    by auto
  with r(1) show ?case by (intro exI [of _ "r # rs'"]) simp
qed auto

lemma declared_range_ports:
  assumes "map declared_range ds = map Some rs"
  shows "pair_ports rs = declared_ports ds"
proof -
  have m: "set (map declared_range ds) = Some ` set rs" using assms by simp
  have "(lo, hi) \<in> set rs \<longleftrightarrow> (\<exists>d \<in> set ds. cv_port_from d = Some lo \<and> cv_port_to d = Some hi)" for lo hi
  proof -
    have "(lo, hi) \<in> set rs \<longleftrightarrow> Some (lo, hi) \<in> set (map declared_range ds)" using m by auto
    moreover have "declared_range d \<noteq> None" if "d \<in> set ds" for d using m that by (metis (no_types, lifting) image_iff image_set option.distinct(1))
    ultimately show ?thesis by (force simp: declared_range_def split: option.splits if_splits)
  qed
  then show ?thesis by (force simp: pair_ports_def declared_ports_def)
qed

lemma coverage_ranges_exact:
  assumes "coverage_ranges ds = Inr (numeric, n)" "\<forall>d \<in> set ds. bounded_declaration protocol d"
  shows "\<exists>rs. numeric = [(protocol, rs)] \<and> pair_ports rs = declared_ports ds \<and> n = int (card (declared_ports ds))
    \<and> finite (declared_ports ds) \<and> declared_ports ds \<subseteq> {1..65535}"
proof -
  from assms(1) obtain d ds' where ds: "ds = d # ds'" by (cases ds) (auto simp: coverage_ranges_def)
  from assms(1) obtain g where g: "group_coverage [] ds = Inr g"
    and num: "numeric = map (\<lambda>(p, rs). (p, merge_sorted (sort rs))) g" "n = sum_list (map range_size (concat (map snd numeric)))"
    by (auto simp: coverage_ranges_def bindR_Inr Let_def split: if_splits)
  have p: "\<forall>d \<in> set ds. cv_protocol d = protocol" using assms(2) by (auto simp: bounded_declaration_def)
  from g ds obtain r where r: "declared_range d = Some r" "group_coverage [(protocol, [r])] ds' = Inr g"
    using p by (auto simp: group_declaration_def bindR_Inr split: option.splits)
  from group_coverage_one [OF _ r(2)] p ds obtain rs' where g': "g = [(protocol, r # rs')]" "map declared_range ds = map Some (r # rs')"
    using r(1) by auto
  define m where "m = sort (r # rs')"
  have set_m: "set m = set (r # rs')" unfolding m_def by (simp del: sort_key_simps)
  have b: "1 \<le> fst x \<and> fst x \<le> snd x \<and> snd x \<le> 65535" if x: "x \<in> set m" for x
  proof -
    have "Some x \<in> set (map declared_range ds)" using g'(2) x set_m by auto
    then obtain d where "d \<in> set ds" "declared_range d = Some x" by auto
    with assms(2) show ?thesis by (fastforce simp: declared_range_def bounded_declaration_def split: option.splits if_splits)
  qed
  have "sorted m" by (simp add: m_def del: sort_key_simps)
  note exact = merge_sorted_exact [OF this, OF b, simplified]
  have ports: "pair_ports (merge_sorted m) = declared_ports ds"
    using exact(2) pair_ports_cong [OF set_m] declared_range_ports [OF g'(2)] by simp
  have "numeric = [(protocol, merge_sorted m)]" using num(1) g'(1) by (simp add: m_def del: sort_key_simps)
  moreover have "int (card (pair_ports (merge_sorted m))) = n \<and> finite (pair_ports (merge_sorted m))"
    using card_pair_ports [OF exact(1)] exact(3) num(2) calculation by (fastforce simp: range_size_def [abs_def])
  moreover have "pair_ports (merge_sorted m) \<subseteq> {1..65535}" using exact(3) by (fastforce simp: pair_ports_def)
  ultimately show ?thesis using ports by auto
qed

section \<open>Explicit ports and observations\<close>

lemma explicit_ports_keys:
  "explicit_ports cov known nodes = Inr explicit
     \<Longrightarrow> \<exists>new. explicit = new @ known \<and> (distinct known \<longrightarrow> distinct explicit) \<and> (\<forall>(p, n) \<in> set new. in_coverage cov p n)
       \<and> map (\<lambda>node. map_option (\<lambda>n. (node_protocol node, n)) (py_int (xml_attr ''portid'' node))) nodes = map Some (rev new)"
proof (induction nodes arbitrary: known)
  case (Cons node nodes)
  from Cons.prems obtain port where port: "py_int (xml_attr ''portid'' node) = Some port"
    "in_coverage cov (node_protocol node) port" "(node_protocol node, port) \<notin> set known"
    "explicit_ports cov ((node_protocol node, port) # known) nodes = Inr explicit"
    by (auto simp: explicit_port_def bindR_Inr split: option.splits if_splits)
  from Cons.IH [OF port(4)] obtain new where
    "explicit = new @ (node_protocol node, port) # known"
    "distinct ((node_protocol node, port) # known) \<longrightarrow> distinct explicit" "\<forall>(p, n) \<in> set new. in_coverage cov p n"
    "map (\<lambda>node. map_option (\<lambda>n. (node_protocol node, n)) (py_int (xml_attr ''portid'' node))) nodes = map Some (rev new)"
    by blast
  with port(1-3) show ?case by (intro exI [of _ "new @ [(node_protocol node, port)]"]) auto
qed simp

lemma update_mem: "x \<in> set (AList.update k v al) \<Longrightarrow> x = (k, v) \<or> x \<in> set al"
  by (induction al) (auto split: if_splits)

lemma observe_ports_keys:
  "observe_ports address at known nodes = Inr result \<Longrightarrow> distinct (map fst known) \<Longrightarrow> (\<forall>(k, ob) \<in> set known. service_key_of ob = k \<and> ob_address ob = address)
     \<Longrightarrow> distinct (map fst result) \<and> (\<forall>(k, ob) \<in> set result. service_key_of ob = k \<and> ob_address ob = address)
       \<and> Some ` (fst ` set result) = Some ` (fst ` set known)
           \<union> (\<lambda>node. map_option (\<lambda>n. (node_protocol node, n)) (py_int (xml_attr ''portid'' node))) ` set nodes"
proof (induction nodes arbitrary: known)
  case (Cons node nodes)
  from Cons.prems(1) obtain ob k where ob: "port_observation address at node = Inr ob" "add_observation known ob = Inr k"
    "observe_ports address at k nodes = Inr result"
    by (auto simp: bindR_Inr)
  have key: "Some (service_key_of ob) = map_option (\<lambda>n. (node_protocol node, n)) (py_int (xml_attr ''portid'' node))" "ob_address ob = address"
    using ob(1) by (auto simp: port_observation_def service_key_of_def split: option.splits if_splits)
  have k: "k = AList.update (service_key_of ob) ob known" using ob(2) by (auto simp: add_observation_def split: if_splits)
  have d: "distinct (map fst k)" using Cons.prems(2) k by (simp add: AList.distinct_update)
  have s: "fst ` set k = insert (service_key_of ob) (fst ` set known)" unfolding k by (simp add: AList.dom_update)
  have "\<forall>(q, x) \<in> set k. service_key_of x = q \<and> ob_address x = address"
    using Cons.prems(3) key(2) unfolding k by (auto dest!: update_mem)
  from Cons.IH [OF ob(3) d this] s key(1) show ?case by auto
qed auto

lemma in_order_keys:
  assumes "distinct (map fst known)" "\<forall>(k, ob) \<in> set known. service_key_of ob = k \<and> ob_address ob = address"
  shows "distinct (map service_key_of (sorted_observations known))" "set (map service_key_of (sorted_observations known)) = fst ` set known"
    "\<forall>ob \<in> set (sorted_observations known). ob_address ob = address"
proof -
  have e: "map service_key_of (sorted_observations known) = map fst (sort_key fst known)"
    using assms(2) by (auto simp: sorted_observations_def)
  have "distinct (map fst (sort_key fst known))"
    using assms(1) by (simp add: distinct_map)
  with e show "distinct (map service_key_of (sorted_observations known))" by simp
  show "set (map service_key_of (sorted_observations known)) = fst ` set known" unfolding e by simp
  show "\<forall>ob \<in> set (sorted_observations known). ob_address ob = address" using assms(2) by (auto simp: sorted_observations_def)
qed

lemma extraports_closed:
  "mapR extraports_count es = Inr counts \<Longrightarrow> e \<in> set es \<Longrightarrow> xml_attr ''state'' e \<noteq> [] \<and> xml_attr ''state'' e \<noteq> ''open''"
  by (induction es arbitrary: counts) (auto simp: bindR_Inr extraports_count_def split: option.splits if_splits)

section \<open>Complete reports\<close>

text \<open>
  C19. Absence of a port from a complete scan is evidence. If the parser accepts an Nmap report as complete for a declared
  coverage, the report is about one host with the authorized address alone, the observations are about distinct declared
  ports of that address, and all the declared ports without an observation are accounted for: their number is the
  sum of the counts of the report's collapsed ports, none of which is open.
\<close>

theorem complete_report_accounts_for_every_port:
  assumes "coverage_from_mapping protocol complete specs = Some cov"
    and "parse_nmap_xml fromstring xml target_address at (Some cov) True = Inr obs"
  shows "\<exists>root host ports counts. fromstring xml = Inr root \<and> children ''host'' root = [host] \<and> children ''ports'' host = [ports]
    \<and> map Some (host_addresses host) = [ip_address_str target_address]
    \<and> distinct (map ob_port obs)
    \<and> (\<forall>ob \<in> set obs. ob_protocol ob = py_lower protocol \<and> ob_port ob \<in> declared_ports cov
         \<and> Some (ob_address ob) = ip_address_str target_address)
    \<and> mapR extraports_count (children ''extraports'' ports) = Inr counts
    \<and> (\<forall>e \<in> set (children ''extraports'' ports). xml_attr ''state'' e \<notin> {[], ''open''})
    \<and> int (card (declared_ports cov - ob_port ` set obs)) = sum_list counts"
proof -
  from assms(2) obtain address root host known where
    a: "ip_address_str target_address = Some address" and root: "fromstring xml = Inr root"
    and v: "validate_complete_xml root address cov = Inr host"
    and o: "observe_ports address at [] (target_nodes address [host]) = Inr known" and obs: "obs = sorted_observations known"
    by (auto simp: parse_nmap_xml_def bindR_Inr split: option.splits if_splits)
  from v obtain ports numeric n explicit counts where
    host: "authorized_target_host root address = Inr host" and ports: "one_child ''ports'' host = Inr ports"
    and num: "coverage_ranges cov = Inr (numeric, n)"
    and ex: "explicit_ports numeric [] (children ''port'' ports) = Inr explicit"
    and counts: "mapR extraports_count (children ''extraports'' ports) = Inr counts"
    and total: "int (length explicit) + sum_list counts = n"
    by (auto simp: validate_complete_xml_def bindR_Inr)
  have h: "children ''host'' root = [host]" "host_addresses host = [address]"
    using host by (auto simp: authorized_target_host_def split: list.splits if_splits)
  have ps: "children ''ports'' host = [ports]" using ports by (auto simp: one_child_def split: list.splits)
  have nodes: "target_nodes address [host] = children ''port'' ports" using h(2) ps by (simp add: target_nodes_def)
  from coverage_ranges_exact [OF num] coverage_bounded [OF assms(1)] obtain rs where
    rs: "numeric = [(py_lower protocol, rs)]" "pair_ports rs = declared_ports cov" "n = int (card (declared_ports cov))"
    "finite (declared_ports cov)" by blast
  from explicit_ports_keys [OF ex] obtain new where new: "explicit = new" "distinct new" "\<forall>(p, q) \<in> set new. in_coverage numeric p q"
    "map (\<lambda>node. map_option (\<lambda>n. (node_protocol node, n)) (py_int (xml_attr ''portid'' node))) (children ''port'' ports) = map Some (rev new)"
    by auto
  from observe_ports_keys [OF o] have k: "distinct (map fst known)" "\<forall>(k, ob) \<in> set known. service_key_of ob = k \<and> ob_address ob = address"
    "Some ` (fst ` set known) = set (map Some (rev new))"
    unfolding nodes new(4) [symmetric] by auto
  have keys: "fst ` set known = set new" using k(3) by (simp add: inj_image_eq_iff)
  note io = in_order_keys [OF k(1,2), folded obs]
  have mem: "p = py_lower protocol \<and> q \<in> declared_ports cov" if "(p, q) \<in> set new" for p q
    using new(3) that rs(1,2) by (fastforce simp: in_coverage_def pair_ports_def list_ex_iff split: if_splits)
  have obk: "ob_protocol ob = py_lower protocol \<and> ob_port ob \<in> declared_ports cov" if "ob \<in> set obs" for ob
  proof -
    have "service_key_of ob \<in> set new" using io(2) keys that by (metis image_eqI list.set_map)
    then show ?thesis using mem by (simp add: service_key_of_def)
  qed
  have d: "distinct (map ob_port obs)"
  proof -
    have "inj_on ob_port (set obs)"
      using io(1) obk unfolding distinct_map inj_on_def service_key_of_def by (metis (no_types, lifting))
    with io(1) show ?thesis by (simp add: distinct_map)
  qed
  have len: "length obs = length new"
    using io(1,2) keys new(2) by (metis distinct_card length_map)
  have "ob_port ` set obs \<subseteq> declared_ports cov" using obk by blast
  then have "card (declared_ports cov - ob_port ` set obs) = card (declared_ports cov) - card (ob_port ` set obs)"
    "card (ob_port ` set obs) \<le> card (declared_ports cov)"
    using rs(4) by (simp_all add: card_Diff_subset card_mono finite_subset)
  moreover have "card (ob_port ` set obs) = length obs" using d by (metis distinct_card length_map set_map)
  ultimately have "int (card (declared_ports cov - ob_port ` set obs)) = sum_list counts"
    using total rs(3) new(1) len by (simp add: of_nat_diff)
  with h ps root a d obk io(3) counts extraports_closed [OF counts] show ?thesis by auto
qed

text \<open>A report about two declared ports: one is open, the other is counted as closed.\<close>

definition rp_port :: xml where
  "rp_port = Element ''port'' [(''protocol'', ''tcp''), (''portid'', ''443'')] [] [Element ''state'' [(''state'', ''open'')] [] []]"

definition rp_ports :: xml where
  "rp_ports = Element ''ports'' [] [] [Element ''extraports'' [(''state'', ''closed''), (''count'', ''1'')] [] [], rp_port]"

definition rp_host :: xml where
  "rp_host = Element ''host'' [] [] [Element ''address'' [(''addr'', ''192.0.2.7'')] [] [], rp_ports]"

definition rp_root :: xml where
  "rp_root = Element ''nmaprun'' [] [] [rp_host,
     Element ''runstats'' [] [] [Element ''finished'' [(''exit'', ''success'')] [] [], Element ''hosts'' [(''total'', ''1'')] [] []]]"

definition rp_observation :: observation where
  "rp_observation = \<lparr>ob_protocol = ''tcp'', ob_port = 443, ob_address = ''192.0.2.7'', ob_state = Port_open,
     ob_service = port_service rp_port, ob_observed_at = 0\<rparr>"

definition rp_coverage :: "coverage_declaration list" where
  "rp_coverage = [\<lparr>cv_protocol = ''tcp'', cv_port_spec = ''443-444'', cv_port_from = Some 443, cv_port_to = Some 444, cv_complete = True\<rparr>]"

lemma rp_declared: "coverage_from_mapping ''tcp'' True [''443-444''] = Some rp_coverage"
  by code_simp

lemma rp_octets:
  "parse_octet ''192'' = Some 192" "parse_octet ''0'' = Some 0" "parse_octet ''2'' = Some 2" "parse_octet ''7'' = Some 7"
  "nat_str 192 = ''192''" "nat_str 2 = ''2''" "nat_str 7 = ''7''" "nat_str 0 = ''0''"
  by code_simp+

lemma rp_address: "ip_address_str ''192.0.2.7'' = Some ''192.0.2.7''"
  by (simp add: ip_address_str_def ipv4_parse_def ipv4_of_octets_def rp_octets ipv4_str_def octets_def)

lemma rp_addresses: "host_addresses rp_host = [''192.0.2.7'']"
  by (simp add: host_addresses_def rp_host_def rp_ports_def children_def xml_get_def local_name_def List.map_filter_def rp_address)

lemma rp_valid: "validate_complete_xml rp_root ''192.0.2.7'' rp_coverage = Inr rp_host"
proof -
  have "successful_run rp_root = Inr ()" "one_child ''ports'' rp_host = Inr rp_ports"
    "coverage_ranges rp_coverage = Inr ([(''tcp'', [(443, 444)])], 2)"
    "explicit_ports [(''tcp'', [(443, 444)])] [] (children ''port'' rp_ports) = Inr [(''tcp'', 443)]"
    "mapR extraports_count (children ''extraports'' rp_ports) = Inr [1]" "children ''host'' rp_root = [rp_host]"
    "py_lower (xml_attr ''timedout'' rp_host) = []"
    by code_simp+
  then show ?thesis by (simp add: validate_complete_xml_def authorized_target_host_def rp_addresses)
qed

lemma rp_parsed: "parse_nmap_xml (\<lambda>_. Inr rp_root) [60] ''192.0.2.7'' 0 (Some rp_coverage) True = Inr [rp_observation]"
proof -
  have "target_nodes ''192.0.2.7'' [rp_host] = [rp_port]"
    by (simp add: target_nodes_def rp_addresses) (simp add: rp_host_def rp_ports_def rp_port_def children_def local_name_def)
  moreover have "py_int (xml_attr ''portid'' rp_port) = Some 443" "node_protocol rp_port = ''tcp''"
    "normalize_state (first_attr ''state'' (children ''state'' rp_port)) = Port_open" "local_name (xml_tag rp_root) = ''nmaprun''"
    by code_simp+
  ultimately show ?thesis
    by (simp add: parse_nmap_xml_def rp_address rp_valid port_observation_def add_observation_def sorted_observations_def rp_observation_def service_key_of_def)
qed

theorem complete_report_accounts_for_every_port_witness:
  "parse_nmap_xml (\<lambda>_. Inr rp_root) [60] ''192.0.2.7'' 0 (Some rp_coverage) True = Inr [rp_observation]
   \<and> (\<exists>root host ports counts. children ''host'' root = [host] \<and> children ''ports'' host = [ports]
     \<and> mapR extraports_count (children ''extraports'' ports) = Inr counts
     \<and> int (card (declared_ports rp_coverage - {443})) = sum_list counts)"
  using complete_report_accounts_for_every_port [OF rp_declared rp_parsed] rp_parsed
  by (auto simp: rp_observation_def)

end
