(* ===== verification/Scan_Guarantees.thy ===== *)
theory Scan_Guarantees
  imports Parser_Scan_Handler Parser_Intake Processor Report_Guarantees Parser_Properties
begin

text \<open>
  What the handlers of the parser guarantee: a scan counts as complete only on the reports that prove it, and
  a handoff is marked as published only once its payload is in S3.
\<close>

section \<open>Enrichment\<close>

text \<open>What a scan says about a service apart from the service's identity.\<close>

definition port_fact :: "observation \<Rightarrow> service_key \<times> port_state \<times> string" where
  "port_fact ob = (service_key_of ob, ob_state ob, ob_address ob)"

definition keyed :: "observations \<Rightarrow> bool" where
  "keyed d \<longleftrightarrow> distinct (map fst d) \<and> (\<forall>(k, ob) \<in> set d. service_key_of ob = k)"

lemma update_absent: "k \<notin> fst ` set al \<Longrightarrow> AList.update k v al = al @ [(k, v)]"
  by (induction al) auto

lemma keyed_update: "keyed d \<Longrightarrow> keyed (AList.update (service_key_of ob) ob d)"
  by (auto simp: keyed_def AList.distinct_update dest!: update_mem)

lemma enrich_facts:
  assumes "enrich acc item = Inr acc'" "keyed (fst acc)"
  shows "keyed (fst acc') \<and> (\<lambda>x. port_fact (snd x)) ` set (fst acc') = (\<lambda>x. port_fact (snd x)) ` set (fst acc)"
proof -
  obtain b where b: "map_of (fst acc) (service_key_of item) = Some b" "ob_state b = Port_open" "ob_state item = Port_open"
    "ob_address b = ob_address item" and acc': "fst acc' = AList.update (service_key_of item) item (fst acc)"
    using assms(1) by (auto simp: enrich_def split: option.splits if_splits)
  have mem: "(service_key_of item, b) \<in> set (fst acc)" using b(1) by (rule map_of_SomeD)
  have kb: "service_key_of b = service_key_of item" using mem assms(2) by (auto simp: keyed_def)
  have fact: "port_fact b = port_fact item" using b kb by (simp add: port_fact_def)
  have d: "distinct (map fst (fst acc))" using assms(2) by (simp add: keyed_def)
  have set_up: "set (AList.update (service_key_of item) item (fst acc)) = insert (service_key_of item, item) (set (fst acc) - {(service_key_of item, b)})"
  proof (rule set_eqI, clarify)
    fix k ob
    have "distinct (map fst (AList.update (service_key_of item) item (fst acc)))" using d by (rule AList.distinct_update)
    then have "(k, ob) \<in> set (AList.update (service_key_of item) item (fst acc)) \<longleftrightarrow> map_of (AList.update (service_key_of item) item (fst acc)) k = Some ob"
      by simp
    also have "\<dots> \<longleftrightarrow> (k, ob) \<in> insert (service_key_of item, item) (set (fst acc) - {(service_key_of item, b)})"
      using b(1) d mem by (auto simp: AList.update_conv' dest: eq_key_imp_eq_value)
    finally show "(k, ob) \<in> set (AList.update (service_key_of item) item (fst acc))
      \<longleftrightarrow> (k, ob) \<in> insert (service_key_of item, item) (set (fst acc) - {(service_key_of item, b)})" .
  qed
  have "(\<lambda>x. port_fact (snd x)) ` set (fst acc') = (\<lambda>x. port_fact (snd x)) ` set (fst acc)"
    unfolding acc' set_up using mem fact by (auto simp: image_iff) (metis snd_conv)+
  then show ?thesis using keyed_update [OF assms(2), of item] acc' by simp
qed

lemma enrich_all_facts:
  "enrich_all acc items = Inr acc' \<Longrightarrow> keyed (fst acc)
     \<Longrightarrow> keyed (fst acc') \<and> (\<lambda>x. port_fact (snd x)) ` set (fst acc') = (\<lambda>x. port_fact (snd x)) ` set (fst acc)"
proof (induction items arbitrary: acc)
  case (Cons item items)
  from Cons.prems(1) obtain a where a: "enrich acc item = Inr a" "enrich_all a items = Inr acc'" by (auto simp: bindR_Inr)
  from enrich_facts [OF a(1) Cons.prems(2)] Cons.IH [OF a(2)] show ?case by auto
qed simp

lemma discovery_facts:
  "distinct (map service_key_of obs) \<Longrightarrow> keyed (foldl (\<lambda>d ob. AList.update (service_key_of ob) ob d) [] obs)
     \<and> snd ` set (foldl (\<lambda>d ob. AList.update (service_key_of ob) ob d) [] obs) = set obs"
proof (induction obs rule: rev_induct)
  case (snoc ob obs)
  let ?d = "foldl (\<lambda>d ob. AList.update (service_key_of ob) ob d) [] obs"
  have ih: "keyed ?d" "snd ` set ?d = set obs" using snoc by auto
  have "service_key_of ob \<notin> fst ` set ?d"
  proof
    assume "service_key_of ob \<in> fst ` set ?d"
    then obtain x where "(service_key_of ob, x) \<in> set ?d" by auto
    then have "service_key_of x = service_key_of ob" "x \<in> snd ` set ?d" using ih(1) by (auto simp: keyed_def intro: rev_image_eqI)
    then have "service_key_of ob \<in> service_key_of ` set obs" unfolding ih(2) by (metis image_eqI)
    with snoc.prems show False by simp
  qed
  then have "AList.update (service_key_of ob) ob ?d = ?d @ [(service_key_of ob, ob)]" by (rule update_absent)
  with ih keyed_update [OF ih(1), of ob] show ?case by auto
qed (simp add: keyed_def)

lemma merge_facts:
  assumes "merge_enrichment_observations discovery enrichment complete = Inr obs" "distinct (map service_key_of discovery)"
  shows "port_fact ` set obs = port_fact ` set discovery"
proof -
  from assms(1) obtain result enriched where
    r: "enrich_all (foldl (\<lambda>d ob. AList.update (service_key_of ob) ob d) [] discovery, []) enrichment = Inr (result, enriched)"
    and obs: "obs = sorted_observations result"
    by (auto simp: merge_enrichment_observations_def bindR_Inr Let_def split: if_splits)
  let ?d = "foldl (\<lambda>d ob. AList.update (service_key_of ob) ob d) [] discovery"
  have "port_fact ` snd ` set result = port_fact ` snd ` set ?d"
    using enrich_all_facts [OF r] discovery_facts [OF assms(2)] unfolding image_image by simp
  also have "snd ` set ?d = set discovery" using discovery_facts [OF assms(2)] by simp
  finally show ?thesis by (simp add: obs sorted_observations_def image_image)
qed

section \<open>Complete scans\<close>

lemma fetched_content:
  assumes "fetch_object E bucket key version limit w = (Inr (bytes, digest, v), w')"
  shows "digest = sha256_hexdigest bytes
    \<and> (\<exists>n response. pn_get E n \<lparr>gt_bucket = bucket, gt_key = key, gt_if_match = None,
          gt_version = (if version = Some [] then None else version)\<rparr> = Inr response
        \<and> object_content limit response = Inr bytes)"
  using assms
  by (auto simp: fetch_object_def tried_def get_object_def noted_def bindM_def liftM_def returnM_def raiseM_def Let_def
      split: sum.splits prod.splits run_error.splits if_splits)

lemma fetched_observations:
  assumes "fetch_xml_observations E svc s ref env coverage complete False w = (Inr (obs, version, valid), w')"
  shows "rr_bucket ref = ps_raw_result_bucket s
    \<and> (\<exists>n response bytes. pn_get E n \<lparr>gt_bucket = rr_bucket ref, gt_key = rr_key ref, gt_if_match = None,
          gt_version = (if rr_version_id ref = Some [] then None else rr_version_id ref)\<rparr> = Inr response
        \<and> object_content (ps_max_xml_bytes s) response = Inr bytes \<and> sha256_hexdigest bytes = rr_sha256 ref
        \<and> parse_nmap_xml (sv_reader svc) bytes (en_address env) (en_scan_completed_at env) coverage complete = Inr obs)"
proof -
  from assms obtain bytes digest v w1 where
    f: "fetch_object E (rr_bucket ref) (rr_key ref) (rr_version_id ref) (ps_max_xml_bytes s) w = (Inr (bytes, digest, v), w1)"
    and rest: "rr_bucket ref = ps_raw_result_bucket s" "digest = rr_sha256 ref"
      "parse_nmap_xml (sv_reader svc) bytes (en_address env) (en_scan_completed_at env) coverage complete = Inr obs"
    by (auto simp: fetch_xml_observations_def bindM_Inr returnM_Inr raiseM_def split: if_splits sum.splits)
  from fetched_content [OF f] rest show ?thesis by blast
qed

lemma parsed_keys_distinct:
  assumes "parse_nmap_xml reader bytes address at coverage complete = Inr obs"
  shows "distinct (map service_key_of obs)"
proof -
  from assms obtain a hosts known where
    o: "observe_ports a at [] (target_nodes a hosts) = Inr known" and obs: "obs = sorted_observations known"
    by (auto simp: parse_nmap_xml_def bindR_Inr split: option.splits if_splits)
  from observe_ports_keys [OF o] show ?thesis unfolding obs by (intro in_order_keys(1) [where address = a]) auto
qed

text \<open>
  C18. A scan counts as complete only on proof. If the parser gives the repository the observations of a scan as
  validated, then the scan says it is complete, the raw report was read from the configured bucket within the size limit and has
  the digest that the envelope names, the parser accepted it as a complete report about the declared coverage and the scanned address,
  the enrichment changed no port, state or address of it, and its open TCP ports are
  exactly those that the scan result declares.
\<close>

theorem complete_evidence_is_proven:
  assumes "load_observations E svc s env w = (Inr (obs, raw_version, enrichment_version, True), w')"
  shows "en_outcome env = ''complete'' \<and> open_tcp_ports_of obs = en_declared_open_tcp_ports env
    \<and> (\<exists>ref n response bytes discovery. en_raw_result env = Some ref \<and> rr_bucket ref = ps_raw_result_bucket s
        \<and> pn_get E n \<lparr>gt_bucket = rr_bucket ref, gt_key = rr_key ref, gt_if_match = None,
            gt_version = (if rr_version_id ref = Some [] then None else rr_version_id ref)\<rparr> = Inr response
        \<and> object_content (ps_max_xml_bytes s) response = Inr bytes \<and> sha256_hexdigest bytes = rr_sha256 ref
        \<and> parse_nmap_xml (sv_reader svc) bytes (en_address env) (en_scan_completed_at env) (Some (en_coverage env)) True = Inr discovery
        \<and> (\<lambda>ob. (service_key_of ob, ob_state ob, ob_address ob)) ` set obs
            = (\<lambda>ob. (service_key_of ob, ob_state ob, ob_address ob)) ` set discovery)"
proof -
  from assms have complete: "en_outcome env = ''complete''"
    by (auto simp: load_observations_def bindM_Inr returnM_Inr raiseM_def Let_def split: option.splits if_splits)
  from assms obtain discovery rv valid w1 where raw: "raw_observations E svc s env w = (Inr (discovery, rv, valid), w1)"
    and rest: "(case en_enrichment_result env of
        Some ref \<Rightarrow>
          bindM (enriched_observations E svc s env ref discovery valid) (\<lambda>(obs, version).
            if open_tcp_ports_of obs \<noteq> en_declared_open_tcp_ports env
            then raiseM (Permanent ''raw XML open ports conflict with authoritative ScanResult'')
            else returnM (obs, rv, version, True))
      | None \<Rightarrow>
          if en_declared_open_tcp_ports env \<noteq> []
          then raiseM (Permanent ''complete open-port scan has no enrichment XML reference'')
          else if open_tcp_ports_of discovery \<noteq> en_declared_open_tcp_ports env
          then raiseM (Permanent ''raw XML open ports conflict with authoritative ScanResult'')
          else returnM (discovery, rv, None, True)) w1 = (Inr (obs, raw_version, enrichment_version, True), w')"
    by (auto simp: load_observations_def bindM_Inr [of "raw_observations E svc s env"] complete Let_def cong: if_cong option.case_cong)
  have opens: "open_tcp_ports_of obs = en_declared_open_tcp_ports env"
    using rest by (auto simp: bindM_Inr returnM_Inr raiseM_def split: option.splits if_splits)
  have enriched: "obs = discovery \<or> (\<exists>ref w2 v. enriched_observations E svc s env ref discovery valid w1 = (Inr (obs, v), w2))"
  proof (cases "en_enrichment_result env")
    case None
    with rest show ?thesis by (auto simp: returnM_Inr raiseM_def split: if_splits)
  next
    case (Some ref)
    with rest obtain v w2 where "enriched_observations E svc s env ref discovery valid w1 = (Inr (obs, v), w2)"
      by (auto simp: bindM_Inr returnM_Inr raiseM_def split: if_splits)
    then show ?thesis by blast
  qed
  from raw obtain ref where ref: "en_raw_result env = Some ref"
    "fetch_xml_observations E svc s ref env (Some (en_coverage env)) True False w = (Inr (discovery, rv, valid), w1)"
    by (auto simp: raw_observations_def complete raiseM_def split: option.splits)
  from fetched_observations [OF ref(2)] obtain n response bytes where
    f: "rr_bucket ref = ps_raw_result_bucket s" "pn_get E n \<lparr>gt_bucket = rr_bucket ref, gt_key = rr_key ref, gt_if_match = None,
          gt_version = (if rr_version_id ref = Some [] then None else rr_version_id ref)\<rparr> = Inr response"
      "object_content (ps_max_xml_bytes s) response = Inr bytes" "sha256_hexdigest bytes = rr_sha256 ref"
      "parse_nmap_xml (sv_reader svc) bytes (en_address env) (en_scan_completed_at env) (Some (en_coverage env)) True = Inr discovery"
    by blast
  have v: "valid" using ref(2) by (auto simp: fetch_xml_observations_def bindM_Inr returnM_Inr raiseM_def split: if_splits sum.splits)
  have "port_fact ` set obs = port_fact ` set discovery"
    using enriched
  proof (elim disjE exE)
    fix r w2 v' assume e: "enriched_observations E svc s env r discovery valid w1 = (Inr (obs, v'), w2)"
    then obtain enrichment where "merge_enrichment_observations discovery enrichment True = Inr obs"
    proof -
      from e obtain enrichment version ok w3 where
        "fetch_xml_observations E svc s r env (Some (map open_port_coverage (en_declared_open_tcp_ports env))) True False w1
           = (Inr (enrichment, version, ok), w3)"
        and "(if \<not> valid \<or> \<not> ok then returnM ([], version)
          else case merge_enrichment_observations discovery enrichment True of
              Inr merged \<Rightarrow> returnM (merged, version)
            | Inl _ \<Rightarrow> raiseM (Permanent ''enrichment XML conflicts with discovery XML'')) w3 = (Inr (obs, v'), w2)"
        by (auto simp: enriched_observations_def complete bindM_Inr Let_def cong: if_cong sum.case_cong)
      moreover from this(1) have "ok" by (auto simp: fetch_xml_observations_def bindM_Inr returnM_Inr raiseM_def split: if_splits sum.splits)
      ultimately show ?thesis using v that by (auto simp: returnM_Inr raiseM_def split: sum.splits)
    qed
    then show ?thesis using merge_facts parsed_keys_distinct [OF f(5)] by blast
  qed simp
  then have "(\<lambda>ob. (service_key_of ob, ob_state ob, ob_address ob)) ` set obs
      = (\<lambda>ob. (service_key_of ob, ob_state ob, ob_address ob)) ` set discovery" by (simp add: port_fact_def [abs_def])
  with complete opens ref(1) f show ?thesis by blast
qed

section \<open>A complete scan\<close>

text \<open>The raw report has one open and one closed port; the enrichment reports the open port again.\<close>

definition sc_ports :: xml where
  "sc_ports = Element ''ports'' [] [] [rp_port]"

definition sc_host :: xml where
  "sc_host = Element ''host'' [] [] [Element ''address'' [(''addr'', ''192.0.2.7'')] [] [], sc_ports]"

definition sc_root :: xml where
  "sc_root = Element ''nmaprun'' [] [] [sc_host,
     Element ''runstats'' [] [] [Element ''finished'' [(''exit'', ''success'')] [] [], Element ''hosts'' [(''total'', ''1'')] [] []]]"

definition sc_reference :: "string \<Rightarrow> nat list \<Rightarrow> raw_reference" where
  "sc_reference key bytes = \<lparr>rr_bucket = ''raw'', rr_key = key, rr_sha256 = sha256_hexdigest bytes, rr_version_id = None\<rparr>"

definition sc_envelope :: scan_envelope where
  "sc_envelope = \<lparr>en_attempt_id = ''attempt-1'', en_result_id = ''result-1'', en_run_id = ''run-1'', en_directive_id = ''directive-1'',
     en_target_event_id = ''event-1'', en_trace_id = ''trace-1'', en_provider = ''aws'', en_target_id = ''target-1'', en_generation = 1,
     en_address = ''192.0.2.7'', en_profile = ''default'', en_scanner_version = ''7.95'', en_outcome = ''complete'', en_exit_code = Some 0,
     en_error_type = None, en_error_retryable = None, en_scan_started_at = 0, en_scan_completed_at = 0, en_result_uploaded_at = 0,
     en_coverage = rp_coverage, en_declared_open_tcp_ports = [443], en_raw_result = Some (sc_reference ''raw.xml'' [60]),
     en_enrichment_result = Some (sc_reference ''enrichment.xml'' [61])\<rparr>"

definition sc_env :: parser_env where
  "sc_env = \<lparr>pn_put = \<lambda>_ _. Inr (), pn_head = \<lambda>_ _ _. Inl (Os_error ''down''),
     pn_get = \<lambda>_ q. Inr \<lparr>or_body = Some (Body (if gt_key q = ''raw.xml'' then [60] else [61]) None), or_version = JNull,
       or_etag = JNull, or_length = JNull\<rparr>,
     pn_fault = \<lambda>_. Db_works, pn_others = \<lambda>_ s. s, pn_rounds = 1\<rparr>"

definition sc_services :: scan_services where
  "sc_services = \<lparr>sv_validate = \<lambda>_. None, sv_reader = \<lambda>bytes. Inr (if bytes = [60] then rp_root else sc_root)\<rparr>"

definition sc_settings :: parser_settings where
  "sc_settings = \<lparr>ps_scan_result_bucket = ''results'', ps_raw_result_bucket = ''raw'', ps_finding_bucket = None,
     ps_finding_export_enabled = False, ps_max_envelope_bytes = 1000, ps_max_xml_bytes = 1000\<rparr>"

lemma sc_read: "read_limited 1000 [] [b] None = Inr [b]"
  by (simp add: read_limited.simps read_part_def Let_def)

lemma sc_fetch:
  "fetch_object sc_env ''raw'' key None 1000 w
     = (let bytes = (if key = ''raw.xml'' then [60] else [61])
        in (Inr (bytes, sha256_hexdigest bytes, None),
            w\<lparr>pw_log := pw_log w @ [Fetched \<lparr>gt_bucket = ''raw'', gt_key = key, gt_if_match = None, gt_version = None\<rparr>]\<rparr>))"
  by (simp add: fetch_object_def bindM_def tried_def get_object_def noted_def sc_env_def object_content_def sc_read liftM_def
      returnM_def json_text_def Let_def)

lemma sc_raw: "parse_nmap_xml (sv_reader sc_services) [60] ''192.0.2.7'' 0 (Some rp_coverage) True = Inr [rp_observation]"
  using rp_parsed by (simp add: parse_nmap_xml_def sc_services_def)

lemma sc_addresses: "host_addresses sc_host = [''192.0.2.7'']"
  by (simp add: host_addresses_def sc_host_def sc_ports_def children_def xml_get_def local_name_def List.map_filter_def rp_address)

lemma sc_valid: "validate_complete_xml sc_root ''192.0.2.7'' [open_port_coverage 443] = Inr sc_host"
proof -
  have "successful_run sc_root = Inr ()" "one_child ''ports'' sc_host = Inr sc_ports"
    "coverage_ranges [open_port_coverage 443] = Inr ([(''tcp'', [(443, 443)])], 1)"
    "explicit_ports [(''tcp'', [(443, 443)])] [] (children ''port'' sc_ports) = Inr [(''tcp'', 443)]"
    "mapR extraports_count (children ''extraports'' sc_ports) = Inr []" "children ''host'' sc_root = [sc_host]"
    "py_lower (xml_attr ''timedout'' sc_host) = []"
    by code_simp+
  then show ?thesis by (simp add: validate_complete_xml_def authorized_target_host_def sc_addresses)
qed

lemma sc_enriched:
  "parse_nmap_xml (sv_reader sc_services) [61] ''192.0.2.7'' 0 (Some [open_port_coverage 443]) True = Inr [rp_observation]"
proof -
  have "target_nodes ''192.0.2.7'' [sc_host] = [rp_port]"
    by (simp add: target_nodes_def sc_addresses) (simp add: sc_host_def sc_ports_def rp_port_def children_def local_name_def)
  moreover have "py_int (xml_attr ''portid'' rp_port) = Some 443" "node_protocol rp_port = ''tcp''"
    "normalize_state (first_attr ''state'' (children ''state'' rp_port)) = Port_open" "local_name (xml_tag sc_root) = ''nmaprun''"
    by code_simp+
  ultimately show ?thesis
    by (simp add: parse_nmap_xml_def rp_address sc_valid port_observation_def add_observation_def sorted_observations_def rp_observation_def
        service_key_of_def sc_services_def)
qed

lemma sc_loaded:
  "\<exists>w'. load_observations sc_env sc_services sc_settings sc_envelope w = (Inr ([rp_observation], None, None, True), w')"
proof -
  have m: "merge_enrichment_observations [rp_observation] [rp_observation] True = Inr [rp_observation]"
    by (auto simp: merge_enrichment_observations_def enrich_def service_key_of_def rp_observation_def sorted_observations_def set_eq_iff image_iff)
  have o: "open_tcp_ports_of [rp_observation] = [443]" by (simp add: open_tcp_ports_of_def rp_observation_def)
  show ?thesis
    by (simp add: load_observations_def raw_observations_def enriched_observations_def fetch_xml_observations_def sc_envelope_def
        sc_settings_def sc_reference_def sc_fetch bindM_def returnM_def Let_def sc_raw sc_enriched m o)
qed

theorem complete_evidence_is_proven_witness:
  "open_tcp_ports_of [rp_observation] = en_declared_open_tcp_ports sc_envelope
   \<and> (\<exists>discovery. (\<lambda>ob. (service_key_of ob, ob_state ob, ob_address ob)) ` {rp_observation}
         = (\<lambda>ob. (service_key_of ob, ob_state ob, ob_address ob)) ` set discovery)"
proof -
  obtain w' where "load_observations sc_env sc_services sc_settings sc_envelope \<lparr>pw_db = fresh_db [] 0, pw_log = []\<rparr>
      = (Inr ([rp_observation], None, None, True), w')" using sc_loaded by blast
  from complete_evidence_is_proven [OF this] show ?thesis by auto
qed

end
