(* ===== verification/Parser_Config.thy ===== *)
theory Parser_Config
  imports Parser_Scan_Handler Parser_Intake Processor
begin

text \<open>
  The settings of the parser's handlers (\<^verbatim>\<open>parser/.../config.py\<close>), as the entry points read them from the environment of the
  process. The connection string comes from a secret and from the driver, which are parameters; it is used
  only if it demands TLS.
\<close>

section \<open>Settings\<close>

definition finding_export_enabled :: "environ \<Rightarrow> run_error + bool" where
  "finding_export_enabled os =
     (case os ''FINDING_EXPORT_ENABLED'' of
        None \<Rightarrow> Inr True
      | Some raw \<Rightarrow> if py_lower raw \<notin> {''true'', ''false''} then Inl configuration_error else Inr (py_lower raw = ''true''))"

definition require_tls :: "(string \<Rightarrow> run_error + (string \<Rightarrow> string option)) \<Rightarrow> environ \<Rightarrow> string \<Rightarrow> run_error + string" where
  "require_tls conninfo os dsn =
     bindR (conninfo dsn) (\<lambda>parameters.
     if parameters ''sslmode'' \<notin> {Some ''require'', Some ''verify-ca'', Some ''verify-full''}
        \<and> os ''ACT_ALLOW_INSECURE_TEST_DATABASE'' \<noteq> Some ''1''
     then Inl configuration_error else Inr dsn)"

text \<open>A setting that is missing or empty.\<close>

definition unset :: "environ \<Rightarrow> string \<Rightarrow> bool" where
  "unset os name \<longleftrightarrow> os name = None \<or> os name = Some []"

definition set_text :: "environ \<Rightarrow> string \<Rightarrow> string" where
  "set_text os name = (case os name of None \<Rightarrow> [] | Some s \<Rightarrow> s)"

definition int_setting :: "environ \<Rightarrow> string \<Rightarrow> int \<Rightarrow> run_error + int" where
  "int_setting os name fallback =
     (case os name of
        None \<Rightarrow> Inr fallback
      | Some raw \<Rightarrow> (case py_int raw of None \<Rightarrow> Inl value_error | Some n \<Rightarrow> Inr n))"

definition load_settings :: "(environ \<Rightarrow> run_error + string) \<Rightarrow> environ \<Rightarrow> run_error + parser_settings \<times> string" where
  "load_settings database_dsn os =
     bindR (finding_export_enabled os) (\<lambda>export.
     bindR (ensure (\<not> (unset os ''SCAN_RESULT_BUCKET'' \<or> unset os ''RAW_RESULT_BUCKET'' \<or> (export \<and> unset os ''FINDING_BUCKET'')))
              configuration_error) (\<lambda>_.
     bindR (database_dsn os) (\<lambda>dsn.
     bindR (int_setting os ''MAX_SCAN_RESULT_ENVELOPE_BYTES'' 1048576) (\<lambda>envelope_bytes.
     bindR (int_setting os ''MAX_RAW_XML_BYTES'' 67108864) (\<lambda>xml_bytes.
     Inr (\<lparr>ps_scan_result_bucket = set_text os ''SCAN_RESULT_BUCKET'', ps_raw_result_bucket = set_text os ''RAW_RESULT_BUCKET'',
           ps_finding_bucket = os ''FINDING_BUCKET'', ps_finding_export_enabled = export, ps_max_envelope_bytes = envelope_bytes,
           ps_max_xml_bytes = xml_bytes\<rparr>, dsn))))))"

definition load_target_event_settings :: "(environ \<Rightarrow> run_error + string) \<Rightarrow> environ \<Rightarrow> run_error + intake_settings \<times> string" where
  "load_target_event_settings database_dsn os =
     bindR (finding_export_enabled os) (\<lambda>export.
     bindR (ensure (\<not> (unset os ''TARGET_EVENT_BUCKET'' \<or> unset os ''TARGET_EVENT_PREFIX'' \<or> (export \<and> unset os ''FINDING_BUCKET'')))
              configuration_error) (\<lambda>_.
     bindR (database_dsn os) (\<lambda>dsn.
     bindR (int_setting os ''MAX_TARGET_EVENT_BYTES'' 65536) (\<lambda>event_bytes.
     Inr (\<lparr>ts_target_event_bucket = set_text os ''TARGET_EVENT_BUCKET'', ts_target_event_prefix = set_text os ''TARGET_EVENT_PREFIX'',
           ts_finding_bucket = os ''FINDING_BUCKET'', ts_finding_export_enabled = export, ts_max_event_bytes = event_bytes\<rparr>, dsn)))))"

section \<open>Entry points\<close>

text \<open>The handlers read their settings on every invocation, before they look at the event.\<close>

definition scan_entry :: "parser_env \<Rightarrow> scan_services \<Rightarrow> (environ \<Rightarrow> run_error + string) \<Rightarrow> environ \<Rightarrow> json \<Rightarrow> string list run" where
  "scan_entry E svc database_dsn os event =
     bindM (liftM (load_settings database_dsn os)) (\<lambda>(s, _). scan_lambda E svc s event)"

definition intake_entry :: "parser_env \<Rightarrow> (json \<Rightarrow> target_payload option) \<Rightarrow> (environ \<Rightarrow> run_error + string) \<Rightarrow> environ \<Rightarrow> json
    \<Rightarrow> string list run" where
  "intake_entry E adapter database_dsn os event =
     bindM (liftM (load_target_event_settings database_dsn os)) (\<lambda>(s, _). intake_lambda E adapter s event)"

section \<open>Facts\<close>

text \<open>With the settings that the entry points load, findings go to a named bucket whenever they are exported.\<close>

lemma load_settings_buckets:
  assumes "load_settings database_dsn os = Inr (s, dsn)"
  shows "ps_scan_result_bucket s \<noteq> [] \<and> ps_raw_result_bucket s \<noteq> []
    \<and> (ps_finding_export_enabled s \<longrightarrow> (\<exists>b. ps_finding_bucket s = Some b \<and> b \<noteq> []))"
  using assms by (auto simp: load_settings_def bindR_Inr ensure_def unset_def set_text_def split: if_splits option.splits)

lemma load_target_event_settings_buckets:
  assumes "load_target_event_settings database_dsn os = Inr (s, dsn)"
  shows "ts_target_event_bucket s \<noteq> [] \<and> ts_target_event_prefix s \<noteq> []
    \<and> (ts_finding_export_enabled s \<longrightarrow> (\<exists>b. ts_finding_bucket s = Some b \<and> b \<noteq> []))"
  using assms by (auto simp: load_target_event_settings_def bindR_Inr ensure_def unset_def set_text_def split: if_splits option.splits)

end
