(* ===== verification/Publication_Guarantees.thy ===== *)
theory Publication_Guarantees
  imports Scan_Guarantees Parser_Config Parser_Demo
begin

text \<open>
  Every run of the parser's handlers and of the processor marks a handoff as published only once its payload is in S3.
\<close>

section \<open>Publication\<close>

lemma orderly_fetch: "always orderly (fetch_object E b k v l)"
  unfolding fetch_object_def
  by (auto split: sum.splits run_error.splits intro!: orderly.always_rules always_tried orderly_parts always_intro)

lemma orderly_ran: "always orderly (db_op E (\<lambda>_. Ran_other) m)"
  by (rule orderly_db_op) simp

lemmas orderly_intros = orderly.always_rules orderly_ran orderly_publish_all orderly_fetch always_tried always_intro

lemma orderly_scan: "always orderly (scan_lambda E svc s event)"
proof -
  have x: "always orderly (fetch_xml_observations E svc s ref env c b t)" for ref env c b t
    unfolding fetch_xml_observations_def by (intro orderly_intros)
  have l: "always orderly (load_observations E svc s env)" for env
    unfolding load_observations_def raw_observations_def enriched_observations_def Let_def by (intro orderly_intros x)
  have p: "always orderly (process_scan_result E svc s k v)" for k v
    unfolding process_scan_result_def ingest_and_publish_def by (intro orderly_intros l)
  have o: "always orderly (scan_object E svc s b r)" for b r
    unfolding scan_object_def by (auto split: sum.splits run_error.splits intro!: orderly_intros p)
  have m: "always orderly (scan_message E svc s fs r)" for fs r
    unfolding scan_message_def by (intro orderly_intros o)
  show ?thesis unfolding scan_lambda_def by (auto split: json.splits intro!: orderly_intros m)
qed

lemma orderly_intake: "always orderly (intake_lambda E adapter s event)"
proof -
  have f: "always orderly (fetch_target_object E s ref)" for ref
    unfolding fetch_target_object_def by (auto split: sum.splits run_error.splits intro!: orderly_intros orderly_parts)
  have p: "always orderly (process_target_event E adapter s ref)" for ref
    unfolding process_target_event_def apply_and_publish_def publish_target_event_handoffs_def by (intro orderly_intros f)
  have m: "always orderly (intake_message E adapter s fs r)" for fs r
    unfolding intake_message_def intake_record_def by (intro orderly_intros p)
  show ?thesis unfolding intake_lambda_def by (auto split: json.splits intro!: orderly_intros m)
qed

lemma orderly_processor: "always orderly (processor_lambda E rows os now event)"
proof -
  have c: "always orderly (managed_canary_status E rows c)" for c unfolding managed_canary_status_def by (intro orderly_intros)
  have r: "always orderly (scheduled_reconciliation E os now event)"
    unfolding scheduled_reconciliation_def by (auto split: json.splits intro!: orderly_intros)
  show ?thesis unfolding processor_lambda_def by (intro orderly_intros c r)
qed

lemma orderly_entries: "always orderly (scan_entry E svc dsn os event)" "always orderly (intake_entry E adapter dsn os event)"
  unfolding scan_entry_def intake_entry_def by (intro orderly_intros orderly_scan orderly_intake)+

text \<open>
  C17. Every finding that is marked as published is in S3. In every run of the scan handler, of the target intake, of the processor or of a
  direct publication, from an empty log, whatever S3, the database and other workers do: when a handoff is marked as published, then this
  run listed it before, its payload has the digest of its row, and right before the mark either S3 accepted
  the upload of the payload, or S3 refused it because the object exists and its metadata name the same digest.
\<close>

theorem published_only_when_stored:
  assumes "(\<exists>svc dsn settings event r. scan_entry E svc dsn settings event w = (r, w'))
      \<or> (\<exists>adapter dsn settings event r. intake_entry E adapter dsn settings event w = (r, w'))
      \<or> (\<exists>rows settings now event r. processor_lambda E rows settings now event w = (r, w')) \<or> (\<exists>keys page_size r. publish_all E keys page_size w = (r, w'))"
    and "pw_log w = []" and "i < length (pw_log w')" and "pw_log w' ! i = Published key"
  shows "\<exists>rows k h. Listed rows \<in> set (take i (pw_log w')) \<and> (k, h) \<in> set rows \<and> key = py_strip k
    \<and> sha256 (pu_body (handoff_put h)) = pu_sha256 (handoff_put h)
    \<and> ((\<exists>l. take i (pw_log w') = l @ [Stored (handoff_put h) (Inr ())])
       \<or> (\<exists>l ecode response. take i (pw_log w') = l @ [Stored (handoff_put h) (Inl (Client_error ecode (Some 412))),
              Looked_up (ho_object_bucket h) (ho_object_key h) (Inr response)]
            \<and> metadata_matches (pu_sha256 (handoff_put h)) response))"
proof -
  have "orderly w w'"
    using assms(1)
    by (elim disjE exE) (erule alwaysD [OF orderly_entries(1)] alwaysD [OF orderly_entries(2)] alwaysD [OF orderly_processor]
        alwaysD [OF orderly_publish_all])+
  then have "uploads_first (pw_log w')" using assms(2) by (simp add: orderly_def)
  then have "may_publish (take i (pw_log w')) key" using assms(3,4) by (simp add: uploads_first_def)
  then show ?thesis by (simp add: may_publish_def in_bucket_def)
qed

section \<open>A publication\<close>

definition pb_env :: parser_env where
  "pb_env = \<lparr>pn_put = \<lambda>_ _. Inr (), pn_head = \<lambda>_ _ _. Inl (Os_error ''down''), pn_get = \<lambda>_ _. Inl (Os_error ''down''),
     pn_fault = \<lambda>_. Db_works, pn_others = \<lambda>_ s. s, pn_rounds = 1\<rparr>"

definition pb_start :: parser_world where
  "pb_start = \<lparr>pw_db = demo_queued, pw_log = []\<rparr>"

lemma strip_hex: "is_sha256_hex k \<Longrightarrow> py_strip k = k"
proof -
  assume "is_sha256_hex k"
  then have all: "list_all (\<lambda>c. \<not> is_space c) k"
    by (auto simp: is_sha256_hex_def list_all_iff is_lower_hex_def is_digit_def is_space_def)
  have d: "dropWhile is_space u = u" if "list_all (\<lambda>c. \<not> is_space c) u" for u using that by (cases u) auto
  from all show ?thesis by (simp add: py_strip_def d)
qed

lemma pb_key: "py_strip demo_handoff_key = demo_handoff_key"
  by (rule strip_hex) (simp add: demo_handoff_key_def)

lemma pb_sha: "py_strip (payload_hash p) = payload_hash p"
  by (rule strip_hex) simp

lemma pb_run:
  "publish_all pb_env None 1000 pb_start = (Inr 1, \<lparr>pw_db = demo_queued
       \<lparr>handoffs := [(demo_handoff_key, demo_handoff\<lparr>ho_publish_attempts := 1, ho_first_attempted_at := Some 1,
          ho_last_attempted_at := Some 2, ho_published_at := Some 3, ho_last_error_code := None\<rparr>)], db_clock := 4\<rparr>,
     pw_log = [Listed [(demo_handoff_key, demo_handoff)], Attempted demo_handoff_key,
       Stored (handoff_put demo_handoff) (Inr ()), Published demo_handoff_key]\<rparr>)"
proof -
  have row: "ho_payload_sha256 demo_handoff = payload_hash (ho_payload demo_handoff)" "ho_published_at demo_handoff = None"
    "ho_publish_attempts demo_handoff = 0" "ho_first_attempted_at demo_handoff = None" "ho_last_error_code demo_handoff = None"
    by (simp_all add: demo_handoff_def new_handoff_def)
  have ok: "handoff_row_ok demo_handoff_key (demo_handoff\<lparr>ho_publish_attempts := 1, ho_first_attempted_at := Some f,
      ho_last_attempted_at := Some l\<rparr>)"
    "handoff_row_ok demo_handoff_key (demo_handoff\<lparr>ho_publish_attempts := 1, ho_first_attempted_at := Some f,
      ho_last_attempted_at := Some l, ho_published_at := p, ho_last_error_code := None\<rparr>)" if "f \<le> l" for f l p
    using that by (simp_all add: handoff_row_ok_def demo_handoff_def new_handoff_def btrim_nonempty_def demo_handoff_key_def)
  show ?thesis
    by (simp add: publish_all_def pb_env_def publish_pending_def db_op_def pending_handoffs_def pending_rows_def run_defs pb_start_def
        demo_queued_def publish_handoff_def pb_key pb_sha row tried_def put_object_def noted_def record_handoff_attempt_def
        mark_handoff_published_def update_handoff_def clock_timestamp_def tbl_get_def value_or_def ok numeral_eq_Suc)
qed

theorem published_only_when_stored_witness:
  "\<exists>rows k h. Listed rows \<in> set (take 3 (pw_log (snd (publish_all pb_env None 1000 pb_start)))) \<and> (k, h) \<in> set rows
     \<and> demo_handoff_key = py_strip k \<and> sha256 (pu_body (handoff_put h)) = pu_sha256 (handoff_put h)"
proof -
  let ?w = "snd (publish_all pb_env None 1000 pb_start)"
  have "publish_all pb_env None 1000 pb_start = (Inr 1, ?w)" "pw_log pb_start = []" "3 < length (pw_log ?w)"
    "pw_log ?w ! 3 = Published demo_handoff_key"
    unfolding pb_run by (simp_all add: pb_start_def numeral_eq_Suc)
  then show ?thesis using published_only_when_stored [of pb_env pb_start ?w 3 demo_handoff_key] by blast
qed

end
