(* ===== verification/Contract_Result.thy ===== *)
theory Contract_Result
  imports Contract_Target
begin

text \<open>
  The result contracts (\<^verbatim>\<open>contracts/.../models.py\<close>): the normalized evidence of a scan, and the envelope that the
  scanner publishes about it, with the checks that keep the two and the declared coverage consistent.
\<close>

section \<open>Scan results\<close>

datatype scanner_engine = NMAP

primrec engine_value :: "scanner_engine \<Rightarrow> string" where
  "engine_value NMAP = ''nmap''"

record scan_result =
  sr_schema_version :: string
  sr_result_id :: string
  sr_event_id :: string
  sr_directive_id :: string
  sr_target :: target
  sr_profile :: scan_profile
  sr_scanner :: scanner_engine
  sr_scanner_version :: string
  sr_started_at :: time
  sr_completed_at :: time
  sr_outcome :: scan_outcome
  sr_requested_ranges :: "tcp_port_range list"
  sr_scanned_ranges :: "tcp_port_range list"
  sr_open_tcp_ports :: "int list"
  sr_exit_code :: "int option"
  sr_raw_result_sha256 :: "string option"
  sr_error_code :: "string option"
  sr_error_message :: "string option"

definition result_identity_payload :: "scan_result \<Rightarrow> json" where
  "result_identity_payload r = JObj
     [(''event_id'', JStr (sr_event_id r)), (''directive_id'', JStr (sr_directive_id r)),
      (''target_id'', JStr (target_id (sr_target r))), (''target_generation'', JInt (generation (sr_target r))),
      (''started_at'', jtime (sr_started_at r)), (''completed_at'', jtime (sr_completed_at r)),
      (''outcome'', JStr (outcome_value (sr_outcome r))), (''raw_result_sha256'', jopt JStr (sr_raw_result_sha256 r)),
      (''open_tcp_ports'', JArr (map JInt (sr_open_tcp_ports r)))]"

definition expected_result_id :: "scan_result \<Rightarrow> string" where
  "expected_result_id r = namespaced_sha256 ''portscanner.scan-result.v1'' (result_identity_payload r)"

text \<open>A port that the scanned ranges cover.\<close>

definition scanned_port :: "scan_result \<Rightarrow> int \<Rightarrow> bool" where
  "scanned_port r p \<longleftrightarrow> list_ex (\<lambda>g. pr_start g \<le> p \<and> p \<le> pr_end g) (sr_scanned_ranges r)"

definition validate_result_claims :: "scan_result \<Rightarrow> validation" where
  "validate_result_claims r = checks
     [require (sr_started_at r \<le> sr_completed_at r) (Value_error ''started_at must not be later than completed_at''),
      require ((sr_error_code r = None) = (sr_error_message r = None)) (Value_error ''error_code and error_message must be supplied together''),
      require (list_all (scanned_port r) (sr_open_tcp_ports r)) (Value_error ''open_tcp_ports must be covered by scanned ranges''),
      require (sr_outcome r = COMPLETE \<longrightarrow> sr_scanned_ranges r = sr_requested_ranges r)
        (Value_error ''complete results must cover every requested TCP port''),
      require (sr_outcome r = COMPLETE \<longrightarrow> sr_exit_code r = Some 0) (Value_error ''complete results require exit_code 0''),
      require (sr_outcome r = COMPLETE \<longrightarrow> sr_error_code r = None) (Value_error ''complete results cannot contain an error''),
      require (sr_outcome r = FRESHNESS_REJECTED \<longrightarrow>
                 sr_scanned_ranges r = [] \<and> sr_open_tcp_ports r = [] \<and> sr_raw_result_sha256 r = None)
        (Value_error ''freshness-rejected work cannot contain scan observations'')]"

definition validate_scan_result :: "bool \<Rightarrow> scan_result \<Rightarrow> validation" where
  "validate_scan_result skip r = checks
     [fieldc (sr_schema_version r = ''1.0'') ''schema_version'',
      fieldc (is_sha256_hex (sr_result_id r)) ''result_id'', fieldc (is_sha256_hex (sr_event_id r)) ''event_id'',
      fieldc (is_sha256_hex (sr_directive_id r)) ''directive_id'', validate_target skip (sr_target r),
      fieldc (is_bounded_text (sr_scanner_version r)) ''scanner_version'',
      require (\<not> is_blank (sr_scanner_version r)) (Value_error ''text fields must not be blank''),
      validate_range_field False ''requested_tcp_port_ranges'' (sr_requested_ranges r),
      validate_range_field True ''scanned_tcp_port_ranges'' (sr_scanned_ranges r),
      fieldc (list_all is_port (sr_open_tcp_ports r) \<and> length (sr_open_tcp_ports r) \<le> 65535) ''open_tcp_ports'',
      require (sr_open_tcp_ports r = sorted_set (sr_open_tcp_ports r)) (Value_error ''open_tcp_ports must be sorted and unique''),
      fieldc (opt_ok is_exit_code (sr_exit_code r)) ''exit_code'',
      fieldc (opt_ok is_sha256_hex (sr_raw_result_sha256 r)) ''raw_result_sha256'',
      fieldc (opt_ok is_bounded_text (sr_error_code r)) ''error_code'',
      require (opt_ok (\<lambda>s. \<not> is_blank s) (sr_error_code r)) (Value_error ''text fields must not be blank''),
      fieldc (opt_ok is_bounded_text (sr_error_message r)) ''error_message'',
      require (opt_ok (\<lambda>s. \<not> is_blank s) (sr_error_message r)) (Value_error ''text fields must not be blank''),
      validate_deterministic_id skip ''result_id'' (sr_result_id r) (expected_result_id r),
      validate_result_claims r]"

definition create_scan_result :: "scan_result \<Rightarrow> contract_error + scan_result" where
  "create_scan_result = create (\<lambda>i. sr_result_id_update (\<lambda>_. i)) expected_result_id validate_scan_result"

definition scan_result_json :: "scan_result \<Rightarrow> json" where
  "scan_result_json r = JObj
     [(''schema_version'', JStr (sr_schema_version r)), (''result_id'', JStr (sr_result_id r)), (''event_id'', JStr (sr_event_id r)),
      (''directive_id'', JStr (sr_directive_id r)), (''target'', target_json (sr_target r)),
      (''profile'', JStr (profile_value (sr_profile r))), (''scanner'', JStr (engine_value (sr_scanner r))),
      (''scanner_version'', JStr (sr_scanner_version r)), (''started_at'', jtime (sr_started_at r)),
      (''completed_at'', jtime (sr_completed_at r)), (''outcome'', JStr (outcome_value (sr_outcome r))),
      (''requested_tcp_port_ranges'', JArr (map range_json (sr_requested_ranges r))),
      (''scanned_tcp_port_ranges'', JArr (map range_json (sr_scanned_ranges r))),
      (''open_tcp_ports'', JArr (map JInt (sr_open_tcp_ports r))), (''exit_code'', jopt JInt (sr_exit_code r)),
      (''raw_result_sha256'', jopt JStr (sr_raw_result_sha256 r)), (''error_code'', jopt JStr (sr_error_code r)),
      (''error_message'', jopt JStr (sr_error_message r))]"

lemma validate_claims_id [simp]: "validate_result_claims (sr_result_id_update f r) = validate_result_claims r"
  by (simp add: validate_result_claims_def scanned_port_def [abs_def])

interpretation result_model: deterministic_model sr_result_id "\<lambda>i. sr_result_id_update (\<lambda>_. i)"
  expected_result_id validate_scan_result
  by unfold_locales
    (auto simp: expected_result_id_def result_identity_payload_def validate_scan_result_def intro: target_model.validate_skip)

section \<open>Envelopes\<close>

record result_target =
  rt_target_id :: string
  rt_address :: string
  rt_generation :: int

record scan_coverage =
  scv_protocol :: string
  scv_ports :: "string list"
  scv_complete :: bool

record scan_timestamps =
  stm_scan_started_at :: time
  stm_scan_completed_at :: time
  stm_result_uploaded_at :: time

record scan_command =
  cmd_argv :: "string list"
  cmd_timeout_seconds :: int
  cmd_exit_code :: "int option"

record raw_artifact_reference =
  ra_bucket :: string
  ra_key :: string
  ra_sha256 :: string

record nmap_raw_result =
  nr_format :: string
  nr_artifact :: raw_artifact_reference
  nr_enrichment :: "raw_artifact_reference option"

record scan_error =
  se_type :: string
  se_message :: string
  se_retryable :: bool

record result_envelope =
  re_schema_version :: string
  re_event_id :: string
  re_directive_id :: string
  re_trace_id :: string
  re_run_id :: string
  re_attempt_id :: string
  re_target :: result_target
  re_profile :: scan_profile
  re_image_version :: string
  re_coverage :: scan_coverage
  re_timestamps :: scan_timestamps
  re_discovery :: scan_command
  re_enrichment :: "scan_command option"
  re_outcome :: string
  re_exit_code :: "int option"
  re_raw_result :: "nmap_raw_result option"
  re_error :: "scan_error option"
  re_scan_result :: scan_result

definition validate_coverage_field :: "scan_coverage \<Rightarrow> validation" where
  "validate_coverage_field c = checks
     [fieldc (scv_protocol c = ''tcp'') ''protocol'',
      fieldc (list_all (\<lambda>t. match_term t \<noteq> None) (scv_ports c) \<and> 1 \<le> length (scv_ports c) \<and> length (scv_ports c) \<le> 256) ''ports'',
      validate_canonical_ports (scv_ports c)]"

definition validate_command_field :: "scan_command \<Rightarrow> validation" where
  "validate_command_field c = checks
     [fieldc (list_all (len_between 1 2048) (cmd_argv c) \<and> 1 \<le> length (cmd_argv c) \<and> length (cmd_argv c) \<le> 256) ''argv'',
      fieldc (1 \<le> cmd_timeout_seconds c \<and> cmd_timeout_seconds c \<le> 86400) ''timeout_seconds'',
      fieldc (opt_ok is_exit_code (cmd_exit_code c)) ''exit_code'']"

definition validate_artifact_reference :: "raw_artifact_reference \<Rightarrow> validation" where
  "validate_artifact_reference a = checks
     [fieldc (len_between 3 255 (ra_bucket a)) ''bucket'',
      require (list_all (\<lambda>c. \<not> is_space c \<and> 32 \<le> code c) (ra_bucket a))
        (Value_error ''S3 bucket must not contain whitespace or control characters''),
      fieldc (len_between 1 1024 (ra_key a)) ''key'',
      require (list_all (\<lambda>c. 32 \<le> code c) (ra_key a)) (Value_error ''S3 object key must not contain control characters''),
      fieldc (is_sha256_hex (ra_sha256 a)) ''sha256'']"

definition opt_valid :: "('a \<Rightarrow> validation) \<Rightarrow> 'a option \<Rightarrow> validation" where
  "opt_valid v x = (case x of None \<Rightarrow> None | Some y \<Rightarrow> v y)"

definition validate_raw_field :: "nmap_raw_result \<Rightarrow> validation" where
  "validate_raw_field n = checks
     [validate_artifact_reference (nr_artifact n), fieldc (nr_format n = ''nmap-xml'') ''format'',
      opt_valid validate_artifact_reference (nr_enrichment n)]"

definition validate_error_field :: "scan_error \<Rightarrow> validation" where
  "validate_error_field e = checks
     [fieldc (is_safe_identifier (se_type e)) ''type'', fieldc (is_bounded_text (se_message e)) ''message'',
      require (\<not> is_blank (se_message e)) (Value_error ''scanner error message must not be blank'')]"

definition validate_envelope_fields :: "result_envelope \<Rightarrow> validation" where
  "validate_envelope_fields e = checks
     [fieldc (re_schema_version e = ''1.0'') ''schema_version'', fieldc (is_sha256_hex (re_event_id e)) ''event_id'',
      fieldc (is_sha256_hex (re_directive_id e)) ''directive_id'', fieldc (is_safe_identifier (re_trace_id e)) ''trace_id'',
      fieldc (is_safe_identifier (re_run_id e)) ''run_id'', fieldc (is_safe_identifier (re_attempt_id e)) ''attempt_id'',
      fieldc (is_sha256_hex (rt_target_id (re_target e))) ''target_id'', err_of (validate_public_ipv4 (rt_address (re_target e))),
      fieldc (is_generation (rt_generation (re_target e))) ''generation'', fieldc (is_image_version (re_image_version e)) ''image_version'',
      validate_coverage_field (re_coverage e),
      require (stm_scan_started_at (re_timestamps e) \<le> stm_scan_completed_at (re_timestamps e)
               \<and> stm_scan_completed_at (re_timestamps e) \<le> stm_result_uploaded_at (re_timestamps e))
        (Value_error ''scan result timestamps must be ordered''),
      validate_command_field (re_discovery e), opt_valid validate_command_field (re_enrichment e),
      fieldc (re_outcome e \<in> {''complete'', ''partial'', ''failed''}) ''outcome'', fieldc (opt_ok is_exit_code (re_exit_code e)) ''exit_code'',
      opt_valid validate_raw_field (re_raw_result e), opt_valid validate_error_field (re_error e),
      validate_scan_result False (re_scan_result e)]"

section \<open>Consistency of an envelope\<close>

definition redacted_command :: "string \<Rightarrow> scan_command \<Rightarrow> bool" where
  "redacted_command address c \<longleftrightarrow>
     hd (cmd_argv c) = ''nmap'' \<and> count_list (cmd_argv c) ''<authorized-target>'' = 1 \<and> count_list (cmd_argv c) ''<raw-xml>'' = 1
     \<and> \<not> list_ex (\<lambda>a. contains a address) (cmd_argv c) \<and> ''-iL'' \<notin> set (cmd_argv c)
     \<and> \<not> list_ex (\<lambda>a. startswith a ''--script-args'') (cmd_argv c)"

definition validate_command_metadata :: "result_envelope \<Rightarrow> validation" where
  "validate_command_metadata e =
     require (redacted_command (rt_address (re_target e)) (re_discovery e)
              \<and> opt_ok (redacted_command (rt_address (re_target e))) (re_enrichment e))
       (Value_error ''scanner command metadata must be redacted and bounded'')"

definition validate_outcome :: "result_envelope \<Rightarrow> validation" where
  "validate_outcome e =
     (let is_complete = (re_outcome e = ''complete'') in
      checks
       [require (scv_complete (re_coverage e) = is_complete) (Value_error ''coverage completeness must match outcome''),
        require (is_complete \<longrightarrow> re_error e = None) (Value_error ''complete results cannot contain an error''),
        require (is_complete \<longrightarrow> re_exit_code e = Some 0) (Value_error ''complete results require exit_code 0''),
        require (is_complete \<longrightarrow> re_raw_result e \<noteq> None) (Value_error ''complete results require raw discovery evidence''),
        require (\<not> is_complete \<longrightarrow> re_error e \<noteq> None) (Value_error ''partial and failed results require an error''),
        require (case re_raw_result e of None \<Rightarrow> True | Some n \<Rightarrow> nr_enrichment n = None \<or> re_enrichment e \<noteq> None)
          (Value_error ''raw enrichment evidence requires enrichment command metadata'')])"

definition nested_agrees :: "result_envelope \<Rightarrow> bool" where
  "nested_agrees e \<longleftrightarrow>
     (let r = re_scan_result e in
      sr_event_id r = re_event_id e \<and> sr_directive_id r = re_directive_id e
      \<and> target_id (sr_target r) = rt_target_id (re_target e) \<and> public_address (sr_target r) = rt_address (re_target e)
      \<and> generation (sr_target r) = rt_generation (re_target e) \<and> sr_profile r = re_profile e \<and> sr_scanner r = NMAP
      \<and> sr_scanner_version r = re_image_version e \<and> sr_started_at r = stm_scan_started_at (re_timestamps e)
      \<and> sr_completed_at r = stm_scan_completed_at (re_timestamps e) \<and> outcome_value (sr_outcome r) = re_outcome e
      \<and> sr_exit_code r = re_exit_code e
      \<and> sr_raw_result_sha256 r = map_option (\<lambda>n. ra_sha256 (nr_artifact n)) (re_raw_result e)
      \<and> as_ranges (scv_ports (re_coverage e)) = Some (map (\<lambda>g. (pr_start g, pr_end g)) (sr_requested_ranges r)))"

definition validate_nested_result :: "result_envelope \<Rightarrow> validation" where
  "validate_nested_result e = checks
     [require (nested_agrees e) (Value_error ''nested ScanResult conflicts with its scanner envelope''),
      require (sr_error_code (re_scan_result e) = map_option se_type (re_error e)
               \<and> sr_error_message (re_scan_result e) = map_option se_message (re_error e))
        (Value_error ''nested ScanResult error conflicts with its scanner envelope'')]"

definition validate_result_envelope :: "result_envelope \<Rightarrow> validation" where
  "validate_result_envelope e = checks
     [validate_envelope_fields e, validate_command_metadata e, validate_outcome e, validate_nested_result e]"

section \<open>Documents\<close>

definition artifact_members :: "raw_artifact_reference \<Rightarrow> (string \<times> json) list" where
  "artifact_members a = [(''bucket'', JStr (ra_bucket a)), (''key'', JStr (ra_key a)), (''sha256'', JStr (ra_sha256 a))]"

definition command_json :: "scan_command \<Rightarrow> json" where
  "command_json c = JObj
     [(''argv'', JArr (map JStr (cmd_argv c))), (''timeout_seconds'', JInt (cmd_timeout_seconds c)),
      (''exit_code'', jopt JInt (cmd_exit_code c))]"

definition raw_result_json :: "nmap_raw_result \<Rightarrow> json" where
  "raw_result_json n = JObj
     (artifact_members (nr_artifact n)
      @ [(''format'', JStr (nr_format n)), (''enrichment'', jopt (\<lambda>a. JObj (artifact_members a)) (nr_enrichment n))])"

definition error_json :: "scan_error \<Rightarrow> json" where
  "error_json e = JObj [(''type'', JStr (se_type e)), (''message'', JStr (se_message e)), (''retryable'', JBool (se_retryable e))]"

definition result_envelope_json :: "result_envelope \<Rightarrow> json" where
  "result_envelope_json e = JObj
     [(''schema_version'', JStr (re_schema_version e)), (''event_id'', JStr (re_event_id e)),
      (''directive_id'', JStr (re_directive_id e)), (''trace_id'', JStr (re_trace_id e)), (''run_id'', JStr (re_run_id e)),
      (''attempt_id'', JStr (re_attempt_id e)),
      (''target'', JObj [(''target_id'', JStr (rt_target_id (re_target e))), (''address'', JStr (rt_address (re_target e))),
                         (''generation'', JInt (rt_generation (re_target e)))]),
      (''profile'', JStr (profile_value (re_profile e))), (''image_version'', JStr (re_image_version e)),
      (''coverage'', JObj [(''protocol'', JStr (scv_protocol (re_coverage e))), (''ports'', JArr (map JStr (scv_ports (re_coverage e)))),
                           (''complete'', JBool (scv_complete (re_coverage e)))]),
      (''timestamps'', JObj [(''scan_started_at'', jtime (stm_scan_started_at (re_timestamps e))),
                             (''scan_completed_at'', jtime (stm_scan_completed_at (re_timestamps e))),
                             (''result_uploaded_at'', jtime (stm_result_uploaded_at (re_timestamps e)))]),
      (''commands'', JObj [(''discovery'', command_json (re_discovery e)), (''enrichment'', jopt command_json (re_enrichment e))]),
      (''outcome'', JStr (re_outcome e)), (''exit_code'', jopt JInt (re_exit_code e)),
      (''raw_result'', jopt raw_result_json (re_raw_result e)), (''error'', jopt error_json (re_error e)),
      (''scan_result'', scan_result_json (re_scan_result e))]"

text \<open>
  \<^verbatim>\<open>validate_scan_result\<close> on the mapping of these values: the size of the canonical text, the model, and its canonical form.
\<close>

definition validate_result_payload :: "result_envelope \<Rightarrow> contract_error + json" where
  "validate_result_payload e =
     (if length (utf8 (canonical_json (result_envelope_json e))) > 65536 then Inl (Value_error ''contract JSON exceeds 65536 bytes'')
      else case validate_result_envelope e of Some err \<Rightarrow> Inl err | None \<Rightarrow> Inr (result_envelope_json e))"

section \<open>What a valid envelope says\<close>

text \<open>A complete envelope declares as covered exactly what was requested and scanned, with all open ports inside.\<close>

lemma valid_envelope_coverage:
  assumes "validate_result_envelope e = None" "re_outcome e = ''complete''"
  shows "as_ranges (scv_ports (re_coverage e)) = Some (map (\<lambda>g. (pr_start g, pr_end g)) (sr_scanned_ranges (re_scan_result e)))
    \<and> set (sr_open_tcp_ports (re_scan_result e)) \<subseteq> range_ports (sr_scanned_ranges (re_scan_result e))"
proof -
  let ?r = "re_scan_result e"
  have c: "sr_outcome ?r = COMPLETE" using assms
    by (cases "sr_outcome ?r") (auto simp: validate_result_envelope_def validate_nested_result_def nested_agrees_def Let_def)
  have v: "validate_result_claims ?r = None" using assms(1)
    by (auto simp: validate_result_envelope_def validate_envelope_fields_def validate_scan_result_def)
  from v c have "sr_scanned_ranges ?r = sr_requested_ranges ?r" "\<forall>p \<in> set (sr_open_tcp_ports ?r). scanned_port ?r p"
    by (auto simp: validate_result_claims_def list_all_iff)
  with assms(1) show ?thesis
    by (auto simp: validate_result_envelope_def validate_nested_result_def nested_agrees_def Let_def scanned_port_def
        list_ex_iff range_ports_def)
qed

end
