(* ===== verification/Scanner_Plan.thy ===== *)
theory Scanner_Plan
  imports Contract_Result Effects
begin

text \<open>
  The plan of a scan (\<^verbatim>\<open>scanner/nmap/.../coverage.py\<close>, \<^verbatim>\<open>targets.py\<close>, the keys of \<^verbatim>\<open>storage.py\<close>, the commands of
  \<^verbatim>\<open>nmap.py\<close> and \<^verbatim>\<open>prepare_scan\<close> of \<^verbatim>\<open>worker.py\<close>): what is validated and authorized before Nmap may run, and the
  command lines that are run. Every refusal is a \<^verbatim>\<open>ValueError\<close> of some class.
\<close>

unbundle bit_operations_syntax

section \<open>Port coverage\<close>

datatype plan_error =
    Coverage_error string
  | Target_error string
  | Storage_error string
  | Nmap_config_error string
  | Result_error string
  | Plan_value_error string

type_synonym port_coverage = "(int \<times> int) list"

definition port_range :: "int \<times> int \<Rightarrow> plan_error + int \<times> int" where
  "port_range r = (if 1 \<le> fst r \<and> fst r \<le> snd r \<and> snd r \<le> 65535 then Inr r
     else Inl (Coverage_error ''port range must be between 1 and 65535''))"

fun normalized_from :: "(int \<times> int) option \<Rightarrow> (int \<times> int) list \<Rightarrow> bool" where
  "normalized_from previous [] = True"
| "normalized_from previous (r # rs) =
     ((case previous of None \<Rightarrow> True | Some p \<Rightarrow> \<not> fst r \<le> snd p + 1) \<and> normalized_from (Some r) rs)"

definition port_coverage_of :: "(int \<times> int) list \<Rightarrow> plan_error + port_coverage" where
  "port_coverage_of ranges =
     bindR (ensure (ranges \<noteq> []) (Coverage_error ''port coverage cannot be empty'')) (\<lambda>_.
     bindR (ensure (normalized_from None ranges) (Coverage_error ''port coverage ranges must already be normalized'')) (\<lambda>_.
     Inr ranges))"

definition coverage_of_term :: "string \<Rightarrow> plan_error + int \<times> int" where
  "coverage_of_term raw =
     (let t = py_strip raw in
      if t = [] then Inl (Coverage_error ''port coverage contains an empty term'')
      else case match_term t of
          None \<Rightarrow> Inl (Coverage_error ''invalid TCP port coverage term'')
        | Some r \<Rightarrow> port_range r)"

text \<open>\<^verbatim>\<open>PortCoverage.parse\<close>; a single text is the list of that text.\<close>

definition parse_coverage :: "string list \<Rightarrow> plan_error + port_coverage" where
  "parse_coverage declarations =
     (let raw_terms = concat (map (split_on (CHR '','')) declarations) in
      bindR (ensure (raw_terms \<noteq> [] \<and> length raw_terms \<le> 4096) (Coverage_error ''port coverage must contain 1-4096 input terms'')) (\<lambda>_.
      bindR (mapR coverage_of_term raw_terms) (\<lambda>parsed.
      let normalized = merge_sorted (sort parsed) in
      bindR (ensure (length normalized \<le> 256) (Coverage_error ''normalized port coverage must contain at most 256 terms'')) (\<lambda>_.
      port_coverage_of normalized))))"

definition full_tcp_coverage :: port_coverage where
  "full_tcp_coverage = [(1, 65535)]"

definition coverage_from_ports :: "int list \<Rightarrow> plan_error + port_coverage" where
  "coverage_from_ports ports =
     (let values = sorted_set ports in
      bindR (ensure (values \<noteq> []) (Coverage_error ''cannot build coverage from an empty port set'')) (\<lambda>_.
      parse_coverage (map int_str values)))"

definition coverage_count :: "port_coverage \<Rightarrow> int" where
  "coverage_count c = sum_list (map (\<lambda>(start, stop). stop - start + 1) c)"

definition coverage_strings :: "port_coverage \<Rightarrow> string list" where
  "coverage_strings c = map coverage_term c"

definition nmap_spec :: "port_coverage \<Rightarrow> string" where
  "nmap_spec c = join '','' (coverage_strings c)"

definition coverage_contains :: "port_coverage \<Rightarrow> int \<Rightarrow> bool" where
  "coverage_contains c port = list_ex (\<lambda>r. fst r \<le> port \<and> port \<le> snd r) c"

section \<open>Targets\<close>

definition metadata_networks :: "ipv4_network list" where
  "metadata_networks = [(ipv4_of_octets 100 100 100 200, 32), (ipv4_of_octets 168 63 129 16, 32)]"

definition special_service_networks :: "ipv4_network list" where
  "special_service_networks = [(ipv4_of_octets 192 0 0 0, 24)]"

text \<open>
  \<^verbatim>\<open>ipaddress.ip_network(s, strict=True)\<close> on IPv4: an address, or one with a prefix length, a net mask or a host mask.
  An IPv6 network is refused by the caller.
\<close>

definition prefix_of_mask :: "ipv4 \<Rightarrow> nat option" where
  "prefix_of_mask m =
     (case find (\<lambda>p. netmask p = m) [0..<33] of
        Some p \<Rightarrow> Some p
      | None \<Rightarrow> find (\<lambda>p. netmask p = NOT m) [0..<33])"

definition prefix_of_text :: "string \<Rightarrow> nat option" where
  "prefix_of_text l =
     (if l \<noteq> [] \<and> list_all is_digit l \<and> digits_val l \<le> 32 then Some (digits_val l)
      else case ipv4_parse l of None \<Rightarrow> None | Some m \<Rightarrow> prefix_of_mask m)"

definition ipv4_network_parse :: "string \<Rightarrow> ipv4_network option" where
  "ipv4_network_parse s =
     (case (case split_on (CHR ''/'') s of [a] \<Rightarrow> Some (a, Some 32) | [a, l] \<Rightarrow> Some (a, prefix_of_text l) | _ \<Rightarrow> None) of
        Some (a, Some l) \<Rightarrow>
          (case ipv4_parse a of
             None \<Rightarrow> None
           | Some base \<Rightarrow> if base AND netmask l = base then Some (base, l) else None)
      | _ \<Rightarrow> None)"

definition parse_ipv4_cidrs :: "string list \<Rightarrow> plan_error + ipv4_network list" where
  "parse_ipv4_cidrs values =
     bindR (mapR (\<lambda>raw.
              let cidr = py_strip raw in
              if cidr = [] then Inl (Target_error ''configured CIDR cannot be empty'')
              else case ipv4_network_parse cidr of
                  None \<Rightarrow> Inl (Target_error ''invalid configured CIDR'')
                | Some n \<Rightarrow> Inr (uint (fst n), snd n))
            (concat (map (split_on (CHR '','')) values))) (\<lambda>networks.
     Inr (map (\<lambda>(a, l). (word_of_int a, l)) (sorted_set networks)))"

definition enforce_cidr_authorization :: "ipv4 \<Rightarrow> ipv4_network list \<Rightarrow> ipv4_network list \<Rightarrow> plan_error + unit" where
  "enforce_cidr_authorization a allowed denied =
     bindR (ensure (\<not> list_ex (in_network a) denied) (Target_error ''target is in a denied CIDR'')) (\<lambda>_.
     ensure (allowed = [] \<or> list_ex (in_network a) allowed) (Target_error ''target is outside the configured allowed CIDRs''))"

definition authorize_target :: "string \<Rightarrow> string list \<Rightarrow> string list \<Rightarrow> plan_error + ipv4" where
  "authorize_target target allowed_cidrs denied_cidrs =
     bindR (ensure (target \<noteq> [] \<and> target = py_strip target) (Target_error ''target must be one canonical IPv4 address'')) (\<lambda>_.
     bindR (case ipv4_parse target of None \<Rightarrow> Inl (Target_error ''target must be a literal IPv4 address'') | Some a \<Rightarrow> Inr a) (\<lambda>a.
     bindR (ensure (\<not> (is_unspecified a \<or> is_loopback a \<or> is_private a \<or> is_link_local a \<or> is_multicast a \<or> is_reserved a \<or> \<not> is_global a))
              (Target_error ''target must be a globally reachable public IPv4 address'')) (\<lambda>_.
     bindR (ensure (\<not> list_ex (in_network a) metadata_networks) (Target_error ''metadata service addresses are not valid targets'')) (\<lambda>_.
     bindR (ensure (\<not> list_ex (in_network a) special_service_networks) (Target_error ''special service addresses are not valid targets'')) (\<lambda>_.
     bindR (ensure (ipv4_str a = target) (Target_error ''target must use canonical dotted-decimal notation'')) (\<lambda>_.
     bindR (parse_ipv4_cidrs allowed_cidrs) (\<lambda>allowed.
     bindR (parse_ipv4_cidrs denied_cidrs) (\<lambda>denied.
     bindR (enforce_cidr_authorization a allowed denied) (\<lambda>_.
     Inr a)))))))))"

section \<open>Object keys\<close>

record object_keys =
  ok_discovery_xml :: string
  ok_enrichment_xml :: string
  ok_envelope_json :: string

text \<open>The pattern of a segment is the one of a safe identifier.\<close>

definition key_segment :: "string \<Rightarrow> plan_error + string" where
  "key_segment v = (if is_safe_identifier v then Inr v else Inl (Storage_error ''must be a non-empty object-key-safe identifier''))"

definition normalize_prefix :: "string \<Rightarrow> plan_error + string" where
  "normalize_prefix prefix =
     (let normalized = strip_char (CHR ''/'') prefix in
      bindR (ensure (normalized \<noteq> []) (Storage_error ''S3 prefix cannot be empty'')) (\<lambda>_.
      bindR (mapR key_segment (split_on (CHR ''/'') normalized)) (\<lambda>parts. Inr (join ''/'' parts))))"

definition validate_bucket :: "string \<Rightarrow> plan_error + unit" where
  "validate_bucket bucket =
     ensure (len_between 3 255 bucket \<and> \<not> list_ex (\<lambda>c. is_space c \<or> code c < 32) bucket)
       (Storage_error ''S3 bucket configuration is invalid'')"

definition build_object_keys :: "string \<Rightarrow> string \<Rightarrow> string \<Rightarrow> plan_error + object_keys" where
  "build_object_keys prefix event_id attempt_id =
     bindR (normalize_prefix prefix) (\<lambda>p.
     bindR (key_segment event_id) (\<lambda>e.
     bindR (key_segment attempt_id) (\<lambda>a.
     let base = p @ ''/events/'' @ e @ ''/attempts/'' @ a in
     Inr \<lparr>ok_discovery_xml = base @ ''/raw/nmap-discovery.xml'', ok_enrichment_xml = base @ ''/raw/nmap-enrichment.xml'',
          ok_envelope_json = base @ ''/scan-result.json''\<rparr>)))"

section \<open>Nmap settings\<close>

record nmap_tuning =
  nt_min_rate :: int
  nt_max_rate :: int
  nt_discovery_retries :: int
  nt_enrichment_retries :: int
  nt_max_rtt_timeout_ms :: int
  nt_discovery_host_timeout :: int
  nt_enrichment_host_timeout :: int
  nt_discovery_process_timeout :: int
  nt_enrichment_process_timeout :: int
  nt_script_timeout :: int
  nt_version_intensity :: int
  nt_upload_reserve :: int

definition nmap_tuning_of :: "nmap_tuning \<Rightarrow> plan_error + nmap_tuning" where
  "nmap_tuning_of t =
     bindR (ensure (1 \<le> nt_min_rate t \<and> nt_min_rate t \<le> 2000) (Nmap_config_error ''min_rate must be between 1 and 2000'')) (\<lambda>_.
     bindR (ensure (nt_min_rate t \<le> nt_max_rate t \<and> nt_max_rate t \<le> 5000) (Nmap_config_error ''max_rate must be between min_rate and 5000'')) (\<lambda>_.
     bindR (ensure (0 \<le> nt_discovery_retries t \<and> nt_discovery_retries t \<le> 3) (Nmap_config_error ''discovery_retries must be between 0 and 3'')) (\<lambda>_.
     bindR (ensure (0 \<le> nt_enrichment_retries t \<and> nt_enrichment_retries t \<le> 3) (Nmap_config_error ''enrichment_retries must be between 0 and 3'')) (\<lambda>_.
     bindR (ensure (100 \<le> nt_max_rtt_timeout_ms t \<and> nt_max_rtt_timeout_ms t \<le> 5000) (Nmap_config_error ''max_rtt_timeout_ms must be between 100 and 5000'')) (\<lambda>_.
     bindR (ensure (30 \<le> nt_discovery_host_timeout t \<and> nt_discovery_host_timeout t \<le> 7200) (Nmap_config_error ''discovery_host_timeout_seconds must be between 30 and 7200'')) (\<lambda>_.
     bindR (ensure (30 \<le> nt_enrichment_host_timeout t \<and> nt_enrichment_host_timeout t \<le> 7200) (Nmap_config_error ''enrichment_host_timeout_seconds must be between 30 and 7200'')) (\<lambda>_.
     bindR (ensure (nt_discovery_host_timeout t < nt_discovery_process_timeout t \<and> nt_discovery_process_timeout t \<le> 7500)
              (Nmap_config_error ''discovery process timeout must exceed and bound host timeout'')) (\<lambda>_.
     bindR (ensure (nt_enrichment_host_timeout t < nt_enrichment_process_timeout t \<and> nt_enrichment_process_timeout t \<le> 7500)
              (Nmap_config_error ''enrichment process timeout must exceed and bound host timeout'')) (\<lambda>_.
     bindR (ensure (1 \<le> nt_script_timeout t \<and> nt_script_timeout t \<le> 300) (Nmap_config_error ''script_timeout_seconds must be between 1 and 300'')) (\<lambda>_.
     bindR (ensure (0 \<le> nt_version_intensity t \<and> nt_version_intensity t \<le> 7) (Nmap_config_error ''version_intensity must be between 0 and 7'')) (\<lambda>_.
     bindR (ensure (5 \<le> nt_upload_reserve t \<and> nt_upload_reserve t \<le> 300) (Nmap_config_error ''upload_reserve_seconds must be between 5 and 300'')) (\<lambda>_.
     Inr t))))))))))))"

definition known_safe_scripts :: "string list" where
  "known_safe_scripts = [''banner'', ''http-title'', ''ssh-hostkey'', ''ssh2-enum-algos'', ''ssl-cert'', ''ssl-enum-ciphers'', ''tls-alpn'']"

definition default_safe_scripts :: "string list" where
  "default_safe_scripts = [''banner'', ''http-title'', ''ssh2-enum-algos'', ''ssl-cert'', ''tls-alpn'']"

definition is_script_name :: "string \<Rightarrow> bool" where
  "is_script_name s \<longleftrightarrow> len_between 1 64 s \<and> (is_lower (hd s) \<or> is_digit (hd s))
     \<and> list_all (\<lambda>c. is_lower c \<or> is_digit c \<or> c = CHR ''-'') (tl s)"

definition split_script_names :: "string list \<Rightarrow> plan_error + string list" where
  "split_script_names values =
     mapR (\<lambda>raw. let name = py_strip raw in
                 if is_script_name name then Inr name else Inl (Nmap_config_error ''invalid Nmap script name''))
       (concat (map (split_on (CHR '','')) values))"

definition resolve_deep_scripts :: "string list \<Rightarrow> string list option \<Rightarrow> plan_error + string list" where
  "resolve_deep_scripts requested allowlist =
     bindR (case allowlist of None \<Rightarrow> Inr default_safe_scripts | Some values \<Rightarrow> split_script_names values) (\<lambda>allowed.
     bindR (ensure (set allowed \<subseteq> set known_safe_scripts)
              (Nmap_config_error ''configured deep-script allowlist contains unsupported scripts'')) (\<lambda>_.
     bindR (split_script_names requested) (\<lambda>selected.
     bindR (ensure (set selected \<subseteq> set allowed)
              (Nmap_config_error ''requested deep script is not in the configured safe allowlist'')) (\<lambda>_.
     Inr (sorted_set selected)))))"

definition configured_script_allowlist :: "string option \<Rightarrow> string list option" where
  "configured_script_allowlist v =
     (case v of
        None \<Rightarrow> None
      | Some s \<Rightarrow> if py_strip s = [] then Some [] else Some (map py_strip (split_on (CHR '','') s)))"

section \<open>Commands\<close>

definition base_scan_command :: "string \<Rightarrow> port_coverage \<Rightarrow> string \<Rightarrow> int \<Rightarrow> int \<Rightarrow> nmap_tuning \<Rightarrow> string list" where
  "base_scan_command target coverage output_path retries host_timeout t =
     [''nmap'', ''-n'', ''-Pn'', ''-sT'', ''--reason'', ''--max-retries'', int_str retries, ''--min-rate'', int_str (nt_min_rate t),
      ''--max-rate'', int_str (nt_max_rate t), ''--max-rtt-timeout'', int_str (nt_max_rtt_timeout_ms t) @ ''ms'',
      ''--host-timeout'', int_str host_timeout @ ''s'', ''-p'', nmap_spec coverage, ''-oX'', output_path, target]"

definition build_discovery_command :: "string \<Rightarrow> port_coverage \<Rightarrow> string \<Rightarrow> nmap_tuning \<Rightarrow> int option \<Rightarrow> string list" where
  "build_discovery_command target coverage output_path t host_timeout =
     base_scan_command target coverage output_path (nt_discovery_retries t)
       (case host_timeout of None \<Rightarrow> nt_discovery_host_timeout t | Some n \<Rightarrow> n) t"

definition build_enrichment_command :: "string \<Rightarrow> int list \<Rightarrow> string \<Rightarrow> nmap_tuning \<Rightarrow> string list \<Rightarrow> int option
    \<Rightarrow> plan_error + string list" where
  "build_enrichment_command target open_ports output_path t scripts host_timeout =
     bindR (coverage_from_ports open_ports) (\<lambda>coverage.
     let command = base_scan_command target coverage output_path (nt_enrichment_retries t)
           (case host_timeout of None \<Rightarrow> nt_enrichment_host_timeout t | Some n \<Rightarrow> n) t;
         versions = butlast command @ [''-sV'', ''--version-intensity'', int_str (nt_version_intensity t)];
         selected = sorted_set scripts
     in if selected = [] then Inr (versions @ [last command])
        else bindR (ensure (set selected \<subseteq> set known_safe_scripts) (Nmap_config_error ''unsafe Nmap script reached command builder'')) (\<lambda>_.
          Inr (versions @ [''--script-timeout'', int_str (nt_script_timeout t) @ ''s'', ''--script'', join '','' selected, last command])))"

text \<open>\<^verbatim>\<open>Path(s).name\<close>.\<close>

definition path_name :: "string \<Rightarrow> string" where
  "path_name s = (case filter (\<lambda>p. p \<noteq> [] \<and> p \<noteq> ''.'') (split_on (CHR ''/'') s) of [] \<Rightarrow> [] | ps \<Rightarrow> last ps)"

definition redact_command :: "string list \<Rightarrow> string \<Rightarrow> string \<Rightarrow> string list" where
  "redact_command command target output =
     (case command of
        [] \<Rightarrow> []
      | binary # arguments \<Rightarrow>
          path_name binary # map (\<lambda>a. if a = target then ''<authorized-target>'' else if a = output then ''<raw-xml>'' else a) arguments)"

section \<open>Requests\<close>

record scan_request =
  sq_target :: string
  sq_profile :: string
  sq_event_id :: string
  sq_directive_id :: string
  sq_trace_id :: string
  sq_run_id :: string
  sq_attempt_id :: string
  sq_target_id :: string
  sq_target_provider :: string
  sq_target_scope_id :: string
  sq_target_location :: string
  sq_target_resource_id :: string
  sq_target_private_address :: string
  sq_target_generation :: int
  sq_image_version :: string
  sq_bucket :: string
  sq_prefix :: string
  sq_deadline_at :: time
  sq_not_after :: time
  sq_ports :: "string option"
  sq_deep_scripts :: "string list"
  sq_script_allowlist :: "string list option"
  sq_allowed_cidrs :: "string list"
  sq_denied_cidrs :: "string list"

record prepared_scan =
  pp_target :: string
  pp_contract_target :: target
  pp_profile :: scan_profile
  pp_coverage :: port_coverage
  pp_deep_scripts :: "string list"
  pp_keys :: object_keys
  pp_deadline_at :: time
  pp_not_after :: time

definition profile_of_value :: "string \<Rightarrow> scan_profile option" where
  "profile_of_value s = find (\<lambda>p. profile_value p = s) [FAST_FULL_TCP, TARGETED_TCP, DEEP]"

definition sha256_field :: "string \<Rightarrow> string \<Rightarrow> plan_error + string" where
  "sha256_field name v = (if is_sha256_hex v then Inr v else Inl (Result_error (name @ '' must be a lowercase SHA-256 identifier'')))"

definition identifier_field :: "string \<Rightarrow> string \<Rightarrow> plan_error + string" where
  "identifier_field name v = (if is_safe_identifier v then Inr v else Inl (Result_error (name @ '' must be a bounded safe identifier'')))"

definition image_version_field :: "string \<Rightarrow> plan_error + string" where
  "image_version_field v = (if is_image_version v then Inr v
     else Inl (Result_error ''image_version must be an immutable OCI sha256 digest or git revision''))"

definition build_contract_target :: "scan_request \<Rightarrow> string \<Rightarrow> plan_error + target" where
  "build_contract_target q address =
     (let failed = Result_error ''target identity failed the shared contract'';
          t = \<lparr>target_id = sq_target_id q, provider = AWS, scope_id = sq_target_scope_id q, location = sq_target_location q,
               resource_id = sq_target_resource_id q, private_address = sq_target_private_address q, public_address = address,
               address_family = IPV4, transport = TCP, generation = sq_target_generation q\<rparr>
      in bindR (ensure (is_sha256_hex (sq_target_id q)) failed) (\<lambda>_.
         bindR (ensure (sq_target_provider q = provider_value AWS) failed) (\<lambda>_.
         bindR (ensure (validate_target False t = None) failed) (\<lambda>_. Inr t))))"

definition planned_coverage :: "scan_profile \<Rightarrow> scan_request \<Rightarrow> plan_error + port_coverage \<times> string list" where
  "planned_coverage profile q =
     (if profile = FAST_FULL_TCP
      then bindR (case sq_ports q of
                    None \<Rightarrow> Inr ()
                  | Some ports \<Rightarrow> bindR (parse_coverage [ports]) (\<lambda>c.
                      ensure (c = full_tcp_coverage) (Coverage_error ''fast-full-tcp only accepts declared ports 1-65535''))) (\<lambda>_.
           bindR (ensure (sq_deep_scripts q = []) (Plan_value_error ''deep scripts are only valid for the deep profile'')) (\<lambda>_.
           Inr (full_tcp_coverage, [])))
      else case sq_ports q of
          None \<Rightarrow> Inl (Coverage_error ''requires explicit TCP port coverage'')
        | Some ports \<Rightarrow>
            bindR (parse_coverage [ports]) (\<lambda>c.
            if profile = TARGETED_TCP
            then bindR (ensure (sq_deep_scripts q = []) (Plan_value_error ''deep scripts are only valid for the deep profile'')) (\<lambda>_.
              Inr (c, []))
            else bindR (resolve_deep_scripts (sq_deep_scripts q) (sq_script_allowlist q)) (\<lambda>scripts. Inr (c, scripts))))"

definition prepare_scan :: "scan_request \<Rightarrow> plan_error + prepared_scan" where
  "prepare_scan q =
     bindR (authorize_target (sq_target q) (sq_allowed_cidrs q) (sq_denied_cidrs q)) (\<lambda>a.
     let address = ipv4_str a in
     bindR (case profile_of_value (sq_profile q) of None \<Rightarrow> Inl (Plan_value_error ''unsupported scan profile'') | Some p \<Rightarrow> Inr p) (\<lambda>profile.
     bindR (sha256_field ''event_id'' (sq_event_id q)) (\<lambda>_.
     bindR (sha256_field ''directive_id'' (sq_directive_id q)) (\<lambda>_.
     bindR (sha256_field ''target_id'' (sq_target_id q)) (\<lambda>_.
     bindR (identifier_field ''trace_id'' (sq_trace_id q)) (\<lambda>_.
     bindR (identifier_field ''run_id'' (sq_run_id q)) (\<lambda>_.
     bindR (identifier_field ''attempt_id'' (sq_attempt_id q)) (\<lambda>_.
     bindR (ensure (1 \<le> sq_target_generation q) (Plan_value_error ''target_generation must be positive'')) (\<lambda>_.
     bindR (image_version_field (sq_image_version q)) (\<lambda>_.
     bindR (validate_bucket (sq_bucket q)) (\<lambda>_.
     bindR (normalize_prefix (sq_prefix q)) (\<lambda>_.
     bindR (ensure (sq_deadline_at q \<le> sq_not_after q) (Plan_value_error ''deadline_at must not be later than not_after'')) (\<lambda>_.
     bindR (build_contract_target q address) (\<lambda>t.
     bindR (planned_coverage profile q) (\<lambda>(coverage, scripts).
     bindR (build_object_keys (sq_prefix q) (sq_event_id q) (sq_attempt_id q)) (\<lambda>keys.
     Inr \<lparr>pp_target = address, pp_contract_target = t, pp_profile = profile, pp_coverage = coverage, pp_deep_scripts = scripts,
          pp_keys = keys, pp_deadline_at = sq_deadline_at q, pp_not_after = sq_not_after q\<rparr>))))))))))))))))"

section \<open>Time budgets\<close>

record phase_budget =
  pb_process_timeout :: int
  pb_host_timeout :: int

definition phase_budget_of :: "time \<Rightarrow> time \<Rightarrow> int \<Rightarrow> int \<Rightarrow> int \<Rightarrow> phase_budget option" where
  "phase_budget_of cutoff now reserve process_timeout host_timeout =
     (let execution = (cutoff - now) div 1000000 - reserve in
      if execution < 2 then None
      else let process = min process_timeout execution; host = min host_timeout (process - 1) in
        if host < 1 then None else Some \<lparr>pb_process_timeout = process, pb_host_timeout = host\<rparr>)"

end
