(* ===== verification/Scanner_Worker.thy ===== *)
theory Scanner_Worker
  imports Scanner_Plan Parser_Report
begin

text \<open>
  The execution of a scan. First the scanner's own reading of an Nmap report (\<^verbatim>\<open>scanner/nmap/.../xml.py\<close>): the proof that the
  run ended and accounts for every declared port, and the open ports. The scanner and the parser share the element tree and
  its access functions; the XML reader is the same parameter, and a file is its content, if it exists.

  Then the worker (\<^verbatim>\<open>worker.py\<close>, \<^verbatim>\<open>result.py\<close> and the writer of \<^verbatim>\<open>storage.py\<close>): discovery, enrichment of the open
  ports, and the publication of the reports and then of the envelope. The environment chooses the clock, when
  termination is requested, what a run of Nmap does and writes, and the answers of S3. The log keeps every interaction.
\<close>

section \<open>Reports\<close>

definition max_xml_bytes :: nat where
  "max_xml_bytes = 67108864"

definition sole_child :: "string \<Rightarrow> xml \<Rightarrow> string + xml" where
  "sole_child name e = (case children name e of [c] \<Rightarrow> Inr c | _ \<Rightarrow> Inl (''Nmap XML must contain exactly one '' @ name @ '' element''))"

definition parse_xml_bytes :: "xml_reader \<Rightarrow> nat list \<Rightarrow> string + xml" where
  "parse_xml_bytes reader bytes =
     (if bytes = [] then Inl ''Nmap XML is empty''
      else if length bytes > max_xml_bytes then Inl ''Nmap XML exceeds the configured safety limit''
      else case reader bytes of
          Inl _ \<Rightarrow> Inl ''Nmap XML is incomplete or unsafe''
        | Inr root \<Rightarrow> if local_name (xml_tag root) \<noteq> ''nmaprun'' then Inl ''raw result does not have an nmaprun root'' else Inr root)"

definition read_xml_bytes :: "nat list option \<Rightarrow> string + nat list" where
  "read_xml_bytes file =
     (case file of
        None \<Rightarrow> Inl ''Nmap did not produce raw XML''
      | Some bytes \<Rightarrow> if bytes = [] \<or> length bytes > max_xml_bytes then Inl ''Nmap XML has an invalid size'' else Inr bytes)"

definition report_target_host :: "xml \<Rightarrow> string \<Rightarrow> string + xml" where
  "report_target_host root expected =
     (case children ''host'' root of
        [host] \<Rightarrow>
          if py_lower (xml_attr ''timedout'' host) = ''true'' then Inl ''Nmap reported a host timeout''
          else if map (xml_get ''addr'') (filter (\<lambda>a. xml_get ''addrtype'' a = Some ''ipv4'') (children ''address'' host)) \<noteq> [Some expected]
          then Inl ''Nmap XML target does not match the envelope target''
          else Inr host
      | _ \<Rightarrow> Inl ''Nmap XML must describe exactly one target host'')"

definition run_completion :: "xml \<Rightarrow> string + unit" where
  "run_completion root =
     bindR (sole_child ''runstats'' root) (\<lambda>runstats.
     bindR (sole_child ''finished'' runstats) (\<lambda>finished.
     bindR (ensure (xml_get ''exit'' finished = Some ''success'' \<and> xml_attr ''errormsg'' finished = [])
              ''Nmap did not report a successful finished run'') (\<lambda>_.
     bindR (sole_child ''hosts'' runstats) (\<lambda>totals.
     case py_int (xml_attr ''total'' totals) of
       None \<Rightarrow> Inl ''Nmap host totals are invalid''
     | Some n \<Rightarrow> ensure (n = 1) ''Nmap did not account for exactly one target host''))))"

section \<open>Proof of completion\<close>

definition explicit_state :: "port_coverage \<Rightarrow> (int \<times> string) list \<Rightarrow> xml \<Rightarrow> string + (int \<times> string) list" where
  "explicit_state coverage states node =
     (if xml_get ''protocol'' node \<noteq> Some ''tcp'' then Inl ''Nmap XML contains an undeclared protocol''
      else case py_int (xml_attr ''portid'' node) of
          None \<Rightarrow> Inl ''Nmap XML contains an invalid port''
        | Some port \<Rightarrow>
            if \<not> coverage_contains coverage port then Inl ''Nmap XML contains a port outside declared coverage''
            else if port \<in> fst ` set states then Inl ''Nmap XML contains a duplicate port''
            else bindR (sole_child ''state'' node) (\<lambda>state.
              if xml_attr ''state'' state = [] then Inl ''Nmap XML contains a port without state''
              else Inr (states @ [(port, xml_attr ''state'' state)])))"

fun explicit_states :: "port_coverage \<Rightarrow> (int \<times> string) list \<Rightarrow> xml list \<Rightarrow> string + (int \<times> string) list" where
  "explicit_states coverage states [] = Inr states"
| "explicit_states coverage states (node # nodes) =
     bindR (explicit_state coverage states node) (\<lambda>s. explicit_states coverage s nodes)"

definition collapsed_state :: "xml \<Rightarrow> string + string \<times> int" where
  "collapsed_state e =
     (case py_int (xml_attr ''count'' e) of
        None \<Rightarrow> Inl ''Nmap collapsed-port count is invalid''
      | Some count \<Rightarrow>
          if xml_attr ''state'' e = [] \<or> count < 1 then Inl ''Nmap collapsed-port summary is invalid''
          else if xml_attr ''state'' e = ''open'' then Inl ''Nmap collapsed open ports cannot be enriched safely''
          else Inr (xml_attr ''state'' e, count))"

record scan_report =
  xr_open_ports :: "int list"
  xr_explicit_states :: "(int \<times> string) list"
  xr_collapsed_states :: "(string \<times> int) list"
  xr_represented :: int

definition validate_scan_bytes :: "xml_reader \<Rightarrow> nat list \<Rightarrow> string \<Rightarrow> port_coverage \<Rightarrow> string + scan_report" where
  "validate_scan_bytes reader bytes target coverage =
     bindR (parse_xml_bytes reader bytes) (\<lambda>root.
     bindR (run_completion root) (\<lambda>_.
     bindR (report_target_host root target) (\<lambda>host.
     bindR (sole_child ''ports'' host) (\<lambda>ports.
     bindR (explicit_states coverage [] (children ''port'' ports)) (\<lambda>states.
     bindR (mapR collapsed_state (children ''extraports'' ports)) (\<lambda>collapsed.
     let represented = int (length states) + sum_list (map snd collapsed) in
     bindR (ensure (represented = coverage_count coverage) ''Nmap XML does not represent every declared TCP port'') (\<lambda>_.
     Inr \<lparr>xr_open_ports = sorted_set (map fst (filter (\<lambda>s. snd s = ''open'') states)), xr_explicit_states = sort_key fst states,
          xr_collapsed_states = collapsed, xr_represented = represented\<rparr>)))))))"

definition validate_complete_scan :: "xml_reader \<Rightarrow> nat list option \<Rightarrow> string \<Rightarrow> port_coverage \<Rightarrow> string + scan_report" where
  "validate_complete_scan reader file target coverage =
     bindR (read_xml_bytes file) (\<lambda>bytes. validate_scan_bytes reader bytes target coverage)"

definition discovery_is_complete :: "xml_reader \<Rightarrow> nat list option \<Rightarrow> string \<Rightarrow> port_coverage \<Rightarrow> bool" where
  "discovery_is_complete reader file target coverage =
     (case validate_complete_scan reader file target coverage of Inl _ \<Rightarrow> False | Inr _ \<Rightarrow> True)"

text \<open>The port of an element that is explicitly open; \<open>None\<close> is a port that does not count.\<close>

definition open_port_of :: "xml \<Rightarrow> string + int option" where
  "open_port_of node =
     (if xml_get ''protocol'' node \<noteq> Some ''tcp'' then Inr None
      else case children ''state'' node of
          [state] \<Rightarrow>
            if xml_get ''state'' state \<noteq> Some ''open'' then Inr None
            else (case py_int (xml_attr ''portid'' node) of
                None \<Rightarrow> Inl ''Nmap XML contains an invalid port''
              | Some port \<Rightarrow> Inr (Some port))
        | _ \<Rightarrow> Inr None)"

definition extract_open_tcp_ports :: "xml_reader \<Rightarrow> nat list option \<Rightarrow> string + int list" where
  "extract_open_tcp_ports reader file =
     bindR (read_xml_bytes file) (\<lambda>bytes.
     bindR (parse_xml_bytes reader bytes) (\<lambda>root.
     bindR (mapR open_port_of (concat (map (\<lambda>host. concat (map (children ''port'') (children ''ports'' host))) (children ''host'' root)))) (\<lambda>ports.
     Inr (sorted_set (List.map_filter id ports)))))"

section \<open>The world\<close>

datatype run_outcome =
    Exited int
  | Run_terminated        \<comment> \<open>\<^verbatim>\<open>NmapTerminationError\<close>\<close>
  | Run_timed_out         \<comment> \<open>\<^verbatim>\<open>subprocess.TimeoutExpired\<close>\<close>
  | Run_os_error
  | Run_crashed           \<comment> \<open>any other exception\<close>

record scan_put =
  sp_bucket :: string
  sp_key :: string
  sp_body :: "nat list"
  sp_content_type :: string
  sp_sha256 :: string

datatype put_answer = Put_stored | Put_exists | Put_failed

datatype scan_step =
    Read_clock time
  | Polled_termination bool
  | Ran "string list" int run_outcome
  | Put_object scan_put put_answer

record scanner_env =
  ne_workdir_exists :: bool
  ne_clock :: "nat \<Rightarrow> time"
  ne_terminated :: "nat \<Rightarrow> bool"
  ne_run :: "nat \<Rightarrow> string list \<Rightarrow> int \<Rightarrow> run_outcome \<times> nat list option"
  ne_put :: "nat \<Rightarrow> scan_put \<Rightarrow> put_answer"
  ne_reader :: xml_reader

text \<open>The variables of \<^verbatim>\<open>execute_scan\<close> that its exception handler reads.\<close>

record scan_progress =
  pg_discovery_exit :: "int option"
  pg_enrichment_argv :: "string list option"
  pg_enrichment_budget :: "phase_budget option"
  pg_enrichment_exit :: "int option"

record scanner_world =
  sw_discovery :: "nat list option"
  sw_enrichment :: "nat list option"
  sw_progress :: scan_progress
  sw_log :: "scan_step list"

record phase_failure =
  pf_error_type :: string
  pf_message :: string
  pf_retryable :: bool
  pf_exit_code :: "int option"
  pf_scanned_complete :: bool
  pf_open_ports :: "int list"
  pf_publish_enrichment :: bool

datatype worker_error =
    Refused plan_error
  | Phase_failed phase_failure
  | Already_exists
  | Uncaught string
  | Scan_execution_error string string "result_envelope option"

type_synonym 'a work = "(scanner_world, worker_error, 'a) eff"

definition refusing :: "plan_error + 'a \<Rightarrow> worker_error + 'a" where
  "refusing r = (case r of Inl e \<Rightarrow> Inl (Refused e) | Inr x \<Rightarrow> Inr x)"

definition read_clock :: "scanner_env \<Rightarrow> time work" where
  "read_clock E w = (let t = ne_clock E (length (sw_log w)) in (Inr t, w\<lparr>sw_log := sw_log w @ [Read_clock t]\<rparr>))"

definition termination_requested :: "scanner_env \<Rightarrow> bool work" where
  "termination_requested E w =
     (let b = ne_terminated E (length (sw_log w)) in (Inr b, w\<lparr>sw_log := sw_log w @ [Polled_termination b]\<rparr>))"

text \<open>The conditional upload of \<^verbatim>\<open>S3ConditionalWriter\<close>; the checksum that S3 verifies is the digest in another notation.\<close>

definition writer_put :: "scanner_env \<Rightarrow> string \<Rightarrow> string \<Rightarrow> nat list \<Rightarrow> string \<Rightarrow> string work" where
  "writer_put E bucket key body content_type =
     bindM (liftM (if body = [] \<or> length body > 67108864 then Inl (Refused (Storage_error ''object has an invalid size'')) else Inr ())) (\<lambda>_.
     bindM (liftM (refusing (validate_bucket bucket))) (\<lambda>_.
     bindM (liftM (if key = [] \<or> length (utf8 key) > 1024 then Inl (Refused (Storage_error ''S3 object key is invalid'')) else Inr ())) (\<lambda>_ w.
     let put = \<lparr>sp_bucket = bucket, sp_key = key, sp_body = body, sp_content_type = content_type, sp_sha256 = sha256_hexdigest body\<rparr>;
         answer = ne_put E (length (sw_log w)) put
     in (case answer of
           Put_stored \<Rightarrow> Inr (sp_sha256 put)
         | Put_exists \<Rightarrow> Inl Already_exists
         | Put_failed \<Rightarrow> Inl (Uncaught ''put_object''),
         w\<lparr>sw_log := sw_log w @ [Put_object put answer]\<rparr>))))"

section \<open>Phases\<close>

definition phase_failure_of :: "string \<Rightarrow> string \<Rightarrow> bool \<Rightarrow> int option \<Rightarrow> bool \<Rightarrow> int list \<Rightarrow> phase_failure" where
  "phase_failure_of error_type message retryable exit_code complete open_ports =
     \<lparr>pf_error_type = error_type, pf_message = message, pf_retryable = retryable, pf_exit_code = exit_code,
      pf_scanned_complete = complete, pf_open_ports = open_ports, pf_publish_enrichment = True\<rparr>"

definition insufficient_budget_failure :: "string \<Rightarrow> bool \<Rightarrow> int list \<Rightarrow> phase_failure" where
  "insufficient_budget_failure phase complete open_ports =
     phase_failure_of ''insufficient_execution_budget'' (''insufficient time remains before notAfter to start Nmap '' @ phase)
       False None complete open_ports"

definition termination_failure :: "bool \<Rightarrow> int list \<Rightarrow> phase_failure" where
  "termination_failure complete open_ports =
     phase_failure_of ''terminated'' ''scan termination was requested'' True None complete open_ports"

definition stop_if_terminated :: "scanner_env \<Rightarrow> bool \<Rightarrow> int list \<Rightarrow> unit work" where
  "stop_if_terminated E complete open_ports =
     bindM (termination_requested E) (\<lambda>b.
     if b then raiseM (Phase_failed (termination_failure complete open_ports)) else returnM ())"

text \<open>A run of Nmap leaves its report in the file of its phase.\<close>

datatype scan_phase = Discovery | Enrichment

primrec phase_name :: "scan_phase \<Rightarrow> string" where
  "phase_name Discovery = ''discovery''"
| "phase_name Enrichment = ''enrichment''"

definition run_nmap :: "scanner_env \<Rightarrow> string list \<Rightarrow> int \<Rightarrow> scan_phase \<Rightarrow> run_outcome work" where
  "run_nmap E argv timeout phase w =
     (case ne_run E (length (sw_log w)) argv timeout of (outcome, written) \<Rightarrow>
       (Inr outcome,
        (case phase of Discovery \<Rightarrow> w\<lparr>sw_discovery := written\<rparr> | Enrichment \<Rightarrow> w\<lparr>sw_enrichment := written\<rparr>)
          \<lparr>sw_log := sw_log w @ [Ran argv timeout outcome]\<rparr>))"

definition run_phase :: "scanner_env \<Rightarrow> string list \<Rightarrow> int \<Rightarrow> scan_phase \<Rightarrow> bool \<Rightarrow> int list \<Rightarrow> int work" where
  "run_phase E argv timeout phase complete open_ports =
     bindM (run_nmap E argv timeout phase) (\<lambda>outcome.
     let name = phase_name phase;
         failed = (\<lambda>suffix message exit_code. raiseM (Phase_failed
           (phase_failure_of (name @ suffix) (''Nmap '' @ name @ message) True exit_code complete open_ports)))
     in case outcome of
          Run_terminated \<Rightarrow> raiseM (Phase_failed (termination_failure complete open_ports))
        | Run_timed_out \<Rightarrow> failed ''_timeout'' '' exceeded its configured timeout'' None
        | Run_os_error \<Rightarrow> failed ''_execution_failed'' '' could not be executed'' None
        | Run_crashed \<Rightarrow> raiseM (Uncaught ''runner'')
        | Exited n \<Rightarrow> if n \<noteq> 0 then failed ''_failed'' '' exited unsuccessfully'' (Some n) else returnM n)"

definition note_progress :: "(scan_progress \<Rightarrow> scan_progress) \<Rightarrow> unit work" where
  "note_progress f = writeM (\<lambda>w. w\<lparr>sw_progress := f (sw_progress w)\<rparr>)"

section \<open>Results\<close>

definition shared_scan_result :: "scan_request \<Rightarrow> prepared_scan \<Rightarrow> bool \<Rightarrow> int list \<Rightarrow> time \<Rightarrow> time \<Rightarrow> string \<Rightarrow> int option
    \<Rightarrow> string option \<Rightarrow> scan_error option \<Rightarrow> plan_error + scan_result" where
  "shared_scan_result q p complete open_ports started completed outcome exit_code raw_sha err =
     (let failed = Result_error ''ScanResult failed the shared contract''; requested = map as_range (pp_coverage p) in
      case find (\<lambda>x. outcome_value x = outcome) [COMPLETE, PARTIAL, FAILED, CANCELLED, FRESHNESS_REJECTED] of
        None \<Rightarrow> Inl failed
      | Some oc \<Rightarrow>
          if list_ex (\<lambda>r. validate_tcp_port_range r \<noteq> None) requested then Inl (Result_error ''TcpPortRange'')
          else case create_scan_result
            \<lparr>sr_schema_version = ''1.0'', sr_result_id = [], sr_event_id = sq_event_id q, sr_directive_id = sq_directive_id q,
             sr_target = pp_contract_target p, sr_profile = pp_profile p, sr_scanner = NMAP, sr_scanner_version = sq_image_version q,
             sr_started_at = started, sr_completed_at = completed, sr_outcome = oc, sr_requested_ranges = requested,
             sr_scanned_ranges = (if complete then requested else []), sr_open_tcp_ports = sorted_set open_ports,
             sr_exit_code = exit_code, sr_raw_result_sha256 = raw_sha, sr_error_code = map_option se_type err,
             sr_error_message = map_option se_message err\<rparr> of
              Inl _ \<Rightarrow> Inl failed
            | Inr r \<Rightarrow> Inr r)"

definition build_result_envelope :: "scan_request \<Rightarrow> prepared_scan \<Rightarrow> bool \<Rightarrow> bool \<Rightarrow> int list \<Rightarrow> time \<Rightarrow> time \<Rightarrow> time
    \<Rightarrow> scan_command \<Rightarrow> scan_command option \<Rightarrow> string \<Rightarrow> int option \<Rightarrow> raw_artifact_reference option
    \<Rightarrow> raw_artifact_reference option \<Rightarrow> scan_error option \<Rightarrow> plan_error + result_envelope" where
  "build_result_envelope q p complete scanned_complete open_ports started completed uploaded discovery enrichment outcome exit_code
       raw_discovery raw_enrichment err =
     bindR (shared_scan_result q p scanned_complete open_ports started completed outcome exit_code (map_option ra_sha256 raw_discovery) err) (\<lambda>r.
     Inr \<lparr>re_schema_version = ''1.0'', re_event_id = sq_event_id q, re_directive_id = sq_directive_id q, re_trace_id = sq_trace_id q,
          re_run_id = sq_run_id q, re_attempt_id = sq_attempt_id q,
          re_target = \<lparr>rt_target_id = sq_target_id q, rt_address = pp_target p, rt_generation = sq_target_generation q\<rparr>,
          re_profile = pp_profile p, re_image_version = sq_image_version q,
          re_coverage = \<lparr>scv_protocol = ''tcp'', scv_ports = coverage_strings (pp_coverage p), scv_complete = complete\<rparr>,
          re_timestamps = \<lparr>stm_scan_started_at = started, stm_scan_completed_at = completed, stm_result_uploaded_at = uploaded\<rparr>,
          re_discovery = discovery, re_enrichment = enrichment, re_outcome = outcome, re_exit_code = exit_code,
          re_raw_result = map_option (\<lambda>a. \<lparr>nr_format = ''nmap-xml'', nr_artifact = a, nr_enrichment = raw_enrichment\<rparr>) raw_discovery,
          re_error = err, re_scan_result = r\<rparr>)"

text \<open>Every envelope passes the shared contract before it is published.\<close>

definition validated_envelope :: "plan_error + result_envelope \<Rightarrow> plan_error + result_envelope" where
  "validated_envelope r =
     bindR r (\<lambda>e. case validate_result_payload e of
       Inl _ \<Rightarrow> Inl (Result_error ''ScanResultEnvelope failed the shared contract'')
     | Inr _ \<Rightarrow> Inr e)"

definition envelope_bytes :: "result_envelope \<Rightarrow> nat list" where
  "envelope_bytes e = utf8 (dumps (result_envelope_json e))"

definition command_of :: "string list \<Rightarrow> string \<Rightarrow> string \<Rightarrow> int \<Rightarrow> int option \<Rightarrow> scan_command" where
  "command_of argv target path timeout exit_code =
     \<lparr>cmd_argv = redact_command argv target path, cmd_timeout_seconds = timeout, cmd_exit_code = exit_code\<rparr>"

section \<open>Publication\<close>

definition existing_nonempty :: "nat list option \<Rightarrow> bool" where
  "existing_nonempty file = (case file of None \<Rightarrow> False | Some bytes \<Rightarrow> bytes \<noteq> [])"

definition put_raw_if_present :: "scanner_env \<Rightarrow> scan_request \<Rightarrow> (scanner_world \<Rightarrow> nat list option) \<Rightarrow> string
    \<Rightarrow> raw_artifact_reference option work" where
  "put_raw_if_present E q file key =
     bindM (readM file) (\<lambda>content.
     if \<not> existing_nonempty content then returnM None
     else bindM (writer_put E (sq_bucket q) key (the content) ''application/xml'') (\<lambda>digest.
       returnM (Some \<lparr>ra_bucket = sq_bucket q, ra_key = key, ra_sha256 = digest\<rparr>)))"

text \<open>\<^verbatim>\<open>except Exception: return None\<close>\<close>

definition best_effort :: "'a option work \<Rightarrow> 'a option work" where
  "best_effort m = catchM m (\<lambda>_. returnM None)"

definition put_envelope :: "scanner_env \<Rightarrow> scan_request \<Rightarrow> prepared_scan \<Rightarrow> result_envelope \<Rightarrow> unit work" where
  "put_envelope E q p e =
     bindM (writer_put E (sq_bucket q) (ok_envelope_json (pp_keys p)) (envelope_bytes e) ''application/json'') (\<lambda>_. returnM ())"

text \<open>The commands that ran, as the envelope shows them.\<close>

definition discovery_command :: "prepared_scan \<Rightarrow> string \<Rightarrow> string list \<Rightarrow> phase_budget \<Rightarrow> scan_progress \<Rightarrow> scan_command" where
  "discovery_command p path argv budget g =
     command_of argv (pp_target p) path (pb_process_timeout budget) (pg_discovery_exit g)"

definition enrichment_command :: "prepared_scan \<Rightarrow> string \<Rightarrow> scan_progress \<Rightarrow> scan_command option" where
  "enrichment_command p path g =
     map_option (\<lambda>argv. command_of argv (pp_target p) path
         (case pg_enrichment_budget g of None \<Rightarrow> 1 | Some b \<Rightarrow> pb_process_timeout b) (pg_enrichment_exit g)) (pg_enrichment_argv g)"

definition publish_failed_scan :: "scanner_env \<Rightarrow> scan_request \<Rightarrow> prepared_scan \<Rightarrow> string \<Rightarrow> string \<Rightarrow> string list \<Rightarrow> phase_budget
    \<Rightarrow> time \<Rightarrow> time \<Rightarrow> phase_failure \<Rightarrow> result_envelope option work" where
  "publish_failed_scan E q p discovery_path enrichment_path argv budget started completed f =
     bindM (best_effort (put_raw_if_present E q sw_discovery (ok_discovery_xml (pp_keys p)))) (\<lambda>raw_discovery.
     bindM (if pf_publish_enrichment f
            then best_effort (put_raw_if_present E q sw_enrichment (ok_enrichment_xml (pp_keys p))) else returnM None) (\<lambda>raw_enrichment.
     bindM (readM (\<lambda>w. existing_nonempty (sw_discovery w) \<or> existing_nonempty (sw_enrichment w))) (\<lambda>partial.
     bindM (readM sw_progress) (\<lambda>g.
     best_effort
       (bindM (read_clock E) (\<lambda>uploaded.
        bindM (liftM (refusing (validated_envelope
                 (build_result_envelope q p False (pf_scanned_complete f) (pf_open_ports f) started completed uploaded
                    (discovery_command p discovery_path argv budget g) (enrichment_command p enrichment_path g)
                    (if partial then ''partial'' else ''failed'') (pf_exit_code f) raw_discovery raw_enrichment
                    (Some \<lparr>se_type = pf_error_type f, se_message = pf_message f, se_retryable = pf_retryable f\<rparr>))))) (\<lambda>e.
        bindM (put_envelope E q p e) (\<lambda>_. returnM (Some e)))))))))"

section \<open>Execution\<close>

text \<open>The enrichment of the ports that the discovery found open.\<close>

definition enrich_phase :: "scanner_env \<Rightarrow> prepared_scan \<Rightarrow> nmap_tuning \<Rightarrow> string \<Rightarrow> scan_report \<Rightarrow> unit work" where
  "enrich_phase E p t path report =
     (let opens = xr_open_ports report;
          incomplete = phase_failure_of ''enrichment_incomplete'' ''Nmap enrichment XML was incomplete'' True
      in
      bindM (liftM (refusing (coverage_from_ports opens))) (\<lambda>coverage.
      bindM (read_clock E) (\<lambda>now.
      let budget = phase_budget_of (pp_not_after p) now (nt_upload_reserve t) (nt_enrichment_process_timeout t) (nt_enrichment_host_timeout t);
          used = (case budget of None \<Rightarrow> \<lparr>pb_process_timeout = 1, pb_host_timeout = 1\<rparr> | Some b \<Rightarrow> b)
      in
      bindM (note_progress (pg_enrichment_budget_update (\<lambda>_. Some used))) (\<lambda>_.
      bindM (liftM (refusing (build_enrichment_command (pp_target p) opens path t (pp_deep_scripts p) (Some (pb_host_timeout used))))) (\<lambda>argv.
      bindM (note_progress (pg_enrichment_argv_update (\<lambda>_. Some argv))) (\<lambda>_.
      bindM (guardM (budget \<noteq> None) (Phase_failed (insufficient_budget_failure ''enrichment'' True opens))) (\<lambda>_.
      bindM (stop_if_terminated E True opens) (\<lambda>_.
      bindM (run_phase E argv (pb_process_timeout used) Enrichment True opens) (\<lambda>code.
      bindM (note_progress (pg_enrichment_exit_update (\<lambda>_. Some code))) (\<lambda>_.
      bindM (readM sw_enrichment) (\<lambda>file.
      case extract_open_tcp_ports (ne_reader E) file of
        Inl _ \<Rightarrow> raiseM (Phase_failed (incomplete (Some code) True opens))
      | Inr found \<Rightarrow>
          if found \<noteq> opens
          then raiseM (Phase_failed ((phase_failure_of ''enrichment_port_set_changed''
                 ''open TCP port set changed between discovery and enrichment'' True (Some code) False [])\<lparr>pf_publish_enrichment := False\<rparr>))
          else (case validate_complete_scan (ne_reader E) file (pp_target p) coverage of
                  Inl _ \<Rightarrow> raiseM (Phase_failed (incomplete (Some code) True opens))
                | Inr _ \<Rightarrow> returnM ()))))))))))))"

definition scan_phases :: "scanner_env \<Rightarrow> prepared_scan \<Rightarrow> nmap_tuning \<Rightarrow> string \<Rightarrow> string list \<Rightarrow> phase_budget option \<Rightarrow> scan_report work" where
  "scan_phases E p t enrichment_path argv budget =
     bindM (guardM (budget \<noteq> None) (Phase_failed (insufficient_budget_failure ''discovery'' False []))) (\<lambda>_.
     bindM (stop_if_terminated E False []) (\<lambda>_.
     bindM (run_phase E argv (case budget of None \<Rightarrow> 1 | Some b \<Rightarrow> pb_process_timeout b) Discovery False []) (\<lambda>code.
     bindM (note_progress (pg_discovery_exit_update (\<lambda>_. Some code))) (\<lambda>_.
     bindM (stop_if_terminated E False []) (\<lambda>_.
     bindM (readM sw_discovery) (\<lambda>file.
     bindM (case validate_complete_scan (ne_reader E) file (pp_target p) (pp_coverage p) of
              Inl _ \<Rightarrow> raiseM (Phase_failed (phase_failure_of ''discovery_incomplete''
                        ''Nmap discovery XML did not prove complete coverage'' True (Some code) False []))
            | Inr report \<Rightarrow> returnM report) (\<lambda>report.
     bindM (if xr_open_ports report \<noteq> [] then enrich_phase E p t enrichment_path report else returnM ()) (\<lambda>_.
     bindM (stop_if_terminated E True (xr_open_ports report)) (\<lambda>_.
     returnM report)))))))))"

definition publish_complete_scan :: "scanner_env \<Rightarrow> scan_request \<Rightarrow> prepared_scan \<Rightarrow> string \<Rightarrow> string \<Rightarrow> string list \<Rightarrow> phase_budget
    \<Rightarrow> time \<Rightarrow> time \<Rightarrow> scan_report \<Rightarrow> result_envelope work" where
  "publish_complete_scan E q p discovery_path enrichment_path argv budget started completed report =
     bindM (readM sw_progress) (\<lambda>g.
     catchM
       (bindM (put_raw_if_present E q sw_discovery (ok_discovery_xml (pp_keys p))) (\<lambda>raw_discovery.
        bindM (guardM (raw_discovery \<noteq> None) (Uncaught ''completed scan has no discovery artifact'')) (\<lambda>_.
        bindM (put_raw_if_present E q sw_enrichment (ok_enrichment_xml (pp_keys p))) (\<lambda>raw_enrichment.
        bindM (read_clock E) (\<lambda>uploaded.
        bindM (liftM (refusing (validated_envelope
                 (build_result_envelope q p True True (xr_open_ports report) started completed uploaded
                    (discovery_command p discovery_path argv budget g) (enrichment_command p enrichment_path g)
                    ''complete'' (Some 0) raw_discovery raw_enrichment None)))) (\<lambda>e.
        bindM (put_envelope E q p e) (\<lambda>_. returnM e)))))))
       (\<lambda>x. raiseM (if x = Already_exists
                    then Scan_execution_error ''immutable result key already exists'' ''duplicate_result'' None
                    else Scan_execution_error ''scan result upload failed'' ''result_upload_failed'' None)))"

definition execute_scan :: "scanner_env \<Rightarrow> scan_request \<Rightarrow> nmap_tuning \<Rightarrow> string \<Rightarrow> result_envelope work" where
  "execute_scan E q t workdir =
     bindM (liftM (refusing (prepare_scan q))) (\<lambda>p.
     bindM (guardM (ne_workdir_exists E) (Refused (Plan_value_error ''scanner working directory does not exist''))) (\<lambda>_.
     bindM (readM (\<lambda>w. sw_discovery w = None \<and> sw_enrichment w = None)) (\<lambda>empty.
     bindM (guardM empty (Refused (Plan_value_error ''scanner working directory must be dedicated and empty''))) (\<lambda>_.
     bindM (read_clock E) (\<lambda>started.
     let discovery_path = workdir @ ''/nmap-discovery.xml''; enrichment_path = workdir @ ''/nmap-enrichment.xml'';
         budget = phase_budget_of (pp_not_after p) started (nt_upload_reserve t) (nt_discovery_process_timeout t) (nt_discovery_host_timeout t);
         used = (case budget of None \<Rightarrow> \<lparr>pb_process_timeout = 1, pb_host_timeout = 1\<rparr> | Some b \<Rightarrow> b);
         argv = build_discovery_command (pp_target p) (pp_coverage p) discovery_path t (Some (pb_host_timeout used))
     in
     bindM (note_progress (\<lambda>_. \<lparr>pg_discovery_exit = None, pg_enrichment_argv = None, pg_enrichment_budget = None, pg_enrichment_exit = None\<rparr>)) (\<lambda>_.
     bindM (catchM (scan_phases E p t enrichment_path argv budget) (\<lambda>x.
              case x of
                Phase_failed f \<Rightarrow>
                  bindM (read_clock E) (\<lambda>completed.
                  bindM (publish_failed_scan E q p discovery_path enrichment_path argv used started completed f) (\<lambda>payload.
                  raiseM (Scan_execution_error (pf_message f) (pf_error_type f) payload)))
              | _ \<Rightarrow> raiseM x)) (\<lambda>report.
     bindM (read_clock E) (\<lambda>completed.
     publish_complete_scan E q p discovery_path enrichment_path argv used started completed report))))))))"

end
