(* ===== verification/Scanner_Acceptance.thy ===== *)
theory Scanner_Acceptance
  imports Scanner_Worker Scan_Guarantees
begin

text \<open>
  The scanner and the parser agree about reports: a report by which the scanner proves complete coverage is accepted by
  the parser as complete, with the same open ports.
\<close>

section \<open>Coverage\<close>

definition bounded_coverage :: "port_coverage \<Rightarrow> bool" where
  "bounded_coverage c \<longleftrightarrow> c \<noteq> [] \<and> gapped (map as_range c) \<and> (\<forall>r \<in> set c. 1 \<le> fst r \<and> fst r \<le> snd r \<and> snd r \<le> 65535)"

lemma coverage_contains_iff: "coverage_contains c port \<longleftrightarrow> port \<in> pair_ports c"
  by (induction c) (auto simp: coverage_contains_def)

lemma coverage_count_card: "bounded_coverage c \<Longrightarrow> coverage_count c = int (card (pair_ports c))"
  using card_pair_ports [of c] by (auto simp: bounded_coverage_def coverage_count_def)

lemma parse_terms_bounded:
  "mapR coverage_of_term ts = Inr rs \<Longrightarrow> r \<in> set rs \<Longrightarrow> 1 \<le> fst r \<and> fst r \<le> snd r \<and> snd r \<le> 65535"
  by (induction ts arbitrary: rs)
    (auto simp: bindR_Inr coverage_of_term_def port_range_def Let_def split: if_splits option.splits)

lemma parse_coverage_bounded:
  assumes "parse_coverage ds = Inr c"
  shows "bounded_coverage c \<and> (\<exists>rs. mapR coverage_of_term (concat (map (split_on (CHR '','')) ds)) = Inr rs \<and> pair_ports c = pair_ports rs)"
proof -
  from assms obtain rs where rs: "mapR coverage_of_term (concat (map (split_on (CHR '','')) ds)) = Inr rs"
    and c: "c = merge_sorted (sort rs)" "c \<noteq> []"
    by (auto simp: parse_coverage_def bindR_Inr Let_def port_coverage_of_def ensure_def split: if_splits)
  have b: "1 \<le> fst r \<and> fst r \<le> snd r \<and> snd r \<le> 65535" if "r \<in> set (sort rs)" for r
    using parse_terms_bounded [OF rs, of r] that by simp
  note exact = merge_sorted_exact [OF sorted_sort, OF b, simplified]
  have "pair_ports (sort rs) = pair_ports rs" by (rule pair_ports_cong) simp
  with exact rs c show ?thesis by (auto simp: bounded_coverage_def)
qed

lemma plain_number: "0 \<le> i \<Longrightarrow> py_strip (int_str i) = int_str i \<and> CHR '','' \<notin> set (int_str i)"
proof -
  assume i: "0 \<le> i"
  have digits: "list_all is_digit (int_str i)" using i by (simp add: int_str_nonneg list_all_iff nat_str_digits)
  then have all: "list_all (\<lambda>c. \<not> is_space c) (int_str i)" by (auto simp: list_all_iff is_digit_def is_space_def)
  have d: "dropWhile is_space u = u" if "list_all (\<lambda>c. \<not> is_space c) u" for u using that by (cases u) auto
  from all have "py_strip (int_str i) = int_str i" by (simp add: py_strip_def d)
  moreover have "CHR '','' \<notin> set (int_str i)" using digits by (auto simp: list_all_iff is_digit_def code_def)
  ultimately show ?thesis by blast
qed

lemma port_term: "1 \<le> p \<Longrightarrow> p \<le> 65535 \<Longrightarrow> coverage_of_term (int_str p) = Inr (p, p)"
  using plain_number [of p] match_coverage_term [of p p]
  by (simp add: coverage_of_term_def port_range_def coverage_term_def Let_def)

lemma coverage_from_ports_bounded:
  assumes "coverage_from_ports ps = Inr c" "\<forall>p \<in> set ps. 1 \<le> p \<and> p \<le> 65535"
  shows "bounded_coverage c \<and> pair_ports c = set ps"
proof -
  from assms(1) have p: "parse_coverage (map int_str (sorted_set ps)) = Inr c"
    by (auto simp: coverage_from_ports_def bindR_Inr Let_def)
  have b: "\<forall>p \<in> set (sorted_set ps). 1 \<le> p \<and> p \<le> 65535" using assms(2) by simp
  have split: "concat (map (split_on (CHR '','')) (map int_str xs)) = map int_str xs" if "\<forall>p \<in> set xs. 1 \<le> p \<and> p \<le> 65535" for xs
    using that plain_number by (induction xs) (auto simp: split_on_no_sep)
  have terms: "mapR coverage_of_term (map int_str xs) = Inr (map (\<lambda>p. (p, p)) xs)" if "\<forall>p \<in> set xs. 1 \<le> p \<and> p \<le> 65535" for xs
    using that by (induction xs) (auto simp: port_term)
  have "pair_ports (map (\<lambda>p. (p, p)) (sorted_set ps)) = set ps" by (auto simp: pair_ports_def)
  with parse_coverage_bounded [OF p] split [OF b] terms [OF b] show ?thesis by simp
qed

text \<open>The declarations that the parser reads from the coverage of an envelope.\<close>

definition declaration_of :: "bool \<Rightarrow> int \<times> int \<Rightarrow> coverage_declaration" where
  "declaration_of b r = \<lparr>cv_protocol = ''tcp'', cv_port_spec = coverage_term r, cv_port_from = Some (fst r), cv_port_to = Some (snd r),
     cv_complete = b\<rparr>"

lemma term_bounds: "1 \<le> fst r \<Longrightarrow> fst r \<le> snd r \<Longrightarrow> snd r \<le> 65535 \<Longrightarrow> port_spec_bounds (coverage_term r) = Some r"
proof -
  assume r: "1 \<le> fst r" "fst r \<le> snd r" "snd r \<le> 65535"
  have n: "is_number (int_str i)" if "0 \<le> i" for i
    using that by (simp add: is_number_def int_str_nonneg list_all_iff nat_str_digits)
  show ?thesis using r n by (cases r) (auto simp: port_spec_bounds_def coverage_term_def, auto simp: int_str_nonneg)
qed

lemma coverage_declared:
  assumes "c \<noteq> []" "\<forall>r \<in> set c. 1 \<le> fst r \<and> fst r \<le> snd r \<and> snd r \<le> 65535"
  shows "coverage_from_mapping ''tcp'' b (coverage_strings c) = Some (map (declaration_of b) c)"
proof -
  have "coverage_specs ''tcp'' b (map coverage_term rs) = Some (map (declaration_of b) rs)"
    if "\<forall>r \<in> set rs. 1 \<le> fst r \<and> fst r \<le> snd r \<and> snd r \<le> 65535" for rs
    using that by (induction rs) (auto simp: term_bounds declaration_of_def split: prod.splits)
  moreover have "py_lower ''tcp'' = ''tcp''" by code_simp
  ultimately have "coverage_specs (py_lower ''tcp'') b (coverage_strings c) = Some (map (declaration_of b) c)"
    using assms(2) by (simp add: coverage_strings_def)
  moreover obtain r rs where "c = r # rs" using assms(1) by (cases c) auto
  ultimately show ?thesis by (simp add: coverage_from_mapping_def)
qed

lemma declared_exactly: "declared_ports (map (declaration_of b) c) = pair_ports c"
  by (induction c) (auto simp: declared_ports_def declaration_of_def)

lemma coverage_ranges_total:
  assumes "ds \<noteq> []" "\<forall>d \<in> set ds. bounded_declaration ''tcp'' d \<and> cv_complete d"
  shows "\<exists>rs. coverage_ranges ds = Inr ([(''tcp'', rs)], int (card (declared_ports ds))) \<and> pair_ports rs = declared_ports ds"
proof -
  have one: "\<exists>g. group_coverage g0 ds' = Inr g" if "\<forall>d \<in> set ds'. bounded_declaration ''tcp'' d \<and> cv_complete d" for g0 ds'
    using that
  proof (induction ds' arbitrary: g0)
    case (Cons d ds')
    then obtain r where "declared_range d = Some r" by (fastforce simp: declared_range_def bounded_declaration_def)
    with Cons show ?case by (simp add: group_declaration_def)
  qed simp
  obtain g where "group_coverage [] ds = Inr g" using one [OF assms(2), of "[]"] by blast
  then obtain numeric n where "coverage_ranges ds = Inr (numeric, n)" using assms(1) by (auto simp: coverage_ranges_def Let_def)
  with coverage_ranges_exact [OF this] assms(2) show ?thesis by auto
qed

section \<open>Reports\<close>

lemma sole_child_Inr: "sole_child name e = Inr c \<longleftrightarrow> children name e = [c]"
  by (auto simp: sole_child_def split: list.splits)

lemma one_child_Inr: "one_child name e = Inr c \<longleftrightarrow> children name e = [c]"
  by (auto simp: one_child_def split: list.splits)

lemma run_completion_agrees: "run_completion root = Inr u \<Longrightarrow> successful_run root = Inr ()"
proof -
  assume "run_completion root = Inr u"
  then obtain r f h where "children ''runstats'' root = [r]" "children ''finished'' r = [f]" "xml_get ''exit'' f = Some ''success''"
    "xml_attr ''errormsg'' f = []" "children ''hosts'' r = [h]" "py_int (xml_attr ''total'' h) = Some 1"
    by (auto simp: run_completion_def bindR_Inr sole_child_Inr ensure_def split: option.splits if_splits)
  then show ?thesis by (simp add: successful_run_def one_child_def ensure_def)
qed

text \<open>
  What Nmap writes about its host: \<^verbatim>\<open>timedout\<close> is \<^verbatim>\<open>true\<close> or \<^verbatim>\<open>false\<close>, and an address that is not of the type
  \<^verbatim>\<open>ipv4\<close> is a MAC address, since the target is one IPv4 address.
\<close>

definition nmap_host :: "xml \<Rightarrow> bool" where
  "nmap_host host \<longleftrightarrow> py_lower (xml_attr ''timedout'' host) \<notin> {''1'', ''yes''}
     \<and> (\<forall>a \<in> set (children ''address'' host). xml_get ''addrtype'' a \<noteq> Some ''ipv4''
          \<longrightarrow> (case xml_get ''addr'' a of None \<Rightarrow> True | Some s \<Rightarrow> ip_address_str s = None))"

definition nmap_report :: "xml \<Rightarrow> bool" where
  "nmap_report root \<longleftrightarrow> (\<forall>host \<in> set (children ''host'' root). nmap_host host)"

lemma sole_address:
  assumes "map f (filter p xs) = [Some t]" "\<forall>x \<in> set xs. \<not> p x \<longrightarrow> (case f x of None \<Rightarrow> True | Some s \<Rightarrow> h s = None)" "h t = Some t"
  shows "List.map_filter (\<lambda>x. case f x of None \<Rightarrow> None | Some s \<Rightarrow> h s) xs = [t]"
proof -
  have none: "List.map_filter (\<lambda>x. case f x of None \<Rightarrow> None | Some s \<Rightarrow> h s) ys = []"
    if "filter p ys = []" "\<forall>x \<in> set ys. \<not> p x \<longrightarrow> (case f x of None \<Rightarrow> True | Some s \<Rightarrow> h s = None)" for ys
    using that by (induction ys) (auto simp: List.map_filter_simps split: option.splits if_splits)
  show ?thesis
    using assms(1,2)
  proof (induction xs)
    case (Cons x xs)
    show ?case
    proof (cases "p x")
      case True
      with Cons.prems have "f x = Some t" "filter p xs = []" by auto
      then show ?thesis using none [of xs] Cons.prems(2) assms(3) by (simp add: List.map_filter_simps)
    next
      case False
      then show ?thesis using Cons by (auto simp: List.map_filter_simps split: option.splits)
    qed
  qed simp
qed

lemma target_host_agrees:
  assumes "report_target_host root t = Inr host" "nmap_report root" "ip_address_str t = Some t"
  shows "authorized_target_host root t = Inr host \<and> host_addresses host = [t]"
proof -
  from assms(1) have h: "children ''host'' root = [host]" "py_lower (xml_attr ''timedout'' host) \<noteq> ''true''"
    "map (xml_get ''addr'') (filter (\<lambda>a. xml_get ''addrtype'' a = Some ''ipv4'') (children ''address'' host)) = [Some t]"
    by (auto simp: report_target_host_def split: list.splits if_splits)
  have n: "nmap_host host" using assms(2) h(1) by (simp add: nmap_report_def)
  have "host_addresses host = [t]"
    unfolding host_addresses_def by (rule sole_address [where p = "\<lambda>a. xml_get ''addrtype'' a = Some ''ipv4''", OF h(3)]) (use n assms(3) in \<open>simp_all add: nmap_host_def\<close>)
  then show ?thesis using h n by (simp add: authorized_target_host_def nmap_host_def)
qed

lemma node_tcp: "xml_get ''protocol'' node = Some ''tcp'' \<Longrightarrow> node_protocol node = ''tcp''"
proof -
  have "py_lower ''tcp'' = ''tcp''" by code_simp
  then show "xml_get ''protocol'' node = Some ''tcp'' \<Longrightarrow> node_protocol node = ''tcp''" by (simp add: node_protocol_def xml_attr_def)
qed

text \<open>The explicit ports of the scanner, as the parser lists them and observes them.\<close>

definition tcp_keys :: "(int \<times> string) list \<Rightarrow> service_key list" where
  "tcp_keys states = map (\<lambda>s. (''tcp'', fst s)) states"

definition observed_as :: "observations \<Rightarrow> (int \<times> string) list \<Rightarrow> bool" where
  "observed_as known states \<longleftrightarrow>
     map (\<lambda>(k, ob). (k, service_key_of ob, ob_state ob)) known
       = map (\<lambda>s. ((''tcp'', fst s), (''tcp'', fst s), normalize_state (Some (snd s)))) states"

lemma explicit_state_Inr:
  assumes "explicit_state c states node = Inr states'"
  obtains port st where "xml_get ''protocol'' node = Some ''tcp''" "py_int (xml_attr ''portid'' node) = Some port" "port \<in> pair_ports c"
    "port \<notin> fst ` set states" "children ''state'' node = [st]" "xml_attr ''state'' st \<noteq> []" "states' = states @ [(port, xml_attr ''state'' st)]"
  using assms by (auto simp: explicit_state_def bindR_Inr sole_child_Inr coverage_contains_iff split: if_splits option.splits)

lemma explicit_agrees:
  "explicit_states c states nodes = Inr states' \<Longrightarrow> pair_ports rs = pair_ports c
     \<Longrightarrow> explicit_ports [(''tcp'', rs)] (rev (tcp_keys states)) nodes = Inr (rev (tcp_keys states'))"
proof (induction nodes arbitrary: states)
  case (Cons node nodes)
  from Cons.prems(1) obtain s1 where s1: "explicit_state c states node = Inr s1" "explicit_states c s1 nodes = Inr states'"
    by (auto simp: bindR_Inr)
  from s1(1) obtain port st where n: "xml_get ''protocol'' node = Some ''tcp''" "py_int (xml_attr ''portid'' node) = Some port" "port \<in> pair_ports c"
    "port \<notin> fst ` set states" "children ''state'' node = [st]" "xml_attr ''state'' st \<noteq> []" "s1 = states @ [(port, xml_attr ''state'' st)]"
    by (rule explicit_state_Inr)
  have "coverage_contains rs port" using n(3) Cons.prems(2) by (simp add: coverage_contains_iff)
  then have "in_coverage [(''tcp'', rs)] ''tcp'' port" by (simp add: in_coverage_def coverage_contains_def list_ex_iff case_prod_beta)
  moreover have "(''tcp'', port) \<notin> set (rev (tcp_keys states))" using n(4) by (auto simp: tcp_keys_def)
  ultimately have "explicit_port [(''tcp'', rs)] (rev (tcp_keys states)) node = Inr (rev (tcp_keys s1))"
    using n by (simp add: explicit_port_def node_tcp one_child_def tcp_keys_def)
  then show ?case using Cons.IH [OF s1(2) Cons.prems(2)] by simp
qed simp

lemma observed_agrees:
  "explicit_states c states nodes = Inr states' \<Longrightarrow> pair_ports c \<subseteq> {1..65535} \<Longrightarrow> observed_as known states
     \<Longrightarrow> \<exists>known'. observe_ports t at known nodes = Inr known' \<and> observed_as known' states'"
proof (induction nodes arbitrary: states known)
  case (Cons node nodes)
  from Cons.prems(1) obtain s1 where s1: "explicit_state c states node = Inr s1" "explicit_states c s1 nodes = Inr states'"
    by (auto simp: bindR_Inr)
  from s1(1) obtain port st where n: "xml_get ''protocol'' node = Some ''tcp''" "py_int (xml_attr ''portid'' node) = Some port" "port \<in> pair_ports c"
    "port \<notin> fst ` set states" "children ''state'' node = [st]" "xml_attr ''state'' st \<noteq> []" "s1 = states @ [(port, xml_attr ''state'' st)]"
    by (rule explicit_state_Inr)
  have b: "1 \<le> port \<and> port \<le> 65535" using n(3) Cons.prems(2) by auto
  have st: "first_attr ''state'' [st] = Some (xml_attr ''state'' st)"
    using n(6) by (auto simp: first_attr_def xml_attr_def split: option.splits)
  obtain ob where ob: "port_observation t at node = Inr ob" "service_key_of ob = (''tcp'', port)"
    "ob_state ob = normalize_state (Some (xml_attr ''state'' st))"
    using n b st by (auto simp: port_observation_def node_tcp service_key_of_def)
  have keys: "map fst known = tcp_keys states"
    using arg_cong [OF Cons.prems(3) [unfolded observed_as_def], of "map fst"] by (simp add: tcp_keys_def comp_def case_prod_beta)
  have absent: "(''tcp'', port) \<notin> fst ` set known"
    using n(4) arg_cong [OF keys, of set] by (auto simp: tcp_keys_def)
  then have "map_of known (''tcp'', port) = None" by (simp add: map_of_eq_None_iff)
  then have add: "add_observation known ob = Inr (known @ [((''tcp'', port), ob)])"
    using ob(2) update_absent [OF absent] by (simp add: add_observation_def)
  have "observed_as (known @ [((''tcp'', port), ob)]) s1" using Cons.prems(3) ob n(7) by (simp add: observed_as_def)
  from Cons.IH [OF s1(2) Cons.prems(2) this] ob(1) add show ?case by simp
qed auto

lemma collapsed_agrees: "mapR collapsed_state es = Inr cs \<Longrightarrow> mapR extraports_count es = Inr (map snd cs)"
  by (induction es arbitrary: cs) (auto simp: bindR_Inr collapsed_state_def extraports_count_def split: option.splits if_splits)

lemma explicit_ports_within:
  "explicit_states c states nodes = Inr states' \<Longrightarrow> distinct (map fst states) \<Longrightarrow> fst ` set states \<subseteq> pair_ports c
     \<Longrightarrow> distinct (map fst states') \<and> fst ` set states' \<subseteq> pair_ports c"
proof (induction nodes arbitrary: states)
  case (Cons node nodes)
  from Cons.prems(1) obtain s1 where s1: "explicit_state c states node = Inr s1" "explicit_states c s1 nodes = Inr states'"
    by (auto simp: bindR_Inr)
  from s1(1) obtain port st where "port \<in> pair_ports c" "port \<notin> fst ` set states" "s1 = states @ [(port, st)]"
    by (rule explicit_state_Inr) blast
  with Cons.IH [OF s1(2)] Cons.prems(2,3) show ?case by simp
qed auto

text \<open>The open ports among explicit states, and among the observations of the parser.\<close>

definition open_states :: "(int \<times> string) list \<Rightarrow> int list" where
  "open_states states = sorted_set (map fst (filter (\<lambda>s. snd s = ''open'') states))"

lemma normalize_open: "normalize_state (Some s) = Port_open \<longleftrightarrow> s = ''open''"
  by (simp add: normalize_state_def)

lemma open_ports_agree:
  assumes "observed_as known states" "distinct (map fst states)"
  shows "open_tcp_ports_of (sorted_observations known) = open_states states"
proof -
  let ?obs = "sorted_observations known"
  have pairs: "map (\<lambda>x. (service_key_of (snd x), ob_state (snd x))) known = map (\<lambda>s. ((''tcp'', fst s), normalize_state (Some (snd s)))) states"
    using arg_cong [OF assms(1) [unfolded observed_as_def], of "map snd"] by (simp add: comp_def case_prod_beta)
  have open_known: "(\<lambda>x. ob_port (snd x)) ` {x \<in> set known. ob_protocol (snd x) = ''tcp'' \<and> ob_state (snd x) = Port_open}
      = fst ` {s \<in> set states. snd s = ''open''}"
  proof -
    have s: "(\<lambda>x. (service_key_of (snd x), ob_state (snd x))) ` set known = (\<lambda>s. ((''tcp'', fst s), normalize_state (Some (snd s)))) ` set states"
      using arg_cong [OF pairs, of set] by (simp add: case_prod_beta)
    have a: "p \<in> (\<lambda>x. ob_port (snd x)) ` {x \<in> set known. ob_protocol (snd x) = ''tcp'' \<and> ob_state (snd x) = Port_open}
        \<longleftrightarrow> ((''tcp'', p), Port_open) \<in> (\<lambda>x. (service_key_of (snd x), ob_state (snd x))) ` set known" for p
      by (force simp: service_key_of_def)
    have b: "p \<in> fst ` {s \<in> set states. snd s = ''open''}
        \<longleftrightarrow> ((''tcp'', p), Port_open) \<in> (\<lambda>s. ((''tcp'', fst s), normalize_state (Some (snd s)))) ` set states" for p
    proof
      assume "p \<in> fst ` {s \<in> set states. snd s = ''open''}"
      then obtain s where "s \<in> set states" "snd s = ''open''" "p = fst s" by auto
      then show "((''tcp'', p), Port_open) \<in> (\<lambda>s. ((''tcp'', fst s), normalize_state (Some (snd s)))) ` set states"
        using normalize_open [of "snd s"] by (intro image_eqI [of _ _ s]) auto
    next
      assume "((''tcp'', p), Port_open) \<in> (\<lambda>s. ((''tcp'', fst s), normalize_state (Some (snd s)))) ` set states"
      then obtain s where s: "((''tcp'', p), Port_open) = ((''tcp'', fst s), normalize_state (Some (snd s)))" "s \<in> set states" by (rule imageE)
      from s(1) have p: "p = fst s" "normalize_state (Some (snd s)) = Port_open" by (simp_all only: prod.inject)
      from p(2) have "snd s = ''open''" by (simp only: normalize_open)
      with s(2) p(1) show "p \<in> fst ` {s \<in> set states. snd s = ''open''}" by blast
    qed
    show ?thesis by (rule set_eqI) (simp only: a b s)
  qed
  have key: "map (\<lambda>x. ob_port (snd x)) known = map fst states"
    using arg_cong [OF pairs, of "map (\<lambda>p. snd (fst p))"] by (simp add: comp_def case_prod_beta service_key_of_def)
  have "distinct (map (\<lambda>x. ob_port (snd x)) known)" unfolding key by (rule assms(2))
  then have "inj_on (\<lambda>x. ob_port (snd x)) (set known)" "distinct known" by (simp_all add: distinct_map)
  then have d: "distinct (map ob_port ?obs)"
    by (simp add: sorted_observations_def comp_def distinct_map)
  have set_l: "set (open_tcp_ports_of ?obs) = set (open_states states)"
  proof -
    have "ob_port ` {x \<in> snd ` set known. ob_protocol x = ''tcp'' \<and> ob_state x = Port_open}
        = (\<lambda>x. ob_port (snd x)) ` {x \<in> set known. ob_protocol (snd x) = ''tcp'' \<and> ob_state (snd x) = Port_open}" by auto
    with open_known show ?thesis by (simp add: open_tcp_ports_of_def open_states_def sorted_observations_def)
  qed
  have dist: "distinct (open_tcp_ports_of ?obs)"
    using d by (simp add: open_tcp_ports_of_def distinct_map_filter)
  have "sorted (open_tcp_ports_of ?obs)" by (simp add: open_tcp_ports_of_def)
  then show ?thesis using set_l dist sorted_distinct_set_unique [of "open_tcp_ports_of ?obs" "open_states states"]
    by (simp add: open_states_def)
qed

lemma report_agrees:
  assumes "validate_scan_bytes reader bytes t c = Inr report" "bounded_coverage c" "ip_address_str t = Some t"
    and "\<And>root. reader bytes = Inr root \<Longrightarrow> nmap_report root"
    and "ds \<noteq> []" "\<forall>d \<in> set ds. bounded_declaration ''tcp'' d \<and> cv_complete d" "declared_ports ds = pair_ports c"
  shows "\<exists>known states. parse_nmap_xml reader bytes t at (Some ds) True = Inr (sorted_observations known) \<and> observed_as known states
    \<and> distinct (map fst states) \<and> fst ` set states \<subseteq> pair_ports c \<and> xr_open_ports report = open_states states"
proof -
  from assms(1) obtain root host ports states cs u where root: "reader bytes = Inr root" "local_name (xml_tag root) = ''nmaprun''" "bytes \<noteq> []"
    and run: "run_completion root = Inr u" and host: "report_target_host root t = Inr host" and ports: "children ''ports'' host = [ports]"
    and states: "explicit_states c [] (children ''port'' ports) = Inr states" and cs: "mapR collapsed_state (children ''extraports'' ports) = Inr cs"
    and total: "int (length states) + sum_list (map snd cs) = coverage_count c" and opens: "xr_open_ports report = open_states states"
    by (auto simp: validate_scan_bytes_def parse_xml_bytes_def bindR_Inr sole_child_Inr open_states_def Let_def split: if_splits sum.splits)
  from coverage_ranges_total [OF assms(5,6)] obtain rs where
    rs: "coverage_ranges ds = Inr ([(''tcp'', rs)], int (card (declared_ports ds)))" "pair_ports rs = pair_ports c"
    using assms(7) by auto
  note ah = target_host_agrees [OF host assms(4) [OF root(1)] assms(3)]
  have nodes: "target_nodes t [host] = children ''port'' ports" using ah ports by (simp add: target_nodes_def)
  have ex: "explicit_ports [(''tcp'', rs)] [] (children ''port'' ports) = Inr (rev (tcp_keys states))"
    using explicit_agrees [OF states rs(2)] by (simp add: tcp_keys_def)
  have within: "pair_ports c \<subseteq> {1..65535}" using assms(2) by (fastforce simp: bounded_coverage_def pair_ports_def)
  obtain known where known: "observe_ports t at [] (children ''port'' ports) = Inr known" "observed_as known states"
    using observed_agrees [OF states within, of "[]" t at] by (auto simp: observed_as_def)
  have "int (length states) + sum_list (map snd cs) = int (card (declared_ports ds))"
    using total coverage_count_card [OF assms(2)] assms(7) by simp
  then have "validate_complete_xml root t ds = Inr host"
    using run_completion_agrees [OF run] ah ports rs(1) ex collapsed_agrees [OF cs]
    by (simp add: validate_complete_xml_def one_child_def ensure_def tcp_keys_def)
  then have "parse_nmap_xml reader bytes t at (Some ds) True = Inr (sorted_observations known)"
    using root assms(3) nodes known(1) by (simp add: parse_nmap_xml_def)
  with known(2) explicit_ports_within [OF states] opens show ?thesis by auto
qed

section \<open>Enrichment\<close>

text \<open>The enrichment of the open ports of a discovery, read by the parser, always merges with it.\<close>

lemma observed_pairs:
  assumes "observed_as known states"
  shows "(\<lambda>ob. (service_key_of ob, ob_state ob)) ` set (sorted_observations known)
    = (\<lambda>s. ((''tcp'', fst s), normalize_state (Some (snd s)))) ` set states"
proof -
  have "map (\<lambda>x. (service_key_of (snd x), ob_state (snd x))) known = map (\<lambda>s. ((''tcp'', fst s), normalize_state (Some (snd s)))) states"
    using arg_cong [OF assms [unfolded observed_as_def], of "map snd"] by (simp add: comp_def case_prod_beta)
  from arg_cong [OF this, of set] show ?thesis by (simp add: sorted_observations_def image_image)
qed

lemma all_open:
  assumes "distinct (map fst states)" "fst ` set states \<subseteq> set (open_states states)" "s \<in> set states"
  shows "snd s = ''open''"
proof -
  have "fst s \<in> set (open_states states)" using assms(2,3) by blast
  then obtain s' where "s' \<in> set states" "snd s' = ''open''" "fst s' = fst s" by (auto simp: open_states_def)
  with assms(1,3) show ?thesis by (metis distinct_map inj_onD)
qed

lemma parsed_addresses:
  assumes "parse_nmap_xml reader bytes t at coverage complete = Inr obs" "ip_address_str t = Some t"
  shows "\<forall>ob \<in> set obs. ob_address ob = t"
proof -
  from assms obtain hosts known where o: "observe_ports t at [] (target_nodes t hosts) = Inr known" and obs: "obs = sorted_observations known"
    by (auto simp: parse_nmap_xml_def bindR_Inr split: option.splits if_splits)
  from observe_ports_keys [OF o] show ?thesis unfolding obs by (intro in_order_keys(3)) auto
qed

lemma enrich_all_total:
  "\<forall>item \<in> set items. ob_state item = Port_open \<and> ob_address item = a
      \<and> (\<exists>b. map_of (fst acc) (service_key_of item) = Some b \<and> ob_state b = Port_open \<and> ob_address b = a)
     \<Longrightarrow> \<exists>result. enrich_all acc items = Inr (result, rev (map service_key_of items) @ snd acc)"
proof (induction items arbitrary: acc)
  case (Cons item items)
  let ?acc = "(AList.update (service_key_of item) item (fst acc), service_key_of item # snd acc)"
  have step: "enrich acc item = Inr ?acc" using Cons.prems by (auto simp: enrich_def)
  have "\<exists>result. enrich_all ?acc items = Inr (result, rev (map service_key_of items) @ snd ?acc)"
    by (rule Cons.IH) (use Cons.prems in \<open>auto simp: AList.update_conv'\<close>)
  with step show ?case by simp
next
  case Nil
  then show ?case by (cases acc) simp
qed

lemma merge_total:
  assumes "distinct (map service_key_of discovery)" "\<forall>ob \<in> set discovery. ob_address ob = t"
    and "\<forall>ob \<in> set enrichment. ob_state ob = Port_open \<and> ob_address ob = t"
    and "service_key_of ` set enrichment = service_key_of ` {ob \<in> set discovery. ob_state ob = Port_open}"
  shows "\<exists>obs. merge_enrichment_observations discovery enrichment True = Inr obs
    \<and> distinct (map service_key_of obs) \<and> port_fact ` set obs = port_fact ` set discovery"
proof -
  let ?d = "foldl (\<lambda>d ob. AList.update (service_key_of ob) ob d) [] discovery"
  have d: "keyed ?d" "snd ` set ?d = set discovery" using discovery_facts [OF assms(1)] by auto
  have found: "map_of ?d (service_key_of ob) = Some ob" if "ob \<in> set discovery" for ob
  proof -
    from that d(2) obtain k where k: "(k, ob) \<in> set ?d" by force
    with d(1) have "k = service_key_of ob" "distinct (map fst ?d)" by (auto simp: keyed_def)
    with k show ?thesis by simp
  qed
  have ready: "\<forall>item \<in> set enrichment. ob_state item = Port_open \<and> ob_address item = t
      \<and> (\<exists>b. map_of (fst (?d, [])) (service_key_of item) = Some b \<and> ob_state b = Port_open \<and> ob_address b = t)"
  proof
    fix item assume item: "item \<in> set enrichment"
    then have "service_key_of item \<in> service_key_of ` {ob \<in> set discovery. ob_state ob = Port_open}" using assms(4) by blast
    then obtain ob where "ob \<in> set discovery" "ob_state ob = Port_open" "service_key_of ob = service_key_of item" by auto
    with found [of ob] assms(2,3) item show "ob_state item = Port_open \<and> ob_address item = t
      \<and> (\<exists>b. map_of (fst (?d, [])) (service_key_of item) = Some b \<and> ob_state b = Port_open \<and> ob_address b = t)" by simp
  qed
  from enrich_all_total [OF ready] obtain result where
    result: "enrich_all (?d, []) enrichment = Inr (result, rev (map service_key_of enrichment))" by auto
  have opens: "fst ` {x \<in> set ?d. ob_state (snd x) = Port_open} = service_key_of ` {ob \<in> set discovery. ob_state ob = Port_open}"
  proof -
    have "fst ` {x \<in> set ?d. ob_state (snd x) = Port_open} = service_key_of ` snd ` {x \<in> set ?d. ob_state (snd x) = Port_open}"
      using d(1) by (force simp: keyed_def image_image)
    also have "snd ` {x \<in> set ?d. ob_state (snd x) = Port_open} = {ob \<in> set discovery. ob_state ob = Port_open}" using d(2) by force
    finally show ?thesis .
  qed
  then have merged: "merge_enrichment_observations discovery enrichment True = Inr (sorted_observations result)"
    using result assms(4) by (simp add: merge_enrichment_observations_def Let_def case_prod_beta)
  have "keyed result" using enrich_all_facts [OF result] d(1) by simp
  then have "map service_key_of (sorted_observations result) = map fst (sort_key fst result)" "distinct (map fst (sort_key fst result))"
    by (auto simp: keyed_def sorted_observations_def distinct_map)
  with merged merge_facts [OF merged assms(1)] show ?thesis by simp
qed

lemma open_ports_determined:
  assumes "distinct (map service_key_of obs)" "distinct (map service_key_of obs')" "port_fact ` set obs = port_fact ` set obs'"
  shows "open_tcp_ports_of obs = open_tcp_ports_of obs'"
proof -
  have ports: "set (open_tcp_ports_of xs) = {p. \<exists>a. ((''tcp'', p), Port_open, a) \<in> port_fact ` set xs}" for xs
    by (force simp: open_tcp_ports_of_def port_fact_def service_key_of_def)
  have distinct: "distinct (open_tcp_ports_of xs)" if "distinct (map service_key_of xs)" for xs
    using that by (auto simp: open_tcp_ports_of_def distinct_map inj_on_def service_key_of_def)
  have sorted: "sorted (open_tcp_ports_of xs)" for xs by (simp add: open_tcp_ports_of_def)
  show ?thesis
    by (rule sorted_distinct_set_unique [OF sorted distinct [OF assms(1)] sorted distinct [OF assms(2)]]) (simp only: ports assms(3))
qed

text \<open>The observations that the parser reads from a proven report.\<close>

definition read_as :: "scan_report \<Rightarrow> string \<Rightarrow> observation list \<Rightarrow> bool" where
  "read_as report address obs \<longleftrightarrow> distinct (map service_key_of obs) \<and> (\<forall>ob \<in> set obs. ob_address ob = address)
     \<and> open_tcp_ports_of obs = xr_open_ports report
     \<and> service_key_of ` {ob \<in> set obs. ob_state ob = Port_open} = Pair ''tcp'' ` set (xr_open_ports report)"

lemma scan_parsed:
  assumes "validate_scan_bytes reader bytes t c = Inr report" "bounded_coverage c" "ip_address_str t = Some t"
    and "\<And>root. reader bytes = Inr root \<Longrightarrow> nmap_report root"
    and "ds \<noteq> []" "\<forall>d \<in> set ds. bounded_declaration ''tcp'' d \<and> cv_complete d" "declared_ports ds = pair_ports c"
  shows "\<exists>obs. parse_nmap_xml reader bytes t at (Some ds) True = Inr obs \<and> read_as report t obs
    \<and> (pair_ports c \<subseteq> set (xr_open_ports report) \<longrightarrow> (\<forall>ob \<in> set obs. ob_state ob = Port_open))"
proof -
  from report_agrees [OF assms] obtain known states where
    parsed: "parse_nmap_xml reader bytes t at (Some ds) True = Inr (sorted_observations known)" and known: "observed_as known states"
    and states: "distinct (map fst states)" "fst ` set states \<subseteq> pair_ports c" "xr_open_ports report = open_states states" by blast
  let ?obs = "sorted_observations known"
  note pairs = observed_pairs [OF known]
  have every: "\<exists>s \<in> set states. service_key_of ob = (''tcp'', fst s) \<and> ob_state ob = normalize_state (Some (snd s))" if "ob \<in> set ?obs" for ob
  proof -
    from that have "(service_key_of ob, ob_state ob) \<in> (\<lambda>s. ((''tcp'', fst s), normalize_state (Some (snd s)))) ` set states"
      unfolding pairs [symmetric] by (rule imageI)
    then show ?thesis by auto
  qed
  have each: "\<exists>ob \<in> set ?obs. service_key_of ob = (''tcp'', fst s) \<and> ob_state ob = normalize_state (Some (snd s))" if "s \<in> set states" for s
  proof -
    from that have "((''tcp'', fst s), normalize_state (Some (snd s))) \<in> (\<lambda>ob. (service_key_of ob, ob_state ob)) ` set ?obs"
      unfolding pairs by (rule imageI)
    then show ?thesis by auto
  qed
  have opens: "service_key_of ` {ob \<in> set ?obs. ob_state ob = Port_open} = Pair ''tcp'' ` set (xr_open_ports report)"
  proof (intro equalityI subsetI)
    fix k assume "k \<in> service_key_of ` {ob \<in> set ?obs. ob_state ob = Port_open}"
    then obtain ob where "ob \<in> set ?obs" "ob_state ob = Port_open" "k = service_key_of ob" by auto
    with every [of ob] obtain s where s: "s \<in> set states" "k = (''tcp'', fst s)" "normalize_state (Some (snd s)) = Port_open" by auto
    from s(3) have "snd s = ''open''" by (simp only: normalize_open)
    with s show "k \<in> Pair ''tcp'' ` set (xr_open_ports report)" unfolding states(3) by (auto simp: open_states_def)
  next
    fix k assume "k \<in> Pair ''tcp'' ` set (xr_open_ports report)"
    then obtain s where "s \<in> set states" "snd s = ''open''" "k = (''tcp'', fst s)" unfolding states(3) by (auto simp: open_states_def)
    with each [of s] show "k \<in> service_key_of ` {ob \<in> set ?obs. ob_state ob = Port_open}" by (force simp: normalize_state_def)
  qed
  have full: "\<forall>ob \<in> set ?obs. ob_state ob = Port_open" if "pair_ports c \<subseteq> set (xr_open_ports report)"
  proof
    fix ob assume "ob \<in> set ?obs"
    then obtain s where "s \<in> set states" "ob_state ob = normalize_state (Some (snd s))" using every by blast
    with all_open [OF states(1), of s] that states(2,3) show "ob_state ob = Port_open" by (simp add: normalize_open subset_trans)
  qed
  show ?thesis
    using parsed parsed_keys_distinct [OF parsed] parsed_addresses [OF parsed assms(3)] open_ports_agree [OF known states(1)] states(3) opens full
    by (intro exI [of _ ?obs]) (simp add: read_as_def)
qed

lemma open_declarations:
  assumes "\<forall>p \<in> set ps. 1 \<le> p \<and> p \<le> 65535"
  shows "\<forall>d \<in> set (map open_port_coverage ps). bounded_declaration ''tcp'' d \<and> cv_complete d" "declared_ports (map open_port_coverage ps) = set ps"
proof -
  show "\<forall>d \<in> set (map open_port_coverage ps). bounded_declaration ''tcp'' d \<and> cv_complete d"
    using assms by (simp add: open_port_coverage_def bounded_declaration_def)
  show "declared_ports (map open_port_coverage ps) = set ps"
    by (induction ps) (auto simp: open_port_coverage_def declared_ports_def)
qed

lemma range_declarations:
  assumes "\<forall>r \<in> set c. 1 \<le> fst r \<and> fst r \<le> snd r \<and> snd r \<le> 65535"
  shows "\<forall>d \<in> set (map (declaration_of True) c). bounded_declaration ''tcp'' d \<and> cv_complete d"
  using assms by (auto simp: declaration_of_def bounded_declaration_def)

lemma coverage_strings_inj:
  assumes "coverage_strings rs = coverage_strings c" "\<forall>r \<in> set rs. 1 \<le> fst r \<and> fst r \<le> snd r \<and> snd r \<le> 65535"
    and "\<forall>r \<in> set c. 1 \<le> fst r \<and> fst r \<le> snd r \<and> snd r \<le> 65535"
  shows "rs = c"
proof -
  have bounds: "map port_spec_bounds (coverage_strings xs) = map Some xs" if "\<forall>r \<in> set xs. 1 \<le> fst r \<and> fst r \<le> snd r \<and> snd r \<le> 65535" for xs
    using that by (induction xs) (auto simp: coverage_strings_def term_bounds)
  have "map Some rs = map port_spec_bounds (coverage_strings rs)" by (rule bounds [OF assms(2), symmetric])
  also have "\<dots> = map Some c" unfolding assms(1) by (rule bounds [OF assms(3)])
  finally have "map Some rs = map Some c" .
  then show ?thesis by (rule map_injective) simp
qed

section \<open>Envelopes\<close>

text \<open>What the parser reads from the document of an envelope.\<close>

definition reference_of :: "raw_artifact_reference \<Rightarrow> raw_reference" where
  "reference_of a = \<lparr>rr_bucket = ra_bucket a, rr_key = ra_key a, rr_sha256 = ra_sha256 a, rr_version_id = None\<rparr>"

definition envelope_read :: "result_envelope \<Rightarrow> (int \<times> int) list \<Rightarrow> scan_envelope" where
  "envelope_read e ranges =
     \<lparr>en_attempt_id = re_attempt_id e, en_result_id = sr_result_id (re_scan_result e), en_run_id = re_run_id e,
      en_directive_id = re_directive_id e, en_target_event_id = re_event_id e, en_trace_id = re_trace_id e,
      en_provider = provider_value (provider (sr_target (re_scan_result e))), en_target_id = rt_target_id (re_target e),
      en_generation = rt_generation (re_target e), en_address = rt_address (re_target e), en_profile = profile_value (re_profile e),
      en_scanner_version = re_image_version e, en_outcome = re_outcome e, en_exit_code = re_exit_code e,
      en_error_type = map_option se_type (re_error e), en_error_retryable = map_option se_retryable (re_error e),
      en_scan_started_at = stm_scan_started_at (re_timestamps e), en_scan_completed_at = stm_scan_completed_at (re_timestamps e),
      en_result_uploaded_at = stm_result_uploaded_at (re_timestamps e),
      en_coverage = map (declaration_of (scv_complete (re_coverage e))) ranges,
      en_declared_open_tcp_ports = sr_open_tcp_ports (re_scan_result e),
      en_raw_result = map_option (\<lambda>n. reference_of (nr_artifact n)) (re_raw_result e),
      en_enrichment_result = (case re_raw_result e of None \<Rightarrow> None | Some n \<Rightarrow> map_option reference_of (nr_enrichment n))\<rparr>"

lemma lower_hex_digest: "is_sha256_hex s \<Longrightarrow> length s = 64 \<and> list_all is_hex s \<and> py_lower s = s"
proof -
  assume s: "is_sha256_hex s"
  have "lower_char c = c" if "is_lower_hex c" for c
    using that by (auto simp: lower_char_def is_lower_hex_def is_digit_def is_upper_def)
  with s show ?thesis by (auto simp: is_sha256_hex_def list_all_iff is_hex_def py_lower_def intro: map_idI)
qed

lemma artifact_read:
  assumes "is_sha256_hex (ra_sha256 a)"
  shows "raw_reference_of (JObj (artifact_members a @ rest)) = Inr (reference_of a)
    \<longleftrightarrow> json_text (vfield (JObj (artifact_members a @ rest)) ''version_id'') = None"
  using lower_hex_digest [OF assms]
  by (simp add: raw_reference_of_def artifact_members_def is_obj_def vfield_def obj_get_def text_at_def subscript_def reference_of_def)

lemma raw_result_read:
  assumes "opt_valid validate_raw_field r = None"
  shows "raw_references (jopt raw_result_json r)
    = Inr (map_option (\<lambda>n. reference_of (nr_artifact n)) r, case r of None \<Rightarrow> None | Some n \<Rightarrow> map_option reference_of (nr_enrichment n))"
proof (cases r)
  case (Some n)
  have v: "is_sha256_hex (ra_sha256 (nr_artifact n))" "\<forall>a. nr_enrichment n = Some a \<longrightarrow> is_sha256_hex (ra_sha256 a)"
    using assms Some by (auto simp: opt_valid_def validate_raw_field_def validate_artifact_reference_def split: option.splits)
  let ?j = "raw_result_json n"
  have r1: "raw_reference_of ?j = Inr (reference_of (nr_artifact n))"
    unfolding raw_result_json_def artifact_read [OF v(1)] by (simp add: artifact_members_def vfield_def obj_get_def json_text_def)
  have en: "vfield ?j ''enrichment'' = jopt (\<lambda>a. JObj (artifact_members a)) (nr_enrichment n)"
    by (simp add: raw_result_json_def artifact_members_def vfield_def obj_get_def)
  have r2: "raw_reference_of (JObj (artifact_members a)) = Inr (reference_of a)" if "nr_enrichment n = Some a" for a
    using artifact_read [of a "[]"] v(2) that by (simp add: artifact_members_def vfield_def obj_get_def json_text_def)
  show ?thesis using r1 en r2 Some
    by (cases "nr_enrichment n") (auto simp: raw_references_def jopt_def raw_result_json_def)
qed (simp add: raw_references_def jopt_def)

lemma public_address_read: "err_of (validate_public_ipv4 s) = None \<Longrightarrow> ip_address_str s = Some s"
  by (auto simp: validate_public_ipv4_def validate_ipv4_def ip_address_str_def err_of_def split: sum.splits option.splits if_splits)

lemma valid_coverage_ranges:
  assumes "validate_coverage_field c = None"
  shows "\<exists>rs. scv_ports c = coverage_strings rs \<and> as_ranges (scv_ports c) = Some rs \<and> rs \<noteq> []
    \<and> (\<forall>r \<in> set rs. 1 \<le> fst r \<and> fst r \<le> snd r \<and> snd r \<le> 65535)"
proof -
  from assms have "validate_canonical_ports (scv_ports c) = None" "1 \<le> length (scv_ports c)"
    by (simp_all add: validate_coverage_field_def)
  then obtain rs where rs: "as_ranges (scv_ports c) = Some rs" "ranges_after 0 rs" "scv_ports c = map coverage_term rs"
    by (auto simp: validate_canonical_ports_def canonical_ports_loop_ranges)
  have "ranges_after i qs \<Longrightarrow> \<forall>r \<in> set qs. 1 \<le> fst r \<and> fst r \<le> snd r \<and> snd r \<le> 65535" for i qs
    by (induction i qs rule: ranges_after.induct) auto
  from this [OF rs(2)] have "\<forall>r \<in> set rs. 1 \<le> fst r \<and> fst r \<le> snd r \<and> snd r \<le> 65535" .
  with rs \<open>1 \<le> length (scv_ports c)\<close> show ?thesis by (intro exI [of _ rs]) (auto simp: coverage_strings_def)
qed

lemma envelope_document_read:
  assumes "validate_envelope_fields e = None" "as_ranges (scv_ports (re_coverage e)) = Some ranges"
    and "representable (stm_scan_started_at (re_timestamps e))" "representable (stm_scan_completed_at (re_timestamps e))"
    and "representable (stm_result_uploaded_at (re_timestamps e))"
  shows "envelope_from_mapping (result_envelope_json e) = Inr (envelope_read e ranges)"
proof -
  have fields: "validate_coverage_field (re_coverage e) = None" "opt_valid validate_raw_field (re_raw_result e) = None"
    "err_of (validate_public_ipv4 (rt_address (re_target e))) = None"
    using assms(1) by (simp_all add: validate_envelope_fields_def)
  obtain rs where rs: "scv_ports (re_coverage e) = coverage_strings rs" "as_ranges (scv_ports (re_coverage e)) = Some rs" "rs \<noteq> []"
    "\<forall>r \<in> set rs. 1 \<le> fst r \<and> fst r \<le> snd r \<and> snd r \<le> 65535"
    using valid_coverage_ranges [OF fields(1)] by blast
  have ranges: "ranges = rs" using rs(2) assms(2) by simp
  have protocol: "scv_protocol (re_coverage e) = ''tcp''" using fields(1) by (simp add: validate_coverage_field_def)
  have texts: "map py_str (map JStr xs) = xs" for xs by (induction xs) auto
  have cov: "declared_coverage (JObj [(''protocol'', JStr (scv_protocol (re_coverage e))), (''ports'', JArr (map JStr (scv_ports (re_coverage e)))),
      (''complete'', JBool (scv_complete (re_coverage e)))]) = Inr (map (declaration_of (scv_complete (re_coverage e))) ranges)"
    using coverage_declared [OF rs(3,4)] rs(1) texts ranges protocol
    by (simp add: declared_coverage_def is_obj_def text_at_def subscript_def obj_get_def list_at_def)
  have ports: "mapR int_value (map JInt ps) = Inr ps" for ps by (induction ps) (auto simp: int_value_def)
  have err: "error_fields (jopt error_json (re_error e)) = Inr (map_option (\<lambda>x. (se_type x, se_retryable x)) (re_error e))"
    by (cases "re_error e") (auto simp: error_fields_def jopt_def error_json_def text_at_def subscript_def is_obj_def obj_get_def)
  have code: "json_number (jopt JInt x) = x" for x by (cases x) (auto simp: json_number_def jopt_def)
  note read = subscript_def is_obj_def obj_get_def vfield_def text_at_def time_at_def list_at_def parse_timestamp_def jtime_def
    int_value_def parse_address_def
  show ?thesis
    using raw_result_read [OF fields(2)] cov ports err code iso_parse_utc [OF assms(3)] iso_parse_utc [OF assms(4)] iso_parse_utc [OF assms(5)]
      public_address_read [OF fields(3)]
    by (simp add: envelope_from_mapping_def result_envelope_json_def scan_result_json_def target_json_def read envelope_read_def comp_def option.map_comp)
qed

end
