(* ===== verification/Scanner_Guarantees.thy ===== *)
theory Scanner_Guarantees
  imports Scanner_Acceptance Json_Roundtrip
begin

text \<open>
  What the execution of a scan guarantees: the commands that run, the order and content of what is published, and that the
  parser accepts a scan that the scanner publishes as complete.
\<close>

section \<open>Outcomes of a program\<close>

text \<open>From a state with \<open>P\<close>, a return satisfies \<open>Q\<close> and an exception satisfies \<open>X\<close>.\<close>

definition outcomes :: "('s \<Rightarrow> bool) \<Rightarrow> ('s, 'e, 'a) eff \<Rightarrow> ('a \<Rightarrow> 's \<Rightarrow> bool) \<Rightarrow> ('e \<Rightarrow> 's \<Rightarrow> bool) \<Rightarrow> bool" where
  "outcomes P m Q X \<longleftrightarrow> (\<forall>s. P s \<longrightarrow> (case m s of (Inr x, s') \<Rightarrow> Q x s' | (Inl e, s') \<Rightarrow> X e s'))"

lemma outcomesI: "(\<And>s. P s \<Longrightarrow> case m s of (Inr x, s') \<Rightarrow> Q x s' | (Inl e, s') \<Rightarrow> X e s') \<Longrightarrow> outcomes P m Q X"
  by (simp add: outcomes_def)

lemma outcomes_bind: "outcomes P m R X \<Longrightarrow> (\<And>x. outcomes (R x) (f x) Q X) \<Longrightarrow> outcomes P (bindM m f) Q X"
  unfolding outcomes_def bindM_def by (fastforce split: prod.splits sum.splits)

lemma outcomes_catch: "outcomes P m Q Y \<Longrightarrow> (\<And>e. outcomes (Y e) (h e) Q X) \<Longrightarrow> outcomes P (catchM m h) Q X"
  unfolding outcomes_def catchM_def by (fastforce split: prod.splits sum.splits)

lemma outcomes_weaken:
  "outcomes P' m Q' X' \<Longrightarrow> (\<And>s. P s \<Longrightarrow> P' s) \<Longrightarrow> (\<And>x s. Q' x s \<Longrightarrow> Q x s) \<Longrightarrow> (\<And>e s. X' e s \<Longrightarrow> X e s) \<Longrightarrow> outcomes P m Q X"
  unfolding outcomes_def by (fastforce split: prod.splits sum.splits)

lemma outcomes_return: "(\<And>s. P s \<Longrightarrow> Q x s) \<Longrightarrow> outcomes P (returnM x) Q X"
  by (simp add: outcomes_def returnM_def)

lemma outcomes_raise: "(\<And>s. P s \<Longrightarrow> X e s) \<Longrightarrow> outcomes P (raiseM e) Q X"
  by (simp add: outcomes_def raiseM_def)

lemma outcomes_pre: "(\<And>s. P s \<Longrightarrow> P' s) \<Longrightarrow> outcomes P' m Q X \<Longrightarrow> outcomes P m Q X"
  by (erule outcomes_weaken) auto

lemma outcomes_read: "(\<And>x. outcomes (\<lambda>s. P s \<and> f s = x) (g x) Q X) \<Longrightarrow> outcomes P (bindM (readM f) g) Q X"
  by (simp add: outcomes_def readM_def bindM_def)

lemma outcomes_lift:
  "(\<And>s e. P s \<Longrightarrow> r = Inl e \<Longrightarrow> X e s) \<Longrightarrow> (\<And>x. r = Inr x \<Longrightarrow> outcomes P (g x) Q X) \<Longrightarrow> outcomes P (bindM (liftM r) g) Q X"
  by (cases r) (auto simp: outcomes_def liftM_def bindM_def)

lemma outcomes_guard:
  "(\<And>s. P s \<Longrightarrow> \<not> b \<Longrightarrow> X e s) \<Longrightarrow> (b \<Longrightarrow> outcomes P (g ()) Q X) \<Longrightarrow> outcomes P (bindM (guardM b e) g) Q X"
  by (cases b) (auto simp: outcomes_def guardM_eval bindM_def)

lemma outcomes_ex: "(\<And>y. outcomes (P y) m Q X) \<Longrightarrow> outcomes (\<lambda>s. \<exists>y. P y s) m Q X"
proof (rule outcomesI)
  fix s assume each: "\<And>y. outcomes (P y) m Q X" and "\<exists>y. P y s"
  then obtain y where "P y s" by blast
  with each [of y] show "case m s of (Inr x, s') \<Rightarrow> Q x s' | (Inl e, s') \<Rightarrow> X e s'" by (simp add: outcomes_def)
qed

lemma outcomes_pure: "(b \<Longrightarrow> outcomes P m Q X) \<Longrightarrow> outcomes (\<lambda>s. P s \<and> b) m Q X"
  by (auto simp: outcomes_def)

lemma outcomes_case_sum:
  "(\<And>e. z = Inl e \<Longrightarrow> outcomes P (f e) Q X) \<Longrightarrow> (\<And>x. z = Inr x \<Longrightarrow> outcomes P (g x) Q X)
     \<Longrightarrow> outcomes P (case z of Inl e \<Rightarrow> f e | Inr x \<Rightarrow> g x) Q X"
  by (cases z) auto

lemma outcomes_if: "(b \<Longrightarrow> outcomes P m Q X) \<Longrightarrow> (\<not> b \<Longrightarrow> outcomes P n Q X) \<Longrightarrow> outcomes P (if b then m else n) Q X"
  by simp

lemma outcomesD:
  assumes "outcomes P m Q X" "P s"
  shows "m s = (Inr x, s') \<Longrightarrow> Q x s'" "m s = (Inl e, s') \<Longrightarrow> X e s'"
  using assms by (fastforce simp: outcomes_def)+

section \<open>Logs\<close>

text \<open>Every step of a log is justified by the steps before it.\<close>

definition every_step :: "(scan_step list \<Rightarrow> scan_step \<Rightarrow> bool) \<Rightarrow> scan_step list \<Rightarrow> bool" where
  "every_step J log \<longleftrightarrow> (\<forall>pre step post. log = pre @ step # post \<longrightarrow> J pre step)"

lemma every_step_Nil [simp]: "every_step J []"
  by (simp add: every_step_def)

lemma every_step_snoc [simp]: "every_step J (log @ [step]) \<longleftrightarrow> every_step J log \<and> J log step"
proof
  assume e: "every_step J (log @ [step])"
  have "J pre s" if "log = pre @ s # post" for pre s post
    using e that by (auto simp: every_step_def)
  then show "every_step J log \<and> J log step" using e by (auto simp: every_step_def)
next
  assume e: "every_step J log \<and> J log step"
  show "every_step J (log @ [step])" unfolding every_step_def
  proof (intro allI impI)
    fix pre s post assume "log @ [step] = pre @ s # post"
    then show "J pre s" using e by (cases post rule: rev_cases) (auto simp: every_step_def)
  qed
qed

definition last_clock :: "scan_step list \<Rightarrow> time option" where
  "last_clock log = foldl (\<lambda>c s. case s of Read_clock t \<Rightarrow> Some t | _ \<Rightarrow> c) None log"

lemma last_clock_snoc [simp]:
  "last_clock (log @ [Read_clock t]) = Some t" "last_clock (log @ [Polled_termination b]) = last_clock log"
  by (simp_all add: last_clock_def)

section \<open>Commands\<close>

text \<open>
  A reading of Nmap's command line: the options that take a value take the next argument, and whatever is not an
  option is a target.
\<close>

definition valued_options :: "string list" where
  "valued_options = [''--max-retries'', ''--min-rate'', ''--max-rate'', ''--max-rtt-timeout'', ''--host-timeout'', ''-p'', ''-oX'',
     ''--version-intensity'', ''--script-timeout'', ''--script'', ''--script-args'', ''-iL'']"

fun nmap_arguments :: "string list \<Rightarrow> (string \<times> string) list \<times> string list" where
  "nmap_arguments [] = ([], [])"
| "nmap_arguments [a] = (if startswith a ''-'' then ([(a, [])], []) else ([], [a]))"
| "nmap_arguments (a # b # rest) =
     (if a \<in> set valued_options then (case nmap_arguments rest of (os, ts) \<Rightarrow> ((a, b) # os, ts))
      else case nmap_arguments (b # rest) of (os, ts) \<Rightarrow> if startswith a ''-'' then ((a, []) # os, ts) else (os, a # ts))"

lemma plain_target: "\<not> startswith (ipv4_str a) ''-''"
proof -
  obtain n ns where o: "octets a = n # ns" by (simp add: octets_def Let_def)
  obtain c cs where "nat_str n = c # cs" using nat_str_not_Nil [of n] by (cases "nat_str n") auto
  moreover have "c \<noteq> CHR ''-''" using nat_str_digits [of c n] calculation by (auto simp: is_digit_def code_def)
  ultimately show ?thesis using o by (cases ns) (auto simp: ipv4_str_def startswith_def)
qed

text \<open>The options that every command has.\<close>

definition base_options :: "port_coverage \<Rightarrow> nmap_tuning \<Rightarrow> int \<Rightarrow> (string \<times> string) list \<Rightarrow> bool" where
  "base_options c t h os \<longleftrightarrow> map_of os ''-p'' = Some (nmap_spec c) \<and> map_of os ''--host-timeout'' = Some (int_str h @ ''s'')
     \<and> map_of os ''--max-rate'' = Some (int_str (nt_max_rate t)) \<and> {''-n'', ''-Pn'', ''-sT''} \<subseteq> fst ` set os
     \<and> ''--script-args'' \<notin> fst ` set os \<and> ''-iL'' \<notin> fst ` set os"

lemma discovery_command_read:
  assumes "\<not> startswith target ''-''"
  shows "\<exists>os. nmap_arguments (tl (build_discovery_command target c path t (Some h))) = (os, [target]) \<and> base_options c t h os
    \<and> map_of os ''--script'' = None"
  using assms by (simp add: build_discovery_command_def base_scan_command_def valued_options_def startswith_def base_options_def)

lemma enrichment_command_read:
  assumes "build_enrichment_command target opens path t scripts (Some h) = Inr argv" "\<not> startswith target ''-''"
  shows "\<exists>c os. coverage_from_ports opens = Inr c \<and> nmap_arguments (tl argv) = (os, [target]) \<and> base_options c t h os
    \<and> (\<forall>s. map_of os ''--script'' = Some s \<longrightarrow> (\<exists>ss. s = join '','' ss \<and> set ss \<subseteq> set scripts \<inter> set known_safe_scripts))"
proof -
  from assms(1) obtain c where c: "coverage_from_ports opens = Inr c" by (auto simp: build_enrichment_command_def bindR_Inr)
  show ?thesis
  proof (cases "sorted_set scripts = []")
    case True
    with assms c show ?thesis
      by (auto simp: build_enrichment_command_def base_scan_command_def valued_options_def startswith_def base_options_def Let_def)
  next
    case False
    with assms(1) c have safe: "set scripts \<subseteq> set known_safe_scripts"
      and argv: "argv = (let command = base_scan_command target c path (nt_enrichment_retries t) h t
        in butlast command @ [''-sV'', ''--version-intensity'', int_str (nt_version_intensity t), ''--script-timeout'', int_str (nt_script_timeout t) @ ''s'',
          ''--script'', join '','' (sorted_set scripts), last command])"
      by (auto simp: build_enrichment_command_def Let_def bindR_Inr)
    obtain os where "nmap_arguments (tl argv) = (os, [target])" "base_options c t h os"
      "map_of os ''--script'' = Some (join '','' (sorted_set scripts))"
      using assms(2) unfolding argv by (simp add: base_scan_command_def valued_options_def startswith_def base_options_def)
    then show ?thesis using c safe by (intro exI [of _ c] exI [of _ os]) (auto intro!: exI [of _ "sorted_set scripts"])
  qed
qed

lemma spec_read:
  assumes "bounded_coverage c"
  shows "map port_spec_bounds (split_on (CHR '','') (nmap_spec c)) = map Some c"
proof -
  have r: "\<forall>r \<in> set c. 1 \<le> fst r \<and> fst r \<le> snd r \<and> snd r \<le> 65535" and "c \<noteq> []"
    using assms by (auto simp: bounded_coverage_def)
  have "CHR '','' \<notin> set (coverage_term r)" if "r \<in> set c" for r
    using bspec [OF r that] plain_number [of "fst r"] plain_number [of "snd r"] by (cases r) (simp add: coverage_term_def)
  then have "split_on (CHR '','') (nmap_spec c) = map coverage_term c"
    using \<open>c \<noteq> []\<close> unfolding nmap_spec_def coverage_strings_def by (intro split_on_join) auto
  then show ?thesis using r by (simp add: term_bounds)
qed

section \<open>Prepared scans\<close>

definition authorized_address :: "scan_request \<Rightarrow> bool" where
  "authorized_address q \<longleftrightarrow> (\<exists>a allowed denied. sq_target q = ipv4_str a \<and> is_global a
     \<and> \<not> (is_private a \<or> is_loopback a \<or> is_link_local a \<or> is_multicast a \<or> is_reserved a \<or> is_unspecified a)
     \<and> (\<forall>n \<in> set (metadata_networks @ special_service_networks). \<not> in_network a n)
     \<and> parse_ipv4_cidrs (sq_allowed_cidrs q) = Inr allowed \<and> parse_ipv4_cidrs (sq_denied_cidrs q) = Inr denied
     \<and> (\<forall>n \<in> set denied. \<not> in_network a n) \<and> (allowed = [] \<or> (\<exists>n \<in> set allowed. in_network a n)))"

lemma authorize_target_Inr:
  assumes "authorize_target (sq_target q) (sq_allowed_cidrs q) (sq_denied_cidrs q) = Inr a"
  shows "sq_target q = ipv4_str a \<and> authorized_address q"
proof -
  from assms obtain allowed denied where
    a: "ipv4_str a = sq_target q" "\<not> (is_unspecified a \<or> is_loopback a \<or> is_private a \<or> is_link_local a \<or> is_multicast a \<or> is_reserved a \<or> \<not> is_global a)"
      "\<not> list_ex (in_network a) metadata_networks" "\<not> list_ex (in_network a) special_service_networks"
    and nets: "parse_ipv4_cidrs (sq_allowed_cidrs q) = Inr allowed" "parse_ipv4_cidrs (sq_denied_cidrs q) = Inr denied"
      "\<not> list_ex (in_network a) denied" "allowed = [] \<or> list_ex (in_network a) allowed"
    by (auto simp: authorize_target_def enforce_cidr_authorization_def bindR_Inr split: option.splits)
  show ?thesis unfolding authorized_address_def
    by (intro conjI exI [of _ a] exI [of _ allowed] exI [of _ denied]) (use a nets in \<open>auto simp: list_ex_iff\<close>)
qed

lemma full_coverage_bounded: "bounded_coverage full_tcp_coverage"
  by (simp add: bounded_coverage_def full_tcp_coverage_def as_range_def)

lemma planned_coverage_facts:
  assumes "planned_coverage profile q = Inr (c, scripts)"
  shows "bounded_coverage c"
  using assms full_coverage_bounded parse_coverage_bounded
  by (fastforce simp: planned_coverage_def bindR_Inr split: if_splits option.splits)

lemma prepared_facts:
  assumes "prepare_scan q = Inr p"
  shows "pp_target p = sq_target q" "authorized_address q" "bounded_coverage (pp_coverage p)" "pp_not_after p = sq_not_after q"
    "\<exists>a. pp_target p = ipv4_str a"
proof -
  from assms obtain a profile scripts keys tgt where
    a: "authorize_target (sq_target q) (sq_allowed_cidrs q) (sq_denied_cidrs q) = Inr a"
    and c: "planned_coverage profile q = Inr (pp_coverage p, scripts)"
    and p: "pp_target p = ipv4_str a" "pp_not_after p = sq_not_after q"
    by (auto simp: prepare_scan_def bindR_Inr Let_def)
  from authorize_target_Inr [OF a] planned_coverage_facts [OF c] p
  show "pp_target p = sq_target q" "authorized_address q" "bounded_coverage (pp_coverage p)" "pp_not_after p = sq_not_after q"
    "\<exists>a. pp_target p = ipv4_str a" by auto
qed

section \<open>Justified steps\<close>

text \<open>
  A run of Nmap: one target, the planned ports only, known scripts only, the configured rate, and an end before the upload reserve
  begins. The text after \<^verbatim>\<open>-p\<close> is read term by term as the parser reads port terms.
\<close>

definition safe_arguments :: "prepared_scan \<Rightarrow> nmap_tuning \<Rightarrow> int \<Rightarrow> (string \<times> string) list \<Rightarrow> bool" where
  "safe_arguments p t timeout os \<longleftrightarrow>
     (\<exists>spec c h. map_of os ''-p'' = Some spec \<and> map port_spec_bounds (split_on (CHR '','') spec) = map Some c
        \<and> bounded_coverage c \<and> pair_ports c \<subseteq> pair_ports (pp_coverage p)
        \<and> map_of os ''--host-timeout'' = Some (int_str h @ ''s'') \<and> 1 \<le> h \<and> h < timeout)
     \<and> map_of os ''--max-rate'' = Some (int_str (nt_max_rate t)) \<and> {''-n'', ''-Pn'', ''-sT''} \<subseteq> fst ` set os
     \<and> (\<forall>s. map_of os ''--script'' = Some s \<longrightarrow> (\<exists>ss. s = join '','' ss \<and> set ss \<subseteq> set (pp_deep_scripts p) \<inter> set known_safe_scripts))
     \<and> ''--script-args'' \<notin> fst ` set os \<and> ''-iL'' \<notin> fst ` set os"

lemma safe_argumentsI:
  assumes "base_options c t h os" "bounded_coverage c" "pair_ports c \<subseteq> pair_ports (pp_coverage p)" "1 \<le> h" "h < timeout"
    and "\<forall>s. map_of os ''--script'' = Some s \<longrightarrow> (\<exists>ss. s = join '','' ss \<and> set ss \<subseteq> set (pp_deep_scripts p) \<inter> set known_safe_scripts)"
  shows "safe_arguments p t timeout os"
  using assms spec_read [OF assms(2)] by (simp add: safe_arguments_def base_options_def)

definition run_authorized :: "scan_request \<Rightarrow> nmap_tuning \<Rightarrow> scan_step list \<Rightarrow> string list \<Rightarrow> int \<Rightarrow> bool" where
  "run_authorized q t pre argv timeout \<longleftrightarrow>
     (\<exists>p os now. prepare_scan q = Inr p \<and> hd argv = ''nmap'' \<and> nmap_arguments (tl argv) = (os, [sq_target q]) \<and> safe_arguments p t timeout os
        \<and> pre \<noteq> [] \<and> last pre = Polled_termination False
        \<and> last_clock pre = Some now \<and> now + (timeout + nt_upload_reserve t) * 1000000 \<le> sq_not_after q)"

text \<open>A file is what the run of a phase left, or absent.\<close>

definition written :: "scanner_env \<Rightarrow> scan_step list \<Rightarrow> nat list option \<Rightarrow> bool" where
  "written E log file \<longleftrightarrow> file = None \<or>
     (\<exists>pre argv timeout outcome rest. log = pre @ Ran argv timeout outcome # rest \<and> ne_run E (length pre) argv timeout = (outcome, file))"

lemma written_append [simp]: "written E log file \<Longrightarrow> written E (log @ later) file"
  unfolding written_def by (metis append.assoc append_Cons)

lemma written_run [simp]: "ne_run E (length log) argv timeout = (outcome, file) \<Longrightarrow> written E (log @ [Ran argv timeout outcome]) file"
  unfolding written_def by blast

text \<open>An artifact that S3 stored, with its content.\<close>

definition stored :: "scan_step list \<Rightarrow> raw_artifact_reference \<Rightarrow> nat list \<Rightarrow> bool" where
  "stored log a body \<longleftrightarrow> (\<exists>put. Put_object put Put_stored \<in> set log \<and> sp_bucket put = ra_bucket a \<and> sp_key put = ra_key a
     \<and> sp_body put = body \<and> ra_sha256 a = sha256_hexdigest body)"

lemma artifact_kept: "stored log a body \<Longrightarrow> stored (log @ later) a body"
  by (auto simp: stored_def)

definition artifacts :: "result_envelope \<Rightarrow> raw_artifact_reference list" where
  "artifacts e = (case re_raw_result e of
     None \<Rightarrow> []
   | Some n \<Rightarrow> nr_artifact n # (case nr_enrichment n of None \<Rightarrow> [] | Some a \<Rightarrow> [a]))"

text \<open>The evidence of a complete scan: the report of the discovery, and the report of the enrichment when ports are open.\<close>

definition proof_of :: "scanner_env \<Rightarrow> prepared_scan \<Rightarrow> scan_report \<Rightarrow> nat list option \<Rightarrow> nat list option \<Rightarrow> bool" where
  "proof_of E p report discovery enrichment \<longleftrightarrow>
     (\<exists>d. discovery = Some d \<and> validate_scan_bytes (ne_reader E) d (pp_target p) (pp_coverage p) = Inr report)
     \<and> (if xr_open_ports report = [] then enrichment = None
        else \<exists>b c r. enrichment = Some b \<and> b \<noteq> [] \<and> coverage_from_ports (xr_open_ports report) = Inr c
          \<and> validate_scan_bytes (ne_reader E) b (pp_target p) c = Inr r \<and> xr_open_ports r = xr_open_ports report)"

definition proven :: "scanner_env \<Rightarrow> prepared_scan \<Rightarrow> scan_step list \<Rightarrow> result_envelope \<Rightarrow> bool" where
  "proven E p log e \<longleftrightarrow>
     (\<exists>n report discovery enrichment. re_raw_result e = Some n \<and> proof_of E p report (Some discovery) enrichment
        \<and> stored log (nr_artifact n) discovery \<and> sr_open_tcp_ports (re_scan_result e) = xr_open_ports report
        \<and> (case nr_enrichment n of
             None \<Rightarrow> enrichment = None
           | Some a \<Rightarrow> (case enrichment of None \<Rightarrow> False | Some b \<Rightarrow> stored log a b)))"

text \<open>The parts of an envelope that repeat the request and its plan.\<close>

definition names_request :: "scan_request \<Rightarrow> prepared_scan \<Rightarrow> result_envelope \<Rightarrow> bool" where
  "names_request q p e \<longleftrightarrow> re_event_id e = sq_event_id q \<and> re_directive_id e = sq_directive_id q \<and> re_trace_id e = sq_trace_id q
     \<and> re_run_id e = sq_run_id q \<and> re_attempt_id e = sq_attempt_id q \<and> re_image_version e = sq_image_version q \<and> re_profile e = pp_profile p
     \<and> re_target e = \<lparr>rt_target_id = sq_target_id q, rt_address = pp_target p, rt_generation = sq_target_generation q\<rparr>
     \<and> scv_ports (re_coverage e) = coverage_strings (pp_coverage p)"

definition envelope_sound :: "scanner_env \<Rightarrow> scan_request \<Rightarrow> prepared_scan \<Rightarrow> scan_step list \<Rightarrow> result_envelope \<Rightarrow> bool" where
  "envelope_sound E q p log e \<longleftrightarrow> validate_result_envelope e = None \<and> names_request q p e
     \<and> (\<forall>a \<in> set (artifacts e). \<exists>body. stored log a body) \<and> (re_outcome e = ''complete'' \<longrightarrow> proven E p log e)"

definition put_justified :: "scanner_env \<Rightarrow> scan_request \<Rightarrow> scan_step list \<Rightarrow> scan_put \<Rightarrow> bool" where
  "put_justified E q pre put \<longleftrightarrow>
     (\<exists>p. prepare_scan q = Inr p \<and> sp_bucket put = sq_bucket q \<and> sp_sha256 put = sha256_hexdigest (sp_body put)
        \<and> (sp_key put \<in> {ok_discovery_xml (pp_keys p), ok_enrichment_xml (pp_keys p)} \<and> sp_content_type put = ''application/xml''
             \<and> written E pre (Some (sp_body put))
           \<or> sp_key put = ok_envelope_json (pp_keys p) \<and> sp_content_type put = ''application/json''
             \<and> (\<exists>e. sp_body put = envelope_bytes e \<and> envelope_sound E q p pre e)))"

definition justified :: "scanner_env \<Rightarrow> scan_request \<Rightarrow> nmap_tuning \<Rightarrow> scan_step list \<Rightarrow> scan_step \<Rightarrow> bool" where
  "justified E q t pre step =
     (case step of
        Ran argv timeout _ \<Rightarrow> run_authorized q t pre argv timeout
      | Put_object put _ \<Rightarrow> put_justified E q pre put
      | _ \<Rightarrow> True)"

section \<open>The phases\<close>

text \<open>The log is justified, and the files of the two phases are known.\<close>

definition phase_state :: "scanner_env \<Rightarrow> scan_request \<Rightarrow> nmap_tuning \<Rightarrow> nat list option \<Rightarrow> nat list option \<Rightarrow> scanner_world \<Rightarrow> bool" where
  "phase_state E q t d b w \<longleftrightarrow> every_step (justified E q t) (sw_log w) \<and> sw_discovery w = d \<and> sw_enrichment w = b
     \<and> written E (sw_log w) d \<and> written E (sw_log w) b"

definition polled :: "scanner_world \<Rightarrow> bool" where
  "polled w \<longleftrightarrow> sw_log w \<noteq> [] \<and> last (sw_log w) = Polled_termination False"

text \<open>An exception of the phases.\<close>

definition interrupted :: "scanner_env \<Rightarrow> scan_request \<Rightarrow> nmap_tuning \<Rightarrow> worker_error \<Rightarrow> scanner_world \<Rightarrow> bool" where
  "interrupted E q t x w \<longleftrightarrow> (\<exists>d b. phase_state E q t d b w) \<and> (\<forall>m ty e. x \<noteq> Scan_execution_error m ty e)"

lemma refusing_Inl: "refusing r = Inl x \<Longrightarrow> \<exists>e. x = Refused e"
  by (auto simp: refusing_def split: sum.splits)

lemma refusing_Inr: "refusing r = Inr x \<longleftrightarrow> r = Inr x"
  by (auto simp: refusing_def split: sum.splits)

lemma read_clock_outcomes:
  "outcomes (phase_state E q t d b) (read_clock E) (\<lambda>now w. phase_state E q t d b w \<and> last_clock (sw_log w) = Some now) X"
  by (rule outcomesI) (simp add: read_clock_def phase_state_def justified_def Let_def)

lemma note_progress_outcomes:
  "outcomes (\<lambda>w. phase_state E q t d b w \<and> last_clock (sw_log w) = c) (note_progress f)
     (\<lambda>_ w. phase_state E q t d b w \<and> last_clock (sw_log w) = c) X"
  by (rule outcomesI) (simp add: note_progress_def writeM_def phase_state_def)

lemma note_exit_outcomes: "outcomes (phase_state E q t d b) (note_progress f) (\<lambda>_. phase_state E q t d b) X"
  by (rule outcomesI) (simp add: note_progress_def writeM_def phase_state_def)

lemma stop_outcomes:
  "outcomes (\<lambda>w. phase_state E q t d b w \<and> last_clock (sw_log w) = c) (stop_if_terminated E complete ports)
     (\<lambda>_ w. phase_state E q t d b w \<and> last_clock (sw_log w) = c \<and> polled w) (interrupted E q t)"
  by (rule outcomesI)
    (simp add: stop_if_terminated_def termination_requested_def bindM_def returnM_def raiseM_def phase_state_def justified_def polled_def
      interrupted_def Let_def)

lemma stop_any:
  "outcomes (phase_state E q t d b) (stop_if_terminated E complete ports) (\<lambda>_. phase_state E q t d b) (interrupted E q t)"
proof -
  have "outcomes (\<lambda>w. \<exists>c. phase_state E q t d b w \<and> last_clock (sw_log w) = c) (stop_if_terminated E complete ports)
      (\<lambda>_. phase_state E q t d b) (interrupted E q t)"
    by (rule outcomes_ex, rule outcomes_weaken [OF stop_outcomes]) auto
  then show ?thesis by simp
qed

lemma run_phase_outcomes:
  assumes "\<And>w. phase_state E q t d b w \<Longrightarrow> last_clock (sw_log w) = c \<Longrightarrow> polled w \<Longrightarrow> run_authorized q t (sw_log w) argv timeout"
  shows "outcomes (\<lambda>w. phase_state E q t d b w \<and> last_clock (sw_log w) = c \<and> polled w) (run_phase E argv timeout phase complete ports)
     (\<lambda>code w. \<exists>f. case phase of Discovery \<Rightarrow> phase_state E q t f b w | Enrichment \<Rightarrow> phase_state E q t d f w) (interrupted E q t)"
proof (rule outcomesI)
  fix w assume w: "phase_state E q t d b w \<and> last_clock (sw_log w) = c \<and> polled w"
  then have "run_authorized q t (sw_log w) argv timeout" using assms by blast
  then show "case run_phase E argv timeout phase complete ports w of
      (Inl e, s') \<Rightarrow> interrupted E q t e s'
    | (Inr x, s') \<Rightarrow> \<exists>f. case phase of Discovery \<Rightarrow> phase_state E q t f b s' | Enrichment \<Rightarrow> phase_state E q t d f s'"
    using w
    by (cases "ne_run E (length (sw_log w)) argv timeout"; cases phase)
      (auto simp: run_phase_def run_nmap_def bindM_def returnM_def raiseM_def phase_state_def justified_def interrupted_def Let_def
        split: run_outcome.splits)
qed

lemma int_div_times_le: "a div 1000000 * 1000000 \<le> (a :: int)"
  by presburger

lemma budget_ends:
  assumes "phase_budget_of cutoff now reserve process host = Some budget"
  shows "1 \<le> pb_host_timeout budget \<and> pb_host_timeout budget < pb_process_timeout budget
    \<and> now + (pb_process_timeout budget + reserve) * 1000000 \<le> cutoff"
proof -
  from assms have b: "pb_process_timeout budget + reserve \<le> (cutoff - now) div 1000000"
    "1 \<le> pb_host_timeout budget \<and> pb_host_timeout budget < pb_process_timeout budget"
    by (auto simp: phase_budget_of_def Let_def split: if_splits)
  then have "(pb_process_timeout budget + reserve) * 1000000 \<le> (cutoff - now) div 1000000 * 1000000" by simp
  also have "\<dots> \<le> cutoff - now" by (rule int_div_times_le)
  finally show ?thesis using b(2) by simp
qed

lemma run_authorizedI:
  assumes "prepare_scan q = Inr p" "hd argv = ''nmap''" "nmap_arguments (tl argv) = (os, [pp_target p])" "safe_arguments p t timeout os"
    and "polled w" "last_clock (sw_log w) = Some now" "now + (timeout + nt_upload_reserve t) * 1000000 \<le> pp_not_after p"
  shows "run_authorized q t (sw_log w) argv timeout"
  unfolding run_authorized_def
  by (intro exI [of _ p] exI [of _ os] exI [of _ now]) (use assms prepared_facts [OF assms(1)] in \<open>simp add: polled_def\<close>)

lemma discovery_authorized:
  assumes "prepare_scan q = Inr p" "phase_budget_of (pp_not_after p) now (nt_upload_reserve t) process host = Some budget"
    and "last_clock (sw_log w) = Some now" "polled w"
  shows "run_authorized q t (sw_log w) (build_discovery_command (pp_target p) (pp_coverage p) path t (Some (pb_host_timeout budget)))
    (pb_process_timeout budget)"
proof -
  note p = prepared_facts [OF assms(1)]
  have "\<not> startswith (pp_target p) ''-''" using p(5) plain_target by auto
  from discovery_command_read [OF this] obtain os where os:
    "nmap_arguments (tl (build_discovery_command (pp_target p) (pp_coverage p) path t (Some (pb_host_timeout budget)))) = (os, [pp_target p])"
    "base_options (pp_coverage p) t (pb_host_timeout budget) os" "map_of os ''--script'' = None"
    by blast
  note b = budget_ends [OF assms(2)]
  have safe: "safe_arguments p t (pb_process_timeout budget) os" by (rule safe_argumentsI [OF os(2) p(3)]) (use b os(3) in simp_all)
  have "hd (build_discovery_command (pp_target p) (pp_coverage p) path t (Some (pb_host_timeout budget))) = ''nmap''"
    by (simp add: build_discovery_command_def base_scan_command_def)
  with safe b show ?thesis by (intro run_authorizedI [OF assms(1) _ os(1) _ assms(4,3)]) simp_all
qed

lemma sorted_set_idem: "sorted_set (sorted_set xs) = sorted_set xs"
  by (simp add: sorted_set_def sort_key_id_if_sorted)

lemma report_ports_within:
  assumes "validate_scan_bytes reader bytes target c = Inr report"
  shows "set (xr_open_ports report) \<subseteq> pair_ports c" "sorted_set (xr_open_ports report) = xr_open_ports report" "bytes \<noteq> []"
proof -
  from assms obtain nodes states where "explicit_states c [] nodes = Inr states" "xr_open_ports report = open_states states" "bytes \<noteq> []"
    by (auto simp: validate_scan_bytes_def parse_xml_bytes_def bindR_Inr open_states_def Let_def split: if_splits sum.splits)
  with explicit_ports_within [OF this(1)] show "set (xr_open_ports report) \<subseteq> pair_ports c"
    "sorted_set (xr_open_ports report) = xr_open_ports report" "bytes \<noteq> []"
    by (auto simp: open_states_def sorted_set_idem)
qed

lemma enrichment_authorized:
  assumes "prepare_scan q = Inr p" "phase_budget_of (pp_not_after p) now (nt_upload_reserve t) process host = Some budget"
    and "last_clock (sw_log w) = Some now" "polled w"
    and "build_enrichment_command (pp_target p) opens path t (pp_deep_scripts p) (Some (pb_host_timeout budget)) = Inr argv"
    and "set opens \<subseteq> pair_ports (pp_coverage p)"
  shows "run_authorized q t (sw_log w) argv (pb_process_timeout budget)"
proof -
  note p = prepared_facts [OF assms(1)]
  have "\<not> startswith (pp_target p) ''-''" using p(5) plain_target by auto
  from enrichment_command_read [OF assms(5) this] obtain c os where c: "coverage_from_ports opens = Inr c"
    and os: "nmap_arguments (tl argv) = (os, [pp_target p])" "base_options c t (pb_host_timeout budget) os"
      "\<forall>s. map_of os ''--script'' = Some s \<longrightarrow> (\<exists>ss. s = join '','' ss \<and> set ss \<subseteq> set (pp_deep_scripts p) \<inter> set known_safe_scripts)"
    by blast
  have "\<forall>x \<in> set opens. 1 \<le> x \<and> x \<le> 65535" using assms(6) p(3) by (fastforce simp: bounded_coverage_def pair_ports_def)
  note c = coverage_from_ports_bounded [OF c this]
  note b = budget_ends [OF assms(2)]
  have safe: "safe_arguments p t (pb_process_timeout budget) os"
    by (rule safe_argumentsI [OF os(2)]) (use c b os(3) assms(6) in simp_all)
  have "hd argv = ''nmap''" using assms(5)
    by (auto simp: build_enrichment_command_def base_scan_command_def bindR_Inr Let_def split: if_splits)
  with safe b show ?thesis by (intro run_authorizedI [OF assms(1) _ os(1) _ assms(4,3)]) simp_all
qed

text \<open>The ports that the enrichment reports as open are those of its proof.\<close>

lemma open_ports_listed:
  "explicit_states c states nodes = Inr states' \<Longrightarrow> mapR open_port_of nodes = Inr ps
     \<Longrightarrow> map fst (filter (\<lambda>s. snd s = ''open'') states') = map fst (filter (\<lambda>s. snd s = ''open'') states) @ List.map_filter id ps"
proof (induction nodes arbitrary: states ps)
  case (Cons node nodes)
  from Cons.prems(1) obtain s1 where s1: "explicit_state c states node = Inr s1" "explicit_states c s1 nodes = Inr states'"
    by (auto simp: bindR_Inr)
  from Cons.prems(2) obtain o1 ps1 where ps: "open_port_of node = Inr o1" "mapR open_port_of nodes = Inr ps1" "ps = o1 # ps1"
    by (auto simp: bindR_Inr)
  from s1(1) obtain port st where n: "xml_get ''protocol'' node = Some ''tcp''" "py_int (xml_attr ''portid'' node) = Some port"
    "children ''state'' node = [st]" "s1 = states @ [(port, xml_attr ''state'' st)]"
    by (rule explicit_state_Inr)
  have "o1 = (if xml_attr ''state'' st = ''open'' then Some port else None)"
    using ps(1) n by (auto simp: open_port_of_def xml_attr_def split: if_splits option.splits)
  then show ?case using Cons.IH [OF s1(2) ps(2)] n(4) ps(3) by (auto simp: List.map_filter_simps)
qed (simp add: List.map_filter_simps)

lemma extract_agrees:
  assumes "validate_scan_bytes reader bytes target c = Inr r" "extract_open_tcp_ports reader (Some bytes) = Inr found"
  shows "found = xr_open_ports r"
proof -
  from assms(1) obtain root host ports states where root: "parse_xml_bytes reader bytes = Inr root"
    and host: "report_target_host root target = Inr host" and ports: "children ''ports'' host = [ports]"
    and states: "explicit_states c [] (children ''port'' ports) = Inr states" and r: "xr_open_ports r = open_states states"
    by (auto simp: validate_scan_bytes_def bindR_Inr sole_child_Inr open_states_def Let_def)
  from host have "children ''host'' root = [host]" by (auto simp: report_target_host_def split: list.splits if_splits)
  with assms(2) root ports obtain ps where ps: "mapR open_port_of (children ''port'' ports) = Inr ps" "found = sorted_set (List.map_filter id ps)"
    by (auto simp: extract_open_tcp_ports_def read_xml_bytes_def bindR_Inr split: if_splits)
  show ?thesis using open_ports_listed [OF states ps(1)] ps(2) r by (simp add: open_states_def)
qed

lemma enrichment_evidence:
  assumes "validate_scan_bytes reader bytes target c = Inr r" "extract_open_tcp_ports reader (Some bytes) = Inr opens"
  shows "bytes \<noteq> [] \<and> xr_open_ports r = opens"
  using report_ports_within(3) [OF assms(1)] extract_agrees [OF assms] by simp

lemma complete_file:
  assumes "validate_complete_scan reader file target c = Inr r"
  shows "\<exists>b. file = Some b \<and> validate_scan_bytes reader b target c = Inr r"
  using assms by (auto simp: validate_complete_scan_def read_xml_bytes_def bindR_Inr split: option.splits if_splits)

lemma interrupted_phase: "phase_state E q t d b w \<Longrightarrow> (\<And>m ty e. x \<noteq> Scan_execution_error m ty e) \<Longrightarrow> interrupted E q t x w"
  by (auto simp: interrupted_def)

lemma enrich_outcomes:
  assumes "prepare_scan q = Inr p" "set (xr_open_ports report) \<subseteq> pair_ports (pp_coverage p)" "xr_open_ports report \<noteq> []"
    and "validate_scan_bytes (ne_reader E) discovery (pp_target p) (pp_coverage p) = Inr report"
  shows "outcomes (phase_state E q t (Some discovery) None) (enrich_phase E p t path report)
    (\<lambda>_ w. \<exists>b. phase_state E q t (Some discovery) b w \<and> proof_of E p report (Some discovery) b) (interrupted E q t)"
  unfolding enrich_phase_def Let_def
  apply (rule outcomes_lift, use refusing_Inl in \<open>fastforce intro: interrupted_phase\<close>)
  apply (rule outcomes_bind, rule read_clock_outcomes)
  apply (rule outcomes_bind, rule note_progress_outcomes)
  apply (rule outcomes_lift, use refusing_Inl in \<open>fastforce intro: interrupted_phase\<close>)
  apply (rule outcomes_bind, rule note_progress_outcomes)
  apply (rule outcomes_guard, fastforce intro: interrupted_phase)
  apply (rule outcomes_bind, rule stop_outcomes)
  apply (rule outcomes_bind, rule run_phase_outcomes)
  apply (fastforce simp: refusing_Inr intro: enrichment_authorized [OF assms(1) _ _ _ _ assms(2)])
  apply simp
  apply (rule outcomes_ex)
  apply (rule outcomes_bind, rule note_exit_outcomes)
  apply (rule outcomes_read)
  apply (rule outcomes_case_sum, rule outcomes_raise, fastforce intro: interrupted_phase)
  apply (rule outcomes_if, rule outcomes_raise, fastforce intro: interrupted_phase)
  apply (rule outcomes_case_sum, rule outcomes_raise, fastforce intro: interrupted_phase)
  apply (rule outcomes_return)
  using assms(3,4) by (auto simp: proof_of_def refusing_Inr phase_state_def dest!: complete_file dest: enrichment_evidence)

text \<open>The phases end with the proof of a complete scan, or with an exception.\<close>

lemma phases_outcomes:
  assumes "prepare_scan q = Inr p" "phase_budget_of (pp_not_after p) started (nt_upload_reserve t) process host = budget"
    and "\<And>used. budget = Some used \<Longrightarrow> argv = build_discovery_command (pp_target p) (pp_coverage p) path t (Some (pb_host_timeout used))"
  shows "outcomes (\<lambda>w. phase_state E q t None None w \<and> last_clock (sw_log w) = Some started) (scan_phases E p t enrichment_path argv budget)
    (\<lambda>report w. \<exists>d b. phase_state E q t d b w \<and> proof_of E p report d b) (interrupted E q t)"
  unfolding scan_phases_def
  apply (rule outcomes_guard, fastforce intro: interrupted_phase)
  apply (rule outcomes_bind, rule stop_outcomes)
  apply (rule outcomes_bind, rule run_phase_outcomes)
   apply (use assms in \<open>fastforce intro: discovery_authorized\<close>)
  apply simp
  apply (rule outcomes_ex)
  apply (rule outcomes_bind, rule note_exit_outcomes)
  apply (rule outcomes_bind, rule stop_any)
  apply (rule outcomes_read)
  apply (rule outcomes_bind [where R = "\<lambda>report w. \<exists>d. phase_state E q t (Some d) None w
      \<and> validate_scan_bytes (ne_reader E) d (pp_target p) (pp_coverage p) = Inr report"])
   apply (rule outcomes_case_sum, rule outcomes_raise, fastforce intro: interrupted_phase)
   apply (rule outcomes_return, auto simp: phase_state_def dest!: complete_file)[1]
  apply (rule outcomes_ex, rule outcomes_pure)
  apply (rule outcomes_bind [where R = "\<lambda>_ w. \<exists>d b. phase_state E q t d b w \<and> proof_of E p x d b" for x])
   apply (rule outcomes_if, rule outcomes_weaken [OF enrich_outcomes [OF assms(1)]])
         apply (auto dest: report_ports_within)[7]
   apply (rule outcomes_return, auto simp: proof_of_def)[1]
  apply (rule outcomes_ex)+
  apply (rule outcomes_pure)
  apply (rule outcomes_bind, rule stop_any)
  apply (rule outcomes_return)
  by auto

section \<open>Publication\<close>

text \<open>What a put adds to the log.\<close>

definition put_of :: "string \<Rightarrow> string \<Rightarrow> nat list \<Rightarrow> string \<Rightarrow> scan_put" where
  "put_of bucket key body content_type =
     \<lparr>sp_bucket = bucket, sp_key = key, sp_body = body, sp_content_type = content_type, sp_sha256 = sha256_hexdigest body\<rparr>"

text \<open>A fact about the log that later steps do not change.\<close>

definition lasting :: "(scan_step list \<Rightarrow> bool) \<Rightarrow> bool" where
  "lasting G \<longleftrightarrow> (\<forall>log step. G log \<longrightarrow> G (log @ [step]))"

lemma lasting_conj: "lasting G \<Longrightarrow> lasting H \<Longrightarrow> lasting (\<lambda>log. G log \<and> H log)"
  by (simp add: lasting_def)

lemma writer_put_outcomes:
  assumes "\<And>w. phase_state E q t d b w \<Longrightarrow> G (sw_log w) \<Longrightarrow> put_justified E q (sw_log w) (put_of bucket key body content_type)" "lasting G"
  shows "outcomes (\<lambda>w. phase_state E q t d b w \<and> G (sw_log w)) (writer_put E bucket key body content_type)
    (\<lambda>digest w. phase_state E q t d b w \<and> G (sw_log w) \<and> digest = sha256_hexdigest body
       \<and> (\<exists>pre. sw_log w = pre @ [Put_object (put_of bucket key body content_type) Put_stored]))
    (\<lambda>x w. phase_state E q t d b w \<and> G (sw_log w) \<and> (\<forall>m ty e. x \<noteq> Scan_execution_error m ty e))"
  unfolding writer_put_def
  apply (rule outcomes_lift, force split: if_splits)
  apply (rule outcomes_lift, use refusing_Inl in fastforce)
  apply (rule outcomes_lift, force split: if_splits)
  apply (rule outcomesI)
  using assms by (auto simp: Let_def phase_state_def justified_def put_of_def lasting_def split: put_answer.splits)

definition raw_outcome :: "(scan_step list \<Rightarrow> bool) \<Rightarrow> nat list option \<Rightarrow> raw_artifact_reference option \<Rightarrow> scan_step list \<Rightarrow> bool" where
  "raw_outcome G file r log \<longleftrightarrow> G log
     \<and> (case r of None \<Rightarrow> \<not> existing_nonempty file | Some a \<Rightarrow> (case file of None \<Rightarrow> False | Some body \<Rightarrow> stored log a body))"

lemma lasting_raw: "lasting G \<Longrightarrow> lasting (raw_outcome G file r)"
  by (auto simp: lasting_def raw_outcome_def artifact_kept split: option.splits)

lemma put_raw_outcomes:
  assumes "prepare_scan q = Inr p" "key \<in> {ok_discovery_xml (pp_keys p), ok_enrichment_xml (pp_keys p)}" "lasting G"
    and "\<And>w. phase_state E q t d b w \<Longrightarrow> file w = f \<and> written E (sw_log w) f"
  shows "outcomes (\<lambda>w. phase_state E q t d b w \<and> G (sw_log w)) (put_raw_if_present E q file key)
    (\<lambda>r w. phase_state E q t d b w \<and> raw_outcome G f r (sw_log w))
    (\<lambda>x w. phase_state E q t d b w \<and> G (sw_log w) \<and> (\<forall>m ty e. x \<noteq> Scan_execution_error m ty e))"
  unfolding put_raw_if_present_def
proof (rule outcomes_read, rule outcomes_if)
  fix content assume "\<not> existing_nonempty content"
  then show "outcomes (\<lambda>w. (phase_state E q t d b w \<and> G (sw_log w)) \<and> file w = content) (returnM None)
      (\<lambda>r w. phase_state E q t d b w \<and> raw_outcome G f r (sw_log w))
      (\<lambda>x w. phase_state E q t d b w \<and> G (sw_log w) \<and> (\<forall>m ty e. x \<noteq> Scan_execution_error m ty e))"
    using assms(4) by (intro outcomes_return) (auto simp: raw_outcome_def)
next
  fix content assume "\<not> \<not> existing_nonempty content"
  then obtain body where body: "content = Some body" by (auto simp: existing_nonempty_def split: option.splits)
  have put: "outcomes (\<lambda>w. phase_state E q t d b w \<and> G (sw_log w))
      (bindM (writer_put E (sq_bucket q) key body ''application/xml'')
        (\<lambda>digest. returnM (Some \<lparr>ra_bucket = sq_bucket q, ra_key = key, ra_sha256 = digest\<rparr>)))
      (\<lambda>r w. phase_state E q t d b w \<and> raw_outcome G f r (sw_log w))
      (\<lambda>x w. phase_state E q t d b w \<and> G (sw_log w) \<and> (\<forall>m ty e. x \<noteq> Scan_execution_error m ty e))" if "f = content"
    apply (rule outcomes_bind, rule writer_put_outcomes)
      apply (use assms(1,2,4) that body in \<open>auto simp: put_justified_def put_of_def\<close>)[1]
     apply (rule assms(3))
    apply (rule outcomes_return)
    using that body by (auto simp: raw_outcome_def stored_def put_of_def)
  show "outcomes (\<lambda>w. (phase_state E q t d b w \<and> G (sw_log w)) \<and> file w = content)
      (bindM (writer_put E (sq_bucket q) key (the content) ''application/xml'')
        (\<lambda>digest. returnM (Some \<lparr>ra_bucket = sq_bucket q, ra_key = key, ra_sha256 = digest\<rparr>)))
      (\<lambda>r w. phase_state E q t d b w \<and> raw_outcome G f r (sw_log w))
      (\<lambda>x w. phase_state E q t d b w \<and> G (sw_log w) \<and> (\<forall>m ty e. x \<noteq> Scan_execution_error m ty e))"
    by (rule outcomes_pre [where P' = "\<lambda>w. (phase_state E q t d b w \<and> G (sw_log w)) \<and> f = content"], use assms(4) in blast, rule outcomes_pure)
      (use put body in simp)
qed

lemma best_effort_outcomes:
  assumes "outcomes P m (\<lambda>r w. S w \<and> raw_outcome G f r (sw_log w)) (\<lambda>x w. S w \<and> G (sw_log w) \<and> Y x)"
  shows "outcomes P (best_effort m) (\<lambda>r w. S w \<and> G (sw_log w) \<and> (\<forall>a. r = Some a \<longrightarrow> raw_outcome G f r (sw_log w))) X"
  unfolding best_effort_def
  by (rule outcomes_catch [where Y = "\<lambda>x w. S w \<and> G (sw_log w)"], rule outcomes_weaken [OF assms], auto simp: raw_outcome_def)
    (rule outcomes_return, auto)

lemma shared_open_ports:
  assumes "shared_scan_result q p complete opens started completed outcome exit_code raw_sha err = Inr r"
  shows "sr_open_tcp_ports r = sorted_set opens"
proof -
  from assms obtain r0 where "create_scan_result r0 = Inr r" "sr_open_tcp_ports r0 = sorted_set opens"
    by (auto simp: shared_scan_result_def Let_def split: option.splits sum.splits if_splits)
  with result_model.create_valid(3) [of r0 r] show ?thesis by (simp add: create_scan_result_def)
qed

lemma built_envelope:
  assumes "validated_envelope (build_result_envelope q p complete scanned opens started completed uploaded dc ec outcome exit_code rd rb err) = Inr e"
  shows "validate_result_envelope e = None" "re_outcome e = outcome" "sr_open_tcp_ports (re_scan_result e) = sorted_set opens"
    and "re_raw_result e = map_option (\<lambda>a. \<lparr>nr_format = ''nmap-xml'', nr_artifact = a, nr_enrichment = rb\<rparr>) rd"
    and "names_request q p e"
proof -
  from assms obtain e' where "build_result_envelope q p complete scanned opens started completed uploaded dc ec outcome exit_code rd rb err = Inr e'"
    "(case validate_result_payload e' of Inl _ \<Rightarrow> Inl (Result_error ''ScanResultEnvelope failed the shared contract'') | Inr _ \<Rightarrow> Inr e') = Inr e"
    by (auto simp: validated_envelope_def bindR_Inr)
  then obtain payload where built: "build_result_envelope q p complete scanned opens started completed uploaded dc ec outcome exit_code rd rb err = Inr e"
    and payload: "validate_result_payload e = Inr payload"
    by (cases "validate_result_payload e'") auto
  from payload show "validate_result_envelope e = None"
    by (auto simp: validate_result_payload_def split: if_splits option.splits)
  from built obtain r where r: "shared_scan_result q p scanned opens started completed outcome exit_code (map_option ra_sha256 rd) err = Inr r"
    and e: "re_scan_result e = r" "re_outcome e = outcome"
      "re_raw_result e = map_option (\<lambda>a. \<lparr>nr_format = ''nmap-xml'', nr_artifact = a, nr_enrichment = rb\<rparr>) rd"
      "names_request q p e"
    by (auto simp: build_result_envelope_def names_request_def bindR_Inr)
  show "re_outcome e = outcome" "sr_open_tcp_ports (re_scan_result e) = sorted_set opens"
    "re_raw_result e = map_option (\<lambda>a. \<lparr>nr_format = ''nmap-xml'', nr_artifact = a, nr_enrichment = rb\<rparr>) rd"
    "names_request q p e"
    using e shared_open_ports [OF r] by simp_all
qed

text \<open>The last step is the stored envelope.\<close>

definition published :: "scan_request \<Rightarrow> prepared_scan \<Rightarrow> result_envelope \<Rightarrow> scan_step list \<Rightarrow> bool" where
  "published q p e log \<longleftrightarrow>
     (\<exists>pre. log = pre @ [Put_object (put_of (sq_bucket q) (ok_envelope_json (pp_keys p)) (envelope_bytes e) ''application/json'') Put_stored])"

lemma lasting_sound: "lasting (\<lambda>log. envelope_sound E q p log e)"
proof -
  have "proven E p (log @ [step]) e" if "proven E p log e" for log step
    using that unfolding proven_def by (fastforce simp: artifact_kept split: option.splits)
  then show ?thesis unfolding lasting_def envelope_sound_def by (blast intro: artifact_kept)
qed

lemma put_envelope_outcomes:
  assumes "prepare_scan q = Inr p"
  shows "outcomes (\<lambda>w. phase_state E q t d b w \<and> envelope_sound E q p (sw_log w) e) (put_envelope E q p e)
    (\<lambda>_ w. phase_state E q t d b w \<and> envelope_sound E q p (sw_log w) e \<and> published q p e (sw_log w))
    (\<lambda>x w. phase_state E q t d b w \<and> (\<forall>m ty e. x \<noteq> Scan_execution_error m ty e))"
  unfolding put_envelope_def
  apply (rule outcomes_bind [where R = "\<lambda>_ w. phase_state E q t d b w \<and> envelope_sound E q p (sw_log w) e \<and> published q p e (sw_log w)"])
   apply (rule outcomes_weaken, rule writer_put_outcomes [where G = "\<lambda>log. envelope_sound E q p log e" and t = t and d = d and b = b])
       apply (use assms in \<open>auto simp: put_justified_def put_of_def\<close>)[1]
      apply (rule lasting_sound, simp)
    apply (auto simp: published_def)[2]
  by (rule outcomes_return) simp

lemma clock_keeps:
  assumes "lasting G"
  shows "outcomes (\<lambda>w. phase_state E q t d b w \<and> G (sw_log w)) (read_clock E) (\<lambda>_ w. phase_state E q t d b w \<and> G (sw_log w)) X"
  using assms by (intro outcomesI) (simp add: read_clock_def phase_state_def justified_def lasting_def Let_def)

lemma failed_envelope_sound:
  assumes "validated_envelope (build_result_envelope q p complete scanned opens started completed uploaded dc ec outcome exit_code rd rb err) = Inr e"
    and "outcome \<noteq> ''complete''" "prepare_scan q = Inr p"
    and "\<And>a. rd = Some a \<Longrightarrow> \<exists>body. stored log a body" "\<And>a. rb = Some a \<Longrightarrow> \<exists>body. stored log a body"
  shows "envelope_sound E q p log e"
  using built_envelope [OF assms(1)] assms(2,4,5) prepared_facts(1) [OF assms(3)]
  by (auto simp: envelope_sound_def artifacts_def split: option.splits)

lemma complete_envelope_sound:
  assumes "validated_envelope (build_result_envelope q p complete scanned (xr_open_ports report) started completed uploaded dc ec outcome exit_code rd rb err) = Inr e"
    and "prepare_scan q = Inr p" "proof_of E p report d b" "raw_outcome (raw_outcome (\<lambda>_. True) d rd) b rb log" "rd \<noteq> None"
  shows "envelope_sound E q p log e"
proof -
  note e = built_envelope [OF assms(1)]
  from assms(3) obtain discovery where d: "d = Some discovery" "validate_scan_bytes (ne_reader E) discovery (pp_target p) (pp_coverage p) = Inr report"
    by (auto simp: proof_of_def)
  obtain a where a: "rd = Some a" "stored log a discovery" using assms(4,5) d(1) by (auto simp: raw_outcome_def)
  have b: "case rb of None \<Rightarrow> b = None | Some a \<Rightarrow> (case b of None \<Rightarrow> False | Some body \<Rightarrow> stored log a body)"
    using assms(3,4) by (auto simp: raw_outcome_def proof_of_def existing_nonempty_def split: option.splits if_splits)
  have "sr_open_tcp_ports (re_scan_result e) = xr_open_ports report" using e(3) report_ports_within(2) [OF d(2)] by simp
  then have "proven E p log e" unfolding proven_def using assms(3) a b d(1) e(4) by auto
  moreover have "\<forall>a \<in> set (artifacts e). \<exists>body. stored log a body"
    using a b e(4) by (auto simp: artifacts_def split: option.splits)
  ultimately show ?thesis using e(1,5) prepared_facts(1) [OF assms(2)] by (simp add: envelope_sound_def)
qed

text \<open>The upload time, the envelope and its put, for any envelope that the artifacts in the log justify.\<close>

lemma publish_envelope_outcomes:
  assumes "prepare_scan q = Inr p" "lasting G"
    and sound: "\<And>uploaded e log. validated_envelope (build uploaded) = Inr e \<Longrightarrow> G log \<Longrightarrow> envelope_sound E q p log e"
  shows "outcomes (\<lambda>w. phase_state E q t d b w \<and> G (sw_log w))
    (bindM (read_clock E) (\<lambda>uploaded. bindM (liftM (refusing (validated_envelope (build uploaded)))) (\<lambda>e.
       bindM (put_envelope E q p e) (\<lambda>_. returnM (k e)))))
    (\<lambda>r w. \<exists>uploaded e. r = k e \<and> validated_envelope (build uploaded) = Inr e \<and> phase_state E q t d b w
       \<and> envelope_sound E q p (sw_log w) e \<and> published q p e (sw_log w))
    (\<lambda>_. phase_state E q t d b)"
proof (rule outcomes_bind, rule clock_keeps [OF assms(2)], rule outcomes_lift, blast)
  fix uploaded e
  assume e: "refusing (validated_envelope (build uploaded)) = Inr e"
  then have pre: "phase_state E q t d b w \<and> envelope_sound E q p (sw_log w) e" if "phase_state E q t d b w \<and> G (sw_log w)" for w
    using that sound by (simp add: refusing_Inr)
  have put: "outcomes (\<lambda>w. phase_state E q t d b w \<and> G (sw_log w)) (put_envelope E q p e)
      (\<lambda>_ w. phase_state E q t d b w \<and> envelope_sound E q p (sw_log w) e \<and> published q p e (sw_log w)) (\<lambda>_. phase_state E q t d b)"
    by (rule outcomes_weaken [OF put_envelope_outcomes [OF assms(1)]]) (use pre in auto)
  show "outcomes (\<lambda>w. phase_state E q t d b w \<and> G (sw_log w)) (bindM (put_envelope E q p e) (\<lambda>_. returnM (k e)))
    (\<lambda>r w. \<exists>uploaded e. r = k e \<and> validated_envelope (build uploaded) = Inr e \<and> phase_state E q t d b w
       \<and> envelope_sound E q p (sw_log w) e \<and> published q p e (sw_log w))
    (\<lambda>_. phase_state E q t d b)"
    by (rule outcomes_bind, rule put, rule outcomes_return) (use e in \<open>auto simp: refusing_Inr\<close>)
qed

lemma publish_failed_outcomes:
  assumes "prepare_scan q = Inr p"
  shows "outcomes (phase_state E q t d b) (publish_failed_scan E q p dpath bpath argv budget started completed f)
    (\<lambda>r w. phase_state E q t d b w
       \<and> (\<forall>e. r = Some e \<longrightarrow> re_outcome e \<noteq> ''complete'' \<and> envelope_sound E q p (sw_log w) e \<and> published q p e (sw_log w))) X"
proof -
  let ?G = "\<lambda>r (log :: scan_step list). \<forall>a. r = Some a \<longrightarrow> (\<exists>body. stored log a body)"
  have lasting: "lasting (?G r)" for r by (auto simp: lasting_def intro: artifact_kept)
  have first: "outcomes (phase_state E q t d b) (best_effort (put_raw_if_present E q sw_discovery (ok_discovery_xml (pp_keys p))))
      (\<lambda>r w. phase_state E q t d b w \<and> ?G r (sw_log w)) X"
    by (rule outcomes_weaken, rule best_effort_outcomes, rule put_raw_outcomes [OF assms, where G = "\<lambda>_. True"])
      (auto simp: lasting_def phase_state_def raw_outcome_def split: option.splits)
  have second: "outcomes (\<lambda>w. phase_state E q t d b w \<and> ?G rd (sw_log w)) (if pf_publish_enrichment f
        then best_effort (put_raw_if_present E q sw_enrichment (ok_enrichment_xml (pp_keys p))) else returnM None)
      (\<lambda>r w. phase_state E q t d b w \<and> ?G rd (sw_log w) \<and> ?G r (sw_log w)) X" for rd
    by (rule outcomes_if, rule outcomes_weaken, rule best_effort_outcomes, rule put_raw_outcomes [OF assms, where G = "?G rd"])
      (auto intro: lasting outcomes_return simp: phase_state_def raw_outcome_def split: option.splits)
  have envelope: "outcomes (\<lambda>w. phase_state E q t d b w \<and> ?G rd (sw_log w) \<and> ?G rb (sw_log w)) (best_effort
       (bindM (read_clock E) (\<lambda>uploaded.
        bindM (liftM (refusing (validated_envelope
                 (build_result_envelope q p complete scanned opens started completed uploaded dc ec outcome code rd rb err)))) (\<lambda>e.
        bindM (put_envelope E q p e) (\<lambda>_. returnM (Some e))))))
      (\<lambda>r w. phase_state E q t d b w
         \<and> (\<forall>e. r = Some e \<longrightarrow> re_outcome e \<noteq> ''complete'' \<and> envelope_sound E q p (sw_log w) e \<and> published q p e (sw_log w))) X"
    if "outcome \<noteq> ''complete''" for rd rb complete scanned opens dc ec outcome code err
    unfolding best_effort_def
    by (rule outcomes_catch [where Y = "\<lambda>_. phase_state E q t d b"], rule outcomes_weaken,
        rule publish_envelope_outcomes [OF assms lasting_conj [OF lasting lasting], where t = t and d = d and b = b],
        erule failed_envelope_sound [OF _ that assms])
      (use that in \<open>auto intro!: outcomes_return dest: built_envelope(2)\<close>)
  show ?thesis
    unfolding publish_failed_scan_def
    by (rule outcomes_bind, rule first, rule outcomes_bind, rule second, rule outcomes_read, rule outcomes_read,
        rule outcomes_pre [OF _ envelope]) auto
qed

text \<open>What an execution ends with.\<close>

definition returned :: "scanner_env \<Rightarrow> scan_request \<Rightarrow> nmap_tuning \<Rightarrow> result_envelope \<Rightarrow> scanner_world \<Rightarrow> bool" where
  "returned E q t e w \<longleftrightarrow> every_step (justified E q t) (sw_log w)
     \<and> (\<exists>p. prepare_scan q = Inr p \<and> re_outcome e = ''complete'' \<and> envelope_sound E q p (sw_log w) e \<and> published q p e (sw_log w))"

definition raised :: "scanner_env \<Rightarrow> scan_request \<Rightarrow> nmap_tuning \<Rightarrow> worker_error \<Rightarrow> scanner_world \<Rightarrow> bool" where
  "raised E q t x w \<longleftrightarrow> every_step (justified E q t) (sw_log w) \<and> (\<forall>f. x \<noteq> Phase_failed f)
     \<and> (\<forall>m ty e. x = Scan_execution_error m ty (Some e) \<longrightarrow>
          (\<exists>p. prepare_scan q = Inr p \<and> re_outcome e \<noteq> ''complete'' \<and> envelope_sound E q p (sw_log w) e \<and> published q p e (sw_log w)))"

lemma publish_complete_outcomes:
  assumes "prepare_scan q = Inr p" "proof_of E p report d b"
  shows "outcomes (phase_state E q t d b) (publish_complete_scan E q p dpath bpath argv budget started completed report)
    (returned E q t) (raised E q t)"
proof -
  let ?R = "raw_outcome (\<lambda>_. True) d"
  have lasting: "lasting (?R rd)" for rd by (rule lasting_raw) (simp add: lasting_def)
  have first: "outcomes (phase_state E q t d b) (put_raw_if_present E q sw_discovery (ok_discovery_xml (pp_keys p)))
      (\<lambda>rd w. phase_state E q t d b w \<and> ?R rd (sw_log w)) (\<lambda>_. phase_state E q t d b)"
    by (rule outcomes_weaken, rule put_raw_outcomes [OF assms(1), where G = "\<lambda>_. True"]) (auto simp: lasting_def phase_state_def)
  have second: "outcomes (\<lambda>w. phase_state E q t d b w \<and> ?R rd (sw_log w)) (put_raw_if_present E q sw_enrichment (ok_enrichment_xml (pp_keys p)))
      (\<lambda>rb w. phase_state E q t d b w \<and> raw_outcome (?R rd) b rb (sw_log w)) (\<lambda>_. phase_state E q t d b)" for rd
    by (rule outcomes_weaken, rule put_raw_outcomes [OF assms(1) _ lasting]) (auto simp: phase_state_def)
  have third: "outcomes (\<lambda>w. phase_state E q t d b w \<and> raw_outcome (?R rd) b rb (sw_log w))
      (bindM (read_clock E) (\<lambda>uploaded.
        bindM (liftM (refusing (validated_envelope
                 (build_result_envelope q p True True (xr_open_ports report) started completed uploaded dc ec ''complete'' (Some 0) rd rb None)))) (\<lambda>e.
        bindM (put_envelope E q p e) (\<lambda>_. returnM e))))
      (returned E q t) (\<lambda>_. phase_state E q t d b)" if "rd \<noteq> None" for rd rb dc ec
    by (rule outcomes_weaken, rule publish_envelope_outcomes [OF assms(1) lasting_raw [OF lasting], where k = "\<lambda>e. e"],
        erule complete_envelope_sound [OF _ assms _ that])
      (use assms(1) in \<open>auto simp: returned_def phase_state_def dest: built_envelope(2)\<close>)
  have all: "outcomes (phase_state E q t d b) (bindM (put_raw_if_present E q sw_discovery (ok_discovery_xml (pp_keys p))) (\<lambda>rd.
        bindM (guardM (rd \<noteq> None) (Uncaught ''completed scan has no discovery artifact'')) (\<lambda>_.
        bindM (put_raw_if_present E q sw_enrichment (ok_enrichment_xml (pp_keys p))) (\<lambda>rb.
        bindM (read_clock E) (\<lambda>uploaded.
        bindM (liftM (refusing (validated_envelope
                 (build_result_envelope q p True True (xr_open_ports report) started completed uploaded dc ec ''complete'' (Some 0) rd rb None)))) (\<lambda>e.
        bindM (put_envelope E q p e) (\<lambda>_. returnM e)))))))
      (returned E q t) (\<lambda>_. phase_state E q t d b)" for dc ec
    by (rule outcomes_bind, rule first, rule outcomes_guard, blast, rule outcomes_bind, rule second, rule third)
  show ?thesis
    unfolding publish_complete_scan_def
    by (rule outcomes_read, rule outcomes_catch [where Y = "\<lambda>_. phase_state E q t d b"], rule outcomes_pre [OF _ all])
      (auto intro!: outcomes_raise simp: raised_def phase_state_def)
qed

lemma failure_outcomes:
  assumes "prepare_scan q = Inr p"
  shows "outcomes (interrupted E q t x)
    (case x of
       Phase_failed f \<Rightarrow>
         bindM (read_clock E) (\<lambda>completed.
         bindM (publish_failed_scan E q p dpath bpath argv budget started completed f) (\<lambda>payload.
         raiseM (Scan_execution_error (pf_message f) (pf_error_type f) payload)))
     | _ \<Rightarrow> raiseM x) Q (raised E q t)"
proof (cases "\<exists>f. x = Phase_failed f")
  case True
  then obtain f where f: "x = Phase_failed f" by blast
  have "outcomes (\<lambda>w. \<exists>d b. phase_state E q t d b w) (bindM (read_clock E) (\<lambda>completed.
         bindM (publish_failed_scan E q p dpath bpath argv budget started completed f) (\<lambda>payload.
         raiseM (Scan_execution_error (pf_message f) (pf_error_type f) payload)))) Q (raised E q t)"
    apply (rule outcomes_ex, rule outcomes_ex)
    apply (rule outcomes_bind, rule read_clock_outcomes)
    apply (rule outcomes_bind, rule outcomes_pre [OF _ publish_failed_outcomes [OF assms]], blast)
    apply (rule outcomes_raise)
    using assms by (auto simp: raised_def phase_state_def)
  then show ?thesis unfolding f worker_error.case by (rule outcomes_pre [rotated]) (simp add: interrupted_def)
next
  case False
  then show ?thesis by (cases x) (auto intro!: outcomes_raise simp: interrupted_def raised_def phase_state_def)
qed

lemma execute_outcomes:
  "outcomes (\<lambda>w. sw_log w = []) (execute_scan E q t workdir) (returned E q t) (raised E q t)"
  unfolding execute_scan_def Let_def
  apply (rule outcomes_lift, use refusing_Inl in \<open>fastforce simp: raised_def\<close>)
  apply (unfold refusing_Inr)
  apply (rule outcomes_guard, simp add: raised_def)
  apply (rule outcomes_read, rule outcomes_guard, simp add: raised_def)
  apply (rule outcomes_pre [where P' = "phase_state E q t None None"], simp add: phase_state_def written_def)
  apply (rule outcomes_bind, rule read_clock_outcomes)
  apply (rule outcomes_bind, rule note_progress_outcomes)
  apply (rule outcomes_bind, rule outcomes_catch, rule phases_outcomes [where path = "workdir @ ''/nmap-discovery.xml''", OF _ refl], assumption, simp, rule failure_outcomes, assumption)
  apply (rule outcomes_ex, rule outcomes_ex, rule outcomes_pure)
  apply (rule outcomes_bind, rule read_clock_outcomes)
  apply (rule outcomes_pre [OF _ publish_complete_outcomes], blast, assumption, assumption)
  done

section \<open>Acceptance by the parser\<close>









section \<open>A complete scan\<close>

definition xd_raw_target :: target where
  "xd_raw_target =
     \<lparr>target_id = zero_id, provider = AWS, scope_id = ''123456789012'', location = ''us-west-2'',
      resource_id = ''eni-0123456789abcdef0'', private_address = ''10.0.0.7'', public_address = ''8.8.8.8'',
      address_family = IPV4, transport = TCP, generation = 3\<rparr>"

definition xd_target :: target where
  "xd_target = xd_raw_target\<lparr>target_id := expected_target_id xd_raw_target\<rparr>"

definition xd_request :: scan_request where
  "xd_request =
     \<lparr>sq_target = ''8.8.8.8'', sq_profile = ''targeted-tcp'', sq_event_id = zero_id, sq_directive_id = zero_id, sq_trace_id = ''trace-1'',
      sq_run_id = ''run-1'', sq_attempt_id = ''attempt-1'', sq_target_id = target_id xd_target, sq_target_provider = ''aws'',
      sq_target_scope_id = ''123456789012'', sq_target_location = ''us-west-2'', sq_target_resource_id = ''eni-0123456789abcdef0'',
      sq_target_private_address = ''10.0.0.7'', sq_target_generation = 3,
      sq_image_version = ''git:0123456789abcdef0123456789abcdef01234567'', sq_bucket = ''raw'', sq_prefix = ''scans'', sq_deadline_at = 0,
      sq_not_after = 9000000000, sq_ports = Some ''443'', sq_deep_scripts = [], sq_script_allowlist = None, sq_allowed_cidrs = [],
      sq_denied_cidrs = []\<rparr>"

definition xd_tuning :: nmap_tuning where
  "xd_tuning =
     \<lparr>nt_min_rate = 100, nt_max_rate = 500, nt_discovery_retries = 1, nt_enrichment_retries = 1, nt_max_rtt_timeout_ms = 1000,
      nt_discovery_host_timeout = 600, nt_enrichment_host_timeout = 600, nt_discovery_process_timeout = 700,
      nt_enrichment_process_timeout = 700, nt_script_timeout = 30, nt_version_intensity = 5, nt_upload_reserve = 60\<rparr>"

definition xd_root :: xml where
  "xd_root = Element ''nmaprun'' [] []
     [Element ''host'' [] []
        [Element ''address'' [(''addr'', ''8.8.8.8''), (''addrtype'', ''ipv4'')] [] [],
         Element ''ports'' [] [] [Element ''port'' [(''protocol'', ''tcp''), (''portid'', ''443'')] [] [Element ''state'' [(''state'', ''open'')] [] []]]],
      Element ''runstats'' [] [] [Element ''finished'' [(''exit'', ''success'')] [] [], Element ''hosts'' [(''total'', ''1'')] [] []]]"

definition xd_env :: scanner_env where
  "xd_env = \<lparr>ne_workdir_exists = True, ne_clock = \<lambda>_. 0, ne_terminated = \<lambda>_. False, ne_run = \<lambda>_ _ _. (Exited 0, Some [60]),
     ne_put = \<lambda>_ _. Put_stored, ne_reader = \<lambda>_. Inr xd_root\<rparr>"

definition xd_keys :: object_keys where
  "xd_keys =
     (let base = ''scans/events/'' @ zero_id @ ''/attempts/attempt-1'' in
      \<lparr>ok_discovery_xml = base @ ''/raw/nmap-discovery.xml'', ok_enrichment_xml = base @ ''/raw/nmap-enrichment.xml'',
       ok_envelope_json = base @ ''/scan-result.json''\<rparr>)"

definition xd_prepared :: prepared_scan where
  "xd_prepared =
     \<lparr>pp_target = ''8.8.8.8'', pp_contract_target = xd_target, pp_profile = TARGETED_TCP, pp_coverage = [(443, 443)], pp_deep_scripts = [],
      pp_keys = xd_keys, pp_deadline_at = 0, pp_not_after = 9000000000\<rparr>"

lemma xd_octets:
  "parse_octet ''8'' = Some 8" "parse_octet ''10'' = Some 10" "parse_octet ''0'' = Some 0" "parse_octet ''7'' = Some 7"
  "nat_str 8 = ''8''" "nat_str 10 = ''10''" "nat_str 0 = ''0''" "nat_str 7 = ''7''"
  by code_simp+

lemma xd_addresses: "ipv4_parse ''8.8.8.8'' = Some 134744072" "ipv4_parse ''10.0.0.7'' = Some 167772167" "ipv4_str 134744072 = ''8.8.8.8''"
  by (simp_all add: ipv4_parse_def ipv4_of_octets_def ipv4_str_def octets_def xd_octets)

lemma xd_global: "is_global 134744072" "\<not> is_private 134744072"
  by (simp_all add: is_global_def is_private_def in_network_def netmask_def mask_eq_exp_minus_1 ipv4_of_octets_def private_networks_def
      private_exceptions_def)

lemma xd_public: "err_of (validate_ipv4 ''10.0.0.7'') = None" "err_of (validate_public_ipv4 ''8.8.8.8'') = None"
  by (simp_all add: validate_ipv4_def validate_public_ipv4_def len_between_def xd_addresses ipv4_str_def xd_global
      octets_def xd_octets documentation_networks_def in_network_def netmask_def mask_eq_exp_minus_1 ipv4_of_octets_def)

lemma xd_texts:
  "is_account_id ''123456789012''" "is_region ''us-west-2''" "is_eni ''eni-0123456789abcdef0''" "is_sha256_hex zero_id"
  "is_safe_identifier ''trace-1''" "is_safe_identifier ''run-1''" "is_safe_identifier ''attempt-1''" "is_safe_identifier zero_id"
  "is_image_version ''git:0123456789abcdef0123456789abcdef01234567''" "validate_bucket ''raw'' = Inr ()"
  "normalize_prefix ''scans'' = Inr ''scans''" "parse_coverage [''443''] = Inr [(443, 443)]"
  by code_simp+

lemma xd_target_ok: "validate_target False xd_target = None"
  by (simp add: validate_target_def xd_target_def xd_raw_target_def xd_texts xd_public is_generation_def expected_target_id_def
      target_identity_payload_def)

lemma xd_authorized: "authorize_target ''8.8.8.8'' [] [] = Inr 134744072"
proof -
  have "py_strip ''8.8.8.8'' = ''8.8.8.8''" by code_simp
  then show ?thesis
    by (simp add: authorize_target_def xd_addresses xd_global is_unspecified_def is_loopback_def is_link_local_def is_multicast_def is_reserved_def
        in_network_def netmask_def mask_eq_exp_minus_1 ipv4_of_octets_def metadata_networks_def special_service_networks_def
        parse_ipv4_cidrs_def enforce_cidr_authorization_def)
qed

lemma xd_plan: "prepare_scan xd_request = Inr xd_prepared"
proof -
  have t: "build_contract_target xd_request ''8.8.8.8'' = Inr xd_target"
    using xd_target_ok by (simp add: build_contract_target_def xd_request_def xd_target_def xd_raw_target_def expected_target_id_def target_identity_payload_def)
  have p: "profile_of_value ''targeted-tcp'' = Some TARGETED_TCP" by code_simp
  have c: "planned_coverage TARGETED_TCP xd_request = Inr ([(443, 443)], [])" by (simp add: planned_coverage_def xd_request_def xd_texts)
  show ?thesis
    using t c by (simp add: prepare_scan_def) (simp add: xd_request_def xd_authorized xd_addresses p xd_texts sha256_field_def identifier_field_def
      image_version_field_def build_object_keys_def key_segment_def xd_prepared_def xd_keys_def xd_target_def xd_raw_target_def expected_target_id_def Let_def)
qed

lemma xd_parse: "parse_xml_bytes (ne_reader xd_env) [60] = Inr xd_root" "read_xml_bytes (Some [60]) = Inr [60]"
proof -
  have "local_name (xml_tag xd_root) = ''nmaprun''" by code_simp
  then show "parse_xml_bytes (ne_reader xd_env) [60] = Inr xd_root" by (simp add: parse_xml_bytes_def xd_env_def max_xml_bytes_def)
  show "read_xml_bytes (Some [60]) = Inr [60]" by (simp add: read_xml_bytes_def max_xml_bytes_def)
qed

definition xd_host :: xml where
  "xd_host = the (find (\<lambda>_. True) (children ''host'' xd_root))"

definition xd_ports :: xml where
  "xd_ports = the (find (\<lambda>_. True) (children ''ports'' xd_host))"

definition xd_report :: scan_report where
  "xd_report = \<lparr>xr_open_ports = [443], xr_explicit_states = [(443, ''open'')], xr_collapsed_states = [], xr_represented = 1\<rparr>"

lemma xd_reported: "validate_scan_bytes (ne_reader xd_env) [60] ''8.8.8.8'' [(443, 443)] = Inr xd_report"
proof -
  have "run_completion xd_root = Inr ()" "report_target_host xd_root ''8.8.8.8'' = Inr xd_host" "sole_child ''ports'' xd_host = Inr xd_ports"
    "explicit_states [(443, 443)] [] (children ''port'' xd_ports) = Inr [(443, ''open'')]"
    "mapR collapsed_state (children ''extraports'' xd_ports) = Inr []"
    by code_simp+
  then show ?thesis by (simp add: validate_scan_bytes_def xd_parse coverage_count_def xd_report_def sorted_set_def)
qed

lemma xd_extracted: "extract_open_tcp_ports (ne_reader xd_env) (Some [60]) = Inr [443]"
proof -
  have "mapR open_port_of (concat (map (\<lambda>host. concat (map (children ''port'') (children ''ports'' host))) (children ''host'' xd_root))) = Inr [Some 443]"
    by code_simp
  then show ?thesis by (simp add: extract_open_tcp_ports_def xd_parse sorted_set_def List.map_filter_simps)
qed

lemma xd_coverage: "coverage_from_ports [443] = Inr [(443, 443)]"
  by code_simp

definition xd_discovery :: scan_command where
  "xd_discovery =
     \<lparr>cmd_argv = [''nmap'', ''-n'', ''-Pn'', ''-sT'', ''--reason'', ''--max-retries'', ''1'', ''--min-rate'', ''100'', ''--max-rate'', ''500'',
        ''--max-rtt-timeout'', ''1000ms'', ''--host-timeout'', ''600s'', ''-p'', ''443'', ''-oX'', ''<raw-xml>'', ''<authorized-target>''],
      cmd_timeout_seconds = 700, cmd_exit_code = Some 0\<rparr>"

definition xd_enrichment :: scan_command where
  "xd_enrichment =
     \<lparr>cmd_argv = butlast (cmd_argv xd_discovery) @ [''-sV'', ''--version-intensity'', ''5'', ''<authorized-target>''],
      cmd_timeout_seconds = 700, cmd_exit_code = Some 0\<rparr>"

definition xd_artifact :: "string \<Rightarrow> raw_artifact_reference" where
  "xd_artifact key = \<lparr>ra_bucket = ''raw'', ra_key = key, ra_sha256 = sha256_hexdigest [60]\<rparr>"

definition xd_raw_result :: scan_result where
  "xd_raw_result =
     \<lparr>sr_schema_version = ''1.0'', sr_result_id = [], sr_event_id = zero_id, sr_directive_id = zero_id, sr_target = xd_target,
      sr_profile = TARGETED_TCP, sr_scanner = NMAP, sr_scanner_version = ''git:0123456789abcdef0123456789abcdef01234567'',
      sr_started_at = 0, sr_completed_at = 0, sr_outcome = COMPLETE, sr_requested_ranges = [as_range (443, 443)],
      sr_scanned_ranges = [as_range (443, 443)], sr_open_tcp_ports = [443], sr_exit_code = Some 0,
      sr_raw_result_sha256 = Some (sha256_hexdigest [60]), sr_error_code = None, sr_error_message = None\<rparr>"

definition xd_result :: scan_result where
  "xd_result = xd_raw_result\<lparr>sr_result_id := expected_result_id xd_raw_result\<rparr>"

definition xd_envelope :: result_envelope where
  "xd_envelope =
     \<lparr>re_schema_version = ''1.0'', re_event_id = zero_id, re_directive_id = zero_id, re_trace_id = ''trace-1'', re_run_id = ''run-1'',
      re_attempt_id = ''attempt-1'', re_target = \<lparr>rt_target_id = target_id xd_target, rt_address = ''8.8.8.8'', rt_generation = 3\<rparr>,
      re_profile = TARGETED_TCP, re_image_version = ''git:0123456789abcdef0123456789abcdef01234567'',
      re_coverage = \<lparr>scv_protocol = ''tcp'', scv_ports = [''443''], scv_complete = True\<rparr>,
      re_timestamps = \<lparr>stm_scan_started_at = 0, stm_scan_completed_at = 0, stm_result_uploaded_at = 0\<rparr>,
      re_discovery = xd_discovery, re_enrichment = Some xd_enrichment, re_outcome = ''complete'', re_exit_code = Some 0,
      re_raw_result = Some \<lparr>nr_format = ''nmap-xml'', nr_artifact = xd_artifact (ok_discovery_xml xd_keys),
        nr_enrichment = Some (xd_artifact (ok_enrichment_xml xd_keys))\<rparr>, re_error = None, re_scan_result = xd_result\<rparr>"

lemma xd_result_valid: "validate_scan_result False xd_result = None" "validate_scan_result True (xd_raw_result\<lparr>sr_result_id := zero_id\<rparr>) = None"
proof -
  have "is_bounded_text ''git:0123456789abcdef0123456789abcdef01234567''" "\<not> is_blank ''git:0123456789abcdef0123456789abcdef01234567''"
    by code_simp+
  then have v: "validate_scan_result s (xd_raw_result\<lparr>sr_result_id := i\<rparr>) = None" if "is_sha256_hex i" "s \<or> i = expected_result_id xd_raw_result" for s i
    using xd_target_ok that result_model.expected_set [of i xd_raw_result]
    by (cases s) (simp_all add: validate_scan_result_def xd_raw_result_def xd_texts target_model.validate_skip validate_range_field_gapped as_range_def is_port_def
        sorted_set_def is_exit_code_def validate_result_claims_def scanned_port_def validate_deterministic_id_def)
  show "validate_scan_result False xd_result = None" unfolding xd_result_def by (rule v) (simp_all add: result_model.expected_hex)
  show "validate_scan_result True (xd_raw_result\<lparr>sr_result_id := zero_id\<rparr>) = None" by (rule v) (simp_all add: xd_texts)
qed

lemma xd_created: "create_scan_result xd_raw_result = Inr xd_result"
  using xd_result_valid result_model.expected_set [of zero_id xd_raw_result]
  by (simp add: create_scan_result_def create_def Let_def xd_result_def)

lemma xd_commands_valid:
  "validate_command_field xd_discovery = None" "validate_command_field xd_enrichment = None"
  "redacted_command ''8.8.8.8'' xd_discovery" "redacted_command ''8.8.8.8'' xd_enrichment"
  by code_simp+

lemma xd_artifacts_valid:
  "validate_artifact_reference (xd_artifact (ok_discovery_xml xd_keys)) = None" "validate_artifact_reference (xd_artifact (ok_enrichment_xml xd_keys)) = None"
proof -
  have "len_between 3 255 ''raw''" "list_all (\<lambda>c. \<not> is_space c \<and> 32 \<le> code c) ''raw''"
    "len_between 1 1024 (ok_discovery_xml xd_keys)" "list_all (\<lambda>c. 32 \<le> code c) (ok_discovery_xml xd_keys)"
    "len_between 1 1024 (ok_enrichment_xml xd_keys)" "list_all (\<lambda>c. 32 \<le> code c) (ok_enrichment_xml xd_keys)"
    by code_simp+
  then show "validate_artifact_reference (xd_artifact (ok_discovery_xml xd_keys)) = None" "validate_artifact_reference (xd_artifact (ok_enrichment_xml xd_keys)) = None"
    by (simp_all add: validate_artifact_reference_def xd_artifact_def)
qed

lemma xd_envelope_valid: "validate_result_envelope xd_envelope = None"
proof -
  have c: "validate_coverage_field \<lparr>scv_protocol = ''tcp'', scv_ports = [''443''], scv_complete = True\<rparr> = None" "as_ranges [''443''] = Some [(443, 443)]"
    by code_simp+
  have f: "validate_envelope_fields xd_envelope = None"
    using c(1) xd_result_valid(1) by (simp add: validate_envelope_fields_def xd_envelope_def xd_texts xd_public is_generation_def xd_commands_valid opt_valid_def validate_raw_field_def
        xd_artifacts_valid is_exit_code_def xd_target_def expected_target_id_def)
  have n: "nested_agrees xd_envelope"
    using c(2) by (simp add: nested_agrees_def xd_envelope_def xd_result_def xd_raw_result_def as_range_def xd_target_def xd_raw_target_def xd_artifact_def)
  show ?thesis
    using f n by (simp add: validate_result_envelope_def)
      (simp add: validate_command_metadata_def validate_outcome_def validate_nested_result_def xd_envelope_def xd_commands_valid xd_result_def xd_raw_result_def)
qed

lemma xd_lengths: "length (expected_target_id m) = 64" "length (expected_result_id r) = 64" "length (sha256_hexdigest bs) = 64"
proof -
  have l: "is_sha256_hex s \<Longrightarrow> length s = 64" for s by (simp add: is_sha256_hex_def)
  show "length (expected_target_id m) = 64" by (rule l) (simp add: expected_target_id_def)
  show "length (expected_result_id r) = 64" by (rule l) (rule result_model.expected_hex)
  show "length (sha256_hexdigest bs) = 64" by (rule l) simp
qed

lemma xd_weights:
  "weight (command_json xd_discovery) \<le> 2500" "weight (command_json xd_enrichment) \<le> 2500"
  "weight (raw_result_json \<lparr>nr_format = ''nmap-xml'', nr_artifact = xd_artifact (ok_discovery_xml xd_keys),
     nr_enrichment = Some (xd_artifact (ok_enrichment_xml xd_keys))\<rparr>) \<le> 5000"
  "weight (scan_result_json xd_result) \<le> 8000"
proof -
  show "weight (command_json xd_discovery) \<le> 2500" "weight (command_json xd_enrichment) \<le> 2500" by code_simp+
  have "length (ok_discovery_xml xd_keys) = 119" "length (ok_enrichment_xml xd_keys) = 120" by code_simp+
  then show "weight (raw_result_json \<lparr>nr_format = ''nmap-xml'', nr_artifact = xd_artifact (ok_discovery_xml xd_keys),
      nr_enrichment = Some (xd_artifact (ok_enrichment_xml xd_keys))\<rparr>) \<le> 5000"
    by (simp add: raw_result_json_def artifact_members_def xd_artifact_def jopt_def xd_lengths)
  have "weight (jtime 0) = 122" "weight (JArr (map range_json [as_range (443, 443)])) \<le> 100" "length zero_id = 64" "length (int_str 443) = 3" "length (int_str 3) = 1"
    "length (int_str 0) = 1" by code_simp+
  then show "weight (scan_result_json xd_result) \<le> 8000"
    by (simp add: scan_result_json_def xd_result_def xd_raw_result_def target_json_def xd_target_def xd_raw_target_def jopt_def xd_lengths)
qed

lemma xd_size: "length (utf8 (canonical_json (result_envelope_json xd_envelope))) \<le> 65536"
proof -
  have "weight (jtime 0) = 122" "length zero_id = 64" "length (int_str 3) = 1" "length (int_str 0) = 1" by code_simp+
  then have "weight (result_envelope_json xd_envelope) \<le> 32768"
    using xd_weights xd_lengths
    by (simp add: result_envelope_json_def xd_envelope_def xd_target_def jopt_def)
  then show ?thesis using length_dumps [of "result_envelope_json xd_envelope"] length_utf8 [of "dumps (result_envelope_json xd_envelope)"]
    by (simp add: canonical_json_def)
qed

lemma xd_validated:
  "validated_envelope (build_result_envelope xd_request xd_prepared True True [443] 0 0 0 xd_discovery (Some xd_enrichment) ''complete'' (Some 0)
     (Some (xd_artifact (ok_discovery_xml xd_keys))) (Some (xd_artifact (ok_enrichment_xml xd_keys))) None) = Inr xd_envelope"
proof -
  have ports: "coverage_strings [(443, 443)] = [''443'']" by code_simp
  have outcome: "find (\<lambda>x. outcome_value x = ''complete'') [COMPLETE, PARTIAL, FAILED, CANCELLED, FRESHNESS_REJECTED] = Some COMPLETE" by code_simp
  have range: "validate_tcp_port_range (as_range (443, 443)) = None" by code_simp
  have "shared_scan_result xd_request xd_prepared True [443] 0 0 ''complete'' (Some 0) (Some (sha256_hexdigest [60])) None = Inr xd_result"
    using xd_created outcome range
    by (simp add: shared_scan_result_def Let_def xd_request_def xd_prepared_def sorted_set_def xd_raw_result_def)
  then have "build_result_envelope xd_request xd_prepared True True [443] 0 0 0 xd_discovery (Some xd_enrichment) ''complete'' (Some 0)
     (Some (xd_artifact (ok_discovery_xml xd_keys))) (Some (xd_artifact (ok_enrichment_xml xd_keys))) None = Inr xd_envelope"
    by (simp add: build_result_envelope_def xd_artifact_def)
      (simp add: xd_envelope_def xd_request_def xd_prepared_def ports xd_artifact_def)
  then show ?thesis using xd_size xd_envelope_valid by (simp add: validated_envelope_def validate_result_payload_def)
qed

definition xd_start :: scanner_world where
  "xd_start = \<lparr>sw_discovery = None, sw_enrichment = None,
     sw_progress = \<lparr>pg_discovery_exit = None, pg_enrichment_argv = None, pg_enrichment_budget = None, pg_enrichment_exit = None\<rparr>, sw_log = []\<rparr>"

definition xd_discovery_argv :: "string list" where
  "xd_discovery_argv = [''nmap'', ''-n'', ''-Pn'', ''-sT'', ''--reason'', ''--max-retries'', ''1'', ''--min-rate'', ''100'', ''--max-rate'', ''500'',
        ''--max-rtt-timeout'', ''1000ms'', ''--host-timeout'', ''600s'', ''-p'', ''443'', ''-oX'', ''/w/nmap-discovery.xml'', ''8.8.8.8'']"

definition xd_enrichment_argv :: "string list" where
  "xd_enrichment_argv = [''nmap'', ''-n'', ''-Pn'', ''-sT'', ''--reason'', ''--max-retries'', ''1'', ''--min-rate'', ''100'', ''--max-rate'', ''500'',
        ''--max-rtt-timeout'', ''1000ms'', ''--host-timeout'', ''600s'', ''-p'', ''443'', ''-oX'', ''/w/nmap-enrichment.xml'',
        ''-sV'', ''--version-intensity'', ''5'', ''8.8.8.8'']"

lemma xd_commands:
  "build_discovery_command ''8.8.8.8'' [(443, 443)] ''/w/nmap-discovery.xml'' xd_tuning (Some 600) = xd_discovery_argv"
  "build_enrichment_command ''8.8.8.8'' [443] ''/w/nmap-enrichment.xml'' xd_tuning [] (Some 600) = Inr xd_enrichment_argv"
  "command_of xd_discovery_argv ''8.8.8.8'' ''/w/nmap-discovery.xml'' 700 (Some 0) = xd_discovery"
  "command_of xd_enrichment_argv ''8.8.8.8'' ''/w/nmap-enrichment.xml'' 700 (Some 0) = xd_enrichment"
  by code_simp+

lemma xd_budget: "phase_budget_of 9000000000 0 60 700 600 = Some \<lparr>pb_process_timeout = 700, pb_host_timeout = 600\<rparr>"
  by code_simp

definition xd_log :: "scan_step list" where
  "xd_log =
     [Read_clock 0, Polled_termination False, Ran xd_discovery_argv 700 (Exited 0), Polled_termination False,
      Read_clock 0, Polled_termination False, Ran xd_enrichment_argv 700 (Exited 0), Polled_termination False, Read_clock 0,
      Put_object (put_of ''raw'' (ok_discovery_xml xd_keys) [60] ''application/xml'') Put_stored,
      Put_object (put_of ''raw'' (ok_enrichment_xml xd_keys) [60] ''application/xml'') Put_stored, Read_clock 0,
      Put_object (put_of ''raw'' (ok_envelope_json xd_keys) (envelope_bytes xd_envelope) ''application/json'') Put_stored]"

lemma xd_run: "run_phase xd_env argv timeout phase complete ports w
    = (Inr 0, (case phase of Discovery \<Rightarrow> w\<lparr>sw_discovery := Some [60]\<rparr> | Enrichment \<Rightarrow> w\<lparr>sw_enrichment := Some [60]\<rparr>)
        \<lparr>sw_log := sw_log w @ [Ran argv timeout (Exited 0)]\<rparr>)"
  by (simp add: run_phase_def run_nmap_def bindM_def returnM_def xd_env_def Let_def)

lemma xd_stop: "stop_if_terminated xd_env complete ports w = (Inr (), w\<lparr>sw_log := sw_log w @ [Polled_termination False]\<rparr>)"
  by (simp add: stop_if_terminated_def termination_requested_def bindM_def returnM_def xd_env_def Let_def)

lemma xd_clock: "read_clock xd_env w = (Inr 0, w\<lparr>sw_log := sw_log w @ [Read_clock 0]\<rparr>)"
  by (simp add: read_clock_def xd_env_def Let_def)

lemma xd_put:
  assumes "body \<noteq> []" "length body \<le> 67108864" "key \<in> {ok_discovery_xml xd_keys, ok_enrichment_xml xd_keys, ok_envelope_json xd_keys}"
  shows "writer_put xd_env ''raw'' key body ct w
    = (Inr (sha256_hexdigest body), w\<lparr>sw_log := sw_log w @ [Put_object (put_of ''raw'' key body ct) Put_stored]\<rparr>)"
proof -
  have "ok_discovery_xml xd_keys \<noteq> [] \<and> length (utf8 (ok_discovery_xml xd_keys)) \<le> 1024"
    "ok_enrichment_xml xd_keys \<noteq> [] \<and> length (utf8 (ok_enrichment_xml xd_keys)) \<le> 1024"
    "ok_envelope_json xd_keys \<noteq> [] \<and> length (utf8 (ok_envelope_json xd_keys)) \<le> 1024" by code_simp+
  then have "key \<noteq> []" "\<not> 1024 < length (utf8 key)" using assms(3) by auto
  then show ?thesis using assms(1,2)
    by (simp add: writer_put_def bindM_def liftM_def refusing_def xd_texts put_of_def xd_env_def Let_def)
qed

lemma xd_phases:
  "scan_phases xd_env xd_prepared xd_tuning ''/w/nmap-enrichment.xml'' xd_discovery_argv (Some \<lparr>pb_process_timeout = 700, pb_host_timeout = 600\<rparr>) w
     = (Inr xd_report, w\<lparr>sw_discovery := Some [60], sw_enrichment := Some [60],
         sw_progress := (sw_progress w)\<lparr>pg_discovery_exit := Some 0, pg_enrichment_budget := Some \<lparr>pb_process_timeout = 700, pb_host_timeout = 600\<rparr>,
           pg_enrichment_argv := Some xd_enrichment_argv, pg_enrichment_exit := Some 0\<rparr>,
         sw_log := sw_log w @ [Polled_termination False, Ran xd_discovery_argv 700 (Exited 0), Polled_termination False,
           Read_clock 0, Polled_termination False, Ran xd_enrichment_argv 700 (Exited 0), Polled_termination False]\<rparr>)"
proof -
  have v: "validate_complete_scan (ne_reader xd_env) (Some [60]) ''8.8.8.8'' [(443, 443)] = Inr xd_report"
    by (simp add: validate_complete_scan_def xd_parse xd_reported)
  have b: "phase_budget_of 9000000000 0 (nt_upload_reserve xd_tuning) (nt_enrichment_process_timeout xd_tuning) (nt_enrichment_host_timeout xd_tuning)
      = Some \<lparr>pb_process_timeout = 700, pb_host_timeout = 600\<rparr>" using xd_budget by (simp add: xd_tuning_def)
  have e: "enrich_phase xd_env xd_prepared xd_tuning ''/w/nmap-enrichment.xml'' xd_report u
      = (Inr (), u\<lparr>sw_enrichment := Some [60],
           sw_progress := (sw_progress u)\<lparr>pg_enrichment_budget := Some \<lparr>pb_process_timeout = 700, pb_host_timeout = 600\<rparr>,
             pg_enrichment_argv := Some xd_enrichment_argv, pg_enrichment_exit := Some 0\<rparr>,
           sw_log := sw_log u @ [Read_clock 0, Polled_termination False, Ran xd_enrichment_argv 700 (Exited 0)]\<rparr>)" for u
    by (simp add: enrich_phase_def bindM_def liftM_def refusing_def note_progress_def writeM_def guardM_def returnM_def readM_def Let_def
        xd_report_def xd_coverage xd_clock xd_prepared_def b xd_commands xd_stop xd_run xd_extracted v [unfolded xd_report_def])
  show ?thesis
    by (simp add: scan_phases_def bindM_def guardM_def returnM_def readM_def note_progress_def writeM_def xd_stop xd_run xd_prepared_def v e [unfolded xd_prepared_def])
      (simp add: xd_report_def bindM_def e [unfolded xd_prepared_def xd_report_def] xd_stop returnM_def)
qed

lemma xd_bytes: "envelope_bytes xd_envelope \<noteq> []" "length (envelope_bytes xd_envelope) \<le> 67108864"
proof -
  have "dumps (JObj kvs) \<noteq> []" for kvs by simp
  then have "dumps (result_envelope_json xd_envelope) \<noteq> []" unfolding result_envelope_json_def .
  then show "envelope_bytes xd_envelope \<noteq> []" by (cases "dumps (result_envelope_json xd_envelope)") (simp_all add: envelope_bytes_def utf8_def utf8_char_def)
  show "length (envelope_bytes xd_envelope) \<le> 67108864" using xd_size by (simp add: envelope_bytes_def canonical_json_def)
qed

lemma xd_raw_put:
  assumes "file w = Some [60]" "key \<in> {ok_discovery_xml xd_keys, ok_enrichment_xml xd_keys}"
  shows "put_raw_if_present xd_env xd_request file key w
    = (Inr (Some (xd_artifact key)), w\<lparr>sw_log := sw_log w @ [Put_object (put_of ''raw'' key [60] ''application/xml'') Put_stored]\<rparr>)"
proof -
  have put: "writer_put xd_env ''raw'' key [60] ''application/xml'' w
      = (Inr (sha256_hexdigest [60]), w\<lparr>sw_log := sw_log w @ [Put_object (put_of ''raw'' key [60] ''application/xml'') Put_stored]\<rparr>)"
    by (rule xd_put) (use assms(2) in auto)
  have "sq_bucket xd_request = ''raw''" by (simp add: xd_request_def)
  then show ?thesis using assms(1) put
    by (simp add: put_raw_if_present_def bindM_def readM_def returnM_def existing_nonempty_def xd_artifact_def)
qed

lemma xd_published:
  assumes "sw_discovery w = Some [60]" "sw_enrichment w = Some [60]"
    and "sw_progress w = \<lparr>pg_discovery_exit = Some 0, pg_enrichment_argv = Some xd_enrichment_argv,
      pg_enrichment_budget = Some \<lparr>pb_process_timeout = 700, pb_host_timeout = 600\<rparr>, pg_enrichment_exit = Some 0\<rparr>"
  shows "publish_complete_scan xd_env xd_request xd_prepared ''/w/nmap-discovery.xml'' ''/w/nmap-enrichment.xml'' xd_discovery_argv
      \<lparr>pb_process_timeout = 700, pb_host_timeout = 600\<rparr> 0 0 xd_report w
    = (Inr xd_envelope, w\<lparr>sw_log := sw_log w @
        [Put_object (put_of ''raw'' (ok_discovery_xml xd_keys) [60] ''application/xml'') Put_stored,
         Put_object (put_of ''raw'' (ok_enrichment_xml xd_keys) [60] ''application/xml'') Put_stored, Read_clock 0,
         Put_object (put_of ''raw'' (ok_envelope_json xd_keys) (envelope_bytes xd_envelope) ''application/json'') Put_stored]\<rparr>)"
proof -
  have keys: "pp_keys xd_prepared = xd_keys" "pp_target xd_prepared = ''8.8.8.8''" "xr_open_ports xd_report = [443]" by (simp_all add: xd_prepared_def xd_report_def)
  have put: "put_envelope xd_env xd_request xd_prepared xd_envelope u
      = (Inr (), u\<lparr>sw_log := sw_log u @ [Put_object (put_of ''raw'' (ok_envelope_json xd_keys) (envelope_bytes xd_envelope) ''application/json'') Put_stored]\<rparr>)" for u
  proof -
    have "writer_put xd_env ''raw'' (ok_envelope_json xd_keys) (envelope_bytes xd_envelope) ''application/json'' u
      = (Inr (sha256_hexdigest (envelope_bytes xd_envelope)),
         u\<lparr>sw_log := sw_log u @ [Put_object (put_of ''raw'' (ok_envelope_json xd_keys) (envelope_bytes xd_envelope) ''application/json'') Put_stored]\<rparr>)"
      by (rule xd_put [OF xd_bytes]) simp
    moreover have "sq_bucket xd_request = ''raw''" by (simp add: xd_request_def)
    ultimately show ?thesis by (simp add: put_envelope_def bindM_def returnM_def keys)
  qed
  show ?thesis
    by (simp add: publish_complete_scan_def bindM_def catchM_def readM_def guardM_def liftM_def returnM_def keys xd_raw_put xd_clock assms
        discovery_command_def enrichment_command_def xd_commands xd_validated refusing_def put)
qed

lemma xd_executed:
  "execute_scan xd_env xd_request xd_tuning ''/w'' xd_start = (Inr xd_envelope,
     \<lparr>sw_discovery = Some [60], sw_enrichment = Some [60],
      sw_progress = \<lparr>pg_discovery_exit = Some 0, pg_enrichment_argv = Some xd_enrichment_argv,
        pg_enrichment_budget = Some \<lparr>pb_process_timeout = 700, pb_host_timeout = 600\<rparr>, pg_enrichment_exit = Some 0\<rparr>, sw_log = xd_log\<rparr>)"
proof -
  have b: "phase_budget_of (pp_not_after xd_prepared) 0 (nt_upload_reserve xd_tuning) (nt_discovery_process_timeout xd_tuning) (nt_discovery_host_timeout xd_tuning)
      = Some \<lparr>pb_process_timeout = 700, pb_host_timeout = 600\<rparr>" using xd_budget by (simp add: xd_tuning_def xd_prepared_def)
  have a: "build_discovery_command (pp_target xd_prepared) (pp_coverage xd_prepared) ''/w/nmap-discovery.xml'' xd_tuning (Some 600) = xd_discovery_argv"
    using xd_commands(1) by (simp add: xd_prepared_def)
  have w: "ne_workdir_exists xd_env" by (simp add: xd_env_def)
  show ?thesis
    by (simp add: execute_scan_def bindM_def liftM_def refusing_def xd_plan guardM_def w returnM_def readM_def xd_start_def xd_clock note_progress_def
        writeM_def Let_def b a catchM_def xd_phases xd_published xd_log_def)
qed



lemma xd_times: "representable 0"
  by code_simp



section \<open>Guarantees\<close>

lemma executed:
  assumes "execute_scan E q t workdir w = (r, w')" "sw_log w = []"
  shows "every_step (justified E q t) (sw_log w')"
proof (cases r)
  case (Inl x)
  then show ?thesis using outcomesD(2) [OF execute_outcomes assms(2)] assms(1) by (fastforce simp: raised_def)
next
  case (Inr e)
  then show ?thesis using outcomesD(1) [OF execute_outcomes assms(2)] assms(1) by (fastforce simp: returned_def)
qed

text \<open>
  C6. Every run of Nmap is authorized. Whenever an execution runs a command, the request passed every check of the plan;
  the command names one target, the requested address, which is global, in no denied, metadata or special network and in an allowed one;
  the ports that it lists are well-formed and lie within the planned coverage; it neither resolves names nor discovers hosts and connects only
  over TCP, at most at the configured rate; its scripts are planned and known as safe, without script arguments or target lists; its host
  timeout is below the timeout of the process; termination was polled directly before and not requested; and by the last reading of the
  clock the timeout and the upload reserve end before \<^verbatim>\<open>not_after\<close>.
\<close>

theorem scanner_commands_are_authorized:
  assumes "execute_scan E q t workdir w = (r, w')" "sw_log w = []" "sw_log w' = pre @ Ran argv timeout outcome # rest"
  shows "authorized_address q \<and> run_authorized q t pre argv timeout"
proof -
  have "justified E q t pre (Ran argv timeout outcome)" using executed [OF assms(1,2)] assms(3) unfolding every_step_def by blast
  then have "run_authorized q t pre argv timeout" by (simp add: justified_def)
  then show ?thesis using prepared_facts(2) by (auto simp: run_authorized_def)
qed

theorem scanner_commands_are_authorized_witness:
  "authorized_address xd_request \<and> run_authorized xd_request xd_tuning (take 6 xd_log) xd_enrichment_argv 700"
  by (rule scanner_commands_are_authorized [OF xd_executed, where outcome = "Exited 0" and rest = "drop 7 xd_log"])
    (simp_all add: xd_start_def xd_log_def)



text \<open>
  C40. The outcome of an execution agrees with what it published. An execution that returns ends with the stored envelope of a complete,
  proven scan; an execution error that carries an envelope ends with that envelope stored, sound and not complete; and a failure of
  a phase never leaves an execution as such.
\<close>

theorem scan_outcome_matches_publication:
  assumes "execute_scan E q t workdir w = (r, w')" "sw_log w = []"
  shows "case r of
      Inr e \<Rightarrow> \<exists>p. prepare_scan q = Inr p \<and> re_outcome e = ''complete'' \<and> envelope_sound E q p (sw_log w') e \<and> published q p e (sw_log w')
    | Inl (Scan_execution_error m ty (Some e)) \<Rightarrow>
        \<exists>p. prepare_scan q = Inr p \<and> re_outcome e \<noteq> ''complete'' \<and> envelope_sound E q p (sw_log w') e \<and> published q p e (sw_log w')
    | Inl (Phase_failed f) \<Rightarrow> False
    | _ \<Rightarrow> True"
proof (cases r)
  case (Inl x)
  then have "raised E q t x w'" using outcomesD(2) [OF execute_outcomes assms(2)] assms(1) by blast
  then show ?thesis using Inl by (auto simp: raised_def envelope_sound_def split: worker_error.splits option.splits)
next
  case (Inr e)
  then have "returned E q t e w'" using outcomesD(1) [OF execute_outcomes assms(2)] assms(1) by blast
  then show ?thesis using Inr by (auto simp: returned_def envelope_sound_def)
qed

theorem scan_outcome_matches_publication_witness:
  "\<exists>p. prepare_scan xd_request = Inr p \<and> re_outcome xd_envelope = ''complete''
     \<and> envelope_sound xd_env xd_request p xd_log xd_envelope \<and> published xd_request p xd_envelope xd_log"
  using scan_outcome_matches_publication [OF xd_executed] by (simp add: xd_start_def)

text \<open>
  The parser reads the document of every valid envelope, with the values that the envelope has: its identifiers, target, outcome,
  times, error and raw references, the declared open ports, and one declaration per range of the declared coverage.
\<close>

theorem published_envelopes_are_read:
  assumes "validate_result_envelope e = None" "representable (stm_scan_started_at (re_timestamps e))"
    and "representable (stm_scan_completed_at (re_timestamps e))" "representable (stm_result_uploaded_at (re_timestamps e))"
  shows "\<exists>ranges. as_ranges (scv_ports (re_coverage e)) = Some ranges \<and> envelope_from_mapping (result_envelope_json e) = Inr (envelope_read e ranges)"
proof -
  have f: "validate_envelope_fields e = None" using assms(1) by (simp add: validate_result_envelope_def)
  then have "validate_coverage_field (re_coverage e) = None" by (simp add: validate_envelope_fields_def)
  from valid_coverage_ranges [OF this] envelope_document_read [OF f _ assms(2-4)] show ?thesis by blast
qed

theorem published_envelopes_are_read_witness:
  "\<exists>ranges. as_ranges [''443''] = Some ranges \<and> envelope_from_mapping (result_envelope_json xd_envelope) = Inr (envelope_read xd_envelope ranges)"
  using published_envelopes_are_read [OF xd_envelope_valid] xd_times by (simp add: xd_envelope_def)



end
