(* ===== verification/Spec2Isabelle.thy ===== *)
theory Spec2Isabelle
  imports Parser_Guarantees Contract_Event Generator_Guarantees Inventory_Guarantees Delivery_Guarantees
    Ownership_Guarantees Handler_Guarantees Intake_Guarantees Publication_Guarantees Scanner_Guarantees
begin

text \<open>
  Verification of a cloud port scanner: what may be scanned, what a scan proves, and which findings follow from it.

  \<^bold>\<open>The program.\<close> Five Python services work on messages and tables.

  \<^item> The \<^emph>\<open>inventory\<close> (\<^verbatim>\<open>inventory/src/portscanner_inventory\<close>) watches AWS accounts. EventBridge signals, EC2 and
    AWS Config snapshots become normalized targets, one for each public address of a network interface. They
    are reconciled with a DynamoDB state table that numbers the generations of a target; every generation is announced
    through a transactional outbox as a target event in S3 and two SQS messages. The inventory also answers
    ownership checks.
  \<^item> The \<^emph>\<open>generator\<close> (\<^verbatim>\<open>generator/src/portscanner_generator\<close>) reads a target event, claims it in DynamoDB, checks scope,
    deadline and ownership, cancels superseded scanners and creates a Scanner resource in Kubernetes.
  \<^item> The \<^emph>\<open>scanner\<close> (\<^verbatim>\<open>scanner/nmap/src/portscanner_scanner\<close>) authorizes one target, runs Nmap in two phases within a time budget, proves from the reports that
    every planned port was answered, and uploads the reports and a result envelope.
  \<^item> The \<^emph>\<open>parser\<close> (\<^verbatim>\<open>parser/src/act_parser\<close>) has two entry points: one applies target events to a PostgreSQL
    database, the other reads the envelopes and reports and ingests the evidence. The repository keeps exposures and findings,
    and queues documents about findings that are then published to S3.
  \<^item> The \<^emph>\<open>processor\<close> (\<^verbatim>\<open>processor/src/act_processor\<close>) reconciles all findings on a schedule and publishes what is pending.

  The shared \<^emph>\<open>contracts\<close> (\<^verbatim>\<open>contracts/src/portscanner_contracts/models.py\<close>) fix the messages between them and their
  deterministic identifiers.

  \<^bold>\<open>Modelling conventions.\<close> A Python class is a record with prefixed fields, an enumeration a datatype. A function that may raise
  returns \<open>Inl\<close> of the exception or \<open>Inr\<close> of the value; a function with effects is, by the theory \<^verbatim>\<open>Effects\<close>, a map from the state before to
  outcome and state after, so that effects before an exception stay. External services are chosen by an \<^emph>\<open>environment\<close>, a
  record of functions of the number of the interaction: it decides each answer and failure, when the worker is killed (also after a request took effect),
  and what other workers do to the shared table between two requests. A log or trace in the state keeps the requests with their answers, and the
  safety properties speak about it. Dictionaries whose order matters are association lists. Definitions are executable; the witnesses
  evaluate them in the kernel, with digests kept symbolic.

  \<^bold>\<open>Foundations.\<close> \<^verbatim>\<open>Prelude\<close> (tables, sorted sets, named theorem collections), \<^verbatim>\<open>Effects\<close> (the effect type, the locale \<open>effect_preorder\<close> by
  which a relation between states is carried through a program), \<^verbatim>\<open>Pytext\<close> and \<^verbatim>\<open>Pyvalue\<close> (Python's operations on text and on JSON values),
  \<^verbatim>\<open>Json\<close>, \<^verbatim>\<open>Json_Parser\<close> and \<^verbatim>\<open>Json_Roundtrip\<close> (\<^verbatim>\<open>json.dumps\<close> and \<^verbatim>\<open>json.loads\<close>, that they are inverse, and a bound on the text),
  \<^verbatim>\<open>Unicode_Text\<close>, \<^verbatim>\<open>Timestamps\<close>, \<^verbatim>\<open>Ipaddress\<close>, \<^verbatim>\<open>Sha256\<close> (SHA-256 and MD5; the parts of the standard library that the program calls), and the merging of port ranges in \<^verbatim>\<open>Port_Ranges\<close>.

  \<^bold>\<open>Contracts.\<close> \<^verbatim>\<open>Contract_Base\<close>, \<^verbatim>\<open>Port_Ranges\<close>, \<^verbatim>\<open>Contract_Target\<close>, \<^verbatim>\<open>Contract_Event\<close>, \<^verbatim>\<open>Contract_Result\<close> and \<^verbatim>\<open>Contract_Finding\<close> have the models of
  \<^verbatim>\<open>models.py\<close> with their field types, validators, identity payloads and serialisations. The locale \<open>deterministic_model\<close> states
  what \<^verbatim>\<open>DeterministicModel.create\<close> promises and is interpreted for each of them. Shown: validated port
  ranges are a normal form of their set of ports, and coverage terms parse back.

  \<^bold>\<open>Inventory.\<close> \<^verbatim>\<open>Inventory_Target\<close>, \<^verbatim>\<open>Inventory_Normalize\<close> and \<^verbatim>\<open>Inventory_Policy\<close> (\<^verbatim>\<open>aws/normalize.py\<close>); \<^verbatim>\<open>Inventory_Events\<close> and \<^verbatim>\<open>Inventory_Building\<close> (\<^verbatim>\<open>events.py\<close>);
  \<^verbatim>\<open>Inventory_Store\<close> (\<^verbatim>\<open>state.py\<close>) with its protocol in \<^verbatim>\<open>Inventory_Protocol\<close>, \<^verbatim>\<open>Inventory_Worker\<close> and \<^verbatim>\<open>Inventory_History\<close>;
  \<^verbatim>\<open>Inventory_Outbox\<close> and \<^verbatim>\<open>Inventory_Delivery\<close> (\<^verbatim>\<open>handlers/outbox.py\<close>, \<^verbatim>\<open>base.py\<close>); \<^verbatim>\<open>Inventory_Config\<close> (\<^verbatim>\<open>config.py\<close>);
  \<^verbatim>\<open>Inventory_Aws\<close> and \<^verbatim>\<open>Inventory_Ownership\<close> (\<^verbatim>\<open>aws/ownership.py\<close>); \<^verbatim>\<open>Inventory_Signals\<close>, \<^verbatim>\<open>Inventory_Resolve\<close> and \<^verbatim>\<open>Inventory_Signal_Handler\<close>
  (\<^verbatim>\<open>aws/signals.py\<close>, \<^verbatim>\<open>aws/resolve.py\<close>, \<^verbatim>\<open>handlers/signals.py\<close>); \<^verbatim>\<open>Inventory_Snapshot\<close>, \<^verbatim>\<open>Inventory_Snapshot_Handler\<close> and \<^verbatim>\<open>Inventory_Removal\<close>
  (\<^verbatim>\<open>aws/config_snapshot.py\<close>, \<^verbatim>\<open>aws/ec2_snapshot.py\<close>, \<^verbatim>\<open>handlers/snapshot.py\<close>, \<^verbatim>\<open>handlers/rescan.py\<close>).
  Shown in \<^verbatim>\<open>Inventory_Guarantees\<close>, \<^verbatim>\<open>Delivery_Guarantees\<close>, \<^verbatim>\<open>Ownership_Guarantees\<close> and \<^verbatim>\<open>Handler_Guarantees\<close>: the stream announces each generation once and in order whatever
  crashes and races happen, no stale worker moves a target back, a delivered item reached both queues, a target is removed
  only after a live check, and the ports of a signal are those of its permissions.

  \<^bold>\<open>Generator.\<close> \<^verbatim>\<open>Generator_World\<close>, \<^verbatim>\<open>Generator_Config\<close>, \<^verbatim>\<open>Generator_Claims\<close> (\<^verbatim>\<open>idempotency.py\<close>), \<^verbatim>\<open>Generator_Ownership\<close> (\<^verbatim>\<open>revalidation.py\<close>), \<^verbatim>\<open>Generator_Resource\<close>,
  \<^verbatim>\<open>Generator_Cluster\<close> (\<^verbatim>\<open>kubernetes.py\<close>, \<^verbatim>\<open>cancellation.py\<close>), \<^verbatim>\<open>Generator_Handler\<close> and \<^verbatim>\<open>Generator_Reader\<close> (\<^verbatim>\<open>handler.py\<close>, \<^verbatim>\<open>event_reader.py\<close>). \<^verbatim>\<open>Generator_Lease\<close> and \<^verbatim>\<open>Generator_Gate\<close> prove, for \<^verbatim>\<open>Generator_Guarantees\<close>, that the claim table refines an abstract lease, that every created scanner passed the dispatch gate,
  what may be deleted, and that the resource is the document of its event.

  \<^bold>\<open>Scanner.\<close> \<^verbatim>\<open>Scanner_Plan\<close> (\<^verbatim>\<open>coverage.py\<close>, \<^verbatim>\<open>targets.py\<close>, the settings and command lines of \<^verbatim>\<open>nmap.py\<close>, the keys of \<^verbatim>\<open>storage.py\<close>, \<^verbatim>\<open>prepare_scan\<close> and
  the budgets of \<^verbatim>\<open>worker.py\<close>) and \<^verbatim>\<open>Scanner_Worker\<close> (\<^verbatim>\<open>xml.py\<close>, \<^verbatim>\<open>result.py\<close>, the conditional writer of \<^verbatim>\<open>storage.py\<close> and \<^verbatim>\<open>execute_scan\<close>): the environment chooses the clock, the
  termination signal, how each run of Nmap ends and which file it leaves, and the answers of S3; the log keeps all of them. \<^verbatim>\<open>Scanner_Acceptance\<close> relates the
  scanner's proof of a report to the parser's, and the document of an envelope to what the parser reads. \<^verbatim>\<open>Scanner_Guarantees\<close> has rules for
  the outcomes of a program (a return satisfies one condition, an exception another) and shows: each command that runs is authorized, bounded and safe; evidence is stored before the
  envelope that refers to it; the outcome agrees with what was published; and the parser accepts a scan that ended as complete.

  \<^bold>\<open>Parser and processor.\<close> \<^verbatim>\<open>Parser_Database\<close>, \<^verbatim>\<open>Parser_Exposure\<close>, \<^verbatim>\<open>Parser_Finding\<close> and \<^verbatim>\<open>Parser_Repository\<close> are \<^verbatim>\<open>database.py\<close> with the constraints of
  \<^verbatim>\<open>db/migrations/000001_core.up.sql\<close>; each SQL statement is a function of the tables and each operation one transaction.
  \<^verbatim>\<open>Parser_Lifecycle\<close>, \<^verbatim>\<open>Parser_Closure\<close>, \<^verbatim>\<open>Parser_Properties\<close>, \<^verbatim>\<open>Parser_Correctness\<close> and \<^verbatim>\<open>Parser_Replay\<close> carry the
  proofs of \<^verbatim>\<open>Parser_Guarantees\<close>: what is open is bound to a live target, a scan acts only within its mandate, reconciliation settles the findings, redelivery changes nothing.
  \<^verbatim>\<open>Parser_Report\<close> (\<^verbatim>\<open>xml_parser.py\<close>), \<^verbatim>\<open>Parser_Handoff\<close> (\<^verbatim>\<open>handoff.py\<close>), \<^verbatim>\<open>Parser_Ingest\<close> (\<^verbatim>\<open>models.py\<close>, the reading part of \<^verbatim>\<open>handler.py\<close>),
  \<^verbatim>\<open>Parser_Scan_Handler\<close> (\<^verbatim>\<open>handler.py\<close>), \<^verbatim>\<open>Parser_Intake\<close> (\<^verbatim>\<open>target_handler.py\<close>), \<^verbatim>\<open>Parser_Config\<close> (\<^verbatim>\<open>config.py\<close>) and \<^verbatim>\<open>Processor\<close>
  are the entry points. Shown in \<^verbatim>\<open>Report_Guarantees\<close>, \<^verbatim>\<open>Scan_Guarantees\<close>, \<^verbatim>\<open>Publication_Guarantees\<close> and \<^verbatim>\<open>Intake_Guarantees\<close>: a report accepted as complete accounts for every declared port, evidence counts as complete
  only on such a report with the right digest, a finding is marked as published only once it is stored, and
  what the inventory announces the parser accepts.

  Four properties compose services: the message of the outbox is read by the generator as the announced payload, a dispatch
  rests on a live ownership check of the inventory, the intake of the parser accepts the events of the inventory, and the parser accepts the complete
  scans of the scanner.

  \<^bold>\<open>Bounds.\<close> The JSON parser counts down from twice the length of the text plus one, and it is proved that this is enough. The paginated loops over AWS and Kubernetes,
  whose length the server decides, are bounded by the program's own limits or by a field of the environment (\<open>env_pages\<close>,
  \<open>ie_pages\<close>, \<open>pn_rounds\<close>) after which the worker is killed: a Lambda does not live for ever. The theorems hold for every
  value of it. That the listing of scanners ends by itself when the server has finitely many tokens is a property of the generator.
  The two phases of a scan need no bound; a run of Nmap is one step, which the time budget limits.

  \<^bold>\<open>Limits of the model.\<close> Text ends at code point 255; a document beyond has its own error outcome. Floating-point numbers are kept
  as their literals. Timestamps are read in the extended ISO format with an offset. Documents are read as UTF-8. The order of tied associations of an interface is the order of the list.
  Each operation of the repository is one atomic step, and steps follow one another: the code runs its transactions at PostgreSQL's default isolation, and \<^verbatim>\<open>reconcile_all\<close>
  reads targets and exposures without locking them, so that interleavings of two transactions are outside the model. The stream of the state table is one sequence
  of insertions, where DynamoDB Streams order the records of one item only; the theorems about it speak of one target at a time. The \<^verbatim>\<open>ClientRequestToken\<close> of a transaction
  is not kept. The order that targets and exposures never leave is lexicographic, with the generation first.

  \<^bold>\<open>Parameters.\<close> Code that is not part of the repository is an argument: pydantic's construction of a contract object from a document (the
  adapter), the XML reader, the row factory and connection string of the database driver, the runs of Nmap, and all answers of AWS and Kubernetes. The parser's handler takes the
  validation of an envelope by the shared contract as an argument as well, and its theorems hold for every validation; \<^verbatim>\<open>Contract_Result\<close> has the validation itself, as
  the scanner applies it.

  \<^bold>\<open>Not modelled.\<close> The command line of the scanner and the control of the Nmap process (\<^verbatim>\<open>cli.py\<close>, \<^verbatim>\<open>SubprocessRunner\<close>), the migrator (it runs SQL files), assumed-role sessions and EKS tokens (calls into boto3), the
  parsing of raw values into contract fields by pydantic, reading the database secret, the construction of clients, logging, the sanitizing
  tool of the repository and the example consumers.
\<close>

end
